(* ===== verification/PyFloat.thy ===== *)
theory PyFloat
  imports Complex_Main
begin

section \<open>Python's float\<close>

text \<open>
  The engine computes prices, risks and scores with Python's \<open>float\<close>, which is IEEE-754
  binary64. A finite float is the rational number it denotes; every arithmetic operation
  is computed exactly on rationals and then rounded once, to nearest with ties to even,
  with gradual underflow and overflow to an infinity (\<open>rnd\<close>). The model is executable.
  Two abstractions: the two zeros are one value (the code never looks at the sign of a
  zero), and all NaNs are one value, as they are for every operation the code uses.

  The lemmas show that \<open>rnd\<close> is monotone, odd, exact on the 53-bit dyadic numbers and
  within half a unit in the last place; the component theories need only these facts and
  the order lemmas on \<open>flt\<close> and \<open>fle\<close>.
\<close>

subsection \<open>Values and rounding\<close>

text \<open>The facts about float order and about evaluating closed float terms.\<close>

named_theorems forder and feval

datatype pyfloat = Fin rat | PInf | NInf | NaN

fun blen :: "nat \<Rightarrow> nat" where
  "blen n = (if n = 0 then 0 else Suc (blen (n div 2)))"

declare blen.simps [simp del]

text \<open>\<open>p2 e\<close> is the power of two with a signed exponent, \<open>lg2\<close> the floor of the binary
  logarithm of a positive rational, \<open>rhe\<close> rounds half to even.\<close>

definition p2 :: "int \<Rightarrow> rat" where
  "p2 e = (if 0 \<le> e then 2 ^ nat e else 1 / 2 ^ nat (- e))"

definition lg2 :: "rat \<Rightarrow> int" where
  "lg2 q = (let (n, d) = quotient_of q;
                k = int (blen (nat n)) - int (blen (nat d))
            in if p2 k \<le> q then k else k - 1)"

definition rhe :: "rat \<Rightarrow> int" where
  "rhe q = (let f = \<lfloor>q\<rfloor>; r = q - of_int f
            in if r < 1/2 then f else if 1/2 < r then f + 1
               else if even f then f else f + 1)"

text \<open>The exponent of the last place: 53 significant bits, never below \<open>2 ^ -1074\<close>.\<close>

definition qexp :: "rat \<Rightarrow> int" where
  "qexp q = max (lg2 \<bar>q\<bar> - 52) (- 1074)"

definition rnd_fin :: "rat \<Rightarrow> rat" where
  "rnd_fin q = (if q = 0 then 0 else of_int (rhe (q / p2 (qexp q))) * p2 (qexp q))"

definition huge :: rat where
  "huge = 2 ^ 1024"

definition rnd :: "rat \<Rightarrow> pyfloat" where
  "rnd q = (let r = rnd_fin q
            in if huge \<le> r then PInf else if r \<le> - huge then NInf else Fin r)"

text \<open>A decimal literal of the source is the nearest float.\<close>

abbreviation lit :: "rat \<Rightarrow> pyfloat" where
  "lit q \<equiv> rnd q"

lemma p2_powi: "p2 e = 2 powi e"
  by (auto simp: p2_def power_int_def field_simps)

lemma p2_pos [simp]: "0 < p2 e"
  by (simp add: p2_def)

lemma p2_nonzero [simp]: "p2 e \<noteq> 0"
  using p2_pos [of e] by linarith

lemma p2_add: "p2 (a + b) = p2 a * p2 b"
  by (simp add: p2_powi power_int_add)

lemma p2_0 [simp]: "p2 0 = 1"
  by (simp add: p2_def)

lemma p2_mono: "a \<le> b \<Longrightarrow> p2 a \<le> p2 b"
  by (simp add: p2_powi power_int_increasing)

lemma p2_strict_mono: "a < b \<Longrightarrow> p2 a < p2 b"
  by (simp add: p2_powi power_int_strict_increasing)

lemma p2_less_iff: "p2 a < p2 b \<longleftrightarrow> a < b"
  by (meson not_le p2_mono p2_strict_mono)

lemma p2_52: "p2 52 = 4503599627370496" and p2_53: "p2 53 = 9007199254740992"
  by (simp_all add: p2_def)

lemma p2_nat: "0 \<le> k \<Longrightarrow> p2 k = of_int (2 ^ nat k)"
  by (simp add: p2_def)

lemma blen_bounds: "0 < n \<Longrightarrow> 2 ^ blen n \<le> 2 * n \<and> n < 2 ^ blen n"
proof (induction n rule: blen.induct)
  case (1 n)
  show ?case
  proof (cases "n = 1")
    case True
    then show ?thesis by (simp add: blen.simps)
  next
    case False
    with 1 have "2 ^ blen (n div 2) \<le> 2 * (n div 2) \<and> n div 2 < 2 ^ blen (n div 2)" by simp
    then have "2 * 2 ^ blen (n div 2) \<le> 2 * n \<and> n < 2 * 2 ^ blen (n div 2)" by linarith
    with 1 show ?thesis by (simp add: blen.simps [of n])
  qed
qed

lemma lg2_bounds:
  assumes "0 < q"
  shows "p2 (lg2 q) \<le> q \<and> q < p2 (lg2 q + 1)"
proof -
  obtain n d where nd: "quotient_of q = (n, d)" by (cases "quotient_of q")
  have d: "0 < d" using quotient_of_denom_pos [OF nd] .
  have q: "q = of_int n / of_int d" using quotient_of_div [OF nd] .
  with assms d have n: "0 < n" by (simp add: zero_less_divide_iff)
  define a b where "a = blen (nat n)" and "b = blen (nat d)"
  have a: "2 ^ a \<le> 2 * nat n \<and> nat n < 2 ^ a"
    unfolding a_def by (rule blen_bounds) (use n in simp)
  have b: "2 ^ b \<le> 2 * nat d \<and> nat d < 2 ^ b"
    unfolding b_def by (rule blen_bounds) (use d in simp)
  have na: "rat_of_nat (2 ^ a) \<le> of_nat (2 * nat n)" "rat_of_nat (nat n) < of_nat (2 ^ a)"
    using a by (simp_all only: of_nat_le_iff of_nat_less_iff)
  have nb: "rat_of_nat (2 ^ b) \<le> of_nat (2 * nat d)" "rat_of_nat (nat d) < of_nat (2 ^ b)"
    using b by (simp_all only: of_nat_le_iff of_nat_less_iff)
  from na n have A: "2 ^ a \<le> 2 * rat_of_int n" "rat_of_int n < 2 ^ a" by simp_all
  from nb d have B: "2 ^ b \<le> 2 * rat_of_int d" "rat_of_int d < 2 ^ b" by simp_all
  have dp: "0 < rat_of_int d" using d by simp
  define k where "k = int a - int b"
  have pk: "p2 k = 2 ^ a / 2 ^ b"
    by (simp add: p2_powi k_def power_int_diff)
  have lo: "p2 k / 2 < q"
  proof -
    have "2 ^ a * rat_of_int d < (2 * rat_of_int n) * 2 ^ b"
      using A(1) B(2) n dp by (intro mult_le_less_imp_less) auto
    then show ?thesis unfolding pk q using dp by (simp add: field_simps)
  qed
  have hi: "q < 2 * p2 k"
  proof -
    have "rat_of_int n * 2 ^ b < 2 ^ a * (2 * rat_of_int d)"
      using A(2) B(1) n dp by (intro mult_less_le_imp_less) auto
    then show ?thesis unfolding pk q using dp by (simp add: field_simps)
  qed
  have s: "p2 (k + 1) = 2 * p2 k" "p2 (k - 1) = p2 k / 2"
    by (simp_all add: p2_powi power_int_add power_int_diff)
  have "lg2 q = (if p2 k \<le> q then k else k - 1)"
    by (simp add: lg2_def nd a_def b_def k_def Let_def)
  with lo hi s show ?thesis by auto
qed

lemma lg2_unique:
  assumes "p2 k \<le> q" "q < p2 (k + 1)"
  shows "lg2 q = k"
proof -
  have "0 < q" using assms(1) p2_pos [of k] by linarith
  from lg2_bounds [OF this] have b: "p2 (lg2 q) \<le> q" "q < p2 (lg2 q + 1)" by auto
  have "p2 k < p2 (lg2 q + 1)" "p2 (lg2 q) < p2 (k + 1)" using assms b by linarith+
  then show ?thesis by (simp add: p2_less_iff)
qed

lemma lg2_mono: "0 < x \<Longrightarrow> x \<le> y \<Longrightarrow> lg2 x \<le> lg2 y"
proof -
  assume x: "0 < x" and xy: "x \<le> y"
  have "p2 (lg2 x) < p2 (lg2 y + 1)"
    using lg2_bounds [OF x] lg2_bounds [of y] x xy by linarith
  then show ?thesis by (simp add: p2_less_iff)
qed

lemma rhe_int [simp]: "rhe (of_int n) = n"
  by (simp add: rhe_def)

lemma rhe_bounds: "rhe q = \<lfloor>q\<rfloor> \<or> rhe q = \<lfloor>q\<rfloor> + 1"
  by (simp add: rhe_def Let_def)

lemma rhe_near: "\<bar>of_int (rhe q) - q\<bar> \<le> 1/2"
  by (auto simp: rhe_def Let_def abs_if) linarith+

lemma rhe_mono: "x \<le> y \<Longrightarrow> rhe x \<le> rhe y"
proof (cases "\<lfloor>x\<rfloor> = \<lfloor>y\<rfloor>")
  case True
  assume "x \<le> y"
  with True show ?thesis by (auto simp: rhe_def Let_def)
next
  case False
  assume "x \<le> y"
  with False have "\<lfloor>x\<rfloor> + 1 \<le> \<lfloor>y\<rfloor>" using floor_mono [of x y] by linarith
  then show ?thesis using rhe_bounds [of x] rhe_bounds [of y] by linarith
qed

lemma rhe_eqI: "\<bar>q - of_int n\<bar> < 1/2 \<Longrightarrow> rhe q = n"
proof -
  assume h: "\<bar>q - of_int n\<bar> < 1/2"
  have "\<bar>rat_of_int (rhe q) - of_int n\<bar> < 1" using h rhe_near [of q] by linarith
  then have "\<bar>rhe q - n\<bar> < 1" by (metis of_int_abs of_int_diff of_int_less_1_iff)
  then show ?thesis by simp
qed

lemma rhe_uminus: "rhe (- q) = - rhe q"
proof (cases "q = of_int \<lfloor>q\<rfloor>")
  case True
  then show ?thesis by (metis of_int_minus rhe_int)
next
  case False
  then have "of_int \<lfloor>q\<rfloor> < q" using of_int_floor_le [of q] by linarith
  moreover have "q < of_int \<lfloor>q\<rfloor> + 1" by linarith
  ultimately have fl: "\<lfloor>- q\<rfloor> = - \<lfloor>q\<rfloor> - 1" by (intro floor_unique) auto
  show ?thesis unfolding rhe_def Let_def fl by auto
qed

lemma rnd_fin_0 [simp]: "rnd_fin 0 = 0"
  by (simp add: rnd_fin_def)

lemma rnd_fin_uminus: "rnd_fin (- q) = - rnd_fin q"
  by (simp add: rnd_fin_def qexp_def rhe_uminus)

lemma rnd_fin_nonneg: "0 \<le> q \<Longrightarrow> 0 \<le> rnd_fin q"
  using rhe_mono [of 0 "q / p2 (qexp q)"] rhe_int [of 0]
  by (auto simp: rnd_fin_def zero_le_mult_iff less_imp_le)

lemma rnd_fin_mono_pos:
  assumes x: "0 < x" and xy: "x \<le> y"
  shows "rnd_fin x \<le> rnd_fin y"
proof (cases "qexp x = qexp y")
  case True
  have "rhe (x / p2 (qexp y)) \<le> rhe (y / p2 (qexp y))"
    by (rule rhe_mono) (use xy in \<open>simp add: divide_right_mono less_imp_le\<close>)
  with True x xy show ?thesis by (simp add: rnd_fin_def)
next
  case False
  let ?e = "qexp x" and ?f = "qexp y"
  have y: "0 < y" using x xy by linarith
  have lg: "lg2 x \<le> lg2 y" using lg2_mono [OF x xy] .
  with False have ef: "?e < ?f" and f: "?f = lg2 y - 52" and le: "?e + 53 \<le> lg2 y"
    and lx: "lg2 x \<le> ?e + 52"
    using x y by (auto simp: qexp_def max_def split: if_splits)
  have "x < p2 (lg2 x + 1)" using lg2_bounds [OF x] by simp
  also have "\<dots> \<le> p2 (?e + 53)" using lx by (intro p2_mono) simp
  finally have "x / p2 ?e \<le> of_int (2 ^ 53)"
    by (simp add: p2_add p2_53 field_simps)
  then have "rhe (x / p2 ?e) \<le> 2 ^ 53" using rhe_mono rhe_int by metis
  then have "rat_of_int (rhe (x / p2 ?e)) \<le> of_int (2 ^ 53)" by (simp only: of_int_le_iff)
  then have "rnd_fin x \<le> of_int (2 ^ 53) * p2 ?e"
    using x unfolding rnd_fin_def by (simp add: mult_right_mono less_imp_le)
  also have "\<dots> = p2 (?e + 53)" by (simp add: p2_add p2_53)
  also have "\<dots> \<le> p2 (lg2 y)" using le by (rule p2_mono)
  also have "\<dots> \<le> rnd_fin y"
  proof -
    have s: "p2 (lg2 y) = of_int (2 ^ 52) * p2 ?f"
      using p2_add [of 52 ?f] f by (simp add: p2_52)
    have "of_int (2 ^ 52) \<le> y / p2 ?f"
      using lg2_bounds [OF y] s by (simp add: le_divide_eq)
    then have "2 ^ 52 \<le> rhe (y / p2 ?f)" using rhe_mono rhe_int by metis
    then have "rat_of_int (2 ^ 52) \<le> of_int (rhe (y / p2 ?f))" by (simp only: of_int_le_iff)
    then show ?thesis using y s unfolding rnd_fin_def
      by (simp add: mult_right_mono less_imp_le)
  qed
  finally show ?thesis .
qed

lemma rnd_fin_mono: "x \<le> y \<Longrightarrow> rnd_fin x \<le> rnd_fin y"
proof -
  assume xy: "x \<le> y"
  consider "0 < x" | "x \<le> 0" "0 \<le> y" | "y < 0" using xy by linarith
  then show ?thesis
  proof cases
    case 1
    then show ?thesis using xy by (rule rnd_fin_mono_pos)
  next
    case 2
    then have "rnd_fin x \<le> 0" using rnd_fin_nonneg [of "- x"] rnd_fin_uminus [of x] by simp
    with 2 show ?thesis using rnd_fin_nonneg [of y] by linarith
  next
    case 3
    then have "rnd_fin (- y) \<le> rnd_fin (- x)" using xy by (intro rnd_fin_mono_pos) auto
    then show ?thesis by (simp add: rnd_fin_uminus)
  qed
qed


lemma rnd_fin_exact_pos:
  assumes m: "0 < m" "m < 2 ^ 53" and e: "- 1074 \<le> e"
  shows "rnd_fin (of_int m * p2 e) = of_int m * p2 e"
proof -
  let ?q = "of_int m * p2 e"
  have q: "0 < ?q" using m by simp
  have "rat_of_int m < of_int (2 ^ 53)" using m(2) by (simp only: of_int_less_iff)
  then have "?q < p2 (53 + e)" by (simp add: p2_add p2_53)
  then have "p2 (lg2 ?q) < p2 (53 + e)" using lg2_bounds [OF q] by linarith
  then have "lg2 ?q < 53 + e" by (simp add: p2_less_iff)
  then have le: "qexp ?q \<le> e" using e q by (simp add: qexp_def)
  define k where "k = nat (e - qexp ?q)"
  have "p2 e = p2 (qexp ?q) * 2 ^ k"
    using p2_add [of "qexp ?q" "e - qexp ?q"] le by (simp add: k_def p2_def)
  then have "?q / p2 (qexp ?q) = of_int m * (p2 (qexp ?q) * 2 ^ k) / p2 (qexp ?q)" by metis
  then have "?q / p2 (qexp ?q) = of_int (m * 2 ^ k)" by simp
  then have "rhe (?q / p2 (qexp ?q)) = m * 2 ^ k" by (metis rhe_int)
  moreover have "rnd_fin ?q = of_int (rhe (?q / p2 (qexp ?q))) * p2 (qexp ?q)"
    using q by (auto simp: rnd_fin_def)
  ultimately have "rnd_fin ?q = of_int m * (p2 (qexp ?q) * 2 ^ k)" by (simp add: mult_ac)
  then show ?thesis using \<open>p2 e = p2 (qexp ?q) * 2 ^ k\<close> by metis
qed

lemma rnd_fin_exact:
  assumes m: "\<bar>m\<bar> < 2 ^ 53" and e: "- 1074 \<le> e"
  shows "rnd_fin (of_int m * p2 e) = of_int m * p2 e"
proof -
  consider "0 < m" | "m = 0" | "m < 0" by linarith
  then show ?thesis
  proof cases
    case 1 then show ?thesis using m e by (intro rnd_fin_exact_pos) auto
  next
    case 2 then show ?thesis by simp
  next
    case 3
    then have "rnd_fin (of_int (- m) * p2 e) = of_int (- m) * p2 e"
      using m e by (intro rnd_fin_exact_pos) auto
    then show ?thesis by (simp add: rnd_fin_uminus)
  qed
qed

text \<open>A rounded value is on the grid, so rounding it again changes nothing.\<close>

lemma rnd_fin_idem_pos:
  assumes "0 < q"
  shows "rnd_fin (rnd_fin q) = rnd_fin q"
proof -
  let ?e = "qexp q" and ?m = "rhe (q / p2 (qexp q))"
  have q: "rnd_fin q = of_int ?m * p2 ?e" using assms by (simp add: rnd_fin_def)
  have e: "- 1074 \<le> ?e" and lg: "lg2 q \<le> ?e + 52" using assms by (auto simp: qexp_def)
  have "q < p2 (lg2 q + 1)" using lg2_bounds [OF assms] by simp
  also have "\<dots> \<le> p2 (?e + 53)" using lg by (intro p2_mono) simp
  finally have "q / p2 ?e \<le> of_int (2 ^ 53)" by (simp add: p2_add p2_53 field_simps)
  then have up: "?m \<le> 2 ^ 53" using rhe_mono rhe_int by metis
  have lo: "0 \<le> ?m" using rhe_mono [of 0 "q / p2 ?e"] rhe_int [of 0] assms by (simp add: less_imp_le)
  show ?thesis
  proof (cases "?m < 2 ^ 53")
    case True
    with lo e show ?thesis unfolding q by (intro rnd_fin_exact) auto
  next
    case False
    with up have m: "?m = 2 ^ 53" by simp
    have "p2 1 = 2" by (simp add: p2_def)
    then have eq: "of_int (2 ^ 53) * p2 ?e = of_int (2 ^ 52) * p2 (?e + 1)" by (simp add: p2_add)
    have "rnd_fin (of_int (2 ^ 52) * p2 (?e + 1)) = of_int (2 ^ 52) * p2 (?e + 1)"
      using e by (intro rnd_fin_exact) auto
    then show ?thesis unfolding q m by (simp only: eq)
  qed
qed

lemma rnd_fin_idem [simp]: "rnd_fin (rnd_fin q) = rnd_fin q"
proof -
  consider "0 < q" | "q = 0" | "0 < - q" by linarith
  then show ?thesis
  proof cases
    case 3
    then have "rnd_fin (rnd_fin (- q)) = rnd_fin (- q)" by (rule rnd_fin_idem_pos)
    then show ?thesis by (simp add: rnd_fin_uminus)
  qed (simp_all add: rnd_fin_idem_pos)
qed

text \<open>Rounding is within half a unit in the last place.\<close>

lemma rnd_fin_near: "\<bar>rnd_fin q - q\<bar> \<le> p2 (qexp q) / 2"
proof (cases "q = 0")
  case True
  then show ?thesis by (simp add: less_imp_le)
next
  case False
  let ?u = "p2 (qexp q)"
  have "\<bar>of_int (rhe (q / ?u)) - q / ?u\<bar> * ?u \<le> 1/2 * ?u"
    by (rule mult_right_mono [OF rhe_near]) (simp add: less_imp_le)
  moreover have "\<bar>of_int (rhe (q / ?u)) - q / ?u\<bar> * ?u = \<bar>(of_int (rhe (q / ?u)) - q / ?u) * ?u\<bar>"
    by (simp add: abs_mult abs_of_pos)
  moreover have "(of_int (rhe (q / ?u)) - q / ?u) * ?u = rnd_fin q - q"
    using False by (simp add: rnd_fin_def field_simps)
  ultimately show ?thesis by simp
qed

lemma huge_pos [simp]: "0 < huge"
  by (simp add: huge_def)

lemma huge_ge: "2 ^ 100 \<le> huge"
  unfolding huge_def by (rule power_increasing) simp_all

text \<open>A certificate for the value of a rounding: the neighbour \<open>m\<close> on the grid of the
  right binade.\<close>

lemma rnd_fin_cert:
  assumes "p2 (e + 52) \<le> q" "q < p2 (e + 53)" "- 1074 \<le> e" "\<bar>q - of_int m * p2 e\<bar> * 2 < p2 e"
  shows "rnd_fin q = of_int m * p2 e"
proof -
  have q: "0 < q" using assms(1) p2_pos [of "e + 52"] by linarith
  have "lg2 q = e + 52" using assms(1,2) by (intro lg2_unique) (auto simp: add.commute)
  then have e: "qexp q = e" using q assms(3) by (simp add: qexp_def)
  have "q / p2 e - of_int m = (q - of_int m * p2 e) / p2 e" by (simp add: field_simps)
  then have "\<bar>q / p2 e - of_int m\<bar> = \<bar>q - of_int m * p2 e\<bar> / p2 e" by (simp add: abs_divide abs_of_pos)
  also have "\<dots> < 1/2" using assms(4) by (simp add: field_simps)
  finally have "rhe (q / p2 e) = m" by (rule rhe_eqI)
  with q e show ?thesis by (simp add: rnd_fin_def)
qed

lemma rnd_cert:
  assumes "p2 (e + 52) \<le> q" "q < p2 (e + 53)" "- 1074 \<le> e" "\<bar>q - of_int m * p2 e\<bar> * 2 < p2 e"
    and "0 \<le> r" "r < 2 ^ 100" "of_int m * p2 e = r"
  shows "rnd q = Fin r"
proof -
  have "r < huge" "- huge < r" using assms(5,6) huge_ge huge_pos by linarith+
  then show ?thesis using rnd_fin_cert [OF assms(1-4)] assms(7) by (simp add: rnd_def)
qed

subsection \<open>The rounding function on floats\<close>

lemma rnd_0 [simp, feval]: "rnd 0 = Fin 0"
  using huge_pos by (simp add: rnd_def not_le)

lemma rnd_not_NaN [simp]: "rnd q \<noteq> NaN" "NaN \<noteq> rnd q"
  by (simp_all add: rnd_def Let_def)

lemma rnd_FinD: "rnd q = Fin r \<Longrightarrow> r = rnd_fin q"
  by (auto simp: rnd_def Let_def split: if_splits)

lemma rnd_idem: "rnd q = Fin r \<Longrightarrow> rnd r = Fin r"
proof -
  assume h: "rnd q = Fin r"
  have "rnd (rnd_fin q) = rnd q" by (simp add: rnd_def)
  with h rnd_FinD [OF h] show ?thesis by simp
qed

lemma rnd_exact:
  assumes "\<bar>m\<bar> < 2 ^ 53" "- 1074 \<le> e" "e \<le> 0"
  shows "rnd (of_int m * p2 e) = Fin (of_int m * p2 e)"
proof -
  have "\<bar>rat_of_int m\<bar> < of_int (2 ^ 53)" using assms(1) by (metis of_int_abs of_int_less_iff)
  moreover have "p2 e \<le> 1" using p2_mono [OF assms(3)] by simp
  ultimately have "\<bar>rat_of_int m\<bar> * p2 e < of_int (2 ^ 53)"
    using mult_left_le [of "p2 e" "\<bar>rat_of_int m\<bar>"] by linarith
  then have "\<bar>of_int m * p2 e\<bar> < 2 ^ 100" by (simp add: abs_mult abs_of_pos)
  then have "\<bar>of_int m * p2 e\<bar> < huge" using huge_ge by linarith
  then show ?thesis using rnd_fin_exact [OF assms(1,2)] by (auto simp: rnd_def abs_less_iff)
qed

lemma rnd_int [feval]: "\<bar>m\<bar> < 2 ^ 53 \<Longrightarrow> rnd (of_int m) = Fin (of_int m)"
  using rnd_exact [of m 0] by simp

lemma rnd_numeral [feval]: "(numeral n :: int) < 2 ^ 53 \<Longrightarrow> rnd (numeral n) = Fin (numeral n)"
  using rnd_int [of "numeral n"] by simp

lemma rnd_1 [simp, feval]: "rnd 1 = Fin 1"
  using rnd_int [of 1] by simp

lemma dvd_two_power: "n dvd (2::nat) ^ k \<Longrightarrow> \<exists>j\<le>k. n = 2 ^ j"
proof (induction k arbitrary: n)
  case 0
  then show ?case by auto
next
  case (Suc k)
  show ?case
  proof (cases "even n")
    case True
    then obtain m where m: "n = 2 * m" by blast
    with Suc.prems have "m dvd 2 ^ k" by simp
    from Suc.IH [OF this] obtain j where "j \<le> k" "m = 2 ^ j" by blast
    with m show ?thesis by (intro exI [of _ "Suc j"]) simp
  next
    case False
    then have "coprime n 2" by simp
    with Suc.prems have "n dvd 2 ^ k" by (simp add: coprime_dvd_mult_right_iff)
    from Suc.IH [OF this] show ?thesis using le_SucI by blast
  qed
qed

text \<open>A quotient of numerals whose denominator is a power of two is exact.\<close>

lemma rnd_frac [feval]:
  assumes m: "(numeral m :: int) < 2 ^ 53" and d: "(2::int) ^ 60 mod numeral d = 0"
  shows "rnd (numeral m / numeral d) = Fin (numeral m / numeral d)"
proof -
  obtain c :: int where c: "(2::int) ^ 60 = numeral d * c" using d by (metis mod_0_imp_dvd dvdE)
  have "numeral d dvd (2::int) ^ 60" by (rule mod_0_imp_dvd [OF d])
  then have "numeral d dvd (2::nat) ^ 60" by (metis of_nat_dvd_iff of_nat_numeral of_nat_power)
  then obtain k where k: "k \<le> 60" "(numeral d :: nat) = 2 ^ k"
    using dvd_two_power by blast
  have "(numeral d :: rat) = 2 ^ k" by (metis k(2) of_nat_numeral of_nat_power)
  moreover have "p2 (- int k) = 1 / 2 ^ k" by (simp add: p2_powi power_int_minus field_simps)
  ultimately have eq: "of_int (numeral m) * p2 (- int k) = (numeral m :: rat) / numeral d"
    by (simp del: p2_pos)
  have "rnd (of_int (numeral m) * p2 (- int k)) = Fin (of_int (numeral m) * p2 (- int k))"
    by (rule rnd_exact) (use m k(1) in auto)
  then show ?thesis unfolding eq .
qed

lemma rnd_frac1 [feval]:
  assumes d: "(2::int) ^ 60 mod numeral d = 0"
  shows "rnd (1 / numeral d) = Fin (1 / numeral d)"
  using rnd_frac [of num.One d] d by simp


subsection \<open>Comparisons\<close>

text \<open>Python's \<open><\<close> and \<open><=\<close>: false as soon as one side is NaN. The code's \<open>a > b\<close>
  is \<open>flt b a\<close> and \<open>a >= b\<close> is \<open>fle b a\<close>.\<close>

fun flt :: "pyfloat \<Rightarrow> pyfloat \<Rightarrow> bool" where
  "flt (Fin a) (Fin b) = (a < b)"
| "flt (Fin _) PInf = True"
| "flt NInf (Fin _) = True"
| "flt NInf PInf = True"
| "flt _ _ = False"

fun fle :: "pyfloat \<Rightarrow> pyfloat \<Rightarrow> bool" where
  "fle (Fin a) (Fin b) = (a \<le> b)"
| "fle NaN _ = False"
| "fle _ NaN = False"
| "fle NInf _ = True"
| "fle _ PInf = True"
| "fle _ _ = False"

definition feq :: "pyfloat \<Rightarrow> pyfloat \<Rightarrow> bool" where
  "feq a b = (a = b \<and> a \<noteq> NaN)"

fun is_fin :: "pyfloat \<Rightarrow> bool" where
  "is_fin (Fin _) = True"
| "is_fin _ = False"

lemma fle_refl [simp]: "fle a a \<longleftrightarrow> a \<noteq> NaN"
  by (cases a) auto

lemma flt_irrefl [simp]: "\<not> flt a a"
  by (cases a) auto

lemma flt_fle [forder]: "flt a b \<Longrightarrow> fle a b"
  by (cases a; cases b) auto

lemma fle_trans [forder, trans]: "fle a b \<Longrightarrow> fle b c \<Longrightarrow> fle a c"
  by (cases a; cases b; cases c) auto

lemma flt_trans [forder, trans]: "flt a b \<Longrightarrow> flt b c \<Longrightarrow> flt a c"
  by (cases a; cases b; cases c) auto

lemma flt_fle_trans [forder, trans]: "flt a b \<Longrightarrow> fle b c \<Longrightarrow> flt a c"
  by (cases a; cases b; cases c) auto

lemma fle_flt_trans [forder, trans]: "fle a b \<Longrightarrow> flt b c \<Longrightarrow> flt a c"
  by (cases a; cases b; cases c) auto

lemma fle_antisym: "fle a b \<Longrightarrow> fle b a \<Longrightarrow> a = b"
  by (cases a; cases b) auto

lemma flt_asym: "flt a b \<Longrightarrow> \<not> flt b a" and flt_not_fle: "flt a b \<Longrightarrow> \<not> fle b a"
  and fle_not_flt: "fle a b \<Longrightarrow> \<not> flt b a"
  by (cases a; cases b; auto)+

lemma not_flt: "a \<noteq> NaN \<Longrightarrow> b \<noteq> NaN \<Longrightarrow> \<not> flt a b \<longleftrightarrow> fle b a"
  by (cases a; cases b) auto

lemma not_fle: "a \<noteq> NaN \<Longrightarrow> b \<noteq> NaN \<Longrightarrow> \<not> fle a b \<longleftrightarrow> flt b a"
  by (cases a; cases b) auto

lemma fle_not_NaN: "fle a b \<Longrightarrow> a \<noteq> NaN \<and> b \<noteq> NaN"
  and flt_not_NaN: "flt a b \<Longrightarrow> a \<noteq> NaN \<and> b \<noteq> NaN"
  by (cases a; cases b; auto)+

lemma flt_NaN [simp]: "\<not> flt NaN a" "\<not> flt a NaN" "\<not> fle NaN a" "\<not> fle a NaN"
  by (cases a; simp)+

lemma fle_linear: "a \<noteq> NaN \<Longrightarrow> b \<noteq> NaN \<Longrightarrow> fle a b \<or> fle b a"
  by (cases a; cases b) auto

lemma flt_Fin0: "flt (Fin 0) a \<longleftrightarrow> (\<exists>q>0. a = Fin q) \<or> a = PInf"
  by (cases a) auto

lemma rnd_mono [forder]: "a \<le> b \<Longrightarrow> fle (rnd a) (rnd b)"
  using rnd_fin_mono [of a b] huge_pos by (auto simp: rnd_def Let_def)

lemma rnd_Inf [simp]: "fle NInf (rnd q)" "fle (rnd q) PInf"
  by (auto simp: rnd_def Let_def)

subsection \<open>Arithmetic\<close>

fun fneg :: "pyfloat \<Rightarrow> pyfloat" where
  "fneg (Fin a) = Fin (- a)"
| "fneg PInf = NInf"
| "fneg NInf = PInf"
| "fneg NaN = NaN"

fun fabs :: "pyfloat \<Rightarrow> pyfloat" where
  "fabs (Fin a) = Fin \<bar>a\<bar>"
| "fabs PInf = PInf"
| "fabs NInf = PInf"
| "fabs NaN = NaN"

fun fadd :: "pyfloat \<Rightarrow> pyfloat \<Rightarrow> pyfloat" where
  "fadd (Fin a) (Fin b) = rnd (a + b)"
| "fadd NaN _ = NaN"
| "fadd _ NaN = NaN"
| "fadd PInf NInf = NaN"
| "fadd NInf PInf = NaN"
| "fadd PInf _ = PInf"
| "fadd _ PInf = PInf"
| "fadd NInf _ = NInf"
| "fadd _ NInf = NInf"

definition fsub :: "pyfloat \<Rightarrow> pyfloat \<Rightarrow> pyfloat" where
  "fsub a b = fadd a (fneg b)"

definition sinf :: "rat \<Rightarrow> pyfloat" where
  "sinf a = (if a = 0 then NaN else if 0 < a then PInf else NInf)"

fun fmul :: "pyfloat \<Rightarrow> pyfloat \<Rightarrow> pyfloat" where
  "fmul (Fin a) (Fin b) = rnd (a * b)"
| "fmul NaN _ = NaN"
| "fmul _ NaN = NaN"
| "fmul (Fin a) PInf = sinf a"
| "fmul (Fin a) NInf = sinf (- a)"
| "fmul PInf (Fin b) = sinf b"
| "fmul NInf (Fin b) = sinf (- b)"
| "fmul PInf PInf = PInf"
| "fmul NInf NInf = PInf"
| "fmul _ _ = NInf"

text \<open>Division by zero raises in Python. \<open>fdiv\<close> is the quotient for a divisor that is not
  zero: the definitions of the other theories use it directly only where the divisor is a
  non-zero literal or the code has just tested it, and \<open>py_div\<close> (theory \<open>PyBase\<close>) anywhere
  else.\<close>

fun fdiv :: "pyfloat \<Rightarrow> pyfloat \<Rightarrow> pyfloat" where
  "fdiv (Fin a) (Fin b) = (if b = 0 then NaN else rnd (a / b))"
| "fdiv NaN _ = NaN"
| "fdiv _ NaN = NaN"
| "fdiv (Fin a) _ = Fin 0"
| "fdiv PInf (Fin b) = (if 0 < b then PInf else NInf)"
| "fdiv NInf (Fin b) = (if 0 < b then NInf else PInf)"
| "fdiv _ _ = NaN"

text \<open>The two-argument \<open>max\<close> and \<open>min\<close> keep the first argument unless the second is
  strictly better, which decides what a NaN does.\<close>

definition py_max :: "pyfloat \<Rightarrow> pyfloat \<Rightarrow> pyfloat" where
  "py_max a b = (if flt a b then b else a)"

definition py_min :: "pyfloat \<Rightarrow> pyfloat \<Rightarrow> pyfloat" where
  "py_min a b = (if flt b a then b else a)"

text \<open>\<open>round(x, n)\<close>: the exact value is rounded to \<open>n\<close> decimals, half to even, and the
  result to the nearest float.\<close>

fun py_round :: "pyfloat \<Rightarrow> nat \<Rightarrow> pyfloat" where
  "py_round (Fin q) n = rnd (of_int (rhe (q * 10 ^ n)) / 10 ^ n)"
| "py_round x n = x"

definition fof_int :: "int \<Rightarrow> pyfloat" where
  "fof_int n = rnd (of_int n)"

lemma fof_int_small [feval]: "\<bar>n\<bar> < 2 ^ 53 \<Longrightarrow> fof_int n = Fin (of_int n)"
  by (simp add: fof_int_def rnd_int)

lemma fsub_simps [simp]: "fsub (Fin a) (Fin b) = rnd (a - b)"
  by (simp add: fsub_def)

lemma rnd_uminus [feval]: "rnd (- q) = fneg (rnd q)"
  using huge_pos by (auto simp: rnd_def rnd_fin_uminus Let_def simp del: huge_pos)

lemma fneg_order: "flt (fneg a) (fneg b) = flt b a" "fle (fneg a) (fneg b) = fle b a"
  by (cases a; cases b; auto)+

lemma rnd_nonneg: "0 \<le> q \<Longrightarrow> fle (Fin 0) (rnd q)"
  using rnd_mono [of 0 q] by simp

lemma rnd_nonpos: "q \<le> 0 \<Longrightarrow> fle (rnd q) (Fin 0)"
  using rnd_mono [of q 0] by simp

lemma fadd_mono [forder]: "fle a b \<Longrightarrow> fle (fadd a (Fin c)) (fadd b (Fin c))"
  by (cases a; cases b) (auto intro: rnd_mono)

lemma fabs_nonneg: "a \<noteq> NaN \<Longrightarrow> fle (Fin 0) (fabs a)"
  by (cases a) auto

lemma fmul_nonneg: "fle (Fin 0) (Fin a) \<Longrightarrow> fle (Fin 0) (Fin b) \<Longrightarrow> fle (Fin 0) (fmul (Fin a) (Fin b))"
  using rnd_nonneg [of "a * b"] by simp

lemma py_max_ge: "a \<noteq> NaN \<Longrightarrow> b \<noteq> NaN \<Longrightarrow> fle a (py_max a b) \<and> fle b (py_max a b)"
  by (cases a; cases b) (auto simp: py_max_def)

lemma py_min_le: "a \<noteq> NaN \<Longrightarrow> b \<noteq> NaN \<Longrightarrow> fle (py_min a b) a \<and> fle (py_min a b) b"
  by (cases a; cases b) (auto simp: py_min_def)

lemma py_max_cases: "py_max a b = a \<or> py_max a b = b"
  and py_min_cases: "py_min a b = a \<or> py_min a b = b"
  by (auto simp: py_max_def py_min_def)

text \<open>A first argument that is a number bounds the result even when the second is NaN:
  the reading the code's \<open>max(0.0, x)\<close> relies on.\<close>

lemma py_max_left: "a \<noteq> NaN \<Longrightarrow> fle a (py_max a b)"
  by (auto simp: py_max_def flt_fle)

lemma py_min_left: "a \<noteq> NaN \<Longrightarrow> fle (py_min a b) a"
  by (auto simp: py_min_def flt_fle)

text \<open>\<open>max(lo, min(hi, x))\<close> is in range whatever \<open>x\<close> is, a NaN included.\<close>

lemma clamp_range: "fle lo hi \<Longrightarrow> fle lo (py_max lo (py_min hi x)) \<and> fle (py_max lo (py_min hi x)) hi"
  by (cases lo; cases hi; cases x) (auto simp: py_max_def py_min_def)

lemma py_round_mono:
  assumes "fle a b"
  shows "fle (py_round a n) (py_round b n)"
proof -
  have "rat_of_int (rhe (x * 10 ^ n)) / 10 ^ n \<le> of_int (rhe (y * 10 ^ n)) / 10 ^ n" if "x \<le> y" for x y
    using that by (intro divide_right_mono) (auto intro!: rhe_mono mult_right_mono)
  then show ?thesis using assms
    by (cases a; cases b) (auto intro: rnd_mono)
qed

lemma rhe_numeral [simp]: "rhe (numeral n) = numeral n" "rhe (- numeral n) = - numeral n" "rhe 1 = 1"
  using rhe_int [of "numeral n"] rhe_int [of "- numeral n"] rhe_int [of 1] by simp_all

lemma rhe_0 [simp]: "rhe 0 = 0"
  using rhe_int [of 0] by simp

lemma py_round_0 [simp]: "py_round (Fin 0) n = Fin 0"
  by simp

lemma py_round_nonneg: "fle (Fin 0) a \<Longrightarrow> fle (Fin 0) (py_round a n)"
  by (metis py_round_mono py_round_0)

text \<open>A cost that is not negative never makes a price better.\<close>

lemma fadd_nonneg: "fle (Fin 0) a \<Longrightarrow> fle (Fin 0) b \<Longrightarrow> fle (Fin 0) (fadd a b)"
  by (cases a; cases b) (auto intro: rnd_nonneg)

lemma fdiv_nonneg: "fle (Fin 0) a \<Longrightarrow> 0 < b \<Longrightarrow> fle (Fin 0) (fdiv a (Fin b))"
  by (cases a) (auto intro: rnd_nonneg)

lemma fadd_ge: "rnd m = Fin m \<Longrightarrow> fle (Fin 0) c \<Longrightarrow> fle (Fin m) (fadd (Fin m) c)"
  using rnd_mono [of m "m + q" for q] by (cases c) (metis fadd.simps(1) fle.simps(1) le_add_same_cancel1, auto)

lemma fsub_le:
  assumes "rnd m = Fin m" "fle (Fin 0) c"
  shows "fle (fsub (Fin m) c) (Fin m)"
proof (cases c)
  case (Fin q)
  with assms rnd_mono [of "m - q" m] show ?thesis by simp
qed (use assms in \<open>auto simp: fsub_def\<close>)

end
