(* ===== verification/PyBase.thy ===== *)
theory PyBase
  imports PyFloat "HOL-Library.AList"
begin

section \<open>The prelude: what the code uses of Python\<close>

text \<open>
  Exceptions are values of \<open>py_exn\<close> and a computation that may raise returns \<open>'a res\<close>
  (\<open>Inl\<close> the exception). A dict is an association list in insertion order: \<open>map_of\<close>
  reads it, \<open>AList.update\<close> stores (in place for a key it holds, at the end for a new one,
  as Python does) and \<open>AList.delete\<close> removes. A bounded deque, slices from the end,
  \<open>min\<close> and \<open>max\<close> with a key, decimal digits and datetimes complete the prelude,
  with the lemmas the components share.
\<close>

named_theorems res_simps and dict_simps and records

subsection \<open>Exceptions\<close>

datatype py_exn =
    ValueError string | RuntimeError string | TypeError | KeyError | IndexError
  | ZeroDivisionError | OverflowError | AttributeError
  | ValidationError string | StateCorruptionError string | InfrastructureError string
  | ExternalError string

type_synonym 'a res = "py_exn + 'a"

abbreviation Raise :: "py_exn \<Rightarrow> 'a res" where "Raise \<equiv> Inl"
abbreviation Ok :: "'a \<Rightarrow> 'a res" where "Ok \<equiv> Inr"

definition rbind :: "'a res \<Rightarrow> ('a \<Rightarrow> 'b res) \<Rightarrow> 'b res" where
  "rbind m f = (case m of Inl e \<Rightarrow> Inl e | Inr x \<Rightarrow> f x)"

definition rmap :: "('a \<Rightarrow> 'b) \<Rightarrow> 'a res \<Rightarrow> 'b res" where
  "rmap f m = (case m of Inl e \<Rightarrow> Inl e | Inr x \<Rightarrow> Inr (f x))"

fun is_ok :: "'a res \<Rightarrow> bool" where
  "is_ok (Inl _) = False"
| "is_ok (Inr _) = True"

lemma rbind_simps [simp, res_simps]: "rbind (Inl e) f = Inl e" "rbind (Inr x) f = f x"
  by (simp_all add: rbind_def)

lemma rmap_simps [simp, res_simps]: "rmap g (Inl e) = Inl e" "rmap g (Inr x) = Inr (g x)"
  by (simp_all add: rmap_def)

lemma rbind_InrE: "rbind m f = Inr y \<Longrightarrow> (\<And>x. m = Inr x \<Longrightarrow> f x = Inr y \<Longrightarrow> P) \<Longrightarrow> P"
  by (cases m) auto

lemma rmap_Inr_iff [res_simps]: "rmap g m = Inr y \<longleftrightarrow> (\<exists>x. m = Inr x \<and> y = g x)"
  by (cases m) auto

lemma is_ok_iff: "is_ok m \<longleftrightarrow> (\<exists>x. m = Inr x)"
  by (cases m) auto

subsection \<open>Computations with state and exceptions\<close>

type_synonym ('s, 'a) comp = "'s \<Rightarrow> 'a res \<times> 's"

definition sret :: "'a \<Rightarrow> ('s, 'a) comp" where
  "sret x s = (Ok x, s)"

definition sfail :: "py_exn \<Rightarrow> ('s, 'a) comp" where
  "sfail e s = (Raise e, s)"

definition sbind :: "('s, 'a) comp \<Rightarrow> ('a \<Rightarrow> ('s, 'b) comp) \<Rightarrow> ('s, 'b) comp" where
  "sbind m f s = (case m s of (Inl e, s') \<Rightarrow> (Inl e, s') | (Inr x, s') \<Rightarrow> f x s')"

definition slift :: "'a res \<Rightarrow> ('s, 'a) comp" where
  "slift r s = (r, s)"

text \<open>\<open>try: m except ...: handler\<close>; \<open>h e = None\<close> lets the exception through.\<close>

definition scatch :: "('s, 'a) comp \<Rightarrow> (py_exn \<Rightarrow> ('s, 'a) comp option) \<Rightarrow> ('s, 'a) comp" where
  "scatch m h s = (case m s of
     (Inl e, s') \<Rightarrow> (case h e of None \<Rightarrow> (Inl e, s') | Some k \<Rightarrow> k s')
   | (Inr x, s') \<Rightarrow> (Inr x, s'))"

lemma comp_simps [simp]:
  "sret x s = (Ok x, s)" "sfail e s = (Raise e, s)" "slift r s = (r, s)"
  "sbind (sret x) f = f x" "sbind (sfail e) f = sfail e"
  by (auto simp: sret_def sfail_def slift_def sbind_def)

lemma sbind_OkE:
  "sbind m f s = (Ok y, s') \<Longrightarrow> (\<And>x s1. m s = (Ok x, s1) \<Longrightarrow> f x s1 = (Ok y, s') \<Longrightarrow> P) \<Longrightarrow> P"
  by (auto simp: sbind_def split: prod.splits sum.splits)

lemma sbind_state: "snd (m g) = g \<Longrightarrow> (\<And>x. snd (f x g) = g) \<Longrightarrow> snd (sbind m f g) = g"
  by (cases "m g") (auto simp: sbind_def split: sum.splits)

text \<open>Division, \<open>floor\<close> and \<open>int\<close> raise where Python raises.\<close>

definition py_div :: "pyfloat \<Rightarrow> pyfloat \<Rightarrow> pyfloat res" where
  "py_div a b = (if b = Fin 0 then Raise ZeroDivisionError else Ok (fdiv a b))"

fun py_floor :: "pyfloat \<Rightarrow> int res" where
  "py_floor (Fin q) = Ok \<lfloor>q\<rfloor>"
| "py_floor NaN = Raise (ValueError ''cannot convert float NaN to integer'')"
| "py_floor _ = Raise OverflowError"

lemma py_floor_mono: "py_floor a = Ok m \<Longrightarrow> py_floor b = Ok n \<Longrightarrow> fle a b \<Longrightarrow> m \<le> n"
  by (cases a; cases b) (auto intro: floor_mono)

subsection \<open>Decimal digits\<close>

fun nat_str :: "nat \<Rightarrow> string" where
  "nat_str n = (if n < 10 then [char_of (48 + n)] else nat_str (n div 10) @ [char_of (48 + n mod 10)])"

declare nat_str.simps [simp del]

definition int_str :: "int \<Rightarrow> string" where
  "int_str i = (if i < 0 then CHR ''-'' # nat_str (nat (- i)) else nat_str (nat i))"

text \<open>Reading digits back, for the injectivity of the identifiers the code builds.\<close>

fun digits_val :: "nat \<Rightarrow> string \<Rightarrow> nat" where
  "digits_val a [] = a"
| "digits_val a (c # cs) = digits_val (10 * a + (of_char c - 48)) cs"

lemma digits_val_append: "digits_val a (xs @ ys) = digits_val (digits_val a xs) ys"
  by (induction xs arbitrary: a) auto

lemma digits_val_nat_str: "digits_val 0 (nat_str n) = n"
proof (induction n rule: nat_str.induct)
  case (1 n)
  show ?case
  proof (cases "n < 10")
    case True
    then show ?thesis by (simp add: nat_str.simps [of n] of_char_of)
  next
    case False
    with 1 have "digits_val 0 (nat_str (n div 10)) = n div 10" by simp
    moreover have "n mod 10 < 10" by simp
    ultimately show ?thesis using False
      by (simp add: nat_str.simps [of n] digits_val_append of_char_of)
  qed
qed

lemma nat_str_inj [simp]: "nat_str m = nat_str n \<longleftrightarrow> m = n"
  by (metis digits_val_nat_str)

subsection \<open>Dicts in insertion order\<close>

type_synonym ('k, 'v) dict = "('k \<times> 'v) list"

lemma dget_set [simp, dict_simps]: "map_of (AList.update k v d) k' = (if k' = k then Some v else map_of d k')"
  by (simp add: update_conv')

lemma dget_del [simp, dict_simps]: "map_of (AList.delete k d) k' = (if k' = k then None else map_of d k')"
  by (simp add: delete_conv')

lemma length_update: "length (AList.update k v d) = (if k \<in> fst ` set d then length d else Suc (length d))"
  by (induction d) auto

lemma distinct_update: "distinct (map fst d) \<Longrightarrow> distinct (map fst (AList.update k v d))"
  by (rule distinct_update)

lemma update_new_snoc: "k \<notin> fst ` set d \<Longrightarrow> AList.update k v d = d @ [(k, v)]"
  by (induction d) auto

lemma update_nonempty [simp]: "AList.update k v d \<noteq> []"
  by (cases d) auto

subsection \<open>Bounded deques and slices\<close>

text \<open>\<open>deque(maxlen=n).append\<close>: what does not fit falls off at the left.\<close>

definition dq_push :: "nat \<Rightarrow> 'a \<Rightarrow> 'a list \<Rightarrow> 'a list" where
  "dq_push n x xs = (let ys = xs @ [x] in drop (length ys - n) ys)"

text \<open>\<open>append\<close> followed by one \<open>pop(0)\<close> when the length exceeds \<open>n\<close>.\<close>

definition win_push :: "nat \<Rightarrow> 'a \<Rightarrow> 'a list \<Rightarrow> 'a list" where
  "win_push n x xs = (let ys = xs @ [x] in if length ys > n then tl ys else ys)"

text \<open>The slice \<open>xs[-n:]\<close>; \<open>xs[-0:]\<close> is the whole list.\<close>

definition py_tail :: "nat \<Rightarrow> 'a list \<Rightarrow> 'a list" where
  "py_tail n xs = (if n = 0 then xs else drop (length xs - n) xs)"

lemma win_push_dq: "length xs \<le> n \<Longrightarrow> win_push n x xs = dq_push n x xs"
  by (cases xs; cases n) (auto simp: win_push_def dq_push_def Let_def Suc_diff_le)

lemma dq_push_drop: "dq_push n x (drop (length xs - n) xs) = drop (Suc (length xs) - n) (xs @ [x])"
proof -
  have a: "drop (length xs - n) xs @ [x] = drop (length xs - n) (xs @ [x])" by simp
  show ?thesis unfolding dq_push_def Let_def a drop_drop by (rule arg_cong2 [where f = drop]) auto
qed

lemma drop_suffix: "\<exists>ys. xs = ys @ drop n xs"
  by (metis append_take_drop_id)

lemma dq_push_suffix: "\<exists>ys. xs @ [x] = ys @ dq_push n x xs"
  unfolding dq_push_def Let_def by (rule drop_suffix)

lemma win_push_suffix: "\<exists>ys. xs @ [x] = ys @ win_push n x xs"
  by (cases xs) (auto simp: win_push_def Let_def intro: exI [of _ "[_]"])

text \<open>
  What the clients of a bounded window rely on: it never holds more than its capacity, and
  it holds the most recent items. The lemmas are proved once for every implementation.
\<close>

locale bounded_window =
  fixes push :: "'a \<Rightarrow> 'a list \<Rightarrow> 'a list" and cap :: nat
  assumes push_cap: "length xs \<le> cap \<Longrightarrow> length (push x xs) \<le> cap"
    and push_suffix: "length xs \<le> cap \<Longrightarrow> \<exists>ys. xs @ [x] = ys @ push x xs"
    and push_keeps: "length xs < cap \<Longrightarrow> push x xs = xs @ [x]"
begin

lemma fold_cap: "length xs \<le> cap \<Longrightarrow> length (fold push zs xs) \<le> cap"
  by (induction zs arbitrary: xs) (auto intro: push_cap)

lemma push_set: "length xs \<le> cap \<Longrightarrow> set (push x xs) \<subseteq> insert x (set xs)"
  using push_suffix [of xs x] by (metis Un_insert_right list.simps(15) set_append set_append sup.cobounded2
      sup_bot.right_neutral empty_set)

lemma fold_set: "length xs \<le> cap \<Longrightarrow> set (fold push zs xs) \<subseteq> set xs \<union> set zs"
proof (induction zs arbitrary: xs)
  case (Cons z zs)
  have "set (fold push zs (push z xs)) \<subseteq> set (push z xs) \<union> set zs"
    by (rule Cons.IH) (rule push_cap [OF Cons.prems])
  with push_set [OF Cons.prems, of z] show ?case by auto
qed simp

lemma push_pred: "length xs \<le> cap \<Longrightarrow> list_all P xs \<Longrightarrow> P x \<Longrightarrow> list_all P (push x xs)"
  using push_set [of xs x] by (auto simp: list_all_iff)

lemma push_last: "length xs \<le> cap \<Longrightarrow> 0 < length (push x xs) \<Longrightarrow> last (push x xs) = x"
  using push_suffix [of xs x] by (metis last_appendR last_snoc length_greater_0_conv)

end

interpretation dq: bounded_window "dq_push n" n for n
  by unfold_locales (use dq_push_suffix in \<open>auto simp: dq_push_def Let_def\<close>)

interpretation win: bounded_window "win_push (Suc n)" "Suc n" for n
proof unfold_locales
  show "\<exists>ys. xs @ [x] = ys @ win_push (Suc n) x xs" for xs and x :: 'a
    by (rule win_push_suffix)
qed (auto simp: win_push_def Let_def)

subsection \<open>min and max with a key\<close>

text \<open>\<open>first_best better x xs\<close> scans from the left and moves on only to a strictly better
  item, as \<open>min(xs, key=...)\<close> and \<open>max(xs, key=...)\<close> do.\<close>

fun first_best :: "('a \<Rightarrow> 'a \<Rightarrow> bool) \<Rightarrow> 'a \<Rightarrow> 'a list \<Rightarrow> 'a" where
  "first_best better m [] = m"
| "first_best better m (x # xs) = first_best better (if better x m then x else m) xs"

lemma first_best_in: "first_best better m xs \<in> set (m # xs)"
proof (induction xs arbitrary: m)
  case (Cons x xs)
  from Cons.IH [of "if better x m then x else m"] show ?case by (auto split: if_splits)
qed simp

lemma first_best_pred: "P m \<Longrightarrow> (\<And>x. x \<in> set xs \<Longrightarrow> P x) \<Longrightarrow> P (first_best better m xs)"
  using first_best_in [of better m xs] by auto

text \<open>When \<open>better\<close> is a strict weak order on the items, nothing beats the result.\<close>

lemma first_best_best:
  assumes tr: "\<And>x y z. P x \<Longrightarrow> P y \<Longrightarrow> P z \<Longrightarrow> \<not> better x y \<Longrightarrow> \<not> better y z \<Longrightarrow> \<not> better x z"
    and as: "\<And>x y. P x \<Longrightarrow> P y \<Longrightarrow> better x y \<Longrightarrow> \<not> better y x"
    and ir: "\<And>x. P x \<Longrightarrow> \<not> better x x"
  shows "P m \<Longrightarrow> (\<And>x. x \<in> set xs \<Longrightarrow> P x) \<Longrightarrow> y \<in> set (m # xs) \<Longrightarrow> \<not> better y (first_best better m xs)"
proof (induction xs arbitrary: m y)
  case Nil
  then show ?case using ir by simp
next
  case (Cons x xs)
  let ?m = "if better x m then x else m"
  have Pm: "P ?m" using Cons.prems by simp
  have Px: "P x" using Cons.prems by simp
  have PF: "P (first_best better ?m xs)"
    using first_best_pred [of P ?m xs better] Pm Cons.prems(2) by simp
  have IH: "\<And>y. y \<in> set (?m # xs) \<Longrightarrow> \<not> better y (first_best better ?m xs)"
    using Cons.IH [OF Pm] Cons.prems(2) by simp
  have top: "\<not> better ?m (first_best better ?m xs)" by (rule IH) simp
  have m: "\<not> better m ?m" using as [of x m] ir Cons.prems(1) Px by simp
  have x: "\<not> better x ?m" using ir [of x] Px by simp
  from Cons.prems(3) consider "y = m" | "y = x" | "y \<in> set xs" by auto
  then show ?case
  proof cases
    case 1
    with tr [of m ?m "first_best better ?m xs"] m top Pm PF Cons.prems(1) show ?thesis by simp
  next
    case 2
    with tr [of x ?m "first_best better ?m xs"] x top Pm PF Px show ?thesis by simp
  next
    case 3
    then show ?thesis using IH [of y] by simp
  qed
qed

subsection \<open>Sorting floats and their median\<close>

fun finsert :: "pyfloat \<Rightarrow> pyfloat list \<Rightarrow> pyfloat list" where
  "finsert x [] = [x]"
| "finsert x (y # ys) = (if flt x y then x # y # ys else y # finsert x ys)"

definition fsort :: "pyfloat list \<Rightarrow> pyfloat list" where
  "fsort xs = fold finsert xs []"

text \<open>\<open>statistics.median\<close> of a non-empty list.\<close>

definition fmedian :: "pyfloat list \<Rightarrow> pyfloat" where
  "fmedian xs = (let s = fsort xs; n = length s
                 in if odd n then s ! (n div 2)
                    else fdiv (fadd (s ! (n div 2 - 1)) (s ! (n div 2))) (Fin 2))"

lemma set_finsert [simp]: "set (finsert x ys) = insert x (set ys)"
  by (induction ys) auto

lemma length_finsert [simp]: "length (finsert x ys) = Suc (length ys)"
  by (induction ys) auto

lemma set_fold_finsert: "set (fold finsert xs ys) = set xs \<union> set ys"
  by (induction xs arbitrary: ys) auto

lemma length_fold_finsert: "length (fold finsert xs ys) = length xs + length ys"
  by (induction xs arbitrary: ys) auto

lemma set_fsort [simp]: "set (fsort xs) = set xs" and length_fsort [simp]: "length (fsort xs) = length xs"
  by (simp_all add: fsort_def set_fold_finsert length_fold_finsert)

lemma finsert_sorted:
  "sorted_wrt fle ys \<Longrightarrow> x \<noteq> NaN \<Longrightarrow> NaN \<notin> set ys \<Longrightarrow> sorted_wrt fle (finsert x ys)"
proof (induction ys)
  case (Cons y ys)
  show ?case
  proof (cases "flt x y")
    case True
    with Cons.prems show ?thesis by (auto intro: flt_fle fle_trans)
  next
    case False
    with Cons.prems have "fle y x" using not_flt [of x y] by auto
    with False Cons show ?thesis by auto
  qed
qed simp

lemma fold_finsert_sorted:
  "sorted_wrt fle ys \<Longrightarrow> NaN \<notin> set xs \<Longrightarrow> NaN \<notin> set ys \<Longrightarrow> sorted_wrt fle (fold finsert xs ys)"
proof (induction xs arbitrary: ys)
  case (Cons x xs)
  show ?case using Cons.prems Cons.IH [of "finsert x ys"] finsert_sorted [of ys x] by auto
qed simp

lemma fsort_sorted: "NaN \<notin> set xs \<Longrightarrow> sorted_wrt fle (fsort xs)"
  unfolding fsort_def by (rule fold_finsert_sorted) auto

subsection \<open>Datetimes\<close>

text \<open>
  A datetime is its wall clock in microseconds since the epoch and its offset from UTC, in
  microseconds, when it is aware. A timedelta is a number of microseconds. Order and
  difference of a naive and an aware datetime raise \<open>TypeError\<close>. The bounds of the years
  1 to 9999 are not modelled.
\<close>

record datetime =
  dt_wall :: int
  dt_off :: "int option"

definition naive :: "int \<Rightarrow> datetime" where
  "naive w = \<lparr>dt_wall = w, dt_off = None\<rparr>"

definition aware_utc :: "int \<Rightarrow> datetime" where
  "aware_utc w = \<lparr>dt_wall = w, dt_off = Some 0\<rparr>"

definition dt_instant :: "datetime \<Rightarrow> int" where
  "dt_instant d = dt_wall d - (case dt_off d of None \<Rightarrow> 0 | Some o' \<Rightarrow> o')"

definition dt_comparable :: "datetime \<Rightarrow> datetime \<Rightarrow> bool" where
  "dt_comparable a b = ((dt_off a = None) = (dt_off b = None))"

text \<open>\<open>==\<close> never raises: a naive and an aware datetime differ.\<close>

definition dt_eq :: "datetime \<Rightarrow> datetime \<Rightarrow> bool" where
  "dt_eq a b = (dt_comparable a b \<and> dt_instant a = dt_instant b)"

definition dt_le :: "datetime \<Rightarrow> datetime \<Rightarrow> bool res" where
  "dt_le a b = (if dt_comparable a b then Ok (dt_instant a \<le> dt_instant b) else Raise TypeError)"

definition dt_lt :: "datetime \<Rightarrow> datetime \<Rightarrow> bool res" where
  "dt_lt a b = (if dt_comparable a b then Ok (dt_instant a < dt_instant b) else Raise TypeError)"

definition dt_sub :: "datetime \<Rightarrow> datetime \<Rightarrow> int res" where
  "dt_sub a b = (if dt_comparable a b then Ok (dt_instant a - dt_instant b) else Raise TypeError)"

definition dt_add :: "datetime \<Rightarrow> int \<Rightarrow> datetime" where
  "dt_add a us = a\<lparr>dt_wall := dt_wall a + us\<rparr>"

text \<open>\<open>replace(tzinfo=None)\<close> keeps the wall clock.\<close>

definition dt_naive :: "datetime \<Rightarrow> datetime" where
  "dt_naive a = a\<lparr>dt_off := None\<rparr>"

definition total_seconds :: "int \<Rightarrow> pyfloat" where
  "total_seconds us = rnd (of_int us / 1000000)"

lemma dt_comparable_simps [simp]:
  "dt_comparable a a" "dt_comparable (dt_naive a) (dt_naive b)" "dt_comparable (dt_add a us) b = dt_comparable a b"
  "dt_comparable a (dt_add b us) = dt_comparable a b"
  by (simp_all add: dt_comparable_def dt_naive_def dt_add_def)

lemma dt_instant_add [simp]: "dt_instant (dt_add a us) = dt_instant a + us"
  by (simp add: dt_instant_def dt_add_def split: option.splits)

lemma dt_comparable_sym: "dt_comparable a b = dt_comparable b a"
  by (auto simp: dt_comparable_def)

lemma dt_eq_refl [simp]: "dt_eq a a"
  by (simp add: dt_eq_def)

end
