(* ===== verification/DomainModels.thy ===== *)
theory DomainModels
  imports PyBase
begin

section \<open>Domain models (src/core/domain)\<close>

text \<open>
  The enums and frozen dataclasses the engine passes around. A field keeps the source's
  name behind a two- or three-letter prefix of its class, so that \<open>tk_bid\<close> is
  \<open>TickNode.bid\<close>. \<open>Optional\<close> is \<open>option\<close>; \<open>dataclasses.replace\<close> is record update. The
  functions \<open>..._value\<close> are the \<open>.value\<close> of an enum where the code reads it.
\<close>

subsection \<open>Constants\<close>

datatype market_regime =
    HIGH_VOLATILITY_EXPANSION | HIGH_VOLATILITY_REVERSAL | LOW_VOLATILITY_COMPRESSION | UNKNOWN

datatype session_state =
    ASI_ACCUMULATION | ASIAN_SESSION | LONDON_SESSION | LONDON_KILLZONE | NEWYORK_SESSION
  | NEWYORK_KILLZONE | OVERLAP | POST_NY_RESET | SYSTEM_SHUTDOWN

fun session_value :: "session_state \<Rightarrow> string" where
  "session_value ASI_ACCUMULATION = ''ASI_ACCUMULATION''"
| "session_value ASIAN_SESSION = ''ASIAN_SESSION''"
| "session_value LONDON_SESSION = ''LONDON_SESSION''"
| "session_value LONDON_KILLZONE = ''LONDON_KILLZONE''"
| "session_value NEWYORK_SESSION = ''NEWYORK_SESSION''"
| "session_value NEWYORK_KILLZONE = ''NEWYORK_KILLZONE''"
| "session_value OVERLAP = ''OVERLAP''"
| "session_value POST_NY_RESET = ''POST_NY_RESET''"
| "session_value SYSTEM_SHUTDOWN = ''SYSTEM_SHUTDOWN''"

datatype order_direction = BUY | SELL

fun direction_value :: "order_direction \<Rightarrow> string" where
  "direction_value BUY = ''BUY''"
| "direction_value SELL = ''SELL''"

datatype event_priority = CRITICAL | HIGH | NORMAL | LOW

fun priority_value :: "event_priority \<Rightarrow> nat" where
  "priority_value CRITICAL = 0"
| "priority_value HIGH = 1"
| "priority_value NORMAL = 2"
| "priority_value LOW = 3"

lemma priority_value_inj [simp]: "priority_value a = priority_value b \<longleftrightarrow> a = b"
  by (cases a; cases b) auto

text \<open>The enum is an \<open>int\<close>: its members are ordered by value.\<close>

instantiation event_priority :: linorder
begin

definition less_eq_event_priority :: "event_priority \<Rightarrow> event_priority \<Rightarrow> bool" where
  "less_eq_event_priority a b \<longleftrightarrow> priority_value a \<le> priority_value b"

definition less_event_priority :: "event_priority \<Rightarrow> event_priority \<Rightarrow> bool" where
  "less_event_priority a b \<longleftrightarrow> priority_value a < priority_value b"

instance
  by standard (auto simp: less_eq_event_priority_def less_event_priority_def)

end

datatype event_type =
    MARKET_TICK | CANDLE_CLOSED | STRUCTURE_SHIFT | LIQUIDITY_SWEPT | SETUP_FOUND
  | RISK_APPROVED | ORDER_SUBMITTED | ORDER_FILLED | TELEMETRY_HEARTBEAT | SYSTEM_CRITICAL_HALT

subsection \<open>Market data\<close>

record tick_node =
  tk_symbol :: string
  tk_timestamp :: datetime
  tk_bid :: pyfloat
  tk_ask :: pyfloat
  tk_volume :: int
  tk_sequence_id :: int
  tk_trace_id :: string
  tk_correlation_id :: string
  tk_priority :: event_priority

definition tick_mid :: "tick_node \<Rightarrow> pyfloat" where
  "tick_mid t = fdiv (fadd (tk_bid t) (tk_ask t)) (Fin 2)"

definition tick_spread :: "tick_node \<Rightarrow> pyfloat" where
  "tick_spread t = fsub (tk_ask t) (tk_bid t)"

record candle_node =
  cn_symbol :: string
  cn_timeframe :: string
  cn_start_time :: datetime
  cn_end_time :: datetime
  cn_open_p :: pyfloat
  cn_high_p :: pyfloat
  cn_low_p :: pyfloat
  cn_close_p :: pyfloat
  cn_volume :: int
  cn_ticks_count :: int
  cn_is_closed :: bool
  cn_sequence_id :: int
  cn_trace_id :: string
  cn_correlation_id :: string
  cn_priority :: event_priority

subsection \<open>Execution\<close>

datatype order_type = MARKET | LIMIT | STOP

datatype order_status = PENDING_SUBMIT | ACKNOWLEDGED | PARTIALLY_FILLED | FILLED | REJECTED | CANCELED

fun status_value :: "order_status \<Rightarrow> string" where
  "status_value PENDING_SUBMIT = ''PENDING_SUBMIT''"
| "status_value ACKNOWLEDGED = ''ACKNOWLEDGED''"
| "status_value PARTIALLY_FILLED = ''PARTIALLY_FILLED''"
| "status_value FILLED = ''FILLED''"
| "status_value REJECTED = ''REJECTED''"
| "status_value CANCELED = ''CANCELED''"

record order_request =
  rq_client_order_id :: string
  rq_symbol :: string
  rq_direction :: order_direction
  rq_quantity_lots :: pyfloat
  rq_entry_price :: pyfloat
  rq_stop_loss :: pyfloat
  rq_take_profit :: pyfloat
  rq_idempotency_key :: string
  rq_timestamp :: datetime
  rq_order_type :: order_type

record execution_report =
  xr_execution_id :: string
  xr_client_order_id :: string
  xr_broker_order_id :: string
  xr_timestamp :: datetime
  xr_status :: order_status
  xr_filled_quantity :: pyfloat
  xr_remaining_quantity :: pyfloat
  xr_average_fill_price :: pyfloat
  xr_last_fill_price :: pyfloat
  xr_slippage_pips :: pyfloat
  xr_rejection_reason :: "string option"

record position_protection_report =
  pp_position_ticket :: int
  pp_timestamp :: datetime
  pp_requested_stop_loss :: pyfloat
  pp_retained_take_profit :: pyfloat
  pp_applied :: bool
  pp_dry_run :: bool
  pp_rejection_reason :: "string option"

record position_snapshot =
  ps_symbol :: string
  ps_net_quantity_lots :: pyfloat
  ps_average_entry_price :: pyfloat
  ps_floating_pnl_pips :: pyfloat
  ps_ticket :: int
  ps_direction :: "order_direction option"
  ps_stop_loss :: pyfloat
  ps_take_profit :: pyfloat
  ps_current_price :: pyfloat

subsection \<open>Setups, confirmation, scoring and risk\<close>

datatype setup_type = LIQUIDITY_SWEEP_REVERSAL | ORDER_BLOCK_CONTINUATION | FVG_CONTINUATION

datatype setup_quality_tier = INVALID_SETUP | STANDARD | HIGH_PROBABILITY | ELITE_INSTITUTIONAL

record setup_node =
  sn_id :: string
  sn_setup_type :: setup_type
  sn_direction :: order_direction
  sn_entry_price :: pyfloat
  sn_stop_loss :: pyfloat
  sn_take_profit :: pyfloat
  sn_estimated_rr :: pyfloat
  sn_quality_tier :: setup_quality_tier
  sn_confidence_score :: pyfloat
  sn_creation_time :: datetime
  sn_expiration_time :: datetime
  sn_correlation_id :: string
  sn_timeframe :: string

datatype confirmation_tier = INVALID | LOW_CONVICTION | MEDIUM_CONVICTION | HIGH_CONVICTION

datatype alignment_status = CONFLICTED | PARTIALLY_ALIGNED | FULLY_ALIGNED

record confirmation_metrics =
  cm_momentum_velocity_score :: pyfloat
  cm_displacement_ratio :: pyfloat
  cm_wick_rejection_pct :: pyfloat
  cm_mtf_alignment_score :: pyfloat
  cm_volatility_expansion_factor :: pyfloat
  cm_session_efficiency_index :: pyfloat

record confirmation_snapshot =
  cs_timestamp :: datetime
  cs_overall_tier :: confirmation_tier
  cs_confidence_score :: pyfloat
  cs_is_validated :: bool
  cs_alignment :: alignment_status
  cs_metrics :: confirmation_metrics
  cs_validated_components :: "string list"
  cs_invalidation_reasons :: "string list"

datatype ranked_trade_tier =
    ELITE_INSTITUTIONAL_TRADE | HIGH_PROBABILITY_TRADE | MODERATE_TRADE | REJECT_TRADE

record scoring_breakdown =
  sb_structure_score :: pyfloat
  sb_liquidity_score :: pyfloat
  sb_momentum_score :: pyfloat
  sb_volatility_score :: pyfloat
  sb_rr_score :: pyfloat
  sb_execution_score :: pyfloat
  sb_raw_total :: pyfloat
  sb_applied_penalties :: pyfloat
  sb_normalized_final_score :: pyfloat

record prioritized_node =
  pn_setup_id :: string
  pn_allocation_priority :: int
  pn_ranked_tier :: ranked_trade_tier
  pn_score_breakdown :: scoring_breakdown
  pn_qualification_timestamp :: datetime
  pn_execution_multiplier :: pyfloat
  pn_is_live_executable :: bool
  pn_rejection_payload :: "string list"

datatype risk_safety_tier = REJECT | CONTROLLED_RISK | SAFE_INSTITUTIONAL

datatype risk_halt_state =
    NOMINAL | DAILY_LOSS_BREACHED | CONSECUTIVE_LOSS_BREACHED | TRADING_HALTED

fun halt_name :: "risk_halt_state \<Rightarrow> string" where
  "halt_name NOMINAL = ''NOMINAL''"
| "halt_name DAILY_LOSS_BREACHED = ''DAILY_LOSS_BREACHED''"
| "halt_name CONSECUTIVE_LOSS_BREACHED = ''CONSECUTIVE_LOSS_BREACHED''"
| "halt_name TRADING_HALTED = ''TRADING_HALTED''"

record sizing_payload =
  sz_calculated_lots :: pyfloat
  sz_risk_percentage_applied :: pyfloat
  sz_currency_risk :: pyfloat

record broker_sizing_spec =
  bs_symbol :: string
  bs_account_equity :: pyfloat
  bs_account_currency :: string
  bs_volume_min :: pyfloat
  bs_volume_step :: pyfloat
  bs_volume_max :: pyfloat

record presubmission_assessment =
  pa_is_approved :: bool
  pa_live_entry_price :: pyfloat
  pa_normalized_lots :: pyfloat
  pa_currency_risk :: pyfloat
  pa_maximum_currency_risk :: pyfloat
  pa_spread_price :: pyfloat
  pa_quote_age_seconds :: pyfloat
  pa_rejection_reasons :: "string list"
  pa_requested_lots :: pyfloat
  pa_adapted_to_fit_risk :: bool
  pa_demo_minimum_lot_override :: bool

record risk_snapshot =
  rs_timestamp :: datetime
  rs_is_approved :: bool
  rs_safety_tier :: risk_safety_tier
  rs_halt_state :: risk_halt_state
  rs_sizing :: sizing_payload
  rs_applied_spread_pips :: pyfloat
  rs_rejection_reasons :: "string list"

subsection \<open>Structure and liquidity\<close>

datatype structural_point_type = SWING_HIGH | SWING_LOW

datatype structure_break_type = BOS | MSS | CHOCH

record swing_point =
  sp_id :: string
  sp_symbol :: string
  sp_timeframe :: string
  sp_point_type :: structural_point_type
  sp_timestamp :: datetime
  sp_price :: pyfloat
  sp_confidence :: pyfloat

record liquidity_pool =
  lp_id :: string
  lp_timeframe :: string
  lp_is_buy_side :: bool
  lp_is_equal_structure :: bool
  lp_ceiling_price :: pyfloat
  lp_floor_price :: pyfloat
  lp_accumulated_touches :: int
  lp_is_swept :: bool
  lp_sweep_timestamp :: "datetime option"

subsection \<open>Regimes\<close>

datatype regime_type =
    ILLIQUID_DEAD_ZONE | POST_NEWS_CHAOS | MOMENTUM_ACCELERATION | VOLATILITY_EXPANSION
  | VOLATILITY_COMPRESSION | TRENDING_STRONG | TRENDING_WEAK | RANGE_BOUND

record environment_metrics =
  em_volatility_ratio :: pyfloat
  em_tick_velocity_per_second :: pyfloat
  em_mean_candle_spread_pips :: pyfloat
  em_wick_expansion_coefficient :: pyfloat
  em_trend_strength_adx :: pyfloat
  em_volume_z_score :: pyfloat
  em_confidence_score :: pyfloat
  em_regime_decay_factor :: pyfloat

subsection \<open>The runtime state\<close>

text \<open>\<open>current_regime\<close> is annotated \<open>MarketRegime | str\<close>: an enum member or a plain string.\<close>

datatype regime_label = Regime market_regime | RegimeText string

record market_domain_state =
  md_last_tick_time :: datetime
  md_current_ask :: pyfloat
  md_current_bid :: pyfloat
  md_current_mid :: pyfloat
  md_current_spread :: pyfloat
  md_accumulated_tick_count :: int
  md_is_synchronized :: bool

record session_domain_state =
  sd_current_phase :: session_state
  sd_last_phase_transition :: datetime
  sd_killzone_active :: bool
  sd_killzone_name :: "string option"

record regime_domain_state =
  rd_current_regime :: regime_label
  rd_volatility_ratio :: pyfloat
  rd_volume_z_score :: pyfloat
  rd_last_calculated_at :: datetime

record position_domain_state =
  pd_net_exposure_lots :: pyfloat
  pd_floating_pnl_pips :: pyfloat
  pd_active_position_count :: int
  pd_daily_realized_loss_pct :: pyfloat
  pd_is_trading_halted :: bool

record health_domain_state =
  hd_uptime_seconds :: pyfloat
  hd_event_bus_queue_backpressure :: int
  hd_broker_latency_ms :: pyfloat
  hd_memory_usage_bytes :: int
  hd_last_heartbeat :: datetime

record engine_state =
  es_sequence_id :: int
  es_timestamp :: datetime
  es_correlation_id :: string
  es_market :: market_domain_state
  es_session :: session_domain_state
  es_regime :: regime_domain_state
  es_positions :: position_domain_state
  es_health :: health_domain_state

text \<open>The \<open>is_killzone_active\<close> property of the session state.\<close>

definition is_killzone_active :: "session_domain_state \<Rightarrow> bool" where
  "is_killzone_active s = sd_killzone_active s"

end
