(* ===== verification/EventBus.thy ===== *)
theory EventBus
  imports DomainModels "HOL-Library.Multiset"
begin

section \<open>The event bus and the lifecycle manager (src/core/events, src/core/lifecycle_manager.py)\<close>

text \<open>
  The bus holds a priority queue of \<open>(priority, sequence, type, payload)\<close> and the callbacks
  registered for each event type. The queue is kept sorted by \<open>(priority, sequence)\<close>, which is
  the order a heap of these tuples is popped in: the sequence numbers differ, so the
  comparison never reaches the event type. \<open>publish\<close> on a full queue suspends the publisher:
  its item waits, and \<open>resume_putter\<close> is the moment the event loop runs the first suspended publisher
  again, which goes to the end of the line when others have filled the queue meanwhile. One \<open>drain_step\<close> is one round of the dispatch loop. What a callback does is the
  argument \<open>fails\<close>, which says whether it raises; events that a callback publishes are
  publish steps of the run.
\<close>

subsection \<open>Payloads\<close>

record base_event =
  be_timestamp :: datetime
  be_sequence_id :: int
  be_trace_id :: string
  be_correlation_id :: string
  be_priority :: event_priority

record market_tick = base_event +
  mt_symbol :: string
  mt_ask_price :: pyfloat
  mt_bid_price :: pyfloat
  mt_ask_volume :: int
  mt_bid_volume :: int
  mt_tick_sequence :: int

definition market_tick_mid :: "market_tick \<Rightarrow> pyfloat" where
  "market_tick_mid t = fdiv (fadd (mt_ask_price t) (mt_bid_price t)) (Fin 2)"

definition market_tick_spread :: "market_tick \<Rightarrow> pyfloat" where
  "market_tick_spread t = fsub (mt_ask_price t) (mt_bid_price t)"

datatype payload = BaseP base_event | TickP tick_node | CandleP candle_node

fun payload_priority :: "payload \<Rightarrow> event_priority" where
  "payload_priority (BaseP e) = be_priority e"
| "payload_priority (TickP t) = tk_priority t"
| "payload_priority (CandleP c) = cn_priority c"

subsection \<open>The queue\<close>

type_synonym qitem = "nat \<times> nat \<times> event_type \<times> payload"

fun item_key :: "qitem \<Rightarrow> nat \<times> nat" where
  "item_key (p, s, _) = (p, s)"

fun key_less :: "nat \<times> nat \<Rightarrow> nat \<times> nat \<Rightarrow> bool" where
  "key_less (p, s) (p', s') = (p < p' \<or> (p = p' \<and> s < s'))"

fun pq_insert :: "qitem \<Rightarrow> qitem list \<Rightarrow> qitem list" where
  "pq_insert x [] = [x]"
| "pq_insert x (y # ys) =
     (if key_less (item_key x) (item_key y) then x # y # ys else y # pq_insert x ys)"

subsection \<open>The bus\<close>

record 'h event_bus =
  bus_subscribers :: "(event_type, 'h list) dict"
  bus_queue :: "qitem list"
  bus_waiting :: "qitem list"
  bus_max_size :: nat
  bus_sequence :: nat
  bus_failures :: nat
  bus_running :: bool

definition bus_new :: "int \<Rightarrow> 'h event_bus res" where
  "bus_new max_queue_size =
     (if max_queue_size \<le> 0 then Raise (ValueError ''Event bus queue size must be positive.'')
      else Ok \<lparr>bus_subscribers = [], bus_queue = [], bus_waiting = [], bus_max_size = nat max_queue_size,
               bus_sequence = 0, bus_failures = 0, bus_running = False\<rparr>)"

definition bus_start :: "'h event_bus \<Rightarrow> 'h event_bus" where
  "bus_start b = b\<lparr>bus_running := True\<rparr>"

definition bus_stop :: "'h event_bus \<Rightarrow> 'h event_bus" where
  "bus_stop b = b\<lparr>bus_running := False\<rparr>"

text \<open>\<open>_subscribers\<close> is a \<open>defaultdict(list)\<close>: looking a type up creates its empty list.\<close>

definition subs_of :: "'h event_bus \<Rightarrow> event_type \<Rightarrow> 'h list" where
  "subs_of b t = (case map_of (bus_subscribers b) t of None \<Rightarrow> [] | Some hs \<Rightarrow> hs)"

definition subscribe :: "event_type \<Rightarrow> 'h \<Rightarrow> 'h event_bus \<Rightarrow> 'h event_bus" where
  "subscribe t h b =
     b\<lparr>bus_subscribers := AList.update t (if h \<in> set (subs_of b t) then subs_of b t else subs_of b t @ [h])
                           (bus_subscribers b)\<rparr>"

definition bus_full :: "'h event_bus \<Rightarrow> bool" where
  "bus_full b \<longleftrightarrow> bus_max_size b \<le> length (bus_queue b)"

definition publish :: "event_type \<Rightarrow> payload \<Rightarrow> 'h event_bus \<Rightarrow> 'h event_bus res" where
  "publish t ev b =
     (if \<not> bus_running b
        then Raise (RuntimeError ''Cannot publish events into an inactive routing engine context.'')
      else let item = (priority_value (payload_priority ev), bus_sequence b, t, ev);
               b' = b\<lparr>bus_sequence := Suc (bus_sequence b)\<rparr>
           in Ok (if bus_full b then b'\<lparr>bus_waiting := bus_waiting b @ [item]\<rparr>
                  else b'\<lparr>bus_queue := pq_insert item (bus_queue b)\<rparr>))"

definition resume_putter :: "'h event_bus \<Rightarrow> 'h event_bus" where
  "resume_putter b =
     (case bus_waiting b of
        [] \<Rightarrow> b
      | x # xs \<Rightarrow> if bus_full b then b\<lparr>bus_waiting := xs @ [x]\<rparr>
                  else b\<lparr>bus_queue := pq_insert x (bus_queue b), bus_waiting := xs\<rparr>)"

text \<open>One round of \<open>_drain_queue_loop\<close>: pop the least item, run every handler registered for
  its type, count the handlers that raised. The result lists the calls made. On an empty
  queue the loop waits (\<open>None\<close>); when stopped, the loop is over (\<open>None\<close>).\<close>

definition drain_step ::
  "('h \<Rightarrow> payload \<Rightarrow> bool) \<Rightarrow> 'h event_bus \<Rightarrow> (('h \<times> payload) list \<times> 'h event_bus) option" where
  "drain_step fails b =
     (if \<not> bus_running b then None
      else case bus_queue b of
        [] \<Rightarrow> None
      | (p, s, t, ev) # q \<Rightarrow>
          (let handlers = subs_of b t
           in Some (map (\<lambda>h. (h, ev)) handlers,
                    b\<lparr>bus_queue := q,
                      bus_failures := bus_failures b + length (filter (\<lambda>h. fails h ev) handlers)\<rparr>)))"

subsection \<open>Runs\<close>

datatype 'h bus_op = BStart | BStop | BSubscribe event_type 'h | BPublish event_type payload | BResume | BDrain

fun bus_step :: "('h \<Rightarrow> payload \<Rightarrow> bool) \<Rightarrow> 'h bus_op \<Rightarrow> 'h event_bus \<Rightarrow> 'h event_bus" where
  "bus_step fails BStart b = bus_start b"
| "bus_step fails BStop b = bus_stop b"
| "bus_step fails (BSubscribe t h) b = subscribe t h b"
| "bus_step fails (BPublish t ev) b = (case publish t ev b of Inl _ \<Rightarrow> b | Inr b' \<Rightarrow> b')"
| "bus_step fails BResume b = resume_putter b"
| "bus_step fails BDrain b = (case drain_step fails b of None \<Rightarrow> b | Some (_, b') \<Rightarrow> b')"

fun bus_run :: "('h \<Rightarrow> payload \<Rightarrow> bool) \<Rightarrow> 'h bus_op list \<Rightarrow> 'h event_bus \<Rightarrow> 'h event_bus" where
  "bus_run fails [] b = b"
| "bus_run fails (x # xs) b = bus_run fails xs (bus_step fails x b)"

text \<open>Drain until the queue is empty: what the loop delivers when nobody publishes.\<close>

fun drain_all :: "nat \<Rightarrow> ('h \<Rightarrow> payload \<Rightarrow> bool) \<Rightarrow> 'h event_bus \<Rightarrow> ('h \<times> payload) list \<times> 'h event_bus" where
  "drain_all 0 fails b = ([], b)"
| "drain_all (Suc n) fails b =
     (case drain_step fails b of
        None \<Rightarrow> ([], b)
      | Some (calls, b') \<Rightarrow> (let (rest, b'') = drain_all n fails b' in (calls @ rest, b'')))"

subsection \<open>Facts about the queue\<close>

lemma key_less_trans: "key_less a b \<Longrightarrow> key_less b c \<Longrightarrow> key_less a c"
  by (cases a; cases b; cases c) auto

lemma key_less_linear: "a \<noteq> b \<Longrightarrow> \<not> key_less a b \<Longrightarrow> key_less b a"
  by (cases a; cases b) auto

lemma set_pq_insert [simp]: "set (pq_insert x q) = insert x (set q)"
  by (induction q) auto

lemma length_pq_insert [simp]: "length (pq_insert x q) = Suc (length q)"
  by (induction q) auto

lemma mset_pq_insert [simp]: "mset (pq_insert x q) = add_mset x (mset q)"
  by (induction q) auto

abbreviation q_sorted :: "qitem list \<Rightarrow> bool" where
  "q_sorted \<equiv> sorted_wrt (\<lambda>x y. key_less (item_key x) (item_key y))"

lemma pq_insert_sorted:
  "q_sorted q \<Longrightarrow> item_key x \<notin> item_key ` set q \<Longrightarrow> q_sorted (pq_insert x q)"
proof (induction q)
  case (Cons y q)
  show ?case
  proof (cases "key_less (item_key x) (item_key y)")
    case True
    with Cons.prems show ?thesis by (auto intro: key_less_trans)
  next
    case False
    with Cons.prems have "key_less (item_key y) (item_key x)" by (intro key_less_linear) auto
    with False Cons show ?thesis by auto
  qed
qed simp

text \<open>The invariant: the queue is sorted, no sequence number occurs twice among the queued
  and the waiting items, and all are below the counter.\<close>

fun item_seq :: "qitem \<Rightarrow> nat" where
  "item_seq (_, s, _) = s"

definition pend_inv :: "qitem list \<Rightarrow> qitem list \<Rightarrow> nat \<Rightarrow> bool" where
  "pend_inv q w n \<longleftrightarrow> q_sorted q \<and> distinct (map item_seq (q @ w)) \<and> (\<forall>s \<in> item_seq ` set (q @ w). s < n)"

definition bus_inv :: "'h event_bus \<Rightarrow> bool" where
  "bus_inv b \<longleftrightarrow> pend_inv (bus_queue b) (bus_waiting b) (bus_sequence b)
     \<and> length (bus_queue b) \<le> bus_max_size b \<and> (\<forall>t. distinct (subs_of b t))"

lemma item_key_seq: "item_seq x \<notin> item_seq ` A \<Longrightarrow> item_key x \<notin> item_key ` A"
  by (cases x) (force simp: image_iff)

lemma distinct_seq_insert:
  "distinct (map item_seq (pq_insert x q)) \<longleftrightarrow> distinct (map item_seq (x # q))"
  by (induction q) auto

lemma pend_inv_put:
  assumes "pend_inv q w n" "item_seq x = n"
  shows "pend_inv (pq_insert x q) w (Suc n)" and "pend_inv q (w @ [x]) (Suc n)"
proof -
  have new: "item_seq x \<notin> item_seq ` set q" "item_seq x \<notin> item_seq ` set w"
    using assms unfolding pend_inv_def set_append image_Un by blast+
  show "pend_inv (pq_insert x q) w (Suc n)"
    using assms new pq_insert_sorted [of q x] item_key_seq [OF new(1)] distinct_seq_insert [of x q]
    by (simp add: pend_inv_def) (simp add: less_Suc_eq ball_Un)
  show "pend_inv q (w @ [x]) (Suc n)"
    using assms new by (simp add: pend_inv_def less_Suc_eq ball_Un)
qed

lemma pend_inv_resume:
  assumes "pend_inv q (x # w) n"
  shows "pend_inv (pq_insert x q) w n"
proof -
  have new: "item_seq x \<notin> item_seq ` set q" using assms by (simp add: pend_inv_def)
  show ?thesis
    using assms new pq_insert_sorted [of q x] item_key_seq [OF new] distinct_seq_insert [of x q]
    by (simp add: pend_inv_def ball_Un)
qed

lemma pend_inv_rotate: "pend_inv q (x # w) n \<Longrightarrow> pend_inv q (w @ [x]) n"
  by (auto simp: pend_inv_def)

lemma pend_inv_pop: "pend_inv (x # q) w n \<Longrightarrow> pend_inv q w n"
  by (simp add: pend_inv_def)

lemma bus_inv_new: "bus_new n = Ok b \<Longrightarrow> bus_inv b"
  by (auto simp: bus_new_def bus_inv_def pend_inv_def subs_of_def split: if_splits)

lemma subs_of_subscribe: "subs_of (subscribe t h b) t' =
    (if t' = t then (if h \<in> set (subs_of b t) then subs_of b t else subs_of b t @ [h]) else subs_of b t')"
  by (simp add: subs_of_def subscribe_def)

lemma subs_of_cong: "bus_subscribers b' = bus_subscribers b \<Longrightarrow> subs_of b' = subs_of b"
  by (simp add: subs_of_def fun_eq_iff)

lemma subs_of_frame [simp]:
  "subs_of (b\<lparr>bus_queue := q\<rparr>) = subs_of b" "subs_of (b\<lparr>bus_waiting := w\<rparr>) = subs_of b"
  "subs_of (b\<lparr>bus_sequence := n\<rparr>) = subs_of b" "subs_of (b\<lparr>bus_failures := n\<rparr>) = subs_of b"
  "subs_of (b\<lparr>bus_running := r\<rparr>) = subs_of b"
  by (rule subs_of_cong, simp)+

lemma publish_inv: "bus_inv b \<Longrightarrow> publish t ev b = Ok b' \<Longrightarrow> bus_inv b'"
  by (cases "bus_running b"; cases "bus_full b")
     (auto simp: publish_def Let_def bus_inv_def bus_full_def simp del: append_assoc intro!: pend_inv_put)

lemma resume_inv: "bus_inv b \<Longrightarrow> bus_inv (resume_putter b)"
  by (cases "bus_waiting b"; cases "bus_full b")
     (auto simp: resume_putter_def bus_inv_def bus_full_def intro: pend_inv_resume pend_inv_rotate)

lemma drain_inv:
  assumes "bus_inv b" "drain_step fails b = Some (calls, b')"
  shows "bus_inv b'"
proof (cases "bus_queue b")
  case Nil
  with assms(2) show ?thesis by (simp add: drain_step_def split: if_splits)
next
  case (Cons x q)
  obtain p s t ev where x: "x = (p, s, t, ev)" by (cases x)
  show ?thesis using assms pend_inv_pop [of x q]
    by (auto simp: drain_step_def bus_inv_def Let_def Cons x split: if_splits)
qed

lemma subscribe_inv: "bus_inv b \<Longrightarrow> bus_inv (subscribe t h b)"
  by (simp add: bus_inv_def subs_of_subscribe) (simp add: subscribe_def)

lemma bus_step_inv: "bus_inv b \<Longrightarrow> bus_inv (bus_step fails x b)"
proof (cases x)
  case (BPublish t ev)
  assume "bus_inv b"
  then show ?thesis unfolding BPublish by (auto split: sum.splits intro: publish_inv)
next
  case BDrain
  assume "bus_inv b"
  then show ?thesis unfolding BDrain by (auto split: option.splits intro: drain_inv)
qed (simp_all add: subscribe_inv resume_inv, simp_all add: bus_start_def bus_stop_def bus_inv_def)

lemma bus_run_inv: "bus_inv b \<Longrightarrow> bus_inv (bus_run fails xs b)"
  by (induction xs arbitrary: b) (auto intro: bus_step_inv)

text \<open>C17. In every run of a bus, whatever is interleaved, the queue is ordered by priority and,
  within a priority, by publication; no two pending items share a sequence number; the queue
  never exceeds its maximal size; and no callback is registered twice for an event type.\<close>

theorem bus_reachable_inv:
  assumes "bus_new n = Ok b"
  shows "let b' = bus_run fails xs b in
      sorted_wrt (\<lambda>x y. key_less (item_key x) (item_key y)) (bus_queue b')
    \<and> distinct (map item_seq (bus_queue b' @ bus_waiting b'))
    \<and> length (bus_queue b') \<le> bus_max_size b'
    \<and> (\<forall>t. distinct (subs_of b' t))"
  using bus_run_inv [OF bus_inv_new [OF assms]] by (simp add: bus_inv_def pend_inv_def Let_def)

definition demo_event :: "event_priority \<Rightarrow> payload" where
  "demo_event p = BaseP \<lparr>be_timestamp = naive 0, be_sequence_id = 0, be_trace_id = '''', be_correlation_id = '''', be_priority = p\<rparr>"

lemma demo_priority [simp]: "payload_priority (demo_event p) = p"
  by (simp add: demo_event_def)

theorem bus_reachable_inv_witness:
  "\<exists>b. bus_new 2 = Ok (b :: nat event_bus) \<and>
     length (bus_queue (bus_run (\<lambda>_ _. False)
       [BStart, BPublish MARKET_TICK (demo_event LOW), BPublish MARKET_TICK (demo_event HIGH)] b)) \<le> 2"
proof -
  obtain b :: "nat event_bus" where b: "bus_new 2 = Ok b" by (simp add: bus_new_def)
  then have m: "bus_max_size (bus_run (\<lambda>_ _. False)
       [BStart, BPublish MARKET_TICK (demo_event LOW), BPublish MARKET_TICK (demo_event HIGH)] b) = 2"
    by (auto simp: bus_new_def bus_start_def publish_def Let_def bus_full_def)
  show ?thesis using b m bus_reachable_inv [OF b, of "\<lambda>_ _. False"
        "[BStart, BPublish MARKET_TICK (demo_event LOW), BPublish MARKET_TICK (demo_event HIGH)]"]
    by (auto simp: Let_def)
qed

lemma drain_step_Cons:
  "bus_running b \<Longrightarrow> bus_queue b = (p, s, t, ev) # q \<Longrightarrow>
   \<exists>b'. drain_step fails b = Some (map (\<lambda>h. (h, ev)) (subs_of b t), b')
     \<and> bus_running b' \<and> bus_queue b' = q \<and> bus_subscribers b' = bus_subscribers b"
  by (simp add: drain_step_def Let_def)

text \<open>Draining calls every handler of every queued event, in the order of the queue.\<close>

lemma drain_queue_order:
  assumes "bus_running b"
  shows "fst (drain_all (length (bus_queue b)) fails b)
           = concat (map (\<lambda>(p, s, t, ev). map (\<lambda>h. (h, ev)) (subs_of b t)) (bus_queue b))
       \<and> bus_queue (snd (drain_all (length (bus_queue b)) fails b)) = []"
  using assms
proof (induction "bus_queue b" arbitrary: b)
  case Nil
  then show ?case by simp
next
  case (Cons x q)
  obtain p s t ev where x: "x = (p, s, t, ev)" by (cases x)
  from drain_step_Cons [OF Cons.prems Cons.hyps(2) [symmetric, unfolded x], of fails]
  obtain b' where b': "drain_step fails b = Some (map (\<lambda>h. (h, ev)) (subs_of b t), b')"
    "bus_running b'" "bus_queue b' = q" "bus_subscribers b' = bus_subscribers b" by blast
  from Cons.hyps(1) [of b'] b' have IH:
    "fst (drain_all (length q) fails b') = concat (map (\<lambda>(p, s, t, ev). map (\<lambda>h. (h, ev)) (subs_of b t)) q)"
    "bus_queue (snd (drain_all (length q) fails b')) = []"
    by (simp_all add: subs_of_cong [OF b'(4)])
  show ?case using IH b'(1) Cons.hyps(2) [symmetric] x by (simp add: split_beta Let_def)
qed

subsection \<open>From publication to delivery\<close>

text \<open>The queue is what a stable sort by priority makes of the publications.\<close>

fun item_priority :: "qitem \<Rightarrow> nat" where
  "item_priority (p, _) = p"

lemma item_priority_key: "item_priority x = fst (item_key x)"
  by (cases x) auto

lemma key_less_seq: "item_seq y < item_seq x \<Longrightarrow> key_less (item_key x) (item_key y) \<longleftrightarrow> item_priority x < item_priority y"
  by (cases x; cases y) auto

lemma pq_insert_split:
  assumes "\<forall>y\<in>set q. item_seq y < item_seq x"
  shows "pq_insert x q = takeWhile (\<lambda>y. item_priority y \<le> item_priority x) q @ x # dropWhile (\<lambda>y. item_priority y \<le> item_priority x) q"
  using assms by (induction q) (auto simp: key_less_seq not_less)

lemma insort_after_equals:
  fixes f :: "'a \<Rightarrow> nat"
  assumes "sorted (map f xs)"
  shows "takeWhile (\<lambda>y. f y \<le> f x) xs @ x # dropWhile (\<lambda>y. f y \<le> f x) xs = sort_key f (xs @ [x])"
proof (rule properties_for_sort_key [symmetric])
  let ?t = "takeWhile (\<lambda>y. f y \<le> f x) xs" and ?d = "dropWhile (\<lambda>y. f y \<le> f x) xs"
  have "mset xs = mset ?t + mset ?d" by (metis mset_append takeWhile_dropWhile_id)
  then show "mset (?t @ x # ?d) = mset (xs @ [x])" by simp
  have d: "f x < f y" if "y \<in> set ?d" for y
  proof -
    from that have "?d \<noteq> []" by (metis empty_iff list.set(1))
    then have "f x < f (hd ?d)" using hd_dropWhile [of "\<lambda>y. f y \<le> f x" xs] by (simp add: not_le)
    moreover have "sorted (map f ?d)" using assms sorted_wrt_drop [of "(\<le>)" "map f xs" "length ?t"]
      by (simp add: dropWhile_eq_drop drop_map)
    then have "f (hd ?d) \<le> f y" using that by (cases ?d) auto
    ultimately show ?thesis by simp
  qed
  show "filter (\<lambda>y. f k = f y) (?t @ x # ?d) = filter (\<lambda>y. f k = f y) (xs @ [x])" if "k \<in> set (?t @ x # ?d)" for k
  proof (cases "f k = f x")
    case True
    have "filter (\<lambda>y. f k = f y) ?d = []" using d True by (fastforce simp: filter_empty_conv)
    moreover have "filter (\<lambda>y. f k = f y) xs = filter (\<lambda>y. f k = f y) ?t @ filter (\<lambda>y. f k = f y) ?d"
      by (metis filter_append takeWhile_dropWhile_id)
    ultimately show ?thesis using True by simp
  next
    case False
    then show ?thesis by simp (metis filter_append takeWhile_dropWhile_id)
  qed
  have "sorted (map f ?t @ map f ?d)" using assms by (metis map_append takeWhile_dropWhile_id)
  then have parts: "sorted (map f ?t)" "sorted (map f ?d)" unfolding sorted_append by blast+
  have "f u \<le> f x" if "u \<in> set ?t" for u using set_takeWhileD [OF that] by simp
  with parts d show "sorted (map f (?t @ x # ?d))" by (fastforce simp: sorted_append intro: less_imp_le)
qed

lemma sort_key_snoc: "sort_key f (sort_key f xs @ [x]) = sort_key f (xs @ [x])"
proof (rule properties_for_sort_key)
  have "filter (\<lambda>y. f k = f y) ys = filter (\<lambda>y. f y = f k) ys" for k ys by (rule filter_cong) auto
  then show "filter (\<lambda>y. f k = f y) (sort_key f (xs @ [x])) = filter (\<lambda>y. f k = f y) (sort_key f xs @ [x])" for k
    by (simp only: filter_append sort_key_stable)
qed simp_all

lemma sort_key_map:
  assumes "\<And>x. x \<in> set xs \<Longrightarrow> f x = g (h x)"
  shows "map h (sort_key f xs) = sort_key g (map h xs)"
proof (rule properties_for_sort_key [symmetric])
  show "mset (map h (sort_key f xs)) = mset (map h xs)" by simp
  show "filter (\<lambda>y. g k = g y) (map h (sort_key f xs)) = filter (\<lambda>y. g k = g y) (map h xs)" for k
  proof -
    have "filter (\<lambda>y. g k = g (h y)) ys = filter (\<lambda>y. f y = g k) ys" if "set ys \<subseteq> set xs" for ys
      using that assms by (intro filter_cong) auto
    from this [of "sort_key f xs"] this [of xs] show ?thesis by (simp add: filter_map comp_def sort_key_stable)
  qed
  have "map g (map h (sort_key f xs)) = map f (sort_key f xs)" using assms by simp
  then show "sorted (map g (map h (sort_key f xs)))" by (simp only: sorted_sort_key)
qed

fun numbered_items :: "nat \<Rightarrow> (event_type \<times> payload) list \<Rightarrow> qitem list" where
  "numbered_items n [] = []"
| "numbered_items n ((t, ev) # evs) = (priority_value (payload_priority ev), n, t, ev) # numbered_items (Suc n) evs"

lemma numbered_items_snoc:
  "numbered_items n (evs @ [(t, ev)]) = numbered_items n evs @ [(priority_value (payload_priority ev), n + length evs, t, ev)]"
  by (induction n evs rule: numbered_items.induct) auto

lemma numbered_items_facts:
  "x \<in> set (numbered_items n evs) \<Longrightarrow> item_seq x < n + length evs \<and> item_priority x = (case x of (p, s, t, ev) \<Rightarrow> priority_value (payload_priority ev))"
  by (induction n evs rule: numbered_items.induct) auto

lemma numbered_items_events: "map (\<lambda>(p, s, t, ev). (t, ev)) (numbered_items n evs) = evs"
  by (induction n evs rule: numbered_items.induct) auto

abbreviation publications :: "(event_type \<times> payload) list \<Rightarrow> 'h bus_op list" where
  "publications evs \<equiv> map (\<lambda>(t, ev). BPublish t ev) evs"

lemma bus_run_append: "bus_run fails (xs @ ys) b = bus_run fails ys (bus_run fails xs b)"
  by (induction xs arbitrary: b) auto

lemma published_queue:
  assumes "bus_running b" "bus_queue b = []" "length evs \<le> bus_max_size b"
  shows "\<exists>b'. bus_run fails (publications evs) b = b' \<and> bus_queue b' = sort_key item_priority (numbered_items (bus_sequence b) evs)
    \<and> bus_running b' \<and> bus_sequence b' = bus_sequence b + length evs \<and> bus_max_size b' = bus_max_size b
    \<and> bus_subscribers b' = bus_subscribers b \<and> bus_failures b' = bus_failures b"
  using assms(3)
proof (induction evs rule: rev_induct)
  case (snoc e evs)
  obtain t ev where e: "e = (t, ev)" by fastforce
  let ?q = "sort_key item_priority (numbered_items (bus_sequence b) evs)"
  let ?x = "(priority_value (payload_priority ev), bus_sequence b + length evs, t, ev)"
  from snoc obtain b' where b': "bus_run fails (publications evs) b = b'" "bus_queue b' = ?q" "bus_running b'"
    "bus_sequence b' = bus_sequence b + length evs" "bus_max_size b' = bus_max_size b" "bus_subscribers b' = bus_subscribers b"
    "bus_failures b' = bus_failures b" by auto
  have "length (numbered_items n xs) = length xs" for n xs by (induction n xs rule: numbered_items.induct) auto
  then have room: "\<not> bus_full b'" using snoc.prems by (simp add: bus_full_def b')
  have "\<forall>y\<in>set ?q. item_seq y < item_seq ?x" using numbered_items_facts by fastforce
  from pq_insert_split [OF this] insort_after_equals [of item_priority ?q ?x]
  have "pq_insert ?x ?q = sort_key item_priority (?q @ [?x])" by simp
  also have "\<dots> = sort_key item_priority (numbered_items (bus_sequence b) (evs @ [e]))"
    by (simp only: e numbered_items_snoc sort_key_snoc)
  finally show ?case using b' room e by (simp add: bus_run_append publish_def Let_def)
qed (use assms in simp)

lemma drain_all_failures:
  "bus_failures (snd (drain_all n fails b)) = bus_failures b + length (filter (\<lambda>(h, ev). fails h ev) (fst (drain_all n fails b)))"
proof (induction n arbitrary: b)
  case (Suc n)
  show ?case
  proof (cases "drain_step fails b")
    case (Some cb)
    obtain calls b' where cb: "cb = (calls, b')" by fastforce
    with Some have "bus_failures b' = bus_failures b + length (filter (\<lambda>(h, ev). fails h ev) calls)"
      by (auto simp: drain_step_def Let_def filter_map comp_def split: if_splits list.splits)
    with Some cb Suc.IH [of b'] show ?thesis by (simp add: case_prod_unfold Let_def)
  qed simp
qed simp

text \<open>C18. Whatever is published on a running bus with an empty queue and room for it, draining delivers the events sorted by priority and,
  within a priority, in the order they were published: each to every handler registered for its type, in the order of registration,
  and to nobody else. A handler that raises keeps no other from its call, and every such failure is counted.\<close>

theorem drain_delivers_in_order:
  assumes "bus_running b" "bus_queue b = []" "length evs \<le> bus_max_size b"
  shows "let drained = drain_all (length evs) fails (bus_run fails (publications evs) b);
             calls = concat (map (\<lambda>(t, ev). map (\<lambda>h. (h, ev)) (subs_of b t)) (sort_key (\<lambda>(t, ev). priority_value (payload_priority ev)) evs))
         in fst drained = calls \<and> bus_queue (snd drained) = []
           \<and> bus_failures (snd drained) = bus_failures b + length (filter (\<lambda>(h, ev). fails h ev) calls)"
proof -
  let ?key = "\<lambda>(t, ev). priority_value (payload_priority ev)"
  obtain b' where b': "bus_run fails (publications evs) b = b'" "bus_queue b' = sort_key item_priority (numbered_items (bus_sequence b) evs)"
    "bus_running b'" "bus_subscribers b' = bus_subscribers b" "bus_failures b' = bus_failures b"
    using published_queue [OF assms, of fails] by blast
  have "map (\<lambda>(p, s, t, ev). (t, ev)) (bus_queue b') = sort_key ?key (map (\<lambda>(p, s, t, ev). (t, ev)) (numbered_items (bus_sequence b) evs))"
    unfolding b'(2) by (rule sort_key_map) (auto dest: numbered_items_facts)
  then have q: "map (\<lambda>(p, s, t, ev). (t, ev)) (bus_queue b') = sort_key ?key evs" by (simp only: numbered_items_events)
  then have len: "length (bus_queue b') = length evs" by (metis length_map length_sort)
  have "concat (map (\<lambda>(p, s, t, ev). map (\<lambda>h. (h, ev)) (subs_of b' t)) (bus_queue b'))
      = concat (map (\<lambda>(t, ev). map (\<lambda>h. (h, ev)) (subs_of b t)) (map (\<lambda>(p, s, t, ev). (t, ev)) (bus_queue b')))"
    by (simp add: comp_def case_prod_unfold subs_of_cong [OF b'(4)])
  with drain_queue_order [OF b'(3), of fails] show ?thesis
    unfolding b'(1) Let_def len drain_all_failures b'(5) by (simp only: q)
qed

theorem drain_delivers_in_order_witness:
  "let b = subscribe MARKET_TICK (8::nat) (subscribe MARKET_TICK 7 (bus_start \<lparr>bus_subscribers = [], bus_queue = [], bus_waiting = [],
             bus_max_size = 5, bus_sequence = 0, bus_failures = 0, bus_running = False\<rparr>));
       evs = [(MARKET_TICK, demo_event LOW), (CANDLE_CLOSED, demo_event LOW), (MARKET_TICK, demo_event HIGH)]
   in fst (drain_all 3 (\<lambda>h _. h = 7) (bus_run (\<lambda>h _. h = 7) (publications evs) b))
        = [(7, demo_event HIGH), (8, demo_event HIGH), (7, demo_event LOW), (8, demo_event LOW)]
      \<and> bus_failures (snd (drain_all 3 (\<lambda>h _. h = 7) (bus_run (\<lambda>h _. h = 7) (publications evs) b))) = 2"
proof -
  let ?b = "subscribe MARKET_TICK (8::nat) (subscribe MARKET_TICK 7 (bus_start \<lparr>bus_subscribers = [], bus_queue = [], bus_waiting = [],
             bus_max_size = 5, bus_sequence = 0, bus_failures = 0, bus_running = False\<rparr>))"
  let ?evs = "[(MARKET_TICK, demo_event LOW), (CANDLE_CLOSED, demo_event LOW), (MARKET_TICK, demo_event HIGH)]"
  have sorted: "sort_key (\<lambda>(t, ev). priority_value (payload_priority ev)) ?evs
      = [(MARKET_TICK, demo_event HIGH), (MARKET_TICK, demo_event LOW), (CANDLE_CLOSED, demo_event LOW)]"
    by simp
  have len: "length ?evs = 3" by simp
  have subs: "subs_of ?b MARKET_TICK = [7, 8]" "subs_of ?b CANDLE_CLOSED = []"
    by (simp_all add: subs_of_subscribe) (simp_all add: subs_of_def bus_start_def)
  have b: "bus_running ?b" "bus_queue ?b = []" "3 \<le> bus_max_size ?b" "bus_failures ?b = 0"
    by (simp_all add: subscribe_def bus_start_def)
  from drain_delivers_in_order [OF b(1,2), of ?evs "\<lambda>h _. h = 7", unfolded len, OF b(3), unfolded Let_def sorted b(4)]
  show ?thesis unfolding Let_def by (simp only: list.map prod.case subs concat.simps filter.simps append.simps) simp
qed

subsection \<open>The lifecycle manager\<close>

text \<open>
  Subsystems are started in the order of registration and stopped in the reverse order. What
  a subsystem's \<open>bootstrap\<close> and \<open>terminate\<close> do to the world \<open>'w\<close> is given by the
  arguments; one that raises ends the loop with its exception, as the code does not catch it.
\<close>

record ('h, 's) lifecycle_manager =
  lm_bus :: "'h event_bus"
  lm_subsystems :: "'s list"
  lm_terminating :: bool

definition lm_new :: "'h event_bus \<Rightarrow> ('h, 's) lifecycle_manager" where
  "lm_new b = \<lparr>lm_bus = b, lm_subsystems = [], lm_terminating = False\<rparr>"

definition lm_register :: "'s \<Rightarrow> ('h, 's) lifecycle_manager \<Rightarrow> ('h, 's) lifecycle_manager" where
  "lm_register s m = m\<lparr>lm_subsystems := lm_subsystems m @ [s]\<rparr>"

fun each :: "('s \<Rightarrow> 'w \<Rightarrow> 'w res) \<Rightarrow> 's list \<Rightarrow> 'w \<Rightarrow> 'w res" where
  "each f [] w = Ok w"
| "each f (s # ss) w = rbind (f s w) (each f ss)"

definition initiate_bootstrap ::
  "('s \<Rightarrow> 'w \<Rightarrow> 'w res) \<Rightarrow> ('h, 's) lifecycle_manager \<Rightarrow> 'w \<Rightarrow> ('h, 's) lifecycle_manager \<times> 'w res" where
  "initiate_bootstrap boot m w = (m\<lparr>lm_bus := bus_start (lm_bus m)\<rparr>, each boot (lm_subsystems m) w)"

definition initiate_shutdown ::
  "('s \<Rightarrow> 'w \<Rightarrow> 'w res) \<Rightarrow> ('h, 's) lifecycle_manager \<Rightarrow> 'w \<Rightarrow> ('h, 's) lifecycle_manager \<times> 'w res" where
  "initiate_shutdown tmn m w =
     (let m' = m\<lparr>lm_terminating := True\<rparr>; r = each tmn (rev (lm_subsystems m)) w
      in case r of Inl e \<Rightarrow> (m', Inl e) | Inr w' \<Rightarrow> (m'\<lparr>lm_bus := bus_stop (lm_bus m)\<rparr>, Inr w'))"

lemma each_append: "each f (xs @ ys) w = rbind (each f xs w) (each f ys)"
  by (induction xs arbitrary: w) (auto simp: rbind_def split: sum.splits)

lemma each_undo:
  assumes "\<And>s w w'. boot s w = Ok w' \<Longrightarrow> tmn s w' = Ok w"
  shows "each boot ss w = Ok w' \<Longrightarrow> each tmn (rev ss) w' = Ok w"
proof (induction ss arbitrary: w)
  case (Cons s ss)
  then obtain v where v: "boot s w = Ok v" "each boot ss v = Ok w'" by (auto elim: rbind_InrE)
  with Cons.IH [OF v(2)] assms [OF v(1)] show ?case by (simp add: each_append)
qed simp

text \<open>If every subsystem's \<open>terminate\<close> undoes its \<open>bootstrap\<close>, a shutdown after a
  complete bootstrap brings the world back to where it started: the reverse order is what
  makes this true. The bus ends stopped.\<close>

theorem shutdown_undoes_bootstrap:
  assumes undo: "\<And>s w w'. boot s w = Ok w' \<Longrightarrow> tmn s w' = Ok w"
    and boot: "initiate_bootstrap boot m w = (m', Ok w')"
  shows "snd (initiate_shutdown tmn m' w') = Ok w \<and> \<not> bus_running (lm_bus (fst (initiate_shutdown tmn m' w')))"
proof -
  from boot have m': "lm_subsystems m' = lm_subsystems m" "each boot (lm_subsystems m) w = Ok w'"
    by (auto simp: initiate_bootstrap_def)
  have "each tmn (rev (lm_subsystems m)) w' = Ok w" by (rule each_undo [OF undo m'(2)])
  with m'(1) show ?thesis by (simp add: initiate_shutdown_def Let_def bus_stop_def)
qed

text \<open>A stack of open resources: closing the top one undoes opening it, and the reverse order
  is the only one in which every close succeeds.\<close>

theorem shutdown_undoes_bootstrap_witness:
  "let boot = (\<lambda>s w. Ok (s # w)); tmn = (\<lambda>s w. case w of [] \<Rightarrow> Raise TypeError
                  | x # w' \<Rightarrow> if x = s then Ok w' else Raise TypeError);
       m = \<lparr>lm_bus = \<lparr>bus_subscribers = [], bus_queue = [], bus_waiting = [], bus_max_size = 5,
             bus_sequence = 0, bus_failures = 0, bus_running = False\<rparr> :: nat event_bus,
            lm_subsystems = [1::nat, 2, 3], lm_terminating = False\<rparr>;
       (m', r) = initiate_bootstrap boot m []
   in r = Ok [3, 2, 1] \<and> snd (initiate_shutdown tmn m' [3, 2, 1]) = Ok []"
proof -
  let ?boot = "\<lambda>s w. Ok (s # w)"
  let ?tmn = "\<lambda>s w. case w of [] \<Rightarrow> Raise TypeError
                  | x # w' \<Rightarrow> if x = s then Ok w' else Raise TypeError"
  let ?m = "\<lparr>lm_bus = \<lparr>bus_subscribers = [], bus_queue = [], bus_waiting = [], bus_max_size = 5,
             bus_sequence = 0, bus_failures = 0, bus_running = False\<rparr> :: nat event_bus,
            lm_subsystems = [1::nat, 2, 3], lm_terminating = False\<rparr>"
  obtain m' where b: "initiate_bootstrap ?boot ?m [] = (m', Ok [3, 2, 1])"
    by (simp add: initiate_bootstrap_def)
  have "snd (initiate_shutdown ?tmn m' [3, 2, 1]) = Ok []"
    using shutdown_undoes_bootstrap [of ?boot ?tmn, OF _ b] by auto
  with b show ?thesis by (simp add: Let_def)
qed

end
