(* ===== verification/PyVal.thy ===== *)
theory PyVal
  imports DomainModels
begin

section \<open>Dynamic values\<close>

text \<open>
  The payloads, contexts and configurations the code passes as \<open>Dict[str, Any]\<close>: a value is
  one of the Python types that occur in them. A dict is an association list with string keys
  in insertion order. Members of the \<open>str\<close> enums are the strings they equal.
\<close>

subsection \<open>Strings\<close>

text \<open>\<open>str.upper\<close>, \<open>str.lower\<close> and \<open>str.strip\<close> on ASCII text, and \<open>sub in s\<close>.\<close>

definition up_char :: "char \<Rightarrow> char" where
  "up_char c = (let n = of_char c :: nat in if 97 \<le> n \<and> n \<le> 122 then char_of (n - 32) else c)"

definition low_char :: "char \<Rightarrow> char" where
  "low_char c = (let n = of_char c :: nat in if 65 \<le> n \<and> n \<le> 90 then char_of (n + 32) else c)"

definition py_upper :: "string \<Rightarrow> string" where
  "py_upper s = map up_char s"

definition py_lower :: "string \<Rightarrow> string" where
  "py_lower s = map low_char s"

definition is_space :: "char \<Rightarrow> bool" where
  "is_space c = (let n = of_char c :: nat in n = 32 \<or> (9 \<le> n \<and> n \<le> 13) \<or> (28 \<le> n \<and> n \<le> 31))"

definition py_strip :: "string \<Rightarrow> string" where
  "py_strip s = rev (dropWhile is_space (rev (dropWhile is_space s)))"

fun has_prefix :: "string \<Rightarrow> string \<Rightarrow> bool" where
  "has_prefix [] s = True"
| "has_prefix (c # p) [] = False"
| "has_prefix (c # p) (d # s) = (c = d \<and> has_prefix p s)"

fun has_sub :: "string \<Rightarrow> string \<Rightarrow> bool" where
  "has_sub p [] = (p = [])"
| "has_sub p (c # s) = (has_prefix p (c # s) \<or> has_sub p s)"

text \<open>\<open>s.split(sep)\<close> for a one-character separator, and \<open>sep.join\<close>.\<close>

fun py_split :: "char \<Rightarrow> string \<Rightarrow> string list" where
  "py_split c [] = [[]]"
| "py_split c (x # s) =
     (if x = c then [] # py_split c s
      else case py_split c s of [] \<Rightarrow> [[x]] | w # ws \<Rightarrow> (x # w) # ws)"

fun py_join :: "string \<Rightarrow> string list \<Rightarrow> string" where
  "py_join sep [] = []"
| "py_join sep [w] = w"
| "py_join sep (w # ws) = w @ sep @ py_join sep ws"

text \<open>Sorted insertion of a string, by code points.\<close>

fun str_less :: "string \<Rightarrow> string \<Rightarrow> bool" where
  "str_less xs [] = False"
| "str_less [] (y # ys) = True"
| "str_less (x # xs) (y # ys) = ((of_char x :: nat) < of_char y \<or> x = y \<and> str_less xs ys)"

fun sinsert :: "string \<Rightarrow> string list \<Rightarrow> string list" where
  "sinsert x [] = [x]"
| "sinsert x (y # ys) =
     (if str_less x y then x # y # ys else y # sinsert x ys)"

subsection \<open>Values\<close>

datatype pyval =
    PNone | PBool bool | PInt int | PFloat pyfloat | PStr string | PDt datetime
  | PList "pyval list" | PDict "(string \<times> pyval) list"

text \<open>Truth of a value, as \<open>if\<close>, \<open>or\<close> and \<open>bool()\<close> take it.\<close>

fun py_truthy :: "pyval \<Rightarrow> bool" where
  "py_truthy PNone = False"
| "py_truthy (PBool b) = b"
| "py_truthy (PInt i) = (i \<noteq> 0)"
| "py_truthy (PFloat f) = (f \<noteq> Fin 0)"
| "py_truthy (PStr s) = (s \<noteq> [])"
| "py_truthy (PDt _) = True"
| "py_truthy (PList xs) = (xs \<noteq> [])"
| "py_truthy (PDict d) = (d \<noteq> [])"

text \<open>\<open>a or b\<close>.\<close>

definition py_or :: "pyval \<Rightarrow> pyval \<Rightarrow> pyval" where
  "py_or a b = (if py_truthy a then a else b)"

text \<open>\<open>d[k]\<close> raises on a missing key and on a value that is not a dict; \<open>d.get(k, v)\<close>
  does not.\<close>

definition pget :: "(string \<times> pyval) list \<Rightarrow> string \<Rightarrow> pyval \<Rightarrow> pyval" where
  "pget d k v = (case map_of d k of None \<Rightarrow> v | Some x \<Rightarrow> x)"

definition pitem :: "pyval \<Rightarrow> string \<Rightarrow> pyval res" where
  "pitem v k = (case v of PDict d \<Rightarrow> (case map_of d k of None \<Rightarrow> Raise KeyError | Some x \<Rightarrow> Ok x)
                | _ \<Rightarrow> Raise TypeError)"

fun as_float :: "pyval \<Rightarrow> pyfloat res" where
  "as_float (PFloat f) = Ok f"
| "as_float _ = Raise TypeError"

fun as_int :: "pyval \<Rightarrow> int res" where
  "as_int (PInt i) = Ok i"
| "as_int _ = Raise TypeError"

fun as_bool :: "pyval \<Rightarrow> bool res" where
  "as_bool (PBool b) = Ok b"
| "as_bool _ = Raise TypeError"

fun as_str :: "pyval \<Rightarrow> string res" where
  "as_str (PStr s) = Ok s"
| "as_str _ = Raise TypeError"

fun as_dt :: "pyval \<Rightarrow> datetime res" where
  "as_dt (PDt d) = Ok d"
| "as_dt _ = Raise TypeError"

fun as_opt_str :: "pyval \<Rightarrow> string option res" where
  "as_opt_str PNone = Ok None"
| "as_opt_str (PStr s) = Ok (Some s)"
| "as_opt_str _ = Raise TypeError"

fun opt_str :: "string option \<Rightarrow> pyval" where
  "opt_str None = PNone"
| "opt_str (Some s) = PStr s"

lemma as_opt_str_inv [simp]: "as_opt_str (opt_str x) = Ok x"
  by (cases x) auto

text \<open>A typed field of a dict.\<close>

definition pfield :: "(pyval \<Rightarrow> 'a res) \<Rightarrow> pyval \<Rightarrow> string \<Rightarrow> 'a res" where
  "pfield conv v k = rbind (pitem v k) conv"

end
