(* ===== verification/StateManager.thy ===== *)
theory StateManager
  imports PyVal
begin

section \<open>The central state manager (src/core/state, src/strategy/state_manager.py)\<close>

text \<open>
  One immutable \<open>EngineStateContainer\<close> is the single source of truth. Every commit builds
  the successor with \<open>EngineStateMutator\<close>, lets \<open>StateInvariantValidator\<close> refuse it, installs
  it and appends it to a bounded journal; \<open>revert_to_sequence\<close> goes back to a journal entry.
  A refused commit raises before the assignment, so the manager is unchanged. The asyncio
  lock is held over straight-line code without an await, so each operation is one step.
  \<open>datetime.utcnow()\<close> is the argument \<open>now\<close>.
\<close>

subsection \<open>Validation\<close>

definition verify_invariants :: "engine_state \<Rightarrow> unit res" where
  "verify_invariants s =
     (if flt (md_current_ask (es_market s)) (md_current_bid (es_market s))
        then Raise (ValidationError ''Market ask price cannot be below bid price.'')
      else if flt (md_current_spread (es_market s)) (Fin 0)
        then Raise (ValidationError ''Market spread cannot be negative.'')
      else if pd_active_position_count (es_positions s) < 0
        then Raise (ValidationError ''Active position count cannot be negative.'')
      else Ok ())"

definition state_ok :: "engine_state \<Rightarrow> bool" where
  "state_ok s \<longleftrightarrow> verify_invariants s = Ok ()"

lemma state_ok_iff: "state_ok s \<longleftrightarrow>
    \<not> flt (md_current_ask (es_market s)) (md_current_bid (es_market s))
  \<and> \<not> flt (md_current_spread (es_market s)) (Fin 0)
  \<and> 0 \<le> pd_active_position_count (es_positions s)"
  by (auto simp: state_ok_def verify_invariants_def)

subsection \<open>Mutation\<close>

text \<open>The keyword arguments of \<open>replace\<close>, one constructor per field.\<close>

datatype market_field =
    MLastTickTime datetime | MAsk pyfloat | MBid pyfloat | MMid pyfloat | MSpread pyfloat
  | MTickCount int | MSynchronized bool

datatype session_field =
    SPhase session_state | STransition datetime | SKillzoneActive bool | SKillzoneName "string option"

datatype position_field =
    PExposure pyfloat | PFloatingPnl pyfloat | PActiveCount int | PDailyLoss pyfloat | PHalted bool

datatype health_field =
    HUptime pyfloat | HBackpressure int | HLatency pyfloat | HMemory int | HHeartbeat datetime

fun put_market :: "market_field \<Rightarrow> market_domain_state \<Rightarrow> market_domain_state" where
  "put_market (MLastTickTime t) m = m\<lparr>md_last_tick_time := t\<rparr>"
| "put_market (MAsk f) m = m\<lparr>md_current_ask := f\<rparr>"
| "put_market (MBid f) m = m\<lparr>md_current_bid := f\<rparr>"
| "put_market (MMid f) m = m\<lparr>md_current_mid := f\<rparr>"
| "put_market (MSpread f) m = m\<lparr>md_current_spread := f\<rparr>"
| "put_market (MTickCount n) m = m\<lparr>md_accumulated_tick_count := n\<rparr>"
| "put_market (MSynchronized b) m = m\<lparr>md_is_synchronized := b\<rparr>"

fun put_session :: "session_field \<Rightarrow> session_domain_state \<Rightarrow> session_domain_state" where
  "put_session (SPhase p) s = s\<lparr>sd_current_phase := p\<rparr>"
| "put_session (STransition t) s = s\<lparr>sd_last_phase_transition := t\<rparr>"
| "put_session (SKillzoneActive b) s = s\<lparr>sd_killzone_active := b\<rparr>"
| "put_session (SKillzoneName n) s = s\<lparr>sd_killzone_name := n\<rparr>"

fun put_position :: "position_field \<Rightarrow> position_domain_state \<Rightarrow> position_domain_state" where
  "put_position (PExposure f) p = p\<lparr>pd_net_exposure_lots := f\<rparr>"
| "put_position (PFloatingPnl f) p = p\<lparr>pd_floating_pnl_pips := f\<rparr>"
| "put_position (PActiveCount n) p = p\<lparr>pd_active_position_count := n\<rparr>"
| "put_position (PDailyLoss f) p = p\<lparr>pd_daily_realized_loss_pct := f\<rparr>"
| "put_position (PHalted b) p = p\<lparr>pd_is_trading_halted := b\<rparr>"

fun put_health :: "health_field \<Rightarrow> health_domain_state \<Rightarrow> health_domain_state" where
  "put_health (HUptime f) h = h\<lparr>hd_uptime_seconds := f\<rparr>"
| "put_health (HBackpressure n) h = h\<lparr>hd_event_bus_queue_backpressure := n\<rparr>"
| "put_health (HLatency f) h = h\<lparr>hd_broker_latency_ms := f\<rparr>"
| "put_health (HMemory n) h = h\<lparr>hd_memory_usage_bytes := n\<rparr>"
| "put_health (HHeartbeat t) h = h\<lparr>hd_last_heartbeat := t\<rparr>"

text \<open>\<open>_commit\<close>: number, stamp and validate the successor whose domain is already replaced.\<close>

definition commit_state :: "datetime \<Rightarrow> engine_state \<Rightarrow> string \<Rightarrow> engine_state res" where
  "commit_state now s corr =
     (let next_state = s\<lparr>es_sequence_id := es_sequence_id s + 1, es_timestamp := now,
                         es_correlation_id := corr\<rparr>
      in rmap (\<lambda>_. next_state) (verify_invariants next_state))"

definition mutate_market :: "datetime \<Rightarrow> engine_state \<Rightarrow> market_field list \<Rightarrow> string \<Rightarrow> engine_state res" where
  "mutate_market now s fs corr = commit_state now (s\<lparr>es_market := fold put_market fs (es_market s)\<rparr>) corr"

definition mutate_session :: "datetime \<Rightarrow> engine_state \<Rightarrow> session_field list \<Rightarrow> string \<Rightarrow> engine_state res" where
  "mutate_session now s fs corr = commit_state now (s\<lparr>es_session := fold put_session fs (es_session s)\<rparr>) corr"

definition mutate_positions :: "datetime \<Rightarrow> engine_state \<Rightarrow> position_field list \<Rightarrow> string \<Rightarrow> engine_state res" where
  "mutate_positions now s fs corr =
     commit_state now (s\<lparr>es_positions := fold put_position fs (es_positions s)\<rparr>) corr"

definition mutate_health :: "datetime \<Rightarrow> engine_state \<Rightarrow> health_field list \<Rightarrow> string \<Rightarrow> engine_state res" where
  "mutate_health now s fs corr = commit_state now (s\<lparr>es_health := fold put_health fs (es_health s)\<rparr>) corr"

lemma commit_state_Ok: "commit_state now s corr = Ok s' \<longleftrightarrow>
    s' = s\<lparr>es_sequence_id := es_sequence_id s + 1, es_timestamp := now, es_correlation_id := corr\<rparr> \<and> state_ok s'"
  by (auto simp: commit_state_def state_ok_def Let_def rmap_Inr_iff)

lemma state_ok_frame [simp]:
  "state_ok (s\<lparr>es_sequence_id := n, es_timestamp := t, es_correlation_id := c\<rparr>) = state_ok s"
  "state_ok (s\<lparr>es_session := x\<rparr>) = state_ok s" "state_ok (s\<lparr>es_health := h\<rparr>) = state_ok s"
  by (simp_all add: state_ok_iff)

subsection \<open>The manager\<close>

record state_manager =
  sm_active :: engine_state
  sm_journal :: "engine_state list"
  sm_capacity :: nat

definition cold_boot_state :: "datetime \<Rightarrow> engine_state" where
  "cold_boot_state init_time =
     \<lparr>es_sequence_id = 0, es_timestamp = init_time, es_correlation_id = ''COLD_BOOT'',
      es_market = \<lparr>md_last_tick_time = init_time, md_current_ask = Fin 0, md_current_bid = Fin 0,
                   md_current_mid = Fin 0, md_current_spread = Fin 0,
                   md_accumulated_tick_count = 0, md_is_synchronized = False\<rparr>,
      es_session = \<lparr>sd_current_phase = SYSTEM_SHUTDOWN, sd_last_phase_transition = init_time,
                    sd_killzone_active = False, sd_killzone_name = None\<rparr>,
      es_regime = \<lparr>rd_current_regime = Regime UNKNOWN, rd_volatility_ratio = Fin 1,
                   rd_volume_z_score = Fin 0, rd_last_calculated_at = init_time\<rparr>,
      es_positions = \<lparr>pd_net_exposure_lots = Fin 0, pd_floating_pnl_pips = Fin 0,
                      pd_active_position_count = 0, pd_daily_realized_loss_pct = Fin 0,
                      pd_is_trading_halted = False\<rparr>,
      es_health = \<lparr>hd_uptime_seconds = Fin 0, hd_event_bus_queue_backpressure = 0,
                   hd_broker_latency_ms = Fin 0, hd_memory_usage_bytes = 0,
                   hd_last_heartbeat = init_time\<rparr>\<rparr>"

definition sm_new :: "datetime \<Rightarrow> nat \<Rightarrow> state_manager" where
  "sm_new now cap = \<lparr>sm_active = cold_boot_state now, sm_journal = [], sm_capacity = cap\<rparr>"

text \<open>Install a state and journal it.\<close>

definition sm_install :: "engine_state \<Rightarrow> state_manager \<Rightarrow> state_manager" where
  "sm_install s m = m\<lparr>sm_active := s, sm_journal := dq_push (sm_capacity m) s (sm_journal m)\<rparr>"

definition sm_bootstrap :: "datetime \<Rightarrow> state_manager \<Rightarrow> state_manager" where
  "sm_bootstrap now m = sm_install (cold_boot_state now) m"

definition sm_terminate :: "state_manager \<Rightarrow> state_manager" where
  "sm_terminate m = m\<lparr>sm_journal := []\<rparr>"

definition commit_market_update ::
  "datetime \<Rightarrow> market_field list \<Rightarrow> string \<Rightarrow> state_manager \<Rightarrow> state_manager res" where
  "commit_market_update now fs corr m =
     rmap (\<lambda>s. sm_install s m) (mutate_market now (sm_active m) fs corr)"

definition commit_session_update ::
  "datetime \<Rightarrow> session_field list \<Rightarrow> string \<Rightarrow> state_manager \<Rightarrow> state_manager res" where
  "commit_session_update now fs corr m =
     rmap (\<lambda>s. sm_install s m) (mutate_session now (sm_active m) fs corr)"

definition commit_position_update ::
  "datetime \<Rightarrow> position_field list \<Rightarrow> string \<Rightarrow> state_manager \<Rightarrow> state_manager res" where
  "commit_position_update now fs corr m =
     rmap (\<lambda>s. sm_install s m) (mutate_positions now (sm_active m) fs corr)"

text \<open>The health update is not journalled.\<close>

definition commit_health_update ::
  "datetime \<Rightarrow> health_field list \<Rightarrow> string \<Rightarrow> state_manager \<Rightarrow> state_manager res" where
  "commit_health_update now fs corr m =
     rmap (\<lambda>s. m\<lparr>sm_active := s\<rparr>) (mutate_health now (sm_active m) fs corr)"

definition revert_to_sequence :: "int \<Rightarrow> state_manager \<Rightarrow> bool \<times> state_manager" where
  "revert_to_sequence n m =
     (case find (\<lambda>s. es_sequence_id s = n) (rev (sm_journal m)) of
        None \<Rightarrow> (False, m)
      | Some s \<Rightarrow> (True, m\<lparr>sm_active := s\<rparr>))"

subsection \<open>Snapshots\<close>

fun regime_value :: "market_regime \<Rightarrow> string" where
  "regime_value HIGH_VOLATILITY_EXPANSION = ''HIGH_VOLATILITY_EXPANSION''"
| "regime_value HIGH_VOLATILITY_REVERSAL = ''HIGH_VOLATILITY_REVERSAL''"
| "regime_value LOW_VOLATILITY_COMPRESSION = ''LOW_VOLATILITY_COMPRESSION''"
| "regime_value UNKNOWN = ''UNKNOWN''"

fun regime_text :: "regime_label \<Rightarrow> string" where
  "regime_text (Regime r) = regime_value r"
| "regime_text (RegimeText s) = s"

text \<open>The enum constructors \<open>SessionState(v)\<close> and \<open>MarketRegime(v)\<close>.\<close>

definition session_of_value :: "string \<Rightarrow> session_state res" where
  "session_of_value s =
     (case find (\<lambda>p. session_value p = s)
        [ASI_ACCUMULATION, ASIAN_SESSION, LONDON_SESSION, LONDON_KILLZONE, NEWYORK_SESSION,
         NEWYORK_KILLZONE, OVERLAP, POST_NY_RESET, SYSTEM_SHUTDOWN] of
        Some p \<Rightarrow> Ok p | None \<Rightarrow> Raise (ValueError ''not a valid SessionState''))"

definition regime_of_value :: "string \<Rightarrow> market_regime res" where
  "regime_of_value s =
     (case find (\<lambda>r. regime_value r = s)
        [HIGH_VOLATILITY_EXPANSION, HIGH_VOLATILITY_REVERSAL, LOW_VOLATILITY_COMPRESSION, UNKNOWN] of
        Some r \<Rightarrow> Ok r | None \<Rightarrow> Raise (ValueError ''not a valid MarketRegime''))"

lemma session_of_value_inv [simp]: "session_of_value (session_value p) = Ok p"
  by (cases p) (simp_all add: session_of_value_def)

lemma regime_of_value_inv [simp]: "regime_of_value (regime_value r) = Ok r"
  by (cases r) (simp_all add: regime_of_value_def)

definition market_dict :: "market_domain_state \<Rightarrow> pyval" where
  "market_dict m = PDict
     [(''last_tick_time'', PDt (md_last_tick_time m)), (''current_ask'', PFloat (md_current_ask m)),
      (''current_bid'', PFloat (md_current_bid m)), (''current_mid'', PFloat (md_current_mid m)),
      (''current_spread'', PFloat (md_current_spread m)),
      (''accumulated_tick_count'', PInt (md_accumulated_tick_count m)),
      (''is_synchronized'', PBool (md_is_synchronized m))]"

definition session_dict :: "session_domain_state \<Rightarrow> pyval" where
  "session_dict s = PDict
     [(''current_phase'', PStr (session_value (sd_current_phase s))),
      (''last_phase_transition'', PDt (sd_last_phase_transition s)),
      (''killzone_active'', PBool (sd_killzone_active s)),
      (''killzone_name'', opt_str (sd_killzone_name s))]"

definition regime_dict :: "regime_domain_state \<Rightarrow> pyval" where
  "regime_dict r = PDict
     [(''current_regime'', PStr (regime_text (rd_current_regime r))),
      (''volatility_ratio'', PFloat (rd_volatility_ratio r)),
      (''volume_z_score'', PFloat (rd_volume_z_score r)),
      (''last_calculated_at'', PDt (rd_last_calculated_at r))]"

definition position_dict :: "position_domain_state \<Rightarrow> pyval" where
  "position_dict p = PDict
     [(''net_exposure_lots'', PFloat (pd_net_exposure_lots p)),
      (''floating_pnl_pips'', PFloat (pd_floating_pnl_pips p)),
      (''active_position_count'', PInt (pd_active_position_count p)),
      (''daily_realized_loss_pct'', PFloat (pd_daily_realized_loss_pct p)),
      (''is_trading_halted'', PBool (pd_is_trading_halted p))]"

definition health_dict :: "health_domain_state \<Rightarrow> pyval" where
  "health_dict h = PDict
     [(''uptime_seconds'', PFloat (hd_uptime_seconds h)),
      (''event_bus_queue_backpressure'', PInt (hd_event_bus_queue_backpressure h)),
      (''broker_latency_ms'', PFloat (hd_broker_latency_ms h)),
      (''memory_usage_bytes'', PInt (hd_memory_usage_bytes h)),
      (''last_heartbeat'', PDt (hd_last_heartbeat h))]"

definition serialize_to_dict :: "engine_state \<Rightarrow> pyval" where
  "serialize_to_dict s = PDict
     [(''sequence_id'', PInt (es_sequence_id s)), (''timestamp'', PDt (es_timestamp s)),
      (''correlation_id'', PStr (es_correlation_id s)), (''market'', market_dict (es_market s)),
      (''session'', session_dict (es_session s)), (''regime'', regime_dict (es_regime s)),
      (''positions'', position_dict (es_positions s)), (''health'', health_dict (es_health s))]"

text \<open>\<open>parse_dt\<close>: a datetime as it is, anything else through \<open>datetime.fromisoformat\<close>.
  The ISO parser is the argument \<open>fromiso\<close>.\<close>

definition parse_dt :: "(string \<Rightarrow> datetime res) \<Rightarrow> pyval \<Rightarrow> datetime res" where
  "parse_dt fromiso v = (case v of PDt d \<Rightarrow> Ok d | PStr s \<Rightarrow> fromiso s | _ \<Rightarrow> Raise TypeError)"

text \<open>\<open>Cls(**payload)\<close>: exactly the class's field names, otherwise \<open>TypeError\<close>. The values
  are read at the types the class annotates.\<close>

definition kwargs :: "string list \<Rightarrow> pyval \<Rightarrow> unit res" where
  "kwargs names v = (case v of PDict d \<Rightarrow> if set (map fst d) = set names then Ok () else Raise TypeError
                     | _ \<Rightarrow> Raise TypeError)"

definition read_market :: "pyval \<Rightarrow> market_domain_state res" where
  "read_market v =
     rbind (kwargs [''last_tick_time'', ''current_ask'', ''current_bid'', ''current_mid'',
        ''current_spread'', ''accumulated_tick_count'', ''is_synchronized''] v) (\<lambda>_.
     rbind (pfield as_dt v ''last_tick_time'') (\<lambda>t.
     rbind (pfield as_float v ''current_ask'') (\<lambda>a.
     rbind (pfield as_float v ''current_bid'') (\<lambda>b.
     rbind (pfield as_float v ''current_mid'') (\<lambda>m.
     rbind (pfield as_float v ''current_spread'') (\<lambda>sp.
     rbind (pfield as_int v ''accumulated_tick_count'') (\<lambda>n.
     rbind (pfield as_bool v ''is_synchronized'') (\<lambda>y.
     Ok \<lparr>md_last_tick_time = t, md_current_ask = a, md_current_bid = b, md_current_mid = m,
         md_current_spread = sp, md_accumulated_tick_count = n, md_is_synchronized = y\<rparr>))))))))"

definition read_session :: "(string \<Rightarrow> datetime res) \<Rightarrow> pyval \<Rightarrow> session_domain_state res" where
  "read_session fromiso v =
     rbind (pfield as_str v ''current_phase'') (\<lambda>ph.
     rbind (session_of_value ph) (\<lambda>p.
     rbind (pfield (parse_dt fromiso) v ''last_phase_transition'') (\<lambda>t.
     rbind (case v of PDict d \<Rightarrow> Ok (py_truthy (pget d ''killzone_active'' (PBool False))) | _ \<Rightarrow> Raise TypeError) (\<lambda>k.
     Ok \<lparr>sd_current_phase = p, sd_last_phase_transition = t, sd_killzone_active = k,
         sd_killzone_name = None\<rparr>))))"

definition read_regime :: "(string \<Rightarrow> datetime res) \<Rightarrow> pyval \<Rightarrow> regime_domain_state res" where
  "read_regime fromiso v =
     rbind (pfield as_str v ''current_regime'') (\<lambda>rs.
     rbind (regime_of_value rs) (\<lambda>r.
     rbind (pfield as_float v ''volatility_ratio'') (\<lambda>vr.
     rbind (pfield as_float v ''volume_z_score'') (\<lambda>z.
     rbind (pfield (parse_dt fromiso) v ''last_calculated_at'') (\<lambda>t.
     Ok \<lparr>rd_current_regime = Regime r, rd_volatility_ratio = vr, rd_volume_z_score = z,
         rd_last_calculated_at = t\<rparr>)))))"

definition read_positions :: "pyval \<Rightarrow> position_domain_state res" where
  "read_positions v =
     rbind (kwargs [''net_exposure_lots'', ''floating_pnl_pips'', ''active_position_count'',
        ''daily_realized_loss_pct'', ''is_trading_halted''] v) (\<lambda>_.
     rbind (pfield as_float v ''net_exposure_lots'') (\<lambda>e.
     rbind (pfield as_float v ''floating_pnl_pips'') (\<lambda>f.
     rbind (pfield as_int v ''active_position_count'') (\<lambda>n.
     rbind (pfield as_float v ''daily_realized_loss_pct'') (\<lambda>l.
     rbind (pfield as_bool v ''is_trading_halted'') (\<lambda>h.
     Ok \<lparr>pd_net_exposure_lots = e, pd_floating_pnl_pips = f, pd_active_position_count = n,
         pd_daily_realized_loss_pct = l, pd_is_trading_halted = h\<rparr>))))))"

definition read_health :: "pyval \<Rightarrow> health_domain_state res" where
  "read_health v =
     rbind (kwargs [''uptime_seconds'', ''event_bus_queue_backpressure'', ''broker_latency_ms'',
        ''memory_usage_bytes'', ''last_heartbeat''] v) (\<lambda>_.
     rbind (pfield as_float v ''uptime_seconds'') (\<lambda>u.
     rbind (pfield as_int v ''event_bus_queue_backpressure'') (\<lambda>b.
     rbind (pfield as_float v ''broker_latency_ms'') (\<lambda>l.
     rbind (pfield as_int v ''memory_usage_bytes'') (\<lambda>y.
     rbind (pfield as_dt v ''last_heartbeat'') (\<lambda>t.
     Ok \<lparr>hd_uptime_seconds = u, hd_event_bus_queue_backpressure = b, hd_broker_latency_ms = l,
         hd_memory_usage_bytes = y, hd_last_heartbeat = t\<rparr>))))))"

definition deserialize_from_dict :: "(string \<Rightarrow> datetime res) \<Rightarrow> pyval \<Rightarrow> engine_state res" where
  "deserialize_from_dict fromiso v =
     rbind (pitem v ''market'') (\<lambda>market. rbind (pitem v ''session'') (\<lambda>session.
     rbind (pitem v ''regime'') (\<lambda>regime. rbind (pitem v ''positions'') (\<lambda>positions.
     rbind (pitem v ''health'') (\<lambda>health.
     rbind (pfield as_int v ''sequence_id'') (\<lambda>n. rbind (pfield (parse_dt fromiso) v ''timestamp'') (\<lambda>t.
     rbind (pfield as_str v ''correlation_id'') (\<lambda>c.
     rbind (read_market market) (\<lambda>m. rbind (read_session fromiso session) (\<lambda>s.
     rbind (read_regime fromiso regime) (\<lambda>r. rbind (read_positions positions) (\<lambda>p.
     rbind (read_health health) (\<lambda>h.
     Ok \<lparr>es_sequence_id = n, es_timestamp = t, es_correlation_id = c, es_market = m,
         es_session = s, es_regime = r, es_positions = p, es_health = h\<rparr>)))))))))))))"

definition load_historical_snapshot ::
  "(string \<Rightarrow> datetime res) \<Rightarrow> pyval \<Rightarrow> state_manager \<Rightarrow> state_manager res" where
  "load_historical_snapshot fromiso payload m =
     rbind (deserialize_from_dict fromiso payload) (\<lambda>s.
     rmap (\<lambda>_. sm_install s m) (verify_invariants s))"


subsection \<open>Runs of the manager\<close>

text \<open>Every operation of the manager; a call that raises leaves the manager as it was.\<close>

datatype sm_op =
    OpBootstrap datetime | OpTerminate
  | OpMarket datetime "market_field list" string | OpSession datetime "session_field list" string
  | OpPosition datetime "position_field list" string | OpHealth datetime "health_field list" string
  | OpRevert int | OpLoad pyval

fun sm_step :: "(string \<Rightarrow> datetime res) \<Rightarrow> sm_op \<Rightarrow> state_manager \<Rightarrow> state_manager res" where
  "sm_step fromiso (OpBootstrap now) m = Ok (sm_bootstrap now m)"
| "sm_step fromiso OpTerminate m = Ok (sm_terminate m)"
| "sm_step fromiso (OpMarket now fs c) m = commit_market_update now fs c m"
| "sm_step fromiso (OpSession now fs c) m = commit_session_update now fs c m"
| "sm_step fromiso (OpPosition now fs c) m = commit_position_update now fs c m"
| "sm_step fromiso (OpHealth now fs c) m = commit_health_update now fs c m"
| "sm_step fromiso (OpRevert n) m = Ok (snd (revert_to_sequence n m))"
| "sm_step fromiso (OpLoad v) m = load_historical_snapshot fromiso v m"

fun sm_run :: "(string \<Rightarrow> datetime res) \<Rightarrow> sm_op list \<Rightarrow> state_manager \<Rightarrow> state_manager" where
  "sm_run fromiso [] m = m"
| "sm_run fromiso (op # ops) m =
     sm_run fromiso ops (case sm_step fromiso op m of Inl _ \<Rightarrow> m | Inr m' \<Rightarrow> m')"

fun enum_regime :: "engine_state \<Rightarrow> bool" where
  "enum_regime s = (case rd_current_regime (es_regime s) of Regime _ \<Rightarrow> True | RegimeText _ \<Rightarrow> False)"

text \<open>A state the manager may hold, and the invariant of the manager.\<close>

definition good_state :: "engine_state \<Rightarrow> bool" where
  "good_state s \<longleftrightarrow> state_ok s \<and> enum_regime s"

definition sm_inv :: "state_manager \<Rightarrow> bool" where
  "sm_inv m \<longleftrightarrow> good_state (sm_active m) \<and> list_all good_state (sm_journal m)
     \<and> length (sm_journal m) \<le> sm_capacity m"

lemma good_cold_boot [simp]: "good_state (cold_boot_state now)"
  by (simp add: good_state_def state_ok_iff cold_boot_state_def)

lemma sm_inv_new: "sm_inv (sm_new now cap)"
  by (simp add: sm_inv_def sm_new_def)

lemma sm_inv_install: "sm_inv m \<Longrightarrow> good_state s \<Longrightarrow> sm_inv (sm_install s m)"
  by (auto simp: sm_inv_def sm_install_def intro: dq.push_cap dq.push_pred)

lemma good_commit: "commit_state now s' c = Ok s'' \<Longrightarrow> es_regime s' = es_regime s \<Longrightarrow>
    good_state s \<Longrightarrow> good_state s''"
  by (auto simp: good_state_def commit_state_Ok)

lemma good_mutate:
  assumes "good_state s"
  shows "mutate_market now s mfs c = Ok s' \<Longrightarrow> good_state s'"
    and "mutate_session now s sfs c = Ok s' \<Longrightarrow> good_state s'"
    and "mutate_positions now s pfs c = Ok s' \<Longrightarrow> good_state s'"
    and "mutate_health now s hfs c = Ok s' \<Longrightarrow> good_state s'"
  unfolding mutate_market_def mutate_session_def mutate_positions_def mutate_health_def
  by - (erule good_commit, simp, rule assms)+

lemma regime_read: "read_regime fromiso v = Ok r \<Longrightarrow> \<exists>x. rd_current_regime r = Regime x"
  by (auto simp: read_regime_def elim!: rbind_InrE)

lemma good_load:
  "deserialize_from_dict fromiso v = Ok s \<Longrightarrow> verify_invariants s = Ok () \<Longrightarrow> good_state s"
  by (auto simp: deserialize_from_dict_def good_state_def state_ok_def
      elim!: rbind_InrE dest!: regime_read)

lemma sm_inv_good: "sm_inv m \<Longrightarrow> good_state (sm_active m)"
  by (simp add: sm_inv_def)

lemma sm_step_inv: "sm_inv m \<Longrightarrow> sm_step fromiso op m = Ok m' \<Longrightarrow> sm_inv m'"
proof (cases op)
  case (OpHealth now fs c)
  assume "sm_inv m" "sm_step fromiso op m = Ok m'"
  with OpHealth show ?thesis
    by (auto simp: commit_health_update_def rmap_Inr_iff sm_inv_def intro: good_mutate(4))
next
  case (OpRevert n)
  assume "sm_inv m" "sm_step fromiso op m = Ok m'"
  with OpRevert show ?thesis
    by (auto simp: revert_to_sequence_def sm_inv_def list_all_iff find_Some_iff split: option.splits)
       (metis nth_mem set_rev length_rev)
next
  case (OpLoad v)
  assume "sm_inv m" "sm_step fromiso op m = Ok m'"
  with OpLoad show ?thesis
    by (auto simp: load_historical_snapshot_def rmap_Inr_iff elim!: rbind_InrE
        intro!: sm_inv_install intro: good_load)
next
  case OpTerminate
  assume "sm_inv m" "sm_step fromiso op m = Ok m'"
  with OpTerminate show ?thesis by (auto simp: sm_inv_def sm_terminate_def)
qed (auto simp: sm_bootstrap_def commit_market_update_def commit_session_update_def
      commit_position_update_def rmap_Inr_iff dest: sm_inv_good intro!: sm_inv_install
      intro: good_mutate)

lemma sm_run_inv: "sm_inv m \<Longrightarrow> sm_inv (sm_run fromiso ops m)"
proof (induction ops arbitrary: m)
  case (Cons op ops)
  then show ?case using sm_step_inv [of m fromiso op] by (cases "sm_step fromiso op m") auto
qed simp

lemma capacity_step: "sm_step fromiso op m = Ok m' \<Longrightarrow> sm_capacity m' = sm_capacity m"
  by (cases op) (auto simp: sm_bootstrap_def sm_terminate_def commit_market_update_def
      commit_session_update_def commit_position_update_def commit_health_update_def sm_install_def
      revert_to_sequence_def load_historical_snapshot_def rmap_Inr_iff elim!: rbind_InrE split: option.splits)

text \<open>C20. Whatever sequence of operations runs on a freshly built manager, its active state
  satisfies the validator's invariants, so does every state the journal could be rolled back
  to, and the journal never exceeds its capacity.\<close>

theorem reachable_states_valid:
  "let m = sm_run fromiso ops (sm_new now cap)
   in verify_invariants (sm_active m) = Ok ()
    \<and> list_all (\<lambda>s. verify_invariants s = Ok ()) (sm_journal m)
    \<and> length (sm_journal m) \<le> sm_capacity m"
  using sm_run_inv [OF sm_inv_new, of fromiso ops now cap]
  by (auto simp: Let_def sm_inv_def good_state_def state_ok_def list_all_iff)

text \<open>No operation of the manager ever installs the regime text the confirmation stage
  tests for: the regime of a reachable state is a \<open>MarketRegime\<close> member, and none of them
  has the value POST_NEWS_CHAOS. The toxic-regime gate of the confirmation stage therefore
  cannot fire on states the manager produces.\<close>

theorem post_news_regime_unreachable:
  "regime_text (rd_current_regime (es_regime (sm_active (sm_run fromiso ops (sm_new now cap)))))
     \<noteq> ''POST_NEWS_CHAOS''"
proof -
  have "good_state (sm_active (sm_run fromiso ops (sm_new now cap)))"
    using sm_run_inv [OF sm_inv_new] by (simp add: sm_inv_def)
  then obtain r where "rd_current_regime (es_regime (sm_active (sm_run fromiso ops (sm_new now cap)))) = Regime r"
    by (auto simp: good_state_def split: regime_label.splits)
  then show ?thesis by (cases r) simp_all
qed

lemma snapshot_parts:
  "read_market (market_dict m) = Ok m"
  "read_session fromiso (session_dict s) = Ok (s\<lparr>sd_killzone_name := None\<rparr>)"
  "rd_current_regime r = Regime x \<Longrightarrow> read_regime fromiso (regime_dict r) = Ok r"
  "read_positions (position_dict p) = Ok p"
  "read_health (health_dict h) = Ok h"
  by (auto simp: read_market_def market_dict_def read_session_def session_dict_def read_regime_def
      regime_dict_def read_positions_def position_dict_def read_health_def health_dict_def
      kwargs_def pfield_def pitem_def parse_dt_def pget_def)

text \<open>Serialising a state and reading it back gives the state again, except that the
  killzone name is lost: the reader does not restore it. (For a state whose regime is an
  enum member, as in every reachable state.)\<close>

theorem snapshot_roundtrip:
  assumes "rd_current_regime (es_regime s) = Regime r"
  shows "deserialize_from_dict fromiso (serialize_to_dict s)
       = Ok (s\<lparr>es_session := (es_session s)\<lparr>sd_killzone_name := None\<rparr>\<rparr>)"
  using snapshot_parts(3) [OF assms, of fromiso]
  by (simp add: deserialize_from_dict_def serialize_to_dict_def pitem_def pfield_def parse_dt_def
      snapshot_parts(1,2,4,5))

theorem snapshot_roundtrip_witness:
  "deserialize_from_dict (\<lambda>_. Raise TypeError) (serialize_to_dict (cold_boot_state (naive 0)))
     = Ok (cold_boot_state (naive 0))"
  using snapshot_roundtrip [of "cold_boot_state (naive 0)" UNKNOWN "\<lambda>_. Raise TypeError"]
  by (simp add: cold_boot_state_def)

lemma find_rev_push:
  assumes "P x"
  shows "find P (rev (xs @ [x])) = Some x"
  using assms by simp

text \<open>Rollback undoes a commit: from a journalled state, after one successful market
  commit, \<open>revert_to_sequence\<close> with the old sequence number succeeds and restores exactly
  the old active state, provided the journal holds at least two entries.\<close>

theorem revert_undoes_commit:
  assumes inv: "length (sm_journal m) \<le> sm_capacity m" and cap: "2 \<le> sm_capacity m"
    and old: "sm_journal m = js @ [sm_active m]"
    and commit: "commit_market_update now fs c m = Ok m'"
  shows "\<exists>m''. revert_to_sequence (es_sequence_id (sm_active m)) m' = (True, m'') \<and> sm_active m'' = sm_active m"
proof -
  from commit obtain s where s: "m' = sm_install s m" "es_sequence_id s = es_sequence_id (sm_active m) + 1"
    by (auto simp: commit_market_update_def mutate_market_def rmap_Inr_iff commit_state_Ok)
  have "\<exists>ks. sm_journal m' = ks @ [sm_active m, s]"
  proof (cases "length (sm_journal m) < sm_capacity m")
    case True
    then show ?thesis using dq.push_keeps [OF True, of s] old by (simp add: s(1) sm_install_def)
  next
    case False
    with inv have "sm_capacity m = Suc (length js)" using old by simp
    with cap old show ?thesis
      by (cases js) (auto simp: s(1) sm_install_def dq_push_def)
  qed
  then obtain ks where "sm_journal m' = ks @ [sm_active m, s]" by blast
  with s(2) show ?thesis by (simp add: revert_to_sequence_def)
qed

definition demo_manager :: state_manager where
  "demo_manager = sm_bootstrap (naive 0) (sm_new (naive 0) 2)"

theorem revert_undoes_commit_witness:
  "\<exists>m' m''. commit_market_update (naive 5) [MAsk (Fin 3), MBid (Fin 2)] ''t'' demo_manager = Ok m'
     \<and> revert_to_sequence 0 m' = (True, m'') \<and> sm_active m'' = cold_boot_state (naive 0)"
proof -
  have a: "sm_active demo_manager = cold_boot_state (naive 0)"
    and j: "sm_journal demo_manager = [] @ [sm_active demo_manager]" and k: "sm_capacity demo_manager = 2"
    and z: "es_sequence_id (sm_active demo_manager) = 0"
    by (simp_all add: demo_manager_def sm_bootstrap_def sm_install_def sm_new_def dq_push_def cold_boot_state_def)
  have "\<exists>m'. commit_market_update (naive 5) [MAsk (Fin 3), MBid (Fin 2)] ''t'' demo_manager = Ok m'"
    by (simp add: commit_market_update_def mutate_market_def rmap_Inr_iff commit_state_Ok a state_ok_iff)
       (simp add: cold_boot_state_def)
  then obtain m' where m': "commit_market_update (naive 5) [MAsk (Fin 3), MBid (Fin 2)] ''t'' demo_manager = Ok m'" ..
  have "\<exists>m''. revert_to_sequence (es_sequence_id (sm_active demo_manager)) m' = (True, m'')
      \<and> sm_active m'' = sm_active demo_manager"
    by (rule revert_undoes_commit [OF _ _ j m']) (simp_all add: j k)
  then obtain m'' where "revert_to_sequence 0 m' = (True, m'')" "sm_active m'' = cold_boot_state (naive 0)"
    unfolding z unfolding a by blast
  with m' show ?thesis by blast
qed

end
