(* ===== verification/OrderRouting.thy ===== *)
theory OrderRouting
  imports StateManager
begin

section \<open>Order lifecycle and routing (src/execution/order_lifecycle.py, execution_router.py)\<close>

text \<open>
  \<open>OrderLifecycleStateMachine\<close> says which status may follow which;
  \<open>HighSpeedExecutionOrchestrator\<close> queues order requests, routes them to a broker, keeps a
  ledger of the latest report per order and listens to the broker's stream. The
  orchestrator's coroutines are modelled as steps that end at an \<open>await\<close>: the queue worker
  first takes a request (\<open>worker_begin\<close>, up to the call of the broker) and later receives the
  broker's answer (\<open>worker_finish\<close>); stream reports, submissions and reconciliation passes
  may come in between. What the broker answers is an argument of the step. Log calls are
  left out.
\<close>

subsection \<open>The lifecycle state machine\<close>

fun allowed :: "order_status \<Rightarrow> order_status list" where
  "allowed PENDING_SUBMIT = [ACKNOWLEDGED, REJECTED, CANCELED]"
| "allowed ACKNOWLEDGED = [PARTIALLY_FILLED, FILLED, REJECTED, CANCELED]"
| "allowed PARTIALLY_FILLED = [FILLED, CANCELED]"
| "allowed FILLED = []"
| "allowed REJECTED = []"
| "allowed CANCELED = []"

definition validate_lifecycle_transition :: "string \<Rightarrow> order_status \<Rightarrow> order_status \<Rightarrow> unit res" where
  "validate_lifecycle_transition order_id cur incoming =
     (if incoming = cur then Ok ()
      else if incoming \<notin> set (allowed cur)
        then Raise (StateCorruptionError (''Invalid order transition for '' @ order_id @ '': ''
                      @ status_value cur @ '' -> '' @ status_value incoming))
      else Ok ())"

text \<open>The same as a step relation, for the facts about whole histories.\<close>

inductive status_step :: "order_status \<Rightarrow> order_status \<Rightarrow> bool" where
  stay: "status_step s s"
| move: "t \<in> set (allowed s) \<Longrightarrow> status_step s t"

inductive_simps status_step_simps: "status_step s t"
inductive_cases status_stepE: "status_step s t"

inductive status_reach :: "order_status \<Rightarrow> order_status \<Rightarrow> bool" where
  start: "status_reach s s"
| more: "status_reach s t \<Longrightarrow> status_step t u \<Longrightarrow> status_reach s u"

lemma validate_iff: "validate_lifecycle_transition i s t = Ok () \<longleftrightarrow> status_step s t"
  by (auto simp: validate_lifecycle_transition_def status_step_simps)

text \<open>How far an order has come: every move to another status goes up.\<close>

fun status_rank :: "order_status \<Rightarrow> nat" where
  "status_rank PENDING_SUBMIT = 0"
| "status_rank ACKNOWLEDGED = 1"
| "status_rank PARTIALLY_FILLED = 2"
| "status_rank _ = 3"

lemma move_rank: "t \<in> set (allowed s) \<Longrightarrow> status_rank s < status_rank t"
  by (cases s) auto

lemma step_rank: "status_step s t \<Longrightarrow> s = t \<or> status_rank s < status_rank t"
  by (auto elim!: status_stepE dest: move_rank)

lemma status_reach_step: "status_step s t \<Longrightarrow> status_reach s t"
  by (rule more [OF start])

lemma status_reach_trans: "status_reach t u \<Longrightarrow> status_reach s t \<Longrightarrow> status_reach s u"
  by (induction rule: status_reach.induct) (auto intro: more)

lemma reach_rank: "status_reach s t \<Longrightarrow> s = t \<or> status_rank s < status_rank t"
  by (induction rule: status_reach.induct) (auto dest: step_rank)

lemma final_stays: "status_reach s t \<Longrightarrow> s \<in> {FILLED, REJECTED, CANCELED} \<Longrightarrow> t = s"
  by (induction rule: status_reach.induct) (auto elim!: status_stepE)

text \<open>A history of statuses the validator lets through, one after the other.\<close>

fun valid_history :: "string \<Rightarrow> order_status list \<Rightarrow> bool" where
  "valid_history i (s # t # h) \<longleftrightarrow> validate_lifecycle_transition i s t = Ok () \<and> valid_history i (t # h)"
| "valid_history i _ \<longleftrightarrow> True"

lemma valid_history_reach: "valid_history i (s # h) \<Longrightarrow> t \<in> set (s # h) \<Longrightarrow> status_reach s t"
proof (induction h arbitrary: s)
  case (Cons u h)
  then have "status_step s u" by (simp add: validate_iff)
  with Cons show ?case by (auto intro: start status_reach_step status_reach_trans)
qed (simp add: start)

lemma valid_history_tail: "valid_history i (xs @ ys) \<Longrightarrow> valid_history i ys"
  by (induction i xs rule: valid_history.induct) (auto simp: validate_iff neq_Nil_conv elim: valid_history.elims)

text \<open>An order that has filled, in part or in full, was acknowledged first.\<close>

lemma fills_acknowledged:
  "valid_history i (PENDING_SUBMIT # h) \<Longrightarrow> PARTIALLY_FILLED \<in> set h \<or> FILLED \<in> set h \<Longrightarrow> ACKNOWLEDGED \<in> set h"
proof (induction h)
  case (Cons t h)
  from Cons.prems(1) have "t \<in> {PENDING_SUBMIT, ACKNOWLEDGED, REJECTED, CANCELED}" "valid_history i (t # h)"
    by (auto simp: validate_iff status_step_simps)
  with Cons show ?case using valid_history_reach [of i t h] by (auto dest!: final_stays)
qed simp

text \<open>C1. What the validator makes of an order's life. Along any history it lets through, whatever was reported, an order that is
  filled, rejected or canceled keeps that status, a status once left never comes back, and a fill comes after an acknowledgement; and
  every status can be reached from submission by a history it lets through.\<close>

theorem lifecycle_one_way:
  assumes "valid_history i (xs @ s # ys)"
  shows "(s \<in> {FILLED, REJECTED, CANCELED} \<longrightarrow> set ys \<subseteq> {s})
    \<and> (\<forall>t\<in>set ys. t \<noteq> s \<longrightarrow> s \<notin> set (dropWhile (\<lambda>u. u \<noteq> t) ys))
    \<and> (xs = [] \<and> s = PENDING_SUBMIT \<and> (PARTIALLY_FILLED \<in> set ys \<or> FILLED \<in> set ys) \<longrightarrow> ACKNOWLEDGED \<in> set ys)
    \<and> (\<forall>t. \<exists>h. valid_history i (PENDING_SUBMIT # h) \<and> last (PENDING_SUBMIT # h) = t)"
proof (intro conjI impI ballI allI)
  have h: "valid_history i (s # ys)" by (rule valid_history_tail [OF assms])
  show "set ys \<subseteq> {s}" if "s \<in> {FILLED, REJECTED, CANCELED}"
    using valid_history_reach [OF h] final_stays that by auto
  show "s \<notin> set (dropWhile (\<lambda>u. u \<noteq> t) ys)" if "t \<in> set ys" "t \<noteq> s" for t
  proof
    let ?zs = "dropWhile (\<lambda>u. u \<noteq> t) ys"
    assume s: "s \<in> set ?zs"
    have "?zs \<noteq> []" using that(1) by (auto simp: dropWhile_eq_Nil_conv)
    then obtain zs where zs: "?zs = t # zs" using hd_dropWhile [of "\<lambda>u. u \<noteq> t" ys] by (cases ?zs) auto
    have "valid_history i ((s # takeWhile (\<lambda>u. u \<noteq> t) ys) @ t # zs)" using h by (simp flip: zs)
    from valid_history_tail [OF this] s zs have "status_reach t s" by (auto intro: valid_history_reach)
    moreover have "status_reach s t" using valid_history_reach [OF h] that(1) by simp
    ultimately show False using reach_rank [of t s] reach_rank [of s t] that(2) by auto
  qed
  show "ACKNOWLEDGED \<in> set ys" if "xs = [] \<and> s = PENDING_SUBMIT \<and> (PARTIALLY_FILLED \<in> set ys \<or> FILLED \<in> set ys)"
    using fills_acknowledged [of i ys] h that by auto
  show "\<exists>h. valid_history i (PENDING_SUBMIT # h) \<and> last (PENDING_SUBMIT # h) = t" for t
    by (rule exI [of _ "case t of PENDING_SUBMIT \<Rightarrow> [] | ACKNOWLEDGED \<Rightarrow> [ACKNOWLEDGED] | PARTIALLY_FILLED \<Rightarrow> [ACKNOWLEDGED, PARTIALLY_FILLED]
          | FILLED \<Rightarrow> [ACKNOWLEDGED, FILLED] | u \<Rightarrow> [u]"])
       (cases t; simp add: validate_iff status_step_simps)
qed

theorem lifecycle_one_way_witness:
  "valid_history ''a'' [PENDING_SUBMIT, ACKNOWLEDGED, PARTIALLY_FILLED, FILLED]
   \<and> \<not> valid_history ''a'' [PENDING_SUBMIT, ACKNOWLEDGED, FILLED, ACKNOWLEDGED]
   \<and> \<not> valid_history ''a'' [PENDING_SUBMIT, ACKNOWLEDGED, FILLED, CANCELED]"
proof -
  have "valid_history ''a'' [PENDING_SUBMIT, ACKNOWLEDGED, PARTIALLY_FILLED, FILLED]"
    by (simp add: validate_iff status_step_simps)
  moreover have "\<not> valid_history ''a'' [PENDING_SUBMIT, ACKNOWLEDGED, FILLED, t]" if "t \<noteq> FILLED" for t
    using lifecycle_one_way [of "''a''" "[PENDING_SUBMIT, ACKNOWLEDGED]" FILLED "[t]"] that by auto
  ultimately show ?thesis by blast
qed

subsection \<open>Slippage gate\<close>

definition verify_execution_parameters :: "pyfloat \<Rightarrow> engine_state \<Rightarrow> bool \<times> string" where
  "verify_execution_parameters max_spread_pips st =
     (let spread_pips = fmul (md_current_spread (es_market st)) (Fin 10)
      in if flt max_spread_pips spread_pips then (False, ''SPREAD_ABOVE_ROUTING_LIMIT'')
         else (True, ''OK''))"

subsection \<open>The orchestrator's state\<close>

text \<open>The worker task waits in \<open>queue.get()\<close>, waits for the broker's answer to a request, or
  has left its loop.\<close>

datatype worker = Waiting | Routing order_request | Stopped

record router =
  ro_queue :: "order_request list"
  ro_ledger :: "(string, execution_report) dict"
  ro_registry :: "(string, datetime) dict"
  ro_locks :: "string list"
  ro_halted :: bool
  ro_worker :: worker
  ro_stream_alive :: bool
  ro_state :: state_manager

text \<open>The state right after \<open>bootstrap\<close>: the worker task and the stream listener run.\<close>

definition router_new :: "state_manager \<Rightarrow> router" where
  "router_new sm = \<lparr>ro_queue = [], ro_ledger = [], ro_registry = [], ro_locks = [], ro_halted = False,
     ro_worker = Waiting, ro_stream_alive = True, ro_state = sm\<rparr>"

definition queue_maxsize :: nat where "queue_maxsize = 1000"

definition routing_max_spread_pips :: pyfloat where "routing_max_spread_pips = Fin (7/2)"

definition submit_execution_intent :: "datetime \<Rightarrow> order_request \<Rightarrow> router \<Rightarrow> bool \<times> router" where
  "submit_execution_intent now rq r =
     (if ro_halted r then (False, r)
      else if rq_idempotency_key rq \<in> fst ` set (ro_registry r) then (False, r)
      else let r' = r\<lparr>ro_registry := AList.update (rq_idempotency_key rq) now (ro_registry r)\<rparr>
           in if length (ro_queue r') < queue_maxsize
              then (True, r'\<lparr>ro_queue := ro_queue r' @ [rq]\<rparr>)
              else (False, r'))"

definition trigger_emergency_shutdown :: "router \<Rightarrow> router" where
  "trigger_emergency_shutdown r = r\<lparr>ro_halted := True\<rparr>"

definition router_terminate :: "router \<Rightarrow> router" where
  "router_terminate r = r\<lparr>ro_halted := True, ro_worker := Stopped, ro_ledger := [], ro_registry := []\<rparr>"

text \<open>\<open>_update_local_ledger_state\<close>.\<close>

definition update_ledger ::
  "execution_report \<Rightarrow> (string, execution_report) dict \<Rightarrow> (string, execution_report) dict res" where
  "update_ledger report ledger =
     (case map_of ledger (xr_client_order_id report) of
        None \<Rightarrow> Ok (AList.update (xr_client_order_id report) report ledger)
      | Some current_record \<Rightarrow>
          rmap (\<lambda>_. AList.update (xr_client_order_id report) report ledger)
            (validate_lifecycle_transition (xr_client_order_id report) (xr_status current_record) (xr_status report)))"

definition initial_report :: "datetime \<Rightarrow> order_request \<Rightarrow> execution_report" where
  "initial_report now rq =
     \<lparr>xr_execution_id = ''EX_PRE_'' @ rq_client_order_id rq, xr_client_order_id = rq_client_order_id rq,
      xr_broker_order_id = ''UNASSIGNED'', xr_timestamp = now, xr_status = PENDING_SUBMIT,
      xr_filled_quantity = Fin 0, xr_remaining_quantity = rq_quantity_lots rq, xr_average_fill_price = Fin 0,
      xr_last_fill_price = Fin 0, xr_slippage_pips = Fin 0, xr_rejection_reason = None\<rparr>"

definition fail_report :: "datetime \<Rightarrow> string \<Rightarrow> order_request \<Rightarrow> execution_report" where
  "fail_report now err rq =
     \<lparr>xr_execution_id = ''EX_ERR_'' @ rq_client_order_id rq, xr_client_order_id = rq_client_order_id rq,
      xr_broker_order_id = ''FAILED_NODE'', xr_timestamp = now, xr_status = REJECTED,
      xr_filled_quantity = Fin 0, xr_remaining_quantity = rq_quantity_lots rq, xr_average_fill_price = Fin 0,
      xr_last_fill_price = Fin 0, xr_slippage_pips = Fin 0,
      xr_rejection_reason = Some (''GATEWAY_TRANSPORT_EXCEPTION: '' @ err)\<rparr>"

text \<open>The head of the worker loop: leave when halted, otherwise wait for a request.\<close>

definition next_worker :: "router \<Rightarrow> router" where
  "next_worker r = r\<lparr>ro_worker := (if ro_halted r then Stopped else Waiting)\<rparr>"

text \<open>From the return of \<open>queue.get()\<close> to the call of the broker. The halt flag is not looked
  at here: the loop tests it only before it waits.\<close>

definition worker_begin :: "datetime \<Rightarrow> router \<Rightarrow> router" where
  "worker_begin now r =
     (case (ro_worker r, ro_queue r) of
        (Waiting, rq # rest) \<Rightarrow>
          (let r1 = r\<lparr>ro_queue := rest,
                      ro_locks := (if rq_symbol rq \<in> set (ro_locks r) then ro_locks r
                                   else ro_locks r @ [rq_symbol rq])\<rparr>
           in if \<not> fst (verify_execution_parameters routing_max_spread_pips (sm_active (ro_state r1)))
              then next_worker r1
              else r1\<lparr>ro_ledger := AList.update (rq_client_order_id rq) (initial_report now rq) (ro_ledger r1),
                      ro_worker := Routing rq\<rparr>)
      | _ \<Rightarrow> r)"

text \<open>The text of an exception, as \<open>str(ex)\<close>.\<close>

fun exn_text :: "py_exn \<Rightarrow> string" where
  "exn_text (ValueError s) = s"
| "exn_text (RuntimeError s) = s"
| "exn_text (ValidationError s) = s"
| "exn_text (StateCorruptionError s) = s"
| "exn_text (InfrastructureError s) = s"
| "exn_text (ExternalError s) = s"
| "exn_text _ = ''''"

text \<open>The broker's answer arrives: the report is entered; if the broker raised, or entering
  its report raised, a REJECTED report is entered instead; if that raises too, the loop logs
  the exception and goes on.\<close>

definition route_ledger ::
  "datetime \<Rightarrow> order_request \<Rightarrow> execution_report res \<Rightarrow> (string, execution_report) dict \<Rightarrow> (string, execution_report) dict" where
  "route_ledger now rq answer ledger =
     (case rbind answer (\<lambda>rep. update_ledger rep ledger) of
        Inr ledger' \<Rightarrow> ledger'
      | Inl ex \<Rightarrow>
          (case update_ledger (fail_report now (exn_text ex) rq) ledger of
             Inr ledger' \<Rightarrow> ledger' | Inl _ \<Rightarrow> ledger))"

definition worker_finish :: "datetime \<Rightarrow> execution_report res \<Rightarrow> router \<Rightarrow> router" where
  "worker_finish now answer r =
     (case ro_worker r of
        Routing rq \<Rightarrow> next_worker (r\<lparr>ro_ledger := route_ledger now rq answer (ro_ledger r)\<rparr>)
      | _ \<Rightarrow> r)"

text \<open>One report of the broker's stream. An exception ends the listener for good.\<close>

definition stream_report :: "datetime \<Rightarrow> execution_report \<Rightarrow> router \<Rightarrow> router" where
  "stream_report now rep r =
     (if \<not> ro_stream_alive r then r
      else case update_ledger rep (ro_ledger r) of
        Inl _ \<Rightarrow> r\<lparr>ro_stream_alive := False\<rparr>
      | Inr ledger' \<Rightarrow>
          (let r' = r\<lparr>ro_ledger := ledger'\<rparr>
           in if xr_status rep = FILLED
              then (case commit_position_update now [PActiveCount 1, PExposure (xr_filled_quantity rep)]
                           (''FILL_SYNC_'' @ xr_execution_id rep) (ro_state r') of
                      Inl _ \<Rightarrow> r'\<lparr>ro_stream_alive := False\<rparr>
                    | Inr sm \<Rightarrow> r'\<lparr>ro_state := sm\<rparr>)
              else r'))"

text \<open>One pass of the reconciliation loop, after its 30 second sleep, with the positions the
  broker reported (or the exception its query raised, which is only logged). A halt ends the
  loop at its next head, so one more pass may follow it.\<close>

definition reconcile_pass :: "datetime \<Rightarrow> position_snapshot list res \<Rightarrow> router \<Rightarrow> router" where
  "reconcile_pass now answer r =
     (case answer of
        Inl _ \<Rightarrow> r
      | Inr broker_positions \<Rightarrow>
          (if 0 < pd_active_position_count (es_positions (sm_active (ro_state r))) \<and> broker_positions = []
           then (case commit_position_update now [PActiveCount 0, PExposure (Fin 0)]
                        ''RECONCILIATION_EMERGENCY_MUTATION'' (ro_state r) of
                   Inl _ \<Rightarrow> r | Inr sm \<Rightarrow> r\<lparr>ro_state := sm\<rparr>)
           else r))"

subsection \<open>Runs\<close>

datatype router_op =
    OSubmit datetime order_request | OBegin datetime | OFinish datetime "execution_report res"
  | OStream datetime execution_report | OReconcile datetime "position_snapshot list res" | OHalt

fun router_step :: "router_op \<Rightarrow> router \<Rightarrow> router" where
  "router_step (OSubmit now rq) r = snd (submit_execution_intent now rq r)"
| "router_step (OBegin now) r = worker_begin now r"
| "router_step (OFinish now answer) r = worker_finish now answer r"
| "router_step (OStream now rep) r = stream_report now rep r"
| "router_step (OReconcile now answer) r = reconcile_pass now answer r"
| "router_step OHalt r = trigger_emergency_shutdown r"

fun router_run :: "router_op list \<Rightarrow> router \<Rightarrow> router" where
  "router_run [] r = r"
| "router_run (x # xs) r = router_run xs (router_step x r)"

text \<open>The requests a run accepted, and the requests it handed to the broker.\<close>

fun accepted :: "router_op list \<Rightarrow> router \<Rightarrow> order_request list" where
  "accepted [] r = []"
| "accepted (x # xs) r =
     (case x of OSubmit now rq \<Rightarrow> (if fst (submit_execution_intent now rq r) then [rq] else []) | _ \<Rightarrow> [])
     @ accepted xs (router_step x r)"

fun dispatched :: "router_op list \<Rightarrow> router \<Rightarrow> order_request list" where
  "dispatched [] r = []"
| "dispatched (x # xs) r =
     (case (x, ro_worker r, ro_worker (router_step x r)) of
        (OBegin _, Waiting, Routing rq) \<Rightarrow> [rq] | _ \<Rightarrow> [])
     @ dispatched xs (router_step x r)"

subsection \<open>Facts about single steps\<close>

lemma update_ledger_Ok: "update_ledger rep l = Ok l' \<longleftrightarrow>
    l' = AList.update (xr_client_order_id rep) rep l
  \<and> (\<forall>x. map_of l (xr_client_order_id rep) = Some x \<longrightarrow> status_step (xr_status x) (xr_status rep))"
  by (auto simp: update_ledger_def rmap_Inr_iff validate_iff split: option.splits)

text \<open>What every ledger entry keeps: it stays, and its status moves as the machine allows.\<close>

definition ledger_le :: "(string, execution_report) dict \<Rightarrow> (string, execution_report) dict \<Rightarrow> bool" where
  "ledger_le l l' \<longleftrightarrow> (\<forall>i x. map_of l i = Some x \<longrightarrow>
     (\<exists>y. map_of l' i = Some y \<and> status_reach (xr_status x) (xr_status y)))"

lemma ledger_le_refl [simp]: "ledger_le l l"
  by (auto simp: ledger_le_def intro: start)

lemma ledger_le_trans: "ledger_le l m \<Longrightarrow> ledger_le m n \<Longrightarrow> ledger_le l n"
  unfolding ledger_le_def by (meson status_reach_trans)

lemma ledger_le_update: "update_ledger rep l = Ok l' \<Longrightarrow> ledger_le l l'"
  by (auto simp: update_ledger_Ok ledger_le_def intro: start status_reach_step)

lemma ledger_le_fresh: "i \<notin> fst ` set l \<Longrightarrow> ledger_le l (AList.update i x l)"
  by (auto simp: ledger_le_def intro: start dest!: map_of_SomeD) force

lemma ledger_le_route: "ledger_le l (route_ledger now rq answer l)"
  by (auto simp: route_ledger_def split: sum.splits elim!: rbind_InrE intro: ledger_le_update)

lemma next_worker_fields [simp]:
  "ro_ledger (next_worker r) = ro_ledger r" "ro_queue (next_worker r) = ro_queue r"
  "ro_registry (next_worker r) = ro_registry r" "ro_halted (next_worker r) = ro_halted r"
  "ro_state (next_worker r) = ro_state r"
  by (simp_all add: next_worker_def)

lemma submit_ledger [simp]: "ro_ledger (snd (submit_execution_intent now rq r)) = ro_ledger r"
  and submit_worker [simp]: "ro_worker (snd (submit_execution_intent now rq r)) = ro_worker r"
  and submit_halted [simp]: "ro_halted (snd (submit_execution_intent now rq r)) = ro_halted r"
  by (simp_all add: submit_execution_intent_def Let_def)

lemma stream_fields [simp]:
  "ro_queue (stream_report now rep r) = ro_queue r" "ro_registry (stream_report now rep r) = ro_registry r"
  "ro_halted (stream_report now rep r) = ro_halted r" "ro_worker (stream_report now rep r) = ro_worker r"
  by (simp_all add: stream_report_def Let_def split: sum.splits)

lemma reconcile_fields [simp]:
  "ro_queue (reconcile_pass now a r) = ro_queue r" "ro_registry (reconcile_pass now a r) = ro_registry r"
  "ro_halted (reconcile_pass now a r) = ro_halted r" "ro_worker (reconcile_pass now a r) = ro_worker r"
  "ro_ledger (reconcile_pass now a r) = ro_ledger r"
  by (simp_all add: reconcile_pass_def split: sum.splits)

lemma begin_fields [simp]:
  "ro_registry (worker_begin now r) = ro_registry r" "ro_halted (worker_begin now r) = ro_halted r"
  by (simp_all add: worker_begin_def Let_def split: worker.splits list.splits)

lemma finish_fields [simp]:
  "ro_registry (worker_finish now a r) = ro_registry r" "ro_halted (worker_finish now a r) = ro_halted r"
  "ro_queue (worker_finish now a r) = ro_queue r" "ro_state (worker_finish now a r) = ro_state r"
  by (simp_all add: worker_finish_def split: worker.splits)

lemma halt_fields [simp]:
  "ro_ledger (trigger_emergency_shutdown r) = ro_ledger r" "ro_registry (trigger_emergency_shutdown r) = ro_registry r"
  "ro_worker (trigger_emergency_shutdown r) = ro_worker r" "ro_halted (trigger_emergency_shutdown r)"
  by (simp_all add: trigger_emergency_shutdown_def)

text \<open>The only step that may write an entry without asking the machine is the PENDING_SUBMIT
  record of \<open>worker_begin\<close>; it is harmless when the order id is new.\<close>

definition begins_fresh :: "router_op \<Rightarrow> router \<Rightarrow> bool" where
  "begins_fresh x r = (case (x, ro_queue r) of
     (OBegin _, rq # _) \<Rightarrow> rq_client_order_id rq \<notin> fst ` set (ro_ledger r) | _ \<Rightarrow> True)"

lemma step_ledger_le: "begins_fresh x r \<Longrightarrow> ledger_le (ro_ledger r) (ro_ledger (router_step x r))"
proof (cases x)
  case (OBegin now)
  assume "begins_fresh x r"
  with OBegin show ?thesis
    by (auto simp: worker_begin_def Let_def begins_fresh_def ledger_le_fresh
        split: worker.splits list.splits)
next
  case (OFinish now a)
  then show ?thesis by (auto simp: worker_finish_def ledger_le_route split: worker.splits)
next
  case (OStream now rep)
  then show ?thesis
    by (auto simp: stream_report_def Let_def split: sum.splits intro: ledger_le_update)
qed simp_all

fun fresh_run :: "router_op list \<Rightarrow> router \<Rightarrow> bool" where
  "fresh_run [] r = True"
| "fresh_run (x # xs) r = (begins_fresh x r \<and> fresh_run xs (router_step x r))"

lemma run_ledger_le: "fresh_run xs r \<Longrightarrow> ledger_le (ro_ledger r) (ro_ledger (router_run xs r))"
  by (induction xs arbitrary: r) (auto intro: ledger_le_trans step_ledger_le)

definition demo_request :: "string \<Rightarrow> string \<Rightarrow> order_request" where
  "demo_request i k = \<lparr>rq_client_order_id = i, rq_symbol = ''XAUUSD'', rq_direction = BUY,
     rq_quantity_lots = Fin 1, rq_entry_price = Fin 2000, rq_stop_loss = Fin 1990, rq_take_profit = Fin 2030,
     rq_idempotency_key = k, rq_timestamp = naive 0, rq_order_type = MARKET\<rparr>"

definition demo_report :: "string \<Rightarrow> order_status \<Rightarrow> execution_report" where
  "demo_report i st = (initial_report (naive 1) (demo_request i i))\<lparr>xr_status := st\<rparr>"

abbreviation demo_router :: router where
  "demo_router \<equiv> router_new (sm_new (naive 0) 10)"

lemma gate_open [simp]:
  "fst (verify_execution_parameters routing_max_spread_pips (sm_active (sm_new t n)))"
  by (simp add: verify_execution_parameters_def sm_new_def cold_boot_state_def routing_max_spread_pips_def)

text \<open>C2. In a run that never starts an order under an id already in the ledger, no order
  ever leaves the ledger and every order's status only moves as the lifecycle machine
  allows, however submissions, broker answers, stream reports, reconciliation and halts
  interleave.\<close>

theorem ledger_follows_lifecycle:
  assumes "fresh_run xs r" and "map_of (ro_ledger r) i = Some x"
  shows "\<exists>y. map_of (ro_ledger (router_run xs r)) i = Some y \<and> status_reach (xr_status x) (xr_status y)"
  using run_ledger_le [OF assms(1)] assms(2) by (auto simp: ledger_le_def)

theorem ledger_follows_lifecycle_witness:
  "\<exists>y. map_of (ro_ledger (router_run [OFinish (naive 2) (Ok (demo_report ''a'' ACKNOWLEDGED)),
          OStream (naive 3) (demo_report ''a'' FILLED)]
        (router_run [OSubmit (naive 0) (demo_request ''a'' ''k''), OBegin (naive 1)] demo_router))) ''a'' = Some y
     \<and> status_reach PENDING_SUBMIT (xr_status y)"
proof -
  let ?r = "router_run [OSubmit (naive 0) (demo_request ''a'' ''k''), OBegin (naive 1)] demo_router"
  have m: "map_of (ro_ledger ?r) ''a'' = Some (initial_report (naive 1) (demo_request ''a'' ''k''))"
    by (simp add: router_new_def submit_execution_intent_def Let_def queue_maxsize_def worker_begin_def
        demo_request_def)
  have "fresh_run [OFinish (naive 2) (Ok (demo_report ''a'' ACKNOWLEDGED)),
          OStream (naive 3) (demo_report ''a'' FILLED)] ?r"
    by (simp add: begins_fresh_def)
  from ledger_follows_lifecycle [OF this m] show ?thesis by (simp add: initial_report_def)
qed

text \<open>Idempotency: in any run of a fresh orchestrator, no two accepted requests carry the
  same idempotency key.\<close>

theorem accepted_keys_distinct:
  "distinct (map rq_idempotency_key (accepted xs (router_new sm)))"
proof -
  have reg: "fst ` set (ro_registry r) \<subseteq> fst ` set (ro_registry (router_step x r))" for x r
    by (cases x) (auto simp: submit_execution_intent_def Let_def dom_update trigger_emergency_shutdown_def)
  have "distinct (map rq_idempotency_key (accepted xs r))
      \<and> rq_idempotency_key ` set (accepted xs r) \<inter> fst ` set (ro_registry r) = {}" for r
  proof (induction xs arbitrary: r)
    case (Cons x xs)
    from Cons.IH [of "router_step x r"] reg [of r x]
    have IH: "distinct (map rq_idempotency_key (accepted xs (router_step x r)))"
      "rq_idempotency_key ` set (accepted xs (router_step x r)) \<inter> fst ` set (ro_registry r) = {}"
      "rq_idempotency_key ` set (accepted xs (router_step x r)) \<inter> fst ` set (ro_registry (router_step x r)) = {}"
      by blast+
    show ?case
    proof (cases "\<exists>now rq. x = OSubmit now rq \<and> fst (submit_execution_intent now rq r)")
      case True
      then obtain now rq where x: "x = OSubmit now rq" and ok: "fst (submit_execution_intent now rq r)" by blast
      then have "rq_idempotency_key rq \<notin> fst ` set (ro_registry r)"
        "rq_idempotency_key rq \<in> fst ` set (ro_registry (router_step x r))"
        by (auto simp: submit_execution_intent_def Let_def dom_update split: if_splits)
      with IH ok show ?thesis by (auto simp: x)
    next
      case False
      with IH show ?thesis by (cases x) auto
    qed
  qed simp
  then show ?thesis by blast
qed

text \<open>Backpressure: the execution queue of a run never holds more than 1000 requests.\<close>

theorem queue_bounded:
  "length (ro_queue (router_run xs (router_new sm))) \<le> queue_maxsize"
proof -
  have step: "length (ro_queue r) \<le> queue_maxsize \<Longrightarrow> length (ro_queue (router_step x r)) \<le> queue_maxsize" for x r
    by (cases x) (auto simp: submit_execution_intent_def Let_def worker_begin_def trigger_emergency_shutdown_def
        split: worker.splits list.splits)
  have "length (ro_queue r) \<le> queue_maxsize \<Longrightarrow> length (ro_queue (router_run xs r)) \<le> queue_maxsize" for r
    by (induction xs arbitrary: r) (auto intro: step)
  then show ?thesis by (simp add: router_new_def)
qed

text \<open>An immediate fill is lost: when the broker answers the submission of a pending order
  with FILLED, the lifecycle machine refuses the report (a pending order may not be filled
  at once), the refusal is taken for a transport failure, and the ledger records the order
  as REJECTED with nothing filled; the position state is not updated.\<close>

theorem immediate_fill_recorded_as_rejected:
  assumes "ro_worker r = Routing rq"
    and "map_of (ro_ledger r) (rq_client_order_id rq) = Some x" and "xr_status x = PENDING_SUBMIT"
    and "xr_client_order_id rep = rq_client_order_id rq" and "xr_status rep = FILLED"
  shows "\<exists>y. map_of (ro_ledger (worker_finish now (Ok rep) r)) (rq_client_order_id rq) = Some y
      \<and> xr_status y = REJECTED \<and> xr_filled_quantity y = Fin 0
      \<and> ro_state (worker_finish now (Ok rep) r) = ro_state r"
  using assms
  by (simp add: worker_finish_def route_ledger_def update_ledger_def validate_lifecycle_transition_def
      fail_report_def)

theorem immediate_fill_recorded_as_rejected_witness:
  "\<exists>y. map_of (ro_ledger (router_run [OSubmit (naive 0) (demo_request ''a'' ''k''), OBegin (naive 1),
          OFinish (naive 2) (Ok ((demo_report ''a'' FILLED)\<lparr>xr_filled_quantity := Fin 1\<rparr>))] demo_router)) ''a'' = Some y
     \<and> xr_status y = REJECTED \<and> xr_filled_quantity y = Fin 0"
proof -
  let ?r = "router_run [OSubmit (naive 0) (demo_request ''a'' ''k''), OBegin (naive 1)] demo_router"
  have w: "ro_worker ?r = Routing (demo_request ''a'' ''k'')"
    and m: "map_of (ro_ledger ?r) (rq_client_order_id (demo_request ''a'' ''k''))
        = Some (initial_report (naive 1) (demo_request ''a'' ''k''))"
    by (simp_all add: router_new_def submit_execution_intent_def Let_def queue_maxsize_def worker_begin_def
        demo_request_def)
  from immediate_fill_recorded_as_rejected [OF w m, of "(demo_report ''a'' FILLED)\<lparr>xr_filled_quantity := Fin 1\<rparr>" "naive 2"]
  show ?thesis by (auto simp: initial_report_def demo_report_def demo_request_def)
qed

text \<open>After the emergency shutdown at most one more order reaches the broker, in whatever
  way the run continues: the one the worker was already waiting for.\<close>

theorem halt_lets_one_through:
  assumes "ro_halted r"
  shows "length (dispatched xs r) \<le> (if ro_worker r = Waiting then 1 else 0)"
  using assms
proof (induction xs arbitrary: r)
  case (Cons x xs)
  have h: "ro_halted (router_step x r)" using Cons.prems by (cases x) auto
  note IH = Cons.IH [OF h]
  show ?case
  proof (cases x)
    case (OBegin now)
    with IH Cons.prems show ?thesis
      by (auto simp: worker_begin_def Let_def next_worker_def split: worker.splits list.splits if_splits)
  next
    case (OFinish now a)
    with IH Cons.prems show ?thesis
      by (auto simp: worker_finish_def next_worker_def split: worker.splits if_splits)
  qed (use IH in simp_all)
qed simp

theorem halt_lets_one_through_witness:
  "length (dispatched [OBegin (naive 1), OFinish (naive 2) (Ok (demo_report ''a'' ACKNOWLEDGED)), OBegin (naive 3)]
     (router_run [OSubmit (naive 0) (demo_request ''a'' ''k''), OSubmit (naive 0) (demo_request ''b'' ''l''), OHalt]
        demo_router)) = 1"
proof -
  let ?r = "router_run [OSubmit (naive 0) (demo_request ''a'' ''k''), OSubmit (naive 0) (demo_request ''b'' ''l''), OHalt]
        demo_router"
  let ?xs = "[OBegin (naive 1), OFinish (naive 2) (Ok (demo_report ''a'' ACKNOWLEDGED)), OBegin (naive 3)]"
  have le: "length (dispatched ?xs ?r) \<le> (if ro_worker ?r = Waiting then 1 else 0)"
    by (rule halt_lets_one_through) simp
  have "dispatched ?xs ?r \<noteq> []"
    by (simp add: router_new_def submit_execution_intent_def Let_def queue_maxsize_def worker_begin_def
        demo_request_def trigger_emergency_shutdown_def)
  then have "0 < length (dispatched ?xs ?r)" by (rule length_greater_0_conv [THEN iffD2])
  moreover have "length (dispatched ?xs ?r) \<le> 1" using le by (rule order_trans) simp
  ultimately show ?thesis by linarith
qed

text \<open>A fill reported on the stream is entered in the position state: one open position
  with the filled quantity as its exposure, whenever the report is a legal transition and
  the manager is in a valid state.\<close>

theorem stream_fill_updates_position:
  assumes "ro_stream_alive r" and "sm_inv (ro_state r)" and "xr_status rep = FILLED"
    and "update_ledger rep (ro_ledger r) = Ok l"
  shows "let p = es_positions (sm_active (ro_state (stream_report now rep r)))
         in pd_active_position_count p = 1 \<and> pd_net_exposure_lots p = xr_filled_quantity rep"
proof -
  let ?s = "sm_active (ro_state r)"
  have "state_ok ?s" using assms(2) by (simp add: sm_inv_def good_state_def)
  then have "\<exists>s'. mutate_positions now ?s [PActiveCount 1, PExposure (xr_filled_quantity rep)] c = Ok s'
      \<and> pd_active_position_count (es_positions s') = 1
      \<and> pd_net_exposure_lots (es_positions s') = xr_filled_quantity rep" for c
    by (simp add: mutate_positions_def commit_state_Ok state_ok_iff)
  then obtain s' where s': "mutate_positions now ?s [PActiveCount 1, PExposure (xr_filled_quantity rep)]
        (''FILL_SYNC_'' @ xr_execution_id rep) = Ok s'"
      "pd_active_position_count (es_positions s') = 1"
      "pd_net_exposure_lots (es_positions s') = xr_filled_quantity rep" by blast
  with assms show ?thesis
    by (simp add: stream_report_def Let_def commit_position_update_def sm_install_def)
qed

theorem stream_fill_updates_position_witness:
  "pd_active_position_count (es_positions (sm_active (ro_state
      (stream_report (naive 1) (demo_report ''x'' FILLED) demo_router)))) = 1"
proof -
  have "update_ledger (demo_report ''x'' FILLED) (ro_ledger demo_router) = Ok [(''x'', demo_report ''x'' FILLED)]"
    by (simp add: update_ledger_def router_new_def demo_report_def initial_report_def demo_request_def)
  from stream_fill_updates_position [OF _ _ _ this, of "naive 1"] show ?thesis
    by (simp add: router_new_def sm_inv_new demo_report_def Let_def)
qed

subsection \<open>The broker port\<close>

text \<open>
  What the orchestrator relies on from a broker: a report it returns is about the order it
  was asked to route. Under this contract a routed order's ledger entry is determined by the
  broker's status. The gateway to MT5 and the backtest simulator satisfy it (theories
  \<open>Mt5Gateway\<close> and \<open>Backtest\<close>).
\<close>

locale broker_port =
  fixes route :: "'b \<Rightarrow> order_request \<Rightarrow> execution_report res"
  assumes route_id: "route b rq = Ok rep \<Longrightarrow> xr_client_order_id rep = rq_client_order_id rq"
begin

lemma routed_status:
  assumes "ro_worker r = Routing rq"
    and "map_of (ro_ledger r) (rq_client_order_id rq) = Some x" and "xr_status x = PENDING_SUBMIT"
  shows "\<exists>y. map_of (ro_ledger (worker_finish now (route b rq) r)) (rq_client_order_id rq) = Some y
     \<and> xr_status y = (case route b rq of
          Inl _ \<Rightarrow> REJECTED
        | Inr rep \<Rightarrow> if xr_status rep \<in> {PENDING_SUBMIT, ACKNOWLEDGED, CANCELED} then xr_status rep else REJECTED)"
proof (cases "route b rq")
  case (Inl e)
  with assms show ?thesis
    by (simp add: worker_finish_def route_ledger_def update_ledger_def validate_lifecycle_transition_def fail_report_def)
next
  case (Inr rep)
  with assms route_id [OF Inr] show ?thesis
    by (cases "xr_status rep")
       (simp_all add: worker_finish_def route_ledger_def update_ledger_def validate_lifecycle_transition_def fail_report_def)
qed

end

end
