(* ===== verification/PyDecimal.thy ===== *)
theory PyDecimal
  imports PyBase
begin

section \<open>Python's decimal.Decimal, as far as the volume rounding uses it\<close>

text \<open>
  The code floors a lot size to the broker's volume step in decimal arithmetic:
  \<open>Decimal(str(x))\<close> is the shortest decimal that reads back as the float \<open>x\<close>
  (\<open>repr_dec\<close>), the quotient and the product are rounded to the 28 significant digits of
  the default context, half to even (\<open>dec_round\<close>), and \<open>float()\<close> rounds to the nearest
  float. Operations with no value in the default context raise \<open>InvalidOperation\<close>. The
  exponent limits of the context are not modelled: no double comes near them.
\<close>

definition d10 :: "int \<Rightarrow> rat" where
  "d10 e = (if 0 \<le> e then 10 ^ nat e else 1 / 10 ^ nat (- e))"

text \<open>The number of decimal digits of a natural number, and the decimal exponent of a
  positive rational.\<close>

fun ndigits :: "nat \<Rightarrow> nat" where
  "ndigits n = (if n = 0 then 0 else Suc (ndigits (n div 10)))"

declare ndigits.simps [simp del]

definition dexp :: "rat \<Rightarrow> int" where
  "dexp q = (if 1 \<le> q then int (ndigits (nat \<lfloor>q\<rfloor>)) - 1
             else - int (ndigits (nat (\<lceil>1 / q\<rceil> - 1))))"

definition dec_round :: "nat \<Rightarrow> rat \<Rightarrow> rat" where
  "dec_round p q = (if q = 0 then 0
     else let u = d10 (dexp \<bar>q\<bar> - int p + 1) in of_int (rhe (q / u)) * u)"

text \<open>The shortest representation: with \<open>d\<close> digits, of the two neighbours of \<open>q\<close> the closer
  one that rounds back to \<open>q\<close> (the even one of two equally close).\<close>

definition shortest_at :: "rat \<Rightarrow> nat \<Rightarrow> rat option" where
  "shortest_at q d =
     (let u = d10 (dexp q - int d + 1); k = \<lfloor>q / u\<rfloor>;
          lo = of_int k * u; hi = of_int (k + 1) * u;
          lo_ok = (rnd_fin lo = q); hi_ok = (rnd_fin hi = q)
      in if lo_ok \<and> hi_ok
         then Some (if q - lo < hi - q then lo else if hi - q < q - lo then hi
                    else if even k then lo else hi)
         else if lo_ok then Some lo else if hi_ok then Some hi else None)"

fun first_some :: "('a \<Rightarrow> 'b option) \<Rightarrow> 'a list \<Rightarrow> 'b option" where
  "first_some f [] = None"
| "first_some f (x # xs) = (case f x of None \<Rightarrow> first_some f xs | Some y \<Rightarrow> Some y)"

definition repr_pos :: "rat \<Rightarrow> rat" where
  "repr_pos q = (case first_some (shortest_at q) [1..<18] of Some r \<Rightarrow> r | None \<Rightarrow> q)"

definition repr_dec :: "rat \<Rightarrow> rat" where
  "repr_dec q = (if q = 0 then 0 else if 0 < q then repr_pos q else - repr_pos (- q))"

datatype pydec = DFin rat | DInf bool | DNaN

fun dec_of_float :: "pyfloat \<Rightarrow> pydec" where
  "dec_of_float (Fin q) = DFin (repr_dec q)"
| "dec_of_float PInf = DInf True"
| "dec_of_float NInf = DInf False"
| "dec_of_float NaN = DNaN"

abbreviation InvalidOperation :: py_exn where
  "InvalidOperation \<equiv> ExternalError ''decimal.InvalidOperation''"

fun dec_div :: "pydec \<Rightarrow> pydec \<Rightarrow> pydec res" where
  "dec_div DNaN _ = Ok DNaN"
| "dec_div _ DNaN = Ok DNaN"
| "dec_div (DFin a) (DFin b) = (if b = 0 then Raise ZeroDivisionError else Ok (DFin (dec_round 28 (a / b))))"
| "dec_div (DFin a) (DInf s) = Ok (DFin 0)"
| "dec_div (DInf s) (DFin b) = Ok (DInf (if 0 \<le> b then s else \<not> s))"
| "dec_div (DInf _) (DInf _) = Raise InvalidOperation"

fun dec_floor :: "pydec \<Rightarrow> pydec" where
  "dec_floor (DFin q) = DFin (of_int \<lfloor>q\<rfloor>)"
| "dec_floor x = x"

fun dec_mul :: "pydec \<Rightarrow> pydec \<Rightarrow> pydec res" where
  "dec_mul DNaN _ = Ok DNaN"
| "dec_mul _ DNaN = Ok DNaN"
| "dec_mul (DFin a) (DFin b) = Ok (DFin (dec_round 28 (a * b)))"
| "dec_mul (DFin a) (DInf s) = (if a = 0 then Raise InvalidOperation else Ok (DInf (if 0 < a then s else \<not> s)))"
| "dec_mul (DInf s) (DFin b) = (if b = 0 then Raise InvalidOperation else Ok (DInf (if 0 < b then s else \<not> s)))"
| "dec_mul (DInf s) (DInf t) = Ok (DInf (s = t))"

fun float_of_dec :: "pydec \<Rightarrow> pyfloat" where
  "float_of_dec (DFin q) = rnd q"
| "float_of_dec (DInf s) = (if s then PInf else NInf)"
| "float_of_dec DNaN = NaN"

text \<open>\<open>float(floor(Decimal(str(x)) / Decimal(str(step))) * Decimal(str(step)))\<close>.\<close>

definition floor_to_step :: "pyfloat \<Rightarrow> pyfloat \<Rightarrow> pyfloat res" where
  "floor_to_step x step =
     (let s = dec_of_float step in
      rbind (dec_div (dec_of_float x) s) (\<lambda>q.
      rmap float_of_dec (dec_mul (dec_floor q) s)))"

subsection \<open>Powers of ten and decimal exponents\<close>

lemma d10_powi: "d10 e = 10 powi e"
  by (auto simp: d10_def power_int_def field_simps)

lemma d10_pos [simp]: "0 < d10 e"
  by (simp add: d10_def)

lemma d10_nonzero [simp]: "d10 e \<noteq> 0"
  using d10_pos [of e] by linarith

lemma d10_add: "d10 (a + b) = d10 a * d10 b"
  by (simp add: d10_powi power_int_add)

lemma d10_mono: "a \<le> b \<Longrightarrow> d10 a \<le> d10 b"
  by (simp add: d10_powi power_int_increasing)

lemma d10_less_iff: "d10 a < d10 b \<longleftrightarrow> a < b"
proof -
  have "a < b \<Longrightarrow> d10 a < d10 b" by (simp add: d10_powi power_int_strict_increasing)
  then show ?thesis by (meson d10_mono not_le)
qed

lemma ndigits_bounds: "0 < n \<Longrightarrow> 10 ^ ndigits n \<le> 10 * n \<and> n < 10 ^ ndigits n"
proof (induction n rule: ndigits.induct)
  case (1 n)
  show ?case
  proof (cases "n < 10")
    case True
    then have "n div 10 = 0" by simp
    with True 1 show ?thesis by (simp add: ndigits.simps [of n] ndigits.simps [of 0])
  next
    case False
    with 1 have "10 ^ ndigits (n div 10) \<le> 10 * (n div 10) \<and> n div 10 < 10 ^ ndigits (n div 10)" by simp
    then have "10 * 10 ^ ndigits (n div 10) \<le> 10 * n \<and> n < 10 * 10 ^ ndigits (n div 10)" by linarith
    with 1 show ?thesis by (simp add: ndigits.simps [of n])
  qed
qed

lemma dexp_low:
  assumes "0 < q"
  shows "d10 (dexp q) \<le> q"
proof (cases "1 \<le> q")
  case True
  let ?n = "nat \<lfloor>q\<rfloor>"
  have n: "0 < ?n" using True by (simp add: le_floor_iff)
  then have "10 ^ ndigits ?n \<le> 10 * ?n" using ndigits_bounds by blast
  then have "rat_of_nat (10 ^ ndigits ?n) \<le> of_nat (10 * ?n)" by (simp only: of_nat_le_iff)
  moreover have "rat_of_nat ?n \<le> q" using True by simp
  ultimately have "10 ^ ndigits ?n \<le> 10 * q" by simp
  moreover have "d10 (dexp q) = 10 ^ ndigits ?n / 10"
    using True by (simp add: dexp_def d10_powi power_int_diff)
  ultimately show ?thesis by simp
next
  case False
  let ?c = "nat (\<lceil>1 / q\<rceil> - 1)"
  have r: "1 < 1 / q" using False assms by (simp add: field_simps)
  then have c1: "1 < \<lceil>1 / q\<rceil>" by (simp add: less_ceiling_iff)
  then have c: "0 < ?c" by simp
  then have "?c < 10 ^ ndigits ?c" using ndigits_bounds by blast
  then have "rat_of_nat (?c + 1) \<le> of_nat (10 ^ ndigits ?c)" by (simp only: of_nat_le_iff)
  moreover have "1 / q \<le> rat_of_nat (?c + 1)"
  proof -
    have "0 \<le> \<lceil>1 / q\<rceil> - 1" using c1 by linarith
    then have "rat_of_nat ?c = of_int (\<lceil>1 / q\<rceil> - 1)" by (rule of_nat_nat)
    then have "rat_of_nat (?c + 1) = of_int \<lceil>1 / q\<rceil>" by simp
    then show ?thesis using le_of_int_ceiling [of "1 / q"] by (simp only:)
  qed
  ultimately have "1 / q \<le> 10 ^ ndigits ?c" by simp
  then have "1 / 10 ^ ndigits ?c \<le> q" using assms by (simp add: field_simps)
  moreover have "d10 (dexp q) = 1 / 10 ^ ndigits ?c"
    using False by (simp add: dexp_def d10_powi power_int_minus field_simps)
  ultimately show ?thesis by simp
qed

lemma dec_round_near: "0 < q \<Longrightarrow> \<bar>dec_round p q - q\<bar> \<le> d10 (dexp q - int p + 1) / 2"
proof -
  assume q: "0 < q"
  let ?u = "d10 (dexp q - int p + 1)"
  have "\<bar>of_int (rhe (q / ?u)) - q / ?u\<bar> * ?u \<le> 1/2 * ?u"
    by (rule mult_right_mono [OF rhe_near]) (simp add: less_imp_le)
  moreover have "\<bar>of_int (rhe (q / ?u)) - q / ?u\<bar> * ?u = \<bar>(of_int (rhe (q / ?u)) - q / ?u) * ?u\<bar>"
    by (simp add: abs_mult abs_of_pos)
  moreover have "(of_int (rhe (q / ?u)) - q / ?u) * ?u = dec_round p q - q"
    using q by (simp add: dec_round_def Let_def field_simps)
  ultimately show ?thesis by simp
qed

lemma dec_round_nonneg: "0 \<le> q \<Longrightarrow> 0 \<le> dec_round p q"
proof -
  assume q: "0 \<le> q"
  have "0 \<le> rhe (q / d10 (dexp \<bar>q\<bar> - int p + 1))"
    using rhe_mono [of 0 "q / d10 (dexp \<bar>q\<bar> - int p + 1)"] q by (simp add: less_imp_le)
  then show ?thesis using less_imp_le [OF d10_pos] by (auto simp: dec_round_def Let_def)
qed

text \<open>A decimal of at most \<open>p\<close> digits is unchanged.\<close>

lemma dec_round_exact:
  assumes "0 \<le> m" "m < 10 ^ p"
  shows "dec_round p (of_int m / 10 ^ k) = of_int m / 10 ^ k"
proof (cases "m = 0")
  case True
  then show ?thesis by (simp add: dec_round_def)
next
  case False
  with assms have m: "0 < m" by simp
  let ?q = "rat_of_int m / 10 ^ k"
  have q: "0 < ?q" using m by simp
  have k: "1 / 10 ^ k = d10 (- int k)" by (simp add: d10_powi power_int_minus field_simps)
  have qk: "?q = of_int m * d10 (- int k)" by (simp add: k [symmetric])
  have "rat_of_int m < of_int (10 ^ p)" using assms(2) by (simp only: of_int_less_iff)
  then have "rat_of_int m * d10 (- int k) < d10 (int p) * d10 (- int k)"
    by (intro mult_strict_right_mono) (simp_all add: d10_def)
  then have "?q < d10 (int p) * d10 (- int k)" unfolding qk .
  then have "d10 (dexp ?q) < d10 (int p + - int k)"     using dexp_low [OF q] d10_add [of "int p" "- int k"] by linarith
  then have le: "dexp ?q - int p + 1 \<le> - int k" by (simp add: d10_less_iff)
  define e where "e = dexp ?q - int p + 1"
  define j where "j = nat (- int k - e)"
  have "d10 (- int k) = d10 (int j + e)" using le by (simp add: j_def e_def)
  then have dj: "d10 (- int k) = 10 ^ j * d10 e" by (simp add: d10_add) (simp add: d10_def)
  have qe: "?q = of_int (m * 10 ^ j) * d10 e" unfolding qk dj by simp
  have "?q / d10 e = of_int (m * 10 ^ j)" by (subst qe) simp
  then have r: "rhe (?q / d10 e) = m * 10 ^ j" by (metis rhe_int)
  have "dec_round p ?q = of_int (rhe (?q / d10 e)) * d10 e"
    using q unfolding e_def by (simp only: dec_round_def Let_def abs_of_pos) simp
  also have "\<dots> = ?q" unfolding r using qe by simp
  finally show ?thesis .
qed

subsection \<open>The representation reads back\<close>

lemma shortest_at_ok: "shortest_at q d = Some r \<Longrightarrow> rnd_fin r = q"
  by (auto simp: shortest_at_def Let_def split: if_splits)

lemma first_some_ok: "first_some f xs = Some y \<Longrightarrow> \<exists>x. f x = Some y"
  by (induction xs) (auto split: option.splits)

lemma repr_pos_ok: "rnd_fin q = q \<Longrightarrow> rnd_fin (repr_pos q) = q"
  by (auto simp: repr_pos_def split: option.splits dest!: first_some_ok intro: shortest_at_ok)

lemma repr_dec_ok: "rnd_fin q = q \<Longrightarrow> rnd_fin (repr_dec q) = q"
proof -
  assume q: "rnd_fin q = q"
  then have "rnd_fin (- q) = - q" by (simp add: rnd_fin_uminus)
  with q repr_pos_ok [of q] repr_pos_ok [of "- q"] show ?thesis
    by (auto simp: repr_dec_def rnd_fin_uminus)
qed

text \<open>A float, for the rounding lemmas: a finite representable value within the range.\<close>

definition is_float :: "rat \<Rightarrow> bool" where
  "is_float q \<longleftrightarrow> rnd q = Fin q"

lemma rnd_repr_dec: "is_float q \<Longrightarrow> rnd (repr_dec q) = Fin q"
proof -
  assume "is_float q"
  then have "rnd q = Fin q" "rnd_fin q = q" using rnd_FinD [of q q] by (auto simp: is_float_def)
  then show ?thesis using repr_dec_ok [of q] by (simp add: rnd_def Let_def)
qed

subsection \<open>Flooring to a step never rounds up\<close>

text \<open>
  A quotient of two decimals on a common grid, below \<open>10 ^ 9\<close> and with a divisor of at most
  17 digits, is not rounded up to the next integer by the 28-digit division.
\<close>

lemma floor_dec_round:
  assumes B: "0 < B" "B \<le> 10 ^ 17" and A: "0 \<le> A" "A < B * 10 ^ 9"
  shows "\<lfloor>dec_round 28 (of_int A / of_int B)\<rfloor> * B \<le> A"
proof (cases "A = 0")
  case True
  then show ?thesis by (simp add: dec_round_def)
next
  case False
  let ?x = "rat_of_int A / of_int B"
  let ?n = "\<lfloor>dec_round 28 ?x\<rfloor>"
  have Bq: "0 < rat_of_int B" using B by simp
  have x: "0 < ?x" using False A B by simp
  have "rat_of_int A < of_int (B * 10 ^ 9)" using A(2) by (simp only: of_int_less_iff)
  then have "?x < d10 9" using Bq by (simp add: d10_def field_simps)
  then have "d10 (dexp ?x) < d10 9" using dexp_low [OF x] by linarith
  then have "dexp ?x \<le> 8" by (simp add: d10_less_iff)
  then have "d10 (dexp ?x - int 28 + 1) \<le> d10 (- 19)" by (intro d10_mono) simp
  define e :: rat where "e = d10 (- 19)"
  have e: "e * 10 ^ 19 = 1" by (simp add: e_def d10_def)
  have u: "d10 (dexp ?x - int 28 + 1) \<le> e"
    unfolding e_def by fact
  have near: "dec_round 28 ?x \<le> ?x + e / 2"
  proof -
    have "dec_round 28 ?x - ?x \<le> d10 (dexp ?x - int 28 + 1) / 2"
      using dec_round_near [OF x, of 28] by (rule abs_le_D1)
    also have "\<dots> \<le> e / 2" using u by simp
    finally show ?thesis by linarith
  qed
  show ?thesis
  proof (rule ccontr)
    assume "\<not> ?n * B \<le> A"
    then have "A + 1 \<le> ?n * B" by simp
    then have "rat_of_int (A + 1) \<le> of_int (?n * B)" by (simp only: of_int_le_iff)
    then have "?x + 1 / of_int B \<le> of_int ?n" using Bq by (simp add: field_simps)
    moreover have "of_int ?n \<le> dec_round 28 ?x" by simp
    moreover have "1 / 10 ^ 17 \<le> 1 / rat_of_int B"
    proof -
      have "rat_of_int B \<le> of_int (10 ^ 17)" using B(2) by (simp only: of_int_le_iff)
      then show ?thesis using Bq by (simp add: field_simps)
    qed
    ultimately have "1 / 10 ^ 17 \<le> e / 2" using near by linarith
    with e show False by simp
  qed
qed

lemma floor_to_step_le:
  assumes q: "is_float q" and D: "repr_dec q = of_int A / 10 ^ k" and S: "repr_dec step = of_int B / 10 ^ k"
    and B: "0 < B" "B \<le> 10 ^ 17" and A: "0 \<le> A" "A < B * 10 ^ 9"
  shows "\<exists>v. floor_to_step (Fin q) (Fin step) = Ok v \<and> fle v (Fin q) \<and> fle (Fin 0) v"
proof -
  let ?x = "rat_of_int A / of_int B"
  let ?n = "\<lfloor>dec_round 28 ?x\<rfloor>"
  have n0: "0 \<le> ?n" using dec_round_nonneg [of ?x 28] A B by simp
  have le: "?n * B \<le> A" by (rule floor_dec_round [OF B A])
  have "A < 10 ^ 17 * 10 ^ 9" using A(2) B(2) by simp
  then have lt: "?n * B < 10 ^ 28" using le by simp
  have ge: "0 \<le> ?n * B" using n0 B by simp
  have div: "of_int A / 10 ^ k / (of_int B / 10 ^ k) = ?x" by simp
  have mul: "of_int ?n * (of_int B / 10 ^ k) = of_int (?n * B) / (10::rat) ^ k" by simp
  have ex: "dec_round 28 (of_int (?n * B) / 10 ^ k) = of_int (?n * B) / 10 ^ k"
    by (rule dec_round_exact [OF ge lt])
  have s0: "repr_dec step \<noteq> 0" using S B by simp
  have v: "floor_to_step (Fin q) (Fin step) = Ok (rnd (of_int (?n * B) / 10 ^ k))"
    using s0 unfolding floor_to_step_def Let_def dec_of_float.simps dec_div.simps D S div
    by (simp only: if_False rbind_simps dec_floor.simps dec_mul.simps mul ex rmap_simps float_of_dec.simps)
  have "rat_of_int (?n * B) \<le> of_int A" using le by (simp only: of_int_le_iff)
  then have "rat_of_int (?n * B) / 10 ^ k \<le> repr_dec q" unfolding D by (simp add: divide_right_mono)
  then have "fle (rnd (of_int (?n * B) / 10 ^ k)) (Fin q)"
    using rnd_mono rnd_repr_dec [OF q] by metis
  moreover have "fle (Fin 0) (rnd (of_int (?n * B) / 10 ^ k))"
    using ge by (intro rnd_nonneg) (simp only: zero_le_divide_iff of_int_0_le_iff, simp)
  ultimately show ?thesis using v by blast
qed

subsection \<open>Seventeen digits are enough\<close>

text \<open>A value closer to a normal float than its spacing allows rounds back to it.\<close>

lemma rnd_fin_pull:
  assumes q: "rnd_fin q = q" "0 < q" "- 1021 \<le> lg2 q"
    and near: "2 * \<bar>x - q\<bar> \<le> q / 10 ^ 16"
  shows "rnd_fin x = q"
proof -
  define U where "U = p2 (lg2 q - 52)"
  define H where "H = p2 (lg2 q - 53)"
  define m where "m = rhe (q / U)"
  have U: "0 < U" and UH: "U = 2 * H" using p2_add [of 1 "lg2 q - 53"] by (simp_all add: U_def H_def p2_def)
  have "qexp q = lg2 q - 52" using q by (simp add: qexp_def)
  then have qm: "q = of_int m * U" using q by (simp add: rnd_fin_def m_def U_def)
  have lo: "p2 (lg2 q) = 4503599627370496 * U" and up: "p2 (lg2 q + 1) = 9007199254740992 * U"
    using p2_add [of 52 "lg2 q - 52"] p2_add [of 53 "lg2 q - 52"] by (simp_all add: U_def p2_52 p2_53 add.commute)
  have b: "4503599627370496 * U \<le> q" "q < 9007199254740992 * U"
    using lg2_bounds [OF q(2)] lo up by simp_all
  have nU: "2 * \<bar>x - q\<bar> < U" using near b U by simp
  from b U have "rat_of_int m < of_int 9007199254740992" by (simp add: qm)
  then have m: "m \<le> 9007199254740991" by (simp only: of_int_less_iff)
  then have "rat_of_int m \<le> of_int 9007199254740991" by (simp only: of_int_le_iff)
  then have mU: "q \<le> 9007199254740991 * U" unfolding qm using U by (intro mult_right_mono) auto
  show ?thesis
  proof (cases "p2 (lg2 q) \<le> x")
    case True
    have "rnd_fin x = of_int m * p2 (lg2 q - 52)"
    proof (rule rnd_fin_cert)
      show "p2 (lg2 q - 52 + 52) \<le> x" using True by simp
      obtain a where "x - q \<le> a" "2 * a < U" using nU abs_ge_self by blast
      then have "x < 9007199254740992 * U" using mU U by linarith
      then show "x < p2 (lg2 q - 52 + 53)" using up by (simp add: add.commute)
      show "\<bar>x - of_int m * p2 (lg2 q - 52)\<bar> * 2 < p2 (lg2 q - 52)"
        using nU unfolding U_def [symmetric] qm [symmetric] by simp
    qed (use q in simp)
    from this [folded U_def, folded qm] show ?thesis .
  next
    case False
    with lo have x: "x < 4503599627370496 * U" by simp
    obtain b' where "q - x \<le> b'" "2 * b' < U" using nU abs_ge_minus_self [of "x - q"] by auto
    with x have "q < 4503599627370497 * U" using U by linarith
    then have "rat_of_int m < of_int 4503599627370497" using U by (simp add: qm)
    then have "m \<le> 4503599627370496" by (simp only: of_int_less_iff)
    moreover have "rat_of_int 4503599627370496 \<le> of_int m" using b(1) U by (simp add: qm)
    then have "4503599627370496 \<le> m" by (simp only: of_int_le_iff)
    ultimately have m: "m = 4503599627370496" by simp
    have q52: "q = 4503599627370496 * U" using qm m by simp
    have nH: "2 * \<bar>x - q\<bar> < H" using near q52 U UH by simp
    have p: "p2 (lg2 q - 53 + 52) = 4503599627370496 * H" "p2 (lg2 q - 53 + 53) = 9007199254740992 * H"
      using p2_add [of 52 "lg2 q - 53"] p2_add [of 53 "lg2 q - 53"]
      by (simp_all add: H_def p2_52 p2_53 add.commute)
    have qH: "q = of_int (2 * m) * H" using q52 UH m by simp
    obtain a where a: "q - x \<le> a" "2 * a < H" using nH abs_ge_minus_self [of "x - q"] by auto
    have "rnd_fin x = of_int (2 * m) * p2 (lg2 q - 53)"
    proof (rule rnd_fin_cert)
      show "p2 (lg2 q - 53 + 52) \<le> x" unfolding p using a q52 UH U by linarith
      show "x < p2 (lg2 q - 53 + 53)" unfolding p using x UH by linarith
      show "\<bar>x - of_int (2 * m) * p2 (lg2 q - 53)\<bar> * 2 < p2 (lg2 q - 53)"
        using nH unfolding H_def [symmetric] qH [symmetric] by simp
    qed (use q in simp)
    from this [folded H_def, folded qH] show ?thesis .
  qed
qed

lemma dexp_high:
  assumes "0 < q"
  shows "q < d10 (dexp q + 1)"
proof (cases "1 \<le> q")
  case True
  let ?n = "nat \<lfloor>q\<rfloor>"
  have "0 < ?n" using True by simp
  then have "?n < 10 ^ ndigits ?n" using ndigits_bounds by blast
  then have "int ?n < int (10 ^ ndigits ?n)" by (simp only: of_nat_less_iff)
  then have "\<lfloor>q\<rfloor> < 10 ^ ndigits ?n" using True by simp
  then have "q < of_int (10 ^ ndigits ?n)" by (simp only: floor_less_iff)
  then show ?thesis using True by (simp add: dexp_def d10_def)
next
  case False
  let ?c = "\<lceil>1 / q\<rceil> - 1"
  have "1 < 1 / q" using False assms by simp
  then have c: "1 \<le> ?c" by (simp add: less_ceiling_iff le_diff_eq)
  then have "10 ^ ndigits (nat ?c) \<le> 10 * nat ?c" using ndigits_bounds [of "nat ?c"] by auto
  then have "int (10 ^ ndigits (nat ?c)) \<le> int (10 * nat ?c)" by (simp only: of_nat_le_iff)
  moreover have "int (nat ?c) = ?c" using c by (intro nat_0_le) linarith
  then have "int (10 * nat ?c) = 10 * ?c" by (simp only: of_nat_mult of_nat_numeral)
  ultimately have "(10::int) ^ ndigits (nat ?c) \<le> 10 * ?c" by (metis of_nat_numeral of_nat_power)
  then have "rat_of_int (10 ^ ndigits (nat ?c)) \<le> of_int (10 * ?c)" by (simp only: of_int_le_iff)
  also have "\<dots> < 10 * (1 / q)" using ceiling_correct [of "1 / q"] by simp
  finally have "10 ^ ndigits (nat ?c) * q < 10" using assms by (simp add: field_simps)
  moreover have "d10 (dexp q + 1) = 10 / 10 ^ ndigits (nat ?c)"
    using False d10_add [of "dexp q" 1] by (simp add: dexp_def d10_def)
  ultimately show ?thesis by (simp add: pos_less_divide_eq mult.commute)
qed

lemma nearer_end:
  "lo \<le> (q::rat) \<Longrightarrow> q < hi \<Longrightarrow> hi = lo + u \<Longrightarrow> 2 * \<bar>lo - q\<bar> \<le> u \<or> 2 * \<bar>hi - q\<bar> \<le> u"
  by (simp add: abs_if) arith

lemma shortest_at_17:
  assumes q: "rnd_fin q = q" "0 < q" "- 1021 \<le> lg2 q"
  shows "shortest_at q 17 \<noteq> None"
proof -
  define u where "u = d10 (dexp q - 16)"
  define k where "k = \<lfloor>q / u\<rfloor>"
  have u: "0 < u" by (simp add: u_def)
  have "d10 (dexp q) = u * 10 ^ 16" unfolding u_def using d10_add [of "dexp q - 16" 16] by (simp add: d10_def)
  then have uq: "u \<le> q / 10 ^ 16" using dexp_low [OF q(2)] by simp
  have "of_int k \<le> q / u" "q / u < of_int k + 1" unfolding k_def by linarith+
  then have lo: "of_int k * u \<le> q" and hi: "q < of_int (k + 1) * u" using u by (simp_all add: field_simps)
  have eq: "of_int (k + 1) * u = of_int k * u + u" by (simp add: algebra_simps)
  have "2 * \<bar>of_int k * u - q\<bar> \<le> u \<or> 2 * \<bar>of_int (k + 1) * u - q\<bar> \<le> u"
    by (rule nearer_end [OF lo hi eq])
  then have "rnd_fin (of_int k * u) = q \<or> rnd_fin (of_int (k + 1) * u) = q"
    using rnd_fin_pull [OF q] uq by (meson order_trans)
  then show ?thesis by (auto simp: shortest_at_def Let_def u_def k_def)
qed

lemma shortest_at_form:
  assumes "shortest_at q d = Some r" "0 < q"
  shows "\<exists>m e. r = of_int m * d10 e \<and> 0 \<le> m \<and> m \<le> 10 ^ d"
proof -
  define u where "u = d10 (dexp q - int d + 1)"
  define k where "k = \<lfloor>q / u\<rfloor>"
  have u: "0 < u" by (simp add: u_def)
  have "q < d10 (dexp q + 1)" by (rule dexp_high [OF assms(2)])
  also have "\<dots> = 10 ^ d * u" unfolding u_def using d10_add [of "int d" "dexp q - int d + 1"] by (simp add: d10_def)
  finally have "q / u < of_int (10 ^ d)" using u by (simp add: field_simps)
  then have k: "k < 10 ^ d" by (simp add: k_def floor_less_iff)
  have k0: "0 \<le> k" using u assms(2) by (simp add: k_def)
  have "r = of_int k * u \<or> r = of_int (k + 1) * u"
    using assms(1) by (auto simp: shortest_at_def Let_def u_def k_def split: if_splits)
  then show ?thesis using k k0 unfolding u_def by (metis add_nonneg_nonneg less_imp_le zero_le_one zless_imp_add1_zle)
qed

lemma first_some_in: "first_some f xs = Some y \<Longrightarrow> \<exists>x\<in>set xs. f x = Some y"
  by (induction xs) (auto split: option.splits)

lemma first_some_None: "first_some f xs = None \<Longrightarrow> x \<in> set xs \<Longrightarrow> f x = None"
  by (induction xs) (auto split: option.splits)

text \<open>The decimal text of a normal positive float has at most 17 significant digits.\<close>

lemma repr_dec_form:
  assumes q: "rnd_fin q = q" "0 < q" "- 1021 \<le> lg2 q"
  shows "\<exists>m e. repr_dec q = of_int m * d10 e \<and> 0 \<le> m \<and> m \<le> 10 ^ 17"
proof (cases "first_some (shortest_at q) [1..<18]")
  case None
  then have "shortest_at q 17 = None" by (rule first_some_None) simp
  with shortest_at_17 [OF q] show ?thesis by simp
next
  case (Some r)
  from first_some_in [OF this] obtain d where "d \<in> set [1..<18]" and d2: "shortest_at q d = Some r" by blast
  then have d: "d \<le> 17" "shortest_at q d = Some r" by auto
  then have "(10::int) ^ d \<le> 10 ^ 17" by (intro power_increasing) auto
  with shortest_at_form [OF d(2) q(2)] Some q(2) show ?thesis
    by (auto simp: repr_dec_def repr_pos_def intro: order_trans)
qed

subsection \<open>Power-of-ten steps\<close>

text \<open>With a step of \<open>10 ^ - j\<close>, as brokers quote it, the quotient is exact in 28 digits, so
  flooring to the step is right for every float from \<open>2 ^ - 1021\<close> to \<open>10 ^ 19\<close>: the result is
  the float of a multiple of the step, not above the argument and less than a step below its
  decimal text.\<close>

lemma dec_round_d10:
  assumes "0 \<le> m" "m \<le> 10 ^ 17" "of_int m * d10 e < 10 ^ 28"
  shows "dec_round 28 (of_int m * d10 e) = of_int m * d10 e"
proof (cases "0 \<le> e")
  case True
  then have eq: "of_int m * d10 e = of_int (m * 10 ^ nat e) / 10 ^ 0" by (simp add: d10_def)
  with assms(3) have "rat_of_int (m * 10 ^ nat e) < of_int (10 ^ 28)" by simp
  then have "m * 10 ^ nat e < 10 ^ 28" by (simp only: of_int_less_iff)
  with assms(1) show ?thesis unfolding eq by (intro dec_round_exact) auto
next
  case False
  then have eq: "of_int m * d10 e = of_int m / 10 ^ nat (- e)" by (simp add: d10_def)
  show ?thesis unfolding eq using assms by (intro dec_round_exact) auto
qed

lemma floor_to_power_step:
  assumes q: "is_float q" "0 < q" "- 1021 \<le> lg2 q" "q < 10 ^ 19" and S: "repr_dec step = 1 / 10 ^ j" and j: "j \<le> 8"
  shows "\<exists>n. floor_to_step (Fin q) (Fin step) = Ok (rnd (of_int n / 10 ^ j)) \<and> 0 \<le> n
     \<and> of_int n / 10 ^ j \<le> repr_dec q \<and> repr_dec q < of_int (n + 1) / 10 ^ j"
proof -
  have fq: "rnd_fin q = q" using q(1) rnd_FinD [of q q] by (simp add: is_float_def)
  obtain m e where me: "repr_dec q = of_int m * d10 e" "0 \<le> m" "m \<le> 10 ^ 17"
    using repr_dec_form [OF fq q(2,3)] by blast
  have "repr_dec q \<le> 10 ^ 19"
  proof (rule ccontr)
    assume "\<not> repr_dec q \<le> 10 ^ 19"
    then have "fle (rnd (10 ^ 19)) (Fin q)" using rnd_mono [of "10 ^ 19" "repr_dec q"] rnd_repr_dec [OF q(1)] by simp
    moreover have "rnd (10 ^ 19) = Fin (10 ^ 19)"
      by (rule rnd_cert [where e = 11 and m = 4882812500000000]) (simp_all add: p2_def)
    ultimately show False using q(4) by simp
  qed
  moreover have "(10::rat) ^ j \<le> 10 ^ 8" using j by (intro power_increasing) auto
  ultimately have "repr_dec q * 10 ^ j \<le> 10 ^ 19 * 10 ^ 8" by (intro mult_mono) auto
  then have lt: "repr_dec q * 10 ^ j < 10 ^ 28" by simp
  define n where "n = \<lfloor>repr_dec q * 10 ^ j\<rfloor>"
  have form: "repr_dec q * 10 ^ j = of_int m * d10 (e + int j)"
    by (simp add: me d10_add) (simp add: d10_def)
  have r1: "dec_round 28 (repr_dec q * 10 ^ j) = repr_dec q * 10 ^ j"
    unfolding form by (rule dec_round_d10 [OF me(2,3)]) (use lt in \<open>simp only: form\<close>)
  have "0 \<le> repr_dec q" using me by (simp add: less_imp_le)
  then have n: "0 \<le> n" "n < 10 ^ 28" using lt by (simp_all add: n_def floor_less_iff)
  have r2: "dec_round 28 (of_int n * (1 / 10 ^ j)) = of_int n / 10 ^ j"
    using dec_round_exact [OF n, of j] by simp
  note r2' = r2 [simplified]
  have "floor_to_step (Fin q) (Fin step) = Ok (rnd (of_int n / 10 ^ j))"
    by (simp add: floor_to_step_def S r1 n_def [symmetric] r2')
  moreover have "of_int n \<le> repr_dec q * 10 ^ j" "repr_dec q * 10 ^ j < of_int (n + 1)"
    unfolding n_def by linarith+
  ultimately show ?thesis using n by (intro exI [of _ n]) (simp add: field_simps)
qed

end
