(* ===== verification/PyLiterals.thy ===== *)
theory PyLiterals
  imports PyBase
begin

section \<open>Decimal literals\<close>

text \<open>The floats that the decimal literals of the code stand for, each with a certificate:
  the neighbour on the 53-bit grid of its binade.\<close>

lemma lit_1_10: "rnd (1/10) = Fin (3602879701896397 / 36028797018963968)"
  by (rule rnd_cert [where e = "-56" and m = 7205759403792794]) (simp_all add: p2_def)

lemma lit_1_5: "rnd (1/5) = Fin (3602879701896397 / 18014398509481984)"
  by (rule rnd_cert [where e = "-55" and m = 7205759403792794]) (simp_all add: p2_def)

lemma lit_3_20: "rnd (3/20) = Fin (5404319552844595 / 36028797018963968)"
  by (rule rnd_cert [where e = "-55" and m = 5404319552844595]) (simp_all add: p2_def)

lemma lit_7_20: "rnd (7/20) = Fin (3152519739159347 / 9007199254740992)"
  by (rule rnd_cert [where e = "-54" and m = 6305039478318694]) (simp_all add: p2_def)

lemma lit_3_10: "rnd (3/10) = Fin (5404319552844595 / 18014398509481984)"
  by (rule rnd_cert [where e = "-54" and m = 5404319552844595]) (simp_all add: p2_def)

lemma lit_1_100: "rnd (1/100) = Fin (5764607523034235 / 576460752303423488)"
  by (rule rnd_cert [where e = "-59" and m = 5764607523034235]) (simp_all add: p2_def)

lemma lit_1_50: "rnd (1/50) = Fin (5764607523034235 / 288230376151711744)"
  by (rule rnd_cert [where e = "-58" and m = 5764607523034235]) (simp_all add: p2_def)

lemma lit_3_100: "rnd (3/100) = Fin (1080863910568919 / 36028797018963968)"
  by (rule rnd_cert [where e = "-58" and m = 8646911284551352]) (simp_all add: p2_def)

lemma lit_3_5: "rnd (3/5) = Fin (5404319552844595 / 9007199254740992)"
  by (rule rnd_cert [where e = "-53" and m = 5404319552844595]) (simp_all add: p2_def)

lemma lit_1_1000000: "rnd (1/1000000) = Fin (4722366482869645 / 4722366482869645213696)"
  by (rule rnd_cert [where e = "-72" and m = 4722366482869645]) (simp_all add: p2_def)

lemma lit_1_1000000000: "rnd (1/1000000000) = Fin (4835703278458517 / 4835703278458516698824704)"
  by (rule rnd_cert [where e = "-82" and m = 4835703278458517]) (simp_all add: p2_def)

lemma lit_1_20: "rnd (1/20) = Fin (3602879701896397 / 72057594037927936)"
  by (rule rnd_cert [where e = "-57" and m = 7205759403792794]) (simp_all add: p2_def)

lemma lit_13_20: "rnd (13/20) = Fin (5854679515581645 / 9007199254740992)"
  by (rule rnd_cert [where e = "-53" and m = 5854679515581645]) (simp_all add: p2_def)

lemma lit_17_20: "rnd (17/20) = Fin (7656119366529843 / 9007199254740992)"
  by (rule rnd_cert [where e = "-53" and m = 7656119366529843]) (simp_all add: p2_def)

lemma lit_6_5: "rnd (6/5) = Fin (5404319552844595 / 4503599627370496)"
  by (rule rnd_cert [where e = "-52" and m = 5404319552844595]) (simp_all add: p2_def)

lemma lit_19_20: "rnd (19/20) = Fin (4278419646001971 / 4503599627370496)"
  by (rule rnd_cert [where e = "-53" and m = 8556839292003942]) (simp_all add: p2_def)

lemmas literals [feval] =
  lit_1_10 lit_1_5 lit_3_20 lit_7_20 lit_3_10 lit_1_100
  lit_1_50 lit_3_100 lit_3_5 lit_1_1000000 lit_1_1000000000 lit_1_20
  lit_13_20 lit_17_20 lit_6_5 lit_19_20

end
