(* ===== verification/RiskEngine.thy ===== *)
theory RiskEngine
  imports OrderRouting PyDecimal PyLiterals
begin

section \<open>Pre-trade risk (src/execution)\<close>

text \<open>
  \<open>rr_math.py\<close>, \<open>rr_validator.py\<close>, \<open>safety_filters.py\<close>, \<open>drawdown_protection.py\<close>,
  \<open>position_sizer.py\<close> and \<open>risk_firewall.py\<close>: the reward/risk figures, the three gates, the
  lot size and the orchestrator that combines them and keeps an audit entry per setup.
\<close>

subsection \<open>Reward and risk\<close>

text \<open>A direction arrives as its text: \<open>str(getattr(direction, "value", direction))\<close>.\<close>

definition reward :: "string \<Rightarrow> pyfloat \<Rightarrow> pyfloat \<Rightarrow> pyfloat" where
  "reward direction entry target =
     (let text = py_upper direction
      in if text \<in> {''BUY'', ''BULLISH'', ''LONG''} then fsub target entry
         else if text \<in> {''SELL'', ''BEARISH'', ''SHORT''} then fsub entry target
         else Fin 0)"

definition calculate_raw_rr :: "string \<Rightarrow> pyfloat \<Rightarrow> pyfloat \<Rightarrow> pyfloat \<Rightarrow> pyfloat" where
  "calculate_raw_rr direction entry stop target =
     (let risk = fabs (fsub entry stop)
      in if fle risk (Fin 0) then Fin 0
         else py_round (py_max (Fin 0) (fdiv (reward direction entry target) risk)) 5)"

definition trading_cost :: "pyfloat \<Rightarrow> pyfloat \<Rightarrow> pyfloat" where
  "trading_cost spread slippage = fadd (py_max (Fin 0) spread) (py_max (Fin 0) slippage)"

definition calculate_post_cost_rr ::
  "string \<Rightarrow> pyfloat \<Rightarrow> pyfloat \<Rightarrow> pyfloat \<Rightarrow> pyfloat \<Rightarrow> pyfloat \<Rightarrow> pyfloat" where
  "calculate_post_cost_rr direction fill stop target spread slippage =
     (let total_cost = trading_cost spread slippage;
          risk = fadd (fabs (fsub fill stop)) total_cost
      in if fle risk (Fin 0) then Fin 0
         else py_round (py_max (Fin 0) (fdiv (fsub (reward direction fill target) total_cost) risk)) 5)"

definition risk_to_cost_ratio :: "pyfloat \<Rightarrow> pyfloat \<Rightarrow> pyfloat \<Rightarrow> pyfloat \<Rightarrow> pyfloat" where
  "risk_to_cost_ratio entry stop spread slippage =
     (let total_cost = trading_cost spread slippage
      in if fle total_cost (Fin 0) then PInf
         else py_round (fdiv (fabs (fsub entry stop)) total_cost) 5)"

text \<open>Both figures end in \<open>round(max(0.0, x), 5)\<close>: never negative, never NaN, monotone.\<close>

lemma rr_figure_nonneg: "fle (Fin 0) (py_round (py_max (Fin 0) x) n)"
  by (rule py_round_nonneg [OF py_max_left]) simp

lemma rr_figure_0: "\<not> flt (Fin 0) x \<Longrightarrow> py_round (py_max (Fin 0) x) n = Fin 0"
  by (simp add: py_max_def)

lemma rr_figure_mono: "fle x y \<Longrightarrow> fle (py_round (py_max (Fin 0) x) n) (py_round (py_max (Fin 0) y) n)"
  by (rule py_round_mono) (cases x; cases y; auto simp: py_max_def)

lemma cost_cases: "trading_cost spread slippage = PInf \<or> (\<exists>c\<ge>0. trading_cost spread slippage = Fin c)"
proof -
  have *: "\<exists>q\<ge>0. py_max (Fin 0) x = Fin q \<or> py_max (Fin 0) x = PInf" for x
    by (cases x) (auto simp: py_max_def)
  obtain a b where "0 \<le> a" "py_max (Fin 0) spread = Fin a \<or> py_max (Fin 0) spread = PInf"
    "0 \<le> b" "py_max (Fin 0) slippage = Fin b \<or> py_max (Fin 0) slippage = PInf"
    using * [of spread] * [of slippage] by blast
  then show ?thesis using rnd_nonneg [of "a + b"]
    by (cases "rnd (a + b)") (auto simp: trading_cost_def)
qed

lemma reward_finite: "\<exists>q. reward d (Fin e) (Fin t) = rnd q"
  by (auto simp: reward_def Let_def intro: exI [of _ 0])

text \<open>The quotient with the costs is no better than the one without.\<close>

lemma cost_quotient:
  assumes r: "r = rnd q" and k: "0 < k" and c: "0 \<le> c"
    and risk: "fadd (Fin k) (Fin c) = risk" "rnd k = Fin k"
  shows "fle (py_round (py_max (Fin 0) (fdiv (fsub r (Fin c)) risk)) 5)
             (py_round (py_max (Fin 0) (fdiv r (Fin k))) 5)"
proof -
  have "fle (Fin k) risk" using risk rnd_mono [of k "k + c"] c by simp
  then consider "risk = PInf" | k2 where "risk = Fin k2" "k \<le> k2" by (cases risk) auto
  then show ?thesis
  proof cases
    case 1
    have "\<not> flt (Fin 0) (fdiv (fsub r (Fin c)) PInf)" by (cases "fsub r (Fin c)") auto
    with 1 show ?thesis by (simp add: rr_figure_0 rr_figure_nonneg)
  next
    case 2
    show ?thesis
    proof (cases r)
      case (Fin x)
      have "rnd x = Fin x" using r Fin by (intro rnd_idem [of q]) simp
      then have "fle (fsub r (Fin c)) r" unfolding Fin using rnd_mono [of "x - c" x] c by simp
      then consider "fsub r (Fin c) = NInf" | y where "fsub r (Fin c) = Fin y" "y \<le> x"
        using Fin by (cases "fsub r (Fin c)") auto
      then show ?thesis
      proof cases
        case 1
        with k 2 show ?thesis by (simp add: rr_figure_0 rr_figure_nonneg)
      next
        case y: 2
        show ?thesis
        proof (cases "0 < y")
          case True
          then have "y / k2 \<le> x / k" using k 2 y by (intro frac_le) auto
          then have "fle (rnd (y / k2)) (rnd (x / k))" by (rule rnd_mono)
          with k 2 y Fin show ?thesis by (simp add: rr_figure_mono)
        next
          case False
          then have "fle (rnd (y / k2)) (Fin 0)" using k 2 by (intro rnd_nonpos) (simp add: divide_nonpos_pos)
          then have "\<not> flt (Fin 0) (rnd (y / k2))" by (rule fle_not_flt)
          with k 2 y show ?thesis by (simp add: rr_figure_0 rr_figure_nonneg)
        qed
      qed
    next
      case PInf
      then have "fsub r (Fin c) = PInf" by (simp add: fsub_def)
      with k 2 PInf show ?thesis by (simp add: py_max_def)
    next
      case NInf
      then have "fsub r (Fin c) = NInf" by (simp add: fsub_def)
      with k 2 show ?thesis by (simp add: rr_figure_0 rr_figure_nonneg)
    qed (use r in simp)
  qed
qed

text \<open>Costs never flatter a trade: for finite prices with the stop away from the fill, the
  executable reward/risk after spread and slippage is at most the raw one, whatever the
  spread and the slippage are (negative, infinite and NaN values included) and whatever the
  direction text is.\<close>

theorem costs_never_improve_rr:
  assumes "fabs (fsub (Fin fill) (Fin stop)) = risk" "flt (Fin 0) risk"
  shows "fle (calculate_post_cost_rr d (Fin fill) (Fin stop) (Fin target) spread slippage)
             (calculate_raw_rr d (Fin fill) (Fin stop) (Fin target))"
proof -
  let ?c = "trading_cost spread slippage" and ?r = "reward d (Fin fill) (Fin target)"
  obtain q where q: "?r = rnd q" using reward_finite by blast
  have nz: "\<not> fle risk (Fin 0)" using assms(2) by (rule flt_not_fle)
  have raw: "calculate_raw_rr d (Fin fill) (Fin stop) (Fin target) = py_round (py_max (Fin 0) (fdiv ?r risk)) 5"
    using assms(1) nz by (simp add: calculate_raw_rr_def)
  consider "risk = PInf" | k where "risk = Fin k" "0 < k" using assms(2) by (cases risk) auto
  then show ?thesis
  proof cases
    case 1
    then have "\<not> flt (Fin 0) (fdiv (fsub ?r ?c) (fadd risk ?c))"
      using cost_cases [of spread slippage] by (cases "fsub ?r ?c") auto
    then show ?thesis unfolding raw
      by (simp add: calculate_post_cost_rr_def Let_def assms(1) rr_figure_0 rr_figure_nonneg del: fsub_simps)
  next
    case 2
    have k: "rnd k = Fin k" using 2 assms(1) by (cases "rnd (fill - stop)") (auto simp: abs_if rnd_uminus dest: rnd_idem)
    from cost_cases [of spread slippage] show ?thesis
    proof (elim disjE exE conjE)
      assume "?c = PInf"
      then have "\<not> flt (Fin 0) (fdiv (fsub ?r ?c) (fadd risk ?c))" using 2 by (cases "?r") (auto simp: fsub_def)
      then show ?thesis unfolding raw
        by (simp add: calculate_post_cost_rr_def Let_def assms(1) rr_figure_0 rr_figure_nonneg del: fsub_simps)
    next
      fix c assume c: "0 \<le> c" "?c = Fin c"
      from cost_quotient [OF q 2(2) c(1) refl k] show ?thesis unfolding raw
        by (simp add: calculate_post_cost_rr_def Let_def assms(1) 2(1) c(2) rr_figure_nonneg del: fsub_simps)
    qed
  qed
qed

theorem costs_never_improve_rr_witness:
  "calculate_raw_rr ''LONG'' (Fin 2000) (Fin 1990) (Fin 2030) = Fin 3
   \<and> calculate_post_cost_rr ''LONG'' (Fin 2000) (Fin 1990) (Fin 2030) (Fin 6) (Fin (- 2)) = Fin (3/2)
   \<and> fle (calculate_post_cost_rr ''LONG'' (Fin 2000) (Fin 1990) (Fin 2030) (Fin 6) (Fin (- 2)))
         (calculate_raw_rr ''LONG'' (Fin 2000) (Fin 1990) (Fin 2030))"
proof -
  have "fabs (fsub (Fin 2000) (Fin 1990)) = Fin 10" "flt (Fin 0) (Fin 10)" by (simp_all add: feval)
  note costs_never_improve_rr [OF this, of "''LONG''" 2030 "Fin 6" "Fin (- 2)"]
  then show ?thesis
    by (simp add: calculate_raw_rr_def calculate_post_cost_rr_def trading_cost_def reward_def
        py_upper_def up_char_def py_max_def feval)
qed

text \<open>Without the distance to the stop the figures disagree: with the stop at the fill the raw
  figure is zero and the figure after costs is not.\<close>

lemma zero_stop_distance:
  "calculate_raw_rr ''BUY'' (Fin 100) (Fin 100) (Fin 110) = Fin 0"
  "calculate_post_cost_rr ''BUY'' (Fin 100) (Fin 100) (Fin 110) (Fin 1) (Fin 0) = Fin 9"
  by (simp_all add: calculate_raw_rr_def calculate_post_cost_rr_def trading_cost_def reward_def
      py_upper_def up_char_def py_max_def feval)

subsection \<open>The three gates\<close>

definition validate_target_feasibility :: "pyfloat \<Rightarrow> setup_node \<Rightarrow> bool \<times> string" where
  "validate_target_feasibility minimum_rr setup =
     (if flt (sn_estimated_rr setup) minimum_rr then (False, ''RISK_REWARD_BELOW_MINIMUM'')
      else (True, ''OK''))"

definition verify_execution_safety :: "pyfloat \<Rightarrow> engine_state \<Rightarrow> bool \<times> string" where
  "verify_execution_safety max_spread_pips st =
     (let spread_pips = fmul (md_current_spread (es_market st)) (Fin 10)
      in if flt max_spread_pips spread_pips then (False, ''SPREAD_ABOVE_EXECUTION_LIMIT'')
         else if pd_is_trading_halted (es_positions st) then (False, ''TRADING_HALTED'')
         else (True, ''OK''))"

record drawdown_engine =
  dd_max_daily_loss_pct :: pyfloat
  dd_max_consecutive_losses :: int
  dd_consecutive_losses :: int

definition drawdown_new :: drawdown_engine where
  "drawdown_new = \<lparr>dd_max_daily_loss_pct = Fin 3, dd_max_consecutive_losses = 3, dd_consecutive_losses = 0\<rparr>"

definition evaluate_systemic_restrictions :: "drawdown_engine \<Rightarrow> engine_state \<Rightarrow> risk_halt_state" where
  "evaluate_systemic_restrictions d st =
     (if pd_is_trading_halted (es_positions st) then TRADING_HALTED
      else if fle (dd_max_daily_loss_pct d) (pd_daily_realized_loss_pct (es_positions st)) then DAILY_LOSS_BREACHED
      else if dd_consecutive_losses d \<ge> dd_max_consecutive_losses d then CONSECUTIVE_LOSS_BREACHED
      else NOMINAL)"

definition register_execution_win_event :: "drawdown_engine \<Rightarrow> drawdown_engine" where
  "register_execution_win_event d = d\<lparr>dd_consecutive_losses := 0\<rparr>"

definition register_execution_loss_event :: "drawdown_engine \<Rightarrow> drawdown_engine" where
  "register_execution_loss_event d = d\<lparr>dd_consecutive_losses := dd_consecutive_losses d + 1\<rparr>"

subsection \<open>Position sizing\<close>

text \<open>The loss-per-lot calculator is a callable the caller may pass; it may raise.\<close>

record position_sizer =
  zr_account_equity :: pyfloat
  zr_contract_size :: pyfloat
  zr_maximum_lots :: "pyfloat option"
  zr_minimum_lots :: pyfloat
  zr_volume_step :: pyfloat
  zr_calculator :: "(setup_node \<Rightarrow> pyfloat res) option"

definition sizer_new ::
  "pyfloat \<Rightarrow> pyfloat \<Rightarrow> pyfloat option \<Rightarrow> pyfloat \<Rightarrow> pyfloat \<Rightarrow> (setup_node \<Rightarrow> pyfloat res) option \<Rightarrow> position_sizer res" where
  "sizer_new equity contract mx mn step calc =
     (if fle equity (Fin 0) then Raise (ValueError ''Account equity must be positive for position sizing.'')
      else if fle contract (Fin 0) then Raise (ValueError ''Fallback contract size must be positive.'')
      else if flt mn (Fin 0) \<or> flt step (Fin 0) then Raise (ValueError ''Broker volume limits cannot be negative.'')
      else Ok \<lparr>zr_account_equity = equity, zr_contract_size = contract, zr_maximum_lots = mx,
               zr_minimum_lots = mn, zr_volume_step = step, zr_calculator = calc\<rparr>)"

definition round_down_to_broker_step :: "position_sizer \<Rightarrow> pyfloat \<Rightarrow> pyfloat res" where
  "round_down_to_broker_step z lots =
     (if fle (zr_volume_step z) (Fin 0) then Ok lots else floor_to_step lots (zr_volume_step z))"

definition loss_per_lot :: "position_sizer \<Rightarrow> setup_node \<Rightarrow> pyfloat res" where
  "loss_per_lot z setup =
     (let stop_distance = py_max (fabs (fsub (sn_entry_price setup) (sn_stop_loss setup))) (lit (1/1000000))
      in case zr_calculator z of Some f \<Rightarrow> f setup
         | None \<Rightarrow> Ok (fmul stop_distance (zr_contract_size z)))"

definition capped_lots :: "position_sizer \<Rightarrow> pyfloat \<Rightarrow> pyfloat" where
  "capped_lots z calculated =
     (let lots = py_max calculated (Fin 0)
      in case zr_maximum_lots z of None \<Rightarrow> lots | Some m \<Rightarrow> py_min lots (py_max m (Fin 0)))"

definition calculate_lot_size :: "position_sizer \<Rightarrow> setup_node \<Rightarrow> pyfloat \<Rightarrow> sizing_payload res" where
  "calculate_lot_size z setup score_multiplier =
     (let target_risk_pct = py_min (py_max score_multiplier (Fin 0)) (Fin 1);
          target_currency_risk = fmul (zr_account_equity z) (fdiv target_risk_pct (Fin 100))
      in rbind (loss_per_lot z setup) (\<lambda>loss.
         if fle loss (Fin 0) then Raise (ValueError ''Stop-loss currency risk per lot must be positive.'')
         else
         rbind (py_div target_currency_risk loss) (\<lambda>calculated.
         rbind (round_down_to_broker_step z (capped_lots z calculated)) (\<lambda>stepped.
         let lots = (if flt stepped (zr_minimum_lots z) then Fin 0 else stepped);
             applied = fmul lots loss
         in rbind (py_div applied (zr_account_equity z)) (\<lambda>share.
            Ok \<lparr>sz_calculated_lots = lots, sz_risk_percentage_applied = fmul share (Fin 100),
                sz_currency_risk = applied\<rparr>)))))"

subsection \<open>The orchestrator\<close>

record risk_orchestrator =
  rk_sizer :: position_sizer
  rk_drawdown :: drawdown_engine
  rk_minimum_rr :: pyfloat
  rk_max_spread_pips :: pyfloat
  rk_audits :: "(string, risk_snapshot) dict"

definition risk_new :: "pyfloat option \<Rightarrow> position_sizer option \<Rightarrow> risk_orchestrator res" where
  "risk_new maximum_lots sizer =
     rmap (\<lambda>z. \<lparr>rk_sizer = z, rk_drawdown = drawdown_new, rk_minimum_rr = Fin (3/2),
               rk_max_spread_pips = Fin (7/2), rk_audits = []\<rparr>)
       (case sizer of Some z \<Rightarrow> Ok z
        | None \<Rightarrow> sizer_new (Fin 10000) (Fin 100) maximum_lots (Fin 0) (Fin 0) None)"

definition risk_terminate :: "risk_orchestrator \<Rightarrow> risk_orchestrator" where
  "risk_terminate r = r\<lparr>rk_audits := []\<rparr>"

text \<open>The \<open>try\<close> around the sizing: it catches \<open>RuntimeError\<close> and \<open>ValueError\<close> only.\<close>

definition guarded_sizing :: "sizing_payload res \<Rightarrow> (sizing_payload \<times> string list) res" where
  "guarded_sizing attempt =
     (let zero = \<lparr>sz_calculated_lots = Fin 0, sz_risk_percentage_applied = Fin 0, sz_currency_risk = Fin 0\<rparr>
      in case attempt of
           Inr p \<Rightarrow> Ok (p, [])
         | Inl (RuntimeError s) \<Rightarrow> Ok (zero, [''POSITION_SIZING_CALCULATION_FAILED: '' @ s])
         | Inl (ValueError s) \<Rightarrow> Ok (zero, [''POSITION_SIZING_CALCULATION_FAILED: '' @ s])
         | Inl ex \<Rightarrow> Raise ex)"

definition evaluate_trade_entry_gate ::
  "datetime \<Rightarrow> engine_state \<Rightarrow> setup_node \<Rightarrow> pyfloat \<Rightarrow> risk_orchestrator \<Rightarrow> (bool \<times> risk_snapshot \<times> risk_orchestrator) res" where
  "evaluate_trade_entry_gate now st setup multiplier r =
     (let halt = evaluate_systemic_restrictions (rk_drawdown r) st;
          r1 = (if halt \<noteq> NOMINAL then [''SYSTEMIC_RISK_HALT_ACTIVE: '' @ halt_name halt] else []);
          (safe, safety_message) = verify_execution_safety (rk_max_spread_pips r) st;
          r2 = (if \<not> safe then [safety_message] else []);
          (rr_valid, rr_message) = validate_target_feasibility (rk_minimum_rr r) setup;
          r3 = (if \<not> rr_valid then [rr_message] else [])
      in rbind (guarded_sizing (calculate_lot_size (rk_sizer r) setup multiplier)) (\<lambda>(sizing, r4).
         let r5 = (if fle (sz_calculated_lots sizing) (Fin 0) then [''POSITION_SIZING_GENERATED_LOT_ZERO_ALLOCATION''] else []);
             reasons = r1 @ r2 @ r3 @ r4 @ r5;
             approved = (reasons = []);
             tier = (if approved
                     then if fle (lit (4/5)) (sz_risk_percentage_applied sizing) then SAFE_INSTITUTIONAL else CONTROLLED_RISK
                     else REJECT);
             snap = \<lparr>rs_timestamp = now, rs_is_approved = approved, rs_safety_tier = tier, rs_halt_state = halt,
                     rs_sizing = sizing, rs_applied_spread_pips = fmul (md_current_spread (es_market st)) (Fin 10),
                     rs_rejection_reasons = reasons\<rparr>
         in Ok (approved, snap, r\<lparr>rk_audits := AList.update (sn_id setup) snap (rk_audits r)\<rparr>)))"

definition notify_transaction_outcome :: "bool \<Rightarrow> risk_orchestrator \<Rightarrow> risk_orchestrator" where
  "notify_transaction_outcome is_profitable r =
     r\<lparr>rk_drawdown := (if is_profitable then register_execution_win_event (rk_drawdown r)
                       else register_execution_loss_event (rk_drawdown r))\<rparr>"

text \<open>What can happen to the orchestrator: a closed trade's outcome, or a trade at the gate.\<close>

datatype risk_op = Outcome bool | Gate datetime engine_state setup_node pyfloat

fun risk_step :: "risk_orchestrator \<Rightarrow> risk_op \<Rightarrow> risk_orchestrator" where
  "risk_step r (Outcome w) = notify_transaction_outcome w r"
| "risk_step r (Gate now st setup m) =
     (case evaluate_trade_entry_gate now st setup m r of Inl _ \<Rightarrow> r | Inr (_, _, r') \<Rightarrow> r')"

fun losses_since_win :: "risk_op list \<Rightarrow> int \<Rightarrow> int" where
  "losses_since_win [] n = n"
| "losses_since_win (Outcome w # ops) n = losses_since_win ops (if w then 0 else n + 1)"
| "losses_since_win (Gate _ _ _ _ # ops) n = losses_since_win ops n"

subsection \<open>Facts about the gate\<close>

lemma guarded_sizing_Ok:
  "guarded_sizing a = Ok (p, rs) \<longleftrightarrow>
     (a = Ok p \<and> rs = [])
   \<or> (\<exists>s. (a = Raise (RuntimeError s) \<or> a = Raise (ValueError s))
        \<and> p = \<lparr>sz_calculated_lots = Fin 0, sz_risk_percentage_applied = Fin 0, sz_currency_risk = Fin 0\<rparr>
        \<and> rs = [''POSITION_SIZING_CALCULATION_FAILED: '' @ s])"
  by (auto simp: guarded_sizing_def Let_def split: sum.splits py_exn.splits)

lemma systemic_nominal:
  "evaluate_systemic_restrictions d st = NOMINAL \<longleftrightarrow>
     \<not> pd_is_trading_halted (es_positions st)
   \<and> \<not> fle (dd_max_daily_loss_pct d) (pd_daily_realized_loss_pct (es_positions st))
   \<and> dd_consecutive_losses d < dd_max_consecutive_losses d"
  by (auto simp: evaluate_systemic_restrictions_def)

lemma gate_Ok:
  assumes "evaluate_trade_entry_gate now st setup m r = Ok (ok, snap, r')"
  shows "\<exists>rs. guarded_sizing (calculate_lot_size (rk_sizer r) setup m) = Ok (rs_sizing snap, rs)
     \<and> ok = (evaluate_systemic_restrictions (rk_drawdown r) st = NOMINAL
           \<and> fst (verify_execution_safety (rk_max_spread_pips r) st)
           \<and> fst (validate_target_feasibility (rk_minimum_rr r) setup) \<and> rs = []
           \<and> \<not> fle (sz_calculated_lots (rs_sizing snap)) (Fin 0))
     \<and> rs_is_approved snap = ok \<and> (rs_safety_tier snap = REJECT) = (\<not> ok)
     \<and> r' = r\<lparr>rk_audits := AList.update (sn_id setup) snap (rk_audits r)\<rparr>"
  using assms unfolding evaluate_trade_entry_gate_def Let_def
  by (auto elim!: rbind_InrE split: prod.splits if_splits)

lemma gate_total:
  "guarded_sizing (calculate_lot_size (rk_sizer r) setup m) = Ok v \<Longrightarrow>
     \<exists>ok snap r'. evaluate_trade_entry_gate now st setup m r = Ok (ok, snap, r')"
  by (cases v; cases "verify_execution_safety (rk_max_spread_pips r) st";
      cases "validate_target_feasibility (rk_minimum_rr r) setup")
    (simp add: evaluate_trade_entry_gate_def Let_def)

lemma gate_frame:
  assumes "evaluate_trade_entry_gate now st setup m r = Ok (ok, snap, r')"
  shows "rk_drawdown r' = rk_drawdown r" "rk_sizer r' = rk_sizer r" "rk_minimum_rr r' = rk_minimum_rr r"
    "rk_max_spread_pips r' = rk_max_spread_pips r"
  using gate_Ok [OF assms] by auto

text \<open>C7. The gate approves a trade exactly when trading is not halted, the daily loss and the
  loss streak are below their limits, the spread is within the limit, the reward/risk reaches
  the minimum, and the sizing succeeds with a size that does not compare as zero or less. The
  verdict, its audit entry and the safety tier always agree.\<close>

theorem gate_approves_iff:
  assumes "evaluate_trade_entry_gate now st setup m r = Ok (ok, snap, r')"
  shows "(ok \<longleftrightarrow>
      \<not> pd_is_trading_halted (es_positions st)
    \<and> \<not> fle (dd_max_daily_loss_pct (rk_drawdown r)) (pd_daily_realized_loss_pct (es_positions st))
    \<and> dd_consecutive_losses (rk_drawdown r) < dd_max_consecutive_losses (rk_drawdown r)
    \<and> \<not> flt (rk_max_spread_pips r) (fmul (md_current_spread (es_market st)) (Fin 10))
    \<and> \<not> flt (sn_estimated_rr setup) (rk_minimum_rr r)
    \<and> calculate_lot_size (rk_sizer r) setup m = Ok (rs_sizing snap)
    \<and> \<not> fle (sz_calculated_lots (rs_sizing snap)) (Fin 0))
    \<and> rs_is_approved snap = ok \<and> (rs_safety_tier snap = REJECT) = (\<not> ok)
    \<and> map_of (rk_audits r') (sn_id setup) = Some snap"
  using gate_Ok [OF assms]
  by (auto simp: guarded_sizing_Ok systemic_nominal verify_execution_safety_def
      validate_target_feasibility_def Let_def split: if_splits)

definition demo_setup :: setup_node where
  "demo_setup = \<lparr>sn_id = ''S1'', sn_setup_type = FVG_CONTINUATION, sn_direction = BUY,
     sn_entry_price = Fin 2000, sn_stop_loss = Fin 1992, sn_take_profit = Fin 2016,
     sn_estimated_rr = Fin 2, sn_quality_tier = HIGH_PROBABILITY, sn_confidence_score = Fin 80,
     sn_creation_time = naive 0, sn_expiration_time = naive 900000000, sn_correlation_id = ''c'',
     sn_timeframe = ''M5''\<rparr>"

abbreviation demo_risk :: risk_orchestrator where
  "demo_risk \<equiv> \<lparr>rk_sizer = \<lparr>zr_account_equity = Fin 10000, zr_contract_size = Fin 100, zr_maximum_lots = None,
                    zr_minimum_lots = Fin 0, zr_volume_step = Fin 0, zr_calculator = None\<rparr>,
                  rk_drawdown = drawdown_new, rk_minimum_rr = Fin (3/2),
                  rk_max_spread_pips = Fin (7/2), rk_audits = []\<rparr>"

lemma demo_risk_new: "risk_new None None = Ok demo_risk"
  by (simp add: risk_new_def sizer_new_def)

lemmas gate_eval = evaluate_trade_entry_gate_def calculate_lot_size_def loss_per_lot_def capped_lots_def
  round_down_to_broker_step_def evaluate_systemic_restrictions_def verify_execution_safety_def
  validate_target_feasibility_def guarded_sizing_def py_div_def drawdown_new_def cold_boot_state_def
  demo_setup_def

lemma demo_lots:
  "calculate_lot_size (rk_sizer demo_risk) demo_setup (Fin (25/32)) =
     Ok \<lparr>sz_calculated_lots = Fin (25/256), sz_risk_percentage_applied = Fin (25/32), sz_currency_risk = Fin (625/8)\<rparr>"
  by (simp add: gate_eval py_max_def py_min_def feval)

lemma demo_gate:
  "\<exists>snap r'. evaluate_trade_entry_gate (naive 5) (cold_boot_state (naive 0)) demo_setup (Fin (25/32)) demo_risk
     = Ok (True, snap, r') \<and> rs_sizing snap = \<lparr>sz_calculated_lots = Fin (25/256), sz_risk_percentage_applied = Fin (25/32), sz_currency_risk = Fin (625/8)\<rparr>"
proof -
  have d: "sn_estimated_rr demo_setup = Fin 2" by (simp add: demo_setup_def)
  show ?thesis unfolding evaluate_trade_entry_gate_def Let_def demo_lots [simplified]
    by (simp add: demo_lots [simplified] d evaluate_systemic_restrictions_def verify_execution_safety_def
        validate_target_feasibility_def guarded_sizing_def drawdown_new_def cold_boot_state_def feval)
qed

theorem gate_approves_iff_witness:
  "\<exists>snap r'. evaluate_trade_entry_gate (naive 5) (cold_boot_state (naive 0)) demo_setup (Fin (25/32)) demo_risk
     = Ok (True, snap, r') \<and> \<not> fle (sz_calculated_lots (rs_sizing snap)) (Fin 0)
     \<and> rs_safety_tier snap \<noteq> REJECT \<and> map_of (rk_audits r') ''S1'' = Some snap"
proof -
  obtain snap r' where e: "evaluate_trade_entry_gate (naive 5) (cold_boot_state (naive 0)) demo_setup (Fin (25/32)) demo_risk
     = Ok (True, snap, r')" using demo_gate by blast
  have "sn_id demo_setup = ''S1''" by (simp add: demo_setup_def)
  with e gate_approves_iff [OF e] show ?thesis by auto
qed

text \<open>In any run from a new orchestrator, with evaluations and outcomes in any order, the
  gate approves no trade once three losing trades have been notified since the last winning
  one.\<close>

theorem loss_streak_closes_gate:
  assumes new: "risk_new mx z = Ok r0" and streak: "3 \<le> losses_since_win ops 0"
    and e: "evaluate_trade_entry_gate now st setup m (fold (\<lambda>x r. risk_step r x) ops r0) = Ok (ok, snap, r')"
  shows "\<not> ok"
proof -
  have step: "dd_max_consecutive_losses (rk_drawdown (risk_step r x)) = dd_max_consecutive_losses (rk_drawdown r)
      \<and> dd_consecutive_losses (rk_drawdown (risk_step r x)) = losses_since_win [x] (dd_consecutive_losses (rk_drawdown r))" for r x
    by (cases x) (auto simp: notify_transaction_outcome_def register_execution_win_event_def
        register_execution_loss_event_def gate_frame split: sum.splits)
  have "dd_max_consecutive_losses (rk_drawdown (fold (\<lambda>x r. risk_step r x) ops r)) = dd_max_consecutive_losses (rk_drawdown r)
      \<and> dd_consecutive_losses (rk_drawdown (fold (\<lambda>x r. risk_step r x) ops r)) = losses_since_win ops (dd_consecutive_losses (rk_drawdown r))" for r
  proof (induction ops arbitrary: r)
    case (Cons x xs)
    then show ?case using step [of r x] by (cases x) auto
  qed simp
  moreover have "dd_max_consecutive_losses (rk_drawdown r0) = 3" "dd_consecutive_losses (rk_drawdown r0) = 0"
    using new by (auto simp: risk_new_def rmap_Inr_iff drawdown_new_def)
  ultimately show ?thesis using gate_Ok [OF e] streak by (auto simp: systemic_nominal)
qed

theorem loss_streak_closes_gate_witness:
  "case evaluate_trade_entry_gate (naive 5) (cold_boot_state (naive 0)) demo_setup (Fin (25/32))
      (fold (\<lambda>x r. risk_step r x) [Outcome False, Outcome True, Outcome False, Outcome False, Outcome False] demo_risk) of
     Inl _ \<Rightarrow> False | Inr (ok, _, _) \<Rightarrow> \<not> ok"
proof -
  let ?ops = "[Outcome False, Outcome True, Outcome False, Outcome False, Outcome False]"
  let ?r = "fold (\<lambda>x r. risk_step r x) ?ops demo_risk"
  have "rk_sizer ?r = rk_sizer demo_risk" by (simp add: notify_transaction_outcome_def)
  then have "guarded_sizing (calculate_lot_size (rk_sizer ?r) demo_setup (Fin (25/32)))
      = Ok (\<lparr>sz_calculated_lots = Fin (25/256), sz_risk_percentage_applied = Fin (25/32), sz_currency_risk = Fin (625/8)\<rparr>, [])"
    using demo_lots by (simp add: guarded_sizing_def)
  then obtain ok snap r' where e: "evaluate_trade_entry_gate (naive 5) (cold_boot_state (naive 0)) demo_setup (Fin (25/32)) ?r = Ok (ok, snap, r')"
    using gate_total by blast
  have "3 \<le> losses_since_win ?ops 0" by simp
  from loss_streak_closes_gate [OF demo_risk_new this e] show ?thesis unfolding e by simp
qed

subsection \<open>Lot sizes\<close>

lemma clamp_cases:
  assumes "0 \<le> c"
  shows "py_min (py_max x (Fin 0)) (py_max (Fin c) (Fin 0)) = NaN \<and> x = NaN
    \<or> (\<exists>q. py_min (py_max x (Fin 0)) (py_max (Fin c) (Fin 0)) = Fin q \<and> 0 \<le> q \<and> q \<le> c)"
  using assms by (cases x) (auto simp: py_min_def py_max_def)

text \<open>A sizer with a cap and no broker step returns a size between zero and the cap, and
  either zero or at least the minimum, unless the division it starts from has a NaN operand.\<close>

theorem lots_within_limits:
  assumes lots: "calculate_lot_size z setup m = Ok p"
    and z: "zr_maximum_lots z = Some (Fin cap)" "0 \<le> cap" "zr_volume_step z = Fin 0"
    and loss: "loss_per_lot z setup = Ok (Fin loss)"
    and eq: "zr_account_equity z = Fin equity" "0 < equity" "rnd equity = Fin equity" "m \<noteq> NaN"
  shows "\<exists>q. sz_calculated_lots p = Fin q \<and> 0 \<le> q \<and> q \<le> cap \<and> (q = 0 \<or> \<not> flt (Fin q) (zr_minimum_lots z))"
proof -
  have "\<exists>s. py_min (py_max m (Fin 0)) (Fin 1) = Fin s \<and> 0 \<le> s \<and> s \<le> 1"
    using eq(4) by (cases m) (auto simp: py_min_def py_max_def)
  then obtain s where s: "py_min (py_max m (Fin 0)) (Fin 1) = Fin s" "0 \<le> s" "s \<le> 1" by blast
  have "fle (Fin 0) (rnd (s / 100))" "fle (rnd (s / 100)) (Fin 1)"
    using s rnd_mono [of "s / 100" 1] by (simp_all add: rnd_nonneg)
  then obtain t' where t': "rnd (s / 100) = Fin t'" "0 \<le> t'" "t' \<le> 1" by (cases "rnd (s / 100)") auto
  have "fle (Fin 0) (rnd (equity * t'))" "fle (rnd (equity * t')) (Fin equity)"
    using t' eq rnd_mono [of "equity * t'" equity] by (simp_all add: rnd_nonneg mult_left_le)
  then obtain risk where risk: "rnd (equity * t') = Fin risk" "0 \<le> risk"
    using eq(3) by (cases "rnd (equity * t')") auto
  have l: "0 < loss" using lots s t' risk eq by (auto simp: calculate_lot_size_def loss split: if_splits)
  define lots' where "lots' = py_min (py_max (rnd (risk / loss)) (Fin 0)) (py_max (Fin cap) (Fin 0))"
  have p: "sz_calculated_lots p = (if flt lots' (zr_minimum_lots z) then Fin 0 else lots')"
    using lots l s t' risk eq z
    by (auto simp: calculate_lot_size_def loss py_div_def round_down_to_broker_step_def capped_lots_def
        lots'_def Let_def elim!: rbind_InrE split: if_splits)
  from clamp_cases [OF z(2), of "rnd (risk / loss)"] obtain q where "lots' = Fin q" "0 \<le> q" "q \<le> cap"
    unfolding lots'_def by auto
  then show ?thesis unfolding p using z(2) by auto
qed

theorem lots_within_limits_witness:
  "\<exists>p. calculate_lot_size \<lparr>zr_account_equity = Fin 10000, zr_contract_size = Fin 100, zr_maximum_lots = Some (Fin 1),
        zr_minimum_lots = Fin 0, zr_volume_step = Fin 0, zr_calculator = None\<rparr> demo_setup (Fin (25/32)) = Ok p
     \<and> (\<exists>q. sz_calculated_lots p = Fin q \<and> 0 \<le> q \<and> q \<le> 1)"
proof -
  let ?z = "\<lparr>zr_account_equity = Fin 10000, zr_contract_size = Fin 100, zr_maximum_lots = Some (Fin 1),
        zr_minimum_lots = Fin 0, zr_volume_step = Fin 0, zr_calculator = None\<rparr>"
  have l: "loss_per_lot ?z demo_setup = Ok (Fin 800)"
    by (simp add: loss_per_lot_def demo_setup_def py_max_def feval)
  obtain p where e: "calculate_lot_size ?z demo_setup (Fin (25/32)) = Ok p"
    by (simp add: gate_eval py_max_def py_min_def feval)
  have r: "rnd 10000 = Fin 10000" by (simp add: feval)
  from lots_within_limits [OF e _ _ _ l _ _ r] e show ?thesis by auto
qed

text \<open>A broker step of 0.01 lots.\<close>

lemma upt18: "[1..<18] = (1::nat) # [2..<18]"
  by (simp add: upt_conv_Cons)

lemma repr_cent: "repr_dec (5764607523034235 / 576460752303423488) = 1/100"
proof -
  let ?q = "5764607523034235 / 576460752303423488 :: rat"
  have c: "\<lceil>1 / ?q\<rceil> = 100" by (rule ceiling_unique) simp_all
  have n: "ndigits 99 = 2" by (simp add: ndigits.simps)
  have d: "dexp ?q = - 2" unfolding dexp_def c using n by simp
  have lo: "rnd_fin (1/100) = ?q" using rnd_FinD [OF lit_1_100] by simp
  have hi: "rnd_fin (1/50) \<noteq> ?q" using rnd_FinD [OF lit_1_50] by simp
  have f: "\<lfloor>?q * 100\<rfloor> = 1" by (rule floor_unique) simp_all
  have s: "shortest_at ?q 1 = Some (1/100)"
    unfolding shortest_at_def Let_def d using lo hi f by (simp add: d10_def)
  show ?thesis unfolding repr_dec_def repr_pos_def upt18 first_some.simps s by simp
qed

text \<open>Sizes are never rounded up: with a broker step of 0.01, every normal float size up
  to \<open>10 ^ 19\<close> is replaced by the float of a whole number of hundredths that is not larger,
  and less than one hundredth below the size's decimal text.\<close>

theorem broker_step_rounds_down:
  assumes z: "zr_volume_step z = lit (1/100)"
    and x: "rnd x = Fin x" "0 < x" "- 1021 \<le> lg2 x" "x < 10 ^ 19"
  shows "\<exists>n. round_down_to_broker_step z (Fin x) = Ok (rnd (of_int n / 100)) \<and> 0 \<le> n
    \<and> fle (rnd (of_int n / 100)) (Fin x) \<and> repr_dec x < of_int (n + 1) / 100"
proof -
  have fl: "is_float x" using x(1) by (simp add: is_float_def)
  have "repr_dec (5764607523034235 / 576460752303423488) = 1 / 10 ^ 2" using repr_cent by simp
  from floor_to_power_step [OF fl x(2-4) this] obtain n where
    n: "floor_to_step (Fin x) (lit (1/100)) = Ok (rnd (of_int n / 10 ^ 2))" "0 \<le> n"
      "of_int n / 10 ^ 2 \<le> repr_dec x" "repr_dec x < of_int (n + 1) / 10 ^ 2"
    by (auto simp: lit_1_100)
  have "fle (rnd (of_int n / 10 ^ 2)) (Fin x)" using rnd_mono [OF n(3)] rnd_repr_dec [OF fl] by simp
  with n show ?thesis by (intro exI [of _ n]) (simp add: round_down_to_broker_step_def z lit_1_100)
qed

text \<open>A size of 25/256 lots (0.09765625) goes down to 0.09.\<close>

theorem broker_step_rounds_down_witness:
  "\<exists>n. round_down_to_broker_step \<lparr>zr_account_equity = Fin 10000, zr_contract_size = Fin 100, zr_maximum_lots = None,
        zr_minimum_lots = Fin 0, zr_volume_step = lit (1/100), zr_calculator = None\<rparr> (Fin (25/256)) = Ok (rnd (of_int n / 100))
     \<and> fle (rnd (of_int n / 100)) (Fin (25/256))"
proof -
  let ?z = "\<lparr>zr_account_equity = Fin 10000, zr_contract_size = Fin 100, zr_maximum_lots = None,
        zr_minimum_lots = Fin 0, zr_volume_step = lit (1/100), zr_calculator = None\<rparr>"
  have "lg2 (25/256) = - 4" by (rule lg2_unique) (simp_all add: p2_def)
  then have "\<exists>n. round_down_to_broker_step ?z (Fin (25/256)) = Ok (rnd (of_int n / 100)) \<and> 0 \<le> n
    \<and> fle (rnd (of_int n / 100)) (Fin (25/256)) \<and> repr_dec (25/256) < of_int (n + 1) / 100"
    by (intro broker_step_rounds_down) (simp_all add: feval)
  then show ?thesis by blast
qed

text \<open>A NaN quality multiplier is not stopped: with the default limits, an idle account
  and a good setup the gate approves the trade, with a NaN lot size, because every
  comparison of the gate with NaN is false.\<close>

theorem nan_multiplier_approved:
  "\<exists>snap r'. evaluate_trade_entry_gate now (cold_boot_state t) demo_setup NaN demo_risk = Ok (True, snap, r')
     \<and> sz_calculated_lots (rs_sizing snap) = NaN"
proof -
  have d: "sn_estimated_rr demo_setup = Fin 2" by (simp add: demo_setup_def)
  have l: "calculate_lot_size (rk_sizer demo_risk) demo_setup NaN =
      Ok \<lparr>sz_calculated_lots = NaN, sz_risk_percentage_applied = NaN, sz_currency_risk = NaN\<rparr>"
    by (simp add: gate_eval py_max_def py_min_def feval)
  show ?thesis unfolding evaluate_trade_entry_gate_def Let_def
    by (simp add: l [simplified] d evaluate_systemic_restrictions_def verify_execution_safety_def
        validate_target_feasibility_def guarded_sizing_def drawdown_new_def cold_boot_state_def feval)
qed

end
