(* ===== verification/StopHardening.thy ===== *)
theory StopHardening
  imports DomainModels PyLiterals
begin

section \<open>Stop hardening (src/execution/stop_loss_engine.py)\<close>

text \<open>
  A stop too close for the instrument's noise is moved out before sizing: the required distance
  is the largest of a configured minimum, a multiple of the spread and a multiple of the median
  range of the recent candles, bounded above, and rounded to the price precision.
\<close>

record stop_config =
  sc_minimum_stop_distance_price :: pyfloat
  sc_maximum_stop_distance_price :: pyfloat
  sc_spread_multiplier :: pyfloat
  sc_median_range_multiplier :: pyfloat
  sc_minimum_rr :: pyfloat
  sc_range_lookback :: nat
  sc_price_precision :: nat

definition default_stop_config :: stop_config where
  "default_stop_config = \<lparr>sc_minimum_stop_distance_price = Fin 4, sc_maximum_stop_distance_price = Fin (15/2),
     sc_spread_multiplier = Fin 12, sc_median_range_multiplier = Fin (5/4), sc_minimum_rr = Fin 3,
     sc_range_lookback = 20, sc_price_precision = 2\<rparr>"

record hardening_result =
  hr_setup :: setup_node
  hr_adjusted :: bool
  hr_original_stop_distance :: pyfloat
  hr_hardened_stop_distance :: pyfloat
  hr_original_rr :: pyfloat
  hr_hardened_rr :: pyfloat
  hr_reasons :: "string list"

definition derive_stop_loss :: "setup_node \<Rightarrow> pyfloat" where
  "derive_stop_loss setup = sn_stop_loss setup"

definition risk_reward :: "pyfloat \<Rightarrow> pyfloat \<Rightarrow> pyfloat \<Rightarrow> pyfloat" where
  "risk_reward entry sl tp =
     (let risk = fabs (fsub entry sl)
      in if fle risk (Fin 0) then Fin 0 else fdiv (fabs (fsub tp entry)) risk)"

text \<open>\<open>max\<close> of a non-empty list.\<close>

fun list_max :: "pyfloat list \<Rightarrow> pyfloat" where
  "list_max [] = NaN"
| "list_max (x # xs) = fold (\<lambda>y m. py_max m y) xs x"

text \<open>\<open>tuple(dict.fromkeys(xs))\<close>: the first occurrences.\<close>

fun dedupe :: "'a list \<Rightarrow> 'a list" where
  "dedupe [] = []"
| "dedupe (x # xs) = x # dedupe (removeAll x xs)"

definition candle_ranges :: "stop_config \<Rightarrow> candle_node list \<Rightarrow> pyfloat list" where
  "candle_ranges c candles =
     [py_max (Fin 0) (fsub (cn_high_p k) (cn_low_p k)). k \<leftarrow> py_tail (sc_range_lookback c) candles,
        cn_is_closed k \<and> flt (cn_low_p k) (cn_high_p k)]"

definition required_stop_distance :: "stop_config \<Rightarrow> candle_node list \<Rightarrow> pyfloat \<Rightarrow> pyfloat \<times> string list" where
  "required_stop_distance c candles spread =
     (let mn = sc_minimum_stop_distance_price c;
          (c1, r1) = (if flt (Fin 0) spread then ([fmul spread (sc_spread_multiplier c)], [''SPREAD_BUFFER'']) else ([], []));
          ranges = candle_ranges c candles;
          (c2, r2) = (if ranges \<noteq> [] then ([fmul (fmedian ranges) (sc_median_range_multiplier c)], [''RECENT_1M_RANGE_BUFFER'']) else ([], []));
          desired = list_max (mn # c1 @ c2);
          bounded = py_min (sc_maximum_stop_distance_price c) (py_max mn desired);
          r3 = (if flt bounded desired then [''MAXIMUM_STOP_DISTANCE_CAP''] else [])
      in (py_round bounded (sc_price_precision c), ''MINIMUM_GOLD_STOP_DISTANCE'' # r1 @ r2 @ r3))"

definition rebuild_setup :: "stop_config \<Rightarrow> setup_node \<Rightarrow> pyfloat \<Rightarrow> setup_node" where
  "rebuild_setup c setup stop_distance =
     (let entry = sn_entry_price setup;
          rr = py_max (risk_reward entry (sn_stop_loss setup) (sn_take_profit setup)) (sc_minimum_rr c);
          (sl, tp) = (if sn_direction setup = BUY
                      then (fsub entry stop_distance, fadd entry (fmul stop_distance rr))
                      else (fadd entry stop_distance, fsub entry (fmul stop_distance rr)));
          sl' = py_round sl (sc_price_precision c);
          tp' = py_round tp (sc_price_precision c)
      in setup\<lparr>sn_stop_loss := sl', sn_take_profit := tp', sn_estimated_rr := risk_reward entry sl' tp'\<rparr>)"

definition harden_for_demo_execution :: "stop_config \<Rightarrow> setup_node \<Rightarrow> candle_node list \<Rightarrow> pyfloat \<Rightarrow> hardening_result" where
  "harden_for_demo_execution c setup candles spread =
     (let original = fabs (fsub (sn_entry_price setup) (sn_stop_loss setup));
          (desired, reasons) = required_stop_distance c candles spread;
          rr = risk_reward (sn_entry_price setup) (sn_stop_loss setup) (sn_take_profit setup)
      in if fle desired original
         then \<lparr>hr_setup = setup, hr_adjusted = False, hr_original_stop_distance = py_round original 4,
               hr_hardened_stop_distance = py_round original 4, hr_original_rr = py_round rr 4,
               hr_hardened_rr = py_round rr 4, hr_reasons = reasons\<rparr>
         else let h = rebuild_setup c setup desired;
                  hrr = risk_reward (sn_entry_price h) (sn_stop_loss h) (sn_take_profit h)
              in \<lparr>hr_setup = h, hr_adjusted = True, hr_original_stop_distance = py_round original 4,
                  hr_hardened_stop_distance = py_round desired 4, hr_original_rr = py_round rr 4,
                  hr_hardened_rr = py_round hrr 4,
                  hr_reasons = dedupe (reasons @ [''STOP_DISTANCE_HARDENED_FOR_GOLD_NOISE''])\<rparr>)"

subsection \<open>The required distance\<close>

lemma clamp_min_max: "fle mn mx \<Longrightarrow> fle mn (py_min mx (py_max mn x)) \<and> fle (py_min mx (py_max mn x)) mx"
  by (cases mn; cases mx; cases x) (auto simp: py_min_def py_max_def)

lemma required_distance_eq:
  "\<exists>x. fst (required_stop_distance c candles spread) =
     py_round (py_min (sc_maximum_stop_distance_price c) (py_max (sc_minimum_stop_distance_price c) x)) (sc_price_precision c)"
  by (auto simp: required_stop_distance_def Let_def split: prod.splits)

text \<open>Whatever the candles and the spread are, NaN and infinite values included, the
  required stop distance lies between the rounded minimum and the rounded maximum of the
  configuration: between 4.0 and 7.5 for the default one.\<close>

theorem required_distance_bounded:
  assumes "fle (sc_minimum_stop_distance_price c) (sc_maximum_stop_distance_price c)"
  shows "fle (py_round (sc_minimum_stop_distance_price c) (sc_price_precision c)) (fst (required_stop_distance c candles spread))
    \<and> fle (fst (required_stop_distance c candles spread)) (py_round (sc_maximum_stop_distance_price c) (sc_price_precision c))"
proof -
  obtain x where "fst (required_stop_distance c candles spread) =
     py_round (py_min (sc_maximum_stop_distance_price c) (py_max (sc_minimum_stop_distance_price c) x)) (sc_price_precision c)"
    using required_distance_eq by blast
  with clamp_min_max [OF assms, of x] show ?thesis by (simp add: py_round_mono)
qed

theorem required_distance_bounded_witness:
  "fle (Fin 4) (fst (required_stop_distance default_stop_config [] NaN))
   \<and> fle (fst (required_stop_distance default_stop_config [] NaN)) (Fin (15/2))"
proof -
  have "fle (sc_minimum_stop_distance_price default_stop_config) (sc_maximum_stop_distance_price default_stop_config)"
    by (simp add: default_stop_config_def)
  from required_distance_bounded [OF this, of "[]" NaN] show ?thesis
    by (simp add: default_stop_config_def feval)
qed

subsection \<open>Hardening\<close>

lemma required_distance_float:
  assumes "fst (required_stop_distance c candles spread) = Fin d"
  shows "rnd d = Fin d"
proof -
  obtain x where "py_round x (sc_price_precision c) = Fin d" using required_distance_eq assms by metis
  then show ?thesis by (cases x) (auto dest: rnd_idem)
qed

lemma rnd_less_exact: "flt (rnd a) (Fin d) \<Longrightarrow> rnd d = Fin d \<Longrightarrow> a < d"
  using rnd_mono [of d a] by (metis fle_not_flt not_le)

text \<open>C27. Hardening only ever moves a stop away. With the stop on its own side of the entry
  and finite prices, either nothing changes and the stop is already at least the required
  distance away, or the entry and the direction are kept and the new stop is no closer to the
  entry than the old one (to the price precision).\<close>

theorem hardening_moves_stop_away:
  assumes h: "harden_for_demo_execution c setup candles spread = h"
    and p: "sn_entry_price setup = Fin entry" "sn_stop_loss setup = Fin sl" "rnd sl = Fin sl"
    and side: "sn_direction setup = BUY \<and> sl \<le> entry \<or> sn_direction setup = SELL \<and> entry \<le> sl"
    and d: "fst (required_stop_distance c candles spread) = Fin d"
  shows "sn_entry_price (hr_setup h) = Fin entry \<and> sn_direction (hr_setup h) = sn_direction setup
    \<and> (if hr_adjusted h
       then (if sn_direction setup = BUY then fle (sn_stop_loss (hr_setup h)) (py_round (Fin sl) (sc_price_precision c))
             else fle (py_round (Fin sl) (sc_price_precision c)) (sn_stop_loss (hr_setup h)))
       else hr_setup h = setup \<and> fle (Fin d) (fabs (fsub (Fin entry) (Fin sl))))"
proof -
  obtain reasons where req: "required_stop_distance c candles spread = (Fin d, reasons)"
    using d by (cases "required_stop_distance c candles spread") simp
  note df = required_distance_float [OF d]
  show ?thesis
  proof (cases "fle (Fin d) (fabs (fsub (Fin entry) (Fin sl)))")
    case True
    with h p req show ?thesis by (auto simp: harden_for_demo_execution_def Let_def)
  next
    case False
    then have lt: "flt (fabs (rnd (entry - sl))) (Fin d)" by (cases "rnd (entry - sl)") (auto simp: not_le)
    have new: "hr_adjusted h" "hr_setup h = rebuild_setup c setup (Fin d)"
      using h p req False by (auto simp: harden_for_demo_execution_def Let_def)
    show ?thesis
    proof (cases "sn_direction setup")
      case BUY
      then have "0 \<le> entry - sl" using side by auto
      then have "fabs (rnd (entry - sl)) = rnd (entry - sl)" using rnd_nonneg [of "entry - sl"]
        by (cases "rnd (entry - sl)") auto
      with lt have "entry - sl < d" using df by (simp add: rnd_less_exact)
      then have "fle (rnd (entry - d)) (Fin sl)" using rnd_mono [of "entry - d" sl] p(3) by simp
      then have "fle (py_round (rnd (entry - d)) (sc_price_precision c)) (py_round (Fin sl) (sc_price_precision c))"
        by (rule py_round_mono)
      with new p BUY show ?thesis by (simp add: rebuild_setup_def Let_def)
    next
      case SELL
      then have "0 \<le> sl - entry" using side by auto
      then have "fabs (rnd (entry - sl)) = rnd (sl - entry)" using rnd_nonneg [of "sl - entry"] rnd_uminus [of "sl - entry"]
        by (cases "rnd (sl - entry)") auto
      with lt have "sl - entry < d" using df by (simp add: rnd_less_exact)
      then have "fle (Fin sl) (rnd (entry + d))" using rnd_mono [of sl "entry + d"] p(3) by simp
      then have "fle (py_round (Fin sl) (sc_price_precision c)) (py_round (rnd (entry + d)) (sc_price_precision c))"
        by (rule py_round_mono)
      with new p SELL show ?thesis by (simp add: rebuild_setup_def Let_def)
    qed
  qed
qed

definition demo_tight :: setup_node where
  "demo_tight = \<lparr>sn_id = ''S1'', sn_setup_type = FVG_CONTINUATION, sn_direction = BUY,
     sn_entry_price = Fin 2000, sn_stop_loss = Fin 1999, sn_take_profit = Fin 2004,
     sn_estimated_rr = Fin 4, sn_quality_tier = HIGH_PROBABILITY, sn_confidence_score = Fin 80,
     sn_creation_time = naive 0, sn_expiration_time = naive 900000000, sn_correlation_id = ''c'',
     sn_timeframe = ''M5''\<rparr>"

text \<open>A buy at 2000 with its stop one dollar away: the stop goes to 1996.\<close>

theorem hardening_moves_stop_away_witness:
  "let h = harden_for_demo_execution default_stop_config demo_tight [] (Fin 0) in
     hr_adjusted h \<and> sn_stop_loss (hr_setup h) = Fin 1996 \<and> sn_take_profit (hr_setup h) = Fin 2016
   \<and> sn_entry_price (hr_setup h) = Fin 2000 \<and> fle (sn_stop_loss (hr_setup h)) (py_round (Fin 1999) 2)"
proof -
  let ?h = "harden_for_demo_execution default_stop_config demo_tight [] (Fin 0)"
  have d: "required_stop_distance default_stop_config [] (Fin 0) = (Fin 4, [''MINIMUM_GOLD_STOP_DISTANCE''])"
    by (simp add: required_stop_distance_def candle_ranges_def py_tail_def default_stop_config_def py_max_def py_min_def feval)
  have h: "hr_adjusted ?h \<and> sn_stop_loss (hr_setup ?h) = Fin 1996 \<and> sn_take_profit (hr_setup ?h) = Fin 2016"
    unfolding harden_for_demo_execution_def d
    by (simp add: demo_tight_def rebuild_setup_def default_stop_config_def risk_reward_def py_max_def Let_def feval)
  have "fst (required_stop_distance default_stop_config [] (Fin 0)) = Fin 4" by (simp add: d)
  have p: "sc_price_precision default_stop_config = 2" by (simp add: default_stop_config_def)
  have s: "sn_entry_price demo_tight = Fin 2000" "sn_stop_loss demo_tight = Fin 1999" "rnd 1999 = Fin 1999"
    "sn_direction demo_tight = BUY \<and> (1999::rat) \<le> 2000 \<or> sn_direction demo_tight = SELL \<and> (2000::rat) \<le> 1999"
    by (simp_all add: demo_tight_def feval)
  from hardening_moves_stop_away [OF refl s \<open>fst _ = Fin 4\<close>] h s(4) show ?thesis by (simp add: p Let_def)
qed

end
