(* ===== verification/Scoring.thy ===== *)
theory Scoring
  imports StateManager PyLiterals
begin

section \<open>Trade scoring (src/strategy)\<close>

text \<open>
  \<open>scoring_components.py\<close>, \<open>penalty_engine.py\<close> and \<open>scoring_matrix.py\<close>: six component scores,
  their weighted sum less the penalties, the execution gates, the tier with its size
  multiplier, and the bounded registry of ranked setups.
\<close>

subsection \<open>Components\<close>

fun setup_type_value :: "setup_type \<Rightarrow> string" where
  "setup_type_value LIQUIDITY_SWEEP_REVERSAL = ''LIQUIDITY_SWEEP_REVERSAL''"
| "setup_type_value ORDER_BLOCK_CONTINUATION = ''ORDER_BLOCK_CONTINUATION''"
| "setup_type_value FVG_CONTINUATION = ''FVG_CONTINUATION''"

definition evaluate_structural_quality :: "setup_node \<Rightarrow> pyfloat" where
  "evaluate_structural_quality s = py_min (py_max (sn_confidence_score s) (Fin 0)) (Fin 100)"

definition evaluate_liquidity_quality :: "setup_node \<Rightarrow> pyfloat" where
  "evaluate_liquidity_quality s = (if has_sub ''LIQUIDITY'' (setup_type_value (sn_setup_type s)) then Fin 85 else Fin 70)"

definition evaluate_momentum_quality :: "confirmation_snapshot \<Rightarrow> pyfloat" where
  "evaluate_momentum_quality c = py_min (py_max (cs_confidence_score c) (Fin 0)) (Fin 100)"

definition evaluate_volatility_quality :: "engine_state \<Rightarrow> pyfloat" where
  "evaluate_volatility_quality st =
     (let ratio = rd_volatility_ratio (es_regime st)
      in py_max (Fin 0) (py_min (Fin 100) (fsub (Fin 100) (fmul (fabs (fsub ratio (lit (6/5)))) (Fin 30)))))"

definition evaluate_rr_quality :: "setup_node \<Rightarrow> pyfloat" where
  "evaluate_rr_quality s = py_max (Fin 0) (py_min (Fin 100) (fmul (fdiv (sn_estimated_rr s) (Fin 3)) (Fin 100)))"

definition evaluate_execution_efficiency :: "engine_state \<Rightarrow> pyfloat" where
  "evaluate_execution_efficiency st =
     (let spread = fmul (md_current_spread (es_market st)) (Fin 10)
      in py_max (Fin 0) (fsub (Fin 100) (fmul spread (Fin 20))))"

definition calculate_cumulative_penalties :: "engine_state \<Rightarrow> pyfloat" where
  "calculate_cumulative_penalties st =
     (let p0 = Fin 0;
          p1 = (if pd_active_position_count (es_positions st) > 0 then fadd p0 (Fin 10) else p0)
      in if pd_is_trading_halted (es_positions st) then fadd p1 (Fin 100) else p1)"

subsection \<open>The orchestrator\<close>

definition weighted_total :: "pyfloat \<Rightarrow> pyfloat \<Rightarrow> pyfloat \<Rightarrow> pyfloat \<Rightarrow> pyfloat \<Rightarrow> pyfloat \<Rightarrow> pyfloat" where
  "weighted_total st lq mo vo rr ex =
     fadd (fadd (fadd (fadd (fadd (fmul st (lit (1/5))) (fmul lq (lit (1/5)))) (fmul mo (lit (3/20))))
       (fmul vo (lit (3/20)))) (fmul rr (lit (3/20)))) (fmul ex (lit (3/20)))"

definition score_breakdown :: "engine_state \<Rightarrow> setup_node \<Rightarrow> confirmation_snapshot \<Rightarrow> scoring_breakdown" where
  "score_breakdown st setup conf =
     (let s = evaluate_structural_quality setup; l = evaluate_liquidity_quality setup;
          m = evaluate_momentum_quality conf; v = evaluate_volatility_quality st;
          r = evaluate_rr_quality setup; x = evaluate_execution_efficiency st;
          raw = weighted_total s l m v r x;
          pen = calculate_cumulative_penalties st
      in \<lparr>sb_structure_score = s, sb_liquidity_score = l, sb_momentum_score = m, sb_volatility_score = v,
          sb_rr_score = r, sb_execution_score = x, sb_raw_total = raw, sb_applied_penalties = pen,
          sb_normalized_final_score = py_max (py_min (fsub raw pen) (Fin 100)) (Fin 0)\<rparr>)"

definition rejections :: "scoring_breakdown \<Rightarrow> string list" where
  "rejections b =
     (if flt (sb_normalized_final_score b) (Fin 75) then [''SCORE_BELOW_MINIMUM_EXECUTION_THRESHOLD''] else [])
   @ (if fle (sb_execution_score b) (Fin 0) then [''CRITICAL_SPREAD_EXPANSION_VIOLATION''] else [])
   @ (if fle (sb_rr_score b) (Fin 0) then [''ASYMMETRIC_RISK_REWARD_INSUFFICIENT''] else [])"

definition classify_tier :: "setup_quality_tier \<Rightarrow> pyfloat \<Rightarrow> bool \<Rightarrow> ranked_trade_tier \<times> int \<times> pyfloat" where
  "classify_tier q score executable =
     (if executable
      then if fle (Fin 90) score \<and> q = ELITE_INSTITUTIONAL then (ELITE_INSTITUTIONAL_TRADE, 0, Fin 1)
           else if fle (Fin 80) score then (HIGH_PROBABILITY_TRADE, 1, Fin (3/4))
           else (MODERATE_TRADE, 2, Fin (1/2))
      else (REJECT_TRADE, 99, Fin 0))"

definition ranked_node :: "datetime \<Rightarrow> engine_state \<Rightarrow> setup_node \<Rightarrow> confirmation_snapshot \<Rightarrow> prioritized_node" where
  "ranked_node now st setup conf =
     (let b = score_breakdown st setup conf;
          payload = rejections b;
          executable = (payload = []);
          (tier, priority, mult) = classify_tier (sn_quality_tier setup) (sb_normalized_final_score b) executable
      in \<lparr>pn_setup_id = sn_id setup, pn_allocation_priority = priority, pn_ranked_tier = tier,
          pn_score_breakdown = b, pn_qualification_timestamp = now, pn_execution_multiplier = mult,
          pn_is_live_executable = executable, pn_rejection_payload = payload\<rparr>)"

type_synonym registry = "(string, prioritized_node) dict"

definition clean_registry_cache_bounds :: "registry \<Rightarrow> registry" where
  "clean_registry_cache_bounds r =
     (if length r > 1000 then (case r of [] \<Rightarrow> [] | (k, _) # _ \<Rightarrow> AList.delete k r) else r)"

definition process_and_rank_setup ::
  "datetime \<Rightarrow> engine_state \<Rightarrow> setup_node \<Rightarrow> confirmation_snapshot \<Rightarrow> registry \<Rightarrow> prioritized_node \<times> registry" where
  "process_and_rank_setup now st setup conf r =
     (let n = ranked_node now st setup conf
      in (n, clean_registry_cache_bounds (AList.update (sn_id setup) n r)))"

definition scoring_terminate :: "registry \<Rightarrow> registry" where
  "scoring_terminate r = []"

subsection \<open>Bounds\<close>

lemma fmul_le_bound:
  assumes "fle a (Fin m)" "0 < w" "m * w \<le> n" "rnd n = Fin n"
  shows "fle (fmul a (Fin w)) (Fin n)"
proof (cases a)
  case (Fin x)
  with assms have "x * w \<le> m * w" by (simp add: mult_right_mono)
  with assms Fin rnd_mono [of "x * w" n] show ?thesis by simp
qed (use assms in \<open>auto simp: sinf_def\<close>)

lemma fadd_le_bound:
  assumes "fle a (Fin m)" "fle b (Fin n)" "m + n = k" "rnd k = Fin k"
  shows "fle (fadd a b) (Fin k)"
  using assms rnd_mono [of _ "m + n"] by (cases a; cases b) (auto simp: add_mono)

lemma fsub_le_bound:
  assumes "fle a (Fin m)" "fle (Fin n) b" "rnd (m - n) = Fin (m - n)"
  shows "fle (fsub a b) (Fin (m - n)) \<or> fsub a b = NaN"
  using assms rnd_mono [of _ "m - n"] by (cases a; cases b) (auto simp: fsub_def diff_mono)

lemma clamp100: "a \<noteq> NaN \<Longrightarrow> fle (py_min (py_max a (Fin 0)) (Fin 100)) (Fin 100)"
  by (cases a) (auto simp: py_min_def py_max_def)

lemma scores_le_100:
  "sn_confidence_score s \<noteq> NaN \<Longrightarrow> fle (evaluate_structural_quality s) (Fin 100)"
  "fle (evaluate_liquidity_quality s) (Fin 100)"
  "cs_confidence_score c \<noteq> NaN \<Longrightarrow> fle (evaluate_momentum_quality c) (Fin 100)"
  "fle (evaluate_volatility_quality st) (Fin 100)"
  "fle (evaluate_rr_quality s) (Fin 100)"
  by (simp_all add: evaluate_structural_quality_def evaluate_liquidity_quality_def evaluate_momentum_quality_def
      evaluate_volatility_quality_def evaluate_rr_quality_def clamp100 Let_def clamp_range)

lemma execution_le_100:
  assumes "state_ok st"
  shows "fle (evaluate_execution_efficiency st) (Fin 100)"
proof -
  let ?s = "md_current_spread (es_market st)"
  have nn: "\<not> flt ?s (Fin 0)" using assms by (simp add: state_ok_iff)
  have "?s = NaN \<or> fle (Fin 0) (fmul (fmul ?s (Fin 10)) (Fin 20))"
  proof (cases ?s)
    case (Fin q)
    with nn have "fle (Fin 0) (rnd (q * 10))" by (intro rnd_nonneg) simp
    then show ?thesis using Fin by (cases "rnd (q * 10)") (auto intro: rnd_nonneg simp: sinf_def)
  qed (use nn in \<open>auto simp: sinf_def\<close>)
  then show ?thesis
  proof
    assume "?s = NaN"
    then show ?thesis by (simp add: evaluate_execution_efficiency_def Let_def fsub_def py_max_def)
  next
    assume "fle (Fin 0) (fmul (fmul ?s (Fin 10)) (Fin 20))"
    then have "fle (fsub (Fin 100) (fmul (fmul ?s (Fin 10)) (Fin 20))) (Fin (100 - 0))
        \<or> fsub (Fin 100) (fmul (fmul ?s (Fin 10)) (Fin 20)) = NaN"
      by (intro fsub_le_bound) (simp_all add: feval)
    then show ?thesis by (auto simp: evaluate_execution_efficiency_def Let_def py_max_def)
  qed
qed

text \<open>With every component at most 100 the weighted sum is at most 106: each product is
  bounded by the next integer.\<close>

lemma weighted_le:
  assumes "fle a (Fin 100)" "fle b (Fin 100)" "fle c (Fin 100)" "fle d (Fin 100)" "fle e (Fin 100)" "fle f (Fin 100)"
  shows "fle (weighted_total a b c d e f) (Fin 106)"
proof -
  have w: "fle (fmul x (lit (1/5))) (Fin 21)" if "fle x (Fin 100)" for x
    unfolding lit_1_5 by (rule fmul_le_bound [OF that]) (simp_all add: feval)
  have v: "fle (fmul x (lit (3/20))) (Fin 16)" if "fle x (Fin 100)" for x
    unfolding lit_3_20 by (rule fmul_le_bound [OF that]) (simp_all add: feval)
  have 1: "fle (fadd (fmul a (lit (1/5))) (fmul b (lit (1/5)))) (Fin 42)"
    by (rule fadd_le_bound [OF w [OF assms(1)] w [OF assms(2)]]) (simp_all add: feval)
  have 2: "fle (fadd (fadd (fmul a (lit (1/5))) (fmul b (lit (1/5)))) (fmul c (lit (3/20)))) (Fin 58)"
    by (rule fadd_le_bound [OF 1 v [OF assms(3)]]) (simp_all add: feval)
  have 3: "fle (fadd (fadd (fadd (fmul a (lit (1/5))) (fmul b (lit (1/5)))) (fmul c (lit (3/20)))) (fmul d (lit (3/20)))) (Fin 74)"
    by (rule fadd_le_bound [OF 2 v [OF assms(4)]]) (simp_all add: feval)
  note 4 = fadd_le_bound [OF 3 v [OF assms(5)], where k = 90]
  show ?thesis unfolding weighted_total_def
    by (rule fadd_le_bound [OF 4 v [OF assms(6)]]) (simp_all add: feval)
qed

text \<open>While trading is halted no setup is executable, however good it is: with a valid
  market state and confidence figures that are not NaN, the penalty of 100 brings every score
  to zero, the setup is rejected, and its size multiplier is zero.\<close>

theorem halted_never_executable:
  assumes "state_ok st" "pd_is_trading_halted (es_positions st)"
    and "sn_confidence_score setup \<noteq> NaN" "cs_confidence_score conf \<noteq> NaN"
  shows "let n = ranked_node now st setup conf in
    \<not> pn_is_live_executable n \<and> pn_ranked_tier n = REJECT_TRADE \<and> pn_execution_multiplier n = Fin 0
    \<and> ''SCORE_BELOW_MINIMUM_EXECUTION_THRESHOLD'' \<in> set (pn_rejection_payload n)"
proof -
  let ?b = "score_breakdown st setup conf"
  have raw: "fle (sb_raw_total ?b) (Fin 106)"
    using weighted_le scores_le_100 execution_le_100 [OF assms(1)] assms(3,4)
    by (simp add: score_breakdown_def Let_def)
  have pen: "fle (Fin 100) (sb_applied_penalties ?b)"
    using assms(2) by (simp add: score_breakdown_def calculate_cumulative_penalties_def Let_def feval)
  have pf: "sb_applied_penalties ?b = Fin 100 \<or> sb_applied_penalties ?b = Fin 110"
    using assms(2) by (simp add: score_breakdown_def calculate_cumulative_penalties_def Let_def feval)
  have "fsub (sb_raw_total ?b) (sb_applied_penalties ?b) \<noteq> NaN"
    using raw pf by (cases "sb_raw_total ?b") (auto simp: fsub_def)
  with fsub_le_bound [OF raw pen] have le: "fle (fsub (sb_raw_total ?b) (sb_applied_penalties ?b)) (Fin 6)"
    by (simp add: feval)
  have "sb_normalized_final_score ?b = py_max (py_min (fsub (sb_raw_total ?b) (sb_applied_penalties ?b)) (Fin 100)) (Fin 0)"
    by (simp add: score_breakdown_def Let_def)
  then have "flt (sb_normalized_final_score ?b) (Fin 75)"
    using le by (cases "fsub (sb_raw_total ?b) (sb_applied_penalties ?b)") (auto simp: py_min_def py_max_def)
  then show ?thesis by (simp add: ranked_node_def Let_def rejections_def classify_tier_def)
qed

definition demo_candidate :: "pyfloat \<Rightarrow> setup_node" where
  "demo_candidate confidence = \<lparr>sn_id = ''S1'', sn_setup_type = LIQUIDITY_SWEEP_REVERSAL, sn_direction = BUY,
     sn_entry_price = Fin 2000, sn_stop_loss = Fin 1990, sn_take_profit = Fin 2030,
     sn_estimated_rr = Fin 3, sn_quality_tier = ELITE_INSTITUTIONAL, sn_confidence_score = confidence,
     sn_creation_time = naive 0, sn_expiration_time = naive 900000000, sn_correlation_id = ''c'',
     sn_timeframe = ''M5''\<rparr>"

definition demo_confirmation :: confirmation_snapshot where
  "demo_confirmation = \<lparr>cs_timestamp = naive 0, cs_overall_tier = HIGH_CONVICTION, cs_confidence_score = Fin 95,
     cs_is_validated = True, cs_alignment = FULLY_ALIGNED,
     cs_metrics = \<lparr>cm_momentum_velocity_score = Fin 95, cm_displacement_ratio = Fin 95, cm_wick_rejection_pct = Fin 5,
       cm_mtf_alignment_score = Fin 100, cm_volatility_expansion_factor = Fin 1, cm_session_efficiency_index = Fin 100\<rparr>,
     cs_validated_components = [], cs_invalidation_reasons = []\<rparr>"

theorem halted_never_executable_witness:
  "let st = cold_boot_state (naive 0); st' = st\<lparr>es_positions := (es_positions st)\<lparr>pd_is_trading_halted := True\<rparr>\<rparr>;
       n = ranked_node (naive 1) st' (demo_candidate (Fin 100)) demo_confirmation in
    \<not> pn_is_live_executable n \<and> pn_ranked_tier n = REJECT_TRADE \<and> pn_execution_multiplier n = Fin 0"
proof -
  let ?st = "cold_boot_state (naive 0)"
  let ?st' = "?st\<lparr>es_positions := (es_positions ?st)\<lparr>pd_is_trading_halted := True\<rparr>\<rparr>"
  have "state_ok ?st'" by (simp add: state_ok_iff cold_boot_state_def)
  from halted_never_executable [OF this, of "demo_candidate (Fin 100)" demo_confirmation "naive 1"] show ?thesis
    by (simp add: Let_def demo_candidate_def demo_confirmation_def)
qed

text \<open>The tier, the priority and the size multiplier of a ranked setup agree with the final
  score: full size only for an elite setup scoring at least 90, three quarters only from 80,
  half otherwise, nothing for a rejected one; and an executable score that is a number lies
  between 75 and 100.\<close>

theorem ranking_is_consistent:
  "let n = ranked_node now st setup conf; score = sb_normalized_final_score (pn_score_breakdown n) in
     (pn_is_live_executable n = (pn_rejection_payload n = []))
   \<and> (pn_is_live_executable n = (pn_execution_multiplier n \<noteq> Fin 0))
   \<and> (pn_execution_multiplier n = Fin 1) = (pn_is_live_executable n \<and> fle (Fin 90) score \<and> sn_quality_tier setup = ELITE_INSTITUTIONAL)
   \<and> (pn_ranked_tier n = ELITE_INSTITUTIONAL_TRADE) = (pn_execution_multiplier n = Fin 1)
   \<and> (pn_ranked_tier n = REJECT_TRADE) = (pn_execution_multiplier n = Fin 0)
   \<and> (pn_ranked_tier n = HIGH_PROBABILITY_TRADE) = (pn_execution_multiplier n = Fin (3/4))
   \<and> (pn_is_live_executable n = (\<not> flt score (Fin 75) \<and> \<not> fle (sb_execution_score (pn_score_breakdown n)) (Fin 0)
        \<and> \<not> fle (sb_rr_score (pn_score_breakdown n)) (Fin 0)))
   \<and> (score = NaN \<or> fle (Fin 0) score \<and> fle score (Fin 100))"
proof -
  have sc: "py_max (py_min x (Fin 100)) (Fin 0) = NaN \<or> fle (Fin 0) (py_max (py_min x (Fin 100)) (Fin 0))
      \<and> fle (py_max (py_min x (Fin 100)) (Fin 0)) (Fin 100)" for x
    by (cases x) (auto simp: py_min_def py_max_def)
  define b where "b = score_breakdown st setup conf"
  have "sb_normalized_final_score b = NaN \<or> fle (Fin 0) (sb_normalized_final_score b) \<and> fle (sb_normalized_final_score b) (Fin 100)"
    unfolding b_def score_breakdown_def Let_def using sc by simp
  then show ?thesis
    by (auto simp: ranked_node_def Let_def b_def [symmetric] rejections_def classify_tier_def split: prod.splits if_splits)
qed

text \<open>A NaN confidence is executable: with a NaN setup confidence, a default market and a
  reward/risk of three, the final score is NaN, no gate fires, and the setup is ranked executable
  at half size.\<close>

theorem nan_confidence_executable:
  assumes "sn_confidence_score setup = NaN" "sn_estimated_rr setup = Fin 3"
  shows "let n = ranked_node now (cold_boot_state t) setup conf in
    pn_is_live_executable n \<and> sb_normalized_final_score (pn_score_breakdown n) = NaN \<and> pn_execution_multiplier n = Fin (1/2)"
proof -
  have s: "evaluate_structural_quality setup = NaN"
    using assms(1) by (simp add: evaluate_structural_quality_def py_max_def py_min_def)
  have "fmul NaN (lit (1/5)) = NaN" by (cases "lit (1/5)") simp_all
  then have w: "weighted_total NaN b c d e f = NaN" for b c d e f
    by (simp add: weighted_total_def)
  have r: "evaluate_rr_quality setup = Fin 100"
    using assms(2) by (simp add: evaluate_rr_quality_def py_max_def py_min_def feval)
  have x: "evaluate_execution_efficiency (cold_boot_state t) = Fin 100"
    by (simp add: evaluate_execution_efficiency_def cold_boot_state_def py_max_def feval)
  show ?thesis
    by (simp add: ranked_node_def score_breakdown_def Let_def s w r x fsub_def py_max_def py_min_def rejections_def
        classify_tier_def)
qed

theorem nan_confidence_executable_witness:
  "let n = ranked_node (naive 1) (cold_boot_state (naive 0)) (demo_candidate NaN) demo_confirmation in
    pn_is_live_executable n \<and> sb_normalized_final_score (pn_score_breakdown n) = NaN"
  using nan_confidence_executable [of "demo_candidate NaN" "naive 1" "naive 0" demo_confirmation]
  by (simp add: demo_candidate_def Let_def)

subsection \<open>The registry\<close>

lemma clean_length: "length r \<le> Suc 1000 \<Longrightarrow> distinct (map fst r) \<Longrightarrow>
    length (clean_registry_cache_bounds r) \<le> 1000 \<and> distinct (map fst (clean_registry_cache_bounds r))"
proof -
  assume h: "length r \<le> Suc 1000" "distinct (map fst r)"
  show ?thesis
  proof (cases r)
    case (Cons kv r')
    obtain k v where kv: "kv = (k, v)" by (cases kv)
    with h Cons have "AList.delete k r = r'" by (simp add: delete_id)
    with h Cons kv show ?thesis by (auto simp: clean_registry_cache_bounds_def)
  qed (simp add: clean_registry_cache_bounds_def)
qed

definition rank_all :: "(datetime \<times> engine_state \<times> setup_node \<times> confirmation_snapshot) list \<Rightarrow> registry \<Rightarrow> registry" where
  "rank_all cs r = fold (\<lambda>(now, st, s, c) r. snd (process_and_rank_setup now st s c r)) cs r"

text \<open>The registry never holds more than 1000 setups, each once, in any run; the setup just
  ranked is in it, with its node.\<close>

theorem registry_bounded:
  "let r = rank_all cs []; (n, r') = process_and_rank_setup now st setup conf r in
     length r \<le> 1000 \<and> length r' \<le> 1000 \<and> distinct (map fst r') \<and> map_of r' (sn_id setup) = Some n"
proof -
  have st: "length (snd (process_and_rank_setup now st s c r)) \<le> 1000 \<and> distinct (map fst (snd (process_and_rank_setup now st s c r)))"
    if "length r \<le> 1000" "distinct (map fst r)" for now st s c r
    using that by (auto simp: process_and_rank_setup_def Let_def length_update distinct_update intro!: clean_length)
  have inv: "length (rank_all cs r) \<le> 1000 \<and> distinct (map fst (rank_all cs r))"
    if "length r \<le> 1000" "distinct (map fst r)" for cs r
    using that
  proof (induction cs arbitrary: r)
    case (Cons x cs)
    obtain now st s c where x: "x = (now, st, s, c)" by (cases x)
    show ?case using Cons.IH [of "snd (process_and_rank_setup now st s c r)"] st [OF Cons.prems, of now st s c]
      by (simp add: rank_all_def x)
  qed (simp add: rank_all_def)
  define r where "r = rank_all cs []"
  have r: "length r \<le> 1000" "distinct (map fst r)" using inv [of "[]" cs] by (simp_all add: r_def)
  define n where "n = ranked_node now st setup conf"
  let ?u = "AList.update (sn_id setup) n r"
  have last: "map_of (clean_registry_cache_bounds ?u) (sn_id setup) = Some n"
  proof (cases "length ?u > 1000")
    case True
    with r have new: "sn_id setup \<notin> fst ` set r" by (auto simp: length_update split: if_splits)
    then have u: "?u = r @ [(sn_id setup, n)]" by (rule update_new_snoc)
    with True obtain k v r' where rr: "r = (k, v) # r'" by (cases r) auto
    with new have "k \<noteq> sn_id setup" by auto
    then show ?thesis using True by (simp add: clean_registry_cache_bounds_def u rr)
  qed (simp add: clean_registry_cache_bounds_def)
  then show ?thesis using st [OF r, of now st "setup" conf] r
    by (simp add: process_and_rank_setup_def Let_def r_def [symmetric] n_def [symmetric])
qed

end
