(* ===== verification/Confirmation.thy ===== *)
theory Confirmation
  imports StateManager PyLiterals
begin

section \<open>Trade confirmation (src/strategy)\<close>

text \<open>
  \<open>momentum_validator.py\<close>, \<open>displacement_validator.py\<close>, \<open>mtf_alignment.py\<close> and
  \<open>confirmation_core.py\<close>: three validators, the weighted score with its gates, and the window
  of the last ten one-minute candles.
\<close>

subsection \<open>Validators\<close>

definition candle_body :: "candle_node \<Rightarrow> pyfloat" where
  "candle_body k = fabs (fsub (cn_close_p k) (cn_open_p k))"

definition candle_span :: "candle_node \<Rightarrow> pyfloat" where
  "candle_span k = py_max (fsub (cn_high_p k) (cn_low_p k)) (lit (1/1000000000))"

definition validate_momentum_pulse :: "candle_node \<Rightarrow> candle_node list \<Rightarrow> pyfloat \<Rightarrow> confirmation_tier \<times> pyfloat" where
  "validate_momentum_pulse k recent tick_velocity =
     (let score = py_min (Fin 100) (fadd (fmul (fdiv (candle_body k) (candle_span k)) (Fin 70))
                    (py_min (fmul tick_velocity (Fin 10)) (Fin 30)));
          tier = (if flt score (Fin 50) then INVALID else MEDIUM_CONVICTION)
      in (if fle (Fin 85) score then HIGH_CONVICTION else tier, score))"

definition verify_displacement_footprint :: "candle_node \<Rightarrow> confirmation_tier \<times> pyfloat" where
  "verify_displacement_footprint k =
     (let score = py_min (Fin 100) (fmul (fdiv (candle_body k) (candle_span k)) (Fin 100))
      in if flt score (Fin 45) then (INVALID, score)
         else if fle (Fin 80) score then (HIGH_CONVICTION, score)
         else (MEDIUM_CONVICTION, score))"

definition evaluate_alignment_matrix :: "order_direction \<Rightarrow> (string, string) dict \<Rightarrow> alignment_status \<times> pyfloat" where
  "evaluate_alignment_matrix d bias =
     (if bias = [] then (CONFLICTED, Fin 0)
      else
      let desired = (if d = BUY then ''BULLISH'' else ''BEARISH'');
          aligned = length (filter (\<lambda>(k, b). py_upper b = desired) bias);
          ratio = rnd (of_nat aligned / of_nat (length bias))
      in if fle (Fin (3/4)) ratio then (FULLY_ALIGNED, fmul ratio (Fin 100))
         else if fle (Fin (1/2)) ratio then (PARTIALLY_ALIGNED, fmul ratio (Fin 100))
         else (CONFLICTED, fmul ratio (Fin 100)))"

subsection \<open>The orchestrator\<close>

type_synonym candle_window = "candle_node list"

definition on_candle_evacuation :: "candle_node \<Rightarrow> candle_window \<Rightarrow> candle_window" where
  "on_candle_evacuation e w = (if cn_timeframe e \<noteq> ''1m'' then w else win_push 10 e w)"

definition confirmation_terminate :: "candle_window \<Rightarrow> candle_window" where
  "confirmation_terminate w = []"

definition confirmation_score :: "pyfloat \<Rightarrow> pyfloat \<Rightarrow> pyfloat \<Rightarrow> pyfloat" where
  "confirmation_score mom disp align =
     fadd (fadd (fmul mom (lit (7/20))) (fmul disp (lit (7/20)))) (fmul align (lit (3/10)))"

text \<open>The reasons and the validated components collected before the score is tested.\<close>

definition gate_results ::
  "engine_state \<Rightarrow> confirmation_tier \<Rightarrow> confirmation_tier \<Rightarrow> alignment_status \<Rightarrow> string list \<times> string list" where
  "gate_results st mom disp align =
     ((if \<not> is_killzone_active (es_session st) then [''SETUP_OUTSIDE_KILLZONE_BOUNDARIES''] else [])
      @ (if regime_text (rd_current_regime (es_regime st)) = ''POST_NEWS_CHAOS'' then [''TOXIC_POST_NEWS_REGIME_ACTIVE''] else [])
      @ (if mom \<noteq> INVALID then [] else [''MOMENTUM_ACCELERATION_INSUFFICIENT''])
      @ (if disp \<noteq> INVALID then [] else [''DISPLACEMENT_WICK_EXHAUSTION_BREACH''])
      @ (if align = FULLY_ALIGNED \<or> align = PARTIALLY_ALIGNED then [] else [''MTF_STRUCTURAL_BIAS_CONFLICT'']),
      (if mom \<noteq> INVALID then [''MOMENTUM_CONVICTION''] else [])
      @ (if disp \<noteq> INVALID then [''DISPLACEMENT_VALIDATED''] else [])
      @ (if align = FULLY_ALIGNED \<or> align = PARTIALLY_ALIGNED then [''MTF_TREND_ALIGNMENT''] else []))"

definition process_candidate_setup ::
  "datetime \<Rightarrow> engine_state \<Rightarrow> candle_window \<Rightarrow> order_direction \<Rightarrow> candle_node \<Rightarrow> (string, string) dict \<Rightarrow> pyfloat
     \<Rightarrow> bool \<times> confirmation_snapshot" where
  "process_candidate_setup now st window d trigger bias velocity =
     (let (mom_tier, mom) = validate_momentum_pulse trigger window velocity;
          (disp_tier, disp) = verify_displacement_footprint trigger;
          (align_status, align) = evaluate_alignment_matrix d bias;
          (reasons0, components) = gate_results st mom_tier disp_tier align_status;
          weighted = confirmation_score mom disp align;
          reasons = reasons0 @ (if flt weighted (Fin 75) then [''CONFIRMATION_SCORE_BELOW_MINIMUM_THRESHOLD''] else []);
          validated = (reasons = [] \<and> fle (Fin 75) weighted);
          final = (if \<not> validated \<and> fle (Fin 75) weighted then Fin 74 else weighted);
          tier = (if validated
                  then if fle (Fin 88) final then HIGH_CONVICTION
                       else if fle (Fin 75) final then MEDIUM_CONVICTION else INVALID
                  else INVALID);
          active = is_killzone_active (es_session st)
      in (validated,
          \<lparr>cs_timestamp = now, cs_overall_tier = tier, cs_confidence_score = final, cs_is_validated = validated,
           cs_alignment = align_status,
           cs_metrics = \<lparr>cm_momentum_velocity_score = mom, cm_displacement_ratio = disp,
             cm_wick_rejection_pct = fsub (Fin 100) disp, cm_mtf_alignment_score = align,
             cm_volatility_expansion_factor = rd_volatility_ratio (es_regime st),
             cm_session_efficiency_index = (if active then Fin 100 else Fin 0)\<rparr>,
           cs_validated_components = components, cs_invalidation_reasons = reasons\<rparr>))"

subsection \<open>What a confirmation means\<close>

text \<open>The confidence score a snapshot reports tells by itself whether the setup was
  confirmed: it is at least 75 exactly for a validated setup, the tier is invalid exactly for
  the others, and a confirmed setup lies in a killzone with no invalidation reason and all three
  components validated.\<close>

theorem confidence_tells_validation:
  "let (ok, c) = process_candidate_setup now st w d k bias v in
     ok = cs_is_validated c
   \<and> fle (Fin 75) (cs_confidence_score c) = ok
   \<and> (cs_overall_tier c = INVALID) = (\<not> ok)
   \<and> (cs_overall_tier c = HIGH_CONVICTION) = (ok \<and> fle (Fin 88) (cs_confidence_score c))
   \<and> ok = (ok \<and> is_killzone_active (es_session st) \<and> cs_invalidation_reasons c = [] \<and> cs_alignment c \<noteq> CONFLICTED
        \<and> cs_validated_components c = [''MOMENTUM_CONVICTION'', ''DISPLACEMENT_VALIDATED'', ''MTF_TREND_ALIGNMENT''])"
proof -
  obtain mt m where 1: "validate_momentum_pulse k w v = (mt, m)" by (cases "validate_momentum_pulse k w v")
  obtain dt' dsp where 2: "verify_displacement_footprint k = (dt', dsp)" by (cases "verify_displacement_footprint k")
  obtain a al where 3: "evaluate_alignment_matrix d bias = (a, al)" by (cases "evaluate_alignment_matrix d bias")
  have 74: "\<not> fle (Fin 75) (Fin 74)" by simp
  show ?thesis
    by (cases "fst (gate_results st mt dt' a) = []"; cases "fle (Fin 75) (confirmation_score m dsp al)")
      (auto simp: process_candidate_setup_def 1 2 3 Let_def gate_results_def fle_not_flt split: if_splits
        dest: alignment_status.exhaust)
qed

text \<open>Both candle validators stay at or below 100 for any candle and any tick velocity,
  malformed ones included: their scores are never NaN.\<close>

theorem validators_capped:
  "fle (snd (validate_momentum_pulse k w v)) (Fin 100) \<and> fle (snd (verify_displacement_footprint k)) (Fin 100)"
proof -
  have "fle (py_min (Fin 100) x) (Fin 100)" for x by (cases x) (auto simp: py_min_def)
  then show ?thesis by (simp add: validate_momentum_pulse_def verify_displacement_footprint_def Let_def)
qed

text \<open>The same cap gives a malformed candle full marks: with NaN prices \<open>min(100.0, nan)\<close> is
  100, so in a killzone with an agreeing bias the setup is confirmed with the highest conviction
  and a score of 100.\<close>

theorem nan_candle_confirmed:
  assumes "cn_open_p k = NaN" "is_killzone_active (es_session st)"
    and "regime_text (rd_current_regime (es_regime st)) \<noteq> ''POST_NEWS_CHAOS''"
    and "evaluate_alignment_matrix d bias = (FULLY_ALIGNED, Fin 100)"
  shows "let (ok, c) = process_candidate_setup now st w d k bias v in
    ok \<and> cs_overall_tier c = HIGH_CONVICTION \<and> fle (Fin 99) (cs_confidence_score c)"
proof -
  have n: "fdiv NaN x = NaN" "fmul NaN x = NaN" "fadd NaN x = NaN" for x by (cases x; simp)+
  have b: "candle_body k = NaN" using assms(1) by (cases "cn_close_p k") (simp_all add: candle_body_def fsub_def)
  have m: "validate_momentum_pulse k w v = (HIGH_CONVICTION, Fin 100)"
    by (simp add: validate_momentum_pulse_def b n Let_def py_min_def)
  have dp: "verify_displacement_footprint k = (HIGH_CONVICTION, Fin 100)"
    by (simp add: verify_displacement_footprint_def b n Let_def py_min_def)
  have f: "fmul (Fin 100) (lit (7/20)) = Fin 35" "fmul (Fin 100) (lit (3/10)) = Fin 30"
    unfolding lit_7_20 lit_3_10 fmul.simps
    by (rule rnd_cert [where e = "- 47" and m = "4925812092436480"]; simp add: p2_def)
      (rule rnd_cert [where e = "- 48" and m = "8444249301319680"]; simp add: p2_def)
  have s: "confirmation_score (Fin 100) (Fin 100) (Fin 100) = Fin 100"
    unfolding confirmation_score_def f by (simp add: feval)
  show ?thesis
    by (simp add: process_candidate_setup_def m dp assms Let_def gate_results_def s)
qed

text \<open>The correctly rounded quotient of two counts compares with a quarter as the exact one.\<close>

lemma quotient_quarter:
  assumes L: "0 < L" "L < 2 ^ 50" and a: "a \<le> 4"
  shows "fle (Fin (of_nat a / 4)) (rnd (of_nat n / of_nat L)) \<longleftrightarrow> a * L \<le> 4 * n"
proof
  have q: "rnd (of_nat a / 4) = Fin (of_nat a / 4)"
  proof -
    have "rnd (of_int (int a) * p2 (- 2)) = Fin (of_int (int a) * p2 (- 2))"
      using a by (intro rnd_exact) auto
    then show ?thesis by (simp add: p2_def)
  qed
  have Lq: "0 < rat_of_nat L" using L by simp
  {
    assume "a * L \<le> 4 * n"
    then have "rat_of_nat (a * L) \<le> of_nat (4 * n)" by (simp only: of_nat_le_iff)
    then have "rat_of_nat a / 4 \<le> of_nat n / of_nat L" using Lq by (simp add: field_simps)
    then show "fle (Fin (of_nat a / 4)) (rnd (of_nat n / of_nat L))" using rnd_mono q by metis
  }
  assume f: "fle (Fin (of_nat a / 4)) (rnd (of_nat n / of_nat L))"
  show "a * L \<le> 4 * n"
  proof (rule ccontr)
    assume "\<not> a * L \<le> 4 * n"
    then have lt: "4 * n + 1 \<le> a * L" by simp
    let ?x = "rat_of_nat n / of_nat L"
    from lt have "rat_of_nat (4 * n + 1) \<le> of_nat (a * L)" by (simp only: of_nat_le_iff)
    then have gap: "?x + 1 / (4 * of_nat L) \<le> of_nat a / 4" using Lq by (simp add: field_simps)
    have "rat_of_nat L \<le> of_nat (2 ^ 50)" using L(2) by (simp only: of_nat_le_iff)
    then have small: "1 / 2 ^ 52 \<le> 1 / (4 * rat_of_nat L)" using Lq by (simp add: field_simps)
    have "0 < 1 / (4 * rat_of_nat L)" using Lq by simp
    moreover have "rat_of_nat a \<le> 4" using a by (metis of_nat_le_iff of_nat_numeral)
    ultimately have x1: "?x < 1" using gap by linarith
    have "\<bar>rnd_fin ?x - ?x\<bar> \<le> 1 / 2 ^ 54"
    proof (cases "n = 0")
      case False
      then have x0: "0 < ?x" using Lq by simp
      have "lg2 ?x < 0"
      proof (rule ccontr)
        assume "\<not> lg2 ?x < 0"
        then have "p2 0 \<le> p2 (lg2 ?x)" by (intro p2_mono) simp
        with lg2_bounds [OF x0] x1 show False by simp
      qed
      then have "p2 (qexp ?x) \<le> p2 (- 53)" using x0 by (intro p2_mono) (simp add: qexp_def)
      then show ?thesis using rnd_fin_near [of ?x] by (simp add: p2_def)
    qed simp
    then have "rnd_fin ?x \<le> ?x + 1 / 2 ^ 54" by linarith
    also have "\<dots> < of_nat a / 4" using gap small by simp
    finally have lt: "rnd_fin ?x < of_nat a / 4" .
    from f show False
    proof (cases "rnd ?x")
      case (Fin r)
      with f lt rnd_FinD [OF Fin] show False by simp
    next
      case PInf
      have "fle (rnd ?x) (Fin 1)" using rnd_mono [of ?x 1] x1 by simp
      with PInf show False by simp
    qed simp_all
  qed
qed

text \<open>The alignment verdict counts votes: full alignment means at least three quarters of
  the timeframes agree with the direction, conflict means fewer than half do, and the score is
  between 0 and 100.\<close>

theorem alignment_counts_votes:
  assumes "length bias < 2 ^ 50"
  shows "let n = length (filter (\<lambda>(tf, b). py_upper b = (if d = BUY then ''BULLISH'' else ''BEARISH'')) bias);
             (status, score) = evaluate_alignment_matrix d bias
    in (status = FULLY_ALIGNED) = (bias \<noteq> [] \<and> 3 * length bias \<le> 4 * n)
     \<and> (status = CONFLICTED) = (bias = [] \<or> 2 * n < length bias)
     \<and> fle (Fin 0) score \<and> fle score (Fin 100)"
proof (cases "bias = []")
  case True
  then show ?thesis by (simp add: evaluate_alignment_matrix_def)
next
  case False
  define n where "n = length (filter (\<lambda>(tf, b). py_upper b = (if d = BUY then ''BULLISH'' else ''BEARISH'')) bias)"
  define L where "L = length bias"
  have L: "0 < L" "L < 2 ^ 50" "n \<le> L" using False assms by (simp_all add: L_def n_def)
  have r3: "fle (Fin (3/4)) (rnd (of_nat n / of_nat L)) \<longleftrightarrow> 3 * L \<le> 4 * n"
    using quotient_quarter [OF L(1,2), of 3 n] by simp
  have r2: "fle (Fin (1/2)) (rnd (of_nat n / of_nat L)) \<longleftrightarrow> L \<le> 2 * n"
    using quotient_quarter [OF L(1,2), of 2 n] by simp
  have "fle (Fin 0) (rnd (of_nat n / of_nat L))" "fle (rnd (of_nat n / of_nat L)) (Fin 1)"
    using rnd_mono [of "of_nat n / of_nat L" 1] L by (simp_all add: rnd_nonneg)
  then obtain r where r: "rnd (of_nat n / of_nat L) = Fin r" "0 \<le> r" "r \<le> 1"
    by (cases "rnd (of_nat n / of_nat L)") auto
  have sc: "fle (Fin 0) (rnd (r * 100))" "fle (rnd (r * 100)) (Fin 100)"
    using rnd_mono [of "r * 100" 100] r by (simp_all add: rnd_nonneg feval)
  have e: "evaluate_alignment_matrix d bias =
      (if 3 * L \<le> 4 * n then (FULLY_ALIGNED, rnd (r * 100))
       else if L \<le> 2 * n then (PARTIALLY_ALIGNED, rnd (r * 100)) else (CONFLICTED, rnd (r * 100)))"
    using False r3 r2 r by (simp add: evaluate_alignment_matrix_def n_def [symmetric] L_def [symmetric] Let_def)
  show ?thesis unfolding Let_def n_def [symmetric] L_def [symmetric] e using False sc by auto
qed

theorem alignment_counts_votes_witness:
  "let (status, score) = evaluate_alignment_matrix BUY [(''1h'', ''bullish''), (''4h'', ''BEARISH''), (''1d'', ''Bullish''), (''15m'', ''BULLISH'')]
   in status = FULLY_ALIGNED \<and> fle score (Fin 100)"
proof -
  let ?b = "[(''1h'', ''bullish''), (''4h'', ''BEARISH''), (''1d'', ''Bullish''), (''15m'', ''BULLISH'')]"
  have f: "length (filter (\<lambda>(tf, b). py_upper b = (if BUY = BUY then ''BULLISH'' else ''BEARISH'')) ?b) = 3"
    by code_simp
  have "length ?b < 2 ^ 50" by simp
  from alignment_counts_votes [OF this, of BUY] f show ?thesis by (auto simp: Let_def split: prod.splits)
qed

theorem nan_candle_confirmed_witness:
  "let st = cold_boot_state (naive 0); st' = st\<lparr>es_session := (es_session st)\<lparr>sd_killzone_active := True\<rparr>\<rparr>;
       k = \<lparr>cn_symbol = ''XAUUSD'', cn_timeframe = ''1m'', cn_start_time = naive 0, cn_end_time = naive 60000000,
            cn_open_p = NaN, cn_high_p = NaN, cn_low_p = NaN, cn_close_p = NaN, cn_volume = 0, cn_ticks_count = 0,
            cn_is_closed = True, cn_sequence_id = 1, cn_trace_id = ''t'', cn_correlation_id = ''c'', cn_priority = HIGH\<rparr>;
       (ok, c) = process_candidate_setup (naive 1) st' [] BUY k [(''1h'', ''BULLISH'')] (Fin 0)
   in ok \<and> cs_overall_tier c = HIGH_CONVICTION"
proof -
  let ?st = "cold_boot_state (naive 0)"
  let ?st' = "?st\<lparr>es_session := (es_session ?st)\<lparr>sd_killzone_active := True\<rparr>\<rparr>"
  let ?k = "\<lparr>cn_symbol = ''XAUUSD'', cn_timeframe = ''1m'', cn_start_time = naive 0, cn_end_time = naive 60000000,
            cn_open_p = NaN, cn_high_p = NaN, cn_low_p = NaN, cn_close_p = NaN, cn_volume = 0, cn_ticks_count = 0,
            cn_is_closed = True, cn_sequence_id = 1, cn_trace_id = ''t'', cn_correlation_id = ''c'', cn_priority = HIGH\<rparr>"
  have u: "py_upper ''BULLISH'' = ''BULLISH''" by code_simp
  have a: "evaluate_alignment_matrix BUY [(''1h'', ''BULLISH'')] = (FULLY_ALIGNED, Fin 100)"
    by (simp add: evaluate_alignment_matrix_def u feval)
  have k: "is_killzone_active (es_session ?st')" "regime_text (rd_current_regime (es_regime ?st')) \<noteq> ''POST_NEWS_CHAOS''"
    by (simp_all add: is_killzone_active_def cold_boot_state_def)
  have o: "cn_open_p ?k = NaN" by simp
  from nan_candle_confirmed [OF o k a, of "naive 1" "[]" "Fin 0"] show ?thesis by (simp add: Let_def split: prod.splits)
qed

subsection \<open>The candle window\<close>

text \<open>Whatever candles are delivered, the window holds at most ten, all of them one-minute
  candles, and after a one-minute candle that candle is the last.\<close>

theorem window_holds_last_ten:
  "let w = fold on_candle_evacuation events []; w' = on_candle_evacuation (e\<lparr>cn_timeframe := ''1m''\<rparr>) w in
     length w \<le> 10 \<and> list_all (\<lambda>k. cn_timeframe k = ''1m'') w
   \<and> length w' \<le> 10 \<and> last w' = e\<lparr>cn_timeframe := ''1m''\<rparr>"
proof -
  have push: "length (on_candle_evacuation x w) \<le> 10 \<and> list_all (\<lambda>k. cn_timeframe k = ''1m'') (on_candle_evacuation x w)"
    if "length w \<le> 10" "list_all (\<lambda>k. cn_timeframe k = ''1m'') w" for x w
    using that win.push_cap [of w 9 x] win.push_pred [of w 9 "\<lambda>k. cn_timeframe k = ''1m''" x]
    by (simp add: on_candle_evacuation_def)
  have inv: "length (fold on_candle_evacuation xs w) \<le> 10 \<and> list_all (\<lambda>k. cn_timeframe k = ''1m'') (fold on_candle_evacuation xs w)"
    if "length w \<le> 10" "list_all (\<lambda>k. cn_timeframe k = ''1m'') w" for xs w
    using that by (induction xs arbitrary: w) (simp_all add: push)
  define w where "w = fold on_candle_evacuation events []"
  have w: "length w \<le> 10" "list_all (\<lambda>k. cn_timeframe k = ''1m'') w" using inv [of "[]" events] by (simp_all add: w_def)
  let ?e = "e\<lparr>cn_timeframe := ''1m''\<rparr>"
  have "last (win_push 10 ?e w) = ?e" by (cases w) (simp_all add: win_push_def Let_def)
  with w push [OF w, of ?e] show ?thesis
    by (simp add: w_def [symmetric] Let_def on_candle_evacuation_def)
qed

end
