(* ===== verification/CandleStructure.thy ===== *)
theory CandleStructure
  imports DomainModels
begin

section \<open>Candles and market structure (src/analytics)\<close>

text \<open>
  \<open>candle_builder.py\<close>: candles built from ticks. \<open>structure_engine.py\<close>: three-candle pivots and
  breaks of structure over a bounded window of candles.
\<close>

subsection \<open>The candle builder\<close>

record candle_builder =
  cb_symbol :: string
  cb_timeframe :: string
  cb_interval :: int
  cb_active :: "candle_node option"

definition cb_new :: "string \<Rightarrow> string \<Rightarrow> int \<Rightarrow> candle_builder" where
  "cb_new smb tf seconds = \<lparr>cb_symbol = smb, cb_timeframe = tf, cb_interval = seconds * 1000000, cb_active = None\<rparr>"

definition new_candle :: "candle_builder \<Rightarrow> datetime \<Rightarrow> pyfloat \<Rightarrow> int \<Rightarrow> candle_node" where
  "new_candle b ts price volume =
     \<lparr>cn_symbol = cb_symbol b, cn_timeframe = cb_timeframe b, cn_start_time = ts, cn_end_time = ts,
      cn_open_p = price, cn_high_p = price, cn_low_p = price, cn_close_p = price, cn_volume = volume,
      cn_ticks_count = 1, cn_is_closed = False, cn_sequence_id = 0, cn_trace_id = '''', cn_correlation_id = '''',
      cn_priority = NORMAL\<rparr>"

definition extend_candle :: "candle_node \<Rightarrow> tick_node \<Rightarrow> candle_node" where
  "extend_candle a t =
     (let price = tick_mid t
      in a\<lparr>cn_high_p := py_max (cn_high_p a) price, cn_low_p := py_min (cn_low_p a) price, cn_close_p := price,
           cn_volume := cn_volume a + tk_volume t, cn_ticks_count := cn_ticks_count a + 1,
           cn_end_time := tk_timestamp t\<rparr>)"

definition process_tick :: "tick_node \<Rightarrow> candle_builder \<Rightarrow> ((candle_node option \<times> candle_node) \<times> candle_builder) res" where
  "process_tick t b =
     (let fresh = new_candle b (tk_timestamp t) (tick_mid t) (tk_volume t)
      in case cb_active b of
           None \<Rightarrow> Ok ((None, fresh), b\<lparr>cb_active := Some fresh\<rparr>)
         | Some a \<Rightarrow>
             rbind (dt_le (dt_add (cn_start_time a) (cb_interval b)) (tk_timestamp t)) (\<lambda>over.
             if over then Ok ((Some (a\<lparr>cn_is_closed := True\<rparr>), fresh), b\<lparr>cb_active := Some fresh\<rparr>)
             else let a' = extend_candle a t in Ok ((None, a'), b\<lparr>cb_active := Some a'\<rparr>)))"

fun cb_run :: "tick_node list \<Rightarrow> candle_builder \<Rightarrow> (candle_node list \<times> candle_builder) res" where
  "cb_run [] b = Ok ([], b)"
| "cb_run (t # ts) b =
     rbind (process_tick t b) (\<lambda>((cls, _), b').
     rmap (\<lambda>(cs, b''). (case cls of None \<Rightarrow> cs | Some c \<Rightarrow> c # cs, b'')) (cb_run ts b'))"

fun opt_list :: "'a option \<Rightarrow> 'a list" where
  "opt_list None = []"
| "opt_list (Some x) = [x]"

text \<open>A candle that a builder of interval \<open>iv\<close> has built.\<close>

definition candle_ok :: "int \<Rightarrow> candle_node \<Rightarrow> bool" where
  "candle_ok iv c \<longleftrightarrow> fle (cn_low_p c) (cn_open_p c) \<and> fle (cn_open_p c) (cn_high_p c)
     \<and> fle (cn_low_p c) (cn_close_p c) \<and> fle (cn_close_p c) (cn_high_p c) \<and> 1 \<le> cn_ticks_count c
     \<and> dt_off (cn_start_time c) = None \<and> dt_instant (cn_end_time c) < dt_instant (cn_start_time c) + iv"

lemma candle_ok_closed [simp]: "candle_ok iv (c\<lparr>cn_is_closed := x\<rparr>) = candle_ok iv c"
  by (simp add: candle_ok_def)

lemma new_candle_ok: "p \<noteq> NaN \<Longrightarrow> 0 < iv \<Longrightarrow> dt_off ts = None \<Longrightarrow> candle_ok iv (new_candle b ts p v)"
  by (simp add: candle_ok_def new_candle_def)

lemma extend_candle_ok:
  assumes c: "candle_ok iv c" and t: "tick_mid t \<noteq> NaN" "dt_instant (tk_timestamp t) < dt_instant (cn_start_time c) + iv"
  shows "candle_ok iv (extend_candle c t)"
proof -
  have n: "cn_high_p c \<noteq> NaN" "cn_low_p c \<noteq> NaN"
    using c fle_not_NaN by (auto simp: candle_ok_def)
  have "fle (cn_high_p c) (py_max (cn_high_p c) (tick_mid t)) \<and> fle (tick_mid t) (py_max (cn_high_p c) (tick_mid t))"
    "fle (py_min (cn_low_p c) (tick_mid t)) (cn_low_p c) \<and> fle (py_min (cn_low_p c) (tick_mid t)) (tick_mid t)"
    using n t(1) by (simp_all add: py_max_ge py_min_le)
  with c t(2) show ?thesis by (auto simp: candle_ok_def extend_candle_def Let_def intro: fle_trans)
qed

text \<open>Candles account for every tick: from an empty builder, a run over ticks with naive
  timestamps and mid prices that are numbers never raises; the closed candles and the active one
  together hold exactly as many ticks and as much volume as were fed in; each has its open and
  close between its low and its high and ends less than one interval after its start; and exactly
  the emitted ones are marked closed.\<close>

theorem candles_account_for_ticks:
  assumes iv: "0 < secs" and ts: "\<And>t. t \<in> set ts \<Longrightarrow> dt_off (tk_timestamp t) = None \<and> tick_mid t \<noteq> NaN"
  shows "\<exists>cls b. cb_run ts (cb_new smb tf secs) = Ok (cls, b)
    \<and> (let all = cls @ opt_list (cb_active b) in
        sum_list (map cn_ticks_count all) = int (length ts)
      \<and> sum_list (map cn_volume all) = sum_list (map tk_volume ts)
      \<and> list_all (candle_ok (secs * 1000000)) all)
    \<and> list_all cn_is_closed cls \<and> list_all (\<lambda>c. \<not> cn_is_closed c) (opt_list (cb_active b))"
proof -
  let ?iv = "secs * 1000000"
  have gen: "\<exists>cls b'. cb_run ts b = Ok (cls, b') \<and> cb_interval b' = ?iv
      \<and> sum_list (map cn_ticks_count (cls @ opt_list (cb_active b'))) = sum_list (map cn_ticks_count (opt_list (cb_active b))) + int (length ts)
      \<and> sum_list (map cn_volume (cls @ opt_list (cb_active b'))) = sum_list (map cn_volume (opt_list (cb_active b))) + sum_list (map tk_volume ts)
      \<and> list_all (candle_ok ?iv) (cls @ opt_list (cb_active b'))
      \<and> list_all cn_is_closed cls \<and> list_all (\<lambda>c. \<not> cn_is_closed c) (opt_list (cb_active b'))"
    if "cb_interval b = ?iv" "list_all (candle_ok ?iv) (opt_list (cb_active b))"
      "list_all (\<lambda>c. \<not> cn_is_closed c) (opt_list (cb_active b))"
      "\<And>t. t \<in> set ts \<Longrightarrow> dt_off (tk_timestamp t) = None \<and> tick_mid t \<noteq> NaN" for ts b
    using that
  proof (induction ts arbitrary: b)
    case Nil
    then show ?case by simp
  next
    case (Cons t ts)
    have t: "dt_off (tk_timestamp t) = None" "tick_mid t \<noteq> NaN" using Cons.prems(4) by auto
    let ?f = "new_candle b (tk_timestamp t) (tick_mid t) (tk_volume t)"
    have f: "candle_ok ?iv ?f" "cn_ticks_count ?f = 1" "cn_volume ?f = tk_volume t" "\<not> cn_is_closed ?f"
      using t iv new_candle_ok by (auto simp: new_candle_def)
    have rest: "\<And>u. u \<in> set ts \<Longrightarrow> dt_off (tk_timestamp u) = None \<and> tick_mid u \<noteq> NaN" using Cons.prems(4) by auto
    show ?case
    proof (cases "cb_active b")
      case None
      have p: "process_tick t b = Ok ((None, ?f), b\<lparr>cb_active := Some ?f\<rparr>)" by (simp add: process_tick_def None Let_def)
      from Cons.IH [of "b\<lparr>cb_active := Some ?f\<rparr>", OF _ _ _ rest] Cons.prems(1) f None
      show ?thesis by (auto simp: p)
    next
      case (Some a)
      then have a: "candle_ok ?iv a" "\<not> cn_is_closed a" using Cons.prems by auto
      then have le: "dt_le (dt_add (cn_start_time a) ?iv) (tk_timestamp t) = Ok (dt_instant (cn_start_time a) + ?iv \<le> dt_instant (tk_timestamp t))"
        using t by (simp add: dt_le_def dt_comparable_def candle_ok_def dt_add_def dt_instant_def)
      show ?thesis
      proof (cases "dt_instant (cn_start_time a) + ?iv \<le> dt_instant (tk_timestamp t)")
        case True
        then have p: "process_tick t b = Ok ((Some (a\<lparr>cn_is_closed := True\<rparr>), ?f), b\<lparr>cb_active := Some ?f\<rparr>)"
          using Some Cons.prems(1) le by (simp add: process_tick_def Let_def)
        from Cons.IH [of "b\<lparr>cb_active := Some ?f\<rparr>", OF _ _ _ rest] Cons.prems(1) f Some a
        show ?thesis by (auto simp: p)
      next
        case False
        let ?e = "extend_candle a t"
        have p: "process_tick t b = Ok ((None, ?e), b\<lparr>cb_active := Some ?e\<rparr>)"
          using Some Cons.prems(1) le False by (simp add: process_tick_def Let_def)
        have e: "candle_ok ?iv ?e" "cn_ticks_count ?e = cn_ticks_count a + 1" "cn_volume ?e = cn_volume a + tk_volume t"
          "\<not> cn_is_closed ?e"
          using extend_candle_ok [OF a(1) t(2)] False a(2) by (simp_all add: extend_candle_def Let_def)
        from Cons.IH [of "b\<lparr>cb_active := Some ?e\<rparr>", OF _ _ _ rest] Cons.prems(1) e Some
        show ?thesis by (auto simp: p)
      qed
    qed
  qed
  have "cb_interval (cb_new smb tf secs) = ?iv" "cb_active (cb_new smb tf secs) = None" by (simp_all add: cb_new_def)
  from gen [of "cb_new smb tf secs" ts, OF this(1) _ _ ts] this show ?thesis by (auto simp: Let_def)
qed

theorem candles_account_for_ticks_witness:
  "let tick = (\<lambda>s p. \<lparr>tk_symbol = ''XAUUSD'', tk_timestamp = naive (s * 1000000), tk_bid = Fin p, tk_ask = Fin (p + 1), tk_volume = 2,
          tk_sequence_id = 0, tk_trace_id = [], tk_correlation_id = [], tk_priority = NORMAL\<rparr>)
   in case cb_run [tick 0 2000, tick 59 2002, tick 60 2001] (cb_new ''XAUUSD'' ''1m'' 60) of
        Inl _ \<Rightarrow> False
      | Inr (cls, b) \<Rightarrow> sum_list (map cn_ticks_count (cls @ opt_list (cb_active b))) = 3
          \<and> sum_list (map cn_volume (cls @ opt_list (cb_active b))) = 6 \<and> list_all cn_is_closed cls"
proof -
  let ?tick = "\<lambda>s p. \<lparr>tk_symbol = ''XAUUSD'', tk_timestamp = naive (s * 1000000), tk_bid = Fin p, tk_ask = Fin (p + 1), tk_volume = 2,
          tk_sequence_id = 0, tk_trace_id = [], tk_correlation_id = [], tk_priority = NORMAL\<rparr>"
  let ?ts = "[?tick 0 2000, ?tick 59 2002, ?tick 60 2001]"
  have h: "dt_off (tk_timestamp t) = None \<and> tick_mid t \<noteq> NaN" if "t \<in> set ?ts" for t
    using that by (auto simp: tick_mid_def naive_def feval)
  have "(0::int) < 60" by simp
  from candles_account_for_ticks [OF this h, of ?ts "''XAUUSD''" "''1m''"] show ?thesis
    by (auto simp: Let_def)
qed

subsection \<open>The structure engine\<close>

record structure_engine =
  se_timeframe :: string
  se_lookback :: nat
  se_candles :: "candle_node list"
  se_high_pivots :: "swing_point list"
  se_low_pivots :: "swing_point list"
  se_structural_high :: "swing_point option"
  se_structural_low :: "swing_point option"
  se_counter :: nat

definition se_new :: "string \<Rightarrow> nat \<Rightarrow> structure_engine" where
  "se_new tf lookback = \<lparr>se_timeframe = tf, se_lookback = lookback, se_candles = [], se_high_pivots = [],
     se_low_pivots = [], se_structural_high = None, se_structural_low = None, se_counter = 0\<rparr>"

definition pivot_point :: "structure_engine \<Rightarrow> structural_point_type \<Rightarrow> candle_node \<Rightarrow> swing_point" where
  "pivot_point e ty c =
     \<lparr>sp_id = (if ty = SWING_HIGH then ''SW_H_'' else ''SW_L_'') @ se_timeframe e @ ''_'' @ nat_str (se_counter e),
      sp_symbol = cn_symbol c, sp_timeframe = se_timeframe e, sp_point_type = ty, sp_timestamp = cn_end_time c,
      sp_price = (if ty = SWING_HIGH then cn_high_p c else cn_low_p c), sp_confidence = Fin 85\<rparr>"

definition evaluate_local_pivots ::
  "candle_node \<Rightarrow> candle_node \<Rightarrow> candle_node \<Rightarrow> structure_engine \<Rightarrow> swing_point option \<times> structure_engine" where
  "evaluate_local_pivots c1 c2 c3 e0 =
     (let e = e0\<lparr>se_counter := se_counter e0 + 1\<rparr>
      in if flt (cn_high_p c1) (cn_high_p c2) \<and> flt (cn_high_p c3) (cn_high_p c2)
         then let p = pivot_point e SWING_HIGH c2
              in (Some p, e\<lparr>se_high_pivots := se_high_pivots e @ [p], se_structural_high := Some p\<rparr>)
         else if flt (cn_low_p c2) (cn_low_p c1) \<and> flt (cn_low_p c2) (cn_low_p c3)
         then let p = pivot_point e SWING_LOW c2
              in (Some p, e\<lparr>se_low_pivots := se_low_pivots e @ [p], se_structural_low := Some p\<rparr>)
         else (None, e))"

type_synonym structure_break = "structure_break_type \<times> pyfloat \<times> datetime"

definition check_bullish_break :: "candle_node \<Rightarrow> structure_engine \<Rightarrow> structure_break list \<times> structure_engine" where
  "check_bullish_break c e =
     (case se_structural_high e of
        Some h \<Rightarrow> if flt (sp_price h) (cn_close_p c)
                  then ([(if se_structural_low e \<noteq> None then BOS else MSS, sp_price h, cn_end_time c)],
                        e\<lparr>se_structural_high := None\<rparr>)
                  else ([], e)
      | None \<Rightarrow> ([], e))"

definition check_bearish_break :: "candle_node \<Rightarrow> structure_engine \<Rightarrow> structure_break list \<times> structure_engine" where
  "check_bearish_break c e =
     (case se_structural_low e of
        Some l \<Rightarrow> if flt (cn_close_p c) (sp_price l)
                  then ([(if se_structural_high e \<noteq> None then BOS else MSS, sp_price l, cn_end_time c)],
                        e\<lparr>se_structural_low := None\<rparr>)
                  else ([], e)
      | None \<Rightarrow> ([], e))"

definition ingest_candle_close ::
  "candle_node \<Rightarrow> structure_engine \<Rightarrow> (swing_point list \<times> structure_break list) \<times> structure_engine" where
  "ingest_candle_close c e0 =
     (let e = e0\<lparr>se_candles := win_push (se_lookback e0) c (se_candles e0)\<rparr>;
          w = se_candles e; n = length w;
          (pivots, e1) = (if n \<ge> 3
                          then let (p, e') = evaluate_local_pivots (w ! (n - 3)) (w ! (n - 2)) (w ! (n - 1)) e in (opt_list p, e')
                          else ([], e));
          (up, e2) = check_bullish_break c e1;
          (down, e3) = check_bearish_break c e2
      in ((pivots, up @ down), e3))"

fun se_run :: "candle_node list \<Rightarrow> structure_engine \<Rightarrow> (swing_point list \<times> structure_break list) list \<times> structure_engine" where
  "se_run [] e = ([], e)"
| "se_run (c # cs) e = (let (out, e') = ingest_candle_close c e; (outs, e'') = se_run cs e' in (out # outs, e''))"

text \<open>What every operation keeps: the window is bounded, the pivots of each side carry increasing
  numbers up to the counter, and the active levels are recorded pivots.\<close>

definition pivot_id :: "structural_point_type \<Rightarrow> string \<Rightarrow> nat \<Rightarrow> string" where
  "pivot_id ty tf k = (if ty = SWING_HIGH then ''SW_H_'' else ''SW_L_'') @ tf @ ''_'' @ nat_str k"

definition numbered :: "structural_point_type \<Rightarrow> structure_engine \<Rightarrow> swing_point list \<Rightarrow> bool" where
  "numbered ty e ps \<longleftrightarrow> (\<exists>ks. map sp_id ps = map (pivot_id ty (se_timeframe e)) ks
     \<and> sorted_wrt (<) ks \<and> (\<forall>k\<in>set ks. k \<le> se_counter e))"

definition se_inv :: "structure_engine \<Rightarrow> bool" where
  "se_inv e \<longleftrightarrow> length (se_candles e) \<le> se_lookback e
     \<and> numbered SWING_HIGH e (se_high_pivots e) \<and> numbered SWING_LOW e (se_low_pivots e)
     \<and> set_option (se_structural_high e) \<subseteq> set (se_high_pivots e)
     \<and> set_option (se_structural_low e) \<subseteq> set (se_low_pivots e)"

lemma pivot_id_inj: "pivot_id ty tf j = pivot_id ty' tf k \<longleftrightarrow> ty = ty' \<and> j = k"
  by (cases ty; cases ty') (auto simp: pivot_id_def)

lemma numbered_distinct: "numbered ty e ps \<Longrightarrow> distinct (map sp_id ps)"
  unfolding numbered_def by (elim exE conjE) (simp only: distinct_map inj_on_def pivot_id_inj strict_sorted_iff, simp)

lemma numbered_later:
  "numbered ty e ps \<Longrightarrow> se_timeframe e' = se_timeframe e \<Longrightarrow> se_counter e \<le> se_counter e' \<Longrightarrow> numbered ty e' ps"
  by (auto simp: numbered_def intro: le_trans)

lemma numbered_snoc:
  assumes "numbered ty e ps" "se_timeframe e' = se_timeframe e" "se_counter e' = se_counter e + 1"
    "sp_id p = pivot_id ty (se_timeframe e') (se_counter e')"
  shows "numbered ty e' (ps @ [p])"
proof -
  from assms(1) obtain ks where ks: "map sp_id ps = map (pivot_id ty (se_timeframe e)) ks" "sorted_wrt (<) ks"
    "\<forall>k\<in>set ks. k \<le> se_counter e" by (auto simp: numbered_def)
  then have "map sp_id (ps @ [p]) = map (pivot_id ty (se_timeframe e')) (ks @ [se_counter e'])"
    "sorted_wrt (<) (ks @ [se_counter e'])" "\<forall>k\<in>set (ks @ [se_counter e']). k \<le> se_counter e'"
    using assms(2-4) by (auto simp: sorted_wrt_append less_Suc_eq_le)
  then show ?thesis unfolding numbered_def by blast
qed

lemma pivot_point_id: "sp_id (pivot_point e ty c) = pivot_id ty (se_timeframe e) (se_counter e)"
  by (simp add: pivot_point_def pivot_id_def)

text \<open>The number of levels still to be broken.\<close>

definition open_levels :: "structure_engine \<Rightarrow> nat" where
  "open_levels e = (if se_structural_high e = None then 0 else 1) + (if se_structural_low e = None then 0 else 1)"

definition pivot_count :: "structure_engine \<Rightarrow> nat" where
  "pivot_count e = length (se_high_pivots e) + length (se_low_pivots e)"

lemma pivots_step:
  assumes "evaluate_local_pivots c1 c2 c3 e = (p, e')"
  shows "se_inv e \<Longrightarrow> se_inv e'" "open_levels e' + pivot_count e \<le> open_levels e + pivot_count e'"
    "se_candles e' = se_candles e" "se_lookback e' = se_lookback e"
proof -
  let ?e = "e\<lparr>se_counter := se_counter e + 1\<rparr>"
  consider "e' = ?e"
    | "e' = ?e\<lparr>se_high_pivots := se_high_pivots e @ [pivot_point ?e SWING_HIGH c2], se_structural_high := Some (pivot_point ?e SWING_HIGH c2)\<rparr>"
    | "e' = ?e\<lparr>se_low_pivots := se_low_pivots e @ [pivot_point ?e SWING_LOW c2], se_structural_low := Some (pivot_point ?e SWING_LOW c2)\<rparr>"
    using assms by (auto simp: evaluate_local_pivots_def Let_def split: if_splits)
  note cs = this
  show "se_inv e'" if i: "se_inv e"
    using i by (cases rule: cs) (auto simp: se_inv_def pivot_point_id intro: numbered_later numbered_snoc)
  show "open_levels e' + pivot_count e \<le> open_levels e + pivot_count e'"
    by (cases rule: cs) (auto simp: open_levels_def pivot_count_def)
  show "se_candles e' = se_candles e" by (cases rule: cs) auto
  show "se_lookback e' = se_lookback e" by (cases rule: cs) auto
qed

text \<open>A reported break names a recorded level that the close is beyond.\<close>

definition genuine_break :: "structure_engine \<Rightarrow> candle_node \<Rightarrow> structure_break \<Rightarrow> bool" where
  "genuine_break e c b \<longleftrightarrow> snd (snd b) = cn_end_time c
     \<and> ((\<exists>p\<in>set (se_high_pivots e). fst (snd b) = sp_price p \<and> flt (sp_price p) (cn_close_p c))
      \<or> (\<exists>p\<in>set (se_low_pivots e). fst (snd b) = sp_price p \<and> flt (cn_close_p c) (sp_price p)))"

lemma bullish_step:
  assumes "check_bullish_break c e = (bs, e')"
  shows "se_inv e \<Longrightarrow> se_inv e'" "length bs + open_levels e' = open_levels e" "pivot_count e' = pivot_count e"
    "se_inv e \<Longrightarrow> list_all (genuine_break e c) bs" "se_high_pivots e' = se_high_pivots e" "se_low_pivots e' = se_low_pivots e"
    "se_lookback e' = se_lookback e"
  using assms by (auto simp: check_bullish_break_def se_inv_def numbered_def open_levels_def pivot_count_def genuine_break_def
      split: option.splits if_splits)

lemma bearish_step:
  assumes "check_bearish_break c e = (bs, e')"
  shows "se_inv e \<Longrightarrow> se_inv e'" "length bs + open_levels e' = open_levels e" "pivot_count e' = pivot_count e"
    "se_inv e \<Longrightarrow> list_all (genuine_break e c) bs" "se_high_pivots e' = se_high_pivots e" "se_low_pivots e' = se_low_pivots e"
    "se_lookback e' = se_lookback e"
  using assms by (auto simp: check_bearish_break_def se_inv_def numbered_def open_levels_def pivot_count_def genuine_break_def
      split: option.splits if_splits)

lemma ingest_step:
  assumes e: "ingest_candle_close c e = ((ps, bs), e')" and pos: "0 < se_lookback e"
  shows "se_inv e \<Longrightarrow> se_inv e'" "length bs + open_levels e' + pivot_count e \<le> open_levels e + pivot_count e'"
    "se_inv e \<Longrightarrow> list_all (genuine_break e' c) bs" "se_lookback e' = se_lookback e"
proof -
  let ?w = "win_push (se_lookback e) c (se_candles e)"
  let ?e = "e\<lparr>se_candles := ?w\<rparr>"
  have wi: "se_inv ?e" if "se_inv e"
    using that pos win.push_cap [of "se_candles e" "se_lookback e - 1" c] by (auto simp: se_inv_def numbered_def)
  obtain p0 e0 where p0: "evaluate_local_pivots (?w ! (length ?w - 3)) (?w ! (length ?w - 2)) (?w ! (length ?w - 1)) ?e = (p0, e0)"
    by (metis prod.exhaust)
  define e1 where "e1 = (if length ?w \<ge> 3 then e0 else ?e)"
  have e1: "evaluate_local_pivots (?w ! (length ?w - 3)) (?w ! (length ?w - 2)) (?w ! (length ?w - 1)) ?e = (p0, e1) \<or> e1 = ?e"
    using p0 unfolding e1_def by presburger
  have r: "(let (up, e2) = check_bullish_break c e1; (down, e3) = check_bearish_break c e2 in (up @ down, e3)) = (bs, e')"
    using e p0 by (simp add: ingest_candle_close_def Let_def e1_def split: prod.splits if_splits)
  obtain up e2 where u: "check_bullish_break c e1 = (up, e2)" by (cases "check_bullish_break c e1")
  obtain down e3 where d: "check_bearish_break c e2 = (down, e3)" by (cases "check_bearish_break c e2")
  have bs: "bs = up @ down" "e' = e3" using r u d by auto
  have same: "open_levels ?e = open_levels e" "pivot_count ?e = pivot_count e" "se_lookback ?e = se_lookback e"
    by (simp_all add: open_levels_def pivot_count_def)
  have i1: "se_inv e \<Longrightarrow> se_inv e1" using e1 wi pivots_step(1) by blast
  have n1: "open_levels e1 + pivot_count e \<le> open_levels e + pivot_count e1"
    using e1 pivots_step(2) [of _ _ _ ?e p0 e1] same by (elim disjE) simp_all
  have l1: "se_lookback e1 = se_lookback e"
    using e1 pivots_step(4) [of _ _ _ ?e p0 e1] same by (elim disjE) simp_all
  show "se_inv e \<Longrightarrow> se_inv e'" using i1 bullish_step(1) [OF u] bearish_step(1) [OF d] bs by blast
  show "length bs + open_levels e' + pivot_count e \<le> open_levels e + pivot_count e'"
    using n1 bullish_step(2,3) [OF u] bearish_step(2,3) [OF d] bs by simp
  show "se_lookback e' = se_lookback e" using l1 bullish_step(7) [OF u] bearish_step(7) [OF d] bs by simp
  assume "se_inv e"
  then have "list_all (genuine_break e1 c) up" "list_all (genuine_break e2 c) down"
    using i1 bullish_step [OF u] bearish_step(4) [OF d] by blast+
  moreover have "genuine_break e' c = genuine_break e1 c" "genuine_break e2 c = genuine_break e1 c"
    using bullish_step(5,6) [OF u] bearish_step(5,6) [OF d] bs by (simp_all add: genuine_break_def fun_eq_iff)
  ultimately show "list_all (genuine_break e' c) bs" using bs by simp
qed

text \<open>C30. Over any candles the engine keeps at most \<open>lookback\<close> of them, gives every pivot its own
  identifier, and reports at most one break per pivot: no level is broken twice.\<close>

theorem structure_run_sound:
  assumes "0 < n"
  shows "let (outs, e) = se_run cs (se_new tf n) in
    length (se_candles e) \<le> n
  \<and> distinct (map sp_id (se_high_pivots e @ se_low_pivots e))
  \<and> sum_list (map (\<lambda>(ps, bs). length bs) outs) \<le> pivot_count e"
proof -
  have gen: "let (outs, e') = se_run cs e in se_inv e' \<and> se_lookback e' = se_lookback e
      \<and> sum_list (map (\<lambda>(ps, bs). length bs) outs) + open_levels e' + pivot_count e \<le> open_levels e + pivot_count e'"
    if "se_inv e" "0 < se_lookback e" for e
    using that
  proof (induction cs arbitrary: e)
    case (Cons c cs)
    obtain ps bs e' where i: "ingest_candle_close c e = ((ps, bs), e')" by (metis prod.exhaust)
    note st = ingest_step [OF i Cons.prems(2)]
    from Cons.IH [OF st(1) [OF Cons.prems(1)]] st(2,4) Cons.prems(2) show ?case
      by (auto simp: i Let_def split: prod.splits)
  qed (simp add: open_levels_def)
  obtain outs e where r: "se_run cs (se_new tf n) = (outs, e)" by (cases "se_run cs (se_new tf n)")
  have "se_inv (se_new tf n)" "se_lookback (se_new tf n) = n" "open_levels (se_new tf n) = 0" "pivot_count (se_new tf n) = 0"
    by (simp_all add: se_inv_def numbered_def se_new_def open_levels_def pivot_count_def)
  with gen [of "se_new tf n"] assms r have i: "se_inv e" "se_lookback e = n"
    and b: "sum_list (map (\<lambda>(ps, bs). length bs) outs) \<le> pivot_count e" by auto
  have "distinct (map sp_id (se_high_pivots e @ se_low_pivots e))"
  proof -
    have hl: "numbered SWING_HIGH e (se_high_pivots e)" "numbered SWING_LOW e (se_low_pivots e)"
      using i by (auto simp: se_inv_def)
    then have "set (map sp_id (se_high_pivots e)) \<inter> set (map sp_id (se_low_pivots e)) = {}"
      unfolding numbered_def by (elim exE conjE) (auto simp only: set_map pivot_id_inj)
    with hl show ?thesis by (auto simp: numbered_distinct)
  qed
  with i b r show ?thesis by (simp add: se_inv_def)
qed

text \<open>Every break the engine reports is genuine: in any run its level is the price of a
  recorded pivot and the closing price is strictly beyond it.\<close>

theorem reported_breaks_genuine:
  assumes "0 < n" and "ingest_candle_close c (snd (se_run cs (se_new tf n))) = ((ps, bs), e')"
  shows "list_all (genuine_break e' c) bs"
proof -
  have gen: "se_inv (snd (se_run cs e)) \<and> se_lookback (snd (se_run cs e)) = se_lookback e"
    if "se_inv e" "0 < se_lookback e" for e
    using that
  proof (induction cs arbitrary: e)
    case (Cons c cs)
    obtain ps bs e' where i: "ingest_candle_close c e = ((ps, bs), e')" by (metis prod.exhaust)
    note st = ingest_step [OF i Cons.prems(2)]
    from Cons.IH [OF st(1) [OF Cons.prems(1)]] st(4) Cons.prems(2) show ?case
      by (auto simp: i Let_def split: prod.splits)
  qed simp
  have "se_inv (se_new tf n)" "se_lookback (se_new tf n) = n" by (simp_all add: se_inv_def numbered_def se_new_def)
  with gen [of "se_new tf n"] assms ingest_step(3) show ?thesis by metis
qed

definition demo_bar :: "rat \<Rightarrow> rat \<Rightarrow> rat \<Rightarrow> candle_node" where
  "demo_bar low high close = \<lparr>cn_symbol = ''XAUUSD'', cn_timeframe = ''5m'', cn_start_time = naive 0, cn_end_time = naive 300000000,
     cn_open_p = Fin low, cn_high_p = Fin high, cn_low_p = Fin low, cn_close_p = Fin close, cn_volume = 10, cn_ticks_count = 10,
     cn_is_closed = True, cn_sequence_id = 1, cn_trace_id = ''t'', cn_correlation_id = ''c'', cn_priority = HIGH\<rparr>"

text \<open>Three candles with a peak in the middle, then a close above the peak: one pivot, one break.\<close>

theorem structure_run_sound_witness:
  "let (outs, e) = se_run [demo_bar 10 12 11, demo_bar 11 15 12, demo_bar 10 13 12, demo_bar 12 17 16] (se_new ''5m'' 50) in
    length (se_candles e) \<le> 50 \<and> sum_list (map (\<lambda>(ps, bs). length bs) outs) \<le> pivot_count e"
  using structure_run_sound [of 50 "[demo_bar 10 12 11, demo_bar 11 15 12, demo_bar 10 13 12, demo_bar 12 17 16]" "''5m''"]
  by (auto simp: Let_def split: prod.splits)

lemma demo_breakout:
  "snd (fst (ingest_candle_close (demo_bar 12 17 16) (snd (se_run [demo_bar 10 12 11, demo_bar 11 15 12, demo_bar 10 13 12] (se_new ''5m'' 50)))))
   = [(BOS, Fin 15, naive 300000000)]"
  by (simp add: se_new_def ingest_candle_close_def win_push_def evaluate_local_pivots_def check_bullish_break_def
      check_bearish_break_def demo_bar_def pivot_point_def Let_def)

theorem reported_breaks_genuine_witness:
  "let cs = [demo_bar 10 12 11, demo_bar 11 15 12, demo_bar 10 13 12]; c = demo_bar 12 17 16;
       ((ps, bs), e') = ingest_candle_close c (snd (se_run cs (se_new ''5m'' 50)))
   in bs = [(BOS, Fin 15, naive 300000000)] \<and> list_all (genuine_break e' c) bs"
proof -
  let ?cs = "[demo_bar 10 12 11, demo_bar 11 15 12, demo_bar 10 13 12]" and ?c = "demo_bar 12 17 16"
  obtain ps bs e' where i: "ingest_candle_close ?c (snd (se_run ?cs (se_new ''5m'' 50))) = ((ps, bs), e')"
    by (metis prod.exhaust)
  have "list_all (genuine_break e' ?c) bs" by (rule reported_breaks_genuine [OF _ i]) simp
  moreover have "bs = [(BOS, Fin 15, naive 300000000)]" using demo_breakout unfolding i by simp
  ultimately show ?thesis unfolding Let_def i by simp
qed

end
