(* ===== verification/Liquidity.thy ===== *)
theory Liquidity
  imports PyVal PyLiterals
begin

section \<open>Liquidity pools (src/analytics/liquidity_engine.py)\<close>

text \<open>
  Resting pools above swing highs (buy side) and below swing lows (sell side): registration
  with merging of equal levels, sweeps by ticks, and the two observation functions.
\<close>

record liquidity_engine =
  le_timeframe :: string
  le_tolerance :: pyfloat
  le_pools :: "liquidity_pool list"
  le_counter :: nat

definition le_new :: "string \<Rightarrow> pyfloat \<Rightarrow> liquidity_engine" where
  "le_new tf pips = \<lparr>le_timeframe = tf, le_tolerance = fdiv pips (Fin 10), le_pools = [], le_counter = 0\<rparr>"

text \<open>The loop over the pools: the first unswept pool of the same side whose ceiling is within
  the tolerance band is touched, in place.\<close>

fun touch_equal :: "bool \<Rightarrow> pyfloat \<Rightarrow> pyfloat \<Rightarrow> liquidity_pool list \<Rightarrow> (liquidity_pool \<times> liquidity_pool list) option" where
  "touch_equal side lo hi [] = None"
| "touch_equal side lo hi (p # ps) =
     (if \<not> lp_is_swept p \<and> lp_is_buy_side p = side \<and> fle lo (lp_ceiling_price p) \<and> fle (lp_ceiling_price p) hi
      then let p' = p\<lparr>lp_accumulated_touches := lp_accumulated_touches p + 1, lp_is_equal_structure := True\<rparr>
           in Some (p', p' # ps)
      else case touch_equal side lo hi ps of None \<Rightarrow> None | Some (q, qs) \<Rightarrow> Some (q, p # qs))"

definition register_structural_pivot_pool :: "swing_point \<Rightarrow> liquidity_engine \<Rightarrow> liquidity_pool \<times> liquidity_engine" where
  "register_structural_pivot_pool pivot e =
     (let side = (sp_point_type pivot = SWING_HIGH);
          hi = fadd (sp_price pivot) (le_tolerance e);
          lo = fsub (sp_price pivot) (le_tolerance e)
      in case touch_equal side lo hi (le_pools e) of
           Some (p, ps) \<Rightarrow> (p, e\<lparr>le_pools := ps\<rparr>)
         | None \<Rightarrow>
             let n = le_counter e + 1;
                 p = \<lparr>lp_id = ''LIQ_'' @ le_timeframe e @ ''_'' @ nat_str n, lp_timeframe = le_timeframe e,
                      lp_is_buy_side = side, lp_is_equal_structure = False,
                      lp_ceiling_price = fadd (sp_price pivot) (if side then lit (1/10) else Fin 0),
                      lp_floor_price = fsub (sp_price pivot) (if side then Fin 0 else lit (1/10)),
                      lp_accumulated_touches = 1, lp_is_swept = False, lp_sweep_timestamp = None\<rparr>
             in (p, e\<lparr>le_counter := n, le_pools := le_pools e @ [p]\<rparr>))"

text \<open>One pool against a tick: the swept pool and the depth, or nothing.\<close>

definition sweep_pool :: "tick_node \<Rightarrow> liquidity_pool \<Rightarrow> (liquidity_pool \<times> pyfloat) option" where
  "sweep_pool t p =
     (let price = tick_mid t; swept = p\<lparr>lp_is_swept := True, lp_sweep_timestamp := Some (tk_timestamp t)\<rparr>
      in if lp_is_swept p then None
         else if lp_is_buy_side p \<and> flt (lp_ceiling_price p) price then Some (swept, fsub price (lp_ceiling_price p))
         else if \<not> lp_is_buy_side p \<and> flt price (lp_floor_price p) then Some (swept, fsub (lp_floor_price p) price)
         else None)"

definition evaluate_tick_sweeps :: "tick_node \<Rightarrow> liquidity_engine \<Rightarrow> (liquidity_pool \<times> pyfloat) list \<times> liquidity_engine" where
  "evaluate_tick_sweeps t e =
     (let sweeps = List.map_filter (sweep_pool t) (le_pools e);
          pools = map (\<lambda>p. case sweep_pool t p of Some (p', _) \<Rightarrow> p' | None \<Rightarrow> p) (le_pools e)
      in (sweeps, e\<lparr>le_pools := filter (\<lambda>p. \<not> lp_is_swept p) pools\<rparr>))"

definition pool_level :: "liquidity_pool \<Rightarrow> pyfloat" where
  "pool_level p = (if lp_is_buy_side p then lp_ceiling_price p else lp_floor_price p)"

definition pool_distance :: "pyfloat \<Rightarrow> liquidity_pool \<Rightarrow> pyfloat" where
  "pool_distance price p = fabs (fsub (pool_level p) price)"

definition nearest_pool :: "pyfloat \<Rightarrow> liquidity_engine \<Rightarrow> liquidity_pool option" where
  "nearest_pool price e =
     (case filter (\<lambda>p. \<not> lp_is_swept p) (le_pools e) of
        [] \<Rightarrow> None
      | p # ps \<Rightarrow> Some (first_best (\<lambda>x m. flt (pool_distance price x) (pool_distance price m)) p ps))"

definition nearest_active_pool :: "pyfloat \<Rightarrow> liquidity_engine \<Rightarrow> (string \<times> pyval) list option" where
  "nearest_active_pool price e =
     map_option (\<lambda>n.
       [(''active_pool_count'', PInt (int (length (filter (\<lambda>p. \<not> lp_is_swept p) (le_pools e))))),
        (''pool_id'', PStr (lp_id n)),
        (''side'', PStr (if lp_is_buy_side n then ''BUY_SIDE_HIGH'' else ''SELL_SIDE_LOW'')),
        (''level_price'', PFloat (pool_level n)),
        (''distance'', PFloat (pool_distance price n)),
        (''is_equal_structure'', PBool (lp_is_equal_structure n)),
        (''touches'', PInt (lp_accumulated_touches n))]) (nearest_pool price e)"

definition pool_snapshot :: "liquidity_pool \<Rightarrow> (string \<times> pyval) list" where
  "pool_snapshot p =
     (let side = (if lp_is_buy_side p then ''buy_side'' else ''sell_side'');
          quality = py_min (Fin 10) (fadd (Fin 5) (fof_int (lp_accumulated_touches p)))
      in [(''id'', PStr (lp_id p)), (''liquidity_id'', PStr (lp_id p)), (''timeframe'', PStr (lp_timeframe p)),
          (''side'', PStr side), (''direction'', PStr side), (''price'', PFloat (pool_level p)),
          (''zone_low'', PFloat (lp_floor_price p)), (''zone_high'', PFloat (lp_ceiling_price p)),
          (''quality_score'', PFloat quality), (''target_priority_score'', PFloat quality),
          (''touches'', PInt (lp_accumulated_touches p)), (''is_equal_structure'', PBool (lp_is_equal_structure p)),
          (''swept_status'', PStr ''unswept''), (''swept'', PBool False)])"

definition active_pools_snapshot :: "liquidity_engine \<Rightarrow> (string \<times> pyval) list list" where
  "active_pools_snapshot e = map pool_snapshot (filter (\<lambda>p. \<not> lp_is_swept p) (le_pools e))"

subsection \<open>Runs\<close>

datatype liquidity_op = Pivot swing_point | Tick tick_node

fun le_step :: "liquidity_op \<Rightarrow> liquidity_engine \<Rightarrow> (liquidity_pool \<times> pyfloat) list \<times> liquidity_engine" where
  "le_step (Pivot s) e = ([], snd (register_structural_pivot_pool s e))"
| "le_step (Tick t) e = evaluate_tick_sweeps t e"

fun le_run :: "liquidity_op list \<Rightarrow> liquidity_engine \<Rightarrow> (liquidity_pool \<times> pyfloat) list \<times> liquidity_engine" where
  "le_run [] e = ([], e)"
| "le_run (x # xs) e = (let (s, e') = le_step x e; (s', e'') = le_run xs e' in (s @ s', e''))"

text \<open>Pools carry increasing numbers up to the counter, none of the stored ones is swept, and a
  pool is marked equal exactly when it has been touched more than once.\<close>

definition pool_ok :: "liquidity_pool \<Rightarrow> bool" where
  "pool_ok p \<longleftrightarrow> \<not> lp_is_swept p \<and> lp_sweep_timestamp p = None \<and> 1 \<le> lp_accumulated_touches p
     \<and> lp_is_equal_structure p = (1 < lp_accumulated_touches p)"

definition pool_ids :: "liquidity_engine \<Rightarrow> string list" where
  "pool_ids e = map lp_id (le_pools e)"

definition issued :: "liquidity_engine \<Rightarrow> string set" where
  "issued e = (\<lambda>k. ''LIQ_'' @ le_timeframe e @ ''_'' @ nat_str k) ` {k. k \<le> le_counter e}"

definition le_inv :: "liquidity_engine \<Rightarrow> bool" where
  "le_inv e \<longleftrightarrow> list_all pool_ok (le_pools e) \<and> distinct (pool_ids e) \<and> set (pool_ids e) \<subseteq> issued e"

lemma touch_equal_ids: "touch_equal side lo hi ps = Some (q, qs) \<Longrightarrow> map lp_id qs = map lp_id ps \<and> q \<in> set qs"
  by (induction ps arbitrary: q qs) (auto simp: Let_def split: if_splits option.splits)

lemma touch_equal_ok: "touch_equal side lo hi ps = Some (q, qs) \<Longrightarrow> list_all pool_ok ps \<Longrightarrow> list_all pool_ok qs"
  by (induction ps arbitrary: q qs) (auto simp: Let_def pool_ok_def split: if_splits option.splits)

lemma register_inv:
  assumes i: "le_inv e" and r: "register_structural_pivot_pool s e = (p, e')"
  shows "le_inv e' \<and> issued e \<subseteq> issued e' \<and> set (pool_ids e') \<subseteq> set (pool_ids e) \<union> (issued e' - issued e) \<and> p \<in> set (le_pools e')"
proof (cases "touch_equal (sp_point_type s = SWING_HIGH) (fsub (sp_price s) (le_tolerance e)) (fadd (sp_price s) (le_tolerance e)) (le_pools e)")
  case (Some qq)
  obtain q qs where qq: "qq = (q, qs)" by (cases qq)
  have e': "p = q" "e' = e\<lparr>le_pools := qs\<rparr>" using r Some qq by (simp_all add: register_structural_pivot_pool_def)
  note t = touch_equal_ids [OF Some [unfolded qq]] touch_equal_ok [OF Some [unfolded qq]]
  from t i show ?thesis by (auto simp: e' le_inv_def pool_ids_def issued_def)
next
  case None
  define new where "new = ''LIQ_'' @ le_timeframe e @ ''_'' @ nat_str (le_counter e + 1)"
  obtain x where x: "e' = e\<lparr>le_counter := le_counter e + 1, le_pools := le_pools e @ [x]\<rparr>" "p = x" "lp_id x = new" "pool_ok x"
    using r None by (auto simp: register_structural_pivot_pool_def Let_def new_def pool_ok_def)
  have fresh: "new \<notin> issued e" by (auto simp: issued_def new_def)
  have up: "issued e' = insert new (issued e)"
    by (auto simp: issued_def x new_def le_Suc_eq)
  from fresh up i x show ?thesis by (auto simp: le_inv_def pool_ids_def)
qed

lemma sweep_pool_id: "sweep_pool t p = Some (q, d) \<Longrightarrow> lp_id q = lp_id p"
  by (auto simp: sweep_pool_def Let_def split: if_splits)

definition swept_ids :: "(liquidity_pool \<times> pyfloat) list \<Rightarrow> string list" where
  "swept_ids s = map (\<lambda>(p, d). lp_id p) s"

lemma swept_ids_Nil [simp]: "swept_ids [] = []"
  by (simp add: swept_ids_def)

lemma sweep_map_filter:
  assumes "list_all pool_ok ps"
  shows "filter (\<lambda>p. \<not> lp_is_swept p) (map (\<lambda>p. case sweep_pool t p of Some (p', _) \<Rightarrow> p' | None \<Rightarrow> p) ps)
       = filter (\<lambda>p. sweep_pool t p = None) ps"
    and "swept_ids (List.map_filter (sweep_pool t) ps) = map lp_id (filter (\<lambda>p. sweep_pool t p \<noteq> None) ps)"
  using assms by (induction ps)
    (auto simp: swept_ids_def pool_ok_def sweep_pool_def Let_def List.map_filter_def split: if_splits)

lemma disjoint_halves:
  "distinct (map f xs) \<Longrightarrow> f ` set (filter (\<lambda>x. \<not> P x) xs) \<inter> f ` set (filter P xs) = {}"
  by (auto simp: distinct_map inj_on_def)

text \<open>C33. In any run of registrations and ticks the stored pools are unswept, have distinct
  identifiers, are marked equal exactly when touched more than once, and no pool is ever swept
  twice: the identifiers of all reported sweeps are distinct and none of them is stored any more.\<close>

theorem pools_swept_once:
  "let (sweeps, e) = le_run ops (le_new tf pips) in
     list_all pool_ok (le_pools e) \<and> distinct (pool_ids e)
   \<and> distinct (swept_ids sweeps) \<and> set (swept_ids sweeps) \<inter> set (pool_ids e) = {}"
proof -
  have tick: "le_inv e' \<and> issued e' = issued e \<and> distinct (swept_ids s)
      \<and> set (swept_ids s) \<subseteq> set (pool_ids e) \<and> set (pool_ids e') \<subseteq> set (pool_ids e)
      \<and> set (swept_ids s) \<inter> set (pool_ids e') = {}"
    if i: "le_inv e" and e: "evaluate_tick_sweeps t e = (s, e')" for t e s e'
  proof -
    have ok: "list_all pool_ok (le_pools e)" and d: "distinct (map lp_id (le_pools e))" and sub: "set (pool_ids e) \<subseteq> issued e"
      using i by (auto simp: le_inv_def pool_ids_def)
    have e': "s = List.map_filter (sweep_pool t) (le_pools e)" "e' = e\<lparr>le_pools := filter (\<lambda>p. sweep_pool t p = None) (le_pools e)\<rparr>"
      using e sweep_map_filter(1) [OF ok] by (auto simp: evaluate_tick_sweeps_def Let_def)
    have ids: "swept_ids s = map lp_id (filter (\<lambda>p. sweep_pool t p \<noteq> None) (le_pools e))"
      unfolding e' by (rule sweep_map_filter(2) [OF ok])
    have disj: "lp_id ` set (filter (\<lambda>p. sweep_pool t p \<noteq> None) (le_pools e)) \<inter> lp_id ` set (filter (\<lambda>p. sweep_pool t p = None) (le_pools e)) = {}"
      by (rule disjoint_halves [OF d, of "\<lambda>p. sweep_pool t p = None"])
    have p': "pool_ids e' = map lp_id (filter (\<lambda>p. sweep_pool t p = None) (le_pools e))" and iss: "issued e' = issued e"
      by (simp_all add: e'(2) pool_ids_def issued_def)
    have "list_all pool_ok (le_pools e')" using ok by (simp add: e'(2) list_all_iff)
    moreover have "distinct (pool_ids e')" unfolding p' using d by (rule distinct_map_filter)
    moreover have "set (pool_ids e') \<subseteq> set (pool_ids e)" unfolding p' unfolding pool_ids_def by auto
    moreover have "distinct (swept_ids s)" unfolding ids using d by (rule distinct_map_filter)
    moreover have "set (swept_ids s) \<subseteq> set (pool_ids e)" unfolding ids pool_ids_def by auto
    moreover have "set (swept_ids s) \<inter> set (pool_ids e') = {}" unfolding ids p' set_map using disj .
    ultimately show ?thesis using sub iss by (auto simp: le_inv_def simp del: set_map)
  qed
  have gen: "let (s, e') = le_run ops e in le_inv e' \<and> issued e \<subseteq> issued e' \<and> distinct (swept_ids s)
      \<and> set (swept_ids s) \<subseteq> set (pool_ids e) \<union> (issued e' - issued e)
      \<and> set (swept_ids s) \<inter> set (pool_ids e') = {}
      \<and> set (pool_ids e') \<subseteq> set (pool_ids e) \<union> (issued e' - issued e)"
    if "le_inv e" for e
    using that
  proof (induction ops arbitrary: e)
    case (Cons x xs)
    obtain s e1 where st: "le_step x e = (s, e1)" by (cases "le_step x e")
    obtain s' e2 where rn: "le_run xs e1 = (s', e2)" by (cases "le_run xs e1")
    have one: "le_inv e1 \<and> issued e \<subseteq> issued e1 \<and> distinct (swept_ids s)
        \<and> set (swept_ids s) \<subseteq> set (pool_ids e) \<and> set (swept_ids s) \<inter> set (pool_ids e1) = {}
        \<and> set (pool_ids e1) \<subseteq> set (pool_ids e) \<union> (issued e1 - issued e)"
    proof (cases x)
      case (Pivot sp)
      then show ?thesis using st register_inv [OF Cons.prems, of sp] by (cases "register_structural_pivot_pool sp e") auto
    next
      case (Tick t)
      then show ?thesis using st tick [OF Cons.prems, of t s e1] by auto
    qed
    have sub: "set (pool_ids e) \<subseteq> issued e" using Cons.prems by (simp add: le_inv_def)
    from Cons.IH [of e1] one rn have two: "le_inv e2 \<and> issued e1 \<subseteq> issued e2 \<and> distinct (swept_ids s')
      \<and> set (swept_ids s') \<subseteq> set (pool_ids e1) \<union> (issued e2 - issued e1)
      \<and> set (swept_ids s') \<inter> set (pool_ids e2) = {}
      \<and> set (pool_ids e2) \<subseteq> set (pool_ids e1) \<union> (issued e2 - issued e1)" by simp
    have "set (swept_ids s) \<subseteq> issued e1" using one sub by blast
    then have d: "set (swept_ids s) \<inter> set (swept_ids s') = {}"
      and n: "set (swept_ids s) \<inter> set (pool_ids e2) = {}" using one two by blast+
    have c: "swept_ids (s @ s') = swept_ids s @ swept_ids s'" by (simp add: swept_ids_def)
    have r: "le_run (x # xs) e = (s @ s', e2)" by (simp add: st rn)
    have "le_inv e2" "issued e \<subseteq> issued e2" using one two by blast+
    moreover have "distinct (swept_ids (s @ s'))" unfolding c using one two d by (simp only: distinct_append)
    moreover have "set (swept_ids (s @ s')) \<subseteq> set (pool_ids e) \<union> (issued e2 - issued e)"
      unfolding c set_append using one two by blast
    moreover have "set (swept_ids (s @ s')) \<inter> set (pool_ids e2) = {}"
      unfolding c set_append using n two by blast
    moreover have "set (pool_ids e2) \<subseteq> set (pool_ids e) \<union> (issued e2 - issued e)" using one two by blast
    ultimately show ?case unfolding r by simp
  qed simp
  have "le_inv (le_new tf pips)" by (simp add: le_inv_def le_new_def pool_ids_def)
  from gen [OF this] show ?thesis by (auto simp: le_inv_def simp del: set_map)
qed

definition passed :: "tick_node \<Rightarrow> liquidity_pool \<Rightarrow> bool" where
  "passed t p = (if lp_is_buy_side p then flt (lp_ceiling_price p) (tick_mid t) else flt (tick_mid t) (lp_floor_price p))"

lemma sweep_pool_passed:
  "pool_ok p \<Longrightarrow> sweep_pool t p =
     (if passed t p
      then Some (p\<lparr>lp_is_swept := True, lp_sweep_timestamp := Some (tk_timestamp t)\<rparr>,
                 if lp_is_buy_side p then fsub (tick_mid t) (lp_ceiling_price p) else fsub (lp_floor_price p) (tick_mid t))
      else None)"
  by (simp add: sweep_pool_def passed_def pool_ok_def Let_def)

lemma fsub_pos: "flt a b \<Longrightarrow> fle (Fin 0) (fsub b a)"
  by (cases a; cases b) (auto simp: fsub_def rnd_nonneg)

text \<open>A tick sweeps exactly the pools whose level it has passed, a buy-side pool when the mid
  price is above its ceiling and a sell-side pool when it is below its floor; these are removed
  and reported in order with a depth that is not negative, and all others stay as they were.\<close>

theorem sweeps_exactly_passed:
  assumes "list_all pool_ok (le_pools e)"
  shows "let (s, e') = evaluate_tick_sweeps t e in
     le_pools e' = filter (\<lambda>p. \<not> passed t p) (le_pools e)
   \<and> map fst s = map (\<lambda>p. p\<lparr>lp_is_swept := True, lp_sweep_timestamp := Some (tk_timestamp t)\<rparr>) (filter (passed t) (le_pools e))
   \<and> list_all (\<lambda>(p, depth). fle (Fin 0) depth) s"
proof -
  let ?g = "\<lambda>p. case sweep_pool t p of Some (p', _) \<Rightarrow> p' | None \<Rightarrow> p"
  have "filter (\<lambda>p. \<not> lp_is_swept p) (map ?g ps) = filter (\<lambda>p. \<not> passed t p) ps
      \<and> map fst (List.map_filter (sweep_pool t) ps) = map (\<lambda>p. p\<lparr>lp_is_swept := True, lp_sweep_timestamp := Some (tk_timestamp t)\<rparr>) (filter (passed t) ps)
      \<and> list_all (\<lambda>(p, depth). fle (Fin 0) depth) (List.map_filter (sweep_pool t) ps)" if "list_all pool_ok ps" for ps
    using that
  proof (induction ps)
    case (Cons p ps)
    then have ok: "pool_ok p" "\<not> lp_is_swept p" by (auto simp: pool_ok_def)
    have "passed t p \<Longrightarrow> fle (Fin 0) (if lp_is_buy_side p then fsub (tick_mid t) (lp_ceiling_price p) else fsub (lp_floor_price p) (tick_mid t))"
      by (auto simp: passed_def fsub_pos split: if_splits)
    with Cons ok show ?case by (auto simp: sweep_pool_passed List.map_filter_def)
  qed (simp add: List.map_filter_def)
  from this [OF assms] show ?thesis by (simp add: evaluate_tick_sweeps_def Let_def)
qed

definition demo_pool :: "bool \<Rightarrow> rat \<Rightarrow> liquidity_pool" where
  "demo_pool side level = \<lparr>lp_id = (if side then ''LIQ_5m_1'' else ''LIQ_5m_2''), lp_timeframe = ''5m'', lp_is_buy_side = side,
     lp_is_equal_structure = False, lp_ceiling_price = Fin level, lp_floor_price = Fin level, lp_accumulated_touches = 1,
     lp_is_swept = False, lp_sweep_timestamp = None\<rparr>"

definition demo_liquidity :: liquidity_engine where
  "demo_liquidity = \<lparr>le_timeframe = ''5m'', le_tolerance = Fin (1/2), le_pools = [demo_pool True 2010, demo_pool False 1990], le_counter = 2\<rparr>"

definition demo_quote :: tick_node where
  "demo_quote = \<lparr>tk_symbol = ''XAUUSD'', tk_timestamp = naive 5, tk_bid = Fin 2012, tk_ask = Fin 2014, tk_volume = 1,
     tk_sequence_id = 0, tk_trace_id = [], tk_correlation_id = [], tk_priority = NORMAL\<rparr>"

text \<open>At 2013 the pool above 2010 is swept and the one below 1990 stays.\<close>

theorem sweeps_exactly_passed_witness:
  "let (s, e') = evaluate_tick_sweeps demo_quote demo_liquidity in
     le_pools e' = [demo_pool False 1990] \<and> map (lp_id \<circ> fst) s = [''LIQ_5m_1'']"
proof -
  have "list_all pool_ok (le_pools demo_liquidity)" by (simp add: demo_liquidity_def demo_pool_def pool_ok_def)
  from sweeps_exactly_passed [OF this, of demo_quote]
  have "let (s, e') = evaluate_tick_sweeps demo_quote demo_liquidity in
     le_pools e' = filter (\<lambda>p. \<not> passed demo_quote p) (le_pools demo_liquidity)
     \<and> map (lp_id \<circ> fst) s = map lp_id (filter (passed demo_quote) (le_pools demo_liquidity))"
    by (auto simp: Let_def comp_def split: prod.splits dest: arg_cong [of _ _ "map lp_id"])
  then show ?thesis
    by (simp add: demo_liquidity_def demo_pool_def demo_quote_def passed_def tick_mid_def feval)
qed

text \<open>The nearest pool reported is an unswept one and no unswept pool is nearer, as long as
  no distance is NaN.\<close>

theorem nearest_pool_is_nearest:
  assumes "nearest_pool price e = Some n"
    and "\<And>p. p \<in> set (le_pools e) \<Longrightarrow> pool_distance price p \<noteq> NaN"
  shows "n \<in> set (le_pools e) \<and> \<not> lp_is_swept n
    \<and> list_all (\<lambda>p. lp_is_swept p \<or> fle (pool_distance price n) (pool_distance price p)) (le_pools e)"
proof -
  let ?b = "\<lambda>x m. flt (pool_distance price x) (pool_distance price m)"
  let ?P = "\<lambda>p. pool_distance price p \<noteq> NaN"
  obtain p ps where f: "filter (\<lambda>p. \<not> lp_is_swept p) (le_pools e) = p # ps" and n: "n = first_best ?b p ps"
    using assms(1) by (auto simp: nearest_pool_def split: list.splits)
  have set: "set (p # ps) = {q \<in> set (le_pools e). \<not> lp_is_swept q}" using f [symmetric] by simp
  have nin: "n \<in> set (p # ps)" unfolding n by (rule first_best_in)
  have best: "\<not> ?b q n" if "q \<in> set (p # ps)" for q
    unfolding n
  proof (rule first_best_best [where P = ?P])
    show "\<not> ?b x z" if "?P x" "?P y" "?P z" "\<not> ?b x y" "\<not> ?b y z" for x y z
      using that not_flt fle_trans by metis
    show "\<not> ?b y x" if "?b x y" for x y using that by (rule flt_asym)
  qed (use set assms(2) that in auto)
  have "fle (pool_distance price n) (pool_distance price q)" if "q \<in> set (le_pools e)" "\<not> lp_is_swept q" for q
    using best [of q] that set nin assms(2) not_flt by auto
  with nin set show ?thesis by (auto simp: list_all_iff)
qed

theorem nearest_pool_is_nearest_witness:
  "\<exists>n. nearest_pool (Fin 2004) demo_liquidity = Some n \<and> lp_id n = ''LIQ_5m_1''
     \<and> fle (pool_distance (Fin 2004) n) (pool_distance (Fin 2004) (demo_pool False 1990))"
proof -
  have d: "pool_distance (Fin 2004) (demo_pool True 2010) = Fin 6" "pool_distance (Fin 2004) (demo_pool False 1990) = Fin 14"
    by (simp_all add: pool_distance_def pool_level_def demo_pool_def feval)
  have u: "\<not> lp_is_swept (demo_pool b l)" for b l by (simp add: demo_pool_def)
  have n: "nearest_pool (Fin 2004) demo_liquidity = Some (demo_pool True 2010)"
    by (simp add: nearest_pool_def demo_liquidity_def u d)
  have "pool_distance (Fin 2004) p \<noteq> NaN" if "p \<in> set (le_pools demo_liquidity)" for p
    using that d by (auto simp: demo_liquidity_def)
  from nearest_pool_is_nearest [OF n this] n show ?thesis by (simp add: demo_liquidity_def u) (simp add: demo_pool_def)
qed

end
