(* ===== verification/SessionRegime.thy ===== *)
theory SessionRegime
  imports DomainModels PyLiterals
begin

section \<open>Sessions and regimes (src/analytics)\<close>

text \<open>
  \<open>session_engine.py\<close>: the session, the killzone and the Asian range of an instant.
  \<open>regime_detection.py\<close>: windowed candle metrics and the rule matrix that classifies them; the
  numpy functions are parameters.
\<close>

subsection \<open>Times of day\<close>

text \<open>A time of day is its number of microseconds. \<open>astimezone(timezone.utc)\<close> of a naive
  datetime takes it as local time: \<open>local\<close> gives the local offset in force.\<close>

definition day_us :: int where
  "day_us = 86400000000"

definition clock :: "int \<Rightarrow> int \<Rightarrow> int" where
  "clock h m = (h * 60 + m) * 60000000"

definition utc_time :: "(datetime \<Rightarrow> int) \<Rightarrow> datetime \<Rightarrow> int" where
  "utc_time local d = (dt_wall d - (case dt_off d of Some off \<Rightarrow> off | None \<Rightarrow> local d)) mod day_us"

definition check_time_in_range :: "int \<Rightarrow> int \<Rightarrow> int \<Rightarrow> bool" where
  "check_time_in_range target start end' =
     (if start \<le> end' then start \<le> target \<and> target \<le> end' else target \<ge> start \<or> target \<le> end')"

definition killzone_name :: "int \<Rightarrow> string option" where
  "killzone_name t =
     (if check_time_in_range t (clock 7 0) (clock 9 30) then Some ''London Open''
      else if check_time_in_range t (clock 12 0) (clock 14 0) then Some ''NY Open''
      else if check_time_in_range t (clock 14 0) (clock 15 0) then Some ''Silver Bullet AM''
      else if check_time_in_range t (clock 19 0) (clock 20 0) then Some ''Silver Bullet PM''
      else None)"

subsection \<open>The session engine\<close>

record session_context =
  sx_session_name :: string
  sx_killzone_active :: bool
  sx_killzone_name :: "string option"
  sx_is_overlap :: bool

record session_engine =
  sx_asian_high :: pyfloat
  sx_asian_low :: pyfloat
  sx_in_asian :: bool

definition session_engine_new :: session_engine where
  "session_engine_new = \<lparr>sx_asian_high = Fin 0, sx_asian_low = PInf, sx_in_asian = False\<rparr>"

definition session_of_time :: "int \<Rightarrow> session_state" where
  "session_of_time t =
     (let is_london = check_time_in_range t (clock 7 0) (clock 15 0);
          is_ny = check_time_in_range t (clock 12 0) (clock 20 0);
          is_asian = check_time_in_range t (clock 22 0) (clock 6 0)
      in if is_london \<and> is_ny then OVERLAP
         else if is_ny then NEWYORK_SESSION
         else if is_london then LONDON_SESSION
         else if is_asian then ASIAN_SESSION
         else POST_NY_RESET)"

definition track_asian_range :: "session_state \<Rightarrow> pyfloat \<Rightarrow> session_engine \<Rightarrow> session_engine" where
  "track_asian_range s mid e =
     (if s = ASIAN_SESSION
      then if \<not> sx_in_asian e then e\<lparr>sx_asian_high := mid, sx_asian_low := mid, sx_in_asian := True\<rparr>
           else e\<lparr>sx_asian_high := py_max (sx_asian_high e) mid, sx_asian_low := py_min (sx_asian_low e) mid\<rparr>
      else e\<lparr>sx_in_asian := False\<rparr>)"

definition evaluate_session_context ::
  "(datetime \<Rightarrow> int) \<Rightarrow> datetime \<Rightarrow> pyfloat \<Rightarrow> session_engine \<Rightarrow> session_context \<times> session_engine" where
  "evaluate_session_context local d mid e =
     (let t = utc_time local d; s = session_of_time t; kz = killzone_name t
      in (\<lparr>sx_session_name = session_value s, sx_killzone_active = (kz \<noteq> None), sx_killzone_name = kz,
           sx_is_overlap = (check_time_in_range t (clock 7 0) (clock 15 0) \<and> check_time_in_range t (clock 12 0) (clock 20 0))\<rparr>,
          track_asian_range s mid e))"

text \<open>\<open>SessionState(name)\<close> finds the member of that value.\<close>

definition session_member :: "string \<Rightarrow> session_state res" where
  "session_member s =
     (case find (\<lambda>p. session_value p = s)
        [ASI_ACCUMULATION, ASIAN_SESSION, LONDON_SESSION, LONDON_KILLZONE, NEWYORK_SESSION,
         NEWYORK_KILLZONE, OVERLAP, POST_NY_RESET, SYSTEM_SHUTDOWN] of
        Some p \<Rightarrow> Ok p | None \<Rightarrow> Raise (ValueError ''not a valid SessionState''))"

definition evaluate_temporal_context ::
  "(datetime \<Rightarrow> int) \<Rightarrow> datetime \<Rightarrow> pyfloat \<Rightarrow> session_engine \<Rightarrow> (session_state \<times> bool \<times> bool) res \<times> session_engine" where
  "evaluate_temporal_context local d mid e =
     (let (c, e') = evaluate_session_context local d mid e
      in (rmap (\<lambda>s. (s, sx_killzone_active c, sx_is_overlap c)) (session_member (sx_session_name c)), e'))"

lemma session_member_value [simp]: "session_member (session_value s) = Ok s"
  by (cases s) (simp_all add: session_member_def)

lemmas time_defs = session_of_time_def killzone_name_def check_time_in_range_def clock_def Let_def

text \<open>The phase, the killzone and the overlap of every instant are coherent: the evaluation
  never raises; the overlap flag is the overlap phase, from 12:00 to 15:00; a killzone is active
  exactly from 7:00 to 9:30, 12:00 to 15:00 and 19:00 to 20:00, ends included, so never in the
  Asian session nor after New York; and the Asian session is from 22:00 to 6:00.\<close>

theorem session_context_coherent:
  "\<exists>s kz ov e'. evaluate_temporal_context local d mid e = (Ok (s, kz, ov), e')
     \<and> (let t = utc_time local d in
        0 \<le> t \<and> t < day_us
      \<and> ov = (s = OVERLAP) \<and> ov = (clock 12 0 \<le> t \<and> t \<le> clock 15 0)
      \<and> kz = (clock 7 0 \<le> t \<and> t \<le> clock 9 30 \<or> clock 12 0 \<le> t \<and> t \<le> clock 15 0 \<or> clock 19 0 \<le> t \<and> t \<le> clock 20 0)
      \<and> (s = ASIAN_SESSION) = (t \<le> clock 6 0 \<or> clock 22 0 \<le> t)
      \<and> (s = POST_NY_RESET) = (clock 6 0 < t \<and> t < clock 7 0 \<or> clock 20 0 < t \<and> t < clock 22 0)
      \<and> (kz \<and> s \<in> {ASIAN_SESSION, POST_NY_RESET}) = False)"
proof -
  define t where "t = utc_time local d"
  have t: "0 \<le> t" "t < day_us" by (simp_all add: t_def utc_time_def day_us_def)
  have e: "evaluate_temporal_context local d mid e =
      (Ok (session_of_time t, killzone_name t \<noteq> None,
           check_time_in_range t (clock 7 0) (clock 15 0) \<and> check_time_in_range t (clock 12 0) (clock 20 0)),
       track_asian_range (session_of_time t) mid e)"
    by (simp add: evaluate_temporal_context_def evaluate_session_context_def Let_def t_def)
  show ?thesis unfolding e Let_def t_def [symmetric]
    using t by (auto simp: time_defs)
qed

text \<open>While the Asian session lasts the tracked range is exactly the hull of the mid prices
  seen since it began: both ends are among them and every one of them lies between.\<close>

theorem asian_range_is_hull:
  assumes "\<not> sx_in_asian e" "mids \<noteq> []" "NaN \<notin> set mids"
  shows "let r = fold (track_asian_range ASIAN_SESSION) mids e in
    sx_asian_high r \<in> set mids \<and> sx_asian_low r \<in> set mids
  \<and> list_all (\<lambda>m. fle (sx_asian_low r) m \<and> fle m (sx_asian_high r)) mids"
proof -
  have gen: "let r' = fold (track_asian_range ASIAN_SESSION) ms r in
      sx_asian_high r' \<in> insert (sx_asian_high r) (set ms) \<and> sx_asian_low r' \<in> insert (sx_asian_low r) (set ms)
      \<and> fle (sx_asian_high r) (sx_asian_high r') \<and> fle (sx_asian_low r') (sx_asian_low r)
      \<and> list_all (\<lambda>m. fle (sx_asian_low r') m \<and> fle m (sx_asian_high r')) ms"
    if "sx_in_asian r" "NaN \<notin> set ms" "sx_asian_high r \<noteq> NaN" "sx_asian_low r \<noteq> NaN" for ms and r :: session_engine
    using that
  proof (induction ms arbitrary: r)
    case (Cons m ms)
    let ?r = "track_asian_range ASIAN_SESSION m r"
    have m: "m \<noteq> NaN" using Cons.prems by auto
    have hi: "fle (sx_asian_high r) (sx_asian_high ?r)" "fle m (sx_asian_high ?r)" "sx_asian_high ?r \<in> {sx_asian_high r, m}"
      using Cons.prems m py_max_ge py_max_cases by (auto simp: track_asian_range_def)
    have lo: "fle (sx_asian_low ?r) (sx_asian_low r)" "fle (sx_asian_low ?r) m" "sx_asian_low ?r \<in> {sx_asian_low r, m}"
      using Cons.prems m py_min_le py_min_cases by (auto simp: track_asian_range_def)
    have "sx_in_asian ?r" using Cons.prems by (simp add: track_asian_range_def)
    moreover have "sx_asian_high ?r \<noteq> NaN" "sx_asian_low ?r \<noteq> NaN" using hi(2) lo(2) fle_not_NaN by blast+
    moreover have "NaN \<notin> set ms" using Cons.prems by auto
    ultimately have IH: "let r' = fold (track_asian_range ASIAN_SESSION) ms ?r in
      sx_asian_high r' \<in> insert (sx_asian_high ?r) (set ms) \<and> sx_asian_low r' \<in> insert (sx_asian_low ?r) (set ms)
      \<and> fle (sx_asian_high ?r) (sx_asian_high r') \<and> fle (sx_asian_low r') (sx_asian_low ?r)
      \<and> list_all (\<lambda>m. fle (sx_asian_low r') m \<and> fle m (sx_asian_high r')) ms"
      using Cons.IH by blast
    define q where "q = fold (track_asian_range ASIAN_SESSION) ms ?r"
    from IH hi lo have "fle (sx_asian_high r) (sx_asian_high q)" "fle m (sx_asian_high q)"
      "fle (sx_asian_low q) (sx_asian_low r)" "fle (sx_asian_low q) m"
      unfolding Let_def q_def [symmetric] by (meson fle_trans)+
    with IH hi lo show ?case unfolding Let_def fold_simps(2) q_def [symmetric] by auto
  qed simp
  obtain m ms where mm: "mids = m # ms" using assms(2) by (cases mids) auto
  let ?r = "e\<lparr>sx_asian_high := m, sx_asian_low := m, sx_in_asian := True\<rparr>"
  have st: "track_asian_range ASIAN_SESSION m e = ?r" using assms(1) by (simp add: track_asian_range_def)
  have "NaN \<notin> set ms" "m \<noteq> NaN" using assms(3) mm by auto
  with gen [of ?r ms] show ?thesis by (simp add: mm st Let_def)
qed

theorem asian_range_is_hull_witness:
  "let r = fold (track_asian_range ASIAN_SESSION) [Fin 2000, Fin 2003, Fin 1999] session_engine_new in
    sx_asian_high r = Fin 2003 \<and> sx_asian_low r = Fin 1999
  \<and> list_all (\<lambda>m. fle (sx_asian_low r) m \<and> fle m (sx_asian_high r)) [Fin 2000, Fin 2003, Fin 1999]"
proof -
  have "\<not> sx_in_asian session_engine_new" by (simp add: session_engine_new_def)
  note asian_range_is_hull [OF this, of "[Fin 2000, Fin 2003, Fin 1999]"]
  then show ?thesis by (simp add: track_asian_range_def session_engine_new_def py_max_def py_min_def)
qed


subsection \<open>The regime classifier\<close>

text \<open>\<open>numpy\<close> is not part of the repository: its functions are the fields of \<open>numpy\<close>.
  Division of its floats never raises; it gives an infinity or NaN, as \<open>fdiv\<close> does.\<close>

record numpy =
  np_mean :: "pyfloat list \<Rightarrow> pyfloat"
  np_std :: "pyfloat list \<Rightarrow> pyfloat"
  np_sum :: "pyfloat list \<Rightarrow> pyfloat"
  np_diff :: "pyfloat list \<Rightarrow> pyfloat list"

record regime_engine =
  rg_period :: nat
  rg_spreads :: "pyfloat list"
  rg_volumes :: "int list"
  rg_tick_counts :: "int list"
  rg_timestamps :: "datetime list"
  rg_last_regime :: regime_type

definition regime_engine_new :: "nat \<Rightarrow> regime_engine" where
  "regime_engine_new period =
     \<lparr>rg_period = period, rg_spreads = [], rg_volumes = [], rg_tick_counts = [], rg_timestamps = [],
      rg_last_regime = ILLIQUID_DEAD_ZONE\<rparr>"

text \<open>The four lists are appended to, and all are popped when the first exceeds five periods.\<close>

definition append_candle_metrics :: "candle_node \<Rightarrow> regime_engine \<Rightarrow> regime_engine" where
  "append_candle_metrics c e =
     (let spreads = rg_spreads e @ [fsub (cn_high_p c) (cn_low_p c)]; volumes = rg_volumes e @ [cn_volume c];
          ticks = rg_tick_counts e @ [cn_ticks_count c]; times = rg_timestamps e @ [cn_end_time c]
      in if length spreads > rg_period e * 5
         then e\<lparr>rg_spreads := tl spreads, rg_volumes := tl volumes, rg_tick_counts := tl ticks, rg_timestamps := tl times\<rparr>
         else e\<lparr>rg_spreads := spreads, rg_volumes := volumes, rg_tick_counts := ticks, rg_timestamps := times\<rparr>)"

definition clip_value :: "pyfloat \<Rightarrow> pyfloat \<Rightarrow> pyfloat \<Rightarrow> pyfloat" where
  "clip_value val low high = py_max (py_min val high) low"

text \<open>\<open>xs[:-n]\<close>, only reached with more than \<open>n\<close> items; \<open>recent_volumes[-1]\<close> raises on no items,
  which a period of zero allows.\<close>

definition extract_environment_metrics :: "numpy \<Rightarrow> pyfloat \<Rightarrow> regime_engine \<Rightarrow> environment_metrics res" where
  "extract_environment_metrics np velocity e =
     (let period = rg_period e in
      if length (rg_spreads e) < period
      then Ok \<lparr>em_volatility_ratio = Fin 1, em_tick_velocity_per_second = velocity, em_mean_candle_spread_pips = Fin 0,
               em_wick_expansion_coefficient = Fin 0, em_trend_strength_adx = Fin 0, em_volume_z_score = Fin 0,
               em_confidence_score = Fin 50, em_regime_decay_factor = Fin 1\<rparr>
      else
        let recent = py_tail period (rg_spreads e);
            historical = (if length (rg_spreads e) > period
                          then (if period = 0 then [] else take (length (rg_spreads e) - period) (rg_spreads e)) else recent);
            mean_recent = np_mean np recent;
            mean_hist = (if length historical > 0 then np_mean np historical else mean_recent);
            vol_ratio = (if flt (Fin 0) mean_hist then fdiv mean_recent mean_hist else Fin 1);
            volumes = map fof_int (py_tail period (rg_volumes e));
            vol_mean = np_mean np volumes;
            vol_std = np_std np volumes
        in if flt (Fin 0) vol_std \<and> volumes = [] then Raise IndexError
        else
        let vol_z = (if flt (Fin 0) vol_std then fdiv (fsub (last volumes) vol_mean) vol_std else Fin 0);
            diffs = np_diff np recent;
            trend = (if length diffs > 0 then fdiv (np_sum np diffs) (fof_int (int (length diffs))) else Fin 0);
            confidence = clip_value (fsub (Fin 100) (fmul vol_ratio (Fin 10))) (Fin 10) (Fin 100)
        in Ok \<lparr>em_volatility_ratio = vol_ratio, em_tick_velocity_per_second = velocity,
               em_mean_candle_spread_pips = fmul mean_recent (Fin 10), em_wick_expansion_coefficient = trend,
               em_trend_strength_adx = fmul (fabs trend) (Fin 50), em_volume_z_score = vol_z,
               em_confidence_score = confidence, em_regime_decay_factor = lit (19/20)\<rparr>)"

definition regime_of :: "environment_metrics \<Rightarrow> bool \<Rightarrow> regime_type" where
  "regime_of m is_killzone =
     (if flt (em_tick_velocity_per_second m) (Fin (1/2)) \<and> \<not> is_killzone then ILLIQUID_DEAD_ZONE
      else if flt (Fin 3) (em_volatility_ratio m) \<or> flt (Fin (7/2)) (em_volume_z_score m) then POST_NEWS_CHAOS
      else if flt (lit (7/5)) (em_volatility_ratio m)
           then (if flt (Fin (3/2)) (em_trend_strength_adx m) then MOMENTUM_ACCELERATION else VOLATILITY_EXPANSION)
      else if flt (em_volatility_ratio m) (Fin (3/4)) then VOLATILITY_COMPRESSION
      else if flt (Fin 2) (em_trend_strength_adx m) then TRENDING_STRONG
      else if flt (em_trend_strength_adx m) (Fin (1/2)) then RANGE_BOUND
      else TRENDING_WEAK)"

definition classify_regime :: "environment_metrics \<Rightarrow> bool \<Rightarrow> regime_engine \<Rightarrow> regime_type \<times> regime_engine" where
  "classify_regime m is_killzone e = (let r = regime_of m is_killzone in (r, e\<lparr>rg_last_regime := r\<rparr>))"

lemma clip_value_range: "v \<noteq> NaN \<Longrightarrow> fle low high \<Longrightarrow> fle low (clip_value v low high) \<and> fle (clip_value v low high) high"
  by (cases v; cases low; cases high) (auto simp: clip_value_def py_max_def py_min_def)

lemma append_candle_metrics_period [simp]: "rg_period (append_candle_metrics c e) = rg_period e"
  by (simp add: append_candle_metrics_def Let_def)


text \<open>The four windows are four views of one and the same list: the last \<open>5 * period\<close> candles
  appended, in order. They never disagree on which candle an index means.\<close>

theorem regime_windows_aligned:
  "let e = fold append_candle_metrics cs (regime_engine_new period);
       kept = drop (length cs - 5 * period) cs
   in rg_spreads e = map (\<lambda>c. fsub (cn_high_p c) (cn_low_p c)) kept \<and> rg_volumes e = map cn_volume kept
    \<and> rg_tick_counts e = map cn_ticks_count kept \<and> rg_timestamps e = map cn_end_time kept"
proof -
  let ?n = "period * 5"
  have step: "append_candle_metrics c e = e\<lparr>rg_spreads := win_push ?n (fsub (cn_high_p c) (cn_low_p c)) (rg_spreads e),
      rg_volumes := win_push ?n (cn_volume c) (rg_volumes e),
      rg_tick_counts := win_push ?n (cn_ticks_count c) (rg_tick_counts e),
      rg_timestamps := win_push ?n (cn_end_time c) (rg_timestamps e)\<rparr>"
    if "rg_period e = period" "length (rg_volumes e) = length (rg_spreads e)"
      "length (rg_tick_counts e) = length (rg_spreads e)" "length (rg_timestamps e) = length (rg_spreads e)" for c e
    using that by (simp add: append_candle_metrics_def win_push_def Let_def)
  show ?thesis
  proof (induction cs rule: rev_induct)
    case Nil
    then show ?case by (simp add: regime_engine_new_def)
  next
    case (snoc c cs)
    let ?e = "fold append_candle_metrics cs (regime_engine_new period)"
    have p: "rg_period ?e = period"
      by (induction cs rule: rev_induct) (simp_all add: regime_engine_new_def)
    have pop: "win_push ?n (f c) (map f (drop (length cs - 5 * period) cs)) =
        map f (drop (length (cs @ [c]) - 5 * period) (cs @ [c]))" for f :: "candle_node \<Rightarrow> 'z"
      using dq_push_drop [of ?n "f c" "map f cs"] by (simp add: win_push_dq drop_map [symmetric] mult.commute del: drop_append drop_map)
    note ih = snoc [unfolded Let_def]
    have e: "append_candle_metrics c ?e = ?e\<lparr>rg_spreads := win_push ?n (fsub (cn_high_p c) (cn_low_p c)) (rg_spreads ?e),
      rg_volumes := win_push ?n (cn_volume c) (rg_volumes ?e), rg_tick_counts := win_push ?n (cn_ticks_count c) (rg_tick_counts ?e),
      rg_timestamps := win_push ?n (cn_end_time c) (rg_timestamps ?e)\<rparr>"
      by (rule step [OF p]) (simp_all add: ih)
    have f: "fold append_candle_metrics (cs @ [c]) (regime_engine_new period) = append_candle_metrics c ?e" by simp
    show ?case unfolding Let_def f e using ih
      by (simp add: pop [of "\<lambda>c. fsub (cn_high_p c) (cn_low_p c)"] pop [of cn_volume] pop [of cn_ticks_count]
          pop [of cn_end_time])
  qed
qed

text \<open>The rule matrix. A quiet market outside the killzones is a dead zone whatever the ratios
  are; otherwise a shock (ratio above 3 or volume score above 3.5) is chaos, and the remaining
  regimes are told apart by the ratio first and the trend strength second.\<close>

theorem regime_rule_matrix:
  assumes "m' = fst (classify_regime m kz e)"
  shows "(m' = ILLIQUID_DEAD_ZONE \<longleftrightarrow> flt (em_tick_velocity_per_second m) (Fin (1/2)) \<and> \<not> kz)
  \<and> (m' = POST_NEWS_CHAOS \<longleftrightarrow> m' \<noteq> ILLIQUID_DEAD_ZONE
       \<and> (flt (Fin 3) (em_volatility_ratio m) \<or> flt (Fin (7/2)) (em_volume_z_score m)))
  \<and> (m' \<in> {MOMENTUM_ACCELERATION, VOLATILITY_EXPANSION} \<longrightarrow>
       flt (lit (7/5)) (em_volatility_ratio m) \<and> \<not> flt (Fin 3) (em_volatility_ratio m))
  \<and> (m' = VOLATILITY_COMPRESSION \<longrightarrow> flt (em_volatility_ratio m) (Fin (3/4)))
  \<and> rg_last_regime (snd (classify_regime m kz e)) = m'"
  using assms by (auto simp: classify_regime_def regime_of_def Let_def)

theorem regime_rule_matrix_witness:
  "fst (classify_regime \<lparr>em_volatility_ratio = Fin 4, em_tick_velocity_per_second = Fin (1/4), em_mean_candle_spread_pips = Fin 0,
      em_wick_expansion_coefficient = Fin 0, em_trend_strength_adx = Fin 0, em_volume_z_score = Fin 0,
      em_confidence_score = Fin 60, em_regime_decay_factor = Fin 1\<rparr> True (regime_engine_new 20)) = POST_NEWS_CHAOS"
  using regime_rule_matrix [OF refl, of "\<lparr>em_volatility_ratio = Fin 4, em_tick_velocity_per_second = Fin (1/4),
      em_mean_candle_spread_pips = Fin 0, em_wick_expansion_coefficient = Fin 0, em_trend_strength_adx = Fin 0,
      em_volume_z_score = Fin 0, em_confidence_score = Fin 60, em_regime_decay_factor = Fin 1\<rparr>" True "regime_engine_new 20"]
  by simp

text \<open>Before a full period of candles the metrics are neutral, so the regime is the range or, in a
  quiet market outside the killzones, the dead zone; and at any time the reported confidence lies
  between 10 and 100 unless the ratio is NaN.\<close>

lemma regime_confidence_range:
  assumes "extract_environment_metrics np v e = Ok m" "em_volatility_ratio m \<noteq> NaN"
  shows "fle (Fin 10) (em_confidence_score m) \<and> fle (em_confidence_score m) (Fin 100)"
proof -
  have a: "fmul r (Fin 10) \<noteq> NaN" if "r \<noteq> NaN" for r
    using that by (cases r) (simp_all add: sinf_def)
  have b: "fsub (Fin 100) y \<noteq> NaN" if "y \<noteq> NaN" for y
    using that by (cases y) (simp_all add: fsub_def)
  have c: "(if p then Raise x else Ok r) = Ok m \<longleftrightarrow> \<not> p \<and> r = m" for p x r by simp
  show ?thesis
  proof (cases "length (rg_spreads e) < rg_period e")
    case True
    with assms(1) show ?thesis by (auto simp: extract_environment_metrics_def)
  next
    case False
    then have "em_confidence_score m = clip_value (fsub (Fin 100) (fmul (em_volatility_ratio m) (Fin 10))) (Fin 10) (Fin 100)"
      using assms(1) by (auto simp: extract_environment_metrics_def Let_def c cong: if_cong split del: if_split)
    with clip_value_range [OF b [OF a [OF assms(2)]]] show ?thesis by simp
  qed
qed

lemma warmup_regime:
  assumes "length (rg_spreads e) < rg_period e"
  shows "\<exists>m. extract_environment_metrics np v e = Ok m \<and>
    regime_of m kz = (if flt v (Fin (1/2)) \<and> \<not> kz then ILLIQUID_DEAD_ZONE else RANGE_BOUND)"
proof -
  have l: "fle (Fin 1) (lit (7/5))" using rnd_mono [of 1 "7/5"] by simp
  show ?thesis using assms flt_not_fle [of "lit (7/5)" "Fin 1"] l
    by (auto simp: extract_environment_metrics_def regime_of_def)
qed

end
