(* ===== verification/Backtest.thy ===== *)
theory Backtest
  imports OrderRouting PyLiterals "HOL-Library.Multiset"
begin

section \<open>Simulated execution (src/backtesting, src/backtest)\<close>

text \<open>
  \<open>backtest_config.py\<close>, \<open>fill_engine.py\<close> and \<open>simulator_interface.py\<close>: the validated
  cost assumptions, the fill of a market order, the trigger of a pending one, and the simulator that
  keeps the pending orders and the fills. The simulator is a provider of the broker interface of
  \<open>OrderRouting\<close>.
\<close>

subsection \<open>Configuration\<close>

record backtest_config =
  bc_symbol :: string
  bc_start_time :: datetime
  bc_spread_price :: pyfloat
  bc_price_unit_per_pip :: pyfloat
  bc_end_time :: "datetime option"
  bc_initial_balance :: pyfloat
  bc_latency_ms :: pyfloat
  bc_base_slippage_price :: pyfloat
  bc_volatility_slippage_price :: pyfloat

definition backtest_config_check :: "backtest_config \<Rightarrow> backtest_config res" where
  "backtest_config_check c =
     (if fle (bc_spread_price c) (Fin 0)
      then Raise (ValueError ''Backtests require an explicit positive execution spread.'')
      else if fle (bc_price_unit_per_pip c) (Fin 0)
      then Raise (ValueError ''Backtests require an explicit positive price-unit-per-pip conversion.'')
      else if flt (bc_base_slippage_price c) (Fin 0) \<or> flt (bc_volatility_slippage_price c) (Fin 0)
      then Raise (ValueError ''Backtest slippage assumptions cannot be negative.'')
      else Ok c)"

subsection \<open>The fill engine\<close>

record fill_engine =
  fe_spread_price :: pyfloat
  fe_price_unit_per_pip :: pyfloat
  fe_base_slippage_price :: pyfloat
  fe_volatility_slippage_price :: pyfloat

definition fill_engine_new :: "pyfloat \<Rightarrow> pyfloat \<Rightarrow> pyfloat \<Rightarrow> pyfloat \<Rightarrow> fill_engine res" where
  "fill_engine_new spread unit base vola =
     (if fle spread (Fin 0) then Raise (ValueError ''Simulated execution requires a positive spread.'')
      else if fle unit (Fin 0)
      then Raise (ValueError ''Simulated execution requires a positive price-unit-per-pip conversion.'')
      else if flt base (Fin 0) \<or> flt vola (Fin 0)
      then Raise (ValueError ''Simulated slippage cannot improve an order.'')
      else Ok \<lparr>fe_spread_price = spread, fe_price_unit_per_pip = unit, fe_base_slippage_price = base,
               fe_volatility_slippage_price = vola\<rparr>)"

definition fill_engine_from_config :: "backtest_config \<Rightarrow> fill_engine res" where
  "fill_engine_from_config c =
     fill_engine_new (bc_spread_price c) (bc_price_unit_per_pip c) (bc_base_slippage_price c) (bc_volatility_slippage_price c)"

definition adverse_slippage :: "fill_engine \<Rightarrow> pyfloat \<Rightarrow> pyfloat" where
  "adverse_slippage fe vol_ratio =
     fadd (fe_base_slippage_price fe) (fmul (py_max (fsub vol_ratio (Fin 1)) (Fin 0)) (fe_volatility_slippage_price fe))"

definition fill_market_order ::
  "fill_engine \<Rightarrow> order_request \<Rightarrow> pyfloat \<Rightarrow> pyfloat \<Rightarrow> datetime \<Rightarrow> execution_report res" where
  "fill_market_order fe rq mid vol_ratio ts =
     (let adverse = adverse_slippage fe vol_ratio;
          cost = fadd (fdiv (fe_spread_price fe) (Fin 2)) adverse;
          fill_price = (if rq_direction rq = BUY then fadd mid cost else fsub mid cost)
      in rmap (\<lambda>slip. \<lparr>xr_execution_id = ''SIM_FILL_'' @ rq_client_order_id rq, xr_client_order_id = rq_client_order_id rq,
               xr_broker_order_id = ''SIM_'' @ rq_client_order_id rq, xr_timestamp = ts, xr_status = FILLED,
               xr_filled_quantity = rq_quantity_lots rq, xr_remaining_quantity = Fin 0, xr_average_fill_price = fill_price,
               xr_last_fill_price = fill_price, xr_slippage_pips = slip, xr_rejection_reason = None\<rparr>)
         (py_div adverse (fe_price_unit_per_pip fe)))"

definition evaluate_pending_triggers ::
  "fill_engine \<Rightarrow> order_request \<Rightarrow> pyfloat \<Rightarrow> pyfloat \<Rightarrow> datetime \<Rightarrow> execution_report option res" where
  "evaluate_pending_triggers fe rq high low ts =
     (if fle low (rq_entry_price rq) \<and> fle (rq_entry_price rq) high
      then rmap Some (fill_market_order fe rq (rq_entry_price rq) (Fin 1) ts) else Ok None)"

subsection \<open>The simulator\<close>

record simulator =
  sim_config :: backtest_config
  sim_fill_engine :: fill_engine
  sim_pending :: "order_request list"
  sim_history :: "execution_report list"

definition simulator_new :: "backtest_config \<Rightarrow> fill_engine option \<Rightarrow> simulator res" where
  "simulator_new c given =
     rmap (\<lambda>fe. \<lparr>sim_config = c, sim_fill_engine = fe, sim_pending = [], sim_history = []\<rparr>)
       (case given of Some fe \<Rightarrow> Ok fe | None \<Rightarrow> fill_engine_from_config c)"

definition ack_report :: "order_request \<Rightarrow> datetime \<Rightarrow> execution_report" where
  "ack_report rq ts = \<lparr>xr_execution_id = ''ACK_'' @ rq_client_order_id rq, xr_client_order_id = rq_client_order_id rq,
     xr_broker_order_id = ''PENDING'', xr_timestamp = ts, xr_status = ACKNOWLEDGED, xr_filled_quantity = Fin 0,
     xr_remaining_quantity = rq_quantity_lots rq, xr_average_fill_price = Fin 0, xr_last_fill_price = Fin 0,
     xr_slippage_pips = Fin 0, xr_rejection_reason = None\<rparr>"

definition submit_simulated_order ::
  "order_request \<Rightarrow> pyfloat \<Rightarrow> pyfloat \<Rightarrow> datetime \<Rightarrow> simulator \<Rightarrow> (execution_report \<times> simulator) res" where
  "submit_simulated_order rq mid vol_ratio ts s =
     (if rq_order_type rq = MARKET
      then rmap (\<lambda>rep. (rep, s\<lparr>sim_history := sim_history s @ [rep]\<rparr>)) (fill_market_order (sim_fill_engine s) rq mid vol_ratio ts)
      else Ok (ack_report rq ts, s\<lparr>sim_pending := sim_pending s @ [rq]\<rparr>))"

text \<open>The loop over the pending orders appends each fill to the history as it goes; the pending
  queue itself is replaced only after the loop, so an exception in between leaves it as it was.\<close>

fun scan_pending ::
  "fill_engine \<Rightarrow> pyfloat \<Rightarrow> pyfloat \<Rightarrow> datetime \<Rightarrow> order_request list \<Rightarrow> execution_report list \<Rightarrow> order_request list
     \<Rightarrow> (execution_report list \<times> order_request list) res \<times> execution_report list" where
  "scan_pending fe high low ts [] fills still = (Ok (fills, still), fills)"
| "scan_pending fe high low ts (rq # rqs) fills still =
     (case evaluate_pending_triggers fe rq high low ts of
        Inl e \<Rightarrow> (Raise e, fills)
      | Inr (Some rep) \<Rightarrow> scan_pending fe high low ts rqs (fills @ [rep]) still
      | Inr None \<Rightarrow> scan_pending fe high low ts rqs fills (still @ [rq]))"

definition evaluate_working_orders ::
  "pyfloat \<Rightarrow> pyfloat \<Rightarrow> datetime \<Rightarrow> simulator \<Rightarrow> execution_report list res \<times> simulator" where
  "evaluate_working_orders high low ts s =
     (case scan_pending (sim_fill_engine s) high low ts (sim_pending s) [] [] of
        (Inl e, fills) \<Rightarrow> (Raise e, s\<lparr>sim_history := sim_history s @ fills\<rparr>)
      | (Inr (fills, still), _) \<Rightarrow> (Ok fills, s\<lparr>sim_history := sim_history s @ fills, sim_pending := still\<rparr>))"

subsection \<open>Costs are adverse\<close>

lemma fill_engine_new_Ok:
  "fill_engine_new s u b v = Ok fe \<Longrightarrow>
     fe_spread_price fe = s \<and> fe_price_unit_per_pip fe = u \<and> fe_base_slippage_price fe = b \<and> fe_volatility_slippage_price fe = v
   \<and> \<not> fle s (Fin 0) \<and> \<not> fle u (Fin 0) \<and> \<not> flt b (Fin 0) \<and> \<not> flt v (Fin 0)"
  by (auto simp: fill_engine_new_def split: if_splits)

lemma fill_market_order_total:
  assumes "fill_engine_new s u b v = Ok fe"
  shows "\<exists>rep. fill_market_order fe rq mid vol ts = Ok rep"
proof -
  have "u \<noteq> Fin 0" "fe_price_unit_per_pip fe = u" using fill_engine_new_Ok [OF assms] by auto
  then show ?thesis by (simp add: fill_market_order_def py_div_def Let_def)
qed

lemma fill_market_order_id: "fill_market_order fe rq mid vol ts = Ok rep \<Longrightarrow>
    xr_client_order_id rep = rq_client_order_id rq \<and> xr_status rep = FILLED \<and> xr_filled_quantity rep = rq_quantity_lots rq"
  by (auto simp: fill_market_order_def Let_def rmap_Inr_iff)

lemma excess_finite:
  assumes "rnd v = Fin v"
  shows "\<exists>q\<ge>0. py_max (fsub (Fin v) (Fin 1)) (Fin 0) = Fin q"
proof -
  have "fle (rnd (v - 1)) (Fin v)" using rnd_mono [of "v - 1" v] assms by simp
  then show ?thesis by (cases "rnd (v - 1)") (auto simp: py_max_def)
qed

text \<open>A simulated fill never flatters an order: for finite assumptions and representable
  market figures a BUY fills at or above the market, a SELL at or below it, and the slippage it
  reports is not negative.\<close>

theorem fill_costs_adverse:
  assumes "fill_engine_new (Fin s) (Fin u) (Fin b) (Fin v) = Ok fe" "rnd vol = Fin vol" "rnd m = Fin m"
  shows "\<exists>rep. fill_market_order fe rq (Fin m) (Fin vol) ts = Ok rep \<and> xr_status rep = FILLED
    \<and> (if rq_direction rq = BUY then fle (Fin m) (xr_average_fill_price rep) else fle (xr_average_fill_price rep) (Fin m))
    \<and> fle (Fin 0) (xr_slippage_pips rep)"
proof -
  from fill_engine_new_Ok [OF assms(1)] have fe: "fe_spread_price fe = Fin s" "fe_price_unit_per_pip fe = Fin u"
    "fe_base_slippage_price fe = Fin b" "fe_volatility_slippage_price fe = Fin v" "0 < s" "0 < u" "0 \<le> b" "0 \<le> v"
    by auto
  obtain q where q: "0 \<le> q" "py_max (fsub (Fin vol) (Fin 1)) (Fin 0) = Fin q"
    using excess_finite [OF assms(2)] by auto
  have "fle (Fin 0) (fmul (Fin q) (Fin v))" using q(1) fe by (simp add: rnd_nonneg)
  then have adv: "fle (Fin 0) (adverse_slippage fe (Fin vol))"
    unfolding adverse_slippage_def q(2) fe using fe by (intro fadd_nonneg) auto
  have "fle (Fin 0) (fdiv (Fin s) (Fin 2))" using fe by (intro fdiv_nonneg) auto
  from fadd_nonneg [OF this adv] have cost: "fle (Fin 0) (fadd (fdiv (Fin s) (Fin 2)) (adverse_slippage fe (Fin vol)))" .
  show ?thesis
    using fadd_ge [OF assms(3) cost] fsub_le [OF assms(3) cost] fdiv_nonneg [OF adv fe(6)] fe
    by (auto simp: fill_market_order_def py_div_def Let_def simp del: fdiv.simps)
qed

definition demo_fill_engine :: fill_engine where
  "demo_fill_engine = \<lparr>fe_spread_price = Fin (1/2), fe_price_unit_per_pip = Fin (1/4), fe_base_slippage_price = Fin (1/4),
     fe_volatility_slippage_price = Fin 1\<rparr>"

lemma demo_fill_engine_new: "fill_engine_new (Fin (1/2)) (Fin (1/4)) (Fin (1/4)) (Fin 1) = Ok demo_fill_engine"
  by (simp add: fill_engine_new_def demo_fill_engine_def)

theorem fill_costs_adverse_witness:
  "\<exists>rep. fill_market_order demo_fill_engine (demo_request ''a'' ''k'') (Fin 2000) (Fin 2) (naive 0) = Ok rep
    \<and> fle (Fin 2000) (xr_average_fill_price rep)"
proof -
  have r: "rnd 2 = Fin 2" "rnd 2000 = Fin 2000" by (simp_all add: feval)
  from fill_costs_adverse [OF demo_fill_engine_new r, of "demo_request ''a'' ''k''" "naive 0"]
  show ?thesis by (auto simp: demo_request_def)
qed

subsection \<open>Pending orders\<close>

definition touched :: "pyfloat \<Rightarrow> pyfloat \<Rightarrow> order_request \<Rightarrow> bool" where
  "touched high low rq \<longleftrightarrow> fle low (rq_entry_price rq) \<and> fle (rq_entry_price rq) high"

definition pending_fill :: "fill_engine \<Rightarrow> datetime \<Rightarrow> order_request \<Rightarrow> execution_report" where
  "pending_fill fe ts rq = projr (fill_market_order fe rq (rq_entry_price rq) (Fin 1) ts)"

lemma evaluate_pending_triggers_eq:
  assumes "fill_engine_new s u b v = Ok fe"
  shows "evaluate_pending_triggers fe rq high low ts = Ok (if touched high low rq then Some (pending_fill fe ts rq) else None)"
  using fill_market_order_total [OF assms, of rq "rq_entry_price rq" "Fin 1" ts]
  by (auto simp: evaluate_pending_triggers_def touched_def pending_fill_def)

lemma scan_pending_eq:
  assumes "fill_engine_new s u b v = Ok fe"
  shows "scan_pending fe high low ts rqs fills still =
    (Ok (fills @ map (pending_fill fe ts) (filter (touched high low) rqs), still @ filter (\<lambda>rq. \<not> touched high low rq) rqs),
     fills @ map (pending_fill fe ts) (filter (touched high low) rqs))"
  by (induction rqs arbitrary: fills still) (simp_all add: evaluate_pending_triggers_eq [OF assms])

text \<open>One bar fills exactly the pending orders whose entry price lies within it, in the order they
  were submitted, and keeps the others in theirs: the accumulating loop is a filter and a map.\<close>

theorem working_orders_reference:
  assumes "fill_engine_new s u b v = Ok (sim_fill_engine sim)"
  shows "evaluate_working_orders high low ts sim =
    (let fills = map (pending_fill (sim_fill_engine sim) ts) (filter (touched high low) (sim_pending sim))
     in (Ok fills, sim\<lparr>sim_history := sim_history sim @ fills,
                       sim_pending := filter (\<lambda>rq. \<not> touched high low rq) (sim_pending sim)\<rparr>))"
  by (simp add: evaluate_working_orders_def scan_pending_eq [OF assms] Let_def)

definition demo_config :: backtest_config where
  "demo_config = \<lparr>bc_symbol = ''XAUUSD'', bc_start_time = naive 0, bc_spread_price = Fin (1/2), bc_price_unit_per_pip = Fin (1/4),
     bc_end_time = None, bc_initial_balance = Fin 10000, bc_latency_ms = Fin 0, bc_base_slippage_price = Fin (1/4),
     bc_volatility_slippage_price = Fin 1\<rparr>"

definition demo_simulator :: simulator where
  "demo_simulator = \<lparr>sim_config = demo_config, sim_fill_engine = demo_fill_engine,
     sim_pending = [(demo_request ''a'' ''k'')\<lparr>rq_order_type := LIMIT\<rparr>], sim_history = []\<rparr>"

theorem working_orders_reference_witness:
  "sim_pending (snd (evaluate_working_orders (Fin 2001) (Fin 1999) (naive 0) demo_simulator)) = []"
proof -
  have "fill_engine_new (Fin (1/2)) (Fin (1/4)) (Fin (1/4)) (Fin 1) = Ok (sim_fill_engine demo_simulator)"
    by (simp add: demo_simulator_def demo_fill_engine_new)
  from working_orders_reference [OF this, of "Fin 2001" "Fin 1999" "naive 0"]
  show ?thesis by (simp add: Let_def demo_simulator_def touched_def demo_request_def)
qed

subsection \<open>Runs of the simulator\<close>

datatype sim_op = SubmitSim order_request pyfloat pyfloat datetime | BarSim pyfloat pyfloat datetime

fun sim_step :: "sim_op \<Rightarrow> simulator \<Rightarrow> simulator" where
  "sim_step (SubmitSim rq mid vol ts) s = (case submit_simulated_order rq mid vol ts s of Inl _ \<Rightarrow> s | Inr (_, s') \<Rightarrow> s')"
| "sim_step (BarSim high low ts) s = snd (evaluate_working_orders high low ts s)"

fun sim_submitted :: "sim_op \<Rightarrow> string list" where
  "sim_submitted (SubmitSim rq _ _ _) = [rq_client_order_id rq]"
| "sim_submitted (BarSim _ _ _) = []"

definition sim_ids :: "simulator \<Rightarrow> string multiset" where
  "sim_ids s = mset (map rq_client_order_id (sim_pending s)) + mset (map xr_client_order_id (sim_history s))"

lemma pending_fill_id:
  assumes "fill_engine_new s u b v = Ok fe"
  shows "xr_client_order_id (pending_fill fe ts rq) = rq_client_order_id rq" "xr_status (pending_fill fe ts rq) = FILLED"
  using fill_market_order_total [OF assms, of rq "rq_entry_price rq" "Fin 1" ts] fill_market_order_id
  by (auto simp: pending_fill_def)

lemma sim_step_ids:
  assumes "fill_engine_new sp u b v = Ok (sim_fill_engine s)"
  shows "sim_ids (sim_step x s) = sim_ids s + mset (sim_submitted x) \<and> sim_fill_engine (sim_step x s) = sim_fill_engine s
    \<and> ((\<forall>rep\<in>set (sim_history s). xr_status rep = FILLED) \<longrightarrow> (\<forall>rep\<in>set (sim_history (sim_step x s)). xr_status rep = FILLED))"
proof (cases x)
  case (SubmitSim rq mid vol ts)
  obtain rep where "fill_market_order (sim_fill_engine s) rq mid vol ts = Ok rep"
    using fill_market_order_total [OF assms] by blast
  with fill_market_order_id [OF this] show ?thesis
    by (simp add: SubmitSim submit_simulated_order_def sim_ids_def ack_report_def)
next
  case (BarSim high low ts)
  have split: "mset (map rq_client_order_id (filter P xs)) + mset (map rq_client_order_id (filter (\<lambda>y. \<not> P y) xs)) =
      mset (map rq_client_order_id xs)" for P xs
    by (induction xs) auto
  have ids: "map (xr_client_order_id \<circ> pending_fill (sim_fill_engine s) ts) ys = map rq_client_order_id ys" for ys
    by (simp add: pending_fill_id [OF assms])
  show ?thesis
    using split [of "touched high low" "sim_pending s"]
    by (auto simp: BarSim evaluate_working_orders_def scan_pending_eq [OF assms] sim_ids_def ids pending_fill_id(2) [OF assms]
        simp del: map_map) (simp add: multiset.map_comp comp_def pending_fill_id [OF assms] ac_simps)
qed

text \<open>C9. No order is lost and none is filled twice: in any run of submissions and bars, the ids of
  the pending orders and of the fills together are exactly the ids submitted, with multiplicity,
  and every report in the history is a complete fill.\<close>

theorem simulator_accounts_for_orders:
  assumes "simulator_new c None = Ok s"
  shows "sim_ids (fold sim_step ops s) = mset (concat (map sim_submitted ops))
    \<and> (\<forall>rep\<in>set (sim_history (fold sim_step ops s)). xr_status rep = FILLED)"
proof -
  obtain sp u b v where fe: "fill_engine_new sp u b v = Ok (sim_fill_engine s)" and z: "sim_ids s = {#}" "sim_history s = []"
    using assms by (auto simp: simulator_new_def rmap_Inr_iff fill_engine_from_config_def sim_ids_def)
  have "sim_ids (fold sim_step ops s) = sim_ids s + mset (concat (map sim_submitted ops))
      \<and> (\<forall>rep\<in>set (sim_history (fold sim_step ops s)). xr_status rep = FILLED)"
    if "fill_engine_new sp u b v = Ok (sim_fill_engine s)" "\<forall>rep\<in>set (sim_history s). xr_status rep = FILLED" for s
    using that
  proof (induction ops arbitrary: s)
    case (Cons x ops)
    from sim_step_ids [OF Cons.prems(1), of x] Cons.prems
    have "fill_engine_new sp u b v = Ok (sim_fill_engine (sim_step x s))"
      "\<forall>rep\<in>set (sim_history (sim_step x s)). xr_status rep = FILLED" by auto
    from Cons.IH [OF this] sim_step_ids [OF Cons.prems(1), of x] show ?case by simp
  qed simp
  from this [OF fe] z show ?thesis by simp
qed

theorem simulator_accounts_for_orders_witness:
  "\<exists>s. simulator_new demo_config None = Ok s \<and> sim_ids (fold sim_step
      [SubmitSim (demo_request ''a'' ''k'') (Fin 2000) (Fin 1) (naive 0),
       SubmitSim ((demo_request ''b'' ''l'')\<lparr>rq_order_type := LIMIT\<rparr>) (Fin 2000) (Fin 1) (naive 0),
       BarSim (Fin 2001) (Fin 1999) (naive 1)] s) = {#''a'', ''b''#}"
proof -
  obtain s where s: "simulator_new demo_config None = Ok s"
    using demo_fill_engine_new by (auto simp: simulator_new_def fill_engine_from_config_def demo_config_def)
  let ?ops = "[SubmitSim (demo_request ''a'' ''k'') (Fin 2000) (Fin 1) (naive 0),
       SubmitSim ((demo_request ''b'' ''l'')\<lparr>rq_order_type := LIMIT\<rparr>) (Fin 2000) (Fin 1) (naive 0),
       BarSim (Fin 2001) (Fin 1999) (naive 1)]"
  have "sim_ids (fold sim_step ?ops s) = mset (concat (map sim_submitted ?ops))"
    using simulator_accounts_for_orders [OF s] by blast
  also have "\<dots> = {#''a'', ''b''#}" by (simp add: demo_request_def)
  finally show ?thesis using s by blast
qed

subsection \<open>The simulator as a broker\<close>

definition sim_route :: "simulator \<times> pyfloat \<times> pyfloat \<times> datetime \<Rightarrow> order_request \<Rightarrow> execution_report res" where
  "sim_route = (\<lambda>(s, mid, vol, ts) rq. rmap fst (submit_simulated_order rq mid vol ts s))"

interpretation sim: broker_port sim_route
  by unfold_locales
    (auto simp: sim_route_def submit_simulated_order_def rmap_Inr_iff ack_report_def dest: fill_market_order_id split: if_splits)

text \<open>An order in flight routed to the simulator: a pending order ends acknowledged in the router's
  ledger, but a market order, which the simulator fills at once, ends REJECTED, because the
  lifecycle machine knows no step from PENDING\_SUBMIT to FILLED.\<close>

theorem simulated_order_in_ledger:
  assumes "ro_worker r = Routing rq" "map_of (ro_ledger r) (rq_client_order_id rq) = Some x" "xr_status x = PENDING_SUBMIT"
    and "fill_engine_new sp u b v = Ok (sim_fill_engine s)"
  shows "\<exists>y. map_of (ro_ledger (worker_finish now (sim_route (s, mid, vol, ts) rq) r)) (rq_client_order_id rq) = Some y
    \<and> xr_status y = (if rq_order_type rq = MARKET then REJECTED else ACKNOWLEDGED)"
proof -
  obtain rep where "fill_market_order (sim_fill_engine s) rq mid vol ts = Ok rep"
    using fill_market_order_total [OF assms(4)] by blast
  with fill_market_order_id [OF this]
  have "(case sim_route (s, mid, vol, ts) rq of
          Inl _ \<Rightarrow> REJECTED
        | Inr rep \<Rightarrow> if xr_status rep \<in> {PENDING_SUBMIT, ACKNOWLEDGED, CANCELED} then xr_status rep else REJECTED) =
      (if rq_order_type rq = MARKET then REJECTED else ACKNOWLEDGED)"
    by (simp add: sim_route_def submit_simulated_order_def ack_report_def)
  with sim.routed_status [OF assms(1-3), of now "(s, mid, vol, ts)"] show ?thesis by metis
qed

theorem simulated_order_in_ledger_witness:
  "\<exists>y. map_of (ro_ledger (worker_finish (naive 2) (sim_route (demo_simulator, Fin 2000, Fin 1, naive 1) (demo_request ''a'' ''a''))
      (demo_router\<lparr>ro_worker := Routing (demo_request ''a'' ''a''), ro_ledger := [(''a'', demo_report ''a'' PENDING_SUBMIT)]\<rparr>)))
      ''a'' = Some y \<and> xr_status y = REJECTED"
proof -
  have f: "fill_engine_new (Fin (1/2)) (Fin (1/4)) (Fin (1/4)) (Fin 1) = Ok (sim_fill_engine demo_simulator)"
    by (simp add: demo_simulator_def demo_fill_engine_new)
  have i: "rq_client_order_id (demo_request ''a'' ''a'') = ''a''" "rq_order_type (demo_request ''a'' ''a'') = MARKET"
    by (simp_all add: demo_request_def)
  show ?thesis
    using simulated_order_in_ledger [OF _ _ _ f, of "demo_router\<lparr>ro_worker := Routing (demo_request ''a'' ''a''),
        ro_ledger := [(''a'', demo_report ''a'' PENDING_SUBMIT)]\<rparr>" "demo_request ''a'' ''a''" _ "naive 2" "Fin 2000" "Fin 1" "naive 1"]
    by (simp add: i demo_report_def)
qed

end
