(* ===== verification/Replay.thy ===== *)
theory Replay
  imports Backtest EventBus
begin

section \<open>Historical replay (src/backtesting, src/backtest)\<close>

text \<open>
  \<open>backtest_clock.py\<close>, \<open>replay_controller.py\<close>, \<open>replay_scheduler.py\<close>, the two row converters and
  \<open>replay_engine.py\<close>: rows of several buffers are pulled in chronological order, turned into ticks and
  candles and published. The buffers are objects the caller attaches: their methods are the fields
  of \<open>pool_api\<close>, \<open>None\<close> for a method the object does not have.
\<close>

subsection \<open>Rows and their conversion\<close>

text \<open>A row's timestamp is a pandas \<open>Timestamp\<close>, which has \<open>to_pydatetime\<close>, or a plain datetime;
  its other columns are numbers.\<close>

datatype row_time = Stamp datetime | Plain datetime

fun row_datetime :: "row_time \<Rightarrow> datetime" where
  "row_datetime (Stamp d) = d"
| "row_datetime (Plain d) = d"

record row =
  rw_timestamp :: row_time
  rw_cells :: "(string, pyfloat) dict"

fun int_of_float :: "pyfloat \<Rightarrow> int res" where
  "int_of_float (Fin q) = Ok (if q < 0 then - \<lfloor>- q\<rfloor> else \<lfloor>q\<rfloor>)"
| "int_of_float NaN = Raise (ValueError ''cannot convert float NaN to integer'')"
| "int_of_float _ = Raise OverflowError"

definition row_cell :: "row \<Rightarrow> string \<Rightarrow> pyfloat res" where
  "row_cell r k = (case map_of (rw_cells r) k of Some v \<Rightarrow> Ok v | None \<Rightarrow> Raise KeyError)"

definition row_get :: "row \<Rightarrow> string \<Rightarrow> pyfloat \<Rightarrow> pyfloat" where
  "row_get r k dflt = (case map_of (rw_cells r) k of Some v \<Rightarrow> v | None \<Rightarrow> dflt)"

definition convert_row_to_candle :: "string \<Rightarrow> row \<Rightarrow> string \<Rightarrow> candle_node res" where
  "convert_row_to_candle symbol r timeframe =
     (let ts = row_datetime (rw_timestamp r) in
      rbind (row_cell r ''open'') (\<lambda>op. rbind (row_cell r ''high'') (\<lambda>hi. rbind (row_cell r ''low'') (\<lambda>lo.
      rbind (row_cell r ''close'') (\<lambda>cl. rbind (int_of_float (row_get r ''volume'' (Fin 0))) (\<lambda>vo.
        Ok \<lparr>cn_symbol = symbol, cn_timeframe = timeframe, cn_start_time = ts, cn_end_time = ts, cn_open_p = op, cn_high_p = hi,
            cn_low_p = lo, cn_close_p = cl, cn_volume = vo, cn_ticks_count = 0, cn_is_closed = True, cn_sequence_id = 0,
            cn_trace_id = [], cn_correlation_id = [], cn_priority = NORMAL\<rparr>))))))"

text \<open>\<open>row.get("ask", row["bid"])\<close> reads the bid whether or not an ask is there.\<close>

definition convert_row_to_tick :: "string \<Rightarrow> row \<Rightarrow> tick_node res" where
  "convert_row_to_tick symbol r =
     (let ts = row_datetime (rw_timestamp r) in
      rbind (row_cell r ''bid'') (\<lambda>bid. rbind (int_of_float (row_get r ''volume'' (Fin 0))) (\<lambda>vo.
        Ok \<lparr>tk_symbol = symbol, tk_timestamp = ts, tk_bid = bid, tk_ask = row_get r ''ask'' bid, tk_volume = vo,
            tk_sequence_id = 0, tk_trace_id = [], tk_correlation_id = [], tk_priority = NORMAL\<rparr>)))"

subsection \<open>Clock and controller\<close>

record controls =
  ct_paused :: bool
  ct_step_mode :: bool

definition controller_new :: controls where
  "controller_new = \<lparr>ct_paused = False, ct_step_mode = False\<rparr>"

definition ctl_pause :: "controls \<Rightarrow> controls" where
  "ctl_pause c = c\<lparr>ct_paused := True, ct_step_mode := False\<rparr>"

definition ctl_resume :: "controls \<Rightarrow> controls" where
  "ctl_resume c = c\<lparr>ct_paused := False, ct_step_mode := False\<rparr>"

definition ctl_step :: "controls \<Rightarrow> controls" where
  "ctl_step c = c\<lparr>ct_paused := False, ct_step_mode := True\<rparr>"

subsection \<open>The scheduler\<close>

record 'p pool_api =
  pa_has_next :: "('p \<Rightarrow> bool) option"
  pa_peek :: "('p \<Rightarrow> row res) option"
  pa_fetch :: "'p \<Rightarrow> (row \<times> 'p) res"

definition register_stream_buffer :: "string \<Rightarrow> 'p \<Rightarrow> (string, 'p) dict \<Rightarrow> (string, 'p) dict" where
  "register_stream_buffer key p pools = AList.update key p pools"

text \<open>The candidate of a pool without \<open>peek_next_node\<close> has time \<open>0\<close> (\<open>None\<close>), which does not
  compare with a timestamp.\<close>

type_synonym candidate = "datetime option \<times> string"

fun candidates :: "'p pool_api \<Rightarrow> (string, 'p) dict \<Rightarrow> candidate list res" where
  "candidates api [] = Ok []"
| "candidates api ((key, p) # pools) =
     (case pa_has_next api of
        Some h \<Rightarrow> if \<not> h p then candidates api pools
                  else rbind (case pa_peek api of Some pk \<Rightarrow> rmap (\<lambda>r. (Some (row_datetime (rw_timestamp r)), key)) (pk p)
                                                | None \<Rightarrow> Ok (None, key)) (\<lambda>c. rmap ((#) c) (candidates api pools))
      | None \<Rightarrow> rbind (case pa_peek api of Some pk \<Rightarrow> rmap (\<lambda>r. (Some (row_datetime (rw_timestamp r)), key)) (pk p)
                                         | None \<Rightarrow> Ok (None, key)) (\<lambda>c. rmap ((#) c) (candidates api pools)))"

fun stamp_lt :: "datetime option \<Rightarrow> datetime option \<Rightarrow> bool res" where
  "stamp_lt (Some a) (Some b) = dt_lt a b"
| "stamp_lt None None = Ok False"
| "stamp_lt _ _ = Raise TypeError"

fun earliest :: "candidate \<Rightarrow> candidate list \<Rightarrow> candidate res" where
  "earliest m [] = Ok m"
| "earliest m (x # xs) = rbind (stamp_lt (fst x) (fst m)) (\<lambda>less. earliest (if less then x else m) xs)"

definition locate_next_chronological_track :: "'p pool_api \<Rightarrow> (string, 'p) dict \<Rightarrow> string option res" where
  "locate_next_chronological_track api pools =
     rbind (candidates api pools) (\<lambda>cs. case cs of [] \<Rightarrow> Ok None | c # rest \<Rightarrow> rmap (\<lambda>m. Some (snd m)) (earliest c rest))"

subsection \<open>The replay engine\<close>

record 'p replay =
  rp_symbol :: string
  rp_start_time :: datetime
  rp_clock :: "datetime option"
  rp_controls :: controls
  rp_pools :: "(string, 'p) dict"
  rp_running :: bool

definition replay_new :: "backtest_config \<Rightarrow> 'p replay" where
  "replay_new c = \<lparr>rp_symbol = bc_symbol c, rp_start_time = bc_start_time c, rp_clock = None,
     rp_controls = controller_new, rp_pools = [], rp_running = False\<rparr>"

definition replay_bootstrap :: "'p replay \<Rightarrow> 'p replay" where
  "replay_bootstrap r = r\<lparr>rp_clock := Some (rp_start_time r), rp_running := True\<rparr>"

definition replay_terminate :: "'p replay \<Rightarrow> 'p replay" where
  "replay_terminate r = r\<lparr>rp_running := False\<rparr>"

definition attach_data_buffer :: "string \<Rightarrow> 'p \<Rightarrow> 'p replay \<Rightarrow> 'p replay" where
  "attach_data_buffer key p r = r\<lparr>rp_pools := register_stream_buffer key p (rp_pools r)\<rparr>"

text \<open>\<open>key.split("_")[-1]\<close>\<close>

definition last_segment :: "string \<Rightarrow> string" where
  "last_segment s = rev (takeWhile (\<lambda>c. c \<noteq> CHR ''_'') (rev s))"

definition replay_payload :: "string \<Rightarrow> string \<Rightarrow> row \<Rightarrow> (event_type \<times> payload) res" where
  "replay_payload symbol key r =
     (if map_of (rw_cells r) ''bid'' \<noteq> None
      then rmap (\<lambda>t. (MARKET_TICK, TickP t)) (convert_row_to_tick symbol r)
      else rmap (\<lambda>c. (CANDLE_CLOSED, CandleP c)) (convert_row_to_candle symbol r (last_segment key)))"

text \<open>One round of the loop, up to its next suspension. \<open>publish\<close> on a full queue suspends the loop inside \<open>put\<close>: the round
  ends there (\<open>Suspended\<close>, with the number of the item that waits) and \<open>after_publish\<close>, which is left of it, comes when the item has
  found room. The key the scheduler returns is tested for truth, so a buffer registered under the empty string ends the replay; the loop
  calls \<open>to_pydatetime\<close> on every timestamp.\<close>

datatype round_end = Again | Suspended nat | Exhausted | Crashed py_exn

definition after_publish :: "'p replay \<Rightarrow> 'p replay" where
  "after_publish r = (if ct_step_mode (rp_controls r) then r\<lparr>rp_controls := ctl_pause (rp_controls r)\<rparr> else r)"

definition replay_round :: "'p pool_api \<Rightarrow> 'p replay \<times> 'h event_bus \<Rightarrow> round_end \<times> 'p replay \<times> 'h event_bus" where
  "replay_round api = (\<lambda>(r, b).
     if ct_paused (rp_controls r) \<and> \<not> ct_step_mode (rp_controls r) then (Again, r, b)
     else case locate_next_chronological_track api (rp_pools r) of
       Inl e \<Rightarrow> (Crashed e, r, b)
     | Inr None \<Rightarrow> (Exhausted, r, b)
     | Inr (Some key) \<Rightarrow>
         if key = [] then (Exhausted, r, b)
         else case map_of (rp_pools r) key of
           None \<Rightarrow> (Crashed KeyError, r, b)
         | Some p \<Rightarrow> (case pa_fetch api p of
             Inl e \<Rightarrow> (Crashed e, r, b)
           | Inr (rw, p') \<Rightarrow>
               let r1 = r\<lparr>rp_pools := AList.update key p' (rp_pools r)\<rparr> in
               (case rw_timestamp rw of
                  Plain _ \<Rightarrow> (Crashed AttributeError, r1, b)
                | Stamp ts \<Rightarrow>
                    let r2 = r1\<lparr>rp_clock := Some ts\<rparr> in
                    (case replay_payload (rp_symbol r) key rw of
                       Inl e \<Rightarrow> (Crashed e, r2, b)
                     | Inr (t, ev) \<Rightarrow> (case publish t ev b of
                         Inl e \<Rightarrow> (Crashed e, r2, b)
                       | Inr b' \<Rightarrow> if bus_full b then (Suspended (bus_sequence b), r2, b') else (Again, after_publish r2, b'))))))"

text \<open>Where the loop's coroutine stands: at the head of its loop, inside \<open>put\<close>, or gone. It stays inside \<open>put\<close> while its item waits.\<close>

datatype phase = Looping | Putting nat | Ended "py_exn option"

type_synonym ('p, 'h) replay_system = "phase \<times> 'p replay \<times> 'h event_bus"

definition loop_step :: "'p pool_api \<Rightarrow> ('p, 'h) replay_system \<Rightarrow> ('p, 'h) replay_system" where
  "loop_step api = (\<lambda>(ph, r, b).
     case ph of
       Ended e \<Rightarrow> (Ended e, r, b)
     | Putting n \<Rightarrow> if n \<in> item_seq ` set (bus_waiting b) then (Putting n, r, b) else (Looping, after_publish r, b)
     | Looping \<Rightarrow>
         if \<not> rp_running r then (Ended None, r, b)
         else (case replay_round api (r, b) of
             (Again, r', b') \<Rightarrow> (Looping, r', b')
           | (Suspended n, r', b') \<Rightarrow> (Putting n, r', b')
           | (Exhausted, r', b') \<Rightarrow> (Ended None, r', b')
           | (Crashed e, r', b') \<Rightarrow> (Ended (Some e), r', b')))"

text \<open>The loop among the other tasks: the bus's dispatcher and other publishers, and the controls.\<close>

datatype 'h replay_op = RLoop | RBus "'h bus_op" | RPause | RResume | RStep | RTerminate

fun replay_step :: "'p pool_api \<Rightarrow> ('h \<Rightarrow> payload \<Rightarrow> bool) \<Rightarrow> 'h replay_op \<Rightarrow> ('p, 'h) replay_system \<Rightarrow> ('p, 'h) replay_system" where
  "replay_step api fails RLoop st = loop_step api st"
| "replay_step api fails (RBus x) (ph, r, b) = (ph, r, bus_step fails x b)"
| "replay_step api fails RPause (ph, r, b) = (ph, r\<lparr>rp_controls := ctl_pause (rp_controls r)\<rparr>, b)"
| "replay_step api fails RResume (ph, r, b) = (ph, r\<lparr>rp_controls := ctl_resume (rp_controls r)\<rparr>, b)"
| "replay_step api fails RStep (ph, r, b) = (ph, r\<lparr>rp_controls := ctl_step (rp_controls r)\<rparr>, b)"
| "replay_step api fails RTerminate (ph, r, b) = (ph, replay_terminate r, b)"

fun replay_run :: "'p pool_api \<Rightarrow> ('h \<Rightarrow> payload \<Rightarrow> bool) \<Rightarrow> 'h replay_op list \<Rightarrow> ('p, 'h) replay_system \<Rightarrow> ('p, 'h) replay_system" where
  "replay_run api fails [] st = st"
| "replay_run api fails (x # xs) st = replay_run api fails xs (replay_step api fails x st)"

subsection \<open>What the loop relies on\<close>

text \<open>A buffer stands for the list \<open>rows p\<close> it still has to give: \<open>has_next\<close> tells whether it
  is empty, \<open>peek_next_node\<close> shows its head and \<open>fetch_next_node\<close> removes it.\<close>

definition pool_laws :: "'p pool_api \<Rightarrow> ('p \<Rightarrow> row list) \<Rightarrow> bool" where
  "pool_laws api rows \<longleftrightarrow>
     (\<exists>h. pa_has_next api = Some h \<and> (\<forall>p. h p \<longleftrightarrow> rows p \<noteq> []))
   \<and> (\<exists>pk. pa_peek api = Some pk \<and> (\<forall>p r rs. rows p = r # rs \<longrightarrow> pk p = Ok r))
   \<and> (\<forall>p r rs. rows p = r # rs \<longrightarrow> (\<exists>p'. pa_fetch api p = Ok (r, p') \<and> rows p' = rs))"

definition row_instant :: "row \<Rightarrow> int" where
  "row_instant r = dt_instant (row_datetime (rw_timestamp r))"

text \<open>A row the loop can process: a pandas timestamp with a time zone, and columns that convert.\<close>

definition row_ok :: "string \<Rightarrow> string \<Rightarrow> row \<Rightarrow> bool" where
  "row_ok symbol key r \<longleftrightarrow>
     (case rw_timestamp r of Stamp d \<Rightarrow> dt_off d \<noteq> None | Plain _ \<Rightarrow> False) \<and> is_ok (replay_payload symbol key r)"

definition replay_ready :: "('p \<Rightarrow> row list) \<Rightarrow> 'p replay \<Rightarrow> bool" where
  "replay_ready rows r \<longleftrightarrow> distinct (map fst (rp_pools r)) \<and> [] \<notin> fst ` set (rp_pools r)
     \<and> (\<forall>(key, p)\<in>set (rp_pools r). list_all (row_ok (rp_symbol r) key) (rows p))"

definition rows_left :: "('p \<Rightarrow> row list) \<Rightarrow> 'p replay \<Rightarrow> nat" where
  "rows_left rows r = sum_list (map (\<lambda>(key, p). length (rows p)) (rp_pools r))"

definition heads :: "('p \<Rightarrow> row list) \<Rightarrow> (string, 'p) dict \<Rightarrow> candidate list" where
  "heads rows pools = map (\<lambda>(key, p). (Some (row_datetime (rw_timestamp (hd (rows p)))), key)) (filter (\<lambda>(key, p). rows p \<noteq> []) pools)"

lemma candidates_heads:
  assumes "pool_laws api rows"
  shows "candidates api pools = Ok (heads rows pools)"
proof -
  obtain h pk where "pa_has_next api = Some h" "\<And>p. h p \<longleftrightarrow> rows p \<noteq> []"
    "pa_peek api = Some pk" "\<And>p r rs. rows p = r # rs \<Longrightarrow> pk p = Ok r"
    using assms by (auto simp: pool_laws_def)
  then show ?thesis
  proof (induction pools)
    case (Cons kp pools)
    then show ?case by (cases kp; cases "rows (snd kp)") (auto simp: heads_def)
  qed (simp add: heads_def)
qed

definition before :: "candidate \<Rightarrow> candidate \<Rightarrow> bool" where
  "before x y \<longleftrightarrow> dt_instant (the (fst x)) < dt_instant (the (fst y))"

definition aware :: "candidate \<Rightarrow> bool" where
  "aware x \<longleftrightarrow> (\<exists>d. fst x = Some d \<and> dt_off d \<noteq> None)"

lemma earliest_first_best:
  "aware m \<Longrightarrow> list_all aware xs \<Longrightarrow> earliest m xs = Ok (first_best before m xs)"
  by (induction xs arbitrary: m) (auto simp: aware_def before_def dt_lt_def dt_comparable_def)

lemma heads_aware:
  assumes "\<forall>(key, p)\<in>set pools. list_all (row_ok symbol key) (rows p)"
  shows "list_all aware (heads rows pools)"
proof -
  have "aware (Some (row_datetime (rw_timestamp (hd (rows p)))), key)" if "(key, p) \<in> set pools" "rows p \<noteq> []" for key p
  proof -
    from assms that(1) have "list_all (row_ok symbol key) (rows p)" by fast
    with that(2) have "row_ok symbol key (hd (rows p))" by (cases "rows p") auto
    then show ?thesis by (auto simp: row_ok_def aware_def split: row_time.splits)
  qed
  then show ?thesis by (auto simp: heads_def list_all_iff)
qed

text \<open>The scheduler finds a pool whose next row is the earliest of all next rows, and reports
  \<open>None\<close> exactly when every pool is exhausted.\<close>

lemma locate_earliest:
  assumes laws: "pool_laws api rows" and ok: "\<forall>(key, p)\<in>set pools. list_all (row_ok symbol key) (rows p)"
    and dist: "distinct (map fst pools)"
  shows "(\<forall>(key, p)\<in>set pools. rows p = []) \<and> locate_next_chronological_track api pools = Ok None
    \<or> (\<exists>key p r rs. locate_next_chronological_track api pools = Ok (Some key) \<and> (key, p) \<in> set pools \<and> rows p = r # rs
        \<and> (\<forall>(key', p')\<in>set pools. rows p' \<noteq> [] \<longrightarrow> row_instant r \<le> row_instant (hd (rows p'))))"
proof (cases "heads rows pools")
  case Nil
  then show ?thesis
    by (auto simp: locate_next_chronological_track_def candidates_heads [OF laws] heads_def filter_empty_conv)
next
  case (Cons c cs)
  define m where "m = first_best before c cs"
  have aw: "aware c" "list_all aware cs" using heads_aware [OF ok] Cons by auto
  have loc: "locate_next_chronological_track api pools = Ok (Some (snd m))"
    by (simp add: locate_next_chronological_track_def candidates_heads [OF laws] Cons earliest_first_best [OF aw] m_def)
  have "m \<in> set (heads rows pools)" unfolding Cons m_def by (rule first_best_in)
  then obtain key p where m: "(key, p) \<in> set pools" "rows p \<noteq> []" "m = (Some (row_datetime (rw_timestamp (hd (rows p)))), key)"
    by (auto simp: heads_def)
  have least: "\<not> before y m" if "y \<in> set (heads rows pools)" for y
    unfolding m_def
    by (rule first_best_best [where P = "\<lambda>_. True"]) (use that Cons in \<open>auto simp: before_def\<close>)
  have "row_instant (hd (rows p)) \<le> row_instant (hd (rows p'))" if "(key', p') \<in> set pools" "rows p' \<noteq> []" for key' p'
  proof -
    have "(Some (row_datetime (rw_timestamp (hd (rows p')))), key') \<in> set (heads rows pools)"
      using that by (force simp: heads_def)
    from least [OF this] show ?thesis by (simp add: before_def m row_instant_def)
  qed
  then show ?thesis using loc m by (cases "rows p") auto
qed

definition pending_rows :: "('p \<Rightarrow> row list) \<Rightarrow> 'p replay \<Rightarrow> string \<Rightarrow> row list" where
  "pending_rows rows r key = (case map_of (rp_pools r) key of None \<Rightarrow> [] | Some p \<Rightarrow> rows p)"

lemma sum_list_update:
  "distinct (map fst pools) \<Longrightarrow> map_of pools key = Some p \<Longrightarrow>
     sum_list (map (\<lambda>(key, p). f p) (AList.update key p' pools)) + f p = sum_list (map (\<lambda>(key, p). f p) pools) + (f p' :: nat)"
  by (induction pools) (auto split: if_splits)

lemma set_update_sub: "set (AList.update k v d) \<subseteq> insert (k, v) (set d)"
  by (induction d) auto

lemma rows_left_0: "rows_left rows r = 0 \<Longrightarrow> (key, p) \<in> set (rp_pools r) \<Longrightarrow> rows p = []"
  unfolding rows_left_def by (metis (mono_tags, lifting) case_prod_conv image_eqI length_0_conv list.set_map sum_list_eq_0_iff)

lemma no_rows_pending: "rows_left rows r = 0 \<Longrightarrow> pending_rows rows r k = []"
  using rows_left_0 [of rows r] by (auto simp: pending_rows_def split: option.splits dest: map_of_SomeD)

lemma replay_ready_cong: "rp_pools r' = rp_pools r \<Longrightarrow> rp_symbol r' = rp_symbol r \<Longrightarrow> replay_ready rows r' = replay_ready rows r"
  by (simp add: replay_ready_def)

lemma rows_cong: "rp_pools r' = rp_pools r \<Longrightarrow> rows_left rows r' = rows_left rows r \<and> pending_rows rows r' = pending_rows rows r"
  by (simp add: rows_left_def pending_rows_def fun_eq_iff)

lemma pending_rows_frame [simp]:
  "pending_rows rows (r\<lparr>rp_controls := c\<rparr>) = pending_rows rows r" "pending_rows rows (r\<lparr>rp_running := x\<rparr>) = pending_rows rows r"
  by (simp_all add: pending_rows_def fun_eq_iff)

lemma after_publish_fields [simp]:
  "rp_pools (after_publish r) = rp_pools r" "rp_symbol (after_publish r) = rp_symbol r" "rp_running (after_publish r) = rp_running r"
  by (simp_all add: after_publish_def)

lemma publish_running: "bus_running b \<Longrightarrow> \<exists>b'. publish t ev b = Ok b' \<and> bus_step fails (BPublish t ev) b = b'"
  by (simp add: publish_def Let_def)

text \<open>What one step of the loop can do at its head: nothing, end, or publish the earliest row there is.\<close>

lemma loop_step_exhausted:
  assumes "pool_laws api rows" "replay_ready rows r" "rows_left rows r = 0"
  shows "loop_step api (Looping, r, b) =
    (if rp_running r \<and> ct_paused (rp_controls r) \<and> \<not> ct_step_mode (rp_controls r) then (Looping, r, b) else (Ended None, r, b))"
proof -
  have "\<not> (\<exists>key p rw rs. (key, p) \<in> set (rp_pools r) \<and> rows p = rw # rs)" using rows_left_0 [OF assms(3)] by fastforce
  with locate_earliest [OF assms(1), of "rp_pools r" "rp_symbol r"] assms(2)
  show ?thesis by (auto simp: loop_step_def replay_round_def replay_ready_def)
qed

lemma loop_step_publishes:
  assumes laws: "pool_laws api rows" and ready: "replay_ready rows r" and left: "rows_left rows r > 0" and b: "bus_running b"
    and on: "rp_running r" "\<not> (ct_paused (rp_controls r) \<and> \<not> ct_step_mode (rp_controls r))"
  shows "\<exists>key rw t ev r' c. loop_step api (Looping, r, b)
      = (if bus_full b then Putting (bus_sequence b) else Looping, r'\<lparr>rp_controls := c\<rparr>, bus_step fails (BPublish t ev) b)
    \<and> replay_payload (rp_symbol r) key rw = Ok (t, ev) \<and> replay_ready rows r'
    \<and> rp_symbol r' = rp_symbol r \<and> rp_running r' = rp_running r \<and> rows_left rows r = Suc (rows_left rows r')
    \<and> (\<not> ct_step_mode (rp_controls r) \<longrightarrow> c = rp_controls r)
    \<and> pending_rows rows r = (pending_rows rows r')(key := rw # pending_rows rows r' key)
    \<and> (\<forall>k. pending_rows rows r k \<noteq> [] \<longrightarrow> row_instant rw \<le> row_instant (hd (pending_rows rows r k)))"
proof -
  have d: "distinct (map fst (rp_pools r))" and ne: "[] \<notin> fst ` set (rp_pools r)"
    and ok: "\<forall>(key, p)\<in>set (rp_pools r). list_all (row_ok (rp_symbol r) key) (rows p)"
    using ready by (auto simp: replay_ready_def)
  have "\<not> (\<forall>(key, p)\<in>set (rp_pools r). rows p = [])"
  proof
    assume "\<forall>(key, p)\<in>set (rp_pools r). rows p = []"
    then have "rows_left rows r = 0" by (auto simp: rows_left_def)
    with left show False by simp
  qed
  with locate_earliest [OF laws ok d] obtain key p rw rs where
    loc: "locate_next_chronological_track api (rp_pools r) = Ok (Some key)" and mem: "(key, p) \<in> set (rp_pools r)"
    and rows: "rows p = rw # rs"
    and least: "\<And>k q. (k, q) \<in> set (rp_pools r) \<Longrightarrow> rows q \<noteq> [] \<Longrightarrow> row_instant rw \<le> row_instant (hd (rows q))"
    by fast
  have m: "map_of (rp_pools r) key = Some p" using mem d by simp
  have key: "key \<noteq> []" using mem ne by force
  obtain p' where f: "pa_fetch api p = Ok (rw, p')" "rows p' = rs" using laws rows unfolding pool_laws_def by blast
  have okp: "list_all (row_ok (rp_symbol r) key) (rw # rs)" using ok mem rows by fastforce
  then obtain ts t ev where ts: "rw_timestamp rw = Stamp ts" and pl: "replay_payload (rp_symbol r) key rw = Ok (t, ev)"
    by (auto simp: row_ok_def is_ok_iff split: row_time.splits)
  obtain b' where b': "publish t ev b = Ok b'" "bus_step fails (BPublish t ev) b = b'" using publish_running [OF b] by blast
  define r' where "r' = r\<lparr>rp_pools := AList.update key p' (rp_pools r), rp_clock := Some ts\<rparr>"
  define c where "c = (if bus_full b then rp_controls r else rp_controls (after_publish r'))"
  have step: "loop_step api (Looping, r, b)
      = (if bus_full b then Putting (bus_sequence b) else Looping, r'\<lparr>rp_controls := c\<rparr>, b')"
    using on loc key m f ts pl b'(1)
    by (auto simp: loop_step_def replay_round_def r'_def c_def Let_def after_publish_def)
  have "replay_ready rows r'"
  proof -
    have "\<forall>(k, q)\<in>set (AList.update key p' (rp_pools r)). list_all (row_ok (rp_symbol r) k) (rows q)"
      using set_update_sub [of key p' "rp_pools r"] ok okp f(2) by auto
    moreover have "[] \<notin> fst ` set (AList.update key p' (rp_pools r))"
      using set_update_sub [of key p' "rp_pools r"] ne key by auto
    ultimately show ?thesis using distinct_update [OF d] by (simp add: replay_ready_def r'_def)
  qed
  moreover have "rows_left rows r = Suc (rows_left rows r')"
    using sum_list_update [OF d m, of "\<lambda>p. length (rows p)" p'] rows f(2) by (simp add: rows_left_def r'_def)
  moreover have "pending_rows rows r = (pending_rows rows r')(key := rw # pending_rows rows r' key)"
    using m rows f(2) by (auto simp: pending_rows_def r'_def fun_eq_iff)
  moreover have "row_instant rw \<le> row_instant (hd (pending_rows rows r k))" if "pending_rows rows r k \<noteq> []" for k
    using that least [of k] by (auto simp: pending_rows_def split: option.splits dest: map_of_SomeD)
  moreover have "rp_symbol r' = rp_symbol r" "rp_running r' = rp_running r" by (simp_all add: r'_def)
  moreover have "\<not> ct_step_mode (rp_controls r) \<longrightarrow> c = rp_controls r" by (simp add: c_def after_publish_def r'_def)
  ultimately show ?thesis using step pl b'(2) by blast
qed

subsection \<open>Runs\<close>

text \<open>What a run does to the bus: the rows the loop hands to \<open>publish\<close>, and the operations of the other tasks, in their order.\<close>

datatype 'h trace_step = RowPut string row | OtherStep "'h bus_op"

fun trace_apply :: "('h \<Rightarrow> payload \<Rightarrow> bool) \<Rightarrow> string \<Rightarrow> 'h trace_step \<Rightarrow> 'h event_bus \<Rightarrow> 'h event_bus" where
  "trace_apply fails symbol (RowPut key rw) b = (case replay_payload symbol key rw of Inl _ \<Rightarrow> b | Inr (t, ev) \<Rightarrow> bus_step fails (BPublish t ev) b)"
| "trace_apply fails symbol (OtherStep x) b = bus_step fails x b"

definition rows_put :: "'h trace_step list \<Rightarrow> (string \<times> row) list" where
  "rows_put tr = concat (map (\<lambda>x. case x of RowPut k rw \<Rightarrow> [(k, rw)] | OtherStep _ \<Rightarrow> []) tr)"

definition others_in :: "'h trace_step list \<Rightarrow> 'h bus_op list" where
  "others_in tr = concat (map (\<lambda>x. case x of RowPut _ _ \<Rightarrow> [] | OtherStep y \<Rightarrow> [y]) tr)"

definition bus_ops :: "'h replay_op list \<Rightarrow> 'h bus_op list" where
  "bus_ops ops = concat (map (\<lambda>x. case x of RBus y \<Rightarrow> [y] | _ \<Rightarrow> []) ops)"

text \<open>\<open>accounts\<close>: the rows put and the rows still pending are the rows there were; and when the buffers are in order of time the rows
  put are too, with nothing earlier left behind.\<close>

definition accounts :: "(string \<times> row) list \<Rightarrow> (string \<Rightarrow> row list) \<Rightarrow> (string \<Rightarrow> row list) \<Rightarrow> bool" where
  "accounts put after start \<longleftrightarrow> (\<forall>k. map snd (filter (\<lambda>x. fst x = k) put) @ after k = start k)
     \<and> ((\<forall>k. sorted (map row_instant (start k))) \<longrightarrow> sorted (map (row_instant \<circ> snd) put)
          \<and> (\<forall>x\<in>set put. \<forall>k. \<forall>y\<in>set (after k). row_instant (snd x) \<le> row_instant y))"

lemma accounts_none: "accounts [] p p"
  by (simp add: accounts_def)

lemma accounts_one:
  assumes "start = after(key := rw # after key)"
    and least: "\<And>k. start k \<noteq> [] \<Longrightarrow> row_instant rw \<le> row_instant (hd (start k))"
  shows "accounts [(key, rw)] after start"
proof -
  have "row_instant rw \<le> row_instant y" if "\<forall>k. sorted (map row_instant (start k))" "y \<in> set (after k)" for k y
  proof -
    from that(2) assms(1) have y: "y \<in> set (start k)" by auto
    then obtain z zs where z: "start k = z # zs" by (cases "start k") auto
    with least [of k] that(1) [rule_format, of k] y show ?thesis by (auto intro: order_trans)
  qed
  with assms(1) show ?thesis by (simp add: accounts_def)
qed

lemma accounts_append:
  assumes p: "accounts p after mid" and q: "accounts q mid start"
  shows "accounts (q @ p) after start"
proof -
  have mid: "start k = map snd (filter (\<lambda>x. fst x = k) q) @ mid k" "mid k = map snd (filter (\<lambda>x. fst x = k) p) @ after k" for k
    using p q by (auto simp: accounts_def)
  then have parts: "map snd (filter (\<lambda>x. fst x = k) (q @ p)) @ after k = start k" for k by simp
  have "sorted (map (row_instant \<circ> snd) (q @ p)) \<and> (\<forall>x\<in>set (q @ p). \<forall>k. \<forall>y\<in>set (after k). row_instant (snd x) \<le> row_instant y)"
    if srt: "\<forall>k. sorted (map row_instant (start k))"
  proof -
    have "sorted (map row_instant (mid k))" for k using srt [rule_format, of k] mid(1) [of k] by (simp add: sorted_append)
    with p have p': "sorted (map (row_instant \<circ> snd) p)" "\<forall>x\<in>set p. \<forall>k. \<forall>y\<in>set (after k). row_instant (snd x) \<le> row_instant y"
      by (simp_all add: accounts_def)
    from q srt have q': "sorted (map (row_instant \<circ> snd) q)" "\<forall>x\<in>set q. \<forall>k. \<forall>y\<in>set (mid k). row_instant (snd x) \<le> row_instant y"
      by (simp_all add: accounts_def)
    have "row_instant (snd x) \<le> row_instant (snd y)" if "x \<in> set q" "y \<in> set p" for x y
    proof -
      have "snd y \<in> set (mid (fst y))" unfolding mid(2) using that(2) by force
      with q'(2) that(1) show ?thesis by blast
    qed
    moreover have "row_instant (snd x) \<le> row_instant y" if "x \<in> set q" "y \<in> set (after k)" for x y k
    proof -
      have "y \<in> set (mid k)" unfolding mid(2) [of k] using that(2) by simp
      with q'(2) that(1) show ?thesis by blast
    qed
    ultimately show ?thesis using p' q' by (auto simp: sorted_append)
  qed
  with parts show ?thesis unfolding accounts_def by blast
qed

text \<open>Without other publishers, nothing waits for room but the row the loop is suspended on.\<close>

definition only_ours_waits :: "phase \<Rightarrow> 'h event_bus \<Rightarrow> bool" where
  "only_ours_waits ph b \<longleftrightarrow> bus_waiting b = [] \<or> (\<exists>n. ph = Putting n \<and> map item_seq (bus_waiting b) = [n])"

lemma bus_step_running: "bus_running b \<Longrightarrow> x \<noteq> BStop \<Longrightarrow> bus_running (bus_step fails x b)"
  by (cases x) (auto simp: bus_start_def subscribe_def publish_def resume_putter_def drain_step_def Let_def split: list.splits)

lemma bus_step_waiting: "\<forall>t ev. x \<noteq> BPublish t ev \<Longrightarrow> only_ours_waits ph b \<Longrightarrow> only_ours_waits ph (bus_step fails x b)"
  by (cases x) (auto simp: only_ours_waits_def bus_start_def bus_stop_def subscribe_def resume_putter_def drain_step_def Let_def
      split: list.splits option.splits)

lemma publish_waiting:
  "bus_running b \<Longrightarrow> bus_waiting b = [] \<Longrightarrow>
     only_ours_waits (if bus_full b then Putting (bus_sequence b) else Looping) (bus_step fails (BPublish t ev) b)"
  by (simp add: only_ours_waits_def publish_def Let_def)

text \<open>What a step or a run of the system leaves: the trace explains the bus and the rows.\<close>

definition explained :: "('p \<Rightarrow> row list) \<Rightarrow> ('h \<Rightarrow> payload \<Rightarrow> bool) \<Rightarrow> 'h replay_op list \<Rightarrow> ('p, 'h) replay_system \<Rightarrow> ('p, 'h) replay_system
    \<Rightarrow> 'h trace_step list \<Rightarrow> bool" where
  "explained rows fails ops = (\<lambda>(ph, r, b) (ph', r', b') tr.
       b' = fold (trace_apply fails (rp_symbol r)) tr b \<and> others_in tr = bus_ops ops
     \<and> accounts (rows_put tr) (pending_rows rows r') (pending_rows rows r)
     \<and> (\<forall>e. ph' = Ended e \<longrightarrow> ph = Ended e \<or> e = None) \<and> (ph' = Ended None \<and> rp_running r' \<longrightarrow> (\<forall>k. pending_rows rows r' k = []))
     \<and> ((\<forall>t ev. RBus (BPublish t ev) \<notin> set ops) \<and> only_ours_waits ph b \<longrightarrow> only_ours_waits ph' b'))"

definition replay_safe :: "('p \<Rightarrow> row list) \<Rightarrow> ('p, 'h) replay_system \<Rightarrow> bool" where
  "replay_safe rows = (\<lambda>(ph, r, b). replay_ready rows r \<and> bus_running b
     \<and> (ph = Ended None \<and> rp_running r \<longrightarrow> (\<forall>k. pending_rows rows r k = [])))"

lemma loop_step_explained:
  assumes laws: "pool_laws api rows" and safe: "replay_safe rows (ph, r, b)" and step: "loop_step api (ph, r, b) = (ph', r', b')"
  shows "replay_safe rows (ph', r', b') \<and> rp_symbol r' = rp_symbol r \<and> (\<exists>tr. explained rows fails [RLoop] (ph, r, b) (ph', r', b') tr)"
proof -
  have quiet: ?thesis if "b' = b" "rp_pools r' = rp_pools r" "rp_symbol r' = rp_symbol r" "\<forall>e. ph' = Ended e \<longrightarrow> ph = Ended e \<or> e = None"
    "ph' = Ended None \<and> rp_running r' \<longrightarrow> (\<forall>k. pending_rows rows r k = [])" "only_ours_waits ph b \<longrightarrow> only_ours_waits ph' b"
    using that safe rows_cong [OF that(2), of rows] replay_ready_cong [OF that(2,3), of rows]
    by (auto simp: replay_safe_def explained_def others_in_def bus_ops_def rows_put_def accounts_none intro!: exI [of _ "[]"])
  show ?thesis
  proof (cases ph)
    case (Putting n)
    with step show ?thesis
      by (intro quiet) (auto simp: loop_step_def only_ours_waits_def split: if_splits)
  next
    case (Ended e)
    with step safe show ?thesis by (intro quiet) (auto simp: loop_step_def replay_safe_def)
  next
    case Looping
    from safe have ready: "replay_ready rows r" and run: "bus_running b" by (simp_all add: replay_safe_def)
    show ?thesis
    proof (cases "rp_running r \<and> \<not> (ct_paused (rp_controls r) \<and> \<not> ct_step_mode (rp_controls r)) \<and> rows_left rows r > 0")
      case False
      then consider "\<not> rp_running r" | "rp_running r" "ct_paused (rp_controls r) \<and> \<not> ct_step_mode (rp_controls r)" | "rows_left rows r = 0"
        by auto
      then show ?thesis
      proof cases
        case 1
        with step Looping show ?thesis by (intro quiet) (auto simp: loop_step_def only_ours_waits_def)
      next
        case 2
        with step Looping show ?thesis by (intro quiet) (auto simp: loop_step_def replay_round_def only_ours_waits_def)
      next
        case 3
        with step Looping loop_step_exhausted [OF laws ready 3, of b] no_rows_pending [OF 3]
        show ?thesis by (intro quiet) (auto simp: only_ours_waits_def split: if_splits)
      qed
    next
      case True
      then have "rows_left rows r > 0" "rp_running r" "\<not> (ct_paused (rp_controls r) \<and> \<not> ct_step_mode (rp_controls r))" by auto
      from loop_step_publishes [OF laws ready this(1) run this(2,3)] obtain key rw t ev r1 c where
        s: "loop_step api (Looping, r, b)
          = (if bus_full b then Putting (bus_sequence b) else Looping, r1\<lparr>rp_controls := c\<rparr>, bus_step fails (BPublish t ev) b)"
        and pl: "replay_payload (rp_symbol r) key rw = Ok (t, ev)" and r1: "replay_ready rows r1" "rp_symbol r1 = rp_symbol r"
        and pend: "pending_rows rows r = (pending_rows rows r1)(key := rw # pending_rows rows r1 key)"
        and least: "\<And>k. pending_rows rows r k \<noteq> [] \<Longrightarrow> row_instant rw \<le> row_instant (hd (pending_rows rows r k))" by metis
      let ?r = "r1\<lparr>rp_controls := c\<rparr>"
      have same: "pending_rows rows ?r = pending_rows rows r1" "replay_ready rows ?r" using r1(1) by (simp_all add: pending_rows_def replay_ready_def fun_eq_iff)
      from step s Looping have ph': "ph' = (if bus_full b then Putting (bus_sequence b) else Looping)" "r' = ?r"
        "b' = bus_step fails (BPublish t ev) b" by auto
      have "explained rows fails [RLoop] (ph, r, b) (ph', r', b') [RowPut key rw]"
        using publish_waiting [OF run, of fails t ev] Looping pl accounts_one [OF pend least]
        by (auto simp: explained_def others_in_def bus_ops_def rows_put_def ph' same only_ours_waits_def [of Looping])
      moreover have "replay_safe rows (ph', r', b')"
        using same(2) bus_step_running [OF run, of "BPublish t ev" fails] by (auto simp: replay_safe_def ph')
      ultimately show ?thesis using r1(2) ph'(2) by auto
    qed
  qed
qed

lemma replay_step_explained:
  assumes "pool_laws api rows" "replay_safe rows (ph, r, b)" "x \<noteq> RBus BStop" "replay_step api fails x (ph, r, b) = (ph', r', b')"
  shows "replay_safe rows (ph', r', b') \<and> rp_symbol r' = rp_symbol r \<and> (\<exists>tr. explained rows fails [x] (ph, r, b) (ph', r', b') tr)"
proof (cases x)
  case RLoop
  with assms(4) have "loop_step api (ph, r, b) = (ph', r', b')" by simp
  from loop_step_explained [OF assms(1,2) this, of fails] RLoop show ?thesis by simp
next
  case (RBus y)
  have wait: "\<forall>t ev. BPublish t ev \<noteq> y \<Longrightarrow> only_ours_waits ph b \<Longrightarrow> only_ours_waits ph (bus_step fails y b)"
    using bus_step_waiting [of y ph b fails] by metis
  with RBus have "explained rows fails [x] (ph, r, b) (ph', r', b') [OtherStep y]"
    using assms(2,4) by (auto simp: explained_def others_in_def bus_ops_def rows_put_def accounts_none replay_safe_def)
  moreover have "replay_safe rows (ph', r', b')" using assms RBus by (auto simp: replay_safe_def bus_step_running)
  ultimately show ?thesis using assms(4) RBus by auto
qed (use assms in \<open>auto intro!: exI [of _ "[]"] simp: explained_def others_in_def bus_ops_def rows_put_def replay_terminate_def
        replay_safe_def replay_ready_def accounts_none\<close>)

lemma replay_run_explained:
  assumes laws: "pool_laws api rows"
  shows "replay_safe rows (ph, r, b) \<Longrightarrow> RBus BStop \<notin> set ops \<Longrightarrow> replay_run api fails ops (ph, r, b) = (ph', r', b') \<Longrightarrow>
    \<exists>tr. explained rows fails ops (ph, r, b) (ph', r', b') tr"
proof (induction ops arbitrary: ph r b)
  case Nil
  then show ?case
    by (intro exI [of _ "[]"]) (auto simp: explained_def others_in_def bus_ops_def rows_put_def accounts_none replay_safe_def)
next
  case (Cons x ops)
  obtain ph1 r1 b1 where st: "replay_step api fails x (ph, r, b) = (ph1, r1, b1)" by (cases "replay_step api fails x (ph, r, b)")
  have "x \<noteq> RBus BStop" using Cons.prems(2) by auto
  from replay_step_explained [OF laws Cons.prems(1) this st] obtain tr where safe: "replay_safe rows (ph1, r1, b1)"
    and sym: "rp_symbol r1 = rp_symbol r" and one: "explained rows fails [x] (ph, r, b) (ph1, r1, b1) tr" by blast
  from Cons.IH [OF safe] Cons.prems(2,3) st obtain tr2 where rest: "explained rows fails ops (ph1, r1, b1) (ph', r', b') tr2" by auto
  have "rows_put (tr @ tr2) = rows_put tr @ rows_put tr2" "others_in (tr @ tr2) = others_in tr @ others_in tr2"
    "bus_ops (x # ops) = bus_ops [x] @ bus_ops ops" by (simp_all add: rows_put_def others_in_def bus_ops_def)
  with one rest sym have "explained rows fails (x # ops) (ph, r, b) (ph', r', b') (tr @ tr2)"
    by (auto simp: explained_def intro: accounts_append)
  then show ?case by blast
qed

subsection \<open>The loop comes to its end\<close>

text \<open>Beside a dispatcher that takes one item and lets the waiting publisher run, a loop nobody stops needs two turns for a row at most.\<close>

definition turn :: "'h replay_op list" where
  "turn = [RLoop, RBus BDrain, RBus BResume]"

definition undisturbed :: "('p \<Rightarrow> row list) \<Rightarrow> ('p, 'h) replay_system \<Rightarrow> bool" where
  "undisturbed rows = (\<lambda>(ph, r, b). replay_ready rows r \<and> bus_running b \<and> rp_running r \<and> \<not> ct_paused (rp_controls r)
     \<and> \<not> ct_step_mode (rp_controls r) \<and> bus_waiting b = [] \<and> length (bus_queue b) \<le> bus_max_size b \<and> 0 < bus_max_size b
     \<and> (\<forall>e. ph = Ended e \<longrightarrow> e = None \<and> rows_left rows r = 0))"

fun turns_left :: "('p \<Rightarrow> row list) \<Rightarrow> ('p, 'h) replay_system \<Rightarrow> nat" where
  "turns_left rows (Ended e, r, b) = 0"
| "turns_left rows (Looping, r, b) = Suc (2 * rows_left rows r)"
| "turns_left rows (Putting n, r, b) = Suc (Suc (2 * rows_left rows r))"

lemma dispatch_makes_room:
  assumes "bus_running b" "length (bus_queue b) \<le> bus_max_size b" "0 < bus_max_size b"
    and "bus_waiting b = [] \<or> bus_full b \<and> (\<exists>x. bus_waiting b = [x])"
  shows "let b' = bus_step fails BResume (bus_step fails BDrain b)
    in bus_running b' \<and> bus_waiting b' = [] \<and> length (bus_queue b') \<le> bus_max_size b' \<and> 0 < bus_max_size b'"
proof (cases "bus_queue b")
  case Nil
  with assms have "bus_waiting b = []" by (auto simp: bus_full_def)
  with assms Nil show ?thesis by (simp add: drain_step_def resume_putter_def)
next
  case (Cons x q)
  with assms show ?thesis by (cases x) (auto simp: drain_step_def resume_putter_def bus_full_def Let_def)
qed

lemma turn_progress:
  assumes laws: "pool_laws api rows" and ok: "undisturbed rows st"
  shows "undisturbed rows (replay_run api fails turn st)
    \<and> (turns_left rows st \<noteq> 0 \<longrightarrow> turns_left rows (replay_run api fails turn st) < turns_left rows st)
    \<and> (turns_left rows st = 0 \<longrightarrow> turns_left rows (replay_run api fails turn st) = 0)"
proof -
  obtain ph r b where st: "st = (ph, r, b)" by (cases st)
  have after: "replay_run api fails turn st = (fst s, fst (snd s), bus_step fails BResume (bus_step fails BDrain (snd (snd s))))"
    if "loop_step api st = s" for s
    using that by (cases s) (simp add: turn_def)
  from ok have ready: "replay_ready rows r" and run: "bus_running b" "rp_running r"
      "\<not> (ct_paused (rp_controls r) \<and> \<not> ct_step_mode (rp_controls r))" and m: "\<not> ct_step_mode (rp_controls r)" "\<not> ct_paused (rp_controls r)"
    and q: "bus_waiting b = []" "length (bus_queue b) \<le> bus_max_size b" "0 < bus_max_size b"
    by (auto simp: undisturbed_def st)
  note still = dispatch_makes_room [OF run(1) q(2,3), of fails, unfolded Let_def, OF disjI1 [OF q(1)]]
  show ?thesis
  proof (cases ph)
    case (Ended e)
    with ok still after [of "(Ended e, r, b)"] show ?thesis by (simp add: st loop_step_def undisturbed_def del: bus_step.simps)
  next
    case (Putting n)
    with ok still after [of "(Looping, r, b)"] m q show ?thesis by (simp add: st loop_step_def undisturbed_def after_publish_def del: bus_step.simps)
  next
    case Looping
    show ?thesis
    proof (cases "rows_left rows r = 0")
      case True
      from loop_step_exhausted [OF laws ready True, of b] m have "loop_step api st = (Ended None, r, b)" by (simp add: st Looping)
      with ok still after True show ?thesis by (simp add: st Looping undisturbed_def del: bus_step.simps)
    next
      case False
      then have left: "rows_left rows r > 0" by simp
      from loop_step_publishes [OF laws ready left run] obtain key rw t ev r1 c where
        s: "loop_step api st = (if bus_full b then Putting (bus_sequence b) else Looping, r1\<lparr>rp_controls := c\<rparr>, bus_step fails (BPublish t ev) b)"
        and r1: "replay_ready rows r1" "rp_running r1 = rp_running r" "rows_left rows r = Suc (rows_left rows r1)" "c = rp_controls r"
        unfolding st Looping using m by metis
      let ?r = "r1\<lparr>rp_controls := c\<rparr>" and ?b = "bus_step fails (BPublish t ev) b"
      have b: "bus_running ?b" "length (bus_queue ?b) \<le> bus_max_size ?b" "0 < bus_max_size ?b"
          "bus_waiting ?b = [] \<or> bus_full ?b \<and> (\<exists>x. bus_waiting ?b = [x])"
        using run(1) q by (auto simp: publish_def Let_def bus_full_def)
      have "replay_ready rows ?r" "rows_left rows ?r = rows_left rows r1" using r1(1) by (simp_all add: replay_ready_def rows_left_def)
      with dispatch_makes_room [OF b, of fails] after [OF s] r1 m run show ?thesis
        by (simp add: undisturbed_def st Looping Let_def del: bus_step.simps)
    qed
  qed
qed

lemma turns_finish:
  assumes "pool_laws api rows"
  shows "undisturbed rows st \<Longrightarrow> turns_left rows st \<le> n \<Longrightarrow>
    turns_left rows (replay_run api fails (concat (replicate n turn)) st) = 0 \<and> undisturbed rows (replay_run api fails (concat (replicate n turn)) st)"
proof (induction n arbitrary: st)
  case (Suc n)
  have append: "replay_run api fails (xs @ ys) u = replay_run api fails ys (replay_run api fails xs u)" for xs ys u
    by (induction xs arbitrary: u) auto
  from turn_progress [OF assms Suc.prems(1), of fails] Suc.prems(2)
  have "undisturbed rows (replay_run api fails turn st)" "turns_left rows (replay_run api fails turn st) \<le> n" by (cases "turns_left rows st", auto)+
  from Suc.IH [OF this] show ?case by (simp add: append)
qed simp

text \<open>C8. Replay over the event bus, whatever the dispatcher, other publishers and the controls do in between. For buffers that behave as
  lists and rows that convert, and as long as nobody stops the bus: the bus is what the operations of the others and the rows the loop
  published make of it; every row is published once or still pending, each buffer's rows in their order, and when the buffers are in order
  of time the rows published are in order of time, none of them later than a pending one. The loop does not run ahead of a full queue: when
  nobody else publishes, only the row it is suspended on waits for room. It never ends by an exception, and when it ends without having
  been terminated every row has been published. And it does end: beside a dispatcher that takes one item at a turn, two turns for each
  row and one more are enough.\<close>

theorem replay_is_chronological_merge:
  assumes laws: "pool_laws api rows" and ready: "replay_ready rows r" and running: "bus_running b"
  shows "(RBus BStop \<notin> set ops \<longrightarrow>
      (let (ph', r', b') = replay_run api fails ops (Looping, r, b) in
       \<exists>tr. b' = fold (trace_apply fails (rp_symbol r)) tr b \<and> others_in tr = bus_ops ops
         \<and> (\<forall>k. map snd (filter (\<lambda>x. fst x = k) (rows_put tr)) @ pending_rows rows r' k = pending_rows rows r k)
         \<and> ((\<forall>k. sorted (map row_instant (pending_rows rows r k))) \<longrightarrow> sorted (map (row_instant \<circ> snd) (rows_put tr))
              \<and> (\<forall>x\<in>set (rows_put tr). \<forall>k. \<forall>y\<in>set (pending_rows rows r' k). row_instant (snd x) \<le> row_instant y))
         \<and> ((\<forall>t ev. RBus (BPublish t ev) \<notin> set ops) \<and> bus_waiting b = [] \<longrightarrow>
              bus_waiting b' = [] \<or> (\<exists>n. ph' = Putting n \<and> map item_seq (bus_waiting b') = [n]))
         \<and> (\<forall>e. ph' = Ended e \<longrightarrow> e = None \<and> (rp_running r' \<longrightarrow> (\<forall>k. pending_rows rows r' k = [])))))
    \<and> (rp_running r \<and> \<not> ct_paused (rp_controls r) \<and> \<not> ct_step_mode (rp_controls r) \<and> bus_waiting b = []
         \<and> length (bus_queue b) \<le> bus_max_size b \<and> 0 < bus_max_size b \<and> 2 * rows_left rows r < n \<longrightarrow>
       (let (ph', r', b') = replay_run api fails (concat (replicate n [RLoop, RBus BDrain, RBus BResume])) (Looping, r, b)
        in ph' = Ended None \<and> bus_waiting b' = [] \<and> (\<forall>k. pending_rows rows r' k = [])))"
proof (intro conjI impI)
  assume "RBus BStop \<notin> set ops"
  obtain ph' r' b' where run: "replay_run api fails ops (Looping, r, b) = (ph', r', b')" by (cases "replay_run api fails ops (Looping, r, b)")
  have "replay_safe rows (Looping, r, b)" using ready running by (simp add: replay_safe_def)
  from replay_run_explained [OF laws this \<open>RBus BStop \<notin> set ops\<close> run] obtain tr where
    "explained rows fails ops (Looping, r, b) (ph', r', b') tr" by blast
  then show "let (ph', r', b') = replay_run api fails ops (Looping, r, b) in
       \<exists>tr. b' = fold (trace_apply fails (rp_symbol r)) tr b \<and> others_in tr = bus_ops ops
         \<and> (\<forall>k. map snd (filter (\<lambda>x. fst x = k) (rows_put tr)) @ pending_rows rows r' k = pending_rows rows r k)
         \<and> ((\<forall>k. sorted (map row_instant (pending_rows rows r k))) \<longrightarrow> sorted (map (row_instant \<circ> snd) (rows_put tr))
              \<and> (\<forall>x\<in>set (rows_put tr). \<forall>k. \<forall>y\<in>set (pending_rows rows r' k). row_instant (snd x) \<le> row_instant y))
         \<and> ((\<forall>t ev. RBus (BPublish t ev) \<notin> set ops) \<and> bus_waiting b = [] \<longrightarrow>
              bus_waiting b' = [] \<or> (\<exists>n. ph' = Putting n \<and> map item_seq (bus_waiting b') = [n]))
         \<and> (\<forall>e. ph' = Ended e \<longrightarrow> e = None \<and> (rp_running r' \<longrightarrow> (\<forall>k. pending_rows rows r' k = [])))"
    unfolding run Let_def prod.case explained_def accounts_def only_ours_waits_def by (intro exI [of _ tr]) blast
next
  assume "rp_running r \<and> \<not> ct_paused (rp_controls r) \<and> \<not> ct_step_mode (rp_controls r) \<and> bus_waiting b = []
         \<and> length (bus_queue b) \<le> bus_max_size b \<and> 0 < bus_max_size b \<and> 2 * rows_left rows r < n"
  then have "undisturbed rows (Looping, r, b)" "turns_left rows (Looping, r, b) \<le> n"
    using ready running by (simp_all add: undisturbed_def)
  from turns_finish [OF laws this, of fails]
  show "let (ph', r', b') = replay_run api fails (concat (replicate n [RLoop, RBus BDrain, RBus BResume])) (Looping, r, b)
      in ph' = Ended None \<and> bus_waiting b' = [] \<and> (\<forall>k. pending_rows rows r' k = [])"
    unfolding turn_def
    by (cases "replay_run api fails (concat (replicate n [RLoop, RBus BDrain, RBus BResume])) (Looping, r, b)";
        cases "fst (replay_run api fails (concat (replicate n [RLoop, RBus BDrain, RBus BResume])) (Looping, r, b))")
       (auto simp: undisturbed_def no_rows_pending)
qed

definition list_pool :: "row list pool_api" where
  "list_pool = \<lparr>pa_has_next = Some (\<lambda>p. p \<noteq> []),
     pa_peek = Some (\<lambda>p. case p of [] \<Rightarrow> Raise IndexError | r # _ \<Rightarrow> Ok r),
     pa_fetch = (\<lambda>p. case p of [] \<Rightarrow> Raise IndexError | r # rs \<Rightarrow> Ok (r, rs))\<rparr>"

definition demo_row :: "int \<Rightarrow> row" where
  "demo_row t = \<lparr>rw_timestamp = Stamp (aware_utc t), rw_cells = [(''bid'', Fin 2000)]\<rparr>"

definition demo_replay :: "row list replay" where
  "demo_replay = attach_data_buffer ''a'' [demo_row 1, demo_row 3] (attach_data_buffer ''b'' [demo_row 2]
     (replay_bootstrap (replay_new demo_config)))"

text \<open>Three rows of two buffers over a bus with room for one: the loop suspends on the second and on the third.\<close>

definition demo_bus :: "unit event_bus" where
  "demo_bus = \<lparr>bus_subscribers = [], bus_queue = [], bus_waiting = [], bus_max_size = 1, bus_sequence = 0, bus_failures = 0, bus_running = True\<rparr>"

theorem replay_is_chronological_merge_witness:
  "fst (replay_run list_pool (\<lambda>_ _. False) (concat (replicate 7 [RLoop, RBus BDrain, RBus BResume])) (Looping, demo_replay, demo_bus)) = Ended None
   \<and> (\<exists>tr. snd (snd (replay_run list_pool (\<lambda>_ _. False) [RLoop, RLoop, RLoop, RBus BDrain, RBus BResume, RLoop] (Looping, demo_replay, demo_bus)))
           = fold (trace_apply (\<lambda>_ _. False) ''XAUUSD'') tr demo_bus \<and> sorted (map (row_instant \<circ> snd) (rows_put tr)))"
proof -
  have laws: "pool_laws list_pool (\<lambda>p. p)" by (auto simp: pool_laws_def list_pool_def)
  have pools: "rp_pools demo_replay = [(''b'', [demo_row 2]), (''a'', [demo_row 1, demo_row 3])]" "rp_symbol demo_replay = ''XAUUSD''"
    "rp_running demo_replay" "rp_controls demo_replay = controller_new"
    by (simp_all add: demo_replay_def attach_data_buffer_def register_stream_buffer_def replay_bootstrap_def replay_new_def demo_config_def)
  have ok: "row_ok ''XAUUSD'' k (demo_row t)" for k t
    by (simp add: row_ok_def demo_row_def aware_utc_def replay_payload_def convert_row_to_tick_def row_cell_def row_get_def)
  have ready: "replay_ready (\<lambda>p. p) demo_replay" by (simp add: replay_ready_def pools ok)
  have srt: "\<forall>k. sorted (map row_instant (pending_rows (\<lambda>p. p) demo_replay k))"
    by (simp add: pending_rows_def pools row_instant_def demo_row_def aware_utc_def dt_instant_def)
  have run: "bus_running demo_bus" by (simp add: demo_bus_def)
  note C8 = replay_is_chronological_merge [OF laws ready run, of "[RLoop, RLoop, RLoop, RBus BDrain, RBus BResume, RLoop]" "\<lambda>_ _. False" 7]
  have live: "rp_running demo_replay \<and> \<not> ct_paused (rp_controls demo_replay) \<and> \<not> ct_step_mode (rp_controls demo_replay) \<and> bus_waiting demo_bus = []
      \<and> length (bus_queue demo_bus) \<le> bus_max_size demo_bus \<and> 0 < bus_max_size demo_bus \<and> 2 * rows_left (\<lambda>p. p) demo_replay < 7"
    by (simp add: pools controller_new_def demo_bus_def rows_left_def)
  from C8 [THEN conjunct2, rule_format, OF live]
  have "fst (replay_run list_pool (\<lambda>_ _. False) (concat (replicate 7 [RLoop, RBus BDrain, RBus BResume])) (Looping, demo_replay, demo_bus)) = Ended None"
    unfolding Let_def split_beta by (rule conjunct1)
  moreover from C8 [THEN conjunct1] srt
  have "\<exists>tr. snd (snd (replay_run list_pool (\<lambda>_ _. False) [RLoop, RLoop, RLoop, RBus BDrain, RBus BResume, RLoop] (Looping, demo_replay, demo_bus)))
      = fold (trace_apply (\<lambda>_ _. False) ''XAUUSD'') tr demo_bus \<and> sorted (map (row_instant \<circ> snd) (rows_put tr))"
    unfolding Let_def split_beta pools(2) by (auto simp del: replay_run.simps)
  ultimately show ?thesis by blast
qed

end
