(* ===== verification/TradeProtection.thy ===== *)
theory TradeProtection
  imports PyVal PyLiterals
begin

section \<open>Protection before and after submission (src/execution)\<close>

text \<open>
  \<open>pre_submission_guard.py\<close>: the quote activity monitor and the last check before an order is
  routed. \<open>position_tracker.py\<close>: the persisted plan of the managed trade, its reconciliation
  with the broker's positions, and the candle-confirmed trailing stop.
\<close>

subsection \<open>Quote activity\<close>

record quote_activity =
  qa_is_fresh :: bool
  qa_quote_age_seconds :: pyfloat
  qa_updates_observed :: int

type_synonym quote_signature = "datetime \<times> pyfloat \<times> pyfloat \<times> int"

definition signature :: "tick_node \<Rightarrow> quote_signature" where
  "signature t = (tk_timestamp t, tk_bid t, tk_ask t, tk_volume t)"

fun sig_eq :: "quote_signature \<Rightarrow> quote_signature \<Rightarrow> bool" where
  "sig_eq (t, b, a, v) (t', b', a', v') = (dt_eq t t' \<and> feq b b' \<and> feq a a' \<and> v = v')"

record quote_monitor =
  qm_limit :: pyfloat
  qm_previous :: "quote_signature option"
  qm_last_update :: "pyfloat option"
  qm_updates :: int

definition monitor_new :: "pyfloat \<Rightarrow> quote_monitor res" where
  "monitor_new limit =
     (if fle limit (Fin 0) then Raise (ValueError ''Quote inactivity limit must be positive.'')
      else Ok \<lparr>qm_limit = limit, qm_previous = None, qm_last_update = None, qm_updates = 0\<rparr>)"

definition monitor_observe :: "tick_node \<Rightarrow> pyfloat \<Rightarrow> quote_monitor \<Rightarrow> quote_activity \<times> quote_monitor" where
  "monitor_observe tick observed_at q =
     (let s = signature tick;
          q' = (case qm_previous q of
                  None \<Rightarrow> q\<lparr>qm_previous := Some s\<rparr>
                | Some p \<Rightarrow> if \<not> sig_eq s p
                            then q\<lparr>qm_previous := Some s, qm_last_update := Some observed_at, qm_updates := qm_updates q + 1\<rparr>
                            else q);
          age = (case qm_last_update q' of None \<Rightarrow> PInf | Some t \<Rightarrow> py_max (Fin 0) (fsub observed_at t))
      in (\<lparr>qa_is_fresh = fle age (qm_limit q'), qa_quote_age_seconds = age, qa_updates_observed = qm_updates q'\<rparr>, q'))"

fun monitor_run :: "(tick_node \<times> pyfloat) list \<Rightarrow> quote_monitor \<Rightarrow> quote_activity list" where
  "monitor_run [] q = []"
| "monitor_run ((t, tm) # obs) q = (let (a, q') = monitor_observe t tm q in a # monitor_run obs q')"

subsection \<open>The pre-submission guard\<close>

record presubmission_guard =
  pg_maximum_spread_price :: pyfloat
  pg_maximum_quote_age_seconds :: pyfloat
  pg_currency_risk_tolerance :: pyfloat

definition guard_new :: "pyfloat \<Rightarrow> pyfloat \<Rightarrow> pyfloat \<Rightarrow> presubmission_guard res" where
  "guard_new spread age tol =
     (if fle spread (Fin 0) \<or> fle age (Fin 0) then Raise (ValueError ''Spread and quote-age limits must be positive.'')
      else if flt tol (Fin 0) then Raise (ValueError ''Currency risk tolerance cannot be negative.'')
      else Ok \<lparr>pg_maximum_spread_price = spread, pg_maximum_quote_age_seconds = age, pg_currency_risk_tolerance = tol\<rparr>)"

definition valid_geometry :: "order_direction \<Rightarrow> pyfloat \<Rightarrow> pyfloat \<Rightarrow> pyfloat \<Rightarrow> bool" where
  "valid_geometry d entry sl tp =
     (if d = BUY then flt sl entry \<and> flt entry tp else flt tp entry \<and> flt entry sl)"

definition guard_evaluate ::
  "presubmission_guard \<Rightarrow> order_direction \<Rightarrow> pyfloat \<Rightarrow> pyfloat \<Rightarrow> pyfloat \<Rightarrow> pyfloat \<Rightarrow> pyfloat \<Rightarrow> pyfloat \<Rightarrow> pyfloat \<Rightarrow> pyfloat
     \<Rightarrow> presubmission_assessment" where
  "guard_evaluate g d entry sl tp lots currency_risk max_risk spread age =
     (let r1 = (if fle lots (Fin 0) then [''BROKER_NORMALIZED_VOLUME_IS_ZERO''] else []);
          r2 = (if flt (pg_maximum_quote_age_seconds g) age then [''BROKER_QUOTE_IS_STALE''] else []);
          r3 = (if flt (pg_maximum_spread_price g) spread then [''LIVE_SPREAD_EXCEEDS_PRE_SUBMISSION_LIMIT''] else []);
          r4 = (if fle max_risk (Fin 0) \<or> fle currency_risk (Fin 0) then [''LIVE_STOP_CURRENCY_RISK_IS_INVALID'']
                else if flt (fadd max_risk (pg_currency_risk_tolerance g)) currency_risk
                then [''LIVE_STOP_CURRENCY_RISK_EXCEEDS_APPROVED_BUDGET''] else []);
          r5 = (if \<not> valid_geometry d entry sl tp then [''LIVE_ENTRY_INVALIDATES_STOP_TARGET_GEOMETRY''] else []);
          reasons = r1 @ r2 @ r3 @ r4 @ r5
      in \<lparr>pa_is_approved = (reasons = []), pa_live_entry_price = entry, pa_normalized_lots = lots,
          pa_currency_risk = currency_risk, pa_maximum_currency_risk = max_risk, pa_spread_price = spread,
          pa_quote_age_seconds = age, pa_rejection_reasons = reasons, pa_requested_lots = Fin 0,
          pa_adapted_to_fit_risk = False, pa_demo_minimum_lot_override = False\<rparr>)"

subsection \<open>The managed trade plan\<close>

record managed_plan =
  mp_symbol :: string
  mp_ticket :: int
  mp_direction :: order_direction
  mp_entry :: pyfloat
  mp_initial_stop_loss :: pyfloat
  mp_final_take_profit :: pyfloat
  mp_last_confirmed_milestone :: int

text \<open>The plan file holds a JSON document, or does not exist. \<open>str\<close>, \<open>int\<close> and \<open>float\<close> of a value
  of another type are given by the arguments \<open>show\<close>, \<open>int_text\<close> and \<open>float_text\<close>.\<close>

fun py_str :: "(pyval \<Rightarrow> string) \<Rightarrow> pyval \<Rightarrow> string" where
  "py_str _ (PStr s) = s"
| "py_str shw v = shw v"

fun py_int :: "(string \<Rightarrow> int res) \<Rightarrow> pyval \<Rightarrow> int res" where
  "py_int _ (PInt i) = Ok i"
| "py_int _ (PBool b) = Ok (if b then 1 else 0)"
| "py_int _ (PFloat (Fin q)) = Ok (if q < 0 then - \<lfloor>- q\<rfloor> else \<lfloor>q\<rfloor>)"
| "py_int _ (PFloat NaN) = Raise (ValueError ''cannot convert float NaN to integer'')"
| "py_int _ (PFloat _) = Raise OverflowError"
| "py_int conv (PStr s) = conv s"
| "py_int _ _ = Raise TypeError"

fun py_float :: "(string \<Rightarrow> pyfloat res) \<Rightarrow> pyval \<Rightarrow> pyfloat res" where
  "py_float _ (PFloat f) = Ok f"
| "py_float _ (PInt i) = (if is_fin (fof_int i) then Ok (fof_int i) else Raise OverflowError)"
| "py_float _ (PBool b) = Ok (if b then Fin 1 else Fin 0)"
| "py_float conv (PStr s) = conv s"
| "py_float _ _ = Raise TypeError"

definition direction_of_value :: "pyval \<Rightarrow> order_direction res" where
  "direction_of_value v =
     (if v = PStr ''BUY'' then Ok BUY else if v = PStr ''SELL'' then Ok SELL
      else Raise (ValueError ''not a valid OrderDirection''))"

definition plan_payload :: "managed_plan \<Rightarrow> pyval" where
  "plan_payload p = PDict
     [(''symbol'', PStr (mp_symbol p)), (''ticket'', PInt (mp_ticket p)),
      (''direction'', PStr (direction_value (mp_direction p))), (''entry'', PFloat (mp_entry p)),
      (''initial_stop_loss'', PFloat (mp_initial_stop_loss p)),
      (''final_take_profit'', PFloat (mp_final_take_profit p)),
      (''last_confirmed_milestone'', PInt (mp_last_confirmed_milestone p))]"

definition plan_save :: "managed_plan \<Rightarrow> pyval option \<Rightarrow> pyval option" where
  "plan_save p file = Some (plan_payload p)"

definition plan_load ::
  "(pyval \<Rightarrow> string) \<Rightarrow> (string \<Rightarrow> int res) \<Rightarrow> (string \<Rightarrow> pyfloat res) \<Rightarrow> pyval option \<Rightarrow> managed_plan option res" where
  "plan_load shw int_text float_text file =
     (case file of None \<Rightarrow> Ok None
      | Some payload \<Rightarrow>
          rbind (rmap (py_str shw) (pitem payload ''symbol'')) (\<lambda>symbol.
          rbind (rbind (pitem payload ''ticket'') (py_int int_text)) (\<lambda>ticket.
          rbind (rbind (pitem payload ''direction'') direction_of_value) (\<lambda>direction.
          rbind (rbind (pitem payload ''entry'') (py_float float_text)) (\<lambda>entry.
          rbind (rbind (pitem payload ''initial_stop_loss'') (py_float float_text)) (\<lambda>sl.
          rbind (rbind (pitem payload ''final_take_profit'') (py_float float_text)) (\<lambda>tp.
          rbind (case payload of PDict d \<Rightarrow> py_int int_text (pget d ''last_confirmed_milestone'' (PInt 0))
                 | _ \<Rightarrow> Raise TypeError) (\<lambda>milestone.
          Ok (Some \<lparr>mp_symbol = symbol, mp_ticket = ticket, mp_direction = direction, mp_entry = entry,
                    mp_initial_stop_loss = sl, mp_final_take_profit = tp,
                    mp_last_confirmed_milestone = milestone\<rparr>)))))))))"

definition plan_clear :: "pyval option \<Rightarrow> pyval option" where
  "plan_clear file = None"

record reconciliation =
  rc_status :: string
  rc_active_plan :: "managed_plan option"
  rc_clear_stale_plan :: bool
  rc_blocks_new_entries :: bool
  rc_allows_automatic_management :: bool

definition reconciler_new :: "pyfloat \<Rightarrow> pyfloat res" where
  "reconciler_new tol =
     (if flt tol (Fin 0) then Raise (ValueError ''price_tolerance cannot be negative.'') else Ok tol)"

definition unmanaged :: "string \<Rightarrow> reconciliation" where
  "unmanaged status = \<lparr>rc_status = status, rc_active_plan = None, rc_clear_stale_plan = False,
     rc_blocks_new_entries = True, rc_allows_automatic_management = False\<rparr>"

definition price_matches :: "pyfloat \<Rightarrow> pyfloat \<Rightarrow> pyfloat \<Rightarrow> bool" where
  "price_matches tol a b = fle (fabs (fsub a b)) tol"

definition valid_risk_geometry :: "managed_plan \<Rightarrow> pyfloat \<Rightarrow> bool" where
  "valid_risk_geometry p broker_stop =
     (if fle broker_stop (Fin 0) then False
      else if mp_direction p = BUY
      then flt (mp_initial_stop_loss p) (mp_entry p) \<and> flt (mp_entry p) (mp_final_take_profit p)
           \<and> flt broker_stop (mp_final_take_profit p)
      else flt (mp_final_take_profit p) (mp_entry p) \<and> flt (mp_entry p) (mp_initial_stop_loss p)
           \<and> flt (mp_final_take_profit p) broker_stop)"

definition reconcile :: "pyfloat \<Rightarrow> managed_plan option \<Rightarrow> position_snapshot list \<Rightarrow> reconciliation" where
  "reconcile tol plan positions =
     (case positions of
        [] \<Rightarrow> \<lparr>rc_status = (if plan \<noteq> None then ''STALE_LOCAL_PLAN_CLEARED_NO_OPEN_POSITION'' else ''NO_OPEN_POSITION''),
               rc_active_plan = None, rc_clear_stale_plan = (plan \<noteq> None),
               rc_blocks_new_entries = False, rc_allows_automatic_management = False\<rparr>
      | pos # _ # _ \<Rightarrow> unmanaged ''UNSAFE_MULTIPLE_OPEN_GOLD_POSITIONS_NO_AUTO_MANAGEMENT''
      | [pos] \<Rightarrow>
          (case plan of None \<Rightarrow> unmanaged ''OPEN_POSITION_HAS_NO_LOCAL_RISK_PLAN''
           | Some p \<Rightarrow>
               if ps_ticket pos \<noteq> mp_ticket p then unmanaged ''LOCAL_PLAN_TICKET_DOES_NOT_MATCH_OPEN_POSITION''
               else if ps_symbol pos \<noteq> mp_symbol p \<or> ps_direction pos \<noteq> Some (mp_direction p)
               then unmanaged ''LOCAL_PLAN_SYMBOL_OR_DIRECTION_MISMATCH''
               else if \<not> price_matches tol (ps_average_entry_price pos) (mp_entry p)
               then unmanaged ''LOCAL_PLAN_ENTRY_PRICE_MISMATCH''
               else if \<not> price_matches tol (ps_take_profit pos) (mp_final_take_profit p)
               then unmanaged ''LOCAL_PLAN_TAKE_PROFIT_MISMATCH''
               else if \<not> valid_risk_geometry p (ps_stop_loss pos)
               then unmanaged ''LOCAL_PLAN_OR_BROKER_STOP_GEOMETRY_INVALID''
               else \<lparr>rc_status = ''MATCHED_OPEN_POSITION_AUTOMATIC_MANAGEMENT_AVAILABLE'',
                     rc_active_plan = Some p, rc_clear_stale_plan = False,
                     rc_blocks_new_entries = True, rc_allows_automatic_management = True\<rparr>))"

subsection \<open>The trailing stop\<close>

record trailing_decision =
  td_should_modify :: bool
  td_stop_loss :: "pyfloat option"
  td_confirmed_milestone :: int
  td_protected_milestone :: int
  td_reason :: string

record trail_config =
  tc_confirmation_buffer_r :: pyfloat
  tc_trailing_buffer_r :: pyfloat
  tc_maximum_milestones :: int

definition trail_new :: "pyfloat \<Rightarrow> pyfloat \<Rightarrow> int \<Rightarrow> trail_config res" where
  "trail_new conf trail mx =
     (if \<not> (fle (Fin 0) conf \<and> flt conf (Fin 1)) then Raise (ValueError ''confirmation_buffer_r must be between 0 and 1.'')
      else if \<not> (fle (Fin 0) trail \<and> flt trail (Fin 1)) then Raise (ValueError ''trailing_buffer_r must be between 0 and 1.'')
      else if mx < 1 then Raise (ValueError ''maximum_milestones must be positive.'')
      else Ok \<lparr>tc_confirmation_buffer_r = conf, tc_trailing_buffer_r = trail, tc_maximum_milestones = mx\<rparr>)"

definition direction_sign :: "order_direction \<Rightarrow> pyfloat" where
  "direction_sign d = (if d = BUY then Fin 1 else Fin (- 1))"

definition improves_stop :: "order_direction \<Rightarrow> pyfloat \<Rightarrow> pyfloat \<Rightarrow> bool" where
  "improves_stop d proposed current = (if d = BUY then flt current proposed else flt proposed current)"

definition favorable_close_r :: "order_direction \<Rightarrow> pyfloat \<Rightarrow> pyfloat \<Rightarrow> candle_node \<Rightarrow> pyfloat" where
  "favorable_close_r d entry risk candle =
     fdiv (fmul (direction_sign d) (fsub (cn_close_p candle) entry)) risk"

definition no_modification :: "int \<Rightarrow> int \<Rightarrow> string \<Rightarrow> trailing_decision" where
  "no_modification confirmed protected_m reason =
     \<lparr>td_should_modify = False, td_stop_loss = None, td_confirmed_milestone = confirmed,
      td_protected_milestone = protected_m, td_reason = reason\<rparr>"

text \<open>The second half of the evaluation, from the two floors on.\<close>

definition trail_decide ::
  "trail_config \<Rightarrow> order_direction \<Rightarrow> pyfloat \<Rightarrow> pyfloat \<Rightarrow> pyfloat \<Rightarrow> int \<Rightarrow> int \<Rightarrow> int \<Rightarrow> trailing_decision" where
  "trail_decide c d entry risk current last_confirmed planned reached =
     (let maximum_milestone = min (tc_maximum_milestones c) (max 1 planned);
          confirmed = min maximum_milestone reached
      in if confirmed \<le> last_confirmed \<or> confirmed < 1
         then no_modification last_confirmed 0 ''NO_NEW_CONFIRMED_MILESTONE''
         else
         let protected_milestone = max 0 (confirmed - 1);
             protected_r = fsub (fof_int protected_milestone) (tc_trailing_buffer_r c);
             proposed = fadd entry (fmul (fmul (direction_sign d) protected_r) risk)
         in if \<not> improves_stop d proposed current
            then no_modification confirmed protected_milestone ''STOP_ALREADY_MORE_PROTECTIVE''
            else \<lparr>td_should_modify = True, td_stop_loss = Some proposed, td_confirmed_milestone = confirmed,
                  td_protected_milestone = protected_milestone,
                  td_reason = ''CANDLE_CONFIRMED_BUFFERED_MILESTONE_TRAIL''\<rparr>)"

definition evaluate_candle_confirmed_trail ::
  "trail_config \<Rightarrow> order_direction \<Rightarrow> pyfloat \<Rightarrow> pyfloat \<Rightarrow> pyfloat \<Rightarrow> pyfloat \<Rightarrow> candle_node \<Rightarrow> int \<Rightarrow> trailing_decision res" where
  "evaluate_candle_confirmed_trail c d entry initial current tp candle last_confirmed =
     (let risk = fabs (fsub entry initial)
      in if fle risk (Fin 0) then Ok (no_modification last_confirmed 0 ''INVALID_INITIAL_RISK'')
         else
         rbind (py_floor (fadd (fdiv (fabs (fsub tp entry)) risk) (lit (1/1000000000)))) (\<lambda>planned.
         rmap (\<lambda>reached. trail_decide c d entry risk current last_confirmed planned reached)
           (py_floor (fsub (favorable_close_r d entry risk candle) (tc_confirmation_buffer_r c)))))"

text \<open>Managing a trade over successive closed candles: a decision to modify moves the stop, and
  the confirmed milestone is carried to the next candle. A candle whose evaluation raises
  changes nothing.\<close>

definition apply_trail ::
  "trail_config \<Rightarrow> order_direction \<Rightarrow> pyfloat \<Rightarrow> pyfloat \<Rightarrow> pyfloat \<Rightarrow> candle_node \<Rightarrow> pyfloat \<times> int \<Rightarrow> pyfloat \<times> int" where
  "apply_trail c d entry initial tp candle sm =
     (case evaluate_candle_confirmed_trail c d entry initial (fst sm) tp candle (snd sm) of
        Inl _ \<Rightarrow> sm
      | Inr dec \<Rightarrow> (case td_stop_loss dec of Some s \<Rightarrow> s | None \<Rightarrow> fst sm, td_confirmed_milestone dec))"

definition no_looser :: "order_direction \<Rightarrow> pyfloat \<Rightarrow> pyfloat \<Rightarrow> bool" where
  "no_looser d old new = (if d = BUY then fle old new else fle new old)"

subsection \<open>Quotes and the guard\<close>

lemma observe_same:
  assumes "qm_previous q = Some p" "sig_eq (signature t) p"
  shows "monitor_observe t tm q =
    (let age = (case qm_last_update q of None \<Rightarrow> PInf | Some u \<Rightarrow> py_max (Fin 0) (fsub tm u))
     in (\<lparr>qa_is_fresh = fle age (qm_limit q), qa_quote_age_seconds = age, qa_updates_observed = qm_updates q\<rparr>, q))"
  using assms by (simp add: monitor_observe_def Let_def)

text \<open>A feed that repeats one quote is never called fresh, whatever the clock says and
  however often it is polled: freshness needs an observed change.\<close>

theorem repeated_quote_never_fresh:
  assumes new: "monitor_new limit = Ok q" and lim: "is_fin limit"
    and same: "\<And>s t. s \<in> fst ` set obs \<Longrightarrow> t \<in> fst ` set obs \<Longrightarrow> sig_eq (signature s) (signature t)"
  shows "list_all (\<lambda>a. \<not> qa_is_fresh a \<and> qa_updates_observed a = 0) (monitor_run obs q)"
proof -
  have inf: "\<not> fle PInf limit" using lim by (cases limit) auto
  have rest: "list_all (\<lambda>a. \<not> qa_is_fresh a \<and> qa_updates_observed a = 0) (monitor_run obs q)"
    if "qm_previous q = Some p" "qm_last_update q = None" "qm_limit q = limit" "qm_updates q = 0"
      "\<And>t. t \<in> fst ` set obs \<Longrightarrow> sig_eq (signature t) p" for obs p q
    using that
  proof (induction obs)
    case (Cons ob obs)
    then show ?case by (cases ob) (simp add: observe_same inf Let_def)
  qed simp
  have q: "qm_previous q = None" "qm_last_update q = None" "qm_limit q = limit" "qm_updates q = 0"
    using new by (auto simp: monitor_new_def split: if_splits)
  show ?thesis
  proof (cases obs)
    case (Cons ob obs')
    obtain t tm where ob: "ob = (t, tm)" by (cases ob)
    have "monitor_observe t tm q = (\<lparr>qa_is_fresh = False, qa_quote_age_seconds = PInf, qa_updates_observed = 0\<rparr>,
        q\<lparr>qm_previous := Some (signature t)\<rparr>)"
      using q inf by (simp add: monitor_observe_def Let_def)
    moreover have "list_all (\<lambda>a. \<not> qa_is_fresh a \<and> qa_updates_observed a = 0)
        (monitor_run obs' (q\<lparr>qm_previous := Some (signature t)\<rparr>))"
      by (rule rest [of _ "signature t"]) (use q same Cons ob in auto)
    ultimately show ?thesis by (simp add: Cons ob)
  qed simp
qed

definition demo_tick :: tick_node where
  "demo_tick = \<lparr>tk_symbol = ''XAUUSD'', tk_timestamp = naive 0, tk_bid = Fin 2000, tk_ask = Fin 2001, tk_volume = 1,
     tk_sequence_id = 1, tk_trace_id = ''t'', tk_correlation_id = ''c'', tk_priority = HIGH\<rparr>"

theorem repeated_quote_never_fresh_witness:
  "case monitor_new (Fin 5) of Inl _ \<Rightarrow> False
   | Inr q \<Rightarrow> list_all (\<lambda>a. \<not> qa_is_fresh a \<and> qa_updates_observed a = 0)
       (monitor_run [(demo_tick, Fin 1), (demo_tick, Fin 2), (demo_tick, Fin 3)] q)"
proof -
  obtain q where q: "monitor_new (Fin 5) = Ok q" by (simp add: monitor_new_def)
  have "is_fin (Fin 5)" by simp
  then show ?thesis using repeated_quote_never_fresh [OF q, of "[(demo_tick, Fin 1), (demo_tick, Fin 2), (demo_tick, Fin 3)]"]
    by (simp add: q signature_def demo_tick_def feq_def)
qed

text \<open>C21. For finite figures the guard approves an order only if its size is positive, quote
  age and spread are within their limits, the currency risk at the stop is positive and within
  the approved budget plus the tolerance, and the live entry lies strictly between the stop and
  the target on the sides the direction demands.\<close>

theorem guard_approval_is_safe:
  assumes "pa_is_approved (guard_evaluate g d entry sl tp lots crisk mrisk spread age)"
    and "is_fin lots" "is_fin crisk" "is_fin mrisk" "is_fin spread" "is_fin age"
    and "is_fin (pg_maximum_spread_price g)" "is_fin (pg_maximum_quote_age_seconds g)" "is_fin (pg_currency_risk_tolerance g)"
  shows "flt (Fin 0) lots \<and> fle age (pg_maximum_quote_age_seconds g) \<and> fle spread (pg_maximum_spread_price g)
    \<and> flt (Fin 0) crisk \<and> fle crisk (fadd mrisk (pg_currency_risk_tolerance g))
    \<and> (d = BUY \<longrightarrow> flt sl entry \<and> flt entry tp) \<and> (d = SELL \<longrightarrow> flt tp entry \<and> flt entry sl)"
proof -
  have nn: "is_fin x \<Longrightarrow> x \<noteq> NaN" for x by (cases x) auto
  have add: "fadd mrisk (pg_currency_risk_tolerance g) \<noteq> NaN"
    using assms(4,9) by (cases mrisk; cases "pg_currency_risk_tolerance g") auto
  have "\<not> fle lots (Fin 0)" "\<not> flt (pg_maximum_quote_age_seconds g) age" "\<not> flt (pg_maximum_spread_price g) spread"
    "\<not> fle crisk (Fin 0)" "\<not> flt (fadd mrisk (pg_currency_risk_tolerance g)) crisk" "valid_geometry d entry sl tp"
    using assms(1) by (auto simp: guard_evaluate_def Let_def split: if_splits)
  then show ?thesis using nn [OF assms(2)] nn [OF assms(3)] nn [OF assms(5)] nn [OF assms(6)] nn [OF assms(7)] nn [OF assms(8)] add
    by (auto simp: not_flt not_fle valid_geometry_def)
qed

definition demo_guard :: presubmission_guard where
  "demo_guard = \<lparr>pg_maximum_spread_price = Fin 1, pg_maximum_quote_age_seconds = Fin 5, pg_currency_risk_tolerance = Fin 0\<rparr>"

theorem guard_approval_is_safe_witness:
  "pa_is_approved (guard_evaluate demo_guard SELL (Fin 2000) (Fin 2008) (Fin 1980) (Fin (1/4)) (Fin 50) (Fin 60) (Fin (1/2)) (Fin 2))
   \<and> flt (Fin 0) (Fin (1/4)) \<and> fle (Fin 50) (fadd (Fin 60) (Fin 0)) \<and> flt (Fin 1980) (Fin 2000)"
proof -
  have a: "pa_is_approved (guard_evaluate demo_guard SELL (Fin 2000) (Fin 2008) (Fin 1980) (Fin (1/4)) (Fin 50) (Fin 60) (Fin (1/2)) (Fin 2))"
    by (simp add: guard_evaluate_def demo_guard_def valid_geometry_def feval)
  from guard_approval_is_safe [OF this] a show ?thesis by (simp add: demo_guard_def)
qed

text \<open>The guard does not fail closed on NaN: an order with a NaN size, NaN risk, NaN spread
  and NaN quote age is approved as soon as the three prices are in order.\<close>

theorem guard_approves_nan:
  "pa_is_approved (guard_evaluate g d entry sl tp NaN NaN NaN NaN NaN) \<longleftrightarrow> valid_geometry d entry sl tp"
  by (simp add: guard_evaluate_def)

subsection \<open>Plans\<close>

lemma direction_value_inv [simp]: "direction_of_value (PStr (direction_value d)) = Ok d"
  by (cases d) (simp_all add: direction_of_value_def)

text \<open>Saving a plan and loading it gives the plan back, whatever the file held before and
  however values of other types are converted.\<close>

theorem plan_roundtrip: "plan_load shw int_text float_text (plan_save p file) = Ok (Some p)"
  by (simp add: plan_load_def plan_save_def plan_payload_def pitem_def pget_def)

text \<open>C24. After reconciliation new entries are blocked exactly while the broker reports an open
  position; a position is managed automatically only if it is the only one, the local plan has
  its ticket, symbol and direction, and the plan's stop and target straddle the entry. The
  stale plan is cleared only when no position is open.\<close>

theorem reconcile_is_safe:
  "(let r = reconcile tol plan positions in
     (rc_blocks_new_entries r \<longleftrightarrow> positions \<noteq> [])
   \<and> (rc_clear_stale_plan r \<longleftrightarrow> positions = [] \<and> plan \<noteq> None)
   \<and> rc_allows_automatic_management r = (rc_active_plan r \<noteq> None)
   \<and> (case rc_active_plan r of None \<Rightarrow> True
      | Some p \<Rightarrow> plan = Some p \<and> (\<exists>pos. positions = [pos] \<and> ps_ticket pos = mp_ticket p
          \<and> ps_symbol pos = mp_symbol p \<and> ps_direction pos = Some (mp_direction p)
          \<and> price_matches tol (ps_average_entry_price pos) (mp_entry p)
          \<and> price_matches tol (ps_take_profit pos) (mp_final_take_profit p)
          \<and> valid_geometry (mp_direction p) (mp_entry p) (mp_initial_stop_loss p) (mp_final_take_profit p))))"
  by (cases positions; cases "tl positions"; cases plan)
    (auto simp: reconcile_def Let_def unmanaged_def valid_risk_geometry_def valid_geometry_def split: list.splits)

subsection \<open>The trail\<close>

text \<open>What a decision to modify says of the figures behind it.\<close>

lemma trail_Ok:
  assumes "evaluate_candle_confirmed_trail c d entry initial cur tp candle lst = Ok dec"
  shows "dec = no_modification lst 0 ''INVALID_INITIAL_RISK'' \<or>
    (\<exists>planned reached. dec = trail_decide c d entry (fabs (fsub entry initial)) cur lst planned reached
      \<and> \<not> fle (fabs (fsub entry initial)) (Fin 0)
      \<and> py_floor (fsub (favorable_close_r d entry (fabs (fsub entry initial)) candle) (tc_confirmation_buffer_r c)) = Ok reached)"
proof (cases "fle (fabs (fsub entry initial)) (Fin 0)")
  case True
  then show ?thesis using assms by (simp add: evaluate_candle_confirmed_trail_def)
next
  case False
  with assms show ?thesis unfolding evaluate_candle_confirmed_trail_def Let_def
    by (simp only: if_False) (blast elim: rbind_InrE dest: rmap_Inr_iff [THEN iffD1])
qed

lemma decide_cases:
  fixes planned reached lst :: int
  obtains (keep) m r where "trail_decide c d entry risk cur lst planned reached = no_modification lst m r"
  | (hold) m p r where "trail_decide c d entry risk cur lst planned reached = no_modification m p r"
      "lst < m" "m \<le> tc_maximum_milestones c"
  | (move) m s r where "trail_decide c d entry risk cur lst planned reached =
        \<lparr>td_should_modify = True, td_stop_loss = Some s, td_confirmed_milestone = m, td_protected_milestone = m - 1, td_reason = r\<rparr>"
      "lst < m" "1 \<le> m" "m \<le> tc_maximum_milestones c" "m \<le> reached" "improves_stop d s cur"
      "s = fadd entry (fmul (fmul (direction_sign d) (fsub (fof_int (m - 1)) (tc_trailing_buffer_r c))) risk)"
proof -
  define m where "m = min (min (tc_maximum_milestones c) (max 1 planned)) reached"
  define s where "s = fadd entry (fmul (fmul (direction_sign d) (fsub (fof_int (m - 1)) (tc_trailing_buffer_r c))) risk)"
  have m: "m \<le> tc_maximum_milestones c" "m \<le> reached" by (simp_all add: m_def)
  have eq: "trail_decide c d entry risk cur lst planned reached =
      (if m \<le> lst \<or> m < 1 then no_modification lst 0 ''NO_NEW_CONFIRMED_MILESTONE''
       else if \<not> improves_stop d s cur then no_modification m (m - 1) ''STOP_ALREADY_MORE_PROTECTIVE''
       else \<lparr>td_should_modify = True, td_stop_loss = Some s, td_confirmed_milestone = m, td_protected_milestone = m - 1,
             td_reason = ''CANDLE_CONFIRMED_BUFFERED_MILESTONE_TRAIL''\<rparr>)"
    by (simp add: trail_decide_def Let_def m_def [symmetric] s_def max_absorb2)
  consider "m \<le> lst \<or> m < 1" | "lst < m" "1 \<le> m" "\<not> improves_stop d s cur" | "lst < m" "1 \<le> m" "improves_stop d s cur"
    by linarith
  then show ?thesis
  proof cases
    case 1 then show ?thesis using keep eq by simp
  next
    case 2 then show ?thesis using hold eq m by simp
  next
    case 3 then show ?thesis using move eq m s_def by simp
  qed
qed

lemma trail_modifies:
  assumes "evaluate_candle_confirmed_trail c d entry initial cur tp candle lst = Ok dec" "td_should_modify dec"
  shows "\<exists>reached s. \<not> fle (fabs (fsub entry initial)) (Fin 0)
    \<and> py_floor (fsub (favorable_close_r d entry (fabs (fsub entry initial)) candle) (tc_confirmation_buffer_r c)) = Ok reached
    \<and> td_confirmed_milestone dec \<le> reached \<and> td_confirmed_milestone dec \<le> tc_maximum_milestones c
    \<and> lst < td_confirmed_milestone dec \<and> 1 \<le> td_confirmed_milestone dec
    \<and> td_stop_loss dec = Some s \<and> improves_stop d s cur
    \<and> s = fadd entry (fmul (fmul (direction_sign d) (fsub (fof_int (td_confirmed_milestone dec - 1)) (tc_trailing_buffer_r c)))
                (fabs (fsub entry initial)))"
proof -
  from trail_Ok [OF assms(1)] assms(2) obtain planned reached where
    d: "dec = trail_decide c d entry (fabs (fsub entry initial)) cur lst planned reached"
    and rest: "\<not> fle (fabs (fsub entry initial)) (Fin 0)"
      "py_floor (fsub (favorable_close_r d entry (fabs (fsub entry initial)) candle) (tc_confirmation_buffer_r c)) = Ok reached"
    by (auto simp: no_modification_def)
  show ?thesis
    by (rule decide_cases [of c d entry "fabs (fsub entry initial)" cur lst planned reached])
      (use d rest assms(2) in \<open>simp_all add: no_modification_def\<close>)
qed

lemma trail_keeps:
  assumes "evaluate_candle_confirmed_trail c d entry initial cur tp candle lst = Ok dec" "\<not> td_should_modify dec"
  shows "td_stop_loss dec = None \<and> (td_confirmed_milestone dec = lst
      \<or> (lst < td_confirmed_milestone dec \<and> td_confirmed_milestone dec \<le> tc_maximum_milestones c))"
  using trail_Ok [OF assms(1)]
proof (elim disjE exE conjE)
  fix planned reached assume d: "dec = trail_decide c d entry (fabs (fsub entry initial)) cur lst planned reached"
  show ?thesis
    by (rule decide_cases [of c d entry "fabs (fsub entry initial)" cur lst planned reached])
      (use d assms(2) in \<open>simp_all add: no_modification_def\<close>)
qed (simp add: no_modification_def)

lemma no_looser_refl: "s \<noteq> NaN \<Longrightarrow> no_looser d s s"
  by (simp add: no_looser_def)

lemma no_looser_trans: "no_looser d a b \<Longrightarrow> no_looser d b c \<Longrightarrow> no_looser d a c"
  by (auto simp: no_looser_def intro: fle_trans split: if_splits)

lemma apply_trail_step:
  assumes "fst sm \<noteq> NaN" "snd sm \<le> tc_maximum_milestones c"
  shows "let sm' = apply_trail c d entry initial tp candle sm in
    no_looser d (fst sm) (fst sm') \<and> fst sm' \<noteq> NaN \<and> snd sm \<le> snd sm' \<and> snd sm' \<le> tc_maximum_milestones c"
proof (cases "evaluate_candle_confirmed_trail c d entry initial (fst sm) tp candle (snd sm)")
  case (Inl e)
  then show ?thesis using assms by (simp add: apply_trail_def no_looser_refl)
next
  case (Inr dec)
  show ?thesis
  proof (cases "td_should_modify dec")
    case True
    from trail_modifies [OF Inr True] obtain s where s: "td_stop_loss dec = Some s" "improves_stop d s (fst sm)"
      and m: "snd sm < td_confirmed_milestone dec" "td_confirmed_milestone dec \<le> tc_maximum_milestones c" by blast
    have "no_looser d (fst sm) s" "s \<noteq> NaN"
      using s(2) by (auto simp: improves_stop_def no_looser_def intro: flt_fle split: if_splits)
    with s m Inr show ?thesis by (simp add: apply_trail_def Let_def)
  next
    case False
    from trail_keeps [OF Inr False] show ?thesis using assms
      by (auto simp: apply_trail_def Let_def Inr no_looser_refl)
  qed
qed

text \<open>C4. Over any sequence of closed candles the protective stop of a managed trade moves only
  towards profit, the confirmed milestone never decreases and never exceeds the configured
  maximum.\<close>

theorem trail_never_loosens:
  assumes "fst sm \<noteq> NaN" "snd sm \<le> tc_maximum_milestones c"
  shows "let sm' = fold (apply_trail c d entry initial tp) candles sm in
    no_looser d (fst sm) (fst sm') \<and> snd sm \<le> snd sm' \<and> snd sm' \<le> tc_maximum_milestones c"
  using assms
proof (induction candles arbitrary: sm)
  case Nil
  then show ?case by (simp add: no_looser_refl)
next
  case (Cons x xs)
  let ?sm = "apply_trail c d entry initial tp x sm"
  have st: "no_looser d (fst sm) (fst ?sm)" "fst ?sm \<noteq> NaN" "snd sm \<le> snd ?sm" "snd ?sm \<le> tc_maximum_milestones c"
    using apply_trail_step [OF Cons.prems, of d entry initial tp x] by (simp_all add: Let_def)
  from Cons.IH [OF st(2,4)] st show ?case by (auto simp: Let_def intro: no_looser_trans)
qed

definition demo_candle :: "pyfloat \<Rightarrow> candle_node" where
  "demo_candle close = \<lparr>cn_symbol = ''XAUUSD'', cn_timeframe = ''M1'', cn_start_time = naive 0, cn_end_time = naive 60000000,
     cn_open_p = Fin 2000, cn_high_p = close, cn_low_p = Fin 1999, cn_close_p = close, cn_volume = 10, cn_ticks_count = 10,
     cn_is_closed = True, cn_sequence_id = 1, cn_trace_id = ''t'', cn_correlation_id = ''c'', cn_priority = HIGH\<rparr>"

definition demo_trail :: trail_config where
  "demo_trail = \<lparr>tc_confirmation_buffer_r = Fin (1/4), tc_trailing_buffer_r = Fin (1/8), tc_maximum_milestones = 6\<rparr>"

text \<open>A buy at 2000 risking 8: the close at 2020 is 2.5 R, which confirms two milestones and
  protects one, less the buffer: the stop goes from 1992 to 2007.\<close>

lemma demo_trail_step:
  "evaluate_candle_confirmed_trail demo_trail BUY (Fin 2000) (Fin 1992) (Fin 1992) (Fin 2040) (demo_candle (Fin 2020)) 0
   = Ok \<lparr>td_should_modify = True, td_stop_loss = Some (Fin 2007), td_confirmed_milestone = 2,
        td_protected_milestone = 1, td_reason = ''CANDLE_CONFIRMED_BUFFERED_MILESTONE_TRAIL''\<rparr>"
proof -
  have r: "rnd (5 + 4835703278458517 / 4835703278458516698824704) = Fin (1407374883834755 / 281474976710656)"
    by (rule rnd_cert [where e = "- 50" and m = 5629499535339020]) (simp_all add: p2_def)
  have f: "\<lfloor>1407374883834755 / 281474976710656 :: rat\<rfloor> = 5" by (rule floor_unique) simp_all
  have a: "fabs (fsub (Fin 2000) (Fin 1992)) = Fin 8" "fabs (fsub (Fin 2040) (Fin 2000)) = Fin 40"
    "fdiv (Fin 40) (Fin 8) = Fin 5" by (simp_all add: feval)
  have p: "py_floor (fadd (Fin 5) (lit (1/1000000000))) = Ok 5"
    using r f by (simp add: lit_1_1000000000 fadd.simps(1))
  have q: "py_floor (fsub (favorable_close_r BUY (Fin 2000) (Fin 8) (demo_candle (Fin 2020))) (Fin (1/4))) = Ok 2"
  proof -
    have "\<lfloor>9/4 :: rat\<rfloor> = 2" by (rule floor_unique) simp_all
    then show ?thesis by (simp add: favorable_close_r_def direction_sign_def demo_candle_def feval)
  qed
  show ?thesis
    unfolding evaluate_candle_confirmed_trail_def Let_def a p demo_trail_def
    by (simp add: q trail_decide_def direction_sign_def improves_stop_def feval)
qed

theorem trail_never_loosens_witness:
  "let sm' = fold (apply_trail demo_trail BUY (Fin 2000) (Fin 1992) (Fin 2040)) [demo_candle (Fin 2020)] (Fin 1992, 0) in
    sm' = (Fin 2007, 2) \<and> no_looser BUY (Fin 1992) (fst sm') \<and> snd sm' \<le> 6"
proof -
  have mx: "tc_maximum_milestones demo_trail = 6" by (simp add: demo_trail_def)
  have "fold (apply_trail demo_trail BUY (Fin 2000) (Fin 1992) (Fin 2040)) [demo_candle (Fin 2020)] (Fin 1992, 0) = (Fin 2007, 2)"
    by (simp add: apply_trail_def demo_trail_step)
  with trail_never_loosens [of "(Fin 1992, 0)" demo_trail BUY "Fin 2000" "Fin 1992" "Fin 2040" "[demo_candle (Fin 2020)]"]
  show ?thesis by (simp add: mx Let_def)
qed

text \<open>The figures behind a confirmed milestone: with the close \<open>x\<close> beyond the entry and a risk
  \<open>k\<close>, the protected distance is at most \<open>x\<close>.\<close>

lemma protected_within:
  assumes x: "rnd x = Fin x" and k: "0 < k" and m: "1 \<le> m" "m \<le> 2 ^ 50"
    and b: "fle (Fin 0) buf" "fle (Fin 0) tb" "is_fin tb"
    and fl: "py_floor (fsub (rnd (x / k)) buf) = Ok reached" "m \<le> reached"
    and p: "fsub (fof_int (m - 1)) tb = Fin pr"
  shows "fle (rnd (pr * k)) (Fin x)"
proof -
  obtain t where t: "tb = Fin t" "0 \<le> t" using b by (cases tb) auto
  have m1: "fof_int (m - 1) = Fin (of_int (m - 1))" using m by (intro fof_int_small) auto
  have "fle (Fin pr) (rnd (of_int (m - 1)))" using rnd_mono [of "of_int (m - 1) - t" "of_int (m - 1)"] t p
    unfolding m1 by simp
  then have pr: "pr \<le> of_int (m - 1)" using m1 by (simp add: fof_int_def)
  have "of_int (m - 1) \<le> x / k"
  proof (rule ccontr)
    assume "\<not> of_int (m - 1) \<le> x / k"
    then have "fle (rnd (x / k)) (Fin (of_int (m - 1)))"
      using rnd_mono [of "x / k" "of_int (m - 1)"] m1 by (simp add: fof_int_def)
    then consider "rnd (x / k) = NInf" | y where "rnd (x / k) = Fin y" "y \<le> of_int (m - 1)"
      by (cases "rnd (x / k)") auto
    then show False
    proof cases
      case 1
      with fl b show False by (cases buf) (auto simp: fsub_def)
    next
      case 2
      show False
      proof (cases buf)
        case (Fin u)
        have "fle (rnd (y - u)) (Fin (of_int (m - 1)))"
          using rnd_mono [of "y - u" "of_int (m - 1)"] 2 b Fin m1 by (simp add: fof_int_def)
        moreover obtain v where "rnd (y - u) = Fin v" "\<lfloor>v\<rfloor> = reached"
          using fl 2 Fin by (cases "rnd (y - u)") auto
        ultimately have "v \<le> of_int (m - 1)" "of_int reached \<le> v" by auto
        then have "rat_of_int reached \<le> of_int (m - 1)" by linarith
        then have "reached \<le> m - 1" by (simp only: of_int_le_iff)
        with fl show False by simp
      qed (use 2 fl b in \<open>auto simp: fsub_def\<close>)
    qed
  qed
  with pr have "pr \<le> x / k" by linarith
  then have "pr * k \<le> x" using k by (simp add: field_simps)
  then show ?thesis using rnd_mono [of "pr * k" x] x by simp
qed

lemma fadd_mono_right: "fle a b \<Longrightarrow> fle (fadd (Fin c) a) (fadd (Fin c) b)"
  using fadd_mono [of a b c] by (cases a; cases b) (auto simp: add.commute)

text \<open>A stop the manager proposes is never beyond the price that confirmed it: for finite
  prices (the distance from entry to close exact in floats) and a validated configuration, a
  buy's new stop is at most the confirming close, a sell's at least.\<close>

theorem proposed_stop_behind_close:
  assumes cfg: "trail_new conf trl mx = Ok c" "mx \<le> 2 ^ 50"
    and e: "evaluate_candle_confirmed_trail c d (Fin entry) (Fin initial) cur tp candle lst = Ok dec"
    and mod: "td_stop_loss dec = Some s"
    and close: "cn_close_p candle = Fin close" "rnd (close - entry) = Fin (close - entry)" "rnd close = Fin close"
    and fin: "is_fin (fabs (fsub (Fin entry) (Fin initial)))"
  shows "no_looser d s (Fin close)"
proof -
  have sm: "td_should_modify dec" using trail_keeps [OF e] mod by auto
  define m where "m = td_confirmed_milestone dec"
  from trail_modifies [OF e sm] obtain reached where
    risk0: "\<not> fle (fabs (fsub (Fin entry) (Fin initial))) (Fin 0)"
    and fl: "py_floor (fsub (favorable_close_r d (Fin entry) (fabs (fsub (Fin entry) (Fin initial))) candle)
        (tc_confirmation_buffer_r c)) = Ok reached"
    and m: "m \<le> reached" "m \<le> tc_maximum_milestones c" "1 \<le> m"
    and s: "s = fadd (Fin entry) (fmul (fmul (direction_sign d) (fsub (fof_int (m - 1)) (tc_trailing_buffer_r c)))
                (fabs (fsub (Fin entry) (Fin initial))))"
    using mod by (auto simp: m_def)
  obtain k where k: "fabs (fsub (Fin entry) (Fin initial)) = Fin k" "0 < k"
    using fin risk0 by (cases "fabs (fsub (Fin entry) (Fin initial))") auto
  have c: "fle (Fin 0) (tc_confirmation_buffer_r c)" "fle (Fin 0) (tc_trailing_buffer_r c)"
    "flt (tc_trailing_buffer_r c) (Fin 1)" "tc_maximum_milestones c = mx"
    using cfg(1) by (auto simp: trail_new_def split: if_splits)
  then obtain t where t: "tc_trailing_buffer_r c = Fin t" "0 \<le> t" "t < 1" by (cases "tc_trailing_buffer_r c") auto
  have mb: "1 \<le> m" "m \<le> 2 ^ 50" using m c(4) cfg(2) by auto
  have m1: "fof_int (m - 1) = Fin (of_int (m - 1))" using mb by (intro fof_int_small) auto
  have "fle (rnd (- 1)) (rnd (of_int (m - 1) - t))" "fle (rnd (of_int (m - 1) - t)) (rnd (of_int (m - 1)))"
    using t mb(1) by (auto intro!: rnd_mono)
  then obtain pr where pr: "fsub (fof_int (m - 1)) (tc_trailing_buffer_r c) = Fin pr"
    using m1 t by (cases "rnd (of_int (m - 1) - t)") (auto simp: fof_int_def rnd_uminus)
  have pr_fl: "rnd pr = Fin pr" using pr m1 t by (auto dest: rnd_idem)
  note within = protected_within [OF _ k(2) mb c(1,2) _ _ m(1) pr]
  show ?thesis
  proof (cases d)
    case BUY
    have "fle (rnd (pr * k)) (Fin (close - entry))"
      by (rule within) (use close t fl k in \<open>simp_all add: favorable_close_r_def direction_sign_def BUY\<close>)
    then have "fle (fadd (Fin entry) (rnd (pr * k))) (fadd (Fin entry) (Fin (close - entry)))" by (rule fadd_mono_right)
    then show ?thesis using close pr_fl k by (simp add: s pr BUY direction_sign_def no_looser_def)
  next
    case SELL
    have neg: "rnd (entry - close) = Fin (entry - close)" "rnd (- pr) = Fin (- pr)"
      using close(2) pr_fl rnd_uminus [of "close - entry"] rnd_uminus [of pr] by simp_all
    have "fle (rnd (pr * k)) (Fin (entry - close))"
      by (rule within) (use close neg t fl k in \<open>simp_all add: favorable_close_r_def direction_sign_def SELL\<close>)
    then have "fle (fneg (Fin (entry - close))) (fneg (rnd (pr * k)))" by (simp only: fneg_order)
    then have "fle (Fin (close - entry)) (rnd (- pr * k))" by (simp add: rnd_uminus)
    then have "fle (fadd (Fin entry) (Fin (close - entry))) (fadd (Fin entry) (rnd (- pr * k)))" by (rule fadd_mono_right)
    then show ?thesis using close neg k by (simp add: s pr SELL direction_sign_def no_looser_def)
  qed
qed

theorem proposed_stop_behind_close_witness:
  "trail_new (Fin (1/4)) (Fin (1/8)) 6 = Ok demo_trail
   \<and> rmap td_stop_loss (evaluate_candle_confirmed_trail demo_trail BUY (Fin 2000) (Fin 1992) (Fin 1992) (Fin 2040)
        (demo_candle (Fin 2020)) 0) = Ok (Some (Fin 2007))
   \<and> no_looser BUY (Fin 2007) (Fin 2020)"
proof -
  have n: "trail_new (Fin (1/4)) (Fin (1/8)) 6 = Ok demo_trail" by (simp add: trail_new_def demo_trail_def)
  have "no_looser BUY (Fin 2007) (Fin 2020)"
    by (rule proposed_stop_behind_close [OF n _ demo_trail_step])
      (simp_all add: demo_candle_def feval)
  with n show ?thesis by (simp add: demo_trail_step)
qed

end
