(* ===== verification/Mt5Gateway.thy ===== *)
theory Mt5Gateway
  imports TradeProtection RiskEngine "HOL-Library.Multiset"
begin

section \<open>The MetaTrader 5 gateway (src/infrastructure/broker)\<close>

text \<open>
  \<open>mt5_config.py\<close> and \<open>mt5_gateway.py\<close>. The \<open>MetaTrader5\<close> package is not part of the
  repository: its functions and constants are the fields of \<open>mt5_api\<close>, over an arbitrary state
  \<open>'w\<close> of the terminal, and a \<open>getattr\<close> with a default reads an optional field. The gateway
  is a provider of the broker interface of \<open>OrderRouting\<close>.
\<close>

subsection \<open>Configuration\<close>

record mt5_config =
  mc_login :: int
  mc_password :: string
  mc_server :: string
  mc_terminal_path :: "string option"
  mc_symbol :: string
  mc_dry_run :: bool
  mc_require_demo :: bool
  mc_max_lot :: pyfloat
  mc_deviation_points :: int
  mc_magic_number :: int

definition strip_char :: "char \<Rightarrow> string \<Rightarrow> string" where
  "strip_char c s = rev (dropWhile (\<lambda>x. x = c) (rev (dropWhile (\<lambda>x. x = c) s)))"

definition split_once :: "char \<Rightarrow> string \<Rightarrow> string \<times> string" where
  "split_once c s = (takeWhile (\<lambda>x. x \<noteq> c) s, tl (dropWhile (\<lambda>x. x \<noteq> c) s))"

definition env_line :: "string \<Rightarrow> (string \<times> string) option" where
  "env_line raw =
     (let line = py_strip raw in
      if line = [] \<or> has_prefix ''#'' line \<or> CHR ''='' \<notin> set line then None
      else let (key, v) = split_once CHR ''='' line
           in Some (py_strip key, strip_char (CHR 0x27) (strip_char (CHR 0x22) (py_strip v))))"

text \<open>The lines of the file, or \<open>None\<close> when there is no such file.\<close>

fun read_env_lines :: "string list \<Rightarrow> (string, string) dict \<Rightarrow> (string, string) dict" where
  "read_env_lines [] d = d"
| "read_env_lines (l # ls) d = read_env_lines ls (case env_line l of None \<Rightarrow> d | Some (k, v) \<Rightarrow> AList.update k v d)"

definition read_env_file :: "string list option \<Rightarrow> (string, string) dict" where
  "read_env_file file = (case file of None \<Rightarrow> [] | Some ls \<Rightarrow> read_env_lines ls [])"

definition env_bool :: "string \<Rightarrow> bool \<Rightarrow> bool" where
  "env_bool v dflt = (if v = [] then dflt else py_lower (py_strip v) \<in> {''1'', ''true'', ''yes'', ''on''})"

definition env_get :: "(string, string) dict \<Rightarrow> string \<Rightarrow> string \<Rightarrow> string" where
  "env_get d k dflt = (case map_of d k of Some v \<Rightarrow> v | None \<Rightarrow> dflt)"

text \<open>\<open>int(text)\<close> and \<open>float(text)\<close> are arguments.\<close>

definition load_mt5_config ::
  "(string \<Rightarrow> int res) \<Rightarrow> (string \<Rightarrow> pyfloat res) \<Rightarrow> string \<Rightarrow> string list option \<Rightarrow> mt5_config res" where
  "load_mt5_config int_text float_text path file =
     (let d = read_env_file file;
          missing = filter (\<lambda>k. env_get d k [] = []) [''MT5_LOGIN'', ''MT5_PASSWORD'', ''MT5_SERVER'']
      in if missing \<noteq> [] then Raise (ValueError (''Missing MT5 settings in '' @ path @ '': '' @ py_join '', '' missing))
      else rbind (int_text (env_get d ''MT5_LOGIN'' [])) (\<lambda>login.
           rbind (float_text (env_get d ''APEX_MAX_LOT'' ''0.03'')) (\<lambda>max_lot.
           rbind (int_text (env_get d ''APEX_MT5_DEVIATION_POINTS'' ''20'')) (\<lambda>deviation.
           rbind (int_text (env_get d ''APEX_MT5_MAGIC'' ''260525'')) (\<lambda>magic.
           Ok \<lparr>mc_login = login, mc_password = env_get d ''MT5_PASSWORD'' [], mc_server = env_get d ''MT5_SERVER'' [],
               mc_terminal_path = (let p = env_get d ''MT5_PATH'' [] in if p = [] then None else Some p),
               mc_symbol = env_get d ''APEX_SYMBOL'' ''XAUUSD'',
               mc_dry_run = env_bool (env_get d ''APEX_MT5_DRY_RUN'' ''true'') True,
               mc_require_demo = env_bool (env_get d ''APEX_MT5_REQUIRE_DEMO'' ''true'') True,
               mc_max_lot = max_lot, mc_deviation_points = deviation, mc_magic_number = magic\<rparr>)))))"

subsection \<open>The package\<close>

record mt5_account =
  ma_equity :: "pyfloat option"
  ma_currency :: "string option"
  ma_trade_mode :: "int option"
  ma_login :: "int option"
  ma_server :: "string option"
  ma_balance :: "pyfloat option"

record mt5_symbol =
  my_visible :: bool
  my_volume_min :: "pyfloat option"
  my_volume_step :: "pyfloat option"
  my_volume_max :: "pyfloat option"

record mt5_tick =
  mk_time_msc :: "pyfloat option"
  mk_time :: pyfloat
  mk_bid :: pyfloat
  mk_ask :: pyfloat
  mk_volume :: "int option"

record mt5_position =
  mo_symbol :: string
  mo_type :: "int option"
  mo_volume :: pyfloat
  mo_price_open :: pyfloat
  mo_profit :: "pyfloat option"
  mo_ticket :: "int option"
  mo_sl :: "pyfloat option"
  mo_tp :: "pyfloat option"
  mo_price_current :: "pyfloat option"

record mt5_result =
  me_retcode :: "int option"
  me_order :: "int option"
  me_price :: "pyfloat option"
  me_comment :: "string option"

record mt5_rate =
  mr_time :: pyfloat
  mr_open :: pyfloat
  mr_high :: pyfloat
  mr_low :: pyfloat
  mr_close :: pyfloat
  mr_tick_volume :: int

text \<open>The two requests the gateway sends: a market deal and a change of the stop.\<close>

datatype mt5_request =
    Deal (dl_symbol: string) (dl_volume: pyfloat) (dl_type: int) (dl_price: pyfloat) (dl_sl: pyfloat) (dl_tp: pyfloat)
         (dl_deviation: int) (dl_magic: int)
  | Sltp (sl_position: int) (sl_symbol: string) (sl_sl: pyfloat) (sl_tp: pyfloat) (sl_magic: int)

record 'w mt5_api =
  m5_initialize :: "int \<Rightarrow> string \<Rightarrow> string \<Rightarrow> string option \<Rightarrow> 'w \<Rightarrow> bool \<times> 'w"
  m5_last_error :: "'w \<Rightarrow> int \<times> string"
  m5_account_info :: "'w \<Rightarrow> mt5_account option"
  m5_shutdown :: "'w \<Rightarrow> 'w"
  m5_symbol_info :: "'w \<Rightarrow> string \<Rightarrow> mt5_symbol option"
  m5_symbol_select :: "string \<Rightarrow> 'w \<Rightarrow> bool \<times> 'w"
  m5_symbols_get :: "'w \<Rightarrow> string list option"
  m5_positions_get :: "'w \<Rightarrow> string option \<Rightarrow> mt5_position list option"
  m5_order_check :: "'w \<Rightarrow> mt5_request \<Rightarrow> mt5_result option"
  m5_order_send :: "mt5_request \<Rightarrow> 'w \<Rightarrow> mt5_result option \<times> 'w"
  m5_order_calc_profit :: "'w \<Rightarrow> int \<Rightarrow> string \<Rightarrow> pyfloat \<Rightarrow> pyfloat \<Rightarrow> pyfloat \<Rightarrow> pyfloat option"
  m5_symbol_info_tick :: "'w \<Rightarrow> string \<Rightarrow> mt5_tick option"
  m5_copy_rates :: "'w \<Rightarrow> string \<Rightarrow> int \<Rightarrow> int \<Rightarrow> mt5_rate list option"
  m5_order_type_buy :: int
  m5_order_type_sell :: int
  m5_retcode_done :: "int option"
  m5_retcode_placed :: "int option"
  m5_position_type_buy :: "int option"
  m5_trade_mode_demo :: "int option"
  m5_timeframe :: "int \<Rightarrow> int"

fun attr :: "'a option \<Rightarrow> 'a \<Rightarrow> 'a" where
  "attr None d = d"
| "attr (Some x) d = x"

subsection \<open>The gateway\<close>

record 'w gateway =
  gw_config :: mt5_config
  gw_loaded :: bool
  gw_connected :: bool
  gw_resolved :: "string option"
  gw_tick_sequence :: int
  gw_world :: 'w

definition gateway_new :: "mt5_config \<Rightarrow> 'w \<Rightarrow> 'w gateway" where
  "gateway_new c w = \<lparr>gw_config = c, gw_loaded = False, gw_connected = False, gw_resolved = None, gw_tick_sequence = 0, gw_world = w\<rparr>"

definition require_mt5 :: "('w gateway, unit) comp" where
  "require_mt5 g = (if \<not> gw_loaded g then Raise (RuntimeError ''MT5 module is not initialized.'') else Ok (), g)"

definition require_connected :: "('w gateway, unit) comp" where
  "require_connected g =
     (if \<not> gw_loaded g then Raise (RuntimeError ''MT5 module is not initialized.'')
      else if \<not> gw_connected g then Raise (RuntimeError ''MT5 gateway is not connected.'') else Ok (), g)"

definition is_xauusd_instrument :: "string \<Rightarrow> bool" where
  "is_xauusd_instrument s =
     (let n = filter (\<lambda>c. c \<noteq> CHR ''_'' \<and> c \<noteq> CHR ''-'') (py_upper s)
      in has_prefix ''XAUUSD'' n \<or> n = ''GOLD'' \<or> has_prefix ''GOLD.'' n)"

fun try_symbols :: "'w mt5_api \<Rightarrow> string list \<Rightarrow> 'w \<Rightarrow> string option \<times> 'w" where
  "try_symbols api [] w = (None, w)"
| "try_symbols api (s # ss) w =
     (case m5_symbol_info api w s of
        None \<Rightarrow> try_symbols api ss w
      | Some info \<Rightarrow>
          if my_visible info then (Some s, w)
          else (case m5_symbol_select api s w of
                  (True, w') \<Rightarrow> (Some s, w') | (False, w') \<Rightarrow> try_symbols api ss w'))"

definition symbol_candidates :: "string \<Rightarrow> string list" where
  "symbol_candidates preferred =
     rev (remdups (rev [preferred, py_upper preferred, ''XAUUSD'', ''GOLD'', ''GOLD#'', ''XAUUSD#'']))"

definition gold_matches :: "'w mt5_api \<Rightarrow> 'w \<Rightarrow> string list" where
  "gold_matches api w = filter is_xauusd_instrument (attr (m5_symbols_get api w) [])"

definition resolve_symbol :: "'w mt5_api \<Rightarrow> string \<Rightarrow> ('w gateway, string) comp" where
  "resolve_symbol api preferred =
     sbind require_mt5 (\<lambda>_ g.
       case try_symbols api (symbol_candidates preferred) (gw_world g) of
         (Some s, w) \<Rightarrow> (Ok s, g\<lparr>gw_world := w\<rparr>)
       | (None, w) \<Rightarrow>
           (let e = Raise (RuntimeError (''Could not resolve an XAUUSD/Gold spot instrument for '' @ preferred @ ''. '' @
                  ''Open the Gold CFD symbol in MT5 Market Watch and set APEX_SYMBOL to its exact name.'')) in
            case gold_matches api w of
              [] \<Rightarrow> (e, g\<lparr>gw_world := w\<rparr>)
            | s # _ \<Rightarrow> (case m5_symbol_select api s w of
                (True, w') \<Rightarrow> (Ok s, g\<lparr>gw_world := w'\<rparr>)
              | (False, w') \<Rightarrow> (e, g\<lparr>gw_world := w'\<rparr>))))"

text \<open>\<open>self._resolved_symbol or self.resolve_symbol(...)\<close>\<close>

definition active_symbol :: "'w mt5_api \<Rightarrow> string \<Rightarrow> ('w gateway, string) comp" where
  "active_symbol api preferred g =
     (case gw_resolved g of
        Some (c # cs) \<Rightarrow> (Ok (c # cs), g)
      | _ \<Rightarrow> resolve_symbol api preferred g)"

text \<open>\<open>installed\<close>: the import succeeds. After a failed check the terminal is shut down first and
  asked for its last error then.\<close>

definition connect :: "bool \<Rightarrow> 'w mt5_api \<Rightarrow> ('w gateway, unit) comp" where
  "connect installed api g =
     (if \<not> installed
      then (Raise (RuntimeError ''MetaTrader5 package is not installed. Run: python -m pip install MetaTrader5''), g)
      else
        let c = gw_config g; g1 = g\<lparr>gw_loaded := True\<rparr>;
            path = (case mc_terminal_path c of Some (x # xs) \<Rightarrow> Some (x # xs) | _ \<Rightarrow> None);
            failed = (\<lambda>what w. Raise (RuntimeError (''MT5 '' @ what @ '' failed: '' @ int_str (fst (m5_last_error api w)) @ '' '' @
                                                     snd (m5_last_error api w))))
        in case m5_initialize api (mc_login c) (mc_password c) (mc_server c) path (gw_world g) of
             (False, w) \<Rightarrow> (failed ''initialize'' w, g1\<lparr>gw_world := w\<rparr>)
           | (True, w) \<Rightarrow> (case m5_account_info api w of
               None \<Rightarrow> (let w' = m5_shutdown api w in (failed ''account_info'' w', g1\<lparr>gw_world := w'\<rparr>))
             | Some account \<Rightarrow>
                 if mc_require_demo c \<and> ma_trade_mode account \<noteq> Some (attr (m5_trade_mode_demo api) 0)
                 then (Raise (RuntimeError ''MT5 account is not detected as demo. Refusing to connect while demo guard is enabled.''),
                       g1\<lparr>gw_world := m5_shutdown api w\<rparr>)
                 else sbind (resolve_symbol api (mc_symbol c))
                        (\<lambda>s g2. (Ok (), g2\<lparr>gw_resolved := Some s, gw_connected := True\<rparr>)) (g1\<lparr>gw_world := w\<rparr>)))"

definition disconnect :: "'w mt5_api \<Rightarrow> 'w gateway \<Rightarrow> 'w gateway" where
  "disconnect api g = (if gw_loaded g then g\<lparr>gw_world := m5_shutdown api (gw_world g), gw_connected := False\<rparr> else g\<lparr>gw_connected := False\<rparr>)"

subsection \<open>Sizing\<close>

definition read_sizing_specification :: "'w mt5_api \<Rightarrow> ('w gateway, broker_sizing_spec) comp" where
  "read_sizing_specification api =
     sbind require_connected (\<lambda>_ g. sbind (active_symbol api (mc_symbol (gw_config g))) (\<lambda>symbol g.
       (case (m5_account_info api (gw_world g), m5_symbol_info api (gw_world g) symbol) of
          (Some account, Some info) \<Rightarrow>
            (let equity = attr (ma_equity account) (Fin 0); mn = attr (my_volume_min info) (Fin 0);
                 step = attr (my_volume_step info) (Fin 0); mx = attr (my_volume_max info) (Fin 0)
             in if fle equity (Fin 0) \<or> fle mn (Fin 0) \<or> fle step (Fin 0) \<or> fle mx (Fin 0)
                then Raise (RuntimeError ''MT5 returned invalid equity or symbol volume constraints.'')
                else Ok \<lparr>bs_symbol = symbol, bs_account_equity = equity, bs_account_currency = attr (ma_currency account) [],
                         bs_volume_min = mn, bs_volume_step = step, bs_volume_max = mx\<rparr>)
        | _ \<Rightarrow> Raise (RuntimeError ''MT5 account or symbol sizing information is unavailable.''), g)) g)"

definition order_side :: "'w mt5_api \<Rightarrow> order_direction \<Rightarrow> int" where
  "order_side api d = (if d = BUY then m5_order_type_buy api else m5_order_type_sell api)"

definition calculate_stop_loss_currency_per_lot ::
  "'w mt5_api \<Rightarrow> order_direction \<Rightarrow> pyfloat \<Rightarrow> pyfloat \<Rightarrow> ('w gateway, pyfloat) comp" where
  "calculate_stop_loss_currency_per_lot api d entry sl =
     sbind require_connected (\<lambda>_ g.
       if d = BUY \<and> fle entry sl then (Raise (ValueError ''BUY protective stop must be below entry.''), g)
       else if d = SELL \<and> fle sl entry then (Raise (ValueError ''SELL protective stop must be above entry.''), g)
       else sbind (active_symbol api (mc_symbol (gw_config g))) (\<lambda>symbol g.
         (case m5_order_calc_profit api (gw_world g) (order_side api d) symbol (Fin 1) entry sl of
            None \<Rightarrow> Raise (RuntimeError ''MT5 could not calculate stop-loss currency exposure.'')
          | Some profit \<Rightarrow>
              if fle (fneg profit) (Fin 0)
              then Raise (RuntimeError ''MT5 stop-loss calculation did not produce an adverse currency loss.'')
              else Ok (fneg profit), g)) g)"

definition volume_in_limits :: "pyfloat \<Rightarrow> pyfloat \<Rightarrow> broker_sizing_spec \<Rightarrow> pyfloat res" where
  "volume_in_limits max_lot requested spec =
     (let capped = py_min (py_min requested max_lot) (bs_volume_max spec) in
      if flt capped (bs_volume_min spec) then Ok (Fin 0)
      else rmap (\<lambda>n. if fle (bs_volume_min spec) n then n else Fin 0) (floor_to_step capped (bs_volume_step spec)))"

definition normalize_order_volume :: "'w mt5_api \<Rightarrow> pyfloat \<Rightarrow> ('w gateway, pyfloat) comp" where
  "normalize_order_volume api requested =
     sbind (read_sizing_specification api) (\<lambda>spec g. (volume_in_limits (mc_max_lot (gw_config g)) requested spec, g))"

subsection \<open>Ticks and candles\<close>

text \<open>\<open>datetime.fromtimestamp(x, tz=utc)\<close>: the fraction is scaled to microseconds and rounded half
  to even.\<close>

fun from_timestamp :: "pyfloat \<Rightarrow> datetime res" where
  "from_timestamp (Fin q) =
     (let whole = (if q < 0 then - \<lfloor>- q\<rfloor> else \<lfloor>q\<rfloor>) in
      case rnd ((q - of_int whole) * 1000000) of
        Fin us \<Rightarrow> Ok (aware_utc (whole * 1000000 + rhe us)) | _ \<Rightarrow> Raise OverflowError)"
| "from_timestamp NaN = Raise (ValueError ''Invalid value NaN (not a number)'')"
| "from_timestamp _ = Raise OverflowError"

definition read_current_tick :: "'w mt5_api \<Rightarrow> ('w gateway, tick_node) comp" where
  "read_current_tick api =
     sbind require_connected (\<lambda>_ g. sbind (active_symbol api (mc_symbol (gw_config g))) (\<lambda>symbol g.
       case m5_symbol_info_tick api (gw_world g) symbol of
         None \<Rightarrow> (Raise (RuntimeError (''No tick available for '' @ symbol)), g)
       | Some raw \<Rightarrow>
           sbind (slift (from_timestamp (let msc = attr (mk_time_msc raw) (Fin 0) in if msc \<noteq> Fin 0 then fdiv msc (Fin 1000) else mk_time raw)))
             (\<lambda>ts g.
               let n = gw_tick_sequence g + 1
               in (Ok \<lparr>tk_symbol = symbol, tk_timestamp = ts, tk_bid = mk_bid raw, tk_ask = mk_ask raw, tk_volume = attr (mk_volume raw) 0,
                       tk_sequence_id = n, tk_trace_id = ''MT5_TICK_'' @ int_str n, tk_correlation_id = ''MT5_READ_ONLY_STREAM'',
                       tk_priority = NORMAL\<rparr>, g\<lparr>gw_tick_sequence := n\<rparr>)) g) g)"

text \<open>\<open>sorted(rates, key=time)\<close>: the stable sort by \<open><\<close>, as insertion.\<close>

fun insert_rate :: "mt5_rate \<Rightarrow> mt5_rate list \<Rightarrow> mt5_rate list" where
  "insert_rate r [] = [r]"
| "insert_rate r (x # xs) = (if flt (mr_time r) (mr_time x) then r # x # xs else x # insert_rate r xs)"

definition sort_rates :: "mt5_rate list \<Rightarrow> mt5_rate list" where
  "sort_rates rs = fold insert_rate rs []"

definition timeframe_label :: "int \<Rightarrow> string" where
  "timeframe_label minutes = (if minutes < 60 then int_str minutes @ ''m'' else int_str (minutes div 60) @ ''h'')"

fun candles_of_rates :: "string \<Rightarrow> int \<Rightarrow> int \<Rightarrow> mt5_rate list \<Rightarrow> candle_node list res" where
  "candles_of_rates symbol minutes n [] = Ok []"
| "candles_of_rates symbol minutes n (r # rs) =
     rbind (from_timestamp (mr_time r)) (\<lambda>start.
       rmap ((#) \<lparr>cn_symbol = symbol, cn_timeframe = timeframe_label minutes, cn_start_time = start,
                  cn_end_time = dt_add start (minutes * 60000000), cn_open_p = mr_open r, cn_high_p = mr_high r, cn_low_p = mr_low r,
                  cn_close_p = mr_close r, cn_volume = mr_tick_volume r, cn_ticks_count = mr_tick_volume r, cn_is_closed = True,
                  cn_sequence_id = n, cn_trace_id = ''MT5_CANDLE_'' @ timeframe_label minutes @ ''_'' @ int_str n,
                  cn_correlation_id = ''MT5_READ_ONLY_HISTORY'', cn_priority = NORMAL\<rparr>)
         (candles_of_rates symbol minutes (n + 1) rs))"

definition read_recent_closed_candles :: "'w mt5_api \<Rightarrow> int \<Rightarrow> int \<Rightarrow> ('w gateway, candle_node list) comp" where
  "read_recent_closed_candles api minutes number =
     sbind require_connected (\<lambda>_ g.
       if number \<le> 0 then (Raise (ValueError ''Candle history count must be positive.''), g)
       else if minutes \<notin> {1, 5, 15, 60, 240}
       then (Raise (ValueError ''Supported MT5 candle timeframes are 1, 5, 15, 60, and 240 minutes.''), g)
       else sbind (active_symbol api (mc_symbol (gw_config g))) (\<lambda>symbol g.
         (case m5_copy_rates api (gw_world g) symbol (m5_timeframe api minutes) number of
            None \<Rightarrow> Raise (RuntimeError (''MT5 returned no closed candle history for '' @ symbol @ ''.''))
          | Some raw \<Rightarrow> candles_of_rates symbol minutes 1 (sort_rates raw), g)) g)"

subsection \<open>Orders\<close>

definition mt5_reject :: "datetime \<Rightarrow> order_request \<Rightarrow> string \<Rightarrow> 'w gateway \<Rightarrow> execution_report" where
  "mt5_reject now rq reason g = \<lparr>xr_execution_id = ''MT5_REJECT_'' @ rq_client_order_id rq, xr_client_order_id = rq_client_order_id rq,
     xr_broker_order_id = ''NONE'', xr_timestamp = now, xr_status = REJECTED, xr_filled_quantity = Fin 0,
     xr_remaining_quantity = py_min (rq_quantity_lots rq) (mc_max_lot (gw_config g)), xr_average_fill_price = Fin 0,
     xr_last_fill_price = Fin 0, xr_slippage_pips = Fin 0, xr_rejection_reason = Some reason\<rparr>"

definition from_mt5_result ::
  "'w mt5_api \<Rightarrow> datetime \<Rightarrow> order_request \<Rightarrow> mt5_result \<Rightarrow> order_status \<Rightarrow> bool \<Rightarrow> ('w gateway, execution_report) comp" where
  "from_mt5_result api now rq res status dry =
     (let retcode = attr (me_retcode res) 0;
          order_id = (case me_order res of Some n \<Rightarrow> int_str n | None \<Rightarrow> if dry then ''CHECK_ONLY'' else ''UNKNOWN'');
          got = attr (me_price res) (rq_entry_price rq);
          price = (if got = Fin 0 then rq_entry_price rq else got);
          comment = attr (me_comment res) []
      in sbind (normalize_order_volume api (rq_quantity_lots rq)) (\<lambda>volume.
         sret \<lparr>xr_execution_id = ''MT5_'' @ int_str retcode @ ''_'' @ rq_client_order_id rq, xr_client_order_id = rq_client_order_id rq,
               xr_broker_order_id = order_id, xr_timestamp = now, xr_status = status,
               xr_filled_quantity = (if dry then Fin 0 else volume), xr_remaining_quantity = (if dry then volume else Fin 0),
               xr_average_fill_price = (if dry then Fin 0 else price), xr_last_fill_price = price, xr_slippage_pips = Fin 0,
               xr_rejection_reason = (if status \<noteq> REJECTED then None
                                      else Some (if comment \<noteq> [] then comment else int_str retcode))\<rparr>))"

definition check_failure :: "'w mt5_api \<Rightarrow> mt5_result option \<Rightarrow> string option" where
  "check_failure api check =
     (case check of
        None \<Rightarrow> Some ''ORDER_CHECK_RETURNED_NONE''
      | Some c \<Rightarrow>
          if me_retcode c \<in> {Some 0, Some (attr (m5_retcode_done api) 10009)} then None
          else Some (''ORDER_CHECK_FAILED: '' @ (case me_comment c of Some t \<Rightarrow> t
                       | None \<Rightarrow> (case me_retcode c of Some n \<Rightarrow> int_str n | None \<Rightarrow> ''UNKNOWN''))))"

definition success_code :: "'w mt5_api \<Rightarrow> int option \<Rightarrow> bool" where
  "success_code api r \<longleftrightarrow> r = Some (attr (m5_retcode_done api) 10009) \<or> r = Some (attr (m5_retcode_placed api) 10008)"

text \<open>The request the checks of \<open>_submit_at_validated_quote\<close> let through, or the reason against it.\<close>

definition prepare_order ::
  "'w mt5_api \<Rightarrow> order_request \<Rightarrow> pyfloat \<Rightarrow> ('w gateway, string + (mt5_request \<times> mt5_result)) comp" where
  "prepare_order api rq price =
     sbind require_connected (\<lambda>_. sbind (active_symbol api (rq_symbol rq)) (\<lambda>symbol g.
       if attr (m5_positions_get api (gw_world g) (Some symbol)) [] \<noteq> []
       then (Ok (Inl ''ACTIVE_GOLD_POSITION_EXISTS_SINGLE_TRADE_LIMIT''), g)
       else sbind (normalize_order_volume api (rq_quantity_lots rq)) (\<lambda>volume g.
         if fle volume (Fin 0) then (Ok (Inl ''ORDER_VOLUME_BELOW_BROKER_MINIMUM_OR_ZERO''), g)
         else
           let deal = Deal symbol volume (order_side api (rq_direction rq)) price (rq_stop_loss rq) (rq_take_profit rq)
                        (mc_deviation_points (gw_config g)) (mc_magic_number (gw_config g));
               check = m5_order_check api (gw_world g) deal
           in (Ok (case check_failure api check of Some reason \<Rightarrow> Inl reason | None \<Rightarrow> Inr (deal, the check)), g)) g))"

definition submit_at_validated_quote ::
  "'w mt5_api \<Rightarrow> datetime \<Rightarrow> order_request \<Rightarrow> pyfloat \<Rightarrow> ('w gateway, execution_report) comp" where
  "submit_at_validated_quote api now rq price =
     sbind (prepare_order api rq price) (\<lambda>prep g.
       case prep of
         Inl reason \<Rightarrow> (Ok (mt5_reject now rq reason g), g)
       | Inr (deal, check) \<Rightarrow>
           if mc_dry_run (gw_config g) then from_mt5_result api now rq check ACKNOWLEDGED True g
           else (case m5_order_send api deal (gw_world g) of
               (None, w) \<Rightarrow> (Ok (mt5_reject now rq ''ORDER_SEND_RETURNED_NONE'' g), g\<lparr>gw_world := w\<rparr>)
             | (Some res, w) \<Rightarrow>
                 from_mt5_result api now rq res (if success_code api (me_retcode res) then FILLED else REJECTED) False
                   (g\<lparr>gw_world := w\<rparr>)))"

definition no_tick :: "py_exn \<Rightarrow> bool" where
  "no_tick e = (case e of RuntimeError t \<Rightarrow> has_sub ''No tick available'' t | _ \<Rightarrow> False)"

definition live_price :: "order_direction \<Rightarrow> tick_node \<Rightarrow> pyfloat" where
  "live_price d t = (if d = BUY then tk_ask t else tk_bid t)"

definition route_order_submission :: "'w mt5_api \<Rightarrow> datetime \<Rightarrow> order_request \<Rightarrow> ('w gateway, execution_report) comp" where
  "route_order_submission api now rq g =
     (case read_current_tick api g of
        (Inl e, g') \<Rightarrow> if no_tick e then (Ok (mt5_reject now rq ''SYMBOL_TICK_UNAVAILABLE'' g'), g') else (Raise e, g')
      | (Inr tick, g') \<Rightarrow>
          let price = live_price (rq_direction rq) tick
          in submit_at_validated_quote api now (rq\<lparr>rq_entry_price := price\<rparr>) price g')"

subsection \<open>Revalidated orders\<close>

text \<open>The size an order goes out with: the normalised one, less when it must be adapted to the risk
  that remains, or the broker's minimum under the demo override. The result is the volume, whether it was
  adapted, and whether it was overridden.\<close>

definition adapt_volume ::
  "'w mt5_api \<Rightarrow> pyfloat \<Rightarrow> pyfloat \<Rightarrow> pyfloat \<Rightarrow> bool \<Rightarrow> bool \<Rightarrow> ('w gateway, pyfloat \<times> bool \<times> bool) comp" where
  "adapt_volume api volume loss max_risk adaptive demo_min =
     (if adaptive \<and> flt (Fin 0) loss \<and> flt (Fin 0) max_risk \<and> flt (Fin 0) volume
      then sbind (normalize_order_volume api (py_min volume (fdiv max_risk loss))) (\<lambda>adapted g.
        if flt (Fin 0) adapted \<and> flt adapted volume then (Ok (adapted, True, False), g)
        else if fle adapted (Fin 0) \<and> demo_min \<and> mc_require_demo (gw_config g)
        then sbind (read_sizing_specification api) (\<lambda>spec.
             sbind (normalize_order_volume api (bs_volume_min spec)) (\<lambda>minimum.
               sret (if flt (Fin 0) minimum then (minimum, False, True) else (volume, False, False)))) g
        else (Ok (volume, False, False), g))
      else sret (volume, False, False))"

definition loss_or_zero :: "'w mt5_api \<Rightarrow> order_request \<Rightarrow> pyfloat \<Rightarrow> ('w gateway, pyfloat) comp" where
  "loss_or_zero api rq price =
     scatch (calculate_stop_loss_currency_per_lot api (rq_direction rq) price (rq_stop_loss rq))
       (\<lambda>e. case e of RuntimeError _ \<Rightarrow> Some (sret (Fin 0)) | ValueError _ \<Rightarrow> Some (sret (Fin 0)) | _ \<Rightarrow> None)"

definition revalidation_prefix :: string where
  "revalidation_prefix = ''PRE_SUBMISSION_REVALIDATION_FAILED: ''"

definition revalidate ::
  "'w mt5_api \<Rightarrow> order_request \<Rightarrow> pyfloat \<Rightarrow> pyfloat \<Rightarrow> pyfloat \<Rightarrow> pyfloat option \<Rightarrow> bool \<Rightarrow> bool \<Rightarrow> pyfloat \<Rightarrow> tick_node
     \<Rightarrow> ('w gateway, presubmission_assessment) comp" where
  "revalidate api rq max_risk max_spread max_age age adaptive demo_min requested tick =
     (let price = live_price (rq_direction rq) tick in
      sbind (loss_or_zero api rq price) (\<lambda>loss.
      sbind (adapt_volume api requested loss max_risk adaptive demo_min) (\<lambda>(volume, adapted, override).
      let risk = (if flt (Fin 0) loss \<and> flt (Fin 0) volume then fmul loss volume else Fin 0) in
      sbind (slift (guard_new max_spread max_age (if override then max_risk else lit (1/100)))) (\<lambda>guard.
      sret ((guard_evaluate guard (rq_direction rq) price (rq_stop_loss rq) (rq_take_profit rq) volume risk max_risk (tick_spread tick)
               (attr age PInf))
        \<lparr>pa_requested_lots := requested, pa_adapted_to_fit_risk := adapted, pa_demo_minimum_lot_override := override\<rparr>)))))"

definition no_quote_assessment :: "order_request \<Rightarrow> pyfloat \<Rightarrow> pyfloat \<Rightarrow> presubmission_assessment" where
  "no_quote_assessment rq volume max_risk = \<lparr>pa_is_approved = False, pa_live_entry_price = rq_entry_price rq,
     pa_normalized_lots = volume, pa_currency_risk = Fin 0, pa_maximum_currency_risk = max_risk, pa_spread_price = Fin 0,
     pa_quote_age_seconds = PInf, pa_rejection_reasons = [''BROKER_EXECUTABLE_QUOTE_UNAVAILABLE''], pa_requested_lots = volume,
     pa_adapted_to_fit_risk = False, pa_demo_minimum_lot_override = False\<rparr>"

definition submit_approved ::
  "'w mt5_api \<Rightarrow> datetime \<Rightarrow> order_request \<Rightarrow> tick_node \<Rightarrow> presubmission_assessment \<Rightarrow> ('w gateway, execution_report \<times> presubmission_assessment) comp" where
  "submit_approved api now rq tick a g =
     (if \<not> pa_is_approved a
      then (Ok (mt5_reject now rq (revalidation_prefix @ py_join '','' (pa_rejection_reasons a)) g, a), g)
      else let price = live_price (rq_direction rq) tick in
        sbind (submit_at_validated_quote api now
                 (rq\<lparr>rq_entry_price := price, rq_quantity_lots := pa_normalized_lots a\<rparr>) price) (\<lambda>rep. sret (rep, a)) g)"

definition route_revalidated_order_submission ::
  "'w mt5_api \<Rightarrow> datetime \<Rightarrow> order_request \<Rightarrow> pyfloat \<Rightarrow> pyfloat \<Rightarrow> pyfloat \<Rightarrow> pyfloat option \<Rightarrow> bool \<Rightarrow> bool
     \<Rightarrow> ('w gateway, execution_report \<times> presubmission_assessment) comp" where
  "route_revalidated_order_submission api now rq max_risk max_spread max_age age adaptive demo_min =
     sbind require_connected (\<lambda>_.
     sbind (normalize_order_volume api (rq_quantity_lots rq)) (\<lambda>requested g.
       case read_current_tick api g of
         (Inl e, g') \<Rightarrow>
           if \<not> no_tick e then (Raise e, g')
           else (Ok (mt5_reject now rq (revalidation_prefix @ ''BROKER_EXECUTABLE_QUOTE_UNAVAILABLE'') g',
                     no_quote_assessment rq requested max_risk), g')
       | (Inr tick, g') \<Rightarrow>
           sbind (revalidate api rq max_risk max_spread max_age age adaptive demo_min requested tick) (submit_approved api now rq tick) g'))"

subsection \<open>Positions\<close>

definition snapshot_of_position :: "'w mt5_api \<Rightarrow> mt5_position \<Rightarrow> position_snapshot" where
  "snapshot_of_position api p = \<lparr>ps_symbol = mo_symbol p, ps_net_quantity_lots = mo_volume p, ps_average_entry_price = mo_price_open p,
     ps_floating_pnl_pips = attr (mo_profit p) (Fin 0), ps_ticket = attr (mo_ticket p) 0,
     ps_direction = Some (if mo_type p = Some (attr (m5_position_type_buy api) 0) then BUY else SELL),
     ps_stop_loss = attr (mo_sl p) (Fin 0), ps_take_profit = attr (mo_tp p) (Fin 0), ps_current_price = attr (mo_price_current p) (Fin 0)\<rparr>"

definition query_live_positions :: "'w mt5_api \<Rightarrow> ('w gateway, position_snapshot list) comp" where
  "query_live_positions api = sbind require_connected (\<lambda>_ g.
     (Ok (map (snapshot_of_position api) (attr (m5_positions_get api (gw_world g) (gw_resolved g)) [])), g))"

definition protection_reject :: "datetime \<Rightarrow> position_snapshot \<Rightarrow> pyfloat \<Rightarrow> string \<Rightarrow> position_protection_report" where
  "protection_reject now p stop reason = \<lparr>pp_position_ticket = ps_ticket p, pp_timestamp = now, pp_requested_stop_loss = stop,
     pp_retained_take_profit = ps_take_profit p, pp_applied = False, pp_dry_run = False, pp_rejection_reason = Some reason\<rparr>"

definition stop_more_protective :: "order_direction \<Rightarrow> pyfloat \<Rightarrow> pyfloat \<Rightarrow> bool" where
  "stop_more_protective d proposed current = (if d = BUY then flt current proposed else flt proposed current)"

definition route_position_stop_update ::
  "'w mt5_api \<Rightarrow> datetime \<Rightarrow> position_snapshot \<Rightarrow> pyfloat \<Rightarrow> ('w gateway, position_protection_report) comp" where
  "route_position_stop_update api now p stop =
     sbind require_connected (\<lambda>_ g.
       if ps_ticket p \<le> 0 then (Ok (protection_reject now p stop ''POSITION_TICKET_UNAVAILABLE''), g)
       else case ps_direction p of
         None \<Rightarrow> (Ok (protection_reject now p stop ''POSITION_DIRECTION_UNAVAILABLE''), g)
       | Some d \<Rightarrow>
           if \<not> stop_more_protective d stop (ps_stop_loss p)
           then (Ok (protection_reject now p stop ''STOP_UPDATE_NOT_MORE_PROTECTIVE''), g)
           else
             let rep = \<lparr>pp_position_ticket = ps_ticket p, pp_timestamp = now, pp_requested_stop_loss = stop,
                        pp_retained_take_profit = ps_take_profit p, pp_applied = True, pp_dry_run = False, pp_rejection_reason = None\<rparr>
             in if mc_dry_run (gw_config g) then (Ok (rep\<lparr>pp_applied := False, pp_dry_run := True\<rparr>), g)
             else (case m5_order_send api (Sltp (ps_ticket p) (ps_symbol p) stop (ps_take_profit p) (mc_magic_number (gw_config g)))
                          (gw_world g) of
                 (None, w) \<Rightarrow> (Ok (protection_reject now p stop ''STOP_UPDATE_RETURNED_NONE''), g\<lparr>gw_world := w\<rparr>)
               | (Some res, w) \<Rightarrow>
                   (Ok (if success_code api (me_retcode res) then rep
                        else protection_reject now p stop (''STOP_UPDATE_REJECTED: '' @
                          (case me_comment res of Some t \<Rightarrow> t
                           | None \<Rightarrow> (case me_retcode res of Some n \<Rightarrow> int_str n | None \<Rightarrow> ''UNKNOWN'')))), g\<lparr>gw_world := w\<rparr>)))"

record connection_state =
  cx_login :: "int option"
  cx_server :: "string option"
  cx_trade_mode :: "int option"
  cx_currency :: "string option"
  cx_balance :: "pyfloat option"
  cx_symbol :: "string option"
  cx_dry_run :: bool
  cx_max_lot :: pyfloat

definition connection_summary :: "'w mt5_api \<Rightarrow> ('w gateway, connection_state) comp" where
  "connection_summary api = sbind require_connected (\<lambda>_ g.
     let field = (\<lambda>f. case m5_account_info api (gw_world g) of None \<Rightarrow> None | Some a \<Rightarrow> f a);
         text = (\<lambda>f. case m5_account_info api (gw_world g) of None \<Rightarrow> None | Some a \<Rightarrow> f a)
     in (Ok \<lparr>cx_login = field ma_login, cx_server = text ma_server, cx_trade_mode = field ma_trade_mode,
             cx_currency = text ma_currency, cx_balance = (case m5_account_info api (gw_world g) of None \<Rightarrow> None | Some a \<Rightarrow> ma_balance a),
             cx_symbol = gw_resolved g, cx_dry_run = mc_dry_run (gw_config g), cx_max_lot = mc_max_lot (gw_config g)\<rparr>, g))"

text \<open>\<open>stream_execution_lifecycle_events\<close> sleeps while connected and never yields a report.\<close>

definition stream_execution_lifecycle_events :: "'w gateway \<Rightarrow> execution_report list" where
  "stream_execution_lifecycle_events g = []"

subsection \<open>Reading leaves the terminal alone\<close>

text \<open>Once the symbol is resolved, only \<open>order_send\<close> can change the terminal.\<close>

definition settled :: "'w gateway \<Rightarrow> bool" where
  "settled g \<longleftrightarrow> gw_resolved g \<noteq> None \<and> gw_resolved g \<noteq> Some []"

lemma active_symbol_settled: "settled g \<Longrightarrow> active_symbol api s g = (Ok (the (gw_resolved g)), g)"
  by (auto simp: settled_def active_symbol_def split: option.splits list.splits)

lemma require_connected_state [simp]: "snd (require_connected g) = g"
  by (simp add: require_connected_def)

lemma require_connected_cases: "require_connected g = (Ok (), g) \<and> gw_loaded g \<and> gw_connected g \<or> (\<exists>e. require_connected g = (Raise e, g))"
  by (simp add: require_connected_def)

lemma read_sizing_state: "settled g \<Longrightarrow> snd (read_sizing_specification api g) = g"
  using require_connected_cases [of g]
  by (auto simp: read_sizing_specification_def sbind_def active_symbol_settled)

lemma normalize_state: "settled g \<Longrightarrow> snd (normalize_order_volume api q g) = g"
  using read_sizing_state [of g api]
  by (cases "read_sizing_specification api g") (auto simp: normalize_order_volume_def sbind_def split: sum.splits)

lemma stop_loss_state: "settled g \<Longrightarrow> snd (calculate_stop_loss_currency_per_lot api d entry sl g) = g"
  using require_connected_cases [of g]
  by (auto simp: calculate_stop_loss_currency_per_lot_def sbind_def active_symbol_settled)

lemma loss_or_zero_state: "settled g \<Longrightarrow> snd (loss_or_zero api rq price g) = g"
  using stop_loss_state [of g api "rq_direction rq" price "rq_stop_loss rq"]
  by (cases "calculate_stop_loss_currency_per_lot api (rq_direction rq) price (rq_stop_loss rq) g")
     (auto simp: loss_or_zero_def scatch_def split: sum.splits py_exn.splits option.splits)

lemma adapt_volume_state: "settled g \<Longrightarrow> snd (adapt_volume api v loss risk a m g) = g"
  unfolding adapt_volume_def
  by (auto intro!: sbind_state simp: normalize_state read_sizing_state)

lemma revalidate_state: "settled g \<Longrightarrow> snd (revalidate api rq mr ms ma age a m req tick g) = g"
  unfolding revalidate_def Let_def
  by (intro sbind_state) (auto intro!: sbind_state simp: loss_or_zero_state adapt_volume_state)

lemma read_tick_state:
  assumes "settled g"
  shows "\<exists>n. snd (read_current_tick api g) = g\<lparr>gw_tick_sequence := n\<rparr>"
proof -
  have same: "\<exists>n. g = g\<lparr>gw_tick_sequence := n\<rparr>" by (rule exI [of _ "gw_tick_sequence g"]) simp
  show ?thesis using require_connected_cases [of g] same assms
    by (auto simp: read_current_tick_def sbind_def active_symbol_settled Let_def slift_def split: option.splits sum.splits)
qed

lemma prepare_state: "settled g \<Longrightarrow> snd (prepare_order api rq price g) = g"
  unfolding prepare_order_def Let_def
  by (intro sbind_state) (auto intro!: sbind_state simp: active_symbol_settled normalize_state)

lemma from_result_state: "settled g \<Longrightarrow> snd (from_mt5_result api now rq res st dry g) = g"
  unfolding from_mt5_result_def Let_def
  by (intro sbind_state) (auto simp: normalize_state)

lemma submit_dry_state:
  assumes "settled g" "mc_dry_run (gw_config g)"
  shows "snd (submit_at_validated_quote api now rq price g) = g"
  unfolding submit_at_validated_quote_def
  by (intro sbind_state) (auto simp: prepare_state from_result_state assms split: sum.splits prod.splits)

lemma from_result_fields:
  "from_mt5_result api now rq res st dry g = (Ok rep, g') \<Longrightarrow>
     xr_client_order_id rep = rq_client_order_id rq \<and> xr_status rep = st \<and> (dry \<longrightarrow> xr_filled_quantity rep = Fin 0)"
  by (auto simp: from_mt5_result_def Let_def elim!: sbind_OkE)

lemma submit_fields:
  "submit_at_validated_quote api now rq price g = (Ok rep, g') \<Longrightarrow> xr_client_order_id rep = rq_client_order_id rq"
  by (auto simp: submit_at_validated_quote_def mt5_reject_def elim!: sbind_OkE dest!: from_result_fields
      split: sum.splits prod.splits option.splits if_splits)

lemma submit_status:
  assumes "settled g" "submit_at_validated_quote api now rq price g = (Ok rep, g')"
  shows "xr_status rep \<in> (if mc_dry_run (gw_config g) then {ACKNOWLEDGED, REJECTED} else {FILLED, REJECTED})"
proof -
  from assms(2) obtain prep g1 where p: "prepare_order api rq price g = (Ok prep, g1)"
    and r: "(case prep of
         Inl reason \<Rightarrow> (Ok (mt5_reject now rq reason g1), g1)
       | Inr (deal, check) \<Rightarrow>
           if mc_dry_run (gw_config g1) then from_mt5_result api now rq check ACKNOWLEDGED True g1
           else (case m5_order_send api deal (gw_world g1) of
               (None, w) \<Rightarrow> (Ok (mt5_reject now rq ''ORDER_SEND_RETURNED_NONE'' g1), g1\<lparr>gw_world := w\<rparr>)
             | (Some res, w) \<Rightarrow>
                 from_mt5_result api now rq res (if success_code api (me_retcode res) then FILLED else REJECTED) False
                   (g1\<lparr>gw_world := w\<rparr>))) = (Ok rep, g')"
    unfolding submit_at_validated_quote_def by (elim sbind_OkE)
  have "g1 = g" using prepare_state [OF assms(1), of api rq price] p by simp
  with r show ?thesis
    by (auto simp: mt5_reject_def dest!: from_result_fields split: sum.splits prod.splits option.splits if_splits)
qed

lemma route_status:
  assumes "settled g" "fst (route_order_submission api now rq g) = Ok rep"
  shows "xr_status rep \<in> (if mc_dry_run (gw_config g) then {ACKNOWLEDGED, REJECTED} else {FILLED, REJECTED})
    \<and> xr_client_order_id rep = rq_client_order_id rq"
proof (cases "read_current_tick api g")
  case (Pair x g1)
  obtain n where "snd (read_current_tick api g) = g\<lparr>gw_tick_sequence := n\<rparr>" using read_tick_state [OF assms(1)] by blast
  with Pair have g1: "settled g1" "gw_config g1 = gw_config g" using assms(1) by (auto simp: settled_def)
  show ?thesis
  proof (cases x)
    case (Inl e)
    with assms(2) Pair show ?thesis by (auto simp: route_order_submission_def mt5_reject_def split: if_splits)
  next
    case (Inr t)
    let ?rq = "rq\<lparr>rq_entry_price := live_price (rq_direction rq) t\<rparr>"
    obtain g2 where sub: "submit_at_validated_quote api now ?rq (live_price (rq_direction rq) t) g1 = (Ok rep, g2)"
      using assms(2) Pair Inr
      by (cases "submit_at_validated_quote api now ?rq (live_price (rq_direction rq) t) g1")
         (simp add: route_order_submission_def Let_def)
    from submit_status [OF g1(1) sub] submit_fields [OF sub] show ?thesis by (simp add: g1(2))
  qed
qed

text \<open>With the symbol resolved, no order, revalidated order or stop update of a dry run changes anything in the terminal.\<close>

lemma dry_run_leaves_terminal:
  assumes "settled g" "mc_dry_run (gw_config g)"
  shows "gw_world (snd (route_order_submission api now rq g)) = gw_world g
    \<and> gw_world (snd (route_revalidated_order_submission api now rq mr ms ma age ad dm g)) = gw_world g
    \<and> gw_world (snd (route_position_stop_update api now p stop g)) = gw_world g
    \<and> (\<forall>rep. fst (route_order_submission api now rq g) = Ok rep \<longrightarrow> xr_status rep \<noteq> FILLED)"
proof (intro conjI)
  obtain n where tick: "snd (read_current_tick api g) = g\<lparr>gw_tick_sequence := n\<rparr>" using read_tick_state [OF assms(1)] by blast
  have s: "settled (g\<lparr>gw_tick_sequence := n\<rparr>)" "mc_dry_run (gw_config (g\<lparr>gw_tick_sequence := n\<rparr>))"
    using assms by (simp_all add: settled_def)
  show "gw_world (snd (route_order_submission api now rq g)) = gw_world g"
    using tick submit_dry_state [OF s, of api now]
    by (cases "read_current_tick api g") (auto simp: route_order_submission_def Let_def split: sum.splits)
  show "\<forall>rep. fst (route_order_submission api now rq g) = Ok rep \<longrightarrow> xr_status rep \<noteq> FILLED"
    using route_status [OF assms(1), of api now rq] assms(2) by fastforce
  have rest: "gw_world (snd (sbind (revalidate api rq mr ms ma age ad dm req t) (submit_approved api now rq t)
        (g\<lparr>gw_tick_sequence := n\<rparr>))) = gw_world g" for req t
    by (subst sbind_state) (auto simp: revalidate_state [OF s(1)] submit_dry_state [OF s] submit_approved_def Let_def intro!: sbind_state)
  have tickw: "gw_world (snd (case read_current_tick api g of
         (Inl e, g') \<Rightarrow>
           if \<not> no_tick e then (Raise e, g')
           else (Ok (mt5_reject now rq (revalidation_prefix @ ''BROKER_EXECUTABLE_QUOTE_UNAVAILABLE'') g',
                     no_quote_assessment rq req mr), g')
       | (Inr tick, g') \<Rightarrow>
           sbind (revalidate api rq mr ms ma age ad dm req tick) (submit_approved api now rq tick) g'))
      = gw_world g" for req
    using tick rest [of req] by (cases "read_current_tick api g") (auto split: sum.splits)
  show "gw_world (snd (route_revalidated_order_submission api now rq mr ms ma age ad dm g)) = gw_world g"
    using require_connected_cases [of g] normalize_state [OF assms(1), of api "rq_quantity_lots rq"] tickw
    by (cases "normalize_order_volume api (rq_quantity_lots rq) g")
       (auto simp: route_revalidated_order_submission_def sbind_def [of require_connected]
          sbind_def [of "normalize_order_volume api (rq_quantity_lots rq)"] split: sum.splits)
  show "gw_world (snd (route_position_stop_update api now p stop g)) = gw_world g"
    using require_connected_cases [of g] assms(2)
    by (auto simp: route_position_stop_update_def sbind_def Let_def split: option.splits)
qed

subsection \<open>Sessions with the gateway\<close>

text \<open>What a caller can do with a gateway, in any order, and the execution reports it gets.\<close>

datatype gateway_op =
    GConnect bool | GDisconnect | GSizing | GStopLoss order_direction pyfloat pyfloat | GTick | GCandles int int
  | GOrder datetime order_request | GRevalidated datetime order_request pyfloat pyfloat pyfloat "pyfloat option" bool bool
  | GPositions | GStop datetime position_snapshot pyfloat | GSummary

fun gateway_step :: "'w mt5_api \<Rightarrow> gateway_op \<Rightarrow> 'w gateway \<Rightarrow> execution_report list \<times> 'w gateway" where
  "gateway_step api (GConnect installed) g = ([], snd (connect installed api g))"
| "gateway_step api GDisconnect g = ([], disconnect api g)"
| "gateway_step api GSizing g = ([], snd (read_sizing_specification api g))"
| "gateway_step api (GStopLoss d entry sl) g = ([], snd (calculate_stop_loss_currency_per_lot api d entry sl g))"
| "gateway_step api GTick g = ([], snd (read_current_tick api g))"
| "gateway_step api (GCandles minutes n) g = ([], snd (read_recent_closed_candles api minutes n g))"
| "gateway_step api (GOrder now rq) g =
     (case route_order_submission api now rq g of (Inl _, g') \<Rightarrow> ([], g') | (Inr rep, g') \<Rightarrow> ([rep], g'))"
| "gateway_step api (GRevalidated now rq mr ms ma age ad dm) g =
     (case route_revalidated_order_submission api now rq mr ms ma age ad dm g of (Inl _, g') \<Rightarrow> ([], g') | (Inr (rep, _), g') \<Rightarrow> ([rep], g'))"
| "gateway_step api GPositions g = ([], snd (query_live_positions api g))"
| "gateway_step api (GStop now p stop) g = ([], snd (route_position_stop_update api now p stop g))"
| "gateway_step api GSummary g = ([], snd (connection_summary api g))"

fun gateway_session :: "'w mt5_api \<Rightarrow> gateway_op list \<Rightarrow> 'w gateway \<Rightarrow> execution_report list \<times> 'w gateway" where
  "gateway_session api [] g = ([], g)"
| "gateway_session api (x # xs) g =
     (let (reps, g1) = gateway_step api x g; (more, g2) = gateway_session api xs g1 in (reps @ more, g2))"

text \<open>No call changes the configuration.\<close>

lemma sbind_config:
  assumes "gw_config (snd (m g)) = c" "\<And>x g'. gw_config g' = c \<Longrightarrow> gw_config (snd (f x g')) = c"
  shows "gw_config (snd (sbind m f g)) = c"
proof (cases "m g")
  case (Pair r g')
  with assms show ?thesis by (cases r) (simp_all add: sbind_def)
qed

lemma require_mt5_config: "gw_config (snd (require_mt5 g)) = gw_config g"
  by (simp add: require_mt5_def)

lemma resolve_config: "gw_config (snd (resolve_symbol api s g)) = gw_config g"
  unfolding resolve_symbol_def
  by (rule sbind_config) (auto simp: require_mt5_def Let_def split: prod.splits option.splits list.splits bool.splits)

lemma active_config: "gw_config (snd (active_symbol api s g)) = gw_config g"
  by (auto simp: active_symbol_def resolve_config split: option.splits list.splits)

lemma sizing_config: "gw_config (snd (read_sizing_specification api g)) = gw_config g"
  unfolding read_sizing_specification_def by (intro sbind_config) (auto simp: active_config intro!: sbind_config)

lemma normalize_config: "gw_config (snd (normalize_order_volume api q g)) = gw_config g"
  unfolding normalize_order_volume_def by (rule sbind_config) (auto simp: sizing_config)

lemma stop_loss_config: "gw_config (snd (calculate_stop_loss_currency_per_lot api d entry sl g)) = gw_config g"
  unfolding calculate_stop_loss_currency_per_lot_def by (intro sbind_config) (auto simp: active_config intro!: sbind_config)

lemma loss_or_zero_config: "gw_config (snd (loss_or_zero api rq price g)) = gw_config g"
  using stop_loss_config [of api "rq_direction rq" price "rq_stop_loss rq" g]
  by (cases "calculate_stop_loss_currency_per_lot api (rq_direction rq) price (rq_stop_loss rq) g")
     (auto simp: loss_or_zero_def scatch_def split: sum.splits py_exn.splits option.splits)

lemma tick_config: "gw_config (snd (read_current_tick api g)) = gw_config g"
  unfolding read_current_tick_def
  by (intro sbind_config) (auto simp: active_config Let_def split: option.splits intro!: sbind_config)

lemma candles_config: "gw_config (snd (read_recent_closed_candles api m n g)) = gw_config g"
  unfolding read_recent_closed_candles_def by (intro sbind_config) (auto simp: active_config intro!: sbind_config)

lemma adapt_config: "gw_config (snd (adapt_volume api v loss risk a m g)) = gw_config g"
  unfolding adapt_volume_def by (auto simp: normalize_config sizing_config intro!: sbind_config)

lemma revalidate_config: "gw_config (snd (revalidate api rq mr ms ma age a m req tick g)) = gw_config g"
  unfolding revalidate_def Let_def by (intro sbind_config) (auto simp: loss_or_zero_config adapt_config intro!: sbind_config)

lemma prepare_config: "gw_config (snd (prepare_order api rq price g)) = gw_config g"
  unfolding prepare_order_def Let_def
  by (intro sbind_config) (auto simp: active_config normalize_config intro!: sbind_config)

lemma from_result_config: "gw_config (snd (from_mt5_result api now rq res st dry g)) = gw_config g"
  unfolding from_mt5_result_def Let_def by (intro sbind_config) (auto simp: normalize_config)

lemma submit_config: "gw_config (snd (submit_at_validated_quote api now rq price g)) = gw_config g"
  unfolding submit_at_validated_quote_def
  by (rule sbind_config) (auto simp: prepare_config from_result_config split: sum.splits prod.splits option.splits)

lemma approved_config: "gw_config (snd (submit_approved api now rq tick a g)) = gw_config g"
  by (auto simp: submit_approved_def Let_def submit_config intro!: sbind_config)

lemma revalidated_config: "gw_config (snd (route_revalidated_order_submission api now rq mr ms ma age ad dm g)) = gw_config g"
proof -
  have t: "gw_config g' = gw_config g" if "read_current_tick api g = (x, g')" for x g g' using tick_config [of api g] that by simp
  show ?thesis unfolding route_revalidated_order_submission_def
    by (intro sbind_config)
       (auto simp: normalize_config revalidate_config approved_config dest: t split: prod.splits sum.splits intro!: sbind_config)
qed

lemma step_config: "gw_config (snd (gateway_step api x g)) = gw_config g"
proof (cases x)
  case (GConnect installed)
  then show ?thesis
    by (auto simp: connect_def Let_def split: prod.splits option.splits bool.splits intro!: sbind_config)
       (simp_all add: resolve_config)
next
  case (GOrder now rq)
  have t: "gw_config g' = gw_config g" if "read_current_tick api g = (y, g')" for y g' using tick_config [of api g] that by simp
  have s: "gw_config g' = gw_config g1" if "submit_at_validated_quote api now q price g1 = (y, g')" for q price g1 y g'
    using submit_config [of api now q price g1] that by simp
  show ?thesis unfolding GOrder
    by (auto simp: route_order_submission_def Let_def split: prod.splits sum.splits if_splits dest!: t s)
next
  case (GRevalidated now rq mr ms ma age ad dm)
  with revalidated_config [of api now rq mr ms ma age ad dm g] show ?thesis by (auto split: prod.splits sum.splits)
next
  case (GStop now p stop)
  show ?thesis unfolding GStop gateway_step.simps snd_conv route_position_stop_update_def
    by (rule sbind_config) (auto simp: Let_def split: option.splits prod.splits)
qed (simp_all add: disconnect_def sizing_config stop_loss_config tick_config candles_config query_live_positions_def connection_summary_def
       Let_def sbind_config)

text \<open>Only \<open>_submit_at_validated_quote\<close> and the stop update look at \<open>order_send\<close>.\<close>

lemma resend_frame:
  "read_sizing_specification (api\<lparr>m5_order_send := send\<rparr>) = read_sizing_specification api"
  "active_symbol (api\<lparr>m5_order_send := send\<rparr>) = active_symbol api"
  "calculate_stop_loss_currency_per_lot (api\<lparr>m5_order_send := send\<rparr>) = calculate_stop_loss_currency_per_lot api"
  "read_current_tick (api\<lparr>m5_order_send := send\<rparr>) = read_current_tick api"
  "read_recent_closed_candles (api\<lparr>m5_order_send := send\<rparr>) = read_recent_closed_candles api"
  "query_live_positions (api\<lparr>m5_order_send := send\<rparr>) = query_live_positions api"
  "connection_summary (api\<lparr>m5_order_send := send\<rparr>) = connection_summary api"
  "connect installed (api\<lparr>m5_order_send := send\<rparr>) = connect installed api"
  "disconnect (api\<lparr>m5_order_send := send\<rparr>) = disconnect api"
  "prepare_order (api\<lparr>m5_order_send := send\<rparr>) = prepare_order api"
  "from_mt5_result (api\<lparr>m5_order_send := send\<rparr>) = from_mt5_result api"
  "revalidate (api\<lparr>m5_order_send := send\<rparr>) = revalidate api"
  "normalize_order_volume (api\<lparr>m5_order_send := send\<rparr>) = normalize_order_volume api"
proof -
  let ?api = "api\<lparr>m5_order_send := send\<rparr>"
  have same: "m5_initialize ?api = m5_initialize api" "m5_last_error ?api = m5_last_error api" "m5_account_info ?api = m5_account_info api"
    "m5_shutdown ?api = m5_shutdown api" "m5_symbol_info ?api = m5_symbol_info api" "m5_symbol_select ?api = m5_symbol_select api"
    "m5_symbols_get ?api = m5_symbols_get api" "m5_positions_get ?api = m5_positions_get api" "m5_order_check ?api = m5_order_check api"
    "m5_order_calc_profit ?api = m5_order_calc_profit api" "m5_symbol_info_tick ?api = m5_symbol_info_tick api"
    "m5_copy_rates ?api = m5_copy_rates api" "m5_order_type_buy ?api = m5_order_type_buy api" "m5_order_type_sell ?api = m5_order_type_sell api"
    "m5_retcode_done ?api = m5_retcode_done api" "m5_retcode_placed ?api = m5_retcode_placed api"
    "m5_position_type_buy ?api = m5_position_type_buy api" "m5_trade_mode_demo ?api = m5_trade_mode_demo api"
    "m5_timeframe ?api = m5_timeframe api"
    by simp_all
  have t: "try_symbols ?api ss w = try_symbols api ss w" for ss w
    by (induction ss arbitrary: w) (simp_all split: option.splits prod.splits bool.splits)
  have gm: "gold_matches ?api = gold_matches api" by (rule ext)+ (unfold gold_matches_def same, rule refl)
  have r: "resolve_symbol ?api = resolve_symbol api" by (rule ext)+ (unfold resolve_symbol_def same t gm, rule refl)
  have a: "active_symbol ?api = active_symbol api" by (rule ext)+ (unfold active_symbol_def r, rule refl)
  have z: "read_sizing_specification ?api = read_sizing_specification api" by (unfold read_sizing_specification_def same a, rule refl)
  have n: "normalize_order_volume ?api = normalize_order_volume api" by (rule ext)+ (unfold normalize_order_volume_def z, rule refl)
  have ord: "order_side ?api = order_side api" by (rule ext)+ (unfold order_side_def same, rule refl)
  have l: "calculate_stop_loss_currency_per_lot ?api = calculate_stop_loss_currency_per_lot api" by (rule ext)+ (unfold calculate_stop_loss_currency_per_lot_def same a ord, rule refl)
  have c: "check_failure ?api = check_failure api" by (rule ext)+ (unfold check_failure_def same, rule refl)
  have v: "adapt_volume ?api = adapt_volume api" by (rule ext)+ (unfold adapt_volume_def n z, rule refl)
  have lz: "loss_or_zero ?api = loss_or_zero api" by (rule ext)+ (unfold loss_or_zero_def l, rule refl)
  have snap: "snapshot_of_position ?api = snapshot_of_position api" by (rule ext)+ (unfold snapshot_of_position_def same, rule refl)
  show "active_symbol ?api = active_symbol api" "read_sizing_specification ?api = read_sizing_specification api"
    "normalize_order_volume ?api = normalize_order_volume api" "calculate_stop_loss_currency_per_lot ?api = calculate_stop_loss_currency_per_lot api"
    by (rule a z n l)+
  show "read_current_tick ?api = read_current_tick api" "query_live_positions ?api = query_live_positions api"
    "connection_summary ?api = connection_summary api"
    by (unfold read_current_tick_def query_live_positions_def connection_summary_def same a snap) (rule refl)+
  show "read_recent_closed_candles ?api = read_recent_closed_candles api" by (rule ext)+ (unfold read_recent_closed_candles_def same a, rule refl)
  show "connect installed ?api = connect installed api" by (rule ext)+ (unfold connect_def same r, rule refl)
  show "disconnect ?api = disconnect api" by (rule ext)+ (unfold disconnect_def same, rule refl)
  show "prepare_order ?api = prepare_order api" by (rule ext)+ (unfold prepare_order_def same a n ord c, rule refl)
  show "from_mt5_result ?api = from_mt5_result api" by (rule ext)+ (unfold from_mt5_result_def same n, rule refl)
  show "revalidate ?api = revalidate api" by (rule ext)+ (unfold revalidate_def lz v, rule refl)
qed

lemma submit_dry_same:
  assumes "mc_dry_run (gw_config g)"
  shows "submit_at_validated_quote (api\<lparr>m5_order_send := send\<rparr>) now rq price g = submit_at_validated_quote api now rq price g"
proof -
  obtain x g1 where p: "prepare_order api rq price g = (x, g1)" by fastforce
  with prepare_config [of api rq price g] assms have "mc_dry_run (gw_config g1)" by simp
  with p show ?thesis unfolding submit_at_validated_quote_def resend_frame
    by (cases x) (auto simp: sbind_def split: sum.split)
qed

lemma submit_dry_report:
  assumes "mc_dry_run (gw_config g)" "submit_at_validated_quote api now rq price g = (Ok rep, g')"
  shows "xr_status rep \<in> {ACKNOWLEDGED, REJECTED} \<and> xr_filled_quantity rep = Fin 0"
proof -
  obtain x g1 where p: "prepare_order api rq price g = (x, g1)" by fastforce
  with prepare_config [of api rq price g] assms(1) have "mc_dry_run (gw_config g1)" by simp
  with p assms(2) show ?thesis unfolding submit_at_validated_quote_def
    by (cases x) (auto simp: sbind_def mt5_reject_def split: sum.splits dest!: from_result_fields)
qed

lemma route_dry:
  assumes "mc_dry_run (gw_config g)"
  shows "route_order_submission (api\<lparr>m5_order_send := send\<rparr>) now rq g = route_order_submission api now rq g"
    and "route_order_submission api now rq g = (Ok rep, g') \<Longrightarrow> xr_status rep \<in> {ACKNOWLEDGED, REJECTED} \<and> xr_filled_quantity rep = Fin 0"
proof -
  obtain x g1 where t: "read_current_tick api g = (x, g1)" by fastforce
  with tick_config [of api g] assms have c: "mc_dry_run (gw_config g1)" by simp
  show "route_order_submission (api\<lparr>m5_order_send := send\<rparr>) now rq g = route_order_submission api now rq g"
    using t by (cases x) (simp_all add: route_order_submission_def resend_frame Let_def submit_dry_same [OF c])
  show "route_order_submission api now rq g = (Ok rep, g') \<Longrightarrow> xr_status rep \<in> {ACKNOWLEDGED, REJECTED} \<and> xr_filled_quantity rep = Fin 0"
    using t by (cases x) (auto simp: route_order_submission_def Let_def mt5_reject_def split: if_splits dest: submit_dry_report [OF c])
qed

lemma approved_dry:
  assumes "mc_dry_run (gw_config g)"
  shows "submit_approved (api\<lparr>m5_order_send := send\<rparr>) now rq tick a g = submit_approved api now rq tick a g"
    and "submit_approved api now rq tick a g = (Ok (rep, a'), g') \<Longrightarrow> xr_status rep \<in> {ACKNOWLEDGED, REJECTED} \<and> xr_filled_quantity rep = Fin 0"
proof -
  show "submit_approved (api\<lparr>m5_order_send := send\<rparr>) now rq tick a g = submit_approved api now rq tick a g"
    by (simp add: submit_approved_def sbind_def submit_dry_same [OF assms] Let_def)
  show "submit_approved api now rq tick a g = (Ok (rep, a'), g') \<Longrightarrow> xr_status rep \<in> {ACKNOWLEDGED, REJECTED} \<and> xr_filled_quantity rep = Fin 0"
    by (auto simp: submit_approved_def mt5_reject_def Let_def split: if_splits elim!: sbind_OkE dest!: submit_dry_report [OF assms])
qed

text \<open>What happens once the order's volume is normalised.\<close>

lemma quoted_dry:
  assumes "mc_dry_run (gw_config g)"
  shows "sbind (revalidate api rq mr ms ma age ad dm req tick) (submit_approved (api\<lparr>m5_order_send := send\<rparr>) now rq tick) g
      = sbind (revalidate api rq mr ms ma age ad dm req tick) (submit_approved api now rq tick) g"
    and "sbind (revalidate api rq mr ms ma age ad dm req tick) (submit_approved api now rq tick) g = (Ok (rep, a), g')
      \<Longrightarrow> xr_status rep \<in> {ACKNOWLEDGED, REJECTED} \<and> xr_filled_quantity rep = Fin 0"
proof -
  obtain x g1 where v: "revalidate api rq mr ms ma age ad dm req tick g = (x, g1)" by fastforce
  with revalidate_config [of api rq mr ms ma age ad dm req tick g] assms have c: "mc_dry_run (gw_config g1)" by simp
  show "sbind (revalidate api rq mr ms ma age ad dm req tick) (submit_approved (api\<lparr>m5_order_send := send\<rparr>) now rq tick) g
      = sbind (revalidate api rq mr ms ma age ad dm req tick) (submit_approved api now rq tick) g"
    using v by (cases x) (simp_all add: sbind_def approved_dry(1) [OF c])
  show "sbind (revalidate api rq mr ms ma age ad dm req tick) (submit_approved api now rq tick) g = (Ok (rep, a), g')
      \<Longrightarrow> xr_status rep \<in> {ACKNOWLEDGED, REJECTED} \<and> xr_filled_quantity rep = Fin 0"
    using v approved_dry(2) [OF c] by (cases x) (simp_all add: sbind_def)
qed

lemma revalidated_dry:
  assumes "mc_dry_run (gw_config g)"
  shows "route_revalidated_order_submission (api\<lparr>m5_order_send := send\<rparr>) now rq mr ms ma age ad dm g
      = route_revalidated_order_submission api now rq mr ms ma age ad dm g"
    and "route_revalidated_order_submission api now rq mr ms ma age ad dm g = (Ok (rep, a), g')
      \<Longrightarrow> xr_status rep \<in> {ACKNOWLEDGED, REJECTED} \<and> xr_filled_quantity rep = Fin 0"
proof -
  obtain v g1 where n: "normalize_order_volume api (rq_quantity_lots rq) g = (v, g1)" by fastforce
  with normalize_config [of api "rq_quantity_lots rq" g] assms have "mc_dry_run (gw_config g1)" by simp
  moreover obtain x g2 where t: "read_current_tick api g1 = (x, g2)" by fastforce
  ultimately have c: "mc_dry_run (gw_config g2)" using tick_config [of api g1] by simp
  show "route_revalidated_order_submission (api\<lparr>m5_order_send := send\<rparr>) now rq mr ms ma age ad dm g
      = route_revalidated_order_submission api now rq mr ms ma age ad dm g"
    using n t require_connected_cases [of g]
    by (cases v; cases x)
       (auto simp: route_revalidated_order_submission_def resend_frame sbind_def [of require_connected]
          sbind_def [of "normalize_order_volume api (rq_quantity_lots rq)"] quoted_dry(1) [OF c])
  show "route_revalidated_order_submission api now rq mr ms ma age ad dm g = (Ok (rep, a), g')
      \<Longrightarrow> xr_status rep \<in> {ACKNOWLEDGED, REJECTED} \<and> xr_filled_quantity rep = Fin 0"
    using n t require_connected_cases [of g]
    by (cases v; cases x)
       (auto simp: route_revalidated_order_submission_def sbind_def [of require_connected] mt5_reject_def
          sbind_def [of "normalize_order_volume api (rq_quantity_lots rq)"] split: if_splits dest: quoted_dry(2) [OF c])
qed

lemma step_dry:
  assumes "mc_dry_run (gw_config g)"
  shows "gateway_step (api\<lparr>m5_order_send := send\<rparr>) x g = gateway_step api x g
    \<and> (\<forall>rep\<in>set (fst (gateway_step api x g)). xr_status rep \<in> {ACKNOWLEDGED, REJECTED} \<and> xr_filled_quantity rep = Fin 0)"
proof (cases x)
  case (GOrder now rq)
  show ?thesis unfolding GOrder gateway_step.simps route_dry(1) [OF assms]
    using route_dry(2) [OF assms, of api now rq] by (auto split: prod.splits sum.splits)
next
  case (GRevalidated now rq mr ms ma age ad dm)
  show ?thesis unfolding GRevalidated gateway_step.simps revalidated_dry(1) [OF assms]
    using revalidated_dry(2) [OF assms, of api now rq mr ms ma age ad dm] by (auto split: prod.splits sum.splits)
next
  case (GStop now p stop)
  with assms require_connected_cases [of g] show ?thesis
    by (auto simp: route_position_stop_update_def sbind_def Let_def split: option.splits)
qed (simp_all add: resend_frame)

text \<open>C5. A dry run never trades. Whatever is done with a gateway in dry run, from connecting to disconnecting, it comes out the same
  whatever \<open>order_send\<close> does, so nothing depends on a request sent to the terminal; every execution report is an acknowledgement or a
  rejection with nothing filled; and once the symbol is resolved an order, a revalidated order and a stop update leave the terminal's
  state as it was.\<close>

theorem dry_run_never_trades:
  assumes "mc_dry_run (gw_config g)"
  shows "gateway_session (api\<lparr>m5_order_send := send\<rparr>) ops g = gateway_session api ops g
    \<and> (\<forall>rep\<in>set (fst (gateway_session api ops g)). xr_status rep \<in> {ACKNOWLEDGED, REJECTED} \<and> xr_filled_quantity rep = Fin 0)
    \<and> (settled g \<longrightarrow> gw_world (snd (route_order_submission api now rq g)) = gw_world g
        \<and> gw_world (snd (route_revalidated_order_submission api now rq mr ms ma age ad dm g)) = gw_world g
        \<and> gw_world (snd (route_position_stop_update api now p stop g)) = gw_world g)"
proof -
  have "gateway_session (api\<lparr>m5_order_send := send\<rparr>) ops g = gateway_session api ops g
    \<and> (\<forall>rep\<in>set (fst (gateway_session api ops g)). xr_status rep \<in> {ACKNOWLEDGED, REJECTED} \<and> xr_filled_quantity rep = Fin 0)"
    using assms
  proof (induction ops arbitrary: g)
    case (Cons x ops)
    have "mc_dry_run (gw_config (snd (gateway_step api x g)))" using Cons.prems by (simp add: step_config)
    from Cons.IH [OF this] step_dry [OF Cons.prems, of send api x] show ?case
      by (cases "gateway_step api x g") (auto simp: Let_def split_beta)
  qed simp
  with dry_run_leaves_terminal [OF _ assms] show ?thesis by blast
qed

text \<open>A terminal for the witnesses: its state is the list of the requests sent.\<close>

definition demo_info :: mt5_symbol where
  "demo_info = \<lparr>my_visible = True, my_volume_min = Some (Fin (1/4)), my_volume_step = Some (lit (1/100)), my_volume_max = Some (Fin 8)\<rparr>"

definition demo_account :: mt5_account where
  "demo_account = \<lparr>ma_equity = Some (Fin 10000), ma_currency = Some ''USD'', ma_trade_mode = Some 0, ma_login = Some 1,
     ma_server = Some ''demo'', ma_balance = Some (Fin 10000)\<rparr>"

definition demo_api :: "mt5_request list mt5_api" where
  "demo_api = \<lparr>m5_initialize = (\<lambda>_ _ _ _ w. (True, w)), m5_last_error = (\<lambda>_. (0, [])), m5_account_info = (\<lambda>_. Some demo_account),
     m5_shutdown = (\<lambda>w. w), m5_symbol_info = (\<lambda>_ _. Some demo_info), m5_symbol_select = (\<lambda>_ w. (True, w)),
     m5_symbols_get = (\<lambda>_. Some [''XAUUSD'']), m5_positions_get = (\<lambda>_ _. Some []),
     m5_order_check = (\<lambda>_ _. Some \<lparr>me_retcode = Some 0, me_order = None, me_price = None, me_comment = None\<rparr>),
     m5_order_send = (\<lambda>r w. (Some \<lparr>me_retcode = Some 10009, me_order = Some 7, me_price = Some (Fin 2000), me_comment = Some []\<rparr>, r # w)),
     m5_order_calc_profit = (\<lambda>_ _ _ _ _ _. Some (Fin (- 100))),
     m5_symbol_info_tick = (\<lambda>_ _. Some \<lparr>mk_time_msc = None, mk_time = Fin 0, mk_bid = Fin 1999, mk_ask = Fin 2000, mk_volume = None\<rparr>),
     m5_copy_rates = (\<lambda>_ _ _ _. Some []), m5_order_type_buy = 0, m5_order_type_sell = 1, m5_retcode_done = None,
     m5_retcode_placed = None, m5_position_type_buy = None, m5_trade_mode_demo = None, m5_timeframe = (\<lambda>m. m)\<rparr>"

definition demo_mt5_config :: "bool \<Rightarrow> mt5_config" where
  "demo_mt5_config dry = \<lparr>mc_login = 1, mc_password = ''p'', mc_server = ''demo'', mc_terminal_path = None, mc_symbol = ''XAUUSD'',
     mc_dry_run = dry, mc_require_demo = True, mc_max_lot = Fin 1, mc_deviation_points = 20, mc_magic_number = 260525\<rparr>"

definition demo_gateway :: "bool \<Rightarrow> mt5_request list gateway" where
  "demo_gateway dry = \<lparr>gw_config = demo_mt5_config dry, gw_loaded = True, gw_connected = True, gw_resolved = Some ''XAUUSD'',
     gw_tick_sequence = 0, gw_world = []\<rparr>"

lemma demo_settled [simp]: "settled (demo_gateway dry)"
  by (simp add: settled_def demo_gateway_def)

text \<open>A dry session against a terminal that would execute every request: nothing is sent, nothing is filled.\<close>

theorem dry_run_never_trades_witness:
  "gw_world (snd (gateway_session demo_api [GOrder (naive 0) (demo_request ''a'' ''k''), GPositions, GSummary] (demo_gateway True))) = []
   \<and> list_all (\<lambda>rep. xr_filled_quantity rep = Fin 0)
        (fst (gateway_session demo_api [GConnect True, GOrder (naive 0) (demo_request ''a'' ''k''), GDisconnect] (demo_gateway True)))"
proof -
  let ?rq = "demo_request ''a'' ''k''"
  have d: "mc_dry_run (gw_config (demo_gateway True))" by (simp add: demo_gateway_def demo_mt5_config_def)
  have "gw_world (snd (route_order_submission demo_api (naive 0) ?rq (demo_gateway True))) = []"
    using dry_run_never_trades [OF d, where api = demo_api and now = "naive 0" and rq = ?rq, THEN conjunct2, THEN conjunct2,
        rule_format, OF demo_settled, THEN conjunct1] by (simp add: demo_gateway_def)
  then have "gw_world (snd (gateway_step demo_api (GOrder (naive 0) ?rq) (demo_gateway True))) = []"
    by (auto split: prod.splits sum.splits)
  then have "gw_world (snd (gateway_session demo_api [GOrder (naive 0) ?rq, GPositions, GSummary] (demo_gateway True))) = []"
    by (simp add: Let_def split_beta query_live_positions_def connection_summary_def sbind_def require_connected_def)
  moreover have "list_all (\<lambda>rep. xr_filled_quantity rep = Fin 0)
      (fst (gateway_session demo_api [GConnect True, GOrder (naive 0) ?rq, GDisconnect] (demo_gateway True)))"
    unfolding list_all_iff
    using dry_run_never_trades [OF d, where api = demo_api and ops = "[GConnect True, GOrder (naive 0) ?rq, GDisconnect]"] by blast
  ultimately show ?thesis by blast
qed

subsection \<open>The size of an order\<close>

lemma lit_cent_step: "repr_dec (5764607523034235 / 576460752303423488) = 1 / 10 ^ 2"
  using repr_cent by simp

lemma volume_in_limits_range:
  assumes spec: "bs_volume_min spec = Fin mn" "bs_volume_max spec = Fin mx" "bs_volume_step spec = Fin st" "repr_dec st = 1 / 10 ^ j" "j \<le> 8"
    and mn: "0 < mn" "- 1021 \<le> lg2 mn" and fl: "is_float q" "is_float m" "is_float mx" and small: "min (min q m) mx < 10 ^ 19"
  shows "\<exists>v. volume_in_limits (Fin m) (Fin q) spec = Ok v \<and>
    (v = Fin 0 \<or> fle (Fin mn) v \<and> fle v (Fin q) \<and> fle v (Fin m) \<and> fle v (Fin mx))"
proof -
  obtain c where c: "py_min (py_min (Fin q) (Fin m)) (Fin mx) = Fin c" "is_float c" "c \<le> q" "c \<le> m" "c \<le> mx" "c < 10 ^ 19"
  proof (rule that [of "min (min q m) mx"])
    show "py_min (py_min (Fin q) (Fin m)) (Fin mx) = Fin (min (min q m) mx)" by (auto simp: py_min_def)
    show "is_float (min (min q m) mx)" using fl by (simp add: min_def)
    show "min (min q m) mx < 10 ^ 19" by (rule small)
  qed auto
  show ?thesis
  proof (cases "c < mn")
    case True
    then show ?thesis by (simp add: volume_in_limits_def c spec)
  next
    case False
    then have c0: "0 < c" "mn \<le> c" using mn by auto
    have "- 1021 \<le> lg2 c" using lg2_mono [OF mn(1) c0(2)] mn(2) by linarith
    from floor_to_power_step [OF c(2) c0(1) this c(6) spec(4,5)]
    obtain n where n: "floor_to_step (Fin c) (Fin st) = Ok (rnd (of_int n / 10 ^ j))" "of_int n / 10 ^ j \<le> repr_dec c" by blast
    have "fle (rnd (of_int n / 10 ^ j)) (Fin c)" using rnd_mono [OF n(2)] rnd_repr_dec [OF c(2)] by simp
    then have "fle (rnd (of_int n / 10 ^ j)) (Fin q) \<and> fle (rnd (of_int n / 10 ^ j)) (Fin m) \<and> fle (rnd (of_int n / 10 ^ j)) (Fin mx)"
      using c(3-5) by (meson fle.simps(1) fle_trans)
    with False n(1) show ?thesis by (auto simp: volume_in_limits_def c spec simp del: power2_eq_square)
  qed
qed

lemma read_sizing_spec:
  assumes "read_sizing_specification api g = (Ok spec, g')" "settled g"
  shows "\<exists>account info. m5_account_info api (gw_world g) = Some account \<and> m5_symbol_info api (gw_world g) (the (gw_resolved g)) = Some info
    \<and> bs_volume_min spec = attr (my_volume_min info) (Fin 0) \<and> bs_volume_step spec = attr (my_volume_step info) (Fin 0)
    \<and> bs_volume_max spec = attr (my_volume_max info) (Fin 0) \<and> g' = g"
  using assms require_connected_cases [of g]
  by (auto simp: read_sizing_specification_def sbind_def active_symbol_settled Let_def split: option.splits if_splits)

lemma prepare_orderD:
  assumes "prepare_order api rq price g = (Ok (Inr (deal, check)), g')" "settled g"
  shows "\<exists>v spec. volume_in_limits (mc_max_lot (gw_config g)) (rq_quantity_lots rq) spec = Ok v
    \<and> read_sizing_specification api g = (Ok spec, g) \<and> \<not> fle v (Fin 0)
    \<and> deal = Deal (the (gw_resolved g)) v (order_side api (rq_direction rq)) price (rq_stop_loss rq) (rq_take_profit rq)
        (mc_deviation_points (gw_config g)) (mc_magic_number (gw_config g))
    \<and> attr (m5_positions_get api (gw_world g) (Some (the (gw_resolved g)))) [] = []
    \<and> m5_order_check api (gw_world g) deal = Some check"
proof -
  have c: "check_failure api x = None \<Longrightarrow> x \<noteq> None" for x by (cases x) (simp_all add: check_failure_def)
  have n: "normalize_order_volume api q g = (Ok v, g1) \<Longrightarrow>
      g1 = g \<and> (\<exists>spec. read_sizing_specification api g = (Ok spec, g) \<and> volume_in_limits (mc_max_lot (gw_config g)) q spec = Ok v)" for q v g1
    using read_sizing_state [OF assms(2), of api]
    by (auto simp: normalize_order_volume_def elim!: sbind_OkE)
  from assms(1) obtain g1 symbol g2 where r: "require_connected g = (Ok (), g1)" and a: "active_symbol api (rq_symbol rq) g1 = (Ok symbol, g2)"
    and b: "(if attr (m5_positions_get api (gw_world g2) (Some symbol)) [] \<noteq> []
       then (Ok (Inl ''ACTIVE_GOLD_POSITION_EXISTS_SINGLE_TRADE_LIMIT''), g2)
       else sbind (normalize_order_volume api (rq_quantity_lots rq)) (\<lambda>volume g.
         if fle volume (Fin 0) then (Ok (Inl ''ORDER_VOLUME_BELOW_BROKER_MINIMUM_OR_ZERO''), g)
         else
           let deal = Deal symbol volume (order_side api (rq_direction rq)) price (rq_stop_loss rq) (rq_take_profit rq)
                        (mc_deviation_points (gw_config g)) (mc_magic_number (gw_config g));
               check = m5_order_check api (gw_world g) deal
           in (Ok (case check_failure api check of Some reason \<Rightarrow> Inl reason | None \<Rightarrow> Inr (deal, the check)), g)) g2)
      = (Ok (Inr (deal, check)), g')"
    unfolding prepare_order_def by (elim sbind_OkE) auto
  have g: "g1 = g" "g2 = g" "symbol = the (gw_resolved g)"
    using r a require_connected_cases [of g] active_symbol_settled [OF assms(2), of api "rq_symbol rq"] by auto
  from b have np: "attr (m5_positions_get api (gw_world g2) (Some symbol)) [] = []" by (auto split: if_splits)
  with b obtain v g3 where v: "normalize_order_volume api (rq_quantity_lots rq) g2 = (Ok v, g3)"
    and d: "(if fle v (Fin 0) then (Ok (Inl ''ORDER_VOLUME_BELOW_BROKER_MINIMUM_OR_ZERO''), g3)
         else
           let deal = Deal symbol v (order_side api (rq_direction rq)) price (rq_stop_loss rq) (rq_take_profit rq)
                        (mc_deviation_points (gw_config g3)) (mc_magic_number (gw_config g3));
               check = m5_order_check api (gw_world g3) deal
           in (Ok (case check_failure api check of Some reason \<Rightarrow> Inl reason | None \<Rightarrow> Inr (deal, the check)), g3))
      = (Ok (Inr (deal, check)), g')"
    by (auto elim: sbind_OkE)
  from n [of "rq_quantity_lots rq" v g3] v g obtain spec where spec: "g3 = g" "read_sizing_specification api g = (Ok spec, g)"
    "volume_in_limits (mc_max_lot (gw_config g)) (rq_quantity_lots rq) spec = Ok v" by auto
  with d np g show ?thesis by (auto simp: Let_def dest: c split: if_splits option.splits)
qed

text \<open>C6. A deal the checks let through respects the limits. Let the broker's volume step be a power of ten from 1 down to 10^-8 lots,
  its limits, the configured cap and the size requested finite floats, the smallest of them below 10^19, and its minimum a positive
  normal float. Then the volume is at least the broker's minimum and at most the size requested, the configured cap and the broker's
  maximum; no gold position is open; the stop and the target are the request's.\<close>

theorem deals_within_limits:
  assumes "prepare_order api rq (Fin price) g = (Ok (Inr (deal, check)), g')" "settled g"
    and "m5_symbol_info api (gw_world g) (the (gw_resolved g)) = Some info"
    and "my_volume_min info = Some (Fin mn)" "my_volume_max info = Some (Fin mx)" "my_volume_step info = Some (Fin st)"
    and "repr_dec st = 1 / 10 ^ j" "j \<le> 8" and "mc_max_lot (gw_config g) = Fin m" "rq_quantity_lots rq = Fin q"
    and "0 < mn" "- 1021 \<le> lg2 mn" "is_float q" "is_float m" "is_float mx" "min (min q m) mx < 10 ^ 19"
  shows "fle (Fin mn) (dl_volume deal) \<and> fle (dl_volume deal) (Fin q) \<and> fle (dl_volume deal) (Fin m) \<and> fle (dl_volume deal) (Fin mx)
    \<and> dl_sl deal = rq_stop_loss rq \<and> dl_tp deal = rq_take_profit rq
    \<and> attr (m5_positions_get api (gw_world g) (Some (the (gw_resolved g)))) [] = []"
proof -
  from prepare_orderD [OF assms(1,2)] obtain v spec where
    v: "volume_in_limits (mc_max_lot (gw_config g)) (rq_quantity_lots rq) spec = Ok v" "\<not> fle v (Fin 0)"
    and spec: "read_sizing_specification api g = (Ok spec, g)"
    and deal: "deal = Deal (the (gw_resolved g)) v (order_side api (rq_direction rq)) (Fin price) (rq_stop_loss rq) (rq_take_profit rq)
        (mc_deviation_points (gw_config g)) (mc_magic_number (gw_config g))"
    and none: "attr (m5_positions_get api (gw_world g) (Some (the (gw_resolved g)))) [] = []"
    by blast
  have sp: "bs_volume_min spec = Fin mn" "bs_volume_max spec = Fin mx" "bs_volume_step spec = Fin st"
    using read_sizing_spec [OF spec assms(2)] assms(3-6) by auto
  from volume_in_limits_range [OF sp assms(7,8,11-16)] v assms(9,10)
  have "fle (Fin mn) v \<and> fle v (Fin q) \<and> fle v (Fin m) \<and> fle v (Fin mx)" by auto
  with deal none show ?thesis by simp
qed

lemma demo_volume:
  assumes "bs_volume_min spec = Fin (1/4)" "bs_volume_max spec = Fin 8" "bs_volume_step spec = lit (1/100)"
  shows "\<exists>v. volume_in_limits (Fin 1) (Fin 1) spec = Ok v \<and> fle (Fin (1/4)) v"
proof -
  have f: "is_float 1" by (simp add: is_float_def)
  have l: "lg2 1 = 0" by (rule lg2_unique) (simp_all add: p2_def)
  obtain n where n: "floor_to_step (Fin 1) (lit (1/100)) = Ok (rnd (of_int n / 10 ^ 2))" "repr_dec 1 < of_int (n + 1) / 10 ^ 2"
    using floor_to_power_step [OF f _ _ _ lit_cent_step] l by (auto simp: lit_1_100)
  have "25 \<le> n"
  proof (rule ccontr)
    assume "\<not> 25 \<le> n"
    then have "of_int (n + 1) / 10 ^ 2 \<le> (1/2 :: rat)" by simp
    with n(2) have "repr_dec 1 \<le> 1/2" by linarith
    from rnd_mono [OF this] rnd_repr_dec [OF f] show False by (simp add: feval)
  qed
  then have "fle (rnd (1/4)) (rnd (of_int n / 10 ^ 2))" by (intro rnd_mono) simp
  then have "fle (Fin (1/4)) (rnd (of_int n / 10 ^ 2))" by (simp add: feval)
  with n(1) assms show ?thesis by (simp add: volume_in_limits_def py_min_def)
qed

lemma demo_normalize: "\<exists>v. normalize_order_volume demo_api (Fin 1) (demo_gateway dry) = (Ok v, demo_gateway dry) \<and> fle (Fin (1/4)) v"
proof -
  let ?g = "demo_gateway dry"
  define spec where "spec = \<lparr>bs_symbol = ''XAUUSD'', bs_account_equity = Fin 10000, bs_account_currency = ''USD'',
     bs_volume_min = Fin (1/4), bs_volume_step = lit (1/100), bs_volume_max = Fin 8\<rparr>"
  have spec: "read_sizing_specification demo_api ?g = (Ok spec, ?g)"
    by (simp add: read_sizing_specification_def sbind_def require_connected_def active_symbol_def demo_api_def demo_gateway_def
        demo_account_def demo_info_def spec_def lit_1_100)
  obtain v where v: "volume_in_limits (Fin 1) (Fin 1) spec = Ok v" "fle (Fin (1/4)) v"
    using demo_volume [of spec] by (auto simp: spec_def)
  then have "normalize_order_volume demo_api (Fin 1) ?g = (Ok v, ?g)"
    by (simp add: normalize_order_volume_def sbind_def spec) (simp add: demo_gateway_def demo_mt5_config_def)
  with v show ?thesis by blast
qed

theorem deals_within_limits_witness:
  "\<exists>deal check g'. prepare_order demo_api (demo_request ''a'' ''k'') (Fin 2000) (demo_gateway False) = (Ok (Inr (deal, check)), g')
    \<and> fle (dl_volume deal) (Fin 1) \<and> fle (Fin (1/4)) (dl_volume deal)"
proof -
  let ?g = "demo_gateway False" and ?rq = "demo_request ''a'' ''k''"
  obtain v where n: "normalize_order_volume demo_api (Fin 1) ?g = (Ok v, ?g)" and v: "fle (Fin (1/4)) v"
    using demo_normalize by blast
  have v0: "\<not> fle v (Fin 0)" using v by (cases v) auto
  have q: "rq_quantity_lots ?rq = Fin 1" "rq_symbol ?rq = ''XAUUSD''" by (simp_all add: demo_request_def)
  have st: "require_connected ?g = (Ok (), ?g)" "active_symbol demo_api s ?g = (Ok ''XAUUSD'', ?g)" for s
    by (simp_all add: require_connected_def active_symbol_def demo_gateway_def)
  obtain deal check where p: "prepare_order demo_api ?rq (Fin 2000) ?g = (Ok (Inr (deal, check)), ?g)"
    using n v0 by (simp add: prepare_order_def sbind_def st q check_failure_def demo_api_def [THEN arg_cong [of _ _ m5_positions_get]]
        demo_api_def [THEN arg_cong [of _ _ m5_order_check]] Let_def)
  have lg: "lg2 (1/4) = - 2" by (rule lg2_unique) (simp_all add: p2_def)
  have fl: "is_float 1" "is_float 8" by (simp_all add: is_float_def feval)
  have "fle (Fin (1/4)) (dl_volume deal) \<and> fle (dl_volume deal) (Fin 1) \<and> fle (dl_volume deal) (Fin 1) \<and> fle (dl_volume deal) (Fin 8)
    \<and> dl_sl deal = rq_stop_loss ?rq \<and> dl_tp deal = rq_take_profit ?rq
    \<and> attr (m5_positions_get demo_api (gw_world ?g) (Some (the (gw_resolved ?g)))) [] = []"
    by (rule deals_within_limits [OF p demo_settled, where info = demo_info and j = 2 and st = "5764607523034235 / 576460752303423488"])
       (simp_all add: lit_1_100 lit_cent_step demo_api_def demo_info_def demo_gateway_def demo_mt5_config_def q lg fl)
  with p show ?thesis by blast
qed

subsection \<open>The gateway as a broker\<close>

definition mt5_route :: "'w mt5_api \<times> datetime \<times> 'w gateway \<Rightarrow> order_request \<Rightarrow> execution_report res" where
  "mt5_route = (\<lambda>(api, now, g) rq. fst (route_order_submission api now rq g))"

lemma route_id:
  assumes "fst (route_order_submission api now rq g) = Ok rep"
  shows "xr_client_order_id rep = rq_client_order_id rq"
proof (cases "read_current_tick api g")
  case (Pair x g1)
  show ?thesis
  proof (cases x)
    case (Inl e)
    with assms Pair show ?thesis by (auto simp: route_order_submission_def mt5_reject_def split: if_splits)
  next
    case (Inr t)
    let ?m = "submit_at_validated_quote api now (rq\<lparr>rq_entry_price := live_price (rq_direction rq) t\<rparr>) (live_price (rq_direction rq) t) g1"
    have "fst ?m = Ok rep" using assms Pair Inr by (simp add: route_order_submission_def Let_def)
    then have "?m = (Ok rep, snd ?m)" by (metis prod.collapse)
    from submit_fields [OF this] show ?thesis by simp
  qed
qed

interpretation mt5: broker_port mt5_route
  by unfold_locales (auto simp: mt5_route_def route_id)

text \<open>C3. With dry run off every order that reaches the gateway is entered REJECTED in the router's
  ledger, whatever the terminal does: the gateway reports an executed order as FILLED at once, which the
  lifecycle machine does not accept of a pending order, and it never streams a later report. In a dry
  run the order is entered ACKNOWLEDGED or REJECTED.\<close>

theorem live_order_recorded_rejected:
  assumes "ro_worker r = Routing rq" "map_of (ro_ledger r) (rq_client_order_id rq) = Some x" "xr_status x = PENDING_SUBMIT"
    and "settled g"
  shows "\<exists>y. map_of (ro_ledger (worker_finish now (mt5_route (api, now', g) rq) r)) (rq_client_order_id rq) = Some y
    \<and> xr_status y \<in> (if mc_dry_run (gw_config g) then {ACKNOWLEDGED, REJECTED} else {REJECTED})"
proof -
  have "(case mt5_route (api, now', g) rq of
          Inl _ \<Rightarrow> REJECTED
        | Inr rep \<Rightarrow> if xr_status rep \<in> {PENDING_SUBMIT, ACKNOWLEDGED, CANCELED} then xr_status rep else REJECTED)
      \<in> (if mc_dry_run (gw_config g) then {ACKNOWLEDGED, REJECTED} else {REJECTED})"
    using route_status [OF assms(4), of api now' rq]
    by (cases "mc_dry_run (gw_config g)") (auto simp: mt5_route_def split: sum.splits)
  with mt5.routed_status [OF assms(1-3), of now "(api, now', g)"] show ?thesis by metis
qed

theorem live_order_recorded_rejected_witness:
  "\<exists>y. map_of (ro_ledger (worker_finish (naive 2) (mt5_route (demo_api, naive 1, demo_gateway False) (demo_request ''a'' ''a''))
      (demo_router\<lparr>ro_worker := Routing (demo_request ''a'' ''a''), ro_ledger := [(''a'', demo_report ''a'' PENDING_SUBMIT)]\<rparr>)))
      ''a'' = Some y \<and> xr_status y = REJECTED"
proof -
  have i: "rq_client_order_id (demo_request ''a'' ''a'') = ''a''" "\<not> mc_dry_run (gw_config (demo_gateway False))"
    by (simp_all add: demo_request_def demo_gateway_def demo_mt5_config_def)
  show ?thesis
    using live_order_recorded_rejected [OF _ _ _ demo_settled, of "demo_router\<lparr>ro_worker := Routing (demo_request ''a'' ''a''),
        ro_ledger := [(''a'', demo_report ''a'' PENDING_SUBMIT)]\<rparr>" "demo_request ''a'' ''a''" _ "naive 2" demo_api "naive 1" False] i(2)
    by (simp add: i demo_report_def)
qed

subsection \<open>Connecting\<close>

lemma resolve_symbol_state:
  assumes "resolve_symbol api s g = (r, g')"
  shows "gw_connected g' = gw_connected g \<and> gw_config g' = gw_config g"
proof -
  have "\<exists>w. snd (resolve_symbol api s g) = g\<lparr>gw_world := w\<rparr>"
  proof (cases "gw_loaded g")
    case False
    then have "snd (resolve_symbol api s g) = g\<lparr>gw_world := gw_world g\<rparr>"
      by (simp add: resolve_symbol_def require_mt5_def sbind_def)
    then show ?thesis by blast
  next
    case True
    obtain x w where t: "try_symbols api (symbol_candidates s) (gw_world g) = (x, w)" by fastforce
    show ?thesis
    proof (cases x)
      case (Some y)
      with True t show ?thesis by (auto simp: resolve_symbol_def require_mt5_def sbind_def)
    next
      case None
      show ?thesis
      proof (cases "gold_matches api w")
        case Nil
        with None True t show ?thesis by (simp add: resolve_symbol_def require_mt5_def sbind_def Let_def) blast
      next
        case (Cons y ys)
        obtain ok w' where "m5_symbol_select api y w = (ok, w')" by fastforce
        with Cons None True t show ?thesis
          by (cases ok) (simp add: resolve_symbol_def require_mt5_def sbind_def Let_def, blast)+
      qed
    qed
  qed
  with assms show ?thesis by auto
qed

text \<open>The demo guard holds: while it is on, a fresh gateway ends up connected only to an account
  whose trade mode is the demo mode; when connecting fails it stays unconnected, and then every order
  raises instead of being routed.\<close>

theorem connects_only_to_demo:
  assumes "mc_require_demo c" "connect installed api (gateway_new c w) = (r, g)"
  shows "(is_ok r \<longleftrightarrow> gw_connected g)
    \<and> (is_ok r \<longrightarrow> (\<exists>account. m5_account_info api (snd (m5_initialize api (mc_login c) (mc_password c) (mc_server c)
            (case mc_terminal_path c of Some (x # xs) \<Rightarrow> Some (x # xs) | _ \<Rightarrow> None) w)) = Some account
        \<and> ma_trade_mode account = Some (attr (m5_trade_mode_demo api) 0)))
    \<and> (\<not> is_ok r \<longrightarrow> (\<exists>e. fst (route_order_submission api now rq g) = Raise e))"
proof -
  let ?g1 = "(gateway_new c w)\<lparr>gw_loaded := True\<rparr>"
  have new: "gw_config (gateway_new c w) = c" "gw_world (gateway_new c w) = w" "\<not> gw_connected (gateway_new c w)"
    by (simp_all add: gateway_new_def)
  have off: "\<exists>e. fst (route_order_submission api now rq g) = Raise e" if "\<not> gw_connected g"
  proof -
    have "\<exists>e. require_connected g = (Raise (RuntimeError e), g) \<and> e \<in> {''MT5 module is not initialized.'', ''MT5 gateway is not connected.''}"
      using that by (simp add: require_connected_def)
    then obtain e where e: "require_connected g = (Raise (RuntimeError e), g)"
      "e \<in> {''MT5 module is not initialized.'', ''MT5 gateway is not connected.''}" by blast
    have "\<not> no_tick (RuntimeError e)" using e(2) by (auto simp: no_tick_def)
    with e(1) show ?thesis by (simp add: route_order_submission_def read_current_tick_def sbind_def)
  qed
  show ?thesis
  proof (cases "installed")
    case False
    with assms(2) new off show ?thesis by (auto simp: connect_def)
  next
    case True
    define path where "path = (case mc_terminal_path c of Some (x # xs) \<Rightarrow> Some (x # xs) | _ \<Rightarrow> None)"
    obtain ok w1 where init: "m5_initialize api (mc_login c) (mc_password c) (mc_server c) path w = (ok, w1)" by fastforce
    show ?thesis
    proof (cases "ok \<and> (\<exists>a. m5_account_info api w1 = Some a \<and> ma_trade_mode a = Some (attr (m5_trade_mode_demo api) 0))")
      case False
      then have "r \<noteq> Ok ()" "\<not> gw_connected g"
        using assms True init new
        by (cases ok; cases "m5_account_info api w1"; auto simp: connect_def Let_def path_def)+
      with off show ?thesis by (cases r) auto
    next
      case demo: True
      then obtain a where a: "ok" "m5_account_info api w1 = Some a" "ma_trade_mode a = Some (attr (m5_trade_mode_demo api) 0)" by blast
      obtain x g2 where res: "resolve_symbol api (mc_symbol c) (?g1\<lparr>gw_world := w1\<rparr>) = (x, g2)" by fastforce
      have "(r, g) = (case x of Inl e \<Rightarrow> (Raise e, g2) | Inr s \<Rightarrow> (Ok (), g2\<lparr>gw_resolved := Some s, gw_connected := True\<rparr>))"
        using assms True init new a res
        by (cases x) (simp_all add: connect_def Let_def path_def sbind_def)
      with resolve_symbol_state [OF res] new have "is_ok r \<longleftrightarrow> gw_connected g" by (cases x) auto
      with off a init show ?thesis by (auto simp: path_def)
    qed
  qed
qed

theorem connects_only_to_demo_witness:
  "is_ok (fst (connect True demo_api (gateway_new (demo_mt5_config True) [])))
   \<and> gw_connected (snd (connect True demo_api (gateway_new (demo_mt5_config True) [])))"
proof -
  let ?c = "connect True demo_api (gateway_new (demo_mt5_config True) [])"
  have "is_ok (fst ?c)"
    by (simp add: connect_def Let_def gateway_new_def demo_mt5_config_def demo_api_def demo_account_def resolve_symbol_def symbol_candidates_def
        require_mt5_def sbind_def demo_info_def)
  moreover have "mc_require_demo (demo_mt5_config True)" by (simp add: demo_mt5_config_def)
  from connects_only_to_demo [OF this, of True demo_api "[]" "fst ?c" "snd ?c"] have "is_ok (fst ?c) \<longleftrightarrow> gw_connected (snd ?c)" by simp
  ultimately show ?thesis by blast
qed

subsection \<open>Stops\<close>

lemma more_protective_iff: "stop_more_protective d s c = improves_stop d s c"
  by (simp add: stop_more_protective_def improves_stop_def)

text \<open>The trailing manager and the gateway agree. A stop the manager proposes for a position is sent to
  the terminal unchanged, with the position's own target, by a connected gateway outside dry run.\<close>

theorem proposed_stop_reaches_broker:
  assumes "evaluate_candle_confirmed_trail c d entry initial (ps_stop_loss p) tp candle lst = Ok dec"
    and "td_should_modify dec" "ps_direction p = Some d" "0 < ps_ticket p"
    and "gw_loaded g" "gw_connected g" "\<not> mc_dry_run (gw_config g)"
  shows "\<exists>s. td_stop_loss dec = Some s
    \<and> gw_world (snd (route_position_stop_update api now p s g)) =
        snd (m5_order_send api (Sltp (ps_ticket p) (ps_symbol p) s (ps_take_profit p) (mc_magic_number (gw_config g))) (gw_world g))"
proof -
  from trail_modifies [OF assms(1,2)] obtain s where s: "td_stop_loss dec = Some s" "improves_stop d s (ps_stop_loss p)" by blast
  let ?r = "Sltp (ps_ticket p) (ps_symbol p) s (ps_take_profit p) (mc_magic_number (gw_config g))"
  have "gw_world (snd (route_position_stop_update api now p s g)) = snd (m5_order_send api ?r (gw_world g))"
    using assms s
    by (cases "m5_order_send api ?r (gw_world g)"; cases "fst (m5_order_send api ?r (gw_world g))")
       (simp_all add: route_position_stop_update_def sbind_def require_connected_def more_protective_iff Let_def)
  with s show ?thesis by blast
qed

definition demo_position :: position_snapshot where
  "demo_position = \<lparr>ps_symbol = ''XAUUSD'', ps_net_quantity_lots = Fin 1, ps_average_entry_price = Fin 2000, ps_floating_pnl_pips = Fin 0,
     ps_ticket = 7, ps_direction = Some BUY, ps_stop_loss = Fin 1992, ps_take_profit = Fin 2040, ps_current_price = Fin 2020\<rparr>"

theorem proposed_stop_reaches_broker_witness:
  "gw_world (snd (route_position_stop_update demo_api (naive 0) demo_position (Fin 2007) (demo_gateway False))) =
     [Sltp 7 ''XAUUSD'' (Fin 2007) (Fin 2040) 260525]"
proof -
  let ?d = "\<lparr>td_should_modify = True, td_stop_loss = Some (Fin 2007), td_confirmed_milestone = 2,
        td_protected_milestone = 1, td_reason = ''CANDLE_CONFIRMED_BUFFERED_MILESTONE_TRAIL''\<rparr>"
  have p: "ps_stop_loss demo_position = Fin 1992" by (simp add: demo_position_def)
  have g: "gw_loaded (demo_gateway False)" "gw_connected (demo_gateway False)" "\<not> mc_dry_run (gw_config (demo_gateway False))"
    by (simp_all add: demo_gateway_def demo_mt5_config_def)
  have q: "ps_direction demo_position = Some BUY" "0 < ps_ticket demo_position" by (simp_all add: demo_position_def)
  have m: "td_should_modify ?d" by simp
  from proposed_stop_reaches_broker [OF demo_trail_step [folded p] m q g, of demo_api "naive 0"]
  show ?thesis by (simp add: demo_position_def demo_gateway_def demo_mt5_config_def demo_api_def)
qed

text \<open>A stop update that reaches the terminal is strictly more protective than the stop the position
  has.\<close>

lemma stop_update_only_tightens:
  assumes "gw_world (snd (route_position_stop_update api now p stop g)) \<noteq> gw_world g"
  shows "0 < ps_ticket p \<and> \<not> mc_dry_run (gw_config g)
    \<and> (\<exists>d. ps_direction p = Some d \<and> stop_more_protective d stop (ps_stop_loss p))"
  using assms require_connected_cases [of g]
  by (auto simp: route_position_stop_update_def sbind_def Let_def split: option.splits if_splits)

subsection \<open>Revalidation\<close>

text \<open>An order is submitted only on an approval: when the assessment returned with the report is not an
  approval, the report is a rejection that quotes the guard's reasons and, with the symbol resolved, the
  terminal has not changed; and an approved assessment has the guard's guarantees.\<close>

theorem rejected_revalidation_sends_nothing:
  assumes "route_revalidated_order_submission api now rq mr ms ma age ad dm g = (Ok (rep, a), g')" "settled g"
    and "\<not> pa_is_approved a"
  shows "gw_world g' = gw_world g \<and> xr_status rep = REJECTED
    \<and> xr_rejection_reason rep = Some (revalidation_prefix @ py_join '','' (pa_rejection_reasons a))"
proof -
  from assms(1) obtain req where
    tick: "(case read_current_tick api g of
         (Inl e, g') \<Rightarrow>
           if \<not> no_tick e then (Raise e, g')
           else (Ok (mt5_reject now rq (revalidation_prefix @ ''BROKER_EXECUTABLE_QUOTE_UNAVAILABLE'') g',
                     no_quote_assessment rq req mr), g')
       | (Inr tick, g') \<Rightarrow>
           sbind (revalidate api rq mr ms ma age ad dm req tick) (submit_approved api now rq tick) g')
      = (Ok (rep, a), g')"
    using require_connected_cases [of g] normalize_state [OF assms(2), of api "rq_quantity_lots rq"]
    unfolding route_revalidated_order_submission_def
    by (cases "normalize_order_volume api (rq_quantity_lots rq) g"; cases "fst (normalize_order_volume api (rq_quantity_lots rq) g)")
       (auto simp: sbind_def [of require_connected] sbind_def [of "normalize_order_volume api (rq_quantity_lots rq)"])
  obtain n where st: "snd (read_current_tick api g) = g\<lparr>gw_tick_sequence := n\<rparr>" using read_tick_state [OF assms(2)] by blast
  show ?thesis
  proof (cases "read_current_tick api g")
    case (Pair x g1)
    have g1: "gw_world g1 = gw_world g" "settled g1" using st Pair assms(2) by (auto simp: settled_def)
    show ?thesis
    proof (cases x)
      case (Inl e)
      with tick Pair have "no_tick e" "rep = mt5_reject now rq (revalidation_prefix @ ''BROKER_EXECUTABLE_QUOTE_UNAVAILABLE'') g1"
        "a = no_quote_assessment rq req mr" "g' = g1" by (auto split: if_splits)
      then show ?thesis by (simp add: mt5_reject_def no_quote_assessment_def g1)
    next
      case (Inr t)
      obtain a' g2 where rev: "revalidate api rq mr ms ma age ad dm req t g1 = (Ok a', g2)"
        and rest: "submit_approved api now rq t a' g2 = (Ok (rep, a), g')"
        using tick Pair Inr by (auto elim: sbind_OkE)
      have "g2 = g1" using revalidate_state [OF g1(2)] rev by (metis snd_conv)
      have "\<not> pa_is_approved a'"
      proof
        assume "pa_is_approved a'"
        with rest have "a = a'" by (auto simp: submit_approved_def Let_def elim!: sbind_OkE)
        with \<open>pa_is_approved a'\<close> assms(3) show False by simp
      qed
      with rest have "rep = mt5_reject now rq (revalidation_prefix @ py_join '','' (pa_rejection_reasons a')) g2" "a = a'" "g' = g2"
        by (auto simp: submit_approved_def)
      then show ?thesis by (simp add: mt5_reject_def \<open>g2 = g1\<close> g1)
    qed
  qed
qed

theorem rejected_revalidation_sends_nothing_witness:
  "\<exists>rep a g'. route_revalidated_order_submission demo_api (naive 0) (demo_request ''a'' ''k'') (Fin 100) (Fin 1) (Fin 5) None False False
      (demo_gateway False) = (Ok (rep, a), g') \<and> \<not> pa_is_approved a \<and> xr_status rep = REJECTED \<and> gw_world g' = []"
proof -
  let ?g = "demo_gateway False" and ?rq = "demo_request ''a'' ''k''"
  obtain v where n: "normalize_order_volume demo_api (Fin 1) ?g = (Ok v, ?g)" using demo_normalize by blast
  have q: "rq_quantity_lots ?rq = Fin 1" "rq_direction ?rq = BUY" "rq_stop_loss ?rq = Fin 1990" by (simp_all add: demo_request_def)
  have r: "require_connected (?g\<lparr>gw_tick_sequence := k\<rparr>) = (Ok (), ?g\<lparr>gw_tick_sequence := k\<rparr>)"
    "active_symbol demo_api s (?g\<lparr>gw_tick_sequence := k\<rparr>) = (Ok ''XAUUSD'', ?g\<lparr>gw_tick_sequence := k\<rparr>)" for k s
    by (simp_all add: require_connected_def active_symbol_def demo_gateway_def)
  have r0: "require_connected ?g = (Ok (), ?g)" by (simp add: require_connected_def demo_gateway_def)
  obtain t where t: "read_current_tick demo_api ?g = (Ok t, ?g\<lparr>gw_tick_sequence := 1\<rparr>)" "tk_ask t = Fin 2000"
    by (simp add: read_current_tick_def sbind_def require_connected_def active_symbol_def demo_gateway_def demo_api_def slift_def)
  have l: "loss_or_zero demo_api ?rq (Fin 2000) (?g\<lparr>gw_tick_sequence := 1\<rparr>) = (Ok (Fin 100), ?g\<lparr>gw_tick_sequence := 1\<rparr>)"
    by (simp add: loss_or_zero_def scatch_def calculate_stop_loss_currency_per_lot_def sbind_def r q)
       (simp add: demo_api_def)
  have gd: "guard_new (Fin 1) (Fin 5) (lit (1/100)) = Ok \<lparr>pg_maximum_spread_price = Fin 1, pg_maximum_quote_age_seconds = Fin 5,
      pg_currency_risk_tolerance = lit (1/100)\<rparr>"
    by (simp add: guard_new_def lit_1_100)
  obtain a where a: "revalidate demo_api ?rq (Fin 100) (Fin 1) (Fin 5) None False False v t (?g\<lparr>gw_tick_sequence := 1\<rparr>) =
      (Ok a, ?g\<lparr>gw_tick_sequence := 1\<rparr>)" "\<not> pa_is_approved a"
    by (simp add: revalidate_def live_price_def t q l adapt_volume_def sbind_def gd guard_evaluate_def Let_def)
  obtain rep where e: "route_revalidated_order_submission demo_api (naive 0) ?rq (Fin 100) (Fin 1) (Fin 5) None False False ?g =
      (Ok (rep, a), ?g\<lparr>gw_tick_sequence := 1\<rparr>)"
    using a by (simp add: route_revalidated_order_submission_def submit_approved_def sbind_def r0 n q t)
  from rejected_revalidation_sends_nothing [OF e demo_settled a(2)] e a(2) show ?thesis
    by (auto simp: demo_gateway_def)
qed

subsection \<open>Candle history\<close>

lemma mset_insert_rate: "mset (insert_rate r xs) = add_mset r (mset xs)"
  by (induction xs) auto

lemma mset_sort_rates: "mset (sort_rates rs) = mset rs"
proof -
  have "mset (fold insert_rate rs ys) = mset rs + mset ys" for ys
    by (induction rs arbitrary: ys) (auto simp: mset_insert_rate)
  then show ?thesis by (simp add: sort_rates_def)
qed

lemma insert_rate_sorted:
  "mr_time r \<noteq> NaN \<Longrightarrow> NaN \<notin> mr_time ` set xs \<Longrightarrow> sorted_wrt (\<lambda>a b. fle (mr_time a) (mr_time b)) xs \<Longrightarrow>
     sorted_wrt (\<lambda>a b. fle (mr_time a) (mr_time b)) (insert_rate r xs)"
proof (induction xs)
  case (Cons x xs)
  have m: "set (insert_rate r xs) = insert r (set xs)" by (metis mset_insert_rate set_mset_add_mset_insert set_mset_mset)
  show ?case
  proof (cases "flt (mr_time r) (mr_time x)")
    case True
    with Cons.prems show ?thesis by (auto intro: flt_fle fle_trans)
  next
    case False
    with Cons.prems have "fle (mr_time x) (mr_time r)" using not_flt [of "mr_time r" "mr_time x"] by auto
    with False Cons m show ?thesis by auto
  qed
qed simp

lemma sort_rates_sorted:
  "NaN \<notin> mr_time ` set rs \<Longrightarrow> sorted_wrt (\<lambda>a b. fle (mr_time a) (mr_time b)) (sort_rates rs)"
proof -
  have "sorted_wrt (\<lambda>a b. fle (mr_time a) (mr_time b)) (fold insert_rate rs ys)"
    if "NaN \<notin> mr_time ` set rs" "NaN \<notin> mr_time ` set ys" "sorted_wrt (\<lambda>a b. fle (mr_time a) (mr_time b)) ys" for ys
    using that
  proof (induction rs arbitrary: ys)
    case (Cons r rs)
    have "set (insert_rate r ys) = insert r (set ys)" by (metis mset_insert_rate set_mset_add_mset_insert set_mset_mset)
    with Cons show ?case using insert_rate_sorted [of r ys] by auto
  qed simp
  then show "NaN \<notin> mr_time ` set rs \<Longrightarrow> ?thesis" by (simp add: sort_rates_def)
qed

lemma candles_of_rates_fields:
  "candles_of_rates symbol minutes n rs = Ok cs \<Longrightarrow>
     length cs = length rs \<and> map cn_close_p cs = map mr_close rs \<and> map cn_high_p cs = map mr_high rs
   \<and> map cn_sequence_id cs = map (\<lambda>i. n + int i) [0..<length rs] \<and> list_all cn_is_closed cs
   \<and> list_all (\<lambda>c. dt_instant (cn_end_time c) = dt_instant (cn_start_time c) + minutes * 60000000) cs"
proof (induction rs arbitrary: n cs)
  case (Cons r rs)
  then obtain start ds where ds: "candles_of_rates symbol minutes (n + 1) rs = Ok ds" and
    cs: "cs = \<lparr>cn_symbol = symbol, cn_timeframe = timeframe_label minutes, cn_start_time = start,
                  cn_end_time = dt_add start (minutes * 60000000), cn_open_p = mr_open r, cn_high_p = mr_high r, cn_low_p = mr_low r,
                  cn_close_p = mr_close r, cn_volume = mr_tick_volume r, cn_ticks_count = mr_tick_volume r, cn_is_closed = True,
                  cn_sequence_id = n, cn_trace_id = ''MT5_CANDLE_'' @ timeframe_label minutes @ ''_'' @ int_str n,
                  cn_correlation_id = ''MT5_READ_ONLY_HISTORY'', cn_priority = NORMAL\<rparr> # ds"
    by (auto elim!: rbind_InrE simp: rmap_Inr_iff)
  have up: "map (\<lambda>i. n + int i) [0..<Suc k] = n # map (\<lambda>i. (n + 1) + int i) [0..<k]" for k
    unfolding upt_rec [of 0 "Suc k"] by (simp add: map_Suc_upt [symmetric] comp_def del: upt_Suc)
  from Cons.IH [OF ds] show ?case by (simp add: cs up del: upt_Suc)
qed simp

text \<open>The candle history is the broker's, in order of time: a permutation of the rates the terminal
  returned, sorted by their time, turned into closed candles of the requested length numbered from
  1.\<close>

theorem history_is_ordered:
  assumes "read_recent_closed_candles api minutes k g = (Ok cs, g')" "settled g"
    and "m5_copy_rates api (gw_world g) (the (gw_resolved g)) (m5_timeframe api minutes) k = Some raw" "NaN \<notin> mr_time ` set raw"
  shows "\<exists>rs. mset rs = mset raw \<and> sorted_wrt (\<lambda>a b. fle (mr_time a) (mr_time b)) rs
    \<and> map cn_close_p cs = map mr_close rs \<and> map cn_high_p cs = map mr_high rs
    \<and> map cn_sequence_id cs = map (\<lambda>i. 1 + int i) [0..<length raw] \<and> list_all cn_is_closed cs
    \<and> list_all (\<lambda>c. dt_instant (cn_end_time c) = dt_instant (cn_start_time c) + minutes * 60000000) cs"
proof -
  have "\<exists>symbol. candles_of_rates symbol minutes 1 (sort_rates raw) = Ok cs"
    using assms(1,3) require_connected_cases [of g]
    by (auto simp: read_recent_closed_candles_def sbind_def active_symbol_settled [OF assms(2)] simp del: insert_iff split: if_splits)
  then obtain symbol where c: "candles_of_rates symbol minutes 1 (sort_rates raw) = Ok cs" by blast
  have l: "length (sort_rates raw) = length raw" by (metis mset_sort_rates size_mset)
  from candles_of_rates_fields [OF c] mset_sort_rates [of raw] sort_rates_sorted [OF assms(4)] l
  show ?thesis by (intro exI [of _ "sort_rates raw"]) simp
qed

definition demo_rate :: "rat \<Rightarrow> mt5_rate" where
  "demo_rate t = \<lparr>mr_time = Fin t, mr_open = Fin 1, mr_high = Fin 1, mr_low = Fin 1, mr_close = Fin t, mr_tick_volume = 1\<rparr>"

theorem history_is_ordered_witness:
  "\<exists>cs g'. read_recent_closed_candles (demo_api\<lparr>m5_copy_rates := (\<lambda>_ _ _ _. Some [demo_rate 120, demo_rate 60])\<rparr>) 1 2
       (demo_gateway True) = (Ok cs, g') \<and> length cs = 2
     \<and> (\<exists>rs. mset rs = {#demo_rate 120, demo_rate 60#} \<and> sorted_wrt (\<lambda>a b. fle (mr_time a) (mr_time b)) rs
            \<and> map cn_close_p cs = map mr_close rs)"
proof -
  let ?api = "demo_api\<lparr>m5_copy_rates := (\<lambda>_ _ _ _. Some [demo_rate 120, demo_rate 60])\<rparr>"
  have st: "require_connected (demo_gateway True) = (Ok (), demo_gateway True)"
    "active_symbol ?api s (demo_gateway True) = (Ok ''XAUUSD'', demo_gateway True)" for s
    by (simp_all add: require_connected_def active_symbol_def demo_gateway_def)
  obtain cs where cs: "candles_of_rates ''XAUUSD'' 1 1 (sort_rates [demo_rate 120, demo_rate 60]) = Ok cs" "length cs = 2"
    by (simp add: sort_rates_def demo_rate_def)
  then have e: "read_recent_closed_candles ?api 1 2 (demo_gateway True) = (Ok cs, demo_gateway True)" "length cs = 2"
    by (simp_all add: read_recent_closed_candles_def sbind_def st)
  have cp: "m5_copy_rates ?api (gw_world (demo_gateway True)) (the (gw_resolved (demo_gateway True))) (m5_timeframe ?api 1) 2 =
      Some [demo_rate 120, demo_rate 60]" by simp
  have nn: "NaN \<notin> mr_time ` set [demo_rate 120, demo_rate 60]" by (simp add: demo_rate_def)
  from history_is_ordered [OF e(1) demo_settled cp nn] e show ?thesis by auto
qed

subsection \<open>The environment file\<close>

definition plain_end :: "char \<Rightarrow> bool" where
  "plain_end c \<longleftrightarrow> \<not> is_space c \<and> c \<noteq> CHR 0x22 \<and> c \<noteq> CHR 0x27"

definition env_key_ok :: "string \<Rightarrow> bool" where
  "env_key_ok k \<longleftrightarrow> k \<noteq> [] \<and> CHR ''='' \<notin> set k \<and> hd k \<noteq> CHR ''#'' \<and> \<not> is_space (hd k) \<and> \<not> is_space (last k)"

definition env_value_ok :: "string \<Rightarrow> bool" where
  "env_value_ok v \<longleftrightarrow> v = [] \<or> plain_end (hd v) \<and> plain_end (last v)"

lemma dropWhile_hd: "s = [] \<or> \<not> P (hd s) \<Longrightarrow> dropWhile P s = s"
  by (cases s) auto

lemma py_strip_id: "s = [] \<or> \<not> is_space (hd s) \<and> \<not> is_space (last s) \<Longrightarrow> py_strip s = s"
  by (cases "s = []") (simp_all add: py_strip_def dropWhile_hd hd_rev)

lemma strip_char_id: "s = [] \<or> hd s \<noteq> c \<and> last s \<noteq> c \<Longrightarrow> strip_char c s = s"
  by (cases "s = []") (simp_all add: strip_char_def dropWhile_hd hd_rev)

lemma env_line_ok:
  assumes "env_key_ok k" "env_value_ok v"
  shows "env_line (k @ ''='' @ v) = Some (k, v)"
proof -
  have sp: "\<not> is_space CHR ''=''" by (simp add: is_space_def)
  have "last (k @ ''='' @ v) = (if v = [] then CHR ''='' else last v)" "hd (k @ ''='' @ v) = hd k"
    using assms(1) by (auto simp: env_key_ok_def)
  then have line: "py_strip (k @ ''='' @ v) = k @ ''='' @ v"
    using assms sp by (intro py_strip_id) (auto simp: env_key_ok_def env_value_ok_def plain_end_def)
  have tw: "takeWhile (\<lambda>x. x \<noteq> CHR ''='') (k @ ''='' @ v) = k" "dropWhile (\<lambda>x. x \<noteq> CHR ''='') (k @ ''='' @ v) = ''='' @ v"
    using assms(1) by (auto simp: env_key_ok_def takeWhile_append dropWhile_append)
  have hash: "\<not> has_prefix ''#'' (k @ ''='' @ v)" using assms(1) by (cases k) (auto simp: env_key_ok_def)
  have k: "py_strip k = k" using assms(1) by (intro py_strip_id) (auto simp: env_key_ok_def)
  have v: "py_strip v = v" "strip_char (CHR 0x22) v = v" "strip_char (CHR 0x27) v = v"
    using assms(2) by (auto intro!: py_strip_id strip_char_id simp: env_value_ok_def plain_end_def)
  show ?thesis using tw hash by (simp only: env_line_def line split_once_def Let_def) (simp add: k v)
qed

text \<open>Writing settings as \<open>KEY=value\<close> lines and reading the file gives them back, for distinct
  keys without an equals sign and values that neither begin nor end with blanks or quotes.\<close>

theorem env_file_roundtrip:
  assumes "distinct (map fst d)" "list_all (\<lambda>(k, v). env_key_ok k \<and> env_value_ok v) d"
  shows "read_env_file (Some (map (\<lambda>(k, v). k @ ''='' @ v) d)) = d"
proof -
  have "read_env_lines (map (\<lambda>(k, v). k @ ''='' @ v) d) acc = acc @ d" if "distinct (map fst (acc @ d))" for acc
    using that assms(2)
  proof (induction d arbitrary: acc)
    case (Cons kv d)
    obtain k v where kv: "kv = (k, v)" by fastforce
    with Cons.prems have "env_line (k @ ''='' @ v) = Some (k, v)" "AList.update k v acc = acc @ [(k, v)]"
      by (auto intro: env_line_ok [simplified] update_new_snoc)
    with Cons kv show ?case by simp
  qed simp
  from this [of "[]"] assms(1) show ?thesis by (simp add: read_env_file_def)
qed

theorem env_file_roundtrip_witness:
  "read_env_file (Some [''A=1'', ''B='']) = [(''A'', ''1''), (''B'', [])]"
  using env_file_roundtrip [of "[(''A'', ''1''), (''B'', [])]"]
  by (simp add: env_key_ok_def env_value_ok_def plain_end_def is_space_def)

text \<open>Dry run is off only if the setting is present, not empty and none of the four words read as
  yes; the same holds of the demo guard. A misspelt or unknown word therefore goes live.\<close>

lemma dry_run_setting:
  assumes "load_mt5_config int_text float_text path file = Ok c"
  shows "mc_dry_run c \<longleftrightarrow> (let v = env_get (read_env_file file) ''APEX_MT5_DRY_RUN'' ''true''
      in v = [] \<or> py_lower (py_strip v) \<in> {''1'', ''true'', ''yes'', ''on''})"
  using assms by (auto simp: load_mt5_config_def env_bool_def Let_def elim!: rbind_InrE split: if_splits)

end
