(* ===== verification/Selector.thy ===== *)
theory Selector
  imports TradeProtection OrderRouting
begin

section \<open>Strategy selection (src/strategy/ict_smc_strategy_selector.py)\<close>

text \<open>
  The selector runs a list of strategies over the market context, normalises their payloads,
  filters them by the profile, and picks the best tradeable one. A strategy's generator is an argument:
  any function from context and configuration to a payload or an exception. Texts of values, the float a
  text stands for and the \<open>:g\<close> format are the fields of \<open>pytext\<close>.
\<close>

record pytext =
  px_show :: "pyval \<Rightarrow> string"
  px_float :: "string \<Rightarrow> pyfloat res"
  px_g :: "pyfloat \<Rightarrow> string"

subsection \<open>Reading payloads\<close>

type_synonym pydict = "(string \<times> pyval) list"

definition is_number :: "pytext \<Rightarrow> pyval \<Rightarrow> bool res" where
  "is_number e v =
     (case py_float (px_float e) v of
        Inr _ \<Rightarrow> Ok True
      | Inl TypeError \<Rightarrow> Ok False
      | Inl (ValueError _) \<Rightarrow> Ok False
      | Inl x \<Rightarrow> Raise x)"

fun nested_parts :: "pyval \<Rightarrow> string list \<Rightarrow> pyval" where
  "nested_parts v [] = v"
| "nested_parts v (p # ps) =
     (case v of PDict d \<Rightarrow> (case map_of d p of None \<Rightarrow> PNone | Some x \<Rightarrow> nested_parts x ps) | _ \<Rightarrow> PNone)"

definition nested :: "pydict \<Rightarrow> string \<Rightarrow> pyval" where
  "nested d path = nested_parts (PDict d) (py_split CHR ''.'' path)"

fun extract_float :: "pytext \<Rightarrow> pydict \<Rightarrow> string list \<Rightarrow> pyfloat option res" where
  "extract_float e d [] = Ok None"
| "extract_float e d (p # ps) =
     rbind (is_number e (nested d p)) (\<lambda>num.
       if num then rmap Some (py_float (px_float e) (nested d p)) else extract_float e d ps)"

definition clamp :: "pyfloat \<Rightarrow> pyfloat \<Rightarrow> pyfloat \<Rightarrow> pyfloat" where
  "clamp v lower upper = py_max lower (py_min upper v)"

definition scaled :: "pyfloat \<Rightarrow> pyfloat" where
  "scaled v = (if fle v (Fin 10) then fmul v (Fin 10) else v)"

definition normalized_score :: "pytext \<Rightarrow> pydict \<Rightarrow> pyfloat res" where
  "normalized_score e signal =
     rmap (\<lambda>raw. case raw of None \<Rightarrow> Fin 0 | Some r \<Rightarrow> py_round (clamp (scaled r) (Fin 0) (Fin 100)) 2)
       (extract_float e signal [''score.total_score'', ''score.final_score'', ''total_score'', ''final_score'', ''quality_score'',
          ''confidence_score''])"

definition component_scores :: "pydict \<Rightarrow> pydict" where
  "component_scores signal =
     (case (case pget signal ''score'' (PDict []) of PDict sc \<Rightarrow> pget sc ''component_scores'' PNone | _ \<Rightarrow> PNone) of
        PDict d \<Rightarrow> d
      | _ \<Rightarrow> (case pget signal ''component_scores'' PNone of PDict d \<Rightarrow> d | _ \<Rightarrow> []))"

fun component_values :: "pytext \<Rightarrow> string \<Rightarrow> pydict \<Rightarrow> pyfloat list res" where
  "component_values e needle [] = Ok []"
| "component_values e needle ((k, v) # kvs) =
     (if has_sub needle (py_lower k)
      then rbind (is_number e v) (\<lambda>num.
             if num then rbind (py_float (px_float e) v) (\<lambda>x. rmap ((#) x) (component_values e needle kvs))
             else component_values e needle kvs)
      else component_values e needle kvs)"

fun fmax_list :: "pyfloat \<Rightarrow> pyfloat list \<Rightarrow> pyfloat" where
  "fmax_list m [] = m"
| "fmax_list m (x # xs) = fmax_list (py_max m x) xs"

definition component :: "pytext \<Rightarrow> pydict \<Rightarrow> string \<Rightarrow> pyfloat \<Rightarrow> pyfloat res" where
  "component e scores needle fallback =
     rmap (\<lambda>vs. case vs of [] \<Rightarrow> clamp fallback (Fin 0) (Fin 100) | x # xs \<Rightarrow> clamp (scaled (fmax_list x xs)) (Fin 0) (Fin 100))
       (component_values e needle scores)"

definition signal_direction :: "pytext \<Rightarrow> pydict \<Rightarrow> order_direction option" where
  "signal_direction e signal =
     (let raw = py_lower (py_str (px_show e) (py_or (py_or (py_or (pget signal ''direction'' PNone) (nested signal ''entry.direction''))
                  (nested signal ''risk.direction'')) (PStr [])))
      in if raw \<in> {''bullish'', ''buy'', ''long'', ''bull'', ''bsl''} then Some BUY
         else if raw \<in> {''bearish'', ''sell'', ''short'', ''bear'', ''ssl''} then Some SELL
         else None)"

definition selector_rr :: "order_direction option \<Rightarrow> pyfloat option \<Rightarrow> pyfloat option \<Rightarrow> pyfloat option \<Rightarrow> pyfloat" where
  "selector_rr d entry stop target =
     (case (d, entry, stop, target) of
        (Some dir, Some en, Some st, Some tg) \<Rightarrow>
          (let risk = fabs (fsub en st) in
           if fle risk (Fin 0) then Fin 0
           else py_round (py_max (Fin 0) (fdiv (if dir = BUY then fsub tg en else fsub en tg) risk)) 4)
      | _ \<Rightarrow> Fin 0)"

definition rejection_reason :: "pytext \<Rightarrow> pydict \<Rightarrow> string" where
  "rejection_reason e signal =
     (case py_or (py_or (pget signal ''rejection_reasons'' PNone) (nested signal ''score.hard_filter_failures'')) (PList []) of
        PStr s \<Rightarrow> s
      | PList xs \<Rightarrow> py_join '','' (map (py_str (px_show e)) xs)
      | _ \<Rightarrow> [])"

subsection \<open>The profile\<close>

definition split_items :: "string \<Rightarrow> string list" where
  "split_items s = filter (\<lambda>w. w \<noteq> []) (map py_strip (py_split CHR '','' s))"

definition strategy_set :: "pytext \<Rightarrow> pydict \<Rightarrow> string \<Rightarrow> string list \<Rightarrow> string list" where
  "strategy_set e config key dflt =
     (case map_of config key of
        None \<Rightarrow> dflt
      | Some PNone \<Rightarrow> []
      | Some (PStr s) \<Rightarrow> split_items s
      | Some (PList xs) \<Rightarrow> filter (\<lambda>w. w \<noteq> []) (map (\<lambda>x. py_strip (py_str (px_show e) x)) xs)
      | Some _ \<Rightarrow> dflt)"

definition strategy_threshold :: "pytext \<Rightarrow> pydict \<Rightarrow> string \<Rightarrow> string \<Rightarrow> pyfloat \<Rightarrow> pyfloat res" where
  "strategy_threshold e config strategy key dflt =
     (let general = (if key = ''strategy_min_scores'' then ''minimum_score'' else ''minimum_rr'');
          fallback = rbind (is_number e (pget config general PNone)) (\<lambda>num.
                       if num then py_float (px_float e) (pget config general PNone) else Ok dflt)
      in case pget config key PNone of
           PDict d \<Rightarrow> (case map_of d strategy of
               None \<Rightarrow> fallback
             | Some v \<Rightarrow> rbind (is_number e v) (\<lambda>num. if num then py_float (px_float e) v else fallback))
         | _ \<Rightarrow> fallback)"

definition as_sequence :: "pyval \<Rightarrow> pyval list" where
  "as_sequence v = (case v of PNone \<Rightarrow> [] | PStr s \<Rightarrow> map PStr (split_items s) | PList xs \<Rightarrow> xs | _ \<Rightarrow> [v])"

definition upper_set :: "pytext \<Rightarrow> pydict \<Rightarrow> string \<Rightarrow> string list" where
  "upper_set e filters key = map (\<lambda>v. py_upper (py_str (px_show e) v)) (as_sequence (pget filters key PNone))"

definition or_none :: "string \<Rightarrow> string" where
  "or_none s = (if s = [] then ''NONE'' else s)"

definition session_filter_allows :: "pytext \<Rightarrow> pydict \<Rightarrow> pydict \<Rightarrow> bool \<times> string" where
  "session_filter_allows e context config =
     (case pget config ''session_filters'' (PDict []) of
        PDict filters \<Rightarrow>
          (let session = py_upper (py_str (px_show e) (py_or (py_or (nested context ''session_context.session_name'')
                           (pget context ''session'' PNone)) (PStr [])));
               killzone = py_upper (py_str (px_show e) (py_or (nested context ''session_context.killzone_name'') (PStr [])));
               active = py_truthy (nested context ''session_context.killzone_active'')
           in if session \<in> set (upper_set e filters ''disabled_sessions'')
              then (False, ''session_disabled_by_profile:'' @ session)
              else if killzone \<noteq> [] \<and> killzone \<in> set (upper_set e filters ''disabled_killzones'')
              then (False, ''killzone_disabled_by_profile:'' @ killzone)
              else if upper_set e filters ''allowed_sessions'' \<noteq> [] \<and> session \<notin> set (upper_set e filters ''allowed_sessions'')
              then (False, ''session_not_allowed_by_profile:'' @ or_none session)
              else if upper_set e filters ''allowed_killzones'' \<noteq> [] \<and> killzone \<notin> set (upper_set e filters ''allowed_killzones'')
              then (False, ''killzone_not_allowed_by_profile:'' @ or_none killzone)
              else if py_truthy (pget filters ''require_killzone'' (PBool False)) \<and> \<not> active
              then (False, ''no_exact_killzone_active'')
              else (True, []))
      | _ \<Rightarrow> (True, []))"

fun first_dict :: "pyval list \<Rightarrow> pydict" where
  "first_dict [] = []"
| "first_dict (v # vs) = (case v of PDict d \<Rightarrow> d | _ \<Rightarrow> first_dict vs)"

definition displacement_diagnostics :: "pydict \<Rightarrow> pydict" where
  "displacement_diagnostics signal =
     first_dict (map (nested signal) [''displacement_diagnostics'', ''displacement'', ''entry.displacement_diagnostics'',
       ''score.displacement_diagnostics''])"

fun res_filter :: "('a \<Rightarrow> bool res) \<Rightarrow> 'a list \<Rightarrow> 'a list res" where
  "res_filter p [] = Ok []"
| "res_filter p (x # xs) = rbind (p x) (\<lambda>b. rmap (\<lambda>ys. if b then x # ys else ys) (res_filter p xs))"

fun res_map :: "('a \<Rightarrow> 'b res) \<Rightarrow> 'a list \<Rightarrow> 'b list res" where
  "res_map f [] = Ok []"
| "res_map f (x # xs) = rbind (f x) (\<lambda>y. rmap ((#) y) (res_map f xs))"

definition displacement_mode :: "pytext \<Rightarrow> pydict \<Rightarrow> string" where
  "displacement_mode e config =
     py_lower (py_str (px_show e) (py_or (pget config ''displacement_mode'' PNone)
       (if py_truthy (pget config ''strict_displacement'' PNone) then PStr ''reject_weak_or_unverified'' else PStr ''off'')))"

text \<open>The empty text means no objection.\<close>

definition displacement_rejection_reason :: "pytext \<Rightarrow> pydict \<Rightarrow> pydict \<Rightarrow> string res" where
  "displacement_rejection_reason e signal config =
     (let mode = displacement_mode e config in
      if mode = ''off'' \<or> mode = ''audit'' then Ok []
      else
        let diag = displacement_diagnostics signal;
            thresholds = (case pget config ''displacement_thresholds'' (PDict []) of PDict d \<Rightarrow> d | _ \<Rightarrow> [])
        in rbind (res_map (\<lambda>(name, dflt). rmap (Pair name) (py_float (px_float e) (pget thresholds name (PFloat dflt))))
              [(''body_to_range_ratio'', lit (3/5)), (''range_to_atr_ratio'', lit (6/5)), (''close_position_score'', Fin (3/4))]) (\<lambda>checks.
           rbind (res_filter (\<lambda>name. rmap Not (is_number e (pget diag name PNone))) (map fst checks)) (\<lambda>missing.
           if missing \<noteq> [] then Ok (''displacement_diagnostics_missing:'' @ py_join ''|'' missing)
           else rbind (res_filter (\<lambda>(name, minimum). rmap (\<lambda>x. flt x minimum) (rbind (pitem (PDict diag) name) (py_float (px_float e)))) checks)
             (\<lambda>failed.
              if failed \<noteq> [] then Ok (''weak_displacement:'' @ py_join ''|'' (map fst failed))
              else
                let claims = has_sub ''displacement'' (py_lower (py_str (px_show e) (py_or (py_or (pget signal ''components'' PNone)
                               (pget signal ''components_detected'' PNone)) (PDict signal))))
                in Ok (if (claims \<or> map_of diag ''fvg_created'' \<noteq> None) \<and> \<not> py_truthy (pget diag ''fvg_created'' PNone)
                       then ''weak_displacement:no_fvg_created'' else [])))))"

subsection \<open>Strategies and their evaluation\<close>

record strategy_definition =
  sd_key :: string
  sd_label :: string
  sd_generator :: "pydict \<Rightarrow> pydict option \<Rightarrow> pydict res"
  sd_setup_type :: setup_type
  sd_priority :: int
  sd_required_timeframes :: "string list"
  sd_min_candles :: nat
  sd_session_tags :: "string list"
  sd_requires_sweep :: bool
  sd_requires_htf_bias :: bool
  sd_news_only :: bool

record strategy_evaluation =
  ev_definition :: strategy_definition
  ev_signal :: pydict
  ev_status :: string
  ev_reason :: string
  ev_normalized_score :: pyfloat
  ev_estimated_rr :: pyfloat
  ev_entry_price :: "pyfloat option"
  ev_stop_loss :: "pyfloat option"
  ev_take_profit :: "pyfloat option"
  ev_direction :: "order_direction option"

definition bare_evaluation :: "strategy_definition \<Rightarrow> string \<Rightarrow> string \<Rightarrow> strategy_evaluation" where
  "bare_evaluation d status reason = \<lparr>ev_definition = d, ev_signal = [], ev_status = status, ev_reason = reason,
     ev_normalized_score = Fin 0, ev_estimated_rr = Fin 0, ev_entry_price = None, ev_stop_loss = None, ev_take_profit = None,
     ev_direction = None\<rparr>"

definition is_tradeable :: "strategy_evaluation \<Rightarrow> bool" where
  "is_tradeable ev \<longleftrightarrow> ev_status ev = ''TRADEABLE'' \<and> ev_direction ev \<noteq> None \<and> ev_entry_price ev \<noteq> None
     \<and> ev_stop_loss ev \<noteq> None \<and> ev_take_profit ev \<noteq> None \<and> fle (Fin (3/2)) (ev_estimated_rr ev)"

fun py_len :: "pyval \<Rightarrow> nat res" where
  "py_len (PList xs) = Ok (length xs)"
| "py_len (PStr s) = Ok (length s)"
| "py_len (PDict d) = Ok (length d)"
| "py_len _ = Raise TypeError"

text \<open>\<open>v.get(key, default)\<close>\<close>

definition dict_get :: "pyval \<Rightarrow> string \<Rightarrow> pyval \<Rightarrow> pyval res" where
  "dict_get v k dflt = (case v of PDict d \<Rightarrow> Ok (pget d k dflt) | _ \<Rightarrow> Raise AttributeError)"

fun short_timeframe :: "pydict \<Rightarrow> nat \<Rightarrow> string list \<Rightarrow> string option res" where
  "short_timeframe context minimum [] = Ok None"
| "short_timeframe context minimum (tf # tfs) =
     rbind (dict_get (py_or (pget context ''candles_by_timeframe'' (PDict [])) (PDict [])) tf (pget context ''candles'' (PList []))) (\<lambda>candles.
     rbind (py_len (py_or candles (PList []))) (\<lambda>n.
       if n < minimum then Ok (Some tf) else short_timeframe context minimum tfs))"

definition is_eligible :: "pytext \<Rightarrow> strategy_definition \<Rightarrow> pydict \<Rightarrow> (bool \<times> string) res" where
  "is_eligible e d context =
     rbind (short_timeframe context (sd_min_candles d) (sd_required_timeframes d)) (\<lambda>short.
     case short of Some tf \<Rightarrow> Ok (False, ''not_enough_'' @ tf @ ''_candles'')
     | None \<Rightarrow>
       let session = py_upper (py_str (px_show e) (py_or (py_or (py_or (nested context ''session_context.session_name'')
                       (nested context ''session_context.session'')) (pget context ''session'' PNone)) (PStr [])));
           killzone = py_upper (py_str (px_show e) (py_or (nested context ''session_context.killzone_name'') (PStr [])));
           tags = map py_upper (sd_session_tags d);
           bias = py_lower (py_str (px_show e) (py_or (py_or (nested context ''htf_bias.bias_direction'')
                    (pget context ''higher_timeframe_bias'' PNone)) (PStr [])))
       in if tags \<noteq> [] \<and> session \<notin> set tags \<and> killzone \<notin> set tags
          then Ok (False, ''session_'' @ or_none session @ ''_killzone_'' @ or_none killzone @ ''_not_eligible'')
          else if sd_requires_sweep d \<and> \<not> py_truthy (pget context ''latest_sweep_event'' PNone)
          then Ok (False, ''no_recent_liquidity_sweep'')
          else if sd_requires_htf_bias d \<and> bias \<notin> {''bullish'', ''bearish''}
          then Ok (False, ''htf_bias_not_directional'')
          else if sd_news_only d
          then (let news = py_or (pget context ''news_status'' (PDict [])) (PDict []) in
                rbind (dict_get news ''high_impact_recent'' PNone) (\<lambda>a.
                rbind (dict_get news ''post_news_window_active'' PNone) (\<lambda>b.
                  Ok (if \<not> py_truthy (py_or a b) then (False, ''no_recent_high_impact_news_window'') else (True, [])))))
          else Ok (True, []))"

definition entry_paths :: "string list" where
  "entry_paths = [''entry_price'', ''entry.entry_price'', ''entry_model.entry_price'', ''ltf_entry_poi.entry_price'',
     ''entry_poi.entry_price'', ''risk.entry_price'', ''risk.entry'']"

definition stop_paths :: "string list" where
  "stop_paths = [''stop_loss'', ''risk.stop_loss'', ''entry_model.stop_loss'', ''ltf_entry_poi.stop_loss'']"

definition target_paths :: "string list" where
  "target_paths = [''take_profit'', ''target'', ''target.price'', ''target.target_price'', ''risk.target'', ''risk.final_target'',
     ''risk.target_2'', ''risk.target_1'', ''risk.take_profit'']"

definition rr_paths :: "string list" where
  "rr_paths = [''estimated_rr'', ''rr'', ''risk.rr'', ''risk.rr_to_final_target'']"

text \<open>What a payload says, before it is judged.\<close>

definition read_signal :: "pytext \<Rightarrow> strategy_definition \<Rightarrow> pydict \<Rightarrow> strategy_evaluation res" where
  "read_signal e d signal =
     rbind (normalized_score e signal) (\<lambda>score.
     let dir = signal_direction e signal in
     rbind (extract_float e signal entry_paths) (\<lambda>entry.
     rbind (extract_float e signal stop_paths) (\<lambda>stop.
     rbind (extract_float e signal target_paths) (\<lambda>target.
     rbind (extract_float e signal rr_paths) (\<lambda>given.
       let rr = (case given of Some x \<Rightarrow> if x = Fin 0 then selector_rr dir entry stop target else x
                 | None \<Rightarrow> selector_rr dir entry stop target)
       in Ok \<lparr>ev_definition = d, ev_signal = signal, ev_status = ''REJECTED'', ev_reason = [], ev_normalized_score = score,
              ev_estimated_rr = rr, ev_entry_price = entry, ev_stop_loss = stop, ev_take_profit = target, ev_direction = dir\<rparr>)))))"

definition default_min_score :: pyfloat where "default_min_score = Fin 88"
definition default_min_rr :: pyfloat where "default_min_rr = Fin (3/2)"

text \<open>The objections to a payload that allows a trade; it is tradeable when there is none.\<close>

definition missing_parts :: "pytext \<Rightarrow> strategy_definition \<Rightarrow> pydict \<Rightarrow> strategy_evaluation \<Rightarrow> string list res" where
  "missing_parts e d cfg ev =
     (let m1 = (if ev_direction ev = None then [''direction''] else []);
          m2 = (if ev_entry_price ev = None then [''entry''] else []);
          m3 = (if ev_stop_loss ev = None then [''stop''] else []);
          m4 = (if ev_take_profit ev = None then [''target''] else []);
          m5 = (if flt (ev_estimated_rr ev) (Fin (3/2)) then [''rr_below_1_5''] else [])
      in rbind (strategy_threshold e cfg (sd_key d) ''strategy_min_scores'' default_min_score) (\<lambda>min_score.
         rbind (strategy_threshold e cfg (sd_key d) ''strategy_min_rr'' default_min_rr) (\<lambda>min_rr.
         let m6 = (if flt (ev_normalized_score ev) min_score then [''score_below_minimum:'' @ px_g e min_score] else []);
             m7 = (if flt (ev_estimated_rr ev) min_rr then [''rr_below_minimum:'' @ px_g e min_rr] else [])
         in rmap (\<lambda>disp. m1 @ m2 @ m3 @ m4 @ m5 @ m6 @ m7 @ (if disp \<noteq> [] then [disp] else []))
              (displacement_rejection_reason e (ev_signal ev) cfg))))"

definition judge_signal :: "pytext \<Rightarrow> strategy_definition \<Rightarrow> pydict \<Rightarrow> strategy_evaluation \<Rightarrow> strategy_evaluation res" where
  "judge_signal e d cfg ev =
     (if \<not> (py_truthy (pget (ev_signal ev) ''trade_allowed'' PNone) \<or> py_truthy (nested (ev_signal ev) ''score.trade_allowed''))
      then Ok (ev\<lparr>ev_reason := (let r = rejection_reason e (ev_signal ev) in if r = [] then ''strategy_trade_allowed_false'' else r)\<rparr>)
      else rmap (\<lambda>missing. ev\<lparr>ev_status := (if missing = [] then ''TRADEABLE'' else ''REJECTED''), ev_reason := py_join '','' missing\<rparr>)
             (missing_parts e d cfg ev))"

definition evaluate_one ::
  "pytext \<Rightarrow> pydict \<Rightarrow> pydict option \<Rightarrow> strategy_definition \<Rightarrow> strategy_evaluation res" where
  "evaluate_one e context config d =
     (let cfg = (case config of None \<Rightarrow> [] | Some c \<Rightarrow> c);
          enabled = strategy_set e cfg ''enabled_strategies'' [];
          disabled = strategy_set e cfg ''disabled_strategies'' [];
          (allowed_now, session_reason) = session_filter_allows e context cfg
      in if enabled \<noteq> [] \<and> sd_key d \<notin> set enabled then Ok (bare_evaluation d ''SKIPPED'' ''strategy_not_enabled_by_profile'')
         else if sd_key d \<in> set disabled then Ok (bare_evaluation d ''SKIPPED'' ''strategy_disabled_by_risk_gate'')
         else if \<not> allowed_now then Ok (bare_evaluation d ''SKIPPED'' session_reason)
         else rbind (is_eligible e d context) (\<lambda>(eligible, reason).
           if \<not> eligible then Ok (bare_evaluation d ''SKIPPED'' reason)
           else case sd_generator d context config of
             Inl x \<Rightarrow> Ok (bare_evaluation d ''ERROR'' (exn_text x))
           | Inr signal \<Rightarrow> rbind (read_signal e d signal) (judge_signal e d cfg)))"

subsection \<open>Selection\<close>

record selection_result =
  sl_selected :: "strategy_evaluation option"
  sl_evaluations :: "strategy_evaluation list"

text \<open>Tuples compare by their first unequal components.\<close>

definition rank_less :: "strategy_evaluation \<Rightarrow> strategy_evaluation \<Rightarrow> bool" where
  "rank_less x y =
     (if \<not> feq (ev_normalized_score x) (ev_normalized_score y) then flt (ev_normalized_score x) (ev_normalized_score y)
      else if \<not> feq (ev_estimated_rr x) (ev_estimated_rr y) then flt (ev_estimated_rr x) (ev_estimated_rr y)
      else sd_priority (ev_definition x) < sd_priority (ev_definition y))"

definition best_of :: "strategy_evaluation list \<Rightarrow> strategy_evaluation option" where
  "best_of xs = (case xs of [] \<Rightarrow> None | y # ys \<Rightarrow> Some (first_best (\<lambda>a b. rank_less b a) y ys))"

definition selector_evaluate ::
  "pytext \<Rightarrow> strategy_definition list \<Rightarrow> pydict \<Rightarrow> pydict option \<Rightarrow> selection_result res" where
  "selector_evaluate e definitions context config =
     rmap (\<lambda>evs. \<lparr>sl_selected = best_of (filter is_tradeable evs), sl_evaluations = evs\<rparr>)
       (res_map (evaluate_one e context config) definitions)"

record selector_rejection =
  rj_strategy :: string
  rj_status :: string
  rj_reason :: string
  rj_score :: pyfloat
  rj_rr :: pyfloat

record selector_diagnostics =
  dg_evaluated :: nat
  dg_tradeable :: nat
  dg_selected :: "string option"
  dg_rejections :: "selector_rejection list"

definition diagnostics :: "selection_result \<Rightarrow> selector_diagnostics" where
  "diagnostics r = \<lparr>dg_evaluated = length (sl_evaluations r), dg_tradeable = length (filter is_tradeable (sl_evaluations r)),
     dg_selected = map_option (\<lambda>ev. sd_key (ev_definition ev)) (sl_selected r),
     dg_rejections = take 12 (map (\<lambda>ev. \<lparr>rj_strategy = sd_key (ev_definition ev), rj_status = ev_status ev, rj_reason = ev_reason ev,
         rj_score = py_round (ev_normalized_score ev) 2, rj_rr = py_round (ev_estimated_rr ev) 2\<rparr>)
       (filter (\<lambda>ev. \<not> is_tradeable ev) (sl_evaluations r)))\<rparr>"

subsection \<open>From an evaluation to a setup\<close>

definition quality_tier :: "pyfloat \<Rightarrow> setup_quality_tier" where
  "quality_tier score =
     (if fle (Fin 88) score then ELITE_INSTITUTIONAL else if fle (Fin 75) score then HIGH_PROBABILITY
      else if fle (Fin 60) score then STANDARD else INVALID_SETUP)"

definition confirmation_tier_of :: "pyfloat \<Rightarrow> confirmation_tier" where
  "confirmation_tier_of score =
     (if fle (Fin 80) score then HIGH_CONVICTION else if fle (Fin 65) score then MEDIUM_CONVICTION
      else if fle (Fin 50) score then LOW_CONVICTION else INVALID)"

definition resolved_setup_type :: "pytext \<Rightarrow> strategy_evaluation \<Rightarrow> setup_type" where
  "resolved_setup_type e ev =
     (if sd_key (ev_definition ev) = ''htf_poi_ltf_confirmation''
       \<and> has_sub ''fvg'' (py_lower (py_str (px_show e) (pget (ev_signal ev) ''ltf_entry_poi'' (pget (ev_signal ev) ''entry'' (PDict [])))))
      then FVG_CONTINUATION else sd_setup_type (ev_definition ev))"

definition build_setup_node ::
  "pytext \<Rightarrow> strategy_evaluation \<Rightarrow> string \<Rightarrow> datetime \<Rightarrow> string \<Rightarrow> string \<Rightarrow> setup_node res" where
  "build_setup_node e ev setup_id now correlation timeframe =
     (if \<not> is_tradeable ev then Raise (ValueError ''Cannot build a setup node from a non-tradeable strategy evaluation.'')
      else Ok \<lparr>sn_id = setup_id, sn_setup_type = resolved_setup_type e ev, sn_direction = the (ev_direction ev),
               sn_entry_price = the (ev_entry_price ev), sn_stop_loss = the (ev_stop_loss ev), sn_take_profit = the (ev_take_profit ev),
               sn_estimated_rr = ev_estimated_rr ev, sn_quality_tier = quality_tier (ev_normalized_score ev),
               sn_confidence_score = ev_normalized_score ev, sn_creation_time = now, sn_expiration_time = dt_add now (20 * 60000000),
               sn_correlation_id = correlation, sn_timeframe = timeframe\<rparr>)"

definition build_confirmation_snapshot :: "pytext \<Rightarrow> strategy_evaluation \<Rightarrow> datetime \<Rightarrow> confirmation_snapshot res" where
  "build_confirmation_snapshot e ev now =
     (let score = clamp (ev_normalized_score ev) (Fin 0) (Fin 100);
          scores = component_scores (ev_signal ev);
          part = (\<lambda>needle. component e scores needle score)
      in rbind (part ''momentum'') (\<lambda>momentum. rbind (part ''displacement'') (\<lambda>displacement. rbind (part ''wick'') (\<lambda>wick.
         rbind (part ''htf'') (\<lambda>htf. rbind (part ''volatility'') (\<lambda>volatility. rbind (part ''session'') (\<lambda>session.
         Ok \<lparr>cs_timestamp = now, cs_overall_tier = confirmation_tier_of score, cs_confidence_score = score, cs_is_validated = True,
             cs_alignment = (if fle (Fin 75) score then FULLY_ALIGNED else PARTIALLY_ALIGNED),
             cs_metrics = \<lparr>cm_momentum_velocity_score = momentum, cm_displacement_ratio = fdiv displacement (Fin 10),
               cm_wick_rejection_pct = wick, cm_mtf_alignment_score = htf,
               cm_volatility_expansion_factor = py_max (Fin 1) (fdiv volatility (Fin 10)), cm_session_efficiency_index = session\<rparr>,
             cs_validated_components = [sd_key (ev_definition ev), sd_label (ev_definition ev),
               py_str (px_show e) (pget (ev_signal ev) ''signal_id'' (PStr []))],
             cs_invalidation_reasons = []\<rparr>)))))))"

subsection \<open>The default strategies\<close>

text \<open>\<open>gen\<close> gives the generator of a key.\<close>

definition strategy ::
  "(string \<Rightarrow> pydict \<Rightarrow> pydict option \<Rightarrow> pydict res) \<Rightarrow> string \<Rightarrow> string \<Rightarrow> setup_type \<Rightarrow> int \<Rightarrow> nat \<Rightarrow> strategy_definition" where
  "strategy gen key label type priority candles = \<lparr>sd_key = key, sd_label = label, sd_generator = gen key, sd_setup_type = type,
     sd_priority = priority, sd_required_timeframes = [''1m''], sd_min_candles = candles, sd_session_tags = [],
     sd_requires_sweep = False, sd_requires_htf_bias = False, sd_news_only = False\<rparr>"

definition default_definitions :: "(string \<Rightarrow> pydict \<Rightarrow> pydict option \<Rightarrow> pydict res) \<Rightarrow> strategy_definition list" where
  "default_definitions gen =
     [(strategy gen ''sweep_mss_fvg'' ''Liquidity Sweep + MSS + FVG Entry'' LIQUIDITY_SWEEP_REVERSAL 95 18)\<lparr>sd_requires_sweep := True\<rparr>,
      (strategy gen ''silver_bullet'' ''ICT Silver Bullet'' FVG_CONTINUATION 90 18)
        \<lparr>sd_session_tags := [''London Open'', ''NY Open'', ''Silver Bullet AM'', ''Silver Bullet PM'']\<rparr>,
      (strategy gen ''judas_swing'' ''Judas Swing / Session Manipulation'' LIQUIDITY_SWEEP_REVERSAL 88 25)\<lparr>sd_requires_sweep := True\<rparr>,
      (strategy gen ''order_block_retest'' ''Order Block Retest After Sweep'' ORDER_BLOCK_CONTINUATION 86 18)\<lparr>sd_requires_sweep := True\<rparr>,
      (strategy gen ''fvg_continuation'' ''FVG Continuation'' FVG_CONTINUATION 82 25)\<lparr>sd_requires_htf_bias := True\<rparr>,
      strategy gen ''breaker_block'' ''Breaker Block'' ORDER_BLOCK_CONTINUATION 80 25,
      (strategy gen ''power_of_three_amd'' ''Power of Three AMD'' LIQUIDITY_SWEEP_REVERSAL 78 30)
        \<lparr>sd_session_tags := [''ASI_ACCUMULATION'', ''ASIAN_ACCUMULATION'', ''ASIAN_SESSION'', ''London Open'', ''NY Open'']\<rparr>,
      (strategy gen ''pdh_pdl_raid'' ''Previous Day High/Low Raid'' LIQUIDITY_SWEEP_REVERSAL 84 25)\<lparr>sd_requires_sweep := True\<rparr>,
      (strategy gen ''killzone_scalping'' ''Kill Zone Scalping'' LIQUIDITY_SWEEP_REVERSAL 83 18)
        \<lparr>sd_session_tags := [''London Open'', ''NY Open'', ''Silver Bullet AM'', ''Silver Bullet PM'']\<rparr>,
      (strategy gen ''liquidity_to_liquidity'' ''Liquidity-to-Liquidity'' LIQUIDITY_SWEEP_REVERSAL 81 18)\<lparr>sd_requires_sweep := True\<rparr>,
      (strategy gen ''news_liquidity_sweep'' ''News Liquidity Sweep'' LIQUIDITY_SWEEP_REVERSAL 92 12)\<lparr>sd_news_only := True\<rparr>,
      (strategy gen ''htf_poi_ltf_confirmation'' ''HTF POI + LTF Confirmation'' ORDER_BLOCK_CONTINUATION 89 18)
        \<lparr>sd_required_timeframes := [''1m'', ''15m''], sd_requires_htf_bias := True\<rparr>]"

subsection \<open>Scores\<close>

lemma clamp_score: "fle (Fin 0) (clamp v (Fin 0) (Fin 100)) \<and> fle (clamp v (Fin 0) (Fin 100)) (Fin 100)"
  unfolding clamp_def by (rule clamp_range) simp

lemma py_round_100: "py_round (Fin 100) 2 = Fin 100"
proof -
  have "rhe (10000 :: rat) = 10000" by simp
  then show ?thesis by (simp add: feval)
qed

lemma normalized_score_range:
  assumes "normalized_score e signal = Ok s"
  shows "fle (Fin 0) s \<and> fle s (Fin 100)"
proof -
  have "fle (Fin 0) (py_round x 2) \<and> fle (py_round x 2) (Fin 100)" if "fle (Fin 0) x" "fle x (Fin 100)" for x
    using py_round_mono [OF that(2), of 2] py_round_nonneg [OF that(1)] py_round_100 by simp
  with assms clamp_score show ?thesis
    by (auto simp: normalized_score_def rmap_Inr_iff split: option.splits)
qed

lemma read_signalD:
  assumes "read_signal e d signal = Ok ev"
  shows "ev_definition ev = d \<and> ev_signal ev = signal \<and> normalized_score e signal = Ok (ev_normalized_score ev)
    \<and> fle (Fin 0) (ev_normalized_score ev) \<and> fle (ev_normalized_score ev) (Fin 100)"
  using assms normalized_score_range by (auto simp: read_signal_def Let_def elim!: rbind_InrE)

lemma judge_signalD:
  assumes "judge_signal e d cfg ev = Ok ev'"
  shows "ev_definition ev' = ev_definition ev \<and> ev_signal ev' = ev_signal ev \<and> ev_normalized_score ev' = ev_normalized_score ev
    \<and> ev_estimated_rr ev' = ev_estimated_rr ev"
  using assms by (auto simp: judge_signal_def rmap_Inr_iff split: if_splits)

lemma bare_not_tradeable [simp]: "is_tradeable (bare_evaluation d s r) \<longleftrightarrow> False"
  by (simp add: is_tradeable_def bare_evaluation_def)

lemma evaluate_one_definition:
  assumes "evaluate_one e context config d = Ok ev"
  shows "ev_definition ev = d \<and> fle (Fin 0) (ev_normalized_score ev)"
proof -
  have b: "ev_definition (bare_evaluation d x y) = d \<and> fle (Fin 0) (ev_normalized_score (bare_evaluation d x y))" for x y
    by (simp add: bare_evaluation_def)
  show ?thesis using assms b
    by (auto simp: evaluate_one_def Let_def split: if_splits prod.splits sum.splits elim!: rbind_InrE
        dest!: judge_signalD read_signalD)
qed

text \<open>C11. A tradeable evaluation has passed every gate, in particular the score and reward thresholds that
  apply to its strategy and the displacement check.\<close>

theorem tradeable_passed_every_gate:
  assumes "evaluate_one e context config d = Ok ev" "is_tradeable ev"
  shows "let cfg = (case config of None \<Rightarrow> [] | Some c \<Rightarrow> c) in
    (strategy_set e cfg ''enabled_strategies'' [] = [] \<or> sd_key d \<in> set (strategy_set e cfg ''enabled_strategies'' []))
  \<and> sd_key d \<notin> set (strategy_set e cfg ''disabled_strategies'' [])
  \<and> fst (session_filter_allows e context cfg) \<and> is_eligible e d context = Ok (True, [])
  \<and> sd_generator d context config = Ok (ev_signal ev)
  \<and> (\<exists>min_score min_rr. strategy_threshold e cfg (sd_key d) ''strategy_min_scores'' default_min_score = Ok min_score
       \<and> strategy_threshold e cfg (sd_key d) ''strategy_min_rr'' default_min_rr = Ok min_rr
       \<and> \<not> flt (ev_normalized_score ev) min_score \<and> \<not> flt (ev_estimated_rr ev) min_rr)
  \<and> displacement_rejection_reason e (ev_signal ev) cfg = Ok []
  \<and> fle (Fin (3/2)) (ev_estimated_rr ev) \<and> fle (Fin 0) (ev_normalized_score ev) \<and> fle (ev_normalized_score ev) (Fin 100)"
proof -
  define cfg where "cfg = (case config of None \<Rightarrow> [] | Some c \<Rightarrow> c)"
  have elig: "reason = []" if "is_eligible e d context = Ok (True, reason)" for reason
    using that by (auto simp: is_eligible_def Let_def split: option.splits if_splits elim!: rbind_InrE)
  from assms obtain reason signal ev0 where
    gates: "strategy_set e cfg ''enabled_strategies'' [] = [] \<or> sd_key d \<in> set (strategy_set e cfg ''enabled_strategies'' [])"
      "sd_key d \<notin> set (strategy_set e cfg ''disabled_strategies'' [])" "fst (session_filter_allows e context cfg)"
      "is_eligible e d context = Ok (True, reason)"
    and gen: "sd_generator d context config = Ok signal" "read_signal e d signal = Ok ev0" "judge_signal e d cfg ev0 = Ok ev"
    unfolding evaluate_one_def Let_def cfg_def [symmetric]
    by (auto split: if_splits prod.splits sum.splits elim!: rbind_InrE)
  note r = read_signalD [OF gen(2)] and j = judge_signalD [OF gen(3)]
  have st: "ev_status ev = ''TRADEABLE''" using assms(2) by (simp add: is_tradeable_def)
  have st0: "ev_status ev0 = ''REJECTED''" using gen(2) by (auto simp: read_signal_def Let_def elim!: rbind_InrE)
  from gen(3) st st0 have "missing_parts e d cfg ev0 = Ok []"
    by (auto simp: judge_signal_def rmap_Inr_iff split: if_splits)
  then obtain min_score min_rr where
    "strategy_threshold e cfg (sd_key d) ''strategy_min_scores'' default_min_score = Ok min_score"
    "strategy_threshold e cfg (sd_key d) ''strategy_min_rr'' default_min_rr = Ok min_rr"
    "\<not> flt (ev_normalized_score ev0) min_score" "\<not> flt (ev_estimated_rr ev0) min_rr"
    "displacement_rejection_reason e (ev_signal ev0) cfg = Ok []"
    by (auto simp: missing_parts_def Let_def rmap_Inr_iff split: if_splits elim!: rbind_InrE)
  moreover have "fle (Fin (3/2)) (ev_estimated_rr ev)" using assms(2) by (simp add: is_tradeable_def)
  ultimately show ?thesis unfolding Let_def cfg_def [symmetric]
    using gates elig gen(1) r j by auto
qed

text \<open>Ranking is a strict weak order on the evaluations a selection compares.\<close>

definition rankable :: "strategy_evaluation \<Rightarrow> bool" where
  "rankable ev \<longleftrightarrow> ev_normalized_score ev \<noteq> NaN \<and> ev_estimated_rr ev \<noteq> NaN"

lemma rank_less_irrefl: "\<not> rank_less x x"
  by (simp add: rank_less_def)

lemma rank_less_asym: "rank_less x y \<Longrightarrow> \<not> rank_less y x"
  using flt_asym by (auto simp: rank_less_def feq_def split: if_splits)

lemma not_rank_less_trans:
  assumes "rankable x" "rankable y" "rankable z" "\<not> rank_less y x" "\<not> rank_less z y"
  shows "\<not> rank_less z x"
proof -
  have le: "\<not> flt b a \<Longrightarrow> a \<noteq> NaN \<Longrightarrow> b \<noteq> NaN \<Longrightarrow> fle a b" for a b using not_flt by blast
  have key: "\<not> rank_less b a \<longleftrightarrow> flt (ev_normalized_score a) (ev_normalized_score b)
      \<or> ev_normalized_score a = ev_normalized_score b \<and> (flt (ev_estimated_rr a) (ev_estimated_rr b)
        \<or> ev_estimated_rr a = ev_estimated_rr b \<and> sd_priority (ev_definition a) \<le> sd_priority (ev_definition b))"
    if "rankable a" "rankable b" for a b
  proof -
    have "u = v \<or> flt u v \<or> flt v u" if "u \<noteq> NaN" "v \<noteq> NaN" for u v using that by (cases u; cases v) auto
    with that show ?thesis using flt_asym by (auto simp: rank_less_def feq_def rankable_def)
  qed
  show ?thesis using assms by (auto simp: key intro: flt_trans)
qed

lemma res_map_Ok: "res_map f xs = Ok ys \<Longrightarrow> list_all2 (\<lambda>x y. f x = Ok y) xs ys"
  by (induction xs arbitrary: ys) (auto simp: rmap_Inr_iff elim!: rbind_InrE)

lemma res_map_mem: "res_map f xs = Ok ys \<Longrightarrow> y \<in> set ys \<Longrightarrow> \<exists>x\<in>set xs. f x = Ok y"
  by (induction xs arbitrary: ys) (auto simp: rmap_Inr_iff elim!: rbind_InrE)

text \<open>C10. The selection evaluates every strategy, in order, and picks a tradeable evaluation that no
  tradeable one beats by score, then reward, then priority; it picks none exactly when none is
  tradeable.\<close>

theorem selection_is_best:
  assumes "selector_evaluate e definitions context config = Ok r"
  shows "map ev_definition (sl_evaluations r) = definitions
    \<and> (case sl_selected r of
         None \<Rightarrow> filter is_tradeable (sl_evaluations r) = []
       | Some best \<Rightarrow> best \<in> set (sl_evaluations r) \<and> is_tradeable best
           \<and> list_all (\<lambda>ev. is_tradeable ev \<longrightarrow> \<not> rank_less best ev) (sl_evaluations r))"
proof -
  from assms obtain evs where evs: "res_map (evaluate_one e context config) definitions = Ok evs"
    "r = \<lparr>sl_selected = best_of (filter is_tradeable evs), sl_evaluations = evs\<rparr>"
    by (auto simp: selector_evaluate_def rmap_Inr_iff)
  note all = res_map_Ok [OF evs(1)]
  have defs: "map ev_definition evs = definitions" using all
    by (induction rule: list_all2_induct) (auto dest: evaluate_one_definition)
  have rk: "rankable ev" if mem: "ev \<in> set evs" and tr: "is_tradeable ev" for ev
  proof -
    obtain d where "evaluate_one e context config d = Ok ev"
      using res_map_mem [OF evs(1) mem] by blast
    from evaluate_one_definition [OF this] tr show ?thesis
      by (auto simp: rankable_def is_tradeable_def dest: fle_not_NaN)
  qed
  show ?thesis
  proof (cases "filter is_tradeable evs")
    case Nil
    then show ?thesis using defs evs by (simp add: best_of_def)
  next
    case (Cons y ys)
    define best where "best = first_best (\<lambda>a b. rank_less b a) y ys"
    have "best \<in> set (filter is_tradeable evs)" unfolding best_def Cons by (rule first_best_in)
    then have b: "best \<in> set evs" "is_tradeable best" by simp_all
    have sel: "sl_selected r = Some best" "sl_evaluations r = evs" using Cons by (simp_all add: evs(2) best_of_def best_def)
    have "\<not> rank_less best ev" if "ev \<in> set evs" "is_tradeable ev" for ev
      unfolding best_def
    proof (rule first_best_best [where P = "\<lambda>x. x \<in> set evs \<and> is_tradeable x"])
      have sub: "set (y # ys) = {x \<in> set evs. is_tradeable x}" unfolding Cons [symmetric] by auto
      show "y \<in> set evs \<and> is_tradeable y" using sub by auto
      show "x \<in> set evs \<and> is_tradeable x" if "x \<in> set ys" for x using sub that by auto
      show "ev \<in> set (y # ys)" unfolding Cons [symmetric] using that by simp
    qed (use rk not_rank_less_trans rank_less_asym rank_less_irrefl in blast)+
    then show ?thesis using defs b by (simp add: sel list_all_iff)
  qed
qed

text \<open>The setup built from a tradeable evaluation carries its figures, expires twenty minutes later and
  is graded by its score; the confirmation built beside it is validated, and whenever the setup is of
  the elite tier the confirmation is of high conviction and fully aligned.\<close>

theorem setup_and_confirmation_agree:
  assumes "is_tradeable ev" "fle (Fin 0) (ev_normalized_score ev)" "fle (ev_normalized_score ev) (Fin 100)"
    and "build_confirmation_snapshot e ev now = Ok c"
  shows "\<exists>s. build_setup_node e ev i now cid tf = Ok s
    \<and> ev_entry_price ev = Some (sn_entry_price s) \<and> ev_stop_loss ev = Some (sn_stop_loss s) \<and> ev_direction ev = Some (sn_direction s)
    \<and> dt_instant (sn_expiration_time s) = dt_instant now + 1200000000
    \<and> cs_is_validated c \<and> cs_confidence_score c = sn_confidence_score s
    \<and> (sn_quality_tier s = ELITE_INSTITUTIONAL \<longrightarrow> cs_overall_tier c = HIGH_CONVICTION \<and> cs_alignment c = FULLY_ALIGNED)"
proof -
  have id: "clamp v (Fin 0) (Fin 100) = v" if "fle (Fin 0) v" "fle v (Fin 100)" for v
    using that by (cases v) (auto simp: clamp_def py_min_def py_max_def)
  have c: "cs_overall_tier c = confirmation_tier_of (ev_normalized_score ev)" "cs_is_validated c"
    "cs_confidence_score c = ev_normalized_score ev"
    "cs_alignment c = (if fle (Fin 75) (ev_normalized_score ev) then FULLY_ALIGNED else PARTIALLY_ALIGNED)"
    using assms(4) unfolding build_confirmation_snapshot_def Let_def id [OF assms(2,3)]
    by (auto elim!: rbind_InrE)
  have up: "fle (Fin 88) v \<Longrightarrow> fle (Fin 80) v \<and> fle (Fin 75) v" for v by (cases v) auto
  show ?thesis using assms(1) c up [of "ev_normalized_score ev"]
    by (auto simp: build_setup_node_def is_tradeable_def quality_tier_def confirmation_tier_of_def)
qed

definition plain_text :: pytext where
  "plain_text = \<lparr>px_show = (\<lambda>_. []), px_float = (\<lambda>_. Raise (ValueError [])), px_g = (\<lambda>_. [])\<rparr>"

definition demo_signal :: pydict where
  "demo_signal = [(''trade_allowed'', PBool True), (''direction'', PStr ''bullish''), (''entry_price'', PFloat (Fin 2000)),
     (''stop_loss'', PFloat (Fin 2010)), (''take_profit'', PFloat (Fin 2030)), (''rr'', PFloat (Fin 3)), (''total_score'', PFloat NaN)]"

definition demo_strategy :: strategy_definition where
  "demo_strategy = strategy (\<lambda>_ _ _. Ok demo_signal) ''demo'' ''Demo'' FVG_CONTINUATION 50 0"

lemmas payload_defs = nested_def pget_def is_number_def entry_paths_def stop_paths_def target_paths_def rr_paths_def py_or_def

text \<open>The demo payload: a NaN score, and the stop of a buy above its entry.\<close>

lemma demo_read:
  "read_signal plain_text demo_strategy demo_signal = Ok \<lparr>ev_definition = demo_strategy, ev_signal = demo_signal, ev_status = ''REJECTED'',
     ev_reason = [], ev_normalized_score = Fin 100, ev_estimated_rr = Fin 3, ev_entry_price = Some (Fin 2000), ev_stop_loss = Some (Fin 2010),
     ev_take_profit = Some (Fin 2030), ev_direction = Some BUY\<rparr>"
  by (simp add: read_signal_def normalized_score_def payload_defs demo_signal_def signal_direction_def py_lower_def low_char_def
      clamp_def scaled_def py_max_def py_min_def feval)

lemma demo_evaluation:
  "\<exists>ev. evaluate_one plain_text [] None demo_strategy = Ok ev \<and> is_tradeable ev \<and> ev_normalized_score ev = Fin 100
     \<and> ev_direction ev = Some BUY \<and> ev_entry_price ev = Some (Fin 2000) \<and> ev_stop_loss ev = Some (Fin 2010) \<and> ev_signal ev = demo_signal
     \<and> ev_definition ev = demo_strategy"
proof -
  have th: "strategy_threshold plain_text [] k n d = Ok d" for k n d
    by (simp add: strategy_threshold_def is_number_def pget_def)
  have disp: "displacement_rejection_reason plain_text demo_signal [] = Ok []"
    by (simp add: displacement_rejection_reason_def displacement_mode_def py_or_def pget_def py_lower_def low_char_def)
  have el: "is_eligible plain_text demo_strategy [] = Ok (True, [])"
    by (simp add: is_eligible_def demo_strategy_def strategy_def dict_get_def py_or_def pget_def)
  have ta: "py_truthy (pget demo_signal ''trade_allowed'' PNone)" by (simp add: demo_signal_def pget_def)
  show ?thesis
    by (simp add: evaluate_one_def strategy_set_def session_filter_allows_def pget_def upper_set_def as_sequence_def el)
       (simp add: demo_strategy_def strategy_def demo_read [unfolded demo_strategy_def strategy_def] judge_signal_def ta missing_parts_def
         th disp default_min_score_def default_min_rr_def is_tradeable_def)
qed

text \<open>A payload whose score is NaN is graded 100, above every honest score, and a buy whose stop lies
  above its entry is tradeable when the payload states a reward ratio of its own: the selector checks
  neither.\<close>

theorem nan_score_and_wrong_stop_selected:
  "\<exists>r best. selector_evaluate plain_text [demo_strategy] [] None = Ok r \<and> sl_selected r = Some best
    \<and> ev_normalized_score best = Fin 100 \<and> nested (ev_signal best) ''total_score'' = PFloat NaN
    \<and> ev_direction best = Some BUY \<and> ev_entry_price best = Some (Fin 2000) \<and> ev_stop_loss best = Some (Fin 2010)"
proof -
  have n: "nested demo_signal ''total_score'' = PFloat NaN" by (simp add: nested_def demo_signal_def)
  obtain ev where "evaluate_one plain_text [] None demo_strategy = Ok ev" "is_tradeable ev" "ev_normalized_score ev = Fin 100"
    "ev_direction ev = Some BUY" "ev_entry_price ev = Some (Fin 2000)" "ev_stop_loss ev = Some (Fin 2010)" "ev_signal ev = demo_signal"
    using demo_evaluation by blast
  then show ?thesis by (simp add: selector_evaluate_def best_of_def n)
qed

theorem tradeable_passed_every_gate_witness:
  "\<exists>ev. evaluate_one plain_text [] None demo_strategy = Ok ev \<and> fle (Fin (3/2)) (ev_estimated_rr ev)
     \<and> is_eligible plain_text demo_strategy [] = Ok (True, [])"
proof -
  obtain ev where e: "evaluate_one plain_text [] None demo_strategy = Ok ev" "is_tradeable ev" using demo_evaluation by blast
  from tradeable_passed_every_gate [OF e] e(1) show ?thesis by (auto simp: Let_def)
qed

theorem selection_is_best_witness:
  "\<exists>r. selector_evaluate plain_text [demo_strategy] [] None = Ok r \<and> map ev_definition (sl_evaluations r) = [demo_strategy]"
proof -
  obtain r where r: "selector_evaluate plain_text [demo_strategy] [] None = Ok r"
    using demo_evaluation by (auto simp: selector_evaluate_def)
  have "map ev_definition (sl_evaluations r) = [demo_strategy]" using selection_is_best [OF r] by (rule conjunct1)
  from r this show ?thesis by (rule exI [where x = r, OF conjI])
qed

theorem setup_and_confirmation_agree_witness:
  "\<exists>ev s. evaluate_one plain_text [] None demo_strategy = Ok ev \<and> build_setup_node plain_text ev ''S'' (naive 0) ''c'' ''1m'' = Ok s
     \<and> sn_entry_price s = Fin 2000 \<and> dt_instant (sn_expiration_time s) = 1200000000"
proof -
  obtain ev where e: "evaluate_one plain_text [] None demo_strategy = Ok ev" "is_tradeable ev" "ev_normalized_score ev = Fin 100"
    "ev_entry_price ev = Some (Fin 2000)" "ev_signal ev = demo_signal" using demo_evaluation by blast
  have cv: "component_values plain_text k [] = Ok []" for k by simp
  have cs: "component_scores demo_signal = []" by (simp add: component_scores_def demo_signal_def pget_def)
  obtain c where c: "build_confirmation_snapshot plain_text ev (naive 0) = Ok c"
    by (simp add: build_confirmation_snapshot_def Let_def e(5) cs component_def)
  have "fle (Fin 0) (ev_normalized_score ev)" "fle (ev_normalized_score ev) (Fin 100)" by (simp_all add: e(3))
  from setup_and_confirmation_agree [OF e(2) this c, of "''S''" "''c''" "''1m''"] e show ?thesis by (auto simp: naive_def dt_instant_def)
qed

end
