(* ===== verification/SetupFlow.thy ===== *)
theory SetupFlow
  imports Selector SessionRegime Liquidity CandleStructure EventBus
begin

section \<open>The setup pipeline (src/strategy)\<close>

text \<open>
  \<open>selector_profile.py\<close>, \<open>setup_lifecycle.py\<close>, \<open>setup_quality.py\<close>, the two detectors and
  \<open>setup_detector.py\<close>: ticks and closed candles drive the session, structure and liquidity
  engines, the state manager and the selector; accepted selections become setups with a cooldown. The handlers
  are computations on the pipeline's state that may raise; what was done before an exception stays
  done.
\<close>

subsection \<open>Profiles\<close>

definition dict_of :: "pyval \<Rightarrow> pydict res" where
  "dict_of v = (case v of PDict d \<Rightarrow> Ok d | _ \<Rightarrow> if py_truthy v then Raise TypeError else Ok [])"

fun list_of :: "pyval \<Rightarrow> pyval list res" where
  "list_of (PList xs) = Ok xs"
| "list_of (PStr s) = Ok (map (\<lambda>c. PStr [c]) s)"
| "list_of (PDict d) = Ok (map (PStr \<circ> fst) d)"
| "list_of v = (if py_truthy v then Raise TypeError else Ok [])"

text \<open>\<open>dict(profile.get(key, {}) or {})\<close> and its companions for lists and floats.\<close>

definition profile_dict :: "pydict \<Rightarrow> string \<Rightarrow> pyval res" where
  "profile_dict p key = rmap PDict (dict_of (py_or (pget p key (PDict [])) (PDict [])))"

definition profile_list :: "pydict \<Rightarrow> string \<Rightarrow> pyval res" where
  "profile_list p key = rmap PList (list_of (py_or (pget p key (PList [])) (PList [])))"

definition profile_float :: "pytext \<Rightarrow> pydict \<Rightarrow> string \<Rightarrow> pyfloat \<Rightarrow> pyval res" where
  "profile_float e p key dflt = rmap PFloat (py_float (px_float e) (pget p key (PFloat dflt)))"

definition profile_str :: "pytext \<Rightarrow> pydict \<Rightarrow> string \<Rightarrow> string \<Rightarrow> pyval res" where
  "profile_str e p key dflt = Ok (PStr (py_str (px_show e) (pget p key (PStr dflt))))"

text \<open>A dict display: the fields are computed in order.\<close>

fun fields :: "(string \<times> pyval res) list \<Rightarrow> pydict res" where
  "fields [] = Ok []"
| "fields ((k, v) # kvs) = rbind v (\<lambda>x. rmap ((#) (k, x)) (fields kvs))"

definition threshold_fields :: "pytext \<Rightarrow> pydict \<Rightarrow> pydict res" where
  "threshold_fields e thresholds =
     fields (map (\<lambda>(src, dst). (dst, rmap PFloat (rbind (pitem (PDict thresholds) src) (py_float (px_float e)))))
       (filter (\<lambda>(src, dst). map_of thresholds src \<noteq> None)
         [(''body_to_range_ratio'', ''displacement_min_body_to_range''), (''range_to_atr_ratio'', ''displacement_min_range_to_atr''),
          (''close_position_score'', ''displacement_min_close_position'')]))"

definition normalize_selector_profile :: "pytext \<Rightarrow> pydict \<Rightarrow> pydict res" where
  "normalize_selector_profile e p =
     rbind (py_float (px_float e) (pget p ''minimum_rr'' (PFloat (Fin (3/2))))) (\<lambda>minimum_rr.
     rbind (py_float (px_float e) (pget p ''minimum_score'' (PFloat (Fin 88)))) (\<lambda>minimum_score.
     rbind (dict_of (py_or (pget p ''displacement_thresholds'' (PDict [])) (PDict []))) (\<lambda>thresholds.
     rbind (fields
       [(''profile_name'', Ok (pget p ''profile_name'' PNone)),
        (''enabled_strategies'', profile_list p ''enabled_strategies''),
        (''disabled_strategies'', profile_list p ''disabled_strategies''),
        (''minimum_score'', Ok (PFloat minimum_score)), (''minimum_rr'', Ok (PFloat minimum_rr)), (''min_rr'', Ok (PFloat minimum_rr)),
        (''minimum_setup_score'', profile_float e p ''minimum_setup_score'' (fdiv minimum_score (Fin 10))),
        (''strategy_min_rr'', profile_dict p ''strategy_min_rr''), (''strategy_min_scores'', profile_dict p ''strategy_min_scores''),
        (''session_filters'', profile_dict p ''session_filters''),
        (''strict_displacement'', Ok (PBool (py_truthy (pget p ''strict_displacement'' (PBool False))))),
        (''displacement_mode'', profile_str e p ''displacement_mode''
           (if py_truthy (pget p ''strict_displacement'' PNone) then ''reject_weak_or_unverified'' else ''off'')),
        (''displacement_thresholds'', Ok (PDict thresholds)),
        (''early_trap_filter'', profile_dict p ''early_trap_filter''),
        (''setup_timeframe'', profile_str e p ''setup_timeframe'' ''1m''), (''entry_timeframe'', profile_str e p ''entry_timeframe'' ''1m''),
        (''bias_timeframe'', profile_str e p ''bias_timeframe'' ''1h''), (''entry_mode'', profile_str e p ''entry_mode'' ''balanced''),
        (''minimum_risk_to_cost_ratio'', profile_float e p ''minimum_risk_to_cost_ratio'' (Fin 0)),
        (''cost_adjusted_target_buffer_rr'', profile_float e p ''cost_adjusted_target_buffer_rr'' (Fin 0)),
        (''spread_price'', profile_float e p ''spread_price'' (Fin 0)), (''slippage_price'', profile_float e p ''slippage_price'' (Fin 0)),
        (''target_ladder'', profile_dict p ''target_ladder''), (''deployment_gate'', profile_dict p ''deployment_gate'')]) (\<lambda>normalized.
     rmap (\<lambda>extra. normalized @ extra) (threshold_fields e thresholds)))))"

text \<open>\<open>profiles\<close> is the parsed file; \<open>path\<close> its path. The names are sorted in the message.\<close>

definition load_selector_profile :: "pytext \<Rightarrow> pydict \<Rightarrow> string \<Rightarrow> string \<Rightarrow> pydict res" where
  "load_selector_profile e profiles path name =
     (case map_of profiles name of
        None \<Rightarrow> Raise (ValueError (''Unknown selector profile '' @ px_show e (PStr name) @ ''. Available profiles: '' @
                       py_join '', '' (fold sinsert (map fst profiles) [])))
      | Some (PDict profile) \<Rightarrow> Ok (AList.update ''profile_path'' (PStr path) (AList.update ''profile_name'' (PStr name) profile))
      | Some _ \<Rightarrow> Raise TypeError)"

subsection \<open>Lifecycle and quality of a setup\<close>

definition evaluate_invalidation :: "setup_node \<Rightarrow> datetime \<Rightarrow> (bool \<times> string) res" where
  "evaluate_invalidation s now =
     rmap (\<lambda>expired. if expired then (True, ''SETUP_EXPIRED'') else (False, [])) (dt_le (sn_expiration_time s) now)"

definition confidence_decay :: "int \<Rightarrow> pyfloat" where
  "confidence_decay elapsed_us =
     py_min (fmul (fdiv (py_max (total_seconds elapsed_us) (Fin 0)) (Fin 2700)) (Fin 20)) (Fin 20)"

definition apply_confidence_decay :: "setup_node \<Rightarrow> datetime \<Rightarrow> setup_node res" where
  "apply_confidence_decay s now =
     rmap (\<lambda>us. s\<lparr>sn_confidence_score := py_max (fsub (sn_confidence_score s) (confidence_decay us)) (Fin 0)\<rparr>)
       (dt_sub now (sn_creation_time s))"

definition classify_setup_quality :: "pyfloat \<Rightarrow> pyfloat \<Rightarrow> setup_quality_tier \<times> pyfloat" where
  "classify_setup_quality rr confirmation_score =
     (let rr_score = py_min (fmul (fdiv rr (Fin 3)) (Fin 100)) (Fin 100);
          final = fadd (fmul confirmation_score (lit (7/10))) (fmul rr_score (lit (3/10)))
      in (if flt rr (Fin (3/2)) \<or> flt final (Fin 60) then INVALID_SETUP
          else if fle (Fin 88) final then ELITE_INSTITUTIONAL
          else if fle (Fin 75) final then HIGH_PROBABILITY else STANDARD, final))"

text \<open>The detectors: the first order block decides (\<open>None\<close> when it has no direction), the first swept
  pool decides.\<close>

type_synonym detection = "bool \<times> order_direction \<times> pyfloat \<times> pyfloat \<times> pyfloat"

definition evaluate_ob_continuation :: "candle_node \<Rightarrow> order_direction option list \<Rightarrow> detection" where
  "evaluate_ob_continuation c blocks =
     (case blocks of
        [] \<Rightarrow> (False, BUY, Fin 0, Fin 0, Fin 0)
      | b # _ \<Rightarrow>
          (let d = (case b of Some x \<Rightarrow> x | None \<Rightarrow> BUY); entry = cn_close_p c;
               stop = (if d = BUY then cn_low_p c else cn_high_p c);
               raw = fabs (fsub entry stop); risk = (if raw = Fin 0 then Fin 1 else raw)
           in (True, d, entry, stop, if d = BUY then fadd entry (fmul risk (Fin 3)) else fsub entry (fmul risk (Fin 3)))))"

definition evaluate_sweep_reversal :: "tick_node \<Rightarrow> liquidity_pool list \<Rightarrow> detection" where
  "evaluate_sweep_reversal t pools =
     (case find lp_is_swept pools of
        None \<Rightarrow> (False, BUY, Fin 0, Fin 0, Fin 0)
      | Some p \<Rightarrow>
          (let d = (if lp_is_buy_side p then SELL else BUY); entry = tick_mid t
           in (True, d, entry, if d = SELL then fadd entry (Fin 2) else fsub entry (Fin 2),
               if d = SELL then fsub entry (Fin 6) else fadd entry (Fin 6))))"

subsection \<open>The market context\<close>

definition candle_payload :: "candle_node \<Rightarrow> nat \<Rightarrow> pydict" where
  "candle_payload c i =
     [(''symbol'', PStr (cn_symbol c)), (''timeframe'', PStr (cn_timeframe c)), (''timestamp'', PDt (cn_end_time c)),
      (''time'', PDt (cn_end_time c)), (''index'', PInt (int i)), (''position'', PInt (int i)), (''open'', PFloat (cn_open_p c)),
      (''high'', PFloat (cn_high_p c)), (''low'', PFloat (cn_low_p c)), (''close'', PFloat (cn_close_p c)),
      (''volume'', PInt (cn_volume c)), (''tick_volume'', PInt (cn_ticks_count c)), (''is_closed'', PBool (cn_is_closed c))]"

definition swing_payload :: "swing_point \<Rightarrow> nat \<Rightarrow> pydict" where
  "swing_payload p i =
     (let kind = (if sp_point_type p = SWING_HIGH then ''high'' else ''low'')
      in [(''swing_id'', PStr (sp_id p)), (''id'', PStr (sp_id p)), (''kind'', PStr kind), (''type'', PStr kind),
          (''price'', PFloat (sp_price p)), (''timestamp'', PDt (sp_timestamp p)), (''index'', PInt (int i)), (''position'', PInt (int i)),
          (''timeframe'', PStr (sp_timeframe p)),
          (''confidence_score'', PFloat (if sp_confidence p = Fin 0 then Fin 7 else sp_confidence p))])"

definition opt_dt :: "datetime option \<Rightarrow> pyval" where
  "opt_dt d = (case d of None \<Rightarrow> PNone | Some x \<Rightarrow> PDt x)"

definition swept_pool_payload :: "liquidity_pool \<Rightarrow> pyfloat \<Rightarrow> pydict" where
  "swept_pool_payload p depth =
     (let side = (if lp_is_buy_side p then ''buy_side'' else ''sell_side'');
          reversal = (if lp_is_buy_side p then ''bearish'' else ''bullish'');
          quality = py_min (Fin 10) (fadd (Fin 6) (fof_int (lp_accumulated_touches p)))
      in [(''id'', PStr (lp_id p)), (''liquidity_id'', PStr (lp_id p)), (''swept_liquidity_id'', PStr (lp_id p)),
          (''timeframe'', PStr (lp_timeframe p)), (''side'', PStr side), (''direction'', PStr side), (''price'', PFloat (pool_level p)),
          (''zone_low'', PFloat (lp_floor_price p)), (''zone_high'', PFloat (lp_ceiling_price p)), (''quality_score'', PFloat quality),
          (''target_priority_score'', PFloat quality), (''touches'', PInt (lp_accumulated_touches p)),
          (''is_equal_structure'', PBool (lp_is_equal_structure p)), (''swept_status'', PStr ''swept_rejected''), (''swept'', PBool True),
          (''sweep_depth'', PFloat depth), (''sweep_timestamp'', opt_dt (lp_sweep_timestamp p)), (''direction_bias'', PStr reversal),
          (''direction_candidate'', PStr reversal), (''reclaim_status'', PStr ''swept_rejected''),
          (''sweep_low'', PFloat (lp_floor_price p)), (''sweep_high'', PFloat (lp_ceiling_price p))])"

definition bias_to_strategy_text :: "pytext \<Rightarrow> pyval \<Rightarrow> string" where
  "bias_to_strategy_text e v =
     (let t = py_upper (py_str (px_show e) (py_or v (PStr [])))
      in if has_sub ''BULL'' t then ''bullish'' else if has_sub ''BEAR'' t then ''bearish'' else ''neutral'')"

definition fmin_list :: "pyfloat \<Rightarrow> pyfloat list \<Rightarrow> pyfloat" where
  "fmin_list m xs = fold (\<lambda>x m. py_min m x) xs m"

definition price_location :: "pytext \<Rightarrow> pyfloat \<Rightarrow> pydict list \<Rightarrow> string res" where
  "price_location e price candles =
     (if candles = [] then Ok ''unknown''
      else
        let recent = py_tail 30 candles in
        rbind (res_map (\<lambda>c. rbind (pitem (PDict c) ''high'') (py_float (px_float e))) recent) (\<lambda>highs.
        rbind (res_map (\<lambda>c. rbind (pitem (PDict c) ''low'') (py_float (px_float e))) recent) (\<lambda>lows.
        let high = fmax_list (hd highs) (tl highs); low = fmin_list (hd lows) (tl lows) in
        if fle high low then Ok ''equilibrium''
        else rmap (\<lambda>pos. if fle (lit (13/20)) pos then ''premium'' else if fle pos (lit (7/20)) then ''discount'' else ''equilibrium'')
               (py_div (fsub price low) (fsub high low)))))"

text \<open>\<open>min(pools, key=distance, default=None)\<close>\<close>

definition nearest_by :: "(pydict \<Rightarrow> pyfloat res) \<Rightarrow> pydict list \<Rightarrow> pydict option res" where
  "nearest_by key pools =
     rmap (\<lambda>keyed. case keyed of [] \<Rightarrow> None | x # xs \<Rightarrow> Some (snd (first_best (\<lambda>a b. flt (fst a) (fst b)) x xs)))
       (res_map (\<lambda>p. rmap (\<lambda>k. (k, p)) (key p)) pools)"

definition select_target_liquidity :: "pytext \<Rightarrow> pyfloat \<Rightarrow> pydict list \<Rightarrow> pydict option \<Rightarrow> pydict option res" where
  "select_target_liquidity e price pools latest =
     (let num = (\<lambda>key p. py_float (px_float e) (pget p key (PFloat price)));
          away = (\<lambda>key p. rmap (\<lambda>x. fabs (fsub x price)) (num key p));
          side = (case latest of Some (kv # kvs) \<Rightarrow> pget (kv # kvs) ''side'' PNone | _ \<Rightarrow> PNone)
      in if pools = [] then Ok None
         else if side = PStr ''sell_side''
         then rbind (res_filter (\<lambda>p. if pget p ''side'' PNone = PStr ''buy_side'' then rmap (flt price) (num ''zone_high'' p) else Ok False) pools)
                (nearest_by (away ''zone_high''))
         else if side = PStr ''buy_side''
         then rbind (res_filter (\<lambda>p. if pget p ''side'' PNone = PStr ''sell_side'' then rmap (\<lambda>x. flt x price) (num ''zone_low'' p)
                                     else Ok False) pools)
                (nearest_by (away ''zone_low''))
         else nearest_by (away ''price'') pools)"

subsection \<open>The pipeline's state\<close>

record funnel =
  fn_live_ticks :: nat
  fn_sweeps :: nat
  fn_reversals :: nat
  fn_cooldown_blocks :: nat
  fn_confirmation_blocks :: nat
  fn_quality_blocks :: nat
  fn_finalized :: nat
  fn_evaluations :: nat
  fn_selected :: nat
  fn_strategy_blocks :: nat

record setup_flow =
  sf_manager :: state_manager
  sf_structure :: structure_engine
  sf_liquidity :: liquidity_engine
  sf_session :: session_engine
  sf_definitions :: "strategy_definition list"
  sf_config :: pydict
  sf_profile_name :: string
  sf_config_hash :: string
  sf_profile_hash :: string
  sf_last_evaluation :: "datetime option"
  sf_discovered :: "(string, setup_node) dict"
  sf_cooldowns :: "(string, datetime) dict"
  sf_candles :: "(string, candle_node list) dict"
  sf_pivots :: "swing_point list"
  sf_candidates :: "(setup_node \<times> confirmation_snapshot) list"
  sf_warmup_sweeps :: nat
  sf_counter :: nat
  sf_funnel :: funnel
  sf_reasons :: "string list"
  sf_selection :: "selector_diagnostics option"

text \<open>\<open>profiles\<close> is the parsed profile file, \<open>digest\<close> the hash of a profile's JSON text, \<open>env_name\<close> the
  environment's profile name; \<open>gen\<close> gives the strategies' generators.\<close>

definition setup_flow_new ::
  "pytext \<Rightarrow> (pydict \<Rightarrow> string) \<Rightarrow> (string \<Rightarrow> pydict \<Rightarrow> pydict option \<Rightarrow> pydict res) \<Rightarrow> pydict \<Rightarrow> string \<Rightarrow> string \<Rightarrow> state_manager
     \<Rightarrow> pydict option \<Rightarrow> string \<Rightarrow> setup_flow res" where
  "setup_flow_new e digest gen profiles path env_name manager selector_config profile_name =
     (let first_name = (\<lambda>a b. if a \<noteq> [] then a else b) in
      rbind (case selector_config of
               None \<Rightarrow> load_selector_profile e profiles path (first_name profile_name (first_name env_name ''v3_candidate_safety''))
             | Some c \<Rightarrow> Ok [(''profile_name'', py_or (if profile_name = [] then PNone else PStr profile_name)
                                 (py_or (pget c ''profile_name'' PNone) (PStr ''custom_selector_config'')))]) (\<lambda>profile.
      rbind (case selector_config of Some (kv # kvs) \<Rightarrow> Ok (kv # kvs) | _ \<Rightarrow> normalize_selector_profile e profile) (\<lambda>config.
      Ok \<lparr>sf_manager = manager, sf_structure = se_new ''1m'' 50, sf_liquidity = le_new ''1m'' (Fin 5),
          sf_session = session_engine_new, sf_definitions = default_definitions gen, sf_config = config,
          sf_profile_name = py_str (px_show e) (py_or (pget config ''profile_name'' PNone) (pget profile ''profile_name'' PNone)),
          sf_config_hash = digest config, sf_profile_hash = digest profile, sf_last_evaluation = None, sf_discovered = [],
          sf_cooldowns = [], sf_candles = [], sf_pivots = [], sf_candidates = [], sf_warmup_sweeps = 0, sf_counter = 0,
          sf_funnel = \<lparr>fn_live_ticks = 0, fn_sweeps = 0, fn_reversals = 0, fn_cooldown_blocks = 0, fn_confirmation_blocks = 0,
            fn_quality_blocks = 0, fn_finalized = 0, fn_evaluations = 0, fn_selected = 0, fn_strategy_blocks = 0\<rparr>,
          sf_reasons = [], sf_selection = None\<rparr>)))"

text \<open>\<open>bootstrap\<close> subscribes the two handlers.\<close>

definition setup_flow_bootstrap :: "'h \<Rightarrow> 'h \<Rightarrow> 'h event_bus \<Rightarrow> 'h event_bus" where
  "setup_flow_bootstrap on_tick on_candle b = subscribe CANDLE_CLOSED on_candle (subscribe MARKET_TICK on_tick b)"

definition setup_flow_terminate :: "setup_flow \<Rightarrow> setup_flow" where
  "setup_flow_terminate f = f\<lparr>sf_discovered := [], sf_cooldowns := [], sf_candles := [], sf_pivots := [], sf_candidates := []\<rparr>"

definition candles_of :: "setup_flow \<Rightarrow> string \<Rightarrow> candle_node list" where
  "candles_of f tf = (case map_of (sf_candles f) tf of None \<Rightarrow> [] | Some cs \<Rightarrow> cs)"

definition bias_of :: "candle_node list \<Rightarrow> string" where
  "bias_of cs =
     (if length cs < 2 then ''NEUTRAL''
      else if flt (cn_close_p (hd cs)) (cn_close_p (last cs)) then ''BULLISH''
      else if flt (cn_close_p (last cs)) (cn_close_p (hd cs)) then ''BEARISH'' else ''NEUTRAL'')"

definition directional_bias_matrix :: "setup_flow \<Rightarrow> pydict" where
  "directional_bias_matrix f = map (\<lambda>tf. (tf, PStr (bias_of (candles_of f tf)))) [''4h'', ''1h'', ''15m'', ''1m'']"

definition build_ict_strategy_context ::
  "pytext \<Rightarrow> tick_node \<Rightarrow> (liquidity_pool \<times> pyfloat) list \<Rightarrow> session_context \<Rightarrow> setup_flow \<Rightarrow> pydict res" where
  "build_ict_strategy_context e t swept session f =
     (let rows = (\<lambda>cs. map (\<lambda>(i, c). PDict (candle_payload c i)) (enumerate 0 cs));
          by_tf = map (\<lambda>(tf, cs). (tf, PList (rows cs))) (sf_candles f);
          candles = pget by_tf ''1m'' (PList []);
          session_value = PStr (sx_session_name session);
          swept_payloads = map (\<lambda>(p, depth). swept_pool_payload p depth) swept;
          pools = active_pools_snapshot (sf_liquidity f) @ swept_payloads;
          pool_rows = PList (map PDict pools);
          swings = PList (map (\<lambda>(i, p). PDict (swing_payload p i)) (enumerate 0 (py_tail 80 (sf_pivots f))));
          bias = directional_bias_matrix f;
          latest = (if swept_payloads = [] then None else Some (last swept_payloads));
          opt_dict = (\<lambda>d. case d of None \<Rightarrow> PNone | Some x \<Rightarrow> PDict x);
          mid = tick_mid t; spread = tick_spread t
      in rbind (select_target_liquidity e mid pools latest) (\<lambda>target.
         rbind (price_location e mid (map (\<lambda>(i, c). candle_payload c i) (enumerate 0 (candles_of f ''1m'')))) (\<lambda>location.
         Ok [(''symbol'', PStr (tk_symbol t)), (''timestamp'', PDt (tk_timestamp t)), (''current_price'', PFloat mid),
             (''current_bid'', PFloat (tk_bid t)), (''current_ask'', PFloat (tk_ask t)), (''candles'', candles),
             (''setup_df'', candles), (''entry_df'', candles), (''ltf_df'', candles), (''m15_df'', pget by_tf ''15m'' candles),
             (''htf_df'', pget by_tf ''1h'' (pget by_tf ''4h'' candles)), (''candles_by_timeframe'', PDict by_tf),
             (''liquidity_pools'', pool_rows), (''ltf_liquidity_pools'', pool_rows), (''htf_liquidity_targets'', pool_rows),
             (''target_liquidity'', opt_dict target), (''latest_sweep_event'', opt_dict latest),
             (''starting_liquidity_event'', opt_dict latest), (''swings'', swings), (''structure_swings'', swings), (''ltf_swings'', swings),
             (''htf_bias'', PDict [(''bias_direction'', PStr (bias_to_strategy_text e (py_or (pget bias ''1h'' PNone) (pget bias ''4h'' PNone)))),
                (''timeframe_bias'', PDict bias), (''confidence_score'', PFloat (Fin (15/2)))]),
             (''higher_timeframe_bias'', PStr (bias_to_strategy_text e (py_or (pget bias ''4h'' PNone) (pget bias ''1h'' PNone)))),
             (''session_context'', PDict [(''session'', session_value), (''session_name'', session_value),
                (''killzone_active'', PBool (sx_killzone_active session)), (''killzone_name'', opt_str (sx_killzone_name session))]),
             (''session'', session_value),
             (''spread_status'', PDict [(''spread_points'', PFloat spread), (''spread'', PFloat spread),
                (''average_spread'', PFloat (py_max spread (lit (1/100))))]),
             (''news_status'', PDict [(''restricted'', PBool False), (''high_impact_recent'', PBool False),
                (''post_news_window_active'', PBool False)]),
             (''price_location'', PStr location)])))"

subsection \<open>The handlers\<close>

definition smod :: "('s \<Rightarrow> 's) \<Rightarrow> ('s, unit) comp" where
  "smod g s = (Ok (), g s)"

definition sget :: "('s \<Rightarrow> 'a) \<Rightarrow> ('s, 'a) comp" where
  "sget g s = (Ok (g s), s)"

definition bump :: "(funnel \<Rightarrow> funnel) \<Rightarrow> (setup_flow, unit) comp" where
  "bump g = smod (\<lambda>f. f\<lparr>sf_funnel := g (sf_funnel f)\<rparr>)"

text \<open>\<open>int(now.timestamp())\<close> of a naive datetime: \<open>local\<close> gives the local offset in force.\<close>

definition epoch_seconds :: "(datetime \<Rightarrow> int) \<Rightarrow> datetime \<Rightarrow> int res" where
  "epoch_seconds local d =
     (let us = dt_wall d - local d
      in case fadd (fof_int (us div 1000000)) (fdiv (fof_int (us mod 1000000)) (Fin 1000000)) of
           Fin q \<Rightarrow> Ok (if q < 0 then - \<lfloor>- q\<rfloor> else \<lfloor>q\<rfloor>)
         | _ \<Rightarrow> Raise OverflowError)"

definition setup_id :: "string \<Rightarrow> nat \<Rightarrow> int \<Rightarrow> string" where
  "setup_id key n seconds = ''STP_'' @ py_upper key @ ''_'' @ nat_str n @ ''_'' @ int_str seconds"

definition cooldown_key :: "strategy_evaluation \<Rightarrow> string" where
  "cooldown_key ev = sd_key (ev_definition ev) @ ''_'' @ (case ev_direction ev of None \<Rightarrow> ''UNKNOWN'' | Some d \<Rightarrow> direction_value d)"

definition accept_ict_strategy_selection ::
  "pytext \<Rightarrow> (datetime \<Rightarrow> int) \<Rightarrow> strategy_evaluation \<Rightarrow> tick_node \<Rightarrow> string \<Rightarrow> (setup_flow, unit) comp" where
  "accept_ict_strategy_selection e local ev t timeframe =
     (let now = dt_naive (tk_timestamp t); key = cooldown_key ev in
      sbind (\<lambda>f. ((case map_of (sf_cooldowns f) key of None \<Rightarrow> Ok False | Some until \<Rightarrow> dt_lt now until), f)) (\<lambda>cooling.
      if cooling then bump (\<lambda>d. d\<lparr>fn_cooldown_blocks := fn_cooldown_blocks d + 1\<rparr>)
      else if flt (ev_normalized_score ev) (Fin 60) then bump (\<lambda>d. d\<lparr>fn_quality_blocks := fn_quality_blocks d + 1\<rparr>)
      else
        sbind (smod (\<lambda>f. f\<lparr>sf_counter := sf_counter f + 1\<rparr>)) (\<lambda>_.
        sbind (slift (epoch_seconds local now)) (\<lambda>seconds.
        sbind (sget sf_counter) (\<lambda>n.
        let sid = setup_id (sd_key (ev_definition ev)) n seconds;
            corr = (if tk_correlation_id t \<noteq> [] then tk_correlation_id t else ''ICT_SELECTOR_'' @ int_str (tk_sequence_id t))
        in
        sbind (slift (build_setup_node e ev sid now corr timeframe)) (\<lambda>node.
        sbind (slift (build_confirmation_snapshot e ev now)) (\<lambda>snap.
        sbind (smod (\<lambda>f. f\<lparr>sf_discovered := AList.update sid node (sf_discovered f),
                            sf_cooldowns := AList.update key (dt_add now (15 * 60000000)) (sf_cooldowns f),
                            sf_candidates := sf_candidates f @ [(node, snap)], sf_reasons := []\<rparr>)) (\<lambda>_.
        bump (\<lambda>d. d\<lparr>fn_finalized := fn_finalized d + 1\<rparr>)))))))))"

text \<open>The lifecycle scan: the survivors are written back as it goes, the expired are removed at the end.\<close>

fun lifecycle_scan :: "datetime \<Rightarrow> (string \<times> setup_node) list \<Rightarrow> (setup_flow, string list) comp" where
  "lifecycle_scan now [] = sret []"
| "lifecycle_scan now ((k, s) # rest) =
     sbind (slift (evaluate_invalidation s now)) (\<lambda>(bad, _).
       if bad then sbind (lifecycle_scan now rest) (\<lambda>ks. sret (k # ks))
       else sbind (slift (apply_confidence_decay s now)) (\<lambda>s'.
            sbind (smod (\<lambda>f. f\<lparr>sf_discovered := AList.update k s' (sf_discovered f)\<rparr>)) (\<lambda>_. lifecycle_scan now rest)))"

definition scan_setups :: "datetime \<Rightarrow> (setup_flow, unit) comp" where
  "scan_setups now =
     sbind (sget sf_discovered) (\<lambda>setups. sbind (lifecycle_scan now setups) (\<lambda>expired.
       smod (\<lambda>f. f\<lparr>sf_discovered := fold AList.delete expired (sf_discovered f)\<rparr>)))"

definition in_manager :: "(state_manager \<Rightarrow> state_manager res) \<Rightarrow> (setup_flow, unit) comp" where
  "in_manager g f = (case g (sf_manager f) of Inl x \<Rightarrow> (Inl x, f) | Inr m \<Rightarrow> (Ok (), f\<lparr>sf_manager := m\<rparr>))"

definition tick_label :: "string \<Rightarrow> tick_node \<Rightarrow> string" where
  "tick_label prefix t = (if tk_correlation_id t \<noteq> [] then tk_correlation_id t else prefix @ int_str (tk_sequence_id t))"

definition commit_tick :: "(datetime \<Rightarrow> int) \<Rightarrow> datetime \<Rightarrow> tick_node \<Rightarrow> (setup_flow, session_context) comp" where
  "commit_tick local utcnow t =
     (let now = dt_naive (tk_timestamp t) in
      sbind (bump (\<lambda>d. d\<lparr>fn_live_ticks := fn_live_ticks d + 1\<rparr>)) (\<lambda>_.
      sbind (\<lambda>f. let (c, s) = evaluate_session_context local (tk_timestamp t) (tick_mid t) (sf_session f) in (Ok c, f\<lparr>sf_session := s\<rparr>)) (\<lambda>context.
      sbind (slift (session_member (sx_session_name context))) (\<lambda>session.
      sbind (sget (\<lambda>f. md_accumulated_tick_count (es_market (sm_active (sf_manager f))))) (\<lambda>ticks.
      sbind (in_manager (commit_market_update utcnow
               [MLastTickTime now, MAsk (tk_ask t), MBid (tk_bid t), MMid (tick_mid t), MSpread (tick_spread t),
                MTickCount (ticks + 1), MSynchronized True] (tick_label ''SETUP_TICK_'' t))) (\<lambda>_.
      sbind (in_manager (commit_session_update utcnow
               [SPhase session, STransition now, SKillzoneActive (sx_killzone_active context), SKillzoneName (sx_killzone_name context)]
               (tick_label ''SETUP_SESSION_'' t))) (\<lambda>_. sret context)))))))"

definition run_selector ::
  "pytext \<Rightarrow> (datetime \<Rightarrow> int) \<Rightarrow> tick_node \<Rightarrow> (liquidity_pool \<times> pyfloat) list \<Rightarrow> session_context \<Rightarrow> (setup_flow, unit) comp" where
  "run_selector e local t swept context =
     sbind (smod (\<lambda>f. f\<lparr>sf_last_evaluation := Some (dt_naive (tk_timestamp t))\<rparr>)) (\<lambda>_.
     sbind (\<lambda>f. (rbind (build_ict_strategy_context e t swept context f) (\<lambda>c. selector_evaluate e (sf_definitions f) c (Some (sf_config f))), f)) (\<lambda>selection.
     sbind (smod (\<lambda>f. f\<lparr>sf_selection := Some (diagnostics selection),
                         sf_funnel := (sf_funnel f)\<lparr>fn_evaluations := fn_evaluations (sf_funnel f) + dg_evaluated (diagnostics selection)\<rparr>\<rparr>)) (\<lambda>_.
     case sl_selected selection of
       None \<Rightarrow> sbind (bump (\<lambda>d. d\<lparr>fn_strategy_blocks := fn_strategy_blocks d + 1\<rparr>)) (\<lambda>_.
               smod (\<lambda>f. f\<lparr>sf_reasons := take 5 (filter (\<lambda>r. r \<noteq> []) (map rj_reason (dg_rejections (diagnostics selection))))\<rparr>))
     | Some ev \<Rightarrow> sbind (bump (\<lambda>d. d\<lparr>fn_reversals := fn_reversals d + 1, fn_selected := fn_selected d + 1\<rparr>)) (\<lambda>_.
                  accept_ict_strategy_selection e local ev t ''1m''))))"

text \<open>Reading \<open>["1m"]\<close> of the default dict creates the entry.\<close>

definition touch_candles :: "string \<Rightarrow> setup_flow \<Rightarrow> setup_flow" where
  "touch_candles tf f = f\<lparr>sf_candles := AList.update tf (candles_of f tf) (sf_candles f)\<rparr>"

definition tick_strategies ::
  "pytext \<Rightarrow> (datetime \<Rightarrow> int) \<Rightarrow> tick_node \<Rightarrow> session_context \<Rightarrow> (setup_flow, unit) comp" where
  "tick_strategies e local t context =
     (let now = dt_naive (tk_timestamp t) in
      sbind (\<lambda>f. let (swept, le) = evaluate_tick_sweeps t (sf_liquidity f) in (Ok swept, f\<lparr>sf_liquidity := le\<rparr>)) (\<lambda>swept.
      sbind (bump (\<lambda>d. d\<lparr>fn_sweeps := fn_sweeps d + length swept\<rparr>)) (\<lambda>_.
      sbind (smod (touch_candles ''1m'')) (\<lambda>_.
      sbind (sget (\<lambda>f. candles_of f ''1m'')) (\<lambda>candles.
      if candles = [] then sret ()
      else
        sbind (\<lambda>f. ((case sf_last_evaluation f of
                      Some prev \<Rightarrow> if swept = [] then rmap (\<lambda>us. us < 1000000) (dt_sub now prev) else Ok False
                    | None \<Rightarrow> Ok False), f)) (\<lambda>too_soon.
        if too_soon then sret () else run_selector e local t swept context))))))"

definition on_tick_received :: "pytext \<Rightarrow> (datetime \<Rightarrow> int) \<Rightarrow> datetime \<Rightarrow> tick_node \<Rightarrow> (setup_flow, unit) comp" where
  "on_tick_received e local utcnow t =
     sbind (commit_tick local utcnow t) (\<lambda>context.
     sbind (scan_setups (dt_naive (tk_timestamp t))) (\<lambda>_. tick_strategies e local t context))"

definition setup_on_candle_evacuation :: "candle_node \<Rightarrow> setup_flow \<Rightarrow> setup_flow" where
  "setup_on_candle_evacuation c f =
     (let f1 = f\<lparr>sf_candles := AList.update (cn_timeframe c) (dq_push 50 c (candles_of f (cn_timeframe c))) (sf_candles f)\<rparr>
      in if cn_timeframe c \<noteq> ''1m'' then f1
         else let ((pivots, _), se) = ingest_candle_close c (sf_structure f1)
              in f1\<lparr>sf_structure := se, sf_liquidity := fold (\<lambda>p le. snd (register_structural_pivot_pool p le)) pivots (sf_liquidity f1),
                    sf_pivots := sf_pivots f1 @ pivots\<rparr>)"

definition seed_closed_candle :: "candle_node \<Rightarrow> setup_flow \<Rightarrow> setup_flow" where
  "seed_closed_candle c f =
     setup_on_candle_evacuation c
       (if cn_timeframe c = ''1m''
        then let t = \<lparr>tk_symbol = cn_symbol c, tk_timestamp = cn_end_time c, tk_bid = cn_close_p c, tk_ask = cn_close_p c,
                      tk_volume = cn_volume c, tk_sequence_id = cn_sequence_id c, tk_trace_id = [],
                      tk_correlation_id = ''MT5_HISTORY_WARMUP'', tk_priority = NORMAL\<rparr>;
                 (swept, le) = evaluate_tick_sweeps t (sf_liquidity f)
             in f\<lparr>sf_liquidity := le, sf_warmup_sweeps := sf_warmup_sweeps f + length swept\<rparr>
        else f)"

definition drain_qualified_candidates :: "setup_flow \<Rightarrow> (setup_node \<times> confirmation_snapshot) list \<times> setup_flow" where
  "drain_qualified_candidates f = (sf_candidates f, f\<lparr>sf_candidates := []\<rparr>)"

record flow_snapshot =
  fs_funnel :: funnel
  fs_profile_name :: string
  fs_config_hash :: string
  fs_profile_hash :: string
  fs_reasons :: "string list"
  fs_nearest_pool :: "pydict option"
  fs_selection :: "selector_diagnostics option"

definition diagnostic_snapshot :: "setup_flow \<Rightarrow> flow_snapshot" where
  "diagnostic_snapshot f = \<lparr>fs_funnel = sf_funnel f, fs_profile_name = sf_profile_name f, fs_config_hash = sf_config_hash f,
     fs_profile_hash = sf_profile_hash f, fs_reasons = sf_reasons f,
     fs_nearest_pool = nearest_active_pool (md_current_mid (es_market (sm_active (sf_manager f)))) (sf_liquidity f),
     fs_selection = sf_selection f\<rparr>"

subsection \<open>Runs\<close>

text \<open>An event raises or returns; the pipeline keeps the state either way. The output is what a drain hands out.\<close>

datatype flow_event = FTick datetime tick_node | FCandle candle_node | FSeed candle_node | FDrain

fun flow_step ::
  "pytext \<Rightarrow> (datetime \<Rightarrow> int) \<Rightarrow> flow_event \<Rightarrow> setup_flow \<Rightarrow> (setup_node \<times> confirmation_snapshot) list \<times> setup_flow" where
  "flow_step e local (FTick utcnow t) f = ([], snd (on_tick_received e local utcnow t f))"
| "flow_step e local (FCandle c) f = ([], setup_on_candle_evacuation c f)"
| "flow_step e local (FSeed c) f = ([], seed_closed_candle c f)"
| "flow_step e local FDrain f = drain_qualified_candidates f"

fun flow_run ::
  "pytext \<Rightarrow> (datetime \<Rightarrow> int) \<Rightarrow> flow_event list \<Rightarrow> setup_flow \<Rightarrow> (setup_node \<times> confirmation_snapshot) list \<times> setup_flow" where
  "flow_run e local [] f = ([], f)"
| "flow_run e local (x # xs) f = (let (out, f') = flow_step e local x f; (outs, f'') = flow_run e local xs f' in (out @ outs, f''))"

subsection \<open>What the handlers keep\<close>

definition keeps :: "('s \<Rightarrow> bool) \<Rightarrow> ('s, 'a) comp \<Rightarrow> bool" where
  "keeps P m = (\<forall>f. P f \<longrightarrow> P (snd (m f)))"

lemma keeps_basic [intro]:
  "keeps P (sret x)" "keeps P (slift r)" "keeps P (sget g)"
  by (simp_all add: keeps_def sget_def)

lemma keeps_smod [intro]: "(\<And>f. P f \<Longrightarrow> P (g f)) \<Longrightarrow> keeps P (smod g)"
  by (simp add: keeps_def smod_def)

lemma keeps_bind [intro]: "keeps P m \<Longrightarrow> (\<And>x. keeps P (h x)) \<Longrightarrow> keeps P (sbind m h)"
  by (fastforce simp: keeps_def sbind_def split: prod.split sum.split)

lemma keeps_read: "keeps P (\<lambda>f. (h f, f))"
  by (simp add: keeps_def)

lemma keepsD: "keeps P m \<Longrightarrow> P f \<Longrightarrow> P (snd (m f))"
  by (simp add: keeps_def)

text \<open>The acceptance stores nothing, or one setup whose cooldown had run out.\<close>

definition setup_key :: "setup_node \<times> confirmation_snapshot \<Rightarrow> string" where
  "setup_key x = hd (cs_validated_components (snd x)) @ ''_'' @ direction_value (sn_direction (fst x))"

definition stored :: "datetime \<Rightarrow> setup_flow \<Rightarrow> setup_node \<times> confirmation_snapshot \<Rightarrow> setup_flow \<Rightarrow> bool" where
  "stored now f x f' \<longleftrightarrow>
     (\<exists>key seconds. sn_id (fst x) = setup_id key (sf_counter f + 1) seconds) \<and> sn_creation_time (fst x) = now
     \<and> sn_expiration_time (fst x) = dt_add now (20 * 60000000)
     \<and> (\<forall>until. map_of (sf_cooldowns f) (setup_key x) = Some until \<longrightarrow> dt_instant until \<le> dt_instant now)
     \<and> sf_counter f' = sf_counter f + 1 \<and> sf_candidates f' = sf_candidates f @ [x]
     \<and> sf_discovered f' = AList.update (sn_id (fst x)) (fst x) (sf_discovered f)
     \<and> sf_cooldowns f' = AList.update (setup_key x) (dt_add now (15 * 60000000)) (sf_cooldowns f)"

definition unstored :: "setup_flow \<Rightarrow> setup_flow \<Rightarrow> bool" where
  "unstored f f' \<longleftrightarrow> sf_counter f \<le> sf_counter f' \<and> sf_candidates f' = sf_candidates f \<and> sf_discovered f' = sf_discovered f
     \<and> sf_cooldowns f' = sf_cooldowns f"

lemma setup_key_built:
  assumes "build_setup_node e ev sid now corr tf = Ok node" and "build_confirmation_snapshot e ev now = Ok snap"
  shows "setup_key (node, snap) = cooldown_key ev \<and> sn_id node = sid \<and> sn_creation_time node = now
    \<and> sn_expiration_time node = dt_add now (20 * 60000000)"
proof -
  have n: "is_tradeable ev" "sn_direction node = the (ev_direction ev)" "sn_id node = sid" "sn_creation_time node = now"
    "sn_expiration_time node = dt_add now (20 * 60000000)"
    using assms(1) by (auto simp: build_setup_node_def split: if_splits)
  have s: "hd (cs_validated_components snap) = sd_key (ev_definition ev)"
    using assms(2) by (auto simp: build_confirmation_snapshot_def Let_def elim!: rbind_InrE)
  from n(1) obtain d where "ev_direction ev = Some d" by (auto simp: is_tradeable_def)
  with n s show ?thesis by (simp add: setup_key_def cooldown_key_def)
qed

lemma accept_cases:
  assumes "accept_ict_strategy_selection e local ev t tf f = (r, f')"
  shows "sf_candles f' = sf_candles f \<and> (unstored f f' \<or> (\<exists>x. stored (dt_naive (tk_timestamp t)) f x f'))"
proof -
  let ?now = "dt_naive (tk_timestamp t)" let ?key = "cooldown_key ev"
  let ?cool = "case map_of (sf_cooldowns f) ?key of None \<Rightarrow> Ok False | Some until \<Rightarrow> dt_lt ?now until"
  note d = accept_ict_strategy_selection_def Let_def sbind_def smod_def sget_def bump_def unstored_def
  show ?thesis
  proof (cases ?cool)
    case (Inl x)
    with assms show ?thesis by (simp add: d)
  next
    case (Inr cooling)
    show ?thesis
    proof (cases "cooling \<or> flt (ev_normalized_score ev) (Fin 60)")
      case True
      with assms Inr show ?thesis by (auto simp: d split: if_splits)
    next
      case fresh: False
      let ?sec = "epoch_seconds local ?now"
      let ?corr = "if tk_correlation_id t \<noteq> [] then tk_correlation_id t else ''ICT_SELECTOR_'' @ int_str (tk_sequence_id t)"
      let ?sid = "\<lambda>s. setup_id (sd_key (ev_definition ev)) (Suc (sf_counter f)) s"
      show ?thesis
      proof (cases "\<exists>s node snap. ?sec = Ok s \<and> build_setup_node e ev (?sid s) ?now ?corr tf = Ok node
          \<and> build_confirmation_snapshot e ev ?now = Ok snap")
        case False
        with assms Inr fresh show ?thesis
          by (cases ?sec; cases "build_confirmation_snapshot e ev ?now") (auto simp: d split: sum.splits if_splits)
      next
        case True
        then obtain s node snap where b: "?sec = Ok s" "build_setup_node e ev (?sid s) ?now ?corr tf = Ok node"
          "build_confirmation_snapshot e ev ?now = Ok snap" by blast
        note k = setup_key_built [OF b(2,3)]
        have until: "map_of (sf_cooldowns f) ?key = Some u \<Longrightarrow> dt_instant u \<le> dt_instant ?now" for u
          using Inr fresh by (auto simp: dt_lt_def split: if_splits)
        have "stored ?now f (node, snap) f' \<and> sf_candles f' = sf_candles f"
          using assms Inr fresh b k until by (auto simp: d stored_def split: if_splits)
        then show ?thesis by blast
      qed
    qed
  qed
qed

subsection \<open>Identifiers and spacing\<close>

lemma nat_str_digits: "c \<in> set (nat_str n) \<Longrightarrow> 48 \<le> (of_char c :: nat) \<and> (of_char c :: nat) \<le> 57"
proof (induction n rule: nat_str.induct)
  case (1 n)
  have d: "n mod 10 < 10" by simp
  show ?case using 1 d by (auto simp: nat_str.simps [of n] of_char_of split: if_splits)
qed

lemma underscore_free: "CHR ''_'' \<notin> set (nat_str n)" "CHR ''_'' \<notin> set (int_str i)"
  using nat_str_digits [of "CHR ''_''"] by (auto simp: int_str_def)

lemma last_separator:
  assumes "c \<notin> set ys" "c \<notin> set ys'" "xs @ c # ys = xs' @ c # ys'"
  shows "xs = xs' \<and> ys = ys'"
  using assms by (auto simp: append_eq_append_conv2 Cons_eq_append_conv append_eq_Cons_conv)

lemma setup_id_number: "setup_id k n s = setup_id k' n' s' \<Longrightarrow> n = n'"
proof -
  assume "setup_id k n s = setup_id k' n' s'"
  then have "(''STP_'' @ py_upper k @ ''_'' @ nat_str n) @ CHR ''_'' # int_str s
      = (''STP_'' @ py_upper k' @ ''_'' @ nat_str n') @ CHR ''_'' # int_str s'"
    by (simp add: setup_id_def)
  from last_separator [OF underscore_free(2) underscore_free(2) this]
  have "(''STP_'' @ py_upper k) @ CHR ''_'' # nat_str n = (''STP_'' @ py_upper k') @ CHR ''_'' # nat_str n'" by simp
  from last_separator [OF underscore_free(1) underscore_free(1) this] show ?thesis by simp
qed

text \<open>\<open>L\<close> is every setup finalized so far, in order.\<close>

definition spaced :: "setup_node \<times> confirmation_snapshot \<Rightarrow> setup_node \<times> confirmation_snapshot \<Rightarrow> bool" where
  "spaced x y \<longleftrightarrow> sn_id (fst x) \<noteq> sn_id (fst y)
     \<and> (setup_key x = setup_key y \<longrightarrow>
          dt_instant (sn_creation_time (fst x)) + 15 * 60000000 \<le> dt_instant (sn_creation_time (fst y)))"

definition issued_ok :: "setup_flow \<Rightarrow> setup_node \<times> confirmation_snapshot \<Rightarrow> bool" where
  "issued_ok f x \<longleftrightarrow> (\<exists>k n s. sn_id (fst x) = setup_id k n s \<and> n \<le> sf_counter f)
     \<and> (\<exists>u. map_of (sf_cooldowns f) (setup_key x) = Some u
            \<and> dt_instant (sn_creation_time (fst x)) + 15 * 60000000 \<le> dt_instant u)"

definition flow_inv :: "(setup_node \<times> confirmation_snapshot) list \<Rightarrow> setup_flow \<Rightarrow> bool" where
  "flow_inv outs f \<longleftrightarrow> sorted_wrt spaced (outs @ sf_candidates f) \<and> (\<forall>x\<in>set (outs @ sf_candidates f). issued_ok f x)"

lemma issued_ok_mono:
  assumes "sf_counter f \<le> sf_counter f'" "sf_cooldowns f' = sf_cooldowns f" "issued_ok f x"
  shows "issued_ok f' x"
proof -
  from assms(3) obtain k n s where n: "sn_id (fst x) = setup_id k n s" "n \<le> sf_counter f" unfolding issued_ok_def by blast
  have "\<exists>k n s. sn_id (fst x) = setup_id k n s \<and> n \<le> sf_counter f'"
    by (rule exI [where x = k], rule exI [where x = n], rule exI [where x = s]) (use n assms(1) in simp)
  with assms(2,3) show ?thesis by (simp add: issued_ok_def)
qed

lemma flow_inv_mono:
  assumes "sf_counter f \<le> sf_counter f'" "sf_cooldowns f' = sf_cooldowns f" "sf_candidates f' = sf_candidates f" "flow_inv outs f"
  shows "flow_inv outs f'"
  using assms(3,4) issued_ok_mono [OF assms(1,2)] by (auto simp: flow_inv_def)

lemma flow_inv_unstored: "unstored f f' \<Longrightarrow> flow_inv outs f \<Longrightarrow> flow_inv outs f'"
  by (rule flow_inv_mono) (simp_all add: unstored_def)

lemma flow_inv_stored:
  assumes "stored now f x f'" and "flow_inv outs f"
  shows "flow_inv outs f'"
proof -
  let ?L = "outs @ sf_candidates f"
  from assms(1) obtain key seconds where x: "sn_id (fst x) = setup_id key (sf_counter f + 1) seconds"
    "sn_creation_time (fst x) = now" "\<And>u. map_of (sf_cooldowns f) (setup_key x) = Some u \<Longrightarrow> dt_instant u \<le> dt_instant now"
    and f': "sf_counter f' = sf_counter f + 1" "sf_candidates f' = sf_candidates f @ [x]"
    "sf_cooldowns f' = AList.update (setup_key x) (dt_add now (15 * 60000000)) (sf_cooldowns f)"
    by (auto simp: stored_def)
  have old: "spaced y x \<and> issued_ok f' y" if y: "y \<in> set ?L" for y
  proof -
    from assms(2) y have "issued_ok f y" unfolding flow_inv_def by blast
    then obtain k n s u where iy: "sn_id (fst y) = setup_id k n s" "n \<le> sf_counter f"
      "map_of (sf_cooldowns f) (setup_key y) = Some u" "dt_instant (sn_creation_time (fst y)) + 15 * 60000000 \<le> dt_instant u"
      unfolding issued_ok_def by blast
    have ne: "sn_id (fst y) \<noteq> sn_id (fst x)"
    proof
      assume "sn_id (fst y) = sn_id (fst x)"
      then have "n = sf_counter f + 1" unfolding iy(1) x(1) by (rule setup_id_number)
      with iy(2) show False by simp
    qed
    have sp: "spaced y x" using ne iy(3,4) x(2) x(3) [of u] by (auto simp: spaced_def)
    have n: "\<exists>k n s. sn_id (fst y) = setup_id k n s \<and> n \<le> sf_counter f'"
      by (rule exI [where x = k], rule exI [where x = n], rule exI [where x = s]) (use iy f' in simp)
    have "\<exists>u. map_of (sf_cooldowns f') (setup_key y) = Some u \<and> dt_instant (sn_creation_time (fst y)) + 15 * 60000000 \<le> dt_instant u"
      using iy(3,4) x(3) [of u] f'(3) by (cases "setup_key x = setup_key y") auto
    with n sp show ?thesis by (simp add: issued_ok_def)
  qed
  have n: "\<exists>k n s. sn_id (fst x) = setup_id k n s \<and> n \<le> sf_counter f'"
    by (rule exI [where x = key], rule exI [where x = "sf_counter f + 1"], rule exI [where x = seconds]) (use x f' in simp)
  have new: "issued_ok f' x" unfolding issued_ok_def using n f'(3) x(2) by simp
  have sorted: "sorted_wrt spaced (?L @ [x])" using assms(2) old unfolding flow_inv_def sorted_wrt_append by simp
  have "\<forall>y\<in>set (?L @ [x]). issued_ok f' y" using old new by auto
  with sorted show ?thesis by (simp add: flow_inv_def f'(2))
qed

lemma flow_inv_frame:
  "sf_counter f' = sf_counter f \<Longrightarrow> sf_cooldowns f' = sf_cooldowns f \<Longrightarrow> sf_candidates f' = sf_candidates f \<Longrightarrow> flow_inv outs f \<Longrightarrow> flow_inv outs f'"
  by (rule flow_inv_mono) simp_all

lemma keepsI: "(\<And>f. P f \<Longrightarrow> P (snd (m f))) \<Longrightarrow> keeps P m"
  by (simp add: keeps_def)

text \<open>What no handler but the acceptance touches.\<close>

definition scan_stable :: "(setup_flow \<Rightarrow> bool) \<Rightarrow> bool" where
  "scan_stable P \<longleftrightarrow> (\<forall>f f'. sf_counter f' = sf_counter f \<longrightarrow> sf_cooldowns f' = sf_cooldowns f \<longrightarrow> sf_candidates f' = sf_candidates f \<longrightarrow> P f \<longrightarrow> P f')"

definition stable :: "(setup_flow \<Rightarrow> bool) \<Rightarrow> bool" where
  "stable P \<longleftrightarrow> (\<forall>f f'. sf_counter f' = sf_counter f \<longrightarrow> sf_cooldowns f' = sf_cooldowns f \<longrightarrow> sf_candidates f' = sf_candidates f
     \<longrightarrow> sf_discovered f' = sf_discovered f \<longrightarrow> P f \<longrightarrow> P f')"

lemma scan_stable_stable: "scan_stable P \<Longrightarrow> stable P"
  unfolding stable_def scan_stable_def by blast

lemma stable_flow_inv: "scan_stable (flow_inv outs)"
  unfolding scan_stable_def using flow_inv_frame by blast

lemma scan_stable_keeps:
  assumes "scan_stable P" and "\<And>f. sf_counter (snd (m f)) = sf_counter f \<and> sf_cooldowns (snd (m f)) = sf_cooldowns f
    \<and> sf_candidates (snd (m f)) = sf_candidates f"
  shows "keeps P m"
  using assms unfolding scan_stable_def keeps_def by blast

lemma stable_keeps:
  assumes "stable P" and "\<And>f. sf_counter (snd (m f)) = sf_counter f \<and> sf_cooldowns (snd (m f)) = sf_cooldowns f
    \<and> sf_candidates (snd (m f)) = sf_candidates f \<and> sf_discovered (snd (m f)) = sf_discovered f"
  shows "keeps P m"
  using assms unfolding stable_def keeps_def by blast

lemma keeps_bump: "stable P \<Longrightarrow> keeps P (bump g)"
  by (rule stable_keeps) (simp_all add: bump_def smod_def)

lemma keeps_manager: "stable P \<Longrightarrow> keeps P (in_manager g)"
  by (rule stable_keeps) (auto simp: in_manager_def split: sum.split)

lemma keeps_commit_tick:
  assumes "stable P"
  shows "keeps P (commit_tick local utcnow t)"
proof -
  have "keeps P (\<lambda>f. let (c, s) = evaluate_session_context local (tk_timestamp t) (tick_mid t) (sf_session f) in (Ok c, f\<lparr>sf_session := s\<rparr>))"
    using assms by (rule stable_keeps) (simp add: split_beta Let_def)
  then show ?thesis unfolding commit_tick_def Let_def
    by (intro keeps_bind keeps_basic keeps_bump keeps_manager assms)
qed

lemma keeps_lifecycle_scan: "scan_stable P \<Longrightarrow> keeps P (lifecycle_scan now xs)"
proof (induction now xs rule: lifecycle_scan.induct)
  case (2 now k s rest)
  have m: "keeps P (smod (\<lambda>f. f\<lparr>sf_discovered := AList.update k s' (sf_discovered f)\<rparr>))" for s'
    using 2(3) by (rule scan_stable_keeps) (simp add: smod_def)
  show ?case using 2 m by (auto intro!: keeps_bind keeps_basic split: prod.split)
qed auto

lemma keeps_scan_setups:
  assumes "scan_stable P"
  shows "keeps P (scan_setups now)"
proof -
  have "keeps P (smod (\<lambda>f. f\<lparr>sf_discovered := fold AList.delete ks (sf_discovered f)\<rparr>))" for ks
    using assms by (rule scan_stable_keeps) (simp add: smod_def)
  then show ?thesis unfolding scan_setups_def by (intro keeps_bind keeps_basic keeps_lifecycle_scan assms)
qed

lemma keeps_run_selector:
  assumes "stable P" and "\<And>ev. keeps P (accept_ict_strategy_selection e local ev t ''1m'')"
  shows "keeps P (run_selector e local t swept context)"
proof -
  have a: "keeps P (smod (\<lambda>f. f\<lparr>sf_last_evaluation := x\<rparr>))" for x
    using assms(1) by (rule stable_keeps) (simp add: smod_def)
  have b: "keeps P (smod (\<lambda>f. f\<lparr>sf_selection := x, sf_funnel := g f\<rparr>))" for x g
    using assms(1) by (rule stable_keeps) (simp add: smod_def)
  have c: "keeps P (smod (\<lambda>f. f\<lparr>sf_reasons := x\<rparr>))" for x
    using assms(1) by (rule stable_keeps) (simp add: smod_def)
  have d: "keeps P (case sl_selected sel of
       None \<Rightarrow> sbind (bump (\<lambda>d. d\<lparr>fn_strategy_blocks := fn_strategy_blocks d + 1\<rparr>)) (\<lambda>_.
               smod (\<lambda>f. f\<lparr>sf_reasons := take 5 (filter (\<lambda>r. r \<noteq> []) (map rj_reason (dg_rejections (diagnostics sel))))\<rparr>))
     | Some ev \<Rightarrow> sbind (bump (\<lambda>d. d\<lparr>fn_reversals := fn_reversals d + 1, fn_selected := fn_selected d + 1\<rparr>)) (\<lambda>_.
                  accept_ict_strategy_selection e local ev t ''1m''))" for sel
    by (cases "sl_selected sel") (auto intro!: keeps_bind keeps_bump assms c)
  show ?thesis unfolding run_selector_def by (intro keeps_bind a b d keeps_read)
qed

lemma keeps_tick_strategies:
  assumes "stable P" and "\<And>ev. keeps P (accept_ict_strategy_selection e local ev t ''1m'')"
  shows "keeps P (tick_strategies e local t context)"
proof -
  have a: "keeps P (\<lambda>f. let (swept, le) = evaluate_tick_sweeps t (sf_liquidity f) in (Ok swept, f\<lparr>sf_liquidity := le\<rparr>))"
    using assms(1) by (rule stable_keeps) (simp add: split_beta Let_def)
  have b: "keeps P (smod (touch_candles x))" for x
    using assms(1) by (rule stable_keeps) (simp add: smod_def touch_candles_def)
  show ?thesis unfolding tick_strategies_def Let_def [of "dt_naive (tk_timestamp t)"]
    by (intro keeps_bind a b keeps_bump keeps_basic assms)
      (auto intro!: keeps_bind keeps_read keeps_run_selector assms)
qed

lemma keeps_on_tick:
  assumes "scan_stable P" and "\<And>ev. keeps P (accept_ict_strategy_selection e local ev t ''1m'')"
  shows "keeps P (on_tick_received e local utcnow t)"
  unfolding on_tick_received_def
  by (intro keeps_bind keeps_commit_tick keeps_scan_setups keeps_tick_strategies scan_stable_stable assms)

lemma candle_frame:
  "sf_counter (setup_on_candle_evacuation c f) = sf_counter f \<and> sf_cooldowns (setup_on_candle_evacuation c f) = sf_cooldowns f
   \<and> sf_candidates (setup_on_candle_evacuation c f) = sf_candidates f"
  by (simp add: setup_on_candle_evacuation_def Let_def split_beta)

lemma seed_frame:
  "sf_counter (seed_closed_candle c f) = sf_counter f \<and> sf_cooldowns (seed_closed_candle c f) = sf_cooldowns f
   \<and> sf_candidates (seed_closed_candle c f) = sf_candidates f"
  by (simp add: seed_closed_candle_def candle_frame Let_def split_beta)

lemma keeps_accept: "keeps (flow_inv outs) (accept_ict_strategy_selection e local ev t tf)"
proof (rule keepsI)
  fix f assume inv: "flow_inv outs f"
  obtain r f' where a: "accept_ict_strategy_selection e local ev t tf f = (r, f')" by fastforce
  from accept_cases [OF a] inv have "flow_inv outs f'" using flow_inv_unstored flow_inv_stored by blast
  with a show "flow_inv outs (snd (accept_ict_strategy_selection e local ev t tf f))" by simp
qed

lemma issued_ok_drain [simp]: "issued_ok (f\<lparr>sf_candidates := x\<rparr>) y = issued_ok f y"
  by (simp add: issued_ok_def)

lemma flow_step_inv:
  assumes "flow_inv outs f" and "flow_step e local x f = (out, f')"
  shows "flow_inv (outs @ out) f'"
proof (cases x)
  case (FTick utcnow t)
  have "flow_inv outs (snd (on_tick_received e local utcnow t f))"
    by (rule keepsD [OF keeps_on_tick [OF stable_flow_inv keeps_accept] assms(1)])
  with FTick assms(2) show ?thesis by auto
next
  case (FCandle c)
  with assms candle_frame [of c f] show ?thesis by (auto intro: flow_inv_frame [of _ f])
next
  case (FSeed c)
  with assms seed_frame [of c f] show ?thesis by (auto intro: flow_inv_frame [of _ f])
next
  case FDrain
  with assms show ?thesis by (auto simp: drain_qualified_candidates_def flow_inv_def)
qed

lemma flow_run_inv: "flow_inv outs f \<Longrightarrow> flow_run e local xs f = (out, f') \<Longrightarrow> flow_inv (outs @ out) f'"
proof (induction xs arbitrary: outs f out f')
  case (Cons x xs)
  obtain o1 f1 where s: "flow_step e local x f = (o1, f1)" by fastforce
  obtain o2 f2 where r: "flow_run e local xs f1 = (o2, f2)" by fastforce
  from Cons.prems(2) s r have "out = o1 @ o2" "f' = f2" by auto
  with Cons.IH [OF flow_step_inv [OF Cons.prems(1) s] r] show ?case by simp
qed simp

text \<open>C12. Whatever ticks and candles the pipeline receives, and whichever of them raise, the setups it hands out, with those still
  waiting, carry pairwise different identifiers, and two setups of one strategy and direction are at least 15 minutes apart.\<close>

theorem setups_numbered_and_spaced:
  assumes "setup_flow_new e digest gen profiles path env_name manager config profile_name = Ok f"
    and "flow_run e local events f = (outs, f')"
  shows "sorted_wrt spaced (outs @ sf_candidates f')"
proof -
  from assms(1) have "sf_candidates f = []" by (auto simp: setup_flow_new_def Let_def elim!: rbind_InrE)
  then have "flow_inv [] f" by (simp add: flow_inv_def)
  from flow_run_inv [OF this assms(2)] show ?thesis by (simp add: flow_inv_def)
qed

subsection \<open>Expiry and decay\<close>

lemma alive_decayed:
  assumes "evaluate_invalidation s now = Ok (False, r)" and "apply_confidence_decay s now = Ok s'"
  shows "dt_instant now < dt_instant (sn_expiration_time s')"
  using assms by (auto simp: evaluate_invalidation_def apply_confidence_decay_def dt_le_def rmap_Inr_iff split: if_splits)

lemma lifecycle_scan_alive:
  assumes "lifecycle_scan now xs f = (Ok ks, f')" and "map_of (sf_discovered f') k = Some s"
  shows "k \<in> set ks \<or> dt_instant now < dt_instant (sn_expiration_time s)
    \<or> map_of (sf_discovered f) k = Some s \<and> k \<notin> fst ` set xs"
  using assms
proof (induction xs arbitrary: f ks)
  case (Cons x rest)
  obtain k0 s0 where x: "x = (k0, s0)" by fastforce
  from Cons.prems(1) x obtain bad r where v: "evaluate_invalidation s0 now = Ok (bad, r)"
    by (auto simp: sbind_def split: prod.splits sum.splits)
  show ?case
  proof (cases bad)
    case True
    from Cons.prems(1) x v True obtain ks' where r: "lifecycle_scan now rest f = (Ok ks', f')" and k: "ks = k0 # ks'"
      by (auto simp: sbind_def split: prod.splits sum.splits)
    from Cons.IH [OF r Cons.prems(2)] have "k \<in> set ks' \<or> dt_instant now < dt_instant (sn_expiration_time s)
      \<or> map_of (sf_discovered f) k = Some s \<and> k \<notin> fst ` set rest" .
    with k x show ?thesis by auto
  next
    case False
    from Cons.prems(1) x v False obtain s1 where d: "apply_confidence_decay s0 now = Ok s1"
      and r: "lifecycle_scan now rest (f\<lparr>sf_discovered := AList.update k0 s1 (sf_discovered f)\<rparr>) = (Ok ks, f')"
      by (auto simp: sbind_def smod_def split: prod.splits sum.splits)
    have alive: "dt_instant now < dt_instant (sn_expiration_time s1)" using v False d by (intro alive_decayed) auto
    from Cons.IH [OF r Cons.prems(2)] have "k \<in> set ks \<or> dt_instant now < dt_instant (sn_expiration_time s)
      \<or> (if k = k0 then Some s1 else map_of (sf_discovered f) k) = Some s \<and> k \<notin> fst ` set rest" by simp
    with alive x show ?thesis by (auto split: if_splits)
  qed
qed auto

definition all_alive :: "datetime \<Rightarrow> setup_flow \<Rightarrow> bool" where
  "all_alive now f \<longleftrightarrow> (\<forall>k s. map_of (sf_discovered f) k = Some s \<longrightarrow> dt_instant now < dt_instant (sn_expiration_time s))"

lemma map_of_deletes: "map_of (fold AList.delete ks d) k = (if k \<in> set ks then None else map_of d k)"
  by (induction ks arbitrary: d) (auto simp: delete_conv')

lemma scan_setups_alive: "scan_setups now f = (Ok u, f') \<Longrightarrow> all_alive now f'"
proof -
  assume "scan_setups now f = (Ok u, f')"
  then obtain ks f1 where s: "lifecycle_scan now (sf_discovered f) f = (Ok ks, f1)"
    and f': "f' = f1\<lparr>sf_discovered := fold AList.delete ks (sf_discovered f1)\<rparr>"
    by (auto simp: scan_setups_def sbind_def sget_def smod_def split: prod.splits sum.splits)
  show ?thesis unfolding all_alive_def
  proof (intro allI impI)
    fix k s assume "map_of (sf_discovered f') k = Some s"
    then have k: "k \<notin> set ks" "map_of (sf_discovered f1) k = Some s" by (auto simp: f' map_of_deletes split: if_splits)
    have "map_of (sf_discovered f) k = Some s \<Longrightarrow> k \<in> fst ` set (sf_discovered f)" by (force dest: map_of_SomeD)
    with lifecycle_scan_alive [OF s k(2)] k(1) show "dt_instant now < dt_instant (sn_expiration_time s)" by blast
  qed
qed

lemma stable_all_alive: "stable (all_alive now)"
  by (auto simp: stable_def all_alive_def)

lemma keeps_accept_alive: "keeps (all_alive (dt_naive (tk_timestamp t))) (accept_ict_strategy_selection e local ev t tf)"
proof (rule keepsI)
  fix f assume inv: "all_alive (dt_naive (tk_timestamp t)) f"
  obtain r f' where a: "accept_ict_strategy_selection e local ev t tf f = (r, f')" by fastforce
  from accept_cases [OF a, THEN conjunct2] have "all_alive (dt_naive (tk_timestamp t)) f'"
  proof (elim disjE exE)
    assume "unstored f f'" with inv show ?thesis by (simp add: all_alive_def unstored_def)
  next
    fix x assume "stored (dt_naive (tk_timestamp t)) f x f'"
    then have "sf_discovered f' = AList.update (sn_id (fst x)) (fst x) (sf_discovered f)"
      "sn_expiration_time (fst x) = dt_add (dt_naive (tk_timestamp t)) (20 * 60000000)" by (auto simp: stored_def)
    with inv show ?thesis by (auto simp: all_alive_def split: if_splits)
  qed
  with a show "all_alive (dt_naive (tk_timestamp t)) (snd (accept_ict_strategy_selection e local ev t tf f))" by simp
qed

text \<open>After a tick that returns, every tracked setup expires later than the tick.\<close>

theorem tracked_setups_unexpired:
  assumes "on_tick_received e local utcnow t f = (Ok u, f')" and "map_of (sf_discovered f') sid = Some s"
  shows "dt_instant (dt_naive (tk_timestamp t)) < dt_instant (sn_expiration_time s)"
proof -
  from assms(1) obtain cx f1 u2 f2 where c: "scan_setups (dt_naive (tk_timestamp t)) f1 = (Ok u2, f2)"
    and t: "tick_strategies e local t cx f2 = (Ok u, f')"
    unfolding on_tick_received_def by (elim sbind_OkE) blast
  have "all_alive (dt_naive (tk_timestamp t)) f'"
    using keepsD [OF keeps_tick_strategies [OF stable_all_alive keeps_accept_alive] scan_setups_alive [OF c], of e local cx] t by simp
  with assms(2) show ?thesis by (simp add: all_alive_def)
qed

text \<open>The decay is measured from the creation but subtracted from the score already decayed: two ticks at one instant, a quarter
  of 45 minutes after the creation, take five points each.\<close>

lemma decay_compounds:
  assumes "sn_confidence_score s = Fin 80" and "sn_creation_time s = naive 0"
  shows "\<exists>s1 s2. apply_confidence_decay s (naive 675000000) = Ok s1 \<and> sn_confidence_score s1 = Fin 75
    \<and> apply_confidence_decay s1 (naive 675000000) = Ok s2 \<and> sn_confidence_score s2 = Fin 70"
  using assms by (simp add: apply_confidence_decay_def dt_sub_def dt_instant_def naive_def dt_comparable_def confidence_decay_def total_seconds_def py_max_def py_min_def feval)

definition demo_flow :: setup_flow where
  "demo_flow = (let node = \<lparr>sn_id = ''STP_X_1_0'', sn_setup_type = FVG_CONTINUATION, sn_direction = BUY, sn_entry_price = Fin 1, sn_stop_loss = Fin 0,
       sn_take_profit = Fin 3, sn_estimated_rr = Fin 2, sn_quality_tier = STANDARD, sn_confidence_score = Fin 80, sn_creation_time = naive 0,
       sn_expiration_time = naive 1200000000, sn_correlation_id = [], sn_timeframe = ''1m''\<rparr>
     in \<lparr>sf_manager = sm_new (naive 0) 5, sf_structure = se_new ''1m'' 50, sf_liquidity = le_new ''1m'' (Fin 5), sf_session = session_engine_new,
         sf_definitions = [], sf_config = [], sf_profile_name = [], sf_config_hash = [], sf_profile_hash = [], sf_last_evaluation = None,
         sf_discovered = [(''OLD'', node\<lparr>sn_expiration_time := naive 1\<rparr>), (''STP_X_1_0'', node)], sf_cooldowns = [], sf_candles = [],
         sf_pivots = [], sf_candidates = [], sf_warmup_sweeps = 0, sf_counter = 1,
         sf_funnel = \<lparr>fn_live_ticks = 0, fn_sweeps = 0, fn_reversals = 0, fn_cooldown_blocks = 0, fn_confirmation_blocks = 0,
            fn_quality_blocks = 0, fn_finalized = 0, fn_evaluations = 0, fn_selected = 0, fn_strategy_blocks = 0\<rparr>,
         sf_reasons = [], sf_selection = None\<rparr>)"

definition demo_flow_quote :: tick_node where
  "demo_flow_quote = \<lparr>tk_symbol = [], tk_timestamp = naive 675000000, tk_bid = Fin 1, tk_ask = Fin 1, tk_volume = 0, tk_sequence_id = 0,
     tk_trace_id = [], tk_correlation_id = ''Q'', tk_priority = NORMAL\<rparr>"

lemma demo_commit:
  "\<exists>cx m se fn. commit_tick (\<lambda>_. 0) (naive 0) demo_flow_quote demo_flow = (Ok cx, demo_flow\<lparr>sf_manager := m, sf_session := se, sf_funnel := fn\<rparr>)"
  by (simp add: commit_tick_def Let_def sbind_def bump_def smod_def sget_def in_manager_def evaluate_session_context_def
      demo_flow_quote_def demo_flow_def commit_market_update_def mutate_market_def commit_state_def verify_invariants_def sm_new_def cold_boot_state_def
      commit_session_update_def mutate_session_def sm_install_def tick_label_def tick_mid_def tick_spread_def feval)

lemma demo_tick:
  "\<exists>f' s. on_tick_received plain_text (\<lambda>_. 0) (naive 0) demo_flow_quote demo_flow = (Ok (), f')
     \<and> map_of (sf_discovered f') ''STP_X_1_0'' = Some s \<and> map_of (sf_discovered f') ''OLD'' = None"
proof -
  from demo_commit obtain cx m se fn where c: "commit_tick (\<lambda>_. 0) (naive 0) demo_flow_quote demo_flow
     = (Ok cx, demo_flow\<lparr>sf_manager := m, sf_session := se, sf_funnel := fn\<rparr>)" by blast
  have s: "on_tick_received plain_text (\<lambda>_. 0) (naive 0) demo_flow_quote demo_flow =
      sbind (scan_setups (naive 675000000)) (\<lambda>_. tick_strategies plain_text (\<lambda>_. 0) demo_flow_quote cx)
        (demo_flow\<lparr>sf_manager := m, sf_session := se, sf_funnel := fn\<rparr>)"
    unfolding on_tick_received_def by (simp add: sbind_def [of "commit_tick _ _ _"] c) (simp add: demo_flow_quote_def dt_naive_def naive_def)
  show ?thesis unfolding s
    by (simp add: sbind_def scan_setups_def sget_def smod_def bump_def tick_strategies_def evaluate_tick_sweeps_def
        demo_flow_def evaluate_invalidation_def apply_confidence_decay_def dt_le_def dt_sub_def dt_instant_def
        dt_comparable_def naive_def touch_candles_def candles_of_def le_new_def Let_def)
qed

theorem tracked_setups_unexpired_witness:
  "\<exists>f' s. on_tick_received plain_text (\<lambda>_. 0) (naive 0) demo_flow_quote demo_flow = (Ok (), f')
     \<and> map_of (sf_discovered f') ''STP_X_1_0'' = Some s \<and> map_of (sf_discovered f') ''OLD'' = None
     \<and> 675000000 < dt_instant (sn_expiration_time s)"
proof -
  from demo_tick obtain f' s where t: "on_tick_received plain_text (\<lambda>_. 0) (naive 0) demo_flow_quote demo_flow = (Ok (), f')"
    and s: "map_of (sf_discovered f') ''STP_X_1_0'' = Some s" and o: "map_of (sf_discovered f') ''OLD'' = None" by blast
  have "dt_instant (dt_naive (tk_timestamp demo_flow_quote)) < dt_instant (sn_expiration_time s)"
    by (rule tracked_setups_unexpired [OF t s])
  then have "675000000 < dt_instant (sn_expiration_time s)" by (simp add: demo_flow_quote_def dt_naive_def naive_def dt_instant_def)
  with t s o show ?thesis by (intro exI conjI)
qed

theorem setups_numbered_and_spaced_witness:
  "\<exists>f outs f'. setup_flow_new plain_text (\<lambda>_. []) (\<lambda>_ _ _. Ok []) [] [] [] (sm_new (naive 0) 5) (Some [(''min_rr'', PInt 2)]) [] = Ok f
     \<and> flow_run plain_text (\<lambda>_. 0) [FCandle (demo_bar 3 1 2), FTick (naive 0) demo_flow_quote, FDrain] f = (outs, f') \<and> sorted_wrt spaced (outs @ sf_candidates f')"
proof -
  obtain f where f: "setup_flow_new plain_text (\<lambda>_. []) (\<lambda>_ _ _. Ok []) [] [] [] (sm_new (naive 0) 5) (Some [(''min_rr'', PInt 2)]) [] = Ok f"
    by (simp add: setup_flow_new_def)
  obtain outs f' where r: "flow_run plain_text (\<lambda>_. 0) [FCandle (demo_bar 3 1 2), FTick (naive 0) demo_flow_quote, FDrain] f = (outs, f')" by fastforce
  from f r setups_numbered_and_spaced [OF f r] show ?thesis by (intro exI conjI)
qed

end
