(* ===== verification/PyStats.thy ===== *)
theory PyStats
  imports PyVal "HOL-Library.Multiset"
begin

section \<open>Sums, means and sorting\<close>

text \<open>
  \<open>sum\<close> of floats (the compensated sum of Python 3.12), \<open>statistics.mean\<close> (the exact mean, rounded once), \<open>max\<close> and
  \<open>min\<close> of a list, and \<open>sorted\<close> with a key: a stable insertion sort that moves an item only past items that are
  strictly greater.
\<close>

text \<open>One step of the compensated sum: the total and the compensation.\<close>

fun neumaier :: "pyfloat \<Rightarrow> pyfloat \<times> pyfloat \<Rightarrow> pyfloat \<times> pyfloat" where
  "neumaier x (s, c) =
     (let t = fadd s x
      in (t, fadd c (if fle (fabs x) (fabs s) then fadd (fsub s t) x else fadd (fsub x t) s)))"

definition py_sum :: "pyfloat list \<Rightarrow> pyfloat" where
  "py_sum xs = (let (s, c) = fold neumaier xs (Fin 0, Fin 0) in if is_fin c \<and> c \<noteq> Fin 0 then fadd s c else s)"

fun fin_val :: "pyfloat \<Rightarrow> rat" where
  "fin_val (Fin q) = q"
| "fin_val _ = 0"

definition py_mean :: "pyfloat list \<Rightarrow> pyfloat" where
  "py_mean xs =
     (if list_all is_fin xs then rnd (sum_list (map fin_val xs) / of_nat (length xs))
      else fold (\<lambda>x s. fadd s x) (filter (\<lambda>x. \<not> is_fin x) xs) (Fin 0))"

definition max_of :: "pyfloat list \<Rightarrow> pyfloat" where
  "max_of xs = fold (\<lambda>x m. py_max m x) (tl xs) (hd xs)"

definition min_of :: "pyfloat list \<Rightarrow> pyfloat" where
  "min_of xs = fold (\<lambda>x m. py_min m x) (tl xs) (hd xs)"

definition flen :: "'a list \<Rightarrow> pyfloat" where
  "flen xs = fof_int (int (length xs))"

subsection \<open>Sorting with a key\<close>

fun ins_by :: "('a \<Rightarrow> 'a \<Rightarrow> bool) \<Rightarrow> 'a \<Rightarrow> 'a list \<Rightarrow> 'a list" where
  "ins_by lt x [] = [x]"
| "ins_by lt x (y # ys) = (if lt x y then x # y # ys else y # ins_by lt x ys)"

definition sort_by :: "('a \<Rightarrow> 'a \<Rightarrow> bool) \<Rightarrow> 'a list \<Rightarrow> 'a list" where
  "sort_by lt xs = fold (ins_by lt) xs []"

text \<open>\<open>sorted(xs, key=..., reverse=True)\<close> keeps the order of equal items.\<close>

definition sort_desc :: "('a \<Rightarrow> 'a \<Rightarrow> bool) \<Rightarrow> 'a list \<Rightarrow> 'a list" where
  "sort_desc lt xs = rev (sort_by lt (rev xs))"

lemma set_ins_by [simp]: "set (ins_by lt x ys) = insert x (set ys)"
  by (induction ys) auto

lemma set_fold_ins_by: "set (fold (ins_by lt) xs ys) = set xs \<union> set ys"
  by (induction xs arbitrary: ys) auto

lemma set_sort_by [simp]: "set (sort_by lt xs) = set xs"
  by (simp add: sort_by_def set_fold_ins_by)

lemma hd_sort_by_in: "xs \<noteq> [] \<Longrightarrow> hd (sort_by lt xs) \<in> set xs"
  by (metis hd_in_set set_empty set_sort_by)

lemma set_sort_desc [simp]: "set (sort_desc lt xs) = set xs"
  by (simp add: sort_desc_def)

lemma ins_by_sorted:
  assumes tr: "\<And>x y z. \<not> lt y x \<Longrightarrow> \<not> lt z y \<Longrightarrow> \<not> lt z x" and as: "\<And>x y. lt x y \<Longrightarrow> \<not> lt y x"
  shows "sorted_wrt (\<lambda>a b. \<not> lt b a) ys \<Longrightarrow> sorted_wrt (\<lambda>a b. \<not> lt b a) (ins_by lt x ys)"
proof (induction ys)
  case (Cons y ys)
  show ?case
  proof (cases "lt x y")
    case True
    with as have "\<not> lt y x" by blast
    with tr [of y x] Cons.prems have "\<forall>z\<in>set ys. \<not> lt z x" by auto
    with True \<open>\<not> lt y x\<close> Cons.prems show ?thesis by auto
  qed (use Cons in auto)
qed simp

lemma sort_by_sorted:
  assumes tr: "\<And>x y z. \<not> lt y x \<Longrightarrow> \<not> lt z y \<Longrightarrow> \<not> lt z x" and as: "\<And>x y. lt x y \<Longrightarrow> \<not> lt y x"
  shows "sorted_wrt (\<lambda>a b. \<not> lt b a) (sort_by lt xs)"
proof -
  have "sorted_wrt (\<lambda>a b. \<not> lt b a) (fold (ins_by lt) xs ys)" if "sorted_wrt (\<lambda>a b. \<not> lt b a) ys" for ys
    using that
  proof (induction xs arbitrary: ys)
    case (Cons x xs)
    have "sorted_wrt (\<lambda>a b. \<not> lt b a) (ins_by lt x ys)" by (rule ins_by_sorted [OF tr as Cons.prems])
    from Cons.IH [OF this] show ?case by simp
  qed simp
  then show ?thesis by (simp add: sort_by_def)
qed

lemma mset_sort_by [simp]: "mset (sort_by lt xs) = mset xs"
proof -
  have "mset (ins_by lt x zs) = add_mset x (mset zs)" for x zs by (induction zs) auto
  then have "mset (fold (ins_by lt) ys zs) = mset ys + mset zs" for ys zs by (induction ys arbitrary: zs) auto
  then show ?thesis by (simp add: sort_by_def)
qed

lemma sort_by_sorted_rel:
  assumes "\<And>x y. lt x y \<Longrightarrow> R x y" "\<And>x y. \<not> lt x y \<Longrightarrow> R y x" "\<And>x y z. R x y \<Longrightarrow> R y z \<Longrightarrow> R x z"
  shows "sorted_wrt R (sort_by lt xs)"
proof -
  have "sorted_wrt R (ins_by lt x ys)" if "sorted_wrt R ys" for x ys
    using that
  proof (induction ys)
    case (Cons y ys)
    show ?case
    proof (cases "lt x y")
      case True
      with assms(1,3) Cons.prems show ?thesis by (auto intro: assms(3) [OF assms(1) [OF True]])
    qed (use Cons assms(2) in auto)
  qed simp
  then have "sorted_wrt R (fold (ins_by lt) ys zs)" if "sorted_wrt R zs" for ys zs using that by (induction ys arbitrary: zs) auto
  then show ?thesis by (simp add: sort_by_def)
qed

lemma distinct_sort_by: "distinct (map f xs) \<Longrightarrow> distinct (map f (sort_by lt xs))"
proof -
  have "mset (map f (sort_by lt xs)) = mset (map f xs)" by simp
  then show "distinct (map f xs) \<Longrightarrow> ?thesis" using mset_eq_imp_distinct_iff by blast
qed

lemma length_sort_by [simp]: "length (sort_by lt xs) = length xs"
  using mset_sort_by [of lt xs] size_mset by metis

subsection \<open>Certificates\<close>

text \<open>A tie goes to the even neighbour; a value is \<open>round\<close>ed by naming the integer next to it.\<close>

lemma rhe_tie: "even m \<Longrightarrow> \<bar>q - of_int m\<bar> = 1/2 \<Longrightarrow> rhe q = m"
proof -
  assume m: "even m" and q: "\<bar>q - of_int m\<bar> = 1/2"
  then consider "q = of_int m + 1/2" | "q = of_int (m - 1) + 1/2" by (auto simp: abs_if split: if_splits)
  then show ?thesis
  proof cases
    case 1
    then have "\<lfloor>q\<rfloor> = m" by (intro floor_unique) auto
    with 1 m show ?thesis by (simp add: rhe_def)
  next
    case 2
    then have "\<lfloor>q\<rfloor> = m - 1" by (intro floor_unique) auto
    with 2 m show ?thesis by (simp add: rhe_def)
  qed
qed

lemma rnd_tie_cert:
  assumes "p2 (e + 52) \<le> q" "q < p2 (e + 53)" "- 1074 \<le> e" "even m" "\<bar>q - of_int m * p2 e\<bar> * 2 = p2 e"
    and "0 \<le> r" "r < 2 ^ 100" "of_int m * p2 e = r"
  shows "rnd q = Fin r"
proof -
  have q: "0 < q" using assms(1) p2_pos [of "e + 52"] by linarith
  have "lg2 q = e + 52" using assms(1,2) by (intro lg2_unique) (auto simp: add.commute)
  then have e: "qexp q = e" using q assms(3) by (simp add: qexp_def)
  have "q / p2 e - of_int m = (q - of_int m * p2 e) / p2 e" by (simp add: field_simps)
  then have "\<bar>q / p2 e - of_int m\<bar> = \<bar>q - of_int m * p2 e\<bar> / p2 e" by (simp add: abs_divide abs_of_pos)
  also have "\<dots> = 1/2" using assms(5) by (simp add: field_simps)
  finally have "rhe (q / p2 e) = m" by (rule rhe_tie [OF assms(4)])
  with q e assms(8) have "rnd_fin q = r" by (simp add: rnd_fin_def)
  moreover have "r < huge" "- huge < r" using assms(6,7) huge_ge huge_pos by linarith+
  ultimately show ?thesis by (simp add: rnd_def)
qed

lemma py_round_cert:
  assumes "\<bar>q * 10 ^ n - of_int m\<bar> < 1/2" "rnd (of_int m / 10 ^ n) = Fin r"
  shows "py_round (Fin q) n = Fin r"
  using rhe_eqI [OF assms(1)] assms(2) by simp

end
