(* ===== verification/ReportMetrics.thy ===== *)
theory ReportMetrics
  imports PyStats "HOL-Library.Sublist" "HOL-Library.Multiset"
begin

section \<open>Weekly report metrics (reports)\<close>

text \<open>
  \<open>metrics_calculator.py\<close> and \<open>candle_mapper.py\<close>. A row of the trade log is a dict of texts; \<open>fl\<close> is \<open>float\<close> of
  a text.
\<close>

type_synonym csv_row = "(string \<times> string) list"

text \<open>\<open>row.get(k1, row.get(k2, d))\<close> and \<open>row.get(k1) or row.get(k2) or ""\<close>.\<close>

fun get_in :: "csv_row \<Rightarrow> string list \<Rightarrow> string \<Rightarrow> string" where
  "get_in r [] d = d"
| "get_in r (k # ks) d = (case map_of r k of Some v \<Rightarrow> v | None \<Rightarrow> get_in r ks d)"

fun first_of :: "csv_row \<Rightarrow> string list \<Rightarrow> string" where
  "first_of r [] = []"
| "first_of r (k # ks) = (case map_of r k of Some (c # s) \<Rightarrow> c # s | _ \<Rightarrow> first_of r ks)"

subsection \<open>Numbers\<close>

definition opt_float :: "(string \<Rightarrow> pyfloat res) \<Rightarrow> string \<Rightarrow> pyfloat option" where
  "opt_float fl s = (let t = py_strip s in if t = [] then None else case fl t of Inr x \<Rightarrow> Some x | Inl _ \<Rightarrow> None)"

definition float_or :: "(string \<Rightarrow> pyfloat res) \<Rightarrow> string \<Rightarrow> pyfloat \<Rightarrow> pyfloat" where
  "float_or fl s d = (case opt_float fl s of Some x \<Rightarrow> x | None \<Rightarrow> d)"

definition round4 :: "pyfloat \<Rightarrow> pyfloat" where
  "round4 x = py_round x 4"

subsection \<open>Reading a row\<close>

datatype row_result = Win | Loss | Breakeven

definition pnl_of :: "(string \<Rightarrow> pyfloat res) \<Rightarrow> csv_row \<Rightarrow> pyfloat" where
  "pnl_of fl r = float_or fl (get_in r [''pnl'', ''profit''] ''0'') (Fin 0)"

definition rr_of :: "(string \<Rightarrow> pyfloat res) \<Rightarrow> csv_row \<Rightarrow> pyfloat" where
  "rr_of fl r = float_or fl (get_in r [''rr_actual'', ''realized_R'', ''r_multiple''] ''0'') (Fin 0)"

definition result_of :: "(string \<Rightarrow> pyfloat res) \<Rightarrow> csv_row \<Rightarrow> row_result" where
  "result_of fl r =
     (let value = py_lower (first_of r [''result'', ''exit_reason'', ''final_exit_reason'']);
          pnl = float_or fl (get_in r [''pnl'', ''profit'', ''realized_R''] ''0'') (Fin 0)
      in if has_sub ''win'' value \<or> has_sub ''tp'' value \<or> has_sub ''profit'' value then Win
         else if has_sub ''loss'' value \<or> has_sub ''sl'' value \<or> has_sub ''stop'' value then Loss
         else if flt (Fin 0) pnl then Win else if flt pnl (Fin 0) then Loss else Breakeven)"

definition bucket_post_cost_rr :: "pyfloat \<Rightarrow> string" where
  "bucket_post_cost_rr v =
     (if flt v (Fin 2) then ''<2R'' else if flt v (Fin (5/2)) then ''2R-2.49R'' else if flt v (Fin 3) then ''2.5R-2.99R'' else ''3R+'')"

definition bucket_rr :: "pyfloat \<Rightarrow> string" where
  "bucket_rr v =
     (if flt v (Fin 2) then ''below_1_to_2'' else if flt v (Fin 3) then ''1_to_2_to_1_to_3''
      else if flt v (Fin 5) then ''1_to_3_to_1_to_5'' else if flt v (Fin 10) then ''1_to_5_to_1_to_10'' else ''above_1_to_10'')"

subsection \<open>Groups\<close>

record summary =
  sm_trades :: nat
  sm_net_pnl :: pyfloat
  sm_wins :: nat
  sm_losses :: nat
  sm_profit_factor :: "pyfloat option"
  sm_expectancy :: pyfloat

definition profit_factor :: "pyfloat list \<Rightarrow> pyfloat option" where
  "profit_factor pnls =
     (let gross_profit = py_sum (filter (\<lambda>p. flt (Fin 0) p) pnls); gross_loss = fabs (py_sum (filter (\<lambda>p. flt p (Fin 0)) pnls))
      in if gross_loss = Fin 0 then None else Some (round4 (fdiv gross_profit gross_loss)))"

definition expectancy :: "pyfloat list \<Rightarrow> pyfloat" where
  "expectancy pnls = (if pnls = [] then Fin 0 else round4 (fdiv (py_sum pnls) (flen pnls)))"

definition summarize :: "(string \<Rightarrow> pyfloat res) \<Rightarrow> csv_row list \<Rightarrow> summary" where
  "summarize fl rows =
     (let pnls = map (pnl_of fl) rows
      in \<lparr>sm_trades = length rows, sm_net_pnl = round4 (py_sum pnls), sm_wins = length (filter (\<lambda>p. flt (Fin 0) p) pnls),
          sm_losses = length (filter (\<lambda>p. flt p (Fin 0)) pnls), sm_profit_factor = profit_factor pnls, sm_expectancy = expectancy pnls\<rparr>)"

definition group_key :: "string \<Rightarrow> csv_row \<Rightarrow> string" where
  "group_key key r = (case map_of r key of Some (c # s) \<Rightarrow> c # s | _ \<Rightarrow> ''unknown'')"

definition add_to_group :: "string \<Rightarrow> csv_row \<Rightarrow> (string, csv_row list) dict \<Rightarrow> (string, csv_row list) dict" where
  "add_to_group key r groups =
     (let name = group_key key r in AList.update name ((case map_of groups name of None \<Rightarrow> [] | Some rs \<Rightarrow> rs) @ [r]) groups)"

definition group_rows :: "(string \<Rightarrow> pyfloat res) \<Rightarrow> csv_row list \<Rightarrow> string \<Rightarrow> (string \<times> summary) list" where
  "group_rows fl rows key =
     (let groups = fold (add_to_group key) rows []
      in map (\<lambda>name. (name, summarize fl (case map_of groups name of None \<Rightarrow> [] | Some rs \<Rightarrow> rs))) (fold sinsert (map fst groups) []))"

subsection \<open>The metrics\<close>

text \<open>The streaks: current wins and losses, longest wins and losses.\<close>

type_synonym streaks = "nat \<times> nat \<times> nat \<times> nat"

fun streak_step :: "row_result \<Rightarrow> streaks \<Rightarrow> streaks" where
  "streak_step res (w, l, mw, ml) =
     (let (w', l') = (case res of Win \<Rightarrow> (w + 1, 0) | Loss \<Rightarrow> (0, l + 1) | Breakeven \<Rightarrow> (0, 0))
      in (w', l', max mw w', max ml l'))"

definition count_up :: "string \<Rightarrow> (string, nat) dict \<Rightarrow> (string, nat) dict" where
  "count_up k d = AList.update k ((case map_of d k of None \<Rightarrow> 0 | Some n \<Rightarrow> n) + 1) d"

text \<open>The loop over the equity curve: the peak so far and the largest fall from it.\<close>

fun drawdown_step :: "pyfloat \<Rightarrow> pyfloat option \<times> pyfloat \<Rightarrow> pyfloat option \<times> pyfloat" where
  "drawdown_step v (peak, dd) =
     (let p = (case peak of None \<Rightarrow> v | Some q \<Rightarrow> py_max q v) in (Some p, py_max dd (fsub p v)))"

definition max_drawdown :: "pyfloat list \<Rightarrow> pyfloat" where
  "max_drawdown values = snd (fold drawdown_step values (None, Fin 0))"

record metrics =
  mt_trade_count :: nat
  mt_closed_trades :: nat
  mt_wins :: nat
  mt_losses :: nat
  mt_breakeven :: int
  mt_win_rate :: pyfloat
  mt_net_pnl :: pyfloat
  mt_gross_profit :: pyfloat
  mt_gross_loss :: pyfloat
  mt_profit_factor :: "pyfloat option"
  mt_average_win :: pyfloat
  mt_average_loss :: pyfloat
  mt_largest_win :: pyfloat
  mt_largest_loss :: pyfloat
  mt_expectancy :: pyfloat
  mt_avg_rr :: pyfloat
  mt_best_rr :: pyfloat
  mt_worst_rr :: pyfloat
  mt_max_win_streak :: nat
  mt_max_loss_streak :: nat
  mt_max_drawdown :: "pyfloat option"
  mt_average_duration :: "pyfloat option"
  mt_rr_buckets :: "(string, nat) dict"
  mt_post_cost :: "(string, nat) dict"
  mt_below_minimum :: nat
  mt_by_setup :: "(string \<times> summary) list"
  mt_by_session :: "(string \<times> summary) list"
  mt_by_timeframe :: "(string \<times> summary) list"
  mt_by_direction :: "(string \<times> summary) list"

definition or_zero :: "(pyfloat list \<Rightarrow> pyfloat) \<Rightarrow> pyfloat list \<Rightarrow> pyfloat" where
  "or_zero g xs = (if xs = [] then Fin 0 else round4 (g xs))"

definition post_cost_of :: "(string \<Rightarrow> pyfloat res) \<Rightarrow> csv_row \<Rightarrow> pyfloat" where
  "post_cost_of fl r = float_or fl (get_in r [''post_cost_rr'', ''estimated_post_cost_rr'', ''rr_planned''] ''0'') (Fin 0)"

definition calculate_metrics :: "(string \<Rightarrow> pyfloat res) \<Rightarrow> pyfloat \<Rightarrow> csv_row list \<Rightarrow> csv_row list \<Rightarrow> metrics" where
  "calculate_metrics fl minimum_planned_rr rows equity_rows =
     (let pnls = map (pnl_of fl) rows; rrs = map (rr_of fl) rows;
          wins = filter (\<lambda>p. flt (Fin 0) p) pnls; losses = filter (\<lambda>p. flt p (Fin 0)) pnls;
          gross_profit = py_sum wins; gross_loss = fabs (py_sum losses);
          (_, _, win_streak, loss_streak) = fold streak_step (map (result_of fl) rows) (0, 0, 0, 0);
          post_costs = map (post_cost_of fl) rows;
          equity = List.map_filter (\<lambda>r. opt_float fl (get_in r [''equity'', ''balance''] [])) equity_rows;
          durations = List.map_filter (\<lambda>r. opt_float fl (get_in r [''duration_minutes'', ''duration_min''] [])) rows
      in \<lparr>mt_trade_count = length rows,
          mt_closed_trades = length (filter (\<lambda>r. first_of r [''exit_time'', ''exit_time_utc_normalized'', ''exit_price''] \<noteq> []) rows),
          mt_wins = length wins, mt_losses = length losses, mt_breakeven = int (length rows) - int (length wins) - int (length losses),
          mt_win_rate = (if rows = [] then Fin 0 else round4 (fdiv (flen wins) (flen rows))),
          mt_net_pnl = round4 (py_sum pnls), mt_gross_profit = round4 gross_profit, mt_gross_loss = round4 gross_loss,
          mt_profit_factor = profit_factor pnls, mt_average_win = or_zero py_mean wins, mt_average_loss = or_zero py_mean losses,
          mt_largest_win = or_zero max_of wins, mt_largest_loss = or_zero min_of losses, mt_expectancy = expectancy pnls,
          mt_avg_rr = or_zero py_mean rrs, mt_best_rr = or_zero max_of rrs, mt_worst_rr = or_zero min_of rrs,
          mt_max_win_streak = win_streak, mt_max_loss_streak = loss_streak,
          mt_max_drawdown = (if equity_rows = [] then None else Some (round4 (max_drawdown equity))),
          mt_average_duration = (if durations = [] then None else Some (py_round (py_mean durations) 2)),
          mt_rr_buckets = fold (count_up \<circ> bucket_rr) post_costs [],
          mt_post_cost = fold (count_up \<circ> bucket_post_cost_rr) post_costs [(''<2R'', 0), (''2R-2.49R'', 0), (''2.5R-2.99R'', 0), (''3R+'', 0)],
          mt_below_minimum = length (filter (\<lambda>p. flt p minimum_planned_rr) post_costs),
          mt_by_setup = group_rows fl rows ''strategy_setup'', mt_by_session = group_rows fl rows ''session'',
          mt_by_timeframe = group_rows fl rows ''timeframe'', mt_by_direction = group_rows fl rows ''direction''\<rparr>)"

subsection \<open>Candles\<close>

definition minute_us :: int where
  "minute_us = 60000000"

definition floor_to_candle :: "datetime \<Rightarrow> int \<Rightarrow> datetime" where
  "floor_to_candle d minutes =
     (let minute = (dt_wall d div minute_us) mod 60
      in d\<lparr>dt_wall := dt_wall d - dt_wall d mod minute_us - (minute mod minutes) * minute_us\<rparr>)"

definition map_time_to_candles :: "(datetime \<Rightarrow> string) \<Rightarrow> datetime option \<Rightarrow> (int \<times> string) list" where
  "map_time_to_candles isoformat d = map (\<lambda>m. (m, case d of None \<Rightarrow> [] | Some x \<Rightarrow> isoformat (floor_to_candle x m))) [1, 3, 5, 15]"

subsection \<open>The counts add up\<close>

lemma wins_losses_disjoint:
  "length (filter (\<lambda>p. flt (Fin 0) p) xs) + length (filter (\<lambda>p. flt p (Fin 0)) xs)
     + length (filter (\<lambda>p. \<not> flt (Fin 0) p \<and> \<not> flt p (Fin 0)) xs) = length xs"
  by (induction xs) (auto dest: flt_asym)

definition total :: "(string, nat) dict \<Rightarrow> nat" where
  "total d = sum_list (map snd d)"

lemma total_update:
  "distinct (map fst d) \<Longrightarrow> total (AList.update k n d) + (case map_of d k of None \<Rightarrow> 0 | Some m \<Rightarrow> m) = total d + n"
proof (induction d)
  case (Cons x d)
  obtain k' m where x: "x = (k', m)" by fastforce
  have "map_of d k' = None" using Cons.prems x by (simp add: map_of_eq_None_iff)
  with Cons x show ?case by (cases "k' = k") (auto simp: total_def split: option.splits)
qed (simp add: total_def)

lemma count_up_total: "distinct (map fst d) \<Longrightarrow> distinct (map fst (count_up k d)) \<and> total (count_up k d) = total d + 1"
  using total_update [of d k "(case map_of d k of None \<Rightarrow> 0 | Some n \<Rightarrow> n) + 1"]
  by (auto simp: count_up_def distinct_update split: option.splits)

lemma count_up_all: "distinct (map fst d) \<Longrightarrow> total (fold (count_up \<circ> g) xs d) = total d + length xs"
proof (induction xs arbitrary: d)
  case (Cons x xs)
  with count_up_total [of d "g x"] show ?case by simp
qed simp

definition rows_in :: "(string, csv_row list) dict \<Rightarrow> nat" where
  "rows_in d = sum_list (map (length \<circ> snd) d)"

lemma rows_in_update:
  "distinct (map fst d) \<Longrightarrow> rows_in (AList.update k rs d) + length (case map_of d k of None \<Rightarrow> [] | Some ss \<Rightarrow> ss) = rows_in d + length rs"
proof (induction d)
  case (Cons x d)
  obtain k' ss where x: "x = (k', ss)" by fastforce
  have "map_of d k' = None" using Cons.prems x by (simp add: map_of_eq_None_iff)
  with Cons x show ?case by (cases "k' = k") (auto simp: rows_in_def split: option.splits)
qed (simp add: rows_in_def)

lemma add_to_group_rows:
  "distinct (map fst d) \<Longrightarrow> distinct (map fst (add_to_group key r d)) \<and> rows_in (add_to_group key r d) = rows_in d + 1"
  using rows_in_update [of d "group_key key r" "(case map_of d (group_key key r) of None \<Rightarrow> [] | Some rs \<Rightarrow> rs) @ [r]"]
  by (auto simp: add_to_group_def Let_def distinct_update)

lemma groups_rows:
  "distinct (map fst d) \<Longrightarrow> distinct (map fst (fold (add_to_group key) rows d)) \<and> rows_in (fold (add_to_group key) rows d) = rows_in d + length rows"
proof (induction rows arbitrary: d)
  case (Cons r rows)
  with add_to_group_rows [of d key r] show ?case by simp
qed simp

lemma mset_sinsert [simp]: "mset (sinsert x ys) = add_mset x (mset ys)"
  by (induction ys) auto

lemma mset_sorted: "mset (fold sinsert xs ys) = mset xs + mset ys"
  by (induction xs arbitrary: ys) auto

lemma map_of_self: "distinct (map fst d) \<Longrightarrow> map (\<lambda>k. length (case map_of d k of None \<Rightarrow> [] | Some rs \<Rightarrow> rs)) (map fst d) = map (length \<circ> snd) d"
  by (auto simp: map_of_eq_Some_iff)

lemma group_rows_total: "sum_list (map (sm_trades \<circ> snd) (group_rows fl rows key)) = length rows"
proof -
  let ?g = "fold (add_to_group key) rows []"
  have g: "distinct (map fst ?g)" "rows_in ?g = length rows" using groups_rows [of "[]" key rows] by (simp_all add: rows_in_def)
  let ?f = "\<lambda>k. length (case map_of ?g k of None \<Rightarrow> [] | Some rs \<Rightarrow> rs)"
  have "map (sm_trades \<circ> snd) (group_rows fl rows key) = map ?f (fold sinsert (map fst ?g) [])"
    by (simp add: group_rows_def summarize_def Let_def)
  moreover have "mset (map ?f (fold sinsert (map fst ?g) [])) = mset (map ?f (map fst ?g))" by (simp only: mset_map mset_sorted) simp
  ultimately have eq: "sum_list (map (sm_trades \<circ> snd) (group_rows fl rows key)) = sum_list (map ?f (map fst ?g))"
    by (metis sum_mset_sum_list)
  show ?thesis unfolding eq map_of_self [OF g(1)] using g(2) unfolding rows_in_def .
qed

text \<open>Every trade of the log is counted once: as a win, a loss or breakeven by its profit, in one bucket of each
  reward distribution, and in one group of each breakdown.\<close>

theorem metrics_add_up:
  "let m = calculate_metrics fl minimum rows equity in
     mt_breakeven m = int (length (filter (\<lambda>p. \<not> flt (Fin 0) p \<and> \<not> flt p (Fin 0)) (map (pnl_of fl) rows)))
     \<and> int (mt_wins m) + int (mt_losses m) + mt_breakeven m = int (mt_trade_count m)
     \<and> total (mt_rr_buckets m) = mt_trade_count m \<and> total (mt_post_cost m) = mt_trade_count m
     \<and> list_all (\<lambda>groups. sum_list (map (sm_trades \<circ> snd) groups) = mt_trade_count m)
         [mt_by_setup m, mt_by_session m, mt_by_timeframe m, mt_by_direction m]"
proof -
  let ?d = "[(''<2R'', 0), (''2R-2.49R'', 0), (''2.5R-2.99R'', 0), (''3R+'', 0)] :: (string, nat) dict"
  have d: "distinct (map fst ?d)" "total ?d = 0" by (simp_all add: total_def)
  note w = wins_losses_disjoint [of "map (pnl_of fl) rows"]
  have a: "total (fold (count_up \<circ> bucket_rr) (map (post_cost_of fl) rows) []) = length rows"
    by (subst count_up_all) (simp_all add: total_def)
  have b: "total (fold (count_up \<circ> bucket_post_cost_rr) (map (post_cost_of fl) rows) ?d) = length rows"
    by (subst count_up_all [OF d(1)]) (simp add: d(2))
  show ?thesis using w a b by (simp add: calculate_metrics_def Let_def split_beta group_rows_total)
qed

subsection \<open>Streaks and drawdown\<close>

text \<open>The length of a longest run of consecutive elements with a property.\<close>

definition longest_run :: "('a \<Rightarrow> bool) \<Rightarrow> 'a list \<Rightarrow> nat \<Rightarrow> bool" where
  "longest_run P xs n \<longleftrightarrow> (\<exists>ys. sublist ys xs \<and> list_all P ys \<and> length ys = n) \<and> (\<forall>ys. sublist ys xs \<longrightarrow> list_all P ys \<longrightarrow> length ys \<le> n)"

definition run_at_end :: "('a \<Rightarrow> bool) \<Rightarrow> 'a list \<Rightarrow> nat" where
  "run_at_end P xs = length (takeWhile P (rev xs))"

lemma run_at_end_suffix:
  "\<exists>ys. suffix ys xs \<and> list_all P ys \<and> length ys = run_at_end P xs"
proof -
  let ?ys = "rev (takeWhile P (rev xs))"
  have "suffix ?ys xs" by (metis rev_rev_ident suffix_to_prefix takeWhile_is_prefix)
  moreover have "list_all P ?ys" by (auto simp: list_all_iff dest: set_takeWhileD)
  ultimately show ?thesis by (auto simp: run_at_end_def)
qed

lemma run_at_end_max: "suffix ys xs \<Longrightarrow> list_all P ys \<Longrightarrow> length ys \<le> run_at_end P xs"
proof -
  assume "suffix ys xs" "list_all P ys"
  then obtain zs where "xs = zs @ ys" by (auto simp: suffix_def)
  with \<open>list_all P ys\<close> show ?thesis by (simp add: run_at_end_def takeWhile_append list_all_iff)
qed

lemma sublist_snoc: "sublist ys (xs @ [x]) \<longleftrightarrow> sublist ys xs \<or> suffix ys (xs @ [x])"
  by (metis rev_eq_Cons_iff rev_rev_ident sublist_Cons_right sublist_rev suffix_to_prefix)

lemma longest_run_snoc: "longest_run P xs n \<Longrightarrow> longest_run P (xs @ [x]) (max n (run_at_end P (xs @ [x])))"
proof -
  assume l: "longest_run P xs n"
  then obtain a where a: "sublist a xs" "list_all P a" "length a = n" unfolding longest_run_def by blast
  obtain b where b: "suffix b (xs @ [x])" "list_all P b" "length b = run_at_end P (xs @ [x])" using run_at_end_suffix by blast
  have "\<exists>ys. sublist ys (xs @ [x]) \<and> list_all P ys \<and> length ys = max n (run_at_end P (xs @ [x]))"
    using a b by (cases "n \<le> run_at_end P (xs @ [x])") (auto simp: sublist_snoc max_def)
  moreover have "length ys \<le> max n (run_at_end P (xs @ [x]))" if "sublist ys (xs @ [x])" "list_all P ys" for ys
    using that l run_at_end_max [of ys "xs @ [x]" P] unfolding longest_run_def sublist_snoc by fastforce
  ultimately show ?thesis unfolding longest_run_def by blast
qed

lemma run_at_end_step: "run_at_end P (xs @ [x]) = (if P x then run_at_end P xs + 1 else 0)"
  by (simp add: run_at_end_def)

lemma streaks_run:
  "\<exists>mw ml. fold streak_step xs (0, 0, 0, 0) = (run_at_end ((=) Win) xs, run_at_end ((=) Loss) xs, mw, ml)
     \<and> longest_run ((=) Win) xs mw \<and> longest_run ((=) Loss) xs ml"
proof (induction xs rule: rev_induct)
  case Nil
  show ?case by (simp add: run_at_end_def longest_run_def)
next
  case (snoc x xs)
  then obtain mw ml where s: "fold streak_step xs (0, 0, 0, 0) = (run_at_end ((=) Win) xs, run_at_end ((=) Loss) xs, mw, ml)"
    and l: "longest_run ((=) Win) xs mw" "longest_run ((=) Loss) xs ml" by blast
  have "fold streak_step (xs @ [x]) (0, 0, 0, 0) = (run_at_end ((=) Win) (xs @ [x]), run_at_end ((=) Loss) (xs @ [x]),
      max mw (run_at_end ((=) Win) (xs @ [x])), max ml (run_at_end ((=) Loss) (xs @ [x])))"
    by (cases x) (simp_all add: s run_at_end_step)
  with longest_run_snoc [OF l(1), of x] longest_run_snoc [OF l(2), of x] show ?case by blast
qed

text \<open>The streaks reported are the longest runs of consecutive winning and losing rows.\<close>

theorem streaks_are_longest_runs:
  "let m = calculate_metrics fl minimum rows equity; results = map (result_of fl) rows in
     longest_run ((=) Win) results (mt_max_win_streak m) \<and> longest_run ((=) Loss) results (mt_max_loss_streak m)"
proof -
  obtain mw ml where "fold streak_step (map (result_of fl) rows) (0, 0, 0, 0)
      = (run_at_end ((=) Win) (map (result_of fl) rows), run_at_end ((=) Loss) (map (result_of fl) rows), mw, ml)"
    and l: "longest_run ((=) Win) (map (result_of fl) rows) mw" "longest_run ((=) Loss) (map (result_of fl) rows) ml"
    using streaks_run by blast
  with l show ?thesis by (simp add: calculate_metrics_def Let_def)
qed

text \<open>A row that names a stop is a loss for the streaks whatever it earned, so a trailing stop in profit breaks a winning
  streak while it is counted among the wins.\<close>

lemma profitable_stop_is_a_loss:
  assumes "fl ''5'' = Ok (Fin 5)"
  shows "let r = [(''exit_reason'', ''trailing_stop''), (''pnl'', ''5'')];
             m = calculate_metrics fl (Fin 2) [r] []
    in result_of fl r = Loss \<and> mt_wins m = 1 \<and> mt_max_win_streak m = 0 \<and> mt_max_loss_streak m = 1"
proof -
  have r: "result_of fl [(''exit_reason'', ''trailing_stop''), (''pnl'', ''5'')] = Loss"
    by (simp add: result_of_def py_lower_def low_char_def)
  have "pnl_of fl [(''exit_reason'', ''trailing_stop''), (''pnl'', ''5'')] = Fin 5"
    using assms by (simp add: pnl_of_def float_or_def opt_float_def py_strip_def is_space_def)
  with r show ?thesis by (simp add: calculate_metrics_def Let_def)
qed

definition fold_peak :: "pyfloat list \<Rightarrow> pyfloat option \<times> pyfloat" where
  "fold_peak xs = fold drawdown_step xs (None, Fin 0)"

lemma fold_peak_snoc: "fold_peak (xs @ [x]) = drawdown_step x (fold_peak xs)"
  by (simp add: fold_peak_def)

lemma fsub_mono: "is_fin c \<Longrightarrow> fle a b \<Longrightarrow> fle (fsub a c) (fsub b c)"
  by (cases c) (auto simp: fsub_def intro: fadd_mono)

lemma py_max_fin: "is_fin a \<Longrightarrow> is_fin b \<Longrightarrow> fle a (py_max a b) \<and> fle b (py_max a b) \<and> (py_max a b = a \<or> py_max a b = b)"
  using py_max_ge [of a b] py_max_cases [of a b] by (cases a; cases b) auto

lemma fsub_fin_not_NaN: "is_fin a \<Longrightarrow> is_fin b \<Longrightarrow> fsub a b \<noteq> NaN"
  by (cases a; cases b) simp_all

lemma fold_peak_inv:
  assumes "list_all is_fin xs" and "xs \<noteq> []"
  shows "\<exists>p dd. fold_peak xs = (Some p, dd) \<and> p \<in> set xs \<and> (\<forall>x\<in>set xs. fle x p) \<and> dd \<noteq> NaN
     \<and> (\<forall>j<length xs. \<forall>i\<le>j. fle (fsub (xs ! i) (xs ! j)) dd)
     \<and> (dd = Fin 0 \<or> (\<exists>j<length xs. \<exists>i\<le>j. dd = fsub (xs ! i) (xs ! j)))"
  using assms
proof (induction xs rule: rev_induct)
  case (snoc v xs)
  have fv: "is_fin v" "list_all is_fin xs" using snoc.prems by simp_all
  have vv: "v \<noteq> NaN" using fv(1) by (cases v) simp_all
  show ?case
  proof (cases "xs = []")
    case True
    have "fold_peak (xs @ [v]) = (Some v, py_max (Fin 0) (fsub v v))" using True by (simp add: fold_peak_def Let_def)
    with True vv fsub_fin_not_NaN [OF fv(1) fv(1)] show ?thesis
      using py_max_ge [of "Fin 0" "fsub v v"] py_max_cases [of "Fin 0" "fsub v v"] by auto
  next
    case False
    from snoc.IH [OF fv(2) False] obtain p dd where h: "fold_peak xs = (Some p, dd)" "p \<in> set xs" "\<forall>x\<in>set xs. fle x p" "dd \<noteq> NaN"
      "\<forall>j<length xs. \<forall>i\<le>j. fle (fsub (xs ! i) (xs ! j)) dd" "dd = Fin 0 \<or> (\<exists>j<length xs. \<exists>i\<le>j. dd = fsub (xs ! i) (xs ! j))" by blast
    have pf: "is_fin p" using h(2) fv(2) by (auto simp: list_all_iff)
    define q where "q = py_max p v"
    define e where "e = py_max dd (fsub q v)"
    have q: "fle p q" "fle v q" "q = p \<or> q = v" using py_max_fin [OF pf fv(1)] unfolding q_def by blast+
    have qf: "is_fin q" using q(3) pf fv(1) by auto
    note n = fsub_fin_not_NaN [OF qf fv(1)]
    have e: "fle dd e" "fle (fsub q v) e" "e = dd \<or> e = fsub q v"
      using py_max_ge [OF h(4) n] py_max_cases [of dd "fsub q v"] unfolding e_def by blast+
    have "q \<in> set (xs @ [v])" using q(3) h(2) by auto
    then obtain k where "k < length (xs @ [v])" "(xs @ [v]) ! k = q" unfolding in_set_conv_nth by blast
    then have k: "k \<le> length xs" "q = (xs @ [v]) ! k" by simp_all
    have all: "\<forall>x\<in>set (xs @ [v]). fle x q" using h(3) q(1,2) by (auto intro: fle_trans)
    have below: "fle (fsub ((xs @ [v]) ! i) ((xs @ [v]) ! j)) e" if ij: "j < length (xs @ [v])" "i \<le> j" for i j
    proof (cases "j < length xs")
      case True
      then have "fle (fsub (xs ! i) (xs ! j)) dd" using h(5) ij by blast
      with e(1) True ij show ?thesis by (simp add: nth_append fle_trans)
    next
      case False
      then have j: "j = length xs" using ij by simp
      have "(xs @ [v]) ! i \<in> set (xs @ [v])" using ij by (intro nth_mem) simp
      with all have "fle ((xs @ [v]) ! i) q" by blast
      from fle_trans [OF fsub_mono [OF fv(1) this] e(2)] j show ?thesis by simp
    qed
    have hit: "e = Fin 0 \<or> (\<exists>j<length (xs @ [v]). \<exists>i\<le>j. e = fsub ((xs @ [v]) ! i) ((xs @ [v]) ! j))"
      using e(3)
    proof
      assume "e = fsub q v"
      then have "e = fsub ((xs @ [v]) ! k) ((xs @ [v]) ! length xs)" using k(2) by simp
      moreover have "length xs < length (xs @ [v])" by simp
      ultimately show ?thesis using k(1) by blast
    next
      assume d: "e = dd"
      from h(6) show ?thesis
      proof
        assume "\<exists>j<length xs. \<exists>i\<le>j. dd = fsub (xs ! i) (xs ! j)"
        then obtain j i where ij: "j < length xs" "i \<le> j" "dd = fsub (xs ! i) (xs ! j)" by blast
        then have "e = fsub ((xs @ [v]) ! i) ((xs @ [v]) ! j)" using d by (simp add: nth_append)
        moreover have "j < length (xs @ [v])" using ij(1) by simp
        ultimately show ?thesis using ij(2) by blast
      qed (simp add: d)
    qed
    have "fold_peak (xs @ [v]) = (Some q, e)" by (simp add: fold_peak_snoc h(1) Let_def q_def e_def)
    moreover have "e \<noteq> NaN" using e(1) by (cases e) simp_all
    ultimately show ?thesis using \<open>q \<in> set (xs @ [v])\<close> all below hit by blast
  qed
qed simp

text \<open>C26. The drawdown of an equity curve without NaN or infinity is the largest fall from an earlier value to a later one.\<close>

theorem drawdown_is_largest_fall:
  assumes "list_all is_fin values" and "values \<noteq> []"
  shows "(\<forall>j<length values. \<forall>i\<le>j. fle (fsub (values ! i) (values ! j)) (max_drawdown values))
    \<and> (max_drawdown values = Fin 0 \<or> (\<exists>j<length values. \<exists>i\<le>j. max_drawdown values = fsub (values ! i) (values ! j)))"
proof -
  from fold_peak_inv [OF assms] obtain p dd where h: "fold_peak values = (Some p, dd)"
    "\<forall>j<length values. \<forall>i\<le>j. fle (fsub (values ! i) (values ! j)) dd"
    "dd = Fin 0 \<or> (\<exists>j<length values. \<exists>i\<le>j. dd = fsub (values ! i) (values ! j))" by blast
  have eq: "max_drawdown values = dd" using h(1) by (simp add: max_drawdown_def fold_peak_def)
  show ?thesis unfolding eq using h(2,3) by (rule conjI)
qed

theorem drawdown_is_largest_fall_witness:
  "fle (fsub (Fin 105) (Fin 98)) (max_drawdown [Fin 100, Fin 105, Fin 98, Fin 101])"
proof -
  have "list_all is_fin [Fin 100, Fin 105, Fin 98, Fin 101]" "[Fin 100, Fin 105, Fin 98, Fin 101] \<noteq> []" by simp_all
  from drawdown_is_largest_fall [OF this, THEN conjunct1, rule_format, of 2 1] show ?thesis by simp
qed

text \<open>The candle of a time starts at or before it, less than its length earlier, on a multiple of its length
  within the hour.\<close>

lemma wall_split: "(a::int) = m * q + r \<Longrightarrow> w = u * a + s \<Longrightarrow> w = m * u * q + u * r + s"
  by (simp add: algebra_simps)

lemma floor_to_candle_spec:
  assumes "m \<in> {1, 3, 5, 15}" and "floor_to_candle d m = c"
  shows "dt_off c = dt_off d \<and> dt_wall c \<le> dt_wall d \<and> dt_wall d < dt_wall c + m * minute_us \<and> dt_wall c mod (m * minute_us) = 0"
proof -
  let ?a = "dt_wall d div minute_us"
  have m: "m dvd 60" "0 < m" using assms(1) by auto
  have "dt_wall c = minute_us * ?a - (?a mod m) * minute_us" "dt_off c = dt_off d"
    using assms(2) m(1) by (auto simp: floor_to_candle_def Let_def mod_mod_cancel minus_mod_eq_mult_div)
  then have c: "dt_wall c = m * minute_us * (?a div m)" "dt_off c = dt_off d"
    by (simp_all add: algebra_simps minus_mod_eq_mult_div flip: right_diff_distrib)
  have w: "dt_wall d = minute_us * ?a + dt_wall d mod minute_us" "?a = m * (?a div m) + ?a mod m" by simp_all
  have r: "0 \<le> dt_wall d mod minute_us" "dt_wall d mod minute_us < minute_us" "0 \<le> ?a mod m" "?a mod m \<le> m - 1"
    using m(2) pos_mod_bound [of m ?a] by (simp_all add: minute_us_def)
  have "dt_wall d = dt_wall c + minute_us * (?a mod m) + dt_wall d mod minute_us" unfolding c(1)
    by (rule wall_split [OF w(2,1)])
  moreover have "0 \<le> minute_us * (?a mod m)" "minute_us * (?a mod m) \<le> minute_us * (m - 1)"
    using r(3,4) by (simp_all add: minute_us_def)
  ultimately have "dt_wall c \<le> dt_wall d" "dt_wall d < dt_wall c + m * minute_us" using r(1,2) by (simp_all add: algebra_simps)
  with c show ?thesis by simp
qed

end
