(* ===== verification/ReportVerify.thy ===== *)
theory ReportVerify
  imports ReportMetrics
begin

section \<open>Checking and sending the weekly report (reports)\<close>

text \<open>
  \<open>report_config.py\<close>, \<open>timestamp_normalizer.py\<close>, \<open>schema_validator.py\<close>, \<open>cross_verifier.py\<close>,
  \<open>manual_chart_review.py\<close>, \<open>weekly_report_runner.py\<close>, \<open>ai/ai_report_writer.py\<close>, \<open>ai/gemini_client.py\<close> and
  \<open>delivery/telegram_report_sender.py\<close>. Files, HTTP and the rendering of JSON are arguments; a path is its text.
\<close>

subsection \<open>Configuration\<close>

definition setting_bool :: "string option \<Rightarrow> bool \<Rightarrow> bool" where
  "setting_bool v dflt = (case v of None \<Rightarrow> dflt | Some s \<Rightarrow> py_lower (py_strip s) \<in> set [''1'', ''true'', ''yes'', ''y'', ''on''])"

definition setting_num :: "(string \<Rightarrow> 'a res) \<Rightarrow> string option \<Rightarrow> 'a \<Rightarrow> 'a" where
  "setting_num conv v dflt = (case conv (case v of None \<Rightarrow> ''None'' | Some s \<Rightarrow> s) of Inr x \<Rightarrow> x | Inl _ \<Rightarrow> dflt)"

definition strip_quote :: "char \<Rightarrow> string \<Rightarrow> string" where
  "strip_quote c s = rev (dropWhile ((=) c) (rev (dropWhile ((=) c) s)))"

text \<open>The lines of the file, \<open>None\<close> when it does not exist.\<close>

definition report_env_line :: "string \<Rightarrow> csv_row \<Rightarrow> csv_row" where
  "report_env_line raw values =
     (let line = py_strip raw
      in if line = [] \<or> has_prefix ''#'' line \<or> CHR ''='' \<notin> set line then values
         else let key = takeWhile ((\<noteq>) CHR ''='') line; value = tl (dropWhile ((\<noteq>) CHR ''='') line)
              in AList.update (py_strip key) (strip_quote (CHR 0x27) (strip_quote CHR ''\"'' (py_strip value))) values)"

definition read_report_env :: "string list option \<Rightarrow> csv_row" where
  "read_report_env file = (case file of None \<Rightarrow> [] | Some ls \<Rightarrow> fold report_env_line ls [])"

definition merged :: "csv_row \<Rightarrow> csv_row \<Rightarrow> csv_row" where
  "merged over base = fold (\<lambda>(k, v) d. AList.update k v d) over base"

record reporting_config =
  rc_enabled :: bool
  rc_output_dir :: string
  rc_display_timezone :: string
  rc_broker_timezone :: string
  rc_symbol_filter :: string
  rc_trade_log :: string
  rc_execution_log :: "string option"
  rc_broker_history :: "string option"
  rc_signal_log :: "string option"
  rc_risk_log :: "string option"
  rc_equity_csv :: "string option"
  rc_ai_enabled :: bool
  rc_ai_provider :: string
  rc_gemini_api_key :: string
  rc_gemini_model :: string
  rc_ai_timeout :: int
  rc_ai_max_retries :: int
  rc_telegram_enabled :: bool
  rc_send_summary :: bool
  rc_send_files :: bool
  rc_bot_token :: string
  rc_chat_id :: string
  rc_max_file_size_mb :: pyfloat
  rc_minimum_planned_rr :: pyfloat
  rc_pnl_tolerance :: pyfloat

definition report_env :: "string list option \<Rightarrow> csv_row \<Rightarrow> (string \<times> string option) list \<Rightarrow> csv_row" where
  "report_env file environ overrides =
     merged (List.map_filter (\<lambda>(k, v). map_option (Pair k) v) overrides) (merged environ (read_report_env file))"

definition config_from_env ::
  "(string \<Rightarrow> int res) \<Rightarrow> (string \<Rightarrow> pyfloat res) \<Rightarrow> string list option \<Rightarrow> csv_row \<Rightarrow> (string \<times> string option) list \<Rightarrow> reporting_config" where
  "config_from_env it fl file environ overrides =
     (let env = report_env file environ overrides;
          opt_path = (\<lambda>k. let v = py_strip (get_in env [k] []) in if v = [] then None else Some v)
      in \<lparr>rc_enabled = setting_bool (map_of env ''REPORTING_ENABLED'') True,
          rc_output_dir = get_in env [''REPORT_OUTPUT_DIR''] ''reports/output'',
          rc_display_timezone = get_in env [''REPORT_DISPLAY_TIMEZONE''] ''Asia/Kolkata'',
          rc_broker_timezone = get_in env [''REPORT_BROKER_TIMEZONE''] ''UTC'',
          rc_symbol_filter = get_in env [''REPORT_SYMBOL_FILTER''] [],
          rc_trade_log = get_in env [''REPORT_TRADE_LOG'', ''TRADE_LOG_PATH''] ''trade_log.csv'',
          rc_execution_log = opt_path ''REPORT_EXECUTION_LOG'', rc_broker_history = opt_path ''REPORT_BROKER_HISTORY_EXPORT'',
          rc_signal_log = opt_path ''REPORT_SIGNAL_LOG'', rc_risk_log = opt_path ''REPORT_RISK_LOG'', rc_equity_csv = opt_path ''REPORT_EQUITY_CSV'',
          rc_ai_enabled = setting_bool (map_of env ''REPORT_AI_ENABLED'') False,
          rc_ai_provider = get_in env [''AI_PROVIDER''] ''gemini'',
          rc_gemini_api_key = get_in env [''GEMINI_API_KEY''] [],
          rc_gemini_model = get_in env [''GEMINI_MODEL''] ''gemini-1.5-flash'',
          rc_ai_timeout = setting_num it (map_of env ''AI_REPORT_TIMEOUT_SECONDS'') 30,
          rc_ai_max_retries = setting_num it (map_of env ''AI_REPORT_MAX_RETRIES'') 2,
          rc_telegram_enabled = setting_bool (map_of env ''REPORT_TELEGRAM_ENABLED'') False,
          rc_send_summary = setting_bool (map_of env ''REPORT_TELEGRAM_SEND_SUMMARY'') True,
          rc_send_files = setting_bool (map_of env ''REPORT_TELEGRAM_SEND_FILES'') True,
          rc_bot_token = get_in env [''TELEGRAM_BOT_TOKEN'', ''APEX_TELEGRAM_BOT_TOKEN''] [],
          rc_chat_id = get_in env [''TELEGRAM_CHAT_ID'', ''APEX_TELEGRAM_CHAT_ID''] [],
          rc_max_file_size_mb = setting_num fl (map_of env ''REPORT_TELEGRAM_MAX_FILE_SIZE_MB'') (Fin 45),
          rc_minimum_planned_rr = setting_num fl (map_of env ''REPORT_MINIMUM_PLANNED_RR'') (Fin 2),
          rc_pnl_tolerance = setting_num fl (map_of env ''REPORT_PNL_TOLERANCE'') (lit (1/100))\<rparr>)"

subsection \<open>Timestamps\<close>

record issue =
  is_severity :: string
  is_category :: string
  is_code :: string
  is_trade :: "string option"
  is_fields :: csv_row

text \<open>A time zone gives its offset from UTC at a wall time and at an instant; \<open>tl_zone\<close> raises \<open>KeyError\<close> for an unknown
  name. The readers of times raise \<open>ValueError\<close> on a text they cannot read.\<close>

record zone =
  zn_wall :: "int \<Rightarrow> int"
  zn_inst :: "int \<Rightarrow> int"

record timelib =
  tl_fromiso :: "string \<Rightarrow> datetime res"
  tl_strptime :: "string \<Rightarrow> string \<Rightarrow> datetime res"
  tl_iso :: "datetime \<Rightarrow> string"
  tl_zone :: "string \<Rightarrow> zone res"
  tl_two_decimals :: "pyfloat \<Rightarrow> string"

definition find_zone :: "timelib \<Rightarrow> string \<Rightarrow> zone res" where
  "find_zone tm name = (case tl_zone tm name of Inl KeyError \<Rightarrow> Ok \<lparr>zn_wall = \<lambda>_. 0, zn_inst = \<lambda>_. 0\<rparr> | z \<Rightarrow> z)"

definition to_utc :: "datetime \<Rightarrow> datetime" where
  "to_utc d = \<lparr>dt_wall = dt_instant d, dt_off = Some 0\<rparr>"

definition to_zone :: "zone \<Rightarrow> datetime \<Rightarrow> datetime" where
  "to_zone z d = \<lparr>dt_wall = dt_instant d + zn_inst z (dt_instant d), dt_off = Some (zn_inst z (dt_instant d))\<rparr>"

definition zulu :: "string \<Rightarrow> string" where
  "zulu s = concat (map (\<lambda>c. if c = CHR ''Z'' then ''+00:00'' else [c]) s)"

fun first_format :: "timelib \<Rightarrow> string \<Rightarrow> string list \<Rightarrow> datetime option res" where
  "first_format tm s [] = Ok None"
| "first_format tm s (f # fs) =
     (case tl_strptime tm f s of Inr d \<Rightarrow> Ok (Some d) | Inl (ValueError _) \<Rightarrow> first_format tm s fs | Inl e \<Rightarrow> Raise e)"

definition read_time :: "timelib \<Rightarrow> string \<Rightarrow> datetime option res" where
  "read_time tm s =
     (case tl_fromiso tm (zulu s) of
        Inr d \<Rightarrow> Ok (Some d)
      | Inl (ValueError _) \<Rightarrow> first_format tm s [''%Y-%m-%d %H:%M:%S'', ''%Y-%m-%d %H:%M'', ''%d-%m-%Y %H:%M:%S'', ''%d-%m-%Y %H:%M'']
      | Inl e \<Rightarrow> Raise e)"

definition parse_timestamp ::
  "timelib \<Rightarrow> string \<Rightarrow> string \<Rightarrow> string \<Rightarrow> string \<Rightarrow> (datetime option \<times> issue list) res" where
  "parse_timestamp tm value source_tz field trade_id =
     (if py_strip value = [] then Ok (None, [])
      else rbind (read_time tm (py_strip value)) (\<lambda>parsed.
        case parsed of
          None \<Rightarrow> Ok (None, [\<lparr>is_severity = ''high'', is_category = ''timestamp'', is_code = ''invalid_timestamp'', is_trade = Some trade_id,
                             is_fields = [(''field'', field), (''value'', value)]\<rparr>])
        | Some d \<Rightarrow>
            if dt_off d \<noteq> None then Ok (Some (to_utc d), [])
            else rmap (\<lambda>z. (Some (to_utc (d\<lparr>dt_off := Some (zn_wall z (dt_wall d))\<rparr>)),
                            [\<lparr>is_severity = ''warning'', is_category = ''timestamp'', is_code = ''naive_timestamp_assumed_source_timezone'',
                              is_trade = Some trade_id, is_fields = [(''field'', field), (''source_timezone'', source_tz)]\<rparr>]))
                   (find_zone tm source_tz)))"

definition time_fields :: "timelib \<Rightarrow> zone \<Rightarrow> zone \<Rightarrow> string \<Rightarrow> datetime option \<Rightarrow> csv_row \<Rightarrow> csv_row" where
  "time_fields tm broker display pre d r =
     (case d of
        None \<Rightarrow> r
      | Some t \<Rightarrow> AList.update (pre @ ''_time_display'') (tl_iso tm (to_zone display t))
                 (AList.update (pre @ ''_time_broker_normalized'') (tl_iso tm (to_zone broker t))
                 (AList.update (pre @ ''_time_utc_normalized'') (tl_iso tm t) r)))"

definition normalize_trade_timestamps :: "timelib \<Rightarrow> reporting_config \<Rightarrow> csv_row \<Rightarrow> (csv_row \<times> issue list) res" where
  "normalize_trade_timestamps tm c r =
     (let trade_id = first_of r [''trade_id'', ''id'']
      in rbind (find_zone tm (rc_display_timezone c)) (\<lambda>display.
         rbind (find_zone tm (rc_broker_timezone c)) (\<lambda>broker.
         rbind (parse_timestamp tm (first_of r [''entry_time_utc'', ''entry_time'', ''broker_execution_time'', ''order_send_time''])
                  (rc_broker_timezone c) ''entry_time'' trade_id) (\<lambda>(entry, entry_issues).
         rbind (parse_timestamp tm (first_of r [''exit_time_utc'', ''exit_time'']) (rc_broker_timezone c) ''exit_time'' trade_id) (\<lambda>(exit, exit_issues).
         let issues = entry_issues @ exit_issues;
             times = time_fields tm broker display ''exit'' exit (time_fields tm broker display ''entry'' entry r)
         in Ok (case (entry, exit) of
                  (Some en, Some ex) \<Rightarrow>
                    (AList.update ''duration_minutes'' (tl_two_decimals tm (fdiv (total_seconds (dt_instant ex - dt_instant en)) (Fin 60))) times,
                     issues @ (if dt_instant ex < dt_instant en
                               then [\<lparr>is_severity = ''high'', is_category = ''timestamp'', is_code = ''exit_before_entry'', is_trade = Some trade_id,
                                      is_fields = []\<rparr>] else []))
                | _ \<Rightarrow> (times, issues)))))))"

subsection \<open>The checks\<close>

definition trade_id_of :: "nat \<Rightarrow> csv_row \<Rightarrow> string" where
  "trade_id_of i r = (let s = first_of r [''trade_id'', ''id''] in if s = [] then ''row_'' @ nat_str i else s)"

definition critical_fields :: "(string \<times> string list) list" where
  "critical_fields = [(''trade_id'', [''trade_id'', ''id'']), (''symbol'', [''symbol'']), (''direction'', [''direction'']),
     (''entry_time'', [''entry_time'', ''entry_time_utc'', ''entry_time_broker'', ''entry_time_ist'', ''broker_execution_time''])]"

definition plain_issue :: "string \<Rightarrow> string \<Rightarrow> string \<Rightarrow> string \<Rightarrow> issue" where
  "plain_issue severity category code trade = \<lparr>is_severity = severity, is_category = category, is_code = code, is_trade = Some trade, is_fields = []\<rparr>"

definition missing_fields :: "string \<Rightarrow> csv_row \<Rightarrow> issue list" where
  "missing_fields trade r =
     map (\<lambda>(field, _). (plain_issue (if field \<in> set [''trade_id'', ''entry_time''] then ''high'' else ''warning'') ''schema''
            ''missing_required_trade_field'' trade)\<lparr>is_fields := [(''field'', field)]\<rparr>)
       (filter (\<lambda>(field, aliases). \<not> list_ex (\<lambda>a. py_strip (get_in r [a] []) \<noteq> []) aliases) critical_fields)"

definition symbol_issue :: "reporting_config \<Rightarrow> string \<Rightarrow> csv_row \<Rightarrow> issue list" where
  "symbol_issue c trade r =
     (let symbol = get_in r [''symbol''] []
      in if rc_symbol_filter c \<noteq> [] \<and> symbol \<noteq> [] \<and> symbol \<noteq> rc_symbol_filter c
         then [(plain_issue ''warning'' ''schema'' ''symbol_filter_mismatch'' trade)\<lparr>is_fields := [(''symbol'', symbol), (''expected'', rc_symbol_filter c)]\<rparr>]
         else [])"

fun validate_from :: "reporting_config \<Rightarrow> nat \<Rightarrow> string list \<Rightarrow> csv_row list \<Rightarrow> issue list" where
  "validate_from c i seen [] = []"
| "validate_from c i seen (r # rs) =
     (let t = trade_id_of i r
      in missing_fields t r @ (if t \<in> set seen then [plain_issue ''high'' ''schema'' ''duplicate_trade_id'' t] else [])
         @ symbol_issue c t r @ validate_from c (i + 1) (t # seen) rs)"

definition validate_trade_rows :: "reporting_config \<Rightarrow> csv_row list \<Rightarrow> issue list" where
  "validate_trade_rows c rows = validate_from c 1 [] rows"

definition severity_rank :: "string \<Rightarrow> nat" where
  "severity_rank s = (if s = ''warning'' then 1 else if s = ''high'' then 2 else if s = ''critical'' then 3 else 0)"

definition verify_row :: "(string \<Rightarrow> pyfloat res) \<Rightarrow> reporting_config \<Rightarrow> nat \<Rightarrow> csv_row \<Rightarrow> issue list" where
  "verify_row fl c i r =
     (let t = trade_id_of i r; result = get_in r [''result''] [];
          direction = py_lower (get_in r [''direction''] []);
          entry = opt_float fl (get_in r [''entry_price'', ''entry''] []); exit = opt_float fl (get_in r [''exit_price'', ''exit''] []);
          stop = opt_float fl (get_in r [''stop_loss'', ''stop''] []); pnl = opt_float fl (get_in r [''pnl'', ''profit''] []);
          expected_pnl = opt_float fl (get_in r [''expected_pnl'', ''pnl_recalculated''] [])
      in (if result \<noteq> [] \<and> \<not> has_sub ''open'' (py_lower result) \<and> first_of r [''exit_price'', ''exit''] = []
          then [plain_issue ''high'' ''trade'' ''closed_trade_missing_exit_price'' t] else [])
       @ (if first_of r [''stop_loss'', ''stop''] = [] then [plain_issue ''warning'' ''trade'' ''missing_stop_loss'' t] else [])
       @ (if first_of r [''take_profit'', ''target_1'', ''tp1''] = [] then [plain_issue ''warning'' ''trade'' ''missing_take_profit'' t] else [])
       @ (if first_of r [''broker_execution_time'', ''entry_time_utc'', ''entry_time''] = []
          then [plain_issue ''warning'' ''execution'' ''missing_broker_execution_time'' t] else [])
       @ (case (pnl, expected_pnl) of
            (Some p, Some x) \<Rightarrow> if flt (rc_pnl_tolerance c) (fabs (fsub p x)) then [plain_issue ''warning'' ''pnl'' ''pnl_recalculation_mismatch'' t] else []
          | _ \<Rightarrow> [])
       @ (case (entry, exit, stop) of
            (Some en, Some ex, Some st) \<Rightarrow>
              if get_in r [''rr_actual''] [] = [] then []
              else let risk = fabs (fsub en st);
                       expected = (if risk = Fin 0 then Fin 0
                                   else fdiv (if has_prefix ''buy'' direction \<or> has_prefix ''long'' direction then fsub ex en else fsub en ex) risk)
                   in if flt (lit (1/20)) (fabs (fsub (float_or fl (get_in r [''rr_actual''] []) (Fin 0)) expected))
                      then [plain_issue ''warning'' ''rr'' ''rr_recalculation_mismatch'' t] else []
          | _ \<Rightarrow> []))"

record verification =
  vf_status :: string
  vf_confidence :: string
  vf_row_count :: nat
  vf_issues :: "issue list"
  vf_counts :: "(string, nat) dict"
  vf_missing_inputs :: nat

definition verify_report ::
  "(string \<Rightarrow> pyfloat res) \<Rightarrow> csv_row list \<Rightarrow> csv_row list \<Rightarrow> reporting_config \<Rightarrow> issue list \<Rightarrow> string list \<Rightarrow> verification" where
  "verify_report fl raw_rows normalized_rows c timestamp_issues input_warnings =
     (let issues = timestamp_issues @ validate_trade_rows c raw_rows
            @ map (\<lambda>w. \<lparr>is_severity = ''info'', is_category = ''input'', is_code = w, is_trade = None, is_fields = []\<rparr>) input_warnings
            @ concat (map (\<lambda>(i, r). verify_row fl c i r) (enumerate 1 normalized_rows));
          worst = fold (\<lambda>i m. max m (severity_rank (is_severity i))) issues 0;
          status = (if worst \<ge> 2 then ''FAILED'' else if issues \<noteq> [] then ''WARNING'' else ''PASSED'');
          counts = fold (count_up \<circ> is_code) issues []
      in \<lparr>vf_status = status,
          vf_confidence = (if status = ''FAILED'' then ''LOW'' else if status = ''WARNING'' then ''MEDIUM'' else ''HIGH''),
          vf_row_count = length raw_rows, vf_issues = issues, vf_counts = counts,
          vf_missing_inputs = length (filter (\<lambda>(code, _). has_prefix (rev ''_missing_skipped'') (rev code)) counts)\<rparr>)"

subsection \<open>The report\<close>

text \<open>\<open>_entry_utc\<close> and \<open>_filter_period\<close>: a row without an entry time is kept.\<close>

definition entry_utc :: "timelib \<Rightarrow> csv_row \<Rightarrow> datetime option res" where
  "entry_utc tm r = (let v = get_in r [''entry_time_utc_normalized''] [] in if v = [] then Ok None else rmap Some (tl_fromiso tm (zulu v)))"

fun filter_period :: "timelib \<Rightarrow> datetime \<Rightarrow> datetime \<Rightarrow> csv_row list \<Rightarrow> csv_row list res" where
  "filter_period tm start stop [] = Ok []"
| "filter_period tm start stop (r # rs) =
     rbind (entry_utc tm r) (\<lambda>entry.
     rbind (case entry of None \<Rightarrow> Ok True
            | Some d \<Rightarrow> rbind (dt_le start d) (\<lambda>a. if a then dt_lt d stop else Ok False)) (\<lambda>keep.
     rmap (\<lambda>kept. if keep then r # kept else kept) (filter_period tm start stop rs)))"

definition review_time :: "timelib \<Rightarrow> string \<Rightarrow> datetime option res" where
  "review_time tm v = (if v = [] then Ok None else rmap Some (tl_fromiso tm (zulu v)))"

definition candle_fields :: "timelib \<Rightarrow> string \<Rightarrow> datetime option \<Rightarrow> csv_row" where
  "candle_fields tm side d =
     map (\<lambda>(m, s). (side @ ''_m'' @ int_str m @ ''_candle'', s)) (map_time_to_candles (tl_iso tm) d)"

definition review_row :: "timelib \<Rightarrow> csv_row \<Rightarrow> csv_row res" where
  "review_row tm r =
     (let g = (\<lambda>ks. get_in r ks []) in
      rbind (review_time tm (g [''entry_time_display''])) (\<lambda>entry. rbind (review_time tm (g [''exit_time_display''])) (\<lambda>exit.
      Ok ([(''trade_id'', g [''trade_id'']), (''symbol'', g [''symbol'']), (''direction'', g [''direction'']),
           (''entry_time_utc'', g [''entry_time_utc_normalized'']), (''entry_time_broker'', g [''entry_time_broker_normalized'']),
           (''entry_time_display'', g [''entry_time_display'']), (''exit_time_utc'', g [''exit_time_utc_normalized'']),
           (''exit_time_broker'', g [''exit_time_broker_normalized'']), (''exit_time_display'', g [''exit_time_display''])]
          @ candle_fields tm ''entry'' entry @ candle_fields tm ''exit'' exit
          @ [(''entry_price'', g [''entry_price'', ''entry'']), (''exit_price'', g [''exit_price'', ''exit'']),
             (''stop_loss'', g [''stop_loss'', ''stop'']), (''take_profit'', g [''take_profit'', ''target_1'', ''tp1'']),
             (''strategy_setup'', g [''strategy_setup'']), (''session'', g [''session'']), (''timeframe'', g [''timeframe'']),
             (''result'', g [''result'']), (''pnl'', g [''pnl'']), (''rr_actual'', g [''rr_actual'']),
             (''review_status'', ''pending_manual_review''), (''review_notes'', [])]))))"

fun each_row :: "('a \<Rightarrow> 'b res) \<Rightarrow> 'a list \<Rightarrow> 'b list res" where
  "each_row f [] = Ok []"
| "each_row f (x # xs) = rbind (f x) (\<lambda>y. rmap ((#) y) (each_row f xs))"

definition build_manual_chart_review :: "timelib \<Rightarrow> csv_row list \<Rightarrow> csv_row list res" where
  "build_manual_chart_review tm rows = each_row (review_row tm) rows"

text \<open>The report of a period, from the rows of the trade log and of the equity curve to what is written out.\<close>

record weekly_report =
  wr_rows :: "csv_row list"
  wr_metrics :: metrics
  wr_verification :: verification
  wr_review :: "csv_row list"

definition run_weekly_report ::
  "timelib \<Rightarrow> (string \<Rightarrow> pyfloat res) \<Rightarrow> reporting_config \<Rightarrow> datetime \<Rightarrow> datetime \<Rightarrow> csv_row list \<Rightarrow> csv_row list \<Rightarrow> string list
     \<Rightarrow> weekly_report option res" where
  "run_weekly_report tm fl c start stop trades equity input_warnings =
     (if \<not> rc_enabled c then Ok None
      else rbind (each_row (normalize_trade_timestamps tm c) trades) (\<lambda>normalized.
           rbind (filter_period tm start stop (map fst normalized)) (\<lambda>rows.
           let m = calculate_metrics fl (rc_minimum_planned_rr c) rows equity;
               v = verify_report fl trades rows c (concat (map snd normalized)) input_warnings
           in rmap (\<lambda>review. Some \<lparr>wr_rows = rows, wr_metrics = m, wr_verification = v, wr_review = review\<rparr>)
                (build_manual_chart_review tm rows))))"

subsection \<open>The narrative\<close>

text \<open>A reply is the parsed JSON; \<open>ExternalError\<close> stands for the connection errors. \<open>gemini_text\<close> is the chain of \<open>get\<close>s.\<close>

definition dict_get_or :: "pyval \<Rightarrow> string \<Rightarrow> pyval \<Rightarrow> pyval res" where
  "dict_get_or v k d = (case v of PDict kvs \<Rightarrow> Ok (case map_of kvs k of Some x \<Rightarrow> x | None \<Rightarrow> d) | _ \<Rightarrow> Raise AttributeError)"

fun first_item :: "pyval \<Rightarrow> pyval res" where
  "first_item (PList []) = Raise IndexError"
| "first_item (PList (x # xs)) = Ok x"
| "first_item (PStr []) = Raise IndexError"
| "first_item (PStr (c # s)) = Ok (PStr [c])"
| "first_item (PDict d) = Raise KeyError"
| "first_item _ = Raise TypeError"

definition gemini_text :: "pyval \<Rightarrow> pyval res" where
  "gemini_text response =
     rbind (dict_get_or response ''candidates'' (PList [PDict []])) (\<lambda>candidates. rbind (first_item candidates) (\<lambda>candidate.
     rbind (dict_get_or candidate ''content'' (PDict [])) (\<lambda>content. rbind (dict_get_or content ''parts'' (PList [PDict []])) (\<lambda>parts.
     rbind (first_item parts) (\<lambda>part. dict_get_or part ''text'' (PStr []))))))"

record generation =
  gn_success :: bool
  gn_text :: pyval
  gn_error :: string

text \<open>The loop over the attempts \<open>k, k + 1, ...\<close>, \<open>left\<close> of them after this one. The log is the pauses taken, in seconds.
  \<open>caught\<close> gives the message of the exceptions the code catches.\<close>

fun caught :: "py_exn \<Rightarrow> string option" where
  "caught (ExternalError m) = Some m"
| "caught (ValueError m) = Some m"
| "caught KeyError = Some ''KeyError''"
| "caught _ = None"

fun attempts :: "(nat \<Rightarrow> pyval res) \<Rightarrow> nat \<Rightarrow> nat \<Rightarrow> generation res \<times> nat list" where
  "attempts transport k left =
     (case rbind (transport k) gemini_text of
        Inr v \<Rightarrow>
          if py_truthy v then (Ok \<lparr>gn_success = True, gn_text = v, gn_error = []\<rparr>, [])
          else (case left of
                  0 \<Rightarrow> (Ok \<lparr>gn_success = False, gn_text = PStr [], gn_error = ''empty_gemini_response''\<rparr>, [])
                | Suc n \<Rightarrow> let (r, pauses) = attempts transport (k + 1) n in (r, min (2 ^ k) 5 # pauses))
      | Inl e \<Rightarrow>
          (case caught e of
             None \<Rightarrow> (Raise e, [])
           | Some m \<Rightarrow>
               (case left of
                  0 \<Rightarrow> (Ok \<lparr>gn_success = False, gn_text = PStr [], gn_error = (if m = [] then ''gemini_request_failed'' else m)\<rparr>, [])
                | Suc n \<Rightarrow> let (r, pauses) = attempts transport (k + 1) n in (r, min (2 ^ k) 5 # pauses))))"

definition gemini_generate :: "string \<Rightarrow> int \<Rightarrow> (nat \<Rightarrow> pyval res) \<Rightarrow> generation res \<times> nat list" where
  "gemini_generate api_key max_retries transport =
     (if api_key = [] then (Ok \<lparr>gn_success = False, gn_text = PStr [], gn_error = ''missing_gemini_api_key''\<rparr>, [])
      else if max_retries < 0 then (Ok \<lparr>gn_success = False, gn_text = PStr [], gn_error = ''gemini_request_failed''\<rparr>, [])
      else attempts transport 0 (nat max_retries))"

definition fallback_summary :: string where
  "fallback_summary = ''AI summary unavailable. The deterministic metrics and verification files were generated successfully; ''
     @ ''review those files for the verified trading numbers.''"

definition write_ai_summary :: "reporting_config \<Rightarrow> (nat \<Rightarrow> pyval res) \<Rightarrow> (pyval \<times> bool \<times> bool \<times> string) res" where
  "write_ai_summary c transport =
     (if \<not> rc_ai_enabled c then Ok (PStr fallback_summary, False, False, ''ai_disabled'')
      else if py_lower (rc_ai_provider c) \<noteq> ''gemini'' then Ok (PStr fallback_summary, True, False, ''unsupported_ai_provider'')
      else rmap (\<lambda>g. if gn_success g then (gn_text g, True, True, []) else (PStr fallback_summary, True, False, gn_error g))
             (fst (gemini_generate (rc_gemini_api_key c) (rc_ai_max_retries c) transport)))"

subsection \<open>Delivery\<close>

definition float_to_int :: "pyfloat \<Rightarrow> int res" where
  "float_to_int x = (case x of Fin q \<Rightarrow> Ok (if q < 0 then - \<lfloor>- q\<rfloor> else \<lfloor>q\<rfloor>)
     | NaN \<Rightarrow> Raise (ValueError ''cannot convert float NaN to integer'') | _ \<Rightarrow> Raise OverflowError)"

text \<open>A written file: its key, its name and its size, \<open>None\<close> when it does not exist. \<open>say\<close> and \<open>send\<close> are the client; a failure
  carries the text of its error.\<close>

record report_file =
  rf_key :: string
  rf_name :: string
  rf_size :: "int option"

record delivery =
  dl_enabled :: bool
  dl_success :: bool
  dl_sent :: "string list"
  dl_errors :: "string list"

definition sendable :: "string list" where
  "sendable = [''markdown'', ''html'', ''metrics'', ''verification'', ''manual_chart_review'', ''trade_summary'']"

definition send_file :: "(report_file \<Rightarrow> string option) \<Rightarrow> int \<Rightarrow> report_file list \<Rightarrow> string \<Rightarrow> string list \<times> string list \<Rightarrow> string list \<times> string list" where
  "send_file send max_bytes files key = (\<lambda>(sent, errors).
     case find (\<lambda>f. rf_key f = key) files of
       None \<Rightarrow> (sent, errors)
     | Some f \<Rightarrow>
         (case rf_size f of
            None \<Rightarrow> (sent, errors)
          | Some n \<Rightarrow>
              if n > max_bytes then (sent, errors @ [''file_too_large:'' @ rf_name f])
              else case send f of None \<Rightarrow> (sent @ [rf_name f], errors)
                   | Some e \<Rightarrow> (sent, errors @ [''file_send_failed:'' @ rf_name f @ '':'' @ e])))"

definition send_weekly_report ::
  "(string \<Rightarrow> string option) \<Rightarrow> (report_file \<Rightarrow> string option) \<Rightarrow> string \<Rightarrow> report_file list \<Rightarrow> string \<Rightarrow> reporting_config \<Rightarrow> delivery res" where
  "send_weekly_report say send period files summary c =
     (if \<not> rc_telegram_enabled c then Ok \<lparr>dl_enabled = False, dl_success = False, dl_sent = [], dl_errors = [''telegram_disabled'']\<rparr>
      else if rc_bot_token c = [] \<or> rc_chat_id c = []
      then Ok \<lparr>dl_enabled = True, dl_success = False, dl_sent = [], dl_errors = [''telegram_credentials_missing'']\<rparr>
      else
        let errors = (if rc_send_summary c
                      then (case say (''Weekly trading report '' @ period @ [CHR 0x0A, CHR 0x0A] @ take 3500 summary) of
                              None \<Rightarrow> [] | Some e \<Rightarrow> [''summary_send_failed:'' @ e])
                      else [])
        in rmap (\<lambda>(sent, errs). \<lparr>dl_enabled = True, dl_success = (errs = []), dl_sent = sent, dl_errors = errs\<rparr>)
             (if rc_send_files c
              then rmap (\<lambda>max_bytes. fold (send_file send max_bytes files) sendable ([], errors))
                     (float_to_int (fmul (fmul (rc_max_file_size_mb c) (Fin 1024)) (Fin 1024)))
              else Ok ([], errors)))"

subsection \<open>What the checks say\<close>

lemma fold_worst: "(2::nat) \<le> fold (\<lambda>i m. max m (severity_rank (is_severity i))) xs m \<longleftrightarrow> 2 \<le> m \<or> (\<exists>i\<in>set xs. 2 \<le> severity_rank (is_severity i))"
  by (induction xs arbitrary: m) auto

lemma severity_serious: "2 \<le> severity_rank s \<longleftrightarrow> s = ''high'' \<or> s = ''critical''"
  by (simp add: severity_rank_def)

text \<open>A report fails exactly when some issue is high or critical and passes exactly when there is none; its confidence follows,
  and the counts by code add up to the issues.\<close>

theorem report_status_reflects_issues:
  "let v = verify_report fl raw rows c timestamp_issues warnings in
     (vf_status v = ''FAILED'' \<longleftrightarrow> (\<exists>i\<in>set (vf_issues v). is_severity i = ''high'' \<or> is_severity i = ''critical''))
     \<and> (vf_status v = ''PASSED'' \<longleftrightarrow> vf_issues v = [])
     \<and> (vf_confidence v = ''HIGH'' \<longleftrightarrow> vf_issues v = []) \<and> (vf_confidence v = ''LOW'' \<longleftrightarrow> vf_status v = ''FAILED'')
     \<and> total (vf_counts v) = length (vf_issues v)"
proof -
  obtain v where v: "verify_report fl raw rows c timestamp_issues warnings = v" by simp
  let ?worst = "fold (\<lambda>i m. max m (severity_rank (is_severity i))) (vf_issues v) 0"
  have s: "vf_status v = (if ?worst \<ge> 2 then ''FAILED'' else if vf_issues v \<noteq> [] then ''WARNING'' else ''PASSED'')"
    and n: "vf_confidence v = (if vf_status v = ''FAILED'' then ''LOW'' else if vf_status v = ''WARNING'' then ''MEDIUM'' else ''HIGH'')"
    and t: "vf_counts v = fold (count_up \<circ> is_code) (vf_issues v) []"
    by (simp_all add: v [symmetric] verify_report_def Let_def)
  have w: "2 \<le> ?worst \<longleftrightarrow> (\<exists>i\<in>set (vf_issues v). is_severity i = ''high'' \<or> is_severity i = ''critical'')"
    by (simp add: fold_worst severity_serious)
  have c: "total (vf_counts v) = length (vf_issues v)" unfolding t by (subst count_up_all) (simp_all add: total_def)
  have a: "vf_status v = ''FAILED'' \<longleftrightarrow> 2 \<le> ?worst" "vf_status v = ''PASSED'' \<longleftrightarrow> vf_issues v = []"
    "vf_confidence v = ''HIGH'' \<longleftrightarrow> vf_issues v = []" "vf_confidence v = ''LOW'' \<longleftrightarrow> vf_status v = ''FAILED''"
    using s n by (auto split: if_splits)
  show ?thesis using a c unfolding v Let_def w by blast
qed

lemma duplicate_from:
  "list_ex (\<lambda>i. is_code i = ''duplicate_trade_id'') (validate_from c i seen rs)
     \<longleftrightarrow> (\<exists>k<length rs. trade_id_of (i + k) (rs ! k) \<in> set seen
           \<or> (\<exists>j<k. trade_id_of (i + j) (rs ! j) = trade_id_of (i + k) (rs ! k)))"
proof (induction rs arbitrary: i seen)
  case (Cons r rs)
  let ?t = "trade_id_of i r"
  let ?id = "\<lambda>k. trade_id_of (i + k) ((r # rs) ! k)"
  have m: "\<not> list_ex (\<lambda>i. is_code i = ''duplicate_trade_id'') (missing_fields ?t r)"
    by (auto simp: missing_fields_def plain_issue_def list_ex_iff)
  have s: "\<not> list_ex (\<lambda>i. is_code i = ''duplicate_trade_id'') (symbol_issue c ?t r)"
    by (simp add: symbol_issue_def plain_issue_def Let_def)
  have "list_ex (\<lambda>i. is_code i = ''duplicate_trade_id'') (validate_from c i seen (r # rs))
     \<longleftrightarrow> ?t \<in> set seen \<or> (\<exists>k<length rs. trade_id_of (i + 1 + k) (rs ! k) \<in> set (?t # seen)
           \<or> (\<exists>j<k. trade_id_of (i + 1 + j) (rs ! j) = trade_id_of (i + 1 + k) (rs ! k)))"
    using m s Cons.IH [of "i + 1" "?t # seen"] by (simp add: Let_def plain_issue_def)
  also have "\<dots> \<longleftrightarrow> ?id 0 \<in> set seen \<or> (\<exists>k<length rs. ?id (Suc k) \<in> set seen \<or> ?id 0 = ?id (Suc k) \<or> (\<exists>j<k. ?id (Suc j) = ?id (Suc k)))"
    by (auto simp: eq_commute)
  also have "\<dots> \<longleftrightarrow> (\<exists>k<length (r # rs). ?id k \<in> set seen \<or> (\<exists>j<k. ?id j = ?id k))"
    by (simp only: Ex_less_Suc2 length_Cons) simp
  finally show ?case .
qed simp

lemma pair_below: "(\<exists>k<(n::nat). \<exists>j<k. f j = f k) \<longleftrightarrow> (\<exists>i<n. \<exists>j<n. i \<noteq> j \<and> f i = f j)"
proof
  assume "\<exists>i<n. \<exists>j<n. i \<noteq> j \<and> f i = f j"
  then obtain i j where "i < n" "j < n" "i < j \<or> j < i" "f i = f j" by (auto simp: nat_neq_iff)
  then show "\<exists>k<n. \<exists>j<k. f j = f k" by metis
next
  assume "\<exists>k<n. \<exists>j<k. f j = f k"
  then obtain k j where "k < n" "j < k" "f j = f k" by blast
  then have "j < n" "k < n" "j \<noteq> k" "f j = f k" by auto
  then show "\<exists>i<n. \<exists>j<n. i \<noteq> j \<and> f i = f j" by blast
qed

definition trade_ids :: "csv_row list \<Rightarrow> string list" where
  "trade_ids rows = map (\<lambda>(i, r). trade_id_of i r) (enumerate 1 rows)"

text \<open>The check reports a duplicate identifier exactly when two rows of the log share one.\<close>

theorem duplicates_found:
  "list_ex (\<lambda>i. is_code i = ''duplicate_trade_id'') (validate_trade_rows c rows) \<longleftrightarrow> \<not> distinct (trade_ids rows)"
proof -
  have "list_ex (\<lambda>i. is_code i = ''duplicate_trade_id'') (validate_trade_rows c rows)
     \<longleftrightarrow> (\<exists>k<length rows. \<exists>j<k. trade_id_of (1 + j) (rows ! j) = trade_id_of (1 + k) (rows ! k))"
    unfolding validate_trade_rows_def duplicate_from by simp
  also have "\<dots> \<longleftrightarrow> \<not> distinct (trade_ids rows)"
    unfolding pair_below distinct_conv_nth trade_ids_def by (auto simp: nth_enumerate_eq)
  finally show ?thesis .
qed

text \<open>The rows a report counts are, in order, those with no entry time or with one in the period.\<close>

theorem report_covers_period:
  assumes "filter_period tm start stop rows = Ok kept"
  shows "kept = filter (\<lambda>r. case entry_utc tm r of Inr (Some d) \<Rightarrow> dt_instant start \<le> dt_instant d \<and> dt_instant d < dt_instant stop | _ \<Rightarrow> True) rows
    \<and> (\<forall>r\<in>set rows. \<exists>d. entry_utc tm r = Ok d)"
  using assms
proof (induction rows arbitrary: kept)
  case (Cons r rows)
  from Cons.prems obtain entry keep kept' where e: "entry_utc tm r = Ok entry"
    and k: "(case entry of None \<Rightarrow> Ok True | Some d \<Rightarrow> rbind (dt_le start d) (\<lambda>a. if a then dt_lt d stop else Ok False)) = Ok keep"
    and f: "filter_period tm start stop rows = Ok kept'" "kept = (if keep then r # kept' else kept')"
    by (auto elim!: rbind_InrE simp: rmap_Inr_iff)
  have "keep \<longleftrightarrow> (case entry of Some d \<Rightarrow> dt_instant start \<le> dt_instant d \<and> dt_instant d < dt_instant stop | None \<Rightarrow> True)"
    using k by (auto simp: dt_le_def dt_lt_def split: option.splits if_splits)
  with Cons.IH [OF f(1)] f(2) e show ?case by (auto split: option.splits)
qed simp

lemma attempts_bound: "length (snd (attempts t k n)) \<le> n \<and> (\<forall>p\<in>set (snd (attempts t k n)). p \<le> 5)"
proof (induction n arbitrary: k)
  case 0
  show ?case by (subst attempts.simps) (auto split: sum.split option.split)
next
  case (Suc n)
  show ?case using Suc.IH [of "k + 1"] by (subst attempts.simps) (auto simp: split_beta Let_def split: sum.split option.split)
qed

lemma attempts_text: "fst (attempts t k n) = Ok g \<Longrightarrow> gn_success g \<Longrightarrow> \<exists>j\<in>{k..k + n}. rbind (t j) gemini_text = Ok (gn_text g) \<and> py_truthy (gn_text g)"
proof (induction n arbitrary: k)
  case 0
  then show ?case by (subst (asm) attempts.simps) (auto split: sum.splits option.splits if_splits)
next
  case (Suc n)
  from Suc.prems have "rbind (t k) gemini_text = Ok (gn_text g) \<and> py_truthy (gn_text g) \<or> fst (attempts t (k + 1) n) = Ok g"
    by (subst (asm) attempts.simps) (auto simp: split_beta Let_def split: sum.splits option.splits if_splits)
  with Suc.IH [of "k + 1"] Suc.prems(2) show ?case by force
qed

text \<open>The narrative is tried at most once more than the configured retries, with pauses of at most five seconds; a text
  comes back only from a reply that had one.\<close>

theorem narrative_bounded:
  "let (r, pauses) = gemini_generate key retries transport in
     length pauses \<le> nat retries \<and> (\<forall>p\<in>set pauses. p \<le> 5)
     \<and> (\<forall>g. r = Ok g \<and> gn_success g \<longrightarrow> (\<exists>j\<le>nat retries. rbind (transport j) gemini_text = Ok (gn_text g)))"
proof -
  let ?a = "attempts transport 0 (nat retries)"
  have "\<forall>g. fst ?a = Ok g \<and> gn_success g \<longrightarrow> (\<exists>j\<le>nat retries. rbind (transport j) gemini_text = Ok (gn_text g))"
    using attempts_text [of transport 0 "nat retries"] by fastforce
  with attempts_bound [of transport 0 "nat retries"] show ?thesis
    by (cases ?a) (auto simp: gemini_generate_def)
qed

text \<open>A reply with an empty list of candidates raises \<open>IndexError\<close>, which the client does not catch: the report is lost
  instead of falling back.\<close>

lemma empty_candidates_abort:
  assumes "rc_ai_enabled c" "py_lower (rc_ai_provider c) = ''gemini''" "rc_gemini_api_key c \<noteq> []" "0 \<le> rc_ai_max_retries c"
    and "transport 0 = Ok (PDict [(''candidates'', PList [])])"
  shows "write_ai_summary c transport = Raise IndexError"
proof -
  have "gemini_text (PDict [(''candidates'', PList [])]) = Raise IndexError" by (simp add: gemini_text_def dict_get_or_def)
  with assms(5) have "attempts transport 0 n = (Raise IndexError, [])" for n by (subst attempts.simps) simp
  with assms show ?thesis by (simp add: write_ai_summary_def gemini_generate_def)
qed

lemma send_files_inv:
  assumes "\<forall>n\<in>set sent. \<exists>f\<in>set files. rf_name f = n \<and> (\<exists>s. rf_size f = Some s \<and> s \<le> max_bytes) \<and> send f = None"
    and "fold (send_file send max_bytes files) keys (sent, errors) = (sent', errors')"
  shows "\<forall>n\<in>set sent'. \<exists>f\<in>set files. rf_name f = n \<and> (\<exists>s. rf_size f = Some s \<and> s \<le> max_bytes) \<and> send f = None"
  using assms
proof (induction keys arbitrary: sent errors)
  case (Cons key keys)
  obtain s1 e1 where s: "send_file send max_bytes files key (sent, errors) = (s1, e1)" by fastforce
  have f: "find (\<lambda>f. rf_key f = key) files = Some f \<Longrightarrow> f \<in> set files" for f by (auto simp: find_Some_iff)
  have "\<forall>n\<in>set s1. \<exists>f\<in>set files. rf_name f = n \<and> (\<exists>s. rf_size f = Some s \<and> s \<le> max_bytes) \<and> send f = None"
    using s Cons.prems(1) f by (fastforce simp: send_file_def split: option.splits if_splits)
  with Cons s show ?case by simp
qed simp

text \<open>A delivery sends only files that exist and fit the limit, nothing at all when it is disabled or has no credentials, and
  is a success exactly when it has no error to report.\<close>

theorem delivery_is_safe:
  assumes "send_weekly_report say send period files summary c = Ok d"
  shows "(\<forall>n\<in>set (dl_sent d). \<exists>f\<in>set files. rf_name f = n \<and> send f = None
           \<and> (\<exists>s m. rf_size f = Some s \<and> float_to_int (fmul (fmul (rc_max_file_size_mb c) (Fin 1024)) (Fin 1024)) = Ok m \<and> s \<le> m))
    \<and> (\<not> rc_telegram_enabled c \<or> rc_bot_token c = [] \<or> rc_chat_id c = [] \<or> \<not> rc_send_files c \<longrightarrow> dl_sent d = [])
    \<and> (dl_success d \<longleftrightarrow> dl_errors d = [])"
proof (cases "rc_telegram_enabled c \<and> rc_bot_token c \<noteq> [] \<and> rc_chat_id c \<noteq> []")
  case False
  with assms show ?thesis by (auto simp: send_weekly_report_def split: if_splits)
next
  case on: True
  let ?e = "if rc_send_summary c then (case say (''Weekly trading report '' @ period @ [CHR 0x0A, CHR 0x0A] @ take 3500 summary) of
              None \<Rightarrow> [] | Some e \<Rightarrow> [''summary_send_failed:'' @ e]) else []"
  show ?thesis
  proof (cases "rc_send_files c")
    case False
    with assms on show ?thesis by (auto simp: send_weekly_report_def Let_def)
  next
    case True
    with assms on obtain m sent errs where m: "float_to_int (fmul (fmul (rc_max_file_size_mb c) (Fin 1024)) (Fin 1024)) = Ok m"
      and f: "(sent, errs) = fold (send_file send m files) sendable ([], ?e)"
      and d: "d = \<lparr>dl_enabled = True, dl_success = (errs = []), dl_sent = sent, dl_errors = errs\<rparr>"
      by (auto simp: send_weekly_report_def Let_def rmap_Inr_iff)
    have "\<forall>n\<in>set sent. \<exists>f\<in>set files. rf_name f = n \<and> (\<exists>s. rf_size f = Some s \<and> s \<le> m) \<and> send f = None"
      by (rule send_files_inv [OF _ f [symmetric]]) simp
    with d m on True show ?thesis by fastforce
  qed
qed

subsection \<open>Instances\<close>

definition demo_timelib :: timelib where
  "demo_timelib = \<lparr>tl_fromiso = \<lambda>s. if s = ''five'' then Ok (aware_utc 5) else if s = ''late'' then Ok (aware_utc 50) else Raise (ValueError s),
     tl_strptime = \<lambda>f s. Raise (ValueError s), tl_iso = \<lambda>d. ''iso'', tl_zone = \<lambda>z. Raise KeyError, tl_two_decimals = \<lambda>x. ''0.00''\<rparr>"

theorem report_covers_period_witness:
  "let r = [(''entry_time_utc_normalized'', ''five'')]; late = [(''entry_time_utc_normalized'', ''late'')] in
     filter_period demo_timelib (aware_utc 0) (aware_utc 10) [r, late, []] = Ok [r, []]
     \<and> [r, []] = filter (\<lambda>r. case entry_utc demo_timelib r of Inr (Some d) \<Rightarrow> dt_instant (aware_utc 0) \<le> dt_instant d \<and> dt_instant d < dt_instant (aware_utc 10)
           | _ \<Rightarrow> True) [r, late, []]"
proof -
  let ?r = "[(''entry_time_utc_normalized'', ''five'')]" let ?late = "[(''entry_time_utc_normalized'', ''late'')]"
  have f: "filter_period demo_timelib (aware_utc 0) (aware_utc 10) [?r, ?late, []] = Ok [?r, []]"
    by (simp add: entry_utc_def demo_timelib_def zulu_def dt_le_def dt_lt_def dt_instant_def dt_comparable_def aware_utc_def)
  from f report_covers_period [OF f, THEN conjunct1] show ?thesis unfolding Let_def by (rule conjI)
qed

theorem narrative_bounded_witness:
  "\<exists>g. fst (gemini_generate ''key'' 2 (\<lambda>k. if k = 0 then Raise (ExternalError ''down'') else
      Ok (PDict [(''candidates'', PList [PDict [(''content'', PDict [(''parts'', PList [PDict [(''text'', PStr ''up'')]])])]])]))) = Ok g
     \<and> gn_success g \<and> (\<exists>j\<le>(2::nat). rbind (if j = 0 then Raise (ExternalError ''down'') else
      Ok (PDict [(''candidates'', PList [PDict [(''content'', PDict [(''parts'', PList [PDict [(''text'', PStr ''up'')]])])]])])) gemini_text = Ok (gn_text g))"
proof -
  let ?reply = "PDict [(''candidates'', PList [PDict [(''content'', PDict [(''parts'', PList [PDict [(''text'', PStr ''up'')]])])]])]"
  let ?t = "\<lambda>k::nat. if k = 0 then Raise (ExternalError ''down'') else Ok ?reply"
  have reads: "gemini_text ?reply = Ok (PStr ''up'')" by (simp add: gemini_text_def dict_get_or_def)
  have one: "attempts ?t 1 1 = (Ok \<lparr>gn_success = True, gn_text = PStr ''up'', gn_error = []\<rparr>, [])"
    by (subst attempts.simps) (simp add: reads)
  have two: "attempts ?t 0 (Suc 1) = (Ok \<lparr>gn_success = True, gn_text = PStr ''up'', gn_error = []\<rparr>, [1])"
    by (subst attempts.simps) (use one in simp)
  have g: "gemini_generate ''key'' 2 ?t = (Ok \<lparr>gn_success = True, gn_text = PStr ''up'', gn_error = []\<rparr>, [1])"
    using two by (simp add: gemini_generate_def numeral_2_eq_2)
  have "\<exists>j\<le>nat 2. rbind (?t j) gemini_text = Ok (PStr ''up'')" using narrative_bounded [of "''key''" 2 ?t] unfolding g by simp
  with g show ?thesis by simp
qed

theorem delivery_is_safe_witness:
  "let c = (config_from_env (\<lambda>_. Ok 0) (\<lambda>_. Ok (Fin 0)) None [] [])\<lparr>rc_telegram_enabled := True, rc_bot_token := ''t'', rc_chat_id := ''c'',
         rc_send_summary := False, rc_send_files := True, rc_max_file_size_mb := Fin 1\<rparr>;
       f = \<lparr>rf_key = ''html'', rf_name = ''report.html'', rf_size = Some 1048576\<rparr>;
       g = \<lparr>rf_key = ''metrics'', rf_name = ''metrics.json'', rf_size = Some 1048577\<rparr>
   in \<exists>d. send_weekly_report (\<lambda>_. None) (\<lambda>_. None) ''W1'' [f, g] [] c = Ok d \<and> dl_sent d = [''report.html'']
        \<and> dl_errors d = [''file_too_large:metrics.json''] \<and> \<not> dl_success d"
proof -
  let ?c = "(config_from_env (\<lambda>_. Ok 0) (\<lambda>_. Ok (Fin 0)) None [] [])\<lparr>rc_telegram_enabled := True, rc_bot_token := ''t'', rc_chat_id := ''c'',
         rc_send_summary := False, rc_send_files := True, rc_max_file_size_mb := Fin 1\<rparr>"
  let ?f = "\<lparr>rf_key = ''html'', rf_name = ''report.html'', rf_size = Some 1048576\<rparr>"
  let ?g = "\<lparr>rf_key = ''metrics'', rf_name = ''metrics.json'', rf_size = Some 1048577\<rparr>"
  obtain d where d: "send_weekly_report (\<lambda>_. None) (\<lambda>_. None) ''W1'' [?f, ?g] [] ?c = Ok d" "dl_sent d = [''report.html'']"
      "dl_errors d = [''file_too_large:metrics.json'']"
    by (simp add: send_weekly_report_def sendable_def send_file_def float_to_int_def feval)
  from delivery_is_safe [OF d(1)] d(3) have "\<not> dl_success d" by simp
  with d show ?thesis by (simp add: Let_def)
qed

end
