(* ===== verification/Telemetry.thy ===== *)
theory Telemetry
  imports Selector TradeProtection
begin

section \<open>Runtime telemetry (src/infrastructure/telemetry)\<close>

text \<open>
  \<open>runtime_event_log.py\<close>, \<open>telegram_reporting.py\<close> and \<open>monitoring_metrics.py\<close>. A log file is its list of lines; \<open>dumps\<close> and
  \<open>loads\<close> write and parse JSON (\<open>None\<close> on text that is not JSON), \<open>isoformat\<close> and \<open>fromiso\<close> write and read times. Paths
  are POSIX texts. The text channel to Telegram is an argument.
\<close>

subsection \<open>Masking\<close>

definition looks_secret :: "string \<Rightarrow> bool" where
  "looks_secret k = list_ex (\<lambda>m. has_sub m (py_lower k)) [''password'', ''token'', ''secret'', ''key'']"

definition utc_of :: "datetime \<Rightarrow> datetime" where
  "utc_of d = aware_utc (dt_instant d)"

text \<open>Paths, sets, tuples and enum members are not among the values modelled.\<close>

fun json_safe :: "(datetime \<Rightarrow> string) \<Rightarrow> pyval \<Rightarrow> pyval"
and safe_list :: "(datetime \<Rightarrow> string) \<Rightarrow> pyval list \<Rightarrow> pyval list"
and sanitize_payload :: "(datetime \<Rightarrow> string) \<Rightarrow> pydict \<Rightarrow> pydict" where
  "json_safe w (PDt d) = PStr (w (if dt_off d = None then d else utc_of d))"
| "json_safe w (PList xs) = PList (safe_list w xs)"
| "json_safe w (PDict kvs) = PDict (sanitize_payload w kvs)"
| "json_safe w v = v"
| "safe_list w [] = []"
| "safe_list w (x # xs) = json_safe w x # safe_list w xs"
| "sanitize_payload w [] = []"
| "sanitize_payload w ((k, v) # kvs) = (k, if looks_secret k then PStr ''***'' else json_safe w v) # sanitize_payload w kvs"

subsection \<open>The event log\<close>

record runtime_event =
  re_timestamp :: datetime
  re_type :: string
  re_severity :: string
  re_payload :: pydict

definition to_record :: "(datetime \<Rightarrow> string) \<Rightarrow> runtime_event \<Rightarrow> pyval" where
  "to_record w ev =
     PDict [(''timestamp_utc'', PStr (w (utc_of (re_timestamp ev)))), (''event_type'', PStr (re_type ev)),
            (''severity'', PStr (py_upper (re_severity ev))), (''payload'', PDict (sanitize_payload w (re_payload ev)))]"

definition log_append ::
  "(datetime \<Rightarrow> string) \<Rightarrow> (pyval \<Rightarrow> string) \<Rightarrow> datetime \<Rightarrow> string \<Rightarrow> string \<Rightarrow> pydict \<Rightarrow> string list \<Rightarrow> runtime_event \<times> string list" where
  "log_append w dumps now event_type severity payload file =
     (let ev = \<lparr>re_timestamp = now, re_type = event_type, re_severity = py_upper severity, re_payload = sanitize_payload w payload\<rparr>
      in (ev, file @ [dumps (to_record w ev)]))"

text \<open>A line that is not a record with a readable time is skipped; \<open>show\<close> is \<open>str\<close>. The times of the log are aware.\<close>

definition read_line ::
  "(string \<Rightarrow> pyval option) \<Rightarrow> (string \<Rightarrow> datetime res) \<Rightarrow> (pyval \<Rightarrow> string) \<Rightarrow> datetime \<Rightarrow> string \<Rightarrow> runtime_event option" where
  "read_line loads fromiso show since raw =
     (let line = py_strip raw
      in if line = [] then None
         else case loads line of
                None \<Rightarrow> None
              | Some v \<Rightarrow>
                  (case rbind (pitem v ''timestamp_utc'') (\<lambda>t. rbind (as_str t) fromiso) of
                     Inl _ \<Rightarrow> None
                   | Inr d \<Rightarrow>
                       (case v of
                          PDict r \<Rightarrow>
                            if dt_instant d < dt_instant since then None
                            else Some \<lparr>re_timestamp = utc_of d, re_type = py_str show (pget r ''event_type'' (PStr ''UNKNOWN'')),
                                       re_severity = py_upper (py_str show (pget r ''severity'' (PStr ''INFO''))),
                                       re_payload = (case pget r ''payload'' PNone of PDict p \<Rightarrow> p | _ \<Rightarrow> [])\<rparr>
                        | _ \<Rightarrow> None)))"

definition read_since ::
  "(string \<Rightarrow> pyval option) \<Rightarrow> (string \<Rightarrow> datetime res) \<Rightarrow> (pyval \<Rightarrow> string) \<Rightarrow> datetime \<Rightarrow> string list \<Rightarrow> runtime_event list" where
  "read_since loads fromiso show since file = List.map_filter (read_line loads fromiso show (utc_of since)) file"

subsection \<open>Messages\<close>

definition newline :: string where
  "newline = [CHR 0x0A]"

definition html_escape :: "string \<Rightarrow> string" where
  "html_escape s = concat (map (\<lambda>c. if c = CHR ''&'' then ''&amp;'' else if c = CHR ''<'' then ''&lt;'' else if c = CHR ''>'' then ''&gt;'' else [c]) s)"

definition format_compact_message :: "(pyval \<Rightarrow> string) \<Rightarrow> string \<Rightarrow> pydict \<Rightarrow> string \<Rightarrow> string" where
  "format_compact_message show title kvs severity =
     py_join newline ([''<b>'' @ html_escape title @ ''</b>'', ''Severity: '' @ html_escape (py_upper severity)]
       @ map (\<lambda>(k, v). html_escape k @ '': '' @ html_escape (py_str show v)) (filter (\<lambda>(k, v). \<not> looks_secret k \<and> v \<noteq> PNone) kvs))"

definition line_break :: "char \<Rightarrow> bool" where
  "line_break c = (let n = of_char c :: nat in 10 \<le> n \<and> n \<le> 13 \<or> 28 \<le> n \<and> n \<le> 30)"

text \<open>\<open>splitlines\<close>; \<open>cur\<close> is the line so far, reversed, \<open>cr\<close> that the last character was a carriage return.\<close>

fun lines_from :: "string \<Rightarrow> bool \<Rightarrow> string \<Rightarrow> string list" where
  "lines_from cur cr [] = (if cur = [] then [] else [rev cur])"
| "lines_from cur cr (c # s) =
     (if cr \<and> c = CHR 0x0A then lines_from cur False s
      else if line_break c then rev cur # lines_from [] (c = CHR 0x0D) s
      else lines_from (c # cur) False s)"

definition splitlines :: "string \<Rightarrow> string list" where
  "splitlines s = lines_from [] False s"

definition max_message :: nat where
  "max_message = 3900"

text \<open>The loop: the chunks so far, the lines of the current one and its length.\<close>

definition chunk_step :: "string \<Rightarrow> string list list \<times> string list \<times> nat \<Rightarrow> string list list \<times> string list \<times> nat" where
  "chunk_step line = (\<lambda>(chunks, current, n).
     let len = length line + 1
     in if current \<noteq> [] \<and> max_message < n + len then (chunks @ [current], [line], len) else (chunks, current @ [line], n + len))"

definition chunk_lines :: "string list \<Rightarrow> string list list" where
  "chunk_lines ls = (let (chunks, current, _) = fold chunk_step ls ([], [], 0) in if current = [] then chunks else chunks @ [current])"

definition split_telegram_message :: "string \<Rightarrow> string list" where
  "split_telegram_message s = (if length s \<le> max_message then [s] else map (py_join newline) (chunk_lines (splitlines s)))"

subsection \<open>The reporting service\<close>

record telegram_config =
  tc_enabled :: bool
  tc_bot_token :: "string option"
  tc_chat_id :: "string option"
  tc_parse_mode :: string
  tc_min_severity :: string
  tc_timeout :: pyfloat
  tc_event_log :: string
  tc_daily_report :: bool
  tc_lookback_hours :: int
  tc_timezone :: string
  tc_run_started :: bool
  tc_session_summary :: bool
  tc_qualified_signal :: bool
  tc_order_result :: bool
  tc_order_rejection :: bool

definition flag :: "string option \<Rightarrow> bool \<Rightarrow> bool" where
  "flag v dflt = (case v of None \<Rightarrow> dflt | Some s \<Rightarrow> py_lower (py_strip s) \<in> set [''1'', ''true'', ''yes'', ''y'', ''on''])"

definition empty_to_none :: "string option \<Rightarrow> string option" where
  "empty_to_none v = (case v of None \<Rightarrow> None
     | Some s \<Rightarrow> if py_strip s = [] \<or> has_prefix ''replace_with_'' (py_strip s) then None else Some (py_strip s))"

definition value_of :: "(string, string) dict \<Rightarrow> string \<Rightarrow> string \<Rightarrow> string" where
  "value_of d k v = (case map_of d k of None \<Rightarrow> v | Some s \<Rightarrow> s)"

definition telegram_config_from ::
  "(string \<Rightarrow> int res) \<Rightarrow> (string \<Rightarrow> pyfloat res) \<Rightarrow> string \<Rightarrow> (string, string) dict \<Rightarrow> telegram_config res" where
  "telegram_config_from it fl repo_root values =
     (let enabled = flag (map_of values ''APEX_TELEGRAM_ENABLED'') False;
          token = empty_to_none (map_of values ''APEX_TELEGRAM_BOT_TOKEN'');
          chat = empty_to_none (map_of values ''APEX_TELEGRAM_CHAT_ID'');
          log = value_of values ''APEX_REPORTING_EVENT_LOG'' ''.apex_runtime/notifications/telegram_events.jsonl''
      in if enabled \<and> (token = None \<or> chat = None)
         then Raise (RuntimeError ''Telegram reporting is enabled but bot token or chat id is missing.'')
         else rbind (fl (value_of values ''APEX_TELEGRAM_TIMEOUT_SECONDS'' ''10'')) (\<lambda>timeout.
              rmap (\<lambda>hours. \<lparr>tc_enabled = enabled, tc_bot_token = token, tc_chat_id = chat,
                     tc_parse_mode = py_upper (value_of values ''APEX_TELEGRAM_PARSE_MODE'' ''HTML''),
                     tc_min_severity = py_upper (value_of values ''APEX_TELEGRAM_MIN_SEVERITY'' ''INFO''), tc_timeout = timeout,
                     tc_event_log = (if has_prefix ''/'' log then log else repo_root @ ''/'' @ log),
                     tc_daily_report = flag (map_of values ''APEX_DAILY_REPORT_ENABLED'') False, tc_lookback_hours = hours,
                     tc_timezone = value_of values ''APEX_DAILY_REPORT_TIMEZONE'' ''Asia/Kolkata'',
                     tc_run_started = flag (map_of values ''APEX_TELEGRAM_NOTIFY_RUN_STARTED'') False,
                     tc_session_summary = flag (map_of values ''APEX_TELEGRAM_NOTIFY_SESSION_SUMMARY'') False,
                     tc_qualified_signal = flag (map_of values ''APEX_TELEGRAM_NOTIFY_QUALIFIED_SIGNAL'') False,
                     tc_order_result = flag (map_of values ''APEX_TELEGRAM_NOTIFY_ORDER_RESULT'') True,
                     tc_order_rejection = flag (map_of values ''APEX_TELEGRAM_NOTIFY_ORDER_REJECTION'') False\<rparr>)
                (it (value_of values ''APEX_DAILY_REPORT_LOOKBACK_HOURS'' ''24''))))"

definition telegram_disabled :: "string \<Rightarrow> telegram_config" where
  "telegram_disabled repo_root =
     \<lparr>tc_enabled = False, tc_bot_token = None, tc_chat_id = None, tc_parse_mode = ''HTML'', tc_min_severity = ''INFO'', tc_timeout = Fin 10,
      tc_event_log = repo_root @ ''/.apex_runtime/notifications/telegram_events.jsonl'', tc_daily_report = False, tc_lookback_hours = 24,
      tc_timezone = ''Asia/Kolkata'', tc_run_started = False, tc_session_summary = False, tc_qualified_signal = False,
      tc_order_result = True, tc_order_rejection = False\<rparr>"

definition severity_order :: "string \<Rightarrow> nat" where
  "severity_order s = (if s = ''DEBUG'' then 10 else if s = ''WARNING'' then 30 else if s = ''ERROR'' then 40 else if s = ''CRITICAL'' then 50 else 20)"

definition passes_severity :: "telegram_config \<Rightarrow> string \<Rightarrow> bool" where
  "passes_severity c severity = (severity_order (tc_min_severity c) \<le> severity_order (py_upper severity))"

definition should_notify_event :: "(pyval \<Rightarrow> string) \<Rightarrow> telegram_config \<Rightarrow> string \<Rightarrow> string \<Rightarrow> pydict \<Rightarrow> bool" where
  "should_notify_event show c event_type severity payload =
     (if py_upper severity = ''ERROR'' \<or> py_upper severity = ''CRITICAL'' then True
      else if event_type = ''RUN_STARTED'' then tc_run_started c
      else if event_type = ''RISK_APPROVED'' then tc_qualified_signal c
      else if event_type = ''ORDER_RESULT''
      then if py_upper (py_str show (pget payload ''order_status'' (PStr []))) = ''FILLED'' then tc_order_result c else tc_order_rejection c
      else False)"

text \<open>The chunks posted, and the text of the exception that stopped the posting; \<open>post\<close> answers each request with the text of
  its exception, if it raises.\<close>

fun post_chunks :: "(string \<Rightarrow> string option) \<Rightarrow> string list \<Rightarrow> string list \<times> string option" where
  "post_chunks post [] = ([], None)"
| "post_chunks post (c # cs) =
     (case post c of Some err \<Rightarrow> ([c], Some err) | None \<Rightarrow> let (sent, r) = post_chunks post cs in (c # sent, r))"

definition telegram_send :: "(string \<Rightarrow> string option) \<Rightarrow> telegram_config \<Rightarrow> string \<Rightarrow> string list \<times> string option" where
  "telegram_send post c s =
     (if \<not> tc_enabled c \<or> tc_bot_token c \<in> {None, Some []} \<or> tc_chat_id c \<in> {None, Some []} then ([], None)
      else post_chunks post (split_telegram_message s))"

record outbox =
  ob_file :: "string list"
  ob_posted :: "string list"

record service_env =
  en_iso :: "datetime \<Rightarrow> string"
  en_dumps :: "pyval \<Rightarrow> string"
  en_show :: "pyval \<Rightarrow> string"
  en_post :: "string \<Rightarrow> string option"

definition record_event :: "service_env \<Rightarrow> datetime \<Rightarrow> string \<Rightarrow> string \<Rightarrow> pydict \<Rightarrow> outbox \<Rightarrow> outbox" where
  "record_event e now event_type severity payload b =
     b\<lparr>ob_file := snd (log_append (en_iso e) (en_dumps e) now event_type severity payload (ob_file b))\<rparr>"

definition notify :: "service_env \<Rightarrow> telegram_config \<Rightarrow> datetime \<Rightarrow> string \<Rightarrow> pydict \<Rightarrow> string \<Rightarrow> outbox \<Rightarrow> outbox" where
  "notify e c now title kvs severity b =
     (if \<not> passes_severity c severity then b
      else let (sent, r) = telegram_send (en_post e) c (format_compact_message (en_show e) title kvs severity);
               b' = b\<lparr>ob_posted := ob_posted b @ sent\<rparr>
           in case r of None \<Rightarrow> b'
              | Some err \<Rightarrow> record_event e now ''TELEGRAM_DELIVERY_FAILED'' ''WARNING'' [(''error'', PStr err), (''title'', PStr title)] b')"

text \<open>\<open>str.title\<close> after the underscores became spaces.\<close>

fun title_from :: "bool \<Rightarrow> string \<Rightarrow> string" where
  "title_from inner [] = []"
| "title_from inner (c # s) =
     (let up = up_char c; low = low_char c; letter = (up \<noteq> low)
      in (if inner then low else up) # title_from letter s)"

definition event_title :: "string \<Rightarrow> string" where
  "event_title t = title_from False (map (\<lambda>c. if c = CHR ''_'' then CHR '' '' else c) t)"

definition record_and_notify ::
  "service_env \<Rightarrow> telegram_config \<Rightarrow> datetime \<Rightarrow> string \<Rightarrow> string \<Rightarrow> bool \<Rightarrow> pydict \<Rightarrow> outbox \<Rightarrow> outbox" where
  "record_and_notify e c now event_type severity wanted payload b =
     (let b' = record_event e now event_type severity payload b
      in if wanted \<and> should_notify_event (en_show e) c event_type severity payload
         then notify e c now (event_title event_type) payload severity b' else b')"

definition send_session_summary :: "service_env \<Rightarrow> telegram_config \<Rightarrow> datetime \<Rightarrow> pydict \<Rightarrow> outbox \<Rightarrow> outbox" where
  "send_session_summary e c now s b =
     (if \<not> tc_enabled c \<or> \<not> tc_session_summary c then b else notify e c now ''Apex Session Summary'' s ''INFO'' b)"

subsection \<open>The daily report\<close>

definition tally :: "string list \<Rightarrow> (string, nat) dict" where
  "tally xs = fold (\<lambda>k d. AList.update k ((case map_of d k of None \<Rightarrow> 0 | Some n \<Rightarrow> n) + 1) d) xs []"

definition tally_of :: "(string, nat) dict \<Rightarrow> string \<Rightarrow> nat" where
  "tally_of d k = (case map_of d k of None \<Rightarrow> 0 | Some n \<Rightarrow> n)"

text \<open>\<open>Counter.most_common(5)\<close>: by count, ties in order of first appearance.\<close>

definition most_common :: "(string, nat) dict \<Rightarrow> (string \<times> nat) list" where
  "most_common d = take 5 (sort_key (\<lambda>(_, n). - int n) d)"

definition text_list :: "(pyval \<Rightarrow> string) \<Rightarrow> pyval \<Rightarrow> string list" where
  "text_list show v =
     (case v of PNone \<Rightarrow> []
      | PStr s \<Rightarrow> filter (\<lambda>t. t \<noteq> []) (map py_strip (py_split CHR '','' s))
      | PList xs \<Rightarrow> map (py_str show) xs
      | x \<Rightarrow> [py_str show x])"

text \<open>\<open>int(payload.get(key, 0) or 0)\<close>\<close>

definition payload_int :: "(string \<Rightarrow> int res) \<Rightarrow> pydict \<Rightarrow> string \<Rightarrow> int res" where
  "payload_int it p k = py_int it (py_or (pget p k (PInt 0)) (PInt 0))"

fun sum_res :: "int res list \<Rightarrow> int res" where
  "sum_res [] = Ok 0"
| "sum_res (r # rs) = rbind r (\<lambda>x. rmap (\<lambda>s. x + s) (sum_res rs))"

definition summary_keys :: "string list" where
  "summary_keys = [''live_quotes_processed'', ''live_closed_candles_ingested'', ''quote_updates_confirming_live_feed'',
     ''inactive_quote_reads_discarded'', ''temporary_tick_gaps'', ''stop_updates_applied'', ''qualified_candidates'', ''live_sweeps_detected'',
     ''reversal_candidates_detected'', ''confirmation_blocks'', ''quality_blocks'', ''cooldown_blocks'']"

fun add_fields :: "(string \<Rightarrow> int res) \<Rightarrow> pydict \<Rightarrow> (string, int) dict \<Rightarrow> (string, int) dict res" where
  "add_fields it p [] = Ok []"
| "add_fields it p ((k, t) # ts) = rbind (payload_int it p k) (\<lambda>x. rmap ((#) (k, t + x)) (add_fields it p ts))"

fun aggregate_summary_events :: "(string \<Rightarrow> int res) \<Rightarrow> runtime_event list \<Rightarrow> (string, int) dict \<Rightarrow> (string, int) dict res" where
  "aggregate_summary_events it [] totals = Ok totals"
| "aggregate_summary_events it (ev # evs) totals = rbind (add_fields it (re_payload ev) totals) (aggregate_summary_events it evs)"

definition zero_totals :: "(string, int) dict" where
  "zero_totals = map (\<lambda>k. (k, 0)) summary_keys"

definition session_bucket :: "datetime \<Rightarrow> string" where
  "session_bucket d =
     (let hour = (dt_instant d div 3600000000) mod 24
      in if hour \<ge> 22 \<or> hour < 6 then ''ASIAN_ACCUMULATION'' else if 6 \<le> hour \<and> hour < 12 then ''LONDON_KILLZONE''
         else if 12 \<le> hour \<and> hour < 20 then ''NEWYORK_KILLZONE'' else ''POST_NY_RESET'')"

record session_metrics =
  sx_runs :: int
  sx_quotes :: int
  sx_sweeps :: int
  sx_reversals :: int
  sx_qualified :: int
  sx_blocks :: int

definition add_session :: "(string \<Rightarrow> int res) \<Rightarrow> pydict \<Rightarrow> session_metrics \<Rightarrow> session_metrics res" where
  "add_session it p m =
     (let g = payload_int it p in
      rbind (g ''live_quotes_processed'') (\<lambda>q. rbind (g ''live_sweeps_detected'') (\<lambda>s. rbind (g ''reversal_candidates_detected'') (\<lambda>r.
      rbind (g ''qualified_candidates'') (\<lambda>c. rmap (\<lambda>b. \<lparr>sx_runs = sx_runs m + 1, sx_quotes = sx_quotes m + q, sx_sweeps = sx_sweeps m + s,
          sx_reversals = sx_reversals m + r, sx_qualified = sx_qualified m + c, sx_blocks = sx_blocks m + b\<rparr>)
        (sum_res [g ''confirmation_blocks'', g ''quality_blocks'', g ''cooldown_blocks'']))))))"

fun summarize_by_session :: "(string \<Rightarrow> int res) \<Rightarrow> runtime_event list \<Rightarrow> (string, session_metrics) dict \<Rightarrow> (string, session_metrics) dict res" where
  "summarize_by_session it [] d = Ok d"
| "summarize_by_session it (ev # evs) d =
     (let name = session_bucket (re_timestamp ev);
          m = (case map_of d name of None \<Rightarrow> \<lparr>sx_runs = 0, sx_quotes = 0, sx_sweeps = 0, sx_reversals = 0, sx_qualified = 0, sx_blocks = 0\<rparr> | Some m \<Rightarrow> m)
      in rbind (add_session it (re_payload ev) m) (\<lambda>m'. summarize_by_session it evs (AList.update name m' d)))"

text \<open>What the report and its advice are computed from.\<close>

record report_counts =
  cn_latest :: pydict
  cn_totals :: "(string, int) dict"
  cn_events :: "(string, nat) dict"
  cn_severities :: "(string, nat) dict"
  cn_sessions :: "(string, session_metrics) dict"
  cn_orders :: "(string, nat) dict"
  cn_rejections :: "(string, nat) dict"
  cn_blocked :: "(string, nat) dict"

definition payload_or :: "pydict \<Rightarrow> string \<Rightarrow> string \<Rightarrow> pyval" where
  "payload_or p a b = py_or (pget p a PNone) (pget p b PNone)"

definition count_events :: "(string \<Rightarrow> int res) \<Rightarrow> (pyval \<Rightarrow> string) \<Rightarrow> runtime_event list \<Rightarrow> report_counts res" where
  "count_events it show evs =
     (let summaries = filter (\<lambda>ev. re_type ev = ''RUN_SUMMARY'') evs;
          latest = (if summaries = [] then [] else re_payload (last summaries))
      in rbind (aggregate_summary_events it summaries zero_totals) (\<lambda>totals.
         rmap (\<lambda>sessions.
           \<lparr>cn_latest = latest, cn_totals = totals, cn_events = tally (map re_type evs), cn_severities = tally (map re_severity evs),
            cn_sessions = sessions,
            cn_orders = tally (map (\<lambda>ev. py_str show (pget (re_payload ev) ''order_status'' (PStr ''UNKNOWN'')))
                (filter (\<lambda>ev. re_type ev = ''ORDER_RESULT'') evs)),
            cn_rejections = tally (map (py_str show) (filter py_truthy
                (map (\<lambda>ev. payload_or (re_payload ev) ''rejection_reason'' ''latest_confirmation_rejection'') evs))),
            cn_blocked = tally (concat (map (\<lambda>ev. text_list show (payload_or (re_payload ev) ''rejection_reasons'' ''reasons'')) evs))\<rparr>)
         (summarize_by_session it summaries [])))"

definition total_of :: "report_counts \<Rightarrow> string \<Rightarrow> int" where
  "total_of c k = (case map_of (cn_totals c) k of None \<Rightarrow> 0 | Some n \<Rightarrow> n)"

definition advice :: "(string \<Rightarrow> int res) \<Rightarrow> report_counts \<Rightarrow> string list res" where
  "advice it c =
     (if cn_latest c = [] then Ok [''No completed run summary was found. Run the strategy long enough to finish cleanly.'']
      else rmap (\<lambda>first.
        let items = first
          @ (if tally_of (cn_severities c) ''ERROR'' \<noteq> 0 \<or> tally_of (cn_severities c) ''CRITICAL'' \<noteq> 0
             then [''Runtime errors occurred. Inspect the JSONL event log before enabling any execution mode.''] else [])
          @ (if list_ex (\<lambda>(r, _). has_sub ''SETUP_OUTSIDE_KILLZONE_BOUNDARIES'' r) (cn_rejections c)
             then [''Signals appeared outside the configured killzone. Gather more samples during the target sessions.''] else [])
          @ (if cn_blocked c \<noteq> []
             then [''Review repeated block reasons before loosening filters; repeated blocks are useful edge-validation evidence.''] else [])
          @ (if max (total_of c ''qualified_candidates'') (int (tally_of (cn_events c) ''RISK_APPROVED'')) = 0
             then [''No qualified candidate completed the full pipeline. Keep collecting shadow/live-demo data before judging accuracy.''] else [])
          @ (if tally_of (cn_events c) ''ORDER_RESULT'' \<noteq> 0 \<and> tally_of (cn_orders c) ''FILLED'' = 0
             then [''The engine reached order submission but filled no orders. Inspect final broker risk, spread, and order-check rejection reasons.'']
             else [])
        in if items = []
           then [''No critical fix is obvious from this window. Continue shadow/live-demo sampling and compare reports.''] else items)
        (if total_of c ''live_quotes_processed'' = 0
         then Ok [''Live quote flow is weak or missing across the full day. Verify MT5 is open, logged in, and the symbol is active.'']
         else rmap (\<lambda>n. if n = 0
                then [''The latest run had no fresh quotes, but the full day had live data. ''
                      @ ''Check whether this happened during a quiet/closed market window.''] else [])
              (payload_int it (cn_latest c) ''live_quotes_processed'')))"

definition total_line :: "report_counts \<Rightarrow> string \<Rightarrow> string \<Rightarrow> string" where
  "total_line c label k = label @ '': '' @ int_str (total_of c k)"

definition count_line :: "(string, nat) dict \<Rightarrow> string \<Rightarrow> string \<Rightarrow> string" where
  "count_line d label k = label @ '': '' @ nat_str (tally_of d k)"

definition session_line :: "report_counts \<Rightarrow> string \<Rightarrow> string list" where
  "session_line c name =
     (case map_of (cn_sessions c) name of
        None \<Rightarrow> []
      | Some m \<Rightarrow> [name @ '': runs='' @ int_str (sx_runs m) @ '' quotes='' @ int_str (sx_quotes m) @ '' sweeps='' @ int_str (sx_sweeps m)
                   @ '' reversals='' @ int_str (sx_reversals m) @ '' qualified='' @ int_str (sx_qualified m) @ '' blocks='' @ int_str (sx_blocks m)])"

definition top_lines :: "string \<Rightarrow> (string, nat) dict \<Rightarrow> string list" where
  "top_lines heading d =
     (if d = [] then [] else [[], heading] @ map (\<lambda>(r, n). html_escape r @ '': '' @ nat_str n) (most_common d))"

definition build_text_report :: "(string \<Rightarrow> int res) \<Rightarrow> (pyval \<Rightarrow> string) \<Rightarrow> int \<Rightarrow> runtime_event list \<Rightarrow> string res" where
  "build_text_report it show hours evs =
     rbind (count_events it show evs) (\<lambda>c. rmap (\<lambda>recommended.
       let latest = (\<lambda>k d. py_str show (pget (cn_latest c) k d)); unknown = PStr ''unknown''; t = total_line c; e = count_line (cn_events c)
       in py_join newline
        ([''<b>Apex XAUUSD Daily Intelligence Report</b>'', ''Window: last '' @ int_str hours @ '' hours'', [],
          ''<b>Operating State</b>'', ''Mode: '' @ html_escape (latest ''mode'' unknown), ''Symbol: '' @ html_escape (latest ''symbol'' unknown),
          ''Status: '' @ html_escape (latest ''status'' (PStr ''NO_COMPLETED_RUN_SUMMARY'')), ''Dry run: '' @ latest ''dry_run'' unknown,
          ''Max lot: '' @ latest ''max_lot'' unknown, [], ''<b>24h Market Data Health</b>'',
          t ''Live quotes processed'' ''live_quotes_processed'', t ''Closed candles ingested'' ''live_closed_candles_ingested'',
          t ''Quote updates confirming live feed'' ''quote_updates_confirming_live_feed'',
          t ''Inactive quote reads discarded'' ''inactive_quote_reads_discarded'', t ''Temporary tick gaps'' ''temporary_tick_gaps'', [],
          ''<b>Latest Run Snapshot</b>'']
         @ map (\<lambda>(l, k). l @ '': '' @ latest k (PInt 0))
            [(''Live quotes processed'', ''live_quotes_processed''), (''Closed candles ingested'', ''live_closed_candles_ingested''),
             (''Quote updates confirming live feed'', ''quote_updates_confirming_live_feed''),
             (''Inactive quote reads discarded'', ''inactive_quote_reads_discarded''), (''Temporary tick gaps'', ''temporary_tick_gaps'')]
         @ [[], ''<b>24h Strategy Detection</b>'',
            ''Qualified candidates: '' @ int_str (max (total_of c ''qualified_candidates'') (int (tally_of (cn_events c) ''RISK_APPROVED''))),
            t ''Live sweeps detected'' ''live_sweeps_detected'', t ''Reversal candidates detected'' ''reversal_candidates_detected'',
            t ''Confirmation blocks'' ''confirmation_blocks'', t ''Quality blocks'' ''quality_blocks'', t ''Cooldown blocks'' ''cooldown_blocks'',
            ''Latest confirmation rejection: '' @ html_escape (latest ''latest_confirmation_rejection'' (PStr ''none'')), [],
            ''<b>Risk And Execution</b>'', e ''Risk approved events'' ''RISK_APPROVED'', e ''Risk/scoring blocked events'' ''CANDIDATE_BLOCKED'',
            e ''Pre-submission checks'' ''PRE_SUBMISSION_CHECK'', e ''Orders submitted/finalized'' ''ORDER_RESULT'',
            count_line (cn_orders c) ''Order fills'' ''FILLED'', count_line (cn_orders c) ''Order rejections'' ''REJECTED'',
            e ''Adaptive lot reductions'' ''ADAPTIVE_LOT_REDUCTION'', e ''Demo minimum-lot overrides'' ''DEMO_MIN_LOT_OBSERVATION_OVERRIDE'',
            t ''Stop updates applied'' ''stop_updates_applied'', [], ''<b>Runtime Events</b>'',
            ''Total events recorded: '' @ nat_str (length evs), count_line (cn_severities c) ''Warnings'' ''WARNING'',
            ''Errors: '' @ nat_str (tally_of (cn_severities c) ''ERROR'' + tally_of (cn_severities c) ''CRITICAL''),
            e ''Telegram delivery failures'' ''TELEGRAM_DELIVERY_FAILED'']
         @ (if cn_sessions c = [] then []
            else [[], ''<b>Session Breakdown</b>'']
              @ concat (map (session_line c) [''ASIAN_ACCUMULATION'', ''LONDON_KILLZONE'', ''NEWYORK_KILLZONE'', ''POST_NY_RESET'']))
         @ top_lines ''<b>Top Rejections</b>'' (cn_rejections c) @ top_lines ''<b>Top Blocks</b>'' (cn_blocked c)
         @ [[], ''<b>What To Fix Or Watch Next</b>''] @ map (\<lambda>i. ''- '' @ html_escape i) recommended))
      (advice it c))"

definition send_daily_report ::
  "(string \<Rightarrow> pyval option) \<Rightarrow> (string \<Rightarrow> datetime res) \<Rightarrow> (string \<Rightarrow> int res) \<Rightarrow> service_env \<Rightarrow> telegram_config \<Rightarrow> datetime \<Rightarrow> int \<Rightarrow> outbox
     \<Rightarrow> (string \<times> outbox) res" where
  "send_daily_report loads fromiso it e c now lookback_hours b =
     (let hours = (if lookback_hours = 0 then tc_lookback_hours c else lookback_hours);
          evs = read_since loads fromiso (en_show e) (dt_add now (- hours * 3600000000)) (ob_file b)
      in rmap (\<lambda>report.
           if \<not> tc_enabled c then (report, b)
           else let (sent, r) = telegram_send (en_post e) c report; b' = b\<lparr>ob_posted := ob_posted b @ sent\<rparr>
                in (report, case r of None \<Rightarrow> b'
                    | Some err \<Rightarrow> record_event e now ''TELEGRAM_DELIVERY_FAILED'' ''WARNING'' [(''error'', PStr err), (''title'', PStr ''Daily report'')] b'))
         (build_text_report it (en_show e) hours evs))"

subsection \<open>Latencies\<close>

type_synonym latencies = "(string, int list) dict"

definition record_latency :: "string \<Rightarrow> int \<Rightarrow> int \<Rightarrow> latencies \<Rightarrow> int \<times> latencies" where
  "record_latency key start_ns end_ns d =
     (let us = (end_ns - start_ns) div 1000
      in (us, AList.update key (win_push 10000 us (case map_of d key of None \<Rightarrow> [] | Some xs \<Rightarrow> xs)) d))"

definition latency_summary :: "string \<Rightarrow> latencies \<Rightarrow> nat \<times> int \<times> int" where
  "latency_summary key d =
     (case map_of d key of
        Some (x # xs) \<Rightarrow> (length (x # xs), sum_list (x # xs) div int (length (x # xs)), fold max xs x)
      | _ \<Rightarrow> (0, 0, 0))"

subsection \<open>Secrets\<close>

text \<open>Two payloads that differ only in what secret keys hold.\<close>

fun same_public :: "pyval \<Rightarrow> pyval \<Rightarrow> bool"
and same_list :: "pyval list \<Rightarrow> pyval list \<Rightarrow> bool"
and same_items :: "pydict \<Rightarrow> pydict \<Rightarrow> bool" where
  "same_public (PList xs) w = (case w of PList ys \<Rightarrow> same_list xs ys | _ \<Rightarrow> False)"
| "same_public (PDict a) w = (case w of PDict b \<Rightarrow> same_items a b | _ \<Rightarrow> False)"
| "same_public v w = (v = w)"
| "same_list [] ys = (ys = [])"
| "same_list (x # xs) ys = (case ys of [] \<Rightarrow> False | y # ys' \<Rightarrow> same_public x y \<and> same_list xs ys')"
| "same_items [] b = (b = [])"
| "same_items ((k, v) # a) b =
     (case b of [] \<Rightarrow> False | (l, w) # b' \<Rightarrow> k = l \<and> (looks_secret k \<or> same_public v w) \<and> same_items a b')"

lemma masked_same:
  "same_public v v' \<Longrightarrow> json_safe w v = json_safe w v'"
  "same_list xs xs' \<Longrightarrow> safe_list w xs = safe_list w xs'"
  "same_items a a' \<Longrightarrow> sanitize_payload w a = sanitize_payload w a'"
proof (induction v and xs and a arbitrary: v' and xs' and a' rule: json_safe_safe_list_sanitize_payload.induct)
qed (auto split: pyval.splits list.splits prod.splits)

text \<open>What a secret key holds, at any depth, never reaches the log: payloads that differ only there leave the same file and
  the same event.\<close>

theorem log_hides_secrets:
  assumes "same_items p q"
  shows "log_append w dumps now t severity p file = log_append w dumps now t severity q file"
  using masked_same(3) [OF assms, of w] by (simp add: log_append_def)

theorem log_hides_secrets_witness:
  "log_append (\<lambda>_. []) (\<lambda>_. ''line'') (naive 0) ''T'' ''INFO'' [(''mode'', PStr ''demo''), (''auth'', PDict [(''bot_token'', PStr ''one'')])] []
   = log_append (\<lambda>_. []) (\<lambda>_. ''line'') (naive 0) ''T'' ''INFO'' [(''mode'', PStr ''demo''), (''auth'', PDict [(''bot_token'', PStr ''two'')])] []"
  by (rule log_hides_secrets) (simp add: looks_secret_def py_lower_def low_char_def)

lemma masked_again:
  "json_safe w (json_safe w v) = json_safe w v"
  "safe_list w (safe_list w xs) = safe_list w xs"
  "sanitize_payload w (sanitize_payload w a) = sanitize_payload w a"
  by (induction v and xs and a rule: json_safe_safe_list_sanitize_payload.induct) auto

text \<open>A message hides only the keys of its top level: a secret nested in a payload is masked in the log and sent to Telegram.\<close>

lemma nested_secret_is_sent:
  assumes "show (PDict [(''bot_token'', PStr ''t'')]) = ''t''"
  shows "format_compact_message show ''A'' [(''auth'', PDict [(''bot_token'', PStr ''t'')])] ''INFO''
       = ''<b>A</b>'' @ newline @ ''Severity: INFO'' @ newline @ ''auth: t''
    \<and> sanitize_payload w [(''auth'', PDict [(''bot_token'', PStr ''t'')])] = [(''auth'', PDict [(''bot_token'', PStr ''***'')])]"
proof
  show "format_compact_message show ''A'' [(''auth'', PDict [(''bot_token'', PStr ''t'')])] ''INFO''
       = ''<b>A</b>'' @ newline @ ''Severity: INFO'' @ newline @ ''auth: t''"
    using assms by (simp add: format_compact_message_def looks_secret_def py_lower_def low_char_def html_escape_def py_upper_def up_char_def)
  show "sanitize_payload w [(''auth'', PDict [(''bot_token'', PStr ''t'')])] = [(''auth'', PDict [(''bot_token'', PStr ''***'')])]"
    by (simp add: looks_secret_def py_lower_def low_char_def)
qed

subsection \<open>Reading the log back\<close>

text \<open>What the code relies on: \<open>json.loads\<close> parses what \<open>json.dumps\<close> wrote, up to the order of the keys (\<open>canon\<close> sorts them),
  on one line that is not blank; \<open>fromisoformat\<close> reads what \<open>isoformat\<close> wrote.\<close>

definition json_port :: "(pyval \<Rightarrow> string) \<Rightarrow> (string \<Rightarrow> pyval option) \<Rightarrow> (pyval \<Rightarrow> pyval) \<Rightarrow> pyval list \<Rightarrow> bool" where
  "json_port dumps loads canon values \<longleftrightarrow>
     (\<forall>v\<in>set values. py_strip (dumps v) = dumps v \<and> dumps v \<noteq> [] \<and> loads (dumps v) = Some (canon v))
     \<and> (\<forall>s. canon (PStr s) = PStr s)
     \<and> (\<forall>d. \<exists>d'. canon (PDict d) = PDict d' \<and> (\<forall>k. map_of d' k = map_option canon (map_of d k)))"

fun dict_items :: "pyval \<Rightarrow> pydict" where
  "dict_items (PDict d) = d"
| "dict_items _ = []"

definition entry_record :: "(datetime \<Rightarrow> string) \<Rightarrow> datetime \<times> string \<times> string \<times> pydict \<Rightarrow> pyval" where
  "entry_record w = (\<lambda>(now, t, severity, p).
     to_record w \<lparr>re_timestamp = now, re_type = t, re_severity = py_upper severity, re_payload = sanitize_payload w p\<rparr>)"

definition appended :: "(datetime \<Rightarrow> string) \<Rightarrow> (pyval \<Rightarrow> string) \<Rightarrow> (datetime \<times> string \<times> string \<times> pydict) list \<Rightarrow> string list" where
  "appended w dumps entries = fold (\<lambda>(now, t, severity, p) file. snd (log_append w dumps now t severity p file)) entries []"

lemma py_upper_idem: "py_upper (py_upper s) = py_upper s"
proof -
  have "up_char (up_char c) = up_char c" for c
  proof (cases "97 \<le> (of_char c :: nat) \<and> (of_char c :: nat) \<le> 122")
    case True
    then have u: "up_char c = char_of (of_char c - 32 :: nat)" by (simp add: up_char_def Let_def)
    have "(of_char (up_char c) :: nat) = (of_char c - 32) mod 256" unfolding u by simp
    also have "\<dots> = of_char c - 32" using True by (intro mod_less) linarith
    finally have "\<not> 97 \<le> (of_char (up_char c) :: nat)" using True by linarith
    then show ?thesis by (simp add: up_char_def [of "up_char c"] Let_def)
  qed (auto simp: up_char_def Let_def)
  then show ?thesis by (simp add: py_upper_def)
qed

lemma read_record:
  assumes j: "json_port dumps loads canon values" and v: "to_record w ev \<in> set values"
    and iso: "fromiso (w (utc_of (re_timestamp ev))) = Ok (utc_of (re_timestamp ev))"
    and show_str: "\<And>s. show (PStr s) = s"
  shows "read_line loads fromiso show since (dumps (to_record w ev)) =
    (if dt_instant (re_timestamp ev) < dt_instant since then None
     else Some \<lparr>re_timestamp = utc_of (re_timestamp ev), re_type = re_type ev, re_severity = py_upper (re_severity ev),
                re_payload = dict_items (canon (PDict (sanitize_payload w (re_payload ev))))\<rparr>)"
proof -
  let ?r = "[(''timestamp_utc'', PStr (w (utc_of (re_timestamp ev)))), (''event_type'', PStr (re_type ev)),
            (''severity'', PStr (py_upper (re_severity ev))), (''payload'', PDict (sanitize_payload w (re_payload ev)))]"
  from j v [unfolded to_record_def] have d: "py_strip (dumps (PDict ?r)) = dumps (PDict ?r)" "dumps (PDict ?r) \<noteq> []" "loads (dumps (PDict ?r)) = Some (canon (PDict ?r))"
    and s: "\<And>x. canon (PStr x) = PStr x" unfolding json_port_def by blast+
  from j obtain d' where d': "canon (PDict ?r) = PDict d'" "\<And>k. map_of d' k = map_option canon (map_of ?r k)" unfolding json_port_def by blast
  from j obtain p' where p': "canon (PDict (sanitize_payload w (re_payload ev))) = PDict p'" unfolding json_port_def by blast
  have f: "map_of d' ''timestamp_utc'' = Some (PStr (w (utc_of (re_timestamp ev))))" "map_of d' ''event_type'' = Some (PStr (re_type ev))"
    "map_of d' ''severity'' = Some (PStr (py_upper (re_severity ev)))" "map_of d' ''payload'' = Some (PDict p')"
    by (simp_all add: d'(2) s p')
  have u: "dt_instant (utc_of x) = dt_instant x" "utc_of (utc_of x) = utc_of x" for x by (simp_all add: utc_of_def aware_utc_def dt_instant_def)
  show ?thesis unfolding to_record_def read_line_def Let_def d
    by (simp add: d d'(1) f pitem_def pget_def iso u p' show_str py_upper_idem)
qed

text \<open>The log reads back: with JSON and ISO times that round-trip, reading since a time gives, in order, the entries written at or
  after it, with their type, their upper-case severity and their masked payload.\<close>

theorem log_roundtrip:
  assumes "json_port dumps loads canon (map (entry_record w) entries)"
    and "\<And>d. d \<in> fst ` set entries \<Longrightarrow> fromiso (w (utc_of d)) = Ok (utc_of d)" and "\<And>s. show (PStr s) = s"
  shows "read_since loads fromiso show since (appended w dumps entries) =
    map (\<lambda>(now, t, severity, p). \<lparr>re_timestamp = utc_of now, re_type = t, re_severity = py_upper severity,
           re_payload = dict_items (canon (PDict (sanitize_payload w p)))\<rparr>)
      (filter (\<lambda>(now, _). dt_instant since \<le> dt_instant now) entries)"
proof -
  have a: "fold (\<lambda>(now, t, severity, p) old. snd (log_append w dumps now t severity p old)) entries old = old @ map (dumps \<circ> entry_record w) entries"
    for old by (induction entries arbitrary: old) (auto simp: log_append_def entry_record_def Let_def)
  have i: "dt_instant (utc_of since) = dt_instant since" by (simp add: utc_of_def aware_utc_def dt_instant_def)
  let ?out = "\<lambda>(now, t, severity, p). \<lparr>re_timestamp = utc_of now, re_type = t, re_severity = py_upper severity,
           re_payload = dict_items (canon (PDict (sanitize_payload w p)))\<rparr>"
  have r: "read_line loads fromiso show (utc_of since) (dumps (entry_record w x)) =
      (if dt_instant since \<le> dt_instant (fst x) then Some (?out x) else None)" if x: "x \<in> set entries" for x
  proof -
    obtain now t severity p where e: "x = (now, t, severity, p)" by (cases x)
    let ?ev = "\<lparr>re_timestamp = now, re_type = t, re_severity = py_upper severity, re_payload = sanitize_payload w p\<rparr>"
    have m: "to_record w ?ev \<in> set (map (entry_record w) entries)" using x e by (force simp: entry_record_def)
    have f: "fromiso (w (utc_of (re_timestamp ?ev))) = Ok (utc_of (re_timestamp ?ev))" using assms(2) [of now] x e by force
    from read_record [where w = w and ev = ?ev and fromiso = fromiso and since = "utc_of since", OF assms(1) m f assms(3)] show ?thesis by (simp add: e entry_record_def i py_upper_idem masked_again)
  qed
  have "List.map_filter (\<lambda>x. read_line loads fromiso show (utc_of since) (dumps (entry_record w x))) entries
      = map ?out (filter (\<lambda>x. dt_instant since \<le> dt_instant (fst x)) entries)"
    using r by (induction entries) (simp_all add: map_filter_simps)
  then show ?thesis unfolding read_since_def appended_def a append_Nil
    by (simp add: List.map_filter_def comp_def case_prod_beta' filter_map)
qed

definition demo_iso :: "datetime \<Rightarrow> string" where
  "demo_iso d = (if dt_wall d = 3 then ''three'' else ''seven'')"

definition demo_entries :: "(datetime \<times> string \<times> string \<times> pydict) list" where
  "demo_entries = [(aware_utc 3, ''A'', ''info'', []), (aware_utc 7, ''B'', ''info'', [(''n'', PInt 1)])]"

theorem log_roundtrip_witness:
  "\<exists>dumps loads fromiso show. json_port dumps loads (\<lambda>v. v) (map (entry_record demo_iso) demo_entries)
     \<and> read_since loads fromiso show (aware_utc 5) (appended demo_iso dumps demo_entries)
       = [\<lparr>re_timestamp = aware_utc 7, re_type = ''B'', re_severity = ''INFO'', re_payload = [(''n'', PInt 1)]\<rparr>]"
proof -
  let ?a = "entry_record demo_iso (hd demo_entries)" let ?b = "entry_record demo_iso (last demo_entries)"
  let ?dumps = "\<lambda>v. if v = ?a then ''a'' else ''b''" let ?loads = "\<lambda>s. Some (if s = ''a'' then ?a else ?b)"
  let ?fromiso = "\<lambda>s. Ok (aware_utc (if s = ''three'' then 3 else 7)) :: datetime res" let ?show = "\<lambda>v. case v of PStr s \<Rightarrow> s | _ \<Rightarrow> []"
  have j: "json_port ?dumps ?loads (\<lambda>v. v) (map (entry_record demo_iso) demo_entries)"
    by (auto simp: json_port_def demo_entries_def py_strip_def is_space_def option.map_ident)
  have f: "\<And>d. d \<in> fst ` set demo_entries \<Longrightarrow> ?fromiso (demo_iso (utc_of d)) = Ok (utc_of d)"
    by (auto simp: demo_entries_def demo_iso_def utc_of_def aware_utc_def dt_instant_def)
  have s: "\<And>s. ?show (PStr s) = s" by simp
  have u: "py_upper ''info'' = ''INFO''" by code_simp
  have e: "map (\<lambda>(now, t, severity, p). \<lparr>re_timestamp = utc_of now, re_type = t, re_severity = py_upper severity,
           re_payload = dict_items (PDict (sanitize_payload demo_iso p))\<rparr>)
      (filter (\<lambda>(now, _). dt_instant (aware_utc 5) \<le> dt_instant now) demo_entries)
      = [\<lparr>re_timestamp = aware_utc 7, re_type = ''B'', re_severity = ''INFO'', re_payload = [(''n'', PInt 1)]\<rparr>]"
    by (simp add: u demo_entries_def dt_instant_def aware_utc_def utc_of_def looks_secret_def py_lower_def low_char_def)
  note r = log_roundtrip [of ?dumps ?loads "\<lambda>v. v" demo_iso demo_entries ?fromiso ?show "aware_utc 5", OF j f s, unfolded e]
  show ?thesis
    by (rule exI [where x = ?dumps], rule exI [where x = ?loads], rule exI [where x = ?fromiso], rule exI [where x = ?show], rule conjI [OF j r])
qed

subsection \<open>Chunks\<close>

definition chunk_state :: "string list \<Rightarrow> string list list \<times> string list \<times> nat" where
  "chunk_state ls = fold chunk_step ls ([], [], 0)"

lemma join_length: "ls \<noteq> [] \<Longrightarrow> length (py_join newline ls) + 1 = sum_list (map (\<lambda>l. length l + 1) ls)"
proof -
  have "length sep = 1 \<Longrightarrow> ls \<noteq> [] \<Longrightarrow> length (py_join sep ls) + 1 = sum_list (map (\<lambda>l. length l + 1) ls)" for sep
    by (induction sep ls rule: py_join.induct) auto
  then show "ls \<noteq> [] \<Longrightarrow> length (py_join newline ls) + 1 = sum_list (map (\<lambda>l. length l + 1) ls)" by (simp add: newline_def)
qed

lemma chunk_state_inv:
  assumes "chunk_state ls = (chunks, current, n)"
  shows "concat chunks @ current = ls \<and> (\<forall>c\<in>set chunks. c \<noteq> []) \<and> n = sum_list (map (\<lambda>l. length l + 1) current)
    \<and> (list_all (\<lambda>l. length l < max_message) ls \<longrightarrow> n \<le> max_message \<and> (\<forall>c\<in>set chunks. sum_list (map (\<lambda>l. length l + 1) c) \<le> max_message))"
  using assms
proof (induction ls arbitrary: chunks current n rule: rev_induct)
  case Nil
  then show ?case by (simp add: chunk_state_def)
next
  case (snoc x xs)
  obtain chunks0 current0 n0 where s: "chunk_state xs = (chunks0, current0, n0)" by (cases "chunk_state xs") auto
  have "chunk_state (xs @ [x]) = chunk_step x (chunks0, current0, n0)" using s by (simp add: chunk_state_def)
  with snoc.prems have st: "chunk_step x (chunks0, current0, n0) = (chunks, current, n)" by simp
  show ?case
  proof (cases "current0 \<noteq> [] \<and> max_message < n0 + (length x + 1)")
    case True
    then have "chunks = chunks0 @ [current0]" "current = [x]" "n = length x + 1" using st by (auto simp: chunk_step_def Let_def)
    with snoc.IH [OF s] True show ?thesis by auto
  next
    case False
    then have c: "chunks = chunks0" "current = current0 @ [x]" "n = n0 + (length x + 1)" using st by (auto simp: chunk_step_def Let_def split: if_splits)
    have "list_all (\<lambda>l. length l < max_message) (xs @ [x]) \<Longrightarrow> n \<le> max_message"
      using False snoc.IH [OF s] c by (cases "current0 = []") auto
    with snoc.IH [OF s] c show ?thesis by auto
  qed
qed

lemma chunk_lines_inv:
  "concat (chunk_lines ls) = ls \<and> (\<forall>c\<in>set (chunk_lines ls). c \<noteq> [])
   \<and> (list_all (\<lambda>l. length l < max_message) ls \<longrightarrow> (\<forall>c\<in>set (chunk_lines ls). length (py_join newline c) < max_message))"
proof -
  obtain chunks current n where s: "chunk_state ls = (chunks, current, n)" by (cases "chunk_state ls") auto
  have c: "chunk_lines ls = (if current = [] then chunks else chunks @ [current])"
    using s by (simp add: chunk_lines_def chunk_state_def)
  have j: "c \<noteq> [] \<Longrightarrow> sum_list (map (\<lambda>l. length l + 1) c) \<le> max_message \<Longrightarrow> length (py_join newline c) < max_message" for c
    using join_length [of c] by simp
  show ?thesis using chunk_state_inv [OF s] j unfolding c by auto
qed

text \<open>Splitting a message loses nothing: the chunks are the lines of the text in order; and when no line reaches the limit, every chunk
  fits it.\<close>

theorem chunks_fit_and_cover:
  "concat (chunk_lines (splitlines s)) = splitlines s
   \<and> (list_all (\<lambda>l. length l < max_message) (splitlines s) \<longrightarrow> list_all (\<lambda>c. length c \<le> max_message) (split_telegram_message s))"
proof -
  note i = chunk_lines_inv [of "splitlines s"]
  have "list_all (\<lambda>c. length c \<le> max_message) (split_telegram_message s)" if "list_all (\<lambda>l. length l < max_message) (splitlines s)"
  proof (cases "length s \<le> max_message")
    case True
    then show ?thesis by (simp add: split_telegram_message_def)
  next
    case False
    from i that have "\<forall>c\<in>set (chunk_lines (splitlines s)). length (py_join newline c) < max_message" by simp
    with False show ?thesis by (simp add: split_telegram_message_def list_all_iff less_imp_le)
  qed
  with i show ?thesis by simp
qed

lemma lines_from_line:
  "list_all (\<lambda>c. \<not> line_break c) l \<Longrightarrow> lines_from cur False (l @ newline @ s) = (rev cur @ l) # lines_from [] False s"
proof (induction l arbitrary: cur)
  case (Cons c l)
  then have "\<not> line_break c" "list_all (\<lambda>c. \<not> line_break c) l" by simp_all
  with Cons.IH [of "c # cur"] show ?case by simp
qed (simp add: newline_def line_break_def)

lemma splitlines_lines: "list_all (list_all (\<lambda>c. \<not> line_break c)) ls \<Longrightarrow> splitlines (concat (map (\<lambda>l. l @ newline) ls)) = ls"
  unfolding splitlines_def
proof (induction ls)
  case (Cons l ls)
  then have "list_all (\<lambda>c. \<not> line_break c) l" by simp
  from lines_from_line [OF this, of "[]" "concat (map (\<lambda>l. l @ newline) ls)"] Cons show ?case by simp
qed simp

theorem chunks_fit_and_cover_witness:
  "list_all (\<lambda>c. length c \<le> max_message) (split_telegram_message (concat (map (\<lambda>l. l @ newline) (replicate 50 (replicate 99 CHR ''x'')))))"
proof -
  have b: "list_all (list_all (\<lambda>c. \<not> line_break c)) (replicate 50 (replicate 99 CHR ''x''))"
    by (simp add: list_all_iff line_break_def)
  have "list_all (\<lambda>l. length l < max_message) (splitlines (concat (map (\<lambda>l. l @ newline) (replicate 50 (replicate 99 CHR ''x'')))))"
    unfolding splitlines_lines [OF b] by (simp add: list_all_iff max_message_def)
  then show ?thesis by (rule chunks_fit_and_cover [THEN conjunct2, THEN mp])
qed

text \<open>A longer line is sent whole, over the limit.\<close>

lemma one_long_line:
  assumes "length s > max_message" and "list_all (\<lambda>c. \<not> line_break c) s"
  shows "split_telegram_message s = [s]"
proof -
  have "lines_from cur False t = [rev cur @ t]" if "list_all (\<lambda>c. \<not> line_break c) t" "cur @ t \<noteq> []" for cur t
    using that
  proof (induction t arbitrary: cur)
    case (Cons c t)
    from Cons.prems(1) have "\<not> line_break c" "list_all (\<lambda>c. \<not> line_break c) t" by simp_all
    with Cons.IH [of "c # cur"] show ?case by simp
  qed simp
  moreover have ne: "s \<noteq> []" using assms(1) by auto
  ultimately have "splitlines s = [s]" using assms(2) by (simp add: splitlines_def)
  with assms(1) ne show ?thesis by (simp add: split_telegram_message_def chunk_lines_def chunk_step_def)
qed

subsection \<open>The observer\<close>

text \<open>Recording an event always adds its line to the log; whatever the events and the failures of the channel, the file only
  grows, at most by one more line, and nothing is posted unless reporting is enabled with both credentials and the policy asks for it.\<close>

theorem observer_records_and_stays_silent:
  "let b' = record_and_notify e c now t severity wanted p b;
       line = en_dumps e (to_record (en_iso e) \<lparr>re_timestamp = now, re_type = t, re_severity = py_upper severity,
                re_payload = sanitize_payload (en_iso e) p\<rparr>)
   in (\<exists>failure. ob_file b' = ob_file b @ line # failure \<and> length failure \<le> 1)
      \<and> (\<exists>sent. ob_posted b' = ob_posted b @ sent
           \<and> (sent = [] \<or> tc_enabled c \<and> tc_bot_token c \<notin> {None, Some []} \<and> tc_chat_id c \<notin> {None, Some []} \<and> wanted
                \<and> should_notify_event (en_show e) c t severity p \<and> passes_severity c severity))"
proof -
  let ?b1 = "record_event e now t severity p b"
  have f: "ob_file ?b1 = ob_file b @ [en_dumps e (to_record (en_iso e) \<lparr>re_timestamp = now, re_type = t, re_severity = py_upper severity,
                re_payload = sanitize_payload (en_iso e) p\<rparr>)]" "ob_posted ?b1 = ob_posted b"
    by (simp_all add: record_event_def log_append_def Let_def)
  have n: "(\<exists>failure. ob_file (notify e c now ti p severity ?b1) = ob_file ?b1 @ failure \<and> length failure \<le> 1)
      \<and> (\<exists>sent. ob_posted (notify e c now ti p severity ?b1) = ob_posted ?b1 @ sent
           \<and> (sent = [] \<or> tc_enabled c \<and> tc_bot_token c \<notin> {None, Some []} \<and> tc_chat_id c \<notin> {None, Some []} \<and> passes_severity c severity))" for ti
    by (auto simp: notify_def telegram_send_def record_event_def log_append_def Let_def split: prod.split option.split)
  show ?thesis
  proof (cases "wanted \<and> should_notify_event (en_show e) c t severity p")
    case True
    with f n [of "event_title t"] show ?thesis by (auto simp: record_and_notify_def Let_def)
  next
    case False
    with f show ?thesis by (auto simp: record_and_notify_def Let_def)
  qed
qed

end
