(* ===== verification/Feed.thy ===== *)
theory Feed
  imports Selector TradeProtection
begin

section \<open>The market data feed (src/infrastructure/feed, src/shared)\<close>

text \<open>
  \<open>feed/validation.py\<close>, \<open>feed/websocket_handler.py\<close>, \<open>shared/structural_validation.py\<close> and \<open>shared/time_utils.py\<close>. The socket
  is the list of frames it delivers, parsed by \<open>loads\<close>; a raised exception is a result like any other. A frame's symbol is a text.
\<close>

subsection \<open>Validation\<close>

text \<open>A tick is known again by its symbol, time and prices. Each tick has its own float objects, so a NaN price equals nothing.\<close>

type_synonym tick_key = "string \<times> datetime \<times> pyfloat \<times> pyfloat"

definition tick_key_eq :: "tick_key \<Rightarrow> tick_key \<Rightarrow> bool" where
  "tick_key_eq = (\<lambda>(s, t, b, a) (s', t', b', a'). s = s' \<and> dt_eq t t' \<and> feq b b' \<and> feq a a')"

record tick_validator =
  tv_max_stale_seconds :: pyfloat
  tv_window :: nat
  tv_seen :: "tick_key list"

definition validator_new :: "pyfloat \<Rightarrow> nat \<Rightarrow> tick_validator" where
  "validator_new stale window = \<lparr>tv_max_stale_seconds = stale, tv_window = window, tv_seen = []\<rparr>"

text \<open>\<open>now\<close> is aware or naive like the tick: the two clocks the code reads show one instant.\<close>

definition validate_tick :: "datetime \<Rightarrow> tick_node \<Rightarrow> tick_validator \<Rightarrow> bool \<times> tick_validator" where
  "validate_tick now t v =
     (let clock = (if dt_off (tk_timestamp t) = None then naive (dt_instant now) else aware_utc (dt_instant now));
          age = fabs (total_seconds (dt_instant clock - dt_instant (tk_timestamp t)));
          key = (tk_symbol t, tk_timestamp t, tk_bid t, tk_ask t)
      in if flt (tk_ask t) (tk_bid t) then (False, v)
         else if flt (tv_max_stale_seconds v) age then (False, v)
         else if list_ex (tick_key_eq key) (tv_seen v) then (False, v)
         else (True, v\<lparr>tv_seen := dq_push (tv_window v) key (tv_seen v)\<rparr>))"

text \<open>The bounds check of \<open>structural_validation.py\<close>.\<close>

fun is_nan :: "pyfloat \<Rightarrow> bool" where
  "is_nan NaN = True"
| "is_nan _ = False"

fun is_inf :: "pyfloat \<Rightarrow> bool" where
  "is_inf PInf = True"
| "is_inf NInf = True"
| "is_inf _ = False"

definition validate_tick_bounds :: "pyfloat \<Rightarrow> pyfloat \<Rightarrow> bool" where
  "validate_tick_bounds ask bid =
     (if is_nan ask \<or> is_nan bid then False
      else if is_inf ask \<or> is_inf bid then False
      else if fle ask (Fin 0) \<or> fle bid (Fin 0) then False
      else if flt ask bid then False else True)"

subsection \<open>Time\<close>

record time_provider =
  tp_simulated_time :: "datetime option"
  tp_is_simulated :: bool

definition time_provider_new :: time_provider where
  "time_provider_new = \<lparr>tp_simulated_time = None, tp_is_simulated = False\<rparr>"

definition set_simulation_mode :: "datetime \<Rightarrow> time_provider \<Rightarrow> time_provider" where
  "set_simulation_mode t p = p\<lparr>tp_is_simulated := True, tp_simulated_time := Some t\<rparr>"

definition update_simulation_time :: "datetime \<Rightarrow> time_provider \<Rightarrow> time_provider" where
  "update_simulation_time t p = (if tp_is_simulated p then p\<lparr>tp_simulated_time := Some t\<rparr> else p)"

definition get_utc_now :: "datetime \<Rightarrow> time_provider \<Rightarrow> datetime" where
  "get_utc_now clock p = (case (tp_is_simulated p, tp_simulated_time p) of (True, Some t) \<Rightarrow> t | _ \<Rightarrow> clock)"

subsection \<open>The websocket client\<close>

record ws_client =
  ws_connected :: bool
  ws_socket :: bool
  ws_queue :: "tick_node list"
  ws_counter :: nat

definition ws_new :: ws_client where
  "ws_new = \<lparr>ws_connected = False, ws_socket = False, ws_queue = [], ws_counter = 0\<rparr>"

text \<open>\<open>dial\<close> is the answer of \<open>websockets.connect\<close>.\<close>

definition ws_connect :: "unit res \<Rightarrow> ws_client \<Rightarrow> unit res \<times> ws_client" where
  "ws_connect dial c =
     (if ws_connected c then (Ok (), c)
      else case dial of Inl e \<Rightarrow> (Raise e, c) | Inr _ \<Rightarrow> (Ok (), c\<lparr>ws_socket := True, ws_connected := True\<rparr>))"

definition ws_disconnect :: "ws_client \<Rightarrow> ws_client" where
  "ws_disconnect c = c\<lparr>ws_connected := False\<rparr>"

text \<open>The payload sent for a subscription.\<close>

definition ws_subscribe :: "string list \<Rightarrow> ws_client \<Rightarrow> pyval res" where
  "ws_subscribe symbols c =
     (if \<not> ws_connected c \<or> \<not> ws_socket c then Raise (RuntimeError ''WebSocket transport unavailable for asset subscription routing.'')
      else Ok (PDict [(''action'', PStr ''subscribe''), (''params'', PDict [(''symbols'', PStr (py_join '','' symbols))])]))"

text \<open>One frame: \<open>None\<close> for a heartbeat, a confirmation or a frame without a price. The counter is raised before the frame is read.\<close>

definition frame_get :: "pyval \<Rightarrow> string \<Rightarrow> pyval \<Rightarrow> pyval res" where
  "frame_get v k d = (case v of PDict kvs \<Rightarrow> Ok (pget kvs k d) | _ \<Rightarrow> Raise AttributeError)"

definition frame_tick :: "pytext \<Rightarrow> (string \<Rightarrow> int res) \<Rightarrow> int \<Rightarrow> nat \<Rightarrow> pyval \<Rightarrow> tick_node res" where
  "frame_tick e it clock n frame =
     rbind (frame_get frame ''timestamp'' (PInt clock)) (\<lambda>ts.
     rbind (py_int it ts) (\<lambda>seconds.
     rbind (pitem frame ''symbol'') (\<lambda>symbol.
     rbind (rbind (pitem frame ''price'') (py_float (px_float e))) (\<lambda>price.
     rbind (rbind (frame_get frame ''day_volume'' (PInt 0)) (py_int it)) (\<lambda>volume.
     rmap (\<lambda>s. \<lparr>tk_symbol = s, tk_timestamp = aware_utc (seconds * 1000000), tk_bid = price, tk_ask = price, tk_volume = volume,
             tk_sequence_id = int n, tk_trace_id = ''TD_TICK_'' @ nat_str n @ ''_'' @ py_str (px_show e) ts, tk_correlation_id = ''LIVE_STREAM'',
             tk_priority = CRITICAL\<rparr>) (as_str symbol))))))"

definition ingest_frame :: "pytext \<Rightarrow> (string \<Rightarrow> int res) \<Rightarrow> int \<Rightarrow> pyval res \<Rightarrow> ws_client \<Rightarrow> unit res \<times> ws_client" where
  "ingest_frame e it clock parsed c =
     (case rbind parsed (\<lambda>f. rbind (frame_get f ''event'' PNone) (\<lambda>event. rmap (\<lambda>status. (f, event, status)) (frame_get f ''status'' PNone))) of
        Inl x \<Rightarrow> (Raise x, c)
      | Inr (f, event, status) \<Rightarrow>
          if event = PStr ''heartbeat'' \<or> status = PStr ''ok'' then (Ok (), c)
          else if \<not> is_ok (pitem f ''price'') then (Ok (), c)
          else let c' = c\<lparr>ws_counter := ws_counter c + 1\<rparr>
               in case frame_tick e it clock (ws_counter c') f of
                    Inl x \<Rightarrow> (Raise x, c')
                  | Inr t \<Rightarrow> (Ok (), c'\<lparr>ws_queue := ws_queue c' @ [t]\<rparr>))"

text \<open>The loop over the frames; an exception disconnects and ends it. \<open>clock\<close> is the time in whole seconds.\<close>

fun ingest_loop :: "pytext \<Rightarrow> (string \<Rightarrow> int res) \<Rightarrow> int \<Rightarrow> pyval res list \<Rightarrow> ws_client \<Rightarrow> ws_client" where
  "ingest_loop e it clock [] c = c"
| "ingest_loop e it clock (f # fs) c =
     (case ingest_frame e it clock f c of
        (Inl _, c') \<Rightarrow> ws_disconnect c'
      | (Inr _, c') \<Rightarrow> ingest_loop e it clock fs c')"

definition start_ingest_loop :: "pytext \<Rightarrow> (string \<Rightarrow> int res) \<Rightarrow> int \<Rightarrow> pyval res list \<Rightarrow> ws_client \<Rightarrow> ws_client" where
  "start_ingest_loop e it clock frames c = (if ws_socket c then ingest_loop e it clock frames c else c)"

text \<open>One turn of \<open>stream_ticks\<close>: the generator is over, waits, or yields.\<close>

datatype stream_turn = Over | Waits | Yields tick_node

definition stream_ticks :: "ws_client \<Rightarrow> stream_turn \<times> ws_client" where
  "stream_ticks c =
     (case ws_queue c of
        t # q \<Rightarrow> (Yields t, c\<lparr>ws_queue := q\<rparr>)
      | [] \<Rightarrow> (if ws_connected c then Waits else Over, c))"

text \<open>The generator of a client whose ingestion has ended.\<close>

fun stream_all :: "nat \<Rightarrow> ws_client \<Rightarrow> tick_node list \<times> bool" where
  "stream_all 0 c = ([], False)"
| "stream_all (Suc n) c =
     (case stream_ticks c of
        (Over, _) \<Rightarrow> ([], True)
      | (Waits, c') \<Rightarrow> stream_all n c'
      | (Yields t, c') \<Rightarrow> let (ts, done) = stream_all n c' in (t # ts, done))"

subsection \<open>What passes the validator\<close>

fun validate_all :: "(datetime \<times> tick_node) list \<Rightarrow> tick_validator \<Rightarrow> (datetime \<times> tick_node) list \<times> tick_validator" where
  "validate_all [] v = ([], v)"
| "validate_all ((now, t) # xs) v =
     (let (ok, v') = validate_tick now t v; (rest, v'') = validate_all xs v' in (if ok then (now, t) # rest else rest, v''))"

definition key_of :: "tick_node \<Rightarrow> tick_key" where
  "key_of t = (tk_symbol t, tk_timestamp t, tk_bid t, tk_ask t)"

definition distinct_within :: "nat \<Rightarrow> tick_key list \<Rightarrow> bool" where
  "distinct_within w ks \<longleftrightarrow> (\<forall>j<length ks. \<forall>i<j. j \<le> i + w \<longrightarrow> \<not> tick_key_eq (ks ! j) (ks ! i))"

lemma validate_tickD:
  assumes "validate_tick now t v = (True, v')"
  shows "\<not> flt (tk_ask t) (tk_bid t) \<and> \<not> flt (tv_max_stale_seconds v) (fabs (total_seconds (dt_instant now - dt_instant (tk_timestamp t))))
    \<and> (\<forall>k\<in>set (tv_seen v). \<not> tick_key_eq (key_of t) k) \<and> v' = v\<lparr>tv_seen := dq_push (tv_window v) (key_of t) (tv_seen v)\<rparr>"
  using assms by (auto simp: validate_tick_def key_of_def Let_def list_ex_iff dt_instant_def naive_def aware_utc_def split: if_splits option.splits)

lemma validate_tick_rejects: "validate_tick now t v = (False, v') \<Longrightarrow> v' = v"
  by (auto simp: validate_tick_def Let_def split: if_splits)

lemma recent_keys:
  "j < length ks \<Longrightarrow> length ks \<le> j + w \<Longrightarrow> ks ! j \<in> set (drop (length ks - w) ks)"
  by (metis (no_types, lifting) add.commute diff_le_self in_set_conv_nth le_add_diff_inverse le_diff_conv length_drop less_diff_conv nth_drop)

lemma validate_all_inv:
  assumes "tv_seen v = drop (length ks - tv_window v) ks" and "distinct_within (tv_window v) ks" and "validate_all xs v = (out, v')"
  shows "distinct_within (tv_window v) (ks @ map (key_of \<circ> snd) out)
    \<and> list_all (\<lambda>(now, t). \<not> flt (tk_ask t) (tk_bid t)
         \<and> \<not> flt (tv_max_stale_seconds v) (fabs (total_seconds (dt_instant now - dt_instant (tk_timestamp t))))) out"
  using assms
proof (induction xs arbitrary: v ks out v')
  case (Cons x xs)
  obtain now t where x: "x = (now, t)" by fastforce
  obtain ok v1 where o: "validate_tick now t v = (ok, v1)" by fastforce
  obtain rest v2 where r: "validate_all xs v1 = (rest, v2)" by fastforce
  have out: "out = (if ok then (now, t) # rest else rest)" using Cons.prems(3) x o r by simp
  show ?case
  proof (cases ok)
    case False
    with o have "v1 = v" by (auto dest: validate_tick_rejects)
    with Cons.IH [OF Cons.prems(1,2)] r False out show ?thesis by simp
  next
    case True
    from o True have d: "\<not> flt (tk_ask t) (tk_bid t)" "\<not> flt (tv_max_stale_seconds v) (fabs (total_seconds (dt_instant now - dt_instant (tk_timestamp t))))"
      "\<forall>k\<in>set (tv_seen v). \<not> tick_key_eq (key_of t) k" "v1 = v\<lparr>tv_seen := dq_push (tv_window v) (key_of t) (tv_seen v)\<rparr>"
      using validate_tickD [of now t v v1] by simp_all
    have s: "tv_seen v1 = drop (length (ks @ [key_of t]) - tv_window v1) (ks @ [key_of t])"
      using d(4) Cons.prems(1) dq_push_drop [of "tv_window v" "key_of t" ks] by simp
    have w: "tv_window v1 = tv_window v" "tv_max_stale_seconds v1 = tv_max_stale_seconds v" using d(4) by simp_all
    have dw: "distinct_within (tv_window v1) (ks @ [key_of t])"
      unfolding distinct_within_def w
    proof (intro allI impI)
      fix j i assume ij: "j < length (ks @ [key_of t])" "i < j" "j \<le> i + tv_window v"
      show "\<not> tick_key_eq ((ks @ [key_of t]) ! j) ((ks @ [key_of t]) ! i)"
      proof (cases "j < length ks")
        case True
        with ij Cons.prems(2) show ?thesis by (simp add: distinct_within_def nth_append)
      next
        case False
        then have j: "j = length ks" using ij(1) by simp
        have "ks ! i \<in> set (tv_seen v)" unfolding Cons.prems(1) using ij j by (intro recent_keys) auto
        with d(3) j ij show ?thesis by (simp add: nth_append)
      qed
    qed
    from Cons.IH [OF s dw r] True out d(1,2) w show ?thesis by simp
  qed
qed simp

text \<open>Of any stream of ticks the validator passes only quotes that are not crossed and not stale, and none repeats one of the last
  \<open>window\<close> it passed.\<close>

theorem validated_ticks_fresh_and_new:
  assumes "validate_all ticks (validator_new stale window) = (out, v)"
  shows "distinct_within window (map (key_of \<circ> snd) out)
    \<and> list_all (\<lambda>(now, t). \<not> flt (tk_ask t) (tk_bid t)
         \<and> \<not> flt stale (fabs (total_seconds (dt_instant now - dt_instant (tk_timestamp t))))) out"
  using validate_all_inv [of "validator_new stale window" "[]" ticks out v] assms by (simp add: validator_new_def distinct_within_def)

definition demo_feed_tick :: "rat \<Rightarrow> tick_node" where
  "demo_feed_tick p = \<lparr>tk_symbol = ''XAUUSD'', tk_timestamp = aware_utc 0, tk_bid = Fin p, tk_ask = Fin (p + 1), tk_volume = 1,
     tk_sequence_id = 0, tk_trace_id = [], tk_correlation_id = [], tk_priority = NORMAL\<rparr>"

theorem validated_ticks_fresh_and_new_witness:
  "\<exists>v. validate_all [(aware_utc 0, demo_feed_tick 1), (aware_utc 0, demo_feed_tick 1), (aware_utc 0, demo_feed_tick 2)] (validator_new (Fin 5) 100)
      = ([(aware_utc 0, demo_feed_tick 1), (aware_utc 0, demo_feed_tick 2)], v)
    \<and> distinct_within 100 (map (key_of \<circ> snd) [(aware_utc 0, demo_feed_tick 1), (aware_utc 0, demo_feed_tick 2)])"
proof -
  let ?run = "validate_all [(aware_utc 0, demo_feed_tick 1), (aware_utc 0, demo_feed_tick 1), (aware_utc 0, demo_feed_tick 2)] (validator_new (Fin 5) 100)"
  have "fst ?run = [(aware_utc 0, demo_feed_tick 1), (aware_utc 0, demo_feed_tick 2)]"
    by (simp add: validate_tick_def validator_new_def demo_feed_tick_def aware_utc_def dt_instant_def total_seconds_def Let_def
        tick_key_eq_def dq_push_def feq_def dt_eq_def dt_comparable_def)
  then have r: "?run = ([(aware_utc 0, demo_feed_tick 1), (aware_utc 0, demo_feed_tick 2)], snd ?run)" by (metis prod.collapse)
  from r validated_ticks_fresh_and_new [OF r, THEN conjunct1] show ?thesis by blast
qed

text \<open>A NaN price passes every one of these tests: only the bounds check rejects it, and nothing calls that.\<close>

lemma nan_tick_passes:
  assumes "tk_bid t = NaN" "tk_timestamp t = now" "dt_off now = Some 0"
  shows "fst (validate_tick now t (validator_new (Fin 5) w))" and "\<not> validate_tick_bounds (tk_ask t) (tk_bid t)"
  using assms by (simp_all add: validate_tick_def validator_new_def Let_def total_seconds_def aware_utc_def dt_instant_def validate_tick_bounds_def)

subsection \<open>What the client delivers\<close>

definition numbered_ticks :: "ws_client \<Rightarrow> bool" where
  "numbered_ticks c \<longleftrightarrow> map tk_sequence_id (ws_queue c) = map int [1..<length (ws_queue c) + 1]"

lemma frame_tick_number: "frame_tick e it clock n f = Ok t \<Longrightarrow> tk_sequence_id t = int n"
  by (auto simp: frame_tick_def elim!: rbind_InrE simp: rmap_Inr_iff)

lemma ingest_frame_step:
  "ingest_frame e it clock f c = (r, c') \<Longrightarrow>
     ws_connected c' = ws_connected c \<and> ws_socket c' = ws_socket c \<and>
     (ws_queue c' = ws_queue c \<and> (is_ok r \<longrightarrow> ws_counter c' = ws_counter c)
      \<or> (\<exists>t. ws_queue c' = ws_queue c @ [t] \<and> tk_sequence_id t = int (ws_counter c + 1) \<and> ws_counter c' = ws_counter c + 1))"
  by (auto simp: ingest_frame_def Let_def dest: frame_tick_number split: sum.splits prod.splits if_splits)

lemma ingest_loop_numbers:
  assumes "ws_counter c = length (ws_queue c)" and "numbered_ticks c"
  shows "numbered_ticks (ingest_loop e it clock fs c)"
  using assms
proof (induction fs arbitrary: c)
  case (Cons f fs)
  obtain r c' where s: "ingest_frame e it clock f c = (r, c')" by fastforce
  have n: "numbered_ticks c'" using ingest_frame_step [OF s] Cons.prems by (auto simp: numbered_ticks_def)
  show ?case
  proof (cases r)
    case (Inl x)
    with s n show ?thesis by (simp add: ws_disconnect_def numbered_ticks_def)
  next
    case (Inr u)
    have "ws_counter c' = length (ws_queue c')" using ingest_frame_step [OF s] Cons.prems(1) Inr by auto
    with Cons.IH [OF _ n] s Inr show ?thesis by simp
  qed
qed simp

lemma stream_all_queue: "\<not> ws_connected c \<Longrightarrow> length (ws_queue c) < n \<Longrightarrow> stream_all n c = (ws_queue c, True)"
proof (induction n arbitrary: c)
  case (Suc n)
  then show ?case by (cases "ws_queue c") (auto simp: stream_ticks_def)
qed simp

text \<open>C31. A session numbers its ticks 1, 2, ... without a gap, whichever frames it skips or fails on; and once disconnected the
  stream hands out every queued tick, in order, and ends.\<close>

theorem feed_numbers_and_drains:
  "let c = start_ingest_loop e it clock frames (snd (ws_connect (Ok ()) ws_new)) in
     map tk_sequence_id (ws_queue c) = map int [1..<length (ws_queue c) + 1]
     \<and> stream_all (length (ws_queue c) + 1) (ws_disconnect c) = (ws_queue c, True)"
proof -
  let ?c0 = "snd (ws_connect (Ok ()) ws_new)"
  have c0: "ws_counter ?c0 = length (ws_queue ?c0)" "numbered_ticks ?c0" "ws_socket ?c0"
    by (simp_all add: ws_connect_def ws_new_def numbered_ticks_def)
  obtain c where c: "start_ingest_loop e it clock frames ?c0 = c" by simp
  have "numbered_ticks c"
    unfolding c [symmetric] start_ingest_loop_def using ingest_loop_numbers [OF c0(1,2)] c0(3) by simp
  moreover have "stream_all (length (ws_queue c) + 1) (ws_disconnect c) = (ws_queue c, True)"
    using stream_all_queue [of "ws_disconnect c" "length (ws_queue c) + 1"] by (simp add: ws_disconnect_def)
  ultimately show ?thesis unfolding c Let_def numbered_ticks_def by (rule conjI)
qed

text \<open>A frame that cannot be read ends the session: what follows it is not looked at.\<close>

lemma bad_frame_ends_session:
  assumes "fst (ingest_frame e it clock f c) = Raise x"
  shows "ingest_loop e it clock (f # fs) c = ws_disconnect (snd (ingest_frame e it clock f c))"
  using assms by (cases "ingest_frame e it clock f c") simp

text \<open>The bounds check passes exactly finite positive prices that are not crossed.\<close>

lemma bounds_check_exact:
  "validate_tick_bounds ask bid \<longleftrightarrow> (\<exists>a b. ask = Fin a \<and> bid = Fin b \<and> 0 < b \<and> b \<le> a)"
  by (cases ask; cases bid) (auto simp: validate_tick_bounds_def)

lemma simulated_clock:
  "get_utc_now clock (update_simulation_time t (set_simulation_mode t0 p)) = t" "get_utc_now clock (update_simulation_time t time_provider_new) = clock"
  by (simp_all add: get_utc_now_def update_simulation_time_def set_simulation_mode_def time_provider_new_def)

end
