(* ===== verification/StrategyBase.thy ===== *)
theory StrategyBase
  imports Selector PyStats
begin

section \<open>What the strategies share (src/strategy/ict_smc_strategies)\<close>

text \<open>
  The strategies read candles, pools and swings as dicts, with the same helper functions in every module: \<open>_get\<close>,
  \<open>_records\<close>, a \<open>_Candle\<close> with derived ratios, direction words. A row is a dict; a row of another type has none of
  the keys. \<open>px_int\<close> is \<open>int\<close> of a text.
\<close>

record ict_text = pytext +
  px_int :: "string \<Rightarrow> int res"

definition to_float :: "ict_text \<Rightarrow> pyval \<Rightarrow> pyfloat res" where
  "to_float e v = py_float (px_float e) v"

definition to_int :: "ict_text \<Rightarrow> pyval \<Rightarrow> int res" where
  "to_int e v = py_int (px_int e) v"

definition to_str :: "ict_text \<Rightarrow> pyval \<Rightarrow> string" where
  "to_str e v = py_str (px_show e) v"

lemma to_float_PFloat [simp]: "to_float e (PFloat x) = Ok x"
  by (simp add: to_float_def)

lemma to_int_PInt [simp]: "to_int e (PInt i) = Ok i"
  by (simp add: to_int_def)

lemma to_str_PStr [simp]: "to_str e (PStr s) = s"
  by (simp add: to_str_def)

text \<open>\<open>text.replace("Z", "+00:00")\<close>\<close>

definition replace_z :: "string \<Rightarrow> string" where
  "replace_z s = concat (map (\<lambda>c. if c = CHR ''Z'' then ''+00:00'' else [c]) s)"

text \<open>\<open>_get(row, k1, ..., default=d)\<close>: the first key whose value is not \<open>None\<close>.\<close>

fun py_get :: "pyval \<Rightarrow> string list \<Rightarrow> pyval \<Rightarrow> pyval" where
  "py_get v [] d = d"
| "py_get v (k # ks) d =
     (case v of PDict r \<Rightarrow> (case map_of r k of Some x \<Rightarrow> if x = PNone then py_get v ks d else x | None \<Rightarrow> py_get v ks d)
      | _ \<Rightarrow> py_get v ks d)"

declare py_get.simps [simp del]

text \<open>What a \<open>for\<close> loop runs over.\<close>

fun py_iter :: "pyval \<Rightarrow> pyval list res" where
  "py_iter (PList xs) = Ok xs"
| "py_iter (PDict d) = Ok (map (\<lambda>(k, _). PStr k) d)"
| "py_iter (PStr s) = Ok (map (\<lambda>c. PStr [c]) s)"
| "py_iter _ = Raise TypeError"

definition records_of :: "pyval \<Rightarrow> pyval list res" where
  "records_of rows = (if py_truthy rows then py_iter rows else Ok [])"

text \<open>\<open>float(d.get(k, v))\<close> and \<open>int(d.get(k, v))\<close>.\<close>

definition cfg_float :: "ict_text \<Rightarrow> pydict \<Rightarrow> string \<Rightarrow> pyfloat \<Rightarrow> pyfloat res" where
  "cfg_float e d k v = to_float e (pget d k (PFloat v))"

definition cfg_int :: "ict_text \<Rightarrow> pydict \<Rightarrow> string \<Rightarrow> int \<Rightarrow> int res" where
  "cfg_int e d k v = to_int e (pget d k (PInt v))"

definition cfg_str :: "ict_text \<Rightarrow> pydict \<Rightarrow> string \<Rightarrow> string \<Rightarrow> string" where
  "cfg_str e d k v = to_str e (pget d k (PStr v))"

text \<open>Each item once, in order of its first occurrence; empty texts are dropped.\<close>

fun dedupe_from :: "string list \<Rightarrow> string list \<Rightarrow> string list" where
  "dedupe_from seen [] = []"
| "dedupe_from seen (x # xs) = (if x \<noteq> [] \<and> x \<notin> set seen then x # dedupe_from (x # seen) xs else dedupe_from seen xs)"

lemma dedupe_from_set: "set (dedupe_from seen xs) = set xs - set seen - {[]}"
  by (induction seen xs rule: dedupe_from.induct) auto

lemma dedupe_from_distinct: "distinct (dedupe_from seen xs)"
  by (induction seen xs rule: dedupe_from.induct) (auto simp: dedupe_from_set)

subsection \<open>Loops that may raise\<close>

fun res_fold :: "('a \<Rightarrow> 's \<Rightarrow> 's res) \<Rightarrow> 'a list \<Rightarrow> 's \<Rightarrow> 's res" where
  "res_fold f [] s = Ok s"
| "res_fold f (x # xs) s = rbind (f x s) (res_fold f xs)"

fun res_any :: "('a \<Rightarrow> bool res) \<Rightarrow> 'a list \<Rightarrow> bool res" where
  "res_any p [] = Ok False"
| "res_any p (x # xs) = rbind (p x) (\<lambda>b. if b then Ok True else res_any p xs)"

lemma res_mapD: "res_map f xs = Ok ys \<Longrightarrow> list_all2 (\<lambda>x y. f x = Ok y) xs ys"
  by (induction xs arbitrary: ys) (auto simp: rmap_Inr_iff elim!: rbind_InrE)

lemma res_map_in: "res_map f xs = Ok ys \<Longrightarrow> y \<in> set ys \<Longrightarrow> \<exists>x\<in>set xs. f x = Ok y"
  by (induction xs arbitrary: ys) (auto simp: rmap_Inr_iff elim!: rbind_InrE)

lemma res_foldI:
  assumes step: "\<And>x s s'. x \<in> set xs \<Longrightarrow> P s \<Longrightarrow> f x s = Ok s' \<Longrightarrow> P s'"
  shows "P s \<Longrightarrow> res_fold f xs s = Ok s' \<Longrightarrow> P s'"
  using step by (induction xs arbitrary: s) (auto elim!: rbind_InrE)

subsection \<open>Candles\<close>

record ict_candle =
  ic_position :: int
  ic_index :: int
  ic_time :: pyval
  ic_open :: pyfloat
  ic_high :: pyfloat
  ic_low :: pyfloat
  ic_close :: pyfloat
  ic_volume :: pyfloat
  ic_closed :: bool

definition ic_range :: "ict_candle \<Rightarrow> pyfloat" where
  "ic_range c = py_max (fsub (ic_high c) (ic_low c)) (lit (1 / 1000000000))"

definition ic_body :: "ict_candle \<Rightarrow> pyfloat" where
  "ic_body c = fabs (fsub (ic_close c) (ic_open c))"

definition ic_bullish :: "ict_candle \<Rightarrow> bool" where
  "ic_bullish c = flt (ic_open c) (ic_close c)"

definition ic_bearish :: "ict_candle \<Rightarrow> bool" where
  "ic_bearish c = flt (ic_close c) (ic_open c)"

definition ic_bull_close :: "ict_candle \<Rightarrow> pyfloat" where
  "ic_bull_close c = fdiv (fsub (ic_close c) (ic_low c)) (ic_range c)"

definition ic_bear_close :: "ict_candle \<Rightarrow> pyfloat" where
  "ic_bear_close c = fdiv (fsub (ic_high c) (ic_close c)) (ic_range c)"

text \<open>\<open>_closed_candles\<close>: \<open>i\<close> counts the rows, \<open>n\<close> the candles read.\<close>

definition read_candle :: "ict_text \<Rightarrow> nat \<Rightarrow> nat \<Rightarrow> pyval \<Rightarrow> ict_candle res" where
  "read_candle e i n row =
     rbind (to_int e (py_get row [''index''] (PInt (int i)))) (\<lambda>index.
     rbind (to_float e (py_get row [''open''] (PFloat (Fin 0)))) (\<lambda>op.
     rbind (to_float e (py_get row [''high''] (PFloat (Fin 0)))) (\<lambda>hi.
     rbind (to_float e (py_get row [''low''] (PFloat (Fin 0)))) (\<lambda>lo.
     rbind (to_float e (py_get row [''close''] (PFloat (Fin 0)))) (\<lambda>cl.
     rbind (to_float e (py_get row [''volume''] (PFloat (Fin 0)))) (\<lambda>vol.
     Ok \<lparr>ic_position = int n, ic_index = index, ic_time = py_get row [''timestamp'', ''time''] (PInt (int i)), ic_open = op,
         ic_high = hi, ic_low = lo, ic_close = cl, ic_volume = vol, ic_closed = True\<rparr>))))))"

fun closed_from :: "ict_text \<Rightarrow> nat \<Rightarrow> nat \<Rightarrow> pyval list \<Rightarrow> ict_candle list res" where
  "closed_from e i n [] = Ok []"
| "closed_from e i n (row # rows) =
     (if py_truthy (py_get row [''is_closed'', ''closed''] (PBool True))
      then rbind (read_candle e i n row) (\<lambda>c. rmap ((#) c) (closed_from e (Suc i) (Suc n) rows))
      else closed_from e (Suc i) n rows)"

definition closed_candles :: "ict_text \<Rightarrow> pyval \<Rightarrow> ict_candle list res" where
  "closed_candles e rows = rbind (records_of rows) (\<lambda>rs. rmap (sort_by (\<lambda>a b. ic_index a < ic_index b)) (closed_from e 0 0 rs))"

text \<open>The true ranges and their mean over the last \<open>period\<close> candles; a period of zero or less slices as Python does.\<close>

definition max3 :: "pyfloat \<Rightarrow> pyfloat \<Rightarrow> pyfloat \<Rightarrow> pyfloat" where
  "max3 a b c = py_max (py_max a b) c"

fun true_ranges :: "pyfloat \<Rightarrow> ict_candle list \<Rightarrow> pyfloat list" where
  "true_ranges previous [] = []"
| "true_ranges previous (c # cs) =
     max3 (fsub (ic_high c) (ic_low c)) (fabs (fsub (ic_high c) previous)) (fabs (fsub (ic_low c) previous))
       # true_ranges (ic_close c) cs"

definition last_slice :: "int \<Rightarrow> 'a list \<Rightarrow> 'a list" where
  "last_slice period xs =
     (if period \<le> int (length xs) then if 0 < period then drop (length xs - nat period) xs else drop (nat (- period)) xs else xs)"

definition ict_atr :: "ict_candle list \<Rightarrow> int \<Rightarrow> pyfloat" where
  "ict_atr cs period =
     (case cs of [] \<Rightarrow> Fin 0
      | c # _ \<Rightarrow> (let sel = last_slice period (true_ranges (ic_close c) cs) in if sel = [] then Fin 0 else py_mean sel))"

subsection \<open>Directions\<close>

datatype bias = Bullish | Bearish | NoBias

fun bias_value :: "bias \<Rightarrow> string" where
  "bias_value Bullish = ''bullish''"
| "bias_value Bearish = ''bearish''"
| "bias_value NoBias = ''none''"

definition read_bias :: "ict_text \<Rightarrow> pyval \<Rightarrow> bias" where
  "read_bias e v =
     (let t = py_lower (to_str e (py_or v (PStr [])))
      in if t \<in> {''bullish'', ''buy'', ''long''} then Bullish else if t \<in> {''bearish'', ''sell'', ''short''} then Bearish else NoBias)"

lemma closed_candles_sorted: "closed_candles e rows = Ok cs \<Longrightarrow> sorted (map ic_index cs)"
proof -
  assume "closed_candles e rows = Ok cs"
  then obtain ds where "cs = sort_by (\<lambda>a b. ic_index a < ic_index b) ds"
    by (auto simp: closed_candles_def rmap_Inr_iff elim!: rbind_InrE)
  then have "sorted_wrt (\<lambda>a b. \<not> ic_index b < ic_index a) cs" by (auto intro: sort_by_sorted)
  then show ?thesis by (simp add: sorted_wrt_map not_less)
qed

subsection \<open>Behind the selector\<close>

text \<open>What a tradeable evaluation says of the payload its generator returned.\<close>

lemma tradeable_signal:
  assumes "evaluate_one t context config d = Ok ev" "is_tradeable ev"
  obtains signal ev0 where "sd_generator d context config = Ok signal" "read_signal t d signal = Ok ev0"
    "py_truthy (pget signal ''trade_allowed'' PNone) \<or> py_truthy (nested signal ''score.trade_allowed'')"
    "ev_direction ev = ev_direction ev0" "ev_entry_price ev = ev_entry_price ev0" "ev_stop_loss ev = ev_stop_loss ev0"
    "ev_take_profit ev = ev_take_profit ev0" "ev_normalized_score ev = ev_normalized_score ev0" "ev_estimated_rr ev = ev_estimated_rr ev0"
proof -
  from assms obtain signal ev0 cfg where g: "sd_generator d context config = Ok signal" "read_signal t d signal = Ok ev0"
      "judge_signal t d cfg ev0 = Ok ev"
    unfolding evaluate_one_def Let_def by (auto split: if_splits prod.splits sum.splits elim!: rbind_InrE)
  have s: "ev_signal ev0 = signal" using read_signalD [OF g(2)] by simp
  have "ev_status ev0 = ''REJECTED''" using g(2) by (auto simp: read_signal_def Let_def elim!: rbind_InrE)
  moreover have "ev_status ev = ''TRADEABLE''" using assms(2) by (simp add: is_tradeable_def)
  ultimately have "py_truthy (pget signal ''trade_allowed'' PNone) \<or> py_truthy (nested signal ''score.trade_allowed'')"
    and "ev_direction ev = ev_direction ev0" "ev_entry_price ev = ev_entry_price ev0" "ev_stop_loss ev = ev_stop_loss ev0"
      "ev_take_profit ev = ev_take_profit ev0" "ev_normalized_score ev = ev_normalized_score ev0" "ev_estimated_rr ev = ev_estimated_rr ev0"
    using g(3) s by (auto simp: judge_signal_def rmap_Inr_iff split: if_splits)
  with that g(1,2) show thesis by blast
qed

lemma is_number_simps: "is_number t (PFloat x) = Ok True" "is_number t PNone = Ok False" "is_number t (PDict r) = Ok False"
  by (simp_all add: is_number_def)

text \<open>The words a signal's direction is written in.\<close>

lemma bias_words: "py_lower ''bullish'' = ''bullish''" "py_lower ''bearish'' = ''bearish''"
  by code_simp+

end
