(* ===== verification/SweepMssFvg.thy ===== *)
theory SweepMssFvg
  imports StrategyBase
begin

section \<open>Liquidity sweep, structure shift, gap (src/strategy/ict_smc_strategies/sweep_mss_fvg_entry.py)\<close>

text \<open>
  The strategy searches for a sweep of a liquidity pool, a close through a swing after it (MSS), a strong candle
  (displacement), a three-candle gap (FVG), and a return into the gap; then it places stop and target and scores the setup.
  Each detector is a function of the configuration and the closed candles; the events it returns are records, turned into
  the dicts of the code by the \<open>payload\<close> functions. The detectors convert their configuration again, which changes
  nothing (lemma \<open>config_again\<close>).
\<close>

subsection \<open>Configuration\<close>

record smf_config =
  q_atr_period :: int
  q_sweep_buffer :: pyval
  q_sweep_buffer_atr :: pyfloat
  q_break_buffer :: pyval
  q_break_buffer_atr :: pyfloat
  q_min_quality :: pyfloat
  q_mss_wait :: int
  q_disp_body :: pyfloat
  q_disp_range :: pyfloat
  q_disp_close :: pyfloat
  q_disp_wait :: int
  q_min_fvg :: pyfloat
  q_max_fvg :: pyfloat
  q_news_max_fvg :: pyfloat
  q_retest_expiry :: int
  q_entry_mode :: string
  q_fvg_after_disp :: int
  q_stop_atr :: pyfloat
  q_spread_mult :: pyfloat
  q_max_spread :: pyfloat
  q_min_rr :: pyfloat
  q_min_score :: pyfloat
  q_setup_tf :: string
  q_entry_tf :: string

definition smf_read_config :: "ict_text \<Rightarrow> pydict \<Rightarrow> smf_config res" where
  "smf_read_config e d =
     rbind (cfg_int e d ''atr_period'' 14) (\<lambda>atr.
     rbind (cfg_float e d ''sweep_buffer_atr_multiplier'' (lit (2/100))) (\<lambda>swb.
     rbind (cfg_float e d ''break_buffer_atr_multiplier'' (lit (1/100))) (\<lambda>brb.
     rbind (cfg_float e d ''minimum_liquidity_quality'' (Fin 0)) (\<lambda>mlq.
     rbind (cfg_int e d ''max_mss_wait_candles'' 12) (\<lambda>mw.
     rbind (cfg_float e d ''displacement_min_body_to_range'' (lit (55/100))) (\<lambda>db.
     rbind (cfg_float e d ''displacement_min_range_to_atr'' (Fin 1)) (\<lambda>dr.
     rbind (cfg_float e d ''displacement_min_close_position'' (lit (70/100))) (\<lambda>dc.
     rbind (cfg_int e d ''max_displacement_wait_candles'' 4) (\<lambda>dw.
     rbind (cfg_float e d ''min_fvg_size'' (lit (1/100))) (\<lambda>mnf.
     rbind (cfg_float e d ''max_fvg_size'' (Fin 0)) (\<lambda>mxf.
     rbind (cfg_float e d ''news_max_fvg_size'' (Fin 8)) (\<lambda>nmf.
     rbind (cfg_int e d ''fvg_retest_expiry_candles'' 12) (\<lambda>rex.
     rbind (cfg_int e d ''max_fvg_after_displacement_candles'' 2) (\<lambda>fad.
     rbind (cfg_float e d ''stop_atr_buffer_multiplier'' (lit (5/100))) (\<lambda>sab.
     rbind (cfg_float e d ''spread_buffer_multiplier'' (Fin 1)) (\<lambda>sbm.
     rbind (cfg_float e d ''max_spread_points'' (Fin 1)) (\<lambda>msp.
     rbind (cfg_float e d ''min_rr'' (Fin 2)) (\<lambda>mrr.
     rbind (cfg_float e d ''minimum_setup_score'' (Fin (15/2))) (\<lambda>mss.
     Ok \<lparr>q_atr_period = atr, q_sweep_buffer = pget d ''sweep_buffer'' PNone, q_sweep_buffer_atr = swb,
         q_break_buffer = pget d ''break_buffer'' PNone, q_break_buffer_atr = brb, q_min_quality = mlq, q_mss_wait = mw,
         q_disp_body = db, q_disp_range = dr, q_disp_close = dc, q_disp_wait = dw, q_min_fvg = mnf, q_max_fvg = mxf,
         q_news_max_fvg = nmf, q_retest_expiry = rex, q_entry_mode = py_lower (cfg_str e d ''entry_mode'' ''balanced''),
         q_fvg_after_disp = fad, q_stop_atr = sab, q_spread_mult = sbm, q_max_spread = msp, q_min_rr = mrr, q_min_score = mss,
         q_setup_tf = cfg_str e d ''setup_timeframe'' ''1m'', q_entry_tf = cfg_str e d ''entry_timeframe'' ''1m''\<rparr>)))))))))))))))))))"

definition smf_config_dict :: "smf_config \<Rightarrow> pydict" where
  "smf_config_dict c =
     [(''atr_period'', PInt (q_atr_period c)), (''sweep_buffer'', q_sweep_buffer c),
      (''sweep_buffer_atr_multiplier'', PFloat (q_sweep_buffer_atr c)), (''break_buffer'', q_break_buffer c),
      (''break_buffer_atr_multiplier'', PFloat (q_break_buffer_atr c)), (''minimum_liquidity_quality'', PFloat (q_min_quality c)),
      (''max_mss_wait_candles'', PInt (q_mss_wait c)), (''displacement_min_body_to_range'', PFloat (q_disp_body c)),
      (''displacement_min_range_to_atr'', PFloat (q_disp_range c)), (''displacement_min_close_position'', PFloat (q_disp_close c)),
      (''max_displacement_wait_candles'', PInt (q_disp_wait c)), (''min_fvg_size'', PFloat (q_min_fvg c)),
      (''max_fvg_size'', PFloat (q_max_fvg c)), (''news_max_fvg_size'', PFloat (q_news_max_fvg c)),
      (''fvg_retest_expiry_candles'', PInt (q_retest_expiry c)), (''entry_mode'', PStr (q_entry_mode c)),
      (''max_fvg_after_displacement_candles'', PInt (q_fvg_after_disp c)), (''stop_atr_buffer_multiplier'', PFloat (q_stop_atr c)),
      (''spread_buffer_multiplier'', PFloat (q_spread_mult c)), (''max_spread_points'', PFloat (q_max_spread c)),
      (''min_rr'', PFloat (q_min_rr c)), (''minimum_setup_score'', PFloat (q_min_score c)), (''setup_timeframe'', PStr (q_setup_tf c)),
      (''entry_timeframe'', PStr (q_entry_tf c))]"

text \<open>\<open>_configured_buffer\<close>; a value that is a list or a dict raises \<open>TypeError\<close> in the test and in the conversion alike.\<close>

definition configured_buffer :: "ict_text \<Rightarrow> pyval \<Rightarrow> pyfloat \<Rightarrow> pyfloat res" where
  "configured_buffer e v dflt = (if v = PNone \<or> v = PStr [] then Ok dflt else to_float e v)"

definition q_clamp :: "pyfloat \<Rightarrow> pyfloat" where
  "q_clamp v = py_max (Fin 0) (py_min (Fin 10) v)"

lemma q_clamp_range: "fle (Fin 0) (q_clamp v) \<and> fle (q_clamp v) (Fin 10)"
  unfolding q_clamp_def by (rule clamp_range) simp

subsection \<open>Pools\<close>

definition opt_to_float :: "ict_text \<Rightarrow> pyval \<Rightarrow> pyfloat option res" where
  "opt_to_float e v = (if v = PNone then Ok None else rmap Some (to_float e v))"

definition opt_val :: "pyfloat option \<Rightarrow> pyval" where
  "opt_val x = (case x of None \<Rightarrow> PNone | Some f \<Rightarrow> PFloat f)"

definition pool_bounds :: "ict_text \<Rightarrow> pyval \<Rightarrow> (pyfloat \<times> pyfloat) res" where
  "pool_bounds e pool =
     rbind (opt_to_float e (py_get pool [''price''] PNone)) (\<lambda>price.
     rbind (opt_to_float e (py_get pool [''zone_low''] (opt_val price))) (\<lambda>low.
     rbind (opt_to_float e (py_get pool [''zone_high''] (opt_val price))) (\<lambda>high.
     case (low, high) of
       (Some l, Some h) \<Rightarrow> Ok (py_min l h, py_max l h)
     | _ \<Rightarrow> Raise (ValueError ''liquidity pool requires price or zone_low/zone_high''))))"

definition pool_swept :: "ict_text \<Rightarrow> pyval \<Rightarrow> bool" where
  "pool_swept e pool = (py_lower (to_str e (py_get pool [''swept_status'', ''status''] (PStr ''active'')))
     \<in> {''swept'', ''already_swept'', ''fully_swept'', ''cleared'', ''inactive''})"

definition pool_side :: "ict_text \<Rightarrow> pyval \<Rightarrow> string" where
  "pool_side e pool = py_lower (to_str e (py_get pool [''direction'', ''side''] (PStr [])))"

subsection \<open>Sweeps\<close>

record smf_sweep =
  w_id :: string
  w_bias :: bias
  w_side :: string
  w_pool_id :: pyval
  w_pool_type :: pyval
  w_index :: int
  w_time :: pyval
  w_extreme :: pyfloat
  w_low :: pyfloat
  w_high :: pyfloat
  w_level :: pyfloat
  w_reclaim :: string
  w_quality :: pyfloat

definition sweep_quality :: "pyfloat \<Rightarrow> pyfloat \<Rightarrow> pyfloat \<Rightarrow> pyfloat" where
  "sweep_quality depth atr quality =
     q_clamp (fadd (fadd (Fin 6) (fdiv depth (py_max atr (lit (1 / 1000000000))))) (fmul quality (Fin (1/4))))"

definition sell_sweep :: "ict_text \<Rightarrow> pyfloat \<Rightarrow> ict_candle \<Rightarrow> pyval \<Rightarrow> pyfloat \<Rightarrow> pyfloat \<Rightarrow> pyfloat \<Rightarrow> smf_sweep" where
  "sell_sweep e atr c pool quality zl zh =
     \<lparr>w_id = ''SWEEP_SELL_SIDE_'' @ int_str (ic_index c) @ ''_'' @ to_str e (py_get pool [''liquidity_id'', ''pool''] (PStr ''pool'')),
      w_bias = Bullish, w_side = ''sell_side'', w_pool_id = py_get pool [''liquidity_id'', ''id''] (PStr ''unknown''),
      w_pool_type = py_get pool [''liquidity_type'', ''type''] (PStr ''sell_side_liquidity''), w_index = ic_index c, w_time = ic_time c,
      w_extreme = ic_low c, w_low = ic_low c, w_high = ic_high c, w_level = zl,
      w_reclaim = (if flt zh (ic_close c) then ''reclaimed_zone_high'' else ''reclaimed_swept_level''),
      w_quality = py_round (sweep_quality (fsub zl (ic_low c)) atr quality) 2\<rparr>"

definition buy_sweep :: "ict_text \<Rightarrow> pyfloat \<Rightarrow> ict_candle \<Rightarrow> pyval \<Rightarrow> pyfloat \<Rightarrow> pyfloat \<Rightarrow> pyfloat \<Rightarrow> smf_sweep" where
  "buy_sweep e atr c pool quality zl zh =
     \<lparr>w_id = ''SWEEP_BUY_SIDE_'' @ int_str (ic_index c) @ ''_'' @ to_str e (py_get pool [''liquidity_id'', ''pool''] (PStr ''pool'')),
      w_bias = Bearish, w_side = ''buy_side'', w_pool_id = py_get pool [''liquidity_id'', ''id''] (PStr ''unknown''),
      w_pool_type = py_get pool [''liquidity_type'', ''type''] (PStr ''buy_side_liquidity''), w_index = ic_index c, w_time = ic_time c,
      w_extreme = ic_high c, w_low = ic_low c, w_high = ic_high c, w_level = zh,
      w_reclaim = (if flt (ic_close c) zl then ''rejected_zone_low'' else ''rejected_swept_level''),
      w_quality = py_round (sweep_quality (fsub (ic_high c) zh) atr quality) 2\<rparr>"

definition sweeps_of :: "ict_text \<Rightarrow> smf_config \<Rightarrow> pyfloat \<Rightarrow> pyfloat \<Rightarrow> ict_candle \<Rightarrow> pyval \<Rightarrow> smf_sweep list res" where
  "sweeps_of e q atr buffer c pool =
     (if pool_swept e pool then Ok []
      else rbind (to_float e (py_get pool [''quality_score''] (PFloat (Fin 5)))) (\<lambda>quality.
        if flt quality (q_min_quality q) then Ok []
        else rbind (pool_bounds e pool) (\<lambda>(zl, zh).
          Ok ((if pool_side e pool = ''sell_side'' \<and> flt (ic_low c) (fsub zl buffer) \<and> flt zl (ic_close c)
               then [sell_sweep e atr c pool quality zl zh] else [])
            @ (if pool_side e pool = ''buy_side'' \<and> flt (fadd zh buffer) (ic_high c) \<and> flt (ic_close c) zh
               then [buy_sweep e atr c pool quality zl zh] else [])))))"

definition sweep_key :: "smf_sweep \<Rightarrow> smf_sweep \<Rightarrow> bool" where
  "sweep_key a b = (w_index a < w_index b \<or> w_index a = w_index b \<and> flt (w_quality a) (w_quality b))"

definition smf_detect_sweeps :: "ict_text \<Rightarrow> smf_config \<Rightarrow> ict_candle list \<Rightarrow> pyval \<Rightarrow> smf_sweep list res" where
  "smf_detect_sweeps e q cs pools =
     (let atr = ict_atr cs (q_atr_period q)
      in rbind (configured_buffer e (q_sweep_buffer q) (fmul atr (q_sweep_buffer_atr q))) (\<lambda>buffer.
         rmap (\<lambda>per_candle. sort_desc sweep_key (concat (map concat per_candle)))
           (res_map (\<lambda>c. rbind (py_iter pools) (res_map (sweeps_of e q atr buffer c))) cs)))"

subsection \<open>Swings and the structure shift\<close>

record smf_swing =
  v_id :: string
  v_high :: bool
  v_index :: int
  v_price :: pyfloat

definition swing_kind :: "ict_text \<Rightarrow> pyval \<Rightarrow> bool option" where
  "swing_kind e swing =
     (let kind = py_lower (to_str e (py_get swing [''kind'', ''type'', ''swing_type''] (PStr [])))
      in if has_sub ''high'' kind then Some True else if has_sub ''low'' kind then Some False else None)"

definition given_swing :: "ict_text \<Rightarrow> pyval \<Rightarrow> smf_swing list res" where
  "given_swing e swing =
     (case swing_kind e swing of
        None \<Rightarrow> Ok []
      | Some high \<Rightarrow>
          if \<not> py_truthy (py_get swing [''confirmed''] (PBool True)) then Ok []
          else rbind (to_int e (py_get swing [''index'', ''candle_index''] (PInt 0))) (\<lambda>index.
               rbind (to_float e (py_get swing [''price'', ''level''] (PFloat (Fin 0)))) (\<lambda>price.
               Ok [\<lparr>v_id = to_str e (py_get swing [''swing_id'', ''id'']
                        (PStr (''SWING_'' @ (if high then ''high'' else ''low'') @ ''_'' @ to_str e (py_get swing [''index''] (PInt 0))))),
                    v_high = high, v_index = index, v_price = price\<rparr>])))"

fun derived_swings :: "ict_candle list \<Rightarrow> smf_swing list" where
  "derived_swings (p # c # f # cs) =
     (if flt (ic_high p) (ic_high c) \<and> flt (ic_high f) (ic_high c)
      then [\<lparr>v_id = ''SWING_HIGH_'' @ int_str (ic_index c), v_high = True, v_index = ic_index c, v_price = ic_high c\<rparr>] else [])
     @ (if flt (ic_low c) (ic_low p) \<and> flt (ic_low c) (ic_low f)
        then [\<lparr>v_id = ''SWING_LOW_'' @ int_str (ic_index c), v_high = False, v_index = ic_index c, v_price = ic_low c\<rparr>] else [])
     @ derived_swings (c # f # cs)"
| "derived_swings _ = []"

definition confirmed_swings :: "ict_text \<Rightarrow> ict_candle list \<Rightarrow> pyval \<Rightarrow> smf_swing list res" where
  "confirmed_swings e cs swings =
     (if py_truthy swings then rbind (py_iter swings) (\<lambda>xs. rmap concat (res_map (given_swing e) xs)) else Ok (derived_swings cs))"

record smf_mss =
  m_bias :: bias
  m_level :: pyfloat
  m_swing_id :: string
  m_swing_index :: int
  m_index :: int
  m_time :: pyval
  m_quality :: pyfloat

definition breaks_swing :: "bias \<Rightarrow> pyfloat \<Rightarrow> smf_swing \<Rightarrow> ict_candle \<Rightarrow> bool" where
  "breaks_swing dir buffer s c =
     (case dir of Bullish \<Rightarrow> flt (fadd (v_price s) buffer) (ic_close c) | Bearish \<Rightarrow> flt (ic_close c) (fsub (v_price s) buffer) | NoBias \<Rightarrow> False)"

definition mss_event :: "bias \<Rightarrow> smf_swing \<Rightarrow> ict_candle \<Rightarrow> pyfloat \<Rightarrow> smf_mss" where
  "mss_event dir s c buffer =
     \<lparr>m_bias = dir, m_level = v_price s, m_swing_id = v_id s, m_swing_index = v_index s, m_index = ic_index c, m_time = ic_time c,
      m_quality = py_round (q_clamp (fadd (Fin 7)
        (fmul (fdiv (fabs (fsub (ic_close c) (v_price s))) (py_max buffer (lit (1/100)))) (lit (15/100))))) 2\<rparr>"

fun first_break :: "bias \<Rightarrow> pyfloat \<Rightarrow> int \<Rightarrow> ict_candle list \<Rightarrow> smf_swing list \<Rightarrow> smf_mss option" where
  "first_break dir buffer limit cs [] = None"
| "first_break dir buffer limit cs (s # ss) =
     (case find (\<lambda>c. v_index s < ic_index c \<and> ic_index c \<le> limit \<and> breaks_swing dir buffer s c) cs of
        Some c \<Rightarrow> Some (mss_event dir s c buffer)
      | None \<Rightarrow> first_break dir buffer limit cs ss)"

definition smf_detect_mss :: "ict_text \<Rightarrow> smf_config \<Rightarrow> ict_candle list \<Rightarrow> pyval \<Rightarrow> smf_sweep \<Rightarrow> smf_mss option res" where
  "smf_detect_mss e q cs swings sweep =
     (if w_bias sweep = NoBias then Ok None
      else rbind (configured_buffer e (q_break_buffer q) (fmul (ict_atr cs (q_atr_period q)) (q_break_buffer_atr q))) (\<lambda>buffer.
        rmap (\<lambda>ss.
          let limit = w_index sweep + q_mss_wait q;
              wanted = filter (\<lambda>s. v_high s = (w_bias sweep = Bullish) \<and> w_index sweep < v_index s \<and> v_index s \<le> limit) ss
          in first_break (w_bias sweep) buffer limit cs (sort_by (\<lambda>a b. v_index a < v_index b) wanted))
        (confirmed_swings e cs swings)))"

subsection \<open>Displacement\<close>

datatype atr_input = AtrNone | AtrValue pyfloat | AtrSeq "pyfloat list" | AtrMap "(int \<times> pyfloat) list"

definition atr_from_input :: "smf_config \<Rightarrow> ict_candle list \<Rightarrow> atr_input \<Rightarrow> int \<Rightarrow> pyfloat" where
  "atr_from_input q cs a start =
     (let own = ict_atr cs (q_atr_period q)
      in case a of
           AtrMap m \<Rightarrow> (case map_of m start of None \<Rightarrow> own | Some x \<Rightarrow> x)
         | AtrSeq xs \<Rightarrow> if xs = [] then own else xs ! nat (min (int (length xs) - 1) (max 0 start))
         | AtrValue x \<Rightarrow> x
         | AtrNone \<Rightarrow> own)"

record smf_displacement =
  d_bias :: bias
  d_start :: int
  d_end :: int
  d_body_ratio :: pyfloat
  d_range_ratio :: pyfloat
  d_close_score :: pyfloat
  d_strength :: pyfloat
  d_fvg :: bool

definition fvg_near :: "ict_candle list \<Rightarrow> int \<Rightarrow> bias \<Rightarrow> bool" where
  "fvg_near cs index dir =
     (case (find (\<lambda>c. ic_index c = index - 2) (rev cs), find (\<lambda>c. ic_index c = index) (rev cs)) of
        (Some c1, Some c3) \<Rightarrow> if dir = Bullish then flt (ic_high c1) (ic_low c3) else flt (ic_high c3) (ic_low c1)
      | _ \<Rightarrow> False)"

definition body_ratio :: "ict_candle \<Rightarrow> pyfloat" where
  "body_ratio c = fdiv (ic_body c) (ic_range c)"

definition range_ratio :: "pyfloat \<Rightarrow> ict_candle \<Rightarrow> pyfloat" where
  "range_ratio atr c = fdiv (ic_range c) (py_max atr (lit (1 / 1000000000)))"

definition close_score :: "bias \<Rightarrow> ict_candle \<Rightarrow> pyfloat" where
  "close_score dir c = (if dir = Bullish then ic_bull_close c else ic_bear_close c)"

definition displaces :: "smf_config \<Rightarrow> bias \<Rightarrow> pyfloat \<Rightarrow> ict_candle \<Rightarrow> bool" where
  "displaces q dir atr c =
     ((if dir = Bullish then ic_bullish c else ic_bearish c) \<and> fle (q_disp_body q) (body_ratio c)
      \<and> fle (q_disp_range q) (range_ratio atr c) \<and> fle (q_disp_close q) (close_score dir c))"

definition smf_detect_displacement ::
  "smf_config \<Rightarrow> ict_candle list \<Rightarrow> int \<Rightarrow> bias \<Rightarrow> atr_input \<Rightarrow> smf_displacement option" where
  "smf_detect_displacement q cs start dir a =
     (if dir = NoBias then None
      else let atr = atr_from_input q cs a start in
        map_option (\<lambda>c.
          \<lparr>d_bias = dir, d_start = start, d_end = ic_index c, d_body_ratio = py_round (body_ratio c) 3,
           d_range_ratio = py_round (range_ratio atr c) 3, d_close_score = py_round (close_score dir c) 3,
           d_strength = py_round (q_clamp (fadd (fadd (fmul (body_ratio c) (Fin 3)) (fmul (py_min (range_ratio atr c) (Fin 3)) (Fin (3/2))))
              (fmul (close_score dir c) (Fin 2)))) 2,
           d_fvg = fvg_near cs (ic_index c) dir\<rparr>)
          (find (\<lambda>c. start \<le> ic_index c \<and> ic_index c \<le> start + q_disp_wait q \<and> displaces q dir atr c) cs))"

subsection \<open>Gaps\<close>

record smf_fvg =
  g_id :: string
  g_bias :: bias
  g_low :: pyfloat
  g_high :: pyfloat
  g_mid :: pyfloat
  g_size :: pyfloat
  g_index :: int
  g_time :: pyval
  g_first :: int
  g_second :: int
  g_quality :: pyfloat

definition fvg_event :: "smf_config \<Rightarrow> bias \<Rightarrow> ict_candle \<Rightarrow> ict_candle \<Rightarrow> ict_candle \<Rightarrow> pyfloat \<Rightarrow> pyfloat \<Rightarrow> smf_fvg" where
  "fvg_event q dir c1 c2 c3 zl zh =
     (let size = fsub zh zl;
          q1 = fadd (Fin 6) (py_min (fmul (body_ratio c2) (Fin 3)) (Fin 2));
          q2 = (if fle (q_min_fvg q) size then fadd q1 (Fin (3/4)) else q1);
          q3 = (if flt (Fin 0) (q_max_fvg q) \<and> flt (q_max_fvg q) size then fsub q2 (Fin (3/2)) else q2)
      in \<lparr>g_id = py_upper (bias_value dir) @ ''_FVG_'' @ int_str (ic_index c3), g_bias = dir, g_low = py_round zl 5, g_high = py_round zh 5,
          g_mid = py_round (fdiv (fadd zl zh) (Fin 2)) 5, g_size = py_round size 5, g_index = ic_index c3, g_time = ic_time c3,
          g_first = ic_index c1, g_second = ic_index c2, g_quality = py_round (q_clamp q3) 2\<rparr>)"

fun gaps :: "smf_config \<Rightarrow> ict_candle list \<Rightarrow> smf_fvg list" where
  "gaps q (c1 # c2 # c3 # cs) =
     (if flt (ic_high c1) (ic_low c3) then [fvg_event q Bullish c1 c2 c3 (ic_high c1) (ic_low c3)] else [])
     @ (if flt (ic_high c3) (ic_low c1) then [fvg_event q Bearish c1 c2 c3 (ic_high c3) (ic_low c1)] else [])
     @ gaps q (c2 # c3 # cs)"
| "gaps q _ = []"

definition smf_detect_fvg :: "smf_config \<Rightarrow> ict_candle list \<Rightarrow> smf_fvg list" where
  "smf_detect_fvg q cs =
     filter (\<lambda>g. fle (q_min_fvg q) (g_size g) \<and> (fle (q_max_fvg q) (Fin 0) \<or> fle (g_size g) (q_max_fvg q))) (gaps q cs)"

record smf_retest =
  r_bias :: bias
  r_index :: int
  r_time :: pyval
  r_type :: string
  r_entry :: pyfloat
  r_mode :: string

definition entry_modes :: "string list" where
  "entry_modes = [''aggressive'', ''balanced'', ''conservative'']"

fun retest_scan :: "bias \<Rightarrow> string \<Rightarrow> int \<Rightarrow> smf_fvg \<Rightarrow> ict_candle list \<Rightarrow> smf_retest option" where
  "retest_scan dir mode expiry g [] = None"
| "retest_scan dir mode expiry g (c # cs) =
     (if ic_index c \<le> g_index g then retest_scan dir mode expiry g cs
      else if g_index g + expiry < ic_index c then None
      else if \<not> (fle (ic_low c) (g_high g) \<and> fle (g_low g) (ic_high c)) then retest_scan dir mode expiry g cs
      else if mode = ''conservative'' \<and> dir = Bullish \<and> \<not> (ic_bullish c \<and> flt (g_mid g) (ic_close c)) then None
      else if mode = ''conservative'' \<and> dir = Bearish \<and> \<not> (ic_bearish c \<and> flt (ic_close c) (g_mid g)) then None
      else Some \<lparr>r_bias = dir, r_index = ic_index c, r_time = ic_time c,
        r_type = bias_value dir @ (if mode = ''conservative'' then ''_fvg_confirmation_entry'' else ''_fvg_entry''),
        r_entry = py_round (if mode = ''conservative'' then ic_close c else g_mid g) 5, r_mode = mode\<rparr>)"

definition smf_detect_retest :: "smf_config \<Rightarrow> ict_candle list \<Rightarrow> smf_fvg \<Rightarrow> bias \<Rightarrow> smf_retest option res" where
  "smf_detect_retest q cs g dir =
     (if dir = NoBias then Ok None
      else if q_entry_mode q \<notin> set entry_modes then Raise (ValueError ''not a valid EntryMode'')
      else Ok (retest_scan dir (q_entry_mode q) (q_retest_expiry q) g cs))"

definition fvg_rank :: "int \<Rightarrow> smf_fvg \<Rightarrow> smf_fvg \<Rightarrow> bool" where
  "fvg_rank at_disp a b =
     (\<bar>g_index a - at_disp\<bar> < \<bar>g_index b - at_disp\<bar> \<or> \<bar>g_index a - at_disp\<bar> = \<bar>g_index b - at_disp\<bar> \<and> flt (g_quality b) (g_quality a))"

definition select_fvg_after_mss :: "smf_config \<Rightarrow> smf_fvg list \<Rightarrow> bias \<Rightarrow> int \<Rightarrow> int \<Rightarrow> smf_fvg option" where
  "select_fvg_after_mss q gs dir mss disp =
     (let candidates = filter (\<lambda>g. g_bias g = dir \<and> mss \<le> g_index g \<and> g_index g \<le> disp + q_fvg_after_disp q) gs;
          created = filter (\<lambda>g. g_index g \<le> disp) candidates
      in if candidates = [] then None
         else Some (hd (sort_by (fvg_rank disp) (if created = [] then candidates else created))))"

subsection \<open>Stop, target, reward\<close>

record smf_risk =
  k_stop :: pyfloat
  k_stop_ref :: string
  k_target :: "pyfloat option"
  k_target_ref :: string
  k_rr :: pyfloat
  k_min_rr :: pyfloat

definition pool_ids :: "ict_text \<Rightarrow> pyval \<Rightarrow> string list" where
  "pool_ids e v = filter (\<lambda>s. s \<noteq> []) (map (\<lambda>k. to_str e (py_get v [k] (PStr []))) [''liquidity_id'', ''id'', ''swept_liquidity_id''])"

definition same_liquidity_pool :: "ict_text \<Rightarrow> pyval \<Rightarrow> pyval \<Rightarrow> bool" where
  "same_liquidity_pool e l r = (py_truthy l \<and> py_truthy r \<and> list_ex (\<lambda>i. i \<in> set (pool_ids e r)) (pool_ids e l))"

definition enough_reward :: "pyfloat \<Rightarrow> pyfloat \<Rightarrow> pyfloat \<Rightarrow> pyfloat \<Rightarrow> bool" where
  "enough_reward min_rr entry stop price =
     (let risk = fabs (fsub entry stop) in flt (Fin 0) risk \<and> fle min_rr (fdiv (fabs (fsub price entry)) risk))"

definition valid_target_price :: "ict_text \<Rightarrow> pyfloat \<Rightarrow> pyfloat \<Rightarrow> pyfloat \<Rightarrow> bias \<Rightarrow> pyfloat \<Rightarrow> pyval \<Rightarrow> pyval \<Rightarrow> bool" where
  "valid_target_price e price entry stop dir min_rr target latest =
     (if dir = Bullish \<and> fle price entry then False
      else if dir = Bearish \<and> fle entry price then False
      else if same_liquidity_pool e target latest then False
      else enough_reward min_rr entry stop price)"

fun pool_targets :: "ict_text \<Rightarrow> bias \<Rightarrow> pyfloat \<Rightarrow> pyval list \<Rightarrow> pyfloat list res" where
  "pool_targets e dir entry [] = Ok []"
| "pool_targets e dir entry (p # ps) =
     (if pool_side e p \<noteq> (if dir = Bullish then ''buy_side'' else ''sell_side'') \<or> pool_swept e p then pool_targets e dir entry ps
      else rbind (pool_bounds e p) (\<lambda>(lo, hi).
        let price = (if dir = Bullish then hi else lo) in
        rmap (\<lambda>rest. if dir = Bullish \<and> flt entry price \<or> dir = Bearish \<and> flt price entry then price # rest else rest)
          (pool_targets e dir entry ps)))"

definition nearest_reward :: "bias \<Rightarrow> pyfloat \<Rightarrow> pyfloat \<Rightarrow> pyfloat \<Rightarrow> pyfloat list \<Rightarrow> pyfloat option" where
  "nearest_reward dir entry stop min_rr ps =
     find (enough_reward min_rr entry stop) (if dir = Bearish then sort_desc flt ps else sort_by flt ps)"

text \<open>\<open>isinstance(v, Mapping)\<close>\<close>

fun is_dict :: "pyval \<Rightarrow> bool" where
  "is_dict (PDict _) = True"
| "is_dict _ = False"

definition smf_select_target ::
  "ict_text \<Rightarrow> pyfloat \<Rightarrow> pyfloat \<Rightarrow> pyval \<Rightarrow> pydict \<Rightarrow> bias \<Rightarrow> pyfloat \<Rightarrow> pyfloat option res" where
  "smf_select_target e entry stop pools ctx dir min_rr =
     (let target = pget ctx ''target_liquidity'' PNone;
          from_pools = rbind (py_iter pools) (\<lambda>ps. rmap (nearest_reward dir entry stop min_rr) (pool_targets e dir entry ps))
      in if is_dict target
         then rbind (opt_to_float e (py_get target [''price'', ''target_price'', ''zone_mid''] PNone)) (\<lambda>price.
              case price of
                Some p \<Rightarrow> if valid_target_price e p entry stop dir min_rr target (pget ctx ''latest_sweep_event'' PNone) then Ok (Some p)
                          else from_pools
              | None \<Rightarrow> from_pools)
         else from_pools)"

text \<open>\<open>d.get(k, {}) or {}\<close>\<close>

definition sub_dict :: "pydict \<Rightarrow> string \<Rightarrow> pyval" where
  "sub_dict d k = py_or (pget d k (PDict [])) (PDict [])"

definition smf_risk_plan ::
  "ict_text \<Rightarrow> smf_config \<Rightarrow> smf_sweep \<Rightarrow> smf_retest \<Rightarrow> pyval \<Rightarrow> pydict \<Rightarrow> bias \<Rightarrow> pyfloat \<Rightarrow> smf_risk res" where
  "smf_risk_plan e q sweep entry pools ctx dir atr =
     rbind (to_float e (py_get (sub_dict ctx ''spread_status'') [''spread_points'', ''spread''] (PFloat (Fin 0)))) (\<lambda>spread.
     let spread_buffer = fmul spread (q_spread_mult q); atr_buffer = fmul atr (q_stop_atr q); en = r_entry entry;
         stop = (if dir = Bullish then fsub (fsub (w_low sweep) atr_buffer) spread_buffer
                 else fadd (fadd (w_high sweep) atr_buffer) spread_buffer)
     in rmap (\<lambda>target.
          \<lparr>k_stop = py_round stop 5,
           k_stop_ref = (if dir = Bullish then ''below_sweep_low_with_atr_and_spread_buffer'' else ''above_sweep_high_with_atr_and_spread_buffer''),
           k_target = map_option (\<lambda>t. py_round t 5) target,
           k_target_ref = (if dir = Bullish then ''opposite_buy_side_liquidity'' else ''opposite_sell_side_liquidity''),
           k_rr = py_round (case target of
               None \<Rightarrow> Fin 0
             | Some t \<Rightarrow> if dir = Bullish then fdiv (fsub t en) (py_max (fsub en stop) (lit (1 / 1000000000)))
                         else fdiv (fsub en t) (py_max (fsub stop en) (lit (1 / 1000000000)))) 2,
           k_min_rr = q_min_rr q\<rparr>)
        (smf_select_target e en stop pools ctx dir (q_min_rr q)))"

subsection \<open>Filters and score\<close>

definition xauusd_filter_reasons :: "ict_text \<Rightarrow> smf_config \<Rightarrow> pydict \<Rightarrow> string list res" where
  "xauusd_filter_reasons e q ctx =
     (let news = sub_dict ctx ''news_status''; spread = sub_dict ctx ''spread_status''; session = sub_dict ctx ''session_context'';
          restricted = py_truthy (py_get news [''restricted'', ''news_restricted''] (PBool False));
          spike = py_truthy (py_get news [''first_news_spike''] (PBool False));
          unsafe_spread = (\<not> py_truthy (py_get spread [''spread_safe''] (PBool True))
            \<or> py_lower (to_str e (py_get spread [''status''] (PStr ''normal''))) \<in> {''high'', ''wide'', ''unsafe'', ''too_high''});
          chop = py_lower (to_str e (py_get session [''liquidity_condition'', ''status''] (PStr ''normal''))) \<in> {''low_liquidity_chop'', ''dead'', ''closed''}
      in rmap (\<lambda>value.
           dedupe_from [] ((if restricted then [''news_restricted''] else []) @ (if spike then [''first_news_spike_signal''] else [])
             @ (if unsafe_spread \<or> (case value of Some v \<Rightarrow> flt (q_max_spread q) v | None \<Rightarrow> False) then [''spread_too_high''] else [])
             @ (if chop then [''low_liquidity_session_chop''] else [])))
         (opt_to_float e (py_get spread [''spread_points'', ''spread''] PNone)))"

definition has_oversized_fvg :: "smf_config \<Rightarrow> smf_fvg list \<Rightarrow> bool" where
  "has_oversized_fvg q gs = list_ex (\<lambda>g. flt (q_news_max_fvg q) (g_size g)) gs"

definition smf_session_score :: "string \<Rightarrow> pyfloat" where
  "smf_session_score s =
     (if list_ex (\<lambda>n. has_sub n s) [''london'', ''newyork'', ''new_york'', ''ny''] then Fin 9
      else if has_sub ''asia'' s \<or> has_sub ''asian'' s then Fin 7
      else if s \<in> {''unknown'', ''neutral''} then Fin (13/2) else Fin 5)"

definition smf_htf_score :: "string \<Rightarrow> bias \<Rightarrow> pyfloat" where
  "smf_htf_score htf dir =
     (if has_sub (bias_value dir) htf then Fin 9
      else if has_sub ''neutral'' htf \<or> htf = [] then Fin 7
      else if has_sub ''bullish'' htf \<and> dir = Bearish \<or> has_sub ''bearish'' htf \<and> dir = Bullish then Fin 4
      else Fin 6)"

record smf_setup =
  u_bias :: bias
  u_sweep :: smf_sweep
  u_mss :: smf_mss
  u_disp :: smf_displacement
  u_fvg :: smf_fvg
  u_entry :: smf_retest
  u_risk :: smf_risk

record smf_score =
  z_total :: pyfloat
  z_grade :: string
  z_allowed :: bool
  z_parts :: "(string \<times> pyfloat) list"
  z_minimum :: pyfloat

definition score_weights :: "pyfloat list" where
  "score_weights = [lit (13/100), lit (13/100), lit (13/100), lit (10/100), lit (10/100), lit (8/100), lit (10/100), lit (15/100), lit (8/100)]"

definition smf_parts :: "ict_text \<Rightarrow> smf_config \<Rightarrow> smf_setup \<Rightarrow> pydict \<Rightarrow> (string \<times> pyfloat) list res" where
  "smf_parts e q u ctx =
     (let htf = py_lower (to_str e (pget ctx ''htf_bias'' (pget ctx ''higher_timeframe_bias'' (PStr ''neutral''))));
          session = py_lower (to_str e (py_get (sub_dict ctx ''session_context'') [''session'', ''session_name''] (PStr ''unknown'')))
      in rmap (\<lambda>reasons.
           [(''liquidity_sweep'', py_min (Fin 10) (w_quality (u_sweep u))), (''mss'', py_min (Fin 10) (m_quality (u_mss u))),
            (''displacement'', py_min (Fin 10) (d_strength (u_disp u))), (''fvg_quality'', py_min (Fin 10) (g_quality (u_fvg u))),
            (''entry_retest'', Fin (17/2)), (''session_timing'', smf_session_score session),
            (''xauusd_safety'', if reasons = [] then Fin 9 else Fin 1),
            (''rr_target'', py_min (Fin 10) (fmul (fdiv (k_rr (u_risk u)) (py_max (q_min_rr q) (lit (1 / 1000000000)))) (Fin 8))),
            (''htf_alignment'', smf_htf_score htf (u_bias u))])
         (xauusd_filter_reasons e q ctx))"

definition score_sweep_mss_fvg_setup :: "ict_text \<Rightarrow> smf_config \<Rightarrow> smf_setup \<Rightarrow> pydict \<Rightarrow> smf_score res" where
  "score_sweep_mss_fvg_setup e q u ctx =
     rmap (\<lambda>parts.
       let total = py_round (py_sum (map2 fmul (map snd parts) score_weights)) 2
       in \<lparr>z_total = total,
           z_grade = (if fle (Fin (17/2)) total then ''A'' else if fle (Fin 7) total then ''B''
                      else if fle (q_min_score q) total then ''C'' else ''REJECT''),
           z_allowed = fle (q_min_score q) total, z_parts = map (\<lambda>(k, v). (k, py_round v 2)) parts, z_minimum = q_min_score q\<rparr>)
     (smf_parts e q u ctx)"

subsection \<open>The decision\<close>

datatype smf_decision =
    NoTrade string "string list" "(smf_sweep \<times> smf_mss \<times> smf_displacement \<times> smf_fvg) option"
  | Signal smf_setup smf_score "string list"

text \<open>One sweep: a decision, or the reason to go on to the next sweep.\<close>

definition try_sweep ::
  "ict_text \<Rightarrow> smf_config \<Rightarrow> pydict \<Rightarrow> ict_candle list \<Rightarrow> pyval \<Rightarrow> smf_fvg list \<Rightarrow> string list \<Rightarrow> smf_sweep
    \<Rightarrow> (string + smf_decision) res" where
  "try_sweep e q ctx cs entry_df gs fallbacks sweep =
     (let dir = w_bias sweep; pools = pget ctx ''liquidity_pools'' (PList []); atr = ict_atr cs (q_atr_period q) in
      rbind (smf_detect_mss e q cs (pget ctx ''swings'' (PList [])) sweep) (\<lambda>mss. case mss of
        None \<Rightarrow> Ok (Inl ''no_mss_after_sweep'')
      | Some m \<Rightarrow> (case smf_detect_displacement q cs (m_index m) dir (AtrValue atr) of
        None \<Rightarrow> Ok (Inl ''no_displacement_after_mss'')
      | Some d \<Rightarrow> (case select_fvg_after_mss q gs dir (m_index m) (d_end d) of
        None \<Rightarrow> Ok (Inl ''no_valid_fvg_after_displacement'')
      | Some g \<Rightarrow> rbind (rbind (closed_candles e entry_df) (\<lambda>entry_cs. smf_detect_retest q entry_cs g dir)) (\<lambda>retest. case retest of
        None \<Rightarrow> Ok (Inr (NoTrade ''waiting_for_retest'' [''waiting_for_fvg_retest''] (Some (sweep, m, d, g))))
      | Some r \<Rightarrow> rbind (smf_risk_plan e q sweep r pools ctx dir atr) (\<lambda>k.
          if k_target k = None then Ok (Inl ''no_valid_target_liquidity'')
          else if flt (k_rr k) (q_min_rr q) then Ok (Inl ''rr_below_minimum'')
          else let u = \<lparr>u_bias = dir, u_sweep = sweep, u_mss = m, u_disp = d, u_fvg = g, u_entry = r, u_risk = k\<rparr> in
            rmap (\<lambda>z. if \<not> z_allowed z then Inl ''confirmation_score_below_minimum_threshold''
                     else Inr (Signal u z
                       ([''Backtest fills must be candle-forward only.'',
                         ''If stop and target hit in the same candle, assume stop first unless lower-timeframe data resolves it.''] @ fallbacks)))
              (score_sweep_mss_fvg_setup e q u ctx)))))))"

fun try_sweeps ::
  "(smf_sweep \<Rightarrow> (string + smf_decision) res) \<Rightarrow> string list \<Rightarrow> smf_sweep list \<Rightarrow> smf_decision res" where
  "try_sweeps attempt rejected [] =
     Ok (NoTrade ''rejected'' (if rejected = [] then [''no_complete_sweep_mss_fvg_sequence''] else rejected) None)"
| "try_sweeps attempt rejected (w # ws) =
     rbind (attempt w) (\<lambda>r. case r of Inl reason \<Rightarrow> try_sweeps attempt (rejected @ [reason]) ws | Inr decision \<Rightarrow> Ok decision)"

definition timeframe_rows :: "pydict \<Rightarrow> string \<Rightarrow> string list \<Rightarrow> pyval \<times> bool" where
  "timeframe_rows ctx tf keys =
     (let found = (case sub_dict ctx ''candles_by_timeframe'' of PDict d \<Rightarrow> pget d tf PNone | _ \<Rightarrow> PNone)
      in if py_truthy found then (found, False)
         else case find (\<lambda>k. py_truthy (pget ctx k PNone)) keys of
                Some k \<Rightarrow> (pget ctx k PNone, True)
              | None \<Rightarrow> (PList [], True))"

definition decide_on ::
  "ict_text \<Rightarrow> smf_config \<Rightarrow> pydict \<Rightarrow> ict_candle list \<Rightarrow> pyval \<Rightarrow> string list \<Rightarrow> smf_decision res" where
  "decide_on e q ctx cs entry_df fallbacks =
     (if length cs < 3 then Ok (NoTrade ''rejected'' [''insufficient_closed_candles''] None)
      else rbind (xauusd_filter_reasons e q ctx) (\<lambda>hard.
        let gs = smf_detect_fvg q cs in
        if hard \<noteq> [] then Ok (NoTrade ''rejected'' (hard @ (if has_oversized_fvg q gs then [''fvg_too_large_news_spike''] else [])) None)
        else rbind (smf_detect_sweeps e q cs (pget ctx ''liquidity_pools'' (PList []))) (\<lambda>sweeps.
          if sweeps = [] then Ok (NoTrade ''rejected'' [''missing_required_liquidity_sweep''] None)
          else try_sweeps (try_sweep e q ctx cs entry_df gs fallbacks) [] sweeps)))"

definition setup_rows :: "smf_config \<Rightarrow> pydict \<Rightarrow> pyval \<times> bool" where
  "setup_rows q ctx = timeframe_rows ctx (q_setup_tf q) [''setup_df'', ''df'', ''candles'']"

definition entry_rows :: "smf_config \<Rightarrow> pydict \<Rightarrow> pyval \<times> bool" where
  "entry_rows q ctx = timeframe_rows ctx (q_entry_tf q) [''entry_df'', ''df'', ''candles'']"

definition smf_decide :: "ict_text \<Rightarrow> smf_config \<Rightarrow> pydict \<Rightarrow> smf_decision res" where
  "smf_decide e q ctx =
     rbind (closed_candles e (fst (setup_rows q ctx))) (\<lambda>cs. decide_on e q ctx cs (fst (entry_rows q ctx))
       ((if snd (setup_rows q ctx) then [''setup_timeframe_fallback:'' @ q_setup_tf q] else [])
        @ (if snd (entry_rows q ctx) then [''entry_timeframe_fallback:'' @ q_entry_tf q] else [])))"

subsection \<open>The payload\<close>

definition sweep_payload :: "smf_sweep \<Rightarrow> pydict" where
  "sweep_payload w =
     [(''sweep_id'', PStr (w_id w)), (''direction_bias'', PStr (bias_value (w_bias w))), (''swept_side'', PStr (w_side w)),
      (''swept_liquidity_id'', w_pool_id w), (''liquidity_type'', w_pool_type w), (''sweep_index'', PInt (w_index w)),
      (''sweep_time'', w_time w), (''sweep_extreme'', PFloat (w_extreme w)), (''sweep_low'', PFloat (w_low w)),
      (''sweep_high'', PFloat (w_high w)), (''swept_level'', PFloat (w_level w)), (''reclaim_status'', PStr (w_reclaim w)),
      (''sweep_quality_score'', PFloat (w_quality w))]"

definition mss_payload :: "smf_mss \<Rightarrow> pydict" where
  "mss_payload m =
     [(''mss_confirmed'', PBool True), (''direction'', PStr (bias_value (m_bias m))), (''broken_level'', PFloat (m_level m)),
      (''broken_swing_id'', PStr (m_swing_id m)),
      (''broken_kind'', PStr (if m_bias m = Bullish then ''post_sweep_swing_high'' else ''post_sweep_swing_low'')),
      (''confirmation_index'', PInt (m_index m)), (''confirmation_time'', m_time m),
      (''confirmation_type'', PStr (if m_bias m = Bullish then ''candle_close_above_post_sweep_swing_high'' else ''candle_close_below_post_sweep_swing_low'')),
      (''structure_quality_score'', PFloat (m_quality m))]"

definition displacement_payload :: "smf_displacement \<Rightarrow> pydict" where
  "displacement_payload d =
     [(''displacement_confirmed'', PBool True), (''direction'', PStr (bias_value (d_bias d))), (''start_index'', PInt (d_start d)),
      (''end_index'', PInt (d_end d)), (''body_to_range_ratio'', PFloat (d_body_ratio d)), (''range_to_atr_ratio'', PFloat (d_range_ratio d)),
      (''close_position_score'', PFloat (d_close_score d)), (''strength_score'', PFloat (d_strength d)), (''fvg_created'', PBool (d_fvg d))]"

definition fvg_payload :: "smf_fvg \<Rightarrow> pydict" where
  "fvg_payload g =
     [(''fvg_id'', PStr (g_id g)), (''fvg_type'', PStr (bias_value (g_bias g) @ ''_fvg'')), (''direction'', PStr (bias_value (g_bias g))),
      (''zone_low'', PFloat (g_low g)), (''zone_high'', PFloat (g_high g)), (''zone_mid'', PFloat (g_mid g)), (''fvg_size'', PFloat (g_size g)),
      (''creation_index'', PInt (g_index g)), (''creation_time'', g_time g), (''candle_1_index'', PInt (g_first g)),
      (''candle_2_index'', PInt (g_second g)), (''candle_3_index'', PInt (g_index g)), (''active_status'', PBool True),
      (''quality_score'', PFloat (g_quality g))]"

definition retest_payload :: "smf_retest \<Rightarrow> pydict" where
  "retest_payload r =
     [(''retest_detected'', PBool True), (''direction'', PStr (bias_value (r_bias r))), (''retest_index'', PInt (r_index r)),
      (''retest_time'', r_time r), (''entry_triggered'', PBool True), (''entry_type'', PStr (r_type r)), (''entry_price'', PFloat (r_entry r)),
      (''retest_status'', PStr ''price_retraced_into_fvg''), (''confirmation_mode'', PStr (r_mode r))]"

definition risk_payload :: "smf_risk \<Rightarrow> pydict" where
  "risk_payload k =
     [(''stop_loss'', PFloat (k_stop k)), (''stop_reference'', PStr (k_stop_ref k)), (''target'', opt_val (k_target k)),
      (''target_reference'', PStr (k_target_ref k)), (''rr'', PFloat (k_rr k)), (''min_rr_required'', PFloat (k_min_rr k))]"

definition score_payload :: "smf_score \<Rightarrow> pydict" where
  "score_payload z =
     [(''total_score'', PFloat (z_total z)), (''grade'', PStr (z_grade z)), (''trade_allowed'', PBool (z_allowed z)),
      (''component_scores'', PDict (map (\<lambda>(k, v). (k, PFloat v)) (z_parts z))), (''minimum_required'', PFloat (z_minimum z))]"

definition passed_filters :: "ict_text \<Rightarrow> pydict \<Rightarrow> pydict" where
  "passed_filters e ctx =
     [(''news_filter'', PStr ''passed''), (''spread_filter'', PStr ''passed''), (''session_filter'', PStr ''passed''),
      (''htf_bias_filter'', PStr (to_str e (pget ctx ''htf_bias'' (PStr ''neutral'')))), (''fvg_size_filter'', PStr ''passed''),
      (''chop_filter'', PStr ''passed'')]"

definition no_trade_payload ::
  "ict_text \<Rightarrow> pydict \<Rightarrow> string \<Rightarrow> string list \<Rightarrow> (smf_sweep \<times> smf_mss \<times> smf_displacement \<times> smf_fvg) option \<Rightarrow> pydict" where
  "no_trade_payload e ctx status reasons parts =
     [(''strategy'', PStr ''Liquidity Sweep + MSS + FVG Entry''), (''symbol'', PStr (cfg_str e ctx ''symbol'' ''XAUUSD'')),
      (''signal_status'', PStr status), (''trade_allowed'', PBool False), (''direction'', PNone),
      (''rejection_reason'', case reasons of [] \<Rightarrow> PNone | r # _ \<Rightarrow> PStr r),
      (''rejection_reasons'', PList (map PStr (dedupe_from [] reasons)))]
     @ (case parts of None \<Rightarrow> []
        | Some (w, m, d, g) \<Rightarrow> [(''sweep'', PDict (sweep_payload w)), (''mss'', PDict (mss_payload m)),
            (''displacement'', PDict (displacement_payload d)), (''fvg'', PDict (fvg_payload g))])"

definition signal_payload :: "ict_text \<Rightarrow> pydict \<Rightarrow> smf_setup \<Rightarrow> smf_score \<Rightarrow> string list \<Rightarrow> pydict" where
  "signal_payload e ctx u z warnings =
     (let smb = cfg_str e ctx ''symbol'' ''XAUUSD'' in
      [(''strategy'', PStr ''Liquidity Sweep + MSS + FVG Entry''), (''symbol'', PStr smb),
       (''signal_id'', PStr (smb @ ''_SWEEP_MSS_FVG_'' @ py_upper (bias_value (u_bias u)) @ ''_'' @ int_str (r_index (u_entry u)))),
       (''signal_status'', PStr ''valid''), (''trade_allowed'', PBool True), (''direction'', PStr (bias_value (u_bias u))),
       (''setup_time'', w_time (u_sweep u)), (''entry_time'', r_time (u_entry u)), (''liquidity_sweep'', PDict (sweep_payload (u_sweep u))),
       (''mss'', PDict (mss_payload (u_mss u))), (''displacement'', PDict (displacement_payload (u_disp u))),
       (''fvg'', PDict (fvg_payload (u_fvg u))), (''entry'', PDict (retest_payload (u_entry u))), (''risk'', PDict (risk_payload (u_risk u))),
       (''score'', PDict (score_payload z)), (''filters'', PDict (passed_filters e ctx)), (''rejection_reasons'', PList []),
       (''warnings'', PList (map PStr warnings))])"

definition decision_payload :: "ict_text \<Rightarrow> pydict \<Rightarrow> smf_decision \<Rightarrow> pydict" where
  "decision_payload e ctx d =
     (case d of NoTrade status reasons parts \<Rightarrow> no_trade_payload e ctx status reasons parts
      | Signal u z warnings \<Rightarrow> signal_payload e ctx u z warnings)"

definition generate_sweep_mss_fvg_signal :: "ict_text \<Rightarrow> pydict \<Rightarrow> pydict option \<Rightarrow> pydict res" where
  "generate_sweep_mss_fvg_signal e ctx config =
     rbind (smf_read_config e (case config of None \<Rightarrow> [] | Some c \<Rightarrow> c)) (\<lambda>q. rmap (decision_payload e ctx) (smf_decide e q ctx))"

subsection \<open>Configuration read twice\<close>

lemma low_char_idem: "low_char (low_char c) = low_char c"
proof -
  have "of_char (char_of (of_char c + 32 :: nat) :: char) = (of_char c + 32 :: nat)" if "(of_char c :: nat) \<le> 90"
    using that by (subst of_char_of) simp
  then show ?thesis by (auto simp: low_char_def Let_def)
qed

lemma py_lower_idem [simp]: "py_lower (py_lower s) = py_lower s"
  by (simp add: py_lower_def low_char_idem)

text \<open>The detectors read the configuration again from the dict of the first reading: they find the same values.\<close>

lemma config_again: "q_entry_mode q = py_lower m \<Longrightarrow> smf_read_config e (smf_config_dict q) = Ok q"
  by (simp add: smf_read_config_def smf_config_dict_def cfg_int_def cfg_float_def cfg_str_def pget_def)

subsection \<open>What the detectors find\<close>

lemma sort_desc_sweep_key [simp]: "set (sort_desc sweep_key xs) = set xs"
  by simp

lemma sweeps_ofD:
  assumes "sweeps_of e q atr buffer c p = Ok xs" "w \<in> set xs"
  shows "\<exists>zl zh. pool_bounds e p = Ok (zl, zh) \<and> \<not> pool_swept e p \<and> w_index w = ic_index c \<and> w_low w = ic_low c \<and> w_high w = ic_high c
    \<and> (w_bias w = Bullish \<and> pool_side e p = ''sell_side'' \<and> flt (ic_low c) (fsub zl buffer) \<and> flt zl (ic_close c)
     \<or> w_bias w = Bearish \<and> pool_side e p = ''buy_side'' \<and> flt (fadd zh buffer) (ic_high c) \<and> flt (ic_close c) zh)"
  using assms by (auto simp: sweeps_of_def sell_sweep_def buy_sweep_def split: if_splits prod.splits elim!: rbind_InrE)

lemma detect_sweepsD:
  assumes "smf_detect_sweeps e q cs pools = Ok ws" "w \<in> set ws"
  obtains c p ps buffer xs where "c \<in> set cs" "py_iter pools = Ok ps" "p \<in> set ps"
    "configured_buffer e (q_sweep_buffer q) (fmul (ict_atr cs (q_atr_period q)) (q_sweep_buffer_atr q)) = Ok buffer"
    "sweeps_of e q (ict_atr cs (q_atr_period q)) buffer c p = Ok xs" "w \<in> set xs"
proof -
  let ?atr = "ict_atr cs (q_atr_period q)"
  from assms obtain buffer yss where b: "configured_buffer e (q_sweep_buffer q) (fmul ?atr (q_sweep_buffer_atr q)) = Ok buffer"
    and r: "res_map (\<lambda>c. rbind (py_iter pools) (res_map (sweeps_of e q ?atr buffer c))) cs = Ok yss"
    and w: "w \<in> set (concat (map concat yss))"
    by (auto simp: smf_detect_sweeps_def Let_def rmap_Inr_iff elim!: rbind_InrE)
  from w obtain ys xs where ys: "ys \<in> set yss" and xs: "xs \<in> set ys" "w \<in> set xs" by auto
  from res_map_in [OF r ys] obtain c where c: "c \<in> set cs" "rbind (py_iter pools) (res_map (sweeps_of e q ?atr buffer c)) = Ok ys" by blast
  from c(2) obtain ps where ps: "py_iter pools = Ok ps" "res_map (sweeps_of e q ?atr buffer c) ps = Ok ys" by (auto elim!: rbind_InrE)
  from res_map_in [OF ps(2) xs(1)] obtain p where "p \<in> set ps" "sweeps_of e q ?atr buffer c p = Ok xs" by blast
  with that c(1) ps(1) b xs(2) show thesis by blast
qed

lemma first_breakD:
  assumes "first_break dir buffer limit cs ss = Some m"
  shows "\<exists>s\<in>set ss. \<exists>c\<in>set cs. v_index s < ic_index c \<and> ic_index c \<le> limit \<and> breaks_swing dir buffer s c
    \<and> m_index m = ic_index c \<and> m_level m = v_price s \<and> m_bias m = dir"
  using assms
proof (induction ss)
  case (Cons s ss)
  show ?case
  proof (cases "find (\<lambda>c. v_index s < ic_index c \<and> ic_index c \<le> limit \<and> breaks_swing dir buffer s c) cs")
    case None
    with Cons show ?thesis by auto
  next
    case (Some c)
    with Cons.prems show ?thesis by (auto simp: find_Some_iff mss_event_def)
  qed
qed simp

lemma detect_mssD:
  assumes "smf_detect_mss e q cs swings w = Ok (Some m)"
  obtains buffer ss s c where "w_bias w \<noteq> NoBias" "confirmed_swings e cs swings = Ok ss" "s \<in> set ss" "c \<in> set cs"
    "configured_buffer e (q_break_buffer q) (fmul (ict_atr cs (q_atr_period q)) (q_break_buffer_atr q)) = Ok buffer"
    "v_high s = (w_bias w = Bullish)" "w_index w < v_index s" "v_index s < ic_index c" "ic_index c \<le> w_index w + q_mss_wait q"
    "breaks_swing (w_bias w) buffer s c" "m_index m = ic_index c"
proof -
  from assms obtain buffer ss where *: "w_bias w \<noteq> NoBias" "confirmed_swings e cs swings = Ok ss"
    "configured_buffer e (q_break_buffer q) (fmul (ict_atr cs (q_atr_period q)) (q_break_buffer_atr q)) = Ok buffer"
    "first_break (w_bias w) buffer (w_index w + q_mss_wait q) cs (sort_by (\<lambda>a b. v_index a < v_index b)
       (filter (\<lambda>s. v_high s = (w_bias w = Bullish) \<and> w_index w < v_index s \<and> v_index s \<le> w_index w + q_mss_wait q) ss)) = Some m"
    by (auto simp: smf_detect_mss_def Let_def rmap_Inr_iff split: if_splits elim!: rbind_InrE)
  from first_breakD [OF *(4)] obtain s c where "s \<in> set ss" "v_high s = (w_bias w = Bullish)" "w_index w < v_index s" "c \<in> set cs"
    "v_index s < ic_index c" "ic_index c \<le> w_index w + q_mss_wait q" "breaks_swing (w_bias w) buffer s c" "m_index m = ic_index c"
    by auto
  with that *(1-3) show thesis by blast
qed

lemma detect_displacementD:
  assumes "smf_detect_displacement q cs start dir a = Some d"
  shows "\<exists>c\<in>set cs. start \<le> ic_index c \<and> ic_index c \<le> start + q_disp_wait q \<and> displaces q dir (atr_from_input q cs a start) c \<and> d_end d = ic_index c"
  using assms by (auto simp: smf_detect_displacement_def Let_def find_Some_iff split: if_splits)

text \<open>Three candles in a row.\<close>

definition in_a_row :: "'a \<Rightarrow> 'a \<Rightarrow> 'a \<Rightarrow> 'a list \<Rightarrow> bool" where
  "in_a_row a b c xs = (\<exists>us vs. xs = us @ a # b # c # vs)"

lemma in_a_row_Cons: "in_a_row a b c xs \<Longrightarrow> in_a_row a b c (x # xs)"
  unfolding in_a_row_def by (metis append_Cons)

lemma gapsD:
  "g \<in> set (gaps q cs) \<Longrightarrow> \<exists>c1 c2 c3. in_a_row c1 c2 c3 cs \<and> g_index g = ic_index c3
     \<and> (g_bias g = Bullish \<and> flt (ic_high c1) (ic_low c3) \<and> g = fvg_event q Bullish c1 c2 c3 (ic_high c1) (ic_low c3)
      \<or> g_bias g = Bearish \<and> flt (ic_high c3) (ic_low c1) \<and> g = fvg_event q Bearish c1 c2 c3 (ic_high c3) (ic_low c1))"
proof (induction q cs rule: gaps.induct)
  case (1 q c1 c2 c3 cs)
  show ?case
  proof (cases "g \<in> set (gaps q (c2 # c3 # cs))")
    case True
    with 1 in_a_row_Cons show ?thesis by meson
  next
    case False
    have "in_a_row c1 c2 c3 (c1 # c2 # c3 # cs)" unfolding in_a_row_def by (metis append_Nil)
    moreover have "g_index (fvg_event q b c1 c2 c3 x y) = ic_index c3 \<and> g_bias (fvg_event q b c1 c2 c3 x y) = b" for b x y
      by (simp add: fvg_event_def Let_def)
    moreover have "flt (ic_high c1) (ic_low c3) \<and> g = fvg_event q Bullish c1 c2 c3 (ic_high c1) (ic_low c3)
      \<or> flt (ic_high c3) (ic_low c1) \<and> g = fvg_event q Bearish c1 c2 c3 (ic_high c3) (ic_low c1)"
      using "1.prems" False by (auto split: if_splits)
    ultimately show ?thesis by blast
  qed
qed simp_all

lemma select_fvgD:
  assumes "select_fvg_after_mss q gs dir mss disp = Some g"
  shows "g \<in> set gs \<and> g_bias g = dir \<and> mss \<le> g_index g \<and> g_index g \<le> disp + q_fvg_after_disp q"
proof -
  let ?c = "filter (\<lambda>g. g_bias g = dir \<and> mss \<le> g_index g \<and> g_index g \<le> disp + q_fvg_after_disp q) gs"
  let ?d = "filter (\<lambda>g. g_index g \<le> disp) ?c"
  let ?p = "if ?d = [] then ?c else ?d"
  from assms have c: "?c \<noteq> []" and g: "g = hd (sort_by (fvg_rank disp) ?p)"
    unfolding select_fvg_after_mss_def Let_def by (auto split: if_splits)
  have "?p \<noteq> []" using c by (simp split: if_splits)
  from hd_sort_by_in [OF this] have "g \<in> set ?p" unfolding g .
  moreover have "set ?p \<subseteq> set ?c" by auto
  ultimately have "g \<in> set ?c" by blast
  then show ?thesis by simp
qed

lemma retest_scanD:
  "retest_scan dir mode expiry g cs = Some r \<Longrightarrow> \<exists>c\<in>set cs. g_index g < ic_index c \<and> ic_index c \<le> g_index g + expiry
     \<and> fle (ic_low c) (g_high g) \<and> fle (g_low g) (ic_high c) \<and> r_index r = ic_index c \<and> r_bias r = dir
     \<and> r_entry r = py_round (if mode = ''conservative'' then ic_close c else g_mid g) 5"
  by (induction cs) (force split: if_splits)+

subsection \<open>The documented sequence\<close>

text \<open>
  The strategy as a state machine over the candles: a phase holds the direction and the index of the last event. The
  steps say what each event is in terms of prices, and nothing of how it is searched for.
\<close>

datatype phase =
    Searching
  | Swept bias int
  | Shifted bias int
  | Displaced bias int int
  | Gapped bias int pyfloat pyfloat
  | Entered bias int

inductive advance ::
  "ict_text \<Rightarrow> smf_config \<Rightarrow> pyval list \<Rightarrow> smf_swing list \<Rightarrow> ict_candle list \<Rightarrow> ict_candle list \<Rightarrow> phase \<Rightarrow> phase \<Rightarrow> bool"
  for e q pools swings cs entry_cs where
  sweep_below: "c \<in> set cs \<Longrightarrow> p \<in> set pools \<Longrightarrow> \<not> pool_swept e p \<Longrightarrow> pool_side e p = ''sell_side'' \<Longrightarrow> pool_bounds e p = Ok (zl, zh)
    \<Longrightarrow> configured_buffer e (q_sweep_buffer q) (fmul (ict_atr cs (q_atr_period q)) (q_sweep_buffer_atr q)) = Ok b
    \<Longrightarrow> flt (ic_low c) (fsub zl b) \<Longrightarrow> flt zl (ic_close c) \<Longrightarrow> advance e q pools swings cs entry_cs Searching (Swept Bullish (ic_index c))"
| sweep_above: "c \<in> set cs \<Longrightarrow> p \<in> set pools \<Longrightarrow> \<not> pool_swept e p \<Longrightarrow> pool_side e p = ''buy_side'' \<Longrightarrow> pool_bounds e p = Ok (zl, zh)
    \<Longrightarrow> configured_buffer e (q_sweep_buffer q) (fmul (ict_atr cs (q_atr_period q)) (q_sweep_buffer_atr q)) = Ok b
    \<Longrightarrow> flt (fadd zh b) (ic_high c) \<Longrightarrow> flt (ic_close c) zh \<Longrightarrow> advance e q pools swings cs entry_cs Searching (Swept Bearish (ic_index c))"
| shift: "s \<in> set swings \<Longrightarrow> c \<in> set cs \<Longrightarrow> v_high s = (dir = Bullish) \<Longrightarrow> i < v_index s \<Longrightarrow> v_index s < ic_index c \<Longrightarrow> ic_index c \<le> i + q_mss_wait q
    \<Longrightarrow> configured_buffer e (q_break_buffer q) (fmul (ict_atr cs (q_atr_period q)) (q_break_buffer_atr q)) = Ok b
    \<Longrightarrow> breaks_swing dir b s c \<Longrightarrow> advance e q pools swings cs entry_cs (Swept dir i) (Shifted dir (ic_index c))"
| displace: "c \<in> set cs \<Longrightarrow> i \<le> ic_index c \<Longrightarrow> ic_index c \<le> i + q_disp_wait q \<Longrightarrow> displaces q dir (ict_atr cs (q_atr_period q)) c
    \<Longrightarrow> advance e q pools swings cs entry_cs (Shifted dir i) (Displaced dir i (ic_index c))"
| gap_up: "in_a_row c1 c2 c3 cs \<Longrightarrow> flt (ic_high c1) (ic_low c3) \<Longrightarrow> i \<le> ic_index c3 \<Longrightarrow> ic_index c3 \<le> j + q_fvg_after_disp q
    \<Longrightarrow> advance e q pools swings cs entry_cs (Displaced Bullish i j) (Gapped Bullish (ic_index c3) (py_round (ic_high c1) 5) (py_round (ic_low c3) 5))"
| gap_down: "in_a_row c1 c2 c3 cs \<Longrightarrow> flt (ic_high c3) (ic_low c1) \<Longrightarrow> i \<le> ic_index c3 \<Longrightarrow> ic_index c3 \<le> j + q_fvg_after_disp q
    \<Longrightarrow> advance e q pools swings cs entry_cs (Displaced Bearish i j) (Gapped Bearish (ic_index c3) (py_round (ic_high c3) 5) (py_round (ic_low c1) 5))"
| retest: "c \<in> set entry_cs \<Longrightarrow> i < ic_index c \<Longrightarrow> ic_index c \<le> i + q_retest_expiry q \<Longrightarrow> fle (ic_low c) zh \<Longrightarrow> fle zl (ic_high c)
    \<Longrightarrow> advance e q pools swings cs entry_cs (Gapped dir i zl zh) (Entered dir (ic_index c))"

inductive_cases advanceE: "advance e q pools swings cs entry_cs ph ph'"

text \<open>The index a phase has reached; it never goes back, and grows with every sweep, shift and retest.\<close>

fun phase_index :: "phase \<Rightarrow> int option" where
  "phase_index Searching = None"
| "phase_index (Swept _ i) = Some i"
| "phase_index (Shifted _ i) = Some i"
| "phase_index (Displaced _ i _) = Some i"
| "phase_index (Gapped _ i _ _) = Some i"
| "phase_index (Entered _ i) = Some i"

fun phase_bias :: "phase \<Rightarrow> bias option" where
  "phase_bias Searching = None"
| "phase_bias (Swept b _) = Some b"
| "phase_bias (Shifted b _) = Some b"
| "phase_bias (Displaced b _ _) = Some b"
| "phase_bias (Gapped b _ _ _) = Some b"
| "phase_bias (Entered b _) = Some b"

lemma advance_forward:
  "advance e q pools swings cs entry_cs ph ph' \<Longrightarrow> phase_index ph = Some i \<Longrightarrow> \<exists>j\<ge>i. phase_index ph' = Some j \<and> phase_bias ph' = phase_bias ph"
  by (induction rule: advance.induct) auto

lemma advances_forward:
  "(advance e q pools swings cs entry_cs)\<^sup>*\<^sup>* ph ph' \<Longrightarrow> phase_index ph = Some i \<Longrightarrow> \<exists>j\<ge>i. phase_index ph' = Some j \<and> phase_bias ph' = phase_bias ph"
proof (induction rule: rtranclp_induct)
  case (step y z)
  then obtain j where "j \<ge> i" "phase_index y = Some j" "phase_bias y = phase_bias ph" by blast
  with advance_forward [OF step.hyps(2)] show ?case by fastforce
qed auto

subsection \<open>Every decision is a run of the machine\<close>

lemma sweep_step:
  assumes "smf_detect_sweeps e q cs pools = Ok ws" "w \<in> set ws"
  shows "\<exists>ps. py_iter pools = Ok ps \<and> (\<forall>swings entry_cs. advance e q ps swings cs entry_cs Searching (Swept (w_bias w) (w_index w)))"
  using assms
proof (rule detect_sweepsD)
  fix c p ps buffer xs
  assume a: "c \<in> set cs" "py_iter pools = Ok ps" "p \<in> set ps"
    "configured_buffer e (q_sweep_buffer q) (fmul (ict_atr cs (q_atr_period q)) (q_sweep_buffer_atr q)) = Ok buffer"
    "sweeps_of e q (ict_atr cs (q_atr_period q)) buffer c p = Ok xs" "w \<in> set xs"
  from sweeps_ofD [OF a(5,6)] show ?thesis using a(1-4) by (metis sweep_above sweep_below)
qed

lemma shift_step:
  assumes "smf_detect_mss e q cs swings w = Ok (Some m)"
  shows "\<exists>ss. confirmed_swings e cs swings = Ok ss
    \<and> (\<forall>pools entry_cs. advance e q pools ss cs entry_cs (Swept (w_bias w) (w_index w)) (Shifted (w_bias w) (m_index m)))"
  using assms by (rule detect_mssD) (metis shift)

lemma displace_step:
  assumes "smf_detect_displacement q cs i dir (AtrValue (ict_atr cs (q_atr_period q))) = Some d"
  shows "advance e q pools ss cs entry_cs (Shifted dir i) (Displaced dir i (d_end d))"
  using detect_displacementD [OF assms] by (auto simp: atr_from_input_def intro: displace)

lemma gap_step:
  assumes "select_fvg_after_mss q (smf_detect_fvg q cs) dir i j = Some g"
  shows "advance e q pools ss cs entry_cs (Displaced dir i j) (Gapped dir (g_index g) (g_low g) (g_high g))"
proof -
  from select_fvgD [OF assms] have g: "g \<in> set (gaps q cs)" "g_bias g = dir" "i \<le> g_index g" "g_index g \<le> j + q_fvg_after_disp q"
    by (auto simp: smf_detect_fvg_def)
  have z: "g_low (fvg_event q b c1 c2 c3 x y) = py_round x 5" "g_high (fvg_event q b c1 c2 c3 x y) = py_round y 5" for b c1 c2 c3 x y
    by (simp_all add: fvg_event_def Let_def)
  from gapsD [OF g(1)] obtain c1 c2 c3 where c: "in_a_row c1 c2 c3 cs" "g_index g = ic_index c3"
    and k: "g_bias g = Bullish \<and> flt (ic_high c1) (ic_low c3) \<and> g = fvg_event q Bullish c1 c2 c3 (ic_high c1) (ic_low c3)
      \<or> g_bias g = Bearish \<and> flt (ic_high c3) (ic_low c1) \<and> g = fvg_event q Bearish c1 c2 c3 (ic_high c3) (ic_low c1)" by blast
  from k show ?thesis
  proof (elim disjE conjE)
    assume h: "g_bias g = Bullish" "flt (ic_high c1) (ic_low c3)" "g = fvg_event q Bullish c1 c2 c3 (ic_high c1) (ic_low c3)"
    then have z': "g_low g = py_round (ic_high c1) 5" "g_high g = py_round (ic_low c3) 5" using z by metis+
    show ?thesis unfolding z' using gap_up [OF c(1) h(2), of i j q] g c(2) h(1) by simp
  next
    assume h: "g_bias g = Bearish" "flt (ic_high c3) (ic_low c1)" "g = fvg_event q Bearish c1 c2 c3 (ic_high c3) (ic_low c1)"
    then have z': "g_low g = py_round (ic_high c3) 5" "g_high g = py_round (ic_low c1) 5" using z by metis+
    show ?thesis unfolding z' using gap_down [OF c(1) h(2), of i j q] g c(2) h(1) by simp
  qed
qed

lemma retest_step:
  assumes "smf_detect_retest q entry_cs g dir = Ok (Some r)"
  shows "advance e q pools ss cs entry_cs (Gapped dir (g_index g) (g_low g) (g_high g)) (Entered dir (r_index r)) \<and> r_bias r = dir"
proof -
  from assms have "retest_scan dir (q_entry_mode q) (q_retest_expiry q) g entry_cs = Some r"
    by (auto simp: smf_detect_retest_def split: if_splits)
  from retest_scanD [OF this] show ?thesis by (auto intro: retest)
qed

text \<open>The phase a decision has reached: a signal is entered, one that waits has its gap.\<close>

definition decision_phase :: "smf_decision \<Rightarrow> phase option" where
  "decision_phase d =
     (case d of Signal u _ _ \<Rightarrow> Some (Entered (u_bias u) (r_index (u_entry u)))
      | NoTrade _ _ (Some (w, m, d, g)) \<Rightarrow> Some (Gapped (w_bias w) (g_index g) (g_low g) (g_high g))
      | NoTrade _ _ None \<Rightarrow> None)"

lemma try_sweepsD:
  "try_sweeps attempt rejected ws = Ok dec \<Longrightarrow> (\<exists>rs. dec = NoTrade ''rejected'' rs None) \<or> (\<exists>w\<in>set ws. attempt w = Ok (Inr dec))"
  by (induction ws arbitrary: rejected) (auto elim!: rbind_InrE split: sum.splits)

lemma try_sweepD:
  assumes "try_sweep e q ctx cs entry_df gs fbs w = Ok (Inr dec)"
  obtains m d g entry_cs where "smf_detect_mss e q cs (pget ctx ''swings'' (PList [])) w = Ok (Some m)"
    "smf_detect_displacement q cs (m_index m) (w_bias w) (AtrValue (ict_atr cs (q_atr_period q))) = Some d"
    "select_fvg_after_mss q gs (w_bias w) (m_index m) (d_end d) = Some g" "closed_candles e entry_df = Ok entry_cs"
    "smf_detect_retest q entry_cs g (w_bias w) = Ok None \<and> dec = NoTrade ''waiting_for_retest'' [''waiting_for_fvg_retest''] (Some (w, m, d, g))
     \<or> (\<exists>r k z ws. let u = \<lparr>u_bias = w_bias w, u_sweep = w, u_mss = m, u_disp = d, u_fvg = g, u_entry = r, u_risk = k\<rparr> in
          smf_detect_retest q entry_cs g (w_bias w) = Ok (Some r)
        \<and> smf_risk_plan e q w r (pget ctx ''liquidity_pools'' (PList [])) ctx (w_bias w) (ict_atr cs (q_atr_period q)) = Ok k
        \<and> k_target k \<noteq> None \<and> \<not> flt (k_rr k) (q_min_rr q) \<and> score_sweep_mss_fvg_setup e q u ctx = Ok z \<and> z_allowed z \<and> dec = Signal u z ws)"
  using assms unfolding try_sweep_def Let_def
  by (auto elim!: rbind_InrE simp: rmap_Inr_iff split: option.splits if_splits)

lemma decideD:
  assumes "smf_decide e q ctx = Ok dec" "decision_phase dec = Some ph"
  obtains cs w ws fbs where "closed_candles e (fst (setup_rows q ctx)) = Ok cs"
    "xauusd_filter_reasons e q ctx = Ok []" "smf_detect_sweeps e q cs (pget ctx ''liquidity_pools'' (PList [])) = Ok ws" "w \<in> set ws"
    "try_sweep e q ctx cs (fst (entry_rows q ctx)) (smf_detect_fvg q cs) fbs w = Ok (Inr dec)"
proof -
  have n: "decision_phase (NoTrade s rs None) = None" for s rs by (simp add: decision_phase_def)
  from assms(1) obtain cs fbs where c: "closed_candles e (fst (setup_rows q ctx)) = Ok cs"
    and d: "decide_on e q ctx cs (fst (entry_rows q ctx)) fbs = Ok dec"
    unfolding smf_decide_def by (elim rbind_InrE)
  from d assms(2) n obtain ws where a: "xauusd_filter_reasons e q ctx = Ok []"
    "smf_detect_sweeps e q cs (pget ctx ''liquidity_pools'' (PList [])) = Ok ws"
    "try_sweeps (try_sweep e q ctx cs (fst (entry_rows q ctx)) (smf_detect_fvg q cs) fbs) [] ws = Ok dec"
    unfolding decide_on_def Let_def by (auto elim!: rbind_InrE split: if_splits)
  from try_sweepsD [OF a(3)] assms(2) n show thesis by (auto intro: that [OF c a(1,2)])
qed

text \<open>C32. The decisions refine the documented sequence: whatever has a phase is a run of the machine over the closed candles, the
  pools and the swings of the context, and no decision with a phase is made while a filter objects.\<close>

theorem decisions_run_the_machine:
  assumes "smf_decide e q ctx = Ok dec" "decision_phase dec = Some ph"
  shows "\<exists>cs entry_cs pools swings. closed_candles e (fst (setup_rows q ctx)) = Ok cs \<and> closed_candles e (fst (entry_rows q ctx)) = Ok entry_cs
    \<and> py_iter (pget ctx ''liquidity_pools'' (PList [])) = Ok pools \<and> confirmed_swings e cs (pget ctx ''swings'' (PList [])) = Ok swings
    \<and> (advance e q pools swings cs entry_cs)\<^sup>*\<^sup>* Searching ph \<and> xauusd_filter_reasons e q ctx = Ok []"
  using assms
proof (rule decideD)
  fix cs w ws fbs
  assume a: "closed_candles e (fst (setup_rows q ctx)) = Ok cs" "xauusd_filter_reasons e q ctx = Ok []"
    "smf_detect_sweeps e q cs (pget ctx ''liquidity_pools'' (PList [])) = Ok ws" "w \<in> set ws"
    "try_sweep e q ctx cs (fst (entry_rows q ctx)) (smf_detect_fvg q cs) fbs w = Ok (Inr dec)"
  from a(5) show ?thesis
  proof (rule try_sweepD)
    fix m d g entry_cs
    assume b: "smf_detect_mss e q cs (pget ctx ''swings'' (PList [])) w = Ok (Some m)"
      "smf_detect_displacement q cs (m_index m) (w_bias w) (AtrValue (ict_atr cs (q_atr_period q))) = Some d"
      "select_fvg_after_mss q (smf_detect_fvg q cs) (w_bias w) (m_index m) (d_end d) = Some g"
      "closed_candles e (fst (entry_rows q ctx)) = Ok entry_cs"
      and dec: "smf_detect_retest q entry_cs g (w_bias w) = Ok None \<and> dec = NoTrade ''waiting_for_retest'' [''waiting_for_fvg_retest''] (Some (w, m, d, g))
       \<or> (\<exists>r k z ws. let u = \<lparr>u_bias = w_bias w, u_sweep = w, u_mss = m, u_disp = d, u_fvg = g, u_entry = r, u_risk = k\<rparr> in
          smf_detect_retest q entry_cs g (w_bias w) = Ok (Some r)
        \<and> smf_risk_plan e q w r (pget ctx ''liquidity_pools'' (PList [])) ctx (w_bias w) (ict_atr cs (q_atr_period q)) = Ok k
        \<and> k_target k \<noteq> None \<and> \<not> flt (k_rr k) (q_min_rr q) \<and> score_sweep_mss_fvg_setup e q u ctx = Ok z \<and> z_allowed z \<and> dec = Signal u z ws)"
    from sweep_step [OF a(3,4)] obtain ps where ps: "py_iter (pget ctx ''liquidity_pools'' (PList [])) = Ok ps"
      "\<And>ss ecs. advance e q ps ss cs ecs Searching (Swept (w_bias w) (w_index w))" by blast
    from shift_step [OF b(1)] obtain ss where ss: "confirmed_swings e cs (pget ctx ''swings'' (PList [])) = Ok ss"
      "\<And>ecs. advance e q ps ss cs ecs (Swept (w_bias w) (w_index w)) (Shifted (w_bias w) (m_index m))" by blast
    let ?a = "advance e q ps ss cs entry_cs"
    have run: "?a\<^sup>*\<^sup>* Searching (Gapped (w_bias w) (g_index g) (g_low g) (g_high g))"
      by (intro converse_rtranclp_into_rtranclp [of ?a, OF ps(2)] converse_rtranclp_into_rtranclp [of ?a, OF ss(2)]
          converse_rtranclp_into_rtranclp [of ?a, OF displace_step [OF b(2)]] r_into_rtranclp [of ?a, OF gap_step [OF b(3)]])
    from dec have "?a\<^sup>*\<^sup>* Searching ph"
    proof
      assume "smf_detect_retest q entry_cs g (w_bias w) = Ok None \<and> dec = NoTrade ''waiting_for_retest'' [''waiting_for_fvg_retest''] (Some (w, m, d, g))"
      with assms(2) run show ?thesis by (simp add: decision_phase_def)
    next
      assume "\<exists>r k z ws. let u = \<lparr>u_bias = w_bias w, u_sweep = w, u_mss = m, u_disp = d, u_fvg = g, u_entry = r, u_risk = k\<rparr> in
          smf_detect_retest q entry_cs g (w_bias w) = Ok (Some r)
        \<and> smf_risk_plan e q w r (pget ctx ''liquidity_pools'' (PList [])) ctx (w_bias w) (ict_atr cs (q_atr_period q)) = Ok k
        \<and> k_target k \<noteq> None \<and> \<not> flt (k_rr k) (q_min_rr q) \<and> score_sweep_mss_fvg_setup e q u ctx = Ok z \<and> z_allowed z \<and> dec = Signal u z ws"
      then obtain r where "smf_detect_retest q entry_cs g (w_bias w) = Ok (Some r)" "ph = Entered (w_bias w) (r_index r)"
        using assms(2) by (auto simp: Let_def decision_phase_def)
      with run retest_step show ?thesis by (metis rtranclp.rtrancl_into_rtrancl)
    qed
    with a(1,2) b(4) ps(1) ss(1) show ?thesis by blast
  qed
qed

subsection \<open>What a signal promises\<close>

lemma pool_targets_side:
  "pool_targets e dir entry ps = Ok xs \<Longrightarrow> x \<in> set xs \<Longrightarrow> (dir = Bullish \<and> flt entry x) \<or> (dir = Bearish \<and> flt x entry)"
  by (induction ps arbitrary: xs) (auto simp: rmap_Inr_iff Let_def split: if_splits elim!: rbind_InrE)

lemma enough_rewardD: "enough_reward m entry stop t \<Longrightarrow> t \<noteq> NaN \<and> entry \<noteq> NaN \<and> stop \<noteq> NaN"
  by (cases t; cases entry; cases stop; cases m) (auto simp: enough_reward_def fsub_def)

lemma select_targetD:
  assumes "smf_select_target e entry stop pools ctx dir min_rr = Ok (Some t)" "dir \<noteq> NoBias"
  shows "enough_reward min_rr entry stop t \<and> (if dir = Bullish then flt entry t else flt t entry)"
proof -
  have pools: "enough_reward min_rr entry stop t \<and> (if dir = Bullish then flt entry t else flt t entry)"
    if "rbind (py_iter pools) (\<lambda>ps. rmap (nearest_reward dir entry stop min_rr) (pool_targets e dir entry ps)) = Ok (Some t)"
  proof -
    from that obtain ps xs where xs: "pool_targets e dir entry ps = Ok xs" "nearest_reward dir entry stop min_rr xs = Some t"
      by (auto simp: rmap_Inr_iff elim!: rbind_InrE)
    have "t \<in> set (if dir = Bearish then sort_desc flt xs else sort_by flt xs) \<and> enough_reward min_rr entry stop t"
      using xs(2) unfolding nearest_reward_def find_Some_iff by (metis nth_mem)
    then have "t \<in> set xs" "enough_reward min_rr entry stop t" by (auto split: if_splits)
    with pool_targets_side [OF xs(1)] show ?thesis by (auto dest: flt_asym)
  qed
  have given: "enough_reward min_rr entry stop t \<and> (if dir = Bullish then flt entry t else flt t entry)"
    if "valid_target_price e t entry stop dir min_rr target latest" for target latest
    using that assms(2) enough_rewardD [of min_rr entry stop t]
    by (cases dir) (auto simp: valid_target_price_def not_fle split: if_splits)
  from assms(1) consider "rbind (py_iter pools) (\<lambda>ps. rmap (nearest_reward dir entry stop min_rr) (pool_targets e dir entry ps)) = Ok (Some t)"
    | "valid_target_price e t entry stop dir min_rr (pget ctx ''target_liquidity'' PNone) (pget ctx ''latest_sweep_event'' PNone)"
    unfolding smf_select_target_def Let_def by (auto elim!: rbind_InrE split: if_splits option.splits)
  then show ?thesis by cases (use pools given in blast)+
qed

text \<open>The prices of a plan, before rounding.\<close>

lemma risk_planD:
  assumes "smf_risk_plan e q w r pools ctx dir atr = Ok k" "k_target k \<noteq> None" "dir \<noteq> NoBias"
  shows "\<exists>stop t. k_stop k = py_round stop 5 \<and> k_target k = Some (py_round t 5) \<and> enough_reward (q_min_rr q) (r_entry r) stop t
    \<and> (if dir = Bullish then flt (r_entry r) t else flt t (r_entry r)) \<and> k_min_rr k = q_min_rr q"
proof -
  from assms(1) obtain stop target where k: "k_stop k = py_round stop 5" "k_target k = map_option (\<lambda>t. py_round t 5) target" "k_min_rr k = q_min_rr q"
    and t: "smf_select_target e (r_entry r) stop pools ctx dir (q_min_rr q) = Ok target"
    unfolding smf_risk_plan_def Let_def by (auto elim!: rbind_InrE simp: rmap_Inr_iff)
  from assms(2) k(2) obtain x where x: "target = Some x" by auto
  from select_targetD [OF t [unfolded x] assms(3)] k x show ?thesis by (intro exI [of _ stop] exI [of _ x]) simp
qed

lemma signalD:
  assumes "smf_decide e q ctx = Ok (Signal u z ws)"
  obtains cs where "closed_candles e (fst (setup_rows q ctx)) = Ok cs"
    "u_bias u = w_bias (u_sweep u)" "u_bias u \<noteq> NoBias" "xauusd_filter_reasons e q ctx = Ok []"
    "smf_detect_mss e q cs (pget ctx ''swings'' (PList [])) (u_sweep u) = Ok (Some (u_mss u))"
    "smf_risk_plan e q (u_sweep u) (u_entry u) (pget ctx ''liquidity_pools'' (PList [])) ctx (u_bias u) (ict_atr cs (q_atr_period q)) = Ok (u_risk u)"
    "k_target (u_risk u) \<noteq> None" "\<not> flt (k_rr (u_risk u)) (q_min_rr q)" "score_sweep_mss_fvg_setup e q u ctx = Ok z" "z_allowed z"
    "select_fvg_after_mss q (smf_detect_fvg q cs) (u_bias u) (m_index (u_mss u)) (d_end (u_disp u)) = Some (u_fvg u)"
    "\<exists>entry_cs. smf_detect_retest q entry_cs (u_fvg u) (u_bias u) = Ok (Some (u_entry u))"
proof -
  have "decision_phase (Signal u z ws) = Some (Entered (u_bias u) (r_index (u_entry u)))" by (simp add: decision_phase_def)
  from decideD [OF assms this] obtain cs w fbs where a: "closed_candles e (fst (setup_rows q ctx)) = Ok cs" "xauusd_filter_reasons e q ctx = Ok []"
    "try_sweep e q ctx cs (fst (entry_rows q ctx)) (smf_detect_fvg q cs) fbs w = Ok (Inr (Signal u z ws))" by blast
  from a(3) show thesis
  proof (rule try_sweepD, goal_cases)
    case (1 m d g entry_cs)
    then obtain r k where u: "u = \<lparr>u_bias = w_bias w, u_sweep = w, u_mss = m, u_disp = d, u_fvg = g, u_entry = r, u_risk = k\<rparr>"
      and b: "smf_detect_retest q entry_cs g (w_bias w) = Ok (Some r)"
        "smf_risk_plan e q w r (pget ctx ''liquidity_pools'' (PList [])) ctx (w_bias w) (ict_atr cs (q_atr_period q)) = Ok k"
        "k_target k \<noteq> None" "\<not> flt (k_rr k) (q_min_rr q)" "score_sweep_mss_fvg_setup e q u ctx = Ok z" "z_allowed z"
      by (auto simp: Let_def)
    have "w_bias w \<noteq> NoBias" using 1(1) by (rule detect_mssD)
    with u b 1 a that [of cs] show thesis by fastforce
  qed
qed

text \<open>C23. A signal has its events in order, its target beyond the entry, at least the configured reward and score, and passed the
  filters.\<close>

theorem signals_are_sound:
  assumes "smf_decide e q ctx = Ok (Signal u z ws)"
  shows "w_index (u_sweep u) < m_index (u_mss u) \<and> m_index (u_mss u) \<le> g_index (u_fvg u) \<and> g_index (u_fvg u) < r_index (u_entry u)
    \<and> m_index (u_mss u) \<le> w_index (u_sweep u) + q_mss_wait q \<and> r_index (u_entry u) \<le> g_index (u_fvg u) + q_retest_expiry q
    \<and> (\<exists>stop t. k_stop (u_risk u) = py_round stop 5 \<and> k_target (u_risk u) = Some (py_round t 5)
        \<and> (if u_bias u = Bullish then flt (r_entry (u_entry u)) t else flt t (r_entry (u_entry u)))
        \<and> enough_reward (q_min_rr q) (r_entry (u_entry u)) stop t)
    \<and> \<not> flt (k_rr (u_risk u)) (q_min_rr q) \<and> fle (q_min_score q) (z_total z) \<and> xauusd_filter_reasons e q ctx = Ok []"
  using assms
proof (rule signalD)
  fix cs
  assume a: "u_bias u = w_bias (u_sweep u)" "u_bias u \<noteq> NoBias" "xauusd_filter_reasons e q ctx = Ok []"
    "smf_detect_mss e q cs (pget ctx ''swings'' (PList [])) (u_sweep u) = Ok (Some (u_mss u))"
    "smf_risk_plan e q (u_sweep u) (u_entry u) (pget ctx ''liquidity_pools'' (PList [])) ctx (u_bias u) (ict_atr cs (q_atr_period q)) = Ok (u_risk u)"
    "k_target (u_risk u) \<noteq> None" "\<not> flt (k_rr (u_risk u)) (q_min_rr q)" "score_sweep_mss_fvg_setup e q u ctx = Ok z" "z_allowed z"
    "select_fvg_after_mss q (smf_detect_fvg q cs) (u_bias u) (m_index (u_mss u)) (d_end (u_disp u)) = Some (u_fvg u)"
    "\<exists>entry_cs. smf_detect_retest q entry_cs (u_fvg u) (u_bias u) = Ok (Some (u_entry u))"
  from a(4) have i: "w_index (u_sweep u) < m_index (u_mss u) \<and> m_index (u_mss u) \<le> w_index (u_sweep u) + q_mss_wait q"
    by (rule detect_mssD) auto
  have g: "m_index (u_mss u) \<le> g_index (u_fvg u)" using select_fvgD [OF a(10)] by simp
  from a(11) obtain entry_cs where "retest_scan (u_bias u) (q_entry_mode q) (q_retest_expiry q) (u_fvg u) entry_cs = Some (u_entry u)"
    by (auto simp: smf_detect_retest_def split: if_splits)
  from retest_scanD [OF this] have r: "g_index (u_fvg u) < r_index (u_entry u) \<and> r_index (u_entry u) \<le> g_index (u_fvg u) + q_retest_expiry q" by auto
  from a(8,9) have "fle (q_min_score q) (z_total z)"
    by (auto simp: score_sweep_mss_fvg_setup_def rmap_Inr_iff Let_def)
  with i g r risk_planD [OF a(5,6,2)] a(3,7) show ?thesis by blast
qed

subsection \<open>Behind the selector\<close>

lemma signal_payload_read:
  assumes "u_bias u \<noteq> NoBias" "k_target (u_risk u) = Some tg"
  shows "signal_direction t (signal_payload e ctx u z ws) = Some (if u_bias u = Bullish then BUY else SELL)"
    "extract_float t (signal_payload e ctx u z ws) entry_paths = Ok (Some (r_entry (u_entry u)))"
    "extract_float t (signal_payload e ctx u z ws) stop_paths = Ok (Some (k_stop (u_risk u)))"
    "extract_float t (signal_payload e ctx u z ws) target_paths = Ok (Some tg)"
    "extract_float t (signal_payload e ctx u z ws) rr_paths = Ok (Some (k_rr (u_risk u)))"
    "normalized_score t (signal_payload e ctx u z ws) = Ok (py_round (clamp (scaled (z_total z)) (Fin 0) (Fin 100)) 2)"
  using assms
  by (cases "u_bias u";
      simp add: signal_direction_def signal_payload_def Let_def pget_def nested_def py_or_def bias_words
        entry_paths_def stop_paths_def target_paths_def rr_paths_def is_number_simps retest_payload_def risk_payload_def opt_val_def
        normalized_score_def score_payload_def)+

text \<open>What the selector trades of this strategy is a signal of it: the evaluation's direction, prices and score are the signal's
  own.\<close>

theorem selected_signals:
  assumes "sd_generator d = generate_sweep_mss_fvg_signal e"
    and "evaluate_one t ctx config d = Ok ev" "is_tradeable ev"
  shows "\<exists>q u z ws. smf_read_config e (case config of None \<Rightarrow> [] | Some c \<Rightarrow> c) = Ok q \<and> smf_decide e q ctx = Ok (Signal u z ws)
    \<and> ev_direction ev = Some (if u_bias u = Bullish then BUY else SELL) \<and> ev_entry_price ev = Some (r_entry (u_entry u))
    \<and> ev_stop_loss ev = Some (k_stop (u_risk u)) \<and> ev_take_profit ev = k_target (u_risk u)
    \<and> ev_normalized_score ev = py_round (clamp (scaled (z_total z)) (Fin 0) (Fin 100)) 2"
proof -
  from assms(2,3) obtain signal ev0 where g: "sd_generator d ctx config = Ok signal" "read_signal t d signal = Ok ev0"
    "py_truthy (pget signal ''trade_allowed'' PNone) \<or> py_truthy (nested signal ''score.trade_allowed'')"
    and ev: "ev_direction ev = ev_direction ev0" "ev_entry_price ev = ev_entry_price ev0" "ev_stop_loss ev = ev_stop_loss ev0"
    "ev_take_profit ev = ev_take_profit ev0" "ev_normalized_score ev = ev_normalized_score ev0"
    by (rule tradeable_signal)
  from g(1) assms(1) obtain q dec where q: "smf_read_config e (case config of None \<Rightarrow> [] | Some c \<Rightarrow> c) = Ok q"
    "smf_decide e q ctx = Ok dec" "signal = decision_payload e ctx dec"
    by (auto simp: generate_sweep_mss_fvg_signal_def rmap_Inr_iff elim!: rbind_InrE)
  have "\<not> py_truthy (pget (no_trade_payload e ctx s rs ps) ''trade_allowed'' PNone) \<and> \<not> py_truthy (nested (no_trade_payload e ctx s rs ps) ''score.trade_allowed'')"
    for s rs ps by (auto simp: no_trade_payload_def pget_def nested_def split: option.splits)
  with g(3) q(3) obtain u z ws where dec: "dec = Signal u z ws" by (cases dec) (auto simp: decision_payload_def)
  from q(2) dec have b: "u_bias u \<noteq> NoBias" and "k_target (u_risk u) \<noteq> None" by (auto elim: signalD)
  then obtain tg where tg: "k_target (u_risk u) = Some tg" by blast
  note reads = signal_payload_read [OF b tg, of t e ctx z ws]
  have "ev_direction ev0 = Some (if u_bias u = Bullish then BUY else SELL) \<and> ev_entry_price ev0 = Some (r_entry (u_entry u))
    \<and> ev_stop_loss ev0 = Some (k_stop (u_risk u)) \<and> ev_take_profit ev0 = Some tg
    \<and> ev_normalized_score ev0 = py_round (clamp (scaled (z_total z)) (Fin 0) (Fin 100)) 2"
    using g(2) unfolding q(3) dec decision_payload_def read_signal_def by (auto simp: reads Let_def)
  with q(1,2) dec ev tg show ?thesis by auto
qed

end
