(* ===== verification/SweepMssFvgDemo.thy ===== *)
theory SweepMssFvgDemo
  imports SweepMssFvg
begin

section \<open>The strategy on nine candles, and behind the selector\<close>

text \<open>
  A market that sweeps the low at 100, falls to 90 and turns there: the strategy signals a buy at 92.75 with its stop at 99,
  above the entry. The example serves as witness of the theorems on signals. The rounding certificates come first.
\<close>

subsection \<open>Rounding certificates\<close>

lemma swp_r1: "rnd (1 / 1000000000) = Fin (4835703278458517 / 4835703278458516698824704)"
  by (rule rnd_cert [where e = "-82" and m = 4835703278458517]) (simp_all add: p2_def)

lemma swp_r2: "rnd (11 / 20) = Fin (2476979795053773 / 4503599627370496)"
  by (rule rnd_cert [where e = "-53" and m = 4953959590107546]) (simp_all add: p2_def)

lemma swp_r3: "rnd (7 / 10) = Fin (3152519739159347 / 4503599627370496)"
  by (rule rnd_cert [where e = "-53" and m = 6305039478318694]) (simp_all add: p2_def)

lemma swp_r4: "rnd (1 / 50) = Fin (5764607523034235 / 288230376151711744)"
  by (rule rnd_cert [where e = "-58" and m = 5764607523034235]) (simp_all add: p2_def)

lemma swp_r5: "rnd (1 / 100) = Fin (5764607523034235 / 576460752303423488)"
  by (rule rnd_cert [where e = "-59" and m = 5764607523034235]) (simp_all add: p2_def)

lemma swp_r6: "rnd (1 / 20) = Fin (3602879701896397 / 72057594037927936)"
  by (rule rnd_cert [where e = "-57" and m = 7205759403792794]) (simp_all add: p2_def)

lemma swp_r7: "rnd (3 / 20) = Fin (5404319552844595 / 36028797018963968)"
  by (rule rnd_cert [where e = "-55" and m = 5404319552844595]) (simp_all add: p2_def)

lemma swp_r8: "rnd (401 / 50) = Fin (2257429313219461 / 281474976710656)"
  by (rule rnd_cert [where e = "-49" and m = 4514858626438922]) (simp_all add: p2_def)

lemma swp_r9: "rnd (401 / 5) = Fin (5643573283048653 / 70368744177664)"
  by (rule rnd_cert [where e = "-46" and m = 5643573283048653]) (simp_all add: p2_def)

lemma swp_r10: "rnd (149 / 20) = Fin (8387954305977549 / 1125899906842624)"
  by (rule rnd_cert [where e = "-50" and m = 8387954305977549]) (simp_all add: p2_def)

lemma swp_r11: "rnd (669 / 100) = Fin (7532270376777155 / 1125899906842624)"
  by (rule rnd_cert [where e = "-50" and m = 7532270376777155]) (simp_all add: p2_def)

lemma swp_r12: "rnd (16212958658533785 / 36028797018963968) = Fin (2026619832316723 / 4503599627370496)"
  by (rule rnd_tie_cert [where e = "-54" and m = 8106479329266892]) (simp_all add: p2_def)

lemma swp_r13: "rnd (33551817223910195 / 4503599627370496) = Fin (8387954305977549 / 1125899906842624)"
  by (rule rnd_cert [where e = "-50" and m = 8387954305977549]) (simp_all add: p2_def)

lemma swp_r14: "rnd (83415881553409413054726144 / 4835703278458517) = Fin (17250000000)"
  by (rule rnd_cert [where e = "-18" and m = 4521984000000000]) (simp_all add: p2_def)

lemma swp_r15: "rnd (69 / 25) = Fin (1553741871442821 / 562949953421312)"
  by (rule rnd_cert [where e = "-51" and m = 6214967485771284]) (simp_all add: p2_def)

lemma swp_r16: "rnd (13 / 100) = Fin (1170935903116329 / 9007199254740992)"
  by (rule rnd_cert [where e = "-55" and m = 4683743612465316]) (simp_all add: p2_def)

lemma swp_r17: "rnd (1 / 10) = Fin (3602879701896397 / 36028797018963968)"
  by (rule rnd_cert [where e = "-56" and m = 7205759403792794]) (simp_all add: p2_def)

lemma swp_r18: "rnd (2 / 25) = Fin (5764607523034235 / 72057594037927936)"
  by (rule rnd_cert [where e = "-56" and m = 5764607523034235]) (simp_all add: p2_def)

lemma swp_r19: "rnd (17564038546744935 / 18014398509481984) = Fin (2195504818343117 / 2251799813685248)"
  by (rule rnd_tie_cert [where e = "-53" and m = 8782019273372468]) (simp_all add: p2_def)

lemma swp_r20: "rnd (9821756850568321972501809297621 / 10141204801825835211973625643008) = Fin (8723472478216651 / 9007199254740992)"
  by (rule rnd_cert [where e = "-53" and m = 8723472478216651]) (simp_all add: p2_def)

lemma swp_r21: "rnd (8819805816147929700356074663995 / 10141204801825835211973625643008) = Fin (7833561191848241 / 9007199254740992)"
  by (rule rnd_cert [where e = "-53" and m = 7833561191848241]) (simp_all add: p2_def)

lemma swp_r22: "rnd (126100789566373895 / 144115188075855872) = Fin (7 / 8)"
  by (rule rnd_cert [where e = "-53" and m = 7881299347898368]) (simp_all add: p2_def)

lemma swp_r23: "rnd (61248954932238749 / 72057594037927936) = Fin (1914029841632461 / 2251799813685248)"
  by (rule rnd_cert [where e = "-53" and m = 7656119366529844]) (simp_all add: p2_def)

lemma swp_r24: "rnd (74939897799445055 / 144115188075855872) = Fin (1170935903116329 / 2251799813685248)"
  by (rule rnd_cert [where e = "-53" and m = 4683743612465316]) (simp_all add: p2_def)

lemma swp_r25: "rnd (32425917317067573 / 36028797018963968) = Fin (8106479329266893 / 9007199254740992)"
  by (rule rnd_cert [where e = "-53" and m = 8106479329266893]) (simp_all add: p2_def)

lemma swp_r26: "rnd (27021597764222975 / 18014398509481984) = Fin (3 / 2)"
  by (rule rnd_cert [where e = "-52" and m = 6755399441055744]) (simp_all add: p2_def)

lemma swp_r27: "rnd (40352252661239645 / 72057594037927936) = Fin (1261007895663739 / 2251799813685248)"
  by (rule rnd_cert [where e = "-53" and m = 5044031582654956]) (simp_all add: p2_def)

lemma swp_r28: "rnd (17505491751589119 / 9007199254740992) = Fin (68380827154645 / 35184372088832)"
  by (rule rnd_tie_cert [where e = "-52" and m = 8752745875794560]) (simp_all add: p2_def)

lemma swp_r29: "rnd (25339052943437361 / 9007199254740992) = Fin (1583690808964835 / 562949953421312)"
  by (rule rnd_cert [where e = "-51" and m = 6334763235859340]) (simp_all add: p2_def)

lemma swp_r30: "rnd (10219117914466393 / 2251799813685248) = Fin (1277389739308299 / 281474976710656)"
  by (rule rnd_tie_cert [where e = "-50" and m = 5109558957233196]) (simp_all add: p2_def)

lemma swp_r31: "rnd (11390053817582721 / 2251799813685248) = Fin (88984795449865 / 17592186044416)"
  by (rule rnd_tie_cert [where e = "-50" and m = 5695026908791360]) (simp_all add: p2_def)

lemma swp_r32: "rnd (53666694599597773 / 9007199254740992) = Fin (3354168412474861 / 562949953421312)"
  by (rule rnd_cert [where e = "-50" and m = 6708336824949722]) (simp_all add: p2_def)

lemma swp_r33: "rnd (18055381266091055 / 2251799813685248) = Fin (1128461329130691 / 140737488355328)"
  by (rule rnd_cert [where e = "-49" and m = 4513845316522764]) (simp_all add: p2_def)

lemma swp_r34: "rnd (72221525064364225 / 9007199254740992) = Fin (1128461329130691 / 140737488355328)"
  by (rule rnd_cert [where e = "-49" and m = 4513845316522764]) (simp_all add: p2_def)

lemma swp_r35: "rnd (11287146566097305 / 140737488355328) = Fin (1410893320762163 / 17592186044416)"
  by (rule rnd_tie_cert [where e = "-46" and m = 5643573283048652]) (simp_all add: p2_def)

lemma swp_p1: "py_round (Fin (15 / 2)) 2 = Fin (15 / 2)"
  by (rule py_round_cert [where m = "750"]) (simp_all add: feval swp_r1 swp_r2 swp_r3 swp_r4 swp_r5 swp_r6 swp_r7 swp_r8 swp_r9 swp_r10 swp_r11 swp_r12 swp_r13 swp_r14 swp_r15 swp_r16 swp_r17 swp_r18 swp_r19 swp_r20 swp_r21 swp_r22 swp_r23 swp_r24 swp_r25 swp_r26 swp_r27 swp_r28 swp_r29 swp_r30 swp_r31 swp_r32 swp_r33 swp_r34 swp_r35)

lemma swp_p2: "py_round (Fin (8387954305977549 / 1125899906842624)) 2 = Fin (8387954305977549 / 1125899906842624)"
  by (rule py_round_cert [where m = "745"]) (simp_all add: feval swp_r1 swp_r2 swp_r3 swp_r4 swp_r5 swp_r6 swp_r7 swp_r8 swp_r9 swp_r10 swp_r11 swp_r12 swp_r13 swp_r14 swp_r15 swp_r16 swp_r17 swp_r18 swp_r19 swp_r20 swp_r21 swp_r22 swp_r23 swp_r24 swp_r25 swp_r26 swp_r27 swp_r28 swp_r29 swp_r30 swp_r31 swp_r32 swp_r33 swp_r34 swp_r35)

lemma swp_p3: "py_round (Fin (1)) 3 = Fin (1)"
  by (rule py_round_cert [where m = "1000"]) (simp_all add: feval swp_r1 swp_r2 swp_r3 swp_r4 swp_r5 swp_r6 swp_r7 swp_r8 swp_r9 swp_r10 swp_r11 swp_r12 swp_r13 swp_r14 swp_r15 swp_r16 swp_r17 swp_r18 swp_r19 swp_r20 swp_r21 swp_r22 swp_r23 swp_r24 swp_r25 swp_r26 swp_r27 swp_r28 swp_r29 swp_r30 swp_r31 swp_r32 swp_r33 swp_r34 swp_r35)

lemma swp_p4: "py_round (Fin (9 / 8)) 3 = Fin (9 / 8)"
  by (rule py_round_cert [where m = "1125"]) (simp_all add: feval swp_r1 swp_r2 swp_r3 swp_r4 swp_r5 swp_r6 swp_r7 swp_r8 swp_r9 swp_r10 swp_r11 swp_r12 swp_r13 swp_r14 swp_r15 swp_r16 swp_r17 swp_r18 swp_r19 swp_r20 swp_r21 swp_r22 swp_r23 swp_r24 swp_r25 swp_r26 swp_r27 swp_r28 swp_r29 swp_r30 swp_r31 swp_r32 swp_r33 swp_r34 swp_r35)

lemma swp_p5: "py_round (Fin (107 / 16)) 2 = Fin (7532270376777155 / 1125899906842624)"
  by (rule py_round_cert [where m = "669"]) (simp_all add: feval swp_r1 swp_r2 swp_r3 swp_r4 swp_r5 swp_r6 swp_r7 swp_r8 swp_r9 swp_r10 swp_r11 swp_r12 swp_r13 swp_r14 swp_r15 swp_r16 swp_r17 swp_r18 swp_r19 swp_r20 swp_r21 swp_r22 swp_r23 swp_r24 swp_r25 swp_r26 swp_r27 swp_r28 swp_r29 swp_r30 swp_r31 swp_r32 swp_r33 swp_r34 swp_r35)

lemma swp_p6: "py_round (Fin (35 / 4)) 2 = Fin (35 / 4)"
  by (rule py_round_cert [where m = "875"]) (simp_all add: feval swp_r1 swp_r2 swp_r3 swp_r4 swp_r5 swp_r6 swp_r7 swp_r8 swp_r9 swp_r10 swp_r11 swp_r12 swp_r13 swp_r14 swp_r15 swp_r16 swp_r17 swp_r18 swp_r19 swp_r20 swp_r21 swp_r22 swp_r23 swp_r24 swp_r25 swp_r26 swp_r27 swp_r28 swp_r29 swp_r30 swp_r31 swp_r32 swp_r33 swp_r34 swp_r35)

lemma swp_p7: "py_round (Fin (100)) 5 = Fin (100)"
  by (rule py_round_cert [where m = "10000000"]) (simp_all add: feval swp_r1 swp_r2 swp_r3 swp_r4 swp_r5 swp_r6 swp_r7 swp_r8 swp_r9 swp_r10 swp_r11 swp_r12 swp_r13 swp_r14 swp_r15 swp_r16 swp_r17 swp_r18 swp_r19 swp_r20 swp_r21 swp_r22 swp_r23 swp_r24 swp_r25 swp_r26 swp_r27 swp_r28 swp_r29 swp_r30 swp_r31 swp_r32 swp_r33 swp_r34 swp_r35)

lemma swp_p8: "py_round (Fin (101)) 5 = Fin (101)"
  by (rule py_round_cert [where m = "10100000"]) (simp_all add: feval swp_r1 swp_r2 swp_r3 swp_r4 swp_r5 swp_r6 swp_r7 swp_r8 swp_r9 swp_r10 swp_r11 swp_r12 swp_r13 swp_r14 swp_r15 swp_r16 swp_r17 swp_r18 swp_r19 swp_r20 swp_r21 swp_r22 swp_r23 swp_r24 swp_r25 swp_r26 swp_r27 swp_r28 swp_r29 swp_r30 swp_r31 swp_r32 swp_r33 swp_r34 swp_r35)

lemma swp_p9: "py_round (Fin (201 / 2)) 5 = Fin (201 / 2)"
  by (rule py_round_cert [where m = "10050000"]) (simp_all add: feval swp_r1 swp_r2 swp_r3 swp_r4 swp_r5 swp_r6 swp_r7 swp_r8 swp_r9 swp_r10 swp_r11 swp_r12 swp_r13 swp_r14 swp_r15 swp_r16 swp_r17 swp_r18 swp_r19 swp_r20 swp_r21 swp_r22 swp_r23 swp_r24 swp_r25 swp_r26 swp_r27 swp_r28 swp_r29 swp_r30 swp_r31 swp_r32 swp_r33 swp_r34 swp_r35)

lemma swp_p10: "py_round (Fin (1)) 5 = Fin (1)"
  by (rule py_round_cert [where m = "100000"]) (simp_all add: feval swp_r1 swp_r2 swp_r3 swp_r4 swp_r5 swp_r6 swp_r7 swp_r8 swp_r9 swp_r10 swp_r11 swp_r12 swp_r13 swp_r14 swp_r15 swp_r16 swp_r17 swp_r18 swp_r19 swp_r20 swp_r21 swp_r22 swp_r23 swp_r24 swp_r25 swp_r26 swp_r27 swp_r28 swp_r29 swp_r30 swp_r31 swp_r32 swp_r33 swp_r34 swp_r35)

lemma swp_p11: "py_round (Fin (183 / 2)) 5 = Fin (183 / 2)"
  by (rule py_round_cert [where m = "9150000"]) (simp_all add: feval swp_r1 swp_r2 swp_r3 swp_r4 swp_r5 swp_r6 swp_r7 swp_r8 swp_r9 swp_r10 swp_r11 swp_r12 swp_r13 swp_r14 swp_r15 swp_r16 swp_r17 swp_r18 swp_r19 swp_r20 swp_r21 swp_r22 swp_r23 swp_r24 swp_r25 swp_r26 swp_r27 swp_r28 swp_r29 swp_r30 swp_r31 swp_r32 swp_r33 swp_r34 swp_r35)

lemma swp_p12: "py_round (Fin (99)) 5 = Fin (99)"
  by (rule py_round_cert [where m = "9900000"]) (simp_all add: feval swp_r1 swp_r2 swp_r3 swp_r4 swp_r5 swp_r6 swp_r7 swp_r8 swp_r9 swp_r10 swp_r11 swp_r12 swp_r13 swp_r14 swp_r15 swp_r16 swp_r17 swp_r18 swp_r19 swp_r20 swp_r21 swp_r22 swp_r23 swp_r24 swp_r25 swp_r26 swp_r27 swp_r28 swp_r29 swp_r30 swp_r31 swp_r32 swp_r33 swp_r34 swp_r35)

lemma swp_p13: "py_round (Fin (381 / 4)) 5 = Fin (381 / 4)"
  by (rule py_round_cert [where m = "9525000"]) (simp_all add: feval swp_r1 swp_r2 swp_r3 swp_r4 swp_r5 swp_r6 swp_r7 swp_r8 swp_r9 swp_r10 swp_r11 swp_r12 swp_r13 swp_r14 swp_r15 swp_r16 swp_r17 swp_r18 swp_r19 swp_r20 swp_r21 swp_r22 swp_r23 swp_r24 swp_r25 swp_r26 swp_r27 swp_r28 swp_r29 swp_r30 swp_r31 swp_r32 swp_r33 swp_r34 swp_r35)

lemma swp_p14: "py_round (Fin (15 / 2)) 5 = Fin (15 / 2)"
  by (rule py_round_cert [where m = "750000"]) (simp_all add: feval swp_r1 swp_r2 swp_r3 swp_r4 swp_r5 swp_r6 swp_r7 swp_r8 swp_r9 swp_r10 swp_r11 swp_r12 swp_r13 swp_r14 swp_r15 swp_r16 swp_r17 swp_r18 swp_r19 swp_r20 swp_r21 swp_r22 swp_r23 swp_r24 swp_r25 swp_r26 swp_r27 swp_r28 swp_r29 swp_r30 swp_r31 swp_r32 swp_r33 swp_r34 swp_r35)

lemma swp_p15: "py_round (Fin (94)) 5 = Fin (94)"
  by (rule py_round_cert [where m = "9400000"]) (simp_all add: feval swp_r1 swp_r2 swp_r3 swp_r4 swp_r5 swp_r6 swp_r7 swp_r8 swp_r9 swp_r10 swp_r11 swp_r12 swp_r13 swp_r14 swp_r15 swp_r16 swp_r17 swp_r18 swp_r19 swp_r20 swp_r21 swp_r22 swp_r23 swp_r24 swp_r25 swp_r26 swp_r27 swp_r28 swp_r29 swp_r30 swp_r31 swp_r32 swp_r33 swp_r34 swp_r35)

lemma swp_p16: "py_round (Fin (371 / 4)) 5 = Fin (371 / 4)"
  by (rule py_round_cert [where m = "9275000"]) (simp_all add: feval swp_r1 swp_r2 swp_r3 swp_r4 swp_r5 swp_r6 swp_r7 swp_r8 swp_r9 swp_r10 swp_r11 swp_r12 swp_r13 swp_r14 swp_r15 swp_r16 swp_r17 swp_r18 swp_r19 swp_r20 swp_r21 swp_r22 swp_r23 swp_r24 swp_r25 swp_r26 swp_r27 swp_r28 swp_r29 swp_r30 swp_r31 swp_r32 swp_r33 swp_r34 swp_r35)

lemma swp_p17: "py_round (Fin (5 / 2)) 5 = Fin (5 / 2)"
  by (rule py_round_cert [where m = "250000"]) (simp_all add: feval swp_r1 swp_r2 swp_r3 swp_r4 swp_r5 swp_r6 swp_r7 swp_r8 swp_r9 swp_r10 swp_r11 swp_r12 swp_r13 swp_r14 swp_r15 swp_r16 swp_r17 swp_r18 swp_r19 swp_r20 swp_r21 swp_r22 swp_r23 swp_r24 swp_r25 swp_r26 swp_r27 swp_r28 swp_r29 swp_r30 swp_r31 swp_r32 swp_r33 swp_r34 swp_r35)

lemma swp_p18: "py_round (Fin (110)) 5 = Fin (110)"
  by (rule py_round_cert [where m = "11000000"]) (simp_all add: feval swp_r1 swp_r2 swp_r3 swp_r4 swp_r5 swp_r6 swp_r7 swp_r8 swp_r9 swp_r10 swp_r11 swp_r12 swp_r13 swp_r14 swp_r15 swp_r16 swp_r17 swp_r18 swp_r19 swp_r20 swp_r21 swp_r22 swp_r23 swp_r24 swp_r25 swp_r26 swp_r27 swp_r28 swp_r29 swp_r30 swp_r31 swp_r32 swp_r33 swp_r34 swp_r35)

lemma swp_p19: "py_round (Fin (17250000000)) 2 = Fin (17250000000)"
  by (rule py_round_cert [where m = "1725000000000"]) (simp_all add: feval swp_r1 swp_r2 swp_r3 swp_r4 swp_r5 swp_r6 swp_r7 swp_r8 swp_r9 swp_r10 swp_r11 swp_r12 swp_r13 swp_r14 swp_r15 swp_r16 swp_r17 swp_r18 swp_r19 swp_r20 swp_r21 swp_r22 swp_r23 swp_r24 swp_r25 swp_r26 swp_r27 swp_r28 swp_r29 swp_r30 swp_r31 swp_r32 swp_r33 swp_r34 swp_r35)

lemma swp_p20: "py_round (Fin (1128461329130691 / 140737488355328)) 2 = Fin (2257429313219461 / 281474976710656)"
  by (rule py_round_cert [where m = "802"]) (simp_all add: feval swp_r1 swp_r2 swp_r3 swp_r4 swp_r5 swp_r6 swp_r7 swp_r8 swp_r9 swp_r10 swp_r11 swp_r12 swp_r13 swp_r14 swp_r15 swp_r16 swp_r17 swp_r18 swp_r19 swp_r20 swp_r21 swp_r22 swp_r23 swp_r24 swp_r25 swp_r26 swp_r27 swp_r28 swp_r29 swp_r30 swp_r31 swp_r32 swp_r33 swp_r34 swp_r35)

lemma swp_p21: "py_round (Fin (7532270376777155 / 1125899906842624)) 2 = Fin (7532270376777155 / 1125899906842624)"
  by (rule py_round_cert [where m = "669"]) (simp_all add: feval swp_r1 swp_r2 swp_r3 swp_r4 swp_r5 swp_r6 swp_r7 swp_r8 swp_r9 swp_r10 swp_r11 swp_r12 swp_r13 swp_r14 swp_r15 swp_r16 swp_r17 swp_r18 swp_r19 swp_r20 swp_r21 swp_r22 swp_r23 swp_r24 swp_r25 swp_r26 swp_r27 swp_r28 swp_r29 swp_r30 swp_r31 swp_r32 swp_r33 swp_r34 swp_r35)

lemma swp_p22: "py_round (Fin (17 / 2)) 2 = Fin (17 / 2)"
  by (rule py_round_cert [where m = "850"]) (simp_all add: feval swp_r1 swp_r2 swp_r3 swp_r4 swp_r5 swp_r6 swp_r7 swp_r8 swp_r9 swp_r10 swp_r11 swp_r12 swp_r13 swp_r14 swp_r15 swp_r16 swp_r17 swp_r18 swp_r19 swp_r20 swp_r21 swp_r22 swp_r23 swp_r24 swp_r25 swp_r26 swp_r27 swp_r28 swp_r29 swp_r30 swp_r31 swp_r32 swp_r33 swp_r34 swp_r35)

lemma swp_p23: "py_round (Fin (13 / 2)) 2 = Fin (13 / 2)"
  by (rule py_round_cert [where m = "650"]) (simp_all add: feval swp_r1 swp_r2 swp_r3 swp_r4 swp_r5 swp_r6 swp_r7 swp_r8 swp_r9 swp_r10 swp_r11 swp_r12 swp_r13 swp_r14 swp_r15 swp_r16 swp_r17 swp_r18 swp_r19 swp_r20 swp_r21 swp_r22 swp_r23 swp_r24 swp_r25 swp_r26 swp_r27 swp_r28 swp_r29 swp_r30 swp_r31 swp_r32 swp_r33 swp_r34 swp_r35)

lemma swp_p24: "py_round (Fin (9)) 2 = Fin (9)"
  by (rule py_round_cert [where m = "900"]) (simp_all add: feval swp_r1 swp_r2 swp_r3 swp_r4 swp_r5 swp_r6 swp_r7 swp_r8 swp_r9 swp_r10 swp_r11 swp_r12 swp_r13 swp_r14 swp_r15 swp_r16 swp_r17 swp_r18 swp_r19 swp_r20 swp_r21 swp_r22 swp_r23 swp_r24 swp_r25 swp_r26 swp_r27 swp_r28 swp_r29 swp_r30 swp_r31 swp_r32 swp_r33 swp_r34 swp_r35)

lemma swp_p25: "py_round (Fin (10)) 2 = Fin (10)"
  by (rule py_round_cert [where m = "1000"]) (simp_all add: feval swp_r1 swp_r2 swp_r3 swp_r4 swp_r5 swp_r6 swp_r7 swp_r8 swp_r9 swp_r10 swp_r11 swp_r12 swp_r13 swp_r14 swp_r15 swp_r16 swp_r17 swp_r18 swp_r19 swp_r20 swp_r21 swp_r22 swp_r23 swp_r24 swp_r25 swp_r26 swp_r27 swp_r28 swp_r29 swp_r30 swp_r31 swp_r32 swp_r33 swp_r34 swp_r35)

lemma swp_p26: "py_round (Fin (7)) 2 = Fin (7)"
  by (rule py_round_cert [where m = "700"]) (simp_all add: feval swp_r1 swp_r2 swp_r3 swp_r4 swp_r5 swp_r6 swp_r7 swp_r8 swp_r9 swp_r10 swp_r11 swp_r12 swp_r13 swp_r14 swp_r15 swp_r16 swp_r17 swp_r18 swp_r19 swp_r20 swp_r21 swp_r22 swp_r23 swp_r24 swp_r25 swp_r26 swp_r27 swp_r28 swp_r29 swp_r30 swp_r31 swp_r32 swp_r33 swp_r34 swp_r35)

lemma swp_p27: "py_round (Fin (1410893320762163 / 17592186044416)) 2 = Fin (5643573283048653 / 70368744177664)"
  by (rule py_round_cert [where m = "8020"]) (simp_all add: feval swp_r1 swp_r2 swp_r3 swp_r4 swp_r5 swp_r6 swp_r7 swp_r8 swp_r9 swp_r10 swp_r11 swp_r12 swp_r13 swp_r14 swp_r15 swp_r16 swp_r17 swp_r18 swp_r19 swp_r20 swp_r21 swp_r22 swp_r23 swp_r24 swp_r25 swp_r26 swp_r27 swp_r28 swp_r29 swp_r30 swp_r31 swp_r32 swp_r33 swp_r34 swp_r35)

lemmas swp_values =
  swp_r1 swp_r2 swp_r3 swp_r4 swp_r5 swp_r6 swp_r7 swp_r8 swp_r9 swp_r10 swp_r11 swp_r12 swp_r13 swp_r14 swp_r15 swp_r16 swp_r17 swp_r18 swp_r19 swp_r20 swp_r21 swp_r22 swp_r23 swp_r24 swp_r25 swp_r26 swp_r27 swp_r28 swp_r29 swp_r30 swp_r31 swp_r32 swp_r33 swp_r34 swp_r35 swp_p1 swp_p2 swp_p3 swp_p4 swp_p5 swp_p6 swp_p7 swp_p8 swp_p9 swp_p10 swp_p11 swp_p12 swp_p13 swp_p14 swp_p15 swp_p16 swp_p17 swp_p18 swp_p19 swp_p20 swp_p21 swp_p22 swp_p23 swp_p24 swp_p25 swp_p26 swp_p27

subsection \<open>The market\<close>

declare py_round.simps [simp del]

definition swp_text :: ict_text where
  "swp_text = \<lparr>px_show = (\<lambda>_. []), px_float = (\<lambda>_. Raise TypeError), px_g = (\<lambda>_. []), px_int = (\<lambda>_. Raise TypeError)\<rparr>"

definition swp_row :: "rat \<Rightarrow> rat \<Rightarrow> rat \<Rightarrow> rat \<Rightarrow> pyval" where
  "swp_row op hi lo cl = PDict [(''open'', PFloat (Fin op)), (''high'', PFloat (Fin hi)), (''low'', PFloat (Fin lo)), (''close'', PFloat (Fin cl))]"

definition swp_rows :: pyval where
  "swp_rows = PList [swp_row 102 102 101 (203/2), swp_row 101 101 99 (201/2), swp_row 100 100 90 91, swp_row 91 (183/2) 90 (181/2),
     swp_row (181/2) 92 90 91, swp_row 91 (183/2) 90 (181/2), swp_row (181/2) 95 (181/2) 95, swp_row 95 96 94 95, swp_row 95 95 91 93]"

definition swp_pools :: pyval where
  "swp_pools = PList [PDict [(''direction'', PStr ''sell_side''), (''price'', PFloat (Fin 100))],
                       PDict [(''direction'', PStr ''buy_side''), (''price'', PFloat (Fin 110))]]"

definition swp_context :: pydict where
  "swp_context = [(''candles'', swp_rows), (''liquidity_pools'', swp_pools)]"

definition swp_settings :: pydict where
  "swp_settings = [(''atr_period'', PInt 1), (''sweep_buffer'', PFloat (Fin 0)), (''break_buffer'', PFloat (Fin 1)),
     (''stop_atr_buffer_multiplier'', PFloat (Fin 0))]"

definition swp_candle :: "int \<Rightarrow> rat \<Rightarrow> rat \<Rightarrow> rat \<Rightarrow> rat \<Rightarrow> ict_candle" where
  "swp_candle i op hi lo cl = \<lparr>ic_position = i, ic_index = i, ic_time = PInt i, ic_open = Fin op, ic_high = Fin hi, ic_low = Fin lo,
     ic_close = Fin cl, ic_volume = Fin 0, ic_closed = True\<rparr>"

definition swp_cs :: "ict_candle list" where
  "swp_cs = [swp_candle 0 102 102 101 (203/2), swp_candle 1 101 101 99 (201/2), swp_candle 2 100 100 90 91, swp_candle 3 91 (183/2) 90 (181/2),
     swp_candle 4 (181/2) 92 90 91, swp_candle 5 91 (183/2) 90 (181/2), swp_candle 6 (181/2) 95 (181/2) 95, swp_candle 7 95 96 94 95,
     swp_candle 8 95 95 91 93]"

definition swp_config :: smf_config where
  "swp_config = \<lparr>q_atr_period = 1, q_sweep_buffer = PFloat (Fin 0), q_sweep_buffer_atr = lit (2/100), q_break_buffer = PFloat (Fin 1),
     q_break_buffer_atr = lit (1/100), q_min_quality = Fin 0, q_mss_wait = 12, q_disp_body = lit (55/100), q_disp_range = Fin 1,
     q_disp_close = lit (70/100), q_disp_wait = 4, q_min_fvg = lit (1/100), q_max_fvg = Fin 0, q_news_max_fvg = Fin 8, q_retest_expiry = 12,
     q_entry_mode = ''balanced'', q_fvg_after_disp = 2, q_stop_atr = Fin 0, q_spread_mult = Fin 1, q_max_spread = Fin 1, q_min_rr = Fin 2,
     q_min_score = Fin (15/2), q_setup_tf = ''1m'', q_entry_tf = ''1m''\<rparr>"

lemma swp_read: "smf_read_config e swp_settings = Ok swp_config"
proof -
  have "py_lower ''balanced'' = ''balanced''" by code_simp
  then show ?thesis
    by (simp add: smf_read_config_def swp_settings_def swp_config_def cfg_int_def cfg_float_def cfg_str_def pget_def)
qed

lemma swp_setup_rows: "fst (setup_rows swp_config swp_context) = swp_rows" "fst (entry_rows swp_config swp_context) = swp_rows"
  by (simp_all add: setup_rows_def entry_rows_def timeframe_rows_def sub_dict_def py_or_def pget_def swp_context_def swp_config_def swp_rows_def)

lemma swp_read_row: "read_candle e i n (swp_row op hi lo cl) = Ok (swp_candle (int i) op hi lo cl\<lparr>ic_position := int n\<rparr>)"
  by (simp add: read_candle_def swp_row_def swp_candle_def py_get.simps)

lemma swp_open_row: "py_truthy (py_get (swp_row op hi lo cl) [''is_closed'', ''closed''] (PBool True))"
  by (simp add: swp_row_def py_get.simps)

lemma swp_closed: "closed_candles e swp_rows = Ok swp_cs"
  by (simp add: closed_candles_def records_of_def swp_rows_def swp_read_row swp_open_row sort_by_def swp_cs_def swp_candle_def)

lemma swp_atr: "ict_atr swp_cs 1 = Fin 4"
  by (simp add: ict_atr_def swp_cs_def swp_candle_def last_slice_def py_mean_def max3_def py_max_def feval)

lemma swp_filters: "xauusd_filter_reasons e swp_config swp_context = Ok []"
proof -
  have "py_lower ''normal'' = ''normal''" by code_simp
  then show ?thesis
    by (simp add: xauusd_filter_reasons_def swp_context_def sub_dict_def py_or_def pget_def py_get.simps opt_to_float_def)
qed

lemma swp_not_swept: "\<not> pool_swept e (PDict [(''direction'', PStr s), (''price'', PFloat x)])"
proof -
  have "py_lower ''active'' = ''active''" by code_simp
  then show ?thesis by (simp add: pool_swept_def py_get.simps)
qed

lemma swp_side: "pool_side e (PDict [(''direction'', PStr s), (''price'', PFloat x)]) = py_lower s"
  by (simp add: pool_side_def py_get.simps)

lemma swp_bounds: "pool_bounds e (PDict [(''direction'', PStr s), (''price'', PFloat (Fin x))]) = Ok (Fin x, Fin x)"
  by (simp add: pool_bounds_def py_get.simps opt_to_float_def opt_val_def py_min_def py_max_def)

lemma swp_sides: "py_lower ''sell_side'' = ''sell_side''" "py_lower ''buy_side'' = ''buy_side''"
  by code_simp+

definition swp_sweep :: "smf_sweep" where
  "swp_sweep = \<lparr>w_id = ''SWEEP_SELL_SIDE_1_pool'', w_bias = Bullish, w_side = ''sell_side'', w_pool_id = PStr ''unknown'',
     w_pool_type = PStr ''sell_side_liquidity'', w_index = 1, w_time = PInt 1, w_extreme = Fin 99, w_low = Fin 99, w_high = Fin 101,
     w_level = Fin 100, w_reclaim = ''reclaimed_zone_high'', w_quality = Fin (15/2)\<rparr>"

lemma swp_one: "int_str 1 = ''1''"
  by code_simp

lemma swp_sweeps_of:
  "sweeps_of e swp_config (Fin 4) (Fin 0) c (PDict [(''direction'', PStr ''sell_side''), (''price'', PFloat (Fin 100))])
     = Ok (if flt (ic_low c) (Fin 100) \<and> flt (Fin 100) (ic_close c)
           then [sell_sweep e (Fin 4) c (PDict [(''direction'', PStr ''sell_side''), (''price'', PFloat (Fin 100))]) (Fin 5) (Fin 100) (Fin 100)] else [])"
  "sweeps_of e swp_config (Fin 4) (Fin 0) c (PDict [(''direction'', PStr ''buy_side''), (''price'', PFloat (Fin 110))])
     = Ok (if flt (Fin 110) (ic_high c) \<and> flt (ic_close c) (Fin 110)
           then [buy_sweep e (Fin 4) c (PDict [(''direction'', PStr ''buy_side''), (''price'', PFloat (Fin 110))]) (Fin 5) (Fin 110) (Fin 110)] else [])"
  by (simp_all add: sweeps_of_def swp_not_swept swp_side swp_bounds swp_sides py_get.simps swp_config_def feval)

lemma swp_sweeps: "smf_detect_sweeps e swp_config swp_cs swp_pools = Ok [swp_sweep]"
proof -
  have "configured_buffer e (q_sweep_buffer swp_config) x = Ok (Fin 0)" for x
    by (simp add: configured_buffer_def swp_config_def)
  moreover have "q_atr_period swp_config = 1" by (simp add: swp_config_def)
  moreover have "sell_sweep e (Fin 4) (swp_candle 1 101 101 99 (201/2)) (PDict [(''direction'', PStr ''sell_side''), (''price'', PFloat (Fin 100))])
      (Fin 5) (Fin 100) (Fin 100) = swp_sweep"
    by (simp add: sell_sweep_def swp_candle_def swp_sweep_def py_get.simps sweep_quality_def q_clamp_def py_max_def py_min_def
        swp_one feval swp_values)
  ultimately show ?thesis
    unfolding smf_detect_sweeps_def
    by (simp add: swp_atr swp_pools_def swp_sweeps_of) (simp add: swp_cs_def swp_candle_def sort_desc_def sort_by_def)
qed

definition swp_mss :: smf_mss where
  "swp_mss = \<lparr>m_bias = Bullish, m_level = Fin 92, m_swing_id = ''SWING_HIGH_4'', m_swing_index = 4, m_index = 6, m_time = PInt 6,
     m_quality = lit (745/100)\<rparr>"

lemma swp_four: "int_str 4 = ''4''"
  by code_simp

lemma swp_swings: "confirmed_swings e swp_cs (PList []) = Ok [\<lparr>v_id = ''SWING_HIGH_'' @ int_str 4, v_high = True, v_index = 4, v_price = Fin 92\<rparr>,
    \<lparr>v_id = ''SWING_HIGH_'' @ int_str 7, v_high = True, v_index = 7, v_price = Fin 96\<rparr>]"
  by (simp add: confirmed_swings_def swp_cs_def swp_candle_def)

lemma swp_detect_mss: "smf_detect_mss e swp_config swp_cs (PList []) swp_sweep = Ok (Some swp_mss)"
proof -
  have "configured_buffer e (q_break_buffer swp_config) x = Ok (Fin 1)" for x
    by (simp add: configured_buffer_def swp_config_def)
  moreover have "q_mss_wait swp_config = 12" by (simp add: swp_config_def)
  ultimately show ?thesis
    by (simp add: smf_detect_mss_def swp_swings swp_sweep_def sort_by_def)
      (simp add: swp_cs_def swp_candle_def breaks_swing_def mss_event_def swp_mss_def
        swp_four py_max_def py_min_def q_clamp_def feval swp_values)
qed

definition swp_disp :: smf_displacement where
  "swp_disp = \<lparr>d_bias = Bullish, d_start = 6, d_end = 6, d_body_ratio = Fin 1, d_range_ratio = lit (1125/1000), d_close_score = Fin 1,
     d_strength = lit (669/100), d_fvg = False\<rparr>"

lemma swp_detect_displacement:
  "smf_detect_displacement swp_config swp_cs 6 Bullish (AtrValue (Fin 4)) = Some swp_disp"
  by (simp add: smf_detect_displacement_def atr_from_input_def displaces_def body_ratio_def range_ratio_def close_score_def ic_bullish_def
      ic_body_def ic_range_def ic_bull_close_def swp_cs_def swp_candle_def swp_config_def fvg_near_def py_max_def py_min_def q_clamp_def
      swp_disp_def feval swp_values)

definition swp_gap :: smf_fvg where
  "swp_gap = \<lparr>g_id = ''BULLISH_FVG_7'', g_bias = Bullish, g_low = Fin (183/2), g_high = Fin 94, g_mid = Fin (371/4), g_size = Fin (5/2),
     g_index = 7, g_time = PInt 7, g_first = 5, g_second = 6, g_quality = Fin (35/4)\<rparr>"

lemma swp_names: "py_upper ''bullish'' = ''BULLISH''" "int_str 7 = ''7''" "int_str 8 = ''8''"
  by code_simp+

lemma swp_gap_event:
  "fvg_event swp_config Bullish (swp_candle 5 91 (183/2) 90 (181/2)) (swp_candle 6 (181/2) 95 (181/2) 95) (swp_candle 7 95 96 94 95)
     (Fin (183/2)) (Fin 94) = swp_gap"
  by (simp add: fvg_event_def body_ratio_def ic_body_def ic_range_def swp_candle_def swp_config_def py_max_def py_min_def q_clamp_def
      swp_gap_def swp_names feval swp_values)

lemma swp_gaps: "\<exists>g1 g2. gaps swp_config swp_cs = [g1, g2, swp_gap] \<and> g_bias g1 = Bearish \<and> g_bias g2 = Bearish"
proof -
  have b: "g_bias (fvg_event q b c1 c2 c3 x y) = b" for q b c1 c2 c3 x y by (simp add: fvg_event_def Let_def)
  have f: "ic_high (swp_candle i op hi lo cl) = Fin hi" "ic_low (swp_candle i op hi lo cl) = Fin lo" for i op hi lo cl
    by (simp_all add: swp_candle_def)
  show ?thesis by (simp add: swp_cs_def f swp_gap_event b)
qed

lemma swp_select: "select_fvg_after_mss swp_config (smf_detect_fvg swp_config swp_cs) Bullish 6 6 = Some swp_gap"
proof -
  from swp_gaps obtain g1 g2 where g: "gaps swp_config swp_cs = [g1, g2, swp_gap]" "g_bias g1 = Bearish" "g_bias g2 = Bearish" by blast
  have "fle (q_min_fvg swp_config) (g_size swp_gap)" "fle (q_max_fvg swp_config) (Fin 0)" "q_fvg_after_disp swp_config = 2"
    by (simp_all add: swp_config_def swp_gap_def swp_values)
  then show ?thesis using g
    by (simp add: select_fvg_after_mss_def smf_detect_fvg_def Let_def sort_by_def) (simp add: swp_gap_def)
qed

definition swp_retest :: smf_retest where
  "swp_retest = \<lparr>r_bias = Bullish, r_index = 8, r_time = PInt 8, r_type = ''bullish_fvg_entry'', r_entry = Fin (371/4), r_mode = ''balanced''\<rparr>"

lemma swp_detect_retest: "smf_detect_retest swp_config swp_cs swp_gap Bullish = Ok (Some swp_retest)"
  by (simp add: smf_detect_retest_def entry_modes_def swp_config_def swp_cs_def swp_candle_def swp_gap_def swp_retest_def feval swp_values)

definition swp_risk :: smf_risk where
  "swp_risk = \<lparr>k_stop = Fin 99, k_stop_ref = ''below_sweep_low_with_atr_and_spread_buffer'', k_target = Some (Fin 110),
     k_target_ref = ''opposite_buy_side_liquidity'', k_rr = lit 17250000000, k_min_rr = Fin 2\<rparr>"

lemma swp_risk_plan: "smf_risk_plan e swp_config swp_sweep swp_retest swp_pools swp_context Bullish (Fin 4) = Ok swp_risk"
proof -
  have "smf_select_target e (Fin (371/4)) (Fin 99) swp_pools swp_context Bullish (Fin 2) = Ok (Some (Fin 110))"
    by (simp add: smf_select_target_def pget_def swp_context_def swp_pools_def swp_side swp_not_swept swp_bounds swp_sides
        nearest_reward_def sort_by_def enough_reward_def feval swp_values)
  moreover have "sub_dict swp_context ''spread_status'' = PDict []" by (simp add: sub_dict_def pget_def py_or_def swp_context_def)
  ultimately show ?thesis
    by (simp add: smf_risk_plan_def py_get.simps swp_sweep_def swp_retest_def swp_config_def swp_risk_def py_max_def feval swp_values)
qed

definition swp_setup :: smf_setup where
  "swp_setup = \<lparr>u_bias = Bullish, u_sweep = swp_sweep, u_mss = swp_mss, u_disp = swp_disp, u_fvg = swp_gap, u_entry = swp_retest,
     u_risk = swp_risk\<rparr>"

lemma swp_parts: "\<exists>ks. map snd ks = [Fin (15/2), lit (745/100), lit (669/100), Fin (35/4), Fin (17/2), Fin (13/2), Fin 9, Fin 10, Fin 7]
    \<and> smf_parts e swp_config swp_setup swp_context = Ok ks"
proof -
  have "py_lower ''neutral'' = ''neutral''" "py_lower ''unknown'' = ''unknown''" by code_simp+
  then show ?thesis
    by (simp add: smf_parts_def swp_filters)
      (simp add: pget_def swp_context_def sub_dict_def py_or_def py_get.simps swp_setup_def swp_sweep_def swp_mss_def swp_disp_def swp_gap_def swp_risk_def swp_config_def smf_session_score_def smf_htf_score_def
        py_min_def py_max_def feval swp_values)
qed

lemma swp_score: "\<exists>z. score_sweep_mss_fvg_setup e swp_config swp_setup swp_context = Ok z \<and> z_allowed z \<and> z_total z = lit (802/100)"
proof -
  from swp_parts [of e] obtain ks where ks: "map snd ks = [Fin (15/2), lit (745/100), lit (669/100), Fin (35/4), Fin (17/2), Fin (13/2), Fin 9, Fin 10, Fin 7]"
    "smf_parts e swp_config swp_setup swp_context = Ok ks" by (elim exE conjE)
  have "py_round (py_sum (map2 fmul (map snd ks) score_weights)) 2 = lit (802/100)"
    unfolding ks(1) by (simp add: score_weights_def py_sum_def fsub_def feval swp_values)
  then show ?thesis by (simp add: score_sweep_mss_fvg_setup_def ks(2)) (simp add: Let_def swp_config_def feval swp_values)
qed

subsection \<open>The decision\<close>

lemma swp_try:
  "\<exists>z ws. try_sweep e swp_config swp_context swp_cs swp_rows (smf_detect_fvg swp_config swp_cs) fbs swp_sweep = Ok (Inr (Signal swp_setup z ws))
     \<and> z_total z = lit (802/100)"
proof -
  obtain z where z: "score_sweep_mss_fvg_setup e swp_config swp_setup swp_context = Ok z" "z_allowed z" "z_total z = lit (802/100)"
    using swp_score [of e] by (elim exE conjE)
  have c: "pget swp_context ''liquidity_pools'' (PList []) = swp_pools" "pget swp_context ''swings'' (PList []) = PList []"
    "w_bias swp_sweep = Bullish" "m_index swp_mss = 6" "d_end swp_disp = 6" "k_target swp_risk = Some (Fin 110)" "q_atr_period swp_config = 1"
    "\<not> flt (k_rr swp_risk) (q_min_rr swp_config)"
    by (simp_all add: pget_def swp_context_def swp_sweep_def swp_mss_def swp_disp_def swp_risk_def swp_config_def swp_values feval)
  show ?thesis
    unfolding try_sweep_def Let_def c swp_detect_mss swp_atr
    using z by (simp add: c swp_detect_displacement swp_select swp_closed swp_detect_retest swp_risk_plan swp_setup_def)
qed

lemma swp_decide:
  "\<exists>z ws. smf_decide e swp_config swp_context = Ok (Signal swp_setup z ws) \<and> z_total z = lit (802/100)"
proof -
  have c: "pget swp_context ''liquidity_pools'' (PList []) = swp_pools" by (simp add: pget_def swp_context_def)
  let ?fbs = "(if snd (setup_rows swp_config swp_context) then [''setup_timeframe_fallback:'' @ q_setup_tf swp_config] else [])
        @ (if snd (entry_rows swp_config swp_context) then [''entry_timeframe_fallback:'' @ q_entry_tf swp_config] else [])"
  obtain z ws where z: "try_sweep e swp_config swp_context swp_cs swp_rows (smf_detect_fvg swp_config swp_cs) ?fbs swp_sweep = Ok (Inr (Signal swp_setup z ws))"
    "z_total z = lit (802/100)" using swp_try [of e ?fbs] by (elim exE conjE)
  have "\<not> length swp_cs < 3" by (simp add: swp_cs_def)
  then show ?thesis
    using z unfolding smf_decide_def swp_setup_rows swp_closed decide_on_def c
    by (simp add: swp_filters swp_sweeps Let_def del: not_less)
qed

lemma swp_prices: "u_bias swp_setup = Bullish" "r_entry (u_entry swp_setup) = Fin (371/4)" "k_stop (u_risk swp_setup) = Fin 99"
  by (simp_all add: swp_setup_def swp_retest_def swp_risk_def)

text \<open>A buy whose stop is above its entry: the risk is taken in absolute value, and the reward divided by at least a billionth.\<close>

theorem stop_beyond_entry_signalled:
  "\<exists>q u z ws. smf_read_config swp_text swp_settings = Ok q \<and> smf_decide swp_text q swp_context = Ok (Signal u z ws)
    \<and> u_bias u = Bullish \<and> flt (r_entry (u_entry u)) (k_stop (u_risk u)) \<and> k_rr (u_risk u) = Fin 17250000000"
proof -
  have "k_rr (u_risk swp_setup) = Fin 17250000000" by (simp add: swp_setup_def swp_risk_def swp_values feval)
  moreover obtain z ws where "smf_decide swp_text swp_config swp_context = Ok (Signal swp_setup z ws)"
    using swp_decide [of swp_text] by blast
  ultimately show ?thesis using swp_prices swp_read [of swp_text]
    by (intro exI [of _ swp_config] exI [of _ swp_setup] exI [of _ z] exI [of _ ws]) simp
qed

theorem signals_are_sound_witness:
  "\<exists>q u z ws. smf_decide swp_text q swp_context = Ok (Signal u z ws) \<and> w_index (u_sweep u) < m_index (u_mss u)
    \<and> g_index (u_fvg u) < r_index (u_entry u) \<and> fle (q_min_score q) (z_total z)"
proof -
  obtain z ws where d: "smf_decide swp_text swp_config swp_context = Ok (Signal swp_setup z ws)"
    using swp_decide [of swp_text] by blast
  from signals_are_sound [OF d] d show ?thesis by blast
qed

theorem decisions_run_the_machine_witness:
  "\<exists>q ps ss cs ecs. (advance swp_text q ps ss cs ecs)\<^sup>*\<^sup>* Searching (Entered Bullish 8)"
proof -
  obtain z ws where d: "smf_decide swp_text swp_config swp_context = Ok (Signal swp_setup z ws)"
    using swp_decide [of swp_text] by blast
  have "decision_phase (Signal swp_setup z ws) = Some (Entered Bullish 8)"
    by (simp add: decision_phase_def swp_setup_def swp_retest_def)
  from decisions_run_the_machine [OF d this] show ?thesis by blast
qed

definition swp_strategy :: strategy_definition where
  "swp_strategy = (strategy (\<lambda>_. generate_sweep_mss_fvg_signal swp_text) ''sweep_mss_fvg'' ''Liquidity Sweep + MSS + FVG Entry''
     LIQUIDITY_SWEEP_REVERSAL 95 9)\<lparr>sd_required_timeframes := []\<rparr>"

definition swp_profile :: pydict where
  "swp_profile = (''minimum_score'', PFloat (Fin 75)) # swp_settings"

lemma swp_profile_read: "smf_read_config e swp_profile = Ok swp_config"
  using swp_read [of e] by (simp add: smf_read_config_def swp_profile_def cfg_int_def cfg_float_def cfg_str_def pget_def)

lemma swp_generate:
  "\<exists>z ws. generate_sweep_mss_fvg_signal e swp_context (Some swp_profile) = Ok (signal_payload e swp_context swp_setup z ws)
     \<and> z_total z = lit (802/100)"
proof -
  obtain z ws where z: "smf_decide e swp_config swp_context = Ok (Signal swp_setup z ws)" "z_total z = lit (802/100)"
    using swp_decide [of e] by (elim exE conjE)
  have "generate_sweep_mss_fvg_signal e swp_context (Some swp_profile) = Ok (signal_payload e swp_context swp_setup z ws)"
    by (simp add: generate_sweep_mss_fvg_signal_def swp_profile_read z(1) decision_payload_def)
  with z(2) show ?thesis by (intro exI [of _ z] exI [of _ ws] conjI)
qed

theorem selected_signals_witness:
  "\<exists>ev. evaluate_one (pytext.truncate swp_text) swp_context (Some swp_profile) swp_strategy = Ok ev \<and> is_tradeable ev
     \<and> ev_entry_price ev = Some (Fin (371/4)) \<and> ev_stop_loss ev = Some (Fin 99)"
proof -
  let ?t = "pytext.truncate swp_text" and ?s = "\<lambda>z ws. signal_payload swp_text swp_context swp_setup z ws"
  obtain z ws where g: "generate_sweep_mss_fvg_signal swp_text swp_context (Some swp_profile) = Ok (?s z ws)" and z: "z_total z = lit (802/100)"
    using swp_generate [of swp_text] by (elim exE conjE)
  have b: "u_bias swp_setup \<noteq> NoBias" and tg: "k_target (u_risk swp_setup) = Some (Fin 110)"
    and k: "k_rr (u_risk swp_setup) = Fin 17250000000" by (simp_all add: swp_setup_def swp_risk_def feval)
  note reads = signal_payload_read [OF b tg, of ?t swp_text swp_context z ws]
  have sc: "py_round (clamp (scaled (z_total z)) (Fin 0) (Fin 100)) 2 = lit (401/5)"
    unfolding z by (simp add: clamp_def scaled_def py_max_def py_min_def feval swp_values)
  let ?ev0 = "\<lparr>ev_definition = swp_strategy, ev_signal = ?s z ws, ev_status = ''REJECTED'', ev_reason = [], ev_normalized_score = lit (401/5),
     ev_estimated_rr = Fin 17250000000, ev_entry_price = Some (Fin (371/4)), ev_stop_loss = Some (Fin 99), ev_take_profit = Some (Fin 110),
     ev_direction = Some BUY\<rparr>"
  have r: "read_signal ?t swp_strategy (?s z ws) = Ok ?ev0"
    by (simp add: read_signal_def reads sc swp_prices k Let_def)
  have key: "sd_key swp_strategy = ''sweep_mss_fvg''" by (simp add: swp_strategy_def strategy_def)
  have "py_lower ''off'' = ''off''" by code_simp
  then have d: "displacement_rejection_reason ?t (?s z ws) swp_profile = Ok []"
    by (simp add: displacement_rejection_reason_def displacement_mode_def pget_def py_or_def swp_profile_def swp_settings_def)
  have th: "strategy_threshold ?t swp_profile (sd_key swp_strategy) ''strategy_min_scores'' x = Ok (Fin 75)"
      "strategy_threshold ?t swp_profile (sd_key swp_strategy) ''strategy_min_rr'' x = Ok x" for x
    by (simp_all add: strategy_threshold_def pget_def swp_profile_def swp_settings_def is_number_simps)
  have m: "missing_parts ?t swp_strategy swp_profile ?ev0 = Ok []"
    by (simp add: missing_parts_def d th default_min_rr_def feval swp_values)
  have ta: "pget (?s z ws) ''trade_allowed'' PNone = PBool True" by (simp add: signal_payload_def Let_def pget_def)
  have j: "judge_signal ?t swp_strategy swp_profile ?ev0 = Ok (?ev0\<lparr>ev_status := ''TRADEABLE''\<rparr>)"
    by (simp add: judge_signal_def m ta)
  have en: "strategy_set ?t swp_profile ''enabled_strategies'' [] = []" "strategy_set ?t swp_profile ''disabled_strategies'' [] = []"
    by (simp_all add: strategy_set_def swp_profile_def swp_settings_def)
  have ses: "session_filter_allows ?t swp_context swp_profile = (True, [])"
    by (simp add: session_filter_allows_def pget_def swp_profile_def swp_settings_def upper_set_def as_sequence_def)
  have el: "is_eligible ?t swp_strategy swp_context = Ok (True, [])"
    by (simp add: is_eligible_def swp_strategy_def strategy_def pget_def py_or_def swp_context_def Let_def)
  have gen: "sd_generator swp_strategy = generate_sweep_mss_fvg_signal swp_text" by (simp add: swp_strategy_def strategy_def)
  have ev: "evaluate_one ?t swp_context (Some swp_profile) swp_strategy = Ok (?ev0\<lparr>ev_status := ''TRADEABLE''\<rparr>)"
    by (simp add: evaluate_one_def en ses el gen g r j Let_def)
  have tr: "is_tradeable (?ev0\<lparr>ev_status := ''TRADEABLE''\<rparr>)" by (simp add: is_tradeable_def)
  from selected_signals [OF gen ev tr] ev tr show ?thesis by auto
qed

end
