(* ===== verification/SwingPoints.thy ===== *)
theory SwingPoints
  imports StrategyBase "HOL-Library.Sublist"
begin

section \<open>Swing points (src/analytics/ict_smc/swing_points.py)\<close>

text \<open>
  A candle whose high is strictly above the highs of the \<open>left_bars\<close> before it and the \<open>right_bars\<close> after it is a
  swing high, and likewise for lows; it is confirmed when the last of them closes. The detector scores the swings and then
  thins them out. \<open>fm\<close> is the \<open>:.2f\<close> format, \<open>of_iso\<close> \<open>datetime.fromisoformat\<close>.
\<close>

subsection \<open>Data\<close>

datatype swing_type = SwingHigh | SwingLow
datatype swing_strength = Weak | Minor | Moderate | Strong | Major
datatype swing_liquidity = BuySide | SellSide
datatype swing_status = Unswept | SweptStatus | Broken | Mitigated | TargetHit

record swing_config =
  sg_left :: int
  sg_right :: int
  sg_atr_period :: int
  sg_min_reaction :: pyfloat
  sg_strong_reaction :: pyfloat
  sg_min_gap :: int
  sg_min_distance :: pyfloat
  sg_equal_tolerance :: pyfloat
  sg_news_range :: pyfloat
  sg_volume_mult :: pyfloat
  sg_use_volume :: bool
  sg_require_reaction :: bool
  sg_timeframe :: "string option"

definition default_swing_config :: swing_config where
  "default_swing_config = \<lparr>sg_left = 3, sg_right = 3, sg_atr_period = 14, sg_min_reaction = Fin (1/2), sg_strong_reaction = Fin (3/2),
     sg_min_gap = 3, sg_min_distance = Fin (1/4), sg_equal_tolerance = lit (10/100), sg_news_range = Fin 3, sg_volume_mult = lit (11/10),
     sg_use_volume = False, sg_require_reaction = False, sg_timeframe = None\<rparr>"

text \<open>\<open>__post_init__\<close>\<close>

definition check_swing_config :: "swing_config \<Rightarrow> swing_config res" where
  "check_swing_config g =
     (if sg_left g < 1 \<or> sg_right g < 1 then Raise (ValueError ''left_bars and right_bars must be positive.'')
      else if sg_atr_period g < 1 then Raise (ValueError ''atr_period must be positive.'')
      else if sg_min_gap g < 0 then Raise (ValueError ''min_candle_gap cannot be negative.'')
      else if flt (sg_min_reaction g) (Fin 0) \<or> flt (sg_strong_reaction g) (Fin 0)
      then Raise (ValueError ''ATR reaction thresholds cannot be negative.'')
      else Ok g)"

record detected_swing =
  dw_index :: int
  dw_time :: datetime
  dw_conf_index :: int
  dw_conf_time :: datetime
  dw_price :: pyfloat
  dw_type :: swing_type
  dw_score :: pyfloat
  dw_label :: swing_strength
  dw_timeframe :: string
  dw_weight :: pyfloat
  dw_liquidity :: swing_liquidity
  dw_status :: swing_status
  dw_used_for :: "string list"
  dw_reaction :: pyfloat
  dw_distance :: "pyfloat option"
  dw_reasons :: "string list"
  dw_warnings :: "string list"

record ohlcv =
  oh_index :: int
  oh_time :: datetime
  oh_open :: pyfloat
  oh_high :: pyfloat
  oh_low :: pyfloat
  oh_close :: pyfloat
  oh_volume :: pyfloat
  oh_timeframe :: string
  oh_closed :: bool
  oh_session :: "string option"
  oh_htf :: "string option"
  oh_zone :: "string option"

definition oh_range :: "ohlcv \<Rightarrow> pyfloat" where
  "oh_range c = py_max (Fin 0) (fsub (oh_high c) (oh_low c))"

definition oh_body :: "ohlcv \<Rightarrow> pyfloat" where
  "oh_body c = fabs (fsub (oh_close c) (oh_open c))"

definition oh_body_ratio :: "ohlcv \<Rightarrow> pyfloat" where
  "oh_body_ratio c = (if fle (oh_range c) (Fin 0) then Fin 0 else fdiv (oh_body c) (oh_range c))"

subsection \<open>Reading candles\<close>

text \<open>A candle is a \<open>CandleNode\<close> or a dict.\<close>

datatype candle_input = Node candle_node | Row pydict

text \<open>\<open>_first_present\<close>: \<open>None\<close> stands for a default that is not given.\<close>

fun first_present :: "pydict \<Rightarrow> string list \<Rightarrow> pyval \<Rightarrow> pyval res" where
  "first_present d [] dflt = (if dflt = PNone then Raise (ValueError ''Missing required candle field.'') else Ok dflt)"
| "first_present d (k # ks) dflt = (case map_of d k of Some v \<Rightarrow> if v = PNone then first_present d ks dflt else Ok v | None \<Rightarrow> first_present d ks dflt)"

definition optional_string :: "ict_text \<Rightarrow> pyval \<Rightarrow> string option" where
  "optional_string e v = (if v = PNone then None else let t = py_strip (to_str e v) in if t = [] then None else Some t)"

definition coerce_datetime :: "ict_text \<Rightarrow> (string \<Rightarrow> datetime res) \<Rightarrow> pyval \<Rightarrow> datetime res" where
  "coerce_datetime e of_iso v =
     (case v of PDt d \<Rightarrow> Ok d | PNone \<Rightarrow> Raise (ValueError ''timestamp is required'') | _ \<Rightarrow> of_iso (replace_z (to_str e v)))"

definition node_candle :: "swing_config \<Rightarrow> string option \<Rightarrow> nat \<Rightarrow> candle_node \<Rightarrow> ohlcv res" where
  "node_candle g tf i c =
     rmap (\<lambda>vol. \<lparr>oh_index = (if cn_sequence_id c = 0 then int i else cn_sequence_id c), oh_time = cn_end_time c, oh_open = cn_open_p c,
       oh_high = cn_high_p c, oh_low = cn_low_p c, oh_close = cn_close_p c, oh_volume = vol,
       oh_timeframe = (case tf of Some (x # xs) \<Rightarrow> x # xs
                       | _ \<Rightarrow> (case sg_timeframe g of Some (x # xs) \<Rightarrow> x # xs | _ \<Rightarrow> cn_timeframe c)),
       oh_closed = cn_is_closed c, oh_session = None, oh_htf = None, oh_zone = None\<rparr>)
     (py_float (\<lambda>_. Raise TypeError) (PInt (cn_volume c)))"

definition or_text :: "string option \<Rightarrow> string option \<Rightarrow> string \<Rightarrow> string" where
  "or_text a b c = (case a of Some (x # xs) \<Rightarrow> x # xs | _ \<Rightarrow> (case b of Some (x # xs) \<Rightarrow> x # xs | _ \<Rightarrow> c))"

definition row_candle :: "ict_text \<Rightarrow> (string \<Rightarrow> datetime res) \<Rightarrow> swing_config \<Rightarrow> string option \<Rightarrow> nat \<Rightarrow> pydict \<Rightarrow> ohlcv res" where
  "row_candle e of_iso g tf i d =
     rbind (first_present d [''timeframe''] (PStr (or_text tf (sg_timeframe g) ''unknown''))) (\<lambda>tfv.
     rbind (rbind (first_present d [''index''] (PInt (int i))) (to_int e)) (\<lambda>index.
     rbind (rbind (first_present d [''timestamp'', ''time'', ''end_time''] PNone) (coerce_datetime e of_iso)) (\<lambda>ts.
     rbind (rbind (first_present d [''open'', ''open_p''] PNone) (to_float e)) (\<lambda>op.
     rbind (rbind (first_present d [''high'', ''high_p''] PNone) (to_float e)) (\<lambda>hi.
     rbind (rbind (first_present d [''low'', ''low_p''] PNone) (to_float e)) (\<lambda>lo.
     rbind (rbind (first_present d [''close'', ''close_p''] PNone) (to_float e)) (\<lambda>cl.
     rbind (rbind (first_present d [''volume''] (PFloat (Fin 0))) (to_float e)) (\<lambda>vol.
     rbind (first_present d [''is_closed''] (PBool True)) (\<lambda>shut.
     Ok \<lparr>oh_index = index, oh_time = ts, oh_open = op, oh_high = hi, oh_low = lo, oh_close = cl, oh_volume = vol,
         oh_timeframe = to_str e tfv, oh_closed = py_truthy shut, oh_session = optional_string e (pget d ''session_name'' PNone),
         oh_htf = optional_string e (pget d ''htf_context'' PNone),
         oh_zone = optional_string e (pget d ''premium_discount_zone'' PNone)\<rparr>)))))))))"

fun normalize_candles ::
  "ict_text \<Rightarrow> (string \<Rightarrow> datetime res) \<Rightarrow> swing_config \<Rightarrow> string option \<Rightarrow> nat \<Rightarrow> candle_input list \<Rightarrow> ohlcv list res" where
  "normalize_candles e of_iso g tf i [] = Ok []"
| "normalize_candles e of_iso g tf i (c # cs) =
     rbind (case c of Node n \<Rightarrow> node_candle g tf i n | Row d \<Rightarrow> row_candle e of_iso g tf i d) (\<lambda>x.
     rmap ((#) x) (normalize_candles e of_iso g tf (Suc i) cs))"

subsection \<open>Average true range\<close>

definition true_range :: "pyfloat option \<Rightarrow> ohlcv \<Rightarrow> pyfloat" where
  "true_range previous c =
     (case previous of
        None \<Rightarrow> oh_range c
      | Some p \<Rightarrow> max3 (fsub (oh_high c) (oh_low c)) (fabs (fsub (oh_high c) p)) (fabs (fsub (oh_low c) p)))"

text \<open>\<open>ranges\<close> are those of the candles before.\<close>

fun atr_from :: "nat \<Rightarrow> pyfloat list \<Rightarrow> pyfloat option \<Rightarrow> ohlcv list \<Rightarrow> pyfloat list" where
  "atr_from period ranges previous [] = []"
| "atr_from period ranges previous (c # cs) =
     (let ranges' = ranges @ [py_max (true_range previous c) (lit (1 / 1000000000))];
          window = drop (length ranges' - period) ranges'
      in fdiv (py_sum window) (flen window) # atr_from period ranges' (Some (oh_close c)) cs)"

definition calculate_atr :: "ohlcv list \<Rightarrow> int \<Rightarrow> pyfloat list" where
  "calculate_atr cs period = atr_from (nat period) [] None cs"

subsection \<open>Scores\<close>

definition timeframe_weight :: "string \<Rightarrow> pyfloat" where
  "timeframe_weight tf =
     (case map_of [(''1m'', Fin (1/2)), (''3m'', Fin (3/4)), (''5m'', Fin 1), (''15m'', Fin (3/2)), (''30m'', Fin (7/4)), (''1h'', Fin 2),
        (''h1'', Fin 2), (''4h'', Fin 3), (''h4'', Fin 3), (''1d'', Fin 4), (''d1'', Fin 4), (''daily'', Fin 4), (''1w'', Fin 5),
        (''w1'', Fin 5)] (filter (\<lambda>c. c \<noteq> CHR '' '') (py_lower tf)) of Some w \<Rightarrow> w | None \<Rightarrow> Fin 1)"

fun used_for :: "swing_type \<Rightarrow> string list" where
  "used_for SwingHigh = [''liquidity'', ''bos_reference'', ''target'', ''range_boundary'']"
| "used_for SwingLow = [''liquidity'', ''mss_reference'', ''stop_loss_reference'', ''target'', ''range_boundary'']"

definition strength_label :: "pyfloat \<Rightarrow> swing_strength" where
  "strength_label s =
     (if fle s (Fin 2) then Weak else if fle s (Fin 4) then Minor else if fle s (Fin 6) then Moderate
      else if fle s (Fin (17/2)) then Strong else Major)"

definition session_score :: "string option \<Rightarrow> pyfloat" where
  "session_score s =
     (case s of None \<Rightarrow> Fin (1/2) | Some [] \<Rightarrow> Fin (1/2)
      | Some name \<Rightarrow> (let n = py_lower name in
          if has_sub ''london'' n \<or> has_sub ''newyork'' n \<or> has_sub ''overlap'' n then Fin 1
          else if has_sub ''asian'' n \<or> has_sub ''asia'' n then Fin (1/2) else Fin 0))"

definition volume_score :: "swing_config \<Rightarrow> ohlcv list \<Rightarrow> nat \<Rightarrow> pyfloat \<times> string option" where
  "volume_score g cs p =
     (if p = 0 then (Fin (1/2), None)
      else let window = drop (p - 20) (take p cs);
               average = (if window = [] then Fin 0 else fdiv (py_sum (map oh_volume window)) (flen window))
           in if fle average (Fin 0) then (Fin (1/2), None)
              else if fle (fmul average (sg_volume_mult g)) (oh_volume (cs ! p)) then (Fin 1, None)
              else if sg_use_volume g then (Fin 0, Some ''Swing candle volume is below preferred confirmation threshold'')
              else (Fin (1/2), None))"

definition floor9 :: "pyfloat \<Rightarrow> pyfloat" where
  "floor9 x = py_max x (lit (1 / 1000000000))"

definition chop_penalty :: "ohlcv list \<Rightarrow> pyfloat list \<Rightarrow> nat \<Rightarrow> pyfloat" where
  "chop_penalty cs atrs p =
     (let near = drop (p - 2) (take (min (length cs) (p + 3)) cs);
          atr = floor9 (atrs ! p);
          overlapping = length (filter (\<lambda>c. flt (oh_range c) (fmul atr (lit (45/100))) \<or> flt (oh_body_ratio c) (lit (20/100))) near)
      in if length near < 3 then Fin 0 else if 4 \<le> overlapping then Fin (3/2) else if 2 \<le> overlapping then Fin (1/2) else Fin 0)"

definition reaction_after :: "swing_config \<Rightarrow> ohlcv list \<Rightarrow> nat \<Rightarrow> swing_type \<Rightarrow> pyfloat" where
  "reaction_after g cs p st =
     (let ahead = take (nat (sg_right g)) (drop (p + 1) cs); c = cs ! p
      in if ahead = [] then Fin 0
         else if st = SwingHigh then py_max (Fin 0) (fsub (oh_high c) (min_of (map oh_low ahead)))
         else py_max (Fin 0) (fsub (max_of (map oh_high ahead)) (oh_low c)))"

definition sw_clamp :: "pyfloat \<Rightarrow> pyfloat" where
  "sw_clamp v = py_min (Fin 10) (py_max (Fin 0) v)"

text \<open>The raw score: the points of each part in the order they are added, with the texts they leave.\<close>

definition score_raw_swing ::
  "(pyfloat \<Rightarrow> string) \<Rightarrow> swing_config \<Rightarrow> ohlcv list \<Rightarrow> pyfloat list \<Rightarrow> nat \<Rightarrow> swing_type \<Rightarrow> pyfloat
    \<Rightarrow> pyfloat \<times> string list \<times> string list" where
  "score_raw_swing fm g cs atrs p st reaction =
     (let c = cs ! p;
          react = ''Price reacted '' @ fm reaction @ '' ATR from the swing'';
          (s1, r1, w1) = (if fle (sg_strong_reaction g) reaction then (fadd (Fin 2) (Fin 2), [react], [])
                          else if fle (Fin (3/4)) reaction then (fadd (Fin 2) (Fin 1), [react], [])
                          else if fle (sg_min_reaction g) reaction then (fadd (Fin 2) (Fin (1/2)), [react], [])
                          else (Fin 2, [], [''ATR reaction is below preferred swing-strength threshold'']));
          s2 = fadd s1 (Fin (3/4));
          active = session_score (oh_session c);
          (s3, r3, w3) = (if active \<noteq> Fin 0 then (fadd s2 active, [''Swing formed during an active trading session''], [])
                          else (s2, [], if oh_session c \<noteq> None then [''Swing formed outside preferred active session''] else []));
          (vs, vw) = volume_score g cs p;
          s4 = fadd s3 vs;
          r4 = (if flt (Fin (1/2)) vs then [''Swing candle volume is above recent average''] else []);
          w4 = (if flt (Fin (1/2)) vs then [] else case vw of Some t \<Rightarrow> [t] | None \<Rightarrow> []);
          (s5, r5) = (if oh_htf c \<noteq> None then (fadd s4 (Fin 1), [''Swing has higher-timeframe context''])
                      else if oh_zone c \<noteq> None then (fadd s4 (Fin (1/2)), [''Swing has premium/discount range context''])
                      else (s4, []));
          chop = chop_penalty cs atrs p;
          s6 = (if chop \<noteq> Fin 0 then fsub s5 chop else s5);
          w6 = (if chop \<noteq> Fin 0 then [''Nearby candles are overlapping; swing may be internal chop''] else []);
          w7 = (if fle (sg_news_range g) (fdiv (oh_range c) (floor9 (atrs ! p)))
                then [''Swing candle range is unusually large; possible news spike''] else [])
      in (py_round (sw_clamp s6) 2,
          [''Confirmed with '' @ int_str (sg_left g) @ '' candles left and '' @ int_str (sg_right g) @ '' candles right'',
           ''Swing is confirmed only after right-side candles closed''] @ r1
            @ [''Creates objective buy-side/sell-side liquidity reference''] @ r3 @ r4 @ r5
            @ [if st = SwingHigh then ''Swing high marks buy-side liquidity above price'' else ''Swing low marks sell-side liquidity below price''],
          w1 @ w3 @ w4 @ w6 @ w7))"

subsection \<open>Detection\<close>

definition build_swing :: "(pyfloat \<Rightarrow> string) \<Rightarrow> swing_config \<Rightarrow> ohlcv list \<Rightarrow> pyfloat list \<Rightarrow> nat \<Rightarrow> swing_type \<Rightarrow> detected_swing" where
  "build_swing fm g cs atrs p st =
     (let c = cs ! p; conf = cs ! (p + nat (sg_right g));
          reaction = fdiv (reaction_after g cs p st) (floor9 (atrs ! p));
          (score, reasons, warnings) = score_raw_swing fm g cs atrs p st reaction
      in \<lparr>dw_index = oh_index c, dw_time = oh_time c, dw_conf_index = oh_index conf, dw_conf_time = oh_time conf,
          dw_price = (if st = SwingHigh then oh_high c else oh_low c), dw_type = st, dw_score = score, dw_label = strength_label score,
          dw_timeframe = oh_timeframe c, dw_weight = timeframe_weight (oh_timeframe c),
          dw_liquidity = (if st = SwingHigh then BuySide else SellSide), dw_status = Unswept, dw_used_for = used_for st,
          dw_reaction = py_round reaction 4, dw_distance = None, dw_reasons = reasons, dw_warnings = warnings\<rparr>)"

text \<open>The candles on both sides; \<open>_has_equal_high_or_low\<close> only skips positions that yield nothing anyway.\<close>

definition around :: "swing_config \<Rightarrow> ohlcv list \<Rightarrow> nat \<Rightarrow> ohlcv list" where
  "around g cs p = drop (p - nat (sg_left g)) (take p cs) @ take (nat (sg_right g)) (drop (p + 1) cs)"

definition has_equal_high_or_low :: "swing_config \<Rightarrow> ohlcv \<Rightarrow> ohlcv list \<Rightarrow> pyfloat \<Rightarrow> bool" where
  "has_equal_high_or_low g c window atr =
     (let tol = py_max (fmul atr (sg_equal_tolerance g)) (lit (1 / 1000000000))
      in list_ex (\<lambda>w. fle (fabs (fsub (oh_high c) (oh_high w))) tol) window
         \<or> list_ex (\<lambda>w. fle (fabs (fsub (oh_low c) (oh_low w))) tol) window)"

definition is_high :: "swing_config \<Rightarrow> ohlcv list \<Rightarrow> nat \<Rightarrow> bool" where
  "is_high g cs p = list_all (\<lambda>w. flt (oh_high w) (oh_high (cs ! p))) (around g cs p)"

definition is_low :: "swing_config \<Rightarrow> ohlcv list \<Rightarrow> nat \<Rightarrow> bool" where
  "is_low g cs p = list_all (\<lambda>w. flt (oh_low (cs ! p)) (oh_low w)) (around g cs p)"

definition swings_at :: "(pyfloat \<Rightarrow> string) \<Rightarrow> swing_config \<Rightarrow> ohlcv list \<Rightarrow> pyfloat list \<Rightarrow> nat \<Rightarrow> detected_swing list" where
  "swings_at fm g cs atrs p =
     (if \<not> is_high g cs p \<and> \<not> is_low g cs p \<and> has_equal_high_or_low g (cs ! p) (around g cs p) (atrs ! p) then []
      else (if is_high g cs p then [build_swing fm g cs atrs p SwingHigh] else [])
         @ (if is_low g cs p then [build_swing fm g cs atrs p SwingLow] else []))"

definition collect_raw_swings :: "(pyfloat \<Rightarrow> string) \<Rightarrow> swing_config \<Rightarrow> ohlcv list \<Rightarrow> pyfloat list \<Rightarrow> detected_swing list" where
  "collect_raw_swings fm g cs atrs =
     concat (map (swings_at fm g cs atrs) [nat (sg_left g)..<length cs - nat (sg_right g)])"

subsection \<open>Thinning out\<close>

definition prefer_more_extreme :: "detected_swing \<Rightarrow> detected_swing \<Rightarrow> detected_swing" where
  "prefer_more_extreme l r =
     (if dw_type l = SwingHigh then if flt (dw_price l) (dw_price r) then r else l
      else if flt (dw_price r) (dw_price l) then r else l)"

definition prefer_stronger :: "detected_swing \<Rightarrow> detected_swing \<Rightarrow> detected_swing" where
  "prefer_stronger l r = (if flt (dw_score l) (dw_score r) then r else l)"

definition with_distance_score ::
  "(pyfloat \<Rightarrow> string) \<Rightarrow> swing_config \<Rightarrow> pyfloat list \<Rightarrow> detected_swing \<Rightarrow> pyfloat \<Rightarrow> detected_swing" where
  "with_distance_score fm g atrs s distance =
     (let i = min (max (dw_conf_index s) 0) (int (length atrs) - 1);
          distance_atr = fdiv distance (floor9 (atrs ! nat i));
          bonus = (if fle (Fin 1) distance_atr then Fin 1 else if fle (Fin (1/4)) distance_atr then Fin (1/2) else Fin 0);
          score = py_round (sw_clamp (fadd (dw_score s) bonus)) 2
      in s\<lparr>dw_score := score, dw_label := strength_label score, dw_distance := Some (py_round distance 5),
           dw_reasons := dw_reasons s @ (if bonus \<noteq> Fin 0 then [''Clean distance from previous accepted swing ('' @ fm distance_atr @ '' ATR)''] else []),
           dw_warnings := dw_warnings s @ (if bonus = Fin 0 then [''Swing is very close to previous accepted opposite swing''] else [])
             @ (if flt distance_atr (sg_min_distance g) then [''Swing is below configured minimum ATR distance from previous swing''] else [])\<rparr>)"

text \<open>One swing against those accepted so far, the latest first.\<close>

definition accept_swing :: "(pyfloat \<Rightarrow> string) \<Rightarrow> swing_config \<Rightarrow> pyfloat list \<Rightarrow> detected_swing \<Rightarrow> detected_swing list \<Rightarrow> detected_swing list" where
  "accept_swing fm g atrs s acc =
     (if sg_require_reaction g \<and> flt (dw_reaction s) (sg_min_reaction g) then acc
      else case acc of
        [] \<Rightarrow> [s]
      | l # ls \<Rightarrow>
          if dw_index s - dw_index l < sg_min_gap g
          then (if dw_type s = dw_type l then prefer_more_extreme l s else prefer_stronger l s) # ls
          else if dw_type s = dw_type l then prefer_more_extreme l s # ls
          else with_distance_score fm g atrs s (fabs (fsub (dw_price s) (dw_price l))) # acc)"

definition swing_order :: "detected_swing \<Rightarrow> detected_swing \<Rightarrow> bool" where
  "swing_order a b = (dw_conf_index a < dw_conf_index b \<or> dw_conf_index a = dw_conf_index b \<and> dw_index a < dw_index b)"

definition filter_and_rescore :: "(pyfloat \<Rightarrow> string) \<Rightarrow> swing_config \<Rightarrow> detected_swing list \<Rightarrow> pyfloat list \<Rightarrow> detected_swing list" where
  "filter_and_rescore fm g raw atrs = rev (fold (accept_swing fm g atrs) (sort_by swing_order raw) [])"

definition detect_closed :: "(pyfloat \<Rightarrow> string) \<Rightarrow> swing_config \<Rightarrow> ohlcv list \<Rightarrow> detected_swing list" where
  "detect_closed fm g cs =
     (if int (length cs) < sg_left g + sg_right g + 1 then []
      else let atrs = calculate_atr cs (sg_atr_period g) in filter_and_rescore fm g (collect_raw_swings fm g cs atrs) atrs)"

definition swing_detect ::
  "ict_text \<Rightarrow> (string \<Rightarrow> datetime res) \<Rightarrow> (pyfloat \<Rightarrow> string) \<Rightarrow> swing_config \<Rightarrow> string option \<Rightarrow> candle_input list \<Rightarrow> detected_swing list res" where
  "swing_detect e of_iso fm g tf cs = rmap (\<lambda>xs. detect_closed fm g (filter oh_closed xs)) (normalize_candles e of_iso g tf 0 cs)"

text \<open>\<open>detect_swings\<close>: the bars and the timeframe override a given configuration.\<close>

definition detect_swings ::
  "ict_text \<Rightarrow> (string \<Rightarrow> datetime res) \<Rightarrow> (pyfloat \<Rightarrow> string) \<Rightarrow> int \<Rightarrow> int \<Rightarrow> string option \<Rightarrow> swing_config option \<Rightarrow> pydict list
    \<Rightarrow> detected_swing list res" where
  "detect_swings e of_iso fm lb rb tf config rows =
     (let base = (case config of
          None \<Rightarrow> default_swing_config\<lparr>sg_left := lb, sg_right := rb, sg_timeframe := tf\<rparr>
        | Some c \<Rightarrow> c\<lparr>sg_left := lb, sg_right := rb, sg_timeframe := (case tf of Some (x # xs) \<Rightarrow> tf | _ \<Rightarrow> sg_timeframe c)\<rparr>)
      in rbind (check_swing_config base) (\<lambda>g. swing_detect e of_iso fm g tf (map Row rows)))"

subsection \<open>Detected swings are swings\<close>

text \<open>What a swing says of the candles.\<close>

definition genuine_swing :: "swing_config \<Rightarrow> ohlcv list \<Rightarrow> detected_swing \<Rightarrow> bool" where
  "genuine_swing g cs s \<longleftrightarrow>
     (\<exists>p\<ge>nat (sg_left g). p + nat (sg_right g) < length cs \<and> dw_index s = oh_index (cs ! p) \<and> dw_time s = oh_time (cs ! p)
        \<and> dw_conf_index s = oh_index (cs ! (p + nat (sg_right g))) \<and> dw_conf_time s = oh_time (cs ! (p + nat (sg_right g)))
        \<and> (if dw_type s = SwingHigh then is_high g cs p \<and> dw_price s = oh_high (cs ! p) else is_low g cs p \<and> dw_price s = oh_low (cs ! p)))
     \<and> fle (Fin 0) (dw_score s) \<and> fle (dw_score s) (Fin 10) \<and> dw_label s = strength_label (dw_score s)"

lemma sw_clamp_round: "fle (Fin 0) (py_round (sw_clamp v) 2) \<and> fle (py_round (sw_clamp v) 2) (Fin 10)"
proof -
  have c: "fle (Fin 0) (sw_clamp v) \<and> fle (sw_clamp v) (Fin 10)"
    by (cases v) (auto simp: sw_clamp_def py_min_def py_max_def)
  have "rhe (1000 :: rat) = 1000" by simp
  then have "py_round (Fin 10) 2 = Fin 10" by (simp add: feval)
  with c show ?thesis using py_round_mono [of "sw_clamp v" "Fin 10" 2] py_round_nonneg [of "sw_clamp v" 2] by simp
qed

lemma build_swing_fields:
  "dw_index (build_swing fm g cs atrs p st) = oh_index (cs ! p)" "dw_time (build_swing fm g cs atrs p st) = oh_time (cs ! p)"
  "dw_conf_index (build_swing fm g cs atrs p st) = oh_index (cs ! (p + nat (sg_right g)))"
  "dw_conf_time (build_swing fm g cs atrs p st) = oh_time (cs ! (p + nat (sg_right g)))"
  "dw_type (build_swing fm g cs atrs p st) = st"
  "dw_price (build_swing fm g cs atrs p st) = (if st = SwingHigh then oh_high (cs ! p) else oh_low (cs ! p))"
  "dw_label (build_swing fm g cs atrs p st) = strength_label (dw_score (build_swing fm g cs atrs p st))"
  by (simp_all add: build_swing_def Let_def split_beta)

lemma build_swing_score: "fle (Fin 0) (dw_score (build_swing fm g cs atrs p st)) \<and> fle (dw_score (build_swing fm g cs atrs p st)) (Fin 10)"
  by (simp add: build_swing_def score_raw_swing_def Let_def split_beta sw_clamp_round)

lemma raw_swings_genuine:
  assumes "s \<in> set (collect_raw_swings fm g cs atrs)"
  shows "genuine_swing g cs s"
proof -
  from assms obtain p where p: "nat (sg_left g) \<le> p" "p < length cs - nat (sg_right g)" and s: "s \<in> set (swings_at fm g cs atrs p)"
    by (auto simp: collect_raw_swings_def)
  from s obtain st where st: "s = build_swing fm g cs atrs p st" "if st = SwingHigh then is_high g cs p else is_low g cs p"
    unfolding swings_at_def by (auto split: if_splits)
  from p have "p + nat (sg_right g) < length cs" by linarith
  with p(1) st(2) show ?thesis
    unfolding st(1) genuine_swing_def build_swing_fields using build_swing_score [of fm g cs atrs p st] by (cases st) auto
qed

lemma with_distance_fields:
  "dw_index (with_distance_score fm g atrs s d) = dw_index s" "dw_type (with_distance_score fm g atrs s d) = dw_type s"
  by (simp_all add: with_distance_score_def Let_def)

lemma with_distance_genuine: "genuine_swing g cs s \<Longrightarrow> genuine_swing g cs (with_distance_score fm g atrs s d)"
  using sw_clamp_round by (auto simp: genuine_swing_def with_distance_score_def Let_def)

lemma accept_genuine:
  "genuine_swing g cs s \<Longrightarrow> list_all (genuine_swing g cs) acc \<Longrightarrow> list_all (genuine_swing g cs) (accept_swing fm g atrs s acc)"
  by (auto simp: accept_swing_def prefer_more_extreme_def prefer_stronger_def with_distance_genuine split: list.splits)

text \<open>Every swing the detector reports is a strict extreme between its neighbours on both sides, confirmed by the last of them, with a
  score from 0 to 10 and the label of that score.\<close>

theorem swings_are_genuine: "list_all (genuine_swing g cs) (detect_closed fm g cs)"
proof -
  have "list_all (genuine_swing g cs) (fold (accept_swing fm g atrs) xs acc)"
    if "list_all (genuine_swing g cs) xs" "list_all (genuine_swing g cs) acc" for atrs xs acc
    using that by (induction xs arbitrary: acc) (auto intro: accept_genuine)
  moreover have "list_all (genuine_swing g cs) (sort_by swing_order (collect_raw_swings fm g cs atrs))" for atrs
    using raw_swings_genuine by (auto simp: list_all_iff)
  ultimately show ?thesis by (simp add: detect_closed_def filter_and_rescore_def Let_def)
qed

subsection \<open>Order and spacing\<close>

lemma ins_by_last: "\<forall>y\<in>set ys. \<not> lt x y \<Longrightarrow> ins_by lt x ys = ys @ [x]"
  by (induction ys) auto

lemma sort_by_sorted_id: "sorted_wrt (\<lambda>a b. \<not> lt b a) xs \<Longrightarrow> sort_by lt xs = xs"
proof -
  have "fold (ins_by lt) xs ys = ys @ xs" if "sorted_wrt (\<lambda>a b. \<not> lt b a) (ys @ xs)" for xs ys
    using that
  proof (induction xs arbitrary: ys)
    case (Cons x xs)
    then have "ins_by lt x ys = ys @ [x]" by (intro ins_by_last) (auto simp: sorted_wrt_append)
    with Cons show ?case by simp
  qed simp
  from this [of "[]" xs] show "sorted_wrt (\<lambda>a b. \<not> lt b a) xs \<Longrightarrow> sort_by lt xs = xs" by (simp add: sort_by_def)
qed

text \<open>Candles numbered by their positions, as rows without an index are.\<close>

definition numbered :: "ohlcv list \<Rightarrow> bool" where
  "numbered cs \<longleftrightarrow> (\<forall>i<length cs. oh_index (cs ! i) = int i)"

lemma numbered_take: "numbered cs \<Longrightarrow> numbered (take n cs)"
  by (simp add: numbered_def)

lemma swings_at_index:
  assumes "s \<in> set (swings_at fm g cs atrs p)" "numbered cs" "p + nat (sg_right g) < length cs"
  shows "dw_index s = int p \<and> dw_conf_index s = int (p + nat (sg_right g))"
  using assms by (auto simp: swings_at_def numbered_def build_swing_fields split: if_splits)

lemma raw_sorted:
  assumes "numbered cs"
  shows "sorted_wrt (\<lambda>a b. dw_index a \<le> dw_index b \<and> dw_conf_index a \<le> dw_conf_index b) (collect_raw_swings fm g cs atrs)"
proof -
  have every: "sorted_wrt (\<lambda>a b. dw_index a \<le> dw_index b \<and> dw_conf_index a \<le> dw_conf_index b) (concat (map (swings_at fm g cs atrs) ps))"
    if "sorted_wrt (<) ps" "\<forall>p\<in>set ps. p + nat (sg_right g) < length cs" for ps
    using that
  proof (induction ps)
    case (Cons p ps)
    have one: "sorted_wrt (\<lambda>a b. dw_index a \<le> dw_index b \<and> dw_conf_index a \<le> dw_conf_index b) (swings_at fm g cs atrs p)"
      by (auto simp: swings_at_def build_swing_fields)
    have i: "\<And>a. a \<in> set (swings_at fm g cs atrs p) \<Longrightarrow> dw_index a = int p \<and> dw_conf_index a = int (p + nat (sg_right g))"
      using swings_at_index assms Cons.prems(2) by auto
    have j: "\<And>b. b \<in> set (concat (map (swings_at fm g cs atrs) ps)) \<Longrightarrow> int p \<le> dw_index b \<and> int (p + nat (sg_right g)) \<le> dw_conf_index b"
    proof -
      fix b
      assume "b \<in> set (concat (map (swings_at fm g cs atrs) ps))"
      then obtain q where q: "q \<in> set ps" "b \<in> set (swings_at fm g cs atrs q)" by auto
      with Cons.prems have "p < q" "q + nat (sg_right g) < length cs" by auto
      with swings_at_index [OF q(2) assms] show "int p \<le> dw_index b \<and> int (p + nat (sg_right g)) \<le> dw_conf_index b" by simp
    qed
    show ?case using one i j Cons.IH Cons.prems by (fastforce simp: sorted_wrt_append)
  qed simp
  show ?thesis unfolding collect_raw_swings_def by (rule every) auto
qed

lemma raw_in_order: "numbered cs \<Longrightarrow> sort_by swing_order (collect_raw_swings fm g cs atrs) = collect_raw_swings fm g cs atrs"
  using raw_sorted [of cs fm g atrs] by (intro sort_by_sorted_id) (auto simp: swing_order_def intro: sorted_wrt_mono_rel [rotated])


subsection \<open>Later candles do not repaint swings\<close>

lemma atr_from_take: "atr_from period rs pv (take n cs) = take n (atr_from period rs pv cs)"
  by (induction cs arbitrary: rs pv n) (auto simp: Let_def take_Cons split: nat.splits)

lemma calculate_atr_take: "calculate_atr (take n cs) period = take n (calculate_atr cs period)"
  by (simp add: calculate_atr_def atr_from_take)

lemma length_calculate_atr: "length (calculate_atr cs period) = length cs"
proof -
  have "length (atr_from p rs pv cs) = length cs" for p rs pv by (induction cs arbitrary: rs pv) (auto simp: Let_def)
  then show ?thesis by (simp add: calculate_atr_def)
qed

lemma around_take: "p + nat (sg_right g) < n \<Longrightarrow> around g (take n cs) p = around g cs p"
  by (simp add: around_def min_def drop_take)

lemma score_take:
  assumes "p + nat (sg_right g) < n" "2 \<le> sg_right g" "n \<le> length cs"
  shows "score_raw_swing fm g (take n cs) (take n atrs) p st reaction = score_raw_swing fm g cs atrs p st reaction"
proof -
  have i: "p < n" "p + 3 \<le> n" using assms by linarith+
  with assms(3) have "take p (take n cs) = take p cs" "take n cs ! p = cs ! p"
      "take (min (length (take n cs)) (p + 3)) (take n cs) = take (min (length cs) (p + 3)) cs"
    by (simp_all add: min_def)
  with i have "volume_score g (take n cs) p = volume_score g cs p" "chop_penalty (take n cs) (take n atrs) p = chop_penalty cs atrs p"
    by (simp_all only: volume_score_def chop_penalty_def nth_take)
  with i show ?thesis by (simp add: score_raw_swing_def)
qed

lemma swings_at_take:
  assumes "p + nat (sg_right g) < n" "2 \<le> sg_right g" "n \<le> length cs"
  shows "swings_at fm g (take n cs) (take n atrs) p = swings_at fm g cs atrs p"
proof -
  have p: "p < n" using assms by linarith
  have "reaction_after g (take n cs) p st = reaction_after g cs p st" for st
  proof -
    have "take (nat (sg_right g)) (drop (p + 1) (take n cs)) = take (nat (sg_right g)) (drop (p + 1) cs)"
      using assms(1) by (simp add: drop_take min_def)
    then show ?thesis using p by (simp add: reaction_after_def Let_def)
  qed
  then have "build_swing fm g (take n cs) (take n atrs) p st = build_swing fm g cs atrs p st" for st
    using assms p by (simp add: build_swing_def score_take)
  then show ?thesis using assms p by (simp add: swings_at_def is_high_def is_low_def around_take)
qed

lemma raw_swings_take:
  assumes "2 \<le> sg_right g" "n \<le> length cs"
  obtains later where "collect_raw_swings fm g cs atrs = collect_raw_swings fm g (take n cs) (take n atrs) @ later"
proof
  have "[nat (sg_left g)..<length cs - nat (sg_right g)] = [nat (sg_left g)..<n - nat (sg_right g)]
      @ [max (nat (sg_left g)) (n - nat (sg_right g))..<length cs - nat (sg_right g)]"
    using assms(2) upt_add_eq_append [of "nat (sg_left g)" "n - nat (sg_right g)"] by (cases "nat (sg_left g) \<le> n - nat (sg_right g)")
      (metis diff_le_mono max.absorb2 le_add_diff_inverse, simp add: max_def)
  moreover have "map (swings_at fm g cs atrs) [nat (sg_left g)..<n - nat (sg_right g)]
      = map (swings_at fm g (take n cs) (take n atrs)) [nat (sg_left g)..<n - nat (sg_right g)]"
    using assms by (auto simp: swings_at_take)
  ultimately show "collect_raw_swings fm g cs atrs = collect_raw_swings fm g (take n cs) (take n atrs)
      @ concat (map (swings_at fm g cs atrs) [max (nat (sg_left g)) (n - nat (sg_right g))..<length cs - nat (sg_right g)])"
    using assms(2) unfolding collect_raw_swings_def by (simp only: map_append concat_append length_take min.absorb2)
qed

lemma accept_keeps_tail: "suffix (tl acc) (tl (accept_swing fm g atrs s acc))"
  by (auto simp: accept_swing_def suffix_def split: list.splits)

lemma prefix_butlast_rev: "suffix (tl a) (tl b) \<Longrightarrow> prefix (butlast (rev a)) (rev b)"
  by (simp add: butlast_rev suffix_to_prefix) (metis butlast_rev prefix_order.trans prefixeq_butlast)

lemma fold_accept_tail: "suffix (tl acc) (tl (fold (accept_swing fm g atrs) xs acc))"
  by (induction xs arbitrary: acc) (auto intro: suffix_order.trans accept_keeps_tail)

lemma accept_take:
  assumes "dw_conf_index s < int n" "n \<le> length atrs" "0 < n"
  shows "accept_swing fm g (take n atrs) s acc = accept_swing fm g atrs s acc"
proof -
  have "take n atrs ! nat (min (max (dw_conf_index s) 0) (int (length (take n atrs)) - 1))
      = atrs ! nat (min (max (dw_conf_index s) 0) (int (length atrs) - 1))"
    using assms by (cases "atrs = []") (simp_all add: min_def nat_less_iff)
  then have "with_distance_score fm g (take n atrs) s d = with_distance_score fm g atrs s d" for d
    by (simp add: with_distance_score_def)
  then show ?thesis by (simp add: accept_swing_def split: list.split)
qed

lemma raw_conf_bound:
  assumes "numbered cs" "s \<in> set (collect_raw_swings fm g cs atrs)"
  shows "dw_conf_index s < int (length cs)"
proof -
  from raw_swings_genuine [OF assms(2)] obtain p where "p + nat (sg_right g) < length cs" "dw_conf_index s = oh_index (cs ! (p + nat (sg_right g)))"
    unfolding genuine_swing_def by auto
  with assms(1) show ?thesis by (metis numbered_def of_nat_less_iff)
qed

text \<open>C28. For candles numbered by their positions, as rows without an index are, and at least two right-hand candles to confirm a swing:
  later candles leave every swing but the last as it was reported.\<close>

theorem no_repaint:
  assumes "2 \<le> sg_right g" "numbered cs"
  shows "prefix (butlast (detect_closed fm g (take n cs))) (detect_closed fm g cs)"
proof (cases "int (length (take n cs)) < sg_left g + sg_right g + 1 \<or> length cs < n")
  case False
  define atrs where "atrs = calculate_atr cs (sg_atr_period g)"
  define xs where "xs = collect_raw_swings fm g (take n cs) (take n atrs)"
  from False have n: "n \<le> length cs" and len: "\<not> int n < sg_left g + sg_right g + 1" by auto
  obtain later where later: "collect_raw_swings fm g cs atrs = xs @ later"
    using raw_swings_take [OF assms(1) n] unfolding xs_def by blast
  have bound: "dw_conf_index s < int n" if "s \<in> set xs" for s
    using raw_conf_bound [OF numbered_take [OF assms(2)]] that n unfolding xs_def by fastforce
  then have pos: "xs \<noteq> [] \<Longrightarrow> 0 < n" using xs_def by (cases n) (auto simp: collect_raw_swings_def)
  have "fold (accept_swing fm g (take n atrs)) xs [] = fold (accept_swing fm g atrs) xs []"
    using bound pos n by (intro fold_cong refl ext accept_take)
      (simp_all add: atrs_def length_calculate_atr, force)
  then have early: "detect_closed fm g (take n cs) = rev (fold (accept_swing fm g atrs) xs [])"
    using n len assms(2) by (simp add: detect_closed_def filter_and_rescore_def calculate_atr_take raw_in_order numbered_take
        flip: atrs_def xs_def)
  have all: "detect_closed fm g cs = rev (fold (accept_swing fm g atrs) later (fold (accept_swing fm g atrs) xs []))"
    using n len assms(2) by (simp add: detect_closed_def filter_and_rescore_def raw_in_order later flip: atrs_def)
  show ?thesis unfolding early all by (rule prefix_butlast_rev [OF fold_accept_tail])
qed (auto simp: detect_closed_def Let_def prefixeq_butlast)

text \<open>The numbering matters: the average true range behind the distance score is looked up under the candle's index, clamped to the list.
  Candles whose indices lie beyond it, such as candle nodes with sequence numbers of their own, all read the latest value, which the
  next candle changes.\<close>

lemma distance_reads_last_atr:
  assumes "atrs \<noteq> []" "int (length atrs) \<le> dw_conf_index s"
  shows "with_distance_score fm g atrs s d = with_distance_score fm g [last atrs] s d"
proof -
  from assms have "atrs ! nat (min (max (dw_conf_index s) 0) (int (length atrs) - 1)) = last atrs"
    by (simp add: min_def max_def last_conv_nth nat_diff_distrib')
  moreover from assms have "[last atrs] ! nat (min (max (dw_conf_index s) 0) (int (length [last atrs]) - 1)) = last atrs" by simp
  ultimately show ?thesis unfolding with_distance_score_def Let_def by (simp only:)
qed

text \<open>A peak and a trough in seven candles, each confirmed by two, and two candles more.\<close>

definition peak_candle :: "nat \<Rightarrow> rat \<Rightarrow> ohlcv" where
  "peak_candle i h = \<lparr>oh_index = int i, oh_time = naive (300000000 * int i), oh_open = Fin (h - 2), oh_high = Fin h, oh_low = Fin (h - 3), oh_close = Fin (h - 1),
     oh_volume = Fin 1, oh_timeframe = ''5m'', oh_closed = True, oh_session = None, oh_htf = None, oh_zone = None\<rparr>"

definition wave :: "ohlcv list" where
  "wave = map (\<lambda>(i, h). peak_candle i h) [(0, 10), (1, 20), (2, 15), (3, 12), (4, 5), (5, 8), (6, 11), (7, 14), (8, 17)]"

definition wave_config :: swing_config where
  "wave_config = default_swing_config\<lparr>sg_left := 1, sg_right := 2\<rparr>"

lemma wave_numbered: "numbered wave"
  by (auto simp: numbered_def wave_def peak_candle_def less_Suc_eq numeral_eq_Suc)

lemma wave_swings: "map dw_type (detect_closed fm wave_config (take 7 wave)) = [SwingHigh, SwingLow]"
proof -
  let ?cs = "[peak_candle 0 10, peak_candle 1 20, peak_candle 2 15, peak_candle 3 12, peak_candle 4 5, peak_candle 5 8, peak_candle 6 11]"
  have c: "take 7 wave = ?cs" by (simp add: wave_def)
  have g: "sg_left wave_config = 1" "sg_right wave_config = 2" "sg_min_gap wave_config = 3" "\<not> sg_require_reaction wave_config"
    by (simp_all add: wave_config_def default_swing_config_def)
  have hl: "oh_high (peak_candle i h) = Fin h" "oh_low (peak_candle i h) = Fin (h - 3)" "oh_index (peak_candle i h) = int i" for i h
    by (simp_all add: peak_candle_def)
  have ext: "is_high wave_config ?cs 1" "\<not> is_low wave_config ?cs 1" "\<not> is_high wave_config ?cs 2" "\<not> is_low wave_config ?cs 2"
    "\<not> is_high wave_config ?cs 3" "\<not> is_low wave_config ?cs 3" "\<not> is_high wave_config ?cs 4" "is_low wave_config ?cs 4"
    by (simp_all add: is_high_def is_low_def around_def g hl eval_nat_numeral)
  define atrs where "atrs = calculate_atr ?cs (sg_atr_period wave_config)"
  let ?s1 = "build_swing fm wave_config ?cs atrs 1 SwingHigh" and ?s2 = "build_swing fm wave_config ?cs atrs 4 SwingLow"
  have "[nat (sg_left wave_config)..<length ?cs - nat (sg_right wave_config)] = [1, 2, 3, 4]"
    by (simp add: g upt_rec eval_nat_numeral)
  moreover have "swings_at fm wave_config ?cs atrs 1 = [?s1]" "swings_at fm wave_config ?cs atrs 2 = []"
    "swings_at fm wave_config ?cs atrs 3 = []" "swings_at fm wave_config ?cs atrs 4 = [?s2]"
    unfolding swings_at_def by (simp_all only: ext simp_thms if_True if_False if_cancel append.simps)
  ultimately have raw: "collect_raw_swings fm wave_config ?cs atrs = [?s1, ?s2]"
    unfolding collect_raw_swings_def by (simp only: list.map concat.simps append.simps)
  have i: "dw_index ?s1 = 1" "dw_index ?s2 = 4" "dw_type ?s1 = SwingHigh" "dw_type ?s2 = SwingLow"
    by (simp_all add: build_swing_fields hl)
  have sorted: "sort_by swing_order [?s1, ?s2] = [?s1, ?s2]"
    using raw_in_order [OF numbered_take [OF wave_numbered, of 7], of fm wave_config atrs] unfolding c raw .
  have "\<not> int (length ?cs) < sg_left wave_config + sg_right wave_config + 1" by (simp add: g)
  then have "detect_closed fm wave_config ?cs = rev (fold (accept_swing fm wave_config atrs) [?s1, ?s2] [])"
    by (simp only: detect_closed_def Let_def if_False filter_and_rescore_def raw sorted flip: atrs_def)
  then show ?thesis unfolding c by (simp add: accept_swing_def g i [simplified] with_distance_fields)
qed

lemma no_repaint_witness:
  "\<exists>s t. detect_closed (\<lambda>_. []) wave_config (take 7 wave) = [s, t] \<and> dw_type s = SwingHigh
     \<and> prefix [s] (detect_closed (\<lambda>_. []) wave_config wave)"
proof -
  obtain s t where st: "detect_closed (\<lambda>_. []) wave_config (take 7 wave) = [s, t]" "dw_type s = SwingHigh"
    using wave_swings [of "\<lambda>_. []"] by (auto simp: map_eq_Cons_conv)
  have "2 \<le> sg_right wave_config" by (simp add: wave_config_def)
  from no_repaint [OF this wave_numbered, of "\<lambda>_. []" 7] st show ?thesis by simp
qed

text \<open>With one right-hand candle the chop penalty reads a candle that is not closed at the confirmation: three flat candles cost half
  a point, and one and a half once the fourth has closed.\<close>

definition flat_candles :: "ohlcv list" where
  "flat_candles = map (\<lambda>i. (peak_candle i 10)\<lparr>oh_open := Fin 10, oh_close := Fin 10, oh_low := Fin 10\<rparr>) [0, 1, 2, 3]"

lemma chop_sees_the_future:
  "chop_penalty (take 3 flat_candles) [Fin 1, Fin 1, Fin 1] 1 = Fin (1/2) \<and> chop_penalty flat_candles [Fin 1, Fin 1, Fin 1, Fin 1] 1 = Fin (3/2)"
  by (simp add: feval floor9_def py_max_def chop_penalty_def flat_candles_def oh_body_ratio_def oh_range_def oh_body_def peak_candle_def Let_def numeral_3_eq_3)

end
