(* ===== verification/MtfClock.thy ===== *)
theory MtfClock
  imports StrategyBase
begin

section \<open>Closed candles at a time (src/analytics/ict_smc/multitimeframe_engine.py)\<close>

text \<open>
  The backtest reads its candles through the multi-timeframe engine: rows become candles with a closing time, one per
  opening time and in order, and a timeframe is sliced to the candles closed at a given time. Values are read with the small
  helpers (\<open>_parse_time\<close>, \<open>_float\<close>, \<open>_mapping\<close>, \<open>_as_list\<close>) that this module and the backtest each define. \<open>ck_iso\<close> is
  \<open>datetime.fromisoformat\<close>, \<open>ck_strp\<close> \<open>strptime\<close> with the format the code names, \<open>ck_show\<close> \<open>isoformat\<close>. Tables are lists of dicts.
\<close>

record clock =
  ck_text :: ict_text
  ck_iso :: "string \<Rightarrow> datetime res"
  ck_strp :: "string \<Rightarrow> datetime res"
  ck_show :: "datetime \<Rightarrow> string"

subsection \<open>Reading values\<close>

definition assume_utc :: "datetime \<Rightarrow> datetime" where
  "assume_utc d = (if dt_off d = None then d\<lparr>dt_off := Some 0\<rparr> else d)"

definition parse_time :: "clock \<Rightarrow> pyval \<Rightarrow> datetime option res" where
  "parse_time k v =
     (if v = PNone \<or> v = PStr [] then Ok None
      else case v of
        PDt d \<Rightarrow> Ok (Some (assume_utc d))
      | _ \<Rightarrow> (let t = replace_z (py_strip (to_str (ck_text k) v))
             in rmap (\<lambda>d. Some (assume_utc d)) (case ck_iso k t of Inl (ValueError _) \<Rightarrow> ck_strp k t | r \<Rightarrow> r)))"

definition iso_val :: "clock \<Rightarrow> datetime option \<Rightarrow> pyval" where
  "iso_val k d = (case d of None \<Rightarrow> PNone | Some t \<Rightarrow> PStr (ck_show k t))"

definition float_or_none :: "clock \<Rightarrow> pyval \<Rightarrow> pyfloat option res" where
  "float_or_none k v =
     (if v = PNone \<or> v = PStr [] then Ok None
      else case to_float (ck_text k) v of
        Inr x \<Rightarrow> Ok (Some x)
      | Inl TypeError \<Rightarrow> Ok None
      | Inl (ValueError _) \<Rightarrow> Ok None
      | Inl x \<Rightarrow> Raise x)"

fun mapping_of :: "pyval \<Rightarrow> pydict" where
  "mapping_of (PDict d) = d"
| "mapping_of _ = []"

fun as_list :: "pyval \<Rightarrow> pyval list" where
  "as_list PNone = []"
| "as_list (PList xs) = xs"
| "as_list v = [v]"

text \<open>\<open>d.update(...)\<close>\<close>

definition dict_update :: "pydict \<Rightarrow> pydict \<Rightarrow> pydict" where
  "dict_update d kvs = fold (\<lambda>(key, v). AList.update key v) kvs d"

subsection \<open>Candles\<close>

datatype timeframe = Daily | H1 | M15 | M5

fun timeframe_name :: "timeframe \<Rightarrow> string" where
  "timeframe_name Daily = ''1D''"
| "timeframe_name H1 = ''1H''"
| "timeframe_name M15 = ''15M''"
| "timeframe_name M5 = ''5M''"

fun timeframe_minutes :: "timeframe \<Rightarrow> int" where
  "timeframe_minutes Daily = 1440"
| "timeframe_minutes H1 = 60"
| "timeframe_minutes M15 = 15"
| "timeframe_minutes M5 = 5"

definition timeframe_value :: "string \<Rightarrow> timeframe res" where
  "timeframe_value raw =
     (case map_of [(''daily'', Daily), (''d1'', Daily), (''1d'', Daily), (''day'', Daily), (''h1'', H1), (''1h'', H1), (''hourly'', H1),
        (''m15'', M15), (''15m'', M15), (''15min'', M15), (''m5'', M5), (''5m'', M5), (''5min'', M5)]
        (filter (\<lambda>c. c \<noteq> CHR ''_'' \<and> c \<noteq> CHR ''-'') (py_lower (py_strip raw))) of
        None \<Rightarrow> Raise (ValueError ''Unsupported timeframe'')
      | Some tf \<Rightarrow> Ok tf)"

record mtf_candle =
  mk_index :: int
  mk_time :: datetime
  mk_close_time :: datetime
  mk_open :: pyfloat
  mk_high :: pyfloat
  mk_low :: pyfloat
  mk_close :: pyfloat
  mk_volume :: pyfloat
  mk_closed :: bool

definition normalize_candle :: "clock \<Rightarrow> timeframe \<Rightarrow> nat \<Rightarrow> pyval \<Rightarrow> mtf_candle res" where
  "normalize_candle k tf i row =
     (let d = mapping_of row; num = \<lambda>v. to_float (ck_text k) v
      in rbind (parse_time k (py_or (py_or (pget d ''timestamp'' PNone) (pget d ''time'' PNone)) (pget d ''open_time'' PNone))) (\<lambda>ts.
         case ts of
           None \<Rightarrow> Raise (ValueError ''Each candle must include a timestamp/time/open_time field.'')
         | Some t \<Rightarrow>
             rbind (parse_time k (pget d ''close_time'' PNone)) (\<lambda>ct.
             rbind (to_int (ck_text k) (pget d ''index'' (PInt (int i)))) (\<lambda>index.
             rbind (num (pget d ''open'' (pget d ''o'' (PFloat (Fin 0))))) (\<lambda>op.
             rbind (num (pget d ''high'' (pget d ''h'' (PFloat (Fin 0))))) (\<lambda>hi.
             rbind (num (pget d ''low'' (pget d ''l'' (PFloat (Fin 0))))) (\<lambda>lo.
             rbind (num (pget d ''close'' (pget d ''c'' (PFloat (Fin 0))))) (\<lambda>cl.
             rbind (num (pget d ''volume'' (pget d ''tick_volume'' (pget d ''v'' (PFloat (Fin 0)))))) (\<lambda>vol.
             Ok \<lparr>mk_index = index, mk_time = t,
                 mk_close_time = (case ct of Some c \<Rightarrow> c | None \<Rightarrow> dt_add t (timeframe_minutes tf * 60000000)),
                 mk_open = op, mk_high = hi, mk_low = lo, mk_close = cl, mk_volume = vol,
                 mk_closed = py_truthy (pget d ''is_closed'' (PBool True))\<rparr>)))))))))"

definition mtf_row :: "clock \<Rightarrow> timeframe \<Rightarrow> mtf_candle \<Rightarrow> pydict" where
  "mtf_row k tf c =
     [(''index'', PInt (mk_index c)), (''timestamp'', PStr (ck_show k (mk_time c))), (''close_time'', PStr (ck_show k (mk_close_time c))),
      (''timeframe'', PStr (timeframe_name tf)), (''open'', PFloat (mk_open c)), (''high'', PFloat (mk_high c)),
      (''low'', PFloat (mk_low c)), (''close'', PFloat (mk_close c)), (''volume'', PFloat (mk_volume c)), (''is_closed'', PBool (mk_closed c))]"

fun normalize_rows :: "clock \<Rightarrow> timeframe \<Rightarrow> nat \<Rightarrow> pyval list \<Rightarrow> mtf_candle list res" where
  "normalize_rows k tf i [] = Ok []"
| "normalize_rows k tf i (r # rs) = rbind (normalize_candle k tf i r) (\<lambda>c. rmap ((#) c) (normalize_rows k tf (Suc i) rs))"

text \<open>One candle per opening time, the last row's, in the order of the times. Times are aware: equal times are equal instants.\<close>

definition one_per_time :: "mtf_candle list \<Rightarrow> mtf_candle list" where
  "one_per_time cs =
     sort_by (\<lambda>a b. dt_instant (mk_time a) < dt_instant (mk_time b))
       (map snd (fold (\<lambda>c. AList.update (dt_instant (mk_time c)) c) cs []))"

definition prepared :: "clock \<Rightarrow> pyval \<Rightarrow> timeframe \<Rightarrow> mtf_candle list res" where
  "prepared k rows tf = rmap one_per_time (normalize_rows k tf 0 (as_list rows))"

definition prepare_timeframe_data :: "clock \<Rightarrow> pyval \<Rightarrow> string \<Rightarrow> pydict list res" where
  "prepare_timeframe_data k rows timeframe = rbind (timeframe_value timeframe) (\<lambda>tf. rmap (map (mtf_row k tf)) (prepared k rows tf))"

subsection \<open>The clock\<close>

text \<open>The closing times of prepared rows are never missing: \<open>None <= t\<close> would raise.\<close>

fun closed_by :: "clock \<Rightarrow> datetime \<Rightarrow> pydict list \<Rightarrow> pydict list res" where
  "closed_by k t [] = Ok []"
| "closed_by k t (r # rs) =
     (if \<not> py_truthy (pget r ''is_closed'' (PBool True)) then closed_by k t rs
      else rbind (parse_time k (pget r ''close_time'' PNone)) (\<lambda>ct.
           case ct of
             None \<Rightarrow> Raise TypeError
           | Some c \<Rightarrow> rbind (dt_le c t) (\<lambda>b. if b then rmap ((#) r) (closed_by k t rs) else closed_by k t rs)))"

definition get_closed_candles_asof :: "clock \<Rightarrow> pyval \<Rightarrow> timeframe \<Rightarrow> datetime option \<Rightarrow> pydict list res" where
  "get_closed_candles_asof k rows tf eval_time =
     rbind (prepare_timeframe_data k rows (timeframe_name tf)) (\<lambda>xs.
     case eval_time of
       None \<Rightarrow> Ok (filter (\<lambda>r. py_truthy (pget r ''is_closed'' (PBool True))) xs)
     | Some t \<Rightarrow> closed_by k t xs)"

text \<open>The inputs by timeframe: a later key for the same timeframe replaces the rows.\<close>

fun timeframe_inputs :: "(timeframe \<times> pyval) list \<Rightarrow> pydict \<Rightarrow> (timeframe \<times> pyval) list res" where
  "timeframe_inputs acc [] = Ok acc"
| "timeframe_inputs acc ((key, v) # kvs) = rbind (timeframe_value key) (\<lambda>tf. timeframe_inputs (AList.update tf v acc) kvs)"

definition rows_of :: "(timeframe \<times> pyval) list \<Rightarrow> timeframe \<Rightarrow> pyval" where
  "rows_of inputs tf = (case map_of inputs tf of None \<Rightarrow> PList [] | Some v \<Rightarrow> v)"

definition resolve_eval_time :: "clock \<Rightarrow> (timeframe \<times> pyval) list \<Rightarrow> pyval \<Rightarrow> datetime option res" where
  "resolve_eval_time k inputs eval_time =
     rbind (parse_time k eval_time) (\<lambda>explicit.
     case explicit of
       Some t \<Rightarrow> Ok (Some t)
     | None \<Rightarrow> rbind (get_closed_candles_asof k (rows_of inputs M5) M5 None) (\<lambda>m5.
                if m5 = [] then Ok None else parse_time k (pget (last m5) ''close_time'' PNone)))"

record aligned =
  al_time :: "datetime option"
  al_slices :: "(timeframe \<times> pydict list) list"
  al_closed :: "(timeframe \<times> pyval) list"
  al_warnings :: "string list"

definition no_closed_warning :: "timeframe \<Rightarrow> string" where
  "no_closed_warning tf = ''no_closed_'' @ py_lower (timeframe_name tf) @ ''_candles''"

definition align_timeframes :: "clock \<Rightarrow> pydict \<Rightarrow> pyval \<Rightarrow> aligned res" where
  "align_timeframes k data eval_time =
     rbind (timeframe_inputs [] data) (\<lambda>inputs.
     rbind (resolve_eval_time k inputs eval_time) (\<lambda>t.
     rmap (\<lambda>slices. \<lparr>al_time = t, al_slices = zip [Daily, H1, M15, M5] slices,
        al_closed = zip [Daily, H1, M15, M5] (map (\<lambda>xs. if xs = [] then PNone else pget (last xs) ''close_time'' PNone) slices),
        al_warnings = map no_closed_warning (map fst (filter (\<lambda>(_, xs). xs = []) (zip [Daily, H1, M15, M5] slices)))\<rparr>)
     (res_map (\<lambda>tf. get_closed_candles_asof k (rows_of inputs tf) tf t) [Daily, H1, M15, M5])))"


subsection \<open>One candle per time, in order\<close>

definition by_time :: "mtf_candle list \<Rightarrow> (int \<times> mtf_candle) list" where
  "by_time cs = fold (\<lambda>c. AList.update (dt_instant (mk_time c)) c) cs []"

lemma by_time_snoc: "by_time (cs @ [c]) = AList.update (dt_instant (mk_time c)) c (by_time cs)"
  by (simp add: by_time_def)

lemma by_time_keys: "distinct (map fst (by_time cs)) \<and> (\<forall>(i, c)\<in>set (by_time cs). i = dt_instant (mk_time c) \<and> c \<in> set cs)
    \<and> fst ` set (by_time cs) = (\<lambda>c. dt_instant (mk_time c)) ` set cs"
proof (induction cs rule: rev_induct)
  case (snoc c cs)
  have "set (AList.update i x m) \<subseteq> insert (i, x) (set m)" for i and x :: mtf_candle and m by (induction m) auto
  then have "set (AList.update (dt_instant (mk_time c)) c (by_time cs)) \<subseteq> insert (dt_instant (mk_time c), c) (set (by_time cs))" .
  moreover have "fst ` set (AList.update (dt_instant (mk_time c)) c (by_time cs)) = insert (dt_instant (mk_time c)) (fst ` set (by_time cs))"
    using dom_update [of "dt_instant (mk_time c)" c "by_time cs"] by simp
  ultimately show ?case using snoc by (auto simp: by_time_snoc distinct_update)
qed (simp add: by_time_def)

lemma sort_by_strict:
  fixes f :: "'a \<Rightarrow> int"
  assumes "distinct (map f xs)"
  shows "sorted_wrt (<) (map f (sort_by (\<lambda>a b. f a < f b) xs))"
proof -
  have "distinct (map f (sort_by (\<lambda>a b. f a < f b) xs))" using assms by (rule distinct_sort_by)
  moreover have "sorted_wrt (\<lambda>a b. \<not> f b < f a) (sort_by (\<lambda>a b. f a < f b) xs)" by (rule sort_by_sorted) auto
  ultimately show ?thesis unfolding strict_sorted_iff by (simp add: sorted_wrt_map not_less)
qed

text \<open>Prepared candles have strictly increasing opening times, each one a row's, and every row's time is among them.\<close>

theorem prepared_in_order:
  "prepared k rows tf = Ok cs \<Longrightarrow>
     \<exists>ds. normalize_rows k tf 0 (as_list rows) = Ok ds \<and> sorted_wrt (<) (map (\<lambda>c. dt_instant (mk_time c)) cs) \<and> set cs \<subseteq> set ds
        \<and> (\<lambda>c. dt_instant (mk_time c)) ` set cs = (\<lambda>c. dt_instant (mk_time c)) ` set ds"
proof -
  assume "prepared k rows tf = Ok cs"
  then obtain ds where ds: "normalize_rows k tf 0 (as_list rows) = Ok ds" "cs = one_per_time ds" by (auto simp: prepared_def rmap_Inr_iff)
  have keys: "map (\<lambda>c. dt_instant (mk_time c)) (map snd (by_time ds)) = map fst (by_time ds)"
    using by_time_keys [of ds] by auto
  then have "sorted_wrt (<) (map (\<lambda>c. dt_instant (mk_time c)) cs)"
    using by_time_keys [of ds] unfolding ds(2) one_per_time_def by_time_def [symmetric] by (intro sort_by_strict) (metis keys)
  moreover have cs: "set cs = set (map snd (by_time ds))" unfolding ds(2) one_per_time_def by_time_def [symmetric] by simp
  moreover have "set cs \<subseteq> set ds" using by_time_keys [of ds] unfolding cs by auto
  moreover have "(\<lambda>c. dt_instant (mk_time c)) ` set cs = fst ` set (by_time ds)" unfolding cs by (metis keys list.set_map)
  ultimately show ?thesis using ds(1) by_time_keys [of ds] by auto
qed

subsection \<open>Nothing from the future\<close>

lemma assume_utc_aware [simp]: "dt_off (assume_utc d) \<noteq> None" "\<exists>z. dt_off (assume_utc d) = Some z"
  by (auto simp: assume_utc_def)

lemma parse_time_aware: "parse_time k v = Ok (Some d) \<Longrightarrow> dt_off d \<noteq> None"
  by (cases v) (auto simp: parse_time_def rmap_Inr_iff Let_def split: if_splits)

lemma closed_by_spec:
  "closed_by k t xs = Ok ys \<Longrightarrow> r \<in> set ys \<Longrightarrow>
     r \<in> set xs \<and> py_truthy (pget r ''is_closed'' (PBool True))
     \<and> (\<exists>c. parse_time k (pget r ''close_time'' PNone) = Ok (Some c) \<and> dt_instant c \<le> dt_instant t)"
proof (induction xs arbitrary: ys)
  case (Cons x xs)
  then show ?case
    by (auto split: if_splits option.splits elim!: rbind_InrE simp: rmap_Inr_iff dt_le_def)
qed simp

text \<open>C19. A slice at a time holds closed candles only, none of which closes later.\<close>

theorem slices_are_closed:
  assumes "align_timeframes k data v = Ok al" "al_time al = Some t" "(tf, xs) \<in> set (al_slices al)" "r \<in> set xs"
  shows "py_truthy (pget r ''is_closed'' (PBool True))
     \<and> (\<exists>c. parse_time k (pget r ''close_time'' PNone) = Ok (Some c) \<and> dt_instant c \<le> dt_instant t)"
proof -
  from assms(1) obtain inputs slices where s: "al_time al = al_time al"
      "res_map (\<lambda>tf. get_closed_candles_asof k (rows_of inputs tf) tf (al_time al)) [Daily, H1, M15, M5] = Ok slices"
      "al_slices al = zip [Daily, H1, M15, M5] slices"
    by (auto simp: align_timeframes_def rmap_Inr_iff elim!: rbind_InrE simp del: res_map.simps)
  from assms(3) s(3) have "xs \<in> set slices" using set_zip_rightD by fastforce
  from res_map_in [OF s(2) this] obtain tf' where "get_closed_candles_asof k (rows_of inputs tf') tf' (Some t) = Ok xs"
    unfolding assms(2) by blast
  then obtain ys where "closed_by k t ys = Ok xs" by (auto simp: get_closed_candles_asof_def elim!: rbind_InrE)
  from closed_by_spec [OF this assms(4)] show ?thesis by blast
qed

end
