(* ===== verification/IctBacktest.thy ===== *)
theory IctBacktest
  imports MtfClock
begin

section \<open>The backtest of prepared signals (src/backtest/ict_smc_backtest.py)\<close>

text \<open>
  Signals, orders, positions and trades are dicts, as the code passes them between its functions. \<open>k\<close> holds the text
  conversions. A configuration, where one is passed on, is a dict or falsy. The position list is threaded by value: an
  update replaces the position in its place.
\<close>

datatype bt_exit =
    StopLoss | Target1 | Target2 | FinalTarget | BreakevenStop | EndOfTest | AmbiguousStopFirst | MaxHoldTime | SessionClose
  | FridayCutoff | StaleTrade

fun exit_value :: "bt_exit \<Rightarrow> string" where
  "exit_value StopLoss = ''stop_loss''"
| "exit_value Target1 = ''target_1''"
| "exit_value Target2 = ''target_2''"
| "exit_value FinalTarget = ''final_target''"
| "exit_value BreakevenStop = ''breakeven_stop''"
| "exit_value EndOfTest = ''end_of_test''"
| "exit_value AmbiguousStopFirst = ''ambiguous_stop_first''"
| "exit_value MaxHoldTime = ''max_hold_time''"
| "exit_value SessionClose = ''session_close''"
| "exit_value FridayCutoff = ''friday_cutoff''"
| "exit_value StaleTrade = ''stale_trade''"

datatype bt_order_type = LimitOrder | MarketOrder

fun order_type_value :: "bt_order_type \<Rightarrow> string" where
  "order_type_value LimitOrder = ''limit_order''"
| "order_type_value MarketOrder = ''market_order''"

definition read_order_type :: "clock \<Rightarrow> pyval \<Rightarrow> bt_order_type" where
  "read_order_type k v =
     (if py_lower (py_strip (to_str (ck_text k) (py_or v (PStr [])))) \<in> {''market'', ''market_order''} then MarketOrder else LimitOrder)"

definition bt_direction :: "clock \<Rightarrow> pyval \<Rightarrow> bias" where
  "bt_direction k v =
     (let t = py_lower (py_strip (to_str (ck_text k) (py_or v (PStr []))))
      in if t \<in> {''bullish'', ''buy'', ''long''} then Bullish else if t \<in> {''bearish'', ''sell'', ''short''} then Bearish else NoBias)"

definition trade_result :: "pyfloat \<Rightarrow> string" where
  "trade_result r = (if flt (Fin 0) r then ''win'' else if flt r (Fin 0) then ''loss'' else ''breakeven'')"

definition float_val :: "pyfloat option \<Rightarrow> pyval" where
  "float_val x = (case x of None \<Rightarrow> PNone | Some f \<Rightarrow> PFloat f)"

text \<open>\<open>dict(config or {})\<close>\<close>

definition config_of :: "pyval \<Rightarrow> pydict res" where
  "config_of v = (if py_truthy v then case v of PDict d \<Rightarrow> Ok d | _ \<Rightarrow> Raise TypeError else Ok [])"

text \<open>\<open>_float(v) or x\<close>\<close>

definition float_or :: "clock \<Rightarrow> pyval \<Rightarrow> pyfloat \<Rightarrow> pyfloat res" where
  "float_or k v x = rmap (\<lambda>f. case f of None \<Rightarrow> x | Some y \<Rightarrow> if y = Fin 0 then x else y) (float_or_none k v)"

subsection \<open>Candles and costs\<close>

text \<open>Prepared rows hold floats, so the test that the four prices can be read never fails.\<close>

definition clean_ohlcv_data :: "clock \<Rightarrow> pyval \<Rightarrow> string \<Rightarrow> pydict list res" where
  "clean_ohlcv_data k rows timeframe =
     rbind (timeframe_value timeframe) (\<lambda>tf.
     rmap (\<lambda>cs. map (mtf_row k tf) (filter (\<lambda>c. \<not> flt (mk_high c) (mk_low c)) cs)) (prepared k rows tf))"

definition apply_spread_slippage :: "pyfloat \<Rightarrow> bias \<Rightarrow> pyfloat \<Rightarrow> pyfloat \<Rightarrow> bool \<Rightarrow> pyfloat" where
  "apply_spread_slippage price side spread slippage entry =
     (let half = fdiv (py_max (Fin 0) spread) (Fin 2); slip = py_max (Fin 0) slippage
      in case side of
           Bullish \<Rightarrow> if entry then py_round (fadd (fadd price half) slip) 10 else py_round (fsub price half) 10
         | Bearish \<Rightarrow> if entry then py_round (fsub (fsub price half) slip) 10 else py_round (fadd price half) 10
         | NoBias \<Rightarrow> price)"

definition cost_value :: "clock \<Rightarrow> pydict \<Rightarrow> pydict \<Rightarrow> string \<Rightarrow> pyfloat res" where
  "cost_value k model row key =
     to_float (ck_text k) (py_or (pget row key (pget model key (pget model (''default_'' @ key) (PFloat (Fin 0))))) (PFloat (Fin 0)))"

definition risk_per_unit :: "bias \<Rightarrow> pyfloat \<Rightarrow> pyfloat \<Rightarrow> pyfloat" where
  "risk_per_unit side entry stop = (case side of Bullish \<Rightarrow> fsub entry stop | Bearish \<Rightarrow> fsub stop entry | NoBias \<Rightarrow> Fin 0)"

definition r_multiple :: "bias \<Rightarrow> pyfloat \<Rightarrow> pyfloat \<Rightarrow> pyfloat \<Rightarrow> pyfloat" where
  "r_multiple side entry stop exit_price =
     (let risk = risk_per_unit side entry stop
      in if fle risk (Fin 0) then Fin 0
         else case side of
           Bullish \<Rightarrow> py_round (fdiv (fsub exit_price entry) risk) 5
         | Bearish \<Rightarrow> py_round (fdiv (fsub entry exit_price) risk) 5
         | NoBias \<Rightarrow> Fin 0)"

text \<open>The candle's low and high, when both can be read.\<close>

definition low_high :: "clock \<Rightarrow> pydict \<Rightarrow> (pyfloat \<times> pyfloat) option res" where
  "low_high k row =
     rbind (float_or_none k (pget row ''low'' PNone)) (\<lambda>lo.
     rmap (\<lambda>hi. case (lo, hi) of (Some l, Some h) \<Rightarrow> Some (l, h) | _ \<Rightarrow> None) (float_or_none k (pget row ''high'' PNone)))"

definition stop_touched :: "bias \<Rightarrow> pyfloat \<Rightarrow> (pyfloat \<times> pyfloat) option \<Rightarrow> bool" where
  "stop_touched side stop lh =
     (case lh of None \<Rightarrow> False
      | Some (l, h) \<Rightarrow> (case side of Bullish \<Rightarrow> fle l stop | Bearish \<Rightarrow> fle stop h | NoBias \<Rightarrow> False))"

definition target_touched :: "bias \<Rightarrow> pyfloat \<Rightarrow> (pyfloat \<times> pyfloat) option \<Rightarrow> bool" where
  "target_touched side target lh =
     (case lh of None \<Rightarrow> False
      | Some (l, h) \<Rightarrow> (case side of Bullish \<Rightarrow> fle target h | Bearish \<Rightarrow> fle l target | NoBias \<Rightarrow> False))"

subsection \<open>Targets\<close>

record bt_target =
  tg_name :: string
  tg_price :: pyfloat
  tg_percent :: pyfloat
  tg_filled :: bool
  tg_rest :: pydict

definition target_dict :: "bt_target \<Rightarrow> pyval" where
  "target_dict t = PDict (dict_update (tg_rest t)
     [(''name'', PStr (tg_name t)), (''price'', PFloat (tg_price t)), (''close_percent'', PFloat (tg_percent t)), (''filled'', PBool (tg_filled t))])"

definition default_weight :: "string \<Rightarrow> pyfloat" where
  "default_weight name =
     (if name = ''target_1'' then Fin (1/2) else if name = ''target_2'' \<or> name = ''final_target'' then Fin (1/4) else Fin 1)"

fun named_prices :: "clock \<Rightarrow> pydict \<Rightarrow> string list \<Rightarrow> pyval list res" where
  "named_prices k d [] = Ok []"
| "named_prices k d (n # ns) =
     rbind (float_or_none k (pget d n PNone)) (\<lambda>p. rmap (\<lambda>xs. case p of None \<Rightarrow> xs
        | Some x \<Rightarrow> PDict [(''name'', PStr n), (''price'', PFloat x)] # xs) (named_prices k d ns))"

text \<open>One target; \<open>i\<close> is its position.\<close>

definition read_target :: "clock \<Rightarrow> nat \<Rightarrow> pyval \<Rightarrow> bt_target option res" where
  "read_target k i v =
     (let d = mapping_of v
      in rbind (float_or_none k (pget d ''price'' (pget d ''target_price'' PNone))) (\<lambda>price.
         case price of
           None \<Rightarrow> Ok None
         | Some p \<Rightarrow>
             (let name = to_str (ck_text k) (py_or (py_or (pget d ''name'' PNone) (pget d ''target'' PNone))
                           (PStr (''target_'' @ int_str (int i + 1))))
              in rmap (\<lambda>share. Some \<lparr>tg_name = name, tg_price = p, tg_percent = share,
                        tg_filled = py_truthy (pget d ''filled'' (PBool False)), tg_rest = d\<rparr>)
                   (to_float (ck_text k) (pget d ''close_percent'' (PFloat (default_weight name)))))))"

fun read_targets :: "clock \<Rightarrow> nat \<Rightarrow> pyval list \<Rightarrow> bt_target list res" where
  "read_targets k i [] = Ok []"
| "read_targets k i (v # vs) =
     rbind (read_target k i v) (\<lambda>t. rmap (\<lambda>ts. case t of None \<Rightarrow> ts | Some x \<Rightarrow> x # ts) (read_targets k (Suc i) vs))"

definition normalize_targets :: "clock \<Rightarrow> pyval \<Rightarrow> bt_target list res" where
  "normalize_targets k v =
     rbind (case v of PDict d \<Rightarrow> named_prices k d [''target_1'', ''target_2'', ''final_target''] | _ \<Rightarrow> Ok (as_list v)) (read_targets k 0)"

definition targets_from_position :: "clock \<Rightarrow> pydict \<Rightarrow> bt_target list res" where
  "targets_from_position k pos = normalize_targets k (pget pos ''targets'' (PList []))"

text \<open>Written and read again, targets are what they were.\<close>

lemma pget_update [simp]: "pget (AList.update key v d) key' x = (if key' = key then v else pget d key' x)"
  by (simp add: pget_def update_conv)

lemma pget_dict_update: "pget (dict_update d kvs) key x = pget (rev kvs) key (pget d key x)"
proof (induction kvs arbitrary: d)
  case (Cons kv kvs)
  obtain a b where "kv = (a, b)" by (cases kv)
  with Cons show ?case by (simp add: dict_update_def) (auto simp: pget_def map_add_def split: option.splits)
qed (simp add: dict_update_def pget_def)

lemma pget_append: "pget (xs @ ys) key x = pget xs key (pget ys key x)"
  by (simp add: pget_def map_add_def split: option.split)

lemma pget_Cons [simp]: "pget ((a, b) # d) key x = (if key = a then b else pget d key x)" "pget [] key x = x"
  by (simp_all add: pget_def)

lemma dict_update_Nil [simp]: "dict_update d [] = d"
  by (simp add: dict_update_def)

lemma float_or_none_PFloat [simp]: "float_or_none k (PFloat x) = Ok (Some x)" "float_or_none k PNone = Ok None"
  by (simp_all add: float_or_none_def)


subsection \<open>Orders\<close>

record bt_order =
  bo_id :: string
  bo_symbol :: string
  bo_direction :: bias
  bo_type :: bt_order_type
  bo_signal_time :: datetime
  bo_valid_from :: datetime
  bo_entry :: pyfloat
  bo_stop :: pyfloat
  bo_targets :: "bt_target list"
  bo_setup :: pydict
  bo_expiry :: "datetime option"

text \<open>\<open>timedelta(minutes=x)\<close> in microseconds: the whole minutes exactly, the rest rounded to even.\<close>

definition minutes_delta :: "pyfloat \<Rightarrow> int res" where
  "minutes_delta x =
     (case x of
        Fin q \<Rightarrow> Ok (rhe (of_int (\<lfloor>q\<rfloor> * 60000000) + fin_val (rnd ((q - of_int \<lfloor>q\<rfloor>) * 60000000))))
      | NaN \<Rightarrow> Raise (ValueError ''cannot convert float NaN to integer'')
      | _ \<Rightarrow> Raise OverflowError)"

definition explicit_expiry :: "pydict \<Rightarrow> pyval" where
  "explicit_expiry d =
     (let s = mapping_of (pget d ''setup_context'' PNone)
      in py_or (py_or (py_or (py_or (py_or (pget d ''expiry_time'' PNone) (pget d ''expiration_time'' PNone)) (pget d ''valid_until'' PNone))
           (pget s ''expiry_time'' PNone)) (pget s ''expiration_time'' PNone)) (pget s ''valid_until'' PNone))"

definition order_expiry_time :: "clock \<Rightarrow> pydict \<Rightarrow> pydict \<Rightarrow> datetime \<Rightarrow> datetime option res" where
  "order_expiry_time k d config signal_time =
     rbind (parse_time k (explicit_expiry d)) (\<lambda>parsed.
     case parsed of
       Some t \<Rightarrow> Ok (Some t)
     | None \<Rightarrow> rbind (float_or_none k (pget config ''max_pending_minutes'' (PFloat (Fin 20)))) (\<lambda>m.
         case m of
           None \<Rightarrow> Ok None
         | Some x \<Rightarrow> if fle x (Fin 0) then Ok None else rmap (\<lambda>us. Some (dt_add signal_time us)) (minutes_delta x)))"

definition normalize_order :: "clock \<Rightarrow> pydict \<Rightarrow> pydict \<Rightarrow> bt_order res" where
  "normalize_order k d config =
     (let g = \<lambda>key. pget d key PNone; text = ck_text k
      in rbind (parse_time k (py_or (g ''signal_time'') (g ''order_placed_time''))) (\<lambda>st.
         rbind (parse_time k (py_or (py_or (g ''valid_from_time'') (g ''order_placed_time''))
                  (case st of None \<Rightarrow> PNone | Some t \<Rightarrow> PDt t))) (\<lambda>vf.
         case (st, vf) of
           (Some s, Some v) \<Rightarrow>
             rbind (order_expiry_time k d config s) (\<lambda>ex.
             rbind (normalize_targets k (py_or (py_or (g ''targets'') (g ''target_ladder'')) (PDict d))) (\<lambda>targets.
             rbind (to_float text (g ''entry_price'')) (\<lambda>entry.
             rmap (\<lambda>stop. \<lparr>bo_id = to_str text (py_or (py_or (py_or (g ''order_id'') (g ''trade_id'')) (g ''setup_id''))
                                       (PStr (''ORDER_'' @ ck_show k s))),
                 bo_symbol = to_str text (pget d ''symbol'' (pget config ''symbol'' (PStr ''XAUUSD''))),
                 bo_direction = bt_direction k (g ''direction''),
                 bo_type = read_order_type k (pget d ''order_type'' (pget d ''entry_type'' (pget config ''order_type'' (PStr ''limit_order'')))),
                 bo_signal_time = s, bo_valid_from = v, bo_entry = entry, bo_stop = stop, bo_targets = targets,
                 bo_setup = dict_update d (mapping_of (g ''setup_context'')), bo_expiry = ex\<rparr>)
             (to_float text (g ''stop_loss'')))))
         | _ \<Rightarrow> Raise (ValueError ''Backtest orders require signal_time/order_placed_time.''))))"

definition carried_keys :: "string list" where
  "carried_keys = [''strategy'', ''setup_type'', ''entry_type'', ''intended_entry_price'', ''target_1'', ''target_2'', ''final_target'',
     ''estimated_rr'', ''confidence_score'', ''session_name'', ''killzone_name'', ''killzone_active'', ''spread_price'', ''slippage_price'',
     ''components_detected'', ''rejection_reasons'']"

definition order_fields :: "clock \<Rightarrow> bt_order \<Rightarrow> pydict" where
  "order_fields k r =
     [(''order_id'', PStr (bo_id r)), (''symbol'', PStr (bo_symbol r)), (''direction'', PStr (bias_value (bo_direction r))),
      (''order_type'', PStr (order_type_value (bo_type r))), (''signal_time'', PStr (ck_show k (bo_signal_time r))),
      (''valid_from_time'', PStr (ck_show k (bo_valid_from r))), (''entry_price'', PFloat (bo_entry r)), (''stop_loss'', PFloat (bo_stop r)),
      (''targets'', PList (map target_dict (bo_targets r))), (''setup_context'', PDict (bo_setup r)), (''expiry_time'', iso_val k (bo_expiry r))]"

definition order_output :: "clock \<Rightarrow> bt_order \<Rightarrow> pydict" where
  "order_output k r =
     order_fields k r @ concat (map (\<lambda>key. case map_of (bo_setup r) key of None \<Rightarrow> [] | Some v \<Rightarrow> [(key, v)]) carried_keys)"

definition place_pending_order :: "clock \<Rightarrow> pydict \<Rightarrow> pydict \<Rightarrow> pydict res" where
  "place_pending_order k signal config = rmap (order_output k) (normalize_order k signal config)"

subsection \<open>Fills\<close>

record bt_fill =
  fl_order_id :: string
  fl_filled :: bool
  fl_price :: "pyfloat option"
  fl_time :: pyval
  fl_reason :: string
  fl_ambiguous :: bool

definition fill_result :: "clock \<Rightarrow> bool \<Rightarrow> bt_order \<Rightarrow> pyfloat option \<Rightarrow> datetime option \<Rightarrow> string \<Rightarrow> bool \<Rightarrow> bt_fill" where
  "fill_result k filled r price t reason ambiguity =
     \<lparr>fl_order_id = bo_id r, fl_filled = filled, fl_price = price, fl_time = iso_val k t, fl_reason = reason, fl_ambiguous = ambiguity\<rparr>"

text \<open>The closing time of a row, its opening time when it has none.\<close>

definition row_end :: "pydict \<Rightarrow> pyval" where
  "row_end row = py_or (pget row ''close_time'' PNone) (pget row ''timestamp'' PNone)"

text \<open>Why an order may not be filled on a candle, from its times.\<close>

definition fill_blocked :: "bt_order \<Rightarrow> datetime \<Rightarrow> datetime \<Rightarrow> string option" where
  "fill_blocked r opened ended =
     (if case bo_expiry r of Some x \<Rightarrow> dt_instant x \<le> dt_instant opened | None \<Rightarrow> False then Some ''order_expired''
      else if dt_instant ended < dt_instant (bo_valid_from r) then Some ''order_not_active''
      else if dt_instant opened < dt_instant (bo_valid_from r) \<and> dt_instant ended \<le> dt_instant (bo_valid_from r) then Some ''no_retroactive_fill''
      else None)"

definition try_fill :: "clock \<Rightarrow> bt_order \<Rightarrow> pydict \<Rightarrow> datetime \<Rightarrow> datetime \<Rightarrow> pyfloat \<Rightarrow> pyfloat \<Rightarrow> bt_fill res" where
  "try_fill k r row opened ended spread slippage =
     (if bo_type r = MarketOrder
      then rmap (\<lambda>op. case op of
             None \<Rightarrow> fill_result k False r None None ''missing_open_price'' False
           | Some x \<Rightarrow> fill_result k True r (Some (apply_spread_slippage x (bo_direction r) spread slippage True)) (Some opened)
                         ''market_next_open'' False)
           (float_or_none k (pget row ''open'' PNone))
      else rmap (\<lambda>lh. case lh of
             None \<Rightarrow> fill_result k False r None None ''missing_high_low'' False
           | Some (l, h) \<Rightarrow>
               if fle l (bo_entry r) \<and> fle (bo_entry r) h
               then fill_result k True r (Some (apply_spread_slippage (bo_entry r) (bo_direction r) spread (Fin 0) True)) (Some ended)
                      ''limit_touched_after_activation'' (stop_touched (bo_direction r) (bo_stop r) lh)
               else fill_result k False r None None ''limit_not_touched'' False)
           (low_high k row))"

definition simulate_order_fill :: "clock \<Rightarrow> pydict \<Rightarrow> pydict \<Rightarrow> pydict \<Rightarrow> pydict \<Rightarrow> bt_fill res" where
  "simulate_order_fill k order row spread_model slippage_model =
     rbind (normalize_order k order []) (\<lambda>r.
     rbind (parse_time k (pget row ''timestamp'' PNone)) (\<lambda>t0.
     rbind (parse_time k (row_end row)) (\<lambda>t1.
     if \<not> py_truthy (pget row ''is_closed'' (PBool True)) then Ok (fill_result k False r None None ''candle_not_closed'' False)
     else case (t0, t1) of
       (Some opened, Some ended) \<Rightarrow>
         (case fill_blocked r opened ended of
            Some reason \<Rightarrow> Ok (fill_result k False r None None reason False)
          | None \<Rightarrow>
              rbind (cost_value k spread_model row ''spread'') (\<lambda>spread.
              rbind (cost_value k slippage_model row ''slippage'') (\<lambda>slippage.
              try_fill k r row opened ended spread slippage)))
     | _ \<Rightarrow> Ok (fill_result k False r None None ''invalid_candle_time'' False))))"

definition position_from_fill :: "pydict \<Rightarrow> bt_fill \<Rightarrow> pydict" where
  "position_from_fill order fill =
     dict_update order
       [(''trade_id'', pget order ''order_id'' PNone), (''entry_time'', fl_time fill), (''entry_price'', float_val (fl_price fill)),
        (''remaining_percent'', PFloat (Fin 1)), (''realized_R'', PFloat (Fin 0)), (''partials'', PList []),
        (''current_stop'', pget order ''stop_loss'' PNone),
        (''move_stop_to_be_after_target_1'', pget order ''move_stop_to_be_after_target_1'' (PBool True)),
        (''move_stop_to_be_after_target_index'', pget order ''move_stop_to_be_after_target_index'' (PInt 1)),
        (''breakeven_buffer_price'', pget order ''breakeven_buffer_price'' (PFloat (Fin 0))),
        (''breakeven_after_rr'', pget order ''breakeven_after_rr'' PNone), (''ambiguous_fill'', PBool (fl_ambiguous fill))]"


subsection \<open>Closed trades\<close>

definition duration_minutes :: "clock \<Rightarrow> pyval \<Rightarrow> pyval \<Rightarrow> pyfloat option res" where
  "duration_minutes k a b =
     rbind (parse_time k a) (\<lambda>start. rbind (parse_time k b) (\<lambda>stop.
     case (start, stop) of
       (Some s, Some t) \<Rightarrow> rmap (\<lambda>us. Some (py_round (fdiv (total_seconds us) (Fin 60)) 2)) (dt_sub t s)
     | _ \<Rightarrow> Ok None))"

definition target_price :: "bt_target list \<Rightarrow> string \<Rightarrow> pyfloat option" where
  "target_price ts name = map_option tg_price (List.find (\<lambda>t. tg_name t = name) ts)"

definition last_target_price :: "bt_target list \<Rightarrow> pyfloat option" where
  "last_target_price ts = (if ts = [] then None else Some (tg_price (last ts)))"

definition exit_price_for :: "clock \<Rightarrow> pydict \<Rightarrow> bt_target list \<Rightarrow> bt_exit \<Rightarrow> pyfloat option res" where
  "exit_price_for k pos ts reason =
     (case reason of
        StopLoss \<Rightarrow> float_or_none k (pget pos ''current_stop'' (pget pos ''stop_loss'' PNone))
      | BreakevenStop \<Rightarrow> float_or_none k (pget pos ''entry_price'' PNone)
      | FinalTarget \<Rightarrow> Ok (last_target_price ts)
      | _ \<Rightarrow> Ok None)"

text \<open>The partial exits are dicts (\<open>dict(item)\<close>).\<close>

fun all_dicts :: "pyval list \<Rightarrow> pyval list res" where
  "all_dicts [] = Ok []"
| "all_dicts (v # vs) = (case v of PDict d \<Rightarrow> rmap ((#) v) (all_dicts vs) | _ \<Rightarrow> Raise TypeError)"

definition closed_trade ::
  "clock \<Rightarrow> pydict \<Rightarrow> pydict \<Rightarrow> bt_exit \<Rightarrow> pyfloat \<Rightarrow> pyval list \<Rightarrow> bool \<Rightarrow> pyfloat option \<Rightarrow> pydict res" where
  "closed_trade k pos row reason realized partials ambiguous exit_price =
     (let setup = mapping_of (pget pos ''setup_context'' (PDict []));
          p = \<lambda>key. pget pos key PNone; s = \<lambda>key. pget setup key PNone; either = \<lambda>key. py_or (p key) (s key);
          num = \<lambda>v. to_float (ck_text k) v
      in rbind (duration_minutes k (p ''entry_time'') (row_end row)) (\<lambda>minutes.
         rbind (targets_from_position k pos) (\<lambda>ts.
         rbind (case exit_price of Some x \<Rightarrow> Ok (Some x) | None \<Rightarrow> exit_price_for k pos ts reason) (\<lambda>exit.
         rbind (num (pget pos ''entry_price'' (PFloat (Fin 0)))) (\<lambda>entry.
         rbind (num (pget pos ''stop_loss'' (PFloat (Fin 0)))) (\<lambda>stop.
         rmap (\<lambda>parts.
           [(''trade_id'', py_or (p ''trade_id'') (p ''order_id'')), (''symbol'', p ''symbol''), (''strategy'', either ''strategy''),
            (''direction'', PStr (bias_value (bt_direction k (p ''direction'')))), (''session_name'', either ''session_name''),
            (''killzone_name'', either ''killzone_name''), (''killzone_active'', pget pos ''killzone_active'' (s ''killzone_active'')),
            (''setup_type'', s ''setup_type''), (''entry_type'', p ''entry_type''), (''order_type'', p ''order_type''),
            (''signal_time'', p ''signal_time''), (''entry_time'', p ''entry_time''), (''exit_time'', row_end row),
            (''duration_min'', float_val minutes), (''entry_price'', p ''entry_price''),
            (''intended_entry_price'', py_or (p ''intended_entry_price'') (p ''setup_entry_price'')),
            (''fill_price'', py_or (p ''fill_price'') (p ''entry_price'')), (''exit_price'', float_val exit), (''stop_loss'', p ''stop_loss''),
            (''initial_risk'', PFloat (fabs (fsub entry stop))), (''target_1'', float_val (target_price ts ''target_1'')),
            (''target_2'', float_val (target_price ts ''target_2'')),
            (''final_target'', py_or (float_val (target_price ts ''final_target'')) (float_val (last_target_price ts))),
            (''estimated_rr'', either ''estimated_rr''), (''post_cost_rr'', p ''post_cost_rr''),
            (''confidence_score'', either ''confidence_score''), (''partials'', PList parts),
            (''final_exit_reason'', PStr (exit_value reason)), (''realized_R'', PFloat (py_round realized 5)),
            (''result'', PStr (trade_result realized)), (''ambiguous_exit'', PBool ambiguous),
            (''components'', py_or (either ''components'') (s ''components_detected'')),
            (''rejection_reasons'', either ''rejection_reasons''), (''spread_price'', p ''spread_price''),
            (''slippage_price'', p ''slippage_price''), (''entry_drift'', p ''entry_drift''),
            (''drift_risk_fraction'', p ''drift_risk_fraction''), (''displacement_diagnostics'', either ''displacement_diagnostics''),
            (''setup_score'', s ''setup_score''), (''grade'', s ''grade'')])
         (all_dicts partials)))))))"

text \<open>A trade record gets a result and notes when it has none.\<close>

definition set_default :: "string \<Rightarrow> pyval \<Rightarrow> pydict \<Rightarrow> pydict" where
  "set_default key v d = (case map_of d key of None \<Rightarrow> d @ [(key, v)] | Some _ \<Rightarrow> d)"

definition record_trade :: "clock \<Rightarrow> pydict \<Rightarrow> pydict res" where
  "record_trade k t =
     rmap (\<lambda>r. set_default ''notes'' (PList []) (set_default ''result'' (PStr (trade_result r)) t))
       (to_float (ck_text k) (pget t ''realized_R'' (PFloat (Fin 0))))"

definition record_skipped_setup :: "clock \<Rightarrow> pydict \<Rightarrow> string \<Rightarrow> pydict" where
  "record_skipped_setup k setup reason =
     [(''skipped_id'', py_or (pget setup ''setup_id'' PNone) (pget setup ''signal_id'' PNone)),
      (''symbol'', pget setup ''symbol'' (PStr ''XAUUSD'')), (''timestamp'', pget setup ''signal_time'' PNone),
      (''setup_type'', pget setup ''setup_type'' PNone), (''direction'', PStr (bias_value (bt_direction k (pget setup ''direction'' PNone)))),
      (''reason'', PStr reason), (''trade_allowed'', PBool False),
      (''components_detected'', pget setup ''components_detected'' (PDict [])),
      (''displacement_diagnostics'', py_or (pget setup ''displacement_diagnostics'' PNone)
         (pget (mapping_of (pget setup ''setup_context'' PNone)) ''displacement_diagnostics'' PNone)),
      (''filter_failed'', PList [PStr reason])]"

subsection \<open>Exits by time\<close>

text \<open>A cutoff is a time of day in microseconds; a datetime given in its place cannot be compared with one.\<close>

datatype hhmm = TimeOfDay int | NotATime

definition day_us :: int where
  "day_us = 86400000000"

definition weekday :: "datetime \<Rightarrow> int" where
  "weekday d = (dt_wall d div day_us + 3) mod 7"

definition parse_hhmm :: "clock \<Rightarrow> pyval \<Rightarrow> hhmm option res" where
  "parse_hhmm k v =
     (case v of
        PList _ \<Rightarrow> Raise TypeError
      | PDict _ \<Rightarrow> Raise TypeError
      | PDt _ \<Rightarrow> Ok (Some NotATime)
      | _ \<Rightarrow>
        if v = PNone \<or> v = PStr [] then Ok None
        else (let t = py_strip (to_str (ck_text k) v); h = takeWhile (\<lambda>c. c \<noteq> CHR '':'') t; m = drop (Suc (length h)) t
              in if CHR '':'' \<notin> set t then Ok None
                 else case (px_int (ck_text k) h, px_int (ck_text k) m) of
                   (Inr x, Inr y) \<Rightarrow> Ok (if 0 \<le> x \<and> x \<le> 23 \<and> 0 \<le> y \<and> y \<le> 59 then Some (TimeOfDay ((x * 60 + y) * 60000000)) else None)
                 | _ \<Rightarrow> Ok None))"

definition past_cutoff :: "datetime \<Rightarrow> hhmm \<Rightarrow> bool res" where
  "past_cutoff now c = (case c of TimeOfDay us \<Rightarrow> Ok (us \<le> dt_instant now mod day_us) | NotATime \<Rightarrow> Raise TypeError)"

definition age_minutes :: "datetime \<Rightarrow> datetime \<Rightarrow> pyfloat" where
  "age_minutes now entered = fdiv (total_seconds (dt_instant now - dt_instant entered)) (Fin 60)"

definition over_limit :: "pyfloat option \<Rightarrow> pyfloat \<Rightarrow> bool" where
  "over_limit limit age = (case limit of Some x \<Rightarrow> flt (Fin 0) x \<and> fle x age | None \<Rightarrow> False)"

definition time_exit_reason :: "clock \<Rightarrow> pydict \<Rightarrow> pydict \<Rightarrow> pydict \<Rightarrow> bt_exit option res" where
  "time_exit_reason k pos row config =
     rbind (parse_time k (pget pos ''entry_time'' PNone)) (\<lambda>en.
     rbind (parse_time k (row_end row)) (\<lambda>ev.
     case (en, ev) of
       (Some entered, Some now) \<Rightarrow>
         rbind (parse_hhmm k (pget config ''friday_cutoff_utc'' PNone)) (\<lambda>cutoff.
         rbind (case cutoff of Some c \<Rightarrow> if weekday now = 4 then past_cutoff now c else Ok False | None \<Rightarrow> Ok False) (\<lambda>friday.
         if friday then Ok (Some FridayCutoff)
         else rbind (float_or_none k (pget config ''max_hold_minutes'' PNone)) (\<lambda>hold.
         if over_limit hold (age_minutes now entered) then Ok (Some MaxHoldTime)
         else rbind (float_or_none k (pget config ''stale_after_no_target_minutes'' PNone)) (\<lambda>stale.
         if over_limit stale (age_minutes now entered) \<and> as_list (pget pos ''partials'' PNone) = [] then Ok (Some StaleTrade)
         else (let was = to_str (ck_text k) (py_or (pget pos ''session_name'' PNone) (PStr []));
                   is_now = to_str (ck_text k) (py_or (pget row ''session_name'' PNone) (PStr []))
               in Ok (if py_truthy (pget config ''close_at_session_end'' (PBool False)) \<and> was \<noteq> [] \<and> is_now \<noteq> [] \<and> is_now \<noteq> was
                      then Some SessionClose else None))))))
     | _ \<Rightarrow> Ok None))"

subsection \<open>Managing a position on a candle\<close>

record managed =
  mg_position :: pydict
  mg_events :: "pyval list"
  mg_closed :: "pydict option"
  mg_status :: string

definition untouched :: "pydict \<Rightarrow> string \<Rightarrow> managed" where
  "untouched pos status = \<lparr>mg_position = pos, mg_events = [], mg_closed = None, mg_status = status\<rparr>"

text \<open>The whole remainder is closed.\<close>

definition close_remainder ::
  "clock \<Rightarrow> pydict \<Rightarrow> pydict \<Rightarrow> bt_exit \<Rightarrow> pyfloat \<Rightarrow> pyval list \<Rightarrow> bool \<Rightarrow> pyfloat option \<Rightarrow> managed res" where
  "close_remainder k pos row reason realized partials ambiguous exit_price =
     rmap (\<lambda>t. \<lparr>mg_position = dict_update pos [(''remaining_percent'', PFloat (Fin 0)), (''realized_R'', PFloat realized), (''closed'', PBool True)],
                mg_events = [], mg_closed = Some t, mg_status = ''closed''\<rparr>)
       (closed_trade k pos row reason realized partials ambiguous exit_price)"

text \<open>What the targets leave: the share still open, the result so far, the partial exits and the position with its stop.\<close>

record booking =
  bk_remaining :: pyfloat
  bk_realized :: pyfloat
  bk_partials :: "pyval list"
  bk_events :: "pyval list"
  bk_position :: pydict

text \<open>\<open>s.replace(p, r)\<close>; the counter skips the rest of a match.\<close>

fun replace_from :: "string \<Rightarrow> string \<Rightarrow> nat \<Rightarrow> string \<Rightarrow> string" where
  "replace_from p r n [] = []"
| "replace_from p r (Suc n) (c # s) = replace_from p r n s"
| "replace_from p r 0 (c # s) = (if has_prefix p (c # s) then r @ replace_from p r (length p - 1) s else c # replace_from p r 0 s)"

definition target_index :: "clock \<Rightarrow> string \<Rightarrow> int res" where
  "target_index k name =
     (let t = replace_from ''target_'' [] 0 (replace_from ''final_target'' ''999'' 0 name)
      in if t = [] then Ok 0 else px_int (ck_text k) t)"

definition book_target ::
  "clock \<Rightarrow> bias \<Rightarrow> pyfloat \<Rightarrow> pyfloat \<Rightarrow> pydict \<Rightarrow> bt_target \<Rightarrow> booking \<Rightarrow> booking res" where
  "book_target k side entry stop row t b =
     (let share = py_min (bk_remaining b) (tg_percent t);
          r = r_multiple side entry stop (tg_price t);
          pos = bk_position b;
          event = PDict [(''target'', PStr (tg_name t)), (''exit_price'', PFloat (tg_price t)), (''exit_time'', row_end row),
                    (''closed_percent'', PFloat share), (''realized_R'', PFloat (py_round r 5))];
          b' = b\<lparr>bk_remaining := fsub (bk_remaining b) share, bk_realized := fadd (bk_realized b) (fmul share r),
                 bk_partials := bk_partials b @ [event], bk_events := bk_events b @ [event]\<rparr>
      in rbind (target_index k (tg_name t)) (\<lambda>index.
         rbind (to_int (ck_text k) (py_or (pget pos ''move_stop_to_be_after_target_index'' (PInt 1)) (PInt 0))) (\<lambda>after.
         rbind (float_or_none k (pget pos ''breakeven_after_rr'' PNone)) (\<lambda>after_rr.
         rbind (float_or k (pget (tg_rest t) ''rr'' PNone) r) (\<lambda>rr.
         if py_truthy (pget pos ''move_stop_to_be_after_target_1'' (PBool False))
            \<and> (case after_rr of Some x \<Rightarrow> fle x rr | None \<Rightarrow> 0 < after \<and> after \<le> index)
         then rmap (\<lambda>buffer. b'\<lparr>bk_position := AList.update ''current_stop''
                  (PFloat (if side = Bullish then fadd entry buffer else fsub entry buffer)) pos\<rparr>)
                (float_or k (pget pos ''breakeven_buffer_price'' PNone) (Fin 0))
         else Ok b')))))"

text \<open>The targets hit, in order, as long as something is left.\<close>

fun book_targets ::
  "clock \<Rightarrow> bias \<Rightarrow> pyfloat \<Rightarrow> pyfloat \<Rightarrow> pydict \<Rightarrow> (bt_target \<times> bool) list \<Rightarrow> booking \<Rightarrow> (bt_target list \<times> booking) res" where
  "book_targets k side entry stop row [] b = Ok ([], b)"
| "book_targets k side entry stop row ((t, hit) # ts) b =
     (if hit \<and> \<not> fle (bk_remaining b) (Fin 0)
      then rbind (book_target k side entry stop row t b) (\<lambda>b'.
           rmap (\<lambda>(us, b''). (t\<lparr>tg_filled := True\<rparr> # us, b'')) (book_targets k side entry stop row ts b'))
      else rmap (\<lambda>(us, b''). (t # us, b'')) (book_targets k side entry stop row ts b))"

definition take_targets ::
  "clock \<Rightarrow> bias \<Rightarrow> pyfloat \<Rightarrow> pyfloat \<Rightarrow> pydict \<Rightarrow> (bt_target \<times> bool) list \<Rightarrow> booking \<Rightarrow> managed res" where
  "take_targets k side entry stop row hits b =
     rbind (book_targets k side entry stop row hits b) (\<lambda>(ts, b').
     let pos = dict_update (bk_position b')
                 [(''targets'', PList (map target_dict ts)), (''remaining_percent'', PFloat (py_max (Fin 0) (bk_remaining b'))),
                  (''realized_R'', PFloat (py_round (bk_realized b') 5)), (''partials'', PList (bk_partials b'))]
     in if fle (bk_remaining b') (lit (1 / 1000000000))
        then rmap (\<lambda>t. \<lparr>mg_position = AList.update ''closed'' (PBool True) pos, mg_events = bk_events b', mg_closed = Some t,
                mg_status = ''closed''\<rparr>)
               (closed_trade k pos row FinalTarget (bk_realized b') (bk_partials b') False None)
        else Ok \<lparr>mg_position = pos, mg_events = bk_events b', mg_closed = None, mg_status = ''open''\<rparr>)"

text \<open>The stop, then the targets; \<open>stop\<close> is the initial stop, \<open>current\<close> the one in force.\<close>

definition stop_or_targets ::
  "clock \<Rightarrow> pydict \<Rightarrow> pydict \<Rightarrow> pydict \<Rightarrow> bias \<Rightarrow> pyfloat \<Rightarrow> pyfloat \<Rightarrow> pyfloat \<Rightarrow> bt_target list \<Rightarrow> pyfloat \<Rightarrow> pyfloat \<Rightarrow> pyval list
    \<Rightarrow> managed res" where
  "stop_or_targets k pos row config side entry stop current ts remaining realized partials =
     rbind (low_high k row) (\<lambda>lh.
     let hits = map (\<lambda>t. (t, \<not> tg_filled t \<and> target_touched side (tg_price t) lh)) ts;
         at_stop = fadd realized (fmul remaining (r_multiple side entry stop current))
     in if stop_touched side current lh \<and> list_ex snd hits \<and> pget config ''same_candle_policy'' (PStr ''conservative'') = PStr ''conservative''
        then close_remainder k pos row AmbiguousStopFirst at_stop partials True None
        else if stop_touched side current lh
        then close_remainder k pos row (if flt (fabs (fsub current entry)) (lit (1 / 1000000000)) then BreakevenStop else StopLoss)
               at_stop partials False None
        else take_targets k side entry stop row hits
               \<lparr>bk_remaining = remaining, bk_realized = realized, bk_partials = partials, bk_events = [], bk_position = pos\<rparr>)"

definition simulate_trade_management :: "clock \<Rightarrow> pydict \<Rightarrow> pydict \<Rightarrow> pydict \<Rightarrow> managed res" where
  "simulate_trade_management k pos row config =
     (let side = bt_direction k (pget pos ''direction'' PNone); num = \<lambda>v. to_float (ck_text k) v
      in rbind (float_or_none k (pget pos ''entry_price'' PNone)) (\<lambda>en.
         rbind (float_or_none k (pget pos ''stop_loss'' PNone)) (\<lambda>st.
         rbind (float_or_none k (pget pos ''current_stop'' (pget pos ''stop_loss'' PNone))) (\<lambda>cu.
         case (en, st, cu) of
           (Some entry, Some stop, Some current) \<Rightarrow>
             if side = NoBias then Ok (untouched pos ''invalid_position'')
             else
               rbind (targets_from_position k pos) (\<lambda>ts.
               rbind (num (pget pos ''remaining_percent'' (PFloat (Fin 1)))) (\<lambda>remaining.
               rbind (num (pget pos ''realized_R'' (PFloat (Fin 0)))) (\<lambda>realized.
               rbind (py_iter (pget pos ''partials'' (PList []))) (\<lambda>partials.
               if fle (risk_per_unit side entry stop) (Fin 0) then Ok (untouched pos ''invalid_risk'')
               else rbind (time_exit_reason k pos row config) (\<lambda>timed.
                    case timed of
                      Some reason \<Rightarrow>
                        rbind (float_or k (pget row ''close'' PNone) entry) (\<lambda>price.
                        close_remainder k pos row reason (fadd realized (fmul remaining (r_multiple side entry stop price))) partials False
                          (Some price))
                    | None \<Rightarrow> stop_or_targets k pos row config side entry stop current ts remaining realized partials)))))
         | _ \<Rightarrow> Ok (untouched pos ''invalid_position'')))))"


subsection \<open>The replay\<close>

record bt_state =
  bt_pending :: "pydict list"
  bt_open :: "pydict list"
  bt_trades :: "pydict list"
  bt_skipped :: "pydict list"
  bt_signals :: "pydict list"

record bt_run =
  rn_data :: pydict
  rn_management :: pydict
  rn_spread :: pydict
  rn_slippage :: pydict
  rn_orders :: pydict
  rn_all_timeframes :: bool

text \<open>The open positions on a candle: the trades they close, and those left.\<close>

fun manage_open :: "clock \<Rightarrow> pydict \<Rightarrow> pydict \<Rightarrow> pydict list \<Rightarrow> (pydict list \<times> pydict list) res" where
  "manage_open k config row [] = Ok ([], [])"
| "manage_open k config row (p # ps) =
     rbind (simulate_trade_management k p row config) (\<lambda>m.
     case mg_closed m of
       Some t \<Rightarrow> rbind (record_trade k t) (\<lambda>r. rmap (\<lambda>(ts, us). (r # ts, us)) (manage_open k config row ps))
     | None \<Rightarrow> rmap (\<lambda>(ts, us). (ts, mg_position m # us)) (manage_open k config row ps))"

text \<open>The pending orders on a candle: the positions they open, those that expire and those left.\<close>

fun fill_pending ::
  "clock \<Rightarrow> pydict \<Rightarrow> pydict \<Rightarrow> pydict \<Rightarrow> pydict list \<Rightarrow> (pydict list \<times> pydict list \<times> pydict list) res" where
  "fill_pending k row spread slippage [] = Ok ([], [], [])"
| "fill_pending k row spread slippage (q # qs) =
     rbind (simulate_order_fill k q row spread slippage) (\<lambda>f.
     rmap (\<lambda>(ps, sk, us).
        if fl_filled f then (position_from_fill q f # ps, sk, us)
        else if fl_reason f = ''order_expired'' then (ps, record_skipped_setup k q ''pending_order_expired'' # sk, us)
        else (ps, sk, q # us))
       (fill_pending k row spread slippage qs))"

text \<open>What becomes of a signal: skipped, a position, or a pending order.\<close>

datatype taken = Skipped pydict | Opened pydict | Queued pydict

definition take_signal :: "clock \<Rightarrow> bt_run \<Rightarrow> datetime \<Rightarrow> pydict option \<Rightarrow> pydict \<Rightarrow> taken res" where
  "take_signal k rn now next_row s =
     (let skip = \<lambda>reason. Ok (Skipped (record_skipped_setup k s reason))
      in if \<not> py_truthy (pget s ''trade_allowed'' (PBool True))
         then skip (to_str (ck_text k) (pget s ''reason'' (PStr ''trade_not_allowed'')))
         else if py_truthy (pget s ''news_restricted'' (PBool False)) then skip ''news_restricted''
         else rbind (align_timeframes k (rn_data rn) (PDt now)) (\<lambda>al.
           if rn_all_timeframes rn \<and> PNone \<in> snd ` set (al_closed al) then skip ''insufficient_mtf_closed_candles''
           else rbind (place_pending_order k s (rn_orders rn)) (\<lambda>order.
             if pget order ''order_type'' PNone = PStr ''market_order''
             then (case next_row of
                     None \<Rightarrow> skip ''no_next_candle_for_market_fill''
                   | Some row \<Rightarrow> rbind (simulate_order_fill k order row (rn_spread rn) (rn_slippage rn)) (\<lambda>f.
                       if fl_filled f then Ok (Opened (position_from_fill order f)) else skip (fl_reason f)))
             else Ok (Queued order))))"

definition settle :: "taken \<Rightarrow> bt_state \<Rightarrow> bt_state" where
  "settle a s =
     (case a of
        Skipped d \<Rightarrow> s\<lparr>bt_skipped := bt_skipped s @ [d]\<rparr>
      | Opened d \<Rightarrow> s\<lparr>bt_open := bt_open s @ [d]\<rparr>
      | Queued d \<Rightarrow> s\<lparr>bt_pending := bt_pending s @ [d]\<rparr>)"

text \<open>The signals known at \<open>now\<close>.\<close>

fun take_signals :: "clock \<Rightarrow> bt_run \<Rightarrow> datetime \<Rightarrow> pydict option \<Rightarrow> pydict list \<Rightarrow> bt_state \<Rightarrow> bt_state res" where
  "take_signals k rn now next_row [] s = Ok (s\<lparr>bt_signals := []\<rparr>)"
| "take_signals k rn now next_row (g # gs) s =
     rbind (parse_time k (pget g ''signal_time'' PNone)) (\<lambda>t.
     case t of
       None \<Rightarrow> Ok (s\<lparr>bt_signals := g # gs\<rparr>)
     | Some at_time \<Rightarrow>
         if dt_instant now < dt_instant at_time then Ok (s\<lparr>bt_signals := g # gs\<rparr>)
         else rbind (take_signal k rn now next_row g) (\<lambda>a. take_signals k rn now next_row gs (settle a s)))"

definition replay_candle :: "clock \<Rightarrow> bt_run \<Rightarrow> pydict option \<Rightarrow> pydict \<Rightarrow> bt_state \<Rightarrow> bt_state res" where
  "replay_candle k rn next_row row s =
     rbind (parse_time k (pget row ''close_time'' PNone)) (\<lambda>t.
     case t of
       None \<Rightarrow> Ok s
     | Some now \<Rightarrow>
         rbind (manage_open k (rn_management rn) row (bt_open s)) (\<lambda>(trades, kept).
         rbind (fill_pending k row (rn_spread rn) (rn_slippage rn) (bt_pending s)) (\<lambda>(opened, expired, waiting).
         take_signals k rn now next_row (bt_signals s)
           (s\<lparr>bt_trades := bt_trades s @ trades, bt_open := kept @ opened, bt_skipped := bt_skipped s @ expired,
              bt_pending := waiting\<rparr>))))"

fun replay_candles :: "clock \<Rightarrow> bt_run \<Rightarrow> pydict list \<Rightarrow> bt_state \<Rightarrow> bt_state res" where
  "replay_candles k rn [] s = Ok s"
| "replay_candles k rn (r # rs) s =
     rbind (replay_candle k rn (case rs of [] \<Rightarrow> None | x # _ \<Rightarrow> Some x) r s) (replay_candles k rn rs)"

text \<open>What is still open is closed at the last close.\<close>

fun number_of :: "pyval \<Rightarrow> pyfloat res" where
  "number_of (PFloat x) = Ok x"
| "number_of (PInt i) = (if is_fin (fof_int i) then Ok (fof_int i) else Raise OverflowError)"
| "number_of (PBool b) = Ok (if b then Fin 1 else Fin 0)"
| "number_of _ = Raise TypeError"

definition close_at_end :: "clock \<Rightarrow> pydict \<Rightarrow> pydict \<Rightarrow> pydict res" where
  "close_at_end k row pos =
     rbind (float_or k (pget pos ''entry_price'' PNone) (Fin 0)) (\<lambda>entry.
     rbind (float_or k (pget row ''close'' PNone) entry) (\<lambda>close.
     rbind (float_or k (pget pos ''stop_loss'' PNone) entry) (\<lambda>stop.
     let r = r_multiple (bt_direction k (pget pos ''direction'' PNone)) entry stop close in
     rbind (number_of (pget pos ''realized_R'' (PFloat (Fin 0)))) (\<lambda>realized.
     rbind (number_of (pget pos ''remaining_percent'' (PFloat (Fin 1)))) (\<lambda>remaining.
     rbind (py_iter (pget pos ''partials'' (PList []))) (\<lambda>partials.
     rbind (closed_trade k pos row EndOfTest (fadd realized (fmul remaining r)) partials False None) (record_trade k)))))))"

text \<open>Signals by their times; one without a time comes last (\<open>datetime.max\<close>).\<close>

definition timed_signal :: "clock \<Rightarrow> pyval \<Rightarrow> (int \<times> pydict) res" where
  "timed_signal k v =
     rmap (\<lambda>t. (case t of Some d \<Rightarrow> dt_instant d | None \<Rightarrow> 253402300799999999, mapping_of v))
       (parse_time k (pget (mapping_of v) ''signal_time'' PNone))"

definition signals_in_order :: "clock \<Rightarrow> pyval \<Rightarrow> pydict list res" where
  "signals_in_order k v = rmap (\<lambda>xs. map snd (sort_by (\<lambda>a b. fst a < fst b) xs)) (res_map (timed_signal k) (as_list v))"

definition read_run :: "pydict \<Rightarrow> pydict \<Rightarrow> bt_run res" where
  "read_run data cfg =
     rbind (config_of (pget cfg ''management'' (PDict []))) (\<lambda>m.
     rbind (config_of (pget cfg ''spread_model'' (PDict []))) (\<lambda>sp.
     rbind (config_of (pget cfg ''slippage_model'' (PDict []))) (\<lambda>sl.
     rmap (\<lambda>orders. \<lparr>rn_data = data, rn_management = m, rn_spread = sp, rn_slippage = sl, rn_orders = orders,
        rn_all_timeframes = py_truthy (pget cfg ''require_all_timeframes'' (PBool False))\<rparr>)
       (config_of (pget cfg ''order_config'' (PDict []))))))"

definition execution_candles :: "clock \<Rightarrow> pydict \<Rightarrow> pydict \<Rightarrow> pydict list res" where
  "execution_candles k data cfg =
     (let tf = to_str (ck_text k) (pget cfg ''execution_timeframe'' (PStr ''5M''))
      in clean_ohlcv_data k (pget data tf (pget data ''m5'' (pget data ''5M'' (PList [])))) tf)"

definition start_state :: "pydict list \<Rightarrow> bt_state" where
  "start_state signals = \<lparr>bt_pending = [], bt_open = [], bt_trades = [], bt_skipped = [], bt_signals = signals\<rparr>"

text \<open>The logs of a run; \<open>IctReport\<close> adds the report.\<close>

definition backtest_logs :: "clock \<Rightarrow> pydict \<Rightarrow> pydict \<Rightarrow> bt_state res" where
  "backtest_logs k data cfg =
     rbind (execution_candles k data cfg) (\<lambda>rows.
     rbind (signals_in_order k (pget cfg ''signals'' (PList []))) (\<lambda>signals.
     rbind (read_run data cfg) (\<lambda>rn.
     rbind (replay_candles k rn rows (start_state signals)) (\<lambda>s.
     if py_truthy (pget cfg ''close_open_positions_at_end'' (PBool True)) \<and> rows \<noteq> []
     then rmap (\<lambda>ts. s\<lparr>bt_trades := bt_trades s @ ts, bt_open := []\<rparr>) (res_map (close_at_end k (last rows)) (bt_open s))
     else Ok s))))"

end
