(* ===== verification/IctBacktestLaws.thy ===== *)
theory IctBacktestLaws
  imports IctBacktest
begin

section \<open>What the backtest keeps\<close>

text \<open>
  Every signal is accounted for; a fill lies in the candle, after activation, at a price no better than the order's; the stop
  comes before the targets; a written order reads back. The types of what a position holds are an invariant of the replay.
\<close>

subsection \<open>Every signal is accounted for\<close>

lemma manage_open_length: "manage_open k config row ps = Ok (ts, us) \<Longrightarrow> length ts + length us = length ps"
  by (induction ps arbitrary: ts us) (auto split: option.splits elim!: rbind_InrE simp: rmap_Inr_iff)

lemma fill_pending_length: "fill_pending k row sp sl qs = Ok (os, sk, us) \<Longrightarrow> length os + length sk + length us = length qs"
  by (induction qs arbitrary: os sk us) (auto elim!: rbind_InrE simp: rmap_Inr_iff split: if_splits)

definition settled :: "bt_state \<Rightarrow> nat" where
  "settled s = length (bt_pending s) + length (bt_open s) + length (bt_trades s) + length (bt_skipped s) + length (bt_signals s)"

lemma take_signals_settled:
  "take_signals k rn now nx gs s = Ok s' \<Longrightarrow> settled s' = settled (s\<lparr>bt_signals := gs\<rparr>)"
proof (induction gs arbitrary: s)
  case (Cons g gs)
  then show ?case
    by (auto simp: settled_def settle_def elim!: rbind_InrE split: option.splits if_splits taken.splits)
qed (auto simp: settled_def)

lemma replay_candle_settled: "replay_candle k rn nx row s = Ok s' \<Longrightarrow> settled s' = settled s"
  by (auto simp: replay_candle_def settled_def dest!: manage_open_length fill_pending_length take_signals_settled elim!: rbind_InrE
      split: option.splits)

lemma replay_candles_settled: "replay_candles k rn rows s = Ok s' \<Longrightarrow> settled s' = settled s"
  by (induction rows arbitrary: s) (auto elim!: rbind_InrE dest!: replay_candle_settled)

lemma res_map_length: "res_map f xs = Ok ys \<Longrightarrow> length ys = length xs"
  by (auto dest: res_mapD simp: list_all2_lengthD)

lemma signals_in_order_length: "signals_in_order k v = Ok ss \<Longrightarrow> length ss = length (as_list v)"
  by (auto simp: signals_in_order_def rmap_Inr_iff dest: res_map_length)

text \<open>Every signal of a run ends in exactly one place: a trade, a position still open, a pending order, the skipped log, or
  among the signals the candles did not reach.\<close>

theorem backtest_accounts:
  "backtest_logs k data cfg = Ok s \<Longrightarrow> settled s = length (as_list (pget cfg ''signals'' (PList [])))"
  by (auto simp: backtest_logs_def rmap_Inr_iff dest!: replay_candles_settled signals_in_order_length elim!: rbind_InrE split: if_splits)
    (auto simp: settled_def start_state_def dest: res_map_length)

subsection \<open>Fills\<close>

lemma fill_result_simps [simp]:
  "fl_filled (fill_result k b r p t w a) = b" "fl_price (fill_result k b r p t w a) = p" "fl_time (fill_result k b r p t w a) = iso_val k t"
  "fl_reason (fill_result k b r p t w a) = w" "fl_ambiguous (fill_result k b r p t w a) = a"
  by (simp_all add: fill_result_def)

text \<open>Spread and slippage move the price against the order.\<close>

lemma costs_adverse:
  assumes "rnd b = Fin b"
  shows "side = Bullish \<Longrightarrow> fle (py_round (Fin b) 10) (apply_spread_slippage (Fin b) side sp sl True)"
    and "side = Bearish \<Longrightarrow> fle (apply_spread_slippage (Fin b) side sp sl True) (py_round (Fin b) 10)"
proof -
  have slip: "fle (Fin 0) (py_max (Fin 0) sl)" by (rule py_max_left) simp
  have half: "fle (Fin 0) (fdiv (py_max (Fin 0) sp) (Fin 2))" by (rule fdiv_nonneg) (simp_all add: py_max_left)
  have "fle (Fin b) (fadd (fadd (Fin b) h) s)" and "fle (fsub (fsub (Fin b) h) s) (Fin b)" if "fle (Fin 0) h" "fle (Fin 0) s" for h s
  proof -
    have up: "fle (Fin b) (fadd (Fin b) h)" by (rule fadd_ge [OF assms that(1)])
    then consider c where "fadd (Fin b) h = Fin c" "rnd c = Fin c" | "fadd (Fin b) h = PInf"
      by (cases "fadd (Fin b) h"; cases h) (auto dest: rnd_idem)
    then show "fle (Fin b) (fadd (fadd (Fin b) h) s)"
    proof cases
      case 1
      show ?thesis by (rule fle_trans [OF up]) (simp add: 1(1) fadd_ge [OF 1(2) that(2)])
    next
      case 2
      with that(2) show ?thesis by (cases s) auto
    qed
    have down: "fle (fsub (Fin b) h) (Fin b)" by (rule fsub_le [OF assms that(1)])
    then consider c where "fsub (Fin b) h = Fin c" "rnd c = Fin c" | "fsub (Fin b) h = NInf"
      by (cases "fsub (Fin b) h"; cases h) (auto simp: fsub_def dest: rnd_idem)
    then show "fle (fsub (fsub (Fin b) h) s) (Fin b)"
    proof cases
      case 1
      show ?thesis by (rule fle_trans [OF _ down]) (simp add: 1(1) fsub_le [OF 1(2) that(2)])
    next
      case 2
      with that(2) show ?thesis by (cases s) (auto simp: fsub_def)
    qed
  qed
  from this [OF half slip] show "side = Bullish \<Longrightarrow> fle (py_round (Fin b) 10) (apply_spread_slippage (Fin b) side sp sl True)"
    and "side = Bearish \<Longrightarrow> fle (apply_spread_slippage (Fin b) side sp sl True) (py_round (Fin b) 10)"
    by (auto simp: apply_spread_slippage_def Let_def simp del: py_round.simps fdiv.simps intro!: py_round_mono)
qed

text \<open>What a fill says of its order and its candle.\<close>

definition honest_fill :: "clock \<Rightarrow> bt_order \<Rightarrow> pydict \<Rightarrow> bt_fill \<Rightarrow> bool" where
  "honest_fill k r row f \<longleftrightarrow>
     py_truthy (pget row ''is_closed'' (PBool True))
     \<and> (\<exists>opened ended base. parse_time k (pget row ''timestamp'' PNone) = Ok (Some opened) \<and> parse_time k (row_end row) = Ok (Some ended)
        \<and> (dt_instant (bo_valid_from r) \<le> dt_instant opened \<and> dt_instant (bo_valid_from r) \<le> dt_instant ended
             \<or> dt_instant opened < dt_instant (bo_valid_from r) \<and> dt_instant (bo_valid_from r) < dt_instant ended)
        \<and> fl_time f = iso_val k (Some (if bo_type r = MarketOrder then opened else ended))
        \<and> (case bo_expiry r of Some x \<Rightarrow> dt_instant opened < dt_instant x | None \<Rightarrow> True)
        \<and> (if bo_type r = MarketOrder then float_or_none k (pget row ''open'' PNone) = Ok (Some base)
           else base = bo_entry r \<and> (\<exists>l h. low_high k row = Ok (Some (l, h)) \<and> fle l base \<and> fle base h))
        \<and> (\<forall>b. base = Fin b \<and> rnd b = Fin b \<and> bo_direction r \<noteq> NoBias \<longrightarrow>
             (\<exists>p. fl_price f = Some p \<and> (if bo_direction r = Bullish then fle (py_round base 10) p else fle p (py_round base 10)))))"

lemma filledE:
  assumes "simulate_order_fill k order row sp sl = Ok f" "fl_filled f"
  obtains r opened ended base spread s where "normalize_order k order [] = Ok r" "py_truthy (pget row ''is_closed'' (PBool True))"
    "parse_time k (pget row ''timestamp'' PNone) = Ok (Some opened)" "parse_time k (row_end row) = Ok (Some ended)"
    "fill_blocked r opened ended = None" "fl_price f = Some (apply_spread_slippage base (bo_direction r) spread s True)"
    "if bo_type r = MarketOrder then float_or_none k (pget row ''open'' PNone) = Ok (Some base)
     else base = bo_entry r \<and> (\<exists>l h. low_high k row = Ok (Some (l, h)) \<and> fle l base \<and> fle base h)"
    "fl_time f = iso_val k (Some (if bo_type r = MarketOrder then opened else ended))"
proof -
  from assms obtain r t0 t1 where r: "normalize_order k order [] = Ok r" and t: "parse_time k (pget row ''timestamp'' PNone) = Ok t0"
      "parse_time k (row_end row) = Ok t1" and shut: "py_truthy (pget row ''is_closed'' (PBool True))"
    and rest: "(case (t0, t1) of (Some opened, Some ended) \<Rightarrow>
         (case fill_blocked r opened ended of
            Some reason \<Rightarrow> Ok (fill_result k False r None None reason False)
          | None \<Rightarrow> rbind (cost_value k sp row ''spread'') (\<lambda>spread. rbind (cost_value k sl row ''slippage'') (\<lambda>slippage.
              try_fill k r row opened ended spread slippage)))
     | _ \<Rightarrow> Ok (fill_result k False r None None ''invalid_candle_time'' False)) = Ok f"
    unfolding simulate_order_fill_def by (auto elim!: rbind_InrE split: if_splits)
  from rest assms(2) obtain opened ended spread slippage where tt: "t0 = Some opened" "t1 = Some ended" "fill_blocked r opened ended = None"
    "try_fill k r row opened ended spread slippage = Ok f"
    by (auto split: option.splits elim!: rbind_InrE)
  show thesis
  proof (cases "bo_type r = MarketOrder")
    case True
    with tt(4) assms(2) that [OF r shut _ _ tt(3)] t tt show thesis by (auto simp: try_fill_def rmap_Inr_iff split: option.splits)
  next
    case False
    with tt(4) obtain lh where lh: "low_high k row = Ok lh" by (auto simp: try_fill_def rmap_Inr_iff)
    with False tt(4) assms(2) obtain l h where "lh = Some (l, h)" by (cases lh) (auto simp: try_fill_def)
    with False lh tt(4) assms(2) that [OF r shut _ _ tt(3)] t tt show thesis by (auto simp: try_fill_def split: if_splits)
  qed
qed

text \<open>C34. What every fill is. It happens on a closed candle that opens before the order expires and that either opens at or after the
  order's activation or has the activation strictly inside it. A limit order fills at the candle's close, so after activation, at a price
  inside the candle; a market order fills at the candle's open and its opening price, which lie before the activation in the second case.
  The price paid is no better than the price asked, to ten digits.\<close>

theorem fills_are_honest:
  assumes "simulate_order_fill k order row sp sl = Ok f" "fl_filled f"
  shows "\<exists>r. normalize_order k order [] = Ok r \<and> honest_fill k r row f"
proof (rule filledE [OF assms])
  fix r opened ended base spread s
  assume f: "normalize_order k order [] = Ok r" "py_truthy (pget row ''is_closed'' (PBool True))"
    "parse_time k (pget row ''timestamp'' PNone) = Ok (Some opened)" "parse_time k (row_end row) = Ok (Some ended)"
    "fill_blocked r opened ended = None" "fl_price f = Some (apply_spread_slippage base (bo_direction r) spread s True)"
    "if bo_type r = MarketOrder then float_or_none k (pget row ''open'' PNone) = Ok (Some base)
     else base = bo_entry r \<and> (\<exists>l h. low_high k row = Ok (Some (l, h)) \<and> fle l base \<and> fle base h)"
    "fl_time f = iso_val k (Some (if bo_type r = MarketOrder then opened else ended))"
  from f(5) have times: "dt_instant (bo_valid_from r) \<le> dt_instant opened \<and> dt_instant (bo_valid_from r) \<le> dt_instant ended
      \<or> dt_instant opened < dt_instant (bo_valid_from r) \<and> dt_instant (bo_valid_from r) < dt_instant ended"
      "case bo_expiry r of Some x \<Rightarrow> dt_instant opened < dt_instant x | None \<Rightarrow> True"
    by (auto simp: fill_blocked_def split: if_splits option.splits)
  have "\<exists>p. fl_price f = Some p \<and> (if bo_direction r = Bullish then fle (py_round base 10) p else fle p (py_round base 10))"
    if "base = Fin b" "rnd b = Fin b" "bo_direction r \<noteq> NoBias" for b
    using costs_adverse [OF that(2), of "bo_direction r" spread s] that f(6) by (cases "bo_direction r") auto
  with f times show ?thesis unfolding honest_fill_def by blast
qed

text \<open>The activation may lie inside the candle: a market order that becomes active there is filled at the opening price, at a time when it
  was not active, and a limit order counts a touch that may have come before it.\<close>

lemma market_fill_before_activation:
  assumes "normalize_order k order [] = Ok r" "bo_type r = MarketOrder" "bo_expiry r = None" "py_truthy (pget row ''is_closed'' (PBool True))"
    and "parse_time k (pget row ''timestamp'' PNone) = Ok (Some opened)" "parse_time k (row_end row) = Ok (Some ended)"
    and "dt_instant opened < dt_instant (bo_valid_from r)" "dt_instant (bo_valid_from r) < dt_instant ended"
    and "cost_value k sp row ''spread'' = Ok spread" "cost_value k sl row ''slippage'' = Ok slip"
    and "float_or_none k (pget row ''open'' PNone) = Ok (Some price)"
  shows "simulate_order_fill k order row sp sl
    = Ok (fill_result k True r (Some (apply_spread_slippage price (bo_direction r) spread slip True)) (Some opened) ''market_next_open'' False)"
  using assms by (simp add: simulate_order_fill_def fill_blocked_def try_fill_def)

subsection \<open>The stop comes first\<close>

lemma close_remainder_events: "close_remainder k pos row reason r ps a x = Ok m \<Longrightarrow> mg_events m = [] \<and> mg_closed m \<noteq> None"
  by (auto simp: close_remainder_def rmap_Inr_iff)

lemma closed_trade_exit: "closed_trade k pos row reason r ps a x = Ok t \<Longrightarrow>
    pget t ''final_exit_reason'' PNone = PStr (exit_value reason) \<and> pget t ''realized_R'' PNone = PFloat (py_round r 5)
    \<and> pget t ''result'' PNone = PStr (trade_result r)
    \<and> pget t ''partials'' PNone = PList ps \<and> pget t ''post_cost_rr'' PNone = pget pos ''post_cost_rr'' PNone"
proof -
  have "all_dicts vs = Ok us \<Longrightarrow> us = vs" for vs us by (induction vs arbitrary: us) (auto simp: rmap_Inr_iff split: pyval.splits)
  then show "closed_trade k pos row reason r ps a x = Ok t \<Longrightarrow> ?thesis"
    unfolding closed_trade_def Let_def by (elim rbind_InrE) (auto simp: rmap_Inr_iff)
qed

lemma closed_trade_scores: "closed_trade k pos row reason r ps a x = Ok t \<Longrightarrow>
    (let s = mapping_of (pget pos ''setup_context'' (PDict []))
     in pget t ''confidence_score'' PNone = py_or (pget pos ''confidence_score'' PNone) (pget s ''confidence_score'' PNone)
        \<and> pget t ''setup_score'' PNone = pget s ''setup_score'' PNone \<and> (\<exists>mins. pget t ''duration_min'' PNone = float_val mins))"
  unfolding closed_trade_def Let_def by (elim rbind_InrE) (auto simp: rmap_Inr_iff)

text \<open>What management reads of a position before it looks at the candle.\<close>

definition readable :: "clock \<Rightarrow> pydict \<Rightarrow> pyfloat \<Rightarrow> pyfloat \<Rightarrow> pyfloat \<Rightarrow> bool" where
  "readable k pos entry stop current \<longleftrightarrow>
     bt_direction k (pget pos ''direction'' PNone) \<noteq> NoBias \<and> float_or_none k (pget pos ''entry_price'' PNone) = Ok (Some entry)
     \<and> float_or_none k (pget pos ''stop_loss'' PNone) = Ok (Some stop)
     \<and> float_or_none k (pget pos ''current_stop'' (pget pos ''stop_loss'' PNone)) = Ok (Some current)
     \<and> \<not> fle (risk_per_unit (bt_direction k (pget pos ''direction'' PNone)) entry stop) (Fin 0)"

lemma manage_readable:
  assumes "simulate_trade_management k pos row config = Ok m" "readable k pos entry stop current"
  obtains ts remaining realized partials timed where
    "targets_from_position k pos = Ok ts" "to_float (ck_text k) (pget pos ''remaining_percent'' (PFloat (Fin 1))) = Ok remaining"
    "to_float (ck_text k) (pget pos ''realized_R'' (PFloat (Fin 0))) = Ok realized"
    "py_iter (pget pos ''partials'' (PList [])) = Ok partials" "time_exit_reason k pos row config = Ok timed"
    "case timed of
       Some reason \<Rightarrow> \<exists>price. float_or k (pget row ''close'' PNone) entry = Ok price
         \<and> close_remainder k pos row reason
             (fadd realized (fmul remaining (r_multiple (bt_direction k (pget pos ''direction'' PNone)) entry stop price))) partials False (Some price)
           = Ok m
     | None \<Rightarrow> stop_or_targets k pos row config (bt_direction k (pget pos ''direction'' PNone)) entry stop current ts remaining realized partials = Ok m"
proof -
  from assms obtain ts remaining realized partials timed where
    m: "targets_from_position k pos = Ok ts" "to_float (ck_text k) (pget pos ''remaining_percent'' (PFloat (Fin 1))) = Ok remaining"
      "to_float (ck_text k) (pget pos ''realized_R'' (PFloat (Fin 0))) = Ok realized"
      "py_iter (pget pos ''partials'' (PList [])) = Ok partials" "time_exit_reason k pos row config = Ok timed"
    and rest: "(case timed of
        Some reason \<Rightarrow> rbind (float_or k (pget row ''close'' PNone) entry) (\<lambda>price. close_remainder k pos row reason
             (fadd realized (fmul remaining (r_multiple (bt_direction k (pget pos ''direction'' PNone)) entry stop price))) partials False (Some price))
      | None \<Rightarrow> stop_or_targets k pos row config (bt_direction k (pget pos ''direction'' PNone)) entry stop current ts remaining realized partials) = Ok m"
    by (auto simp: simulate_trade_management_def readable_def Let_def elim!: rbind_InrE)
  from rest have "case timed of
       Some reason \<Rightarrow> \<exists>price. float_or k (pget row ''close'' PNone) entry = Ok price
         \<and> close_remainder k pos row reason
             (fadd realized (fmul remaining (r_multiple (bt_direction k (pget pos ''direction'' PNone)) entry stop price))) partials False (Some price)
           = Ok m
     | None \<Rightarrow> stop_or_targets k pos row config (bt_direction k (pget pos ''direction'' PNone)) entry stop current ts remaining realized partials = Ok m"
    by (auto elim!: rbind_InrE split: option.splits)
  with m that show thesis by blast
qed

text \<open>C16. A readable position whose stop lies in the candle ends there and books no target, whatever targets the candle also reached. When no
  time rule ends it, its result is the result so far plus the remainder at the stop, and the exit is one of the three stops; when a time
  rule does, the remainder goes at the candle's close (at the entry when the row has none) and the exit is that rule's.\<close>

theorem stop_comes_first:
  assumes "simulate_trade_management k pos row config = Ok m" "readable k pos entry stop current"
    "low_high k row = Ok lh" "stop_touched (bt_direction k (pget pos ''direction'' PNone)) current lh"
  shows "mg_events m = [] \<and> (\<exists>t timed realized remaining price. mg_closed m = Some t \<and> time_exit_reason k pos row config = Ok timed
    \<and> to_float (ck_text k) (pget pos ''realized_R'' (PFloat (Fin 0))) = Ok realized
    \<and> to_float (ck_text k) (pget pos ''remaining_percent'' (PFloat (Fin 1))) = Ok remaining
    \<and> pget t ''realized_R'' PNone
        = PFloat (py_round (fadd realized (fmul remaining (r_multiple (bt_direction k (pget pos ''direction'' PNone)) entry stop price))) 5)
    \<and> (case timed of
         None \<Rightarrow> price = current \<and> pget t ''final_exit_reason'' PNone \<in> PStr ` exit_value ` {AmbiguousStopFirst, BreakevenStop, StopLoss}
       | Some reason \<Rightarrow> float_or k (pget row ''close'' PNone) entry = Ok price \<and> pget t ''final_exit_reason'' PNone = PStr (exit_value reason)))"
proof -
  let ?side = "bt_direction k (pget pos ''direction'' PNone)"
  from manage_readable [OF assms(1,2)] obtain ts remaining realized partials timed where
    m: "to_float (ck_text k) (pget pos ''remaining_percent'' (PFloat (Fin 1))) = Ok remaining"
      "to_float (ck_text k) (pget pos ''realized_R'' (PFloat (Fin 0))) = Ok realized" "time_exit_reason k pos row config = Ok timed"
    and rest: "case timed of
       Some reason \<Rightarrow> \<exists>price. float_or k (pget row ''close'' PNone) entry = Ok price
         \<and> close_remainder k pos row reason (fadd realized (fmul remaining (r_multiple ?side entry stop price))) partials False (Some price) = Ok m
     | None \<Rightarrow> stop_or_targets k pos row config ?side entry stop current ts remaining realized partials = Ok m" .
  have closed: "mg_events n = [] \<and> (\<exists>t. mg_closed n = Some t \<and> pget t ''realized_R'' PNone = PFloat (py_round x 5)
      \<and> pget t ''final_exit_reason'' PNone = PStr (exit_value reason))" if "close_remainder k pos row reason x partials a y = Ok n" for reason x a y n
    using that by (auto simp: close_remainder_def rmap_Inr_iff dest!: closed_trade_exit)
  show ?thesis
  proof (cases timed)
    case None
    with rest assms(3,4) obtain reason a where stop: "reason \<in> {AmbiguousStopFirst, BreakevenStop, StopLoss}"
        "close_remainder k pos row reason (fadd realized (fmul remaining (r_multiple ?side entry stop current))) partials a None = Ok m"
      by (auto simp: stop_or_targets_def Let_def split: if_splits)
    from closed [OF stop(2)] obtain t where t: "mg_events m = []" "mg_closed m = Some t"
      "pget t ''realized_R'' PNone = PFloat (py_round (fadd realized (fmul remaining (r_multiple ?side entry stop current))) 5)"
      "pget t ''final_exit_reason'' PNone = PStr (exit_value reason)" by blast
    show ?thesis
      by (intro conjI exI [of _ t] exI [of _ timed] exI [of _ realized] exI [of _ remaining] exI [of _ current])
         (use t m None stop(1) in auto)
  next
    case (Some reason)
    with rest obtain price where "float_or k (pget row ''close'' PNone) entry = Ok price"
      "close_remainder k pos row reason (fadd realized (fmul remaining (r_multiple ?side entry stop price))) partials False (Some price) = Ok m"
      by auto
    with closed [OF this(2)] m Some show ?thesis by fastforce
  qed
qed


subsection \<open>What a position holds\<close>

lemma pget_carried:
  assumes "key \<notin> set carried_keys"
  shows "pget (order_output k r) key x = pget (order_fields k r) key x"
proof -
  have "pget (concat (map (\<lambda>c. case map_of (bo_setup r) c of None \<Rightarrow> [] | Some v \<Rightarrow> [(c, v)]) cs)) key x = x" if "key \<notin> set cs" for cs
    using that by (induction cs) (auto simp: pget_append split: option.split)
  from this [OF assms] show ?thesis by (simp add: order_output_def pget_append)
qed

text \<open>A pending order is a written order; a position has its prices, its share and its result as floats, its targets written, its partial exits
  as dicts, and the break-even settings it starts with.\<close>

definition written_order :: "clock \<Rightarrow> pydict \<Rightarrow> bool" where
  "written_order k d \<longleftrightarrow> (\<exists>r. d = order_output k r)"

definition float_field :: "pydict \<Rightarrow> string \<Rightarrow> bool" where
  "float_field d key \<longleftrightarrow> (\<exists>x. pget d key PNone = PFloat x)"

definition wt_position :: "pydict \<Rightarrow> bool" where
  "wt_position p \<longleftrightarrow>
     list_all (float_field p) [''entry_price'', ''stop_loss'', ''current_stop'', ''remaining_percent'', ''realized_R'']
     \<and> (\<exists>ps. pget p ''partials'' PNone = PList ps \<and> list_all (\<lambda>v. \<exists>d. v = PDict d) ps)
     \<and> (\<exists>ts. pget p ''targets'' PNone = PList (map target_dict ts)) \<and> (\<exists>side. pget p ''direction'' PNone = PStr (bias_value side))
     \<and> pget p ''move_stop_to_be_after_target_1'' PNone = PBool True \<and> pget p ''move_stop_to_be_after_target_index'' PNone = PInt 1
     \<and> pget p ''breakeven_after_rr'' PNone = PNone \<and> pget p ''breakeven_buffer_price'' PNone = PFloat (Fin 0)
     \<and> pget p ''post_cost_rr'' PNone = PNone"

lemma wt_from_fill:
  assumes "fl_price f = Some p"
  shows "wt_position (position_from_fill (order_output k r) f)"
  using assms
  by (simp add: wt_position_def position_from_fill_def pget_dict_update pget_carried order_fields_def carried_keys_def float_field_def float_val_def)
    blast

lemma filled_has_price:
  assumes "simulate_order_fill k order row sp sl = Ok f" "fl_filled f"
  shows "\<exists>p. fl_price f = Some p"
  using assms by (rule filledE) blast

definition same_but_stop :: "pydict \<Rightarrow> pydict \<Rightarrow> bool" where
  "same_but_stop p q \<longleftrightarrow> (\<forall>key x. key \<noteq> ''current_stop'' \<longrightarrow> pget q key x = pget p key x)
     \<and> (pget q ''current_stop'' PNone = pget p ''current_stop'' PNone \<or> float_field q ''current_stop'')"

lemma same_but_stop_refl [simp]: "same_but_stop p p"
  by (simp add: same_but_stop_def)

lemma same_but_stop_trans: "same_but_stop p q \<Longrightarrow> same_but_stop q r \<Longrightarrow> same_but_stop p r"
  by (auto simp: same_but_stop_def float_field_def)

lemma book_target_position:
  assumes "book_target k side entry stop row t b = Ok b'"
  shows "same_but_stop (bk_position b) (bk_position b')
    \<and> (\<exists>evs. bk_partials b' = bk_partials b @ evs \<and> list_all (\<lambda>v. \<exists>d. v = PDict d) evs)"
  using assms unfolding book_target_def Let_def
  by (elim rbind_InrE) (auto simp: rmap_Inr_iff same_but_stop_def float_field_def split: if_splits)

lemma book_targets_position:
  "book_targets k side entry stop row hits b = Ok (ts, b') \<Longrightarrow> same_but_stop (bk_position b) (bk_position b')
    \<and> (\<exists>evs. bk_partials b' = bk_partials b @ evs \<and> list_all (\<lambda>v. \<exists>d. v = PDict d) evs)"
proof (induction hits arbitrary: b ts)
  case (Cons th hits)
  obtain t h where th: "th = (t, h)" by (cases th)
  show ?case
  proof (cases "h \<and> \<not> fle (bk_remaining b) (Fin 0)")
    case True
    with Cons.prems th obtain b1 us where b1: "book_target k side entry stop row t b = Ok b1"
        "book_targets k side entry stop row hits b1 = Ok (us, b')" by (auto simp: rmap_Inr_iff elim!: rbind_InrE)
    from book_target_position [OF b1(1)] Cons.IH [OF b1(2)] show ?thesis by (fastforce intro: same_but_stop_trans)
  next
    case False
    with Cons th show ?thesis by (auto simp: rmap_Inr_iff)
  qed
qed auto

lemma take_targets_cases:
  assumes "take_targets k side entry stop row hits b = Ok m"
  obtains ts b' pos where "book_targets k side entry stop row hits b = Ok (ts, b')"
    "pos = dict_update (bk_position b') [(''targets'', PList (map target_dict ts)),
       (''remaining_percent'', PFloat (py_max (Fin 0) (bk_remaining b'))), (''realized_R'', PFloat (py_round (bk_realized b') 5)),
       (''partials'', PList (bk_partials b'))]"
    "mg_events m = bk_events b'"
    "case mg_closed m of None \<Rightarrow> mg_position m = pos
     | Some t \<Rightarrow> closed_trade k pos row FinalTarget (bk_realized b') (bk_partials b') False None = Ok t"
proof -
  from assms obtain ts b' where b: "book_targets k side entry stop row hits b = Ok (ts, b')" by (auto simp: take_targets_def elim!: rbind_InrE)
  with assms show thesis by (intro that [OF b refl]) (auto simp: take_targets_def Let_def rmap_Inr_iff split: if_splits)
qed

lemma wt_take_targets:
  assumes "take_targets k side entry stop row hits b = Ok m" "mg_closed m = None" "wt_position (bk_position b)"
    "list_all (\<lambda>v. \<exists>d. v = PDict d) (bk_partials b)"
  shows "wt_position (mg_position m)"
proof -
  obtain ts b' where b: "book_targets k side entry stop row hits b = Ok (ts, b')"
      "mg_position m = dict_update (bk_position b') [(''targets'', PList (map target_dict ts)),
       (''remaining_percent'', PFloat (py_max (Fin 0) (bk_remaining b'))), (''realized_R'', PFloat (py_round (bk_realized b') 5)),
       (''partials'', PList (bk_partials b'))]" using assms(2) by (auto intro: take_targets_cases [OF assms(1)])
  from book_targets_position [OF b(1)] assms(3,4) show ?thesis
    unfolding b(2) wt_position_def same_but_stop_def by (auto simp: pget_dict_update float_field_def)
qed


lemma manage_position:
  assumes "simulate_trade_management k pos row config = Ok m"
  obtains (kept) "mg_position m = pos" "mg_closed m = None" "mg_events m = []"
  | (shut) reason realized partials a x where "close_remainder k pos row reason realized partials a x = Ok m"
  | (targets) side entry stop hits remaining realized partials where
      "take_targets k side entry stop row hits
         \<lparr>bk_remaining = remaining, bk_realized = realized, bk_partials = partials, bk_events = [], bk_position = pos\<rparr> = Ok m"
      "py_iter (pget pos ''partials'' (PList [])) = Ok partials"
      "to_float (ck_text k) (pget pos ''remaining_percent'' (PFloat (Fin 1))) = Ok remaining"
proof -
  let ?side = "bt_direction k (pget pos ''direction'' PNone)"
  from assms obtain en st cu where
    "(case (en, st, cu) of
       (Some entry, Some stop, Some current) \<Rightarrow>
         if ?side = NoBias then Ok (untouched pos ''invalid_position'')
         else
           rbind (targets_from_position k pos) (\<lambda>ts.
           rbind (to_float (ck_text k) (pget pos ''remaining_percent'' (PFloat (Fin 1)))) (\<lambda>remaining.
           rbind (to_float (ck_text k) (pget pos ''realized_R'' (PFloat (Fin 0)))) (\<lambda>realized.
           rbind (py_iter (pget pos ''partials'' (PList []))) (\<lambda>partials.
           if fle (risk_per_unit ?side entry stop) (Fin 0) then Ok (untouched pos ''invalid_risk'')
           else rbind (time_exit_reason k pos row config) (\<lambda>timed.
                case timed of
                  Some reason \<Rightarrow>
                    rbind (float_or k (pget row ''close'' PNone) entry) (\<lambda>price.
                    close_remainder k pos row reason (fadd realized (fmul remaining (r_multiple ?side entry stop price))) partials False
                      (Some price))
                | None \<Rightarrow> stop_or_targets k pos row config ?side entry stop current ts remaining realized partials)))))
     | _ \<Rightarrow> Ok (untouched pos ''invalid_position'')) = Ok m" (is "?rest = _")
    unfolding simulate_trade_management_def Let_def by (elim rbind_InrE)
  then consider (kept) status where "m = untouched pos status"
    | (live) entry stop current ts remaining realized partials timed where
        "to_float (ck_text k) (pget pos ''remaining_percent'' (PFloat (Fin 1))) = Ok remaining"
        "py_iter (pget pos ''partials'' (PList [])) = Ok partials"
        "(case timed of
                  Some reason \<Rightarrow>
                    rbind (float_or k (pget row ''close'' PNone) entry) (\<lambda>price.
                    close_remainder k pos row reason (fadd realized (fmul remaining (r_multiple ?side entry stop price))) partials False
                      (Some price))
                | None \<Rightarrow> stop_or_targets k pos row config ?side entry stop current ts remaining realized partials) = Ok m"
    by (cases en; cases st; cases cu) (auto elim!: rbind_InrE split: if_splits simp del: not_None_eq)
  then show thesis
  proof cases
    case kept
    with that(1) show thesis by (simp add: untouched_def)
  next
    case (live entry stop current ts remaining realized partials timed)
    show thesis
    proof (cases timed)
      case (Some reason)
      with live(3) that(2) show thesis by (auto elim!: rbind_InrE)
    next
      case None
      with live(3) obtain lh where "stop_or_targets k pos row config ?side entry stop current ts remaining realized partials = Ok m"
        "low_high k row = Ok lh" by (auto simp: stop_or_targets_def elim: rbind_InrE)
      with that(2,3) live(1,2) show thesis unfolding stop_or_targets_def Let_def by (auto split: if_splits)
    qed
  qed
qed

lemma wt_managed:
  assumes "simulate_trade_management k pos row config = Ok m" "mg_closed m = None" "wt_position pos"
  shows "wt_position (mg_position m)"
  using assms(1)
proof (cases rule: manage_position)
  case (shut reason realized partials a x)
  with assms(2) show ?thesis by (auto dest: close_remainder_events)
next
  case (targets side entry stop hits remaining realized partials)
  from assms(3) obtain ps where "pget pos ''partials'' PNone = PList ps" "list_all (\<lambda>v. \<exists>d. v = PDict d) ps" by (auto simp: wt_position_def)
  moreover from this(1) have "pget pos ''partials'' (PList []) = PList ps" by (auto simp: pget_def split: option.splits)
  ultimately show ?thesis using wt_take_targets [OF targets(1) assms(2)] assms(3) targets(2) by simp
qed (use assms in simp)

lemma managed_trade:
  assumes "simulate_trade_management k pos row config = Ok m" "mg_closed m = Some t"
  shows "pget t ''post_cost_rr'' PNone = pget pos ''post_cost_rr'' PNone"
  using assms(1)
proof (cases rule: manage_position)
  case (shut reason realized partials a x)
  with assms(2) show ?thesis by (auto simp: close_remainder_def rmap_Inr_iff dest: closed_trade_exit)
next
  case (targets side entry stop hits remaining realized partials)
  show ?thesis
  proof (rule take_targets_cases [OF targets(1)])
    fix ts b' p
    assume b: "book_targets k side entry stop row hits
        \<lparr>bk_remaining = remaining, bk_realized = realized, bk_partials = partials, bk_events = [], bk_position = pos\<rparr> = Ok (ts, b')"
      "p = dict_update (bk_position b') [(''targets'', PList (map target_dict ts)),
        (''remaining_percent'', PFloat (py_max (Fin 0) (bk_remaining b'))), (''realized_R'', PFloat (py_round (bk_realized b') 5)),
        (''partials'', PList (bk_partials b'))]"
      "case mg_closed m of None \<Rightarrow> mg_position m = p
       | Some t \<Rightarrow> closed_trade k p row FinalTarget (bk_realized b') (bk_partials b') False None = Ok t"
    from b(3) assms(2) have "pget t ''post_cost_rr'' PNone = pget p ''post_cost_rr'' PNone" by (auto dest: closed_trade_exit)
    with book_targets_position [OF b(1)] show ?thesis unfolding b(2) by (simp add: pget_dict_update same_but_stop_def)
  qed
qed (use assms in simp)

lemma recorded: "record_trade k t = Ok r \<Longrightarrow> key \<notin> {''result'', ''notes''} \<Longrightarrow> pget r key x = pget t key x"
  by (auto simp: record_trade_def rmap_Inr_iff set_default_def pget_append split: option.splits)

definition no_rr :: "pydict \<Rightarrow> bool" where
  "no_rr t \<longleftrightarrow> pget t ''post_cost_rr'' PNone = PNone"

lemma manage_open_wt:
  "manage_open k config row ps = Ok (ts, us) \<Longrightarrow> list_all wt_position ps \<Longrightarrow> list_all wt_position us \<and> list_all no_rr ts"
proof (induction ps arbitrary: ts us)
  case (Cons p ps)
  then obtain m where m: "simulate_trade_management k p row config = Ok m" by (auto elim!: rbind_InrE)
  show ?case
  proof (cases "mg_closed m")
    case None
    with Cons m wt_managed [OF m None] show ?thesis by (auto simp: rmap_Inr_iff)
  next
    case (Some t)
    with Cons.prems m obtain r vs where r: "record_trade k t = Ok r" "manage_open k config row ps = Ok (vs, us)" "ts = r # vs"
      by (auto simp: rmap_Inr_iff elim!: rbind_InrE)
    have "no_rr r" using recorded [OF r(1), of "''post_cost_rr''"] managed_trade [OF m Some] Cons.prems(2) by (simp add: no_rr_def wt_position_def)
    with Cons r show ?thesis by auto
  qed
qed simp

lemma fill_pending_wt:
  "fill_pending k row sp sl qs = Ok (os, sk, us) \<Longrightarrow> list_all (written_order k) qs \<Longrightarrow> list_all wt_position os \<and> list_all (written_order k) us"
proof (induction qs arbitrary: os sk us)
  case (Cons q qs)
  then obtain f os' sk' us' where f: "simulate_order_fill k q row sp sl = Ok f" "fill_pending k row sp sl qs = Ok (os', sk', us')"
    by (auto simp: rmap_Inr_iff elim!: rbind_InrE)
  with Cons.IH [OF f(2)] Cons.prems show ?case
    by (auto simp: written_order_def dest!: filled_has_price intro: wt_from_fill split: if_splits)
qed simp

definition wt_state :: "clock \<Rightarrow> bt_state \<Rightarrow> bool" where
  "wt_state k s \<longleftrightarrow> list_all wt_position (bt_open s) \<and> list_all (written_order k) (bt_pending s) \<and> list_all no_rr (bt_trades s)"

lemma take_signal_wt:
  assumes "take_signal k rn now nx g = Ok a" "wt_state k s"
  shows "wt_state k (settle a s)"
proof -
  have place: "written_order k d" if "place_pending_order k g cfg = Ok d" for d cfg
    using that by (auto simp: place_pending_order_def written_order_def rmap_Inr_iff)
  have fill: "wt_position (position_from_fill d f)"
    if "written_order k d" "simulate_order_fill k d row (rn_spread rn) (rn_slippage rn) = Ok f" "fl_filled f" for d f row
    using that by (auto simp: written_order_def dest!: filled_has_price intro: wt_from_fill)
  from assms(1) have "(\<exists>d. a = Skipped d) \<or> (\<exists>d. a = Queued d \<and> written_order k d) \<or> (\<exists>p. a = Opened p \<and> wt_position p)"
    unfolding take_signal_def Let_def by (auto elim!: rbind_InrE split: if_splits option.splits) (metis place fill)+
  with assms(2) show ?thesis by (auto simp: settle_def wt_state_def)
qed

lemma wt_state_signals [simp]: "wt_state k (s\<lparr>bt_signals := gs\<rparr>) = wt_state k s"
  by (simp add: wt_state_def)

lemma take_signals_wt: "take_signals k rn now nx gs s = Ok s' \<Longrightarrow> wt_state k s \<Longrightarrow> wt_state k s'"
proof (induction gs arbitrary: s)
  case (Cons g gs)
  from Cons.prems(1) consider "s' = s\<lparr>bt_signals := g # gs\<rparr>"
    | a where "take_signal k rn now nx g = Ok a" "take_signals k rn now nx gs (settle a s) = Ok s'"
    by (auto elim!: rbind_InrE split: option.splits if_splits)
  then show ?case using Cons.IH take_signal_wt [OF _ Cons.prems(2)] Cons.prems(2) by cases auto
qed auto

lemma replay_candle_wt: "replay_candle k rn nx row s = Ok s' \<Longrightarrow> wt_state k s \<Longrightarrow> wt_state k s'"
proof -
  assume run: "replay_candle k rn nx row s = Ok s'" and wt: "wt_state k s"
  then obtain t where t: "parse_time k (pget row ''close_time'' PNone) = Ok t" by (auto simp: replay_candle_def elim: rbind_InrE)
  show ?thesis
  proof (cases t)
    case None
    with run wt t show ?thesis by (simp add: replay_candle_def)
  next
    case (Some now)
    with run t obtain ts us os sk ws where m: "manage_open k (rn_management rn) row (bt_open s) = Ok (ts, us)"
        "fill_pending k row (rn_spread rn) (rn_slippage rn) (bt_pending s) = Ok (os, sk, ws)"
      and rest: "take_signals k rn now nx (bt_signals s)
        (s\<lparr>bt_trades := bt_trades s @ ts, bt_open := us @ os, bt_skipped := bt_skipped s @ sk, bt_pending := ws\<rparr>) = Ok s'"
      by (auto simp: replay_candle_def elim!: rbind_InrE)
    show ?thesis
      by (rule take_signals_wt [OF rest]) (use wt manage_open_wt [OF m(1)] fill_pending_wt [OF m(2)] in \<open>simp add: wt_state_def\<close>)
  qed
qed

lemma replay_candles_wt: "replay_candles k rn rows s = Ok s' \<Longrightarrow> wt_state k s \<Longrightarrow> wt_state k s'"
  by (induction rows arbitrary: s) (auto elim!: rbind_InrE dest: replay_candle_wt)

text \<open>C22. However far a replay has come, its positions and pending orders have the types above.\<close>

theorem positions_well_typed:
  "replay_candles k rn rows (start_state signals) = Ok s \<Longrightarrow> list_all wt_position (bt_open s) \<and> list_all (written_order k) (bt_pending s)"
  using replay_candles_wt [of k rn rows "start_state signals" s] by (auto simp: start_state_def wt_state_def)

text \<open>No trade of a run knows its reward after costs, and the break-even settings of a signal never reach its position: the order that is written
  does not carry them.\<close>

lemma close_at_end_no_rr: "close_at_end k row p = Ok t \<Longrightarrow> wt_position p \<Longrightarrow> no_rr t"
  by (auto simp: close_at_end_def no_rr_def wt_position_def Let_def recorded dest!: closed_trade_exit elim!: rbind_InrE)

lemma logs_without_rr: "backtest_logs k data cfg = Ok s \<Longrightarrow> list_all no_rr (bt_trades s)"
proof -
  assume "backtest_logs k data cfg = Ok s"
  then obtain rows rn signals s0 where s0: "replay_candles k rn rows (start_state signals) = Ok s0"
    and s: "s = s0 \<or> (\<exists>ts. res_map (close_at_end k (last rows)) (bt_open s0) = Ok ts \<and> s = s0\<lparr>bt_trades := bt_trades s0 @ ts, bt_open := []\<rparr>)"
    by (auto simp: backtest_logs_def rmap_Inr_iff elim!: rbind_InrE split: if_splits)
  have wt: "wt_state k s0" by (rule replay_candles_wt [OF s0]) (simp add: start_state_def wt_state_def)
  then have "list_all no_rr ts" if "res_map (close_at_end k (last rows)) (bt_open s0) = Ok ts" for ts
    using res_map_in [OF that] by (fastforce simp: list_all_iff wt_state_def intro: close_at_end_no_rr)
  with s wt show ?thesis by (auto simp: wt_state_def)
qed


subsection \<open>The open share\<close>

lemma book_target_share:
  assumes "book_target k side entry stop row t b = Ok b'" "bk_remaining b = Fin q" "rnd q = Fin q" "0 \<le> q" "fle (Fin 0) (tg_percent t)"
  shows "\<exists>q'. bk_remaining b' = Fin q' \<and> rnd q' = Fin q' \<and> 0 \<le> q' \<and> q' \<le> q"
proof -
  from assms(1) have b': "bk_remaining b' = fsub (bk_remaining b) (py_min (bk_remaining b) (tg_percent t))"
    unfolding book_target_def Let_def by (elim rbind_InrE) (auto simp: rmap_Inr_iff split: if_splits)
  from assms(4,5) have "\<exists>z. py_min (Fin q) (tg_percent t) = Fin z \<and> 0 \<le> z \<and> z \<le> q"
    by (cases "tg_percent t") (auto simp: py_min_def)
  then obtain z where z: "py_min (Fin q) (tg_percent t) = Fin z" "0 \<le> z" "z \<le> q" by blast
  have "fle (Fin 0) (rnd (q - z))" "fle (rnd (q - z)) (Fin q)" using z assms(3) rnd_mono [of "q - z" q] by (simp_all add: rnd_nonneg)
  with z(1) assms(2) show ?thesis unfolding b' by (cases "rnd (q - z)") (auto dest: rnd_idem)
qed

lemma book_targets_share:
  "book_targets k side entry stop row hits b = Ok (ts, b') \<Longrightarrow> bk_remaining b = Fin q \<Longrightarrow> rnd q = Fin q \<Longrightarrow> 0 \<le> q \<Longrightarrow>
     (\<forall>(t, h)\<in>set hits. fle (Fin 0) (tg_percent t)) \<Longrightarrow> \<exists>q'. bk_remaining b' = Fin q' \<and> rnd q' = Fin q' \<and> 0 \<le> q' \<and> q' \<le> q"
proof (induction hits arbitrary: b ts q)
  case (Cons th hits)
  obtain t h where th: "th = (t, h)" by (cases th)
  show ?case
  proof (cases "h \<and> \<not> fle (bk_remaining b) (Fin 0)")
    case True
    with Cons.prems(1) th obtain b1 us where b1: "book_target k side entry stop row t b = Ok b1"
        "book_targets k side entry stop row hits b1 = Ok (us, b')" by (auto simp: rmap_Inr_iff elim!: rbind_InrE)
    from book_target_share [OF b1(1) Cons.prems(2-4)] Cons.prems(5) th obtain q1 where
      "bk_remaining b1 = Fin q1" "rnd q1 = Fin q1" "0 \<le> q1" "q1 \<le> q" by auto
    with Cons.IH [OF b1(2), of q1] Cons.prems(5) show ?thesis by fastforce
  next
    case False
    with Cons th show ?thesis by (auto simp: rmap_Inr_iff)
  qed
qed auto

lemma manage_targets:
  assumes "simulate_trade_management k pos row config = Ok m"
  obtains (kept) "mg_position m = pos"
  | (shut) "mg_closed m \<noteq> None"
  | (targets) side entry stop lh ts remaining realized partials where "targets_from_position k pos = Ok ts"
      "take_targets k side entry stop row (map (\<lambda>t. (t, \<not> tg_filled t \<and> target_touched side (tg_price t) lh)) ts)
         \<lparr>bk_remaining = remaining, bk_realized = realized, bk_partials = partials, bk_events = [], bk_position = pos\<rparr> = Ok m"
      "to_float (ck_text k) (pget pos ''remaining_percent'' (PFloat (Fin 1))) = Ok remaining"
proof (cases "\<exists>entry stop current. readable k pos entry stop current")
  case True
  then obtain entry stop current where rd: "readable k pos entry stop current" by blast
  have shutc: thesis if "close_remainder k pos row reason realized partials a x = Ok m" for reason realized partials a x
    using close_remainder_events [OF that] shut by blast
  show thesis
  proof (rule manage_readable [OF assms rd])
    fix ts remaining realized partials timed
    assume h: "targets_from_position k pos = Ok ts" "to_float (ck_text k) (pget pos ''remaining_percent'' (PFloat (Fin 1))) = Ok remaining"
      "case timed of
       Some reason \<Rightarrow> \<exists>price. float_or k (pget row ''close'' PNone) entry = Ok price
         \<and> close_remainder k pos row reason
             (fadd realized (fmul remaining (r_multiple (bt_direction k (pget pos ''direction'' PNone)) entry stop price))) partials False (Some price)
           = Ok m
     | None \<Rightarrow> stop_or_targets k pos row config (bt_direction k (pget pos ''direction'' PNone)) entry stop current ts remaining realized partials = Ok m"
    show thesis
    proof (cases timed)
      case (Some reason)
      with h(3) show thesis by (auto intro: shutc)
    next
      case None
      with h(3) targets [OF h(1) _ h(2)] show thesis
        unfolding stop_or_targets_def Let_def by (auto elim!: rbind_InrE split: if_splits intro: shutc)
    qed
  qed
next
  case False
  then have "\<And>status. m = untouched pos status \<Longrightarrow> thesis" using kept by (simp add: untouched_def)
  with assms False show thesis
    unfolding simulate_trade_management_def Let_def readable_def
    by (elim rbind_InrE) (auto split: option.splits if_splits elim!: rbind_InrE)
qed

text \<open>While a position stays open its open share never grows and never falls below zero, if no target takes a negative share.\<close>

theorem open_share_shrinks:
  assumes "simulate_trade_management k pos row config = Ok m" "mg_closed m = None"
    "to_float (ck_text k) (pget pos ''remaining_percent'' (PFloat (Fin 1))) = Ok (Fin q)" "rnd q = Fin q" "0 \<le> q"
    "targets_from_position k pos = Ok ts" "\<forall>t\<in>set ts. fle (Fin 0) (tg_percent t)"
  shows "\<exists>q'. to_float (ck_text k) (pget (mg_position m) ''remaining_percent'' (PFloat (Fin 1))) = Ok (Fin q') \<and> 0 \<le> q' \<and> q' \<le> q"
  using assms(1)
proof (cases rule: manage_targets)
  case (targets side entry stop lh ts' remaining realized partials)
  show ?thesis
  proof (rule take_targets_cases [OF targets(2)])
    fix us b' p
    assume b: "book_targets k side entry stop row (map (\<lambda>t. (t, \<not> tg_filled t \<and> target_touched side (tg_price t) lh)) ts')
        \<lparr>bk_remaining = remaining, bk_realized = realized, bk_partials = partials, bk_events = [], bk_position = pos\<rparr> = Ok (us, b')"
      "p = dict_update (bk_position b') [(''targets'', PList (map target_dict us)),
        (''remaining_percent'', PFloat (py_max (Fin 0) (bk_remaining b'))), (''realized_R'', PFloat (py_round (bk_realized b') 5)),
        (''partials'', PList (bk_partials b'))]"
      "case mg_closed m of None \<Rightarrow> mg_position m = p
       | Some t \<Rightarrow> closed_trade k p row FinalTarget (bk_realized b') (bk_partials b') False None = Ok t"
    from book_targets_share [OF b(1), of q] assms(3-7) targets(1,3) obtain q' where
      "bk_remaining b' = Fin q'" "0 \<le> q'" "q' \<le> q" by auto
    with b(2,3) assms(2) show ?thesis by (auto simp: pget_dict_update py_max_def)
  qed
qed (use assms in auto)


subsection \<open>A written order reads back\<close>

text \<open>\<open>fromisoformat\<close> reads what \<open>isoformat\<close> writes of this time.\<close>

definition iso_reads :: "clock \<Rightarrow> datetime \<Rightarrow> bool" where
  "iso_reads k t \<longleftrightarrow> ck_show k t \<noteq> [] \<and> parse_time k (PStr (ck_show k t)) = Ok (Some t)"

definition target_core :: "bt_target \<Rightarrow> string \<times> pyfloat \<times> pyfloat \<times> bool" where
  "target_core t = (tg_name t, tg_price t, tg_percent t, tg_filled t)"

definition order_core :: "bt_order \<Rightarrow> (string \<times> string \<times> bias \<times> bt_order_type) \<times> (datetime \<times> datetime \<times> pyfloat \<times> pyfloat) \<times> (string \<times> pyfloat \<times> pyfloat \<times> bool) list" where
  "order_core r = ((bo_id r, bo_symbol r, bo_direction r, bo_type r), (bo_signal_time r, bo_valid_from r, bo_entry r, bo_stop r),
     map target_core (bo_targets r))"

lemma direction_words [simp]: "bt_direction k (PStr (bias_value d)) = d"
proof -
  have "py_lower (py_strip ''bullish'') = ''bullish''" "py_lower (py_strip ''bearish'') = ''bearish''" "py_lower (py_strip ''none'') = ''none''"
    by code_simp+
  then show ?thesis by (cases d) (simp_all add: bt_direction_def py_or_def)
qed

lemma order_type_words [simp]: "read_order_type k (PStr (order_type_value t)) = t"
proof -
  have "py_lower (py_strip ''limit_order'') = ''limit_order''" "py_lower (py_strip ''market_order'') = ''market_order''"
    by code_simp+
  then show ?thesis by (cases t) (simp_all add: read_order_type_def py_or_def)
qed

lemma read_target_back: "tg_name t \<noteq> [] \<Longrightarrow> \<exists>t'. read_target k i (target_dict t) = Ok (Some t') \<and> target_core t' = target_core t"
  by (simp add: read_target_def target_dict_def pget_dict_update py_or_def target_core_def)

lemma read_targets_back:
  "\<forall>t\<in>set ts. tg_name t \<noteq> [] \<Longrightarrow> \<exists>us. read_targets k i (map target_dict ts) = Ok us \<and> map target_core us = map target_core ts"
proof (induction ts arbitrary: i)
  case (Cons t ts)
  from Cons.prems read_target_back [of t k i] obtain t' where "read_target k i (target_dict t) = Ok (Some t')" "target_core t' = target_core t" by auto
  with Cons.IH [of "Suc i"] Cons.prems show ?case by auto
qed simp

lemma written_fields [simp]:
  "pget (order_output k r) ''order_id'' x = PStr (bo_id r)" "pget (order_output k r) ''symbol'' x = PStr (bo_symbol r)"
  "pget (order_output k r) ''direction'' x = PStr (bias_value (bo_direction r))"
  "pget (order_output k r) ''order_type'' x = PStr (order_type_value (bo_type r))"
  "pget (order_output k r) ''signal_time'' x = PStr (ck_show k (bo_signal_time r))"
  "pget (order_output k r) ''valid_from_time'' x = PStr (ck_show k (bo_valid_from r))"
  "pget (order_output k r) ''entry_price'' x = PFloat (bo_entry r)" "pget (order_output k r) ''stop_loss'' x = PFloat (bo_stop r)"
  "pget (order_output k r) ''targets'' x = PList (map target_dict (bo_targets r))"
  "pget (order_output k r) ''setup_context'' x = PDict (bo_setup r)" "pget (order_output k r) ''expiry_time'' x = iso_val k (bo_expiry r)"
  "pget (order_output k r) ''expiration_time'' x = x" "pget (order_output k r) ''valid_until'' x = x" "pget (order_output k r) ''target_ladder'' x = x"
  by (simp_all add: pget_carried carried_keys_def order_fields_def)

lemma read_written_expiry:
  assumes "iso_reads k x" "bo_expiry r = Some x"
  shows "order_expiry_time k (order_output k r) [] t = Ok (Some x)"
  using assms by (simp add: order_expiry_time_def explicit_expiry_def Let_def py_or_def iso_val_def iso_reads_def)

lemma read_written_order:
  assumes "iso_reads k (bo_signal_time r)" "iso_reads k (bo_valid_from r)" "bo_id r \<noteq> []" "bo_targets r \<noteq> []"
    "\<forall>t\<in>set (bo_targets r). tg_name t \<noteq> []" "order_expiry_time k (order_output k r) [] (bo_signal_time r) = Ok x"
  shows "\<exists>r'. normalize_order k (order_output k r) [] = Ok r' \<and> order_core r' = order_core r \<and> bo_expiry r' = x"
proof -
  obtain us where us: "read_targets k 0 (map target_dict (bo_targets r)) = Ok us" "map target_core us = map target_core (bo_targets r)"
    using read_targets_back [OF assms(5)] by blast
  then have "normalize_targets k (py_or (py_or (PList (map target_dict (bo_targets r))) PNone) (PDict (order_output k r))) = Ok us"
    using assms(4) by (simp add: py_or_def normalize_targets_def)
  with assms us show ?thesis
    by (simp add: normalize_order_def Let_def py_or_def iso_reads_def order_core_def)
qed

text \<open>C25. An order as it is written reads back with its identity, direction, times, prices, targets and its expiry.\<close>

theorem order_roundtrip:
  assumes "iso_reads k (bo_signal_time r)" "iso_reads k (bo_valid_from r)" "bo_expiry r = Some x" "iso_reads k x"
    "bo_id r \<noteq> []" "bo_targets r \<noteq> []" "\<forall>t\<in>set (bo_targets r). tg_name t \<noteq> []"
  shows "\<exists>r'. normalize_order k (order_output k r) [] = Ok r' \<and> order_core r' = order_core r \<and> bo_expiry r' = bo_expiry r"
  using read_written_order [OF assms(1,2,5-7) read_written_expiry [OF assms(4,3)]] assms(3) by simp

text \<open>An order that should never expire (\<open>max_pending_minutes\<close> of 0) is read back with an expiry of twenty minutes, the default of a
  configuration that is not passed on.\<close>

lemma unlimited_order_expires:
  assumes "iso_reads k (bo_signal_time r)" "iso_reads k (bo_valid_from r)" "bo_expiry r = None"
    "\<forall>key\<in>{''expiry_time'', ''expiration_time'', ''valid_until''}. pget (bo_setup r) key PNone = PNone"
    "bo_id r \<noteq> []" "bo_targets r \<noteq> []" "\<forall>t\<in>set (bo_targets r). tg_name t \<noteq> []"
  shows "\<exists>r'. normalize_order k (order_output k r) [] = Ok r' \<and> bo_expiry r' = Some (dt_add (bo_signal_time r) (20 * 60000000))"
proof -
  have "minutes_delta (Fin 20) = Ok (20 * 60000000)" by (simp add: minutes_delta_def)
  then have "order_expiry_time k (order_output k r) [] (bo_signal_time r) = Ok (Some (dt_add (bo_signal_time r) (20 * 60000000)))"
    using assms(3,4) by (simp add: order_expiry_time_def explicit_expiry_def Let_def py_or_def iso_val_def parse_time_def)
  from read_written_order [OF assms(1,2,5-7) this] show ?thesis by blast
qed

subsection \<open>Exits that never happen\<close>

text \<open>The rows of a run have no session, so a run never closes a trade at the end of its session, whatever its configuration says.\<close>

lemma run_rows_have_no_session:
  assumes "execution_candles k data cfg = Ok rows" "row \<in> set rows"
  shows "time_exit_reason k pos row config \<noteq> Ok (Some SessionClose)"
proof -
  from assms obtain tf c where "row = mtf_row k tf c"
    by (auto simp: execution_candles_def clean_ohlcv_data_def Let_def rmap_Inr_iff elim!: rbind_InrE)
  then have "pget row ''session_name'' PNone = PNone" by (simp add: mtf_row_def)
  then show ?thesis
    by (auto simp: time_exit_reason_def Let_def py_or_def elim!: rbind_InrE split: option.splits if_splits)
qed

text \<open>The break-even settings of a signal are not written into its order.\<close>

lemma breakeven_settings_dropped:
  assumes "place_pending_order k signal cfg = Ok d"
  shows "pget (position_from_fill d f) ''breakeven_after_rr'' x = PNone
    \<and> pget (position_from_fill d f) ''move_stop_to_be_after_target_1'' x = PBool True
    \<and> pget (position_from_fill d f) ''move_stop_to_be_after_target_index'' x = PInt 1
    \<and> pget (position_from_fill d f) ''breakeven_buffer_price'' x = PFloat (Fin 0)"
  using assms
  by (auto simp: place_pending_order_def rmap_Inr_iff position_from_fill_def pget_dict_update pget_carried order_fields_def carried_keys_def)

end
