(* ===== verification/IctReport.thy ===== *)
theory IctReport
  imports IctBacktestLaws
begin

section \<open>The report of a backtest (src/backtest/ict_smc_backtest.py)\<close>

text \<open>
  Metrics in multiples of the initial risk, the warnings of the deployment gate, the profit factor by session and the score buckets, and
  \<open>run_backtest\<close>, which adds them to the logs.
\<close>

subsection \<open>Metrics\<close>

fun max_streak_from :: "(pyfloat \<Rightarrow> bool) \<Rightarrow> nat \<Rightarrow> nat \<Rightarrow> pyfloat list \<Rightarrow> nat" where
  "max_streak_from hit best current [] = best"
| "max_streak_from hit best current (x # xs) =
     (let c = (if hit x then Suc current else 0) in max_streak_from hit (max best c) c xs)"

definition bt_max_streak :: "bool \<Rightarrow> pyfloat list \<Rightarrow> nat" where
  "bt_max_streak positive xs = max_streak_from (\<lambda>v. if positive then flt (Fin 0) v else flt v (Fin 0)) 0 0 xs"

fun drawdown_from :: "pyfloat \<Rightarrow> pyfloat \<Rightarrow> pyfloat \<Rightarrow> pyfloat list \<Rightarrow> pyfloat" where
  "drawdown_from equity peak worst [] = worst"
| "drawdown_from equity peak worst (v # vs) =
     (let e = fadd equity v; p = py_max peak e in drawdown_from e p (py_min worst (fsub e p)) vs)"

definition py_median :: "pyfloat list \<Rightarrow> pyfloat" where
  "py_median xs =
     (let s = sort_by flt xs; n = length xs
      in if odd n then s ! (n div 2) else fdiv (fadd (s ! (n div 2 - 1)) (s ! (n div 2))) (Fin 2))"

definition share_of :: "nat \<Rightarrow> nat \<Rightarrow> pyfloat" where
  "share_of a n = (if n = 0 then Fin 0 else py_round (fdiv (fof_int (int a)) (fof_int (int n))) 5)"

definition mean_or_0 :: "pyfloat list \<Rightarrow> pyfloat" where
  "mean_or_0 xs = (if xs = [] then Fin 0 else py_round (py_mean xs) 5)"

definition profit_ratio :: "pyfloat \<Rightarrow> pyfloat \<Rightarrow> pyfloat option" where
  "profit_ratio gain loss = (if loss = Fin 0 then None else Some (py_round (fdiv gain loss) 5))"

record bt_metrics =
  bm_total :: nat
  bm_wins :: nat
  bm_losses :: nat
  bm_breakevens :: nat
  bm_win_rate :: pyfloat
  bm_loss_rate :: pyfloat
  bm_average_win :: pyfloat
  bm_average_loss :: pyfloat
  bm_average_trade :: pyfloat
  bm_median_trade :: pyfloat
  bm_net :: pyfloat
  bm_gross_profit :: pyfloat
  bm_gross_loss :: pyfloat
  bm_profit_factor :: "pyfloat option"
  bm_expectancy :: pyfloat
  bm_max_drawdown :: pyfloat
  bm_max_wins :: nat
  bm_max_losses :: nat
  bm_target_1_rate :: pyfloat
  bm_final_rate :: pyfloat
  bm_ambiguous :: nat

text \<open>\<open>any(p.get("target") == "target_1" for p in partials)\<close>\<close>

definition hit_target_1 :: "pydict \<Rightarrow> bool res" where
  "hit_target_1 t =
     rbind (py_iter (pget t ''partials'' (PList []))) (\<lambda>ps.
     res_any (\<lambda>p. case p of PDict d \<Rightarrow> Ok (pget d ''target'' PNone = PStr ''target_1'') | _ \<Rightarrow> Raise AttributeError) ps)"

definition metrics_of :: "pyfloat list \<Rightarrow> pydict list \<Rightarrow> bool list \<Rightarrow> bt_metrics" where
  "metrics_of values trades hits =
     (let wins = filter (flt (Fin 0)) values; losses = filter (\<lambda>v. flt v (Fin 0)) values; n = length values;
          gain = py_sum wins; loss = fabs (py_sum losses)
      in \<lparr>bm_total = n, bm_wins = length wins, bm_losses = length losses,
          bm_breakevens = length (filter (\<lambda>v. flt (fabs v) (lit (1 / 1000000000))) values), bm_win_rate = share_of (length wins) n,
          bm_loss_rate = share_of (length losses) n, bm_average_win = mean_or_0 wins, bm_average_loss = mean_or_0 losses,
          bm_average_trade = mean_or_0 values, bm_median_trade = (if values = [] then Fin 0 else py_round (py_median values) 5),
          bm_net = py_round (py_sum values) 5, bm_gross_profit = py_round gain 5, bm_gross_loss = py_round loss 5,
          bm_profit_factor = profit_ratio gain loss, bm_expectancy = mean_or_0 values,
          bm_max_drawdown = py_round (fabs (drawdown_from (Fin 0) (Fin 0) (Fin 0) values)) 5,
          bm_max_wins = bt_max_streak True values, bm_max_losses = bt_max_streak False values,
          bm_target_1_rate = share_of (length (filter id hits)) n,
          bm_final_rate = share_of (length (filter (\<lambda>t. pget t ''final_exit_reason'' PNone = PStr (exit_value FinalTarget)) trades)) n,
          bm_ambiguous = length (filter (\<lambda>t. py_truthy (pget t ''ambiguous_exit'' (PBool False))) trades)\<rparr>)"

definition realized_of :: "clock \<Rightarrow> pydict \<Rightarrow> pyfloat res" where
  "realized_of k t = to_float (ck_text k) (pget t ''realized_R'' (PFloat (Fin 0)))"

definition calculate_performance_metrics :: "clock \<Rightarrow> pydict list \<Rightarrow> bt_metrics res" where
  "calculate_performance_metrics k entries =
     rbind (res_map (record_trade k) entries) (\<lambda>trades.
     rbind (res_map (realized_of k) trades) (\<lambda>values.
     rmap (metrics_of values trades) (res_map hit_target_1 trades)))"

subsection \<open>Groups\<close>

text \<open>\<open>groups.setdefault(group, []).append(value)\<close>\<close>

definition add_to_group :: "string \<Rightarrow> 'a \<Rightarrow> (string \<times> 'a list) list \<Rightarrow> (string \<times> 'a list) list" where
  "add_to_group g x gs = AList.update g ((case map_of gs g of Some xs \<Rightarrow> xs | None \<Rightarrow> []) @ [x]) gs"

definition group_factor :: "pyfloat list \<Rightarrow> pyfloat option" where
  "group_factor values =
     profit_ratio (py_sum (filter (flt (Fin 0)) values)) (fabs (py_sum (filter (\<lambda>v. flt v (Fin 0)) values)))"

definition profit_factor_by_key :: "clock \<Rightarrow> pydict list \<Rightarrow> string \<Rightarrow> (string \<times> pyfloat option) list res" where
  "profit_factor_by_key k entries key =
     rmap (map (\<lambda>(g, vs). (g, group_factor vs)))
       (res_fold (\<lambda>t gs. rmap (\<lambda>r. add_to_group (to_str (ck_text k) (py_or (pget t key PNone) (PStr ''None''))) r gs) (realized_of k t)) entries [])"

text \<open>\<open>int(score // 5 * 5)\<close>\<close>

definition bucket_floor :: "pyfloat \<Rightarrow> int res" where
  "bucket_floor score =
     (case score of
        Fin q \<Rightarrow> (case fmul (rnd (of_int \<lfloor>q / 5\<rfloor>)) (Fin 5) of Fin r \<Rightarrow> Ok \<lfloor>r\<rfloor> | _ \<Rightarrow> Raise OverflowError)
      | _ \<Rightarrow> Raise (ValueError ''cannot convert float NaN to integer''))"

definition bucket_label :: "int \<Rightarrow> string" where
  "bucket_label lower = int_str lower @ ''-'' @ int_str (lower + 4)"

definition add_score :: "clock \<Rightarrow> pydict \<Rightarrow> (string \<times> pyfloat list) list \<Rightarrow> (string \<times> pyfloat list) list res" where
  "add_score k t gs =
     rbind (float_or_none k (py_or (pget t ''confidence_score'' PNone) (pget t ''setup_score'' PNone))) (\<lambda>score.
     case score of
       None \<Rightarrow> Ok gs
     | Some s \<Rightarrow> rbind (bucket_floor s) (\<lambda>lower. rmap (\<lambda>r. add_to_group (bucket_label lower) r gs) (realized_of k t)))"

record score_bucket =
  sb_trades :: nat
  sb_net :: pyfloat
  sb_expectancy :: pyfloat

definition score_bucket_summary :: "clock \<Rightarrow> pydict list \<Rightarrow> (string \<times> score_bucket) list res" where
  "score_bucket_summary k entries =
     rmap (\<lambda>gs. map (\<lambda>(l, vs). (l, \<lparr>sb_trades = length vs, sb_net = py_round (py_sum vs) 5, sb_expectancy = mean_or_0 vs\<rparr>))
            (sort_by (\<lambda>a b. str_less (fst a) (fst b)) gs))
       (res_fold (add_score k) entries [])"

definition pair_less :: "int \<times> pyfloat \<Rightarrow> int \<times> pyfloat \<Rightarrow> bool" where
  "pair_less a b = (fst a < fst b \<or> fst a = fst b \<and> flt (snd a) (snd b))"

fun falls_back :: "(int \<times> pyfloat) list \<Rightarrow> bool" where
  "falls_back (a # b # xs) = (flt (fadd (snd b) (lit (5 / 100))) (snd a) \<or> falls_back (b # xs))"
| "falls_back _ = False"

definition score_buckets_non_monotonic :: "clock \<Rightarrow> pydict list \<Rightarrow> bool res" where
  "score_buckets_non_monotonic k entries =
     rbind (score_bucket_summary k entries) (\<lambda>summary.
     if length summary < 3 then Ok False
     else rmap (\<lambda>xs. falls_back (sort_by pair_less xs))
       (res_map (\<lambda>(l, b). rmap (\<lambda>i. (i, sb_expectancy b)) (px_int (ck_text k) (takeWhile (\<lambda>c. c \<noteq> CHR ''-'') l))) summary))"

definition reason_counts :: "clock \<Rightarrow> pydict list \<Rightarrow> (string \<times> int) list" where
  "reason_counts k skipped =
     fold (\<lambda>d m. let r = to_str (ck_text k) (pget d ''reason'' (PStr ''unknown''))
                 in AList.update r ((case map_of m r of Some n \<Rightarrow> n | None \<Rightarrow> 0) + 1) m) skipped []"

definition top_reasons :: "clock \<Rightarrow> pydict list \<Rightarrow> (string \<times> int) list" where
  "top_reasons k skipped =
     sort_by (\<lambda>a b. snd b < snd a \<or> snd a = snd b \<and> str_less (fst a) (fst b)) (reason_counts k skipped)"

subsection \<open>The report\<close>

record bt_report =
  br_metrics :: bt_metrics
  br_by_session :: "(string \<times> pyfloat option) list"
  br_by_killzone :: "(string \<times> pyfloat option) list"
  br_buckets :: "(string \<times> score_bucket) list"
  br_skipped :: nat
  br_reasons :: "(string \<times> int) list"
  br_warnings :: "string list"

definition warn :: "bool \<Rightarrow> string \<Rightarrow> string list" where
  "warn b w = (if b then [w] else [])"

text \<open>The warnings that come from the metrics.\<close>

definition metric_warnings :: "bt_metrics \<Rightarrow> bool \<Rightarrow> int \<Rightarrow> pyfloat \<Rightarrow> pyfloat \<Rightarrow> string list" where
  "metric_warnings m calendar sample min_factor max_dd =
     warn (\<not> calendar) ''missing_news_calendar_for_xauusd'' @ warn (int (bm_total m) < sample) ''small_sample_size''
     @ warn (bm_ambiguous m \<noteq> 0) ''ambiguous_ohlc_exits_used_conservative_stop_first''
     @ warn (case bm_profit_factor m of None \<Rightarrow> True | Some f \<Rightarrow> flt f min_factor) ''deployment_gate_profit_factor_below_1_2''
     @ warn (fle (bm_expectancy m) (Fin 0)) ''deployment_gate_expectancy_not_positive''
     @ warn (fle (bm_net m) (Fin 0)) ''deployment_gate_net_R_not_positive''
     @ warn (flt max_dd (bm_max_drawdown m)) ''deployment_gate_max_drawdown_too_high''"

definition rr_warnings :: "pyfloat option list \<Rightarrow> pyfloat \<Rightarrow> string list" where
  "rr_warnings rrs min_rr =
     warn (list_ex (\<lambda>v. case v of Some x \<Rightarrow> flt x min_rr | None \<Rightarrow> False) rrs) ''deployment_gate_final_rr_below_minimum''
     @ warn (list_ex (\<lambda>v. v = None) rrs) ''post_cost_rr_missing_from_some_trades''"

definition weak_sessions :: "(string \<times> pyfloat option) list \<Rightarrow> string list" where
  "weak_sessions by_session =
     sort_by str_less (map fst (filter (\<lambda>(_, f). case f of None \<Rightarrow> True | Some x \<Rightarrow> flt x (Fin 1)) by_session))"

definition report_warnings :: "string list \<Rightarrow> string list \<Rightarrow> bool \<Rightarrow> string list \<Rightarrow> bool \<Rightarrow> string list" where
  "report_warnings of_metrics of_rr long weak falls = dedupe_from []
     (of_metrics @ of_rr @ warn long ''deployment_gate_duration_outliers_present''
      @ warn (weak \<noteq> []) (''deployment_gate_session_pf_below_1:'' @ py_join ''|'' weak)
      @ warn falls ''deployment_gate_score_buckets_non_monotonic'')"

definition generate_backtest_report :: "clock \<Rightarrow> pydict list \<Rightarrow> pydict list \<Rightarrow> pydict \<Rightarrow> bt_report res" where
  "generate_backtest_report k entries skipped cfg =
     (let num = \<lambda>key d. to_float (ck_text k) (pget cfg key (PFloat d))
      in rbind (calculate_performance_metrics k entries) (\<lambda>m.
         rbind (to_int (ck_text k) (pget cfg ''minimum_sample_trades'' (PInt 30))) (\<lambda>sample.
         rbind (if bm_profit_factor m = None then Ok (Fin 0) else num ''minimum_profit_factor'' (lit (12/10))) (\<lambda>min_factor.
         rbind (num ''maximum_drawdown_R'' (Fin 10)) (\<lambda>max_dd.
         rbind (res_map (\<lambda>t. float_or_none k (pget t ''post_cost_rr'' PNone)) entries) (\<lambda>rrs.
         rbind (if list_ex (\<lambda>v. v \<noteq> None) rrs then num ''minimum_rr'' (Fin 3) else Ok (Fin 3)) (\<lambda>min_rr.
         rbind (res_any (\<lambda>t. rbind (float_or k (pget t ''duration_min'' PNone) (Fin 0)) (\<lambda>x.
                  rmap (\<lambda>limit. flt limit x) (num ''duration_outlier_minutes'' (Fin 240)))) entries) (\<lambda>long.
         rbind (profit_factor_by_key k entries ''session_name'') (\<lambda>by_session.
         rbind (score_buckets_non_monotonic k entries) (\<lambda>falls.
         rbind (profit_factor_by_key k entries ''killzone_name'') (\<lambda>by_killzone.
         rmap (\<lambda>buckets. \<lparr>br_metrics = m, br_by_session = by_session, br_by_killzone = by_killzone, br_buckets = buckets,
             br_skipped = length skipped, br_reasons = top_reasons k skipped,
             br_warnings = report_warnings
               (metric_warnings m (py_truthy (pget cfg ''news_calendar_loaded'' (PBool False))) sample min_factor max_dd)
               (rr_warnings rrs min_rr) long (weak_sessions by_session) falls\<rparr>)
           (score_bucket_summary k entries))))))))))))"

definition run_backtest :: "clock \<Rightarrow> pydict \<Rightarrow> pydict \<Rightarrow> (bt_state \<times> bt_report) res" where
  "run_backtest k data cfg =
     rbind (backtest_logs k data cfg) (\<lambda>s.
     rbind (config_of (pget cfg ''report'' (PDict []))) (\<lambda>rc.
     rmap (\<lambda>r. (s, r)) (generate_backtest_report k (bt_trades s) (bt_skipped s) rc)))"


subsection \<open>Wins, losses and break-evens\<close>

text \<open>A result rounded to five digits, as every trade of a run has.\<close>

definition rounded_r :: "pyfloat \<Rightarrow> bool" where
  "rounded_r v \<longleftrightarrow> (\<exists>q. v = py_round (Fin q) 5 \<and> is_fin v)"

lemma rounded_small_is_zero:
  assumes "rounded_r v" "flt (fabs v) (lit (1 / 1000000000))"
  shows "v = Fin 0"
proof -
  from assms(1) obtain q where v: "v = rnd (of_int (rhe (q * 10 ^ 5)) / 10 ^ 5)" by (auto simp: rounded_r_def)
  define n where "n = rhe (q * 10 ^ 5)"
  have pos: "\<not> flt (rnd (of_int m / 10 ^ 5)) (lit (1 / 1000000000))" if "1 \<le> m" for m :: int
  proof -
    have "fle (lit (1 / 1000000000)) (rnd (of_int m / 10 ^ 5))" using that by (intro rnd_mono) simp
    then show ?thesis by (rule fle_not_flt)
  qed
  consider "n = 0" | "1 \<le> n" | "1 \<le> - n" by linarith
  then show ?thesis
  proof cases
    case 1
    then show ?thesis by (simp add: v n_def)
  next
    case 2
    then have "fabs v = v" using rnd_nonneg [of "of_int n / 10 ^ 5"] by (cases v) (auto simp: v n_def)
    with assms(2) pos [OF 2] show ?thesis by (simp add: v n_def)
  next
    case 3
    have "v = fneg (rnd (of_int (- n) / 10 ^ 5))" using rnd_uminus [of "of_int (- n) / 10 ^ 5"] by (simp add: v n_def)
    moreover have "fle (Fin 0) (rnd (of_int (- n) / 10 ^ 5))" using 3 by (intro rnd_nonneg) simp
    ultimately have "fabs v = rnd (of_int (- n) / 10 ^ 5)" by (cases "rnd (of_int (- n) / 10 ^ 5)") auto
    with assms(2) pos [OF 3] show ?thesis by simp
  qed
qed

text \<open>Wins, losses and break-evens of rounded results add up to the number of trades.\<close>

theorem outcomes_add_up:
  assumes "calculate_performance_metrics k entries = Ok m"
    "\<forall>t\<in>set entries. \<exists>v. pget t ''realized_R'' (PFloat (Fin 0)) = PFloat v \<and> rounded_r v"
  shows "bm_wins m + bm_losses m + bm_breakevens m = bm_total m \<and> bm_total m = length entries"
proof -
  from assms(1) obtain trades vals hits where h: "res_map (record_trade k) entries = Ok trades" "res_map (realized_of k) trades = Ok vals"
      "m = metrics_of vals trades hits"
    by (auto simp: calculate_performance_metrics_def rmap_Inr_iff elim!: rbind_InrE)
  have len: "length vals = length entries" using h(1,2) by (simp add: res_map_length)
  have "rounded_r v" if "v \<in> set vals" for v
  proof -
    from res_map_in [OF h(2) that] obtain t where t: "t \<in> set trades" "realized_of k t = Ok v" by blast
    from res_map_in [OF h(1) t(1)] obtain t0 where "t0 \<in> set entries" "record_trade k t0 = Ok t" by blast
    with assms(2) t(2) show ?thesis by (fastforce simp: realized_of_def recorded)
  qed
  moreover have "length (filter (flt (Fin 0)) vs) + length (filter (\<lambda>v. flt v (Fin 0)) vs)
      + length (filter (\<lambda>v. flt (fabs v) (lit (1 / 1000000000))) vs) = length vs" if "\<forall>v\<in>set vs. rounded_r v" for vs
    using that
  proof (induction vs)
    case (Cons v vs)
    then have v: "is_fin v" "flt (fabs v) (lit (1 / 1000000000)) \<Longrightarrow> v = Fin 0" using rounded_small_is_zero by (auto simp: rounded_r_def)
    have "flt (Fin 0) (lit (1 / 1000000000))" by (simp add: feval)
    with v Cons show ?case by (cases v) (auto simp: not_less)
  qed simp
  ultimately show ?thesis using h(3) len by (simp add: metrics_of_def Let_def)
qed

subsection \<open>Skip reasons\<close>

definition reason_of :: "clock \<Rightarrow> pydict \<Rightarrow> string" where
  "reason_of k d = to_str (ck_text k) (pget d ''reason'' (PStr ''unknown''))"

lemma reason_counts_snoc:
  "reason_counts k (ds @ [d]) = AList.update (reason_of k d) ((case map_of (reason_counts k ds) (reason_of k d) of Some n \<Rightarrow> n | None \<Rightarrow> 0) + 1)
     (reason_counts k ds)"
  by (simp add: reason_counts_def reason_of_def Let_def)

lemma reason_counts_spec:
  "distinct (map fst (reason_counts k ds))
   \<and> map_of (reason_counts k ds) r = (let n = length (filter (\<lambda>d. reason_of k d = r) ds) in if n = 0 then None else Some (int n))"
proof (induction ds rule: rev_induct)
  case (snoc d ds)
  then show ?case by (auto simp: reason_counts_snoc distinct_update update_conv Let_def split: option.splits if_splits)
qed (simp add: reason_counts_def)

text \<open>The top reasons name every reason once with the number of its records, the most frequent first.\<close>

theorem top_reasons_counted:
  "distinct (map fst (top_reasons k ds)) \<and> sorted_wrt (\<lambda>a b. snd b \<le> snd a) (top_reasons k ds)
   \<and> (\<forall>r n. (r, n) \<in> set (top_reasons k ds) \<longleftrightarrow> 0 < n \<and> n = int (length (filter (\<lambda>d. reason_of k d = r) ds)))"
proof -
  have "sorted_wrt (\<lambda>a b. snd b \<le> snd a) (top_reasons k ds)" unfolding top_reasons_def by (rule sort_by_sorted_rel) auto
  moreover have "distinct (map fst (top_reasons k ds))"
    using reason_counts_spec [of k ds] unfolding top_reasons_def by (intro distinct_sort_by) simp
  moreover have "(r, n) \<in> set (top_reasons k ds) \<longleftrightarrow> 0 < n \<and> n = int (length (filter (\<lambda>d. reason_of k d = r) ds))" for r n
  proof -
    have "(r, n) \<in> set (reason_counts k ds) \<longleftrightarrow> map_of (reason_counts k ds) r = Some n"
      by (rule map_of_eq_Some_iff [OF conjunct1 [OF reason_counts_spec], symmetric])
    with reason_counts_spec [of k ds r] show ?thesis by (auto simp: top_reasons_def Let_def split: if_splits)
  qed
  ultimately show ?thesis by blast
qed

subsection \<open>A gate that never fires\<close>

lemma no_rr_read: "no_rr t \<Longrightarrow> float_or_none k (pget t ''post_cost_rr'' PNone) = Ok None"
  by (simp add: no_rr_def)

lemma in_warn: "x \<in> set (warn b w) \<longleftrightarrow> b \<and> x = w"
  by (auto simp: warn_def)

lemma missing_rr:
  assumes "\<And>v. v \<in> set rrs \<Longrightarrow> v = None" "length rrs = length ts"
  shows "x \<in> set (rr_warnings rrs min_rr) \<longleftrightarrow> ts \<noteq> [] \<and> x = ''post_cost_rr_missing_from_some_trades''"
proof -
  have "list_ex P rrs \<longleftrightarrow> ts \<noteq> [] \<and> P None" for P
    using assms by (cases ts; cases rrs) (auto simp: list_ex_iff)
  from this [of "\<lambda>v. v = None"] this [of "\<lambda>v. case v of Some x \<Rightarrow> flt x min_rr | None \<Rightarrow> False"]
  show ?thesis by (simp add: rr_warnings_def in_warn)
qed

text \<open>C29. The reward after costs is unknown for every trade of a run: the report says so as soon as there is one, and the gate on it never fires.\<close>

theorem rr_gate_never_fires:
  assumes "run_backtest k data cfg = Ok (s, r)"
  shows "''deployment_gate_final_rr_below_minimum'' \<notin> set (br_warnings r)
    \<and> (bt_trades s \<noteq> [] \<longrightarrow> ''post_cost_rr_missing_from_some_trades'' \<in> set (br_warnings r))"
proof -
  from assms obtain rc where run: "backtest_logs k data cfg = Ok s" "generate_backtest_report k (bt_trades s) (bt_skipped s) rc = Ok r"
    by (auto simp: run_backtest_def rmap_Inr_iff elim!: rbind_InrE)
  have none: "list_all no_rr (bt_trades s)" by (rule logs_without_rr [OF run(1)])
  from run(2) have "\<exists>m cal sample f dd rrs min_rr long ws falls. res_map (\<lambda>t. float_or_none k (pget t ''post_cost_rr'' PNone)) (bt_trades s) = Ok rrs
      \<and> br_warnings r = report_warnings (metric_warnings m cal sample f dd) (rr_warnings rrs min_rr) long ws falls"
    unfolding generate_backtest_report_def Let_def rmap_def by (elim rbind_InrE) (force split: sum.splits)
  then obtain m cal sample f dd rrs min_rr long ws falls where
    rrs: "res_map (\<lambda>t. float_or_none k (pget t ''post_cost_rr'' PNone)) (bt_trades s) = Ok rrs"
    and w: "br_warnings r = report_warnings (metric_warnings m cal sample f dd) (rr_warnings rrs min_rr) long ws falls" by blast
  have "v = None" if v: "v \<in> set rrs" for v
  proof -
    from res_map_in [OF rrs v] none show ?thesis by (auto simp: list_all_iff no_rr_def)
  qed
  moreover have "length rrs = length (bt_trades s)" by (rule res_map_length [OF rrs])
  ultimately have rr: "x \<in> set (rr_warnings rrs min_rr) \<longleftrightarrow> bt_trades s \<noteq> [] \<and> x = ''post_cost_rr_missing_from_some_trades''" for x
    by (rule missing_rr)
  have distinct_words: "''deployment_gate_final_rr_below_minimum'' \<noteq> ''deployment_gate_session_pf_below_1:'' @ py_join ''|'' ws" by simp
  show ?thesis
    unfolding w report_warnings_def dedupe_from_set metric_warnings_def set_append Un_iff in_warn rr Diff_iff
    by (intro conjI impI) (use distinct_words in \<open>simp_all\<close>)
qed

end
