(* ===== verification/IctBacktestDemo.thy ===== *)
theory IctBacktestDemo
  imports IctReport
begin

section \<open>A run of the backtest\<close>

text \<open>
  Three five-minute candles and one buy limit at 100 with its stop at 98 and its target at 106. The second candle reaches the entry and falls
  through the stop, the third reaches the target. Times are written as one letter.
\<close>

definition bt_slots :: "(string \<times> int) list" where
  "bt_slots = [(''A'', 0), (''B'', 300000000), (''C'', 600000000), (''D'', 900000000), (''F'', 1500000000)]"

definition bt_clock :: clock where
  "bt_clock = \<lparr>ck_text = \<lparr>px_show = (\<lambda>_. []), px_float = (\<lambda>_. Raise (ValueError [])), px_g = (\<lambda>_. []),
       px_int = (\<lambda>s. if s = ''999'' then Ok 999 else Raise (ValueError []))\<rparr>,
     ck_iso = (\<lambda>s. case map_of bt_slots s of Some w \<Rightarrow> Ok (aware_utc w) | None \<Rightarrow> Raise (ValueError [])),
     ck_strp = (\<lambda>_. Raise (ValueError [])),
     ck_show = (\<lambda>d. case map_of (map (\<lambda>(s, w). (w, s)) bt_slots) (dt_wall d) of Some s \<Rightarrow> s | None \<Rightarrow> ''?'')\<rparr>"

definition bt_bar :: "int \<Rightarrow> rat \<Rightarrow> rat \<Rightarrow> rat \<Rightarrow> pyval" where
  "bt_bar w lo hi cl = PDict [(''timestamp'', PDt (aware_utc w)), (''open'', PFloat (Fin cl)), (''high'', PFloat (Fin hi)), (''low'', PFloat (Fin lo)),
     (''close'', PFloat (Fin cl))]"

definition bt_data :: pydict where
  "bt_data = [(''5M'', PList [bt_bar 0 104 106 105, bt_bar 300000000 97 105 104, bt_bar 600000000 103 107 104])]"

definition bt_signal :: pydict where
  "bt_signal = [(''order_id'', PStr ''S1''), (''direction'', PStr ''buy''), (''signal_time'', PDt (aware_utc 300000000)),
     (''entry_price'', PFloat (Fin 100)), (''stop_loss'', PFloat (Fin 98)),
     (''targets'', PList [PDict [(''name'', PStr ''final_target''), (''price'', PFloat (Fin 106)), (''close_percent'', PFloat (Fin 1))]])]"

definition bt_config :: pydict where
  "bt_config = [(''signals'', PList [PDict bt_signal])]"

definition bt_candle :: "int \<Rightarrow> int \<Rightarrow> rat \<Rightarrow> rat \<Rightarrow> rat \<Rightarrow> mtf_candle" where
  "bt_candle i w lo hi cl = \<lparr>mk_index = i, mk_time = aware_utc w, mk_close_time = aware_utc (w + 300000000), mk_open = Fin cl, mk_high = Fin hi,
     mk_low = Fin lo, mk_close = Fin cl, mk_volume = Fin 0, mk_closed = True\<rparr>"

definition bt_row :: "int \<Rightarrow> int \<Rightarrow> rat \<Rightarrow> rat \<Rightarrow> rat \<Rightarrow> pydict" where
  "bt_row i w lo hi cl = mtf_row bt_clock M5 (bt_candle i w lo hi cl)"

lemma bt_parse:
  "parse_time bt_clock (PStr ''A'') = Ok (Some (aware_utc 0))" "parse_time bt_clock (PStr ''B'') = Ok (Some (aware_utc 300000000))"
  "parse_time bt_clock (PStr ''C'') = Ok (Some (aware_utc 600000000))" "parse_time bt_clock (PStr ''D'') = Ok (Some (aware_utc 900000000))"
  "parse_time bt_clock (PStr ''F'') = Ok (Some (aware_utc 1500000000))" "parse_time bt_clock (PDt (aware_utc w)) = Ok (Some (aware_utc w))"
  "parse_time bt_clock PNone = Ok None"
proof -
  have "replace_z (py_strip ''A'') = ''A''" "replace_z (py_strip ''B'') = ''B''" "replace_z (py_strip ''C'') = ''C''"
    "replace_z (py_strip ''D'') = ''D''" "replace_z (py_strip ''F'') = ''F''" by code_simp+
  then show "parse_time bt_clock (PStr ''A'') = Ok (Some (aware_utc 0))" "parse_time bt_clock (PStr ''B'') = Ok (Some (aware_utc 300000000))"
    "parse_time bt_clock (PStr ''C'') = Ok (Some (aware_utc 600000000))" "parse_time bt_clock (PStr ''D'') = Ok (Some (aware_utc 900000000))"
    "parse_time bt_clock (PStr ''F'') = Ok (Some (aware_utc 1500000000))" "parse_time bt_clock (PDt (aware_utc w)) = Ok (Some (aware_utc w))"
    "parse_time bt_clock PNone = Ok None"
    by (simp_all add: parse_time_def bt_clock_def bt_slots_def assume_utc_def aware_utc_def)
qed

lemma bt_show:
  "ck_show bt_clock (aware_utc 0) = ''A''" "ck_show bt_clock (aware_utc 300000000) = ''B''" "ck_show bt_clock (aware_utc 600000000) = ''C''"
  "ck_show bt_clock (aware_utc 900000000) = ''D''" "ck_show bt_clock (aware_utc 1500000000) = ''F''"
  by (simp_all add: bt_clock_def bt_slots_def aware_utc_def)

lemma aware_facts [simp]: "dt_add (aware_utc w) u = aware_utc (w + u)" "dt_instant (aware_utc w) = w" "dt_comparable (aware_utc v) (aware_utc w)"
  by (simp_all add: dt_add_def aware_utc_def dt_instant_def dt_comparable_def)

lemma bt_prepared:
  "prepared bt_clock (PList [bt_bar 0 104 106 105, bt_bar 300000000 97 105 104, bt_bar 600000000 103 107 104]) M5
    = Ok [bt_candle 0 0 104 106 105, bt_candle 1 300000000 97 105 104, bt_candle 2 600000000 103 107 104]"
  by (simp add: prepared_def bt_bar_def normalize_candle_def Let_def py_or_def bt_parse bt_candle_def one_per_time_def sort_by_def)

lemma bt_timeframe: "timeframe_value ''5M'' = Ok M5"
proof -
  have "filter (\<lambda>c. c \<noteq> CHR ''_'' \<and> c \<noteq> CHR ''-'') (py_lower (py_strip ''5M'')) = ''5m''" by code_simp
  then show ?thesis by (simp add: timeframe_value_def)
qed

lemma bt_rows: "execution_candles bt_clock bt_data bt_config = Ok [bt_row 0 0 104 106 105, bt_row 1 300000000 97 105 104, bt_row 2 600000000 103 107 104]"
  by (simp add: execution_candles_def bt_data_def bt_config_def clean_ohlcv_data_def bt_timeframe bt_prepared bt_row_def)
    (simp add: bt_candle_def)


text \<open>The order that is written for the signal.\<close>

definition bt_target :: bt_target where
  "bt_target = \<lparr>tg_name = ''final_target'', tg_price = Fin 106, tg_percent = Fin 1, tg_filled = False,
     tg_rest = [(''name'', PStr ''final_target''), (''price'', PFloat (Fin 106)), (''close_percent'', PFloat (Fin 1))]\<rparr>"

definition bt_order1 :: bt_order where
  "bt_order1 = \<lparr>bo_id = ''S1'', bo_symbol = ''XAUUSD'', bo_direction = Bullish, bo_type = LimitOrder, bo_signal_time = aware_utc 300000000,
     bo_valid_from = aware_utc 300000000, bo_entry = Fin 100, bo_stop = Fin 98, bo_targets = [bt_target], bo_setup = bt_signal,
     bo_expiry = Some (aware_utc 1500000000)\<rparr>"

lemma minutes_20: "minutes_delta (Fin 20) = Ok 1200000000"
  by (simp add: minutes_delta_def)

lemma bt_words: "bt_direction bt_clock (PStr ''buy'') = Bullish" "read_order_type bt_clock (PStr ''limit_order'') = LimitOrder"
proof -
  have "py_lower (py_strip ''buy'') = ''buy''" "py_lower (py_strip ''limit_order'') = ''limit_order''" by code_simp+
  then show "bt_direction bt_clock (PStr ''buy'') = Bullish" "read_order_type bt_clock (PStr ''limit_order'') = LimitOrder"
    by (simp_all add: bt_direction_def read_order_type_def py_or_def)
qed

lemma bt_placed: "place_pending_order bt_clock bt_signal [] = Ok (order_output bt_clock bt_order1)"
  by (simp add: place_pending_order_def normalize_order_def Let_def bt_signal_def py_or_def bt_parse order_expiry_time_def explicit_expiry_def
      minutes_20 normalize_targets_def read_target_def bt_words)
    (simp add: bt_order1_def bt_target_def bt_signal_def)

lemma bt_reads: "iso_reads bt_clock (aware_utc 300000000)" "iso_reads bt_clock (aware_utc 1500000000)"
  by (simp_all add: iso_reads_def bt_show bt_parse)

lemma bt_read_back:
  obtains r where "normalize_order bt_clock (order_output bt_clock bt_order1) [] = Ok r" "order_core r = order_core bt_order1"
    "bo_expiry r = Some (aware_utc 1500000000)"
  using read_written_order [OF _ _ _ _ _ read_written_expiry [OF bt_reads(2), of bt_order1]] bt_reads by (auto simp: bt_order1_def bt_target_def)

lemma order_roundtrip_witness:
  "\<exists>r'. normalize_order bt_clock (order_output bt_clock bt_order1) [] = Ok r' \<and> order_core r' = order_core bt_order1 \<and> bo_expiry r' = bo_expiry bt_order1"
  by (rule order_roundtrip [of bt_clock bt_order1 "aware_utc 1500000000"])
    (simp_all add: bt_order1_def bt_target_def bt_reads)


definition bt_run1 :: bt_run where
  "bt_run1 = \<lparr>rn_data = bt_data, rn_management = [], rn_spread = [], rn_slippage = [], rn_orders = [], rn_all_timeframes = False\<rparr>"

lemma bt_config_fields: "pget bt_config ''signals'' x = PList [PDict bt_signal]" "pget bt_config ''close_open_positions_at_end'' x = x"
  by (simp_all add: bt_config_def)

lemma bt_read_run: "read_run bt_data bt_config = Ok bt_run1"
  by (simp add: read_run_def bt_config_def config_of_def bt_run1_def)

lemma bt_row_fields:
  "pget (bt_row i w lo hi cl) ''close_time'' x = PStr (ck_show bt_clock (aware_utc (w + 300000000)))"
  "pget (bt_row i w lo hi cl) ''timestamp'' x = PStr (ck_show bt_clock (aware_utc w))" "pget (bt_row i w lo hi cl) ''is_closed'' x = PBool True"
  "pget (bt_row i w lo hi cl) ''low'' x = PFloat (Fin lo)" "pget (bt_row i w lo hi cl) ''high'' x = PFloat (Fin hi)"
  "pget (bt_row i w lo hi cl) ''spread'' x = x" "pget (bt_row i w lo hi cl) ''slippage'' x = x" "pget (bt_row i w lo hi cl) ''session_name'' x = x"
  "pget (bt_row i w lo hi cl) ''close'' x = PFloat (Fin cl)"
  by (simp_all add: bt_row_def mtf_row_def bt_candle_def)

lemma bt_aligned: "\<exists>al. align_timeframes bt_clock bt_data (PDt (aware_utc 300000000)) = Ok al \<and> al_time al = Some (aware_utc 300000000)
    \<and> (M5, [bt_row 0 0 104 106 105]) \<in> set (al_slices al)"
proof -
  have names: "timeframe_value ''1D'' = Ok Daily" "timeframe_value ''1H'' = Ok H1" "timeframe_value ''15M'' = Ok M15"
  proof -
    have "filter (\<lambda>c. c \<noteq> CHR ''_'' \<and> c \<noteq> CHR ''-'') (py_lower (py_strip ''1D'')) = ''1d''"
      "filter (\<lambda>c. c \<noteq> CHR ''_'' \<and> c \<noteq> CHR ''-'') (py_lower (py_strip ''1H'')) = ''1h''"
      "filter (\<lambda>c. c \<noteq> CHR ''_'' \<and> c \<noteq> CHR ''-'') (py_lower (py_strip ''15M'')) = ''15m''" by code_simp+
    then show "timeframe_value ''1D'' = Ok Daily" "timeframe_value ''1H'' = Ok H1" "timeframe_value ''15M'' = Ok M15"
      by (simp_all add: timeframe_value_def)
  qed
  have none: "get_closed_candles_asof bt_clock (PList []) tf (Some t) = Ok []" if "timeframe_value (timeframe_name tf) = Ok tf" for tf t
    by (simp add: get_closed_candles_asof_def prepare_timeframe_data_def that prepared_def one_per_time_def sort_by_def)
  have some: "get_closed_candles_asof bt_clock (PList [bt_bar 0 104 106 105, bt_bar 300000000 97 105 104, bt_bar 600000000 103 107 104]) M5
      (Some (aware_utc 300000000)) = Ok [bt_row 0 0 104 106 105]"
    by (simp add: get_closed_candles_asof_def prepare_timeframe_data_def bt_timeframe bt_prepared bt_row_fields bt_show bt_parse dt_le_def
        flip: bt_row_def)
  show ?thesis
    by (simp add: align_timeframes_def bt_data_def bt_timeframe resolve_eval_time_def bt_parse rows_of_def none names some)
qed

lemma bt_first:
  "replay_candle bt_clock bt_run1 (Some next_row) (bt_row 0 0 104 106 105) (start_state [bt_signal])
     = Ok ((start_state [])\<lparr>bt_pending := [order_output bt_clock bt_order1]\<rparr>)"
proof -
  obtain al where al: "align_timeframes bt_clock bt_data (PDt (aware_utc 300000000)) = Ok al" using bt_aligned by blast
  have sig: "pget bt_signal ''signal_time'' x = PDt (aware_utc 300000000)" "pget bt_signal ''trade_allowed'' x = x"
    "pget bt_signal ''news_restricted'' x = x" for x by (simp_all add: bt_signal_def)
  have "take_signal bt_clock bt_run1 (aware_utc 300000000) (Some next_row) bt_signal = Ok (Queued (order_output bt_clock bt_order1))"
    by (simp add: take_signal_def sig bt_run1_def al bt_placed) (simp add: bt_order1_def)
  then show ?thesis
    by (simp add: replay_candle_def bt_row_fields bt_show bt_parse start_state_def sig settle_def)
qed

definition bt_fill1 :: bt_fill where
  "bt_fill1 = \<lparr>fl_order_id = ''S1'', fl_filled = True, fl_price = Some (Fin 100), fl_time = PStr ''C'', fl_reason = ''limit_touched_after_activation'',
     fl_ambiguous = True\<rparr>"

lemma bt_filled:
  "simulate_order_fill bt_clock (order_output bt_clock bt_order1) (bt_row 1 300000000 97 105 104) [] [] = Ok bt_fill1"
proof (rule bt_read_back)
  fix r
  assume r: "normalize_order bt_clock (order_output bt_clock bt_order1) [] = Ok r" "order_core r = order_core bt_order1"
    "bo_expiry r = Some (aware_utc 1500000000)"
  from r(2) have f: "bo_id r = ''S1''" "bo_direction r = Bullish" "bo_type r = LimitOrder" "bo_valid_from r = aware_utc 300000000"
    "bo_entry r = Fin 100" "bo_stop r = Fin 98" by (simp_all add: order_core_def bt_order1_def)
  have price: "apply_spread_slippage (Fin 100) Bullish (Fin 0) (Fin 0) True = Fin 100"
    by (simp add: apply_spread_slippage_def Let_def py_max_def feval)
  show ?thesis
    by (simp add: simulate_order_fill_def r(1,3) row_end_def bt_row_fields bt_show bt_parse py_or_def fill_blocked_def f cost_value_def try_fill_def
        low_high_def price stop_touched_def fill_result_def iso_val_def bt_fill1_def)
qed

text \<open>The order is filled on a candle that went through its stop, and the position stays open.\<close>

lemma bt_second:
  "replay_candle bt_clock bt_run1 (Some next_row) (bt_row 1 300000000 97 105 104) ((start_state [])\<lparr>bt_pending := [order_output bt_clock bt_order1]\<rparr>)
     = Ok ((start_state [])\<lparr>bt_open := [position_from_fill (order_output bt_clock bt_order1) bt_fill1]\<rparr>)"
  by (simp add: replay_candle_def bt_row_fields bt_show bt_parse start_state_def bt_run1_def bt_filled)
    (simp add: bt_fill1_def)


definition bt_position1 :: pydict where
  "bt_position1 = position_from_fill (order_output bt_clock bt_order1) bt_fill1"

lemma bt_position_fields:
  "pget bt_position1 ''direction'' x = PStr (bias_value Bullish)" "pget bt_position1 ''entry_price'' x = PFloat (Fin 100)"
  "pget bt_position1 ''stop_loss'' x = PFloat (Fin 98)" "pget bt_position1 ''current_stop'' x = PFloat (Fin 98)"
  "pget bt_position1 ''targets'' x = PList [target_dict bt_target]" "pget bt_position1 ''remaining_percent'' x = PFloat (Fin 1)"
  "pget bt_position1 ''realized_R'' x = PFloat (Fin 0)" "pget bt_position1 ''partials'' x = PList []" "pget bt_position1 ''entry_time'' x = PStr ''C''"
  "pget bt_position1 ''move_stop_to_be_after_target_1'' x = PBool True" "pget bt_position1 ''move_stop_to_be_after_target_index'' x = PInt 1"
  "pget bt_position1 ''setup_context'' x = PDict bt_signal" "pget bt_position1 ''confidence_score'' x = x"
  "pget bt_position1 ''breakeven_after_rr'' x = PNone" "pget bt_position1 ''breakeven_buffer_price'' x = PFloat (Fin 0)"
  by (simp_all add: bt_position1_def position_from_fill_def pget_dict_update pget_carried order_fields_def carried_keys_def bt_fill1_def float_val_def)
    (simp_all add: bt_order1_def bt_signal_def order_output_def order_fields_def carried_keys_def)

lemma bt_unscored: "pget bt_signal ''confidence_score'' x = x" "pget bt_signal ''setup_score'' x = x"
  by (simp_all add: bt_signal_def)

lemma bt_untimed: "time_exit_reason bt_clock bt_position1 (bt_row 2 600000000 103 107 104) [] = Ok None"
  by (simp add: time_exit_reason_def bt_position_fields row_end_def bt_row_fields bt_show bt_parse py_or_def parse_hhmm_def over_limit_def Let_def)

lemma bt_r: "r_multiple Bullish (Fin 100) (Fin 98) (Fin 106) = Fin 3"
  by (simp add: r_multiple_def risk_per_unit_def Let_def feval)

lemma bullish_word: "bt_direction k (PStr ''bullish'') = Bullish"
  using direction_words [of k Bullish] by simp

lemma bt_target_back:
  obtains t where "targets_from_position bt_clock bt_position1 = Ok [t]" "target_core t = (''final_target'', Fin 106, Fin 1, False)"
    "pget (tg_rest t) ''rr'' PNone = PNone"
  by (simp add: targets_from_position_def bt_position_fields normalize_targets_def read_target_def target_dict_def pget_dict_update py_or_def
      target_core_def bt_target_def)

lemma bt_booked:
  assumes "target_core t = (''final_target'', Fin 106, Fin 1, False)" "pget (tg_rest t) ''rr'' PNone = PNone"
  obtains b' d where "book_target bt_clock Bullish (Fin 100) (Fin 98) (bt_row 2 600000000 103 107 104) t
       \<lparr>bk_remaining = Fin 1, bk_realized = Fin 0, bk_partials = [], bk_events = [], bk_position = bt_position1\<rparr> = Ok b'"
    "bk_remaining b' = Fin 0" "bk_realized b' = Fin 3" "bk_partials b' = [PDict d]"
    "bk_position b' = AList.update ''current_stop'' (PFloat (Fin 100)) bt_position1"
proof -
  have "replace_from ''target_'' [] 0 (replace_from ''final_target'' ''999'' 0 ''final_target'') = ''999''" by code_simp
  then have index: "target_index bt_clock ''final_target'' = Ok 999" by (simp add: target_index_def bt_clock_def)
  from assms show thesis
    by (intro that)
      (auto simp: book_target_def target_core_def bt_position_fields index bt_r Let_def py_min_def py_or_def float_or_def feval)
qed


lemma closed_trade_exists:
  assumes "duration_minutes k (pget pos ''entry_time'' PNone) (row_end row) = Ok mins" "targets_from_position k pos = Ok ts"
    "exit_price_for k pos ts reason = Ok x" "pget pos ''entry_price'' (PFloat (Fin 0)) = PFloat a" "pget pos ''stop_loss'' (PFloat (Fin 0)) = PFloat b"
    "all_dicts ps = Ok us"
  shows "\<exists>t. closed_trade k pos row reason r ps amb None = Ok t"
  using assms by (simp add: closed_trade_def Let_def)

lemma bt_third:
  obtains m t where "simulate_trade_management bt_clock bt_position1 (bt_row 2 600000000 103 107 104) [] = Ok m" "mg_closed m = Some t"
    "pget t ''final_exit_reason'' PNone = PStr ''final_target''" "pget t ''realized_R'' PNone = PFloat (Fin 3)" "pget t ''result'' PNone = PStr ''win''"
    "\<exists>d. pget t ''partials'' PNone = PList [PDict d]" "pget t ''confidence_score'' PNone = PNone" "pget t ''setup_score'' PNone = PNone"
    "\<exists>x. pget t ''duration_min'' PNone = float_val x"
proof (rule bt_target_back)
  fix t
  assume t: "targets_from_position bt_clock bt_position1 = Ok [t]" "target_core t = (''final_target'', Fin 106, Fin 1, False)"
    "pget (tg_rest t) ''rr'' PNone = PNone"
  let ?row = "bt_row 2 600000000 103 107 104"
  show thesis
  proof (rule bt_booked [OF t(2,3)])
    fix b' d
    assume b: "book_target bt_clock Bullish (Fin 100) (Fin 98) ?row t
       \<lparr>bk_remaining = Fin 1, bk_realized = Fin 0, bk_partials = [], bk_events = [], bk_position = bt_position1\<rparr> = Ok b'"
      "bk_remaining b' = Fin 0" "bk_realized b' = Fin 3" "bk_partials b' = [PDict d]"
      "bk_position b' = AList.update ''current_stop'' (PFloat (Fin 100)) bt_position1"
    let ?pos = "dict_update (bk_position b') [(''targets'', PList (map target_dict [t\<lparr>tg_filled := True\<rparr>])),
       (''remaining_percent'', PFloat (py_max (Fin 0) (bk_remaining b'))), (''realized_R'', PFloat (py_round (bk_realized b') 5)),
       (''partials'', PList (bk_partials b'))]"
    have "\<exists>mins. duration_minutes bt_clock (pget ?pos ''entry_time'' PNone) (row_end ?row) = Ok mins"
      by (simp add: b pget_dict_update bt_position_fields row_end_def bt_row_fields bt_show bt_parse py_or_def duration_minutes_def dt_sub_def)
    moreover have "\<exists>ts. targets_from_position bt_clock ?pos = Ok ts"
      using t(2) by (simp add: b pget_dict_update targets_from_position_def normalize_targets_def read_target_def target_dict_def py_or_def
          target_core_def)
    ultimately have "\<exists>u. closed_trade bt_clock ?pos ?row FinalTarget (bk_realized b') (bk_partials b') False None = Ok u"
      using closed_trade_exists [of bt_clock ?pos ?row _ _ FinalTarget _ "Fin 100" "Fin 98" "bk_partials b'"]
      by (auto simp: b pget_dict_update bt_position_fields exit_price_for_def)
    then obtain u where u: "closed_trade bt_clock ?pos ?row FinalTarget (bk_realized b') (bk_partials b') False None = Ok u" by blast
    let ?m = "\<lparr>mg_position = AList.update ''closed'' (PBool True) ?pos, mg_events = bk_events b', mg_closed = Some u, mg_status = ''closed''\<rparr>"
    have small: "fle (Fin 0) (lit (1 / 1000000000))" by (simp add: feval)
    have "take_targets bt_clock Bullish (Fin 100) (Fin 98) ?row [(t, True)]
       \<lparr>bk_remaining = Fin 1, bk_realized = Fin 0, bk_partials = [], bk_events = [], bk_position = bt_position1\<rparr> = Ok ?m"
      using u by (simp add: take_targets_def b(1) Let_def small b(2))
    then have "simulate_trade_management bt_clock bt_position1 ?row [] = Ok ?m"
      using t(2) by (simp add: simulate_trade_management_def bt_position_fields t(1) risk_per_unit_def bt_untimed bullish_word stop_or_targets_def low_high_def Let_def
          bt_row_fields stop_touched_def target_touched_def target_core_def feval)
    moreover have "py_round (Fin 3) 5 = Fin 3" by (simp add: feval)
    ultimately show thesis
      using that [of ?m u] closed_trade_exit [OF u] closed_trade_scores [OF u]
      by (simp add: b(3,4,5) trade_result_def pget_dict_update bt_position_fields py_or_def bt_unscored)
  qed
qed


text \<open>The whole run: a fill that went through its stop is logged as a win of three times the risk.\<close>

lemma bt_logs:
  obtains t where "backtest_logs bt_clock bt_data bt_config = Ok ((start_state [])\<lparr>bt_trades := [t], bt_open := []\<rparr>)"
    "pget t ''final_exit_reason'' PNone = PStr ''final_target''" "pget t ''realized_R'' PNone = PFloat (Fin 3)" "pget t ''result'' PNone = PStr ''win''"
    "\<exists>d. pget t ''partials'' PNone = PList [PDict d]" "pget t ''confidence_score'' PNone = PNone" "pget t ''setup_score'' PNone = PNone"
    "\<exists>x. pget t ''duration_min'' PNone = float_val x"
proof (rule bt_third)
  fix m t
  assume m: "simulate_trade_management bt_clock bt_position1 (bt_row 2 600000000 103 107 104) [] = Ok m" "mg_closed m = Some t"
    and t: "pget t ''final_exit_reason'' PNone = PStr ''final_target''" "pget t ''realized_R'' PNone = PFloat (Fin 3)"
      "pget t ''result'' PNone = PStr ''win''" "\<exists>d. pget t ''partials'' PNone = PList [PDict d]" "pget t ''confidence_score'' PNone = PNone"
      "pget t ''setup_score'' PNone = PNone" "\<exists>x. pget t ''duration_min'' PNone = float_val x"
  have r3: "pget t ''realized_R'' x = PFloat (Fin 3)" for x using t(2) by (auto simp: pget_def split: option.splits)
  have rec: "record_trade bt_clock t = Ok (set_default ''notes'' (PList []) (set_default ''result'' (PStr (trade_result (Fin 3))) t))"
    by (simp add: record_trade_def r3)
  let ?t = "set_default ''notes'' (PList []) (set_default ''result'' (PStr (trade_result (Fin 3))) t)"
  have signals: "signals_in_order bt_clock (PList [PDict bt_signal]) = Ok [bt_signal]"
    by (simp add: signals_in_order_def timed_signal_def bt_signal_def bt_parse sort_by_def)
  have third: "replay_candle bt_clock bt_run1 None (bt_row 2 600000000 103 107 104) ((start_state [])\<lparr>bt_open := [bt_position1]\<rparr>)
      = Ok ((start_state [])\<lparr>bt_trades := [?t]\<rparr>)"
    using m rec by (simp add: replay_candle_def bt_row_fields bt_show bt_parse start_state_def bt_run1_def)
  have replay: "replay_candles bt_clock bt_run1 [bt_row 0 0 104 106 105, bt_row 1 300000000 97 105 104, bt_row 2 600000000 103 107 104]
      (start_state [bt_signal]) = Ok ((start_state [])\<lparr>bt_trades := [?t]\<rparr>)"
    using bt_second [of "bt_row 2 600000000 103 107 104"] third by (simp add: bt_first bt_position1_def)
  have run: "backtest_logs bt_clock bt_data bt_config = Ok ((start_state [])\<lparr>bt_trades := [?t], bt_open := []\<rparr>)"
    using bt_rows bt_read_run signals
    by (simp add: backtest_logs_def bt_config_fields signals replay del: replay_candles.simps) (simp add: start_state_def)
  have same: "pget ?t key PNone = pget t key PNone" if "key \<noteq> ''notes''" for key
    using that t(3) by (auto simp: set_default_def pget_append pget_def map_add_def split: option.splits)
  show thesis by (rule that [OF run]) (use t same in auto)
qed

lemma fill_through_stop_wins:
  "fl_ambiguous bt_fill1 \<and> simulate_order_fill bt_clock (order_output bt_clock bt_order1) (bt_row 1 300000000 97 105 104) [] [] = Ok bt_fill1
   \<and> (\<exists>s t. backtest_logs bt_clock bt_data bt_config = Ok s \<and> bt_trades s = [t] \<and> pget t ''final_exit_reason'' PNone = PStr ''final_target''
        \<and> pget t ''realized_R'' PNone = PFloat (Fin 3) \<and> pget t ''result'' PNone = PStr ''win'')"
  by (rule bt_logs) (auto simp: bt_filled, simp add: bt_fill1_def)

subsection \<open>The laws at work on the run\<close>

lemma prepared_in_order_witness:
  "\<exists>ds. normalize_rows bt_clock M5 0 (as_list (PList [bt_bar 0 104 106 105, bt_bar 300000000 97 105 104, bt_bar 600000000 103 107 104])) = Ok ds
     \<and> set [bt_candle 0 0 104 106 105, bt_candle 1 300000000 97 105 104, bt_candle 2 600000000 103 107 104] \<subseteq> set ds"
  using prepared_in_order [OF bt_prepared] by blast

lemma slices_are_closed_witness:
  "\<exists>c. parse_time bt_clock (pget (bt_row 0 0 104 106 105) ''close_time'' PNone) = Ok (Some c) \<and> dt_instant c \<le> 300000000"
proof -
  obtain al where al: "align_timeframes bt_clock bt_data (PDt (aware_utc 300000000)) = Ok al" "al_time al = Some (aware_utc 300000000)"
    "(M5, [bt_row 0 0 104 106 105]) \<in> set (al_slices al)" using bt_aligned by blast
  have "bt_row 0 0 104 106 105 \<in> set [bt_row 0 0 104 106 105]" by simp
  from slices_are_closed [OF al this] show ?thesis by simp
qed

lemma backtest_accounts_witness: "\<exists>s. backtest_logs bt_clock bt_data bt_config = Ok s \<and> length (bt_trades s) = 1 \<and> settled s = 1"
proof -
  obtain s t where s: "backtest_logs bt_clock bt_data bt_config = Ok s" "bt_trades s = [t]" using fill_through_stop_wins by blast
  from backtest_accounts [OF s(1)] s show ?thesis by (simp add: bt_config_fields)
qed

lemma fills_are_honest_witness:
  "\<exists>r. normalize_order bt_clock (order_output bt_clock bt_order1) [] = Ok r \<and> honest_fill bt_clock r (bt_row 1 300000000 97 105 104) bt_fill1"
  by (rule fills_are_honest [OF bt_filled]) (simp add: bt_fill1_def)

lemma positions_well_typed_witness:
  "list_all wt_position [bt_position1]"
proof -
  have "replay_candles bt_clock bt_run1 [bt_row 0 0 104 106 105, bt_row 1 300000000 97 105 104] (start_state [bt_signal])
      = Ok ((start_state [])\<lparr>bt_open := [bt_position1]\<rparr>)"
  proof -
    have "replay_candle bt_clock bt_run1 None (bt_row 1 300000000 97 105 104) ((start_state [])\<lparr>bt_pending := [order_output bt_clock bt_order1]\<rparr>)
        = Ok ((start_state [])\<lparr>bt_open := [bt_position1]\<rparr>)"
      by (simp add: replay_candle_def bt_row_fields bt_show bt_parse start_state_def bt_run1_def bt_filled)
        (simp add: bt_fill1_def bt_position1_def)
    then show ?thesis by (simp add: bt_first)
  qed
  from positions_well_typed [OF this] show ?thesis by simp
qed

lemma bt_readable: "readable bt_clock bt_position1 (Fin 100) (Fin 98) (Fin 98)"
  by (simp add: readable_def bt_position_fields bullish_word risk_per_unit_def feval)

lemma stop_comes_first_witness:
  "\<exists>m t. simulate_trade_management bt_clock bt_position1 (bt_row 1 300000000 97 105 104) [] = Ok m \<and> mg_events m = [] \<and> mg_closed m = Some t
     \<and> pget t ''final_exit_reason'' PNone \<in> PStr ` exit_value ` {AmbiguousStopFirst, BreakevenStop, StopLoss}"
proof (rule bt_target_back)
  fix t
  assume t: "targets_from_position bt_clock bt_position1 = Ok [t]" "target_core t = (''final_target'', Fin 106, Fin 1, False)"
  let ?row = "bt_row 1 300000000 97 105 104"
  have untimed: "time_exit_reason bt_clock bt_position1 ?row [] = Ok None"
    by (simp add: time_exit_reason_def bt_position_fields row_end_def bt_row_fields bt_show bt_parse py_or_def parse_hhmm_def over_limit_def Let_def)
  have lh: "low_high bt_clock ?row = Ok (Some (Fin 97, Fin 105))" by (simp add: low_high_def bt_row_fields)
  have "\<exists>mins. duration_minutes bt_clock (pget bt_position1 ''entry_time'' PNone) (row_end ?row) = Ok mins"
    by (simp add: bt_position_fields row_end_def bt_row_fields bt_show bt_parse py_or_def duration_minutes_def dt_sub_def)
  then have "\<exists>u. closed_trade bt_clock bt_position1 ?row StopLoss r [] False None = Ok u" for r
    using closed_trade_exists [of bt_clock bt_position1 ?row _ "[t]" StopLoss _ "Fin 100" "Fin 98" "[]"] t(1)
    by (auto simp: bt_position_fields exit_price_for_def)
  then obtain u where u: "closed_trade bt_clock bt_position1 ?row StopLoss
      (fadd (Fin 0) (fmul (Fin 1) (r_multiple Bullish (Fin 100) (Fin 98) (Fin 98)))) [] False None = Ok u" by blast
  have "\<exists>m. simulate_trade_management bt_clock bt_position1 ?row [] = Ok m"
    using u t(2) by (simp add: simulate_trade_management_def bt_position_fields t(1) risk_per_unit_def untimed bullish_word stop_or_targets_def lh
        Let_def stop_touched_def target_touched_def target_core_def feval close_remainder_def)
  then obtain m where m: "simulate_trade_management bt_clock bt_position1 ?row [] = Ok m" by blast
  have "stop_touched (bt_direction bt_clock (pget bt_position1 ''direction'' PNone)) (Fin 98) (Some (Fin 97, Fin 105))"
    by (simp add: stop_touched_def bt_position_fields bullish_word)
  from stop_comes_first [OF m bt_readable lh this] m untimed show ?thesis by (auto split: option.splits)
qed

lemma open_share_shrinks_witness:
  "\<exists>m q. simulate_trade_management bt_clock bt_position1 (bt_row 2 600000000 103 105 104) [] = Ok m
     \<and> to_float (ck_text bt_clock) (pget (mg_position m) ''remaining_percent'' (PFloat (Fin 1))) = Ok (Fin q) \<and> 0 \<le> q \<and> q \<le> 1"
proof (rule bt_target_back)
  fix t
  assume t: "targets_from_position bt_clock bt_position1 = Ok [t]" "target_core t = (''final_target'', Fin 106, Fin 1, False)"
  let ?row = "bt_row 2 600000000 103 105 104"
  have untimed: "time_exit_reason bt_clock bt_position1 ?row [] = Ok None"
    by (simp add: time_exit_reason_def bt_position_fields row_end_def bt_row_fields bt_show bt_parse py_or_def parse_hhmm_def over_limit_def Let_def)
  have "\<exists>m. simulate_trade_management bt_clock bt_position1 ?row [] = Ok m \<and> mg_closed m = None"
    using t(2) by (simp add: simulate_trade_management_def bt_position_fields t(1) risk_per_unit_def untimed bullish_word stop_or_targets_def
        low_high_def bt_row_fields Let_def stop_touched_def target_touched_def target_core_def feval take_targets_def)
  then obtain m where m: "simulate_trade_management bt_clock bt_position1 ?row [] = Ok m" "mg_closed m = None" by blast
  have "to_float (ck_text bt_clock) (pget bt_position1 ''remaining_percent'' (PFloat (Fin 1))) = Ok (Fin 1)" "rnd 1 = Fin 1"
    by (simp_all add: bt_position_fields feval)
  from open_share_shrinks [OF m this _ t(1)] t(2) m(1) show ?thesis by (auto simp: target_core_def)
qed

lemma pget_known: "pget t key PNone = v \<Longrightarrow> v \<noteq> PNone \<Longrightarrow> pget t key x = v"
  by (auto simp: pget_def split: option.splits)

lemma bt_reported: "\<exists>s r t. run_backtest bt_clock bt_data bt_config = Ok (s, r) \<and> bt_trades s = [t]"
proof (rule bt_logs)
  fix t
  assume run: "backtest_logs bt_clock bt_data bt_config = Ok ((start_state [])\<lparr>bt_trades := [t], bt_open := []\<rparr>)"
    and t: "pget t ''realized_R'' PNone = PFloat (Fin 3)" "\<exists>d. pget t ''partials'' PNone = PList [PDict d]"
      "pget t ''confidence_score'' PNone = PNone" "pget t ''setup_score'' PNone = PNone" "\<exists>x. pget t ''duration_min'' PNone = float_val x"
  from t(2) obtain d where d: "pget t ''partials'' PNone = PList [PDict d]" by blast
  have known: "pget t ''realized_R'' x = PFloat (Fin 3)" "pget t ''partials'' x = PList [PDict d]" for x
    using t(1) d by (auto intro: pget_known)
  from t(5) have dur: "\<exists>y. float_or bt_clock (pget t ''duration_min'' PNone) (Fin 0) = Ok y" by (auto simp: float_or_def float_val_def split: option.splits)
  have none: "float_or_none bt_clock (pget t ''post_cost_rr'' PNone) = Ok None"
    using logs_without_rr [OF run] by (simp add: no_rr_def)
  have "\<exists>u. record_trade bt_clock t = Ok u" by (simp add: record_trade_def known)
  then obtain u where u: "record_trade bt_clock t = Ok u" by blast
  from recorded [OF u] known have ku: "pget u ''realized_R'' x = PFloat (Fin 3)" "pget u ''partials'' x = PList [PDict d]" for x by simp_all
  have m: "\<exists>m. calculate_performance_metrics bt_clock [t] = Ok m"
    by (simp add: calculate_performance_metrics_def u realized_of_def ku hit_target_1_def)
  have sum: "score_bucket_summary bt_clock [t] = Ok []"
    by (simp add: score_bucket_summary_def add_score_def py_or_def t(3,4) sort_by_def)
  have groups: "\<exists>g. profit_factor_by_key bt_clock [t] key = Ok g" for key
    by (simp add: profit_factor_by_key_def realized_of_def known)
  have "\<exists>r. generate_backtest_report bt_clock [t] [] [] = Ok r"
    using m dur groups [of "''session_name''"] groups [of "''killzone_name''"]
    by (auto simp: generate_backtest_report_def none sum score_buckets_non_monotonic_def)
  with run show ?thesis by (auto simp: run_backtest_def bt_config_def config_of_def start_state_def)
qed

lemma rr_gate_never_fires_witness:
  "\<exists>s r. run_backtest bt_clock bt_data bt_config = Ok (s, r) \<and> ''post_cost_rr_missing_from_some_trades'' \<in> set (br_warnings r)"
proof -
  obtain s r t where r: "run_backtest bt_clock bt_data bt_config = Ok (s, r)" "bt_trades s = [t]" using bt_reported by blast
  from rr_gate_never_fires [OF r(1)] r show ?thesis by auto
qed

lemma outcomes_add_up_witness:
  "\<exists>m t. calculate_performance_metrics bt_clock [t] = Ok m \<and> bm_wins m + bm_losses m + bm_breakevens m = 1"
proof -
  let ?t = "[(''realized_R'', PFloat (Fin 3))]"
  have "\<exists>m. calculate_performance_metrics bt_clock [?t] = Ok m"
    by (simp add: calculate_performance_metrics_def record_trade_def set_default_def realized_of_def hit_target_1_def)
  then obtain m where m: "calculate_performance_metrics bt_clock [?t] = Ok m" by blast
  have "py_round (Fin 3) 5 = Fin 3" by (simp add: feval)
  then have "rounded_r (Fin 3)" unfolding rounded_r_def by (metis is_fin.simps(1))
  then have "\<forall>t\<in>set [?t]. \<exists>v. pget t ''realized_R'' (PFloat (Fin 0)) = PFloat v \<and> rounded_r v" by simp
  from outcomes_add_up [OF m this] m show ?thesis by auto
qed

end
