(* ===== verification/CandleLoading.thy ===== *)
theory CandleLoading
  imports SetupFlow MtfClock
begin

section \<open>Candles for the full backtest (scripts/run_ict_smc_backtest.py)\<close>

text \<open>
  Candles come from a CSV file or from the terminal's rates, and the higher timeframes that are missing are
  aggregated from the one-minute candles. Rows are what \<open>csv.DictReader\<close> and \<open>copy_rates_range\<close> hand out; a CSV row
  has a text or nothing under each column.
\<close>

definition timeframe_table :: "(string \<times> int) list" where
  "timeframe_table = [(''1m'', 1), (''15m'', 15), (''1h'', 60), (''4h'', 240)]"

definition minutes_of :: "string \<Rightarrow> int res" where
  "minutes_of tf = (case map_of timeframe_table tf of Some m \<Rightarrow> Ok m | None \<Rightarrow> Raise KeyError)"

subsection \<open>CSV rows\<close>

type_synonym csv_row = "(string \<times> string option) list"

definition lower_keys :: "csv_row \<Rightarrow> csv_row" where
  "lower_keys row = fold (\<lambda>(key, v). AList.update (py_lower key) v) row []"

fun row_value_in :: "csv_row \<Rightarrow> string list \<Rightarrow> string option \<Rightarrow> string res" where
  "row_value_in row [] dflt = (case dflt of Some d \<Rightarrow> Ok d | None \<Rightarrow> Raise KeyError)"
| "row_value_in row (n # ns) dflt =
     (case map_of row (py_lower n) of
        Some (Some (c # s)) \<Rightarrow> Ok (c # s)
      | _ \<Rightarrow> row_value_in row ns dflt)"

definition row_value :: "csv_row \<Rightarrow> string list \<Rightarrow> string option \<Rightarrow> string res" where
  "row_value row names dflt = row_value_in (lower_keys row) names dflt"

definition is_digits :: "string \<Rightarrow> bool" where
  "is_digits s \<longleftrightarrow> s \<noteq> [] \<and> list_all (\<lambda>c. c \<in> set ''0123456789'') s"

definition parse_row_datetime :: "clock \<Rightarrow> csv_row \<Rightarrow> datetime res" where
  "parse_row_datetime k row =
     rbind (row_value row [''time'', ''timestamp'', ''datetime'', ''date''] None) (\<lambda>raw.
     if is_digits raw then Ok (aware_utc (int (digits_val 0 raw) * 1000000))
     else rmap assume_utc (ck_iso k (replace_z raw)))"

definition looks_like_close_time :: "csv_row \<Rightarrow> bool" where
  "looks_like_close_time row \<longleftrightarrow> ''close_time'' \<in> fst ` set (lower_keys row) \<or> ''end_time'' \<in> fst ` set (lower_keys row)"

definition row_float :: "clock \<Rightarrow> csv_row \<Rightarrow> string list \<Rightarrow> string option \<Rightarrow> pyfloat res" where
  "row_float k row names dflt = rbind (row_value row names dflt) (px_float (ck_text k))"

definition row_count :: "clock \<Rightarrow> csv_row \<Rightarrow> string list \<Rightarrow> int res" where
  "row_count k row names = rbind (row_float k row names (Some ''0'')) (\<lambda>x. to_int (ck_text k) (PFloat x))"

definition csv_candle :: "clock \<Rightarrow> string \<Rightarrow> string \<Rightarrow> int \<Rightarrow> nat \<Rightarrow> csv_row \<Rightarrow> candle_node res" where
  "csv_candle k symbol tf minutes i row =
     rbind (parse_row_datetime k row) (\<lambda>t.
     rbind (row_float k row [''open''] None) (\<lambda>op.
     rbind (row_float k row [''high''] None) (\<lambda>hi.
     rbind (row_float k row [''low''] None) (\<lambda>lo.
     rbind (row_float k row [''close''] None) (\<lambda>cl.
     rbind (row_count k row [''volume'']) (\<lambda>volume.
     rmap (\<lambda>ticks. \<lparr>cn_symbol = symbol, cn_timeframe = tf,
         cn_start_time = (if looks_like_close_time row then dt_add t (- minutes * 60000000) else t),
         cn_end_time = (if looks_like_close_time row then t else dt_add t (minutes * 60000000)),
         cn_open_p = op, cn_high_p = hi, cn_low_p = lo, cn_close_p = cl, cn_volume = volume, cn_ticks_count = ticks, cn_is_closed = True,
         cn_sequence_id = int i, cn_trace_id = [], cn_correlation_id = ''CSV_'' @ tf @ ''_'' @ nat_str i, cn_priority = NORMAL\<rparr>)
       (row_count k row [''tick_volume'', ''volume''])))))))"

text \<open>Times of one list are all naive or all aware, or sorting them raises.\<close>

definition sort_times :: "('a \<Rightarrow> datetime) \<Rightarrow> 'a list \<Rightarrow> 'a list res" where
  "sort_times f xs =
     (if list_all (\<lambda>x. dt_comparable (f (hd xs)) (f x)) xs then Ok (sort_by (\<lambda>a b. dt_instant (f a) < dt_instant (f b)) xs) else Raise TypeError)"

definition load_csv_candles :: "clock \<Rightarrow> string \<Rightarrow> string \<Rightarrow> csv_row list \<Rightarrow> candle_node list res" where
  "load_csv_candles k symbol tf rows =
     rbind (minutes_of tf) (\<lambda>minutes.
     rbind (res_map (\<lambda>(i, row). csv_candle k symbol tf minutes i row) (enumerate 0 rows)) (sort_times cn_end_time))"

subsection \<open>Rates of the terminal\<close>

definition rate_field :: "clock \<Rightarrow> pydict \<Rightarrow> string \<Rightarrow> pyfloat res" where
  "rate_field k row key = rbind (pitem (PDict row) key) (to_float (ck_text k))"

definition rate_candle :: "clock \<Rightarrow> string \<Rightarrow> string \<Rightarrow> int \<Rightarrow> nat \<Rightarrow> pydict \<Rightarrow> candle_node res" where
  "rate_candle k symbol tf minutes i row =
     rbind (rbind (pitem (PDict row) ''time'') (to_int (ck_text k))) (\<lambda>seconds.
     let start = aware_utc (seconds * 1000000) in
     rbind (rate_field k row ''open'') (\<lambda>op.
     rbind (rate_field k row ''high'') (\<lambda>hi.
     rbind (rate_field k row ''low'') (\<lambda>lo.
     rbind (rate_field k row ''close'') (\<lambda>cl.
     rbind (pitem (PDict row) ''real_volume'') (\<lambda>real.
     rbind (pitem (PDict row) ''tick_volume'') (\<lambda>ticks.
     rbind (to_int (ck_text k) (py_or (py_or real ticks) (PInt 0))) (\<lambda>volume.
     rmap (\<lambda>n. \<lparr>cn_symbol = symbol, cn_timeframe = tf, cn_start_time = start, cn_end_time = dt_add start (minutes * 60000000),
         cn_open_p = op, cn_high_p = hi, cn_low_p = lo, cn_close_p = cl, cn_volume = volume, cn_ticks_count = n, cn_is_closed = True,
         cn_sequence_id = int i, cn_trace_id = [], cn_correlation_id = ''MT5_'' @ tf @ ''_'' @ nat_str i, cn_priority = NORMAL\<rparr>)
       (to_int (ck_text k) (py_or ticks (PInt 0)))))))))))"

text \<open>\<open>rates\<close> is what the terminal returned, \<open>None\<close> when it failed with \<open>error\<close>.\<close>

definition copy_mt5_rates :: "clock \<Rightarrow> string \<Rightarrow> string \<Rightarrow> string \<Rightarrow> pydict list option \<Rightarrow> candle_node list res" where
  "copy_mt5_rates k error symbol tf rates =
     (case rates of
        None \<Rightarrow> Raise (RuntimeError (''MT5 copy_rates_range failed for '' @ tf @ '': '' @ error))
      | Some rows \<Rightarrow> rbind (minutes_of tf) (\<lambda>minutes. res_map (\<lambda>(i, row). rate_candle k symbol tf minutes i row) (enumerate 0 rows)))"

subsection \<open>Higher timeframes\<close>

text \<open>\<open>int(d.timestamp())\<close>: the local offset counts for a naive datetime only.\<close>

definition int_timestamp :: "(datetime \<Rightarrow> int) \<Rightarrow> datetime \<Rightarrow> int res" where
  "int_timestamp local d =
     (if dt_off d = None then epoch_seconds local d
      else case total_seconds (dt_instant d) of
             Fin q \<Rightarrow> Ok (if q < 0 then - \<lfloor>- q\<rfloor> else \<lfloor>q\<rfloor>)
           | _ \<Rightarrow> Raise OverflowError)"

definition bucket_of :: "(datetime \<Rightarrow> int) \<Rightarrow> int \<Rightarrow> candle_node \<Rightarrow> int res" where
  "bucket_of local minutes c = rmap (\<lambda>s. s div (minutes * 60)) (int_timestamp local (cn_start_time c))"

text \<open>\<open>grouped.setdefault(bucket, []).append(candle)\<close>\<close>

definition group_into :: "int \<Rightarrow> 'a \<Rightarrow> (int \<times> 'a list) list \<Rightarrow> (int \<times> 'a list) list" where
  "group_into b x gs = AList.update b ((case map_of gs b of Some xs \<Rightarrow> xs | None \<Rightarrow> []) @ [x]) gs"

definition grouped :: "(datetime \<Rightarrow> int) \<Rightarrow> int \<Rightarrow> candle_node list \<Rightarrow> (int \<times> candle_node list) list res" where
  "grouped local minutes cs = res_fold (\<lambda>c gs. rmap (\<lambda>b. group_into b c gs) (bucket_of local minutes c)) cs []"

definition merged_candle :: "string \<Rightarrow> string \<Rightarrow> nat \<Rightarrow> candle_node list \<Rightarrow> candle_node" where
  "merged_candle symbol tf i rows =
     \<lparr>cn_symbol = symbol, cn_timeframe = tf, cn_start_time = cn_start_time (hd rows), cn_end_time = cn_end_time (last rows),
      cn_open_p = cn_open_p (hd rows), cn_high_p = max_of (map cn_high_p rows), cn_low_p = min_of (map cn_low_p rows),
      cn_close_p = cn_close_p (last rows), cn_volume = sum_list (map cn_volume rows), cn_ticks_count = sum_list (map cn_ticks_count rows),
      cn_is_closed = True, cn_sequence_id = int i, cn_trace_id = [], cn_correlation_id = ''DERIVED_'' @ tf @ ''_'' @ nat_str i,
      cn_priority = NORMAL\<rparr>"

definition aggregate_timeframe :: "(datetime \<Rightarrow> int) \<Rightarrow> string \<Rightarrow> string \<Rightarrow> int \<Rightarrow> candle_node list \<Rightarrow> candle_node list res" where
  "aggregate_timeframe local symbol tf minutes cs =
     rbind (grouped local minutes cs) (\<lambda>gs.
     res_map (\<lambda>(i, _, rows). rmap (merged_candle symbol tf i) (sort_times cn_start_time rows))
       (enumerate 0 (sort_by (\<lambda>a b. fst a < fst b) gs)))"

definition candles_for :: "(string \<times> candle_node list) list \<Rightarrow> string \<Rightarrow> candle_node list" where
  "candles_for data tf = (case map_of data tf of Some cs \<Rightarrow> cs | None \<Rightarrow> [])"

definition derive_missing_timeframes ::
  "(datetime \<Rightarrow> int) \<Rightarrow> string \<Rightarrow> (string \<times> candle_node list) list \<Rightarrow> (string \<times> candle_node list) list res" where
  "derive_missing_timeframes local symbol data =
     (let source = candles_for data ''1m''
      in if source = [] then Ok (map (\<lambda>(tf, _). (tf, candles_for data tf)) timeframe_table)
         else rmap ((#) (''1m'', source))
           (res_map (\<lambda>(tf, m). rmap (Pair tf)
               (if candles_for data tf = [] then aggregate_timeframe local symbol tf m source else Ok (candles_for data tf)))
             (tl timeframe_table)))"

subsection \<open>Derived candles cover their sources\<close>

lemma group_into_mset:
  "distinct (map fst gs) \<Longrightarrow> mset (concat (map snd (group_into b x gs))) = add_mset x (mset (concat (map snd gs)))"
proof (induction gs)
  case (Cons g gs)
  have "map_of gs b = None" if "fst g = b" using that Cons.prems by (auto simp: map_of_eq_None_iff)
  with Cons show ?case by (cases g) (auto simp: group_into_def)
qed (simp add: group_into_def)

lemma grouped_mset:
  assumes "grouped local minutes cs = Ok gs"
  shows "distinct (map fst gs) \<and> mset (concat (map snd gs)) = mset cs \<and> [] \<notin> snd ` set gs"
proof -
  have "res_fold (\<lambda>c gs. rmap (\<lambda>b. group_into b c gs) (bucket_of local minutes c)) cs hs = Ok gs \<Longrightarrow> distinct (map fst hs) \<Longrightarrow> [] \<notin> snd ` set hs
      \<Longrightarrow> distinct (map fst gs) \<and> mset (concat (map snd gs)) = mset cs + mset (concat (map snd hs)) \<and> [] \<notin> snd ` set gs" for hs
  proof (induction cs arbitrary: hs)
    case (Cons c cs)
    then obtain b where b: "res_fold (\<lambda>c gs. rmap (\<lambda>b. group_into b c gs) (bucket_of local minutes c)) cs (group_into b c hs) = Ok gs"
      by (auto simp: rmap_def elim!: rbind_InrE split: sum.splits)
    have "distinct (map fst (group_into b c hs))" using Cons.prems(2) by (simp add: group_into_def distinct_update)
    moreover have "snd ` set (group_into b c hs) \<subseteq> insert ((case map_of hs b of Some xs \<Rightarrow> xs | None \<Rightarrow> []) @ [c]) (snd ` set hs)"
      unfolding group_into_def by (induction hs) auto
    then have "[] \<notin> snd ` set (group_into b c hs)" using Cons.prems(3) by auto
    ultimately show ?case using Cons.IH [OF b] group_into_mset [OF Cons.prems(2), of b c] by simp
  qed simp
  from this [of "[]"] assms show ?thesis by (simp add: grouped_def)
qed

text \<open>Each group holds the candles of its bucket in their order, and every bucket that occurs has a group.\<close>

lemma map_of_group_into:
  "map_of (group_into b x gs) a = (if a = b then Some ((case map_of gs b of Some xs \<Rightarrow> xs | None \<Rightarrow> []) @ [x]) else map_of gs a)"
  by (simp add: group_into_def update_conv')

lemma grouped_by_bucket:
  assumes "grouped local minutes cs = Ok gs"
  shows "(\<forall>c\<in>set cs. \<exists>b. bucket_of local minutes c = Ok b)
    \<and> map_of gs b = (let rows = filter (\<lambda>c. bucket_of local minutes c = Ok b) cs in if rows = [] then None else Some rows)"
proof -
  have "res_fold (\<lambda>c gs. rmap (\<lambda>b. group_into b c gs) (bucket_of local minutes c)) cs hs = Ok gs \<Longrightarrow>
      (\<forall>c\<in>set cs. \<exists>b. bucket_of local minutes c = Ok b) \<and> map_of gs b
        = (let rows = (case map_of hs b of Some xs \<Rightarrow> xs | None \<Rightarrow> []) @ filter (\<lambda>c. bucket_of local minutes c = Ok b) cs
           in if rows = [] \<and> map_of hs b = None then None else Some rows)" for hs
  proof (induction cs arbitrary: hs)
    case (Cons c cs)
    then obtain a where a: "bucket_of local minutes c = Ok a"
      "res_fold (\<lambda>c gs. rmap (\<lambda>b. group_into b c gs) (bucket_of local minutes c)) cs (group_into a c hs) = Ok gs"
      by (auto simp: rmap_def elim!: rbind_InrE split: sum.splits)
    from Cons.IH [OF a(2)] a(1) show ?case by (auto simp: map_of_group_into Let_def split: option.splits)
  qed (auto simp: Let_def split: option.splits)
  from this [of "[]"] assms show ?thesis by (simp add: grouped_def Let_def)
qed

lemma sum_list_mset: "mset xs = mset ys \<Longrightarrow> sum_list (map f xs) = (sum_list (map f ys) :: int)"
  by (metis mset_map sum_mset_sum_list)

lemma sum_list_groups: "sum_list (map f (concat gs)) = sum_list (map (\<lambda>g. sum_list (map f g)) gs :: int list)"
  by (induction gs) auto

lemma max_of_ge: "x \<in> set xs \<Longrightarrow> NaN \<notin> set xs \<Longrightarrow> fle x (max_of xs)"
proof -
  have "NaN \<notin> set ys \<Longrightarrow> m \<noteq> NaN \<Longrightarrow> fle m (fold (\<lambda>x m. py_max m x) ys m) \<and> (\<forall>y\<in>set ys. fle y (fold (\<lambda>x m. py_max m x) ys m))" for ys m
  proof (induction ys arbitrary: m)
    case (Cons y ys)
    then have "py_max m y \<noteq> NaN" "fle m (py_max m y)" "fle y (py_max m y)" using py_max_ge [of m y] py_max_cases [of m y] by auto
    with Cons.IH [of "py_max m y"] Cons.prems show ?case by (auto intro: fle_trans)
  qed simp
  from this [of "tl xs" "hd xs"] show "x \<in> set xs \<Longrightarrow> NaN \<notin> set xs \<Longrightarrow> ?thesis" by (cases xs) (auto simp: max_of_def)
qed

lemma min_of_le: "x \<in> set xs \<Longrightarrow> NaN \<notin> set xs \<Longrightarrow> fle (min_of xs) x"
proof -
  have step: "a \<noteq> NaN \<Longrightarrow> b \<noteq> NaN \<Longrightarrow> fle (py_min a b) a \<and> fle (py_min a b) b \<and> py_min a b \<noteq> NaN" for a b
    by (cases a; cases b) (auto simp: py_min_def)
  have "NaN \<notin> set ys \<Longrightarrow> m \<noteq> NaN \<Longrightarrow> fle (fold (\<lambda>x m. py_min m x) ys m) m \<and> (\<forall>y\<in>set ys. fle (fold (\<lambda>x m. py_min m x) ys m) y)" for ys m
  proof (induction ys arbitrary: m)
    case (Cons y ys)
    then have "py_min m y \<noteq> NaN" "fle (py_min m y) m" "fle (py_min m y) y" using step [of m y] by auto
    with Cons.IH [of "py_min m y"] Cons.prems show ?case by (auto intro: fle_trans)
  qed simp
  from this [of "tl xs" "hd xs"] show "x \<in> set xs \<Longrightarrow> NaN \<notin> set xs \<Longrightarrow> ?thesis" by (cases xs) (auto simp: min_of_def)
qed

lemma sort_times_mset: "sort_times f xs = Ok ys \<Longrightarrow> mset ys = mset xs \<and> sorted_wrt (\<lambda>a b. dt_instant (f a) \<le> dt_instant (f b)) ys"
  by (auto simp: sort_times_def split: if_splits intro!: sort_by_sorted_rel)

text \<open>What a derived candle is of the rows of its bucket: it takes its open and its start from a row that starts first, its close and its end from one
  that starts last, the extremes of all and the sums of all.\<close>

definition merges :: "nat \<Rightarrow> candle_node list \<Rightarrow> candle_node \<Rightarrow> bool" where
  "merges i rows d \<longleftrightarrow> cn_sequence_id d = int i \<and> cn_volume d = sum_list (map cn_volume rows) \<and> cn_ticks_count d = sum_list (map cn_ticks_count rows)
     \<and> (\<exists>f\<in>set rows. cn_start_time d = cn_start_time f \<and> cn_open_p d = cn_open_p f
          \<and> (\<forall>c\<in>set rows. dt_instant (cn_start_time f) \<le> dt_instant (cn_start_time c)))
     \<and> (\<exists>l\<in>set rows. cn_end_time d = cn_end_time l \<and> cn_close_p d = cn_close_p l
          \<and> (\<forall>c\<in>set rows. dt_instant (cn_start_time c) \<le> dt_instant (cn_start_time l)))
     \<and> cn_high_p d \<in> cn_high_p ` set rows \<and> cn_low_p d \<in> cn_low_p ` set rows
     \<and> (NaN \<notin> cn_high_p ` set rows \<longrightarrow> (\<forall>c\<in>set rows. fle (cn_high_p c) (cn_high_p d)))
     \<and> (NaN \<notin> cn_low_p ` set rows \<longrightarrow> (\<forall>c\<in>set rows. fle (cn_low_p d) (cn_low_p c)))"

lemma max_of_in: "xs \<noteq> [] \<Longrightarrow> max_of xs \<in> set xs"
proof -
  have "fold (\<lambda>x m. py_max m x) ys m \<in> insert m (set ys)" for ys m
  proof (induction ys arbitrary: m)
    case (Cons y ys)
    from Cons.IH [of "py_max m y"] show ?case by (auto simp: py_max_def split: if_splits)
  qed simp
  from this [of "tl xs" "hd xs"] show "xs \<noteq> [] \<Longrightarrow> ?thesis" by (cases xs) (auto simp: max_of_def)
qed

lemma min_of_in: "xs \<noteq> [] \<Longrightarrow> min_of xs \<in> set xs"
proof -
  have "fold (\<lambda>x m. py_min m x) ys m \<in> insert m (set ys)" for ys m
  proof (induction ys arbitrary: m)
    case (Cons y ys)
    from Cons.IH [of "py_min m y"] show ?case by (auto simp: py_min_def split: if_splits)
  qed simp
  from this [of "tl xs" "hd xs"] show "xs \<noteq> [] \<Longrightarrow> ?thesis" by (cases xs) (auto simp: min_of_def)
qed

lemma merged_candle_merges:
  assumes "sort_times cn_start_time rows = Ok rows'" "rows \<noteq> []"
  shows "merges i rows (merged_candle symbol tf i rows')"
proof -
  from sort_times_mset [OF assms(1)] have m: "mset rows' = mset rows" and st: "sorted_wrt (\<lambda>a b. dt_instant (cn_start_time a) \<le> dt_instant (cn_start_time b)) rows'"
    by auto
  from m have set: "set rows' = set rows" by (metis set_mset_mset)
  with assms(2) have ne: "rows' \<noteq> []" by auto
  have starts: "dt_instant (cn_start_time (hd rows')) \<le> dt_instant (cn_start_time c)" if "c \<in> set rows'" for c
    using that st ne by (cases rows') auto
  have ends: "dt_instant (cn_start_time c) \<le> dt_instant (cn_start_time (last rows'))" if "c \<in> set rows'" for c
    using that st ne by (cases rows' rule: rev_cases) (auto simp: sorted_wrt_append)
  have first: "\<exists>f\<in>set rows. cn_start_time (hd rows') = cn_start_time f \<and> cn_open_p (hd rows') = cn_open_p f
      \<and> (\<forall>c\<in>set rows. dt_instant (cn_start_time f) \<le> dt_instant (cn_start_time c))"
    using starts hd_in_set [OF ne] unfolding set by blast
  have last: "\<exists>l\<in>set rows. cn_end_time (last rows') = cn_end_time l \<and> cn_close_p (last rows') = cn_close_p l
      \<and> (\<forall>c\<in>set rows. dt_instant (cn_start_time c) \<le> dt_instant (cn_start_time l))"
    using ends last_in_set [OF ne] unfolding set by blast
  have hi: "\<forall>c\<in>set rows. fle (cn_high_p c) (max_of (map cn_high_p rows'))" if "NaN \<notin> cn_high_p ` set rows"
    using that set by (auto intro!: max_of_ge)
  have lo: "\<forall>c\<in>set rows. fle (min_of (map cn_low_p rows')) (cn_low_p c)" if "NaN \<notin> cn_low_p ` set rows"
    using that set by (auto intro!: min_of_le)
  have ext: "max_of (map cn_high_p rows') \<in> cn_high_p ` set rows" "min_of (map cn_low_p rows') \<in> cn_low_p ` set rows"
    using max_of_in [of "map cn_high_p rows'"] min_of_in [of "map cn_low_p rows'"] ne set by auto
  show ?thesis using first last hi lo ext sum_list_mset [OF m, of cn_volume] sum_list_mset [OF m, of cn_ticks_count]
    by (simp add: merges_def merged_candle_def)
qed

lemma aggregated_groups:
  assumes "aggregate_timeframe local symbol tf minutes cs = Ok ds"
  obtains bs where "sorted_wrt (<) bs" "length ds = length bs" "\<forall>c\<in>set cs. \<exists>b\<in>set bs. bucket_of local minutes c = Ok b"
    "\<And>n. n < length bs \<Longrightarrow> merges n (filter (\<lambda>c. bucket_of local minutes c = Ok (bs ! n)) cs) (ds ! n)"
proof -
  from assms obtain hs where hs: "grouped local minutes cs = Ok hs"
      "res_map (\<lambda>(i, _, rows). rmap (merged_candle symbol tf i) (sort_times cn_start_time rows)) (enumerate 0 (sort_by (\<lambda>a b. fst a < fst b) hs)) = Ok ds"
    by (auto simp: aggregate_timeframe_def elim!: rbind_InrE)
  let ?hs = "sort_by (\<lambda>a b. fst a < fst b) hs"
  have perm: "mset ?hs = mset hs" by simp
  then have set: "set ?hs = set hs" by (metis set_mset_mset)
  from grouped_mset [OF hs(1)] have d: "distinct (map fst hs)" by simp
  with perm have d': "distinct (map fst ?hs)" by (metis mset_eq_imp_distinct_iff mset_map)
  have "sorted_wrt (\<lambda>a b. fst a \<le> fst b) ?hs" by (rule sort_by_sorted_rel) auto
  then have "sorted (map fst ?hs)" by (simp add: sorted_wrt_map)
  with d' have "sorted_wrt (<) (map fst ?hs)" by (simp only: strict_sorted_iff)
  moreover from res_mapD [OF hs(2)] have len: "length ds = length ?hs" by (auto dest: list_all2_lengthD)
  moreover have "\<exists>b\<in>set (map fst ?hs). bucket_of local minutes c = Ok b" if c: "c \<in> set cs" for c
  proof -
    from grouped_by_bucket [OF hs(1)] c obtain b where b: "bucket_of local minutes c = Ok b" by blast
    with c have "filter (\<lambda>c. bucket_of local minutes c = Ok b) cs \<noteq> []" by (auto simp: filter_empty_conv)
    with grouped_by_bucket [OF hs(1), of b] have "map_of hs b \<noteq> None" by (simp add: Let_def)
    then have "b \<in> set (map fst ?hs)" using set by (auto simp: map_of_eq_None_iff)
    with b show ?thesis by blast
  qed
  moreover have "merges n (filter (\<lambda>c. bucket_of local minutes c = Ok (map fst ?hs ! n)) cs) (ds ! n)" if n: "n < length (map fst ?hs)" for n
  proof -
    obtain b rows where br: "?hs ! n = (b, rows)" by fastforce
    with n have "(b, rows) \<in> set hs" by (metis length_map nth_mem set)
    with d have "map_of hs b = Some rows" by simp
    with grouped_by_bucket [OF hs(1), of b] have rows: "rows = filter (\<lambda>c. bucket_of local minutes c = Ok b) cs" "rows \<noteq> []"
      by (simp_all add: Let_def split: if_splits)
    from res_mapD [OF hs(2)] n br have "rmap (merged_candle symbol tf n) (sort_times cn_start_time rows) = Ok (ds ! n)"
      by (auto simp: list_all2_conv_all_nth nth_enumerate_eq)
    with rows(2) have "merges n rows (ds ! n)" by (auto simp: rmap_Inr_iff intro: merged_candle_merges)
    with rows(1) br n show ?thesis by simp
  qed
  ultimately show thesis by (intro that [of "map fst ?hs"]) auto
qed

text \<open>The rows of a period: the source candles that start in it.\<close>

definition rows_of_period :: "(datetime \<Rightarrow> int) \<Rightarrow> int \<Rightarrow> int \<Rightarrow> candle_node list \<Rightarrow> candle_node list" where
  "rows_of_period local minutes b cs = filter (\<lambda>c. \<exists>s. int_timestamp local (cn_start_time c) = Ok s \<and> b = s div (minutes * 60)) cs"

lemma rows_of_period_bucket: "rows_of_period local minutes b cs = filter (\<lambda>c. bucket_of local minutes c = Ok b) cs"
  unfolding rows_of_period_def bucket_of_def by (rule filter_cong) (auto simp: rmap_def split: sum.splits)

text \<open>C40. The derived candles of a higher timeframe are the merges of the source candles by period. Number the periods of the timeframe from the
  epoch: there is one derived candle for each period in which a source candle starts, in order of time, numbered from zero, and every source candle
  starts in one of these periods. A derived candle adds up the volumes and ticks of the candles of its period; it takes its start and its open
  from one that starts first, its end and its close from one that starts last, and its high and its low from among theirs; where no high (no low)
  of the period is NaN its high (its low) bounds them all; and where the sources of the period all last equally long it ends no earlier than any of them.\<close>

theorem derived_candles_cover:
  assumes "aggregate_timeframe local symbol tf minutes cs = Ok ds"
  shows "\<exists>periods. sorted_wrt (<) periods \<and> length periods = length ds
    \<and> (\<forall>c\<in>set cs. \<exists>s. int_timestamp local (cn_start_time c) = Ok s \<and> s div (minutes * 60) \<in> set periods)
    \<and> (\<forall>n<length ds. let rows = rows_of_period local minutes (periods ! n) cs; d = ds ! n in
         cn_sequence_id d = int n \<and> cn_volume d = sum_list (map cn_volume rows) \<and> cn_ticks_count d = sum_list (map cn_ticks_count rows)
       \<and> (\<exists>f\<in>set rows. cn_start_time d = cn_start_time f \<and> cn_open_p d = cn_open_p f
            \<and> (\<forall>c\<in>set rows. dt_instant (cn_start_time f) \<le> dt_instant (cn_start_time c)))
       \<and> (\<exists>l\<in>set rows. cn_end_time d = cn_end_time l \<and> cn_close_p d = cn_close_p l
            \<and> (\<forall>c\<in>set rows. dt_instant (cn_start_time c) \<le> dt_instant (cn_start_time l)))
       \<and> cn_high_p d \<in> cn_high_p ` set rows \<and> cn_low_p d \<in> cn_low_p ` set rows
       \<and> (NaN \<notin> cn_high_p ` set rows \<longrightarrow> (\<forall>c\<in>set rows. fle (cn_high_p c) (cn_high_p d)))
       \<and> (NaN \<notin> cn_low_p ` set rows \<longrightarrow> (\<forall>c\<in>set rows. fle (cn_low_p d) (cn_low_p c)))
       \<and> (\<forall>w. (\<forall>c\<in>set rows. dt_instant (cn_end_time c) = dt_instant (cn_start_time c) + w) \<longrightarrow>
            (\<forall>c\<in>set rows. dt_instant (cn_end_time c) \<le> dt_instant (cn_end_time d))))"
proof -
  from aggregated_groups [OF assms] obtain bs where bs: "sorted_wrt (<) bs" "length ds = length bs"
    "\<forall>c\<in>set cs. \<exists>b\<in>set bs. bucket_of local minutes c = Ok b"
    and each: "\<And>n. n < length bs \<Longrightarrow> merges n (rows_of_period local minutes (bs ! n) cs) (ds ! n)"
    unfolding rows_of_period_bucket by blast
  show ?thesis
  proof (intro exI [of _ bs] conjI allI impI ballI)
    show "\<exists>s. int_timestamp local (cn_start_time c) = Ok s \<and> s div (minutes * 60) \<in> set bs" if "c \<in> set cs" for c
      using bs(3) that by (fastforce simp: bucket_of_def rmap_Inr_iff)
    fix n
    let ?rows = "rows_of_period local minutes (bs ! n) cs" and ?d = "ds ! n"
    assume "n < length ds"
    then have m: "merges n ?rows ?d" using each bs(2) by simp
    have "\<forall>w. (\<forall>c\<in>set ?rows. dt_instant (cn_end_time c) = dt_instant (cn_start_time c) + w) \<longrightarrow>
        (\<forall>c\<in>set ?rows. dt_instant (cn_end_time c) \<le> dt_instant (cn_end_time ?d))"
    proof (intro allI impI ballI)
      fix w c
      assume w: "\<forall>c\<in>set ?rows. dt_instant (cn_end_time c) = dt_instant (cn_start_time c) + w" and c: "c \<in> set ?rows"
      from m obtain l where "l \<in> set ?rows" "cn_end_time ?d = cn_end_time l" "dt_instant (cn_start_time c) \<le> dt_instant (cn_start_time l)"
        unfolding merges_def using c by blast
      with w c show "dt_instant (cn_end_time c) \<le> dt_instant (cn_end_time ?d)" by simp
    qed
    with m show "let rows = ?rows; d = ?d in
         cn_sequence_id d = int n \<and> cn_volume d = sum_list (map cn_volume rows) \<and> cn_ticks_count d = sum_list (map cn_ticks_count rows)
       \<and> (\<exists>f\<in>set rows. cn_start_time d = cn_start_time f \<and> cn_open_p d = cn_open_p f
            \<and> (\<forall>c\<in>set rows. dt_instant (cn_start_time f) \<le> dt_instant (cn_start_time c)))
       \<and> (\<exists>l\<in>set rows. cn_end_time d = cn_end_time l \<and> cn_close_p d = cn_close_p l
            \<and> (\<forall>c\<in>set rows. dt_instant (cn_start_time c) \<le> dt_instant (cn_start_time l)))
       \<and> cn_high_p d \<in> cn_high_p ` set rows \<and> cn_low_p d \<in> cn_low_p ` set rows
       \<and> (NaN \<notin> cn_high_p ` set rows \<longrightarrow> (\<forall>c\<in>set rows. fle (cn_high_p c) (cn_high_p d)))
       \<and> (NaN \<notin> cn_low_p ` set rows \<longrightarrow> (\<forall>c\<in>set rows. fle (cn_low_p d) (cn_low_p c)))
       \<and> (\<forall>w. (\<forall>c\<in>set rows. dt_instant (cn_end_time c) = dt_instant (cn_start_time c) + w) \<longrightarrow>
            (\<forall>c\<in>set rows. dt_instant (cn_end_time c) \<le> dt_instant (cn_end_time d)))"
      unfolding merges_def Let_def by (elim conjE) (intro conjI; assumption)
  qed (use bs in auto)
qed

end
