(* ===== verification/FullBacktest.thy ===== *)
theory FullBacktest
  imports CandleLoading RiskEngine StopHardening Scoring IctReport
begin

section \<open>The full-system backtest (scripts/run_ict_smc_backtest.py)\<close>

text \<open>
  \<open>FullSystemICTSMCBacktester.run\<close> replays closed candles through the session, structure and liquidity engines and the strategy
  selector, turns a selection into a signal with a ladder of targets, and fills and manages it with the functions of
  \<open>IctBacktest\<close>. A candle first manages the open positions, then fills the pending orders, then takes one decision. \<open>k\<close> holds
  the text conversions, \<open>local\<close> the local offset of naive times. An exception ends a run, so a run is a result.
  The attribute \<open>latest_sweep_event\<close> of the replay state is never used and left out.
\<close>

subsection \<open>Small readers\<close>

text \<open>\<open>dict(v)\<close> and \<open>v.get(...)\<close> of a configuration value.\<close>

definition dict_copy :: "pyval \<Rightarrow> pydict res" where
  "dict_copy v = (case v of PDict d \<Rightarrow> Ok d | PList [] \<Rightarrow> Ok [] | PStr [] \<Rightarrow> Ok [] | _ \<Rightarrow> Raise TypeError)"

definition dict_read :: "pyval \<Rightarrow> pydict res" where
  "dict_read v = (case v of PDict d \<Rightarrow> Ok d | _ \<Rightarrow> Raise AttributeError)"

definition selector_of :: "pydict \<Rightarrow> pydict res" where
  "selector_of config = dict_read (pget config ''selector'' (PDict []))"

text \<open>\<open>counter[key] += 1\<close>\<close>

definition bump_count :: "string \<Rightarrow> (string \<times> int) list \<Rightarrow> (string \<times> int) list" where
  "bump_count key m = AList.update key ((case map_of m key of Some n \<Rightarrow> n | None \<Rightarrow> 0) + 1) m"

text \<open>\<open>Counter.most_common(n)\<close>: ties keep the order of insertion.\<close>

definition most_common :: "nat \<Rightarrow> (string \<times> int) list \<Rightarrow> (string \<times> int) list" where
  "most_common n m = take n (sort_desc (\<lambda>a b. snd a < snd b) m)"

subsection \<open>The ladder of targets\<close>

record rung =
  rg_name :: string
  rg_price :: pyfloat
  rg_percent :: pyfloat
  rg_rr :: pyfloat

definition rung_dict :: "rung \<Rightarrow> pyval" where
  "rung_dict r = PDict [(''name'', PStr (rg_name r)), (''price'', PFloat (rg_price r)), (''close_percent'', PFloat (rg_percent r)),
     (''rr'', PFloat (rg_rr r))]"

definition normalize_close_percents :: "rung list \<Rightarrow> rung list" where
  "normalize_close_percents ts =
     (let total = py_sum (map rg_percent ts)
      in if fle total (Fin 0) then ts else map (\<lambda>t. t\<lparr>rg_percent := py_round (fdiv (rg_percent t) total) 5\<rparr>) ts)"

text \<open>The multiples that can be read and are positive.\<close>

fun positive_numbers :: "clock \<Rightarrow> pyval list \<Rightarrow> pyfloat list res" where
  "positive_numbers k [] = Ok []"
| "positive_numbers k (v # vs) =
     rbind (float_or_none k v) (\<lambda>x. rmap (\<lambda>xs. case x of Some y \<Rightarrow> if flt (Fin 0) y then y # xs else xs | None \<Rightarrow> xs) (positive_numbers k vs))"

definition final_multiple :: "clock \<Rightarrow> pydict \<Rightarrow> pyfloat \<Rightarrow> pyfloat \<Rightarrow> pyfloat res" where
  "final_multiple k ladder selected_rr setup_rr =
     rmap (\<lambda>f.
       let mode = py_lower (to_str (ck_text k) (pget ladder ''mode'' (PStr ''strategy'')));
           f' = (if f = None \<and> mode \<noteq> ''fixed_rr'' then Some (if selected_rr \<noteq> Fin 0 then selected_rr else setup_rr) else f)
       in case f' of Some x \<Rightarrow> if fle x (Fin 0) then Fin 3 else x | None \<Rightarrow> Fin 3)
     (float_or_none k (pget ladder ''final_rr'' PNone))"

definition ladder_multiples :: "pyfloat list \<Rightarrow> pyfloat \<Rightarrow> pyfloat list" where
  "ladder_multiples cleaned final =
     (let ms = (if cleaned = [] then [Fin 1, Fin 2, final] else cleaned)
      in if flt (max_of ms) final then ms @ [final] else ms)"

text \<open>The share of rung \<open>i\<close> of \<open>n\<close>.\<close>

definition rung_share :: "clock \<Rightarrow> pyval list \<Rightarrow> nat \<Rightarrow> nat \<Rightarrow> pyfloat res" where
  "rung_share k percents n i =
     rmap (\<lambda>x. case x of Some p \<Rightarrow> p | None \<Rightarrow> py_round (fdiv (Fin 1) (fof_int (int n))) 5)
       (if i < length percents then float_or_none k (percents ! i) else Ok None)"

definition rungs :: "clock \<Rightarrow> bool \<Rightarrow> pyfloat \<Rightarrow> pyfloat \<Rightarrow> pyval list \<Rightarrow> pyfloat list \<Rightarrow> rung list res" where
  "rungs k is_buy entry risk percents ms =
     res_map (\<lambda>(i, rr). rmap (\<lambda>share.
         \<lparr>rg_name = (if i = length ms - 1 then ''final_target'' else ''target_'' @ nat_str (i + 1)),
          rg_price = py_round (if is_buy then fadd entry (fmul risk rr) else fsub entry (fmul risk rr)) 5,
          rg_percent = share, rg_rr = rr\<rparr>) (rung_share k percents (length ms) i))
       (enumerate 0 ms)"

definition target_ladder :: "clock \<Rightarrow> setup_node \<Rightarrow> strategy_evaluation \<Rightarrow> pydict \<Rightarrow> rung list res" where
  "target_ladder k setup selected config =
     rbind (config_of (pget config ''target_ladder'' (PDict []))) (\<lambda>ladder.
     rbind (py_iter (py_or (pget ladder ''milestones'' PNone) (PList [PInt 1, PInt 2, PInt 3]))) (\<lambda>milestones.
     rbind (py_iter (py_or (pget ladder ''close_percents'' PNone) (PList []))) (\<lambda>percents.
     let entry = sn_entry_price setup; risk = fabs (fsub entry (sn_stop_loss setup))
     in if fle risk (Fin 0) then Ok []
        else
          rbind (final_multiple k ladder (ev_estimated_rr selected) (sn_estimated_rr setup)) (\<lambda>final.
          rbind (positive_numbers k milestones) (\<lambda>cleaned.
          rmap normalize_close_percents
            (rungs k (sn_direction setup = BUY) entry risk percents (ladder_multiples cleaned final)))))))"

definition named_target :: "rung list \<Rightarrow> string \<Rightarrow> pyfloat option" where
  "named_target ts name = map_option rg_price (List.find (\<lambda>t. rg_name t = name) ts)"

subsection \<open>From a setup to a signal\<close>

definition words_of :: "clock \<Rightarrow> pyval \<Rightarrow> string" where
  "words_of k v = to_str (ck_text k) (py_or v (PStr []))"

definition intended_order_type :: "clock \<Rightarrow> pydict \<Rightarrow> string" where
  "intended_order_type k signal =
     (let g = \<lambda>key. pget signal key PNone;
          mode = \<lambda>key. (case pget signal key PNone of PDict d \<Rightarrow> pget d ''mode'' PNone | _ \<Rightarrow> PStr []);
          raw = py_lower (py_join '' '' (map (words_of k) [g ''order_type'', g ''entry_type'', g ''entry_mode'', mode ''entry'', mode ''entry_model'']))
      in if has_sub ''market'' raw \<or> has_sub ''close'' raw \<or> has_sub ''confirmation'' raw then ''market_order'' else ''limit_order'')"

definition signal_displacement :: "pydict \<Rightarrow> pyval" where
  "signal_displacement signal =
     (case pget signal ''displacement_diagnostics'' PNone of
        PDict d \<Rightarrow> PDict d
      | _ \<Rightarrow> (case pget signal ''displacement'' PNone of
          PDict d \<Rightarrow> PDict d
        | _ \<Rightarrow> (case pget signal ''score'' PNone of
            PDict s \<Rightarrow> (case pget s ''displacement_diagnostics'' PNone of PDict d \<Rightarrow> PDict d | _ \<Rightarrow> PDict [])
          | _ \<Rightarrow> PDict [])))"

definition signal_setup_context :: "setup_node \<Rightarrow> strategy_evaluation \<Rightarrow> pydict \<Rightarrow> pydict" where
  "signal_setup_context setup selected session =
     (let sg = ev_signal selected; s = \<lambda>key. pget session key PNone
      in [(''strategy'', PStr (sd_key (ev_definition selected))), (''setup_type'', PStr (setup_type_value (sn_setup_type setup))),
          (''estimated_rr'', PFloat (sn_estimated_rr setup)), (''confidence_score'', PFloat (sn_confidence_score setup)),
          (''session_name'', py_or (s ''session_name'') (s ''session'')), (''killzone_name'', s ''killzone_name''),
          (''killzone_active'', s ''killzone_active''),
          (''components'', py_or (pget sg ''components'' PNone) (pget sg ''components_detected'' PNone)),
          (''rejection_reasons'', pget sg ''rejection_reasons'' (PList [])), (''displacement_diagnostics'', signal_displacement sg)])"

definition setup_to_market_signal ::
  "clock \<Rightarrow> setup_node \<Rightarrow> strategy_evaluation \<Rightarrow> datetime \<Rightarrow> string \<Rightarrow> pydict \<Rightarrow> pydict \<Rightarrow> pydict res" where
  "setup_to_market_signal k setup selected ts symbol config market =
     rbind (target_ladder k setup selected config) (\<lambda>targets.
     rbind (config_of (pget market ''session_context'' (PDict []))) (\<lambda>session.
     let sg = ev_signal selected; c = \<lambda>key. pget config key PNone; sc = signal_setup_context setup selected session;
         final = (if targets = [] then sn_take_profit setup else rg_price (last targets));
         side = direction_value (sn_direction setup); entry = sn_entry_price setup; stop = sn_stop_loss setup
     in rbind (to_float (ck_text k) (py_or (c ''spread_price'') (PFloat (Fin 0)))) (\<lambda>spread.
        rbind (to_float (ck_text k) (py_or (c ''slippage_price'') (PFloat (Fin 0)))) (\<lambda>slip.
        rbind (to_int (ck_text k) (py_or (pget config ''move_stop_to_be_after_target_index'' (PInt 1)) (PInt 0))) (\<lambda>be_index.
        rmap (\<lambda>buffer.
          [(''order_id'', PStr (sn_id setup)), (''setup_id'', PStr (sn_id setup)), (''symbol'', PStr symbol),
           (''strategy'', PStr (sd_key (ev_definition selected))), (''setup_type'', PStr (setup_type_value (sn_setup_type setup))),
           (''direction'', PStr side), (''order_type'', PStr (intended_order_type k sg)),
           (''entry_type'', py_or (pget sg ''entry_type'' PNone) (pget sg ''entry_mode'' PNone)), (''signal_time'', PStr (ck_show k ts)),
           (''valid_from_time'', PStr (ck_show k ts)), (''expiry_time'', PStr (ck_show k (sn_expiration_time setup))),
           (''entry_price'', PFloat entry), (''intended_entry_price'', PFloat entry), (''stop_loss'', PFloat stop),
           (''targets'', PList (map rung_dict targets)), (''target_1'', float_val (named_target targets ''target_1'')),
           (''target_2'', float_val (named_target targets ''target_2'')), (''final_target'', PFloat final),
           (''estimated_rr'', PFloat (sn_estimated_rr setup)), (''confidence_score'', PFloat (sn_confidence_score setup)),
           (''session_name'', pget sc ''session_name'' PNone), (''killzone_name'', pget sc ''killzone_name'' PNone),
           (''killzone_active'', pget sc ''killzone_active'' PNone), (''spread_price'', c ''spread_price''),
           (''slippage_price'', c ''slippage_price''), (''raw_rr'', PFloat (calculate_raw_rr side entry stop final)),
           (''estimated_post_cost_rr'', PFloat (calculate_post_cost_rr side entry stop final spread slip)),
           (''move_stop_to_be_after_target_1'', PBool (be_index \<le> 1)), (''move_stop_to_be_after_target_index'', PInt be_index),
           (''breakeven_buffer_price'', PFloat buffer), (''breakeven_after_rr'', c ''breakeven_after_rr''), (''trade_allowed'', PBool True),
           (''components_detected'', PDict [(''strategy'', PStr (sd_key (ev_definition selected))), (''raw'', pget sc ''components'' PNone)]),
           (''setup_context'', PDict sc)])
        (to_float (ck_text k) (py_or (c ''breakeven_buffer_price'') (PFloat (Fin 0)))))))))"

definition signal_stub :: "clock \<Rightarrow> (datetime \<Rightarrow> int) \<Rightarrow> strategy_evaluation \<Rightarrow> datetime \<Rightarrow> pydict res" where
  "signal_stub k local selected ts =
     rmap (\<lambda>seconds.
       [(''signal_id'', PStr (''SKIP_'' @ sd_key (ev_definition selected) @ ''_'' @ int_str seconds)), (''symbol'', PStr ''GOLD.i#''),
        (''signal_time'', PStr (ck_show k ts)), (''setup_type'', PStr (setup_type_value (sd_setup_type (ev_definition selected)))),
        (''direction'', PStr (case ev_direction selected of Some d \<Rightarrow> direction_value d | None \<Rightarrow> ''none''))])
     (int_timestamp local ts)"

subsection \<open>What happens to a filled order\<close>

definition text_of :: "clock \<Rightarrow> pyfloat \<Rightarrow> string" where
  "text_of k x = to_str (ck_text k) (PFloat x)"

definition entry_drift_rejection_reason :: "clock \<Rightarrow> pydict \<Rightarrow> bt_fill \<Rightarrow> pyfloat option \<Rightarrow> pyfloat \<Rightarrow> string option res" where
  "entry_drift_rejection_reason k order fill max_price max_fraction =
     (if max_price = None \<and> fle max_fraction (Fin 0) then Ok None
      else
        rbind (float_or_none k (pget order ''entry_price'' PNone)) (\<lambda>en.
        rmap (\<lambda>st.
          case (en, st, fl_price fill) of
            (Some entry, Some stop, Some price) \<Rightarrow>
              (let drift = fabs (fsub price entry); risk = fabs (fsub entry stop);
                   price_failed = (case max_price of Some m \<Rightarrow> flt m drift | None \<Rightarrow> False);
                   risk_failed = (flt (Fin 0) risk \<and> flt (Fin 0) max_fraction \<and> flt max_fraction (fdiv drift risk))
               in if price_failed \<or> risk_failed then Some (''entry_drift_exceeded:'' @ text_of k (py_round drift 5)) else None)
          | _ \<Rightarrow> Some ''entry_drift_unmeasurable'')
        (float_or_none k (pget order ''stop_loss'' PNone))))"

text \<open>The price of the last target in the list.\<close>

definition last_listed_price :: "clock \<Rightarrow> pyval \<Rightarrow> pyfloat option res" where
  "last_listed_price k v =
     rbind (py_iter v) (\<lambda>ts. if ts = [] then Raise IndexError
       else rbind (dict_read (last ts)) (\<lambda>d. float_or_none k (pget d ''price'' PNone)))"

definition post_cost_rr :: "clock \<Rightarrow> pydict \<Rightarrow> bt_fill \<Rightarrow> pyfloat res" where
  "post_cost_rr k order fill =
     rbind (float_or_none k (pget order ''stop_loss'' PNone)) (\<lambda>st.
     rbind (float_or_none k (pget order ''final_target'' PNone)) (\<lambda>ft.
     rbind (if ft = None \<and> py_truthy (pget order ''targets'' PNone) then last_listed_price k (pget order ''targets'' (PList [])) else Ok ft) (\<lambda>tg.
     case (fl_price fill, st, tg) of
       (Some price, Some stop, Some target) \<Rightarrow>
         rbind (float_or k (pget order ''spread_price'' PNone) (Fin 0)) (\<lambda>spread.
         rmap (calculate_post_cost_rr (py_upper (to_str (ck_text k) (pget order ''direction'' (PStr [])))) price stop target spread)
           (float_or k (pget order ''slippage_price'' PNone) (Fin 0)))
     | _ \<Rightarrow> Ok (Fin 0))))"

fun priced_targets :: "clock \<Rightarrow> pydict \<Rightarrow> (string \<times> pyfloat) list \<Rightarrow> pyval list res" where
  "priced_targets k order [] = Ok []"
| "priced_targets k order ((name, share) # ns) =
     (if pget order name PNone = PNone then priced_targets k order ns
      else rbind (to_float (ck_text k) (pget order name PNone)) (\<lambda>p.
        rmap ((#) (PDict [(''name'', PStr name), (''price'', PFloat p), (''close_percent'', PFloat share)])) (priced_targets k order ns)))"

definition targets_from_order :: "clock \<Rightarrow> pydict \<Rightarrow> pyval list res" where
  "targets_from_order k order =
     (if py_truthy (pget order ''targets'' PNone) then rbind (py_iter (pget order ''targets'' (PList []))) all_dicts
      else priced_targets k order [(''target_1'', lit (33/100)), (''target_2'', lit (33/100)), (''final_target'', lit (34/100))])"

definition full_position_from_fill :: "clock \<Rightarrow> pydict \<Rightarrow> bt_fill \<Rightarrow> pydict res" where
  "full_position_from_fill k order fill =
     (let o1 = \<lambda>key. pget order key PNone
      in rbind (float_or_none k (py_or (o1 ''intended_entry_price'') (o1 ''entry_price''))) (\<lambda>intended.
         rbind (float_or_none k (o1 ''stop_loss'')) (\<lambda>stop.
         let drift = (case (fl_price fill, intended) of (Some p, Some i) \<Rightarrow> Some (fabs (fsub p i)) | _ \<Rightarrow> None);
             risk = (case (intended, stop) of (Some i, Some s) \<Rightarrow> Some (fabs (fsub i s)) | _ \<Rightarrow> None);
             share = (case (drift, risk) of (Some d, Some r) \<Rightarrow> if flt (Fin 0) r then Some (py_round (fdiv d r) 5) else None | _ \<Rightarrow> None)
         in rbind (pitem (PDict order) ''stop_loss'') (\<lambda>written_stop.
            rbind (targets_from_order k order) (\<lambda>targets.
            rmap (\<lambda>setup.
              [(''trade_id'', o1 ''order_id''), (''symbol'', pget order ''symbol'' (PStr ''GOLD.i#'')), (''strategy'', o1 ''strategy''),
               (''direction'', o1 ''direction''), (''entry_price'', float_val (fl_price fill)), (''intended_entry_price'', float_val intended),
               (''fill_price'', float_val (fl_price fill)), (''stop_loss'', written_stop), (''current_stop'', written_stop),
               (''targets'', PList targets), (''remaining_percent'', PFloat (Fin 1)), (''realized_R'', PFloat (Fin 0)), (''partials'', PList []),
               (''move_stop_to_be_after_target_1'', PBool (py_truthy (pget order ''move_stop_to_be_after_target_1'' (PBool True)))),
               (''move_stop_to_be_after_target_index'', pget order ''move_stop_to_be_after_target_index'' (PInt 1)),
               (''breakeven_buffer_price'', pget order ''breakeven_buffer_price'' (PFloat (Fin 0))),
               (''breakeven_after_rr'', o1 ''breakeven_after_rr''), (''entry_time'', fl_time fill), (''signal_time'', o1 ''signal_time''),
               (''order_type'', o1 ''order_type''), (''entry_type'', o1 ''entry_type''), (''session_name'', o1 ''session_name''),
               (''killzone_name'', o1 ''killzone_name''), (''killzone_active'', o1 ''killzone_active''), (''estimated_rr'', o1 ''estimated_rr''),
               (''confidence_score'', o1 ''confidence_score''), (''spread_price'', o1 ''spread_price''), (''slippage_price'', o1 ''slippage_price''),
               (''entry_drift'', float_val (map_option (\<lambda>d. py_round d 5) drift)), (''drift_risk_fraction'', float_val share),
               (''raw_rr'', o1 ''raw_rr''), (''estimated_post_cost_rr'', o1 ''estimated_post_cost_rr''), (''components'', o1 ''components_detected''),
               (''rejection_reasons'', pget order ''rejection_reasons'' (PList [])), (''setup_context'', pget order ''setup_context'' (PDict [])),
               (''displacement_diagnostics'', pget setup ''displacement_diagnostics'' PNone)])
            (dict_read (py_or (o1 ''setup_context'') (PDict [])))))))) "

subsection \<open>The trap filter\<close>

definition trap_config :: "pydict \<Rightarrow> pydict res" where
  "trap_config config =
     rbind (dict_read (py_or (pget config ''active_profile'' (PDict [])) (PDict []))) (\<lambda>p.
     config_of (py_or (pget p ''early_trap_filter'' (PDict [])) (pget config ''early_trap_filter'' (PDict []))))"

text \<open>Whether the confirmation is valid, the move was adverse, and the retest closed against the direction.\<close>

definition trap_judgement :: "clock \<Rightarrow> bool \<Rightarrow> pyfloat \<Rightarrow> pyfloat \<Rightarrow> pydict \<Rightarrow> pydict \<Rightarrow> (bool \<times> bool \<times> bool) res" where
  "trap_judgement k is_buy entry stop retest conf =
     (let num = \<lambda>d key x. to_float (ck_text k) (pget d key (PFloat x)); risk = fabs (fsub entry stop)
      in rbind (num retest ''high'' entry) (\<lambda>rh.
         rbind (num retest ''low'' entry) (\<lambda>rl.
         rbind (num conf ''close'' (Fin 0)) (\<lambda>cc.
         rbind (num conf ''open'' (Fin 0)) (\<lambda>co.
         rbind (num retest (if is_buy then ''high'' else ''low'') (Fin 0)) (\<lambda>edge.
         rbind (if flt (Fin 0) risk
                then rmap (\<lambda>tip. if is_buy then fle tip (fadd stop (fmul risk (lit (15/100)))) else fle (fsub stop (fmul risk (lit (15/100)))) tip)
                       (num conf (if is_buy then ''low'' else ''high'') entry)
                else Ok False) (\<lambda>adverse.
         rbind (num retest ''close'' (Fin 0)) (\<lambda>rc.
         rmap (\<lambda>ro.
           let middle = fdiv (fadd rh rl) (Fin 2)
           in if is_buy then (flt edge cc \<or> flt middle cc \<and> flt co cc, adverse, flt rc ro)
              else (flt cc edge \<or> flt cc middle \<and> flt cc co, adverse, flt ro rc))
         (num retest ''open'' (Fin 0))))))))))"

definition with_diagnostics :: "pydict \<Rightarrow> pydict \<Rightarrow> pydict" where
  "with_diagnostics diag signal =
     (case pget signal ''setup_context'' PNone of
        PDict sc \<Rightarrow> AList.update ''setup_context'' (PDict (AList.update ''early_trap_diagnostics'' (PDict diag) sc)) signal
      | _ \<Rightarrow> signal)"

text \<open>The reason to reject a signal, and the signal with its diagnostics.\<close>

definition early_trap_filter_rejection :: "clock \<Rightarrow> pydict \<Rightarrow> pydict \<Rightarrow> pydict \<Rightarrow> (string option \<times> pydict) res" where
  "early_trap_filter_rejection k signal market config =
     rbind (trap_config config) (\<lambda>cfg.
     if \<not> py_truthy (pget cfg ''enabled'' (PBool False)) then Ok (None, signal)
     else
       rbind (py_iter (py_or (pget market ''candles'' (PList [])) (PList []))) (\<lambda>candles.
       if length candles < 2 then Ok (Some ''early_trap_filter_failed'', signal)
       else
         let side = py_upper (to_str (ck_text k) (pget signal ''direction'' (PStr []))) in
         rbind (float_or_none k (pget signal ''entry_price'' PNone)) (\<lambda>en.
         rbind (float_or_none k (pget signal ''stop_loss'' PNone)) (\<lambda>st.
         case (en, st) of
           (Some entry, Some stop) \<Rightarrow>
             rbind (dict_read (candles ! (length candles - 2))) (\<lambda>retest.
             rbind (dict_read (last candles)) (\<lambda>conf.
             if side \<notin> {''BUY'', ''SELL''} then Ok (Some ''early_trap_filter_failed'', signal)
             else
               rmap (\<lambda>(valid, adverse, against).
                 (if adverse then Some ''adverse_move_before_confirmation''
                  else if py_truthy (pget cfg ''reject_if_retest_candle_closes_against_direction'' (PBool True)) \<and> against
                  then Some ''early_trap_filter_failed''
                  else if py_truthy (pget cfg ''reject_if_no_followthrough_after_retest'' (PBool True)) \<and> \<not> valid
                  then Some ''no_followthrough_after_retest''
                  else None,
                  with_diagnostics
                    [(''retest_index'', pget retest ''index'' PNone), (''confirmation_index'', pget conf ''index'' PNone),
                     (''confirmation_delay_candles'', PInt 1), (''confirmation_close_valid'', PBool valid),
                     (''early_trap_risk'', PBool (adverse \<or> against))] signal))
               (trap_judgement k (side = ''BUY'') entry stop retest conf)))
         | _ \<Rightarrow> Ok (Some ''early_trap_filter_failed'', signal)))))"

subsection \<open>The tester and the state of a run\<close>

record tester =
  te_symbol :: string
  te_spread :: pyfloat
  te_slippage :: pyfloat
  te_warmup :: int
  te_max_open :: int
  te_cooldown :: int
  te_harden :: bool
  te_max_drift :: "pyfloat option"
  te_max_fraction :: pyfloat
  te_definitions :: "strategy_definition list"

text \<open>The constructor; \<open>gen\<close> gives the strategies' generators.\<close>

definition new_tester ::
  "(string \<Rightarrow> pydict \<Rightarrow> pydict option \<Rightarrow> pydict res) \<Rightarrow> string \<Rightarrow> pyfloat \<Rightarrow> pyfloat \<Rightarrow> int \<Rightarrow> int \<Rightarrow> int \<Rightarrow> bool \<Rightarrow> pyfloat option \<Rightarrow> pyfloat
    \<Rightarrow> tester" where
  "new_tester gen symbol spread slippage warmup max_open cooldown_minutes harden max_drift max_fraction =
     \<lparr>te_symbol = symbol, te_spread = py_max (Fin 0) spread, te_slippage = py_max (Fin 0) slippage, te_warmup = max 1 warmup,
      te_max_open = max 1 max_open, te_cooldown = max 0 cooldown_minutes * 60000000, te_harden = harden, te_max_drift = max_drift,
      te_max_fraction = py_max (Fin 0) max_fraction, te_definitions = default_definitions gen\<rparr>"

text \<open>The engines and the cooldowns stay with the tester from run to run.\<close>

record engines =
  en_session :: session_engine
  en_structure :: structure_engine
  en_liquidity :: liquidity_engine
  en_cooldowns :: "(string \<times> datetime) list"

definition new_engines :: engines where
  "new_engines = \<lparr>en_session = session_engine_new, en_structure = se_new ''1m'' 50, en_liquidity = le_new ''1m'' (Fin 5), en_cooldowns = []\<rparr>"

record run_counts =
  rc_strategies :: "(string \<times> int) list"
  rc_tradeable :: "(string \<times> int) list"
  rc_blocked :: "(string \<times> int) list"
  rc_status :: "(string \<times> int) list"
  rc_reasons :: "(string \<times> int) list"
  rc_evaluations :: nat
  rc_selected :: nat
  rc_rejected :: nat
  rc_cooldown_skips :: nat
  rc_open_skips :: nat
  rc_drift_skips :: nat
  rc_hardened :: nat

definition no_counts :: run_counts where
  "no_counts = \<lparr>rc_strategies = [], rc_tradeable = [], rc_blocked = [], rc_status = [], rc_reasons = [], rc_evaluations = 0,
     rc_selected = 0, rc_rejected = 0, rc_cooldown_skips = 0, rc_open_skips = 0, rc_drift_skips = 0, rc_hardened = 0\<rparr>"

record fb_state =
  fb_engines :: engines
  fb_candles :: "(string \<times> candle_node list) list"
  fb_index :: "(string \<times> nat) list"
  fb_pivots :: "swing_point list"
  fb_pools :: "pydict list"
  fb_pending :: "pydict list"
  fb_open :: "pydict list"
  fb_trades :: "pydict list"
  fb_skipped :: "pydict list"
  fb_signals :: "pydict list"
  fb_counts :: run_counts

definition fb_start :: "engines \<Rightarrow> fb_state" where
  "fb_start en = \<lparr>fb_engines = en, fb_candles = map (\<lambda>(tf, _). (tf, [])) timeframe_table,
     fb_index = map (\<lambda>(tf, _). (tf, 0)) (tl timeframe_table), fb_pivots = [], fb_pools = [], fb_pending = [], fb_open = [], fb_trades = [],
     fb_skipped = [], fb_signals = [], fb_counts = no_counts\<rparr>"

definition index_of :: "fb_state \<Rightarrow> string \<Rightarrow> nat" where
  "index_of s tf = (case map_of (fb_index s) tf of Some i \<Rightarrow> i | None \<Rightarrow> 0)"

definition skip_setup :: "clock \<Rightarrow> pydict \<Rightarrow> string \<Rightarrow> fb_state \<Rightarrow> fb_state" where
  "skip_setup k setup reason s = s\<lparr>fb_skipped := fb_skipped s @ [record_skipped_setup k setup reason]\<rparr>"

subsection \<open>What a candle shows\<close>

text \<open>The closed candles of a higher timeframe, pushed one by one; the count of those passed.\<close>

fun take_closed :: "datetime \<Rightarrow> candle_node list \<Rightarrow> candle_node list \<Rightarrow> nat \<Rightarrow> (candle_node list \<times> nat) res" where
  "take_closed now [] seen i = Ok (seen, i)"
| "take_closed now (c # cs) seen i =
     rbind (dt_le (cn_end_time c) now) (\<lambda>passed_yet. if passed_yet then take_closed now cs (dq_push 160 c seen) (Suc i) else Ok (seen, i))"

definition advance_timeframe :: "(string \<times> candle_node list) list \<Rightarrow> datetime \<Rightarrow> string \<Rightarrow> fb_state \<Rightarrow> fb_state res" where
  "advance_timeframe data now tf s =
     rmap (\<lambda>(seen, i). s\<lparr>fb_candles := AList.update tf seen (fb_candles s), fb_index := AList.update tf i (fb_index s)\<rparr>)
       (take_closed now (drop (index_of s tf) (candles_for data tf)) (candles_for (fb_candles s) tf) (index_of s tf))"

definition advance_higher_timeframes :: "(string \<times> candle_node list) list \<Rightarrow> datetime \<Rightarrow> fb_state \<Rightarrow> fb_state res" where
  "advance_higher_timeframes data now s = res_fold (advance_timeframe data now) [''15m'', ''1h'', ''4h''] s"

definition ingest_structure_and_liquidity :: "candle_node \<Rightarrow> fb_state \<Rightarrow> fb_state" where
  "ingest_structure_and_liquidity c s =
     (let en = fb_engines s; ((pivots, _), se) = ingest_candle_close c (en_structure en);
          le = fold (\<lambda>p le. snd (register_structural_pivot_pool p le)) pivots (en_liquidity en)
      in s\<lparr>fb_engines := en\<lparr>en_structure := se, en_liquidity := le\<rparr>, fb_pivots := fb_pivots s @ pivots, fb_pools := active_pools_snapshot le\<rparr>)"

definition synthetic_tick :: "string \<Rightarrow> candle_node \<Rightarrow> pyfloat \<Rightarrow> nat \<Rightarrow> tick_node" where
  "synthetic_tick symbol c spread i =
     (let half = fdiv spread (Fin 2)
      in \<lparr>tk_symbol = symbol, tk_timestamp = cn_end_time c, tk_bid = fsub (cn_close_p c) half, tk_ask = fadd (cn_close_p c) half,
          tk_volume = (if cn_ticks_count c \<noteq> 0 then cn_ticks_count c else cn_volume c), tk_sequence_id = int i, tk_trace_id = [],
          tk_correlation_id = ''BACKTEST_TICK_'' @ nat_str i, tk_priority = NORMAL\<rparr>)"

definition candle_to_backtest_row :: "candle_node \<Rightarrow> pydict" where
  "candle_to_backtest_row c =
     [(''timestamp'', PDt (cn_start_time c)), (''close_time'', PDt (cn_end_time c)), (''open'', PFloat (cn_open_p c)),
      (''high'', PFloat (cn_high_p c)), (''low'', PFloat (cn_low_p c)), (''close'', PFloat (cn_close_p c)),
      (''volume'', PInt (cn_volume c)), (''is_closed'', PBool (cn_is_closed c))]"

definition session_row :: "candle_node \<Rightarrow> session_context \<Rightarrow> pydict" where
  "session_row c session = candle_to_backtest_row c @
     [(''session_name'', PStr (sx_session_name session)), (''killzone_active'', PBool (sx_killzone_active session)),
      (''killzone_name'', opt_str (sx_killzone_name session))]"

text \<open>The state after a candle is seen, the tick at its close and its session.\<close>

definition see_candle ::
  "(datetime \<Rightarrow> int) \<Rightarrow> tester \<Rightarrow> (string \<times> candle_node list) list \<Rightarrow> nat \<Rightarrow> candle_node \<Rightarrow> fb_state
    \<Rightarrow> (tick_node \<times> session_context \<times> fb_state) res" where
  "see_candle local te data i c s =
     rmap (\<lambda>s1.
       let s2 = ingest_structure_and_liquidity c
                  (s1\<lparr>fb_candles := AList.update ''1m'' (dq_push 160 c (candles_for (fb_candles s1) ''1m'')) (fb_candles s1)\<rparr>);
           t = synthetic_tick (te_symbol te) c (te_spread te) i;
           (session, se) = evaluate_session_context local (cn_end_time c) (tick_mid t) (en_session (fb_engines s2))
       in (t, session, s2\<lparr>fb_engines := (fb_engines s2)\<lparr>en_session := se\<rparr>\<rparr>))
     (advance_higher_timeframes data (cn_end_time c) s)"

subsection \<open>Positions and orders on a candle\<close>

definition management_of :: "pydict \<Rightarrow> pydict res" where
  "management_of config = dict_copy (pget config ''management'' (PDict []))"

definition manage_positions :: "clock \<Rightarrow> pydict \<Rightarrow> pydict \<Rightarrow> fb_state \<Rightarrow> fb_state res" where
  "manage_positions k config row s =
     rbind (if fb_open s = [] then Ok [] else management_of config) (\<lambda>m.
     rmap (\<lambda>(trades, kept). s\<lparr>fb_trades := fb_trades s @ trades, fb_open := kept\<rparr>) (manage_open k m row (fb_open s)))"

text \<open>What a pending order comes to on a candle.\<close>

datatype outcome = Kept | Dropped pydict | Drifted pydict | Entered pydict | Finished pydict

definition minimum_rr_of :: "clock \<Rightarrow> pydict \<Rightarrow> pyfloat \<Rightarrow> pyfloat res" where
  "minimum_rr_of k config dflt =
     rbind (selector_of config) (\<lambda>sel. to_float (ck_text k) (pget sel ''minimum_rr'' (pget config ''minimum_rr'' (PFloat dflt))))"

definition enter_position :: "clock \<Rightarrow> pydict \<Rightarrow> pydict \<Rightarrow> pydict \<Rightarrow> bt_fill \<Rightarrow> pyfloat \<Rightarrow> outcome res" where
  "enter_position k config row order f rr =
     rbind (full_position_from_fill k order f) (\<lambda>p.
     rbind (management_of config) (\<lambda>m.
     rbind (simulate_trade_management k (AList.update ''post_cost_rr'' (PFloat (py_round rr 5)) p) row m) (\<lambda>im.
     case mg_closed im of
       Some t \<Rightarrow> rmap Finished (record_trade k t)
     | None \<Rightarrow> Ok (Entered (mg_position im)))))"

definition judge_fill :: "clock \<Rightarrow> tester \<Rightarrow> pydict \<Rightarrow> pydict \<Rightarrow> pydict \<Rightarrow> bt_fill \<Rightarrow> outcome res" where
  "judge_fill k te config row order f =
     (let drop_for = \<lambda>reason. Ok (Dropped (record_skipped_setup k order reason))
      in rbind (entry_drift_rejection_reason k order f (te_max_drift te) (te_max_fraction te)) (\<lambda>drift.
         case drift of
           Some reason \<Rightarrow> Ok (Drifted (record_skipped_setup k order reason))
         | None \<Rightarrow>
             rbind (post_cost_rr k order f) (\<lambda>rr.
             rbind (minimum_rr_of k config (Fin (3/2))) (\<lambda>min_rr.
             rbind (rbind (selector_of config) (\<lambda>sel. to_float (ck_text k) (pget sel ''minimum_risk_to_cost_ratio'' (PFloat (Fin 0))))) (\<lambda>min_cost.
             rbind (float_or_none k (pget order ''stop_loss'' PNone)) (\<lambda>st.
             let ratio = (case (fl_price f, st) of (Some p, Some s) \<Rightarrow> risk_to_cost_ratio p s (te_spread te) (te_slippage te) | _ \<Rightarrow> Fin 0)
             in if flt ratio min_cost then drop_for (''risk_too_small_vs_cost:'' @ text_of k (py_round ratio 4))
                else if flt rr min_rr then drop_for (''post_cost_rr_below_minimum:'' @ text_of k (py_round rr 4))
                else enter_position k config row order f rr))))))"

definition order_outcome :: "clock \<Rightarrow> tester \<Rightarrow> pydict \<Rightarrow> pydict \<Rightarrow> pydict \<Rightarrow> outcome res" where
  "order_outcome k te config row order =
     rbind (simulate_order_fill k order row [(''spread'', PFloat (te_spread te))] [(''slippage'', PFloat (te_slippage te))]) (\<lambda>f.
     if fl_filled f then judge_fill k te config row order f
     else if fl_reason f = ''order_expired'' then Ok (Dropped (record_skipped_setup k order ''pending_order_expired''))
     else Ok Kept)"

definition apply_outcome :: "pydict \<Rightarrow> outcome \<Rightarrow> fb_state \<Rightarrow> fb_state" where
  "apply_outcome order x s =
     (case x of
        Kept \<Rightarrow> s\<lparr>fb_pending := fb_pending s @ [order]\<rparr>
      | Dropped d \<Rightarrow> s\<lparr>fb_skipped := fb_skipped s @ [d]\<rparr>
      | Drifted d \<Rightarrow> s\<lparr>fb_skipped := fb_skipped s @ [d], fb_counts := (fb_counts s)\<lparr>rc_drift_skips := rc_drift_skips (fb_counts s) + 1\<rparr>\<rparr>
      | Entered p \<Rightarrow> s\<lparr>fb_open := fb_open s @ [p]\<rparr>
      | Finished t \<Rightarrow> s\<lparr>fb_trades := fb_trades s @ [t]\<rparr>)"

text \<open>The orders in turn; those kept are pending again.\<close>

fun settle_orders :: "clock \<Rightarrow> tester \<Rightarrow> pydict \<Rightarrow> pydict \<Rightarrow> pydict list \<Rightarrow> fb_state \<Rightarrow> fb_state res" where
  "settle_orders k te config row [] s = Ok s"
| "settle_orders k te config row (q # qs) s =
     rbind (order_outcome k te config row q) (\<lambda>x. settle_orders k te config row qs (apply_outcome q x s))"

definition fill_orders :: "clock \<Rightarrow> tester \<Rightarrow> pydict \<Rightarrow> pydict \<Rightarrow> fb_state \<Rightarrow> fb_state res" where
  "fill_orders k te config row s = settle_orders k te config row (fb_pending s) (s\<lparr>fb_pending := []\<rparr>)"

subsection \<open>The market the strategies see\<close>

definition pool_payload :: "liquidity_pool \<Rightarrow> pyfloat \<Rightarrow> pydict" where
  "pool_payload p depth =
     (let side = (if lp_is_buy_side p then ''buy_side'' else ''sell_side'');
          reversal = (if lp_is_buy_side p then ''bearish'' else ''bullish'');
          quality = py_min (Fin 10) (fadd (Fin 6) (fof_int (lp_accumulated_touches p)))
      in [(''id'', PStr (lp_id p)), (''liquidity_id'', PStr (lp_id p)), (''swept_liquidity_id'', PStr (lp_id p)),
          (''timeframe'', PStr (lp_timeframe p)), (''side'', PStr side), (''direction'', PStr side), (''price'', PFloat (pool_level p)),
          (''zone_low'', PFloat (lp_floor_price p)), (''zone_high'', PFloat (lp_ceiling_price p)), (''quality_score'', PFloat quality),
          (''target_priority_score'', PFloat quality), (''touches'', PInt (lp_accumulated_touches p)),
          (''is_equal_structure'', PBool (lp_is_equal_structure p)), (''swept_status'', PStr ''swept_rejected''), (''swept'', PBool True),
          (''sweep_depth'', PFloat depth), (''sweep_timestamp'', opt_dt (lp_sweep_timestamp p)), (''direction_bias'', PStr reversal),
          (''direction_candidate'', PStr reversal)])"

text \<open>The pool with the nearest price; the latest sweep, the last of the pools when there is one, is not a candidate.\<close>

definition nearest_target :: "clock \<Rightarrow> pyfloat \<Rightarrow> pydict list \<Rightarrow> bool \<Rightarrow> pydict option res" where
  "nearest_target k price pools swept =
     nearest_by (\<lambda>p. rmap (\<lambda>x. fabs (fsub x price)) (to_float (ck_text k) (pget p ''price'' (PFloat price))))
       (if swept then butlast pools else pools)"

definition recent_bias :: "candle_node list \<Rightarrow> string" where
  "recent_bias cs =
     (if length cs < 5 then ''RANGING''
      else let recent = py_tail 5 cs; a = cn_close_p (hd recent); b = cn_close_p (last recent)
           in if flt a b then ''BULLISH'' else if flt b a then ''BEARISH'' else ''RANGING'')"

definition directional_bias :: "fb_state \<Rightarrow> pydict" where
  "directional_bias s = map (\<lambda>(tf, _). (tf, PStr (recent_bias (candles_for (fb_candles s) tf)))) timeframe_table"

definition range_location :: "pyfloat \<Rightarrow> candle_node list \<Rightarrow> pydict" where
  "range_location price cs =
     (if cs = [] then [(''premium_discount'', PStr ''equilibrium''), (''range_high'', PFloat price), (''range_low'', PFloat price)]
      else let recent = py_tail 50 cs; high = max_of (map cn_high_p recent); low = min_of (map cn_low_p recent);
               mid = fdiv (fadd high low) (Fin 2)
           in [(''premium_discount'', PStr (if flt mid price then ''premium'' else if flt price mid then ''discount'' else ''equilibrium'')),
               (''range_high'', PFloat high), (''range_low'', PFloat low), (''range_midpoint'', PFloat mid)])"

definition payload_rows :: "candle_node list \<Rightarrow> pyval" where
  "payload_rows cs = PList (map (\<lambda>(i, c). PDict (candle_payload c i)) (enumerate 0 cs))"

definition build_strategy_context ::
  "clock \<Rightarrow> tick_node \<Rightarrow> fb_state \<Rightarrow> (liquidity_pool \<times> pyfloat) list \<Rightarrow> session_context \<Rightarrow> pydict res" where
  "build_strategy_context k t s swept session =
     (let by_tf = map (\<lambda>(tf, cs). (tf, payload_rows cs)) (fb_candles s);
          candles = pget by_tf ''1m'' (PList []);
          swept_rows = map (\<lambda>(p, depth). pool_payload p depth) swept;
          pools = fb_pools s @ swept_rows;
          pool_rows = PList (map PDict pools);
          swings = PList (map (\<lambda>(i, p). PDict (swing_payload p i)) (enumerate 0 (py_tail 100 (fb_pivots s))));
          bias = directional_bias s;
          latest = (if swept_rows = [] then PNone else PDict (last swept_rows));
          name = PStr (sx_session_name session); mid = tick_mid t; spread = tick_spread t;
          word = \<lambda>v. PStr (bias_to_strategy_text (pytext.truncate (ck_text k)) v)
      in rmap (\<lambda>target.
         [(''symbol'', PStr (tk_symbol t)), (''timestamp'', PDt (tk_timestamp t)), (''current_price'', PFloat mid),
          (''current_bid'', PFloat (tk_bid t)), (''current_ask'', PFloat (tk_ask t)), (''candles'', candles), (''setup_df'', candles),
          (''entry_df'', candles), (''ltf_df'', candles), (''m15_df'', pget by_tf ''15m'' candles),
          (''htf_df'', pget by_tf ''1h'' (pget by_tf ''4h'' candles)), (''candles_by_timeframe'', PDict by_tf),
          (''liquidity_pools'', pool_rows), (''ltf_liquidity_pools'', pool_rows), (''htf_liquidity_targets'', pool_rows),
          (''target_liquidity'', case target of None \<Rightarrow> PNone | Some d \<Rightarrow> PDict d), (''latest_sweep_event'', latest),
          (''starting_liquidity_event'', latest), (''swings'', swings), (''structure_swings'', swings), (''ltf_swings'', swings),
          (''htf_bias'', PDict [(''bias_direction'', word (py_or (pget bias ''1h'' PNone) (pget bias ''4h'' PNone))),
             (''timeframe_bias'', PDict bias), (''confidence_score'', PFloat (Fin (15/2)))]),
          (''higher_timeframe_bias'', word (py_or (pget bias ''4h'' PNone) (pget bias ''1h'' PNone))),
          (''session_context'', PDict [(''session'', name), (''session_name'', name), (''killzone_active'', PBool (sx_killzone_active session)),
             (''killzone_name'', opt_str (sx_killzone_name session))]),
          (''session'', name),
          (''spread_status'', PDict [(''spread_points'', PFloat spread), (''spread'', PFloat spread),
             (''average_spread'', PFloat (py_max spread (lit (1/100))))]),
          (''news_status'', PDict [(''restricted'', PBool False), (''high_impact_recent'', PBool False), (''post_news_window_active'', PBool False)]),
          (''price_location'', PDict (range_location mid (candles_for (fb_candles s) ''1m'')))])
       (nearest_target k mid pools (swept_rows \<noteq> [])))"

subsection \<open>One decision\<close>

definition count_evaluation :: "strategy_evaluation \<Rightarrow> run_counts \<Rightarrow> run_counts" where
  "count_evaluation ev c =
     (let key = sd_key (ev_definition ev);
          c1 = (if is_tradeable ev then c\<lparr>rc_tradeable := bump_count key (rc_tradeable c)\<rparr> else c);
          c2 = c1\<lparr>rc_status := bump_count (key @ '':'' @ ev_status ev) (rc_status c1)\<rparr>
      in if \<not> is_tradeable ev \<and> ev_reason ev \<noteq> [] then c2\<lparr>rc_reasons := bump_count (key @ '':'' @ ev_reason ev) (rc_reasons c2)\<rparr> else c2)"

definition record_strategy_evaluations :: "strategy_evaluation list \<Rightarrow> run_counts \<Rightarrow> run_counts" where
  "record_strategy_evaluations evs c = fold count_evaluation evs (c\<lparr>rc_evaluations := rc_evaluations c + length evs\<rparr>)"

definition tally :: "(run_counts \<Rightarrow> run_counts) \<Rightarrow> fb_state \<Rightarrow> fb_state" where
  "tally g s = s\<lparr>fb_counts := g (fb_counts s)\<rparr>"

definition selection_id :: "strategy_evaluation \<Rightarrow> nat \<Rightarrow> int \<Rightarrow> string" where
  "selection_id ev i seconds = ''BT_'' @ py_upper (sd_key (ev_definition ev)) @ ''_'' @ nat_str i @ ''_'' @ int_str seconds"

text \<open>The setup, hardened when the tester says so.\<close>

definition harden_setup :: "tester \<Rightarrow> setup_node \<Rightarrow> fb_state \<Rightarrow> setup_node \<times> fb_state" where
  "harden_setup te setup s =
     (if te_harden te
      then let h = harden_for_demo_execution default_stop_config setup (candles_for (fb_candles s) ''1m'') (te_spread te)
           in if hr_adjusted h then (hr_setup h, tally (\<lambda>c. c\<lparr>rc_hardened := rc_hardened c + 1\<rparr>) s) else (setup, s)
      else (setup, s))"

definition queue_signal :: "clock \<Rightarrow> strategy_evaluation \<Rightarrow> pydict \<Rightarrow> fb_state \<Rightarrow> fb_state res" where
  "queue_signal k ev signal s =
     rmap (\<lambda>order. tally (\<lambda>c. c\<lparr>rc_strategies := bump_count (sd_key (ev_definition ev)) (rc_strategies c), rc_selected := rc_selected c + 1\<rparr>)
             (s\<lparr>fb_pending := fb_pending s @ [order], fb_signals := fb_signals s @ [signal]\<rparr>))
       (place_pending_order k signal [(''order_type'', pget signal ''order_type'' PNone)])"

definition place_selection ::
  "clock \<Rightarrow> (datetime \<Rightarrow> int) \<Rightarrow> tester \<Rightarrow> pydict \<Rightarrow> pydict \<Rightarrow> nat \<Rightarrow> candle_node \<Rightarrow> strategy_evaluation \<Rightarrow> fb_state \<Rightarrow> fb_state res" where
  "place_selection k local te config market i c ev s =
     rbind (int_timestamp local (cn_end_time c)) (\<lambda>seconds.
     rbind (build_setup_node (pytext.truncate (ck_text k)) ev (selection_id ev i seconds) (dt_naive (cn_end_time c)) (''BACKTEST_'' @ nat_str i) ''1m'')
       (\<lambda>setup0.
     let (setup, s1) = harden_setup te setup0 s in
     rbind (setup_to_market_signal k setup ev (cn_end_time c) (te_symbol te) config market) (\<lambda>signal0.
     rbind (early_trap_filter_rejection k signal0 market config) (\<lambda>(trap, signal).
     case trap of
       Some reason \<Rightarrow> Ok (skip_setup k signal reason s1)
     | None \<Rightarrow> queue_signal k ev signal s1))))"

definition take_selection ::
  "clock \<Rightarrow> (datetime \<Rightarrow> int) \<Rightarrow> tester \<Rightarrow> pydict \<Rightarrow> pydict \<Rightarrow> nat \<Rightarrow> candle_node \<Rightarrow> strategy_evaluation \<Rightarrow> fb_state \<Rightarrow> fb_state res" where
  "take_selection k local te config market i c ev s =
     (if te_max_open te \<le> int (length (fb_open s) + length (fb_pending s))
      then rmap (\<lambda>stub. skip_setup k stub ''blocked_existing_position''
             (tally (\<lambda>n. n\<lparr>rc_open_skips := rc_open_skips n + 1, rc_blocked := bump_count (sd_key (ev_definition ev)) (rc_blocked n)\<rparr>) s))
           (signal_stub k local ev (cn_end_time c))
      else
        let key = cooldown_key ev; now = dt_naive (cn_end_time c); en = fb_engines s in
        rbind (case map_of (en_cooldowns en) key of None \<Rightarrow> Ok False | Some until \<Rightarrow> dt_lt now until) (\<lambda>cooling.
        if cooling
        then rmap (\<lambda>stub. skip_setup k stub ''strategy_cooldown_active'' (tally (\<lambda>n. n\<lparr>rc_cooldown_skips := rc_cooldown_skips n + 1\<rparr>) s))
               (signal_stub k local ev (cn_end_time c))
        else place_selection k local te config market i c ev
               (s\<lparr>fb_engines := en\<lparr>en_cooldowns := AList.update key (dt_add now (te_cooldown te)) (en_cooldowns en)\<rparr>\<rparr>)))"

definition decide ::
  "clock \<Rightarrow> (datetime \<Rightarrow> int) \<Rightarrow> tester \<Rightarrow> pydict \<Rightarrow> nat \<Rightarrow> candle_node \<Rightarrow> tick_node \<Rightarrow> session_context \<Rightarrow> fb_state \<Rightarrow> fb_state res" where
  "decide k local te config i c t session s =
     (if int (i + 1) < te_warmup te then Ok s
      else
        let (swept, le) = evaluate_tick_sweeps t (en_liquidity (fb_engines s));
            s1 = s\<lparr>fb_engines := (fb_engines s)\<lparr>en_liquidity := le\<rparr>, fb_pools := active_pools_snapshot le\<rparr> in
        rbind (build_strategy_context k t s1 swept session) (\<lambda>market.
        rbind (selector_of config) (\<lambda>profile.
        rbind (selector_evaluate (pytext.truncate (ck_text k)) (te_definitions te) market (Some profile)) (\<lambda>selection.
        let s2 = tally (record_strategy_evaluations (sl_evaluations selection)) s1
        in case sl_selected selection of
             None \<Rightarrow> Ok (tally (\<lambda>n. n\<lparr>rc_rejected := rc_rejected n + 1\<rparr>) s2)
           | Some ev \<Rightarrow> take_selection k local te config market i c ev s2))))"

definition backtest_candle ::
  "clock \<Rightarrow> (datetime \<Rightarrow> int) \<Rightarrow> tester \<Rightarrow> (string \<times> candle_node list) list \<Rightarrow> pydict \<Rightarrow> nat \<Rightarrow> candle_node \<Rightarrow> fb_state \<Rightarrow> fb_state res" where
  "backtest_candle k local te data config i c s =
     rbind (see_candle local te data i c s) (\<lambda>(t, session, s1).
     let row = session_row c session in
     rbind (manage_positions k config row s1) (\<lambda>s2.
     rbind (fill_orders k te config row s2) (\<lambda>s3.
     decide k local te config i c t session s3)))"

fun backtest_candles ::
  "clock \<Rightarrow> (datetime \<Rightarrow> int) \<Rightarrow> tester \<Rightarrow> (string \<times> candle_node list) list \<Rightarrow> pydict \<Rightarrow> nat \<Rightarrow> candle_node list \<Rightarrow> fb_state \<Rightarrow> fb_state res" where
  "backtest_candles k local te data config i [] s = Ok s"
| "backtest_candles k local te data config i (c # cs) s =
     rbind (backtest_candle k local te data config i c s) (backtest_candles k local te data config (Suc i) cs)"

subsection \<open>The end of a run\<close>

definition close_position_at_end :: "clock \<Rightarrow> pydict \<Rightarrow> pydict \<Rightarrow> pydict res" where
  "close_position_at_end k pos row =
     (let num = to_float (ck_text k); p = \<lambda>key. pget pos key PNone;
          side = py_upper (to_str (ck_text k) (pget pos ''direction'' (PStr [])))
      in rbind (num (pget row ''close'' (pget pos ''entry_price'' (PFloat (Fin 0))))) (\<lambda>close.
         rbind (num (pget pos ''entry_price'' (PFloat close))) (\<lambda>entry.
         rbind (num (pget pos ''stop_loss'' (PFloat entry))) (\<lambda>stop.
         rbind (num (pget pos ''realized_R'' (PFloat (Fin 0)))) (\<lambda>before.
         let risk = fabs (fsub entry stop) in
         rmap (\<lambda>r.
           [(''trade_id'', p ''trade_id''), (''symbol'', p ''symbol''), (''direction'', p ''direction''), (''entry_price'', PFloat entry),
            (''stop_loss'', PFloat stop), (''exit_price'', PFloat close), (''exit_time'', pget row ''close_time'' PNone),
            (''final_exit_reason'', PStr (exit_value EndOfTest)), (''realized_R'', PFloat (py_round r 5)),
            (''partials'', pget pos ''partials'' (PList [])), (''ambiguous_exit'', PBool False)])
         (if fle risk (Fin 0) then Ok before
          else rmap (\<lambda>share. fadd before (fmul share (fdiv (if side = ''BUY'' then fsub close entry else fsub entry close) risk)))
                 (num (pget pos ''remaining_percent'' (PFloat (Fin 1))))))))))"

definition close_open_positions :: "clock \<Rightarrow> pydict \<Rightarrow> candle_node list \<Rightarrow> fb_state \<Rightarrow> fb_state res" where
  "close_open_positions k config primary s =
     (if py_truthy (pget config ''close_open_positions_at_end'' (PBool True)) \<and> primary \<noteq> []
      then rmap (\<lambda>ts. s\<lparr>fb_trades := fb_trades s @ ts, fb_open := []\<rparr>)
             (res_map (\<lambda>p. rbind (close_position_at_end k p (candle_to_backtest_row (last primary))) (record_trade k)) (fb_open s))
      else Ok s)"

definition split_completed :: "pydict list \<Rightarrow> pydict list \<times> pydict list" where
  "split_completed ts = partition (\<lambda>t. pget t ''final_exit_reason'' PNone \<noteq> PStr (exit_value EndOfTest)) ts"

subsection \<open>What a trade is annotated with\<close>

definition calibrated_score :: "clock \<Rightarrow> pydict \<Rightarrow> pyfloat option res" where
  "calibrated_score k t =
     (let g = \<lambda>key. pget t key PNone
      in rbind (float_or_none k (py_or (py_or (g ''confidence_score'') (g ''score'')) (g ''setup_score''))) (\<lambda>score.
         case score of
           None \<Rightarrow> Ok None
         | Some x \<Rightarrow>
             rbind (float_or k (g ''minimum_rr'') (Fin 3)) (\<lambda>min_rr.
             rbind (float_or_none k (g ''post_cost_rr'')) (\<lambda>rr.
             rbind (float_or k (g ''drift_risk_fraction'') (Fin 0)) (\<lambda>drift.
             rmap (\<lambda>minutes.
               let penalty = fold (\<lambda>(hit, p) sum. if hit then fadd sum p else sum)
                     [(py_lower (words_of k (g ''killzone_name'')) = ''london open'', Fin 8),
                      (case rr of Some v \<Rightarrow> flt v min_rr | None \<Rightarrow> False, Fin 10), (flt (lit (15/100)) drift, Fin 5),
                      (has_sub ''weak'' (py_lower (words_of k (g ''displacement_diagnostics''))), Fin 5), (fle minutes (Fin 15), Fin 6)] (Fin 0)
               in Some (py_round (py_max (Fin 0) (fsub x penalty)) 2))
             (float_or k (g ''duration_min'') (Fin 9999)))))))"

text \<open>What a run is labelled with; \<open>digest\<close> is the hash of a value's JSON text.\<close>

record run_labels =
  rl_id :: string
  rl_profile :: pyval
  rl_commit :: pyval
  rl_branch :: pyval
  rl_min_rr :: pyval
  rl_min_score :: pyval
  rl_selector_hash :: string
  rl_profile_hash :: string

definition run_labels_of :: "clock \<Rightarrow> (pydict \<Rightarrow> string) \<Rightarrow> pydict \<Rightarrow> run_labels res" where
  "run_labels_of k digest config =
     (let part = \<lambda>key. config_of (pget config key (PDict [])); g = \<lambda>d key. pget d key PNone; text = to_str (ck_text k)
      in rbind (part ''run_manifest'') (\<lambda>manifest.
         rbind (part ''active_profile'') (\<lambda>profile.
         rbind (part ''selector'') (\<lambda>selector.
         rmap (\<lambda>git.
           \<lparr>rl_id = text (py_or (py_or (g config ''run_id'') (g manifest ''run_id'')) (PStr (''BT_'' @ digest manifest))),
            rl_profile = py_or (g config ''profile_name'') (g profile ''profile_name''),
            rl_commit = py_or (g git ''commit'') (g manifest ''git_commit''), rl_branch = py_or (g git ''branch'') (g manifest ''git_branch''),
            rl_min_rr = py_or (g selector ''minimum_rr'') (g profile ''minimum_rr''),
            rl_min_score = py_or (g selector ''minimum_score'') (g profile ''minimum_score''),
            rl_selector_hash = text (py_or (g config ''selector_config_hash'') (PStr (digest selector))),
            rl_profile_hash = text (py_or (g config ''active_profile_hash'') (PStr (digest profile)))\<rparr>)
         (part ''git'')))))"

definition annotate_trade :: "clock \<Rightarrow> run_labels \<Rightarrow> pydict \<Rightarrow> pydict res" where
  "annotate_trade k l t =
     (let g = \<lambda>key. pget t key PNone;
          row = fold (\<lambda>(key, v). set_default key v)
            [(''run_id'', PStr (rl_id l)), (''profile_name'', rl_profile l), (''git_commit'', rl_commit l), (''git_branch'', rl_branch l),
             (''minimum_rr'', rl_min_rr l), (''minimum_score'', rl_min_score l), (''selector_config_hash'', PStr (rl_selector_hash l)),
             (''active_profile_hash'', PStr (rl_profile_hash l)),
             (''original_score'', py_or (py_or (g ''confidence_score'') (g ''score'')) (g ''setup_score''))] t
      in rmap (\<lambda>x. set_default ''calibrated_score'' (float_val x) row) (calibrated_score k row))"

subsection \<open>The run\<close>

record fb_result =
  fr_trades :: "pydict list"
  fr_completed :: "pydict list"
  fr_marked :: "pydict list"
  fr_signals :: "pydict list"
  fr_skipped :: "pydict list"
  fr_metrics :: bt_metrics
  fr_marked_metrics :: bt_metrics
  fr_report :: bt_report
  fr_counts :: run_counts
  fr_top_reasons :: "(string \<times> int) list"
  fr_open_at_end :: nat
  fr_pending_at_end :: nat

text \<open>The settings of the report that decide its warnings; its two summaries are copied to the output.\<close>

definition report_settings :: "clock \<Rightarrow> pydict \<Rightarrow> pydict res" where
  "report_settings k config =
     rbind (to_int (ck_text k) (pget config ''minimum_sample_trades'' (PInt 30))) (\<lambda>sample.
     rmap (\<lambda>rr. [(''news_calendar_loaded'', PBool (py_truthy (pget config ''news_calendar_loaded'' (PBool False)))),
                  (''minimum_sample_trades'', PInt sample), (''minimum_rr'', PFloat rr)])
       (minimum_rr_of k config (Fin 3)))"

definition backtest_result :: "clock \<Rightarrow> (pydict \<Rightarrow> string) \<Rightarrow> pydict \<Rightarrow> fb_state \<Rightarrow> fb_result res" where
  "backtest_result k digest config s =
     rbind (run_labels_of k digest config) (\<lambda>l.
     rbind (res_map (annotate_trade k l) (fb_trades s)) (\<lambda>trades.
     let (completed, marked) = split_completed trades in
     rbind (report_settings k config) (\<lambda>settings.
     rbind (generate_backtest_report k completed (fb_skipped s) settings) (\<lambda>report.
     rbind (calculate_performance_metrics k completed) (\<lambda>metrics.
     rmap (\<lambda>marked_metrics.
       \<lparr>fr_trades = trades, fr_completed = completed, fr_marked = marked, fr_signals = fb_signals s, fr_skipped = fb_skipped s,
        fr_metrics = metrics, fr_marked_metrics = marked_metrics,
        fr_report = report\<lparr>br_warnings := br_warnings report @ warn (marked \<noteq> []) ''open_positions_marked_to_market_separately''\<rparr>,
        fr_counts = fb_counts s, fr_top_reasons = most_common 15 (rc_reasons (fb_counts s)), fr_open_at_end = length (fb_open s),
        fr_pending_at_end = length (fb_pending s)\<rparr>)
     (calculate_performance_metrics k marked))))))"

definition run_full_backtest ::
  "clock \<Rightarrow> (datetime \<Rightarrow> int) \<Rightarrow> (pydict \<Rightarrow> string) \<Rightarrow> tester \<Rightarrow> engines \<Rightarrow> (string \<times> candle_node list) list \<Rightarrow> pydict
    \<Rightarrow> (fb_result \<times> engines) res" where
  "run_full_backtest k local digest te en data config =
     (let primary = candles_for data ''1m''
      in if int (length primary) < te_warmup te + 2
         then Raise (ValueError (''Need at least '' @ int_str (te_warmup te + 2) @ '' closed 1m candles, got '' @ nat_str (length primary) @
                ''. Use a wider --from/--to window.''))
         else
           rbind (backtest_candles k local te data config 0 primary (fb_start en)) (\<lambda>s.
           rbind (close_open_positions k config primary s) (\<lambda>s'.
           rmap (\<lambda>r. (r, fb_engines s')) (backtest_result k digest config s'))))"

end
