(* ===== verification/FullBacktestLaws.thy ===== *)
theory FullBacktestLaws
  imports FullBacktest
begin

section \<open>What the full backtest keeps\<close>

text \<open>
  Every decision of a run ends in one place; no more positions and orders are alive than allowed; signals of one kind are a cooldown
  apart; a position entered has cleared the gate on its reward after costs; nothing is seen before it has closed; and the finding
  on positions open at the end.
\<close>

subsection \<open>The steps of a candle\<close>

text \<open>The books: what a step may change beyond the market data.\<close>

definition same_books :: "fb_state \<Rightarrow> fb_state \<Rightarrow> bool" where
  "same_books s s' \<longleftrightarrow> fb_pending s' = fb_pending s \<and> fb_open s' = fb_open s \<and> fb_trades s' = fb_trades s \<and> fb_skipped s' = fb_skipped s
     \<and> fb_signals s' = fb_signals s \<and> rc_rejected (fb_counts s') = rc_rejected (fb_counts s)
     \<and> en_cooldowns (fb_engines s') = en_cooldowns (fb_engines s)"

lemma same_books_refl [simp]: "same_books s s"
  by (simp add: same_books_def)

lemma same_books_trans: "same_books s t \<Longrightarrow> same_books t u \<Longrightarrow> same_books s u"
  by (simp add: same_books_def)

lemma advance_books: "advance_higher_timeframes data now s = Ok s' \<Longrightarrow> same_books s s'"
  unfolding advance_higher_timeframes_def
  by (erule res_foldI [where P = "same_books s", rotated 2]) (auto simp: advance_timeframe_def rmap_Inr_iff same_books_def)

lemma ingest_books: "same_books s (ingest_structure_and_liquidity c s)"
  by (simp add: ingest_structure_and_liquidity_def same_books_def Let_def split: prod.splits)

text \<open>Seeing a candle leaves the books alone.\<close>

lemma see_candle_books:
  assumes "see_candle local te data i c s = Ok (t, session, s')"
  shows "same_books s s'"
proof -
  from assms obtain s1 where s1: "advance_higher_timeframes data (cn_end_time c) s = Ok s1"
    by (auto simp: see_candle_def rmap_Inr_iff)
  let ?s2 = "ingest_structure_and_liquidity c
    (s1\<lparr>fb_candles := AList.update ''1m'' (dq_push 160 c (candles_for (fb_candles s1) ''1m'')) (fb_candles s1)\<rparr>)"
  have "same_books s1 ?s2" using ingest_books [of "s1\<lparr>fb_candles := _\<rparr>" c] by (simp add: same_books_def)
  moreover from assms s1 obtain se where "s' = ?s2\<lparr>fb_engines := (fb_engines ?s2)\<lparr>en_session := se\<rparr>\<rparr>"
    unfolding see_candle_def Let_def by (auto simp: rmap_Inr_iff split: prod.splits)
  ultimately have "same_books s1 s'" by (simp add: same_books_def)
  with advance_books [OF s1] show ?thesis by (rule same_books_trans)
qed

text \<open>How a cooldown is taken: none is in force, and a new one starts.\<close>

definition takes_cooldown :: "tester \<Rightarrow> datetime \<Rightarrow> string \<Rightarrow> fb_state \<Rightarrow> fb_state \<Rightarrow> bool" where
  "takes_cooldown te now key s s' \<longleftrightarrow>
     (case map_of (en_cooldowns (fb_engines s)) key of None \<Rightarrow> True | Some until \<Rightarrow> dt_instant until \<le> dt_instant now)
     \<and> en_cooldowns (fb_engines s') = AList.update key (dt_add now (te_cooldown te)) (en_cooldowns (fb_engines s))"

text \<open>The three ways a decision ends.\<close>

definition rejects :: "fb_state \<Rightarrow> fb_state \<Rightarrow> bool" where
  "rejects s s' \<longleftrightarrow> fb_pending s' = fb_pending s \<and> fb_open s' = fb_open s \<and> fb_trades s' = fb_trades s \<and> fb_skipped s' = fb_skipped s
     \<and> fb_signals s' = fb_signals s \<and> rc_rejected (fb_counts s') = rc_rejected (fb_counts s) + 1
     \<and> en_cooldowns (fb_engines s') = en_cooldowns (fb_engines s)"

definition skips :: "tester \<Rightarrow> datetime \<Rightarrow> fb_state \<Rightarrow> fb_state \<Rightarrow> bool" where
  "skips te now s s' \<longleftrightarrow> fb_pending s' = fb_pending s \<and> fb_open s' = fb_open s \<and> fb_trades s' = fb_trades s
     \<and> (\<exists>d. fb_skipped s' = fb_skipped s @ [d]) \<and> fb_signals s' = fb_signals s \<and> rc_rejected (fb_counts s') = rc_rejected (fb_counts s)
     \<and> (en_cooldowns (fb_engines s') = en_cooldowns (fb_engines s) \<or> (\<exists>key. takes_cooldown te now key s s'))"

text \<open>What a signal says of its strategy, its direction and its time.\<close>

definition signal_of :: "clock \<Rightarrow> pydict \<Rightarrow> string \<Rightarrow> order_direction \<Rightarrow> datetime \<Rightarrow> bool" where
  "signal_of k g strat side at_time \<longleftrightarrow> pget g ''strategy'' PNone = PStr strat \<and> pget g ''direction'' PNone = PStr (direction_value side)
     \<and> pget g ''signal_time'' PNone = PStr (ck_show k at_time)"

definition queues :: "clock \<Rightarrow> tester \<Rightarrow> datetime \<Rightarrow> fb_state \<Rightarrow> fb_state \<Rightarrow> bool" where
  "queues k te ended s s' \<longleftrightarrow> fb_open s' = fb_open s \<and> fb_trades s' = fb_trades s \<and> fb_skipped s' = fb_skipped s
     \<and> rc_rejected (fb_counts s') = rc_rejected (fb_counts s)
     \<and> int (length (fb_open s) + length (fb_pending s)) < te_max_open te
     \<and> (\<exists>g order strat side. signal_of k g strat side ended \<and> fb_signals s' = fb_signals s @ [g]
          \<and> fb_pending s' = fb_pending s @ [order] \<and> written_order k order
          \<and> takes_cooldown te (dt_naive ended) (strat @ ''_'' @ direction_value side) s s')"

lemma skip_setup_fields [simp]:
  "fb_pending (skip_setup k d r s) = fb_pending s" "fb_open (skip_setup k d r s) = fb_open s" "fb_trades (skip_setup k d r s) = fb_trades s"
  "fb_skipped (skip_setup k d r s) = fb_skipped s @ [record_skipped_setup k d r]" "fb_signals (skip_setup k d r s) = fb_signals s"
  "fb_counts (skip_setup k d r s) = fb_counts s" "fb_engines (skip_setup k d r s) = fb_engines s"
  by (simp_all add: skip_setup_def)

lemma tally_fields [simp]:
  "fb_pending (tally g s) = fb_pending s" "fb_open (tally g s) = fb_open s" "fb_trades (tally g s) = fb_trades s"
  "fb_skipped (tally g s) = fb_skipped s" "fb_signals (tally g s) = fb_signals s" "fb_counts (tally g s) = g (fb_counts s)"
  "fb_engines (tally g s) = fb_engines s"
  by (simp_all add: tally_def)

lemma harden_setup_books: "harden_setup te setup s = (setup', s') \<Longrightarrow> same_books s s' \<and> sn_direction setup' = sn_direction setup"
  by (auto simp: harden_setup_def Let_def same_books_def harden_for_demo_execution_def rebuild_setup_def split: if_splits prod.splits)

lemma signal_words:
  assumes "setup_to_market_signal k setup ev ts symbol config market = Ok g"
  shows "signal_of k g (sd_key (ev_definition ev)) (sn_direction setup) ts"
  using assms unfolding setup_to_market_signal_def Let_def by (auto simp: rmap_Inr_iff signal_of_def elim!: rbind_InrE)

lemma trap_words:
  assumes "early_trap_filter_rejection k g market config = Ok (r, g')"
  shows "signal_of k g' = signal_of k g"
proof -
  have "signal_of k (with_diagnostics diag g) = signal_of k g" for diag
    by (intro ext) (simp add: with_diagnostics_def signal_of_def split: pyval.split)
  then show ?thesis using assms unfolding early_trap_filter_rejection_def Let_def
    by (auto simp: rmap_Inr_iff elim!: rbind_InrE split: if_splits option.splits)
qed


lemma place_selection_cases:
  assumes "place_selection k local te config market i c ev s = Ok s'"
  shows "(\<exists>d s1. same_books s s1 \<and> same_books (s1\<lparr>fb_skipped := fb_skipped s @ [d]\<rparr>) s')
    \<or> (\<exists>g order side s1. same_books s s1 \<and> ev_direction ev = Some side \<and> signal_of k g (sd_key (ev_definition ev)) side (cn_end_time c)
         \<and> written_order k order \<and> same_books (s1\<lparr>fb_pending := fb_pending s @ [order], fb_signals := fb_signals s @ [g]\<rparr>) s')"
proof -
  from assms obtain seconds node0 node s1 g0 trap g where
    built: "build_setup_node (pytext.truncate (ck_text k)) ev (selection_id ev i seconds) (dt_naive (cn_end_time c)) (''BACKTEST_'' @ nat_str i) ''1m'' = Ok node0"
    and hard: "harden_setup te node0 s = (node, s1)"
    and sig: "setup_to_market_signal k node ev (cn_end_time c) (te_symbol te) config market = Ok g0"
    and trap: "early_trap_filter_rejection k g0 market config = Ok (trap, g)"
    and rest: "(case trap of Some reason \<Rightarrow> Ok (skip_setup k g reason s1) | None \<Rightarrow> queue_signal k ev g s1) = Ok s'"
    unfolding place_selection_def by (auto elim!: rbind_InrE split: prod.splits)
  from built have side: "ev_direction ev = Some (sn_direction node0)" by (auto simp: build_setup_node_def is_tradeable_def split: if_splits)
  from harden_setup_books [OF hard] have b: "same_books s s1" "sn_direction node = sn_direction node0" by auto
  show ?thesis
  proof (cases trap)
    case None
    with rest obtain order where "place_pending_order k g [(''order_type'', pget g ''order_type'' PNone)] = Ok order"
        "same_books (s1\<lparr>fb_pending := fb_pending s @ [order], fb_signals := fb_signals s @ [g]\<rparr>) s'"
      using b(1) by (auto simp: queue_signal_def rmap_Inr_iff same_books_def)
    moreover from this(1) have "written_order k order" by (auto simp: place_pending_order_def written_order_def rmap_Inr_iff)
    ultimately show ?thesis using b side signal_words [OF sig] trap_words [OF trap] by auto
  next
    case (Some reason)
    with rest b(1) show ?thesis by (intro disjI1 exI [of _ "record_skipped_setup k g reason"] exI [of _ s1]) (auto simp: same_books_def)
  qed
qed

lemma decision_cases:
  assumes "decide k local te config i c t session s = Ok s'"
  shows "int (i + 1) < te_warmup te \<and> s' = s
    \<or> te_warmup te \<le> int (i + 1) \<and> (rejects s s' \<or> skips te (dt_naive (cn_end_time c)) s s' \<or> queues k te (cn_end_time c) s s')"
proof (cases "int (i + 1) < te_warmup te")
  case True
  with assms show ?thesis by (simp add: decide_def)
next
  case False
  obtain swept le where sw: "evaluate_tick_sweeps t (en_liquidity (fb_engines s)) = (swept, le)" by (cases "evaluate_tick_sweeps t (en_liquidity (fb_engines s))")
  let ?s1 = "s\<lparr>fb_engines := (fb_engines s)\<lparr>en_liquidity := le\<rparr>, fb_pools := active_pools_snapshot le\<rparr>"
  from assms obtain market selection where
    rest: "(case sl_selected (selection :: selection_result) of
       None \<Rightarrow> Ok (tally (\<lambda>n. n\<lparr>rc_rejected := rc_rejected n + 1\<rparr>) (tally (record_strategy_evaluations (sl_evaluations selection)) ?s1))
     | Some ev \<Rightarrow> take_selection k local te config market i c ev (tally (record_strategy_evaluations (sl_evaluations selection)) ?s1)) = Ok s'"
    unfolding decide_def sw Let_def prod.case if_not_P [OF False] by (elim rbind_InrE) (rule that)
  have counted: "rc_rejected (record_strategy_evaluations evs n) = rc_rejected n" for evs n
  proof -
    have "rc_rejected (count_evaluation ev m) = rc_rejected m" for ev m by (simp add: count_evaluation_def Let_def)
    then have "rc_rejected (fold count_evaluation evs m) = rc_rejected m" for m by (induction evs arbitrary: m) auto
    then show ?thesis by (simp add: record_strategy_evaluations_def)
  qed
  define s2 where "s2 = tally (record_strategy_evaluations (sl_evaluations selection)) ?s1"
  have b: "same_books s s2" by (simp add: same_books_def s2_def counted)
  show ?thesis
  proof (cases "sl_selected selection")
    case None
    with rest b have "rejects s s'" unfolding s2_def [symmetric] by (auto simp: rejects_def same_books_def)
    with False show ?thesis by simp
  next
    case (Some ev)
    with rest have take: "take_selection k local te config market i c ev s2 = Ok s'" by (simp add: s2_def)
    let ?now = "dt_naive (cn_end_time c)" and ?key = "cooldown_key ev"
    show ?thesis
    proof (cases "te_max_open te \<le> int (length (fb_open s2) + length (fb_pending s2))")
      case True
      with take b have "skips te ?now s s'" by (auto simp: take_selection_def rmap_Inr_iff skips_def same_books_def)
      with False show ?thesis by simp
    next
      case room: False
      then obtain cooling where cool: "(case map_of (en_cooldowns (fb_engines s2)) ?key of None \<Rightarrow> Ok False | Some until \<Rightarrow> dt_lt ?now until) = Ok cooling"
        using take by (auto simp: take_selection_def Let_def elim!: rbind_InrE)
      show ?thesis
      proof (cases cooling)
        case True
        with take room cool b have "skips te ?now s s'"
          by (auto simp: take_selection_def Let_def rmap_Inr_iff skips_def same_books_def)
        with False show ?thesis by simp
      next
        case free: False
        define s3 where "s3 = s2\<lparr>fb_engines := (fb_engines s2)\<lparr>en_cooldowns := AList.update ?key (dt_add ?now (te_cooldown te)) (en_cooldowns (fb_engines s2))\<rparr>\<rparr>"
        from take room cool free have place: "place_selection k local te config market i c ev s3 = Ok s'"
          by (simp add: take_selection_def Let_def s3_def)
        have cd: "takes_cooldown te ?now ?key s s''" if "same_books s3 s''" for s''
          using that cool free b by (auto simp: takes_cooldown_def same_books_def s3_def dt_lt_def split: option.splits if_splits)
        from place_selection_cases [OF place] show ?thesis
        proof (elim disjE exE conjE)
          fix d s4 assume "same_books s3 s4" "same_books (s4\<lparr>fb_skipped := fb_skipped s3 @ [d]\<rparr>) s'"
          moreover from this have "takes_cooldown te ?now ?key s s'" using cd [of s4] by (simp add: takes_cooldown_def same_books_def)
          ultimately have "skips te ?now s s'" using b by (auto simp: skips_def same_books_def s3_def)
          with False show ?thesis by simp
        next
          fix g order side s4
          assume h: "same_books s3 s4" "ev_direction ev = Some side" "signal_of k g (sd_key (ev_definition ev)) side (cn_end_time c)"
            "written_order k order" "same_books (s4\<lparr>fb_pending := fb_pending s3 @ [order], fb_signals := fb_signals s3 @ [g]\<rparr>) s'"
          have "takes_cooldown te ?now (sd_key (ev_definition ev) @ ''_'' @ direction_value side) s s'"
            using h(1,2,5) cd [of s4] by (simp add: takes_cooldown_def same_books_def cooldown_key_def)
          moreover have "int (length (fb_open s) + length (fb_pending s)) < te_max_open te" using room b by (simp add: same_books_def)
          ultimately have "queues k te (cn_end_time c) s s'" using h b unfolding queues_def by (auto simp: same_books_def s3_def)
          with False show ?thesis by simp
        qed
      qed
    qed
  qed
qed


subsection \<open>Every decision ends in one place\<close>

text \<open>What the decisions of a run came to: trades, open positions, pending orders, skipped records and rejected cycles.\<close>

definition decided :: "fb_state \<Rightarrow> nat" where
  "decided s = length (fb_trades s) + length (fb_open s) + length (fb_pending s) + length (fb_skipped s) + rc_rejected (fb_counts s)"

definition alive :: "fb_state \<Rightarrow> nat" where
  "alive s = length (fb_open s) + length (fb_pending s)"

lemma manage_positions_cases:
  assumes "manage_positions k config row s = Ok s'"
  obtains m ts us where "manage_open k m row (fb_open s) = Ok (ts, us)" "s' = s\<lparr>fb_trades := fb_trades s @ ts, fb_open := us\<rparr>"
  using assms by (auto simp: manage_positions_def rmap_Inr_iff elim!: rbind_InrE)

lemma manage_positions_counts: "manage_positions k config row s = Ok s' \<Longrightarrow> decided s' = decided s \<and> alive s' \<le> alive s"
  by (erule manage_positions_cases) (auto simp: decided_def alive_def dest!: manage_open_length)

lemma settle_orders_counts:
  "settle_orders k te config row qs s = Ok s' \<Longrightarrow> decided s' = decided s + length qs \<and> alive s' \<le> alive s + length qs"
proof (induction qs arbitrary: s)
  case (Cons q qs)
  then obtain x where x: "settle_orders k te config row qs (apply_outcome q x s) = Ok s'" by (auto elim!: rbind_InrE)
  have "decided (apply_outcome q x s) = Suc (decided s) \<and> alive (apply_outcome q x s) \<le> Suc (alive s)"
    by (cases x) (auto simp: apply_outcome_def decided_def alive_def)
  with Cons.IH [OF x] show ?case by auto
qed simp

lemma fill_orders_counts: "fill_orders k te config row s = Ok s' \<Longrightarrow> decided s' = decided s \<and> alive s' \<le> alive s"
  using settle_orders_counts [of k te config row "fb_pending s" "s\<lparr>fb_pending := []\<rparr>" s'] by (auto simp: fill_orders_def decided_def alive_def)

lemma same_books_counts: "same_books s s' \<Longrightarrow> decided s' = decided s \<and> alive s' = alive s"
  by (simp add: same_books_def decided_def alive_def)

lemma decide_counts:
  assumes "decide k local te config i c t session s = Ok s'"
  shows "decided s' = decided s + (if int (i + 1) < te_warmup te then 0 else 1)"
    and "int (alive s') \<le> max (int (alive s)) (te_max_open te)"
  using decision_cases [OF assms] by (auto simp: decided_def alive_def rejects_def skips_def queues_def)

lemma backtest_candleE:
  assumes "backtest_candle k local te data config i c s = Ok s'"
  obtains t session s1 s2 s3 where "see_candle local te data i c s = Ok (t, session, s1)"
    "manage_positions k config (session_row c session) s1 = Ok s2" "fill_orders k te config (session_row c session) s2 = Ok s3"
    "decide k local te config i c t session s3 = Ok s'"
  using assms by (auto simp: backtest_candle_def Let_def elim!: rbind_InrE)

lemma backtest_candle_counts:
  assumes "backtest_candle k local te data config i c s = Ok s'"
  shows "decided s' = decided s + (if int (i + 1) < te_warmup te then 0 else 1)"
    and "int (alive s') \<le> max (int (alive s)) (te_max_open te)"
proof -
  from assms obtain t session s1 s2 s3 where h: "see_candle local te data i c s = Ok (t, session, s1)"
      "manage_positions k config (session_row c session) s1 = Ok s2" "fill_orders k te config (session_row c session) s2 = Ok s3"
      "decide k local te config i c t session s3 = Ok s'" by (rule backtest_candleE)
  from same_books_counts [OF see_candle_books [OF h(1)]] manage_positions_counts [OF h(2)] fill_orders_counts [OF h(3)] decide_counts [OF h(4)]
  show "decided s' = decided s + (if int (i + 1) < te_warmup te then 0 else 1)" "int (alive s') \<le> max (int (alive s)) (te_max_open te)" by auto
qed

lemma backtest_candles_counts:
  "backtest_candles k local te data config i cs s = Ok s' \<Longrightarrow>
     decided s' = decided s + length (filter (\<lambda>j. te_warmup te \<le> int (j + 1)) [i..<i + length cs])
     \<and> int (alive s') \<le> max (int (alive s)) (te_max_open te)"
proof (induction cs arbitrary: i s)
  case (Cons c cs)
  then obtain s1 where s1: "backtest_candle k local te data config i c s = Ok s1" "backtest_candles k local te data config (Suc i) cs s1 = Ok s'"
    by (auto elim!: rbind_InrE)
  have upt: "[i..<i + length (c # cs)] = i # [Suc i..<Suc i + length cs]" by (simp add: upt_conv_Cons del: upt_Suc)
  from backtest_candle_counts [OF s1(1)] Cons.IH [OF s1(2)] show ?case unfolding upt by auto
qed simp

text \<open>C13. Every candle past the warm-up takes one decision, and each decision ends as a trade, an open position, a pending order, a skipped
  record or a rejected cycle, whenever the run is looked at.\<close>

theorem full_backtest_accounts:
  assumes "backtest_candles k local te data config 0 cs (fb_start en) = Ok s" "1 \<le> te_warmup te"
  shows "length (fb_trades s) + length (fb_open s) + length (fb_pending s) + length (fb_skipped s) + rc_rejected (fb_counts s)
    = length cs - nat (te_warmup te - 1)"
proof -
  have "filter (\<lambda>j. te_warmup te \<le> int (j + 1)) [0..<length cs] = [nat (te_warmup te - 1)..<length cs]"
  proof (induction cs)
    case (Cons c cs)
    then show ?case using assms(2) by auto
  qed simp
  with backtest_candles_counts [OF assms(1)] show ?thesis by (simp add: decided_def fb_start_def no_counts_def)
qed

text \<open>C36. The open positions and pending orders of a run are never more than the tester allows.\<close>

theorem concurrency_bounded:
  assumes "backtest_candles k local te data config 0 cs (fb_start en) = Ok s" "0 \<le> te_max_open te"
  shows "int (length (fb_open s) + length (fb_pending s)) \<le> te_max_open te"
  using backtest_candles_counts [OF assms(1)] assms(2) by (simp add: alive_def fb_start_def)

subsection \<open>Signals of one kind are a cooldown apart\<close>

definition same_signals :: "fb_state \<Rightarrow> fb_state \<Rightarrow> bool" where
  "same_signals s s' \<longleftrightarrow> fb_signals s' = fb_signals s \<and> en_cooldowns (fb_engines s') = en_cooldowns (fb_engines s)"

lemma manage_positions_signals: "manage_positions k config row s = Ok s' \<Longrightarrow> same_signals s s'"
  by (erule manage_positions_cases) (simp add: same_signals_def)

lemma settle_orders_signals: "settle_orders k te config row qs s = Ok s' \<Longrightarrow> same_signals s s'"
proof (induction qs arbitrary: s)
  case (Cons q qs)
  then obtain x where x: "settle_orders k te config row qs (apply_outcome q x s) = Ok s'" by (auto elim!: rbind_InrE)
  have "same_signals s (apply_outcome q x s)" by (cases x) (auto simp: apply_outcome_def same_signals_def)
  with Cons.IH [OF x] show ?case by (simp add: same_signals_def)
qed (simp add: same_signals_def)

lemma fill_orders_signals: "fill_orders k te config row s = Ok s' \<Longrightarrow> same_signals s s'"
  by (auto simp: fill_orders_def same_signals_def dest!: settle_orders_signals)

text \<open>\<open>zs\<close> lists the strategy, direction and time of the signals: the later of two of one kind comes a cooldown after the earlier, and
  the cooldown of each is on record.\<close>

definition spaced_pair :: "tester \<Rightarrow> string \<times> order_direction \<times> datetime \<Rightarrow> string \<times> order_direction \<times> datetime \<Rightarrow> bool" where
  "spaced_pair te x y \<longleftrightarrow> (fst x = fst y \<and> fst (snd x) = fst (snd y) \<longrightarrow> dt_wall (snd (snd x)) + te_cooldown te \<le> dt_wall (snd (snd y)))"

definition kind_key :: "string \<times> order_direction \<times> datetime \<Rightarrow> string" where
  "kind_key x = fst x @ ''_'' @ direction_value (fst (snd x))"

definition spaced_by :: "clock \<Rightarrow> tester \<Rightarrow> (string \<times> order_direction \<times> datetime) list \<Rightarrow> fb_state \<Rightarrow> bool" where
  "spaced_by k te zs s \<longleftrightarrow>
     list_all2 (\<lambda>g x. signal_of k g (fst x) (fst (snd x)) (snd (snd x))) (fb_signals s) zs
     \<and> sorted_wrt (spaced_pair te) zs
     \<and> (\<forall>x\<in>set zs. \<exists>u. map_of (en_cooldowns (fb_engines s)) (kind_key x) = Some u \<and> dt_wall (snd (snd x)) + te_cooldown te \<le> dt_instant u)"

lemma dt_instant_naive [simp]: "dt_instant (dt_naive d) = dt_wall d"
  by (simp add: dt_instant_def dt_naive_def)

lemma cooldown_kept:
  assumes "takes_cooldown te now key s s'" "0 \<le> te_cooldown te" "map_of (en_cooldowns (fb_engines s)) key' = Some u" "t + te_cooldown te \<le> dt_instant u"
  shows "\<exists>u'. map_of (en_cooldowns (fb_engines s')) key' = Some u' \<and> t + te_cooldown te \<le> dt_instant u'"
  using assms by (cases "key' = key") (auto simp: takes_cooldown_def update_conv)

lemma spaced_same: "spaced_by k te zs s \<Longrightarrow> same_signals s s' \<Longrightarrow> spaced_by k te zs s'"
  by (simp add: spaced_by_def same_signals_def)

lemma spaced_decide:
  assumes "decide k local te config i c t session s = Ok s'" "spaced_by k te zs s" "0 \<le> te_cooldown te"
  shows "\<exists>zs'. spaced_by k te zs' s'"
proof -
  have cooled: "spaced_by k te zs (s'\<lparr>fb_signals := fb_signals s\<rparr>)" if "takes_cooldown te now key s s'" for now key
    using assms(2) cooldown_kept [OF that assms(3)] by (fastforce simp: spaced_by_def)
  from decision_cases [OF assms(1)] consider "same_signals s s'" | key where "fb_signals s' = fb_signals s" "takes_cooldown te (dt_naive (cn_end_time c)) key s s'"
    | "queues k te (cn_end_time c) s s'"
    by (auto simp: same_signals_def rejects_def skips_def)
  then show ?thesis
  proof cases
    case 1
    with assms(2) show ?thesis by (blast intro: spaced_same)
  next
    case (2 key)
    with cooled [OF 2(2)] show ?thesis by (auto simp: spaced_by_def)
  next
    case 3
    then obtain g strat side where g: "signal_of k g strat side (cn_end_time c)" "fb_signals s' = fb_signals s @ [g]"
        "takes_cooldown te (dt_naive (cn_end_time c)) (strat @ ''_'' @ direction_value side) s s'"
      by (auto simp: queues_def)
    let ?x = "(strat, side, cn_end_time c)"
    have key: "kind_key ?x = strat @ ''_'' @ direction_value side" by (simp add: kind_key_def)
    have "spaced_pair te y ?x" if "y \<in> set zs" for y
    proof -
      from assms(2) that obtain u where "map_of (en_cooldowns (fb_engines s)) (kind_key y) = Some u"
        "dt_wall (snd (snd y)) + te_cooldown te \<le> dt_instant u" unfolding spaced_by_def by blast
      with g(3) show ?thesis by (auto simp: spaced_pair_def takes_cooldown_def kind_key_def)
    qed
    moreover have "\<exists>u. map_of (en_cooldowns (fb_engines s')) (kind_key ?x) = Some u \<and> dt_wall (cn_end_time c) + te_cooldown te \<le> dt_instant u"
      using g(3) by (simp add: takes_cooldown_def key update_conv)
    ultimately have "spaced_by k te (zs @ [?x]) s'"
      using cooled [OF g(3)] g(1,2) by (auto simp: spaced_by_def sorted_wrt_append list_all2_appendI)
    then show ?thesis ..
  qed
qed

lemma spaced_run:
  "backtest_candles k local te data config i cs s = Ok s' \<Longrightarrow> spaced_by k te zs s \<Longrightarrow> 0 \<le> te_cooldown te \<Longrightarrow> \<exists>zs'. spaced_by k te zs' s'"
proof (induction cs arbitrary: i s zs)
  case (Cons c cs)
  then obtain u where u: "backtest_candle k local te data config i c s = Ok u" "backtest_candles k local te data config (Suc i) cs u = Ok s'"
    by (auto elim!: rbind_InrE)
  from u(1) obtain t session s1 s2 s3 where h: "see_candle local te data i c s = Ok (t, session, s1)"
      "manage_positions k config (session_row c session) s1 = Ok s2" "fill_orders k te config (session_row c session) s2 = Ok s3"
      "decide k local te config i c t session s3 = Ok u" by (rule backtest_candleE)
  have "same_signals s s1" using see_candle_books [OF h(1)] by (simp add: same_books_def same_signals_def)
  with manage_positions_signals [OF h(2)] fill_orders_signals [OF h(3)] Cons.prems(2) have "spaced_by k te zs s3" by (blast intro: spaced_same)
  from spaced_decide [OF h(4) this Cons.prems(3)] Cons.IH [OF u(2) _ Cons.prems(3)] show ?case by blast
qed auto

text \<open>C35. Two signals of a run with the same strategy and direction are at least the cooldown apart.\<close>

theorem signals_spaced:
  assumes "backtest_candles k local te data config 0 cs (fb_start en) = Ok s" "0 \<le> te_cooldown te"
    and "i < j" "j < length (fb_signals s)"
    and "pget (fb_signals s ! i) ''strategy'' PNone = pget (fb_signals s ! j) ''strategy'' PNone"
    and "pget (fb_signals s ! i) ''direction'' PNone = pget (fb_signals s ! j) ''direction'' PNone"
  shows "\<exists>t u. pget (fb_signals s ! i) ''signal_time'' PNone = PStr (ck_show k t) \<and> pget (fb_signals s ! j) ''signal_time'' PNone = PStr (ck_show k u)
    \<and> dt_wall t + te_cooldown te \<le> dt_wall u"
proof -
  have "spaced_by k te [] (fb_start en)" by (simp add: spaced_by_def fb_start_def)
  from spaced_run [OF assms(1) this assms(2)] obtain zs where z: "spaced_by k te zs s" by blast
  then have len: "length zs = length (fb_signals s)" by (auto simp: spaced_by_def dest!: list_all2_lengthD)
  have sig: "signal_of k (fb_signals s ! n) (fst (zs ! n)) (fst (snd (zs ! n))) (snd (snd (zs ! n)))" if "n < length (fb_signals s)" for n
    using z that by (auto simp: spaced_by_def dest: list_all2_nthD)
  have inj: "direction_value a = direction_value b \<Longrightarrow> a = b" for a b by (cases a; cases b) auto
  from z assms(3,4) len have "spaced_pair te (zs ! i) (zs ! j)" by (simp add: spaced_by_def sorted_wrt_nth_less)
  with sig [of i] sig [of j] assms(3-6) inj show ?thesis by (auto simp: signal_of_def spaced_pair_def)
qed

subsection \<open>What a position of a run holds\<close>

text \<open>The reward after costs of a position or trade has cleared the minimum \<open>m\<close>.\<close>

definition rr_cleared :: "pyfloat \<Rightarrow> pydict \<Rightarrow> bool" where
  "rr_cleared m p \<longleftrightarrow> (\<exists>v. pget p ''post_cost_rr'' PNone = PFloat v \<and> fle (py_round m 5) v)"

definition fb_position :: "pyfloat \<Rightarrow> pydict \<Rightarrow> bool" where
  "fb_position m p \<longleftrightarrow> rr_cleared m p \<and> (\<exists>side. pget p ''direction'' PNone = PStr (bias_value side))
     \<and> list_all (float_field p) [''entry_price'', ''stop_loss'', ''remaining_percent'', ''realized_R'']"

lemma fb_position_kept:
  assumes "simulate_trade_management k pos row config = Ok im" "mg_closed im = None" "fb_position m pos"
  shows "fb_position m (mg_position im)"
  using assms(1)
proof (cases rule: manage_position)
  case (shut reason realized partials a x)
  with assms(2) show ?thesis by (auto dest: close_remainder_events)
next
  case (targets side entry stop hits remaining realized partials)
  let ?b = "\<lparr>bk_remaining = remaining, bk_realized = realized, bk_partials = partials, bk_events = [], bk_position = pos\<rparr>"
  obtain ts b' where b: "book_targets k side entry stop row hits ?b = Ok (ts, b')"
      "mg_position im = dict_update (bk_position b') [(''targets'', PList (map target_dict ts)),
       (''remaining_percent'', PFloat (py_max (Fin 0) (bk_remaining b'))), (''realized_R'', PFloat (py_round (bk_realized b') 5)),
       (''partials'', PList (bk_partials b'))]" using assms(2) by (auto intro: take_targets_cases [OF targets(1)])
  from book_targets_position [OF b(1)] assms(3) show ?thesis
    unfolding b(2) by (simp add: fb_position_def rr_cleared_def same_but_stop_def pget_dict_update float_field_def)
qed (use assms in simp)

lemma rr_cleared_trade:
  assumes "simulate_trade_management k pos row config = Ok im" "mg_closed im = Some t" "record_trade k t = Ok r" "rr_cleared m pos"
  shows "rr_cleared m r"
  using managed_trade [OF assms(1,2)] recorded [OF assms(3), of "''post_cost_rr''"] assms(4) by (simp add: rr_cleared_def)

lemma manage_open_fb:
  "manage_open k config row ps = Ok (ts, us) \<Longrightarrow> list_all (fb_position m) ps \<Longrightarrow> list_all (fb_position m) us \<and> list_all (rr_cleared m) ts"
proof (induction ps arbitrary: ts us)
  case (Cons p ps)
  then obtain im where im: "simulate_trade_management k p row config = Ok im" by (auto elim!: rbind_InrE)
  show ?case
  proof (cases "mg_closed im")
    case None
    with Cons im fb_position_kept [OF im None] show ?thesis by (auto simp: rmap_Inr_iff)
  next
    case (Some t)
    with Cons.prems im obtain r vs where r: "record_trade k t = Ok r" "manage_open k config row ps = Ok (vs, us)" "ts = r # vs"
      by (auto simp: rmap_Inr_iff elim!: rbind_InrE)
    with Cons rr_cleared_trade [OF im Some r(1)] show ?thesis by (auto simp: fb_position_def)
  qed
qed simp

lemma post_cost_rr_not_nan: "post_cost_rr k order f = Ok rr \<Longrightarrow> fle (Fin 0) rr"
  by (auto simp: post_cost_rr_def rmap_Inr_iff calculate_post_cost_rr_def Let_def rr_figure_nonneg elim!: rbind_InrE split: option.splits)

lemma written_stop [simp]: "pitem (PDict (order_output k r)) ''stop_loss'' = Ok (PFloat (bo_stop r))"
  by (simp add: pitem_def order_output_def order_fields_def)

lemma full_position_fields:
  assumes "full_position_from_fill k (order_output k r) f = Ok p" "fl_price f = Some x" "fle (py_round m 5) v"
  shows "fb_position m (AList.update ''post_cost_rr'' (PFloat v) p)"
  using assms unfolding full_position_from_fill_def Let_def
  by (auto simp: rmap_Inr_iff fb_position_def rr_cleared_def float_field_def float_val_def elim!: rbind_InrE) blast+


lemma judge_fill_fb:
  assumes "judge_fill k te config row (order_output k r) f = Ok x" "fl_price f = Some p" "minimum_rr_of k config (Fin (3/2)) = Ok m" "m \<noteq> NaN"
  shows "case x of Kept \<Rightarrow> False | Entered q \<Rightarrow> fb_position m q | Finished t \<Rightarrow> rr_cleared m t | _ \<Rightarrow> True"
proof -
  from assms(1,3) consider (gone) d where "x = Dropped d \<or> x = Drifted d"
    | (passed) rr where "post_cost_rr k (order_output k r) f = Ok rr" "\<not> flt rr m" "enter_position k config row (order_output k r) f rr = Ok x"
    unfolding judge_fill_def Let_def by (auto elim!: rbind_InrE split: option.splits if_splits)
  then show ?thesis
  proof cases
    case gone
    then show ?thesis by auto
  next
    case (passed rr)
    then obtain q mc im where h: "full_position_from_fill k (order_output k r) f = Ok q"
        "simulate_trade_management k (AList.update ''post_cost_rr'' (PFloat (py_round rr 5)) q) row mc = Ok im"
      and rest: "(case mg_closed im of Some t \<Rightarrow> rmap Finished (record_trade k t) | None \<Rightarrow> Ok (Entered (mg_position im))) = Ok x"
      by (auto simp: enter_position_def elim!: rbind_InrE)
    from post_cost_rr_not_nan [OF passed(1)] passed(2) assms(4) have "fle m rr" by (cases m; cases rr) auto
    then have q: "fb_position m (AList.update ''post_cost_rr'' (PFloat (py_round rr 5)) q)"
      by (intro full_position_fields [OF h(1) assms(2)] py_round_mono)
    show ?thesis
    proof (cases "mg_closed im")
      case None
      with rest fb_position_kept [OF h(2) None q] show ?thesis by auto
    next
      case (Some t)
      with rest obtain t' where "record_trade k t = Ok t'" "x = Finished t'" by (auto simp: rmap_Inr_iff)
      with rr_cleared_trade [OF h(2) Some] q show ?thesis by (auto simp: fb_position_def)
    qed
  qed
qed

definition fb_typed :: "clock \<Rightarrow> pyfloat \<Rightarrow> fb_state \<Rightarrow> bool" where
  "fb_typed k m s \<longleftrightarrow> list_all (fb_position m) (fb_open s) \<and> list_all (rr_cleared m) (fb_trades s) \<and> list_all (written_order k) (fb_pending s)"

lemma settle_orders_fb:
  assumes "minimum_rr_of k config (Fin (3/2)) = Ok m" "m \<noteq> NaN"
  shows "settle_orders k te config row qs s = Ok s' \<Longrightarrow> list_all (written_order k) qs \<Longrightarrow> fb_typed k m s \<Longrightarrow> fb_typed k m s'"
proof (induction qs arbitrary: s)
  case (Cons q qs)
  then obtain x r where x: "order_outcome k te config row q = Ok x" "settle_orders k te config row qs (apply_outcome q x s) = Ok s'"
      and r: "q = order_output k r" by (auto simp: written_order_def elim!: rbind_InrE)
  have "fb_typed k m (apply_outcome q x s)"
  proof -
    from x(1) obtain f where f: "simulate_order_fill k q row [(''spread'', PFloat (te_spread te))] [(''slippage'', PFloat (te_slippage te))] = Ok f"
        "fl_filled f \<Longrightarrow> judge_fill k te config row q f = Ok x" "\<not> fl_filled f \<Longrightarrow> x = Kept \<or> (\<exists>d. x = Dropped d)"
      by (auto simp: order_outcome_def elim!: rbind_InrE split: if_splits)
    show ?thesis
    proof (cases "fl_filled f")
      case True
      from filled_has_price [OF f(1) True] obtain p where "fl_price f = Some p" ..
      from judge_fill_fb [OF f(2) [OF True, unfolded r] this assms] Cons.prems(3) show ?thesis
        by (cases x) (auto simp: fb_typed_def apply_outcome_def)
    next
      case False
      with f(3) Cons.prems(2,3) show ?thesis by (auto simp: fb_typed_def apply_outcome_def)
    qed
  qed
  with Cons.IH [OF x(2)] Cons.prems(2) show ?case by simp
qed simp

lemma backtest_candle_fb:
  assumes "minimum_rr_of k config (Fin (3/2)) = Ok m" "m \<noteq> NaN" "backtest_candle k local te data config i c s = Ok s'" "fb_typed k m s"
  shows "fb_typed k m s'"
proof -
  from assms(3) obtain t session s1 s2 s3 where h: "see_candle local te data i c s = Ok (t, session, s1)"
      "manage_positions k config (session_row c session) s1 = Ok s2" "fill_orders k te config (session_row c session) s2 = Ok s3"
      "decide k local te config i c t session s3 = Ok s'" by (rule backtest_candleE)
  have "fb_typed k m s1" using see_candle_books [OF h(1)] assms(4) by (simp add: same_books_def fb_typed_def)
  then have "fb_typed k m s2" using h(2) by (auto simp: fb_typed_def elim!: manage_positions_cases dest!: manage_open_fb)
  then have "fb_typed k m s3" using settle_orders_fb [OF assms(1,2) h(3) [unfolded fill_orders_def]] by (simp add: fb_typed_def)
  then show ?thesis using decision_cases [OF h(4)] by (auto simp: fb_typed_def rejects_def skips_def queues_def)
qed

lemma backtest_candles_fb:
  assumes "minimum_rr_of k config (Fin (3/2)) = Ok m" "m \<noteq> NaN"
  shows "backtest_candles k local te data config i cs s = Ok s' \<Longrightarrow> fb_typed k m s \<Longrightarrow> fb_typed k m s'"
  by (induction cs arbitrary: i s) (auto elim!: rbind_InrE dest: backtest_candle_fb [OF assms])

lemma fb_start_typed [simp]: "fb_typed k m (fb_start en)"
  by (simp add: fb_typed_def fb_start_def)

text \<open>C15. Every position a run holds and every trade it has closed has a reward after costs that cleared the configured minimum.\<close>

theorem costs_cleared:
  assumes "backtest_candles k local te data config 0 cs (fb_start en) = Ok s" "minimum_rr_of k config (Fin (3/2)) = Ok m" "m \<noteq> NaN"
    and "p \<in> set (fb_open s) \<union> set (fb_trades s)"
  shows "\<exists>v. pget p ''post_cost_rr'' PNone = PFloat v \<and> fle (py_round m 5) v"
  using backtest_candles_fb [OF assms(2,3,1) fb_start_typed] assms(4) by (auto simp: fb_typed_def fb_position_def rr_cleared_def list_all_iff)

subsection \<open>The default ladder\<close>

text \<open>Without a configured ladder, the final target is three times the risk away, also when the strategy names a smaller reward.\<close>

lemma default_ladder_overreaches:
  assumes "pget config ''target_ladder'' (PDict []) = PDict []" "target_ladder k setup selected config = Ok ts" "ts \<noteq> []"
    "ev_estimated_rr selected = Fin x" "0 < x" "x \<le> 3"
  shows "rg_rr (last ts) = Fin 3"
proof -
  have m: "positive_numbers k [PInt 1, PInt 2, PInt 3] = Ok [Fin 1, Fin 2, Fin 3]"
    by (simp add: float_or_none_def to_float_def feval)
  have "py_lower ''strategy'' \<noteq> ''fixed_rr''" by code_simp
  then have f: "final_multiple k [] (ev_estimated_rr selected) (sn_estimated_rr setup) = Ok (Fin x)"
    using assms(4,5) by (simp add: final_multiple_def)
  have l: "ladder_multiples [Fin 1, Fin 2, Fin 3] (Fin x) = [Fin 1, Fin 2, Fin 3]"
    using assms(6) by (simp add: ladder_multiples_def max_of_def py_max_def)
  have same: "map rg_rr (normalize_close_percents us) = map rg_rr us" for us by (simp add: normalize_close_percents_def Let_def)
  obtain us where us: "rungs k (sn_direction setup = BUY) (sn_entry_price setup) (fabs (fsub (sn_entry_price setup) (sn_stop_loss setup))) []
      [Fin 1, Fin 2, Fin 3] = Ok us" "ts = normalize_close_percents us"
    using assms(1,2,3) m f l by (auto simp: target_ladder_def config_of_def py_or_def rmap_Inr_iff Let_def split: if_splits)
  have "map rg_rr us = [Fin 1, Fin 2, Fin 3]" using us(1) by (auto simp: rungs_def rung_share_def rmap_Inr_iff)
  then have "map rg_rr ts = [Fin 1, Fin 2, Fin 3]" by (simp add: us(2) same)
  then show ?thesis using assms(3) by (metis last_map last.simps list.distinct(1))
qed

subsection \<open>Positions open at the end\<close>

lemma written_words: "py_upper (bias_value side) \<noteq> ''BUY''"
proof -
  have "py_upper ''bullish'' = ''BULLISH''" "py_upper ''bearish'' = ''BEARISH''" "py_upper ''none'' = ''NONE''" by code_simp+
  then show ?thesis by (cases side) auto
qed

text \<open>C38. A position of a run that is open at the end is marked as a sale, whatever its direction is: its direction is written
  ''bullish'' or ''bearish'', and the code compares it with ''BUY''.\<close>

theorem marked_as_a_sale:
  assumes "backtest_candles k local te data config 0 cs (fb_start en) = Ok s" "minimum_rr_of k config (Fin (3/2)) = Ok m" "m \<noteq> NaN"
    and "p \<in> set (fb_open s)" "close_position_at_end k p (candle_to_backtest_row c) = Ok t"
  shows "\<exists>entry stop before share. pget p ''entry_price'' PNone = PFloat entry \<and> pget p ''stop_loss'' PNone = PFloat stop
    \<and> pget p ''realized_R'' PNone = PFloat before \<and> pget p ''remaining_percent'' PNone = PFloat share
    \<and> pget t ''realized_R'' PNone = PFloat (py_round (if fle (fabs (fsub entry stop)) (Fin 0) then before
        else fadd before (fmul share (fdiv (fsub entry (cn_close_p c)) (fabs (fsub entry stop))))) 5)"
proof -
  have "fb_position m p" using backtest_candles_fb [OF assms(2,3,1) fb_start_typed] assms(4) by (auto simp: fb_typed_def list_all_iff)
  then obtain side entry stop share before where p: "pget p ''direction'' PNone = PStr (bias_value side)" "pget p ''entry_price'' PNone = PFloat entry"
      "pget p ''stop_loss'' PNone = PFloat stop" "pget p ''remaining_percent'' PNone = PFloat share" "pget p ''realized_R'' PNone = PFloat before"
    by (auto simp: fb_position_def float_field_def)
  have other: "pget p key x = v" if "pget p key PNone = v" "v \<noteq> PNone" for key x v using that by (auto simp: pget_def split: option.splits)
  from assms(5) show ?thesis
    by (auto simp: close_position_at_end_def Let_def rmap_Inr_iff candle_to_backtest_row_def other [OF p(1)] other [OF p(2)] other [OF p(3)]
        other [OF p(4)] other [OF p(5)] written_words p elim!: rbind_InrE split: if_splits)
qed

subsection \<open>Nothing is seen before it has closed\<close>

definition shown_by :: "int \<Rightarrow> fb_state \<Rightarrow> bool" where
  "shown_by t s \<longleftrightarrow> (\<forall>tf. \<forall>c\<in>set (candles_for (fb_candles s) tf). dt_instant (cn_end_time c) \<le> t)"

lemma candles_for_update: "candles_for (AList.update tf cs d) tf' = (if tf' = tf then cs else candles_for d tf')"
  by (simp add: candles_for_def update_conv)

lemma set_dq_push: "set (dq_push n x xs) \<subseteq> insert x (set xs)"
  by (auto simp: dq_push_def Let_def dest: in_set_dropD)

lemma take_closed_seen:
  "take_closed now cs seen i = Ok (seen', i') \<Longrightarrow> c \<in> set seen' \<Longrightarrow> c \<in> set seen \<or> dt_instant (cn_end_time c) \<le> dt_instant now"
proof (induction cs arbitrary: seen i)
  case (Cons c' cs)
  then show ?case using set_dq_push [of 160 c' seen]
    by (auto simp: dt_le_def elim!: rbind_InrE split: if_splits)
qed auto

lemma advance_shown:
  assumes "advance_higher_timeframes data now s = Ok s'" "shown_by (dt_instant now) s"
  shows "shown_by (dt_instant now) s'"
  using assms(1) unfolding advance_higher_timeframes_def
proof (rule res_foldI [where P = "shown_by (dt_instant now)", rotated 2])
  fix tf t t' assume "shown_by (dt_instant now) t" "advance_timeframe data now tf t = Ok t'"
  then show "shown_by (dt_instant now) t'"
    by (auto simp: advance_timeframe_def rmap_Inr_iff shown_by_def candles_for_update dest!: take_closed_seen split: if_splits)
qed (rule assms)

lemma see_candle_shown:
  assumes "see_candle local te data i c s = Ok (t, session, s')" "shown_by b s" "b \<le> dt_instant (cn_end_time c)"
  shows "shown_by (dt_instant (cn_end_time c)) s'"
proof -
  from assms(1) obtain s1 where s1: "advance_higher_timeframes data (cn_end_time c) s = Ok s1"
    by (auto simp: see_candle_def rmap_Inr_iff)
  have ingest: "fb_candles (ingest_structure_and_liquidity c u) = fb_candles u" for u
    by (simp add: ingest_structure_and_liquidity_def Let_def split: prod.splits)
  have "shown_by (dt_instant (cn_end_time c)) s1" using assms(2,3) by (intro advance_shown [OF s1]) (force simp: shown_by_def)
  moreover from assms(1) s1 have "fb_candles s' = AList.update ''1m'' (dq_push 160 c (candles_for (fb_candles s1) ''1m'')) (fb_candles s1)"
    unfolding see_candle_def Let_def by (auto simp: rmap_Inr_iff ingest split: prod.splits)
  ultimately show ?thesis using set_dq_push [of 160 c] by (fastforce simp: shown_by_def candles_for_update)
qed

lemma decide_candles:
  assumes "decide k local te config i c t session s = Ok s'"
  shows "fb_candles s' = fb_candles s"
proof -
  have hard: "fb_candles u' = fb_candles u" if "harden_setup te n u = (n', u')" for n n' u u'
    using that by (auto simp: harden_setup_def Let_def tally_def split: if_splits)
  have place: "fb_candles u' = fb_candles u" if "place_selection k local te config market i c ev u = Ok u'" for market ev u u'
    using that unfolding place_selection_def
    by (auto simp: skip_setup_def queue_signal_def rmap_Inr_iff tally_def dest!: hard elim!: rbind_InrE split: prod.splits option.splits)
  have take: "fb_candles u' = fb_candles u" if "take_selection k local te config market i c ev u = Ok u'" for market ev u u'
    using that unfolding take_selection_def Let_def
    by (auto simp: skip_setup_def rmap_Inr_iff tally_def dest!: place elim!: rbind_InrE split: if_splits)
  from assms show ?thesis unfolding decide_def Let_def
    by (auto simp: tally_def dest!: take elim!: rbind_InrE split: if_splits prod.splits option.splits)
qed

lemma settle_orders_candles: "settle_orders k te config row qs s = Ok s' \<Longrightarrow> fb_candles s' = fb_candles s"
proof (induction qs arbitrary: s)
  case (Cons q qs)
  then obtain x where "settle_orders k te config row qs (apply_outcome q x s) = Ok s'" by (auto elim!: rbind_InrE)
  with Cons.IH [OF this] show ?case by (cases x) (auto simp: apply_outcome_def)
qed simp

lemma backtest_candle_shown:
  assumes "backtest_candle k local te data config i c s = Ok s'" "shown_by b s" "b \<le> dt_instant (cn_end_time c)"
  shows "shown_by (dt_instant (cn_end_time c)) s'"
proof -
  from assms(1) obtain t session s1 s2 s3 where h: "see_candle local te data i c s = Ok (t, session, s1)"
      "manage_positions k config (session_row c session) s1 = Ok s2" "fill_orders k te config (session_row c session) s2 = Ok s3"
      "decide k local te config i c t session s3 = Ok s'" by (rule backtest_candleE)
  have "fb_candles s2 = fb_candles s1" using h(2) by (auto elim!: manage_positions_cases)
  moreover have "fb_candles s3 = fb_candles s2" using settle_orders_candles [OF h(3) [unfolded fill_orders_def]] by simp
  ultimately show ?thesis using see_candle_shown [OF h(1) assms(2,3)] decide_candles [OF h(4)] by (simp add: shown_by_def)
qed

text \<open>C14. At every point of a run over candles in the order of their closing times, the candles shown to the strategies, of any timeframe,
  have closed by the last candle replayed.\<close>

theorem no_lookahead:
  assumes "backtest_candles k local te data config 0 cs (fb_start en) = Ok s" "sorted (map (dt_instant \<circ> cn_end_time) cs)" "cs \<noteq> []"
    and "c \<in> set (candles_for (fb_candles s) tf)"
  shows "dt_instant (cn_end_time c) \<le> dt_instant (cn_end_time (last cs))"
proof -
  have run: "shown_by (if cs = [] then b else dt_instant (cn_end_time (last cs))) s'"
    if "backtest_candles k local te data config i cs s = Ok s'" "sorted (map (dt_instant \<circ> cn_end_time) cs)" "shown_by b s"
      "\<forall>c\<in>set cs. b \<le> dt_instant (cn_end_time c)" for i cs s s' b
    using that
  proof (induction cs arbitrary: i s b)
    case (Cons c cs)
    then obtain u where u: "backtest_candle k local te data config i c s = Ok u" "backtest_candles k local te data config (Suc i) cs u = Ok s'"
      by (auto elim!: rbind_InrE)
    have "shown_by (dt_instant (cn_end_time c)) u" using Cons.prems by (intro backtest_candle_shown [OF u(1), of b]) auto
    from Cons.IH [OF u(2) _ this] Cons.prems(2) show ?case by (auto split: if_splits)
  qed simp
  have "shown_by (dt_instant (cn_end_time (hd cs))) (fb_start en)" by (auto simp: shown_by_def fb_start_def candles_for_def timeframe_table_def split: option.splits if_splits)
  moreover have "\<forall>c\<in>set cs. dt_instant (cn_end_time (hd cs)) \<le> dt_instant (cn_end_time c)" using assms(2,3) by (cases cs) auto
  ultimately show ?thesis using run [OF assms(1,2)] assms(3,4) by (auto simp: shown_by_def)
qed

end
