(* ===== verification/BacktestGate.thy ===== *)
theory BacktestGate
  imports FullBacktestLaws
begin

section \<open>The command line of the full backtest (scripts/run_ict_smc_backtest.py)\<close>

text \<open>
  What \<open>main\<close> does around a run: the overrides of the profile, the configuration, the window of entry times, and the deployment
  gate that decides the exit code. The parsed arguments, the loaded profile and candles, the git metadata and the clock are arguments;
  \<open>digest\<close> is \<open>_stable_hash\<close>, \<open>gen\<close> gives the strategies' generators. A profile is JSON data, so its JSON copy is the profile.
  The summaries added for the output files and the printed lines are left out.
\<close>

subsection \<open>The arguments and the overrides\<close>

text \<open>An argument that may be missing and is used as a truth value is the empty string then.\<close>

record cli_args =
  ca_from :: string
  ca_to :: string
  ca_window_from :: string
  ca_window_to :: string
  ca_spread :: "pyfloat option"
  ca_slippage :: "pyfloat option"
  ca_minimum_rr :: "pyfloat option"
  ca_max_hold :: "int option"
  ca_disable_session :: "string list"
  ca_disable_killzone :: "string list"
  ca_final_rr :: "pyfloat option"
  ca_allow_failed :: bool
  ca_warmup :: int
  ca_cooldown :: int
  ca_max_open :: int
  ca_max_drift :: pyfloat
  ca_max_fraction :: pyfloat
  ca_no_hardening :: bool

definition override_minimum_rr :: "pyfloat option \<Rightarrow> pydict \<Rightarrow> pydict" where
  "override_minimum_rr v p = (case v of None \<Rightarrow> p | Some x \<Rightarrow> AList.update ''minimum_rr'' (PFloat x) p)"

definition override_max_hold :: "int option \<Rightarrow> pydict \<Rightarrow> pydict res" where
  "override_max_hold v p =
     (case v of
        None \<Rightarrow> Ok p
      | Some m \<Rightarrow> rmap (\<lambda>d. AList.update ''management'' (PDict (AList.update ''max_hold_minutes'' (PInt m) d)) p)
          (config_of (pget p ''management'' (PDict []))))"

text \<open>The names of a set sorted; a value that is not a string cannot be compared with the added names.\<close>

definition sorted_names :: "pyval list \<Rightarrow> pyval list res" where
  "sorted_names vs = rmap (\<lambda>ns. map PStr (sort_by str_less (remdups ns))) (res_map (\<lambda>v. case v of PStr s \<Rightarrow> Ok s | _ \<Rightarrow> Raise TypeError) vs)"

definition disable_names :: "string \<Rightarrow> string list \<Rightarrow> pydict \<Rightarrow> pydict res" where
  "disable_names key names p =
     (if names = [] then Ok p
      else
        rbind (config_of (pget p ''session_filters'' (PDict []))) (\<lambda>filters.
        rbind (py_iter (py_or (pget filters key (PList [])) (PList []))) (\<lambda>old.
        rmap (\<lambda>ns. AList.update ''session_filters'' (PDict (AList.update key (PList ns) filters)) p)
          (sorted_names (old @ map PStr names)))))"

definition override_final_rr :: "pyfloat option \<Rightarrow> pydict \<Rightarrow> pydict res" where
  "override_final_rr v p =
     (case v of
        None \<Rightarrow> Ok p
      | Some x \<Rightarrow>
          rmap (\<lambda>d.
            let l = AList.update ''final_rr'' (PFloat x) (AList.update ''mode'' (PStr ''fixed_rr'') d);
                l' = (if fle (Fin 6) x
                      then AList.update ''close_percents'' (PList (map (\<lambda>q. PFloat (lit q)) [16/100, 16/100, 17/100, 17/100, 17/100, 17/100]))
                             (AList.update ''milestones'' (PList (map PInt [1, 2, 3, 4, 5, 6])) l)
                      else l)
            in AList.update ''target_ladder'' (PDict l') p)
          (config_of (pget p ''target_ladder'' (PDict []))))"

definition override_price :: "clock \<Rightarrow> string \<Rightarrow> pyfloat \<Rightarrow> pyfloat option \<Rightarrow> pydict \<Rightarrow> pydict res" where
  "override_price k key dflt v p =
     rmap (\<lambda>x. AList.update key (PFloat x) p) (case v of Some x \<Rightarrow> Ok x | None \<Rightarrow> to_float (ck_text k) (pget p key (PFloat dflt)))"

definition apply_cli_profile_overrides :: "clock \<Rightarrow> cli_args \<Rightarrow> pydict \<Rightarrow> pydict res" where
  "apply_cli_profile_overrides k a profile =
     rbind (override_max_hold (ca_max_hold a) (override_minimum_rr (ca_minimum_rr a) profile)) (\<lambda>p1.
     rbind (disable_names ''disabled_sessions'' (ca_disable_session a) p1) (\<lambda>p2.
     rbind (disable_names ''disabled_killzones'' (ca_disable_killzone a) p2) (\<lambda>p3.
     rbind (override_final_rr (ca_final_rr a) p3) (\<lambda>p4.
     rbind (override_price k ''spread_price'' (lit (30/100)) (ca_spread a) p4)
       (override_price k ''slippage_price'' (lit (5/100)) (ca_slippage a))))))"

subsection \<open>The window of entry times\<close>

definition parse_cli_datetime :: "clock \<Rightarrow> string \<Rightarrow> datetime res" where
  "parse_cli_datetime k s =
     (let t = py_strip s
      in if length t = 10 then rmap (\<lambda>d. d\<lparr>dt_off := Some 0\<rparr>) (ck_iso k t) else rmap assume_utc (ck_iso k (replace_z t)))"

text \<open>A bound of the window, when it is given.\<close>

definition window_bound :: "clock \<Rightarrow> string \<Rightarrow> datetime option res" where
  "window_bound k s = (if s = [] then Ok None else rmap Some (parse_cli_datetime k s))"

definition keeps_trade :: "clock \<Rightarrow> datetime option \<Rightarrow> datetime option \<Rightarrow> pydict \<Rightarrow> bool res" where
  "keeps_trade k started ended t =
     (let e = pget t ''entry_time'' PNone
      in if \<not> py_truthy e then Ok False
         else
           rbind (parse_cli_datetime k (to_str (ck_text k) e)) (\<lambda>entered.
           rbind (case started of None \<Rightarrow> Ok False | Some d \<Rightarrow> dt_lt entered d) (\<lambda>early.
           if early then Ok False
           else case ended of None \<Rightarrow> Ok True | Some d \<Rightarrow> rmap Not (dt_le d entered))))"

definition filter_result_trade_window :: "clock \<Rightarrow> string \<Rightarrow> string \<Rightarrow> fb_result \<Rightarrow> fb_result res" where
  "filter_result_trade_window k from_text to_text r =
     (if from_text = [] \<and> to_text = [] then Ok r
      else
        rbind (window_bound k from_text) (\<lambda>started.
        rbind (window_bound k to_text) (\<lambda>ended.
        let kept = res_filter (keeps_trade k started ended) in
        rbind (kept (fr_trades r)) (\<lambda>trades.
        rbind (kept (fr_completed r)) (\<lambda>completed.
        rbind (kept (fr_marked r)) (\<lambda>marked.
        rbind (calculate_performance_metrics k completed) (\<lambda>m.
        rmap (\<lambda>mm. r\<lparr>fr_trades := trades, fr_completed := completed, fr_marked := marked, fr_metrics := m, fr_marked_metrics := mm\<rparr>)
          (calculate_performance_metrics k marked))))))))"

subsection \<open>The deployment gate\<close>

record deployment_gate =
  dg_minimum_rr :: pyfloat
  dg_killzones :: "string list"
  dg_sessions :: "string list"
  dg_require_killzone :: bool
  dg_max_hold :: "pyfloat option"
  dg_tolerance :: pyfloat
  dg_minimum_completed :: int
  dg_require_rr :: bool
  dg_require_metadata :: bool

definition lowered :: "clock \<Rightarrow> pyval \<Rightarrow> string" where
  "lowered k v = py_lower (to_str (ck_text k) v)"

definition gate_enforced :: "pydict \<Rightarrow> pydict \<Rightarrow> bool" where
  "gate_enforced gate profile =
     py_truthy (pget gate ''enforce'' (PBool (pget profile ''profile_name'' PNone = PStr ''strict_intraday_xauusd'')))"

definition gate_of :: "clock \<Rightarrow> pydict \<Rightarrow> pydict \<Rightarrow> deployment_gate res" where
  "gate_of k gate profile =
     rbind (to_float (ck_text k) (pget profile ''minimum_rr'' (PFloat (Fin 3)))) (\<lambda>min_rr.
     rbind (config_of (pget profile ''session_filters'' (PDict []))) (\<lambda>filters.
     let names = \<lambda>key. rmap (map (lowered k)) (py_iter (py_or (pget filters key (PList [])) (PList []))) in
     rbind (names ''disabled_killzones'') (\<lambda>killzones.
     rbind (names ''disabled_sessions'') (\<lambda>sessions.
     rbind (dict_read (py_or (pget profile ''management'' (PDict [])) (PDict []))) (\<lambda>management.
     rbind (float_or_none k (pget management ''max_hold_minutes'' PNone)) (\<lambda>hold.
     rbind (to_float (ck_text k) (pget management ''hold_tolerance_minutes'' (PFloat (Fin 1)))) (\<lambda>tolerance.
     rmap (\<lambda>n. \<lparr>dg_minimum_rr = min_rr, dg_killzones = killzones, dg_sessions = sessions,
              dg_require_killzone = py_truthy (pget filters ''require_killzone'' (PBool False)), dg_max_hold = hold, dg_tolerance = tolerance,
              dg_minimum_completed = n, dg_require_rr = py_truthy (pget gate ''require_post_cost_rr'' (PBool True)),
              dg_require_metadata = py_truthy (pget gate ''require_profile_metadata'' (PBool False))\<rparr>)
       (to_int (ck_text k) (py_or (pget gate ''minimum_completed_trades'' (PInt 0)) (PInt 0))))))))))"

definition metadata_keys :: "string list" where
  "metadata_keys = [''profile_name'', ''run_id'', ''active_profile_hash'', ''selector_config_hash'']"

text \<open>The texts name the trade; the errors of a trade in the order of the checks.\<close>

definition trade_gate_errors :: "clock \<Rightarrow> deployment_gate \<Rightarrow> pydict \<Rightarrow> string list res" where
  "trade_gate_errors k g t =
     (let text = to_str (ck_text k); name = text (pget t ''trade_id'' (PStr ''unknown''));
          session = lowered k (py_or (pget t ''session_name'' PNone) (PStr [])); zone = lowered k (py_or (pget t ''killzone_name'' PNone) (PStr []))
      in rbind (float_or_none k (pget t ''post_cost_rr'' PNone)) (\<lambda>rr.
         rmap (\<lambda>dur.
           warn (dg_require_rr g \<and> (case rr of None \<Rightarrow> True | Some x \<Rightarrow> flt x (dg_minimum_rr g)))
             (''deployment_gate_post_cost_rr_below_minimum:'' @ name @ '':'' @ text (float_val rr))
           @ warn (dg_require_killzone g \<and> \<not> py_truthy (pget t ''killzone_active'' PNone)) (''deployment_gate_no_killzone:'' @ name)
           @ warn (session \<noteq> [] \<and> session \<in> set (dg_sessions g))
               (''deployment_gate_disabled_session:'' @ name @ '':'' @ text (pget t ''session_name'' PNone))
           @ warn (zone \<noteq> [] \<and> zone \<in> set (dg_killzones g))
               (''deployment_gate_disabled_killzone:'' @ name @ '':'' @ text (pget t ''killzone_name'' PNone))
           @ warn (case (dg_max_hold g, dur) of (Some h, Some x) \<Rightarrow> flt (fadd h (dg_tolerance g)) x | _ \<Rightarrow> False)
               (''deployment_gate_max_hold_exceeded:'' @ name @ '':'' @ text (float_val dur))
           @ concat (map (\<lambda>key. warn (dg_require_metadata g \<and> \<not> py_truthy (pget t key PNone))
               (''deployment_gate_missing_metadata:'' @ name @ '':'' @ key)) metadata_keys))
         (float_or_none k (pget t ''duration_min'' PNone))))"

definition deployment_gate_errors :: "clock \<Rightarrow> pydict list \<Rightarrow> pydict \<Rightarrow> string list res" where
  "deployment_gate_errors k completed profile =
     rbind (config_of (pget profile ''deployment_gate'' (PDict []))) (\<lambda>gate.
     if \<not> gate_enforced gate profile then Ok []
     else
       rbind (gate_of k gate profile) (\<lambda>g.
       let n = int (length completed); m = dg_minimum_completed g in
       rmap (\<lambda>es. warn (m \<noteq> 0 \<and> n < m) (''deployment_gate_minimum_completed_trades_not_met:'' @ int_str n @ ''<'' @ int_str m) @ concat es)
         (res_map (trade_gate_errors k g) completed)))"

subsection \<open>The program\<close>

definition build_run_manifest ::
  "cli_args \<Rightarrow> pydict \<Rightarrow> pydict \<Rightarrow> pydict \<Rightarrow> string \<Rightarrow> string \<Rightarrow> string \<Rightarrow> (string \<times> candle_node list) list \<Rightarrow> pydict" where
  "build_run_manifest a args profile git source symbol now data =
     [(''generated_at'', PStr now), (''command_args'', PDict args), (''profile_path'', pget profile ''profile_path'' PNone),
      (''resolved_profile'', PDict profile), (''git_commit'', pget git ''commit'' PNone), (''git_branch'', pget git ''branch'' PNone),
      (''source'', PStr source), (''symbol'', PStr symbol), (''from'', PStr (ca_from a)), (''to'', PStr (ca_to a)),
      (''spread_price'', pget profile ''spread_price'' PNone), (''slippage_price'', pget profile ''slippage_price'' PNone),
      (''timeframe_counts'', PDict (map (\<lambda>(tf, cs). (tf, PInt (int (length cs)))) data))]"

text \<open>The manifest with its hashes; the hash of the run is taken last.\<close>

definition labelled_manifest :: "(pydict \<Rightarrow> string) \<Rightarrow> pydict \<Rightarrow> pydict \<Rightarrow> pydict \<Rightarrow> pydict" where
  "labelled_manifest digest profile selector manifest =
     (let m = dict_update manifest [(''active_profile_hash'', PStr (digest profile)), (''selector_config_hash'', PStr (digest selector))]
      in AList.update ''run_id'' (PStr (''BT_'' @ digest m)) m)"

definition run_config :: "pydict \<Rightarrow> pydict \<Rightarrow> pydict \<Rightarrow> pydict \<Rightarrow> pydict \<Rightarrow> string \<Rightarrow> pydict" where
  "run_config profile selector args git manifest source =
     (let p = \<lambda>key. pget profile key PNone; m = \<lambda>key. pget manifest key PNone
      in [(''source'', PStr source), (''profile_name'', p ''profile_name''), (''active_profile'', PDict profile), (''git'', PDict git),
          (''command_args'', PDict args), (''selector'', PDict selector), (''run_manifest'', PDict manifest), (''run_id'', m ''run_id''),
          (''active_profile_hash'', m ''active_profile_hash''), (''selector_config_hash'', m ''selector_config_hash''),
          (''minimum_rr'', p ''minimum_rr''), (''target_ladder'', pget profile ''target_ladder'' (PDict [])),
          (''move_stop_to_be_after_target_index'', pget profile ''move_stop_to_be_after_target_index'' (PInt 1)),
          (''breakeven_buffer_price'', pget profile ''breakeven_buffer_price'' (PFloat (Fin 0))),
          (''breakeven_after_rr'', p ''breakeven_after_rr''), (''spread_price'', p ''spread_price''), (''slippage_price'', p ''slippage_price''),
          (''news_calendar_loaded'', PBool False), (''minimum_sample_trades'', PInt 30), (''close_open_positions_at_end'', PBool True),
          (''management'', pget profile ''management'' (PDict [(''same_candle_policy'', PStr ''conservative'')]))])"

definition tester_of ::
  "clock \<Rightarrow> (string \<Rightarrow> pydict \<Rightarrow> pydict option \<Rightarrow> pydict res) \<Rightarrow> cli_args \<Rightarrow> pydict \<Rightarrow> string \<Rightarrow> tester res" where
  "tester_of k gen a profile symbol =
     (let price = \<lambda>key. rbind (pitem (PDict profile) key) (to_float (ck_text k))
      in rbind (price ''spread_price'') (\<lambda>spread.
         rmap (\<lambda>slip. new_tester gen symbol spread slip (ca_warmup a) (ca_max_open a) (ca_cooldown a) (\<not> ca_no_hardening a)
                (if flt (ca_max_drift a) (Fin 0) then None else Some (ca_max_drift a)) (ca_max_fraction a))
           (price ''slippage_price'')))"

text \<open>What follows a run: the window, the gate and the exit code.\<close>

definition conclude_run :: "clock \<Rightarrow> cli_args \<Rightarrow> pydict \<Rightarrow> fb_result \<Rightarrow> (fb_result \<times> string list \<times> int) res" where
  "conclude_run k a profile result =
     rbind (filter_result_trade_window k (ca_window_from a) (ca_window_to a) result) (\<lambda>r.
     rmap (\<lambda>errors.
       let rep = fr_report r
       in (r\<lparr>fr_report := rep\<lparr>br_warnings := br_warnings rep @ errors\<rparr>\<rparr>, errors, if errors \<noteq> [] \<and> \<not> ca_allow_failed a then 2 else 0))
     (deployment_gate_errors k (fr_completed r) profile))"

definition backtest_main ::
  "clock \<Rightarrow> (datetime \<Rightarrow> int) \<Rightarrow> (pydict \<Rightarrow> string) \<Rightarrow> (string \<Rightarrow> pydict \<Rightarrow> pydict option \<Rightarrow> pydict res) \<Rightarrow> cli_args \<Rightarrow> pydict \<Rightarrow> pydict
    \<Rightarrow> pydict \<Rightarrow> string \<Rightarrow> string \<Rightarrow> string \<Rightarrow> (string \<times> candle_node list) list \<Rightarrow> (fb_result \<times> string list \<times> int) res" where
  "backtest_main k local digest gen a args loaded git now source symbol data =
     rbind (apply_cli_profile_overrides k a loaded) (\<lambda>profile.
     rbind (normalize_selector_profile (pytext.truncate (ck_text k)) profile) (\<lambda>selector.
     let manifest = labelled_manifest digest profile selector (build_run_manifest a args profile git source symbol now data) in
     rbind (tester_of k gen a profile symbol) (\<lambda>te.
     rbind (run_full_backtest k local digest te new_engines data (run_config profile selector args git manifest source)) (\<lambda>(result, _).
     conclude_run k a profile result))))"


subsection \<open>What the gate lets through\<close>

text \<open>A trade that may be deployed: it can be read, its reward after costs is known and not below the minimum, it was taken in a killzone and in no
  disabled session or killzone, it was not held too long, and it says where it comes from.\<close>

definition deployable :: "clock \<Rightarrow> deployment_gate \<Rightarrow> pydict \<Rightarrow> bool" where
  "deployable k g t \<longleftrightarrow> (\<exists>rr dur. float_or_none k (pget t ''post_cost_rr'' PNone) = Ok rr \<and> float_or_none k (pget t ''duration_min'' PNone) = Ok dur
     \<and> (dg_require_rr g \<longrightarrow> (\<exists>x. rr = Some x \<and> \<not> flt x (dg_minimum_rr g)))
     \<and> (dg_require_killzone g \<longrightarrow> py_truthy (pget t ''killzone_active'' PNone))
     \<and> (\<forall>s\<in>set (dg_sessions g). s = [] \<or> lowered k (py_or (pget t ''session_name'' PNone) (PStr [])) \<noteq> s)
     \<and> (\<forall>z\<in>set (dg_killzones g). z = [] \<or> lowered k (py_or (pget t ''killzone_name'' PNone) (PStr [])) \<noteq> z)
     \<and> (\<forall>h x. dg_max_hold g = Some h \<and> dur = Some x \<longrightarrow> \<not> flt (fadd h (dg_tolerance g)) x)
     \<and> (dg_require_metadata g \<longrightarrow> (\<forall>key\<in>set metadata_keys. py_truthy (pget t key PNone))))"

lemma warn_empty [simp]: "warn b w = [] \<longleftrightarrow> \<not> b"
  by (simp add: warn_def)

lemma trade_gate_passes: "trade_gate_errors k g t = Ok [] \<longleftrightarrow> deployable k g t"
proof
  assume "trade_gate_errors k g t = Ok []"
  then obtain rr dur where r: "float_or_none k (pget t ''post_cost_rr'' PNone) = Ok rr" "float_or_none k (pget t ''duration_min'' PNone) = Ok dur"
    by (auto simp: trade_gate_errors_def Let_def rmap_Inr_iff elim!: rbind_InrE)
  with \<open>trade_gate_errors k g t = Ok []\<close> show "deployable k g t"
    by (auto simp: trade_gate_errors_def deployable_def Let_def split: option.splits)
next
  assume "deployable k g t"
  then show "trade_gate_errors k g t = Ok []"
    by (auto simp: trade_gate_errors_def deployable_def Let_def split: option.splits)
qed

lemma trade_gates_pass: "(\<exists>es. res_map (trade_gate_errors k g) ts = Ok es \<and> concat es = []) \<longleftrightarrow> list_all (deployable k g) ts"
proof (induction ts)
  case (Cons t ts)
  then show ?case by (auto simp: rmap_Inr_iff simp flip: trade_gate_passes elim!: rbind_InrE)
qed simp

text \<open>C37. An enforced gate finds nothing exactly when enough trades are complete and each of them may be deployed.\<close>

theorem gate_passes_iff:
  assumes "config_of (pget profile ''deployment_gate'' (PDict [])) = Ok gate" "gate_enforced gate profile" "gate_of k gate profile = Ok g"
  shows "deployment_gate_errors k ts profile = Ok [] \<longleftrightarrow> dg_minimum_completed g \<le> int (length ts) \<and> list_all (deployable k g) ts"
  using assms by (auto simp: deployment_gate_errors_def Let_def rmap_Inr_iff simp flip: trade_gates_pass)

subsection \<open>What the window keeps\<close>

lemma res_filter_set: "res_filter p xs = Ok ys \<Longrightarrow> \<forall>x\<in>set ys. x \<in> set xs \<and> p x = Ok True"
  by (induction xs arbitrary: ys) (auto simp: rmap_Inr_iff elim!: rbind_InrE split: if_splits)

lemma kept_inside:
  assumes "keeps_trade k started ended t = Ok True"
  shows "\<exists>d. parse_cli_datetime k (to_str (ck_text k) (pget t ''entry_time'' PNone)) = Ok d
    \<and> (\<forall>s. started = Some s \<longrightarrow> dt_instant s \<le> dt_instant d) \<and> (\<forall>e. ended = Some e \<longrightarrow> dt_instant d < dt_instant e)"
  using assms by (auto simp: keeps_trade_def Let_def rmap_Inr_iff dt_lt_def dt_le_def elim!: rbind_InrE split: if_splits option.splits)

text \<open>A trade that a window leaves in a log was in it, and was entered within the window.\<close>

lemma window_trades_inside:
  assumes "filter_result_trade_window k from_text to_text r = Ok r'" "from_text \<noteq> [] \<or> to_text \<noteq> []"
    "window_bound k from_text = Ok started" "window_bound k to_text = Ok ended"
    "t \<in> set (fr_trades r') \<and> u = set (fr_trades r) \<or> t \<in> set (fr_completed r') \<and> u = set (fr_completed r) \<or> t \<in> set (fr_marked r') \<and> u = set (fr_marked r)"
  shows "t \<in> u \<and> (\<exists>d. parse_cli_datetime k (to_str (ck_text k) (pget t ''entry_time'' PNone)) = Ok d
    \<and> (\<forall>s. started = Some s \<longrightarrow> dt_instant s \<le> dt_instant d) \<and> (\<forall>e. ended = Some e \<longrightarrow> dt_instant d < dt_instant e))"
proof -
  have "keeps_trade k started ended t = Ok True \<and> t \<in> u"
    using assms by (auto simp: filter_result_trade_window_def Let_def rmap_Inr_iff dest!: res_filter_set elim!: rbind_InrE)
  then show ?thesis using kept_inside [of k started ended t] by simp
qed

lemma pget_set_default: "pget (set_default key v d) key' x = (if key' = key then pget d key v else pget d key' x)"
  by (auto simp: set_default_def pget_append pget_def map_add_def split: option.splits)

text \<open>C39. A position that is closed at the end of a run has no entry time in its record, so a window of entry times always drops it.\<close>

theorem marks_leave_window:
  assumes "close_position_at_end k p row = Ok t" "record_trade k t = Ok t'" "annotate_trade k l t' = Ok u"
  shows "keeps_trade k started ended u = Ok False"
proof -
  have "pget t ''entry_time'' x = x" for x
    using assms(1) by (auto simp: close_position_at_end_def Let_def rmap_Inr_iff elim!: rbind_InrE split: if_splits)
  then have "pget t' ''entry_time'' x = x" for x using assms(2) by (auto simp: record_trade_def rmap_Inr_iff pget_set_default)
  then have "pget u ''entry_time'' PNone = PNone" using assms(3) by (auto simp: annotate_trade_def Let_def rmap_Inr_iff pget_set_default)
  then show ?thesis by (simp add: keeps_trade_def)
qed

text \<open>A run that ends with code 0 although failures are not allowed, under an enforced gate, leaves only trades that may be deployed.\<close>

lemma clean_exit_is_deployable:
  assumes "conclude_run k a profile result = Ok (r, errors, 0)" "\<not> ca_allow_failed a"
    "config_of (pget profile ''deployment_gate'' (PDict [])) = Ok gate" "gate_enforced gate profile" "gate_of k gate profile = Ok g"
  shows "list_all (deployable k g) (fr_completed r)"
proof -
  from assms(1,2) have "deployment_gate_errors k (fr_completed r) profile = Ok []"
    by (auto simp: conclude_run_def Let_def rmap_Inr_iff elim!: rbind_InrE split: if_splits)
  then show ?thesis using assms(3-5)
    by (auto simp: deployment_gate_errors_def Let_def rmap_Inr_iff simp flip: trade_gates_pass)
qed

end
