(* ===== verification/FullBacktestDemo.thy ===== *)
theory FullBacktestDemo
  imports BacktestGate
begin

section \<open>A run of the full backtest\<close>

text \<open>
  Two candles and one strategy that always buys at 2000 with its stop at 1990 and its target at 2030. The first candle places an order, the
  second fills it and places another. The price has risen when the run ends, and the position is marked as a loss. Times are written as one letter.
\<close>

definition fb_slots :: "(string \<times> int) list" where
  "fb_slots = [(''A'', 0), (''B'', 300000000), (''C'', 600000000), (''F'', 1500000000), (''G'', 1800000000)]"

definition fb_clock :: clock where
  "fb_clock = \<lparr>ck_text = \<lparr>px_show = (\<lambda>_. []), px_float = (\<lambda>_. Raise (ValueError [])), px_g = (\<lambda>_. []), px_int = (\<lambda>_. Raise (ValueError []))\<rparr>,
     ck_iso = (\<lambda>s. case map_of fb_slots s of Some w \<Rightarrow> Ok (aware_utc w) | None \<Rightarrow> Raise (ValueError [])),
     ck_strp = (\<lambda>_. Raise (ValueError [])),
     ck_show = (\<lambda>d. case map_of (map (\<lambda>(s, w). (w, s)) fb_slots) (dt_wall d) of Some s \<Rightarrow> s | None \<Rightarrow> ''?'')\<rparr>"

definition fb_payload :: pydict where
  "fb_payload = [(''trade_allowed'', PBool True), (''direction'', PStr ''bullish''), (''entry_price'', PFloat (Fin 2000)),
     (''stop_loss'', PFloat (Fin 1990)), (''take_profit'', PFloat (Fin 2030)), (''rr'', PFloat (Fin 3)), (''total_score'', PFloat (Fin 95))]"

definition fb_strategy :: strategy_definition where
  "fb_strategy = (strategy (\<lambda>_ _ _. Ok fb_payload) ''demo'' ''Demo'' FVG_CONTINUATION 50 0)\<lparr>sd_required_timeframes := []\<rparr>"

definition fb_chosen :: strategy_evaluation where
  "fb_chosen = \<lparr>ev_definition = fb_strategy, ev_signal = fb_payload, ev_status = ''TRADEABLE'', ev_reason = [], ev_normalized_score = Fin 95,
     ev_estimated_rr = Fin 3, ev_entry_price = Some (Fin 2000), ev_stop_loss = Some (Fin 1990), ev_take_profit = Some (Fin 2030),
     ev_direction = Some BUY\<rparr>"

definition fb_tester :: tester where
  "fb_tester = \<lparr>te_symbol = ''XAUUSD'', te_spread = Fin 0, te_slippage = Fin 0, te_warmup = 1, te_max_open = 2, te_cooldown = 300000000,
     te_harden = False, te_max_drift = None, te_max_fraction = Fin 0, te_definitions = [fb_strategy]\<rparr>"

definition fb_config :: pydict where
  "fb_config = [(''target_ladder'', PDict [(''milestones'', PList [PInt 3])])]"

abbreviation fb_text :: pytext where "fb_text \<equiv> pytext.truncate (ck_text fb_clock)"

lemma fb_text_eq: "fb_text = plain_text"
  by (simp add: fb_clock_def plain_text_def pytext.defs)

lemma fb_read: "read_signal plain_text fb_strategy fb_payload = Ok (fb_chosen\<lparr>ev_status := ''REJECTED''\<rparr>)"
  by (simp add: read_signal_def normalized_score_def payload_defs fb_payload_def signal_direction_def py_lower_def low_char_def
      clamp_def scaled_def py_max_def py_min_def feval fb_chosen_def)

lemma fb_strategy_fields: "sd_generator fb_strategy = (\<lambda>_ _. Ok fb_payload)" "sd_key fb_strategy = ''demo''" "sd_setup_type fb_strategy = FVG_CONTINUATION"
  by (simp_all add: fb_strategy_def strategy_def)

lemma fb_evaluated: "evaluate_one plain_text market (Some []) fb_strategy = Ok fb_chosen"
proof -
  have th: "strategy_threshold plain_text [] k n d = Ok d" for k n d
    by (simp add: strategy_threshold_def is_number_def pget_def)
  have disp: "displacement_rejection_reason plain_text fb_payload [] = Ok []"
    by (simp add: displacement_rejection_reason_def displacement_mode_def py_or_def pget_def py_lower_def low_char_def)
  have el: "is_eligible plain_text fb_strategy market = Ok (True, [])"
    by (simp add: is_eligible_def fb_strategy_def strategy_def dict_get_def py_or_def pget_def Let_def)
  have ta: "py_truthy (pget fb_payload ''trade_allowed'' PNone)" by (simp add: fb_payload_def pget_def)
  show ?thesis
    by (simp add: evaluate_one_def strategy_set_def session_filter_allows_def pget_def upper_set_def as_sequence_def el)
      (simp add: fb_strategy_fields fb_read judge_signal_def missing_parts_def th fb_chosen_def, simp add: ta disp default_min_score_def default_min_rr_def)
qed

lemma fb_selected:
  "selector_evaluate plain_text (te_definitions fb_tester) market (Some []) = Ok \<lparr>sl_selected = Some fb_chosen, sl_evaluations = [fb_chosen]\<rparr>"
  by (simp add: selector_evaluate_def fb_tester_def fb_evaluated best_of_def is_tradeable_def) (simp add: fb_chosen_def)

subsection \<open>The order\<close>

lemma fb_parse [simp]:
  "parse_time fb_clock (PStr ''A'') = Ok (Some (aware_utc 0))" "parse_time fb_clock (PStr ''B'') = Ok (Some (aware_utc 300000000))"
  "parse_time fb_clock (PStr ''C'') = Ok (Some (aware_utc 600000000))" "parse_time fb_clock (PStr ''F'') = Ok (Some (aware_utc 1500000000))"
  "parse_time fb_clock (PStr ''G'') = Ok (Some (aware_utc 1800000000))" "parse_time fb_clock (PDt (aware_utc w)) = Ok (Some (aware_utc w))"
  "parse_time fb_clock PNone = Ok None"
proof -
  have "replace_z (py_strip ''A'') = ''A''" "replace_z (py_strip ''B'') = ''B''" "replace_z (py_strip ''C'') = ''C''"
    "replace_z (py_strip ''F'') = ''F''" "replace_z (py_strip ''G'') = ''G''" by code_simp+
  then show "parse_time fb_clock (PStr ''A'') = Ok (Some (aware_utc 0))" "parse_time fb_clock (PStr ''B'') = Ok (Some (aware_utc 300000000))"
    "parse_time fb_clock (PStr ''C'') = Ok (Some (aware_utc 600000000))" "parse_time fb_clock (PStr ''F'') = Ok (Some (aware_utc 1500000000))"
    "parse_time fb_clock (PStr ''G'') = Ok (Some (aware_utc 1800000000))" "parse_time fb_clock (PDt (aware_utc w)) = Ok (Some (aware_utc w))"
    "parse_time fb_clock PNone = Ok None"
    by (simp_all add: parse_time_def fb_clock_def fb_slots_def assume_utc_def aware_utc_def)
qed

lemma fb_show [simp]:
  "ck_show fb_clock (aware_utc 300000000) = ''B''" "ck_show fb_clock (aware_utc 600000000) = ''C''"
  "ck_show fb_clock (aware_utc 1500000000) = ''F''" "ck_show fb_clock (aware_utc 1800000000) = ''G''"
  "ck_show fb_clock (naive 1500000000) = ''F''" "ck_show fb_clock (naive 1800000000) = ''G''"
  by (simp_all add: fb_clock_def fb_slots_def aware_utc_def naive_def)

lemma fb_times [simp]:
  "dt_add (aware_utc w) u = aware_utc (w + u)" "dt_instant (aware_utc w) = w" "dt_comparable (aware_utc v) (aware_utc w)"
  "dt_naive (aware_utc w) = naive w" "dt_add (naive w) u = naive (w + u)" "dt_instant (naive w) = w"
  by (simp_all add: dt_add_def aware_utc_def dt_instant_def dt_comparable_def dt_naive_def naive_def)

text \<open>The two times a decision is taken, and the expiry of the orders placed then.\<close>

definition fb_time :: "int \<Rightarrow> int \<Rightarrow> bool" where
  "fb_time w x \<longleftrightarrow> w = 300000000 \<and> x = 1500000000 \<or> w = 600000000 \<and> x = 1800000000"

definition fb_node :: "string \<Rightarrow> int \<Rightarrow> string \<Rightarrow> setup_node" where
  "fb_node sid w corr = \<lparr>sn_id = sid, sn_setup_type = FVG_CONTINUATION, sn_direction = BUY, sn_entry_price = Fin 2000, sn_stop_loss = Fin 1990,
     sn_take_profit = Fin 2030, sn_estimated_rr = Fin 3, sn_quality_tier = ELITE_INSTITUTIONAL, sn_confidence_score = Fin 95,
     sn_creation_time = naive w, sn_expiration_time = naive (w + 1200000000), sn_correlation_id = corr, sn_timeframe = ''1m''\<rparr>"

lemma fb_chosen_fields [simp]:
  "ev_definition fb_chosen = fb_strategy" "ev_signal fb_chosen = fb_payload" "ev_estimated_rr fb_chosen = Fin 3"
  "ev_direction fb_chosen = Some BUY" "is_tradeable fb_chosen"
  by (simp_all add: fb_chosen_def is_tradeable_def)

lemma fb_built: "build_setup_node plain_text fb_chosen sid (naive w) corr ''1m'' = Ok (fb_node sid w corr)"
  by (simp add: build_setup_node_def fb_node_def resolved_setup_type_def fb_strategy_fields)
    (simp add: fb_chosen_def quality_tier_def)

definition fb_rung :: rung where
  "fb_rung = \<lparr>rg_name = ''final_target'', rg_price = Fin 2030, rg_percent = Fin 1, rg_rr = Fin 3\<rparr>"

lemma fb_ladder: "target_ladder fb_clock (fb_node sid w corr) fb_chosen fb_config = Ok [fb_rung]"
proof -
  have "final_multiple fb_clock [(''milestones'', PList [PInt 3])] (Fin 3) (Fin 3) = Ok (Fin 3)"
  proof -
    have "py_lower ''strategy'' \<noteq> ''fixed_rr''" by code_simp
    then show ?thesis by (simp add: final_multiple_def)
  qed
  then show ?thesis
    by (simp add: target_ladder_def fb_config_def config_of_def py_or_def fb_node_def ladder_multiples_def max_of_def rungs_def rung_share_def
        normalize_close_percents_def py_sum_def float_or_none_def to_float_def fb_rung_def feval)
qed

lemma fb_limit: "intended_order_type fb_clock fb_payload = ''limit_order''"
proof -
  have w: "words_of fb_clock PNone = []" "words_of fb_clock (PStr []) = []" by (simp_all add: words_of_def py_or_def)
  have raw: "py_lower (py_join '' '' [[], [], [], [], []]) = ''    ''" by code_simp
  have none: "pget fb_payload ''order_type'' PNone = PNone" "pget fb_payload ''entry_type'' PNone = PNone" "pget fb_payload ''entry_mode'' PNone = PNone"
    "pget fb_payload ''entry'' PNone = PNone" "pget fb_payload ''entry_model'' PNone = PNone" by (simp_all add: fb_payload_def)
  have a: "has_sub ''market'' ''    '' = False" by code_simp
  have b: "has_sub ''close'' ''    '' = False" by code_simp
  have c: "has_sub ''confirmation'' ''    '' = False" by code_simp
  show ?thesis unfolding intended_order_type_def Let_def none list.map pyval.case w raw a b c by (simp only: simp_thms if_False)
qed

lemma fb_config_fields [simp]: "key \<noteq> ''target_ladder'' \<Longrightarrow> pget fb_config key x = x"
  by (simp add: fb_config_def)

lemma config_of_dict [simp]: "config_of (PDict d) = Ok d"
  by (simp add: config_of_def)

lemma fb_words: "bt_direction fb_clock (PStr ''BUY'') = Bullish" "read_order_type fb_clock (PStr ''limit_order'') = LimitOrder"
proof -
  have "py_lower (py_strip ''BUY'') = ''buy''" "py_lower (py_strip ''limit_order'') = ''limit_order''" by code_simp+
  then show "bt_direction fb_clock (PStr ''BUY'') = Bullish" "read_order_type fb_clock (PStr ''limit_order'') = LimitOrder"
    by (simp_all add: bt_direction_def read_order_type_def py_or_def)
qed

lemma pget_order_carried:
  assumes "key \<in> set carried_keys"
  shows "pget (order_output k r) key x = pget (bo_setup r) key x"
proof -
  have "pget (concat (map (\<lambda>c. case map_of (bo_setup r) c of None \<Rightarrow> [] | Some v \<Rightarrow> [(c, v)]) cs)) key x
      = (if key \<in> set cs then pget (bo_setup r) key x else x)" for cs
    by (induction cs) (auto simp: pget_append pget_def split: option.split)
  moreover have "list_all (\<lambda>c. \<forall>y. pget (order_fields k r) c y = y) carried_keys" by (simp add: order_fields_def carried_keys_def)
  then have "pget (order_fields k r) key y = y" for y using assms by (simp add: list_all_iff)
  ultimately show ?thesis using assms by (simp add: order_output_def pget_append)
qed

subsection \<open>The signal\<close>

lemma fb_node_fields [simp]:
  "sn_id (fb_node sid w corr) = sid" "sn_setup_type (fb_node sid w corr) = FVG_CONTINUATION" "sn_direction (fb_node sid w corr) = BUY"
  "sn_entry_price (fb_node sid w corr) = Fin 2000" "sn_stop_loss (fb_node sid w corr) = Fin 1990" "sn_take_profit (fb_node sid w corr) = Fin 2030"
  "sn_estimated_rr (fb_node sid w corr) = Fin 3" "sn_confidence_score (fb_node sid w corr) = Fin 95"
  "sn_expiration_time (fb_node sid w corr) = naive (w + 1200000000)"
  by (simp_all add: fb_node_def)

definition fb_context :: "pydict \<Rightarrow> pydict" where
  "fb_context session = signal_setup_context (fb_node [] 0 []) fb_chosen session"

definition fb_sig :: "string \<Rightarrow> int \<Rightarrow> int \<Rightarrow> pydict \<Rightarrow> pydict" where
  "fb_sig sid w x session =
     [(''order_id'', PStr sid), (''setup_id'', PStr sid), (''symbol'', PStr ''XAUUSD''), (''strategy'', PStr ''demo''),
      (''setup_type'', PStr (setup_type_value FVG_CONTINUATION)), (''direction'', PStr ''BUY''), (''order_type'', PStr ''limit_order''),
      (''entry_type'', PNone), (''signal_time'', PStr (ck_show fb_clock (aware_utc w))), (''valid_from_time'', PStr (ck_show fb_clock (aware_utc w))),
      (''expiry_time'', PStr (ck_show fb_clock (naive x))), (''entry_price'', PFloat (Fin 2000)), (''intended_entry_price'', PFloat (Fin 2000)),
      (''stop_loss'', PFloat (Fin 1990)), (''targets'', PList [rung_dict fb_rung]), (''target_1'', PNone), (''target_2'', PNone),
      (''final_target'', PFloat (Fin 2030)), (''estimated_rr'', PFloat (Fin 3)), (''confidence_score'', PFloat (Fin 95)),
      (''session_name'', pget (fb_context session) ''session_name'' PNone), (''killzone_name'', pget (fb_context session) ''killzone_name'' PNone),
      (''killzone_active'', pget (fb_context session) ''killzone_active'' PNone), (''spread_price'', PNone), (''slippage_price'', PNone),
      (''raw_rr'', PFloat (calculate_raw_rr ''BUY'' (Fin 2000) (Fin 1990) (Fin 2030))),
      (''estimated_post_cost_rr'', PFloat (calculate_post_cost_rr ''BUY'' (Fin 2000) (Fin 1990) (Fin 2030) (Fin 0) (Fin 0))),
      (''move_stop_to_be_after_target_1'', PBool True), (''move_stop_to_be_after_target_index'', PInt 1), (''breakeven_buffer_price'', PFloat (Fin 0)),
      (''breakeven_after_rr'', PNone), (''trade_allowed'', PBool True),
      (''components_detected'', PDict [(''strategy'', PStr ''demo''), (''raw'', pget (fb_context session) ''components'' PNone)]),
      (''setup_context'', PDict (fb_context session))]"

lemma fb_number [simp]: "to_float t (PFloat x) = Ok x" "py_or PNone v = v"
  by (simp_all add: to_float_def py_or_def)

lemma fb_signalled:
  assumes "pget market ''session_context'' (PDict []) = PDict session"
  shows "setup_to_market_signal fb_clock (fb_node sid w corr) fb_chosen (aware_utc w) ''XAUUSD'' fb_config market = Ok (fb_sig sid w (w + 1200000000) session)"
proof -
  have c: "signal_setup_context (fb_node sid w corr) fb_chosen session = fb_context session"
    by (simp add: fb_context_def signal_setup_context_def)
  have i: "to_int (ck_text fb_clock) (py_or (PInt 1) (PInt 0)) = Ok 1" by (simp add: to_int_def py_or_def)
  have e: "pget fb_payload ''entry_type'' PNone = PNone" "pget fb_payload ''entry_mode'' PNone = PNone" by (simp_all add: fb_payload_def)
  show ?thesis
    by (simp add: setup_to_market_signal_def fb_ladder assms c fb_limit e i fb_strategy_fields named_target_def fb_rung_def Let_def)
      (simp add: fb_sig_def fb_rung_def float_val_def)
qed


definition fb_order :: "string \<Rightarrow> int \<Rightarrow> int \<Rightarrow> pydict \<Rightarrow> bt_order" where
  "fb_order sid w x session = \<lparr>bo_id = sid, bo_symbol = ''XAUUSD'', bo_direction = Bullish, bo_type = LimitOrder, bo_signal_time = aware_utc w,
     bo_valid_from = aware_utc w, bo_entry = Fin 2000, bo_stop = Fin 1990,
     bo_targets = [\<lparr>tg_name = ''final_target'', tg_price = Fin 2030, tg_percent = Fin 1, tg_filled = False, tg_rest = mapping_of (rung_dict fb_rung)\<rparr>],
     bo_setup = dict_update (fb_sig sid w x session) (fb_context session), bo_expiry = Some (aware_utc x)\<rparr>"

lemma fb_order_fields [simp]:
  "bo_id (fb_order sid w x session) = sid" "bo_symbol (fb_order sid w x session) = ''XAUUSD''" "bo_direction (fb_order sid w x session) = Bullish"
  "bo_type (fb_order sid w x session) = LimitOrder" "bo_signal_time (fb_order sid w x session) = aware_utc w"
  "bo_valid_from (fb_order sid w x session) = aware_utc w" "bo_entry (fb_order sid w x session) = Fin 2000" "bo_stop (fb_order sid w x session) = Fin 1990"
  "bo_setup (fb_order sid w x session) = dict_update (fb_sig sid w x session) (fb_context session)"
  "bo_expiry (fb_order sid w x session) = Some (aware_utc x)"
  by (simp_all add: fb_order_def)

lemma fb_text_str [simp]: "to_str t (PStr s) = s" "py_or (PStr s) v = (if s = [] then v else PStr s)"
  by (simp_all add: to_str_def py_or_def)

lemma fb_target_read:
  "normalize_targets fb_clock (PList [rung_dict fb_rung]) = Ok (bo_targets (fb_order sid w x session))"
  by (simp add: normalize_targets_def rung_dict_def fb_rung_def read_target_def fb_order_def)

lemma fb_shown:
  assumes "fb_time w x"
  shows "parse_time fb_clock (PStr (ck_show fb_clock (aware_utc w))) = Ok (Some (aware_utc w))" "ck_show fb_clock (aware_utc w) \<noteq> []"
    "parse_time fb_clock (PStr (ck_show fb_clock (naive x))) = Ok (Some (aware_utc x))" "ck_show fb_clock (naive x) \<noteq> []"
  using assms by (auto simp: fb_time_def)

lemma fb_sig_reads:
  "pget (fb_sig sid w x session) ''signal_time'' PNone = PStr (ck_show fb_clock (aware_utc w))"
  "pget (fb_sig sid w x session) ''valid_from_time'' PNone = PStr (ck_show fb_clock (aware_utc w))"
  "pget (fb_sig sid w x session) ''expiry_time'' PNone = PStr (ck_show fb_clock (naive x))"
  "pget (fb_sig sid w x session) ''entry_price'' PNone = PFloat (Fin 2000)" "pget (fb_sig sid w x session) ''stop_loss'' PNone = PFloat (Fin 1990)"
  "pget (fb_sig sid w x session) ''targets'' PNone = PList [rung_dict fb_rung]" "pget (fb_sig sid w x session) ''order_id'' PNone = PStr sid"
  "pget (fb_sig sid w x session) ''strategy'' PNone = PStr ''demo''" "pget (fb_sig sid w x session) ''direction'' PNone = PStr ''BUY''"
  "pget (fb_sig sid w x session) ''symbol'' y = PStr ''XAUUSD''" "pget (fb_sig sid w x session) ''order_type'' y = PStr ''limit_order''"
  "pget (fb_sig sid w x session) ''setup_context'' PNone = PDict (fb_context session)"
  by (simp_all add: fb_sig_def)

lemma fb_placed:
  assumes "fb_time w x" "sid \<noteq> []"
  shows "place_pending_order fb_clock (fb_sig sid w x session) [(''order_type'', pget (fb_sig sid w x session) ''order_type'' PNone)]
    = Ok (order_output fb_clock (fb_order sid w x session))"
proof -
  let ?g = "fb_sig sid w x session"
  have ex: "order_expiry_time fb_clock ?g c s = Ok (Some (aware_utc x))" for c s
    by (simp add: order_expiry_time_def explicit_expiry_def fb_sig_reads fb_shown [OF assms(1)])
  have t: "py_or (py_or (PList [v]) u) y = PList [v]" for v u y by (simp add: py_or_def)
  have "normalize_order fb_clock ?g c = Ok (fb_order sid w x session)" for c
    by (simp add: normalize_order_def fb_sig_reads ex fb_shown [OF assms(1)] fb_words t fb_target_read [of sid w x session] assms(2)
      fb_order_def)
  then show ?thesis by (simp add: place_pending_order_def)
qed


subsection \<open>The fill\<close>

definition fb_candle :: "int \<Rightarrow> rat \<Rightarrow> rat \<Rightarrow> rat \<Rightarrow> candle_node" where
  "fb_candle w lo hi cl = \<lparr>cn_symbol = ''XAUUSD'', cn_timeframe = ''1m'', cn_start_time = aware_utc w, cn_end_time = aware_utc (w + 300000000),
     cn_open_p = Fin 2002, cn_high_p = Fin hi, cn_low_p = Fin lo, cn_close_p = Fin cl, cn_volume = 10, cn_ticks_count = 5, cn_is_closed = True,
     cn_sequence_id = 0, cn_trace_id = [], cn_correlation_id = [], cn_priority = NORMAL\<rparr>"

definition fb_row :: "session_context \<Rightarrow> pydict" where
  "fb_row session = session_row (fb_candle 300000000 1999 2005 2005) session"

lemma fb_row_fields [simp]:
  "pget (fb_row session) ''timestamp'' x = PDt (aware_utc 300000000)" "pget (fb_row session) ''close_time'' x = PDt (aware_utc 600000000)"
  "pget (fb_row session) ''is_closed'' x = PBool True" "pget (fb_row session) ''low'' x = PFloat (Fin 1999)"
  "pget (fb_row session) ''high'' x = PFloat (Fin 2005)" "pget (fb_row session) ''spread'' x = x" "pget (fb_row session) ''slippage'' x = x"
  by (simp_all add: fb_row_def session_row_def candle_to_backtest_row_def fb_candle_def)

abbreviation fb_pending1 :: "string \<Rightarrow> pydict \<Rightarrow> pydict" where
  "fb_pending1 sid session \<equiv> order_output fb_clock (fb_order sid 300000000 1500000000 session)"

lemma fb_carried_keys:
  "pget (rev (fb_context session)) ''intended_entry_price'' x = x" "pget (rev (fb_context session)) ''final_target'' x = x"
  "pget (rev (fb_context session)) ''spread_price'' x = x" "pget (rev (fb_context session)) ''slippage_price'' x = x"
  by (simp_all add: fb_context_def signal_setup_context_def)

lemma fb_carried [simp]:
  "pget (fb_pending1 sid session) ''intended_entry_price'' x = PFloat (Fin 2000)" "pget (fb_pending1 sid session) ''final_target'' x = PFloat (Fin 2030)"
  "pget (fb_pending1 sid session) ''spread_price'' x = PNone" "pget (fb_pending1 sid session) ''slippage_price'' x = PNone"
proof -
  have "pget (fb_sig sid 300000000 1500000000 session) ''intended_entry_price'' x = PFloat (Fin 2000)"
    "pget (fb_sig sid 300000000 1500000000 session) ''final_target'' x = PFloat (Fin 2030)"
    "pget (fb_sig sid 300000000 1500000000 session) ''spread_price'' x = PNone" "pget (fb_sig sid 300000000 1500000000 session) ''slippage_price'' x = PNone"
    by (simp_all add: fb_sig_def)
  then show "pget (fb_pending1 sid session) ''intended_entry_price'' x = PFloat (Fin 2000)" "pget (fb_pending1 sid session) ''final_target'' x = PFloat (Fin 2030)"
    "pget (fb_pending1 sid session) ''spread_price'' x = PNone" "pget (fb_pending1 sid session) ''slippage_price'' x = PNone"
    by (simp_all add: pget_order_carried carried_keys_def pget_dict_update fb_carried_keys)
qed

lemma fb_read_back:
  assumes "sid \<noteq> []"
  obtains r where "normalize_order fb_clock (fb_pending1 sid session) [] = Ok r" "order_core r = order_core (fb_order sid 300000000 1500000000 session)"
    "bo_expiry r = Some (aware_utc 1500000000)"
proof -
  have reads: "iso_reads fb_clock (aware_utc 300000000)" "iso_reads fb_clock (aware_utc 1500000000)" by (simp_all add: iso_reads_def)
  have t: "bo_targets (fb_order sid w x session) \<noteq> []" "\<forall>t\<in>set (bo_targets (fb_order sid w x session)). tg_name t \<noteq> []" for w x
    by (simp_all add: fb_order_def)
  show thesis
    using read_written_order [OF _ _ _ t read_written_expiry [OF reads(2), of "fb_order sid 300000000 1500000000 session"]] reads assms that by auto
qed

definition fb_fill :: "string \<Rightarrow> bt_fill" where
  "fb_fill sid = \<lparr>fl_order_id = sid, fl_filled = True, fl_price = Some (Fin 2000), fl_time = PStr ''C'', fl_reason = ''limit_touched_after_activation'',
     fl_ambiguous = False\<rparr>"

lemma fb_filled:
  assumes "sid \<noteq> []"
  shows "simulate_order_fill fb_clock (fb_pending1 sid session) (fb_row sx) [(''spread'', PFloat (Fin 0))] [(''slippage'', PFloat (Fin 0))] = Ok (fb_fill sid)"
proof (rule fb_read_back [OF assms, of session])
  fix r
  assume r: "normalize_order fb_clock (fb_pending1 sid session) [] = Ok r" "order_core r = order_core (fb_order sid 300000000 1500000000 session)"
    "bo_expiry r = Some (aware_utc 1500000000)"
  from r(2) have f: "bo_id r = sid" "bo_direction r = Bullish" "bo_type r = LimitOrder" "bo_valid_from r = aware_utc 300000000"
    "bo_entry r = Fin 2000" "bo_stop r = Fin 1990" by (simp_all add: order_core_def)
  have price: "apply_spread_slippage (Fin 2000) Bullish (Fin 0) (Fin 0) True = Fin 2000"
    by (simp add: apply_spread_slippage_def Let_def py_max_def feval)
  show ?thesis
    by (simp add: simulate_order_fill_def r(1,3) row_end_def py_or_def fill_blocked_def f cost_value_def try_fill_def
        low_high_def price stop_touched_def fill_result_def iso_val_def fb_fill_def)
qed


subsection \<open>The position\<close>

lemma fb_selector [simp]: "selector_of fb_config = Ok []" "management_of fb_config = Ok []" "minimum_rr_of fb_clock fb_config x = Ok x"
  by (simp_all add: selector_of_def dict_read_def management_of_def dict_copy_def minimum_rr_of_def)

lemma fb_number_none [simp]: "float_or k PNone y = Ok y" "float_or k (PFloat x) y = Ok (if x = Fin 0 then y else x)" "py_iter (PList xs) = Ok xs"
  by (simp_all add: float_or_def)

lemma fb_rr: "calculate_post_cost_rr ''BULLISH'' (Fin 2000) (Fin 1990) (Fin 2030) (Fin 0) (Fin 0) = Fin 3"
proof -
  have "py_upper ''BULLISH'' = ''BULLISH''" by code_simp
  then show ?thesis by (simp add: calculate_post_cost_rr_def reward_def trading_cost_def py_max_def feval)
qed

lemma fb_fill_fields [simp]: "fl_filled (fb_fill sid)" "fl_price (fb_fill sid) = Some (Fin 2000)" "fl_time (fb_fill sid) = PStr ''C''"
  by (simp_all add: fb_fill_def)

definition fb_target :: bt_target where
  "fb_target = \<lparr>tg_name = ''final_target'', tg_price = Fin 2030, tg_percent = Fin 1, tg_filled = False, tg_rest = mapping_of (rung_dict fb_rung)\<rparr>"

lemma fb_order_targets [simp]: "bo_targets (fb_order sid w x session) = [fb_target]"
  by (simp add: fb_order_def fb_target_def)

lemma fb_cleared: "post_cost_rr fb_clock (fb_pending1 sid session) (fb_fill sid) = Ok (Fin 3)"
proof -
  have "py_upper ''bullish'' = ''BULLISH''" by code_simp
  then show ?thesis by (simp add: post_cost_rr_def fb_rr)
qed

definition fb_unmanaged :: "pydict \<Rightarrow> bool" where
  "fb_unmanaged p \<longleftrightarrow> (\<forall>x. pget p ''direction'' x = PStr (bias_value Bullish) \<and> pget p ''entry_price'' x = PFloat (Fin 2000)
     \<and> pget p ''stop_loss'' x = PFloat (Fin 1990) \<and> pget p ''current_stop'' x = PFloat (Fin 1990) \<and> pget p ''targets'' x = PList [target_dict fb_target]
     \<and> pget p ''remaining_percent'' x = PFloat (Fin 1) \<and> pget p ''realized_R'' x = PFloat (Fin 0) \<and> pget p ''partials'' x = PList []
     \<and> pget p ''entry_time'' x = PStr ''C'')"

lemma fb_position_made:
  obtains p where "full_position_from_fill fb_clock (fb_pending1 sid session) (fb_fill sid) = Ok p" "fb_unmanaged p"
proof -
  have t: "all_dicts [target_dict fb_target] = Ok [target_dict fb_target]" by (simp add: target_dict_def)
  have o: "py_or (PFloat (Fin 2000)) v = PFloat (Fin 2000)" "py_or (PDict d) (PDict []) = PDict d" for v d
    by (auto simp: py_or_def)
  obtain p where p: "full_position_from_fill fb_clock (fb_pending1 sid session) (fb_fill sid) = Ok p"
    by (simp add: full_position_from_fill_def Let_def targets_from_order_def t o dict_read_def del: all_dicts.simps)
  then have "fb_unmanaged p"
    by (auto simp: full_position_from_fill_def Let_def targets_from_order_def t o rmap_Inr_iff fb_unmanaged_def float_val_def elim!: rbind_InrE simp del: all_dicts.simps)
  with p that show thesis by blast
qed


definition fb_held :: "pydict \<Rightarrow> bool" where
  "fb_held q \<longleftrightarrow> (\<forall>x. pget q ''direction'' x = PStr (bias_value Bullish) \<and> pget q ''entry_price'' x = PFloat (Fin 2000)
     \<and> pget q ''stop_loss'' x = PFloat (Fin 1990) \<and> pget q ''remaining_percent'' x = PFloat (Fin 1) \<and> pget q ''realized_R'' x = PFloat (Fin 0))"

lemma fb_managed:
  assumes "fb_unmanaged p"
  obtains m where "simulate_trade_management fb_clock (AList.update ''post_cost_rr'' (PFloat (Fin 3)) p) (fb_row sx) [] = Ok m" "mg_closed m = None"
    "fb_held (mg_position m)"
proof -
  let ?p = "AList.update ''post_cost_rr'' (PFloat (Fin 3)) p"
  from assms have p: "pget p ''direction'' x = PStr (bias_value Bullish)" "pget p ''entry_price'' x = PFloat (Fin 2000)"
    "pget p ''stop_loss'' x = PFloat (Fin 1990)" "pget p ''current_stop'' x = PFloat (Fin 1990)" "pget p ''targets'' x = PList [target_dict fb_target]"
    "pget p ''remaining_percent'' x = PFloat (Fin 1)" "pget p ''realized_R'' x = PFloat (Fin 0)" "pget p ''partials'' x = PList []"
    "pget p ''entry_time'' x = PStr ''C''" for x by (simp_all add: fb_unmanaged_def)
  have "\<forall>t\<in>set [fb_target]. tg_name t \<noteq> []" by (simp add: fb_target_def)
  from read_targets_back [OF this, of fb_clock 0] obtain t where
    t: "read_targets fb_clock 0 [target_dict fb_target] = Ok [t]" "target_core t = target_core fb_target" by auto
  have ts: "targets_from_position fb_clock ?p = Ok [t]"
    by (simp add: targets_from_position_def p normalize_targets_def t(1) del: read_targets.simps)
  have untimed: "time_exit_reason fb_clock ?p (fb_row sx) [] = Ok None"
    by (simp add: time_exit_reason_def p row_end_def py_or_def parse_hhmm_def over_limit_def Let_def)
  have "target_touched Bullish (tg_price t) (Some (Fin 1999, Fin 2005)) = False"
    using t(2) by (simp add: target_touched_def target_core_def fb_target_def)
  moreover have "stop_touched Bullish (Fin 1990) (Some (Fin 1999, Fin 2005)) = False" by (simp add: stop_touched_def)
  moreover have "fle (Fin 1) (lit (1 / 1000000000)) = False" "risk_per_unit Bullish (Fin 2000) (Fin 1990) = Fin 10" "py_round (Fin 0) 5 = Fin 0"
    by (simp_all add: risk_per_unit_def feval)
  moreover have "bt_direction fb_clock (PStr (bias_value Bullish)) = Bullish" by (rule direction_words)
  ultimately obtain m where "simulate_trade_management fb_clock ?p (fb_row sx) [] = Ok m" "mg_closed m = None" "fb_held (mg_position m)"
    using p by (simp add: simulate_trade_management_def ts untimed stop_or_targets_def low_high_def Let_def take_targets_def fb_held_def
        pget_dict_update py_max_def del: bias_value.simps)
  with that show thesis by blast
qed

lemma fb_entered:
  assumes "sid \<noteq> []"
  obtains q where "order_outcome fb_clock fb_tester fb_config (fb_row sx) (fb_pending1 sid session) = Ok (Entered q)" "fb_held q"
proof -
  obtain p where p: "full_position_from_fill fb_clock (fb_pending1 sid session) (fb_fill sid) = Ok p" "fb_unmanaged p" by (rule fb_position_made)
  obtain m where m: "simulate_trade_management fb_clock (AList.update ''post_cost_rr'' (PFloat (Fin 3)) p) (fb_row sx) [] = Ok m" "mg_closed m = None"
    "fb_held (mg_position m)" by (rule fb_managed [OF p(2)])
  have te: "te_spread fb_tester = Fin 0" "te_slippage fb_tester = Fin 0" "te_max_drift fb_tester = None" "te_max_fraction fb_tester = Fin 0"
    by (simp_all add: fb_tester_def)
  have r: "risk_to_cost_ratio (Fin 2000) (Fin 1990) (Fin 0) (Fin 0) = PInf" "py_round (Fin 3) 5 = Fin 3"
    by (simp_all add: risk_to_cost_ratio_def trading_cost_def py_max_def feval)
  have "enter_position fb_clock fb_config (fb_row sx) (fb_pending1 sid session) (fb_fill sid) (Fin 3) = Ok (Entered (mg_position m))"
    unfolding enter_position_def p(1) r(2) by (simp add: m(1,2))
  then have "judge_fill fb_clock fb_tester fb_config (fb_row sx) (fb_pending1 sid session) (fb_fill sid) = Ok (Entered (mg_position m))"
    by (simp add: judge_fill_def entry_drift_rejection_reason_def te fb_cleared r(1) Let_def)
  with m(3) that show thesis by (simp add: order_outcome_def te fb_filled [OF assms])
qed


subsection \<open>The context\<close>

lemma nearest_priced:
  assumes "\<forall>p\<in>set pools. \<exists>x. pget p ''price'' (PFloat price) = PFloat x"
  shows "\<exists>r. nearest_target k price pools swept = Ok r"
proof -
  have "\<exists>ks. res_map (\<lambda>p. rmap (\<lambda>x. (x, p)) (rmap (\<lambda>x. fabs (fsub x price)) (to_float (ck_text k) (pget p ''price'' (PFloat price))))) qs = Ok ks"
    if "set qs \<subseteq> set pools" for qs
    using that assms
  proof (induction qs)
    case (Cons q qs)
    then obtain x where "pget q ''price'' (PFloat price) = PFloat x" by auto
    with Cons show ?case by auto
  qed simp
  moreover have "set (butlast pools) \<subseteq> set pools" by (auto dest: in_set_butlastD)
  ultimately obtain ks ks' where "res_map (\<lambda>p. rmap (\<lambda>x. (x, p)) (rmap (\<lambda>x. fabs (fsub x price))
        (to_float (ck_text k) (pget p ''price'' (PFloat price))))) pools = Ok ks"
      "res_map (\<lambda>p. rmap (\<lambda>x. (x, p)) (rmap (\<lambda>x. fabs (fsub x price))
        (to_float (ck_text k) (pget p ''price'' (PFloat price))))) (butlast pools) = Ok ks'"
    by blast
  then show ?thesis by (simp add: nearest_target_def nearest_by_def)
qed

lemma context_session:
  "build_strategy_context k t s swept sx = Ok market \<Longrightarrow> \<exists>d. \<forall>x. pget market ''session_context'' x = PDict d"
  by (auto simp: build_strategy_context_def Let_def rmap_Inr_iff)

lemma context_built:
  assumes "fb_pools s = active_pools_snapshot le"
  obtains market d where "build_strategy_context k t s swept sx = Ok market" "\<forall>x. pget market ''session_context'' x = PDict d"
proof -
  have "\<forall>p\<in>set (fb_pools s @ map (\<lambda>(p, depth). pool_payload p depth) swept). \<exists>x. pget p ''price'' (PFloat price) = PFloat x" for price
    by (auto simp: assms active_pools_snapshot_def pool_snapshot_def pool_payload_def Let_def)
  from nearest_priced [OF this] obtain target where
    "nearest_target k (tick_mid t) (fb_pools s @ map (\<lambda>(p, depth). pool_payload p depth) swept) (map (\<lambda>(p, depth). pool_payload p depth) swept \<noteq> []) = Ok target"
    by blast
  then obtain market where "build_strategy_context k t s swept sx = Ok market" by (simp add: build_strategy_context_def Let_def)
  with context_session [OF this] that show thesis by blast
qed


subsection \<open>A decision\<close>

lemma fb_tester_fields:
  "te_warmup fb_tester = 1" "te_max_open fb_tester = 2" "te_cooldown fb_tester = 300000000" "te_harden fb_tester = False"
  "te_symbol fb_tester = ''XAUUSD''" "te_spread fb_tester = Fin 0" "te_slippage fb_tester = Fin 0"
  by (simp_all add: fb_tester_def)

abbreviation fb_key :: string where "fb_key \<equiv> cooldown_key fb_chosen"

lemma fb_untrapped: "early_trap_filter_rejection fb_clock g market fb_config = Ok (None, g)"
  by (simp add: early_trap_filter_rejection_def trap_config_def dict_read_def py_or_def)

lemma fb_queued:
  assumes "fb_time w (w + 1200000000)" "cn_end_time c = aware_utc w" "\<forall>x. pget market ''session_context'' x = PDict d"
    "length (fb_open s) + length (fb_pending s) < 2"
    "case map_of (en_cooldowns (fb_engines s)) fb_key of None \<Rightarrow> True | Some u \<Rightarrow> u = naive w"
  obtains sid s' where "take_selection fb_clock local fb_tester fb_config market i c fb_chosen s = Ok s'" "sid \<noteq> []" "fb_open s' = fb_open s"
    "fb_pending s' = fb_pending s @ [order_output fb_clock (fb_order sid w (w + 1200000000) d)]"
    "fb_signals s' = fb_signals s @ [fb_sig sid w (w + 1200000000) d]"
    "map_of (en_cooldowns (fb_engines s')) fb_key = Some (naive (w + 300000000))"
proof -
  obtain seconds where sec: "int_timestamp local (aware_utc w) = Ok seconds"
    using assms(1) by (auto simp: fb_time_def int_timestamp_def aware_utc_def dt_instant_def total_seconds_def feval)
  define sid where "sid = selection_id fb_chosen i seconds"
  have sid: "sid \<noteq> []" by (simp add: sid_def selection_id_def)
  let ?s = "s\<lparr>fb_engines := (fb_engines s)\<lparr>en_cooldowns := AList.update fb_key (naive (w + 300000000)) (en_cooldowns (fb_engines s))\<rparr>\<rparr>"
  have cool: "(case map_of (en_cooldowns (fb_engines s)) fb_key of None \<Rightarrow> Ok False | Some until \<Rightarrow> dt_lt (naive w) until) = Ok False"
    using assms(5) by (auto simp: dt_lt_def dt_comparable_def naive_def split: option.splits)
  obtain s' where s': "queue_signal fb_clock fb_chosen (fb_sig sid w (w + 1200000000) d) ?s = Ok s'"
    "fb_open s' = fb_open s" "fb_pending s' = fb_pending s @ [order_output fb_clock (fb_order sid w (w + 1200000000) d)]"
    "fb_signals s' = fb_signals s @ [fb_sig sid w (w + 1200000000) d]" "fb_engines s' = fb_engines ?s"
    by (simp add: queue_signal_def fb_placed [OF assms(1) sid])
  have "place_selection fb_clock local fb_tester fb_config market i c fb_chosen ?s = Ok s'"
    using s'(1) by (simp add: place_selection_def assms(2) sec fb_text_eq fb_built harden_setup_def fb_tester_fields fb_untrapped
        fb_signalled [OF spec [OF assms(3)]] flip: sid_def)
  then have "take_selection fb_clock local fb_tester fb_config market i c fb_chosen s = Ok s'"
    using assms(4) cool by (simp add: take_selection_def fb_tester_fields assms(2) Let_def)
  with that sid s' show thesis by (simp add: update_conv)
qed

lemma fb_decided:
  assumes "fb_time w (w + 1200000000)" "cn_end_time c = aware_utc w" "length (fb_open s) + length (fb_pending s) < 2"
    "case map_of (en_cooldowns (fb_engines s)) fb_key of None \<Rightarrow> True | Some u \<Rightarrow> u = naive w"
  obtains sid d s' where "decide fb_clock local fb_tester fb_config i c t sx s = Ok s'" "sid \<noteq> []" "fb_open s' = fb_open s"
    "fb_pending s' = fb_pending s @ [order_output fb_clock (fb_order sid w (w + 1200000000) d)]"
    "fb_signals s' = fb_signals s @ [fb_sig sid w (w + 1200000000) d]"
    "map_of (en_cooldowns (fb_engines s')) fb_key = Some (naive (w + 300000000))"
proof -
  obtain swept le where sw: "evaluate_tick_sweeps t (en_liquidity (fb_engines s)) = (swept, le)" by fastforce
  let ?s1 = "s\<lparr>fb_engines := (fb_engines s)\<lparr>en_liquidity := le\<rparr>, fb_pools := active_pools_snapshot le\<rparr>"
  have pools: "fb_pools ?s1 = active_pools_snapshot le" by simp
  obtain market d where market: "build_strategy_context fb_clock t ?s1 swept sx = Ok market" "\<forall>x. pget market ''session_context'' x = PDict d"
    using context_built [OF pools, of fb_clock t swept sx] by blast
  let ?s2 = "tally (record_strategy_evaluations [fb_chosen]) ?s1"
  have "length (fb_open ?s2) + length (fb_pending ?s2) < 2"
    "case map_of (en_cooldowns (fb_engines ?s2)) fb_key of None \<Rightarrow> True | Some u \<Rightarrow> u = naive w" using assms(3,4) by simp_all
  then obtain sid s' where q: "take_selection fb_clock local fb_tester fb_config market i c fb_chosen ?s2 = Ok s'" "sid \<noteq> []" "fb_open s' = fb_open ?s2"
    "fb_pending s' = fb_pending ?s2 @ [order_output fb_clock (fb_order sid w (w + 1200000000) d)]"
    "fb_signals s' = fb_signals ?s2 @ [fb_sig sid w (w + 1200000000) d]"
    "map_of (en_cooldowns (fb_engines s')) fb_key = Some (naive (w + 300000000))"
    by (rule fb_queued [OF assms(1,2) market(2)])
  have "decide fb_clock local fb_tester fb_config i c t sx s = Ok s'"
    using q(1) by (simp add: decide_def fb_tester_fields sw market(1) fb_text_eq fb_selected)
  then show thesis by (rule that) (use q(2-) in simp_all)
qed


subsection \<open>The run\<close>

definition fb_candles2 :: "candle_node list" where
  "fb_candles2 = [fb_candle 0 1998 2006 2002, fb_candle 300000000 1999 2005 2005]"

lemma fb_seen: "\<exists>t sx s1. see_candle local te [] i c s = Ok (t, sx, s1)"
proof -
  have adv: "\<exists>s'. advance_timeframe [] now tf s = Ok s'" for now tf s by (simp add: advance_timeframe_def candles_for_def)
  have "\<exists>s'. advance_higher_timeframes [] (cn_end_time c) s = Ok s'"
  proof -
    obtain a where a: "advance_timeframe [] (cn_end_time c) ''15m'' s = Ok a" using adv by blast
    obtain b where b: "advance_timeframe [] (cn_end_time c) ''1h'' a = Ok b" using adv by blast
    obtain d where "advance_timeframe [] (cn_end_time c) ''4h'' b = Ok d" using adv by blast
    with a b show ?thesis by (simp add: advance_higher_timeframes_def)
  qed
  then show ?thesis by (auto simp: see_candle_def Let_def split: prod.split)
qed

lemma fb_first:
  obtains sid d s' where "backtest_candle fb_clock local fb_tester [] fb_config 0 (fb_candle 0 1998 2006 2002) (fb_start new_engines) = Ok s'"
    "sid \<noteq> []" "fb_open s' = []" "fb_pending s' = [fb_pending1 sid d]" "fb_signals s' = [fb_sig sid 300000000 1500000000 d]"
    "map_of (en_cooldowns (fb_engines s')) fb_key = Some (naive 600000000)"
proof -
  let ?c = "fb_candle 0 1998 2006 2002"
  obtain t sx s1 where see: "see_candle local fb_tester [] 0 ?c (fb_start new_engines) = Ok (t, sx, s1)" using fb_seen by blast
  from see_candle_books [OF see] have b: "fb_open s1 = []" "fb_pending s1 = []" "fb_signals s1 = []" "en_cooldowns (fb_engines s1) = []"
    by (simp_all add: same_books_def fb_start_def new_engines_def)
  have manage: "manage_positions fb_clock fb_config (session_row ?c sx) s1 = Ok s1" using b(1) by (simp add: manage_positions_def)
  have fill: "fill_orders fb_clock fb_tester fb_config (session_row ?c sx) s1 = Ok s1" using b(2) by (simp add: fill_orders_def)
  have pre: "fb_time 300000000 (300000000 + 1200000000)" "cn_end_time ?c = aware_utc 300000000" "length (fb_open s1) + length (fb_pending s1) < 2"
    "case map_of (en_cooldowns (fb_engines s1)) fb_key of None \<Rightarrow> True | Some u \<Rightarrow> u = naive 300000000"
    by (simp_all add: fb_time_def fb_candle_def b)
  obtain sid d s' where d: "decide fb_clock local fb_tester fb_config 0 ?c t sx s1 = Ok s'" "sid \<noteq> []" "fb_open s' = fb_open s1"
    "fb_pending s' = fb_pending s1 @ [order_output fb_clock (fb_order sid 300000000 (300000000 + 1200000000) d)]"
    "fb_signals s' = fb_signals s1 @ [fb_sig sid 300000000 (300000000 + 1200000000) d]"
    "map_of (en_cooldowns (fb_engines s')) fb_key = Some (naive (300000000 + 300000000))"
    by (rule fb_decided [OF pre])
  have "backtest_candle fb_clock local fb_tester [] fb_config 0 ?c (fb_start new_engines) = Ok s'"
    by (simp add: backtest_candle_def see manage fill d(1) Let_def)
  then show thesis by (rule that) (use d(2-) b in simp_all)
qed

lemma fb_second:
  assumes "sid \<noteq> []" "fb_open s = []" "fb_pending s = [fb_pending1 sid d]" "fb_signals s = [fb_sig sid 300000000 1500000000 d]"
    "map_of (en_cooldowns (fb_engines s)) fb_key = Some (naive 600000000)"
  obtains q sid' d' s' where "backtest_candle fb_clock local fb_tester [] fb_config (Suc 0) (fb_candle 300000000 1999 2005 2005) s = Ok s'"
    "fb_held q" "fb_open s' = [q]" "length (fb_pending s') = 1"
    "fb_signals s' = [fb_sig sid 300000000 1500000000 d, fb_sig sid' 600000000 1800000000 d']"
proof -
  let ?c = "fb_candle 300000000 1999 2005 2005"
  obtain t sx s1 where see: "see_candle local fb_tester [] (Suc 0) ?c s = Ok (t, sx, s1)" using fb_seen by blast
  from see_candle_books [OF see] assms have b: "fb_open s1 = []" "fb_pending s1 = [fb_pending1 sid d]"
    "fb_signals s1 = [fb_sig sid 300000000 1500000000 d]" "map_of (en_cooldowns (fb_engines s1)) fb_key = Some (naive 600000000)"
    by (simp_all add: same_books_def)
  obtain q where q: "order_outcome fb_clock fb_tester fb_config (fb_row sx) (fb_pending1 sid d) = Ok (Entered q)" "fb_held q"
    by (rule fb_entered [OF assms(1)])
  have manage: "manage_positions fb_clock fb_config (session_row ?c sx) s1 = Ok s1" using b(1) by (simp add: manage_positions_def)
  let ?s2 = "s1\<lparr>fb_pending := [], fb_open := [q]\<rparr>"
  have fill: "fill_orders fb_clock fb_tester fb_config (session_row ?c sx) s1 = Ok ?s2"
    using q(1) by (simp add: fill_orders_def b apply_outcome_def fb_row_def)
  have pre: "fb_time 600000000 (600000000 + 1200000000)" "cn_end_time ?c = aware_utc 600000000" "length (fb_open ?s2) + length (fb_pending ?s2) < 2"
    "case map_of (en_cooldowns (fb_engines ?s2)) fb_key of None \<Rightarrow> True | Some u \<Rightarrow> u = naive 600000000"
    by (simp_all add: fb_time_def fb_candle_def b)
  obtain sid' d' s' where d: "decide fb_clock local fb_tester fb_config (Suc 0) ?c t sx ?s2 = Ok s'" "sid' \<noteq> []" "fb_open s' = fb_open ?s2"
    "fb_pending s' = fb_pending ?s2 @ [order_output fb_clock (fb_order sid' 600000000 (600000000 + 1200000000) d')]"
    "fb_signals s' = fb_signals ?s2 @ [fb_sig sid' 600000000 (600000000 + 1200000000) d']"
    by (rule fb_decided [OF pre])
  have "backtest_candle fb_clock local fb_tester [] fb_config (Suc 0) ?c s = Ok s'"
    by (simp add: backtest_candle_def see manage fill d(1) Let_def)
  then show thesis using q(2) by (rule that) (use d(2-) b in simp_all)
qed

lemma fb_run:
  obtains q sid d sid' d' s where "backtest_candles fb_clock local fb_tester [] fb_config 0 fb_candles2 (fb_start new_engines) = Ok s"
    "fb_held q" "fb_open s = [q]" "length (fb_pending s) = 1"
    "fb_signals s = [fb_sig sid 300000000 1500000000 d, fb_sig sid' 600000000 1800000000 d']"
proof (rule fb_first [of local])
  fix sid d s1
  assume s1: "backtest_candle fb_clock local fb_tester [] fb_config 0 (fb_candle 0 1998 2006 2002) (fb_start new_engines) = Ok s1"
    "sid \<noteq> []" "fb_open s1 = []" "fb_pending s1 = [fb_pending1 sid d]" "fb_signals s1 = [fb_sig sid 300000000 1500000000 d]"
    "map_of (en_cooldowns (fb_engines s1)) fb_key = Some (naive 600000000)"
  show thesis
  proof (rule fb_second [OF s1(2-), of local])
    fix q sid' d' s
    assume s: "backtest_candle fb_clock local fb_tester [] fb_config (Suc 0) (fb_candle 300000000 1999 2005 2005) s1 = Ok s" "fb_held q" "fb_open s = [q]"
      "length (fb_pending s) = 1" "fb_signals s = [fb_sig sid 300000000 1500000000 d, fb_sig sid' 600000000 1800000000 d']"
    have "backtest_candles fb_clock local fb_tester [] fb_config 0 fb_candles2 (fb_start new_engines) = Ok s"
      using s(1) by (simp add: fb_candles2_def s1(1))
    then show thesis using s(2-) by (rule that)
  qed
qed


subsection \<open>The laws at work on the run\<close>

lemma full_backtest_accounts_witness:
  "\<exists>s. backtest_candles fb_clock (\<lambda>_. 0) fb_tester [] fb_config 0 fb_candles2 (fb_start new_engines) = Ok s
     \<and> length (fb_trades s) + length (fb_open s) + length (fb_pending s) + length (fb_skipped s) + rc_rejected (fb_counts s) = 2"
proof (rule fb_run [of "\<lambda>_. 0"])
  fix s assume r: "backtest_candles fb_clock (\<lambda>_. 0) fb_tester [] fb_config 0 fb_candles2 (fb_start new_engines) = Ok s"
  show ?thesis using full_backtest_accounts [OF r] r by (simp add: fb_tester_fields fb_candles2_def)
qed

lemma concurrency_bounded_witness:
  "\<exists>s. backtest_candles fb_clock (\<lambda>_. 0) fb_tester [] fb_config 0 fb_candles2 (fb_start new_engines) = Ok s
     \<and> int (length (fb_open s) + length (fb_pending s)) \<le> 2 \<and> fb_open s \<noteq> [] \<and> fb_pending s \<noteq> []"
proof (rule fb_run [of "\<lambda>_. 0"])
  fix q s assume r: "backtest_candles fb_clock (\<lambda>_. 0) fb_tester [] fb_config 0 fb_candles2 (fb_start new_engines) = Ok s"
    "fb_open s = [q]" "length (fb_pending s) = 1"
  show ?thesis using concurrency_bounded [OF r(1)] r by (auto simp: fb_tester_fields)
qed

lemma signals_spaced_witness:
  "\<exists>s t u. backtest_candles fb_clock (\<lambda>_. 0) fb_tester [] fb_config 0 fb_candles2 (fb_start new_engines) = Ok s
     \<and> pget (fb_signals s ! 0) ''signal_time'' PNone = PStr (ck_show fb_clock t)
     \<and> pget (fb_signals s ! 1) ''signal_time'' PNone = PStr (ck_show fb_clock u) \<and> dt_wall t + 300000000 \<le> dt_wall u"
proof (rule fb_run [of "\<lambda>_. 0"])
  fix s sid d sid' d' assume r: "backtest_candles fb_clock (\<lambda>_. 0) fb_tester [] fb_config 0 fb_candles2 (fb_start new_engines) = Ok s"
    "fb_signals s = [fb_sig sid 300000000 1500000000 d, fb_sig sid' 600000000 1800000000 d']"
  show ?thesis using signals_spaced [OF r(1), of 0 1] r by (auto simp: fb_tester_fields fb_sig_reads)
qed

lemma costs_cleared_witness:
  "\<exists>s q v. backtest_candles fb_clock (\<lambda>_. 0) fb_tester [] fb_config 0 fb_candles2 (fb_start new_engines) = Ok s
     \<and> fb_open s = [q] \<and> pget q ''post_cost_rr'' PNone = PFloat v \<and> fle (py_round (Fin (3/2)) 5) v"
proof (rule fb_run [of "\<lambda>_. 0"])
  fix q s assume r: "backtest_candles fb_clock (\<lambda>_. 0) fb_tester [] fb_config 0 fb_candles2 (fb_start new_engines) = Ok s" "fb_open s = [q]"
  have "minimum_rr_of fb_clock fb_config (Fin (3/2)) = Ok (Fin (3/2))" "Fin (3/2) \<noteq> NaN" "q \<in> set (fb_open s) \<union> set (fb_trades s)"
    using r(2) by simp_all
  from costs_cleared [OF r(1) this] r show ?thesis by blast
qed

lemma marked_as_a_sale_witness:
  "\<exists>s q t. backtest_candles fb_clock (\<lambda>_. 0) fb_tester [] fb_config 0 fb_candles2 (fb_start new_engines) = Ok s \<and> fb_open s = [q]
     \<and> pget q ''direction'' PNone = PStr ''bullish'' \<and> pget q ''entry_price'' PNone = PFloat (Fin 2000)
     \<and> close_position_at_end fb_clock q (candle_to_backtest_row (last fb_candles2)) = Ok t \<and> cn_close_p (last fb_candles2) = Fin 2005
     \<and> (\<exists>x. pget t ''realized_R'' PNone = PFloat x \<and> flt x (Fin 0))"
proof (rule fb_run [of "\<lambda>_. 0"])
  fix q s assume r: "backtest_candles fb_clock (\<lambda>_. 0) fb_tester [] fb_config 0 fb_candles2 (fb_start new_engines) = Ok s" "fb_open s = [q]" "fb_held q"
  have m: "minimum_rr_of fb_clock fb_config (Fin (3/2)) = Ok (Fin (3/2))" "Fin (3/2) \<noteq> NaN" "q \<in> set (fb_open s)" using r(2) by simp_all
  from r(3) have q: "pget q ''direction'' x = PStr ''bullish''" "pget q ''entry_price'' x = PFloat (Fin 2000)"
    "pget q ''stop_loss'' x = PFloat (Fin 1990)" "pget q ''remaining_percent'' x = PFloat (Fin 1)" "pget q ''realized_R'' x = PFloat (Fin 0)" for x
    by (simp_all add: fb_held_def)
  have cl: "pget (candle_to_backtest_row (last fb_candles2)) ''close'' x = PFloat (Fin 2005)" for x
    by (simp add: candle_to_backtest_row_def fb_candles2_def fb_candle_def)
  obtain t where t: "close_position_at_end fb_clock q (candle_to_backtest_row (last fb_candles2)) = Ok t"
    by (simp add: close_position_at_end_def q cl Let_def feval)
  have "cn_close_p (last fb_candles2) = Fin 2005" by (simp add: fb_candles2_def fb_candle_def)
  with marked_as_a_sale [OF r(1) m t] have "\<exists>x. pget t ''realized_R'' PNone = PFloat x \<and> flt x (Fin 0)"
    by (auto simp: q feval)
  with r t q \<open>cn_close_p (last fb_candles2) = Fin 2005\<close> show ?thesis by blast
qed

lemma no_lookahead_witness:
  "\<exists>s. backtest_candles fb_clock (\<lambda>_. 0) fb_tester [] fb_config 0 fb_candles2 (fb_start new_engines) = Ok s
     \<and> (\<forall>c\<in>set (candles_for (fb_candles s) ''1m''). dt_instant (cn_end_time c) \<le> 600000000)"
proof (rule fb_run [of "\<lambda>_. 0"])
  fix s assume r: "backtest_candles fb_clock (\<lambda>_. 0) fb_tester [] fb_config 0 fb_candles2 (fb_start new_engines) = Ok s"
  have o: "sorted (map (dt_instant \<circ> cn_end_time) fb_candles2)" "fb_candles2 \<noteq> []" "dt_instant (cn_end_time (last fb_candles2)) = 600000000"
    by (simp_all add: fb_candles2_def fb_candle_def)
  show ?thesis using no_lookahead [OF r o(1,2)] r unfolding o(3) by blast
qed


definition fb_source :: "candle_node list" where
  "fb_source = [fb_candle 0 1998 2006 2002, fb_candle 300000000 1999 2010 2005, fb_candle 900000000 2001 2008 2003]"

lemma fb_stamps:
  "int_timestamp (\<lambda>_. 0) (aware_utc 0) = Ok 0" "int_timestamp (\<lambda>_. 0) (aware_utc 300000000) = Ok 300"
  "int_timestamp (\<lambda>_. 0) (aware_utc 900000000) = Ok 900"
  by (simp_all add: int_timestamp_def total_seconds_def feval) (simp_all add: aware_utc_def)

lemma fb_derived: "\<exists>ds. aggregate_timeframe (\<lambda>_. 0) ''XAUUSD'' ''15m'' 15 fb_source = Ok ds"
proof -
  have t: "cn_start_time (fb_candle w lo hi cl) = aware_utc w" for w lo hi cl by (simp add: fb_candle_def)
  have "grouped (\<lambda>_. 0) 15 fb_source = Ok [(0, [fb_candle 0 1998 2006 2002, fb_candle 300000000 1999 2010 2005]), (1, [fb_candle 900000000 2001 2008 2003])]"
    by (simp add: grouped_def fb_source_def bucket_of_def t fb_stamps group_into_def)
  then show ?thesis by (simp add: aggregate_timeframe_def sort_by_def sort_times_def t)
qed

text \<open>Three source candles in two quarters of an hour: the first derived candle merges the two of its period.\<close>

lemma derived_candles_cover_witness:
  "\<exists>ds periods n. aggregate_timeframe (\<lambda>_. 0) ''XAUUSD'' ''15m'' 15 fb_source = Ok ds \<and> n < length ds \<and> periods ! n = 0
     \<and> cn_volume (ds ! n) = 20 \<and> cn_ticks_count (ds ! n) = 10
     \<and> rows_of_period (\<lambda>_. 0) 15 (periods ! n) fb_source = [fb_candle 0 1998 2006 2002, fb_candle 300000000 1999 2010 2005]"
proof -
  obtain ds where ds: "aggregate_timeframe (\<lambda>_. 0) ''XAUUSD'' ''15m'' 15 fb_source = Ok ds" using fb_derived by blast
  from derived_candles_cover [OF ds] obtain periods where p: "length periods = length ds"
    "\<forall>c\<in>set fb_source. \<exists>s. int_timestamp (\<lambda>_. 0) (cn_start_time c) = Ok s \<and> s div (15 * 60) \<in> set periods"
    and m: "\<forall>n<length ds. cn_volume (ds ! n) = sum_list (map cn_volume (rows_of_period (\<lambda>_. 0) 15 (periods ! n) fb_source))
      \<and> cn_ticks_count (ds ! n) = sum_list (map cn_ticks_count (rows_of_period (\<lambda>_. 0) 15 (periods ! n) fb_source))"
    unfolding Let_def by blast
  have t: "cn_start_time (fb_candle w lo hi cl) = aware_utc w" for w lo hi cl by (simp add: fb_candle_def)
  have "fb_candle 0 1998 2006 2002 \<in> set fb_source" by (simp add: fb_source_def)
  with p(2) have "0 \<in> set periods" by (fastforce simp: t fb_stamps)
  then obtain n where n: "n < length ds" "periods ! n = 0" unfolding in_set_conv_nth p(1) by blast
  have rows: "rows_of_period (\<lambda>_. 0) 15 0 fb_source = [fb_candle 0 1998 2006 2002, fb_candle 300000000 1999 2010 2005]"
    by (simp add: rows_of_period_def fb_source_def t fb_stamps)
  have "cn_volume (fb_candle w lo hi cl) = 10" "cn_ticks_count (fb_candle w lo hi cl) = 5" for w lo hi cl by (simp_all add: fb_candle_def)
  with m n rows ds show ?thesis by (intro exI [of _ ds] exI [of _ periods] exI [of _ n]) simp
qed


subsection \<open>The gate and the window\<close>

definition fb_profile :: pydict where
  "fb_profile = [(''deployment_gate'', PDict [(''enforce'', PBool True), (''minimum_completed_trades'', PInt 1)]), (''minimum_rr'', PFloat (Fin 3)),
     (''session_filters'', PDict [(''require_killzone'', PBool True), (''disabled_sessions'', PList [PStr ''Asia''])]),
     (''management'', PDict [(''max_hold_minutes'', PFloat (Fin 240))])]"

definition fb_done :: "pyfloat \<Rightarrow> pydict" where
  "fb_done rr = [(''trade_id'', PStr ''T1''), (''post_cost_rr'', PFloat rr), (''killzone_active'', PBool True), (''session_name'', PStr ''London''),
     (''duration_min'', PFloat (Fin 30))]"

definition fb_gate :: deployment_gate where
  "fb_gate = \<lparr>dg_minimum_rr = Fin 3, dg_killzones = [], dg_sessions = [''asia''], dg_require_killzone = True, dg_max_hold = Some (Fin 240),
     dg_tolerance = Fin 1, dg_minimum_completed = 1, dg_require_rr = True, dg_require_metadata = False\<rparr>"

lemma fb_gate_read:
  "config_of (pget fb_profile ''deployment_gate'' (PDict [])) = Ok [(''enforce'', PBool True), (''minimum_completed_trades'', PInt 1)]"
  "gate_enforced [(''enforce'', PBool True), (''minimum_completed_trades'', PInt 1)] fb_profile"
  "gate_of fb_clock [(''enforce'', PBool True), (''minimum_completed_trades'', PInt 1)] fb_profile = Ok fb_gate"
proof -
  have "py_lower ''Asia'' = ''asia''" by code_simp
  then show "config_of (pget fb_profile ''deployment_gate'' (PDict [])) = Ok [(''enforce'', PBool True), (''minimum_completed_trades'', PInt 1)]"
    "gate_enforced [(''enforce'', PBool True), (''minimum_completed_trades'', PInt 1)] fb_profile"
    "gate_of fb_clock [(''enforce'', PBool True), (''minimum_completed_trades'', PInt 1)] fb_profile = Ok fb_gate"
    by (simp_all add: fb_profile_def gate_enforced_def gate_of_def Let_def py_or_def lowered_def dict_read_def fb_gate_def)
qed

lemma fb_deployable: "deployable fb_clock fb_gate (fb_done rr) \<longleftrightarrow> \<not> flt rr (Fin 3)"
proof -
  have "py_lower ''London'' = ''london''" by code_simp
  then show ?thesis by (simp add: deployable_def fb_gate_def fb_done_def lowered_def feval)
qed

lemma gate_passes_iff_witness:
  "deployment_gate_errors fb_clock [fb_done (Fin 3)] fb_profile = Ok [] \<and> deployment_gate_errors fb_clock [fb_done (Fin 2)] fb_profile \<noteq> Ok []
     \<and> deployment_gate_errors fb_clock [] fb_profile \<noteq> Ok []"
  using gate_passes_iff [OF fb_gate_read] by (simp add: fb_deployable) (simp add: fb_gate_def)

definition fb_labels :: run_labels where
  "fb_labels = \<lparr>rl_id = ''BT_1'', rl_profile = PNone, rl_commit = PNone, rl_branch = PNone, rl_min_rr = PNone, rl_min_score = PNone,
     rl_selector_hash = ''h'', rl_profile_hash = ''h''\<rparr>"

lemma marks_leave_window_witness:
  "\<exists>s q t t' u. backtest_candles fb_clock (\<lambda>_. 0) fb_tester [] fb_config 0 fb_candles2 (fb_start new_engines) = Ok s \<and> fb_open s = [q]
     \<and> close_position_at_end fb_clock q (candle_to_backtest_row (last fb_candles2)) = Ok t \<and> record_trade fb_clock t = Ok t'
     \<and> annotate_trade fb_clock fb_labels t' = Ok u \<and> keeps_trade fb_clock (Some (aware_utc 0)) None u = Ok False"
proof (rule fb_run [of "\<lambda>_. 0"])
  fix q s assume r: "backtest_candles fb_clock (\<lambda>_. 0) fb_tester [] fb_config 0 fb_candles2 (fb_start new_engines) = Ok s" "fb_open s = [q]" "fb_held q"
  from r(3) have q: "pget q ''direction'' x = PStr ''bullish''" "pget q ''entry_price'' x = PFloat (Fin 2000)"
    "pget q ''stop_loss'' x = PFloat (Fin 1990)" "pget q ''remaining_percent'' x = PFloat (Fin 1)" "pget q ''realized_R'' x = PFloat (Fin 0)" for x
    by (simp_all add: fb_held_def)
  have cl: "pget (candle_to_backtest_row (last fb_candles2)) ''close'' x = PFloat (Fin 2005)" for x
    by (simp add: candle_to_backtest_row_def fb_candles2_def fb_candle_def)
  obtain t x where t: "close_position_at_end fb_clock q (candle_to_backtest_row (last fb_candles2)) = Ok t" "pget t ''realized_R'' (PFloat (Fin 0)) = PFloat x"
    "pget t ''confidence_score'' PNone = PNone" "pget t ''score'' PNone = PNone" "pget t ''setup_score'' PNone = PNone"
    by (simp add: close_position_at_end_def q cl Let_def feval)
  then obtain t' where t': "record_trade fb_clock t = Ok t'" "pget t' ''confidence_score'' PNone = PNone" "pget t' ''score'' PNone = PNone"
    "pget t' ''setup_score'' PNone = PNone"
    by (simp add: record_trade_def pget_set_default)
  then obtain u where u: "annotate_trade fb_clock fb_labels t' = Ok u"
    by (simp add: annotate_trade_def calibrated_score_def Let_def pget_set_default)
  show ?thesis using marks_leave_window [OF t(1) t'(1) u] r t(1) t'(1) u by blast
qed

end
