(* ===== verification/Spec2Isabelle.thy ===== *)
theory Spec2Isabelle
  imports EventBus RiskEngine StopHardening Scoring Confirmation CandleStructure Liquidity SessionRegime Replay Mt5Gateway SetupFlow ReportVerify Telemetry Feed SweepMssFvgDemo SwingPoints IctBacktestDemo FullBacktestDemo
begin

text \<open>
  A model of the trading engine under \<open>src/\<close>: ticks enter an event bus, analytics turn them into
  candles, structure, liquidity pools and a session; the setup pipeline runs the strategy selector
  on that context; a selected setup is confirmed, scored, checked against the account's limits and
  the broker's quote, and routed as an order, whose position is then trailed. The same pieces run
  against a simulator fed from history.

  \<^bold>\<open>How the code is modelled.\<close> A class is a record of its attributes, a method a function of that
  record. A method that raises returns \<open>'a res\<close> (\<open>Raise e\<close> or \<open>Ok x\<close>); one that raises after changing its
  object is a computation \<open>'s \<Rightarrow> 'a res \<times> 's\<close>. Coroutines run on one thread and are modelled as the calls they make, in
  order; where the interleaving of tasks matters (the bus) the tasks' steps are explicit. Logging is left out. The clock
  (\<open>utcnow\<close>), the local offset of naive datetimes, text conversions (\<open>str\<close>, \<open>float\<close> of text, \<open>isoformat\<close>), hashes and the
  third-party libraries (MetaTrader5, numpy) are arguments. A function's result is compared with the code's at the types
  the code annotates.

  \<^bold>\<open>Python.\<close> \<open>PyFloat\<close>: IEEE binary64 values (exact rationals, infinities, NaN), correctly rounded operations,
  comparisons, \<open>min\<close>/\<open>max\<close>, \<open>round\<close>, and the decimal literals of the source. \<open>PyDecimal\<close>: \<open>Decimal\<close> of a float's shortest
  text. \<open>PyBase\<close>: exceptions, computations, dicts in insertion order, bounded deques, datetimes. \<open>PyVal\<close>: values of
  \<open>Dict[str, Any]\<close> payloads. \<open>PyLiterals\<close>: the rounding of the literals.

  \<^bold>\<open>Components.\<close>
  \<^item> \<open>DomainModels\<close>: \<open>core/domain\<close>, the enums and dataclasses.
  \<^item> \<open>StateManager\<close>: \<open>strategy/state_manager.py\<close>, \<open>core/state\<close>. Commits, journal, revert, snapshots. Every reachable
    state is valid; a snapshot reads back; a revert undoes a commit.
  \<^item> \<open>EventBus\<close>: \<open>core/events/event_bus.py\<close>, \<open>core/lifecycle_manager.py\<close>. The priority queue with its waiting putters and
    the drain. What is published is delivered sorted by priority, first come first served, once to each handler.
  \<^item> \<open>OrderRouting\<close>: \<open>execution/execution_router.py\<close>, \<open>order_lifecycle.py\<close>, \<open>slippage_protection.py\<close>. The queue, the
    idempotency keys, the ledger. Locale \<open>broker_port\<close> states what the router needs of a broker; it is interpreted on the simulator
    and on the MetaTrader gateway.
  \<^item> \<open>RiskEngine\<close>: \<open>execution/rr_math.py\<close>, \<open>position_sizer.py\<close>, \<open>risk_firewall.py\<close>, \<open>drawdown_protection.py\<close>. Reward after cost,
    lot sizes, the gate.
  \<^item> \<open>TradeProtection\<close>: \<open>execution/pre_submission_guard.py\<close>, \<open>position_tracker.py\<close>. Quote activity, the guard before submission, the plan
    store, the trailing stop.
  \<^item> \<open>StopHardening\<close>: \<open>execution/stop_loss_engine.py\<close>. \<open>Scoring\<close>: \<open>strategy/scoring_matrix.py\<close> and its parts. \<open>Confirmation\<close>:
    \<open>strategy/confirmation_core.py\<close> and its validators.
  \<^item> \<open>CandleStructure\<close>: \<open>analytics/candle_builder.py\<close>, \<open>structure_engine.py\<close>. \<open>Liquidity\<close>: \<open>analytics/liquidity_engine.py\<close>.
    \<open>SessionRegime\<close>: \<open>analytics/session_engine.py\<close>, \<open>regime_detection.py\<close>.
  \<^item> \<open>Selector\<close>: \<open>strategy/ict_smc_strategy_selector.py\<close>. Gates, ranking, and the setup built from the winner.
  \<^item> \<open>SetupFlow\<close>: \<open>strategy/setup_detector.py\<close>, \<open>selector_profile.py\<close>, \<open>setup_lifecycle.py\<close>, \<open>setup_quality.py\<close> and the two detectors.
    The pipeline that drives the engines above.
  \<^item> \<open>Backtest\<close>: \<open>backtesting/backtest_config.py\<close>, \<open>fill_engine.py\<close>, \<open>backtest/simulator_interface.py\<close>. \<open>Replay\<close>: the schedulers and
    the loop of \<open>backtest/replay_engine.py\<close>, a step at a time beside the bus, other publishers and the controls, suspended while the
    bus's queue is full. Rows are published once and in order of time; beside a dispatcher two turns per row and one more end the loop.
  \<^item> \<open>Mt5Gateway\<close>: \<open>infrastructure/broker/mt5_gateway.py\<close>, \<open>mt5_config.py\<close>, over an arbitrary MetaTrader API. A session in dry run
    does not depend on \<open>order_send\<close>; a deal keeps the volume limits.
  \<^item> \<open>Feed\<close>: \<open>infrastructure/feed/validation.py\<close>, \<open>websocket_handler.py\<close>, \<open>shared/\<close>. The tick validator, the session loop
    over the frames received, its queue, and the simulated clock.
  \<^item> \<open>Telemetry\<close>: \<open>infrastructure/telemetry/runtime_event_log.py\<close>, \<open>telegram_reporting.py\<close>, \<open>monitoring_metrics.py\<close>. The event log
    as the list of its entries, masking of secrets, splitting of messages, the observer.
  \<^item> \<open>ReportMetrics\<close>, \<open>ReportVerify\<close>: \<open>reports/\<close>. Metrics, time and candle mapping, the checks of the rows, the review rows,
    the narrative with its retries, the delivery policy.

  \<^item> \<open>PyStats\<close>, \<open>StrategyBase\<close>: stable sorting, means, and the reading of candles the strategies share. \<open>SweepMssFvg\<close>:
    \<open>strategy/ict_smc_strategies/sweep_mss_fvg_entry.py\<close>. The sequence sweep, displacement, structure shift, gap, return is a machine
    that the search refines; a signal has the reward it promises. \<open>SweepMssFvgDemo\<close> runs it on candles and shows a stop beyond its entry.
  \<^item> \<open>SwingPoints\<close>: \<open>analytics/ict_smc/swing_points.py\<close>. Swings are local extrema; with candles numbered by position and two
    right-hand candles all but the last keep their form when candles arrive. With one, the penalty for choppy ranges looks ahead.
  \<^item> \<open>MtfClock\<close>: the preparation and slicing of candles in \<open>analytics/ict_smc/multitimeframe_engine.py\<close>. No slice holds a
    candle that was still open.
  \<^item> \<open>IctBacktest\<close>: \<open>backtest/ict_smc_backtest.py\<close>. Orders, fills, targets and stops of a position, and the replay of a candle as
    a function of (open positions, pending orders, logs, signals left). \<open>IctBacktestLaws\<close>: every signal of a run is accounted for, a fill is on a
    closed candle that ends after the activation and no better than asked, the stop comes first, positions keep their types. \<open>IctReport\<close>: metrics, the warnings of
    the deployment gate, \<open>run_backtest\<close>. \<open>IctBacktestDemo\<close>: one run on concrete candles.
  \<^item> \<open>CandleLoading\<close>, \<open>FullBacktest\<close>, \<open>BacktestGate\<close>: \<open>scripts/run_ict_smc_backtest.py\<close>. Candles from CSV rows and terminal rates, and
    higher timeframes derived from them; \<open>FullSystemICTSMCBacktester.run\<close>, which joins the session, structure and liquidity engines, the
    selector, the stop hardener and the fills of \<open>IctBacktest\<close> in one state, a candle at a time; the profile overrides, the window of entry
    times, the deployment gate and the exit code of \<open>main\<close>. \<open>FullBacktestLaws\<close>: every decision ends in one place, positions are bounded,
    signals of one kind are a cooldown apart, entries have cleared the costs, nothing is seen before it has closed; each derived candle
    is the merge of the source candles of its period.
    \<open>FullBacktestDemo\<close>: a run of two candles that enters a position, on which those theorems are applied.

  \<^bold>\<open>Not modelled.\<close> The database layer, the HTTP API, the reading and rendering of report files and the Telegram client
  are I/O around external libraries. The scripts other than the full backtest are command lines over the components above; of the full backtest, the parsing of its
  arguments, the session with the terminal, the git calls and the output files are left out. The years a
  datetime may take are unbounded and text is ASCII. Eleven of the strategies of \<open>strategy/ict_smc_strategies\<close> are arguments of the
  selector, whose theorems hold for any generator; of the pattern library \<open>analytics/ict_smc\<close>, which the live runner
  does not call, only the swing points and the clock of the backtest are modelled. \<open>backtest/optimization_matrix.py\<close>
  names a type that is not defined and cannot be imported.
\<close>

end
